(* ===== verification/Prelude.thy ===== *)
theory Prelude
  imports Main "HOL-Library.Multiset" "HOL-Library.List_Lexorder" "HOL-Library.Char_ord"
begin

section \<open>Shared types, Go primitives and generic lemmas\<close>

text \<open>
  What every component of the development uses: points in time and durations as
  integers of nanoseconds, with Go's saturating \<^verbatim>\<open>time.Time.Sub\<close>; decimal
  rendering as \<^verbatim>\<open>fmt\<close>'s \<^verbatim>\<open>%d\<close>; the functions of package \<^verbatim>\<open>strings\<close> the sources
  call; a stable sort for \<^verbatim>\<open>sort.SliceStable\<close> with its laws proved once in the locale
  of strict weak orders; and the locale of step relations with an invariant, in
  which "every reachable state satisfies the invariant" is proved once.
\<close>

named_theorems state_defs \<open>definitions of invariants, unfolded by the proofs that need them\<close>

subsection \<open>Time\<close>

type_synonym time = int
type_synonym duration = int

abbreviation Second :: duration where "Second \<equiv> 1000000000"
abbreviation Minute :: duration where "Minute \<equiv> 60 * Second"
abbreviation Hour :: duration where "Hour \<equiv> 60 * Minute"

text \<open>
  A Go \<^verbatim>\<open>time.Duration\<close> is an int64; \<^verbatim>\<open>Sub\<close> saturates at its ends instead of wrapping.
\<close>

definition min_duration :: duration where "min_duration = - (2 ^ 63)"
definition max_duration :: duration where "max_duration = 2 ^ 63 - 1"

definition time_Sub :: "time \<Rightarrow> time \<Rightarrow> duration" where
  "time_Sub t u = max min_duration (min max_duration (t - u))"

text \<open>The zero \<^verbatim>\<open>time.Time\<close> is January 1 of the year 1, here relative to the Unix epoch.\<close>

definition zero_time :: time where "zero_time = - 62135596800 * Second"

definition IsZero :: "time option \<Rightarrow> bool" where
  "IsZero t = (case t of None \<Rightarrow> True | Some u \<Rightarrow> u = zero_time)"

lemma time_Sub_ge:
  assumes "u + d \<le> t" and "d \<le> max_duration"
  shows "d \<le> time_Sub t u"
  using assms by (simp add: time_Sub_def)

lemma time_Sub_ge_iff:
  assumes "min_duration < d" and "d \<le> max_duration"
  shows "d \<le> time_Sub t u \<longleftrightarrow> u + d \<le> t"
  using assms by (auto simp: time_Sub_def min_def max_def)

lemma time_Sub_range: "min_duration \<le> time_Sub t u \<and> time_Sub t u \<le> max_duration"
  by (simp add: time_Sub_def min_duration_def max_duration_def)

lemma time_Sub_exact:
  assumes "min_duration \<le> t - u" and "t - u \<le> max_duration"
  shows "time_Sub t u = t - u"
  using assms by (simp add: time_Sub_def)

subsection \<open>Strings\<close>

text \<open>Decimal rendering of a number, as \<^verbatim>\<open>%d\<close> does it.\<close>

definition digit_char :: "nat \<Rightarrow> char" where
  "digit_char d = char_of (48 + d)"

fun decimal :: "nat \<Rightarrow> string" where
  "decimal n = (if n < 10 then [digit_char n] else decimal (n div 10) @ [digit_char (n mod 10)])"

declare decimal.simps [simp del]

definition decimal_int :: "int \<Rightarrow> string" where
  "decimal_int i = (if i < 0 then CHR ''-'' # decimal (nat (- i)) else decimal (nat i))"

text \<open>The substring test \<^verbatim>\<open>strings.Contains\<close>.\<close>

fun HasPrefix :: "string \<Rightarrow> string \<Rightarrow> bool" where
  "HasPrefix s [] = True"
| "HasPrefix [] (p # ps) = False"
| "HasPrefix (c # s) (p # ps) = (c = p \<and> HasPrefix s ps)"

fun Contains :: "string \<Rightarrow> string \<Rightarrow> bool" where
  "Contains [] sub = (sub = [])"
| "Contains (c # s) sub = (HasPrefix (c # s) sub \<or> Contains s sub)"

lemma HasPrefix_iff: "HasPrefix s p \<longleftrightarrow> (\<exists>r. s = p @ r)"
  by (induction s p rule: HasPrefix.induct) auto

lemma Contains_iff: "Contains s sub \<longleftrightarrow> (\<exists>l r. s = l @ sub @ r)"
proof (induction s)
  case Nil
  then show ?case by simp
next
  case (Cons c s)
  have "(\<exists>l r. c # s = l @ sub @ r) \<longleftrightarrow> (\<exists>r. c # s = sub @ r) \<or> (\<exists>l r. s = l @ sub @ r)"
    by (metis append_Cons append_Nil list.exhaust list.inject)
  with Cons.IH show ?case by (simp add: HasPrefix_iff del: HasPrefix.simps)
qed

subsection \<open>Stable sorting\<close>

text \<open>
  \<^verbatim>\<open>sort.SliceStable\<close> with a comparison \<open>lt\<close>: the elements in an order in which no later
  one is less than an earlier one, equal elements in their original order.
  For a strict weak order this determines the result, which insertion computes.
\<close>

fun insert_stable :: "('a \<Rightarrow> 'a \<Rightarrow> bool) \<Rightarrow> 'a \<Rightarrow> 'a list \<Rightarrow> 'a list" where
  "insert_stable lt x [] = [x]"
| "insert_stable lt x (y # ys) = (if lt y x then y # insert_stable lt x ys else x # y # ys)"

definition SliceStable :: "('a \<Rightarrow> 'a \<Rightarrow> bool) \<Rightarrow> 'a list \<Rightarrow> 'a list" where
  "SliceStable lt xs = foldr (insert_stable lt) xs []"

lemma mset_insert_stable [simp]: "mset (insert_stable lt x xs) = add_mset x (mset xs)"
  by (induction xs) auto

lemma mset_SliceStable [simp]: "mset (SliceStable lt xs) = mset xs"
  unfolding SliceStable_def by (induction xs) auto

lemma set_insert_stable [simp]: "set (insert_stable lt x xs) = insert x (set xs)"
  using mset_insert_stable [of lt x xs] by (metis set_mset_add_mset_insert set_mset_mset)

lemma set_SliceStable [simp]: "set (SliceStable lt xs) = set xs"
  using mset_SliceStable [of lt xs] by (metis set_mset_mset)

lemma length_SliceStable [simp]: "length (SliceStable lt xs) = length xs"
  using mset_SliceStable [of lt xs] by (metis size_mset)

lemma distinct_SliceStable [simp]: "distinct (map f (SliceStable lt xs)) = distinct (map f xs)"
proof -
  have "mset (map f (SliceStable lt xs)) = mset (map f xs)" by simp
  then show ?thesis by (rule mset_eq_imp_distinct_iff)
qed

text \<open>The contract of a comparison function passed to a sort.\<close>

locale strict_weak_order =
  fixes lt :: "'a \<Rightarrow> 'a \<Rightarrow> bool"
  assumes lt_irrefl: "\<not> lt x x"
    and lt_trans: "lt x y \<Longrightarrow> lt y z \<Longrightarrow> lt x z"
    and lt_incomp: "\<not> lt x y \<Longrightarrow> \<not> lt y z \<Longrightarrow> \<not> lt x z"
begin

lemma lt_asym: "lt x y \<Longrightarrow> \<not> lt y x"
  using lt_irrefl lt_trans by blast

lemma sorted_insert_stable:
  "sorted_wrt (\<lambda>a b. \<not> lt b a) xs \<Longrightarrow> sorted_wrt (\<lambda>a b. \<not> lt b a) (insert_stable lt x xs)"
proof (induction xs)
  case Nil
  then show ?case by simp
next
  case (Cons y ys)
  show ?case
  proof (cases "lt y x")
    case True
    with Cons have "sorted_wrt (\<lambda>a b. \<not> lt b a) (insert_stable lt x ys)" by simp
    with Cons.prems True lt_asym [OF True] show ?thesis by auto
  next
    case False
    have "\<not> lt z x" if "z \<in> set ys" for z
      using that False Cons.prems lt_incomp [of z y x] by auto
    with False Cons.prems show ?thesis by auto
  qed
qed

lemma sorted_SliceStable: "sorted_wrt (\<lambda>a b. \<not> lt b a) (SliceStable lt xs)"
  unfolding SliceStable_def by (induction xs) (auto intro: sorted_insert_stable)

text \<open>Elements the comparison cannot tell apart from \<open>x\<close> keep their relative order.\<close>

lemma filter_insert_stable:
  "filter (\<lambda>a. \<not> lt a x \<and> \<not> lt x a) (insert_stable lt y ys) =
   filter (\<lambda>a. \<not> lt a x \<and> \<not> lt x a) (y # ys)"
proof (induction ys)
  case Nil
  then show ?case by simp
next
  case (Cons z zs)
  show ?case
  proof (cases "lt z y \<and> \<not> lt z x \<and> \<not> lt x z \<and> \<not> lt y x \<and> \<not> lt x y")
    case True
    then show ?thesis using lt_incomp by blast
  next
    case False
    with Cons.IH show ?thesis by auto
  qed
qed

lemma SliceStable_stable:
  "filter (\<lambda>a. \<not> lt a x \<and> \<not> lt x a) (SliceStable lt xs) =
   filter (\<lambda>a. \<not> lt a x \<and> \<not> lt x a) xs"
proof (induction xs)
  case Nil
  then show ?case by (simp add: SliceStable_def)
next
  case (Cons y ys)
  have "filter (\<lambda>a. \<not> lt a x \<and> \<not> lt x a) (SliceStable lt (y # ys)) =
        filter (\<lambda>a. \<not> lt a x \<and> \<not> lt x a) (y # SliceStable lt ys)"
    using filter_insert_stable by (simp add: SliceStable_def)
  with Cons.IH show ?case by simp
qed

text \<open>A prefix of a sorted list holds nothing that the rest should have preceded.\<close>

lemma take_SliceStable_best:
  assumes "a \<in> set (take n (SliceStable lt xs))" and "b \<in> set (drop n (SliceStable lt xs))"
  shows "\<not> lt b a"
proof -
  have "sorted_wrt (\<lambda>a b. \<not> lt b a) (take n (SliceStable lt xs) @ drop n (SliceStable lt xs))"
    using sorted_SliceStable by simp
  with assms show ?thesis by (simp only: sorted_wrt_append) blast
qed

end

subsection \<open>State machines\<close>

text \<open>
  A machine with an initial predicate and a step relation, and a predicate on its
  states that holds at the start and that every step keeps.
\<close>

inductive reachable :: "('s \<Rightarrow> bool) \<Rightarrow> ('s \<Rightarrow> 's \<Rightarrow> bool) \<Rightarrow> 's \<Rightarrow> bool"
  for init :: "'s \<Rightarrow> bool" and step :: "'s \<Rightarrow> 's \<Rightarrow> bool" where
  reach_init: "init s \<Longrightarrow> reachable init step s"
| reach_step: "reachable init step s \<Longrightarrow> step s t \<Longrightarrow> reachable init step t"

inductive_simps rtranclp_step_simps: "r\<^sup>*\<^sup>* s t"

locale invariant_machine =
  fixes init :: "'s \<Rightarrow> bool" and step :: "'s \<Rightarrow> 's \<Rightarrow> bool" and inv :: "'s \<Rightarrow> bool"
  assumes inv_init: "init s \<Longrightarrow> inv s"
    and inv_step: "inv s \<Longrightarrow> step s t \<Longrightarrow> inv t"
begin

lemma inv_reachable: "reachable init step s \<Longrightarrow> inv s"
  by (induction rule: reachable.induct) (auto intro: inv_init inv_step)

lemma inv_steps: "step\<^sup>*\<^sup>* s t \<Longrightarrow> inv s \<Longrightarrow> inv t"
  by (induction rule: rtranclp_induct) (auto intro: inv_step)

end

subsection \<open>Lists\<close>

lemma drop_length_diff: "n \<le> length xs \<Longrightarrow> length (drop (length xs - n) xs) = n"
  by simp

lemma map_eq_replicate: "(\<And>x. x \<in> set xs \<Longrightarrow> f x = c) \<Longrightarrow> length xs = n \<Longrightarrow> map f xs = replicate n c"
  by (induction xs arbitrary: n) auto

lemma find_map_of: "(\<And>x. P x \<longleftrightarrow> f x = k) \<Longrightarrow> find P xs = map_of (map (\<lambda>x. (f x, x)) xs) k"
  by (induction xs) auto

lemma find_None_iff_image: "find (\<lambda>x. f x = k) xs = None \<longleftrightarrow> k \<notin> f ` set xs"
  by (auto simp: find_None_iff)

lemma find_SomeD: "find P xs = Some x \<Longrightarrow> x \<in> set xs \<and> P x"
  by (induction xs) (auto split: if_splits)

end
