(* ===== verification/Api_Types.thy ===== *)
theory Api_Types
  imports Prelude "HOL-Library.Word"
begin

section \<open>The custom resource types of the Kubernetes operator\<close>

text \<open>
  The data of \<^verbatim>\<open>src/operator/api/v1alpha1/sandboxenvironment_types.go\<close>: phases, the
  environment's spec and status and the records nested in them, field by field.
  A pointer field is an option, a string-backed enum a datatype with one constructor
  per declared constant (plus the empty string, the Go zero value, and any other
  string where the code can meet one), an int32 counter that the code increments a
  32-bit word, other integers \<open>int\<close>.
  The Kubernetes types the status embeds (a condition, a pod phase, the object
  metadata) are third-party; only the fields this program reads are kept.
\<close>

subsection \<open>Phases\<close>

datatype Phase =
    PhaseUnset
  | PhasePending
  | PhaseReady
  | PhaseRunning
  | PhaseFreezing
  | PhaseWaiting
  | PhaseRestoring
  | PhaseDone
  | PhaseFailed
  | PhaseOther string

definition AllPhases :: "Phase list" where
  "AllPhases = [PhasePending, PhaseReady, PhaseRunning, PhaseFreezing, PhaseWaiting,
     PhaseRestoring, PhaseDone, PhaseFailed]"

definition FinalizerArchiveOnDelete :: string where
  "FinalizerArchiveOnDelete = ''sandbox.psenna.dev/environment-archiver''"

text \<open>The conversion \<^verbatim>\<open>int32(n)\<close> of a Go integer, which wraps.\<close>

definition int32 :: "int \<Rightarrow> int" where
  "int32 n = (n + 2 ^ 31) mod 2 ^ 32 - 2 ^ 31"

lemma int32_id: "- (2 ^ 31) \<le> n \<Longrightarrow> n < 2 ^ 31 \<Longrightarrow> int32 n = n"
  by (simp add: int32_def)

subsection \<open>Kubernetes types\<close>

datatype ConditionStatus = ConditionTrue | ConditionFalse | ConditionUnknown

record Condition =
  c_Type :: string
  c_Status :: ConditionStatus
  c_Reason :: string
  c_Message :: string
  c_ObservedGeneration :: int
  c_LastTransitionTime :: time

datatype PodPhase = PodPhaseNone | PodPending | PodRunning | PodSucceeded | PodFailed | PodUnknown

record ObjectMeta =
  Name :: string
  Namespace :: string
  UID :: string
  ResourceVersion :: string
  Generation :: int
  CreationTimestamp :: time
  DeletionTimestamp :: "time option"
  Finalizers :: "string list"

subsection \<open>Spec\<close>

record ClassRef =
  cr_Name :: string

record IssueRef =
  ir_Repo :: string
  ir_Number :: int

record TaskSpec =
  ts_Prompt :: string
  ts_IssueRef :: "IssueRef option"

record SandboxEnvironmentSpec =
  sp_ClassRef :: ClassRef
  sp_Repo :: string
  sp_Task :: TaskSpec
  sp_Priority :: int
  sp_Suspend :: bool

subsection \<open>Status\<close>

record SlotStatus =
  Granted :: bool
  GrantedAt :: "time option"
  LeaseName :: string

record WaitForStatus =
  wf_Type :: string
  wf_Reason :: string
  wf_DeclaredAt :: "time option"
  wf_Params :: "string \<rightharpoonup> string"

definition WaitTypeGitProxyCheck :: string where "WaitTypeGitProxyCheck = ''GitProxyCheck''"
definition WaitTypeHTTPGet :: string where "WaitTypeHTTPGet = ''HTTPGet''"
definition WaitTypeS3ObjectExists :: string where "WaitTypeS3ObjectExists = ''S3ObjectExists''"
definition WaitTypeNotBefore :: string where "WaitTypeNotBefore = ''NotBefore''"

datatype ProbeAttemptPhase = ProbeAttemptPending | ProbeAttemptSatisfied | ProbeAttemptFailed

record ProbeAttemptStatus =
  pa_Type :: string
  pa_Attempts :: int
  pa_ConsecutiveErrors :: int
  pa_Phase :: ProbeAttemptPhase
  pa_LastResult :: string
  pa_Reason :: string
  pa_Message :: string
  pa_LastAttemptAt :: "time option"
  pa_NextEligibleAt :: "time option"

datatype AgentOutcome = AgentOutcomeSucceeded | AgentOutcomeFailed

record AgentResultStatus =
  ar_Outcome :: AgentOutcome
  ar_Message :: string
  ar_ExitCode :: "int option"
  ar_ReportedAt :: "time option"

record SnapshotStatus =
  sn_Seq :: int
  sn_URI :: string
  sn_SizeBytes :: int
  sn_SHA256 :: string
  sn_TakenAt :: "time option"
  sn_DurationMillis :: int

datatype SnapshotAttemptPhase =
  SnapshotAttemptInProgress | SnapshotAttemptSucceeded | SnapshotAttemptFailed

record SnapshotAttemptStatus =
  sa_Seq :: int
  sa_Phase :: SnapshotAttemptPhase
  sa_Attempts :: int
  sa_Reason :: string
  sa_Message :: string
  sa_StartedAt :: "time option"
  sa_UpdatedAt :: "time option"

datatype RestoreAttemptPhase =
  RestoreAttemptInProgress | RestoreAttemptSucceeded | RestoreAttemptFailed

record RestoredRootStatus =
  rr_Name :: string
  rr_Source :: string
  rr_WarmMissReason :: string
  rr_BytesDownloaded :: int

record RestoreAttemptStatus =
  ra_Seq :: int
  ra_SnapshotID :: string
  ra_Phase :: RestoreAttemptPhase
  ra_Roots :: "RestoredRootStatus list"
  ra_Attempts :: int
  ra_DurationMillis :: int
  ra_Reason :: string
  ra_Message :: string
  ra_StartedAt :: "time option"
  ra_UpdatedAt :: "time option"

definition MaxPhaseHistoryEntries :: nat where "MaxPhaseHistoryEntries = 64"

record PhaseTransition =
  pt_Phase :: Phase
  pt_At :: time
  pt_Reason :: string

record ArchiveStatus =
  av_URI :: string
  av_FinishedAt :: "time option"
  av_ContextPresent :: bool
  av_RunJSONSHA256 :: string

record PullRequestRef =
  pr_Repo :: string
  pr_Number :: int

record GitStateStatus =
  gs_Branch :: string
  gs_HeadSHA :: string
  gs_PullRequest :: "PullRequestRef option"

record SandboxEnvironmentStatus =
  st_Phase :: Phase
  st_Conditions :: "Condition list"
  st_Slot :: SlotStatus
  st_WaitFor :: "WaitForStatus option"
  st_ProbeAttempt :: "ProbeAttemptStatus option"
  st_AgentResult :: "AgentResultStatus option"
  st_Snapshot :: "SnapshotStatus option"
  st_SnapshotAttempt :: "SnapshotAttemptStatus option"
  st_RestoreAttempt :: "RestoreAttemptStatus option"
  st_QueuedSince :: "time option"
  st_StartedAt :: "time option"
  st_FinishedAt :: "time option"
  st_FreezeCount :: "32 word"
  st_WakeCount :: "32 word"
  st_ArchiveURI :: string
  st_Archive :: "ArchiveStatus option"
  st_TerminalPhase :: Phase
  st_PhaseHistory :: "PhaseTransition list"
  st_GitState :: "GitStateStatus option"
  st_ObservedGeneration :: int

record SandboxEnvironment = ObjectMeta +
  Spec :: SandboxEnvironmentSpec
  Status :: SandboxEnvironmentStatus

record TimeoutsSpec =
  tm_Running :: string
  tm_Waiting :: string
  tm_Total :: string

subsection \<open>Zero values\<close>

text \<open>What Go stores in a field nobody has written, used by \<open>Apply\<close> and by the witnesses.\<close>

definition no_slot :: SlotStatus where
  "no_slot = \<lparr>Granted = False, GrantedAt = None, LeaseName = []\<rparr>"

definition zero_status :: SandboxEnvironmentStatus where
  "zero_status = \<lparr>st_Phase = PhaseUnset, st_Conditions = [], st_Slot = no_slot,
     st_WaitFor = None, st_ProbeAttempt = None, st_AgentResult = None, st_Snapshot = None,
     st_SnapshotAttempt = None, st_RestoreAttempt = None, st_QueuedSince = None,
     st_StartedAt = None, st_FinishedAt = None, st_FreezeCount = 0, st_WakeCount = 0,
     st_ArchiveURI = [], st_Archive = None, st_TerminalPhase = PhaseUnset,
     st_PhaseHistory = [], st_GitState = None, st_ObservedGeneration = 0\<rparr>"

definition zero_env :: SandboxEnvironment where
  "zero_env = \<lparr>Name = [], Namespace = [], UID = [], ResourceVersion = [], Generation = 0,
     CreationTimestamp = 0, DeletionTimestamp = None, Finalizers = [],
     Spec = \<lparr>sp_ClassRef = \<lparr>cr_Name = []\<rparr>, sp_Repo = [],
       sp_Task = \<lparr>ts_Prompt = [], ts_IssueRef = None\<rparr>, sp_Priority = 0, sp_Suspend = False\<rparr>,
     Status = zero_status\<rparr>"

end
