(* ===== verification/Conditions.thy ===== *)
theory Conditions
  imports Api_Types
begin

section \<open>Conditions and reasons\<close>

text \<open>
  \<^verbatim>\<open>src/operator/internal/lifecycle/conditions.go\<close>: the six condition types in their
  emission order, every reason string a condition can carry, the two allowlists
  for externally supplied reasons and \<open>SanitizeReason\<close>.

  Conditions are stored with \<^verbatim>\<open>k8s.io/apimachinery\<close>'s \<^verbatim>\<open>meta.SetStatusCondition\<close> and
  \<^verbatim>\<open>meta.FindStatusCondition\<close> and stamped with \<^verbatim>\<open>metav1.Time.Rfc3339Copy\<close>. That code is not
  part of this repository, so it is a parameter: the record \<open>meta_lib\<close>, with the
  documented behaviour of its functions as the locale \<open>status_conditions\<close>. The
  locale is interpreted on list functions that follow the documentation.
\<close>

subsection \<open>Condition types\<close>

definition ConditionScheduled :: string where "ConditionScheduled = ''Scheduled''"
definition ConditionPodReady :: string where "ConditionPodReady = ''PodReady''"
definition ConditionFrozen :: string where "ConditionFrozen = ''Frozen''"
definition ConditionWaitSatisfied :: string where "ConditionWaitSatisfied = ''WaitSatisfied''"
definition ConditionArchived :: string where "ConditionArchived = ''Archived''"
definition ConditionReady :: string where "ConditionReady = ''Ready''"

definition ConditionTypes :: "string list" where
  "ConditionTypes = [ConditionScheduled, ConditionPodReady, ConditionFrozen,
     ConditionWaitSatisfied, ConditionArchived, ConditionReady]"

lemmas condition_type_defs = ConditionScheduled_def
  ConditionPodReady_def
  ConditionFrozen_def
  ConditionWaitSatisfied_def
  ConditionArchived_def
  ConditionReady_def

subsection \<open>Reasons\<close>

definition ReasonSlotGranted :: string where "ReasonSlotGranted = ''SlotGranted''"
definition ReasonQueued :: string where "ReasonQueued = ''Queued''"
definition ReasonResourcesNotReady :: string where "ReasonResourcesNotReady = ''ResourcesNotReady''"
definition ReasonSuspended :: string where "ReasonSuspended = ''Suspended''"
definition ReasonWaiting :: string where "ReasonWaiting = ''Waiting''"
definition ReasonTerminal :: string where "ReasonTerminal = ''Terminal''"
definition ReasonPodRunning :: string where "ReasonPodRunning = ''PodRunning''"
definition ReasonPodPending :: string where "ReasonPodPending = ''PodPending''"
definition ReasonPodNotCreated :: string where "ReasonPodNotCreated = ''PodNotCreated''"
definition ReasonPodDeleted :: string where "ReasonPodDeleted = ''PodDeleted''"
definition ReasonPodNotObserved :: string where "ReasonPodNotObserved = ''PodNotObserved''"
definition ReasonPodSucceeded :: string where "ReasonPodSucceeded = ''PodSucceeded''"
definition ReasonPodFailed :: string where "ReasonPodFailed = ''PodFailed''"
definition ReasonImagePullFailure :: string where "ReasonImagePullFailure = ''ImagePullFailure''"
definition ReasonUnschedulable :: string where "ReasonUnschedulable = ''Unschedulable''"
definition ReasonRestoreVerificationFailed :: string where "ReasonRestoreVerificationFailed = ''RestoreVerificationFailed''"
definition ReasonWaitDeclared :: string where "ReasonWaitDeclared = ''WaitDeclared''"
definition ReasonSnapshotInProgress :: string where "ReasonSnapshotInProgress = ''SnapshotInProgress''"
definition ReasonPodTerminating :: string where "ReasonPodTerminating = ''PodTerminating''"
definition ReasonSnapshotFailed :: string where "ReasonSnapshotFailed = ''SnapshotFailed''"
definition ReasonNotFrozen :: string where "ReasonNotFrozen = ''NotFrozen''"
definition ReasonProbeSatisfied :: string where "ReasonProbeSatisfied = ''ProbeSatisfied''"
definition ReasonProbePending :: string where "ReasonProbePending = ''ProbePending''"
definition ReasonProbeNotEvaluated :: string where "ReasonProbeNotEvaluated = ''ProbeNotEvaluated''"
definition ReasonNoWaitDeclared :: string where "ReasonNoWaitDeclared = ''NoWaitDeclared''"
definition ReasonProbeFailed :: string where "ReasonProbeFailed = ''ProbeFailed''"
definition ReasonArchiveWritten :: string where "ReasonArchiveWritten = ''ArchiveWritten''"
definition ReasonArchivePending :: string where "ReasonArchivePending = ''ArchivePending''"
definition ReasonNotTerminal :: string where "ReasonNotTerminal = ''NotTerminal''"
definition ReasonPending :: string where "ReasonPending = ''Pending''"
definition ReasonRestoring :: string where "ReasonRestoring = ''Restoring''"
definition ReasonRunning :: string where "ReasonRunning = ''Running''"
definition ReasonFreezing :: string where "ReasonFreezing = ''Freezing''"
definition ReasonSucceeded :: string where "ReasonSucceeded = ''Succeeded''"
definition ReasonClassNotResolved :: string where "ReasonClassNotResolved = ''ClassNotResolved''"
definition ReasonAgentReportedSuccess :: string where "ReasonAgentReportedSuccess = ''AgentReportedSuccess''"
definition ReasonAgentReportedFailure :: string where "ReasonAgentReportedFailure = ''AgentReportedFailure''"
definition ReasonRunningTimeoutExceeded :: string where "ReasonRunningTimeoutExceeded = ''RunningTimeoutExceeded''"
definition ReasonWaitingTimeoutExceeded :: string where "ReasonWaitingTimeoutExceeded = ''WaitingTimeoutExceeded''"
definition ReasonTotalTimeoutExceeded :: string where "ReasonTotalTimeoutExceeded = ''TotalTimeoutExceeded''"

definition PodFailureReasons :: "string list" where
  "PodFailureReasons = [ReasonPodFailed, ReasonImagePullFailure, ReasonUnschedulable,
     ReasonRestoreVerificationFailed]"

definition StepFailureReasons :: "string list" where
  "StepFailureReasons = [ReasonSnapshotFailed, ReasonProbeFailed]"

definition AllReasons :: "string list" where
  "AllReasons = [ReasonSlotGranted, ReasonQueued, ReasonResourcesNotReady,
     ReasonSuspended, ReasonWaiting, ReasonTerminal,
     ReasonPodRunning, ReasonPodPending, ReasonPodNotCreated,
     ReasonPodDeleted, ReasonPodNotObserved, ReasonPodSucceeded,
     ReasonPodFailed, ReasonImagePullFailure, ReasonUnschedulable,
     ReasonRestoreVerificationFailed, ReasonWaitDeclared, ReasonSnapshotInProgress,
     ReasonPodTerminating, ReasonSnapshotFailed, ReasonNotFrozen,
     ReasonProbeSatisfied, ReasonProbePending, ReasonProbeNotEvaluated,
     ReasonNoWaitDeclared, ReasonProbeFailed, ReasonArchiveWritten,
     ReasonArchivePending, ReasonNotTerminal, ReasonPending,
     ReasonRestoring, ReasonRunning, ReasonFreezing,
     ReasonSucceeded, ReasonClassNotResolved, ReasonAgentReportedSuccess,
     ReasonAgentReportedFailure, ReasonRunningTimeoutExceeded, ReasonWaitingTimeoutExceeded,
     ReasonTotalTimeoutExceeded]"

fun SanitizeReason :: "string \<Rightarrow> string list \<Rightarrow> string \<Rightarrow> string" where
  "SanitizeReason r [] fallback = fallback"
| "SanitizeReason r (a # allow) fallback = (if r = a then r else SanitizeReason r allow fallback)"

lemma SanitizeReason_eq: "SanitizeReason r allow fallback = (if r \<in> set allow then r else fallback)"
  by (induction allow) auto

lemma reason_in_AllReasons [simp]:
  "ReasonSlotGranted \<in> set AllReasons"
  "ReasonQueued \<in> set AllReasons"
  "ReasonResourcesNotReady \<in> set AllReasons"
  "ReasonSuspended \<in> set AllReasons"
  "ReasonWaiting \<in> set AllReasons"
  "ReasonTerminal \<in> set AllReasons"
  "ReasonPodRunning \<in> set AllReasons"
  "ReasonPodPending \<in> set AllReasons"
  "ReasonPodNotCreated \<in> set AllReasons"
  "ReasonPodDeleted \<in> set AllReasons"
  "ReasonPodNotObserved \<in> set AllReasons"
  "ReasonPodSucceeded \<in> set AllReasons"
  "ReasonPodFailed \<in> set AllReasons"
  "ReasonImagePullFailure \<in> set AllReasons"
  "ReasonUnschedulable \<in> set AllReasons"
  "ReasonRestoreVerificationFailed \<in> set AllReasons"
  "ReasonWaitDeclared \<in> set AllReasons"
  "ReasonSnapshotInProgress \<in> set AllReasons"
  "ReasonPodTerminating \<in> set AllReasons"
  "ReasonSnapshotFailed \<in> set AllReasons"
  "ReasonNotFrozen \<in> set AllReasons"
  "ReasonProbeSatisfied \<in> set AllReasons"
  "ReasonProbePending \<in> set AllReasons"
  "ReasonProbeNotEvaluated \<in> set AllReasons"
  "ReasonNoWaitDeclared \<in> set AllReasons"
  "ReasonProbeFailed \<in> set AllReasons"
  "ReasonArchiveWritten \<in> set AllReasons"
  "ReasonArchivePending \<in> set AllReasons"
  "ReasonNotTerminal \<in> set AllReasons"
  "ReasonPending \<in> set AllReasons"
  "ReasonRestoring \<in> set AllReasons"
  "ReasonRunning \<in> set AllReasons"
  "ReasonFreezing \<in> set AllReasons"
  "ReasonSucceeded \<in> set AllReasons"
  "ReasonClassNotResolved \<in> set AllReasons"
  "ReasonAgentReportedSuccess \<in> set AllReasons"
  "ReasonAgentReportedFailure \<in> set AllReasons"
  "ReasonRunningTimeoutExceeded \<in> set AllReasons"
  "ReasonWaitingTimeoutExceeded \<in> set AllReasons"
  "ReasonTotalTimeoutExceeded \<in> set AllReasons"
  by (simp_all add: AllReasons_def)

lemma SanitizeReason_pod [simp]: "SanitizeReason r PodFailureReasons ReasonPodFailed \<in> set AllReasons"
  by (auto simp: SanitizeReason_eq PodFailureReasons_def)

lemma SanitizeReason_step [simp]: "SanitizeReason r StepFailureReasons ReasonProbeFailed \<in> set AllReasons"
  by (auto simp: SanitizeReason_eq StepFailureReasons_def)

lemma distinct_ConditionTypes [simp]: "distinct ConditionTypes"
  by (simp add: ConditionTypes_def condition_type_defs)

lemma ConditionReady_in [simp]: "ConditionReady \<in> set ConditionTypes"
  and ConditionPodReady_in [simp]: "ConditionPodReady \<in> set ConditionTypes"
  and ConditionFrozen_in [simp]: "ConditionFrozen \<in> set ConditionTypes"
  by (simp_all add: ConditionTypes_def)

subsection \<open>The apimachinery interface\<close>

record meta_lib =
  FindStatusCondition :: "Condition list \<Rightarrow> string \<Rightarrow> Condition option"
  SetStatusCondition :: "Condition list \<Rightarrow> Condition \<Rightarrow> Condition list"
  Rfc3339Copy :: "time \<Rightarrow> time"

text \<open>
  The documented contract: a condition is found by its type; setting one overwrites
  every field of the condition of that type (or adds it), except that the time of
  the last transition only moves when the status does; conditions of other types
  are left alone; \<^verbatim>\<open>Rfc3339Copy\<close> drops the fraction of a second.
\<close>

locale status_conditions =
  fixes lib :: meta_lib
  assumes find_Some: "FindStatusCondition lib cs t = Some c \<Longrightarrow> c \<in> set cs \<and> c_Type c = t"
    and find_None: "FindStatusCondition lib cs t = None \<longleftrightarrow> t \<notin> c_Type ` set cs"
    and set_same: "\<exists>ltt. FindStatusCondition lib (SetStatusCondition lib cs c) (c_Type c) =
                     Some (c\<lparr>c_LastTransitionTime := ltt\<rparr>)"
    and set_same_time:
      "\<lbrakk>c_LastTransitionTime c \<noteq> zero_time;
        FindStatusCondition lib (SetStatusCondition lib cs c) (c_Type c) = Some c'\<rbrakk> \<Longrightarrow>
       c_LastTransitionTime c' =
         (case FindStatusCondition lib cs (c_Type c) of
            None \<Rightarrow> c_LastTransitionTime c
          | Some old \<Rightarrow> if c_Status old = c_Status c then c_LastTransitionTime old
                        else c_LastTransitionTime c)"
    and set_other: "t \<noteq> c_Type c \<Longrightarrow>
      FindStatusCondition lib (SetStatusCondition lib cs c) t = FindStatusCondition lib cs t"
    and copy_floor: "Rfc3339Copy lib u \<le> u \<and> u < Rfc3339Copy lib u + Second"
begin

lemma fold_set_other:
  "t \<notin> c_Type ` set new \<Longrightarrow>
   FindStatusCondition lib (fold (\<lambda>c cs. SetStatusCondition lib cs c) new cs) t =
   FindStatusCondition lib cs t"
  by (induction new arbitrary: cs) (auto simp: set_other)

text \<open>After a whole list of conditions of distinct types has been set, each is found.\<close>

lemma fold_set_same:
  assumes "distinct (map c_Type new)" and "c \<in> set new"
  shows "\<exists>ltt. FindStatusCondition lib (fold (\<lambda>c cs. SetStatusCondition lib cs c) new cs) (c_Type c) =
           Some (c\<lparr>c_LastTransitionTime := ltt\<rparr>)"
  using assms
proof (induction new arbitrary: cs)
  case Nil
  then show ?case by simp
next
  case (Cons d new)
  show ?case
  proof (cases "c = d")
    case True
    with Cons.prems have "c_Type c \<notin> c_Type ` set new" by auto
    with True set_same show ?thesis by (simp add: fold_set_other)
  next
    case False
    with Cons show ?thesis by simp
  qed
qed

lemma fold_set_same_time:
  assumes "distinct (map c_Type new)" and "c \<in> set new" and "c_LastTransitionTime c \<noteq> zero_time"
    and "FindStatusCondition lib (fold (\<lambda>c cs. SetStatusCondition lib cs c) new cs) (c_Type c) = Some c'"
  shows "c_LastTransitionTime c' =
         (case FindStatusCondition lib cs (c_Type c) of
            None \<Rightarrow> c_LastTransitionTime c
          | Some old \<Rightarrow> if c_Status old = c_Status c then c_LastTransitionTime old
                        else c_LastTransitionTime c)"
  using assms
proof (induction new arbitrary: cs)
  case Nil
  then show ?case by simp
next
  case (Cons d new)
  show ?case
  proof (cases "c = d")
    case True
    with Cons.prems have "c_Type c \<notin> c_Type ` set new" by auto
    with True Cons.prems
    have "FindStatusCondition lib (SetStatusCondition lib cs c) (c_Type c) = Some c'"
      by (simp add: fold_set_other)
    with Cons.prems(3) show ?thesis by (rule set_same_time)
  next
    case False
    with Cons.prems have in_new: "c \<in> set new" by simp
    with Cons.prems have ne: "c_Type c \<noteq> c_Type d" by (metis distinct.simps(2) image_eqI list.simps(9) set_map)
    from in_new Cons.IH [of "SetStatusCondition lib cs d"] Cons.prems show ?thesis
      by (simp add: set_other [OF ne])
  qed
qed

end

subsection \<open>An implementation of the interface\<close>

definition ref_FindStatusCondition :: "Condition list \<Rightarrow> string \<Rightarrow> Condition option" where
  "ref_FindStatusCondition cs t = find (\<lambda>c. c_Type c = t) cs"

fun ref_SetStatusCondition :: "Condition list \<Rightarrow> Condition \<Rightarrow> Condition list" where
  "ref_SetStatusCondition [] c = [c]"
| "ref_SetStatusCondition (d # cs) c =
     (if c_Type d = c_Type c
      then c\<lparr>c_LastTransitionTime :=
               (if c_Status d = c_Status c then c_LastTransitionTime d
                else c_LastTransitionTime c)\<rparr> # cs
      else d # ref_SetStatusCondition cs c)"

definition ref_Rfc3339Copy :: "time \<Rightarrow> time" where
  "ref_Rfc3339Copy t = t - t mod Second"

definition ref_lib :: meta_lib where
  "ref_lib = \<lparr>FindStatusCondition = ref_FindStatusCondition,
     SetStatusCondition = ref_SetStatusCondition, Rfc3339Copy = ref_Rfc3339Copy\<rparr>"

lemmas ref_lib_simps =
  ref_lib_def ref_FindStatusCondition_def ref_Rfc3339Copy_def

lemma ref_find_set_same:
  "find (\<lambda>d. c_Type d = c_Type c) (ref_SetStatusCondition cs c) =
   Some (c\<lparr>c_LastTransitionTime :=
     (case find (\<lambda>d. c_Type d = c_Type c) cs of
        None \<Rightarrow> c_LastTransitionTime c
      | Some old \<Rightarrow> if c_Status old = c_Status c then c_LastTransitionTime old
                    else c_LastTransitionTime c)\<rparr>)"
  by (induction cs) auto

lemma ref_find_set_other:
  "t \<noteq> c_Type c \<Longrightarrow>
   find (\<lambda>d. c_Type d = t) (ref_SetStatusCondition cs c) = find (\<lambda>d. c_Type d = t) cs"
  by (induction cs) auto

interpretation ref: status_conditions ref_lib
proof unfold_locales
  fix cs t c
  show "FindStatusCondition ref_lib cs t = Some c \<Longrightarrow> c \<in> set cs \<and> c_Type c = t"
    by (auto simp: ref_lib_simps dest: find_SomeD)
next
  fix cs t
  show "FindStatusCondition ref_lib cs t = None \<longleftrightarrow> t \<notin> c_Type ` set cs"
    by (simp add: ref_lib_simps find_None_iff_image)
next
  fix t :: time
  show "Rfc3339Copy ref_lib t \<le> t \<and> t < Rfc3339Copy ref_lib t + Second"
    by (simp add: ref_lib_simps)
qed (auto simp: ref_lib_simps ref_find_set_same ref_find_set_other)

end
