(* ===== verification/Facts.thy ===== *)
theory Facts
  imports Conditions
begin

section \<open>Observed facts and decisions\<close>

text \<open>
  \<^verbatim>\<open>src/operator/internal/lifecycle/facts.go\<close> and \<^verbatim>\<open>decision.go\<close>: everything the state
  machine may know about the world, the actions and the status delta it can ask
  for, and the resolution of a class's timeouts. \<^verbatim>\<open>time.ParseDuration\<close> is an argument of
  \<open>ResolveTimeouts\<close>: nothing here depends on the syntax of a duration.
\<close>

subsection \<open>Timeouts\<close>

record Timeouts =
  to_Running :: duration
  to_Waiting :: duration
  to_Total :: duration

definition DefaultTimeouts :: Timeouts where
  "DefaultTimeouts = \<lparr>to_Running = 6 * Hour, to_Waiting = 24 * Hour, to_Total = 72 * Hour\<rparr>"

definition parse_timeout :: "(string \<Rightarrow> duration option) \<Rightarrow> string \<Rightarrow> duration \<Rightarrow> duration" where
  "parse_timeout ParseDuration s def =
     (if s = [] then def
      else case ParseDuration s of None \<Rightarrow> def | Some d \<Rightarrow> d)"

text \<open>The class may be absent (a nil pointer); only its timeouts are read.\<close>

definition ResolveTimeouts ::
  "(string \<Rightarrow> duration option) \<Rightarrow> TimeoutsSpec option \<Rightarrow> Timeouts" where
  "ResolveTimeouts ParseDuration cls =
     (case cls of
        None \<Rightarrow> DefaultTimeouts
      | Some t \<Rightarrow>
          \<lparr>to_Running = parse_timeout ParseDuration (tm_Running t) (to_Running DefaultTimeouts),
           to_Waiting = parse_timeout ParseDuration (tm_Waiting t) (to_Waiting DefaultTimeouts),
           to_Total = parse_timeout ParseDuration (tm_Total t) (to_Total DefaultTimeouts)\<rparr>)"

subsection \<open>Facts\<close>

record PodFailureFact =
  pf_Reason :: string
  pf_Message :: string

record StepFailure =
  sf_Reason :: string
  sf_Message :: string

record ClusterFacts =
  f_Timeouts :: Timeouts
  ClassResolved :: bool
  ClassProblem :: string
  ResourcesReady :: bool
  ResourcesProblem :: string
  SlotGranted :: bool
  f_QueuePosition :: int
  f_QueueDepth :: int
  PodObserved :: bool
  PodExists :: bool
  f_PodPhase :: PodPhase
  PodReady :: bool
  PodFailure :: "PodFailureFact option"
  AgentWaitDeclared :: bool
  AgentDone :: bool
  AgentFailed :: bool
  AgentMessage :: string
  SnapshotComplete :: bool
  SnapshotFailure :: "StepFailure option"
  ProbeObserved :: bool
  WaitProbeSatisfied :: bool
  WaitProbeFailure :: "StepFailure option"
  f_ProbeAttempt :: "ProbeAttemptStatus option"
  ArchiveWritten :: bool
  f_ArchiveURI :: string
  PodAliveForArchive :: bool

definition zero_facts :: ClusterFacts where
  "zero_facts = \<lparr>f_Timeouts = \<lparr>to_Running = 0, to_Waiting = 0, to_Total = 0\<rparr>,
     ClassResolved = False, ClassProblem = [], ResourcesReady = False, ResourcesProblem = [],
     SlotGranted = False, f_QueuePosition = 0, f_QueueDepth = 0, PodObserved = False,
     PodExists = False, f_PodPhase = PodPhaseNone, PodReady = False, PodFailure = None,
     AgentWaitDeclared = False, AgentDone = False, AgentFailed = False, AgentMessage = [],
     SnapshotComplete = False, SnapshotFailure = None, ProbeObserved = False,
     WaitProbeSatisfied = False, WaitProbeFailure = None, f_ProbeAttempt = None,
     ArchiveWritten = False, f_ArchiveURI = [], PodAliveForArchive = False\<rparr>"

definition WithAllObserved :: "ClusterFacts \<Rightarrow> ClusterFacts" where
  "WithAllObserved f = f\<lparr>ClassResolved := True, PodObserved := True, ProbeObserved := True\<rparr>"

subsection \<open>Decisions\<close>

datatype Action =
    ActionEnsureResources
  | ActionEnsurePod
  | ActionFreezePod
  | ActionDeletePod
  | ActionArchive

definition AllActions :: "Action list" where
  "AllActions = [ActionEnsureResources, ActionEnsurePod, ActionFreezePod, ActionDeletePod, ActionArchive]"

definition MinRequeueAfter :: duration where "MinRequeueAfter = 1 * Second"
definition MaxRequeueAfter :: duration where "MaxRequeueAfter = 5 * Minute"
definition ClassUnresolvedRequeue :: duration where "ClassUnresolvedRequeue = 30 * Second"
definition TerminalArchiveRequeue :: duration where "TerminalArchiveRequeue = 1 * Minute"

lemmas requeue_defs =
  MinRequeueAfter_def MaxRequeueAfter_def ClassUnresolvedRequeue_def TerminalArchiveRequeue_def

record StatusPatch =
  SetQueuedSince :: "time option"
  SetStartedAt :: "time option"
  SetFinishedAt :: "time option"
  IncrementFreezeCount :: bool
  IncrementWakeCount :: bool
  ClearWaitFor :: bool
  SetArchiveURI :: string
  SetTerminalPhase :: Phase
  SetProbeAttempt :: "ProbeAttemptStatus option"

definition no_patch :: StatusPatch where
  "no_patch = \<lparr>SetQueuedSince = None, SetStartedAt = None, SetFinishedAt = None,
     IncrementFreezeCount = False, IncrementWakeCount = False, ClearWaitFor = False,
     SetArchiveURI = [], SetTerminalPhase = PhaseUnset, SetProbeAttempt = None\<rparr>"

lemma no_patch_fields [simp]:
  "SetQueuedSince no_patch = None" "SetStartedAt no_patch = None" "SetFinishedAt no_patch = None"
  "IncrementFreezeCount no_patch = False" "IncrementWakeCount no_patch = False"
  "ClearWaitFor no_patch = False" "SetArchiveURI no_patch = []"
  "SetTerminalPhase no_patch = PhaseUnset" "SetProbeAttempt no_patch = None"
  by (simp_all add: no_patch_def)

record Decision =
  d_Phase :: Phase
  d_Conditions :: "Condition list"
  d_Actions :: "Action list"
  d_SlotWanted :: bool
  d_StatusPatch :: StatusPatch
  d_RequeueAfter :: duration

subsection \<open>Resolution never leaves an environment unbounded\<close>

lemma all_actions_listed: "a \<in> set AllActions"
  by (cases a) (simp_all add: AllActions_def)

lemma ResolveTimeouts_total_cases:
  "to_Total (ResolveTimeouts P cls) = to_Total DefaultTimeouts \<or>
   (\<exists>t d. cls = Some t \<and> tm_Total t \<noteq> [] \<and> P (tm_Total t) = Some d \<and>
          to_Total (ResolveTimeouts P cls) = d)"
  by (cases cls) (auto simp: ResolveTimeouts_def parse_timeout_def split: option.splits)

end
