(* ===== verification/Builder.thy ===== *)
theory Builder
  imports Facts
begin

section \<open>Assembling a decision\<close>

text \<open>
  \<^verbatim>\<open>src/operator/internal/lifecycle/builder.go\<close>: the builder that the per-phase functions
  fill in, and the default of every condition type they leave unset. A condition's
  status, reason and message travel as a triple, as they do in the code's return
  values. Every definition that reads stored conditions takes the apimachinery
  parameter \<open>lib\<close>.
\<close>

type_synonym cond_value = "ConditionStatus \<times> string \<times> string"

definition isTerminal :: "Phase \<Rightarrow> bool" where
  "isTerminal phase \<longleftrightarrow> phase = PhaseDone \<or> phase = PhaseFailed"

lemma isTerminal_simps [simp]:
  "isTerminal PhaseDone" "isTerminal PhaseFailed" "\<not> isTerminal PhaseUnset"
  "\<not> isTerminal PhasePending" "\<not> isTerminal PhaseReady" "\<not> isTerminal PhaseRestoring"
  "\<not> isTerminal PhaseRunning" "\<not> isTerminal PhaseFreezing" "\<not> isTerminal PhaseWaiting"
  "\<not> isTerminal (PhaseOther s)"
  by (simp_all add: isTerminal_def)

definition maxMessageBytes :: nat where "maxMessageBytes = 512"

definition truncateMessage :: "string \<Rightarrow> string" where
  "truncateMessage s = (if length s \<le> maxMessageBytes then s else take maxMessageBytes s)"

definition queueMessage :: "ClusterFacts \<Rightarrow> string" where
  "queueMessage f =
     (if f_QueuePosition f \<le> 0 \<or> f_QueueDepth f \<le> 0 then []
      else ''queued at position '' @ decimal_int (f_QueuePosition f) @ '' of '' @
           decimal_int (f_QueueDepth f))"

subsection \<open>Defaults per condition type\<close>

definition carryForwardOr ::
  "meta_lib \<Rightarrow> SandboxEnvironment \<Rightarrow> string \<Rightarrow> cond_value \<Rightarrow> cond_value" where
  "carryForwardOr lib env condType fallback =
     (case FindStatusCondition lib (st_Conditions (Status env)) condType of
        Some c \<Rightarrow> (c_Status c, c_Reason c, c_Message c)
      | None \<Rightarrow> fallback)"

definition defaultScheduled :: "Phase \<Rightarrow> SandboxEnvironment \<Rightarrow> ClusterFacts \<Rightarrow> cond_value" where
  "defaultScheduled phase env facts =
     (if isTerminal phase then (ConditionFalse, ReasonTerminal, [])
      else if SlotGranted facts then (ConditionTrue, ReasonSlotGranted, [])
      else if sp_Suspend (Spec env) \<and> (phase = PhasePending \<or> phase = PhaseReady \<or> phase = PhaseWaiting)
      then (ConditionFalse, ReasonSuspended, [])
      else case phase of
             PhasePending \<Rightarrow> (ConditionFalse, ReasonResourcesNotReady, ResourcesProblem facts)
           | PhaseWaiting \<Rightarrow> (ConditionFalse, ReasonWaiting, [])
           | _ \<Rightarrow> (ConditionFalse, ReasonQueued, queueMessage facts))"

definition podReadyDuringRestore :: "ClusterFacts \<Rightarrow> cond_value" where
  "podReadyDuringRestore facts =
     (if \<not> PodObserved facts then (ConditionUnknown, ReasonPodNotObserved, [])
      else if \<not> PodExists facts then (ConditionFalse, ReasonPodNotCreated, [])
      else (ConditionFalse, ReasonPodPending, []))"

definition podReadyOnSuccess :: "ClusterFacts \<Rightarrow> cond_value" where
  "podReadyOnSuccess facts =
     (if AgentDone facts then (ConditionFalse, ReasonAgentReportedSuccess, [])
      else (ConditionFalse, ReasonPodSucceeded, []))"

definition podReadyOnFailure ::
  "meta_lib \<Rightarrow> SandboxEnvironment \<Rightarrow> ClusterFacts \<Rightarrow> cond_value" where
  "podReadyOnFailure lib env facts =
     (case PodFailure facts of
        Some pf \<Rightarrow>
          (ConditionFalse, SanitizeReason (pf_Reason pf) PodFailureReasons ReasonPodFailed, pf_Message pf)
      | None \<Rightarrow>
          if f_PodPhase facts = PodFailed then (ConditionFalse, ReasonPodFailed, [])
          else carryForwardOr lib env ConditionPodReady (ConditionFalse, ReasonPodFailed, []))"

definition defaultPodReady ::
  "meta_lib \<Rightarrow> Phase \<Rightarrow> SandboxEnvironment \<Rightarrow> ClusterFacts \<Rightarrow> cond_value" where
  "defaultPodReady lib phase env facts =
     (case phase of
        PhasePending \<Rightarrow> (ConditionFalse, ReasonPodNotCreated, [])
      | PhaseReady \<Rightarrow> (ConditionFalse, ReasonPodNotCreated, [])
      | PhaseRestoring \<Rightarrow> podReadyDuringRestore facts
      | PhaseRunning \<Rightarrow>
          if \<not> PodObserved facts then (ConditionUnknown, ReasonPodNotObserved, [])
          else (ConditionTrue, ReasonPodRunning, [])
      | PhaseFreezing \<Rightarrow> (ConditionFalse, ReasonPodDeleted, [])
      | PhaseWaiting \<Rightarrow> (ConditionFalse, ReasonPodDeleted, [])
      | PhaseDone \<Rightarrow> podReadyOnSuccess facts
      | PhaseFailed \<Rightarrow> podReadyOnFailure lib env facts
      | _ \<Rightarrow> (ConditionFalse, ReasonPodNotCreated, []))"

definition frozenDuringFreeze :: "ClusterFacts \<Rightarrow> cond_value" where
  "frozenDuringFreeze facts =
     (case SnapshotFailure facts of
        Some sf \<Rightarrow> (ConditionFalse, ReasonSnapshotFailed, sf_Message sf)
      | None \<Rightarrow>
          if \<not> SnapshotComplete facts then (ConditionFalse, ReasonSnapshotInProgress, [])
          else if PodExists facts then (ConditionFalse, ReasonPodTerminating, [])
          else (ConditionFalse, ReasonNotFrozen, []))"

definition defaultFrozen :: "Phase \<Rightarrow> SandboxEnvironment \<Rightarrow> ClusterFacts \<Rightarrow> cond_value" where
  "defaultFrozen phase env facts =
     (case phase of
        PhaseWaiting \<Rightarrow>
          if st_WaitFor (Status env) \<noteq> None then (ConditionTrue, ReasonWaitDeclared, [])
          else (ConditionTrue, ReasonSuspended, [])
      | PhaseFreezing \<Rightarrow> frozenDuringFreeze facts
      | _ \<Rightarrow> (ConditionFalse, ReasonNotFrozen, []))"

definition probe_failure_value :: "StepFailure \<Rightarrow> cond_value" where
  "probe_failure_value sf =
     (ConditionFalse, SanitizeReason (sf_Reason sf) StepFailureReasons ReasonProbeFailed, sf_Message sf)"

definition defaultWaitSatisfied ::
  "meta_lib \<Rightarrow> Phase \<Rightarrow> SandboxEnvironment \<Rightarrow> ClusterFacts \<Rightarrow> cond_value" where
  "defaultWaitSatisfied lib phase env facts =
     (if WaitProbeSatisfied facts then (ConditionTrue, ReasonProbeSatisfied, [])
      else if phase = PhaseWaiting \<and> st_WaitFor (Status env) \<noteq> None
      then (if \<not> ProbeObserved facts then (ConditionUnknown, ReasonProbeNotEvaluated, [])
            else case WaitProbeFailure facts of
                   Some sf \<Rightarrow> probe_failure_value sf
                 | None \<Rightarrow> (ConditionFalse, ReasonProbePending, []))
      else case WaitProbeFailure facts of
             Some sf \<Rightarrow> probe_failure_value sf
           | None \<Rightarrow>
               if st_WaitFor (Status env) = None then (ConditionFalse, ReasonNoWaitDeclared, [])
               else carryForwardOr lib env ConditionWaitSatisfied (ConditionFalse, ReasonProbePending, []))"

definition defaultArchived :: "Phase \<Rightarrow> ClusterFacts \<Rightarrow> cond_value" where
  "defaultArchived phase facts =
     (if ArchiveWritten facts then (ConditionTrue, ReasonArchiveWritten, [])
      else if phase = PhaseDone \<or> phase = PhaseFailed then (ConditionFalse, ReasonArchivePending, [])
      else (ConditionFalse, ReasonNotTerminal, []))"

definition readySuspendable :: "SandboxEnvironment \<Rightarrow> string \<Rightarrow> cond_value" where
  "readySuspendable env reason =
     (if sp_Suspend (Spec env) then (ConditionFalse, ReasonSuspended, [])
      else (ConditionFalse, reason, []))"

definition readyOnSuccess :: "ClusterFacts \<Rightarrow> cond_value" where
  "readyOnSuccess facts =
     (if AgentDone facts then (ConditionFalse, ReasonAgentReportedSuccess, [])
      else (ConditionFalse, ReasonSucceeded, []))"

definition readyOnFailure ::
  "meta_lib \<Rightarrow> SandboxEnvironment \<Rightarrow> ClusterFacts \<Rightarrow> cond_value" where
  "readyOnFailure lib env facts =
     (if AgentFailed facts
      then (ConditionFalse, ReasonAgentReportedFailure, truncateMessage (AgentMessage facts))
      else case PodFailure facts of
             Some pf \<Rightarrow>
               (ConditionFalse, SanitizeReason (pf_Reason pf) PodFailureReasons ReasonPodFailed, pf_Message pf)
           | None \<Rightarrow>
               if f_PodPhase facts = PodFailed then (ConditionFalse, ReasonPodFailed, [])
               else case WaitProbeFailure facts of
                      Some sf \<Rightarrow> probe_failure_value sf
                    | None \<Rightarrow> carryForwardOr lib env ConditionReady (ConditionFalse, ReasonPodFailed, []))"

definition defaultReady ::
  "meta_lib \<Rightarrow> Phase \<Rightarrow> SandboxEnvironment \<Rightarrow> ClusterFacts \<Rightarrow> cond_value" where
  "defaultReady lib phase env facts =
     (case phase of
        PhasePending \<Rightarrow> readySuspendable env ReasonPending
      | PhaseReady \<Rightarrow> readySuspendable env ReasonQueued
      | PhaseRestoring \<Rightarrow> (ConditionFalse, ReasonRestoring, [])
      | PhaseRunning \<Rightarrow> (ConditionTrue, ReasonRunning, [])
      | PhaseFreezing \<Rightarrow>
          (case SnapshotFailure facts of
             Some sf \<Rightarrow> (ConditionFalse, ReasonSnapshotFailed, sf_Message sf)
           | None \<Rightarrow> (ConditionFalse, ReasonFreezing, []))
      | PhaseWaiting \<Rightarrow> readySuspendable env ReasonWaiting
      | PhaseDone \<Rightarrow> readyOnSuccess facts
      | PhaseFailed \<Rightarrow> readyOnFailure lib env facts
      | _ \<Rightarrow> (ConditionFalse, ReasonPending, []))"

definition defaultFor ::
  "meta_lib \<Rightarrow> string \<Rightarrow> Phase \<Rightarrow> SandboxEnvironment \<Rightarrow> ClusterFacts \<Rightarrow> cond_value" where
  "defaultFor lib condType phase env facts =
     (if condType = ConditionScheduled then defaultScheduled phase env facts
      else if condType = ConditionPodReady then defaultPodReady lib phase env facts
      else if condType = ConditionFrozen then defaultFrozen phase env facts
      else if condType = ConditionWaitSatisfied then defaultWaitSatisfied lib phase env facts
      else if condType = ConditionArchived then defaultArchived phase facts
      else if condType = ConditionReady then defaultReady lib phase env facts
      else (ConditionUnknown, ReasonPending, []))"

subsection \<open>The builder\<close>

record builder =
  b_env :: SandboxEnvironment
  b_facts :: ClusterFacts
  b_now :: time
  b_ph :: Phase
  b_explicit :: "string \<rightharpoonup> cond_value"
  b_actions :: "Action list"
  b_slotWanted :: bool
  b_statusPatch :: StatusPatch
  b_requeue :: duration

definition newBuilder :: "SandboxEnvironment \<Rightarrow> ClusterFacts \<Rightarrow> time \<Rightarrow> builder" where
  "newBuilder env facts now =
     \<lparr>b_env = env, b_facts = facts, b_now = now, b_ph = PhaseUnset, b_explicit = Map.empty,
      b_actions = [], b_slotWanted = False, b_statusPatch = no_patch, b_requeue = 0\<rparr>"

definition set_phase :: "Phase \<Rightarrow> builder \<Rightarrow> builder" where
  "set_phase p b = b\<lparr>b_ph := p\<rparr>"

definition add_cond :: "string \<Rightarrow> ConditionStatus \<Rightarrow> string \<Rightarrow> string \<Rightarrow> builder \<Rightarrow> builder" where
  "add_cond condType status reason message b =
     b\<lparr>b_explicit := (b_explicit b)(condType \<mapsto> (status, reason, message))\<rparr>"

definition add_act :: "Action list \<Rightarrow> builder \<Rightarrow> builder" where
  "add_act actions b = b\<lparr>b_actions := b_actions b @ actions\<rparr>"

definition set_slot :: "bool \<Rightarrow> builder \<Rightarrow> builder" where
  "set_slot want b = b\<lparr>b_slotWanted := want\<rparr>"

definition merge_patch :: "StatusPatch \<Rightarrow> StatusPatch \<Rightarrow> StatusPatch" where
  "merge_patch p q =
     \<lparr>SetQueuedSince = (if SetQueuedSince p \<noteq> None then SetQueuedSince p else SetQueuedSince q),
      SetStartedAt = (if SetStartedAt p \<noteq> None then SetStartedAt p else SetStartedAt q),
      SetFinishedAt = (if SetFinishedAt p \<noteq> None then SetFinishedAt p else SetFinishedAt q),
      IncrementFreezeCount = (if IncrementFreezeCount p then True else IncrementFreezeCount q),
      IncrementWakeCount = (if IncrementWakeCount p then True else IncrementWakeCount q),
      ClearWaitFor = (if ClearWaitFor p then True else ClearWaitFor q),
      SetArchiveURI = (if SetArchiveURI p \<noteq> [] then SetArchiveURI p else SetArchiveURI q),
      SetTerminalPhase =
        (if SetTerminalPhase p \<noteq> PhaseUnset then SetTerminalPhase p else SetTerminalPhase q),
      SetProbeAttempt = (if SetProbeAttempt p \<noteq> None then SetProbeAttempt p else SetProbeAttempt q)\<rparr>"

definition add_patch :: "StatusPatch \<Rightarrow> builder \<Rightarrow> builder" where
  "add_patch p b = b\<lparr>b_statusPatch := merge_patch p (b_statusPatch b)\<rparr>"

definition build_condition :: "meta_lib \<Rightarrow> builder \<Rightarrow> string \<Rightarrow> Condition" where
  "build_condition lib b t =
     (case (case b_explicit b t of
              Some v \<Rightarrow> v
            | None \<Rightarrow> defaultFor lib t (b_ph b) (b_env b) (b_facts b)) of
        (status, reason, message) \<Rightarrow>
          \<lparr>c_Type = t, c_Status = status, c_Reason = reason, c_Message = message,
           c_ObservedGeneration = Generation (b_env b),
           c_LastTransitionTime = Rfc3339Copy lib (b_now b)\<rparr>)"

definition build :: "meta_lib \<Rightarrow> builder \<Rightarrow> Decision" where
  "build lib b =
     \<lparr>d_Phase = b_ph b,
      d_Conditions = map (build_condition lib b) ConditionTypes,
      d_Actions = b_actions b,
      d_SlotWanted = b_slotWanted b,
      d_StatusPatch = b_statusPatch b,
      d_RequeueAfter = b_requeue b\<rparr>"

subsection \<open>Facts about the builder\<close>

lemmas builder_defs =
  newBuilder_def set_phase_def add_cond_def add_act_def set_slot_def add_patch_def

lemma merge_no_patch [simp]: "merge_patch p no_patch = p"
  by (simp add: merge_patch_def no_patch_def)

text \<open>What a chain of builder calls leaves in the decision, field by field.\<close>

lemma build_fields [simp]:
  "d_Phase (build lib b) = b_ph b"
  "d_Actions (build lib b) = b_actions b"
  "d_SlotWanted (build lib b) = b_slotWanted b"
  "d_StatusPatch (build lib b) = b_statusPatch b"
  "d_RequeueAfter (build lib b) = b_requeue b"
  by (simp_all add: build_def)

lemma builder_fields [simp]:
  "b_env (newBuilder env facts now) = env"
  "b_facts (newBuilder env facts now) = facts"
  "b_now (newBuilder env facts now) = now"
  "b_ph (newBuilder env facts now) = PhaseUnset"
  "b_explicit (newBuilder env facts now) = Map.empty"
  "b_actions (newBuilder env facts now) = []"
  "b_slotWanted (newBuilder env facts now) = False"
  "b_statusPatch (newBuilder env facts now) = no_patch"
  "b_requeue (newBuilder env facts now) = 0"
  by (simp_all add: newBuilder_def)

lemma set_phase_fields [simp]:
  "b_env (set_phase p b) = b_env b" "b_facts (set_phase p b) = b_facts b"
  "b_now (set_phase p b) = b_now b" "b_ph (set_phase p b) = p"
  "b_explicit (set_phase p b) = b_explicit b" "b_actions (set_phase p b) = b_actions b"
  "b_slotWanted (set_phase p b) = b_slotWanted b"
  "b_statusPatch (set_phase p b) = b_statusPatch b" "b_requeue (set_phase p b) = b_requeue b"
  by (simp_all add: set_phase_def)

lemma add_cond_fields [simp]:
  "b_env (add_cond t s r m b) = b_env b" "b_facts (add_cond t s r m b) = b_facts b"
  "b_now (add_cond t s r m b) = b_now b" "b_ph (add_cond t s r m b) = b_ph b"
  "b_explicit (add_cond t s r m b) = (b_explicit b)(t \<mapsto> (s, r, m))"
  "b_actions (add_cond t s r m b) = b_actions b"
  "b_slotWanted (add_cond t s r m b) = b_slotWanted b"
  "b_statusPatch (add_cond t s r m b) = b_statusPatch b"
  "b_requeue (add_cond t s r m b) = b_requeue b"
  by (simp_all add: add_cond_def)

lemma add_act_fields [simp]:
  "b_env (add_act a b) = b_env b" "b_facts (add_act a b) = b_facts b"
  "b_now (add_act a b) = b_now b" "b_ph (add_act a b) = b_ph b"
  "b_explicit (add_act a b) = b_explicit b" "b_actions (add_act a b) = b_actions b @ a"
  "b_slotWanted (add_act a b) = b_slotWanted b"
  "b_statusPatch (add_act a b) = b_statusPatch b" "b_requeue (add_act a b) = b_requeue b"
  by (simp_all add: add_act_def)

lemma set_slot_fields [simp]:
  "b_env (set_slot w b) = b_env b" "b_facts (set_slot w b) = b_facts b"
  "b_now (set_slot w b) = b_now b" "b_ph (set_slot w b) = b_ph b"
  "b_explicit (set_slot w b) = b_explicit b" "b_actions (set_slot w b) = b_actions b"
  "b_slotWanted (set_slot w b) = w"
  "b_statusPatch (set_slot w b) = b_statusPatch b" "b_requeue (set_slot w b) = b_requeue b"
  by (simp_all add: set_slot_def)

lemma add_patch_fields [simp]:
  "b_env (add_patch p b) = b_env b" "b_facts (add_patch p b) = b_facts b"
  "b_now (add_patch p b) = b_now b" "b_ph (add_patch p b) = b_ph b"
  "b_explicit (add_patch p b) = b_explicit b" "b_actions (add_patch p b) = b_actions b"
  "b_slotWanted (add_patch p b) = b_slotWanted b"
  "b_statusPatch (add_patch p b) = merge_patch p (b_statusPatch b)"
  "b_requeue (add_patch p b) = b_requeue b"
  by (simp_all add: add_patch_def)

lemma build_condition_fields [simp]:
  "c_Type (build_condition lib b t) = t"
  "c_ObservedGeneration (build_condition lib b t) = Generation (b_env b)"
  "c_LastTransitionTime (build_condition lib b t) = Rfc3339Copy lib (b_now b)"
  by (simp_all add: build_condition_def split: prod.splits)

lemma build_condition_explicit:
  "b_explicit b t = Some (s, r, m) \<Longrightarrow>
   c_Status (build_condition lib b t) = s \<and> c_Reason (build_condition lib b t) = r \<and>
   c_Message (build_condition lib b t) = m"
  by (simp add: build_condition_def)

lemma build_condition_default:
  "b_explicit b t = None \<Longrightarrow>
   (c_Status (build_condition lib b t), c_Reason (build_condition lib b t),
    c_Message (build_condition lib b t)) = defaultFor lib t (b_ph b) (b_env b) (b_facts b)"
  by (simp add: build_condition_def split: prod.splits)

lemma map_type_build [simp]: "map c_Type (d_Conditions (build lib b)) = ConditionTypes"
  by (simp add: build_def comp_def)

lemma truncateMessage_length: "length (truncateMessage s) \<le> maxMessageBytes"
  by (simp add: truncateMessage_def)

subsection \<open>Reasons stay in the declared list\<close>

text \<open>
  An environment whose stored conditions carry declared reasons only: the reasons
  carried forward are then declared ones too.
\<close>

definition reasons_closed :: "meta_lib \<Rightarrow> SandboxEnvironment \<Rightarrow> bool" where
  "reasons_closed lib env \<longleftrightarrow>
     list_all (\<lambda>t. case FindStatusCondition lib (st_Conditions (Status env)) t of
                     None \<Rightarrow> True | Some c \<Rightarrow> c_Reason c \<in> set AllReasons) ConditionTypes"

lemma carryForwardOr_closed:
  assumes "reasons_closed lib env" and "t \<in> set ConditionTypes" and "fst (snd v) \<in> set AllReasons"
  shows "fst (snd (carryForwardOr lib env t v)) \<in> set AllReasons"
  using assms by (auto simp: reasons_closed_def carryForwardOr_def list_all_iff split: option.splits)

lemma probe_failure_value_closed [simp]: "fst (snd (probe_failure_value sf)) \<in> set AllReasons"
  by (simp add: probe_failure_value_def)

lemma defaultScheduled_closed: "fst (snd (defaultScheduled p env facts)) \<in> set AllReasons"
  by (cases p) (simp_all add: defaultScheduled_def)

lemma defaultPodReady_closed:
  "reasons_closed lib env \<Longrightarrow> fst (snd (defaultPodReady lib p env facts)) \<in> set AllReasons"
  by (cases p)
    (simp_all add: defaultPodReady_def podReadyDuringRestore_def podReadyOnSuccess_def
      podReadyOnFailure_def carryForwardOr_closed split: option.splits)

lemma defaultFrozen_closed: "fst (snd (defaultFrozen p env facts)) \<in> set AllReasons"
  by (cases p) (simp_all add: defaultFrozen_def frozenDuringFreeze_def split: option.splits)

lemma defaultWaitSatisfied_closed:
  "reasons_closed lib env \<Longrightarrow> fst (snd (defaultWaitSatisfied lib p env facts)) \<in> set AllReasons"
  by (simp add: defaultWaitSatisfied_def carryForwardOr_closed ConditionTypes_def split: option.splits)

lemma defaultArchived_closed: "fst (snd (defaultArchived p facts)) \<in> set AllReasons"
  by (simp add: defaultArchived_def)

lemma defaultReady_closed:
  "reasons_closed lib env \<Longrightarrow> fst (snd (defaultReady lib p env facts)) \<in> set AllReasons"
  by (cases p)
    (simp_all add: defaultReady_def readySuspendable_def readyOnSuccess_def readyOnFailure_def
      carryForwardOr_closed split: option.splits)

lemmas default_closed =
  defaultScheduled_closed defaultPodReady_closed defaultFrozen_closed
  defaultWaitSatisfied_closed defaultArchived_closed defaultReady_closed

lemma defaultFor_closed:
  "reasons_closed lib env \<Longrightarrow> fst (snd (defaultFor lib t p env facts)) \<in> set AllReasons"
  by (simp add: defaultFor_def default_closed)

lemma build_reasons_closed:
  assumes "reasons_closed lib (b_env b)"
    and "\<And>t v. b_explicit b t = Some v \<Longrightarrow> fst (snd v) \<in> set AllReasons"
    and "c \<in> set (d_Conditions (build lib b))"
  shows "c_Reason c \<in> set AllReasons"
proof -
  from assms(3) obtain t where c: "c = build_condition lib b t" by (auto simp: build_def)
  show ?thesis
  proof (cases "b_explicit b t")
    case None
    from build_condition_default [OF this] defaultFor_closed [OF assms(1)]
    show ?thesis unfolding c by (metis fst_conv snd_conv)
  next
    case (Some v)
    from assms(2) [OF Some] Some show ?thesis
      unfolding c by (cases v) (simp add: build_condition_def)
  qed
qed

end
