(* ===== verification/Timeouts.thy ===== *)
theory Timeouts
  imports Builder
begin

section \<open>Timeouts and requeueing\<close>

text \<open>
  \<^verbatim>\<open>src/operator/internal/lifecycle/timeouts.go\<close>: the three timeout clocks, the decision
  a fired timeout produces, and the delay after which the reconciler asks again.
\<close>

definition newMetaTime :: "meta_lib \<Rightarrow> time \<Rightarrow> time option" where
  "newMetaTime lib t = Some (Rfc3339Copy lib t)"

definition runningSince :: "meta_lib \<Rightarrow> SandboxEnvironment \<Rightarrow> time option" where
  "runningSince lib env =
     (case FindStatusCondition lib (st_Conditions (Status env)) ConditionPodReady of
        None \<Rightarrow> None
      | Some c \<Rightarrow> if c_Status c \<noteq> ConditionTrue then None else Some (c_LastTransitionTime c))"

definition waitingSince :: "meta_lib \<Rightarrow> SandboxEnvironment \<Rightarrow> time option" where
  "waitingSince lib env =
     (case FindStatusCondition lib (st_Conditions (Status env)) ConditionFrozen of
        None \<Rightarrow> None
      | Some c \<Rightarrow> if c_Status c \<noteq> ConditionTrue then None else Some (c_LastTransitionTime c))"

definition clock_fired :: "time option \<Rightarrow> duration \<Rightarrow> time \<Rightarrow> bool" where
  "clock_fired since t now =
     (t > 0 \<and> (case since of None \<Rightarrow> False | Some s \<Rightarrow> time_Sub now s \<ge> t))"

definition firedTimeoutReason ::
  "meta_lib \<Rightarrow> SandboxEnvironment \<Rightarrow> ClusterFacts \<Rightarrow> time \<Rightarrow> Phase \<Rightarrow> string option" where
  "firedTimeoutReason lib env facts now phase =
     (if clock_fired (Some (CreationTimestamp env)) (to_Total (f_Timeouts facts)) now
      then Some ReasonTotalTimeoutExceeded
      else if phase = PhaseRunning \<and>
              clock_fired (runningSince lib env) (to_Running (f_Timeouts facts)) now
      then Some ReasonRunningTimeoutExceeded
      else if phase = PhaseWaiting \<and>
              clock_fired (waitingSince lib env) (to_Waiting (f_Timeouts facts)) now
      then Some ReasonWaitingTimeoutExceeded
      else None)"

definition timeoutFired ::
  "meta_lib \<Rightarrow> SandboxEnvironment \<Rightarrow> ClusterFacts \<Rightarrow> time \<Rightarrow> Phase \<Rightarrow> Decision option" where
  "timeoutFired lib env facts now phase =
     (case firedTimeoutReason lib env facts now phase of
        None \<Rightarrow> None
      | Some reason \<Rightarrow>
          Some (build lib
            (add_cond ConditionReady ConditionFalse reason []
            (add_cond ConditionPodReady ConditionFalse reason []
            (add_patch (no_patch\<lparr>SetFinishedAt := newMetaTime lib now\<rparr>)
            (set_slot False
            (set_phase PhaseFailed
            (newBuilder env facts now))))))))"

definition consider_deadline :: "time option \<Rightarrow> time option \<Rightarrow> time option" where
  "consider_deadline acc t =
     (case t of
        None \<Rightarrow> acc
      | Some u \<Rightarrow> (case acc of None \<Rightarrow> Some u | Some d \<Rightarrow> if u < d then Some u else Some d))"

definition clock_deadline :: "time option \<Rightarrow> duration \<Rightarrow> time option" where
  "clock_deadline since t =
     (if t > 0 then (case since of None \<Rightarrow> None | Some s \<Rightarrow> Some (s + t)) else None)"

definition nextTimeoutDeadline ::
  "meta_lib \<Rightarrow> SandboxEnvironment \<Rightarrow> ClusterFacts \<Rightarrow> Phase \<Rightarrow> time option" where
  "nextTimeoutDeadline lib env facts phase =
     (let acc = consider_deadline None
                  (clock_deadline (Some (CreationTimestamp env)) (to_Total (f_Timeouts facts)));
          acc = (if phase = PhaseRunning
                 then consider_deadline acc
                        (clock_deadline (runningSince lib env) (to_Running (f_Timeouts facts)))
                 else acc)
      in if phase = PhaseWaiting
         then consider_deadline
                (consider_deadline acc
                  (clock_deadline (waitingSince lib env) (to_Waiting (f_Timeouts facts))))
                (case st_ProbeAttempt (Status env) of None \<Rightarrow> None | Some pa \<Rightarrow> pa_NextEligibleAt pa)
         else acc)"

definition clampDuration :: "duration \<Rightarrow> duration \<Rightarrow> duration \<Rightarrow> duration" where
  "clampDuration d lo hi = (if d < lo then lo else if d > hi then hi else d)"

definition computeRequeueAfter ::
  "meta_lib \<Rightarrow> Phase \<Rightarrow> SandboxEnvironment \<Rightarrow> ClusterFacts \<Rightarrow> time \<Rightarrow> duration" where
  "computeRequeueAfter lib phase env facts now =
     (if isTerminal phase
      then (if \<not> ArchiveWritten facts then TerminalArchiveRequeue else 0)
      else if \<not> ClassResolved facts then ClassUnresolvedRequeue
      else case nextTimeoutDeadline lib env facts phase of
             None \<Rightarrow> 0
           | Some deadline \<Rightarrow> clampDuration (time_Sub deadline now) MinRequeueAfter MaxRequeueAfter)"

subsection \<open>Facts about the clocks\<close>

lemma clampDuration_bounds: "lo \<le> hi \<Longrightarrow> lo \<le> clampDuration d lo hi \<and> clampDuration d lo hi \<le> hi"
  by (simp add: clampDuration_def)

lemma consider_deadline_le:
  "consider_deadline acc t = Some d \<Longrightarrow>
   (\<forall>u. acc = Some u \<longrightarrow> d \<le> u) \<and> (\<forall>u. t = Some u \<longrightarrow> d \<le> u)"
  by (auto simp: consider_deadline_def split: option.splits if_splits)

lemma consider_deadline_None_iff: "consider_deadline acc t = None \<longleftrightarrow> acc = None \<and> t = None"
  by (auto simp: consider_deadline_def split: option.splits)

definition deadline_by :: "time \<Rightarrow> time option \<Rightarrow> bool" where
  "deadline_by b t \<longleftrightarrow> (case t of None \<Rightarrow> False | Some d \<Rightarrow> d \<le> b)"

lemma consider_deadline_by [intro]: "deadline_by b acc \<Longrightarrow> deadline_by b (consider_deadline acc t)"
  by (auto simp: deadline_by_def consider_deadline_def split: option.splits)

text \<open>A clock has fired exactly when its deadline has passed.\<close>

lemma clock_fired_iff:
  assumes "t \<le> max_duration"
  shows "clock_fired since t now \<longleftrightarrow> (\<exists>d. clock_deadline since t = Some d \<and> d \<le> now)"
proof (cases "t > 0")
  case True
  then have "min_duration < t" by (simp add: min_duration_def)
  with assms True show ?thesis
    by (auto simp: clock_fired_def clock_deadline_def time_Sub_ge_iff split: option.splits)
next
  case False
  then show ?thesis by (simp add: clock_fired_def clock_deadline_def)
qed

lemma computeRequeueAfter_bounds:
  "0 \<le> computeRequeueAfter lib phase env facts now \<and>
   computeRequeueAfter lib phase env facts now \<le> MaxRequeueAfter"
  by (auto simp: computeRequeueAfter_def requeue_defs clampDuration_def split: option.splits)

lemma nextTimeoutDeadline_total:
  assumes "to_Total (f_Timeouts facts) > 0"
  shows "deadline_by (CreationTimestamp env + to_Total (f_Timeouts facts))
           (nextTimeoutDeadline lib env facts phase)"
proof -
  have "deadline_by (CreationTimestamp env + to_Total (f_Timeouts facts))
          (consider_deadline None
            (clock_deadline (Some (CreationTimestamp env)) (to_Total (f_Timeouts facts))))"
    using assms by (simp add: deadline_by_def consider_deadline_def clock_deadline_def)
  then show ?thesis unfolding nextTimeoutDeadline_def Let_def by auto
qed

lemma timeoutFired_decision:
  assumes "timeoutFired lib env facts now phase = Some d"
  shows "d_Phase d = PhaseFailed" "d_SlotWanted d = False" "d_Actions d = []"
    "d_StatusPatch d = no_patch\<lparr>SetFinishedAt := newMetaTime lib now\<rparr>"
    "map c_Type (d_Conditions d) = ConditionTypes"
  using assms by (auto simp: timeoutFired_def split: option.splits)

end
