(* ===== verification/Next.thy ===== *)
theory Next
  imports Timeouts
begin

section \<open>The phase state machine\<close>

text \<open>
  \<^verbatim>\<open>src/operator/internal/lifecycle/next.go\<close>: \<open>Next\<close> computes, from an environment, the
  observed facts and the time, the phase after this reconcile together with
  conditions, actions, slot wish and status delta. One definition per function of
  the file, with its branches in the code's order.
\<close>

subsection \<open>Terminal phases and completion\<close>

definition terminal_patch :: "meta_lib \<Rightarrow> ClusterFacts \<Rightarrow> time \<Rightarrow> Phase \<Rightarrow> StatusPatch" where
  "terminal_patch lib facts now phase =
     no_patch\<lparr>SetFinishedAt := newMetaTime lib now, SetArchiveURI := f_ArchiveURI facts,
              SetTerminalPhase := phase\<rparr>"

definition terminal ::
  "meta_lib \<Rightarrow> SandboxEnvironment \<Rightarrow> ClusterFacts \<Rightarrow> time \<Rightarrow> Phase \<Rightarrow> Decision" where
  "terminal lib env facts now phase =
     (let b = add_patch (terminal_patch lib facts now phase)
                (set_slot False (set_phase phase (newBuilder env facts now)))
      in if \<not> ArchiveWritten facts
         then (if st_Snapshot (Status env) = None \<and> PodAliveForArchive facts
               then build lib
                      (add_cond ConditionFrozen ConditionFalse ReasonSnapshotInProgress []
                      (add_patch (terminal_patch lib facts now phase)
                      (add_act [ActionFreezePod]
                      (set_slot True
                      (set_phase PhaseFreezing (newBuilder env facts now))))))
               else build lib (add_act [ActionArchive] b))
         else if phase = PhaseDone then build lib (add_act [ActionDeletePod] b)
         else build lib b)"

definition terminalOutcome ::
  "meta_lib \<Rightarrow> SandboxEnvironment \<Rightarrow> ClusterFacts \<Rightarrow> time \<Rightarrow> Phase \<Rightarrow> bool \<Rightarrow> Decision" where
  "terminalOutcome lib env facts now phase deletePod =
     (let b = add_patch (no_patch\<lparr>SetFinishedAt := newMetaTime lib now, SetTerminalPhase := phase\<rparr>)
                (set_slot False (set_phase phase (newBuilder env facts now)))
      in if deletePod \<and> ArchiveWritten facts then build lib (add_act [ActionDeletePod] b)
         else build lib b)"

definition agentOrPodTerminal ::
  "meta_lib \<Rightarrow> SandboxEnvironment \<Rightarrow> ClusterFacts \<Rightarrow> time \<Rightarrow> Phase \<Rightarrow> Decision option" where
  "agentOrPodTerminal lib env facts now phase =
     (if phase \<noteq> PhaseRestoring \<and> phase \<noteq> PhaseRunning then None
      else
        (case (if AgentFailed facts then Some (terminalOutcome lib env facts now PhaseFailed False)
               else if AgentDone facts then Some (terminalOutcome lib env facts now PhaseDone True)
               else if PodObserved facts \<and> PodFailure facts \<noteq> None
               then Some (terminalOutcome lib env facts now PhaseFailed False)
               else if PodObserved facts \<and> f_PodPhase facts = PodFailed
               then Some (terminalOutcome lib env facts now PhaseFailed False)
               else if PodObserved facts \<and> f_PodPhase facts = PodSucceeded
               then Some (terminalOutcome lib env facts now PhaseDone True)
               else None) of
           None \<Rightarrow> None
         | Some d \<Rightarrow>
             Some (if phase = PhaseRestoring \<and> st_Snapshot (Status env) \<noteq> None
                   then d\<lparr>d_StatusPatch := (d_StatusPatch d)\<lparr>IncrementWakeCount := True\<rparr>\<rparr>
                   else d)))"

definition hold ::
  "meta_lib \<Rightarrow> SandboxEnvironment \<Rightarrow> ClusterFacts \<Rightarrow> time \<Rightarrow> Phase \<Rightarrow> Decision" where
  "hold lib env facts now phase =
     build lib
       (add_cond ConditionReady ConditionUnknown ReasonClassNotResolved (ClassProblem facts)
       (set_slot (Granted (st_Slot (Status env)))
       (set_phase phase (newBuilder env facts now))))"

subsection \<open>One function per phase\<close>

definition nextPending :: "meta_lib \<Rightarrow> SandboxEnvironment \<Rightarrow> ClusterFacts \<Rightarrow> time \<Rightarrow> Decision" where
  "nextPending lib env facts now =
     (if ResourcesReady facts
      then build lib
             (add_patch (no_patch\<lparr>SetQueuedSince := newMetaTime lib now\<rparr>)
             (set_slot False (set_phase PhaseReady (newBuilder env facts now))))
      else build lib
             (add_cond ConditionScheduled ConditionFalse ReasonResourcesNotReady (ResourcesProblem facts)
             (add_act [ActionEnsureResources]
             (set_slot False (set_phase PhasePending (newBuilder env facts now))))))"

definition nextReady :: "meta_lib \<Rightarrow> SandboxEnvironment \<Rightarrow> ClusterFacts \<Rightarrow> time \<Rightarrow> Decision" where
  "nextReady lib env facts now =
     (if sp_Suspend (Spec env)
      then build lib
             (add_cond ConditionReady ConditionFalse ReasonSuspended []
             (set_slot False (set_phase PhaseReady (newBuilder env facts now))))
      else if SlotGranted facts
      then build lib
             (add_act [ActionEnsurePod]
             (set_slot True (set_phase PhaseRestoring (newBuilder env facts now))))
      else build lib
             (add_cond ConditionScheduled ConditionFalse ReasonQueued (queueMessage facts)
             (set_slot True (set_phase PhaseReady (newBuilder env facts now)))))"

definition nextRestoring :: "meta_lib \<Rightarrow> SandboxEnvironment \<Rightarrow> ClusterFacts \<Rightarrow> time \<Rightarrow> Decision" where
  "nextRestoring lib env facts now =
     (if sp_Suspend (Spec env)
      then build lib
             (add_act [ActionDeletePod]
             (set_slot False (set_phase PhaseReady (newBuilder env facts now))))
      else if \<not> SlotGranted facts
      then build lib
             (add_act [ActionDeletePod]
             (set_slot True (set_phase PhaseReady (newBuilder env facts now))))
      else if \<not> PodObserved facts
      then build lib
             (add_cond ConditionPodReady ConditionUnknown ReasonPodNotObserved []
             (add_act [ActionEnsurePod]
             (set_slot True (set_phase PhaseRestoring (newBuilder env facts now)))))
      else if f_PodPhase facts = PodRunning \<and> PodReady facts
      then build lib
             (add_cond ConditionPodReady ConditionTrue ReasonPodRunning []
             (add_patch (no_patch\<lparr>SetStartedAt := newMetaTime lib now,
                                  IncrementWakeCount := (st_Snapshot (Status env) \<noteq> None)\<rparr>)
             (set_slot True (set_phase PhaseRunning (newBuilder env facts now)))))
      else build lib
             (add_cond ConditionPodReady ConditionFalse
               (if \<not> PodExists facts then ReasonPodNotCreated else ReasonPodPending) []
             (add_act [ActionEnsurePod]
             (set_slot True (set_phase PhaseRestoring (newBuilder env facts now))))))"

definition nextRunning :: "meta_lib \<Rightarrow> SandboxEnvironment \<Rightarrow> ClusterFacts \<Rightarrow> time \<Rightarrow> Decision" where
  "nextRunning lib env facts now =
     (if AgentWaitDeclared facts \<or> st_WaitFor (Status env) \<noteq> None
      then build lib
             (add_act [ActionFreezePod]
             (set_slot True (set_phase PhaseFreezing (newBuilder env facts now))))
      else if sp_Suspend (Spec env)
      then build lib
             (add_act [ActionFreezePod]
             (set_slot True (set_phase PhaseFreezing (newBuilder env facts now))))
      else if \<not> PodObserved facts
      then build lib
             (add_cond ConditionReady ConditionTrue ReasonRunning []
             (add_cond ConditionPodReady ConditionUnknown ReasonPodNotObserved []
             (set_slot True (set_phase PhaseRunning (newBuilder env facts now)))))
      else build lib
             (add_cond ConditionReady ConditionTrue ReasonRunning []
             (add_cond ConditionPodReady ConditionTrue ReasonPodRunning []
             (set_slot True (set_phase PhaseRunning (newBuilder env facts now))))))"

definition nextFreezing :: "meta_lib \<Rightarrow> SandboxEnvironment \<Rightarrow> ClusterFacts \<Rightarrow> time \<Rightarrow> Decision" where
  "nextFreezing lib env facts now =
     (case SnapshotFailure facts of
        Some sf \<Rightarrow>
          build lib
            (add_cond ConditionReady ConditionFalse ReasonSnapshotFailed (sf_Message sf)
            (add_cond ConditionFrozen ConditionFalse ReasonSnapshotFailed (sf_Message sf)
            (set_slot True (set_phase PhaseFreezing (newBuilder env facts now)))))
      | None \<Rightarrow>
          if \<not> SnapshotComplete facts
          then build lib
                 (add_cond ConditionFrozen ConditionFalse ReasonSnapshotInProgress []
                 (add_act [ActionFreezePod]
                 (set_slot True (set_phase PhaseFreezing (newBuilder env facts now)))))
          else if PodExists facts
          then build lib
                 (add_cond ConditionFrozen ConditionFalse ReasonPodTerminating []
                 (add_act [ActionDeletePod]
                 (set_slot True (set_phase PhaseFreezing (newBuilder env facts now)))))
          else build lib
                 (add_cond ConditionFrozen ConditionTrue
                   (if st_WaitFor (Status env) \<noteq> None then ReasonWaitDeclared else ReasonSuspended) []
                 (add_patch (no_patch\<lparr>IncrementFreezeCount := True\<rparr>)
                 (set_slot False (set_phase PhaseWaiting (newBuilder env facts now))))))"

definition nextWaiting :: "meta_lib \<Rightarrow> SandboxEnvironment \<Rightarrow> ClusterFacts \<Rightarrow> time \<Rightarrow> Decision" where
  "nextWaiting lib env facts now =
     (if st_FinishedAt (Status env) \<noteq> None
      then build lib
             (set_slot False
             (set_phase (if st_TerminalPhase (Status env) = PhaseFailed then PhaseFailed else PhaseDone)
               (newBuilder env facts now)))
      else case WaitProbeFailure facts of
        Some sf \<Rightarrow>
          build lib
            (add_cond ConditionReady ConditionFalse
              (SanitizeReason (sf_Reason sf) StepFailureReasons ReasonProbeFailed) (sf_Message sf)
            (add_patch (no_patch\<lparr>SetFinishedAt := newMetaTime lib now,
                                 SetProbeAttempt := f_ProbeAttempt facts\<rparr>)
            (set_slot False (set_phase PhaseFailed (newBuilder env facts now)))))
      | None \<Rightarrow>
          if sp_Suspend (Spec env)
          then build lib
                 (add_cond ConditionReady ConditionFalse ReasonSuspended []
                 (set_slot False (set_phase PhaseWaiting (newBuilder env facts now))))
          else if st_WaitFor (Status env) = None
          then build lib
                 (set_slot True (set_phase PhaseReady (newBuilder env facts now)))
          else if \<not> ProbeObserved facts
          then build lib
                 (add_cond ConditionWaitSatisfied ConditionUnknown ReasonProbeNotEvaluated []
                 (set_slot False (set_phase PhaseWaiting (newBuilder env facts now))))
          else if WaitProbeSatisfied facts
          then build lib
                 (add_cond ConditionWaitSatisfied ConditionTrue ReasonProbeSatisfied []
                 (add_patch (no_patch\<lparr>ClearWaitFor := True,
                    SetProbeAttempt :=
                      map_option (\<lambda>a. a\<lparr>pa_Phase := ProbeAttemptSatisfied,
                                        pa_LastResult := ''satisfied''\<rparr>) (f_ProbeAttempt facts)\<rparr>)
                 (set_slot True (set_phase PhaseReady (newBuilder env facts now)))))
          else build lib
                 (add_cond ConditionWaitSatisfied ConditionFalse ReasonProbePending []
                 (add_patch (no_patch\<lparr>SetProbeAttempt := f_ProbeAttempt facts\<rparr>)
                 (set_slot False (set_phase PhaseWaiting (newBuilder env facts now))))))"

subsection \<open>The pipeline\<close>

definition dispatchPhase ::
  "meta_lib \<Rightarrow> SandboxEnvironment \<Rightarrow> ClusterFacts \<Rightarrow> time \<Rightarrow> Phase \<Rightarrow> Decision" where
  "dispatchPhase lib env facts now phase =
     (case phase of
        PhasePending \<Rightarrow> nextPending lib env facts now
      | PhaseReady \<Rightarrow> nextReady lib env facts now
      | PhaseRestoring \<Rightarrow> nextRestoring lib env facts now
      | PhaseRunning \<Rightarrow> nextRunning lib env facts now
      | PhaseFreezing \<Rightarrow> nextFreezing lib env facts now
      | PhaseWaiting \<Rightarrow> nextWaiting lib env facts now
      | _ \<Rightarrow> nextPending lib env facts now)"

definition decide ::
  "meta_lib \<Rightarrow> SandboxEnvironment \<Rightarrow> ClusterFacts \<Rightarrow> time \<Rightarrow> Phase \<Rightarrow> Decision" where
  "decide lib env facts now phase =
     (if isTerminal phase then terminal lib env facts now phase
      else case agentOrPodTerminal lib env facts now phase of
        Some d \<Rightarrow> d
      | None \<Rightarrow>
          if st_FinishedAt (Status env) \<noteq> None then dispatchPhase lib env facts now phase
          else case timeoutFired lib env facts now phase of
            Some d \<Rightarrow> d
          | None \<Rightarrow>
              if \<not> ClassResolved facts then hold lib env facts now phase
              else dispatchPhase lib env facts now phase)"

definition withEnsureResources :: "Action list \<Rightarrow> Phase \<Rightarrow> ClusterFacts \<Rightarrow> Action list" where
  "withEnsureResources actions phase facts =
     (if isTerminal phase \<or> \<not> ClassResolved facts then actions
      else if ActionEnsureResources \<in> set actions then actions
      else ActionEnsureResources # actions)"

definition current_phase :: "SandboxEnvironment \<Rightarrow> Phase" where
  "current_phase env = (if st_Phase (Status env) = PhaseUnset then PhasePending else st_Phase (Status env))"

definition Next :: "meta_lib \<Rightarrow> SandboxEnvironment \<Rightarrow> ClusterFacts \<Rightarrow> time \<Rightarrow> Decision" where
  "Next lib env facts now =
     (let d = decide lib env facts now (current_phase env)
      in d\<lparr>d_Actions := withEnsureResources (d_Actions d) (d_Phase d) facts,
           d_RequeueAfter := computeRequeueAfter lib (d_Phase d) env facts now\<rparr>)"


subsection \<open>Every decision is a builder's\<close>

text \<open>
  Every path of the pipeline ends in \<open>build\<close> on a builder for the same environment,
  facts and time, and the reasons it sets explicitly are declared ones.
\<close>

definition built_from ::
  "meta_lib \<Rightarrow> SandboxEnvironment \<Rightarrow> ClusterFacts \<Rightarrow> time \<Rightarrow> Decision \<Rightarrow> builder \<Rightarrow> bool" where
  "built_from lib env facts now d b \<longleftrightarrow>
     d_Conditions d = d_Conditions (build lib b) \<and> d_Phase d = b_ph b \<and>
     b_env b = env \<and> b_facts b = facts \<and> b_now b = now \<and>
     (\<forall>t v. b_explicit b t = Some v \<longrightarrow> fst (snd v) \<in> set AllReasons)"

definition built :: "meta_lib \<Rightarrow> SandboxEnvironment \<Rightarrow> ClusterFacts \<Rightarrow> time \<Rightarrow> Decision \<Rightarrow> bool" where
  "built lib env facts now d \<longleftrightarrow> (\<exists>b. built_from lib env facts now d b)"

lemma built_build:
  assumes "b_env b = env" "b_facts b = facts" "b_now b = now"
    and "\<And>t v. b_explicit b t = Some v \<Longrightarrow> fst (snd v) \<in> set AllReasons"
  shows "built lib env facts now (build lib b)"
  using assms unfolding built_def built_from_def by (intro exI [of _ b]) auto

lemma built_cong:
  "built lib env facts now d \<Longrightarrow> d_Conditions d' = d_Conditions d \<Longrightarrow> d_Phase d' = d_Phase d \<Longrightarrow>
   built lib env facts now d'"
  by (simp add: built_def built_from_def)

lemma firedTimeoutReason_in:
  "firedTimeoutReason lib env facts now phase = Some r \<Longrightarrow> r \<in> set AllReasons"
  by (auto simp: firedTimeoutReason_def split: if_splits)

lemma terminal_built: "built lib env facts now (terminal lib env facts now phase)"
  by (auto simp: terminal_def Let_def split: if_splits intro!: built_build)

lemma terminalOutcome_built: "built lib env facts now (terminalOutcome lib env facts now phase del)"
  by (auto simp: terminalOutcome_def Let_def intro!: built_build)

lemma agentOrPodTerminal_built:
  assumes "agentOrPodTerminal lib env facts now phase = Some d"
  shows "built lib env facts now d"
proof -
  from assms obtain ph del where
    "d_Conditions d = d_Conditions (terminalOutcome lib env facts now ph del)"
    "d_Phase d = d_Phase (terminalOutcome lib env facts now ph del)"
    by (auto simp: agentOrPodTerminal_def split: if_splits option.splits)
  then show ?thesis using built_cong [OF terminalOutcome_built] by blast
qed

lemma timeoutFired_built:
  "timeoutFired lib env facts now phase = Some d \<Longrightarrow> built lib env facts now d"
  by (auto simp: timeoutFired_def split: option.splits if_splits
      intro!: built_build dest: firedTimeoutReason_in)

lemma hold_built: "built lib env facts now (hold lib env facts now phase)"
  by (auto simp: hold_def split: if_splits intro!: built_build)

lemma nextPending_built: "built lib env facts now (nextPending lib env facts now)"
  by (auto simp: nextPending_def split: if_splits intro!: built_build)

lemma nextReady_built: "built lib env facts now (nextReady lib env facts now)"
  by (auto simp: nextReady_def split: if_splits intro!: built_build)

lemma nextRestoring_built: "built lib env facts now (nextRestoring lib env facts now)"
  by (auto simp: nextRestoring_def split: if_splits intro!: built_build)

lemma nextRunning_built: "built lib env facts now (nextRunning lib env facts now)"
  by (auto simp: nextRunning_def split: if_splits intro!: built_build)

lemma nextFreezing_built: "built lib env facts now (nextFreezing lib env facts now)"
  by (auto simp: nextFreezing_def split: option.splits if_splits intro!: built_build)

lemma nextWaiting_built: "built lib env facts now (nextWaiting lib env facts now)"
  by (auto simp: nextWaiting_def split: option.splits if_splits intro!: built_build)

lemmas next_phase_built =
  nextPending_built nextReady_built nextRestoring_built nextRunning_built
  nextFreezing_built nextWaiting_built

lemma dispatchPhase_built: "built lib env facts now (dispatchPhase lib env facts now phase)"
  by (cases phase) (simp_all add: dispatchPhase_def next_phase_built)

lemma decide_built: "built lib env facts now (decide lib env facts now phase)"
  by (auto simp: decide_def terminal_built hold_built dispatchPhase_built
      split: option.splits dest: agentOrPodTerminal_built timeoutFired_built)

lemma Next_fields [simp]:
  "d_Phase (Next lib env facts now) = d_Phase (decide lib env facts now (current_phase env))"
  "d_Conditions (Next lib env facts now) = d_Conditions (decide lib env facts now (current_phase env))"
  "d_SlotWanted (Next lib env facts now) = d_SlotWanted (decide lib env facts now (current_phase env))"
  "d_StatusPatch (Next lib env facts now) = d_StatusPatch (decide lib env facts now (current_phase env))"
  by (simp_all add: Next_def Let_def)

lemma Next_built: "built lib env facts now (Next lib env facts now)"
  by (rule built_cong [OF decide_built]) simp_all

lemma built_types: "built lib env facts now d \<Longrightarrow> map c_Type (d_Conditions d) = ConditionTypes"
  by (auto simp: built_def built_from_def)

lemma built_stamps:
  "built lib env facts now d \<Longrightarrow> c \<in> set (d_Conditions d) \<Longrightarrow>
   c_ObservedGeneration c = Generation env \<and> c_LastTransitionTime c = Rfc3339Copy lib now"
  by (auto simp: built_def built_from_def build_def)

lemma built_reasons:
  assumes "built lib env facts now d" and "reasons_closed lib env" and "c \<in> set (d_Conditions d)"
  shows "c_Reason c \<in> set AllReasons"
proof -
  from assms(1) obtain b where b: "built_from lib env facts now d b" by (auto simp: built_def)
  show ?thesis
  proof (rule build_reasons_closed [of lib b])
    show "reasons_closed lib (b_env b)" using b assms(2) by (simp add: built_from_def)
    show "c \<in> set (d_Conditions (build lib b))" using b assms(3) by (simp add: built_from_def)
    show "fst (snd v) \<in> set AllReasons" if "b_explicit b t = Some v" for t v
      using b that unfolding built_from_def by blast
  qed
qed

subsection \<open>Effects of each function on phase, slot and status delta\<close>

lemma terminal_effect:
  assumes "isTerminal phase"
  shows "d_StatusPatch (terminal lib env facts now phase) = terminal_patch lib facts now phase"
    "d_Phase (terminal lib env facts now phase) =
       (if \<not> ArchiveWritten facts \<and> st_Snapshot (Status env) = None \<and> PodAliveForArchive facts
        then PhaseFreezing else phase)"
    "d_SlotWanted (terminal lib env facts now phase) =
       (\<not> ArchiveWritten facts \<and> st_Snapshot (Status env) = None \<and> PodAliveForArchive facts)"
    "d_Actions (terminal lib env facts now phase) =
       (if \<not> ArchiveWritten facts
        then (if st_Snapshot (Status env) = None \<and> PodAliveForArchive facts
              then [ActionFreezePod] else [ActionArchive])
        else if phase = PhaseDone then [ActionDeletePod] else [])"
  by (simp_all add: terminal_def Let_def)

lemma terminalOutcome_effect:
  "d_Phase (terminalOutcome lib env facts now phase del) = phase"
  "\<not> d_SlotWanted (terminalOutcome lib env facts now phase del)"
  "d_StatusPatch (terminalOutcome lib env facts now phase del) =
     no_patch\<lparr>SetFinishedAt := newMetaTime lib now, SetTerminalPhase := phase\<rparr>"
  by (simp_all add: terminalOutcome_def Let_def)

lemma agentOrPodTerminal_effect:
  assumes "agentOrPodTerminal lib env facts now phase = Some d"
  shows "phase = PhaseRestoring \<or> phase = PhaseRunning" "isTerminal (d_Phase d)" "\<not> d_SlotWanted d"
    "d_StatusPatch d = no_patch\<lparr>SetFinishedAt := newMetaTime lib now, SetTerminalPhase := d_Phase d,
       IncrementWakeCount := (phase = PhaseRestoring \<and> st_Snapshot (Status env) \<noteq> None)\<rparr>"
  using assms
  by (auto simp: agentOrPodTerminal_def terminalOutcome_effect no_patch_def
      split: if_splits option.splits)

lemma hold_effect:
  "d_Phase (hold lib env facts now phase) = phase"
  "d_SlotWanted (hold lib env facts now phase) = Granted (st_Slot (Status env))"
  "d_StatusPatch (hold lib env facts now phase) = no_patch"
  "d_Actions (hold lib env facts now phase) = []"
  by (simp_all add: hold_def)

end
