(* ===== verification/Apply.thy ===== *)
theory Apply
  imports Next
begin

section \<open>Projecting a decision onto the status\<close>

text \<open>
  \<^verbatim>\<open>src/operator/internal/lifecycle/apply.go\<close>: the status that results from a decision.
  Timestamps and the terminal phase are set once, counters are int32 and wrap, the
  phase history keeps its newest 64 entries, and a slot is only ever released here.
\<close>

definition set_once :: "'a option \<Rightarrow> 'a option \<Rightarrow> 'a option" where
  "set_once new cur = (if new \<noteq> None \<and> cur = None then new else cur)"

definition phase_history ::
  "meta_lib \<Rightarrow> SandboxEnvironmentStatus \<Rightarrow> Decision \<Rightarrow> PhaseTransition list" where
  "phase_history lib s d =
     (if d_Phase d \<noteq> st_Phase s
      then (let reason = (case FindStatusCondition lib (d_Conditions d) ConditionReady of
                            Some c \<Rightarrow> c_Reason c | None \<Rightarrow> []);
                at = (case d_Conditions d of c # _ \<Rightarrow> c_LastTransitionTime c | [] \<Rightarrow> zero_time);
                h = st_PhaseHistory s @ [\<lparr>pt_Phase = d_Phase d, pt_At = at, pt_Reason = reason\<rparr>];
                n = length h
            in if n > MaxPhaseHistoryEntries then drop (n - MaxPhaseHistoryEntries) h else h)
      else st_PhaseHistory s)"

definition Apply :: "meta_lib \<Rightarrow> SandboxEnvironment \<Rightarrow> Decision \<Rightarrow> SandboxEnvironmentStatus" where
  "Apply lib env d =
     (let s = Status env; p = d_StatusPatch d
      in s\<lparr>st_Phase := d_Phase d,
           st_ObservedGeneration := Generation env,
           st_Conditions := fold (\<lambda>c cs. SetStatusCondition lib cs c) (d_Conditions d) (st_Conditions s),
           st_QueuedSince := set_once (SetQueuedSince p) (st_QueuedSince s),
           st_StartedAt := set_once (SetStartedAt p) (st_StartedAt s),
           st_FinishedAt := set_once (SetFinishedAt p) (st_FinishedAt s),
           st_FreezeCount := (if IncrementFreezeCount p then st_FreezeCount s + 1 else st_FreezeCount s),
           st_WakeCount := (if IncrementWakeCount p then st_WakeCount s + 1 else st_WakeCount s),
           st_WaitFor := (if ClearWaitFor p then None else st_WaitFor s),
           st_ArchiveURI := (if SetArchiveURI p \<noteq> [] then SetArchiveURI p else st_ArchiveURI s),
           st_TerminalPhase := (if SetTerminalPhase p \<noteq> PhaseUnset \<and> st_TerminalPhase s = PhaseUnset
                                then SetTerminalPhase p else st_TerminalPhase s),
           st_ProbeAttempt := (if SetProbeAttempt p \<noteq> None then SetProbeAttempt p else st_ProbeAttempt s),
           st_PhaseHistory := phase_history lib s d,
           st_Slot := (if \<not> d_SlotWanted d then no_slot else st_Slot s)\<rparr>)"

subsection \<open>Field by field\<close>

lemma Apply_fields [simp]:
  "st_Phase (Apply lib env d) = d_Phase d"
  "st_ObservedGeneration (Apply lib env d) = Generation env"
  "st_Conditions (Apply lib env d) =
     fold (\<lambda>c cs. SetStatusCondition lib cs c) (d_Conditions d) (st_Conditions (Status env))"
  "st_QueuedSince (Apply lib env d) = set_once (SetQueuedSince (d_StatusPatch d)) (st_QueuedSince (Status env))"
  "st_StartedAt (Apply lib env d) = set_once (SetStartedAt (d_StatusPatch d)) (st_StartedAt (Status env))"
  "st_FinishedAt (Apply lib env d) = set_once (SetFinishedAt (d_StatusPatch d)) (st_FinishedAt (Status env))"
  "st_PhaseHistory (Apply lib env d) = phase_history lib (Status env) d"
  "st_Slot (Apply lib env d) = (if \<not> d_SlotWanted d then no_slot else st_Slot (Status env))"
  "st_AgentResult (Apply lib env d) = st_AgentResult (Status env)"
  "st_Snapshot (Apply lib env d) = st_Snapshot (Status env)"
  "st_SnapshotAttempt (Apply lib env d) = st_SnapshotAttempt (Status env)"
  "st_RestoreAttempt (Apply lib env d) = st_RestoreAttempt (Status env)"
  "st_Archive (Apply lib env d) = st_Archive (Status env)"
  "st_GitState (Apply lib env d) = st_GitState (Status env)"
  by (simp_all add: Apply_def Let_def)

lemma Apply_TerminalPhase:
  "st_TerminalPhase (Apply lib env d) =
     (if SetTerminalPhase (d_StatusPatch d) \<noteq> PhaseUnset \<and> st_TerminalPhase (Status env) = PhaseUnset
      then SetTerminalPhase (d_StatusPatch d) else st_TerminalPhase (Status env))"
  by (simp add: Apply_def Let_def)

lemma Apply_WaitFor:
  "st_WaitFor (Apply lib env d) =
     (if ClearWaitFor (d_StatusPatch d) then None else st_WaitFor (Status env))"
  by (simp add: Apply_def Let_def)

lemma Apply_counts:
  "st_FreezeCount (Apply lib env d) =
     (if IncrementFreezeCount (d_StatusPatch d) then st_FreezeCount (Status env) + 1
      else st_FreezeCount (Status env))"
  "st_WakeCount (Apply lib env d) =
     (if IncrementWakeCount (d_StatusPatch d) then st_WakeCount (Status env) + 1
      else st_WakeCount (Status env))"
  by (simp_all add: Apply_def Let_def)

lemma Apply_ProbeAttempt:
  "st_ProbeAttempt (Apply lib env d) =
     (if SetProbeAttempt (d_StatusPatch d) \<noteq> None then SetProbeAttempt (d_StatusPatch d)
      else st_ProbeAttempt (Status env))"
  by (simp add: Apply_def Let_def)

lemma set_once_simps [simp]:
  "set_once new (Some x) = Some x" "set_once None cur = cur" "set_once (Some x) None = Some x"
  by (simp_all add: set_once_def)

lemma set_once_eq_None [simp]: "set_once new cur = None \<longleftrightarrow> new = None \<and> cur = None"
  by (auto simp: set_once_def)

subsection \<open>The phase history is bounded\<close>

lemma phase_history_length:
  "length (st_PhaseHistory s) \<le> MaxPhaseHistoryEntries \<Longrightarrow>
   length (phase_history lib s d) \<le> MaxPhaseHistoryEntries"
  by (auto simp: phase_history_def Let_def)

lemma phase_history_last:
  "d_Phase d \<noteq> st_Phase s \<Longrightarrow>
   phase_history lib s d \<noteq> [] \<and> pt_Phase (last (phase_history lib s d)) = d_Phase d"
  by (auto simp: phase_history_def Let_def MaxPhaseHistoryEntries_def)

end
