(* ===== verification/Lifecycle.thy ===== *)
theory Lifecycle
  imports Apply
begin

section \<open>What the state machine promises\<close>

text \<open>
  Properties of \<open>Next\<close> and \<open>Apply\<close> together: the transition diagram of
  \<^verbatim>\<open>src/operator/README.md\<close> as an abstract specification that every decision refines,
  the protection of the agent's work, timeouts, requeueing, the detour that captures a
  finished run's home directory, and the record that is written once.
\<close>

subsection \<open>The stages of the pipeline\<close>

lemma decide_cases [case_names terminal completed detour timeout held dispatched]:
  obtains "isTerminal p" "decide lib env facts now p = terminal lib env facts now p"
  | d where "\<not> isTerminal p" "agentOrPodTerminal lib env facts now p = Some d"
      "decide lib env facts now p = d"
  | "\<not> isTerminal p" "agentOrPodTerminal lib env facts now p = None"
      "st_FinishedAt (Status env) \<noteq> None"
      "decide lib env facts now p = dispatchPhase lib env facts now p"
  | d where "\<not> isTerminal p" "agentOrPodTerminal lib env facts now p = None"
      "st_FinishedAt (Status env) = None" "timeoutFired lib env facts now p = Some d"
      "decide lib env facts now p = d"
  | "\<not> isTerminal p" "agentOrPodTerminal lib env facts now p = None"
      "st_FinishedAt (Status env) = None" "timeoutFired lib env facts now p = None"
      "\<not> ClassResolved facts" "decide lib env facts now p = hold lib env facts now p"
  | "\<not> isTerminal p" "agentOrPodTerminal lib env facts now p = None"
      "st_FinishedAt (Status env) = None" "timeoutFired lib env facts now p = None"
      "ClassResolved facts" "decide lib env facts now p = dispatchPhase lib env facts now p"
  by (cases "isTerminal p"; cases "agentOrPodTerminal lib env facts now p";
      cases "st_FinishedAt (Status env)"; cases "timeoutFired lib env facts now p";
      cases "ClassResolved facts") (simp_all add: decide_def)

lemmas phase_function_defs =
  nextPending_def nextReady_def nextRestoring_def nextRunning_def nextFreezing_def nextWaiting_def

subsection \<open>The documented transition diagram\<close>

definition archive_detour :: "SandboxEnvironment \<Rightarrow> ClusterFacts \<Rightarrow> bool" where
  "archive_detour env facts \<longleftrightarrow>
     \<not> ArchiveWritten facts \<and> st_Snapshot (Status env) = None \<and> PodAliveForArchive facts"

text \<open>
  The guard the documentation puts on each edge. Two edges the diagram does not draw are
  those of \<^verbatim>\<open>nextRestoring\<close> back to Ready and of an unevaluable probe to Failed.
\<close>

definition fails ::
  "meta_lib \<Rightarrow> SandboxEnvironment \<Rightarrow> ClusterFacts \<Rightarrow> time \<Rightarrow> Phase \<Rightarrow> bool" where
  "fails lib env facts now p \<longleftrightarrow>
     firedTimeoutReason lib env facts now p \<noteq> None
     \<or> (p = PhaseRestoring \<or> p = PhaseRunning) \<and>
       (AgentFailed facts \<or> PodObserved facts \<and> (PodFailure facts \<noteq> None \<or> f_PodPhase facts = PodFailed))
     \<or> p = PhaseWaiting \<and> WaitProbeFailure facts \<noteq> None"

definition edge_guard ::
  "meta_lib \<Rightarrow> SandboxEnvironment \<Rightarrow> ClusterFacts \<Rightarrow> time \<Rightarrow> Phase \<Rightarrow> Phase \<Rightarrow> bool" where
  "edge_guard lib env facts now p q =
     (case q of
        PhaseReady \<Rightarrow>
          p = PhasePending \<and> ResourcesReady facts
          \<or> p = PhaseRestoring \<and> (sp_Suspend (Spec env) \<or> \<not> SlotGranted facts)
          \<or> p = PhaseWaiting \<and> st_FinishedAt (Status env) = None \<and> \<not> sp_Suspend (Spec env) \<and>
            (st_WaitFor (Status env) = None \<or> ProbeObserved facts \<and> WaitProbeSatisfied facts)
      | PhaseRestoring \<Rightarrow> p = PhaseReady \<and> SlotGranted facts \<and> \<not> sp_Suspend (Spec env)
      | PhaseRunning \<Rightarrow>
          p = PhaseRestoring \<and> SlotGranted facts \<and>
          PodObserved facts \<and> f_PodPhase facts = PodRunning \<and> PodReady facts
      | PhaseFreezing \<Rightarrow>
          p = PhaseRunning \<and>
          (AgentWaitDeclared facts \<or> st_WaitFor (Status env) \<noteq> None \<or> sp_Suspend (Spec env))
          \<or> isTerminal p \<and> archive_detour env facts
      | PhaseWaiting \<Rightarrow>
          p = PhaseFreezing \<and> SnapshotFailure facts = None \<and> SnapshotComplete facts \<and> \<not> PodExists facts
      | PhaseDone \<Rightarrow>
          (p = PhaseRestoring \<or> p = PhaseRunning) \<and> \<not> AgentFailed facts \<and>
          (AgentDone facts \<or> PodObserved facts \<and> f_PodPhase facts = PodSucceeded)
          \<or> p = PhaseWaiting \<and> st_FinishedAt (Status env) \<noteq> None \<and> st_TerminalPhase (Status env) \<noteq> PhaseFailed
      | PhaseFailed \<Rightarrow>
          if p = PhaseWaiting \<and> st_FinishedAt (Status env) \<noteq> None
          then st_TerminalPhase (Status env) = PhaseFailed
          else \<not> isTerminal p \<and> fails lib env facts now p
      | _ \<Rightarrow> False)"

lemma agentOrPodTerminal_guard:
  assumes "agentOrPodTerminal lib env facts now p = Some d" and "p \<noteq> d_Phase d"
  shows "edge_guard lib env facts now p (d_Phase d)"
  using assms
  by (auto simp: agentOrPodTerminal_def terminalOutcome_effect edge_guard_def fails_def
      split: if_splits option.splits)

lemma timeoutFired_guard:
  assumes "timeoutFired lib env facts now p = Some d" and "\<not> isTerminal p"
    and "st_FinishedAt (Status env) = None"
  shows "edge_guard lib env facts now p (d_Phase d)"
  using assms timeoutFired_decision [OF assms(1)]
  by (auto simp: timeoutFired_def edge_guard_def fails_def split: option.splits)

lemma dispatchPhase_guard:
  assumes "p \<in> set AllPhases" and "\<not> isTerminal p"
  shows "d_Phase (dispatchPhase lib env facts now p) = p \<or>
    edge_guard lib env facts now p (d_Phase (dispatchPhase lib env facts now p))"
  using assms
  by (cases p)
    (auto simp: dispatchPhase_def phase_function_defs AllPhases_def edge_guard_def fails_def split: option.splits if_splits)

text \<open>
  C2: every decision refines the documented transition diagram: the phase stays, or it
  moves along an edge of the diagram whose documented guard holds of the environment and the
  observed facts.
\<close>

theorem Next_refines_diagram:
  assumes "current_phase env \<in> set AllPhases"
  shows "d_Phase (Next lib env facts now) = current_phase env
         \<or> edge_guard lib env facts now (current_phase env) (d_Phase (Next lib env facts now))"
proof (cases rule: decide_cases [of "current_phase env" lib env facts now])
  case terminal
  then show ?thesis by (simp add: terminal_effect archive_detour_def edge_guard_def)
next
  case (completed d)
  then show ?thesis using agentOrPodTerminal_guard by fastforce
next
  case detour
  then show ?thesis using dispatchPhase_guard [OF assms, of lib env facts now] by auto
next
  case (timeout d)
  then show ?thesis using timeoutFired_guard by fastforce
next
  case held
  then show ?thesis by (simp add: hold_effect)
next
  case dispatched
  then show ?thesis using dispatchPhase_guard [OF assms, of lib env facts now] by auto
qed

subsection \<open>The agent's work is not lost\<close>

lemma set_withEnsureResources:
  "a \<in> set (withEnsureResources as p facts) \<longleftrightarrow>
     a \<in> set as \<or> a = ActionEnsureResources \<and> \<not> isTerminal p \<and> ClassResolved facts"
  by (auto simp: withEnsureResources_def)

lemma Next_actions:
  "d_Actions (Next lib env facts now) =
     withEnsureResources (d_Actions (decide lib env facts now (current_phase env)))
       (d_Phase (decide lib env facts now (current_phase env))) facts"
  by (simp add: Next_def Let_def)

lemma agentOrPodTerminal_actions:
  "agentOrPodTerminal lib env facts now p = Some d \<Longrightarrow> a \<in> set (d_Actions d) \<Longrightarrow>
   a = ActionDeletePod \<and> ArchiveWritten facts \<and> d_Phase d = PhaseDone \<and> (p = PhaseRestoring \<or> p = PhaseRunning)"
  by (auto simp: agentOrPodTerminal_def terminalOutcome_def Let_def split: if_splits option.splits)

definition may_delete_pod :: "SandboxEnvironment \<Rightarrow> ClusterFacts \<Rightarrow> Phase \<Rightarrow> Phase \<Rightarrow> bool" where
  "may_delete_pod env facts p q \<longleftrightarrow>
     p = PhaseFreezing \<and> SnapshotComplete facts \<and> SnapshotFailure facts = None
     \<or> q = PhaseDone \<and> ArchiveWritten facts
     \<or> p = PhaseRestoring \<and> q = PhaseReady \<and> (sp_Suspend (Spec env) \<or> \<not> SlotGranted facts)"

lemma dispatchPhase_deletes:
  "ActionDeletePod \<in> set (d_Actions (dispatchPhase lib env facts now p)) \<Longrightarrow>
   may_delete_pod env facts p (d_Phase (dispatchPhase lib env facts now p))"
  by (cases p)
    (auto simp: dispatchPhase_def phase_function_defs may_delete_pod_def split: option.splits if_splits)

text \<open>
  C4: the pod, and with it the agent's home directory, is deleted only when a completed
  snapshot holds it, when the run is done and its archive is written, or when a restore is
  called off before the agent started.
\<close>

theorem Next_deletes_pod_safely:
  assumes "ActionDeletePod \<in> set (d_Actions (Next lib env facts now))"
  shows "may_delete_pod env facts (current_phase env) (d_Phase (Next lib env facts now))"
proof (cases rule: decide_cases [of "current_phase env" lib env facts now])
  case terminal
  with assms show ?thesis
    by (auto simp: Next_actions set_withEnsureResources terminal_effect may_delete_pod_def split: if_splits)
next
  case (completed d)
  with assms agentOrPodTerminal_actions [OF completed(2)] show ?thesis
    by (auto simp: Next_actions set_withEnsureResources may_delete_pod_def)
next
  case detour
  with assms dispatchPhase_deletes show ?thesis by (auto simp: Next_actions set_withEnsureResources)
next
  case (timeout d)
  with assms timeoutFired_decision [OF timeout(4)] show ?thesis
    by (simp add: Next_actions set_withEnsureResources)
next
  case held
  with assms show ?thesis by (simp add: Next_actions set_withEnsureResources hold_effect)
next
  case dispatched
  with assms dispatchPhase_deletes show ?thesis by (auto simp: Next_actions set_withEnsureResources)
qed

subsection \<open>Completion and timeouts\<close>

lemma agentOrPodTerminal_reported:
  assumes "p \<in> {PhaseRestoring, PhaseRunning}" and "AgentFailed facts \<or> AgentDone facts"
  shows "\<exists>d. agentOrPodTerminal lib env facts now p = Some d
             \<and> d_Phase d = (if AgentFailed facts then PhaseFailed else PhaseDone)"
  using assms
  by (cases "AgentFailed facts") (auto simp: agentOrPodTerminal_def terminalOutcome_effect)

text \<open>
  An agent that reports its result while its pod is starting or running decides the
  outcome, whatever the clocks, the class and the wait declarations say: the environment
  becomes Failed or Done as reported, the slot is released and the finish time is recorded.
\<close>

theorem completion_beats_timeouts:
  assumes "current_phase env \<in> {PhaseRestoring, PhaseRunning}"
    and "AgentFailed facts \<or> AgentDone facts"
  shows "d_Phase (Next lib env facts now) = (if AgentFailed facts then PhaseFailed else PhaseDone)
         \<and> \<not> Granted (st_Slot (Apply lib env (Next lib env facts now)))
         \<and> st_FinishedAt (Apply lib env (Next lib env facts now)) \<noteq> None
         \<and> (st_TerminalPhase (Status env) = PhaseUnset \<longrightarrow>
              st_TerminalPhase (Apply lib env (Next lib env facts now)) = d_Phase (Next lib env facts now))"
proof -
  from agentOrPodTerminal_reported [OF assms] obtain d
    where d: "agentOrPodTerminal lib env facts now (current_phase env) = Some d"
    and "d_Phase d = (if AgentFailed facts then PhaseFailed else PhaseDone)" by blast
  moreover have "decide lib env facts now (current_phase env) = d"
    using assms(1) d by (auto simp: decide_def)
  ultimately show ?thesis
    using agentOrPodTerminal_effect [OF d]
    by (simp add: Apply_TerminalPhase no_slot_def newMetaTime_def)
qed

text \<open>
  No environment outlives its total timeout: at the first reconcile at or after its
  deadline, an unfinished environment whose agent and pod have not completed becomes Failed
  with reason TotalTimeoutExceeded and gives its slot back, in every phase, whether or not the
  class resolves.
\<close>

theorem total_timeout_fails_run:
  assumes "0 < to_Total (f_Timeouts facts)" and "to_Total (f_Timeouts facts) \<le> max_duration"
    and "CreationTimestamp env + to_Total (f_Timeouts facts) \<le> now"
    and "\<not> isTerminal (current_phase env)" and "st_FinishedAt (Status env) = None"
    and "agentOrPodTerminal lib env facts now (current_phase env) = None"
  shows "d_Phase (Next lib env facts now) = PhaseFailed
         \<and> \<not> Granted (st_Slot (Apply lib env (Next lib env facts now)))
         \<and> st_FinishedAt (Apply lib env (Next lib env facts now)) = Some (Rfc3339Copy lib now)
         \<and> (\<exists>c \<in> set (d_Conditions (Next lib env facts now)).
              c_Type c = ConditionReady \<and> c_Status c = ConditionFalse
              \<and> c_Reason c = ReasonTotalTimeoutExceeded)"
proof -
  have "clock_fired (Some (CreationTimestamp env)) (to_Total (f_Timeouts facts)) now"
    using assms(1-3) by (simp add: clock_fired_iff clock_deadline_def)
  then have "firedTimeoutReason lib env facts now (current_phase env) = Some ReasonTotalTimeoutExceeded"
    by (simp add: firedTimeoutReason_def)
  then obtain d b where d: "timeoutFired lib env facts now (current_phase env) = Some d"
    and b: "d = build lib b" "b_explicit b ConditionReady = Some (ConditionFalse, ReasonTotalTimeoutExceeded, [])"
    by (auto simp: timeoutFired_def)
  have "build_condition lib b ConditionReady \<in> set (d_Conditions d)"
    by (simp add: b build_def ConditionTypes_def)
  moreover have "decide lib env facts now (current_phase env) = d"
    using assms(4-6) d by (simp add: decide_def)
  ultimately show ?thesis
    using timeoutFired_decision [OF d] build_condition_explicit [OF b(2)] assms(5)
    by (auto simp: no_slot_def newMetaTime_def intro!: bexI [of _ "build_condition lib b ConditionReady"])
qed

text \<open>
  C35: when an environment is reconciled again. In a terminal phase, after the archive interval
  until the archive is written, then not by itself; while its class does not resolve, after the fixed
  short interval; otherwise either not by itself, when no timeout applies, or between one second
  and five minutes later. With a total timeout set it is the latter, and no later than the total
  deadline, or one second from now when that has passed.
\<close>

theorem requeue_meets_deadline:
  "(let p = d_Phase (Next lib env facts now); r = d_RequeueAfter (Next lib env facts now)
    in if isTerminal p then r = (if ArchiveWritten facts then 0 else TerminalArchiveRequeue)
       else if \<not> ClassResolved facts then r = ClassUnresolvedRequeue
       else (r = 0 \<or> MinRequeueAfter \<le> r \<and> r \<le> MaxRequeueAfter) \<and>
            (0 < to_Total (f_Timeouts facts) \<longrightarrow>
               MinRequeueAfter \<le> r \<and> r \<le> MaxRequeueAfter \<and>
               now + r \<le> max (now + MinRequeueAfter) (CreationTimestamp env + to_Total (f_Timeouts facts))))"
proof -
  define p where "p = d_Phase (Next lib env facts now)"
  have req: "d_RequeueAfter (Next lib env facts now) = computeRequeueAfter lib p env facts now"
    by (simp add: p_def Next_def Let_def)
  have clamp: "MinRequeueAfter \<le> clampDuration d MinRequeueAfter MaxRequeueAfter \<and> clampDuration d MinRequeueAfter MaxRequeueAfter \<le> MaxRequeueAfter" for d
    by (rule clampDuration_bounds) (simp add: requeue_defs)
  have total: "now + computeRequeueAfter lib p env facts now
      \<le> max (now + MinRequeueAfter) (CreationTimestamp env + to_Total (f_Timeouts facts)) \<and>
      MinRequeueAfter \<le> computeRequeueAfter lib p env facts now"
    if set: "0 < to_Total (f_Timeouts facts)" and live: "ClassResolved facts" "\<not> isTerminal p"
  proof -
    obtain dl where dl: "nextTimeoutDeadline lib env facts p = Some dl"
      "dl \<le> CreationTimestamp env + to_Total (f_Timeouts facts)"
      using nextTimeoutDeadline_total [OF set, of env lib p]
      by (auto simp: deadline_by_def split: option.splits)
    then have eq: "computeRequeueAfter lib p env facts now =
        clampDuration (time_Sub dl now) MinRequeueAfter MaxRequeueAfter"
      using live by (simp add: computeRequeueAfter_def)
    have "time_Sub dl now \<le> max (dl - now) MinRequeueAfter"
      by (auto simp: time_Sub_def min_duration_def requeue_defs)
    then have "clampDuration (time_Sub dl now) MinRequeueAfter MaxRequeueAfter \<le> max (dl - now) MinRequeueAfter"
      by (auto simp: clampDuration_def requeue_defs)
    then show ?thesis using clamp [of "time_Sub dl now"] dl(2) unfolding eq max_def by (simp split: if_splits)
  qed
  have range: "computeRequeueAfter lib p env facts now = 0 \<or>
      MinRequeueAfter \<le> computeRequeueAfter lib p env facts now \<and> computeRequeueAfter lib p env facts now \<le> MaxRequeueAfter"
    if "ClassResolved facts" "\<not> isTerminal p"
    using that clamp by (simp add: computeRequeueAfter_def split: option.split)
  show ?thesis
    unfolding Let_def req p_def [symmetric] using total range by (auto simp: computeRequeueAfter_def requeue_defs)
qed

subsection \<open>Conditions\<close>

text \<open>
  Every decision carries all six lifecycle conditions, once each and in the declared
  order, each stamped with the generation it was computed for and with the decision's time.
\<close>

theorem Next_conditions_complete:
  "map c_Type (d_Conditions (Next lib env facts now)) = ConditionTypes
   \<and> map c_ObservedGeneration (d_Conditions (Next lib env facts now)) =
       replicate (length ConditionTypes) (Generation env)
   \<and> map c_LastTransitionTime (d_Conditions (Next lib env facts now)) =
       replicate (length ConditionTypes) (Rfc3339Copy lib now)"
proof -
  have types: "map c_Type (d_Conditions (Next lib env facts now)) = ConditionTypes"
    by (rule built_types [OF Next_built])
  then have "length (d_Conditions (Next lib env facts now)) = length ConditionTypes"
    by (metis length_map)
  then show ?thesis
    using types built_stamps [OF Next_built [of lib env facts now]]
    by (intro conjI map_eq_replicate) blast+
qed

definition reconciled ::
  "meta_lib \<Rightarrow> SandboxEnvironment \<Rightarrow> ClusterFacts \<Rightarrow> time \<Rightarrow> SandboxEnvironment" where
  "reconciled lib env facts now = env\<lparr>Status := Apply lib env (Next lib env facts now)\<rparr>"

text \<open>
  The reasons an environment shows its users are those of the declared list: a
  decision for an environment whose stored reasons are declared carries declared reasons
  only, and the status it is applied to stays that way.
\<close>

theorem reasons_stay_declared:
  assumes "status_conditions lib" and "reasons_closed lib env"
  shows "c_Reason ` set (d_Conditions (Next lib env facts now)) \<subseteq> set AllReasons
         \<and> reasons_closed lib (reconciled lib env facts now)"
proof
  let ?cs = "d_Conditions (Next lib env facts now)"
  show reasons: "c_Reason ` set ?cs \<subseteq> set AllReasons"
    using built_reasons [OF Next_built assms(2)] by auto
  have types: "map c_Type ?cs = ConditionTypes" by (rule built_types [OF Next_built])
  have "case FindStatusCondition lib (st_Conditions (Status (reconciled lib env facts now))) t of
          None \<Rightarrow> True | Some c \<Rightarrow> c_Reason c \<in> set AllReasons" if "t \<in> set ConditionTypes" for t
  proof -
    from that types obtain c where c: "c \<in> set ?cs" "c_Type c = t" by (metis imageE list.set_map)
    have dist: "distinct (map c_Type ?cs)" using types distinct_ConditionTypes by simp
    have "\<exists>ltt. FindStatusCondition lib (st_Conditions (Status (reconciled lib env facts now))) t =
        Some (c\<lparr>c_LastTransitionTime := ltt\<rparr>)"
      unfolding reconciled_def
      using status_conditions.fold_set_same [OF assms(1) dist c(1), of "st_Conditions (Status env)"] c(2)
      by simp
    moreover have "c_Reason c \<in> set AllReasons" using reasons c(1) by blast
    ultimately show ?thesis by auto
  qed
  then show "reasons_closed lib (reconciled lib env facts now)"
    by (simp add: reasons_closed_def list_all_iff)
qed

subsection \<open>An unobserved world\<close>

text \<open>
  When nothing could be observed (the class does not resolve, no pod was read, no agent
  result is known) and no timeout has passed, an unfinished environment keeps its phase, its
  slot and its whole record, and no action is taken.
\<close>

theorem unobserved_world_changes_nothing:
  assumes "\<not> ClassResolved facts" and "\<not> PodObserved facts"
    and "\<not> AgentFailed facts" and "\<not> AgentDone facts"
    and "firedTimeoutReason lib env facts now (current_phase env) = None"
    and "\<not> isTerminal (current_phase env)" and "st_FinishedAt (Status env) = None"
  shows "d_Phase (Next lib env facts now) = current_phase env
         \<and> d_Actions (Next lib env facts now) = []
         \<and> d_StatusPatch (Next lib env facts now) = no_patch
         \<and> Granted (st_Slot (Apply lib env (Next lib env facts now))) = Granted (st_Slot (Status env))
         \<and> d_RequeueAfter (Next lib env facts now) = ClassUnresolvedRequeue"
proof -
  have "decide lib env facts now (current_phase env) = hold lib env facts now (current_phase env)"
    using assms by (simp add: decide_def agentOrPodTerminal_def timeoutFired_def)
  then show ?thesis
    using assms(1,6)
    by (simp add: hold_effect Next_def Let_def withEnsureResources_def computeRequeueAfter_def no_slot_def)
qed

subsection \<open>The archive detour\<close>

definition freeze_done :: "ClusterFacts \<Rightarrow> bool" where
  "freeze_done facts \<longleftrightarrow> SnapshotFailure facts = None \<and> SnapshotComplete facts \<and> \<not> PodExists facts"

definition run_passes ::
  "meta_lib \<Rightarrow> SandboxEnvironment \<Rightarrow> (ClusterFacts \<times> time) list \<Rightarrow> SandboxEnvironment" where
  "run_passes lib env passes = fold (\<lambda>(facts, now) e. reconciled lib e facts now) passes env"

lemma reconciled_Status: "Status (reconciled lib env facts now) = Apply lib env (Next lib env facts now)"
  by (simp add: reconciled_def)

lemma current_phase_known: "st_Phase (Status env) = p \<Longrightarrow> p \<noteq> PhaseUnset \<Longrightarrow> current_phase env = p"
  by (simp add: current_phase_def)

text \<open>The state of an environment in the detour: its outcome and finish time are recorded.\<close>

definition in_detour :: "Phase \<Rightarrow> time option \<Rightarrow> Phase \<Rightarrow> SandboxEnvironment \<Rightarrow> bool" where
  "in_detour p fin q env \<longleftrightarrow>
     st_Phase (Status env) = q \<and> st_TerminalPhase (Status env) = p \<and>
     fin \<noteq> None \<and> st_FinishedAt (Status env) = fin"

lemma detour_enter:
  assumes "isTerminal p" and "st_Phase (Status env) = p" and "st_TerminalPhase (Status env) \<in> {PhaseUnset, p}"
    and "archive_detour env facts"
  shows "in_detour p (set_once (newMetaTime lib now) (st_FinishedAt (Status env))) PhaseFreezing
           (reconciled lib env facts now)"
proof -
  have "p \<noteq> PhaseUnset" using assms(1) by auto
  then have "current_phase env = p" using assms(2) by (simp add: current_phase_known)
  then have dec: "decide lib env facts now (current_phase env) = terminal lib env facts now p"
    using assms(1) by (simp add: decide_def)
  show ?thesis
    unfolding in_detour_def reconciled_Status
    using assms \<open>p \<noteq> PhaseUnset\<close>
    by (auto simp: dec terminal_effect terminal_patch_def archive_detour_def Apply_TerminalPhase newMetaTime_def)
qed

lemma detour_decide:
  assumes "in_detour p fin q env" and "q = PhaseFreezing \<or> q = PhaseWaiting"
  shows "decide lib env facts now (current_phase env) = dispatchPhase lib env facts now q"
proof -
  have "current_phase env = q" using assms by (auto simp: in_detour_def current_phase_def)
  moreover have "agentOrPodTerminal lib env facts now q = None" "\<not> isTerminal q"
    using assms(2) by (auto simp: agentOrPodTerminal_def)
  moreover have "st_FinishedAt (Status env) \<noteq> None" using assms(1) by (simp add: in_detour_def)
  ultimately show ?thesis by (simp add: decide_def)
qed

lemma detour_freezing:
  assumes "in_detour p fin PhaseFreezing env"
  shows "in_detour p fin (if freeze_done facts then PhaseWaiting else PhaseFreezing)
           (reconciled lib env facts now)"
proof -
  have "decide lib env facts now (current_phase env) = nextFreezing lib env facts now"
    using detour_decide [OF assms] by (simp add: dispatchPhase_def)
  then show ?thesis
    using assms unfolding in_detour_def reconciled_Status
    by (auto simp: nextFreezing_def freeze_done_def Apply_TerminalPhase split: option.splits)
qed

lemma detour_return:
  assumes "in_detour p fin PhaseWaiting env" and "isTerminal p"
  shows "in_detour p fin p (reconciled lib env facts now)"
proof -
  have "decide lib env facts now (current_phase env) = nextWaiting lib env facts now"
    using detour_decide [OF assms(1)] by (simp add: dispatchPhase_def)
  then show ?thesis
    using assms unfolding in_detour_def reconciled_Status
    by (auto simp: nextWaiting_def isTerminal_def Apply_TerminalPhase)
qed

lemma detour_freezing_passes:
  assumes "in_detour p fin PhaseFreezing env" and "list_all (\<lambda>(facts, now). \<not> freeze_done facts) passes"
  shows "in_detour p fin PhaseFreezing (run_passes lib env passes)"
  using assms
proof (induction passes arbitrary: env)
  case Nil
  then show ?case by (simp add: run_passes_def)
next
  case (Cons x passes)
  then show ?case
    using detour_freezing [of p fin env "fst x" lib "snd x"]
    by (cases x) (simp add: run_passes_def)
qed

text \<open>
  C8: the archive detour comes back. A Done or Failed environment that is sent to Freezing to
  capture its home directory stays there for any number of passes while the snapshot is
  unfinished, and once it is complete and the pod is gone, two more passes return it to the
  terminal phase it came from, with the recorded outcome and finish time kept.
\<close>

theorem archive_detour_returns:
  assumes "isTerminal p" and "st_Phase (Status env) = p"
    and "st_TerminalPhase (Status env) \<in> {PhaseUnset, p}"
    and "archive_detour env facts"
    and "list_all (\<lambda>(f, t). \<not> freeze_done f) passes" and "freeze_done facts'"
  shows "(let env' = run_passes lib env ([(facts, now)] @ passes @ [(facts', now'), (facts'', now'')])
          in st_Phase (Status env') = p \<and> st_TerminalPhase (Status env') = p
             \<and> st_FinishedAt (Status env') = set_once (newMetaTime lib now) (st_FinishedAt (Status env)))"
proof -
  let ?fin = "set_once (newMetaTime lib now) (st_FinishedAt (Status env))"
  let ?e1 = "run_passes lib (reconciled lib env facts now) passes"
  have "in_detour p ?fin PhaseFreezing ?e1"
    using detour_freezing_passes [OF detour_enter [OF assms(1-4)] assms(5)] .
  then have "in_detour p ?fin PhaseWaiting (reconciled lib ?e1 facts' now')"
    using detour_freezing [of p ?fin ?e1 facts'] assms(6) by simp
  then have "in_detour p ?fin p (reconciled lib (reconciled lib ?e1 facts' now') facts'' now'')"
    using detour_return assms(1) by blast
  then show ?thesis by (simp add: run_passes_def in_detour_def Let_def)
qed

subsection \<open>Counters and the written-once record\<close>

lemma dispatchPhase_counts:
  "IncrementWakeCount (d_StatusPatch (dispatchPhase lib env facts now p)) \<longleftrightarrow>
     p = PhaseRestoring \<and> st_Snapshot (Status env) \<noteq> None \<and>
     d_Phase (dispatchPhase lib env facts now p) = PhaseRunning"
  "IncrementFreezeCount (d_StatusPatch (dispatchPhase lib env facts now p)) \<longleftrightarrow>
     p = PhaseFreezing \<and> d_Phase (dispatchPhase lib env facts now p) = PhaseWaiting"
  by (cases p; simp add: dispatchPhase_def phase_function_defs split: option.splits)+

lemma decide_counts:
  "IncrementWakeCount (d_StatusPatch (decide lib env facts now p)) \<longleftrightarrow>
     p = PhaseRestoring \<and> st_Snapshot (Status env) \<noteq> None \<and>
     (d_Phase (decide lib env facts now p) = PhaseRunning \<or> agentOrPodTerminal lib env facts now p \<noteq> None)"
  "IncrementFreezeCount (d_StatusPatch (decide lib env facts now p)) \<longleftrightarrow>
     p = PhaseFreezing \<and> d_Phase (decide lib env facts now p) = PhaseWaiting"
  unfolding atomize_conj
proof (cases rule: decide_cases [of p lib env facts now], goal_cases)
  case 1
  then show ?case by (auto simp: terminal_effect terminal_patch_def)
next
  case (2 d)
  then show ?case using agentOrPodTerminal_effect [OF 2(2)] by auto
next
  case 3
  then show ?case by (simp add: dispatchPhase_counts)
next
  case (4 d)
  then show ?case using timeoutFired_decision [OF 4(4)] by simp
next
  case 5
  then show ?case by (simp add: hold_effect)
next
  case 6
  then show ?case by (simp add: dispatchPhase_counts)
qed

text \<open>
  Wakes and freezes are counted where they happen: the wake counter grows by one
  exactly when an environment with a snapshot leaves Restoring by reaching Running or by
  finishing there, and the freeze counter exactly when Freezing reaches Waiting, both as
  32-bit counters that wrap.
\<close>

theorem wakes_and_freezes_counted:
  "st_WakeCount (Status (reconciled lib env facts now)) =
     st_WakeCount (Status env) +
       (if current_phase env = PhaseRestoring \<and> st_Snapshot (Status env) \<noteq> None \<and>
           (st_Phase (Status (reconciled lib env facts now)) = PhaseRunning \<or>
            (\<exists>d. agentOrPodTerminal lib env facts now PhaseRestoring = Some d)) then 1 else 0)
   \<and> st_FreezeCount (Status (reconciled lib env facts now)) =
     st_FreezeCount (Status env) +
       (if current_phase env = PhaseFreezing \<and>
           st_Phase (Status (reconciled lib env facts now)) = PhaseWaiting then 1 else 0)"
  by (auto simp: reconciled_Status Apply_counts decide_counts)

text \<open>
  What a status records once is never rewritten by a decision: queue, start and finish
  times and the outcome stay what they were, the agent's result and the snapshot are not
  touched, the phase history stays within its 64 entries and ends in the new phase, and a
  slot is never granted by a decision.
\<close>

theorem Apply_keeps_record:
  assumes "length (st_PhaseHistory (Status env)) \<le> MaxPhaseHistoryEntries"
  shows "(st_QueuedSince (Status env) \<noteq> None \<longrightarrow> st_QueuedSince (Apply lib env d) = st_QueuedSince (Status env))
     \<and> (st_StartedAt (Status env) \<noteq> None \<longrightarrow> st_StartedAt (Apply lib env d) = st_StartedAt (Status env))
     \<and> (st_FinishedAt (Status env) \<noteq> None \<longrightarrow> st_FinishedAt (Apply lib env d) = st_FinishedAt (Status env))
     \<and> (st_TerminalPhase (Status env) \<noteq> PhaseUnset \<longrightarrow>
          st_TerminalPhase (Apply lib env d) = st_TerminalPhase (Status env))
     \<and> st_AgentResult (Apply lib env d) = st_AgentResult (Status env)
     \<and> st_Snapshot (Apply lib env d) = st_Snapshot (Status env)
     \<and> length (st_PhaseHistory (Apply lib env d)) \<le> MaxPhaseHistoryEntries
     \<and> (d_Phase d \<noteq> st_Phase (Status env) \<longrightarrow>
          st_PhaseHistory (Apply lib env d) \<noteq> [] \<and> pt_Phase (last (st_PhaseHistory (Apply lib env d))) = d_Phase d)
     \<and> (Granted (st_Slot (Apply lib env d)) \<longrightarrow> Granted (st_Slot (Status env)))"
  using phase_history_length [OF assms] phase_history_last
  by (auto simp: Apply_TerminalPhase no_slot_def)

subsection \<open>Concrete environments\<close>

definition env_at :: "Phase \<Rightarrow> SandboxEnvironment" where
  "env_at p = zero_env\<lparr>Status := zero_status\<lparr>st_Phase := p\<rparr>\<rparr>"

lemma env_at_simps [simp]:
  "st_Phase (Status (env_at p)) = p" "st_Snapshot (Status (env_at p)) = None"
  "st_FinishedAt (Status (env_at p)) = None" "st_TerminalPhase (Status (env_at p)) = PhaseUnset"
  "st_Conditions (Status (env_at p)) = []" "st_PhaseHistory (Status (env_at p)) = []"
  "st_Slot (Status (env_at p)) = no_slot" "CreationTimestamp (env_at p) = 0"
  "st_WaitFor (Status (env_at p)) = None" "sp_Suspend (Spec (env_at p)) = False"
  by (simp_all add: env_at_def zero_env_def zero_status_def)

lemma current_phase_env_at [simp]: "p \<noteq> PhaseUnset \<Longrightarrow> current_phase (env_at p) = p"
  by (simp add: current_phase_def)

theorem Next_refines_diagram_witness:
  "d_Phase (Next ref_lib (env_at PhasePending) (zero_facts\<lparr>ClassResolved := True, ResourcesReady := True\<rparr>) 0) =
     PhaseReady
   \<and> edge_guard ref_lib (env_at PhasePending) (zero_facts\<lparr>ClassResolved := True, ResourcesReady := True\<rparr>) 0
       PhasePending PhaseReady"
proof -
  let ?f = "zero_facts\<lparr>ClassResolved := True, ResourcesReady := True\<rparr>"
  have "d_Phase (Next ref_lib (env_at PhasePending) ?f 0) = PhaseReady"
    by (simp add: decide_def agentOrPodTerminal_def timeoutFired_def firedTimeoutReason_def
        clock_fired_def zero_facts_def dispatchPhase_def nextPending_def)
  then show ?thesis
    using Next_refines_diagram [of "env_at PhasePending" ref_lib ?f 0] by (simp add: AllPhases_def)
qed

theorem Next_deletes_pod_safely_witness:
  "may_delete_pod (env_at PhaseRestoring) (zero_facts\<lparr>ClassResolved := True\<rparr>) PhaseRestoring PhaseReady"
proof -
  let ?f = "zero_facts\<lparr>ClassResolved := True\<rparr>"
  have "decide ref_lib (env_at PhaseRestoring) ?f 0 PhaseRestoring =
      nextRestoring ref_lib (env_at PhaseRestoring) ?f 0"
    by (simp add: decide_def agentOrPodTerminal_def timeoutFired_def firedTimeoutReason_def
        clock_fired_def zero_facts_def dispatchPhase_def)
  then have "ActionDeletePod \<in> set (d_Actions (Next ref_lib (env_at PhaseRestoring) ?f 0))"
    and "d_Phase (Next ref_lib (env_at PhaseRestoring) ?f 0) = PhaseReady"
    by (simp_all add: Next_actions set_withEnsureResources nextRestoring_def zero_facts_def)
  then show ?thesis
    using Next_deletes_pod_safely [of ref_lib "env_at PhaseRestoring" ?f 0] by simp
qed

theorem completion_beats_timeouts_witness:
  "d_Phase (Next ref_lib (env_at PhaseRunning) (zero_facts\<lparr>AgentDone := True\<rparr>) 0) = PhaseDone"
  using completion_beats_timeouts [of "env_at PhaseRunning" "zero_facts\<lparr>AgentDone := True\<rparr>" ref_lib 0]
  by (simp add: zero_facts_def)

theorem total_timeout_fails_run_witness:
  "d_Phase (Next ref_lib (env_at PhaseReady) (zero_facts\<lparr>f_Timeouts := DefaultTimeouts\<rparr>) (72 * Hour)) =
     PhaseFailed"
  using total_timeout_fails_run
    [of "zero_facts\<lparr>f_Timeouts := DefaultTimeouts\<rparr>" "env_at PhaseReady" "72 * Hour" ref_lib]
  by (simp add: DefaultTimeouts_def max_duration_def agentOrPodTerminal_def)

theorem requeue_meets_deadline_witness:
  "MinRequeueAfter \<le> d_RequeueAfter (Next ref_lib (env_at PhasePending)
     (zero_facts\<lparr>f_Timeouts := DefaultTimeouts, ClassResolved := True\<rparr>) 0)"
proof -
  let ?f = "zero_facts\<lparr>f_Timeouts := DefaultTimeouts, ClassResolved := True\<rparr>"
  have "d_Phase (Next ref_lib (env_at PhasePending) ?f 0) = PhasePending"
    by (simp add: decide_def agentOrPodTerminal_def timeoutFired_def firedTimeoutReason_def
        clock_fired_def time_Sub_def min_duration_def DefaultTimeouts_def dispatchPhase_def
        nextPending_def zero_facts_def)
  then show ?thesis
    using requeue_meets_deadline [of ref_lib "env_at PhasePending" ?f 0]
    by (simp add: DefaultTimeouts_def Let_def isTerminal_def)
qed

theorem reasons_stay_declared_witness:
  "reasons_closed ref_lib (reconciled ref_lib (env_at PhaseRunning) zero_facts 0)"
proof -
  have "reasons_closed ref_lib (env_at PhaseRunning)"
    by (simp add: reasons_closed_def list_all_iff ref_lib_simps)
  then show ?thesis
    using reasons_stay_declared [OF ref.status_conditions_axioms] by blast
qed

theorem unobserved_world_changes_nothing_witness:
  "d_Phase (Next ref_lib (env_at PhaseRunning) zero_facts 5) = PhaseRunning"
  using unobserved_world_changes_nothing [of zero_facts ref_lib "env_at PhaseRunning" 5]
  by (simp add: zero_facts_def firedTimeoutReason_def clock_fired_def)

theorem archive_detour_returns_witness:
  "st_Phase (Status (run_passes ref_lib (env_at PhaseDone)
     [(zero_facts\<lparr>PodAliveForArchive := True\<rparr>, 1), (zero_facts, 2), (zero_facts\<lparr>SnapshotComplete := True\<rparr>, 3),
      (zero_facts, 4)])) = PhaseDone"
  using archive_detour_returns [of PhaseDone "env_at PhaseDone" "zero_facts\<lparr>PodAliveForArchive := True\<rparr>"
      "[(zero_facts, 2)]" "zero_facts\<lparr>SnapshotComplete := True\<rparr>" ref_lib 1 3 zero_facts 4]
  by (simp add: archive_detour_def freeze_done_def zero_facts_def Let_def)

theorem Apply_keeps_record_witness:
  "length (st_PhaseHistory (Apply ref_lib (env_at PhaseReady) (Next ref_lib (env_at PhaseReady) zero_facts 0)))
     \<le> MaxPhaseHistoryEntries"
  using Apply_keeps_record [of "env_at PhaseReady" ref_lib "Next ref_lib (env_at PhaseReady) zero_facts 0"]
  by simp

end
