(* ===== verification/Scheduler.thy ===== *)
theory Scheduler
  imports Api_Types "HOL-Library.Product_Lexorder"
begin

section \<open>Slot admission\<close>

text \<open>
  \<^verbatim>\<open>src/operator/internal/scheduler/admit.go\<close>: which environments hold compute, which are
  queued, the admission order, and the grants of one pass. The comparison \<open>less\<close> is
  shown to be the order of a lexicographic key, which makes it a strict weak order
  and gives the sort its laws.
\<close>

record Grant =
  g_Namespace :: string
  g_Name :: string
  g_UID :: string
  g_Position :: int

definition Occupies :: "SandboxEnvironment \<Rightarrow> bool" where
  "Occupies env =
     (if Granted (st_Slot (Status env)) then True
      else case st_Phase (Status env) of
             PhaseRestoring \<Rightarrow> True
           | PhaseRunning \<Rightarrow> True
           | PhaseFreezing \<Rightarrow> True
           | _ \<Rightarrow> False)"

definition IsCandidate :: "SandboxEnvironment \<Rightarrow> bool" where
  "IsCandidate env \<longleftrightarrow>
     st_Phase (Status env) = PhaseReady \<and> \<not> sp_Suspend (Spec env) \<and>
     IsZero (DeletionTimestamp env) \<and> \<not> Granted (st_Slot (Status env))"

fun Partition :: "SandboxEnvironment list \<Rightarrow> int \<times> SandboxEnvironment list" where
  "Partition [] = (0, [])"
| "Partition (env # items) =
     (case Partition items of (occupancy, candidates) \<Rightarrow>
        if Occupies env then (occupancy + 1, candidates)
        else if IsCandidate env then (occupancy, env # candidates)
        else (occupancy, candidates))"

definition less_env :: "SandboxEnvironment \<Rightarrow> SandboxEnvironment \<Rightarrow> bool" where
  "less_env a b =
     (let tie = (if UID a \<noteq> UID b then UID a < UID b
                 else if Namespace a \<noteq> Namespace b then Namespace a < Namespace b
                 else Name a < Name b)
      in if sp_Priority (Spec a) \<noteq> sp_Priority (Spec b)
         then sp_Priority (Spec a) > sp_Priority (Spec b)
         else case (st_QueuedSince (Status a), st_QueuedSince (Status b)) of
                (None, None) \<Rightarrow> tie
              | (None, Some _) \<Rightarrow> False
              | (Some _, None) \<Rightarrow> True
              | (Some aq, Some bq) \<Rightarrow> if aq \<noteq> bq then aq < bq else tie)"

definition Order :: "SandboxEnvironment list \<Rightarrow> SandboxEnvironment list" where
  "Order xs = SliceStable less_env xs"

definition grant_for :: "SandboxEnvironment \<Rightarrow> nat \<Rightarrow> Grant" where
  "grant_for e i =
     \<lparr>g_Namespace = Namespace e, g_Name = Name e, g_UID = UID e, g_Position = int i + 1\<rparr>"

definition Admit :: "SandboxEnvironment list \<Rightarrow> int \<Rightarrow> int \<Rightarrow> Grant list" where
  "Admit candidates occupancy capacity =
     (let remaining = capacity - occupancy
      in if remaining \<le> 0 \<or> candidates = [] then []
         else let ordered = Order candidates;
                  remaining = (if remaining > int (length ordered) then int (length ordered) else remaining)
              in map (\<lambda>i. grant_for (ordered ! i) i) [0..<nat remaining])"

fun position_from :: "nat \<Rightarrow> SandboxEnvironment list \<Rightarrow> string \<Rightarrow> int" where
  "position_from i [] uid = 0"
| "position_from i (e # es) uid = (if UID e = uid then int i + 1 else position_from (Suc i) es uid)"

definition QueuePosition :: "SandboxEnvironment list \<Rightarrow> string \<Rightarrow> int \<times> int" where
  "QueuePosition candidates uid =
     (let ordered = Order candidates in (position_from 0 ordered uid, int (length ordered)))"

subsection \<open>The admission order\<close>

text \<open>
  Higher priority first, then the earlier \<^verbatim>\<open>queuedSince\<close> (an absent one counts as later
  than every present one), then UID, namespace and name.
\<close>

type_synonym admission_key = "int \<times> (bool \<times> time) \<times> string \<times> string \<times> string"

definition queued_key :: "time option \<Rightarrow> bool \<times> time" where
  "queued_key q = (case q of None \<Rightarrow> (True, 0) | Some t \<Rightarrow> (False, t))"

definition admission_key :: "SandboxEnvironment \<Rightarrow> admission_key" where
  "admission_key e =
     (- sp_Priority (Spec e), queued_key (st_QueuedSince (Status e)), UID e, Namespace e, Name e)"

lemma less_env_iff: "less_env a b \<longleftrightarrow> admission_key a < admission_key b"
  by (auto simp: less_env_def admission_key_def queued_key_def Let_def less_prod_def' less_le
      split: option.splits)

interpretation admission: strict_weak_order less_env
proof unfold_locales
  fix x y z :: SandboxEnvironment
  show "\<not> less_env x x" by (simp add: less_env_iff)
  show "less_env x y \<Longrightarrow> less_env y z \<Longrightarrow> less_env x z" by (simp add: less_env_iff)
  show "\<not> less_env x y \<Longrightarrow> \<not> less_env y z \<Longrightarrow> \<not> less_env x z" by (simp add: less_env_iff)
qed

lemma Order_facts [simp]:
  "mset (Order xs) = mset xs" "set (Order xs) = set xs" "length (Order xs) = length xs"
  "distinct (map f (Order xs)) = distinct (map f xs)"
  by (simp_all add: Order_def)

lemma sorted_Order: "sorted_wrt (\<lambda>a b. \<not> less_env b a) (Order xs)"
  unfolding Order_def by (rule admission.sorted_SliceStable)

lemma sorted_key_Order: "sorted (map admission_key (Order xs))"
  using sorted_Order [of xs] by (simp add: less_env_iff not_less sorted_wrt_map)

subsection \<open>Partition and Admit\<close>

lemma Partition_eq:
  "Partition items =
     (int (length (filter Occupies items)), filter (\<lambda>e. \<not> Occupies e \<and> IsCandidate e) items)"
  by (induction items) auto

lemma IsCandidate_not_Occupies: "IsCandidate e \<Longrightarrow> \<not> Occupies e"
  by (simp add: IsCandidate_def Occupies_def)

lemma Partition_candidates: "snd (Partition items) = filter IsCandidate items"
  unfolding Partition_eq snd_conv by (rule filter_cong) (auto dest: IsCandidate_not_Occupies)

lemma Admit_take:
  "Admit candidates occupancy capacity =
     (let k = min (nat (capacity - occupancy)) (length candidates)
      in map (\<lambda>i. grant_for (Order candidates ! i) i) [0..<k])"
proof (cases "capacity - occupancy \<le> 0 \<or> candidates = []")
  case True
  then show ?thesis by (auto simp: Admit_def Let_def)
next
  case False
  then have "nat (if int (length candidates) < capacity - occupancy then int (length candidates)
                  else capacity - occupancy) = min (nat (capacity - occupancy)) (length candidates)"
    by (auto simp: min_def)
  with False show ?thesis by (auto simp: Admit_def Let_def)
qed

lemma length_Admit:
  "length (Admit candidates occupancy capacity) = min (nat (capacity - occupancy)) (length candidates)"
  by (simp add: Admit_take Let_def)

lemma Admit_UIDs:
  "map g_UID (Admit candidates occupancy capacity) =
     map UID (take (nat (capacity - occupancy)) (Order candidates))"
  by (auto simp: Admit_take Let_def grant_for_def intro!: nth_equalityI)

lemma Admit_sound: "g \<in> set (Admit candidates occupancy capacity) \<Longrightarrow> \<exists>e \<in> set candidates. \<exists>i. g = grant_for e i"
proof -
  assume "g \<in> set (Admit candidates occupancy capacity)"
  then obtain i where "i < length (Order candidates)" "g = grant_for (Order candidates ! i) i"
    by (auto simp: Admit_take Let_def)
  then show ?thesis using nth_mem [of i "Order candidates"] by auto
qed

lemma position_from_nth:
  "distinct (map UID es) \<Longrightarrow> j < length es \<Longrightarrow> position_from i es (UID (es ! j)) = int i + int j + 1"
proof (induction es arbitrary: i j)
  case Nil
  then show ?case by simp
next
  case (Cons e es)
  then show ?case by (cases j) auto
qed

lemma position_from_absent: "uid \<notin> UID ` set es \<Longrightarrow> position_from i es uid = 0"
  by (induction es arbitrary: i) auto

lemma take_UID_iff:
  assumes "distinct (map UID es)" and "j < length es"
  shows "UID (es ! j) \<in> UID ` set (take n es) \<longleftrightarrow> j < n"
proof
  assume "UID (es ! j) \<in> UID ` set (take n es)"
  then obtain k where k: "k < n" "k < length es" "UID (es ! k) = UID (es ! j)"
    by (auto simp: in_set_conv_nth)
  with assms have "k = j" by (simp add: distinct_conv_nth) metis
  with k show "j < n" by simp
next
  assume "j < n"
  with assms show "UID (es ! j) \<in> UID ` set (take n es)"
    by (auto simp: in_set_conv_nth intro!: image_eqI [where x = "es ! j"] exI [of _ j])
qed

lemma admission_key_inj_on: "distinct (map UID es) \<Longrightarrow> inj_on admission_key (set es)"
  by (auto simp: inj_on_def distinct_map admission_key_def)

subsection \<open>Properties of one admission pass\<close>

text \<open>
  C27: Admit grants exactly as many slots as fit (free capacity, or every candidate when there
  are fewer), each to a candidate, and whoever is granted precedes whoever is not: higher
  priority, then longer queued, then the UID tie-break.
\<close>

theorem Admit_grants_best:
  assumes "distinct (map UID candidates)"
  shows "length (Admit candidates occupancy capacity) =
           min (nat (capacity - occupancy)) (length candidates)
         \<and> distinct (map g_UID (Admit candidates occupancy capacity))
         \<and> set (map g_UID (Admit candidates occupancy capacity)) \<subseteq> UID ` set candidates
         \<and> (\<forall>a \<in> set candidates. \<forall>b \<in> set candidates.
              UID a \<in> set (map g_UID (Admit candidates occupancy capacity)) \<longrightarrow>
              UID b \<notin> set (map g_UID (Admit candidates occupancy capacity)) \<longrightarrow>
              admission_key a < admission_key b)"
proof -
  define n where "n = nat (capacity - occupancy)"
  have uids: "map g_UID (Admit candidates occupancy capacity) = map UID (take n (Order candidates))"
    by (simp add: Admit_UIDs n_def)
  have dist: "distinct (map UID (take n (Order candidates)))"
    using assms distinct_take [of "map UID (Order candidates)" n] by (simp add: take_map)
  have sub: "set (take n (Order candidates)) \<subseteq> set candidates"
    using set_take_subset [of n "Order candidates"] by simp
  have "admission_key a < admission_key b"
    if ab: "a \<in> set candidates" "b \<in> set candidates"
      and ga: "UID a \<in> set (map UID (take n (Order candidates)))"
      and gb: "UID b \<notin> set (map UID (take n (Order candidates)))" for a b
  proof -
    from ga obtain a' where a': "a' \<in> set (take n (Order candidates))" "UID a' = UID a" by auto
    then have "a' = a" using assms ab sub by (auto simp: distinct_map inj_on_def)
    moreover have "b \<in> set (drop n (Order candidates))"
      using ab(2) gb set_append [of "take n (Order candidates)" "drop n (Order candidates)"] by auto
    ultimately have "\<not> less_env b a"
      using a' admission.take_SliceStable_best [of a n candidates b] by (simp add: Order_def)
    moreover have "admission_key a \<noteq> admission_key b"
      using ga gb by (auto simp: admission_key_def)
    ultimately show ?thesis by (simp add: less_env_iff)
  qed
  with uids dist sub show ?thesis by (simp add: length_Admit) auto
qed

text \<open>
  Admission does not depend on the order in which the API server listed the
  environments: two listings of the same environments give the same grants and the same
  queue positions.
\<close>

theorem Admit_deterministic:
  assumes "distinct (map UID xs)" and "mset xs = mset ys"
  shows "Order xs = Order ys
         \<and> Admit xs occupancy capacity = Admit ys occupancy capacity
         \<and> QueuePosition xs uid = QueuePosition ys uid"
proof -
  have "set (Order xs) \<union> set (Order ys) = set xs"
    using assms(2) by (metis Order_facts(2) Un_absorb set_mset_mset)
  then have inj: "inj_on admission_key (set (Order xs) \<union> set (Order ys))"
    using admission_key_inj_on [OF assms(1)] by simp
  have "mset (map admission_key (Order xs)) = mset (map admission_key (Order ys))"
    using assms(2) by simp
  then have "map admission_key (Order xs) = map admission_key (Order ys)"
    using sorted_key_Order properties_for_sort by (metis sort_key_id_if_sorted list.map_ident)
  then have "Order xs = Order ys" using inj by (metis inj_on_map_eq_map)
  moreover have "length xs = length ys" using assms(2) by (metis size_mset)
  ultimately show ?thesis
    by (simp add: Admit_take Let_def QueuePosition_def)
qed

text \<open>
  The position an environment is told in its status and the grants agree: it is
  granted in this pass exactly when its reported 1-based position is within the free
  capacity, the granted position is the reported one, and an environment that is not queued
  is told position 0.
\<close>

theorem QueuePosition_agrees_with_Admit:
  assumes "distinct (map UID candidates)"
  shows "(\<forall>e \<in> set candidates.
            1 \<le> fst (QueuePosition candidates (UID e))
            \<and> fst (QueuePosition candidates (UID e)) \<le> snd (QueuePosition candidates (UID e))
            \<and> ((\<exists>g \<in> set (Admit candidates occupancy capacity). g_UID g = UID e)
                 \<longleftrightarrow> fst (QueuePosition candidates (UID e)) \<le> capacity - occupancy))
         \<and> (\<forall>g \<in> set (Admit candidates occupancy capacity).
              g_Position g = fst (QueuePosition candidates (g_UID g)))
         \<and> (\<forall>uid. uid \<notin> UID ` set candidates \<longrightarrow> fst (QueuePosition candidates uid) = 0)"
proof (intro conjI ballI)
  have dist: "distinct (map UID (Order candidates))" using assms by simp
  fix e
  assume "e \<in> set candidates"
  then obtain j where j: "j < length (Order candidates)" "Order candidates ! j = e"
    by (metis Order_facts(2) in_set_conv_nth)
  have pos: "fst (QueuePosition candidates (UID e)) = int j + 1"
    using position_from_nth [OF dist j(1), of 0] j(2) by (simp add: QueuePosition_def)
  then show "1 \<le> fst (QueuePosition candidates (UID e))" by simp
  show "fst (QueuePosition candidates (UID e)) \<le> snd (QueuePosition candidates (UID e))"
    unfolding pos using j by (simp add: QueuePosition_def)
  have "(\<exists>g \<in> set (Admit candidates occupancy capacity). g_UID g = UID e)
        \<longleftrightarrow> UID e \<in> set (map g_UID (Admit candidates occupancy capacity))" by force
  also have "\<dots> \<longleftrightarrow> j < nat (capacity - occupancy)"
    unfolding Admit_UIDs using take_UID_iff [OF dist j(1)] j(2) by simp
  finally show "(\<exists>g \<in> set (Admit candidates occupancy capacity). g_UID g = UID e)
        \<longleftrightarrow> fst (QueuePosition candidates (UID e)) \<le> capacity - occupancy"
    unfolding pos by linarith
next
  have dist: "distinct (map UID (Order candidates))" using assms by simp
  fix g
  assume "g \<in> set (Admit candidates occupancy capacity)"
  then obtain i where "i < length (Order candidates)" "g = grant_for (Order candidates ! i) i"
    by (auto simp: Admit_take Let_def)
  then show "g_Position g = fst (QueuePosition candidates (g_UID g))"
    using position_from_nth [OF dist, of i 0] by (simp add: grant_for_def QueuePosition_def)
qed (simp add: QueuePosition_def position_from_absent)

text \<open>
  Over any listing, the compute already occupied plus the new grants never exceeds the
  configured capacity, and when it was already above (the capacity was lowered) nothing
  is granted; no environment that occupies compute is granted a second time.
\<close>

theorem Partition_Admit_within_capacity:
  "case Partition items of (occupancy, candidates) \<Rightarrow>
     occupancy + int (length (Admit candidates occupancy capacity)) \<le> max capacity occupancy
     \<and> (capacity \<le> occupancy \<longrightarrow> Admit candidates occupancy capacity = [])
     \<and> (\<forall>g \<in> set (Admit candidates occupancy capacity).
          \<exists>e \<in> set items. UID e = g_UID g \<and> IsCandidate e \<and> \<not> Occupies e)"
proof -
  have "\<exists>e \<in> set items. UID e = g_UID g \<and> IsCandidate e \<and> \<not> Occupies e"
    if "g \<in> set (Admit (filter (\<lambda>e. \<not> Occupies e \<and> IsCandidate e) items) occ capacity)" for g occ
    using Admit_sound [OF that] by (auto simp: grant_for_def)
  then show ?thesis
    by (auto simp: Partition_eq length_Admit) (simp add: Admit_def)
qed

subsection \<open>Concrete queues\<close>

definition queued_env :: "string \<Rightarrow> int \<Rightarrow> time option \<Rightarrow> SandboxEnvironment" where
  "queued_env uid prio since =
     zero_env\<lparr>UID := uid, Spec := (Spec zero_env)\<lparr>sp_Priority := prio\<rparr>,
              Status := zero_status\<lparr>st_Phase := PhaseReady, st_QueuedSince := since\<rparr>\<rparr>"

definition three_queued :: "SandboxEnvironment list" where
  "three_queued = [queued_env ''b'' 0 (Some 5), queued_env ''a'' 0 (Some 7), queued_env ''c'' 3 None]"

lemma three_queued_simps:
  "distinct (map UID three_queued)"
  "map UID (Order three_queued) = [''c'', ''b'', ''a'']"
  "mset (rev three_queued) = mset three_queued"
  "length three_queued = 3"
  by (simp_all add: three_queued_def queued_env_def Order_def SliceStable_def less_env_def
      zero_status_def zero_env_def)

theorem Admit_grants_best_witness:
  "length (Admit three_queued 1 2) = 1 \<and> map g_UID (Admit three_queued 1 2) = [''c'']"
proof
  show "length (Admit three_queued 1 2) = 1"
    using Admit_grants_best [OF three_queued_simps(1), of 1 2] three_queued_simps(4) by simp
  show "map g_UID (Admit three_queued 1 2) = [''c'']"
    by (simp add: Admit_UIDs take_map [symmetric] three_queued_simps(2))
qed

theorem Admit_deterministic_witness:
  "Admit three_queued 1 2 = Admit (rev three_queued) 1 2"
  using Admit_deterministic [OF three_queued_simps(1) three_queued_simps(3) [symmetric]] by blast

theorem QueuePosition_agrees_with_Admit_witness:
  "fst (QueuePosition three_queued ''a'') = 3 \<and> \<not> (\<exists>g \<in> set (Admit three_queued 1 2). g_UID g = ''a'')"
proof
  show pos: "fst (QueuePosition three_queued ''a'') = 3"
    by (simp add: QueuePosition_def three_queued_def queued_env_def Order_def SliceStable_def
        less_env_def zero_status_def zero_env_def)
  have "queued_env ''a'' 0 (Some 7) \<in> set three_queued" and "UID (queued_env ''a'' 0 (Some 7)) = ''a''"
    by (simp_all add: three_queued_def queued_env_def)
  then show "\<not> (\<exists>g \<in> set (Admit three_queued 1 2). g_UID g = ''a'')"
    using QueuePosition_agrees_with_Admit [OF three_queued_simps(1), where occupancy = 1 and capacity = 2] pos
    by fastforce
qed

theorem Partition_Admit_within_capacity_witness:
  "case Partition three_queued of (occupancy, candidates) \<Rightarrow>
     occupancy = 0 \<and> length (Admit candidates occupancy 2) = 2
     \<and> occupancy + int (length (Admit candidates occupancy 2)) \<le> max 2 occupancy"
proof -
  have "Partition three_queued = (0, three_queued)"
    by (simp add: three_queued_def queued_env_def Occupies_def IsCandidate_def IsZero_def
        zero_status_def zero_env_def no_slot_def)
  then show ?thesis
    using Partition_Admit_within_capacity [where items = three_queued and capacity = 2] three_queued_simps(4)
    by (simp add: length_Admit)
qed

end
