(* ===== verification/Kube_Api.thy ===== *)
theory Kube_Api
  imports Api_Types "HOL-Library.AList"
begin

section \<open>The API server as the components see it\<close>

text \<open>
  Kubernetes is not part of the sources: the calls the components make on it are the
  fields of a parameter, and what they rely on are the laws of the locale \<open>kube_api\<close>.
  The laws speak of a history, the states the stored environments went through: a read
  returns the newest state, a status write succeeds only on the object version it was
  computed from (optimistic locking by \<^verbatim>\<open>resourceVersion\<close>), and between any two calls other
  writers may add states of their own. \<open>ref_kube\<close> is a server that satisfies them.
  The retry loops around the calls (\<^verbatim>\<open>retry.RetryOnConflict\<close> of client-go, and
  \<^verbatim>\<open>retryOnRetryable\<close> of the sidecar) share the contract \<open>retry_loop\<close>.
\<close>

datatype go_error =
    NotFound | Conflict | ServerTimeout | TooManyRequests | InternalError | ServiceUnavailable
  | Forbidden | Invalid | NetTimeout | ErrorString string

type_synonym key = "string \<times> string"
type_synonym cluster = "key \<rightharpoonup> SandboxEnvironment"

definition env_key :: "SandboxEnvironment \<Rightarrow> key" where
  "env_key e = (Namespace e, Name e)"

text \<open>
  A reply is an error or a value, with the world after the call. \<open>k_PatchStatus base env\<close> is
  \<^verbatim>\<open>Status().Patch\<close> of the difference between the two with an optimistic lock on the base,
  \<open>k_UpdateStatus env\<close> is \<^verbatim>\<open>Status().Update\<close>. \<open>k_Get\<close> reads the server, \<open>k_CachedGet\<close> the manager's
  cache, which may lag behind and return any state the object once had.
\<close>

record 'w kube =
  k_Get :: "key \<Rightarrow> 'w \<Rightarrow> (go_error + SandboxEnvironment) \<times> 'w"
  k_CachedGet :: "key \<Rightarrow> 'w \<Rightarrow> (go_error + SandboxEnvironment) \<times> 'w"
  k_List :: "string \<Rightarrow> 'w \<Rightarrow> (go_error + SandboxEnvironment list) \<times> 'w"
  k_PatchStatus :: "SandboxEnvironment \<Rightarrow> SandboxEnvironment \<Rightarrow> 'w \<Rightarrow> go_error option \<times> 'w"
  k_UpdateStatus :: "SandboxEnvironment \<Rightarrow> 'w \<Rightarrow> go_error option \<times> 'w"

subsection \<open>Histories\<close>

definition extends_by :: "cluster list \<Rightarrow> cluster list \<Rightarrow> bool" where
  "extends_by h h' \<longleftrightarrow> (\<exists>t. h' = h @ t)"

lemma extends_by_refl [simp, intro]: "extends_by h h"
  by (simp add: extends_by_def)

lemma extends_by_trans [trans]: "extends_by h h' \<Longrightarrow> extends_by h' h'' \<Longrightarrow> extends_by h h''"
  by (auto simp: extends_by_def)

lemma extends_by_snoc [intro]: "extends_by h h' \<Longrightarrow> extends_by h (h' @ [s])"
  by (auto simp: extends_by_def)

text \<open>
  The last entry of the history is the effect of one status write: it replaces the status
  of the object stored then, which is the version the writer had read, and nothing else but
  the version.
\<close>

definition wrote_status ::
  "cluster list \<Rightarrow> key \<Rightarrow> SandboxEnvironment \<Rightarrow> SandboxEnvironmentStatus \<Rightarrow> cluster list \<Rightarrow> bool" where
  "wrote_status h k cur st h' \<longleftrightarrow>
     (\<exists>t rv. h @ t \<noteq> [] \<and> last (h @ t) k = Some cur \<and>
        h' = h @ t @ [(last (h @ t))(k \<mapsto> cur\<lparr>Status := st, ResourceVersion := rv\<rparr>)])"

lemma wrote_status_extends: "wrote_status h k cur st h' \<Longrightarrow> extends_by h h'"
  by (auto simp: wrote_status_def extends_by_def)

lemma wrote_status_last:
  "wrote_status h k cur st h' \<Longrightarrow>
   \<exists>rv. last h' k = Some (cur\<lparr>Status := st, ResourceVersion := rv\<rparr>)"
  by (auto simp: wrote_status_def)

lemma wrote_status_mono:
  "extends_by h h1 \<Longrightarrow> wrote_status h1 k cur st h' \<Longrightarrow> wrote_status h k cur st h'"
  by (auto simp: wrote_status_def extends_by_def)

locale kube_api =
  fixes k :: "'w kube" and log :: "'w \<Rightarrow> cluster list" and valid :: "'w \<Rightarrow> bool"
  assumes log_nonempty: "valid w \<Longrightarrow> log w \<noteq> []"
    and version_identifies: "valid w \<Longrightarrow> s \<in> set (log w) \<Longrightarrow> s' \<in> set (log w) \<Longrightarrow>
          s key = Some e \<Longrightarrow> s' key = Some e' \<Longrightarrow> ResourceVersion e = ResourceVersion e' \<Longrightarrow> e = e'"
    and key_of_stored: "valid w \<Longrightarrow> s \<in> set (log w) \<Longrightarrow> s key = Some e \<Longrightarrow> env_key e = key"
    and get_spec: "valid w \<Longrightarrow> k_Get k key w = (rg, w') \<Longrightarrow>
          valid w' \<and> extends_by (log w) (log w') \<and> (\<forall>e. rg = Inr e \<longrightarrow> last (log w') key = Some e)"
    and cached_spec: "valid w \<Longrightarrow> k_CachedGet k key w = (rg, w') \<Longrightarrow>
          valid w' \<and> extends_by (log w) (log w') \<and>
          (\<forall>e. rg = Inr e \<longrightarrow> (\<exists>s \<in> set (log w'). s key = Some e))"
    and list_spec: "valid w \<Longrightarrow> k_List k ns w = (rs, w') \<Longrightarrow>
          valid w' \<and> extends_by (log w) (log w') \<and>
          (\<forall>es. rs = Inr es \<longrightarrow> (\<forall>e \<in> set es. last (log w') (env_key e) = Some e))"
    and patch_spec: "valid w \<Longrightarrow> k_PatchStatus k base e w = (rw, w') \<Longrightarrow>
          valid w' \<and> extends_by (log w) (log w') \<and>
          (rw = None \<longrightarrow> (\<exists>cur. ResourceVersion cur = ResourceVersion base \<and>
             wrote_status (log w) (env_key base) cur (Status e) (log w')))"
    and update_spec: "valid w \<Longrightarrow> k_UpdateStatus k e w = (rw, w') \<Longrightarrow>
          valid w' \<and> extends_by (log w) (log w') \<and>
          (rw = None \<longrightarrow> (\<exists>cur. ResourceVersion cur = ResourceVersion e \<and>
             wrote_status (log w) (env_key e) cur (Status e) (log w')))"
begin

text \<open>Optimistic locking: a write that lands found exactly the object its writer had read.\<close>

lemma write_lands_on_read:
  assumes "valid w" and "valid w'" and "s \<in> set (log w)" and "s key = Some e"
    and "wrote_status (log w) key cur st (log w')" and "ResourceVersion cur = ResourceVersion e"
  shows "cur = e"
proof -
  from assms(5) obtain t s' where "log w' = log w @ t @ [s']" "log w @ t \<noteq> []"
    and cur: "last (log w @ t) key = Some cur"
    by (auto simp: wrote_status_def)
  moreover have "last (log w @ t) \<in> set (log w @ t)" using calculation(2) by (rule last_in_set)
  ultimately have "last (log w @ t) \<in> set (log w')" "s \<in> set (log w')"
    using assms(3) by simp_all
  then show ?thesis
    using version_identifies [of w' "last (log w @ t)" s key cur e] assms(2,4,6) cur by blast
qed

lemma last_log_in: "valid w \<Longrightarrow> last (log w) \<in> set (log w)"
  using log_nonempty last_in_set by blast

end

subsection \<open>Telling the own write from the others'\<close>

text \<open>
  \<open>wrote_now h k cur st h'\<close>: the step from \<open>h\<close> to \<open>h'\<close> is this one status write and nothing else.
  The laws of \<open>kube_others\<close> say whose doing a step of the history is: \<open>others\<close> relates two histories
  when only other writers extended the first to the second. A read and a write refused with a
  conflict add nothing of their own, and a write that succeeds adds exactly one entry, after
  whatever the others did first.
\<close>

definition wrote_now ::
  "cluster list \<Rightarrow> key \<Rightarrow> SandboxEnvironment \<Rightarrow> SandboxEnvironmentStatus \<Rightarrow> cluster list \<Rightarrow> bool" where
  "wrote_now h k cur st h' \<longleftrightarrow>
     h \<noteq> [] \<and> last h k = Some cur \<and>
     (\<exists>rv. h' = h @ [(last h)(k \<mapsto> cur\<lparr>Status := st, ResourceVersion := rv\<rparr>)])"

lemma wrote_now_status:
  "extends_by h0 h \<Longrightarrow> wrote_now h k cur st h' \<Longrightarrow> wrote_status h0 k cur st h'"
  unfolding extends_by_def wrote_now_def wrote_status_def by auto

locale kube_others = kube_api k log valid
  for k :: "'w kube" and log :: "'w \<Rightarrow> cluster list" and valid :: "'w \<Rightarrow> bool" +
  fixes others :: "cluster list \<Rightarrow> cluster list \<Rightarrow> bool"
  assumes others_refl: "others h h"
    and others_trans: "others h h1 \<Longrightarrow> others h1 h2 \<Longrightarrow> others h h2"
    and others_extend: "others h h' \<Longrightarrow> extends_by h h'"
    and cached_others: "valid w \<Longrightarrow> k_CachedGet k key w = (rg, w') \<Longrightarrow> others (log w) (log w')"
    and update_refused: "valid w \<Longrightarrow> k_UpdateStatus k e w = (Some Conflict, w') \<Longrightarrow> others (log w) (log w')"
    and update_lands: "valid w \<Longrightarrow> k_UpdateStatus k e w = (None, w') \<Longrightarrow>
          \<exists>cur h. ResourceVersion cur = ResourceVersion e \<and> others (log w) h \<and>
             wrote_now h (env_key e) cur (Status e) (log w')"

subsection \<open>Retry loops\<close>

text \<open>
  A retry loop calls its function until it returns something that is not worth another
  attempt, or gives up and returns the last error.
\<close>

inductive attempts ::
  "(go_error \<Rightarrow> bool) \<Rightarrow> ('s \<Rightarrow> go_error option \<times> 's) \<Rightarrow> 's \<Rightarrow> go_error option \<Rightarrow> 's \<Rightarrow> bool"
  for retryable :: "go_error \<Rightarrow> bool" and f :: "'s \<Rightarrow> go_error option \<times> 's" where
  attempt_last: "f s = (r, s') \<Longrightarrow> attempts retryable f s r s'"
| attempt_again: "f s = (Some e, s1) \<Longrightarrow> retryable e \<Longrightarrow> attempts retryable f s1 r s' \<Longrightarrow>
    attempts retryable f s r s'"

locale retry_loop =
  fixes retryable :: "go_error \<Rightarrow> bool"
    and retry :: "('s \<Rightarrow> go_error option \<times> 's) \<Rightarrow> 's \<Rightarrow> go_error option \<times> 's"
  assumes retry_attempts: "retry f s = (r, s') \<Longrightarrow> attempts retryable f s r s'"
begin

text \<open>
  What every attempt worth a retry keeps (a preorder on states) holds between the start and the
  attempt whose result is returned.
\<close>

lemma result_of_last:
  assumes "retry f s = (r, s')"
    and step: "\<And>s e s1. P s \<Longrightarrow> f s = (Some e, s1) \<Longrightarrow> retryable e \<Longrightarrow> P s1 \<and> R s s1"
    and refl: "\<And>s. R s s" and trans: "\<And>a b c. R a b \<Longrightarrow> R b c \<Longrightarrow> R a c"
    and "P s"
  shows "\<exists>s1. P s1 \<and> R s s1 \<and> f s1 = (r, s')"
  using retry_attempts [OF assms(1)] assms(5)
proof (induction rule: attempts.induct)
  case (attempt_last s r s')
  then show ?case using refl by blast
next
  case (attempt_again s e s1 r s')
  then show ?case using step [OF attempt_again.prems attempt_again.hyps(1,2)] trans by blast
qed

end

subsection \<open>A reference server\<close>

record ref_world =
  r_hist :: "(key \<times> SandboxEnvironment) list list"
  r_next :: nat

definition ref_log :: "ref_world \<Rightarrow> cluster list" where
  "ref_log w = map map_of (r_hist w)"

definition ref_valid :: "ref_world \<Rightarrow> bool" where
  "ref_valid w \<longleftrightarrow>
     r_hist w \<noteq> [] \<and>
     (\<forall>s \<in> set (ref_log w). \<forall>key e. s key = Some e \<longrightarrow>
        env_key e = key \<and> length (ResourceVersion e) < r_next w) \<and>
     (\<forall>s \<in> set (ref_log w). \<forall>s' \<in> set (ref_log w). \<forall>key e e'.
        s key = Some e \<longrightarrow> s' key = Some e' \<longrightarrow> ResourceVersion e = ResourceVersion e' \<longrightarrow> e = e')"

definition ref_Get :: "key \<Rightarrow> ref_world \<Rightarrow> (go_error + SandboxEnvironment) \<times> ref_world" where
  "ref_Get key w =
     ((case map_of (last (r_hist w)) key of None \<Rightarrow> Inl NotFound | Some e \<Rightarrow> Inr e), w)"

definition ref_List :: "string \<Rightarrow> ref_world \<Rightarrow> (go_error + SandboxEnvironment list) \<times> ref_world" where
  "ref_List ns w =
     (Inr (filter (\<lambda>e. map_of (last (r_hist w)) (env_key e) = Some e \<and> (ns = [] \<or> Namespace e = ns))
            (map snd (last (r_hist w)))), w)"

definition ref_write :: "SandboxEnvironment \<Rightarrow> SandboxEnvironment \<Rightarrow> ref_world \<Rightarrow> go_error option \<times> ref_world" where
  "ref_write base e w =
     (case map_of (last (r_hist w)) (env_key base) of
        None \<Rightarrow> (Some NotFound, w)
      | Some cur \<Rightarrow>
          if ResourceVersion cur \<noteq> ResourceVersion base then (Some Conflict, w)
          else (None, w\<lparr>r_hist := r_hist w @
                  [AList.update (env_key base)
                     (cur\<lparr>Status := Status e, ResourceVersion := replicate (r_next w) CHR ''v''\<rparr>)
                     (last (r_hist w))],
                 r_next := Suc (r_next w)\<rparr>))"

definition ref_kube :: "ref_world kube" where
  "ref_kube = \<lparr>k_Get = ref_Get, k_CachedGet = ref_Get, k_List = ref_List, k_PatchStatus = ref_write,
               k_UpdateStatus = (\<lambda>e. ref_write e e)\<rparr>"

lemma last_ref_log: "r_hist w \<noteq> [] \<Longrightarrow> last (ref_log w) = map_of (last (r_hist w))"
  by (simp add: ref_log_def last_map)

lemma ref_write_ok:
  assumes "ref_write base e w = (None, w')" and "ref_valid w"
  obtains cur where "map_of (last (r_hist w)) (env_key base) = Some cur"
    "ResourceVersion cur = ResourceVersion base" "r_next w' = Suc (r_next w)"
    "ref_log w' = ref_log w @ [(last (ref_log w))(env_key base \<mapsto>
       cur\<lparr>Status := Status e, ResourceVersion := replicate (r_next w) CHR ''v''\<rparr>)]"
  using assms
  by (auto simp: ref_write_def ref_log_def ref_valid_def last_map update_conv' split: option.splits if_splits)

lemma ref_write_err: "ref_write base e w = (Some err, w') \<Longrightarrow> w' = w"
  by (auto simp: ref_write_def split: option.splits if_splits)

lemma ref_valid_nonempty: "ref_valid w \<Longrightarrow> r_hist w \<noteq> []"
  unfolding ref_valid_def by blast

lemma ref_write_valid:
  assumes "ref_write base e w = (None, w')" and "ref_valid w"
  shows "ref_valid w'"
proof -
  obtain cur where
    cur': "map_of (last (r_hist w)) (env_key base) = Some cur" and next': "r_next w' = Suc (r_next w)"
    and log': "ref_log w' = ref_log w @ [(last (ref_log w))(env_key base \<mapsto>
       cur\<lparr>Status := Status e, ResourceVersion := replicate (r_next w) CHR ''v''\<rparr>)]"
    by (rule ref_write_ok [OF assms])
  have cur: "last (ref_log w) (env_key base) = Some cur"
    using cur' last_ref_log [OF ref_valid_nonempty [OF assms(2)]] by simp
  define new where "new = cur\<lparr>Status := Status e, ResourceVersion := replicate (r_next w) CHR ''v''\<rparr>"
  have last_in: "last (ref_log w) \<in> set (ref_log w)"
    using ref_valid_nonempty [OF assms(2)] by (auto simp: ref_log_def last_map)
  have old: "env_key x = key \<and> length (ResourceVersion x) < r_next w"
    if "s \<in> set (ref_log w)" "s key = Some x" for s key x
    using assms(2) that unfolding ref_valid_def by blast
  have origin: "(\<exists>s0 \<in> set (ref_log w). s0 key = Some x) \<or> key = env_key base \<and> x = new"
    if "s \<in> set (ref_log w')" "s key = Some x" for s key x
    using that last_in unfolding log' new_def by (auto split: if_splits)
  have key: "env_key new = env_key base" using old [OF last_in cur] by (simp add: new_def env_key_def)
  have rv: "length (ResourceVersion new) = r_next w" by (simp add: new_def)
  have stored: "env_key x = key \<and> length (ResourceVersion x) < Suc (r_next w)"
    if "s \<in> set (ref_log w')" "s key = Some x" for s key x
    using origin [OF that] key rv by (auto dest: old)
  have same: "x = x'" if s: "s \<in> set (ref_log w')" "s key = Some x"
    and s': "s' \<in> set (ref_log w')" "s' key = Some x'" and "ResourceVersion x = ResourceVersion x'"
    for s s' key x x'
  proof (cases "x = new \<or> x' = new")
    case True
    then have "length (ResourceVersion x) = r_next w" "length (ResourceVersion x') = r_next w"
      using rv that(5) by (metis, metis)
    then have "x = new" "x' = new" using origin [OF s] origin [OF s'] old by (metis less_irrefl, metis less_irrefl)
    then show ?thesis by simp
  next
    case False
    then obtain s0 s1 where "s0 \<in> set (ref_log w)" "s0 key = Some x" "s1 \<in> set (ref_log w)" "s1 key = Some x'"
      using origin [OF s] origin [OF s'] by blast
    with assms(2) that(5) show ?thesis unfolding ref_valid_def by blast
  qed
  have "r_hist w' \<noteq> []" using log' by (auto simp: ref_log_def)
  with stored same show ?thesis unfolding ref_valid_def next' by blast
qed

lemma ref_write_spec:
  assumes "ref_valid w" and "ref_write base e w = (r, w')"
  shows "ref_valid w' \<and> extends_by (ref_log w) (ref_log w') \<and>
    (r = None \<longrightarrow> (\<exists>cur. ResourceVersion cur = ResourceVersion base \<and>
       wrote_status (ref_log w) (env_key base) cur (Status e) (ref_log w')))"
proof (cases r)
  case None
  then have wr: "ref_write base e w = (None, w')" using assms(2) by simp
  have ne: "r_hist w \<noteq> []" using assms(1) by (simp add: ref_valid_def)
  then have "ref_log w \<noteq> []" by (simp add: ref_log_def)
  with ref_write_ok [OF wr assms(1)] ne
  have "\<exists>cur. ResourceVersion cur = ResourceVersion base \<and>
      wrote_status (ref_log w) (env_key base) cur (Status e) (ref_log w')"
    unfolding wrote_status_def by (metis append_Nil append_Nil2 last_ref_log)
  then show ?thesis using ref_write_valid [OF wr assms(1)] wrote_status_extends by blast
next
  case (Some err)
  then show ?thesis using assms ref_write_err by fastforce
qed

lemma ref_valid_stored:
  "ref_valid w \<Longrightarrow> s \<in> set (ref_log w) \<Longrightarrow> s key = Some e \<Longrightarrow> env_key e = key"
  unfolding ref_valid_def by blast

interpretation ref_server: kube_api ref_kube ref_log ref_valid
proof unfold_locales
  fix w w' :: ref_world and key :: key and rg
  assume "ref_valid w" and "k_Get ref_kube key w = (rg, w')"
  then show "ref_valid w' \<and> extends_by (ref_log w) (ref_log w') \<and>
      (\<forall>e. rg = Inr e \<longrightarrow> last (ref_log w') key = Some e)"
    by (auto simp: ref_kube_def ref_Get_def last_ref_log ref_valid_nonempty split: option.splits)
next
  fix w w' :: ref_world and key :: key and rg
  assume v: "ref_valid w" and "k_CachedGet ref_kube key w = (rg, w')"
  moreover have "map_of (last (r_hist w)) \<in> set (ref_log w)"
    using ref_valid_nonempty [OF v] by (simp add: ref_log_def)
  ultimately show "ref_valid w' \<and> extends_by (ref_log w) (ref_log w') \<and>
      (\<forall>e. rg = Inr e \<longrightarrow> (\<exists>s \<in> set (ref_log w'). s key = Some e))"
    by (auto simp: ref_kube_def ref_Get_def split: option.splits)
next
  fix w w' :: ref_world and ns rs
  assume "ref_valid w" and "k_List ref_kube ns w = (rs, w')"
  then show "ref_valid w' \<and> extends_by (ref_log w) (ref_log w') \<and>
      (\<forall>es. rs = Inr es \<longrightarrow> (\<forall>e \<in> set es. last (ref_log w') (env_key e) = Some e))"
    by (auto simp: ref_kube_def ref_List_def last_ref_log ref_valid_nonempty)
next
  fix w :: ref_world and s s' key e e'
  assume "ref_valid w" "s \<in> set (ref_log w)" "s' \<in> set (ref_log w)" "s key = Some e" "s' key = Some e'"
    "ResourceVersion e = ResourceVersion e'"
  then show "e = e'" unfolding ref_valid_def by blast
next
  fix w :: ref_world and s key e
  assume "ref_valid w" "s \<in> set (ref_log w)" "s key = Some e"
  then show "env_key e = key" by (rule ref_valid_stored)
qed (auto simp: ref_kube_def ref_log_def ref_valid_nonempty dest: ref_write_spec [unfolded ref_log_def])

interpretation ref_others: kube_others ref_kube ref_log ref_valid "(=)"
proof unfold_locales
  fix w w' :: ref_world and key rg
  assume "k_CachedGet ref_kube key w = (rg, w')"
  then show "ref_log w = ref_log w'" by (simp add: ref_kube_def ref_Get_def)
next
  fix w w' :: ref_world and e
  assume "k_UpdateStatus ref_kube e w = (Some Conflict, w')"
  then show "ref_log w = ref_log w'" by (auto simp: ref_kube_def dest: ref_write_err)
next
  fix w w' :: ref_world and e
  assume v: "ref_valid w" and "k_UpdateStatus ref_kube e w = (None, w')"
  then have "ref_write e e w = (None, w')" by (simp add: ref_kube_def)
  from ref_write_ok [OF this v] v show "\<exists>cur h. ResourceVersion cur = ResourceVersion e \<and> ref_log w = h \<and>
      wrote_now h (env_key e) cur (Status e) (ref_log w')"
    unfolding wrote_now_def by (metis last_ref_log ref_valid_nonempty map_is_Nil_conv ref_log_def)
qed auto

subsection \<open>A reference for RetryOnConflict\<close>

fun ref_retry :: "nat \<Rightarrow> ('s \<Rightarrow> go_error option \<times> 's) \<Rightarrow> 's \<Rightarrow> go_error option \<times> 's" where
  "ref_retry 0 f s = f s"
| "ref_retry (Suc n) f s =
     (case f s of (Some Conflict, s1) \<Rightarrow> ref_retry n f s1 | (r, s1) \<Rightarrow> (r, s1))"

lemma ref_retry_attempts: "ref_retry n f s = (r, s') \<Longrightarrow> attempts (\<lambda>e. e = Conflict) f s r s'"
  by (induction n f s rule: ref_retry.induct)
    (auto intro: attempts.intros split: prod.splits option.splits go_error.splits)

interpretation ref_conflict: retry_loop "\<lambda>e. e = Conflict" "ref_retry n" for n
  by unfold_locales (rule ref_retry_attempts)

end
