(* ===== verification/Wait_Probe.thy ===== *)
theory Wait_Probe
  imports Conditions
begin

section \<open>Wait declarations: validation and evaluation\<close>

text \<open>
  \<^verbatim>\<open>src/operator/internal/sandboxctl/probe.go\<close> (what the agent may declare, checked by the
  sidecar) and \<^verbatim>\<open>src/operator/internal/lifecycle/probe.go\<close> (when a declared wait is
  satisfied, used by the operator). \<^verbatim>\<open>time.Parse\<close>, \<^verbatim>\<open>time.ParseDuration\<close> and \<^verbatim>\<open>url.Parse\<close> are a
  parameter; \<^verbatim>\<open>strconv.Atoi\<close> is defined. Go iterates maps in an unspecified order: the
  orders of the three loops of \<^verbatim>\<open>Validate\<close> are arguments. The prose of an error is left out,
  its code and field are kept.
\<close>

subsection \<open>Numbers in strings\<close>

definition is_digit :: "char \<Rightarrow> bool" where
  "is_digit c \<longleftrightarrow> 48 \<le> (of_char c :: nat) \<and> (of_char c :: nat) \<le> 57"

definition digits_value :: "string \<Rightarrow> int" where
  "digits_value s = foldl (\<lambda>acc c. 10 * acc + (of_char c - 48)) 0 s"

definition Atoi :: "string \<Rightarrow> int option" where
  "Atoi s =
     (let neg = (case s of c # _ \<Rightarrow> c = CHR ''-'' | [] \<Rightarrow> False);
          body = (case s of c # r \<Rightarrow> if c = CHR ''-'' \<or> c = CHR ''+'' then r else s | [] \<Rightarrow> []);
          n = (if neg then - digits_value body else digits_value body)
      in if body = [] \<or> \<not> list_all is_digit body then None
         else if n < - (2 ^ 63) \<or> n > 2 ^ 63 - 1 then None
         else Some n)"

subsection \<open>The allowlist\<close>

record url =
  u_Scheme :: string
  u_Host :: string
  u_HasUser :: bool

record parsers =
  ParseRFC3339 :: "string \<Rightarrow> time option"
  ParseDur :: "string \<Rightarrow> duration option"
  UrlParse :: "string \<Rightarrow> url option"

record WaitProbe =
  wp_Type :: string
  wp_Reason :: string
  wp_Params :: "string \<rightharpoonup> string"

definition maxReasonBytes :: nat where "maxReasonBytes = 512"
definition maxParamCount :: nat where "maxParamCount = 16"
definition maxParamKey :: nat where "maxParamKey = 64"
definition maxParamValue :: nat where "maxParamValue = 1024"

text \<open>
  A control character is a byte below 32, the byte 127, or the two-byte encoding of
  U+0080 to U+009F; the byte C2 only ever starts a rune.
\<close>

fun hasControlChars :: "string \<Rightarrow> bool" where
  "hasControlChars [] = False"
| "hasControlChars (c # s) =
     ((of_char c :: nat) < 32 \<or> (of_char c :: nat) = 127
      \<or> (of_char c :: nat) = 194 \<and>
        (case s of [] \<Rightarrow> False | d # _ \<Rightarrow> 128 \<le> (of_char d :: nat) \<and> (of_char d :: nat) \<le> 159)
      \<or> hasControlChars s)"

definition HasSuffix :: "string \<Rightarrow> string \<Rightarrow> bool" where
  "HasSuffix s t = HasPrefix (rev s) (rev t)"

definition maxLen :: "nat \<Rightarrow> string \<Rightarrow> bool" where
  "maxLen n s \<longleftrightarrow> \<not> length s > n"

definition validateRepo :: "string \<Rightarrow> bool" where
  "validateRepo s \<longleftrightarrow> \<not> (\<not> Contains s ''/'' \<or> HasPrefix s ''/'' \<or> HasSuffix s ''/'')"

definition git_ref_banned :: string where
  "git_ref_banned = [CHR '' '', CHR 0x09, CHR 0x0A, CHR ''~'', CHR ''^'', CHR '':'', CHR ''?'',
     CHR ''*'', CHR ''['', CHR 0x5C]"

definition validateGitRef :: "string \<Rightarrow> bool" where
  "validateGitRef s \<longleftrightarrow> s \<noteq> [] \<and> \<not> (list_ex (\<lambda>c. c \<in> set git_ref_banned) s \<or> Contains s ''..'')"

definition validateHTTPURL :: "parsers \<Rightarrow> string \<Rightarrow> bool" where
  "validateHTTPURL lib s =
     (case UrlParse lib s of
        None \<Rightarrow> False
      | Some u \<Rightarrow> (u_Scheme u = ''http'' \<or> u_Scheme u = ''https'') \<and> u_Host u \<noteq> [] \<and> \<not> u_HasUser u)"

definition validateStatusCode :: "string \<Rightarrow> bool" where
  "validateStatusCode s = (case Atoi s of None \<Rightarrow> False | Some n \<Rightarrow> \<not> (n < 100 \<or> n > 599))"

definition validateObjectKey :: "string \<Rightarrow> bool" where
  "validateObjectKey s \<longleftrightarrow> s \<noteq> [] \<and> \<not> HasPrefix s ''/'' \<and> \<not> Contains s ''..''"

definition validateRFC3339 :: "parsers \<Rightarrow> string \<Rightarrow> bool" where
  "validateRFC3339 lib s \<longleftrightarrow> ParseRFC3339 lib s \<noteq> None"

definition validateDuration :: "parsers \<Rightarrow> string \<Rightarrow> bool" where
  "validateDuration lib s =
     (case ParseDur lib s of None \<Rightarrow> False | Some d \<Rightarrow> \<not> d \<le> 0 \<and> \<not> d > 24 * Hour)"

text \<open>The schema of each type: parameter, whether it is required, its check.\<close>

type_synonym param_spec = "bool \<times> (string \<Rightarrow> bool)"

definition paramSchema :: "parsers \<Rightarrow> (string \<times> (string \<times> param_spec) list) list" where
  "paramSchema lib =
     [(WaitTypeGitProxyCheck, [(''repo'', (False, validateRepo)), (''ref'', (True, validateGitRef))]),
      (WaitTypeHTTPGet, [(''url'', (True, validateHTTPURL lib)),
                         (''expectStatus'', (False, validateStatusCode)),
                         (''expectBody'', (False, maxLen 256))]),
      (WaitTypeS3ObjectExists, [(''key'', (True, validateObjectKey))]),
      (WaitTypeNotBefore, [(''time'', (False, validateRFC3339 lib)),
                           (''duration'', (False, validateDuration lib))])]"

record ValidationError =
  ve_Code :: string
  ve_Field :: string

definition validationErr :: "string \<Rightarrow> string \<Rightarrow> ValidationError" where
  "validationErr code field = \<lparr>ve_Code = code, ve_Field = field\<rparr>"

text \<open>One iteration of each of the three loops of Validate: the error that ends it, if any.\<close>

definition check_sizes :: "WaitProbe \<Rightarrow> string \<Rightarrow> ValidationError option" where
  "check_sizes p key =
     (case wp_Params p key of
        None \<Rightarrow> None
      | Some v \<Rightarrow>
          if length key > maxParamKey then Some (validationErr ''invalid_param'' key)
          else if length v > maxParamValue then Some (validationErr ''invalid_param'' key)
          else if hasControlChars v then Some (validationErr ''invalid_param'' key)
          else None)"

definition check_known :: "(string \<times> param_spec) list \<Rightarrow> string \<Rightarrow> ValidationError option" where
  "check_known schema key =
     (case map_of schema key of
        None \<Rightarrow> Some \<lparr>ve_Code = ''unknown_param'', ve_Field = key\<rparr>
      | Some _ \<Rightarrow> None)"

definition check_spec :: "WaitProbe \<Rightarrow> string \<times> param_spec \<Rightarrow> ValidationError option" where
  "check_spec p entry =
     (case entry of (key, required, validate) \<Rightarrow>
        (case wp_Params p key of
           None \<Rightarrow> if required then Some (validationErr ''missing_param'' key) else None
         | Some v \<Rightarrow> if \<not> validate v then Some (validationErr ''invalid_param'' key) else None))"

fun first_error :: "('a \<Rightarrow> ValidationError option) \<Rightarrow> 'a list \<Rightarrow> ValidationError option" where
  "first_error f [] = None"
| "first_error f (x # xs) = (case f x of None \<Rightarrow> first_error f xs | Some e \<Rightarrow> Some e)"

definition or_else :: "'a option \<Rightarrow> 'a option \<Rightarrow> 'a option" where
  "or_else a b = (case a of None \<Rightarrow> b | Some x \<Rightarrow> Some x)"

text \<open>
  \<open>ks\<close> and \<open>ks'\<close> are the orders in which the two loops over the parameters visit their keys,
  \<open>order\<close> rearranges the schema for the third.
\<close>

definition Validate ::
  "parsers \<Rightarrow> string list \<Rightarrow> string list \<Rightarrow>
   ((string \<times> param_spec) list \<Rightarrow> (string \<times> param_spec) list) \<Rightarrow> WaitProbe \<Rightarrow> ValidationError option" where
  "Validate lib ks ks' order p =
     (case map_of (paramSchema lib) (wp_Type p) of
        None \<Rightarrow> Some \<lparr>ve_Code = ''unknown_probe_type'', ve_Field = ''type''\<rparr>
      | Some schema \<Rightarrow>
          if wp_Reason p = [] then Some (validationErr ''missing_param'' ''reason'')
          else if length (wp_Reason p) > maxReasonBytes then Some (validationErr ''invalid_param'' ''reason'')
          else if hasControlChars (wp_Reason p) then Some (validationErr ''invalid_param'' ''reason'')
          else if length ks > maxParamCount then Some (validationErr ''invalid_param'' ''params'')
          else or_else (first_error (check_sizes p) ks)
              (or_else (first_error (check_known schema) ks')
              (or_else (first_error (check_spec p) (order schema))
              (if wp_Type p = WaitTypeNotBefore \<and>
                  (wp_Params p ''time'' \<noteq> None) = (wp_Params p ''duration'' \<noteq> None)
               then Some (validationErr ''invalid_param'' ''time/duration'') else None))))"

subsection \<open>Evaluation\<close>

definition OverallSuccess :: string where "OverallSuccess = ''success''"
definition OverallFailure :: string where "OverallFailure = ''failure''"
definition OverallNeutral :: string where "OverallNeutral = ''neutral''"
definition OverallCancelled :: string where "OverallCancelled = ''cancelled''"
definition OverallTimedOut :: string where "OverallTimedOut = ''timed_out''"

definition NotBeforeDeadline :: "parsers \<Rightarrow> (string \<rightharpoonup> string) \<Rightarrow> time \<Rightarrow> time option" where
  "NotBeforeDeadline lib params declaredAt =
     (case params ''time'' of
        Some t \<Rightarrow> ParseRFC3339 lib t
      | None \<Rightarrow>
          (case params ''duration'' of
             Some d \<Rightarrow> (case ParseDur lib d of None \<Rightarrow> None | Some delay \<Rightarrow> Some (declaredAt + delay))
           | None \<Rightarrow> None))"

definition NotBeforeSatisfied :: "parsers \<Rightarrow> (string \<rightharpoonup> string) \<Rightarrow> time \<Rightarrow> time \<Rightarrow> bool" where
  "NotBeforeSatisfied lib params declaredAt now =
     (case NotBeforeDeadline lib params declaredAt of None \<Rightarrow> False | Some deadline \<Rightarrow> \<not> now < deadline)"

definition GitProxyCheckSatisfied :: "string \<Rightarrow> bool" where
  "GitProxyCheckSatisfied overall \<longleftrightarrow>
     overall = OverallSuccess \<or> overall = OverallFailure \<or> overall = OverallNeutral \<or>
     overall = OverallCancelled \<or> overall = OverallTimedOut"

definition HTTPGetSatisfied :: "int \<Rightarrow> string \<Rightarrow> (string \<rightharpoonup> string) \<Rightarrow> bool" where
  "HTTPGetSatisfied status body params =
     (let expectStatus = (case params ''expectStatus'' of
                            None \<Rightarrow> 200
                          | Some s \<Rightarrow> (case Atoi s of None \<Rightarrow> 200 | Some n \<Rightarrow> n))
      in if status \<noteq> expectStatus then False
         else case params ''expectBody'' of
                None \<Rightarrow> True
              | Some want \<Rightarrow> if want \<noteq> [] then Contains body want else True)"

definition S3ObjectExistsSatisfied :: "bool \<Rightarrow> bool" where
  "S3ObjectExistsSatisfied exists = exists"

datatype ProbeErrorKind = ProbeErrTransient | ProbeErrUnevaluatable

text \<open>An error as \<^verbatim>\<open>errors.As\<close> sees it: one that wraps a ProbeError, or any other.\<close>

datatype probe_err = ProbeError ProbeErrorKind string | OtherError string

definition ClassifyError :: "probe_err option \<Rightarrow> bool \<times> string \<times> string" where
  "ClassifyError err =
     (case err of
        None \<Rightarrow> (True, ReasonProbeFailed, [])
      | Some (ProbeError kind msg) \<Rightarrow> (kind = ProbeErrUnevaluatable, ReasonProbeFailed, msg)
      | Some (OtherError msg) \<Rightarrow> (True, ReasonProbeFailed, msg))"

subsection \<open>What is accepted\<close>

definition param_accepted :: "(string \<times> param_spec) list \<Rightarrow> string \<Rightarrow> string \<Rightarrow> bool" where
  "param_accepted schema key v \<longleftrightarrow>
     length key \<le> maxParamKey \<and> length v \<le> maxParamValue \<and> \<not> hasControlChars v \<and>
     (\<exists>required validate. map_of schema key = Some (required, validate) \<and> validate v)"

definition probe_accepted :: "parsers \<Rightarrow> WaitProbe \<Rightarrow> bool" where
  "probe_accepted lib p \<longleftrightarrow>
     (\<exists>schema. map_of (paramSchema lib) (wp_Type p) = Some schema
        \<and> wp_Reason p \<noteq> [] \<and> length (wp_Reason p) \<le> maxReasonBytes \<and> \<not> hasControlChars (wp_Reason p)
        \<and> card (dom (wp_Params p)) \<le> maxParamCount
        \<and> (\<forall>key v. wp_Params p key = Some v \<longrightarrow> param_accepted schema key v)
        \<and> (\<forall>key validate. map_of schema key = Some (True, validate) \<longrightarrow> key \<in> dom (wp_Params p)))
     \<and> (wp_Type p = WaitTypeNotBefore \<longrightarrow>
          (wp_Params p ''time'' = None) \<noteq> (wp_Params p ''duration'' = None))"

lemma first_error_None: "first_error f xs = None \<longleftrightarrow> (\<forall>x \<in> set xs. f x = None)"
  by (induction xs) (auto split: option.splits)

lemma or_else_None [simp]: "or_else a b = None \<longleftrightarrow> a = None \<and> b = None"
  by (cases a) (simp_all add: or_else_def)

lemma paramSchema_distinct:
  "map_of (paramSchema lib) t = Some schema \<Longrightarrow> distinct (map fst schema)"
  by (auto simp: paramSchema_def split: if_splits)

lemma check_spec_None:
  "check_spec p (key, required, validate) = None \<longleftrightarrow>
   (case wp_Params p key of None \<Rightarrow> \<not> required | Some v \<Rightarrow> validate v)"
  by (simp add: check_spec_def split: option.splits)

lemma checks_accept:
  assumes "set ks = dom (wp_Params p)" and "set ks' = dom (wp_Params p)" and "distinct (map fst schema)"
  shows "(\<forall>key \<in> set ks. check_sizes p key = None) \<and> (\<forall>key \<in> set ks'. check_known schema key = None)
         \<and> (\<forall>x \<in> set schema. check_spec p x = None)
     \<longleftrightarrow> (\<forall>key v. wp_Params p key = Some v \<longrightarrow> param_accepted schema key v)
         \<and> (\<forall>key validate. map_of schema key = Some (True, validate) \<longrightarrow> key \<in> dom (wp_Params p))"
    (is "?sizes \<and> ?known \<and> ?spec \<longleftrightarrow> ?params \<and> ?required")
proof -
  have sizes: "?sizes \<longleftrightarrow> (\<forall>key v. wp_Params p key = Some v \<longrightarrow>
      length key \<le> maxParamKey \<and> length v \<le> maxParamValue \<and> \<not> hasControlChars v)"
    using assms(1) by (force simp: check_sizes_def split: if_splits option.splits)
  have known: "?known \<longleftrightarrow> (\<forall>key v. wp_Params p key = Some v \<longrightarrow> map_of schema key \<noteq> None)"
    unfolding assms(2) by (simp add: check_known_def dom_def split: option.splits)
      (metis not_None_eq old.prod.exhaust)
  have spec: "?spec \<longleftrightarrow> (\<forall>key required validate. map_of schema key = Some (required, validate) \<longrightarrow>
      (case wp_Params p key of None \<Rightarrow> \<not> required | Some v \<Rightarrow> validate v))"
    using assms(3) by (auto simp: map_of_eq_Some_iff check_spec_None)
  show ?thesis
  proof
    assume "?sizes \<and> ?known \<and> ?spec"
    then show "?params \<and> ?required"
      unfolding sizes known spec param_accepted_def by (fastforce split: option.splits)
  next
    assume *: "?params \<and> ?required"
    then have "?sizes" "?known" unfolding sizes known param_accepted_def by (blast, fastforce)
    moreover have "?spec"
      unfolding spec
    proof (intro allI impI)
      fix key required validate
      assume "map_of schema key = Some (required, validate)"
      with * show "case wp_Params p key of None \<Rightarrow> \<not> required | Some v \<Rightarrow> validate v"
        by (cases required) (fastforce simp: param_accepted_def split: option.splits)+
    qed
    ultimately show "?sizes \<and> ?known \<and> ?spec" by blast
  qed
qed

lemma Validate_char:
  assumes "distinct ks" and "set ks = dom (wp_Params p)"
    and "set ks' = dom (wp_Params p)" and "\<And>schema. set (order schema) = set schema"
  shows "Validate lib ks ks' order p = None \<longleftrightarrow> probe_accepted lib p"
proof (cases "map_of (paramSchema lib) (wp_Type p)")
  case None
  then show ?thesis by (simp add: Validate_def probe_accepted_def)
next
  case (Some schema)
  have "card (dom (wp_Params p)) = length ks"
    using assms(1,2) distinct_card by metis
  then show ?thesis
    using Some assms(4) checks_accept [OF assms(2,3) paramSchema_distinct [OF Some]]
    by (auto simp: Validate_def probe_accepted_def first_error_None not_less)
qed

text \<open>
  C30: whether a wait declaration is accepted does not depend on the order in which Go
  iterates its maps: it is accepted exactly when its type is allowlisted, its reason and
  parameters are within the limits and free of control characters, every parameter is
  permitted for the type and passes its check, every required one is there, and a NotBefore
  wait names exactly one of a time and a duration.
\<close>

theorem Validate_accepts_iff:
  assumes "distinct ks" and "set ks = dom (wp_Params p)"
    and "set ks' = dom (wp_Params p)" and "\<And>schema. set (order schema) = set schema"
  shows "Validate lib ks ks' order p = None \<longleftrightarrow> probe_accepted lib p"
  using assms by (rule Validate_char)

lemma accepted_schema:
  assumes "probe_accepted lib p" and "map_of (paramSchema lib) (wp_Type p) = Some schema"
    and "wp_Params p key = Some v"
  obtains required validate where "map_of schema key = Some (required, validate)" "validate v"
proof -
  from assms(1,2) have "\<forall>key v. wp_Params p key = Some v \<longrightarrow> param_accepted schema key v"
    unfolding probe_accepted_def by auto
  then have "param_accepted schema key v" using assms(3) by blast
  then show thesis using that unfolding param_accepted_def by blast
qed

lemma accepted_NotBefore:
  assumes "probe_accepted lib p" and "wp_Type p = WaitTypeNotBefore"
  shows "(\<exists>t. wp_Params p ''time'' = Some t \<and> validateRFC3339 lib t)
         \<or> (\<exists>d. wp_Params p ''time'' = None \<and> wp_Params p ''duration'' = Some d \<and> validateDuration lib d)"
proof -
  have schema: "map_of (paramSchema lib) (wp_Type p) =
      Some [(''time'', (False, validateRFC3339 lib)), (''duration'', (False, validateDuration lib))]"
    by (simp add: assms(2) paramSchema_def WaitTypeGitProxyCheck_def WaitTypeHTTPGet_def
        WaitTypeS3ObjectExists_def WaitTypeNotBefore_def)
  have "(wp_Params p ''time'' = None) \<noteq> (wp_Params p ''duration'' = None)"
    using assms by (simp add: probe_accepted_def)
  moreover have "validateRFC3339 lib t" if "wp_Params p ''time'' = Some t" for t
    using accepted_schema [OF assms(1) schema that] by auto
  moreover have "validateDuration lib d" if "wp_Params p ''duration'' = Some d" for d
    using accepted_schema [OF assms(1) schema that] by auto
  ultimately show ?thesis by auto
qed

text \<open>
  What the sidecar accepts the operator can evaluate: an accepted NotBefore wait has a
  deadline, one given as a duration lies within the next 24 hours, the wait is satisfied
  exactly from the deadline on and stays satisfied; an accepted HTTP probe's expected status
  parses to a number from 100 to 599, so the fallback to 200 is never taken for it.
\<close>

theorem accepted_wait_is_evaluable:
  assumes "distinct ks" and "set ks = dom (wp_Params p)" and "set ks' = dom (wp_Params p)"
    and "\<And>schema. set (order schema) = set schema" and "Validate lib ks ks' order p = None"
  shows "(wp_Type p = WaitTypeNotBefore \<longrightarrow>
            (\<exists>d. NotBeforeDeadline lib (wp_Params p) declaredAt = Some d
               \<and> (wp_Params p ''time'' = None \<longrightarrow> declaredAt < d \<and> d \<le> declaredAt + 24 * Hour)
               \<and> (\<forall>now. NotBeforeSatisfied lib (wp_Params p) declaredAt now \<longleftrightarrow> d \<le> now)))
         \<and> (wp_Type p = WaitTypeHTTPGet \<longrightarrow> wp_Params p ''expectStatus'' = Some s \<longrightarrow>
            (\<exists>n. Atoi s = Some n \<and> 100 \<le> n \<and> n \<le> 599))"
proof (intro conjI impI)
  have acc: "probe_accepted lib p" using Validate_char [OF assms(1-4)] assms(5) by simp
  assume "wp_Type p = WaitTypeNotBefore"
  from accepted_NotBefore [OF acc this]
  show "\<exists>d. NotBeforeDeadline lib (wp_Params p) declaredAt = Some d
      \<and> (wp_Params p ''time'' = None \<longrightarrow> declaredAt < d \<and> d \<le> declaredAt + 24 * Hour)
      \<and> (\<forall>now. NotBeforeSatisfied lib (wp_Params p) declaredAt now \<longleftrightarrow> d \<le> now)"
    by (auto simp: NotBeforeDeadline_def NotBeforeSatisfied_def validateRFC3339_def validateDuration_def
        not_less split: option.splits)
next
  assume http: "wp_Type p = WaitTypeHTTPGet" "wp_Params p ''expectStatus'' = Some s"
  then have schema: "map_of (paramSchema lib) (wp_Type p) = Some [(''url'', (True, validateHTTPURL lib)),
      (''expectStatus'', (False, validateStatusCode)), (''expectBody'', (False, maxLen 256))]"
    by (simp add: paramSchema_def WaitTypeGitProxyCheck_def WaitTypeHTTPGet_def)
  have "probe_accepted lib p" using Validate_char [OF assms(1-4)] assms(5) by simp
  then have "validateStatusCode s" using accepted_schema [OF _ schema http(2)] by auto
  then show "\<exists>n. Atoi s = Some n \<and> 100 \<le> n \<and> n \<le> 599"
    by (auto simp: validateStatusCode_def split: option.splits)
qed

subsection \<open>A concrete declaration\<close>

definition sample_parsers :: parsers where
  "sample_parsers = \<lparr>ParseRFC3339 = (\<lambda>s. None),
     ParseDur = (\<lambda>s. if s = ''30m'' then Some (30 * Minute) else None), UrlParse = (\<lambda>s. None)\<rparr>"

definition sample_wait :: WaitProbe where
  "sample_wait = \<lparr>wp_Type = WaitTypeNotBefore, wp_Reason = ''cool down'',
                  wp_Params = [''duration'' \<mapsto> ''30m'']\<rparr>"

lemma sample_wait_valid: "Validate sample_parsers [''duration''] [''duration''] id sample_wait = None"
  by (simp add: Validate_def sample_wait_def paramSchema_def WaitTypeGitProxyCheck_def WaitTypeHTTPGet_def
      WaitTypeS3ObjectExists_def WaitTypeNotBefore_def maxReasonBytes_def maxParamCount_def
      check_sizes_def maxParamKey_def maxParamValue_def check_known_def check_spec_def
      validateDuration_def sample_parsers_def)

theorem Validate_accepts_iff_witness: "probe_accepted sample_parsers sample_wait"
  using Validate_accepts_iff [of "[''duration'']" sample_wait "[''duration'']" id sample_parsers] sample_wait_valid
  by (simp add: sample_wait_def)

theorem accepted_wait_is_evaluable_witness:
  "\<exists>d. NotBeforeDeadline sample_parsers (wp_Params sample_wait) 0 = Some d \<and> d \<le> 24 * Hour"
proof -
  have "set [''duration''] = dom (wp_Params sample_wait)" by (simp add: sample_wait_def)
  from accepted_wait_is_evaluable [OF _ this this _ sample_wait_valid, of 0] show ?thesis
    by (auto simp: sample_wait_def)
qed

end
