(* ===== verification/Env_Store.thy ===== *)
theory Env_Store
  imports Kube_Api Wait_Probe
begin

section \<open>The sidecar's status writes\<close>

text \<open>
  \<^verbatim>\<open>src/operator/internal/sandboxctl/store.go\<close>: each operation reads the environment,
  changes its status and patches it back under an optimistic lock, inside two retry
  loops. The change of each operation is a function of its own; \<open>patchStatus\<close> runs it
  against the API server. A variable that the closure shares with its caller (\<^verbatim>\<open>idempotent\<close>
  of \<^verbatim>\<open>ReportDone\<close>) is threaded beside the world.
\<close>

definition ErrWaitAlreadyDeclared :: go_error where
  "ErrWaitAlreadyDeclared = ErrorString ''wait already declared''"
definition ErrResultAlreadyReported :: go_error where
  "ErrResultAlreadyReported = ErrorString ''result already reported with a different outcome''"
definition ErrFreezing :: go_error where
  "ErrFreezing = ErrorString ''environment is freezing''"
definition ErrSnapshotSeqRegression :: go_error where
  "ErrSnapshotSeqRegression = ErrorString ''snapshot sequence number would regress''"

lemmas store_error_defs =
  ErrWaitAlreadyDeclared_def ErrResultAlreadyReported_def ErrFreezing_def ErrSnapshotSeqRegression_def

record SnapshotAttempt =
  xa_Seq :: int
  xa_Phase :: SnapshotAttemptPhase
  xa_Attempts :: int
  xa_Reason :: string
  xa_Message :: string

record RestoredRoot =
  xr_Name :: string
  xr_Source :: string
  xr_WarmMissReason :: string
  xr_BytesDownloaded :: int

record RestoreAttempt =
  xt_Seq :: int
  xt_SnapshotID :: string
  xt_Phase :: RestoreAttemptPhase
  xt_Roots :: "RestoredRoot list"
  xt_Attempts :: int
  xt_Duration :: duration
  xt_Reason :: string
  xt_Message :: string

record SnapshotRecord =
  xs_Seq :: int
  xs_URI :: string
  xs_SizeBytes :: int
  xs_SHA256 :: string
  xs_TakenAt :: time
  xs_DurationMillis :: int
  xs_GitState :: "GitStateStatus option"

record ArchivePatch =
  xp_URI :: string
  xp_FinishedAt :: "time option"
  xp_ContextPresent :: bool
  xp_RunJSONSHA256 :: string

record Result =
  rs_Outcome :: AgentOutcome
  rs_Message :: string
  rs_ExitCode :: "int option"

text \<open>\<^verbatim>\<open>Duration.Milliseconds\<close> truncates towards zero.\<close>

definition Milliseconds :: "duration \<Rightarrow> int" where
  "Milliseconds d = (if d < 0 then - ((- d) div 1000000) else d div 1000000)"

subsection \<open>The change each operation makes\<close>

type_synonym change = "SandboxEnvironment \<Rightarrow> go_error + SandboxEnvironment"

definition with_status :: "SandboxEnvironment \<Rightarrow> (SandboxEnvironmentStatus \<Rightarrow> SandboxEnvironmentStatus) \<Rightarrow> SandboxEnvironment" where
  "with_status env f = env\<lparr>Status := f (Status env)\<rparr>"

definition RecordSnapshotAttempt_change :: "SnapshotAttempt \<Rightarrow> time \<Rightarrow> change" where
  "RecordSnapshotAttempt_change a at env =
     (let started = (case st_SnapshotAttempt (Status env) of
                       Some existing \<Rightarrow> if sa_Seq existing = xa_Seq a \<and> sa_StartedAt existing \<noteq> None
                                        then sa_StartedAt existing else Some at
                     | None \<Rightarrow> Some at)
      in Inr (with_status env (\<lambda>s. s\<lparr>st_SnapshotAttempt :=
           Some \<lparr>sa_Seq = int32 (xa_Seq a), sa_Phase = xa_Phase a, sa_Attempts = int32 (xa_Attempts a),
                 sa_Reason = xa_Reason a, sa_Message = xa_Message a,
                 sa_StartedAt = started, sa_UpdatedAt = Some at\<rparr>\<rparr>)))"

definition RecordSnapshot_change :: "SnapshotRecord \<Rightarrow> time \<Rightarrow> change" where
  "RecordSnapshot_change r at env =
     (if (case st_Snapshot (Status env) of Some existing \<Rightarrow> sn_Seq existing > xs_Seq r | None \<Rightarrow> False)
      then Inl ErrSnapshotSeqRegression
      else let startedAt = (case st_SnapshotAttempt (Status env) of
                              Some existing \<Rightarrow> sa_StartedAt existing | None \<Rightarrow> None)
           in Inr (with_status env (\<lambda>s. s\<lparr>
                st_Snapshot := Some \<lparr>sn_Seq = int32 (xs_Seq r), sn_URI = xs_URI r,
                  sn_SizeBytes = xs_SizeBytes r, sn_SHA256 = xs_SHA256 r,
                  sn_TakenAt = Some (xs_TakenAt r), sn_DurationMillis = xs_DurationMillis r\<rparr>,
                st_SnapshotAttempt := Some \<lparr>sa_Seq = int32 (xs_Seq r), sa_Phase = SnapshotAttemptSucceeded,
                  sa_Attempts = 0, sa_Reason = [], sa_Message = [],
                  sa_StartedAt = startedAt, sa_UpdatedAt = Some at\<rparr>,
                st_GitState := (case xs_GitState r of None \<Rightarrow> st_GitState s | Some g \<Rightarrow> Some g)\<rparr>)))"

definition restored_root :: "RestoredRoot \<Rightarrow> RestoredRootStatus" where
  "restored_root r = \<lparr>rr_Name = xr_Name r, rr_Source = xr_Source r,
     rr_WarmMissReason = xr_WarmMissReason r, rr_BytesDownloaded = xr_BytesDownloaded r\<rparr>"

definition RecordRestoreAttempt_change :: "RestoreAttempt \<Rightarrow> time \<Rightarrow> change" where
  "RecordRestoreAttempt_change a at env =
     (let started = (case st_RestoreAttempt (Status env) of
                       Some existing \<Rightarrow> if ra_Seq existing = xt_Seq a \<and> ra_StartedAt existing \<noteq> None
                                        then ra_StartedAt existing else Some at
                     | None \<Rightarrow> Some at)
      in Inr (with_status env (\<lambda>s. s\<lparr>st_RestoreAttempt :=
           Some \<lparr>ra_Seq = int32 (xt_Seq a), ra_SnapshotID = xt_SnapshotID a, ra_Phase = xt_Phase a,
                 ra_Roots = map restored_root (xt_Roots a), ra_Attempts = int32 (xt_Attempts a),
                 ra_DurationMillis = Milliseconds (xt_Duration a), ra_Reason = xt_Reason a,
                 ra_Message = xt_Message a, ra_StartedAt = started, ra_UpdatedAt = Some at\<rparr>\<rparr>)))"

definition PatchArchive_change :: "ArchivePatch \<Rightarrow> change" where
  "PatchArchive_change a env =
     Inr (with_status env (\<lambda>s. s\<lparr>
       st_Archive := Some \<lparr>av_URI = xp_URI a, av_FinishedAt = xp_FinishedAt a,
         av_ContextPresent = xp_ContextPresent a, av_RunJSONSHA256 = xp_RunJSONSHA256 a\<rparr>,
       st_ArchiveURI := xp_URI a\<rparr>))"

definition DeclareWait_change :: "WaitProbe \<Rightarrow> time \<Rightarrow> change" where
  "DeclareWait_change p at env =
     (if st_WaitFor (Status env) \<noteq> None then Inl ErrWaitAlreadyDeclared
      else Inr (with_status env (\<lambda>s. s\<lparr>st_WaitFor :=
             Some \<lparr>wf_Type = wp_Type p, wf_Reason = wp_Reason p, wf_DeclaredAt = Some at,
                   wf_Params = wp_Params p\<rparr>\<rparr>)))"

definition resultEqual :: "AgentResultStatus \<Rightarrow> Result \<Rightarrow> bool" where
  "resultEqual existing r =
     (if ar_Outcome existing \<noteq> rs_Outcome r \<or> ar_Message existing \<noteq> rs_Message r then False
      else case (ar_ExitCode existing, rs_ExitCode r) of
             (None, None) \<Rightarrow> True
           | (None, Some _) \<Rightarrow> False
           | (Some _, None) \<Rightarrow> False
           | (Some x, Some y) \<Rightarrow> x = y)"

text \<open>The first component of the result is the closure's \<^verbatim>\<open>idempotent\<close> after this call.\<close>

definition ReportDone_change :: "Result \<Rightarrow> time \<Rightarrow> bool \<Rightarrow> SandboxEnvironment \<Rightarrow> bool \<times> (go_error + SandboxEnvironment)" where
  "ReportDone_change r at idempotent env =
     (if st_WaitFor (Status env) \<noteq> None then (idempotent, Inl ErrWaitAlreadyDeclared)
      else case st_AgentResult (Status env) of
             Some existing \<Rightarrow>
               if resultEqual existing r then (True, Inr env)
               else (idempotent, Inl ErrResultAlreadyReported)
           | None \<Rightarrow>
               (idempotent, Inr (with_status env (\<lambda>s. s\<lparr>st_AgentResult :=
                  Some \<lparr>ar_Outcome = rs_Outcome r, ar_Message = rs_Message r,
                        ar_ExitCode = rs_ExitCode r, ar_ReportedAt = Some at\<rparr>\<rparr>))))"

subsection \<open>Running a change against the server\<close>

definition isRetryable :: "go_error \<Rightarrow> bool" where
  "isRetryable err \<longleftrightarrow>
     err = ServerTimeout \<or> err = TooManyRequests \<or> err = InternalError \<or> err = ServiceUnavailable
     \<or> err = NetTimeout"

definition worth_retry :: "go_error option \<Rightarrow> bool" where
  "worth_retry err = (case err of None \<Rightarrow> False | Some e \<Rightarrow> isRetryable e)"

fun retry_backoff :: "duration list \<Rightarrow> ('s \<Rightarrow> go_error option \<times> 's) \<Rightarrow> 's \<Rightarrow> go_error option \<times> 's" where
  "retry_backoff [] fn s = fn s"
| "retry_backoff (b # bs) fn s =
     (case fn s of
        (None, s1) \<Rightarrow> (None, s1)
      | (Some err, s1) \<Rightarrow> if isRetryable err then retry_backoff bs fn s1 else (Some err, s1))"

definition retryOnRetryable :: "('s \<Rightarrow> go_error option \<times> 's) \<Rightarrow> 's \<Rightarrow> go_error option \<times> 's" where
  "retryOnRetryable fn s = retry_backoff [200000000, 400000000, 800000000] fn s"

definition patch_attempt ::
  "'w kube \<Rightarrow> key \<Rightarrow> ('x \<Rightarrow> SandboxEnvironment \<Rightarrow> 'x \<times> (go_error + SandboxEnvironment)) \<Rightarrow>
   'x \<times> 'w \<Rightarrow> go_error option \<times> ('x \<times> 'w)" where
  "patch_attempt k key mutate s =
     (case s of (x, w) \<Rightarrow>
        (case k_Get k key w of
           (Inl err, w1) \<Rightarrow> (Some err, (x, w1))
         | (Inr env, w1) \<Rightarrow>
             (case mutate x env of
                (x1, Inl err) \<Rightarrow> (Some err, (x1, w1))
              | (x1, Inr env') \<Rightarrow>
                  if Status env' = Status env then (None, (x1, w1))
                  else (case k_PatchStatus k env env' w1 of (r, w2) \<Rightarrow> (r, (x1, w2))))))"

definition patchStatus ::
  "'w kube \<Rightarrow> (('x \<times> 'w \<Rightarrow> go_error option \<times> ('x \<times> 'w)) \<Rightarrow> 'x \<times> 'w \<Rightarrow> go_error option \<times> ('x \<times> 'w)) \<Rightarrow>
   key \<Rightarrow> ('x \<Rightarrow> SandboxEnvironment \<Rightarrow> 'x \<times> (go_error + SandboxEnvironment)) \<Rightarrow>
   'x \<times> 'w \<Rightarrow> go_error option \<times> ('x \<times> 'w)" where
  "patchStatus k RetryOnConflict key mutate s =
     retryOnRetryable (RetryOnConflict (patch_attempt k key mutate)) s"

text \<open>The operations of the store. \<open>plain\<close> is a change that shares nothing with its caller.\<close>

definition plain :: "change \<Rightarrow> unit \<Rightarrow> SandboxEnvironment \<Rightarrow> unit \<times> (go_error + SandboxEnvironment)" where
  "plain c x env = (x, c env)"

definition RecordSnapshotAttempt where
  "RecordSnapshotAttempt k RetryOnConflict key a at w =
     patchStatus k RetryOnConflict key (plain (RecordSnapshotAttempt_change a at)) ((), w)"

definition RecordSnapshot where
  "RecordSnapshot k RetryOnConflict key r at w =
     patchStatus k RetryOnConflict key (plain (RecordSnapshot_change r at)) ((), w)"

definition RecordRestoreAttempt where
  "RecordRestoreAttempt k RetryOnConflict key a at w =
     patchStatus k RetryOnConflict key (plain (RecordRestoreAttempt_change a at)) ((), w)"

definition PatchArchive where
  "PatchArchive k RetryOnConflict key a w =
     patchStatus k RetryOnConflict key (plain (PatchArchive_change a)) ((), w)"

definition DeclareWait where
  "DeclareWait k RetryOnConflict key p at w =
     patchStatus k RetryOnConflict key (plain (DeclareWait_change p at)) ((), w)"

definition ReportDone where
  "ReportDone k RetryOnConflict key r at w =
     patchStatus k RetryOnConflict key (ReportDone_change r at) (False, w)"

subsection \<open>The retry loop\<close>

lemma retry_backoff_attempts: "retry_backoff bs f s = (r, s') \<Longrightarrow> attempts isRetryable f s r s'"
  by (induction bs f s rule: retry_backoff.induct)
    (auto intro: attempts.intros split: prod.splits option.splits if_splits)

interpretation sidecar_retry: retry_loop isRetryable retryOnRetryable
  by unfold_locales (unfold retryOnRetryable_def, rule retry_backoff_attempts)

subsection \<open>Every successful write is one atomic change\<close>

text \<open>
  The outcome of a successful patch: the history grew, and either its newest state already
  was as the change would leave it, or its newest entry is the change of the object that was
  stored just before.
\<close>

definition applied_change ::
  "cluster list \<Rightarrow> key \<Rightarrow> SandboxEnvironment \<Rightarrow> SandboxEnvironment \<Rightarrow> cluster list \<Rightarrow> bool" where
  "applied_change h key env env' h' \<longleftrightarrow>
     (extends_by h h' \<and> last h' key = Some env \<and> Status env' = Status env)
     \<or> (Status env' \<noteq> Status env \<and> wrote_status h key env (Status env') h')"

context kube_api
begin

lemma patch_attempt_history:
  assumes "valid w" and "patch_attempt k key mutate (x, w) = (r, (x', w'))"
  shows "valid w' \<and> extends_by (log w) (log w')"
proof -
  obtain rg w1 where g: "k_Get k key w = (rg, w1)" by (cases "k_Get k key w")
  note get = get_spec [OF assms(1) g]
  show ?thesis
  proof (cases rg)
    case (Inl err)
    then show ?thesis using assms(2) g get by (auto simp: patch_attempt_def)
  next
    case (Inr env)
    then have "w' = w1 \<or> (\<exists>env' rw. k_PatchStatus k env env' w1 = (rw, w'))"
      using assms(2) g by (auto simp: patch_attempt_def split: prod.splits sum.splits if_splits)
    then show ?thesis
      using get patch_spec by (meson extends_by_trans)
  qed
qed

lemma patch_attempt_ok:
  assumes "valid w" and "patch_attempt k key mutate (x, w) = (None, (x', w'))"
  shows "\<exists>env env'. mutate x env = (x', Inr env') \<and> applied_change (log w) key env env' (log w')"
proof -
  obtain rg w1 where g: "k_Get k key w = (rg, w1)" by (cases "k_Get k key w")
  from get_spec [OF assms(1) g] have v1: "valid w1" and ext: "extends_by (log w) (log w1)"
    and read: "\<And>e. rg = Inr e \<Longrightarrow> last (log w1) key = Some e" by auto
  from assms(2) g obtain env env' where rg: "rg = Inr env" and m: "mutate x env = (x', Inr env')"
    and fin: "Status env' = Status env \<and> w' = w1 \<or> Status env' \<noteq> Status env \<and> k_PatchStatus k env env' w1 = (None, w')"
    by (auto simp: patch_attempt_def split: prod.splits sum.splits if_splits)
  note env = read [OF rg]
  from fin have "applied_change (log w) key env env' (log w')"
  proof
    assume "Status env' = Status env \<and> w' = w1"
    then show ?thesis using env ext by (simp add: applied_change_def)
  next
    assume changed: "Status env' \<noteq> Status env \<and> k_PatchStatus k env env' w1 = (None, w')"
    with patch_spec [OF v1] obtain cur where v': "valid w'" and "ResourceVersion cur = ResourceVersion env"
      and wrote: "wrote_status (log w1) (env_key env) cur (Status env') (log w')" by blast
    moreover have "env_key env = key" using key_of_stored [OF v1 last_log_in [OF v1] env] .
    ultimately have "cur = env"
      using write_lands_on_read [OF v1 v' last_log_in [OF v1] env] by simp
    then show ?thesis
      using changed wrote wrote_status_mono [OF ext] \<open>env_key env = key\<close> by (simp add: applied_change_def)
  qed
  with m show ?thesis by blast
qed

lemma applied_change_mono:
  "extends_by h h1 \<Longrightarrow> applied_change h1 key env env' h' \<Longrightarrow> applied_change h key env env' h'"
  by (auto simp: applied_change_def intro: wrote_status_mono extends_by_trans)

end

text \<open>
  A client of the store: a server that keeps the laws, and a conflict loop that keeps its
  own. The state between two attempts is still valid, and its history only grew.
\<close>

locale store_client =
  kube_api k log valid + conflict: retry_loop "\<lambda>e. e = Conflict" RetryOnConflict
  for k :: "'w kube" and log :: "'w \<Rightarrow> cluster list" and valid :: "'w \<Rightarrow> bool"
    and RetryOnConflict :: "('x \<times> 'w \<Rightarrow> go_error option \<times> ('x \<times> 'w)) \<Rightarrow> 'x \<times> 'w \<Rightarrow> go_error option \<times> ('x \<times> 'w)"
begin

definition grows :: "'x \<times> 'w \<Rightarrow> 'x \<times> 'w \<Rightarrow> bool" where
  "grows s s' \<longleftrightarrow> extends_by (log (snd s)) (log (snd s'))"

lemma grows_refl: "grows s s"
  by (simp add: grows_def)

lemma grows_trans: "grows a b \<Longrightarrow> grows b c \<Longrightarrow> grows a c"
  unfolding grows_def by (rule extends_by_trans)

lemma attempt_keeps:
  "valid (snd s) \<Longrightarrow> patch_attempt k key mutate s = (r, s') \<Longrightarrow> valid (snd s') \<and> grows s s'"
  using patch_attempt_history [of "snd s" key mutate "fst s" r "fst s'" "snd s'"] by (simp add: grows_def)

lemma conflict_last:
  assumes "valid (snd s)" and "RetryOnConflict (patch_attempt k key mutate) s = (r, s')"
  shows "\<exists>s1. valid (snd s1) \<and> grows s s1 \<and> patch_attempt k key mutate s1 = (r, s')"
  by (rule conflict.result_of_last [where P = "\<lambda>s. valid (snd s)" and R = grows, OF assms(2)])
    (auto intro: assms(1) grows_refl grows_trans dest: attempt_keeps)

lemma conflict_keeps:
  assumes "valid (snd s)" and "RetryOnConflict (patch_attempt k key mutate) s = (r, s')"
  shows "valid (snd s') \<and> grows s s'"
  using conflict_last [OF assms] attempt_keeps grows_trans by blast

text \<open>The attempt that decides the result of the whole operation.\<close>

lemma deciding_attempt:
  assumes "valid (snd s)" and "patchStatus k RetryOnConflict key mutate s = (r, s')"
  shows "\<exists>s1. valid (snd s1) \<and> grows s s1 \<and> patch_attempt k key mutate s1 = (r, s')"
proof -
  have "\<exists>s0. valid (snd s0) \<and> grows s s0 \<and> RetryOnConflict (patch_attempt k key mutate) s0 = (r, s')"
    using assms(2) unfolding patchStatus_def
    by (rule sidecar_retry.result_of_last [where P = "\<lambda>s. valid (snd s)" and R = grows])
      (auto intro: assms(1) grows_refl grows_trans dest: conflict_keeps)
  then show ?thesis using conflict_last grows_trans by blast
qed

lemma patchStatus_atomic:
  assumes "valid w" and "patchStatus k RetryOnConflict key mutate (x, w) = (None, (x', w'))"
  shows "\<exists>x1 env env'. mutate x1 env = (x', Inr env') \<and> applied_change (log w) key env env' (log w')"
proof -
  obtain x1 w1 where v: "valid w1" and g: "extends_by (log w) (log w1)"
    and at: "patch_attempt k key mutate (x1, w1) = (None, (x', w'))"
    using deciding_attempt [of "(x, w)" key mutate None "(x', w')"] assms by (auto simp: grows_def)
  show ?thesis using patch_attempt_ok [OF v at] applied_change_mono [OF g] by blast
qed

end

interpretation ref_store: store_client ref_kube ref_log ref_valid "ref_retry n" for n
  by unfold_locales

subsection \<open>What the agent's reports leave in the status\<close>

text \<open>
  C28: an agent's result is written once. A successful ReportDone is one atomic change of an
  environment with no declared wait: it stores the reported result where none was, or finds
  the same result in the newest stored state and reports that; an existing different result
  is never replaced, and every other field of the status stays as another writer left it.
\<close>

theorem ReportDone_writes_once:
  assumes "store_client k log valid RetryOnConflict" and "valid w"
    and "ReportDone k RetryOnConflict key r at w = (None, (idempotent, w'))"
  shows "\<exists>env. st_WaitFor (Status env) = None \<and>
     ((\<exists>old. st_AgentResult (Status env) = Some old \<and> resultEqual old r \<and> idempotent
         \<and> extends_by (log w) (log w') \<and> last (log w') key = Some env)
      \<or> (st_AgentResult (Status env) = None \<and>
         wrote_status (log w) key env
           ((Status env)\<lparr>st_AgentResult := Some \<lparr>ar_Outcome = rs_Outcome r, ar_Message = rs_Message r,
              ar_ExitCode = rs_ExitCode r, ar_ReportedAt = Some at\<rparr>\<rparr>) (log w')))"
proof -
  from store_client.patchStatus_atomic [OF assms(1,2)] assms(3) obtain x1 env env'
    where m: "ReportDone_change r at x1 env = (idempotent, Inr env')"
      and a: "applied_change (log w) key env env' (log w')"
    unfolding ReportDone_def by blast
  show ?thesis
  proof (cases "st_AgentResult (Status env)")
    case None
    then have st: "st_WaitFor (Status env) = None" "Status env' = (Status env)\<lparr>st_AgentResult :=
        Some \<lparr>ar_Outcome = rs_Outcome r, ar_Message = rs_Message r, ar_ExitCode = rs_ExitCode r,
              ar_ReportedAt = Some at\<rparr>\<rparr>"
      using m by (auto simp: ReportDone_change_def with_status_def split: if_splits)
    then have "Status env' \<noteq> Status env" using None by (metis SandboxEnvironmentStatus.select_convs(6)
        SandboxEnvironmentStatus.update_convs(6) SandboxEnvironmentStatus.surjective option.distinct(1))
    with a st None show ?thesis by (auto simp: applied_change_def)
  next
    case (Some old)
    then have "st_WaitFor (Status env) = None" "resultEqual old r" "idempotent" "env' = env"
      using m by (auto simp: ReportDone_change_def split: if_splits)
    moreover from this have "extends_by (log w) (log w')" "last (log w') key = Some env"
      using a by (auto simp: applied_change_def)
    ultimately show ?thesis using Some by blast
  qed
qed

text \<open>
  The recorded snapshot number never goes back, and a snapshot and its attempt cannot
  disagree: a successful RecordSnapshot replaces a snapshot with no higher number and marks
  the attempt of the same number as succeeded in the same write.
\<close>

theorem RecordSnapshot_monotone:
  assumes "store_client k log valid RetryOnConflict" and "valid w"
    and "RecordSnapshot k RetryOnConflict key r at w = (None, (u, w'))"
    and "0 \<le> xs_Seq r" and "xs_Seq r < 2 ^ 31"
  shows "\<exists>env env' sn sa. applied_change (log w) key env env' (log w')
     \<and> st_Snapshot (Status env') = Some sn \<and> st_SnapshotAttempt (Status env') = Some sa
     \<and> sn_Seq sn = xs_Seq r \<and> sa_Seq sa = xs_Seq r \<and> sa_Phase sa = SnapshotAttemptSucceeded
     \<and> (\<forall>old. st_Snapshot (Status env) = Some old \<longrightarrow> sn_Seq old \<le> sn_Seq sn)
     \<and> (xs_GitState r = None \<longrightarrow> st_GitState (Status env') = st_GitState (Status env))"
proof -
  from store_client.patchStatus_atomic [OF assms(1,2)] assms(3) obtain env env'
    where m: "RecordSnapshot_change r at env = Inr env'" and a: "applied_change (log w) key env env' (log w')"
    unfolding RecordSnapshot_def plain_def by blast
  moreover have "int32 (xs_Seq r) = xs_Seq r" using assms(4,5) by (simp add: int32_id)
  ultimately show ?thesis
    by (intro exI [of _ env] exI [of _ env'])
      (auto simp: RecordSnapshot_change_def with_status_def Let_def not_less split: if_splits option.splits)
qed

text \<open>
  The retry loop of the sidecar makes at most four calls, and a permanent error (an
  unmet precondition, a conflict that outlasted its own loop, a missing object) is returned
  after the first.
\<close>

theorem retryOnRetryable_calls:
  "retryOnRetryable (\<lambda>n. (f n, Suc n)) (0 :: nat) =
     (if worth_retry (f 0)
      then if worth_retry (f 1)
           then if worth_retry (f 2) then (f 3, 4) else (f 2, 3)
           else (f 1, 2)
      else (f 0, 1))"
  by (auto simp: retryOnRetryable_def worth_retry_def numeral_2_eq_2 numeral_3_eq_3 split: option.splits)

subsection \<open>A concrete run against the reference server\<close>

definition one_env_world :: ref_world where
  "one_env_world = \<lparr>r_hist = [[((''ns'', ''a''), zero_env\<lparr>Namespace := ''ns'', Name := ''a''\<rparr>)]], r_next = 1\<rparr>"

lemma one_env_world_valid: "ref_valid one_env_world"
  by (auto simp: ref_valid_def ref_log_def one_env_world_def env_key_def zero_env_def split: if_splits)

definition sample_result :: Result where
  "sample_result = \<lparr>rs_Outcome = AgentOutcomeSucceeded, rs_Message = [], rs_ExitCode = Some 0\<rparr>"

definition sample_snapshot :: SnapshotRecord where
  "sample_snapshot = \<lparr>xs_Seq = 1, xs_URI = [], xs_SizeBytes = 0, xs_SHA256 = [], xs_TakenAt = 0,
     xs_DurationMillis = 0, xs_GitState = None\<rparr>"

lemmas run_simps =
  patchStatus_def retryOnRetryable_def numeral_eq_Suc patch_attempt_def ref_kube_def ref_Get_def ref_write_def
  one_env_world_def env_key_def zero_env_def zero_status_def with_status_def Let_def

lemma sample_ReportDone_runs:
  "\<exists>w'. ReportDone ref_kube (ref_retry 5) (''ns'', ''a'') sample_result 7 one_env_world = (None, (False, w'))"
  by (simp add: ReportDone_def ReportDone_change_def sample_result_def run_simps)

lemma sample_RecordSnapshot_runs:
  "\<exists>w'. RecordSnapshot ref_kube (ref_retry 5) (''ns'', ''a'') sample_snapshot 7 one_env_world = (None, ((), w'))"
  by (simp add: RecordSnapshot_def plain_def RecordSnapshot_change_def sample_snapshot_def run_simps)

theorem ReportDone_writes_once_witness:
  "\<exists>w' (env :: SandboxEnvironment). ReportDone ref_kube (ref_retry 5) (''ns'', ''a'') sample_result 7 one_env_world = (None, (False, w'))
     \<and> last (ref_log w') (''ns'', ''a'') = Some env
     \<and> st_AgentResult (Status env) = Some \<lparr>ar_Outcome = AgentOutcomeSucceeded, ar_Message = [], ar_ExitCode = Some 0,
         ar_ReportedAt = Some 7\<rparr>"
proof -
  obtain w' where run: "ReportDone ref_kube (ref_retry 5) (''ns'', ''a'') sample_result 7 one_env_world = (None, (False, w'))"
    using sample_ReportDone_runs by blast
  from ReportDone_writes_once [OF ref_store.store_client_axioms one_env_world_valid run]
  obtain env :: SandboxEnvironment where "wrote_status (ref_log one_env_world) (''ns'', ''a'') env
      ((Status env)\<lparr>st_AgentResult := Some \<lparr>ar_Outcome = rs_Outcome sample_result, ar_Message = rs_Message sample_result,
          ar_ExitCode = rs_ExitCode sample_result, ar_ReportedAt = Some 7\<rparr>\<rparr>) (ref_log w')"
    by auto
  from wrote_status_last [OF this] run show ?thesis by (auto simp: sample_result_def)
qed

theorem RecordSnapshot_monotone_witness:
  "\<exists>w' (env :: SandboxEnvironment) sn. RecordSnapshot ref_kube (ref_retry 5) (''ns'', ''a'') sample_snapshot 7 one_env_world = (None, ((), w'))
     \<and> st_Snapshot (Status env) = Some sn \<and> sn_Seq sn = 1"
proof -
  obtain w' where run: "RecordSnapshot ref_kube (ref_retry 5) (''ns'', ''a'') sample_snapshot 7 one_env_world = (None, ((), w'))"
    using sample_RecordSnapshot_runs by blast
  from RecordSnapshot_monotone [OF ref_store.store_client_axioms one_env_world_valid run]
  obtain env' :: SandboxEnvironment and sn where "st_Snapshot (Status env') = Some sn" "sn_Seq sn = xs_Seq sample_snapshot"
    by (auto simp: sample_snapshot_def)
  with run show ?thesis by (auto simp: sample_snapshot_def)
qed

end
