(* ===== verification/Slot_Scheduler.thy ===== *)
theory Slot_Scheduler
  imports Kube_Api Scheduler Conditions "HOL-Library.Sublist"
begin

section \<open>The admission loop\<close>

text \<open>
  \<^verbatim>\<open>src/operator/internal/controller/slotscheduler.go\<close>: one admission pass lists the
  environments, decides the grants and writes them one by one, re-reading each object before
  its write. Metrics and events are left out. The clock is an argument: a pass reads it once
  for its grants.
\<close>

record GrantResult =
  gr_Namespace :: string
  gr_Name :: string
  gr_Waited :: duration
  gr_Granted :: bool

record PassStats =
  ps_Capacity :: int
  ps_Occupancy :: int
  ps_QueueDepth :: int
  ps_Admitted :: int
  ps_Skipped :: int
  ps_Errors :: int
  ps_Grants :: "GrantResult list"

fun queuedSinceFor :: "SandboxEnvironment list \<Rightarrow> string \<Rightarrow> time option" where
  "queuedSinceFor [] uid = None"
| "queuedSinceFor (c # cs) uid =
     (if UID c = uid \<and> st_QueuedSince (Status c) \<noteq> None then st_QueuedSince (Status c)
      else queuedSinceFor cs uid)"

text \<open>One attempt of a grant; the boolean is the \<^verbatim>\<open>granted\<close> of the closure.\<close>

definition grant_attempt ::
  "'w kube \<Rightarrow> meta_lib \<Rightarrow> Grant \<Rightarrow> time \<Rightarrow> bool \<times> 'w \<Rightarrow> go_error option \<times> (bool \<times> 'w)" where
  "grant_attempt k lib g now s =
     (case s of (granted, w) \<Rightarrow>
        (case k_Get k (g_Namespace g, g_Name g) w of
           (Inl err, w1) \<Rightarrow> if err = NotFound then (None, (False, w1)) else (Some err, (granted, w1))
         | (Inr fresh, w1) \<Rightarrow>
             if UID fresh \<noteq> g_UID g \<or> \<not> IsCandidate fresh then (None, (False, w1))
             else let fresh' = fresh\<lparr>Status := (Status fresh)\<lparr>st_Slot :=
                        \<lparr>Granted = True, GrantedAt = Some (Rfc3339Copy lib now), LeaseName = []\<rparr>\<rparr>\<rparr>
                  in (case k_UpdateStatus k fresh' w1 of
                        (Some err, w2) \<Rightarrow> (Some err, (granted, w2))
                      | (None, w2) \<Rightarrow> (None, (True, w2)))))"

type_synonym 'w conflict_loop =
  "(bool \<times> 'w \<Rightarrow> go_error option \<times> (bool \<times> 'w)) \<Rightarrow> bool \<times> 'w \<Rightarrow> go_error option \<times> (bool \<times> 'w)"

definition grant ::
  "'w kube \<Rightarrow> 'w conflict_loop \<Rightarrow> meta_lib \<Rightarrow> Grant \<Rightarrow> time \<Rightarrow> 'w \<Rightarrow> (bool \<times> go_error option) \<times> 'w" where
  "grant k RetryOnConflict lib g now w =
     (case RetryOnConflict (grant_attempt k lib g now) (False, w) of
        (err, (granted, w')) \<Rightarrow> ((granted, err), w'))"

definition applyGrant ::
  "'w kube \<Rightarrow> 'w conflict_loop \<Rightarrow> meta_lib \<Rightarrow> Grant \<Rightarrow> SandboxEnvironment list \<Rightarrow> time \<Rightarrow>
   PassStats \<times> 'w \<Rightarrow> PassStats \<times> 'w" where
  "applyGrant k RetryOnConflict lib g candidates now s =
     (case s of (stats, w) \<Rightarrow>
        (let waited = (case queuedSinceFor candidates (g_UID g) of
                         None \<Rightarrow> 0 | Some queuedSince \<Rightarrow> time_Sub now queuedSince)
         in (case grant k RetryOnConflict lib g now w of
               ((granted, Some err), w') \<Rightarrow> (stats\<lparr>ps_Errors := ps_Errors stats + 1\<rparr>, w')
             | ((granted, None), w') \<Rightarrow>
                 (let stats = (if granted then stats\<lparr>ps_Admitted := ps_Admitted stats + 1\<rparr>
                               else stats\<lparr>ps_Skipped := ps_Skipped stats + 1\<rparr>)
                  in (stats\<lparr>ps_Grants := ps_Grants stats @
                        [\<lparr>gr_Namespace = g_Namespace g, gr_Name = g_Name g, gr_Waited = waited,
                          gr_Granted = granted\<rparr>]\<rparr>, w')))))"

definition RunOnce ::
  "'w kube \<Rightarrow> 'w conflict_loop \<Rightarrow> meta_lib \<Rightarrow> string \<Rightarrow> int \<Rightarrow> time \<Rightarrow> 'w \<Rightarrow> (go_error + PassStats) \<times> 'w" where
  "RunOnce k RetryOnConflict lib ns capacity now w =
     (case k_List k ns w of
        (Inl err, w1) \<Rightarrow> (Inl err, w1)
      | (Inr items, w1) \<Rightarrow>
          (case Partition items of (occupancy, candidates) \<Rightarrow>
             (let grants = Admit candidates occupancy capacity;
                  stats = \<lparr>ps_Capacity = capacity, ps_Occupancy = occupancy,
                           ps_QueueDepth = int (length candidates), ps_Admitted = 0, ps_Skipped = 0,
                           ps_Errors = 0, ps_Grants = []\<rparr>
              in (case fold (\<lambda>g s. applyGrant k RetryOnConflict lib g candidates now s) grants (stats, w1) of
                    (stats', w') \<Rightarrow> (Inr stats', w')))))"

subsection \<open>One grant\<close>

text \<open>
  A write of this pass: the slot of an environment that is a candidate at that very moment
  and has the identity the pass decided on.
\<close>

definition grant_write :: "meta_lib \<Rightarrow> time \<Rightarrow> string \<Rightarrow> cluster list \<Rightarrow> cluster list \<Rightarrow> bool" where
  "grant_write lib now uid h h' \<longleftrightarrow>
     (\<exists>key env. UID env = uid \<and> IsCandidate env \<and>
        wrote_status h key env ((Status env)\<lparr>st_Slot :=
          \<lparr>Granted = True, GrantedAt = Some (Rfc3339Copy lib now), LeaseName = []\<rparr>\<rparr>) h')"

lemma grant_write_mono: "extends_by h h1 \<Longrightarrow> grant_write lib now uid h1 h' \<Longrightarrow> grant_write lib now uid h h'"
  unfolding grant_write_def using wrote_status_mono by blast

locale admission_client =
  kube_api k log valid + conflict: retry_loop "\<lambda>e. e = Conflict" RetryOnConflict
  for k :: "'w kube" and log :: "'w \<Rightarrow> cluster list" and valid :: "'w \<Rightarrow> bool"
    and RetryOnConflict :: "'w conflict_loop"
begin

lemma grant_attempt_spec:
  assumes "valid w" and "grant_attempt k lib g now (gr, w) = (r, (gr', w'))"
  shows "valid w' \<and> extends_by (log w) (log w')
         \<and> (r = None \<and> gr' \<longrightarrow> grant_write lib now (g_UID g) (log w) (log w'))"
proof -
  obtain rg w1 where g: "k_Get k (g_Namespace g, g_Name g) w = (rg, w1)" by (cases "k_Get k (g_Namespace g, g_Name g) w")
  note get = get_spec [OF assms(1) g]
  show ?thesis
  proof (cases "\<exists>fresh. rg = Inr fresh \<and> UID fresh = g_UID g \<and> IsCandidate fresh")
    case False
    then show ?thesis
      using assms(2) g get by (auto simp: grant_attempt_def split: sum.splits if_splits)
  next
    case True
    then obtain fresh where fresh: "rg = Inr fresh" "UID fresh = g_UID g" "IsCandidate fresh" by blast
    define st where "st = (Status fresh)\<lparr>st_Slot :=
        \<lparr>Granted = True, GrantedAt = Some (Rfc3339Copy lib now), LeaseName = []\<rparr>\<rparr>"
    obtain rw where upd: "k_UpdateStatus k (fresh\<lparr>Status := st\<rparr>) w1 = (rw, w')" "r = rw" "rw = None \<Longrightarrow> gr'"
      using assms(2) g fresh unfolding st_def
      by (auto simp: grant_attempt_def Let_def split: prod.splits option.splits)
    have v1: "valid w1" and read: "last (log w1) (g_Namespace g, g_Name g) = Some fresh"
      and ext: "extends_by (log w) (log w1)" using get fresh by auto
    note u = update_spec [OF v1 upd(1)]
    have key: "env_key fresh = (g_Namespace g, g_Name g)" using key_of_stored [OF v1 last_log_in [OF v1] read] .
    have "grant_write lib now (g_UID g) (log w) (log w')" if none: "r = None"
    proof -
      from u none upd(2) obtain cur where cur: "ResourceVersion cur = ResourceVersion fresh"
        and wrote: "wrote_status (log w1) (env_key fresh) cur st (log w')"
        by (auto simp: env_key_def)
      have "valid w'" using u by blast
      then have "cur = fresh"
        using write_lands_on_read [OF v1 _ last_log_in [OF v1] read] wrote cur key by metis
      then show ?thesis
        using wrote wrote_status_mono [OF ext] fresh unfolding grant_write_def st_def by blast
    qed
    then show ?thesis using u ext extends_by_trans by blast
  qed
qed

lemma grant_spec:
  assumes "valid w" and "grant k RetryOnConflict lib g now w = ((granted, err), w')"
  shows "valid w' \<and> extends_by (log w) (log w')
         \<and> (err = None \<and> granted \<longrightarrow> grant_write lib now (g_UID g) (log w) (log w'))"
proof -
  let ?R = "\<lambda>s s' :: bool \<times> 'w. extends_by (log (snd s)) (log (snd s'))"
  have run: "RetryOnConflict (grant_attempt k lib g now) (False, w) = (err, (granted, w'))"
    using assms(2) by (auto simp: grant_def split: prod.splits)
  have "\<exists>s1. valid (snd s1) \<and> ?R (False, w) s1 \<and> grant_attempt k lib g now s1 = (err, (granted, w'))"
    by (rule conflict.result_of_last [where P = "\<lambda>s. valid (snd s)" and R = ?R, OF run])
      (auto intro: assms(1) extends_by_trans dest!: grant_attempt_spec [rotated])
  then obtain gr1 w1 where w1: "valid w1" "extends_by (log w) (log w1)"
    "grant_attempt k lib g now (gr1, w1) = (err, (granted, w'))" by auto
  show ?thesis
    using grant_attempt_spec [OF w1(1,3)] w1(2) extends_by_trans grant_write_mono by blast
qed

lemma applyGrant_spec:
  assumes "valid w" and "applyGrant k RetryOnConflict lib g candidates now (stats, w) = (stats', w')"
  shows "valid w' \<and> ps_Occupancy stats' = ps_Occupancy stats
    \<and> ps_Admitted stats' + ps_Skipped stats' + ps_Errors stats' =
        ps_Admitted stats + ps_Skipped stats + ps_Errors stats + 1
    \<and> (if ps_Admitted stats' = ps_Admitted stats then extends_by (log w) (log w')
       else ps_Admitted stats' = ps_Admitted stats + 1 \<and> grant_write lib now (g_UID g) (log w) (log w'))"
proof -
  obtain granted err w1 where g: "grant k RetryOnConflict lib g now w = ((granted, err), w1)"
    by (metis prod.exhaust)
  with assms(2) grant_spec [OF assms(1) g] show ?thesis
    by (cases err; cases granted) (auto simp: applyGrant_def Let_def)
qed

end

subsection \<open>One pass\<close>

text \<open>A history in which the named environments are granted one after the other.\<close>

inductive grant_trace :: "meta_lib \<Rightarrow> time \<Rightarrow> cluster list \<Rightarrow> string list \<Rightarrow> cluster list \<Rightarrow> bool"
  for lib :: meta_lib and now :: time where
  trace_none: "extends_by h h' \<Longrightarrow> grant_trace lib now h [] h'"
| trace_grant: "grant_write lib now uid h h1 \<Longrightarrow> grant_trace lib now h1 uids h' \<Longrightarrow>
    grant_trace lib now h (uid # uids) h'"

lemma grant_trace_mono: "extends_by h h1 \<Longrightarrow> grant_trace lib now h1 uids h' \<Longrightarrow> grant_trace lib now h uids h'"
  by (erule grant_trace.cases) (auto intro: grant_trace.intros extends_by_trans grant_write_mono)

context admission_client
begin

lemma fold_applyGrant:
  assumes "valid w"
    and "fold (\<lambda>g s. applyGrant k RetryOnConflict lib g candidates now s) gs (stats, w) = (stats', w')"
  shows "valid w' \<and> ps_Occupancy stats' = ps_Occupancy stats
    \<and> ps_Admitted stats' + ps_Skipped stats' + ps_Errors stats' =
        ps_Admitted stats + ps_Skipped stats + ps_Errors stats + int (length gs)
    \<and> (\<exists>uids. subseq uids (map g_UID gs) \<and> ps_Admitted stats' = ps_Admitted stats + int (length uids)
          \<and> grant_trace lib now (log w) uids (log w'))"
  using assms
proof (induction gs arbitrary: stats w)
  case Nil
  then show ?case by (auto intro!: exI [of _ "[]"] grant_trace.intros)
next
  case (Cons g gs)
  obtain stats1 w1 where one: "applyGrant k RetryOnConflict lib g candidates now (stats, w) = (stats1, w1)"
    by fastforce
  note spec = applyGrant_spec [OF Cons.prems(1) one]
  from Cons.prems(2) one have rest: "fold (\<lambda>g s. applyGrant k RetryOnConflict lib g candidates now s) gs (stats1, w1) = (stats', w')"
    by simp
  from Cons.IH [OF _ rest] spec obtain uids where IH: "valid w'" "ps_Occupancy stats' = ps_Occupancy stats"
    "ps_Admitted stats' + ps_Skipped stats' + ps_Errors stats' =
       ps_Admitted stats1 + ps_Skipped stats1 + ps_Errors stats1 + int (length gs)"
    "subseq uids (map g_UID gs)" "ps_Admitted stats' = ps_Admitted stats1 + int (length uids)"
    "grant_trace lib now (log w1) uids (log w')" by auto
  show ?case
  proof (cases "ps_Admitted stats1 = ps_Admitted stats")
    case True
    then show ?thesis
      using IH spec grant_trace_mono [of "log w" "log w1"] by (auto intro!: exI [of _ uids])
  next
    case False
    then show ?thesis
      using IH spec by (auto intro!: exI [of _ "g_UID g # uids"] grant_trace.intros)
  qed
qed

lemma RunOnce_spec:
  assumes "valid w" and "RunOnce k RetryOnConflict lib ns capacity now w = (Inr stats, w')"
  shows "\<exists>items w1 candidates uids.
     k_List k ns w = (Inr items, w1) \<and> Partition items = (ps_Occupancy stats, candidates)
     \<and> ps_Admitted stats + ps_Skipped stats + ps_Errors stats =
         int (length (Admit candidates (ps_Occupancy stats) capacity))
     \<and> subseq uids (map g_UID (Admit candidates (ps_Occupancy stats) capacity))
     \<and> ps_Admitted stats = int (length uids)
     \<and> grant_trace lib now (log w) uids (log w')"
proof -
  obtain items w1 where l: "k_List k ns w = (Inr items, w1)"
    using assms(2) by (auto simp: RunOnce_def split: prod.splits sum.splits)
  obtain occ cands where p: "Partition items = (occ, cands)" by fastforce
  from list_spec [OF assms(1) l] have v1: "valid w1" and ext: "extends_by (log w) (log w1)" by auto
  have f: "fold (\<lambda>g s. applyGrant k RetryOnConflict lib g cands now s) (Admit cands occ capacity)
      (\<lparr>ps_Capacity = capacity, ps_Occupancy = occ, ps_QueueDepth = int (length cands), ps_Admitted = 0,
        ps_Skipped = 0, ps_Errors = 0, ps_Grants = []\<rparr>, w1) = (stats, w')"
    using assms(2) l p by (auto simp: RunOnce_def Let_def split: prod.splits)
  show ?thesis
    using fold_applyGrant [OF v1 f] l p grant_trace_mono [OF ext] by auto
qed

end

interpretation ref_admission: admission_client ref_kube ref_log ref_valid "ref_retry n" for n
  by unfold_locales

text \<open>
  C6: an admission pass against a live server, with other writers active between its calls,
  grants at most the capacity that was free when it listed the environments: every counted
  grant is one write to an environment that, at the moment of the write, was still the one
  decided on and still a candidate, the granted environments are among those Admit chose, in
  its order, and every chosen one is accounted for as admitted, skipped or failed.
\<close>

theorem RunOnce_grants_within_capacity:
  assumes "admission_client k log valid RetryOnConflict" and "valid w"
    and "RunOnce k RetryOnConflict lib ns capacity now w = (Inr stats, w')"
  shows "\<exists>items w1 candidates uids.
     k_List k ns w = (Inr items, w1) \<and> Partition items = (ps_Occupancy stats, candidates)
     \<and> subseq uids (map g_UID (Admit candidates (ps_Occupancy stats) capacity))
     \<and> grant_trace lib now (log w) uids (log w') \<and> ps_Admitted stats = int (length uids)
     \<and> ps_Occupancy stats + ps_Admitted stats \<le> max capacity (ps_Occupancy stats)
     \<and> ps_Admitted stats + ps_Skipped stats + ps_Errors stats =
         int (length (Admit candidates (ps_Occupancy stats) capacity))"
proof -
  from admission_client.RunOnce_spec [OF assms] obtain items w1 candidates uids where
    l: "k_List k ns w = (Inr items, w1)" and p: "Partition items = (ps_Occupancy stats, candidates)"
    and s: "subseq uids (map g_UID (Admit candidates (ps_Occupancy stats) capacity))"
    and a: "ps_Admitted stats = int (length uids)" and t: "grant_trace lib now (log w) uids (log w')"
    and n: "ps_Admitted stats + ps_Skipped stats + ps_Errors stats =
         int (length (Admit candidates (ps_Occupancy stats) capacity))" by blast
  have "length uids \<le> length (Admit candidates (ps_Occupancy stats) capacity)"
    using list_emb_length [OF s] by simp
  then have "ps_Occupancy stats + ps_Admitted stats \<le> max capacity (ps_Occupancy stats)"
    using a by (auto simp: length_Admit)
  with l p s a t n show ?thesis by blast
qed

subsection \<open>A concrete pass\<close>

definition two_env_world :: ref_world where
  "two_env_world = \<lparr>r_hist = [[((''ns'', ''a''), (queued_env ''u'' 0 (Some 5))\<lparr>Namespace := ''ns'', Name := ''a''\<rparr>),
     ((''ns'', ''b''), (queued_env ''v'' 1 (Some 6))\<lparr>Namespace := ''ns'', Name := ''b''\<rparr>)]], r_next = 1\<rparr>"

lemma two_env_world_valid: "ref_valid two_env_world"
  by (auto simp: ref_valid_def ref_log_def two_env_world_def env_key_def queued_env_def zero_env_def
      split: if_splits)

lemma two_env_world_RunOnce:
  "\<exists>stats w'. RunOnce ref_kube (ref_retry 5) ref_lib ''ns'' 1 9 two_env_world = (Inr stats, w')
     \<and> ps_Admitted stats = 1"
  by (simp add: RunOnce_def ref_kube_def ref_List_def two_env_world_def env_key_def queued_env_def zero_env_def
      zero_status_def Occupies_def IsCandidate_def IsZero_def no_slot_def Admit_def Order_def SliceStable_def
      less_env_def Let_def grant_for_def applyGrant_def grant_def grant_attempt_def ref_Get_def ref_write_def
      numeral_eq_Suc)

theorem RunOnce_grants_within_capacity_witness:
  "\<exists>stats w' uids. RunOnce ref_kube (ref_retry 5) ref_lib ''ns'' 1 9 two_env_world = (Inr stats, w')
     \<and> grant_trace ref_lib 9 (ref_log two_env_world) uids (ref_log w') \<and> length uids = 1"
proof -
  obtain stats w' where run: "RunOnce ref_kube (ref_retry 5) ref_lib ''ns'' 1 9 two_env_world = (Inr stats, w')"
    and "ps_Admitted stats = 1" using two_env_world_RunOnce by blast
  with RunOnce_grants_within_capacity [OF ref_admission.admission_client_axioms two_env_world_valid run]
  show ?thesis by fastforce
qed

end
