(* ===== verification/Status_Writer.thy ===== *)
theory Status_Writer
  imports Kube_Api Lifecycle
begin

section \<open>Writing a decision back\<close>

text \<open>
  \<^verbatim>\<open>src/operator/internal/controller/status.go\<close>: a decision is applied to a re-read object
  only if the fields it was decided from are still the same, and written under an optimistic
  lock in a conflict loop. The events and metrics of \<^verbatim>\<open>observeTransition\<close> are left out.
\<close>

definition errStaleDecision :: go_error where
  "errStaleDecision = ErrorString ''decision computed from a superseded object state''"

definition stale :: "SandboxEnvironment \<Rightarrow> SandboxEnvironment \<Rightarrow> bool" where
  "stale decided fresh \<longleftrightarrow>
     Generation fresh \<noteq> Generation decided \<or>
     st_Phase (Status fresh) \<noteq> st_Phase (Status decided) \<or>
     st_WaitFor (Status fresh) \<noteq> st_WaitFor (Status decided) \<or>
     (st_Snapshot (Status fresh) \<noteq> None) \<noteq> (st_Snapshot (Status decided) \<noteq> None) \<or>
     st_ProbeAttempt (Status fresh) \<noteq> st_ProbeAttempt (Status decided)"

definition write_attempt ::
  "'w kube \<Rightarrow> meta_lib \<Rightarrow> SandboxEnvironment \<Rightarrow> Decision \<Rightarrow> 'w \<Rightarrow> go_error option \<times> 'w" where
  "write_attempt k lib env d w =
     (case k_CachedGet k (env_key env) w of
        (Inl err, w1) \<Rightarrow> (Some err, w1)
      | (Inr fresh, w1) \<Rightarrow>
          if stale env fresh then (Some errStaleDecision, w1)
          else let desired = Apply lib fresh d
               in if Status fresh = desired then (None, w1)
                  else k_UpdateStatus k (fresh\<lparr>Status := desired\<rparr>) w1)"

definition writeStatus ::
  "'w kube \<Rightarrow> (('w \<Rightarrow> go_error option \<times> 'w) \<Rightarrow> 'w \<Rightarrow> go_error option \<times> 'w) \<Rightarrow> meta_lib \<Rightarrow>
   SandboxEnvironment \<Rightarrow> Decision \<Rightarrow> 'w \<Rightarrow> go_error option \<times> 'w" where
  "writeStatus k RetryOnConflict lib env d w = RetryOnConflict (write_attempt k lib env d) w"

subsection \<open>A decision lands on the object it fits\<close>

text \<open>
  The contract the controller relies on: the server of \<open>kube_others\<close>, and a loop that retries
  conflicts only.
\<close>

locale controller_client =
  kube_others k log valid others + conflict: retry_loop "\<lambda>e. e = Conflict" RetryOnConflict
  for k :: "'w kube" and log :: "'w \<Rightarrow> cluster list" and valid :: "'w \<Rightarrow> bool"
    and RetryOnConflict :: "('w \<Rightarrow> go_error option \<times> 'w) \<Rightarrow> 'w \<Rightarrow> go_error option \<times> 'w"
    and others :: "cluster list \<Rightarrow> cluster list \<Rightarrow> bool"
begin

lemma write_attempt_valid: "valid w \<Longrightarrow> write_attempt k lib env d w = (r, w') \<Longrightarrow> valid w'"
  by (auto simp: write_attempt_def Let_def split: prod.splits sum.splits if_splits
      dest: cached_spec update_spec)

text \<open>An attempt that will be retried has written nothing itself.\<close>

lemma retried_attempt_wrote_nothing:
  assumes "valid w" and "write_attempt k lib env d w = (Some Conflict, w')"
  shows "others (log w) (log w')"
proof -
  obtain rg w1 where g: "k_CachedGet k (env_key env) w = (rg, w1)" by fastforce
  note get = cached_spec [OF assms(1) g] and quiet = cached_others [OF assms(1) g]
  then have "valid w1" by blast
  then show ?thesis
    using assms(2) g quiet others_trans [OF quiet update_refused]
    by (auto simp: write_attempt_def Let_def errStaleDecision_def split: sum.splits if_splits)
qed

text \<open>
  A successful attempt writes at most once, over the object it computed the status from; what
  it found before and after is the doing of the other writers.
\<close>

lemma successful_attempt_writes_once:
  assumes "valid w" and "write_attempt k lib env d w = (None, w')"
  shows "\<exists>cur h. \<not> stale env cur \<and> others (log w) h \<and>
     (wrote_now h (env_key env) cur (Apply lib cur d) (log w')
      \<or> h = log w' \<and> Apply lib cur d = Status cur \<and> (\<exists>s \<in> set h. s (env_key env) = Some cur))"
proof -
  obtain rg w1 where g: "k_CachedGet k (env_key env) w = (rg, w1)" by fastforce
  note quiet = cached_others [OF assms(1) g]
  from assms(2) g obtain fresh where fresh: "rg = Inr fresh" "\<not> stale env fresh"
    by (auto simp: write_attempt_def split: sum.splits if_splits)
  with cached_spec [OF assms(1) g] obtain s where v1: "valid w1"
    and s: "s \<in> set (log w1)" "s (env_key env) = Some fresh" by auto
  show ?thesis
  proof (cases "Status fresh = Apply lib fresh d")
    case True
    with assms(2) g fresh have "w' = w1" by (simp add: write_attempt_def Let_def)
    then show ?thesis using True fresh(2) s quiet by (intro exI [of _ fresh] exI [of _ "log w1"]) auto
  next
    case False
    with assms(2) g fresh have upd: "k_UpdateStatus k (fresh\<lparr>Status := Apply lib fresh d\<rparr>) w1 = (None, w')"
      by (simp add: write_attempt_def Let_def)
    have key: "env_key fresh = env_key env" using key_of_stored [OF v1 s] .
    from update_lands [OF v1 upd] obtain cur h where cur: "ResourceVersion cur = ResourceVersion fresh"
      and h: "others (log w1) h" and wrote: "wrote_now h (env_key env) cur (Apply lib fresh d) (log w')"
      using key by (auto simp: env_key_def)
    have "wrote_status (log w1) (env_key env) cur (Apply lib fresh d) (log w')"
      using wrote_now_status [OF others_extend [OF h] wrote] .
    moreover have "valid w'" using update_spec [OF v1 upd] by blast
    ultimately have "cur = fresh" using v1 s cur write_lands_on_read by blast
    then show ?thesis using wrote fresh(2) others_trans [OF quiet h] by blast
  qed
qed

lemma writeStatus_writes_once:
  assumes "valid w" and "writeStatus k RetryOnConflict lib env d w = (None, w')"
  shows "\<exists>cur h. \<not> stale env cur \<and> others (log w) h \<and>
     (wrote_now h (env_key env) cur (Apply lib cur d) (log w')
      \<or> h = log w' \<and> Apply lib cur d = Status cur \<and> (\<exists>s \<in> set h. s (env_key env) = Some cur))"
proof -
  let ?R = "\<lambda>w w'. others (log w) (log w')"
  have step: "valid w1 \<and> ?R w w1" if "valid w" "write_attempt k lib env d w = (Some e, w1)" "e = Conflict" for w e w1
    using that write_attempt_valid retried_attempt_wrote_nothing by blast
  have "\<exists>w1. valid w1 \<and> ?R w w1 \<and> write_attempt k lib env d w1 = (None, w')"
    by (rule conflict.result_of_last [where P = valid and R = ?R, OF assms(2) [unfolded writeStatus_def]])
      (fact step others_refl others_trans assms(1))+
  then obtain w1 where w1: "valid w1" "others (log w) (log w1)" "write_attempt k lib env d w1 = (None, w')" by blast
  from successful_attempt_writes_once [OF w1(1,3)] others_trans [OF w1(2)] show ?thesis by blast
qed

end

interpretation ref_controller: controller_client ref_kube ref_log ref_valid "ref_retry n" "(=)" for n
  by unfold_locales

subsection \<open>No concurrent write is lost or counted twice\<close>

lemma not_stale_fields:
  assumes "\<not> stale env cur"
  shows "Generation cur = Generation env" "current_phase cur = current_phase env"
    "st_WaitFor (Status cur) = st_WaitFor (Status env)"
    "st_Snapshot (Status cur) = None \<longleftrightarrow> st_Snapshot (Status env) = None"
  using assms by (auto simp: stale_def current_phase_def)

lemma ClearWaitFor_only_satisfied:
  assumes "ClearWaitFor (d_StatusPatch (Next lib env facts now))"
  shows "current_phase env = PhaseWaiting \<and> st_WaitFor (Status env) \<noteq> None \<and> WaitProbeSatisfied facts"
proof -
  have dispatch: "ClearWaitFor (d_StatusPatch (dispatchPhase lib env facts now p)) \<Longrightarrow>
      p = PhaseWaiting \<and> st_WaitFor (Status env) \<noteq> None \<and> WaitProbeSatisfied facts" for p
    by (cases p) (auto simp: dispatchPhase_def phase_function_defs split: option.splits if_splits)
  show ?thesis
  proof (cases rule: decide_cases [of "current_phase env" lib env facts now])
    case terminal
    with assms show ?thesis by (simp add: terminal_effect terminal_patch_def)
  next
    case (completed d)
    with assms agentOrPodTerminal_effect [OF completed(2)] show ?thesis by simp
  next
    case (timeout d)
    with assms timeoutFired_decision [OF timeout(4)] show ?thesis by simp
  next
    case held
    with assms show ?thesis by (simp add: hold_effect)
  qed (use assms dispatch in auto)
qed

text \<open>
  C5: writing a decision back loses no concurrent write. When writeStatus succeeds, it
  added exactly one entry to the history, after entries that only other writers made (the relation others),
  and that entry replaces the status of the object stored at that moment by one computed from
  the very same object; or it wrote nothing at all, since the stored object it read already
  had the status it wanted. The object agrees with the decision's input in generation and
  phase (and in declared wait, presence of a snapshot and probe attempt). So whatever the sidecar recorded in between (result, snapshot, attempts,
  archive, git state) is kept, a wait is cleared only if it is the one that was probed, a wake
  is counted by the stored object's own phase and snapshot, and a slot is only kept, never
  granted.
\<close>

theorem writeStatus_keeps_concurrent_writes:
  assumes "controller_client k log valid RetryOnConflict others" and "valid w"
    and "writeStatus k RetryOnConflict lib env (Next lib env facts now) w = (None, w')"
  shows "\<exists>cur st h. st = Apply lib cur (Next lib env facts now) \<and> others (log w) h
     \<and> (wrote_now h (env_key env) cur st (log w')
        \<or> h = log w' \<and> st = Status cur \<and> (\<exists>s \<in> set h. s (env_key env) = Some cur))
     \<and> Generation cur = Generation env \<and> current_phase cur = current_phase env
     \<and> st_AgentResult st = st_AgentResult (Status cur) \<and> st_Snapshot st = st_Snapshot (Status cur)
     \<and> st_SnapshotAttempt st = st_SnapshotAttempt (Status cur)
     \<and> st_RestoreAttempt st = st_RestoreAttempt (Status cur)
     \<and> st_Archive st = st_Archive (Status cur) \<and> st_GitState st = st_GitState (Status cur)
     \<and> (st_WaitFor st = st_WaitFor (Status cur) \<or>
        st_WaitFor st = None \<and> current_phase cur = PhaseWaiting \<and> WaitProbeSatisfied facts
        \<and> st_WaitFor (Status cur) = st_WaitFor (Status env))
     \<and> st_WakeCount st = st_WakeCount (Status cur) +
         (if current_phase cur = PhaseRestoring \<and> st_Snapshot (Status cur) \<noteq> None \<and>
             (st_Phase st = PhaseRunning \<or> (\<exists>d. agentOrPodTerminal lib env facts now PhaseRestoring = Some d))
          then 1 else 0)
     \<and> (Granted (st_Slot st) \<longrightarrow> Granted (st_Slot (Status cur)))"
proof -
  let ?d = "Next lib env facts now"
  from controller_client.writeStatus_writes_once [OF assms] obtain cur h where ns: "\<not> stale env cur"
    and h: "others (log w) h"
    and l: "wrote_now h (env_key env) cur (Apply lib cur ?d) (log w')
       \<or> h = log w' \<and> Apply lib cur ?d = Status cur \<and> (\<exists>s \<in> set h. s (env_key env) = Some cur)"
    by blast
  note f = not_stale_fields [OF ns]
  have wait: "st_WaitFor (Apply lib cur ?d) = st_WaitFor (Status cur) \<or>
      st_WaitFor (Apply lib cur ?d) = None \<and> current_phase cur = PhaseWaiting \<and> WaitProbeSatisfied facts
      \<and> st_WaitFor (Status cur) = st_WaitFor (Status env)"
    using ClearWaitFor_only_satisfied [of lib env facts now] f by (auto simp: Apply_WaitFor)
  show ?thesis
    by (intro exI [of _ cur] exI [of _ "Apply lib cur ?d"] exI [of _ h] conjI l h f refl)
      (use f wait in \<open>simp_all add: Apply_counts decide_counts no_slot_def\<close>)
qed

subsection \<open>A concrete write\<close>

definition pending_world :: ref_world where
  "pending_world = \<lparr>r_hist = [[((''ns'', ''a''), (env_at PhasePending)\<lparr>Namespace := ''ns'', Name := ''a''\<rparr>)]], r_next = 1\<rparr>"

definition pending_env :: SandboxEnvironment where
  "pending_env = (env_at PhasePending)\<lparr>Namespace := ''ns'', Name := ''a''\<rparr>"

definition ready_decision :: Decision where
  "ready_decision = Next ref_lib pending_env (zero_facts\<lparr>ClassResolved := True, ResourcesReady := True\<rparr>) 0"

lemma pending_world_valid: "ref_valid pending_world"
  by (auto simp: ref_valid_def ref_log_def pending_world_def env_key_def env_at_def zero_env_def
      split: if_splits)

lemma ready_decision_runs:
  "\<exists>w'. writeStatus ref_kube (ref_retry 5) ref_lib pending_env ready_decision pending_world = (None, w')"
proof -
  have fresh: "k_CachedGet ref_kube (env_key pending_env) pending_world = (Inr pending_env, pending_world)"
    by (simp add: ref_kube_def ref_Get_def pending_world_def pending_env_def env_key_def)
  have "\<exists>w'. k_UpdateStatus ref_kube (pending_env\<lparr>Status := st\<rparr>) pending_world = (None, w')" for st
    by (simp add: ref_kube_def ref_write_def pending_world_def pending_env_def env_key_def env_at_def zero_env_def)
  then have "\<exists>w'. write_attempt ref_kube ref_lib pending_env ready_decision pending_world = (None, w')"
    using fresh by (auto simp: write_attempt_def Let_def stale_def)
  then show ?thesis by (auto simp: writeStatus_def numeral_eq_Suc split: prod.splits)
qed

theorem writeStatus_keeps_concurrent_writes_witness:
  "\<exists>w' cur st. writeStatus ref_kube (ref_retry 5) ref_lib pending_env ready_decision pending_world = (None, w')
     \<and> st = Apply ref_lib cur ready_decision \<and> st_AgentResult st = st_AgentResult (Status cur)
     \<and> (wrote_now (ref_log pending_world) (env_key pending_env) cur st (ref_log w')
        \<or> ref_log w' = ref_log pending_world \<and> st = Status cur)"
proof -
  obtain w' where run: "writeStatus ref_kube (ref_retry 5) ref_lib pending_env ready_decision pending_world = (None, w')"
    using ready_decision_runs by blast
  from writeStatus_keeps_concurrent_writes
    [OF ref_controller.controller_client_axioms pending_world_valid run [unfolded ready_decision_def]]
  show ?thesis using run unfolding ready_decision_def by metis
qed

end
