(* ===== verification/Child_Names.thy ===== *)
theory Child_Names
  imports Prelude
begin

section \<open>Names of child objects\<close>

text \<open>
  \<^verbatim>\<open>src/operator/internal/render/names.go\<close>: every object an environment owns is named after
  it, within the 63 characters Kubernetes allows. The hexadecimal SHA-256 of a name is an
  argument.
\<close>

definition MaxNameLen :: nat where "MaxNameLen = 63"
definition hashLen :: nat where "hashLen = 8"

definition SuffixWorkspace :: string where "SuffixWorkspace = ''-workspace''"
definition SuffixServiceAccount :: string where "SuffixServiceAccount = ''-agent''"
definition SuffixSecret :: string where "SuffixSecret = ''-env''"
definition SuffixConfigMap :: string where "SuffixConfigMap = ''-config''"
definition SuffixSidecarRBAC :: string where "SuffixSidecarRBAC = ''-sidecar''"
definition SuffixPod :: string where "SuffixPod = ''-run''"
definition SuffixSnapshotSecret :: string where "SuffixSnapshotSecret = ''-snapshot''"
definition SuffixSnapshotJob :: string where "SuffixSnapshotJob = ''-freeze''"
definition SuffixNetworkPolicy :: string where "SuffixNetworkPolicy = ''-netpolicy''"
definition SuffixArchiveJob :: string where "SuffixArchiveJob = ''-archive''"

lemmas suffix_defs =
  SuffixWorkspace_def SuffixServiceAccount_def SuffixSecret_def SuffixConfigMap_def
  SuffixSidecarRBAC_def SuffixPod_def SuffixSnapshotSecret_def SuffixSnapshotJob_def
  SuffixNetworkPolicy_def SuffixArchiveJob_def

definition TrimRight :: "string \<Rightarrow> string \<Rightarrow> string" where
  "TrimRight s cutset = rev (dropWhile (\<lambda>c. c \<in> set cutset) (rev s))"

definition childName :: "(string \<Rightarrow> string) \<Rightarrow> string \<Rightarrow> string \<Rightarrow> string" where
  "childName sha256hex envName suffix =
     (if length envName + length suffix \<le> MaxNameLen then envName @ suffix
      else let h = take hashLen (sha256hex envName);
               keep = int MaxNameLen - int (length suffix) - 1 - int hashLen;
               keep = (if keep < 0 then 0 else keep);
               base = (if keep < int (length envName) then take (nat keep) envName else envName);
               base = TrimRight base ''-._''
           in base @ ''-'' @ h @ suffix)"

record Names =
  n_PVC :: string
  n_ServiceAccount :: string
  n_Secret :: string
  n_ConfigMap :: string
  n_Role :: string
  n_RoleBinding :: string
  n_Pod :: string
  n_SnapshotSecret :: string
  n_SnapshotJob :: string
  n_NetworkPolicy :: string
  n_ArchiveJob :: string

definition ChildNames :: "(string \<Rightarrow> string) \<Rightarrow> string \<Rightarrow> Names" where
  "ChildNames sha256hex envName =
     \<lparr>n_PVC = childName sha256hex envName SuffixWorkspace,
      n_ServiceAccount = childName sha256hex envName SuffixServiceAccount,
      n_Secret = childName sha256hex envName SuffixSecret,
      n_ConfigMap = childName sha256hex envName SuffixConfigMap,
      n_Role = childName sha256hex envName SuffixSidecarRBAC,
      n_RoleBinding = childName sha256hex envName SuffixSidecarRBAC,
      n_Pod = childName sha256hex envName SuffixPod,
      n_SnapshotSecret = childName sha256hex envName SuffixSnapshotSecret,
      n_SnapshotJob = childName sha256hex envName SuffixSnapshotJob,
      n_NetworkPolicy = childName sha256hex envName SuffixNetworkPolicy,
      n_ArchiveJob = childName sha256hex envName SuffixArchiveJob\<rparr>"

definition EnvironmentLabelValue :: "(string \<Rightarrow> string) \<Rightarrow> string \<Rightarrow> string" where
  "EnvironmentLabelValue sha256hex envName = childName sha256hex envName []"

subsection \<open>Length and separation\<close>

lemma length_TrimRight: "length (TrimRight s cutset) \<le> length s"
  using length_dropWhile_le [of "\<lambda>c. c \<in> set cutset" "rev s"] by (simp add: TrimRight_def)

lemma childName_length:
  assumes "length suffix \<le> 54"
  shows "length (childName sha envName suffix) \<le> MaxNameLen"
proof (cases "length envName + length suffix \<le> MaxNameLen")
  case True
  then show ?thesis by (simp add: childName_def)
next
  case False
  define keep where "keep = int MaxNameLen - int (length suffix) - 1 - int hashLen"
  have keep: "0 \<le> keep" using assms by (simp add: keep_def MaxNameLen_def hashLen_def)
  let ?base = "if keep < int (length envName) then take (nat keep) envName else envName"
  have "length ?base \<le> nat keep" using keep by auto
  then have "length (TrimRight ?base ''-._'') \<le> nat keep" using length_TrimRight le_trans by blast
  moreover have "childName sha envName suffix = TrimRight ?base ''-._'' @ ''-'' @ take hashLen (sha envName) @ suffix"
    using False keep by (simp add: childName_def Let_def keep_def)
  ultimately show ?thesis
    using keep assms by (simp add: keep_def MaxNameLen_def hashLen_def)
qed

lemma childName_suffix: "\<exists>p. childName sha envName suffix = p @ suffix"
  by (simp add: childName_def Let_def)

lemma last_chars:
  assumes "p @ s = q @ t" and "length s \<le> length t"
  shows "\<exists>r. t = r @ s"
  using assms by (auto simp: append_eq_append_conv2)

text \<open>Two names of one environment differ when neither suffix ends the other.\<close>

lemma childName_neq:
  assumes "drop (length s - length t) s \<noteq> t" and "drop (length t - length s) t \<noteq> s"
  shows "childName sha e s \<noteq> childName sha e' t"
proof
  assume eq: "childName sha e s = childName sha e' t"
  obtain p q where p: "childName sha e s = p @ s" and q: "childName sha e' t = q @ t"
    using childName_suffix by blast
  show False
  proof (cases "length s \<le> length t")
    case True
    then obtain r where "t = r @ s" using last_chars [of p s q t] eq p q by auto
    with assms(2) show False by auto
  next
    case False
    then obtain r where "s = r @ t" using last_chars [of q t p s] eq p q by auto
    with assms(1) show False by auto
  qed
qed

text \<open>
  The names of one environment's children, by kind. The Role and the RoleBinding share theirs, on
  purpose: they are objects of different types, and the one suffix names the pair.
\<close>

definition child_names :: "Names \<Rightarrow> string list" where
  "child_names n = [n_PVC n, n_ServiceAccount n, n_Secret n, n_ConfigMap n, n_Role n, n_Pod n,
     n_SnapshotSecret n, n_SnapshotJob n, n_NetworkPolicy n, n_ArchiveJob n]"

definition child_suffixes :: "string list" where
  "child_suffixes = [SuffixWorkspace, SuffixServiceAccount, SuffixSecret, SuffixConfigMap, SuffixSidecarRBAC, SuffixPod,
     SuffixSnapshotSecret, SuffixSnapshotJob, SuffixNetworkPolicy, SuffixArchiveJob]"

lemma child_names_eq: "child_names (ChildNames sha e) = map (childName sha e) child_suffixes"
  by (simp add: child_names_def child_suffixes_def ChildNames_def)

lemma length_child_suffixes [simp]: "length child_suffixes = 10"
  by (simp add: child_suffixes_def)

lemma child_suffixes_short: "s \<in> set child_suffixes \<Longrightarrow> length s \<le> 10"
  by (auto simp: child_suffixes_def suffix_defs)

lemma child_suffixes_apart:
  "\<forall>i \<in> set [0..<10]. \<forall>j \<in> set [0..<10]. i = j \<or>
     drop (length (child_suffixes ! i) - length (child_suffixes ! j)) (child_suffixes ! i) \<noteq> child_suffixes ! j"
  by code_simp

lemma childName_kinds_differ:
  assumes "i < 10" and "j < 10" and "i \<noteq> j"
  shows "childName sha e (child_suffixes ! i) \<noteq> childName sha e' (child_suffixes ! j)"
  using child_suffixes_apart assms by (intro childName_neq) (metis atLeastLessThan_iff le0 set_upt)+

lemma childName_short: "length e + length s \<le> MaxNameLen \<Longrightarrow> childName sha e s = e @ s"
  by (simp add: childName_def)

lemma short_names_disjoint:
  assumes "length e \<le> 53" and "length e' \<le> 53" and "e \<noteq> e'"
  shows "set (child_names (ChildNames sha e)) \<inter> set (child_names (ChildNames sha e')) = {}"
proof -
  have "childName sha e (child_suffixes ! i) \<noteq> childName sha e' (child_suffixes ! j)" if "i < 10" "j < 10" for i j
  proof (cases "i = j")
    case True
    have "length (child_suffixes ! i) \<le> 10" using that by (simp add: child_suffixes_short)
    then show ?thesis using assms True by (simp add: childName_short MaxNameLen_def)
  qed (use childName_kinds_differ that in blast)
  then show ?thesis unfolding child_names_eq by (auto simp: in_set_conv_nth)
qed

text \<open>
  C37: every child name of an environment and its label value fit Kubernetes' limit of 63
  characters. The names of two different kinds of children never coincide, be they of one
  environment or of two (so a Pod's name is never a Job's or a Secret's); only the Role and the
  RoleBinding, objects of different types, share one name. And two environments with
  different names of at most 53 characters share no child name at all.
\<close>

theorem ChildNames_fit_and_separate:
  "(let n = ChildNames sha envName; m = ChildNames sha envName'
    in (\<forall>c \<in> set (child_names n). length c \<le> MaxNameLen)
       \<and> length (EnvironmentLabelValue sha envName) \<le> MaxNameLen
       \<and> n_RoleBinding n = n_Role n
       \<and> (\<forall>i < length (child_names n). \<forall>j < length (child_names m). i \<noteq> j \<longrightarrow> child_names n ! i \<noteq> child_names m ! j)
       \<and> (length envName \<le> 53 \<longrightarrow> length envName' \<le> 53 \<longrightarrow> envName \<noteq> envName' \<longrightarrow>
            set (child_names n) \<inter> set (child_names m) = {}))"
proof -
  have "length s \<le> 54" if "s \<in> set child_suffixes" for s using child_suffixes_short [OF that] by simp
  then have "\<forall>c \<in> set (child_names (ChildNames sha envName)). length c \<le> MaxNameLen"
    unfolding child_names_eq by (auto intro: childName_length)
  moreover have "length (EnvironmentLabelValue sha envName) \<le> MaxNameLen"
    by (simp add: EnvironmentLabelValue_def childName_length)
  moreover have "n_RoleBinding (ChildNames sha envName) = n_Role (ChildNames sha envName)"
    by (simp add: ChildNames_def)
  moreover have "child_names (ChildNames sha envName) ! i \<noteq> child_names (ChildNames sha envName') ! j"
    if "i < length (child_names (ChildNames sha envName))" "j < length (child_names (ChildNames sha envName'))" "i \<noteq> j" for i j
    using that childName_kinds_differ [of i j] by (simp add: child_names_eq)
  ultimately show ?thesis unfolding Let_def using short_names_disjoint by blast
qed

theorem ChildNames_fit_and_separate_witness:
  "n_Pod (ChildNames (\<lambda>s. replicate 64 CHR ''0'') ''fix-flaky'') = ''fix-flaky-run''
   \<and> ''fix-flaky-run'' \<notin> set (child_names (ChildNames (\<lambda>s. replicate 64 CHR ''0'') ''fix-lint''))"
proof -
  let ?n = "ChildNames (\<lambda>s. replicate 64 CHR ''0'') ''fix-flaky''"
  have pod: "n_Pod ?n = ''fix-flaky-run''" by (simp add: ChildNames_def childName_def MaxNameLen_def SuffixPod_def)
  then have "''fix-flaky-run'' \<in> set (child_names ?n)" by (simp add: child_names_def)
  moreover from ChildNames_fit_and_separate [of "\<lambda>s. replicate 64 CHR ''0''" "''fix-flaky''" "''fix-lint''"]
  have "set (child_names ?n) \<inter> set (child_names (ChildNames (\<lambda>s. replicate 64 CHR ''0'') ''fix-lint'')) = {}"
    by (simp add: Let_def)
  ultimately show ?thesis using pod by blast
qed

end
