(* ===== verification/Observe.thy ===== *)
theory Observe
  imports Scheduler Lifecycle Child_Names
begin

section \<open>Observing the cluster\<close>

text \<open>
  \<^verbatim>\<open>src/operator/internal/controller/podstatus.go\<close>, \<^verbatim>\<open>observe.go\<close>, and the observers of
  \<^verbatim>\<open>pod.go\<close>, \<^verbatim>\<open>freeze.go\<close> and \<^verbatim>\<open>restore.go\<close>: how the facts of a reconcile are read off the
  stored status, the pod and the child objects. The replies of the API calls are arguments;
  the text of an error is what the caller would read from it.
\<close>

subsection \<open>Pods\<close>

record ContainerStateWaiting =
  cw_Reason :: string
  cw_Message :: string

record ContainerStateTerminated =
  ct_ExitCode :: int
  ct_Reason :: string
  ct_Message :: string

record ContainerStatus =
  cs_Name :: string
  cs_Waiting :: "ContainerStateWaiting option"
  cs_Terminated :: "ContainerStateTerminated option"

record PodCondition =
  pc_Type :: string
  pc_Status :: ConditionStatus
  pc_Reason :: string
  pc_Message :: string
  pc_LastTransitionTime :: time

record OwnerReference =
  or_Controller :: "bool option"
  or_UID :: string

record Pod =
  p_UID :: string
  p_OwnerReferences :: "OwnerReference list"
  p_DeletionTimestamp :: "time option"
  p_Phase :: PodPhase
  p_Message :: string
  p_Reason :: string
  p_Conditions :: "PodCondition list"
  p_InitContainerStatuses :: "ContainerStatus list"
  p_ContainerStatuses :: "ContainerStatus list"

definition unschedulableGracePeriod :: duration where "unschedulableGracePeriod = 2 * Minute"
definition podFailureMessageBytes :: nat where "podFailureMessageBytes = 512"
definition RestoreContainerName :: string where "RestoreContainerName = ''restore''"

definition truncate_to :: "string \<Rightarrow> nat \<Rightarrow> string" where
  "truncate_to s limit = (if length s \<le> limit then s else take limit s)"

definition podReady :: "Pod \<Rightarrow> bool" where
  "podReady pod =
     (case find (\<lambda>c. pc_Type c = ''Ready'') (p_Conditions pod) of
        None \<Rightarrow> False | Some c \<Rightarrow> pc_Status c = ConditionTrue)"

definition podTerminated :: "Pod \<Rightarrow> bool" where
  "podTerminated pod \<longleftrightarrow> p_Phase pod = PodSucceeded \<or> p_Phase pod = PodFailed"

definition exit_note :: "int \<Rightarrow> string \<Rightarrow> string" where
  "exit_note code reason = ''exited with code '' @ decimal_int code @ '' ('' @ reason @ '')''"

fun restore_failure_in :: "ContainerStatus list \<Rightarrow> PodFailureFact option" where
  "restore_failure_in [] = None"
| "restore_failure_in (cs # rest) =
     (if cs_Name cs \<noteq> RestoreContainerName then restore_failure_in rest
      else case cs_Terminated cs of
             None \<Rightarrow> restore_failure_in rest
           | Some t \<Rightarrow>
               if ct_ExitCode t = 0 then restore_failure_in rest
               else Some \<lparr>pf_Reason = ReasonRestoreVerificationFailed,
                          pf_Message = (if ct_Message t = []
                            then ''restore container '' @ exit_note (ct_ExitCode t) (ct_Reason t)
                            else ct_Message t)\<rparr>)"

definition restoreFailure :: "Pod \<Rightarrow> PodFailureFact option" where
  "restoreFailure pod = restore_failure_in (p_InitContainerStatuses pod)"

definition unschedulableFailure :: "Pod \<Rightarrow> time \<Rightarrow> PodFailureFact option" where
  "unschedulableFailure pod now =
     (case find (\<lambda>c. pc_Type c = ''PodScheduled'' \<and> pc_Status c = ConditionFalse \<and>
                     pc_Reason c = ''Unschedulable'') (p_Conditions pod) of
        None \<Rightarrow> None
      | Some c \<Rightarrow>
          if time_Sub now (pc_LastTransitionTime c) \<ge> unschedulableGracePeriod
          then Some \<lparr>pf_Reason = ReasonUnschedulable, pf_Message = pc_Message c\<rparr>
          else None)"

fun image_pull_failure_in :: "ContainerStatus list \<Rightarrow> PodFailureFact option" where
  "image_pull_failure_in [] = None"
| "image_pull_failure_in (cs # rest) =
     (case cs_Waiting cs of
        None \<Rightarrow> image_pull_failure_in rest
      | Some w \<Rightarrow>
          if cw_Reason w = ''ImagePullBackOff'' \<or> cw_Reason w = ''InvalidImageName''
          then Some \<lparr>pf_Reason = ReasonImagePullFailure,
                     pf_Message = cs_Name cs @ '': '' @ cw_Reason w @ '': '' @ cw_Message w\<rparr>
          else image_pull_failure_in rest)"

definition imagePullFailure :: "Pod \<Rightarrow> PodFailureFact option" where
  "imagePullFailure pod = image_pull_failure_in (p_InitContainerStatuses pod @ p_ContainerStatuses pod)"

fun first_terminated_in :: "ContainerStatus list \<Rightarrow> string" where
  "first_terminated_in [] = []"
| "first_terminated_in (cs # rest) =
     (case cs_Terminated cs of
        None \<Rightarrow> first_terminated_in rest
      | Some t \<Rightarrow>
          if ct_ExitCode t \<noteq> 0
          then ''container '' @ cs_Name cs @ '' '' @ exit_note (ct_ExitCode t) (ct_Reason t)
          else first_terminated_in rest)"

definition firstTerminatedContainerMessage :: "Pod \<Rightarrow> string" where
  "firstTerminatedContainerMessage pod = first_terminated_in (p_ContainerStatuses pod)"

definition genericFailure :: "Pod \<Rightarrow> PodFailureFact option" where
  "genericFailure pod =
     (if p_Phase pod \<noteq> PodFailed then None
      else let msg = (if p_Message pod = [] then firstTerminatedContainerMessage pod else p_Message pod);
               msg = (if p_Reason pod \<noteq> [] then p_Reason pod @ '': '' @ msg else msg)
           in Some \<lparr>pf_Reason = ReasonPodFailed, pf_Message = msg\<rparr>)"

definition podFailure :: "Pod \<Rightarrow> time \<Rightarrow> PodFailureFact option" where
  "podFailure pod now =
     (if \<not> IsZero (p_DeletionTimestamp pod) then None
      else case unschedulableFailure pod now of
             Some f \<Rightarrow> Some f
           | None \<Rightarrow>
               (case imagePullFailure pod of
                  Some f \<Rightarrow> Some f
                | None \<Rightarrow> (case restoreFailure pod of Some f \<Rightarrow> Some f | None \<Rightarrow> genericFailure pod)))"

definition owned_by :: "OwnerReference list \<Rightarrow> SandboxEnvironment \<Rightarrow> bool" where
  "owned_by refs env \<longleftrightarrow> list_ex (\<lambda>ref. or_Controller ref = Some True \<and> or_UID ref = UID env) refs"

subsection \<open>Facts read off the status and the pod\<close>

text \<open>Seq is compared as a signed 32-bit number with the counter.\<close>

definition observeSnapshot :: "SandboxEnvironmentStatus \<Rightarrow> ClusterFacts \<Rightarrow> ClusterFacts" where
  "observeSnapshot st f =
     (let f = (case st_Snapshot st of
                 Some s \<Rightarrow> if sn_Seq s \<ge> sint (st_FreezeCount st) then f\<lparr>SnapshotComplete := True\<rparr> else f
               | None \<Rightarrow> f)
      in case st_SnapshotAttempt st of
           Some a \<Rightarrow>
             if sa_Phase a = SnapshotAttemptFailed \<and> sa_Seq a \<ge> sint (st_FreezeCount st)
             then f\<lparr>SnapshotFailure := Some \<lparr>sf_Reason = ReasonSnapshotFailed,
                      sf_Message = truncate_to (sa_Reason a @ '': '' @ sa_Message a) podFailureMessageBytes\<rparr>\<rparr>
             else f
         | None \<Rightarrow> f)"

definition observeRestore :: "SandboxEnvironmentStatus \<Rightarrow> ClusterFacts \<Rightarrow> ClusterFacts" where
  "observeRestore st f =
     (case (st_RestoreAttempt st, PodFailure f) of
        (Some a, Some pf) \<Rightarrow>
          if ra_Phase a = RestoreAttemptFailed
          then f\<lparr>PodFailure := Some (pf\<lparr>pf_Message :=
                   truncate_to (ra_Reason a @ '': '' @ ra_Message a) podFailureMessageBytes\<rparr>)\<rparr>
          else f
      | _ \<Rightarrow> f)"

datatype 'a reply = Missing | Failed string | Found 'a

definition observePod :: "SandboxEnvironment \<Rightarrow> Pod reply \<Rightarrow> time \<Rightarrow> ClusterFacts \<Rightarrow> ClusterFacts" where
  "observePod env r now f =
     (case r of
        Missing \<Rightarrow> f\<lparr>PodObserved := True\<rparr>
      | Failed _ \<Rightarrow> f
      | Found pod \<Rightarrow>
          (let f = f\<lparr>PodObserved := True\<rparr>
           in if \<not> owned_by (p_OwnerReferences pod) env then f
              else let f = f\<lparr>PodExists := True, f_PodPhase := p_Phase pod, PodReady := podReady pod\<rparr>;
                       f = (if st_Snapshot (Status env) = None \<and> p_Phase pod = PodRunning
                            then f\<lparr>PodAliveForArchive := True\<rparr> else f)
                   in case podFailure pod now of
                        None \<Rightarrow> f
                      | Some pf \<Rightarrow> f\<lparr>PodFailure :=
                          Some (pf\<lparr>pf_Message := truncate_to (pf_Message pf) podFailureMessageBytes\<rparr>)\<rparr>))"

definition observeQueuePosition ::
  "SandboxEnvironment \<Rightarrow> SandboxEnvironment list reply \<Rightarrow> ClusterFacts \<Rightarrow> ClusterFacts" where
  "observeQueuePosition env r f =
     (case r of
        Found items \<Rightarrow>
          (case QueuePosition (snd (Partition items)) (UID env) of
             (position, depth) \<Rightarrow> f\<lparr>f_QueuePosition := position, f_QueueDepth := depth\<rparr>)
      | _ \<Rightarrow> f)"

subsection \<open>Child objects\<close>

datatype kind = KServiceAccount | KRole | KRoleBinding | KConfigMap | KSecret | KPVC | KNetworkPolicy

fun kind_name :: "kind \<Rightarrow> string" where
  "kind_name KServiceAccount = ''ServiceAccount''"
| "kind_name KRole = ''Role''"
| "kind_name KRoleBinding = ''RoleBinding''"
| "kind_name KConfigMap = ''ConfigMap''"
| "kind_name KSecret = ''Secret''"
| "kind_name KPVC = ''PersistentVolumeClaim''"
| "kind_name KNetworkPolicy = ''NetworkPolicy''"

record child =
  ch_Name :: string
  ch_OwnerReferences :: "OwnerReference list"
  ch_ClaimLost :: bool

record class_view =
  cl_Timeouts :: TimeoutsSpec
  cl_BackendS3 :: bool
  cl_Restricted :: bool

text \<open>What the API answers during one observation; \<open>v_Probe\<close> is the evaluator, if one is wired.\<close>

record view =
  v_Pod :: "Pod reply"
  v_List :: "SandboxEnvironment list reply"
  v_Child :: "kind \<Rightarrow> string \<Rightarrow> child reply"
  v_CredentialsError :: "string option"
  v_PeersError :: "string option"
  v_Probe :: "(SandboxEnvironment \<Rightarrow> ClusterFacts \<times> ProbeAttemptStatus option) option"

text \<open>
  The loop of observeResources: an error of the API, the facts with a problem noted, or the
  facts unchanged together with the claim it saw.
\<close>

fun observeResources ::
  "view \<Rightarrow> SandboxEnvironment \<Rightarrow> (kind \<times> string) list \<Rightarrow> child option \<Rightarrow> ClusterFacts \<Rightarrow>
   string + (ClusterFacts \<times> (child option) option)" where
  "observeResources v env [] pvc f = Inr (f, Some pvc)"
| "observeResources v env ((kd, name) # checks) pvc f =
     (case v_Child v kd name of
        Missing \<Rightarrow> Inr (f\<lparr>ResourcesProblem := ''waiting for '' @ kind_name kd @ '' '' @ name\<rparr>, None)
      | Failed err \<Rightarrow> Inl err
      | Found c \<Rightarrow>
          if \<not> owned_by (ch_OwnerReferences c) env
          then Inr (f\<lparr>ResourcesProblem := kind_name kd @ '' '' @ name @ '' is owned by another object''\<rparr>, None)
          else observeResources v env checks (if kd = KPVC then Some c else pvc) f)"

definition observeProbe :: "view \<Rightarrow> SandboxEnvironment \<Rightarrow> ClusterFacts \<Rightarrow> ClusterFacts" where
  "observeProbe v env f =
     (case v_Probe v of
        None \<Rightarrow> f
      | Some evaluate \<Rightarrow>
          if st_Phase (Status env) \<noteq> PhaseWaiting \<or> st_WaitFor (Status env) = None then f
          else case evaluate env of (pf, attempt) \<Rightarrow>
            (let f = f\<lparr>ProbeObserved := ProbeObserved pf, WaitProbeSatisfied := WaitProbeSatisfied pf\<rparr>;
                 f = (case WaitProbeFailure pf of
                        None \<Rightarrow> f
                      | Some sf \<Rightarrow> f\<lparr>WaitProbeFailure := Some \<lparr>sf_Reason = sf_Reason sf,
                                       sf_Message = truncate_to (sf_Message sf) podFailureMessageBytes\<rparr>\<rparr>)
             in f\<lparr>f_ProbeAttempt := attempt\<rparr>))"

definition resource_checks :: "(string \<Rightarrow> string) \<Rightarrow> SandboxEnvironment \<Rightarrow> class_view \<Rightarrow> (kind \<times> string) list" where
  "resource_checks sha env cls =
     (let names = ChildNames sha (Name env)
      in [(KServiceAccount, n_ServiceAccount names), (KRole, n_Role names),
          (KRoleBinding, n_RoleBinding names), (KConfigMap, n_ConfigMap names), (KSecret, n_Secret names)]
         @ (if st_Phase (Status env) \<noteq> PhaseWaiting then [(KPVC, n_PVC names)] else [])
         @ (if cl_BackendS3 cls then [(KSecret, n_SnapshotSecret names)] else [])
         @ (if cl_Restricted cls then [(KNetworkPolicy, n_NetworkPolicy names)] else []))"

definition status_facts :: "SandboxEnvironment \<Rightarrow> ClusterFacts" where
  "status_facts env =
     (let st = Status env;
          f = zero_facts\<lparr>SlotGranted := Granted (st_Slot st), AgentWaitDeclared := (st_WaitFor st \<noteq> None),
                ArchiveWritten := (st_Archive st \<noteq> None \<or> st_ArchiveURI st \<noteq> []),
                f_ArchiveURI := st_ArchiveURI st\<rparr>
      in case st_AgentResult st of
           None \<Rightarrow> f
         | Some ar \<Rightarrow> f\<lparr>AgentDone := (ar_Outcome ar = AgentOutcomeSucceeded),
                        AgentFailed := (ar_Outcome ar = AgentOutcomeFailed), AgentMessage := ar_Message ar\<rparr>)"

definition observe_base :: "view \<Rightarrow> SandboxEnvironment \<Rightarrow> time \<Rightarrow> ClusterFacts" where
  "observe_base v env now =
     (let f = observeSnapshot (Status env) (status_facts env);
          f = (if IsCandidate env then observeQueuePosition env (v_List v) f else f)
      in observeRestore (Status env) (observePod env (v_Pod v) now f))"

definition observeCluster ::
  "(string \<Rightarrow> string) \<Rightarrow> view \<Rightarrow> SandboxEnvironment \<Rightarrow> class_view option \<Rightarrow> time \<Rightarrow> string + ClusterFacts" where
  "observeCluster sha v env cls now =
     (let f = observe_base v env now
      in case cls of
           None \<Rightarrow> Inr f
         | Some cl \<Rightarrow>
             (case v_CredentialsError v of
                Some err \<Rightarrow> Inr (f\<lparr>ResourcesProblem := err\<rparr>)
              | None \<Rightarrow>
                  (case v_PeersError v of
                     Some err \<Rightarrow> Inr (f\<lparr>ResourcesProblem := err\<rparr>)
                   | None \<Rightarrow>
                       (case observeResources v env (resource_checks sha env cl) None (observeProbe v env f) of
                          Inl err \<Rightarrow> Inl err
                        | Inr (f, None) \<Rightarrow> Inr f
                        | Inr (f, Some pvc) \<Rightarrow>
                            (case pvc of
                               Some c \<Rightarrow>
                                 if ch_ClaimLost c
                                 then Inr (f\<lparr>ResourcesProblem := ''workspace PVC '' @ ch_Name c @ '' is Lost''\<rparr>)
                                 else Inr (f\<lparr>ResourcesReady := True\<rparr>)
                             | None \<Rightarrow> Inr (f\<lparr>ResourcesReady := True\<rparr>))))))"

subsection \<open>Which observer writes which fact\<close>

lemma observeRestore_keeps [simp]:
  "ResourcesReady (observeRestore st f) = ResourcesReady f"
  "SnapshotComplete (observeRestore st f) = SnapshotComplete f"
  "PodObserved (observeRestore st f) = PodObserved f"
  "AgentDone (observeRestore st f) = AgentDone f" "AgentFailed (observeRestore st f) = AgentFailed f"
  "AgentWaitDeclared (observeRestore st f) = AgentWaitDeclared f"
  "PodFailure (observeRestore st f) = None \<longleftrightarrow> PodFailure f = None"
  by (simp_all add: observeRestore_def split: option.splits)

lemma observePod_keeps [simp]:
  "ResourcesReady (observePod env r now f) = ResourcesReady f"
  "SnapshotComplete (observePod env r now f) = SnapshotComplete f"
  "AgentDone (observePod env r now f) = AgentDone f" "AgentFailed (observePod env r now f) = AgentFailed f"
  "AgentWaitDeclared (observePod env r now f) = AgentWaitDeclared f"
  by (simp_all add: observePod_def Let_def split: reply.split option.split)

lemma observeQueuePosition_keeps [simp]:
  "ResourcesReady (observeQueuePosition env r f) = ResourcesReady f"
  "SnapshotComplete (observeQueuePosition env r f) = SnapshotComplete f"
  "PodObserved (observeQueuePosition env r f) = PodObserved f"
  "AgentDone (observeQueuePosition env r f) = AgentDone f" "AgentFailed (observeQueuePosition env r f) = AgentFailed f"
  "AgentWaitDeclared (observeQueuePosition env r f) = AgentWaitDeclared f"
  "PodFailure (observeQueuePosition env r f) = PodFailure f"
  by (simp_all add: observeQueuePosition_def split: reply.split prod.split)

lemma observeSnapshot_keeps [simp]:
  "ResourcesReady (observeSnapshot st f) = ResourcesReady f"
  "PodObserved (observeSnapshot st f) = PodObserved f"
  "AgentDone (observeSnapshot st f) = AgentDone f" "AgentFailed (observeSnapshot st f) = AgentFailed f"
  "AgentWaitDeclared (observeSnapshot st f) = AgentWaitDeclared f"
  "PodFailure (observeSnapshot st f) = PodFailure f"
  "SnapshotComplete (observeSnapshot st f) \<longleftrightarrow>
     SnapshotComplete f \<or> (\<exists>s. st_Snapshot st = Some s \<and> sint (st_FreezeCount st) \<le> sn_Seq s)"
  by (simp_all add: observeSnapshot_def Let_def split: option.split)

lemma status_facts_fields [simp]:
  "\<not> ResourcesReady (status_facts env)" "\<not> PodObserved (status_facts env)"
  "PodFailure (status_facts env) = None" "\<not> SnapshotComplete (status_facts env)"
  "AgentWaitDeclared (status_facts env) \<longleftrightarrow> st_WaitFor (Status env) \<noteq> None"
  "AgentDone (status_facts env) \<longleftrightarrow>
     (\<exists>ar. st_AgentResult (Status env) = Some ar \<and> ar_Outcome ar = AgentOutcomeSucceeded)"
  "AgentFailed (status_facts env) \<longleftrightarrow>
     (\<exists>ar. st_AgentResult (Status env) = Some ar \<and> ar_Outcome ar = AgentOutcomeFailed)"
  by (simp_all add: status_facts_def zero_facts_def Let_def split: option.split)

subsection \<open>Pod failures\<close>

lemma restore_failure_reason:
  "restore_failure_in css = Some f \<Longrightarrow> pf_Reason f = ReasonRestoreVerificationFailed"
  by (induction css) (auto split: if_splits option.splits)

lemma image_pull_failure_reason:
  "image_pull_failure_in css = Some f \<Longrightarrow> pf_Reason f = ReasonImagePullFailure"
  by (induction css) (auto split: if_splits option.splits)

lemma unschedulableFailure_reason:
  "unschedulableFailure pod now = Some f \<Longrightarrow> pf_Reason f = ReasonUnschedulable"
  by (auto simp: unschedulableFailure_def split: option.splits if_splits)

lemma genericFailure_iff:
  "genericFailure pod = None \<longleftrightarrow> p_Phase pod \<noteq> PodFailed"
  "genericFailure pod = Some f \<Longrightarrow> pf_Reason f = ReasonPodFailed"
  by (auto simp: genericFailure_def Let_def split: if_splits)

text \<open>
  A pod's failure is always reported under one of the declared pod failure reasons and
  never for a pod that is being deleted; a failed pod that is not being deleted always yields
  one, and the generic reason is used only when no more specific cause is present.
\<close>

theorem podFailure_specific:
  "(\<forall>f. podFailure pod now = Some f \<longrightarrow> pf_Reason f \<in> set PodFailureReasons \<and> IsZero (p_DeletionTimestamp pod)
      \<and> (pf_Reason f = ReasonPodFailed \<longrightarrow> unschedulableFailure pod now = None \<and> imagePullFailure pod = None
           \<and> restoreFailure pod = None))
   \<and> (IsZero (p_DeletionTimestamp pod) \<and> p_Phase pod = PodFailed \<longrightarrow> podFailure pod now \<noteq> None)"
proof (intro conjI allI impI)
  fix f
  assume f: "podFailure pod now = Some f"
  then show "IsZero (p_DeletionTimestamp pod)" by (simp add: podFailure_def split: if_splits)
  from f consider "unschedulableFailure pod now = Some f" | "imagePullFailure pod = Some f"
    | "restoreFailure pod = Some f"
    | "genericFailure pod = Some f" "unschedulableFailure pod now = None" "imagePullFailure pod = None"
      "restoreFailure pod = None"
    by (auto simp: podFailure_def split: if_splits option.splits)
  note cases = this
  have reason: "pf_Reason f \<in> {ReasonUnschedulable, ReasonImagePullFailure, ReasonRestoreVerificationFailed, ReasonPodFailed}"
    by (cases rule: cases)
      (auto dest: unschedulableFailure_reason genericFailure_iff(2) image_pull_failure_reason restore_failure_reason
        simp: imagePullFailure_def restoreFailure_def)
  then show "pf_Reason f \<in> set PodFailureReasons" by (auto simp: PodFailureReasons_def)
  assume "pf_Reason f = ReasonPodFailed"
  then show "unschedulableFailure pod now = None" "imagePullFailure pod = None" "restoreFailure pod = None"
    by (cases rule: cases;
        auto dest!: unschedulableFailure_reason image_pull_failure_reason restore_failure_reason
          simp: imagePullFailure_def restoreFailure_def ReasonPodFailed_def ReasonUnschedulable_def
            ReasonImagePullFailure_def ReasonRestoreVerificationFailed_def)+
qed (auto simp: podFailure_def genericFailure_def Let_def split: option.splits)

subsection \<open>Readiness of the children\<close>

lemma observeResources_ok:
  assumes "observeResources v env checks pvc f = Inr (f', Some pvc')"
  shows "f' = f \<and> (\<forall>(kd, name) \<in> set checks. \<exists>c. v_Child v kd name = Found c \<and> owned_by (ch_OwnerReferences c) env)"
  using assms
  by (induction v env checks pvc f rule: observeResources.induct) (auto split: reply.splits if_splits)

lemma observeResources_facts:
  "observeResources v env checks pvc f = Inr (f', r) \<Longrightarrow> ResourcesReady f' = ResourcesReady f"
  by (induction v env checks pvc f rule: observeResources.induct) (auto split: reply.splits if_splits)

lemma observe_base_not_ready: "\<not> ResourcesReady (observe_base v env now)"
  by (simp_all add: observe_base_def Let_def)

lemma observeProbe_ready: "ResourcesReady (observeProbe v env f) = ResourcesReady f"
  by (auto simp: observeProbe_def Let_def split: option.splits prod.splits)

text \<open>
  An environment is reported to have its resources only when its class resolves and every
  child object it needs exists and is owned by it; an object of the right name that belongs to
  something else never counts.
\<close>

theorem ready_means_all_children_owned:
  assumes "observeCluster sha v env cls now = Inr f" and "ResourcesReady f"
  shows "\<exists>cl. cls = Some cl \<and> (\<forall>(kd, name) \<in> set (resource_checks sha env cl).
           \<exists>c. v_Child v kd name = Found c \<and> owned_by (ch_OwnerReferences c) env)"
proof -
  have base: "\<not> ResourcesReady (observe_base v env now)" by (rule observe_base_not_ready)
  obtain cl where cl: "cls = Some cl"
    using assms base by (cases cls) (auto simp: observeCluster_def)
  obtain f1 r where o: "observeResources v env (resource_checks sha env cl) None
      (observeProbe v env (observe_base v env now)) = Inr (f1, r)" and r: "r = None \<longrightarrow> f = f1"
    using assms cl base
    by (auto simp: observeCluster_def Let_def split: option.splits sum.splits prod.splits)
  have "r \<noteq> None"
    using observeResources_facts [OF o] r assms(2) base by (auto simp: observeProbe_ready)
  then show ?thesis using observeResources_ok o cl by fastforce
qed

subsection \<open>Snapshots belong to one freeze\<close>

lemma SnapshotComplete_iff:
  "SnapshotComplete (observe_base v env now) \<longleftrightarrow>
   (\<exists>s. st_Snapshot (Status env) = Some s \<and> sint (st_FreezeCount (Status env)) \<le> sn_Seq s)"
  by (simp_all add: observe_base_def Let_def)

lemma sint_plus_one: "sint (x :: 32 word) < 2 ^ 31 - 1 \<Longrightarrow> sint (x + 1) = sint x + 1"
  using sint_ge [of x] by (simp add: signed_take_bit_int_eq_self_iff sint_word_ariths(1) signed_take_bit_int_eq_self)

text \<open>
  A snapshot ends the freeze it was taken for and no other: once the environment has left
  Freezing with the snapshot numbered by its freeze counter, that snapshot no longer counts as
  complete, whatever the cluster looks like, so the pod of the next freeze is not deleted
  before its own snapshot is recorded.
\<close>

theorem snapshot_ends_one_freeze:
  assumes "st_Snapshot (Status env) = Some s" and "sn_Seq s = sint (st_FreezeCount (Status env))"
    and "sint (st_FreezeCount (Status env)) < 2 ^ 31 - 1"
    and "current_phase env = PhaseFreezing"
    and "st_Phase (Status (reconciled lib env facts now)) = PhaseWaiting"
    and "st_Snapshot (Status env') = st_Snapshot (Status (reconciled lib env facts now))"
    and "st_FreezeCount (Status env') = st_FreezeCount (Status (reconciled lib env facts now))"
  shows "SnapshotComplete (observe_base v env now0) \<and> \<not> SnapshotComplete (observe_base v' env' now')"
proof -
  have "st_FreezeCount (Status (reconciled lib env facts now)) = st_FreezeCount (Status env) + 1"
    using assms(4,5) by (simp add: reconciled_Status Apply_counts decide_counts)
  then have "sint (st_FreezeCount (Status env')) = sn_Seq s + 1"
    using assms(2,3,7) sint_plus_one by simp
  moreover have "st_Snapshot (Status env') = Some s" using assms(1,6) by (simp add: reconciled_Status)
  ultimately show ?thesis using assms(1,2) by (simp add: SnapshotComplete_iff)
qed

subsection \<open>An API outage is not a failure\<close>

lemma observe_base_pod_failed:
  assumes "v_Pod v = Failed err"
  shows "\<not> PodObserved (observe_base v env now) \<and> PodFailure (observe_base v env now) = None"
  using assms by (simp add: observe_base_def observePod_def Let_def)

lemma observe_base_agent:
  "AgentDone (observe_base v env now) \<longleftrightarrow>
     (\<exists>ar. st_AgentResult (Status env) = Some ar \<and> ar_Outcome ar = AgentOutcomeSucceeded)"
  "AgentFailed (observe_base v env now) \<longleftrightarrow>
     (\<exists>ar. st_AgentResult (Status env) = Some ar \<and> ar_Outcome ar = AgentOutcomeFailed)"
  "AgentWaitDeclared (observe_base v env now) \<longleftrightarrow> st_WaitFor (Status env) \<noteq> None"
  by (simp_all add: observe_base_def Let_def)

text \<open>
  When pods cannot be read, a running environment whose agent has not reported a result
  and whose timeouts have not passed is left alone: it stays Running with its slot, and its
  pod is not deleted.
\<close>

theorem pod_outage_keeps_run:
  assumes "v_Pod v = Failed err" and "st_Phase (Status env) = PhaseRunning"
    and "st_AgentResult (Status env) = None" and "st_WaitFor (Status env) = None" and "\<not> sp_Suspend (Spec env)"
    and "st_FinishedAt (Status env) = None"
    and "firedTimeoutReason lib env ((observe_base v env now)\<lparr>ClassResolved := res, f_Timeouts := t\<rparr>) now PhaseRunning = None"
    and "Granted (st_Slot (Status env))"
  shows "let d = Next lib env ((observe_base v env now)\<lparr>ClassResolved := res, f_Timeouts := t\<rparr>) now
         in d_Phase d = PhaseRunning \<and> Granted (st_Slot (Apply lib env d)) \<and> ActionDeletePod \<notin> set (d_Actions d)"
proof -
  let ?f = "(observe_base v env now)\<lparr>ClassResolved := res, f_Timeouts := t\<rparr>"
  have cur: "current_phase env = PhaseRunning" using assms(2) by (simp add: current_phase_def)
  have agent: "\<not> AgentDone ?f" "\<not> AgentFailed ?f" "\<not> PodObserved ?f" "\<not> AgentWaitDeclared ?f"
    using observe_base_pod_failed [OF assms(1)] assms(3,4) by (simp_all add: observe_base_agent)
  have "decide lib env ?f now PhaseRunning =
      (if \<not> res then hold lib env ?f now PhaseRunning else nextRunning lib env ?f now)"
    using agent assms(6,7) by (simp add: decide_def agentOrPodTerminal_def timeoutFired_def dispatchPhase_def)
  then show ?thesis
    using cur agent assms(4,5,8)
    by (simp add: Let_def Next_actions set_withEnsureResources hold_effect nextRunning_def)
qed

subsection \<open>Concrete observations\<close>

definition sample_pod :: Pod where
  "sample_pod = \<lparr>p_UID = ''p'', p_OwnerReferences = [], p_DeletionTimestamp = None, p_Phase = PodFailed,
     p_Message = ''evicted'', p_Reason = [], p_Conditions = [], p_InitContainerStatuses = [],
     p_ContainerStatuses = []\<rparr>"

definition sample_view :: view where
  "sample_view = \<lparr>v_Pod = Failed ''timeout'', v_List = Missing,
     v_Child = (\<lambda>kd name. Found \<lparr>ch_Name = name,
       ch_OwnerReferences = [\<lparr>or_Controller = Some True, or_UID = []\<rparr>], ch_ClaimLost = False\<rparr>),
     v_CredentialsError = None, v_PeersError = None, v_Probe = None\<rparr>"

definition sample_class :: class_view where
  "sample_class = \<lparr>cl_Timeouts = \<lparr>tm_Running = [], tm_Waiting = [], tm_Total = []\<rparr>,
     cl_BackendS3 = True, cl_Restricted = True\<rparr>"

theorem podFailure_specific_witness:
  "\<exists>f. podFailure sample_pod 0 = Some f \<and> pf_Reason f \<in> set PodFailureReasons"
  using podFailure_specific [of sample_pod 0]
  by (cases "podFailure sample_pod 0") (auto simp: sample_pod_def IsZero_def)

theorem ready_means_all_children_owned_witness:
  "\<exists>c. v_Child sample_view KSecret (n_Secret (ChildNames (\<lambda>s. []) [])) = Found c
     \<and> owned_by (ch_OwnerReferences c) (env_at PhasePending)"
proof -
  obtain f where f: "observeCluster (\<lambda>s. []) sample_view (env_at PhasePending) (Some sample_class) 0 = Inr f"
    "ResourcesReady f"
    by (auto simp: observeCluster_def resource_checks_def sample_view_def sample_class_def owned_by_def
        env_at_def zero_env_def zero_status_def Let_def)
  have "(KSecret, n_Secret (ChildNames (\<lambda>s. []) [])) \<in> set (resource_checks (\<lambda>s. []) (env_at PhasePending) sample_class)"
    by (simp add: resource_checks_def Let_def env_at_def zero_env_def)
  then show ?thesis
    using ready_means_all_children_owned [OF f] by fastforce
qed

definition frozen_env :: SandboxEnvironment where
  "frozen_env = (env_at PhaseFreezing)\<lparr>Status := (Status (env_at PhaseFreezing))\<lparr>st_Snapshot :=
     Some \<lparr>sn_Seq = 0, sn_URI = [], sn_SizeBytes = 0, sn_SHA256 = [], sn_TakenAt = None, sn_DurationMillis = 0\<rparr>\<rparr>\<rparr>"

lemma frozen_env_fields:
  "st_Phase (Status frozen_env) = PhaseFreezing" "st_FreezeCount (Status frozen_env) = 0"
  "st_FinishedAt (Status frozen_env) = None"
  by (simp_all add: frozen_env_def env_at_def zero_env_def zero_status_def)

lemma frozen_env_waits:
  "st_Phase (Status (reconciled ref_lib frozen_env (zero_facts\<lparr>ClassResolved := True, SnapshotComplete := True\<rparr>) 0)) = PhaseWaiting"
  by (simp add: reconciled_Status current_phase_def frozen_env_fields decide_def agentOrPodTerminal_def
      timeoutFired_def firedTimeoutReason_def clock_fired_def zero_facts_def dispatchPhase_def nextFreezing_def)

theorem snapshot_ends_one_freeze_witness:
  "\<not> SnapshotComplete (observe_base sample_view
     (reconciled ref_lib frozen_env (zero_facts\<lparr>ClassResolved := True, SnapshotComplete := True\<rparr>) 0) 9)"
proof -
  obtain s where s: "st_Snapshot (Status frozen_env) = Some s" "sn_Seq s = 0" by (simp add: frozen_env_def)
  show ?thesis
    using snapshot_ends_one_freeze [OF s(1) _ _ _ frozen_env_waits refl refl] s(2) frozen_env_fields
    by (simp add: current_phase_def)
qed

theorem pod_outage_keeps_run_witness:
  "d_Phase (Next ref_lib ((env_at PhaseRunning)\<lparr>Status := (Status (env_at PhaseRunning))\<lparr>st_Slot :=
     \<lparr>Granted = True, GrantedAt = None, LeaseName = []\<rparr>\<rparr>\<rparr>)
     ((observe_base sample_view ((env_at PhaseRunning)\<lparr>Status := (Status (env_at PhaseRunning))\<lparr>st_Slot :=
        \<lparr>Granted = True, GrantedAt = None, LeaseName = []\<rparr>\<rparr>\<rparr>) 5)
        \<lparr>ClassResolved := True, f_Timeouts := \<lparr>to_Running = 0, to_Waiting = 0, to_Total = 0\<rparr>\<rparr>) 5) = PhaseRunning"
proof -
  let ?e = "(env_at PhaseRunning)\<lparr>Status := (Status (env_at PhaseRunning))\<lparr>st_Slot :=
     \<lparr>Granted = True, GrantedAt = None, LeaseName = []\<rparr>\<rparr>\<rparr>"
  have pod: "v_Pod sample_view = Failed ''timeout''" by (simp add: sample_view_def)
  have result: "st_AgentResult (Status ?e) = None" by (simp add: env_at_def zero_status_def)
  show ?thesis
    using pod_outage_keeps_run [OF pod _ result, where lib = ref_lib and now = 5 and res = True
        and t = "\<lparr>to_Running = 0, to_Waiting = 0, to_Total = 0\<rparr>"]
    by (simp add: Let_def firedTimeoutReason_def clock_fired_def)
qed

end
