(* ===== verification/Probe_Evaluator.thy ===== *)
theory Probe_Evaluator
  imports Wait_Probe Lifecycle Child_Names
begin

section \<open>Evaluating a declared wait\<close>

text \<open>
  \<^verbatim>\<open>src/operator/internal/controller/probe.go\<close>: one evaluation of an environment's wait, its
  back-off and its error budget. The outside world (HTTP, the object store, JSON decoding,
  the random jitter) is an argument; metrics are left out.
\<close>

definition defaultProbeBackoff :: "duration list" where
  "defaultProbeBackoff = [1 * Second, 2 * Second, 4 * Second, 8 * Second]"

definition defaultMaxConsecutiveErrors :: int where "defaultMaxConsecutiveErrors = 3"

record ProbeEvaluator =
  pe_MaxConsecutiveErrors :: int
  pe_Backoff :: "duration list"

definition maxConsecutiveErrors :: "ProbeEvaluator \<Rightarrow> int" where
  "maxConsecutiveErrors e =
     (if pe_MaxConsecutiveErrors e > 0 then pe_MaxConsecutiveErrors e else defaultMaxConsecutiveErrors)"

definition backoff :: "ProbeEvaluator \<Rightarrow> duration list" where
  "backoff e = (if length (pe_Backoff e) > 0 then pe_Backoff e else defaultProbeBackoff)"

subsection \<open>The outside world\<close>

datatype http_result =
    RequestError string
  | TransportError string
  | Response int string "string + string"

datatype stat_result = StatFound | StatNotFound | StatUnreachable string | StatError string

record world =
  o_HTTP :: "string \<Rightarrow> http_result"
  o_Overall :: "string \<Rightarrow> string + string"
  o_BackendError :: "string option"
  o_Stat :: "string \<Rightarrow> stat_result"
  o_Parsers :: parsers

text \<open>What the probes read of the class: the broker, and the prefix of an S3 backend.\<close>

record probe_class =
  pk_BrokerURL :: "string option"
  pk_S3Prefix :: "string option"
  pk_ConfigError :: "string option"

type_synonym probe_result = "bool \<times> probe_err option"

definition unevaluatable_err :: "string \<Rightarrow> probe_result" where
  "unevaluatable_err msg = (False, Some (ProbeError ProbeErrUnevaluatable msg))"

definition transient_err :: "string \<Rightarrow> probe_result" where
  "transient_err msg = (False, Some (ProbeError ProbeErrTransient msg))"

definition param :: "(string \<rightharpoonup> string) \<Rightarrow> string \<Rightarrow> string" where
  "param params key = (case params key of None \<Rightarrow> [] | Some v \<Rightarrow> v)"

definition gitProxyCheck ::
  "world \<Rightarrow> SandboxEnvironment \<Rightarrow> WaitForStatus \<Rightarrow> probe_class option \<Rightarrow> probe_result" where
  "gitProxyCheck net env w cls =
     (case (case cls of None \<Rightarrow> None | Some c \<Rightarrow> pk_BrokerURL c) of
        None \<Rightarrow> unevaluatable_err ''class declares no gitProxy service''
      | Some broker \<Rightarrow>
          (let repo = (if param (wf_Params w) ''repo'' = [] then sp_Repo (Spec env) else param (wf_Params w) ''repo'');
               ref = param (wf_Params w) ''ref''
           in if ref = [] then unevaluatable_err ''GitProxyCheck requires a ref param''
              else let u = TrimRight broker ''/'' @ ''/'' @ repo @ ''/checks/'' @ ref
                   in case o_HTTP net u of
                        RequestError err \<Rightarrow> unevaluatable_err (''building check request: '' @ err)
                      | TransportError err \<Rightarrow> transient_err (''checking '' @ u @ '': '' @ err)
                      | Response code status body \<Rightarrow>
                          if code \<ge> 500 then transient_err (''check endpoint returned '' @ status)
                          else if code = 404 then (False, None)
                          else if code \<noteq> 200 then unevaluatable_err (''check endpoint returned '' @ status)
                          else (case (case body of Inl err \<Rightarrow> Inl err | Inr b \<Rightarrow> o_Overall net b) of
                                  Inl err \<Rightarrow> unevaluatable_err (''decoding check summary: '' @ err)
                                | Inr overall \<Rightarrow> (GitProxyCheckSatisfied overall, None))))"

definition httpGet :: "world \<Rightarrow> WaitForStatus \<Rightarrow> probe_result" where
  "httpGet net w =
     (let u = param (wf_Params w) ''url''
      in if u = [] then unevaluatable_err ''HTTPGet requires a url param''
         else case o_HTTP net u of
                RequestError err \<Rightarrow> unevaluatable_err (''building GET request: '' @ err)
              | TransportError err \<Rightarrow> transient_err (''GET '' @ u @ '': '' @ err)
              | Response code status body \<Rightarrow>
                  (case body of
                     Inl err \<Rightarrow> transient_err (''reading GET '' @ u @ '': '' @ err)
                   | Inr b \<Rightarrow>
                       if code \<ge> 500 then transient_err (''GET '' @ u @ '' returned '' @ status)
                       else if code \<ge> 400 then unevaluatable_err (''GET '' @ u @ '' returned '' @ status)
                       else (HTTPGetSatisfied code (take (2 ^ 20) b) (wf_Params w), None)))"

definition joinKey :: "string \<Rightarrow> string \<Rightarrow> string" where
  "joinKey prefix key = (if prefix = [] then key else TrimRight prefix ''/'' @ ''/'' @ key)"

definition s3ObjectExists :: "world \<Rightarrow> WaitForStatus \<Rightarrow> probe_class option \<Rightarrow> probe_result" where
  "s3ObjectExists net w cls =
     (let key = param (wf_Params w) ''key''
      in if key = [] then unevaluatable_err ''S3ObjectExists requires a key param''
         else case cls of
                None \<Rightarrow> unevaluatable_err ''class storage backend is not S3''
              | Some c \<Rightarrow>
                  (case pk_S3Prefix c of
                     None \<Rightarrow> unevaluatable_err ''class storage backend is not S3''
                   | Some prefix \<Rightarrow>
                       (case pk_ConfigError c of
                          Some err \<Rightarrow> unevaluatable_err err
                        | None \<Rightarrow>
                            (case o_BackendError net of
                               Some err \<Rightarrow> unevaluatable_err (''building s3 backend: '' @ err)
                             | None \<Rightarrow>
                                 (let fullKey = joinKey prefix key
                                  in case o_Stat net fullKey of
                                       StatFound \<Rightarrow> (S3ObjectExistsSatisfied True, None)
                                     | StatNotFound \<Rightarrow> (S3ObjectExistsSatisfied False, None)
                                     | StatUnreachable err \<Rightarrow> transient_err (''stat '' @ fullKey @ '': '' @ err)
                                     | StatError err \<Rightarrow> unevaluatable_err (''stat '' @ fullKey @ '': '' @ err))))))"

text \<open>The type of an unknown wait is quoted in the code's message; here it is appended as it is.\<close>

definition evaluateOne ::
  "world \<Rightarrow> SandboxEnvironment \<Rightarrow> WaitForStatus \<Rightarrow> probe_class option \<Rightarrow> time \<Rightarrow> probe_result" where
  "evaluateOne net env w cls now =
     (if wf_Type w = WaitTypeNotBefore
      then (NotBeforeSatisfied (o_Parsers net) (wf_Params w)
              (case wf_DeclaredAt w of None \<Rightarrow> zero_time | Some t \<Rightarrow> t) now, None)
      else if wf_Type w = WaitTypeGitProxyCheck then gitProxyCheck net env w cls
      else if wf_Type w = WaitTypeHTTPGet then httpGet net w
      else if wf_Type w = WaitTypeS3ObjectExists then s3ObjectExists net w cls
      else unevaluatable_err (''unknown wait type '' @ wf_Type w))"

subsection \<open>One evaluation\<close>

definition nextEligible ::
  "ProbeEvaluator \<Rightarrow> (duration \<Rightarrow> duration) \<Rightarrow> time \<Rightarrow> ProbeAttemptStatus \<Rightarrow> time" where
  "nextEligible e jittered now attempt =
     (let delays = backoff e;
          idx = pa_Attempts attempt - 1;
          idx = (if idx < 0 then 0 else idx);
          idx = (if idx \<ge> int (length delays) then int (length delays) - 1 else idx)
      in now + jittered (delays ! nat idx))"

definition new_attempt :: "meta_lib \<Rightarrow> time \<Rightarrow> WaitForStatus \<Rightarrow> ProbeAttemptStatus option \<Rightarrow> ProbeAttemptStatus" where
  "new_attempt lib now w prev =
     \<lparr>pa_Type = wf_Type w,
      pa_Attempts = int32 ((case prev of None \<Rightarrow> 0 | Some p \<Rightarrow> pa_Attempts p) + 1),
      pa_ConsecutiveErrors = (case prev of None \<Rightarrow> 0 | Some p \<Rightarrow> pa_ConsecutiveErrors p),
      pa_Phase = ProbeAttemptPending, pa_LastResult = ''pending'', pa_Reason = [], pa_Message = [],
      pa_LastAttemptAt = newMetaTime lib now, pa_NextEligibleAt = None\<rparr>"

text \<open>What an evaluation's outcome does to the attempt record and the facts.\<close>

definition conclude ::
  "ProbeEvaluator \<Rightarrow> (duration \<Rightarrow> duration) \<Rightarrow> time \<Rightarrow> ProbeAttemptStatus \<Rightarrow> probe_result \<Rightarrow>
   ClusterFacts \<times> ProbeAttemptStatus" where
  "conclude e jittered now attempt res =
     (let f = zero_facts\<lparr>ProbeObserved := True\<rparr>
      in case res of
           (satisfied, Some err) \<Rightarrow>
             (case ClassifyError (Some err) of (unevaluatable, reason, message) \<Rightarrow>
                (let attempt = attempt\<lparr>pa_Phase := ProbeAttemptFailed, pa_LastResult := ''error'',
                                       pa_Reason := reason, pa_Message := message\<rparr>;
                     attempt = (if unevaluatable
                       then attempt\<lparr>pa_ConsecutiveErrors := int32 (pa_ConsecutiveErrors attempt + 1)\<rparr> else attempt)
                 in if unevaluatable \<and> pa_ConsecutiveErrors attempt \<ge> maxConsecutiveErrors e
                    then (f\<lparr>WaitProbeFailure := Some \<lparr>sf_Reason = reason, sf_Message = message\<rparr>\<rparr>, attempt)
                    else (f, attempt\<lparr>pa_Phase := ProbeAttemptPending, pa_LastResult := ''pending'',
                                     pa_NextEligibleAt := Some (nextEligible e jittered now attempt)\<rparr>)))
         | (satisfied, None) \<Rightarrow>
             if satisfied
             then (f\<lparr>WaitProbeSatisfied := True\<rparr>,
                   attempt\<lparr>pa_ConsecutiveErrors := 0, pa_Phase := ProbeAttemptSatisfied,
                           pa_LastResult := ''satisfied''\<rparr>)
             else (f, (let attempt = attempt\<lparr>pa_ConsecutiveErrors := 0\<rparr>
                       in attempt\<lparr>pa_NextEligibleAt := Some (nextEligible e jittered now attempt)\<rparr>)))"

definition skip_now :: "ProbeAttemptStatus option \<Rightarrow> time \<Rightarrow> bool" where
  "skip_now prev now =
     (case prev of
        None \<Rightarrow> False
      | Some p \<Rightarrow> (case pa_NextEligibleAt p of None \<Rightarrow> False | Some t \<Rightarrow> now < t))"

definition Evaluate ::
  "ProbeEvaluator \<Rightarrow> meta_lib \<Rightarrow> (duration \<Rightarrow> duration) \<Rightarrow> world \<Rightarrow> SandboxEnvironment \<Rightarrow> probe_class option \<Rightarrow> time \<Rightarrow>
   ClusterFacts \<times> ProbeAttemptStatus option" where
  "Evaluate e lib jittered net env cls now =
     (case st_WaitFor (Status env) of
        None \<Rightarrow> (zero_facts, None)
      | Some w \<Rightarrow>
          if skip_now (st_ProbeAttempt (Status env)) now then (zero_facts\<lparr>ProbeObserved := True\<rparr>, None)
          else case conclude e jittered now (new_attempt lib now w (st_ProbeAttempt (Status env)))
                      (evaluateOne net env w cls now) of
                 (f, attempt) \<Rightarrow> (f, Some attempt))"

subsection \<open>The error budget\<close>

definition unevaluatable_result :: "probe_result \<Rightarrow> bool" where
  "unevaluatable_result r = (case snd r of None \<Rightarrow> False | Some err \<Rightarrow> fst (ClassifyError (Some err)))"

text \<open>
  The specification of the budget: unevaluatable answers since the last answer that could be
  evaluated, the newest first; a transient error neither counts nor resets.
\<close>

fun streak :: "probe_result list \<Rightarrow> nat" where
  "streak [] = 0"
| "streak (r # rs) =
     (if unevaluatable_result r then Suc (streak rs)
      else case snd r of Some _ \<Rightarrow> streak rs | None \<Rightarrow> 0)"

text \<open>The attempt record after a sequence of evaluations of one wait, the newest first.\<close>

fun attempts_of ::
  "ProbeEvaluator \<Rightarrow> meta_lib \<Rightarrow> (duration \<Rightarrow> duration) \<Rightarrow> WaitForStatus \<Rightarrow> (time \<times> probe_result) list \<Rightarrow>
   ProbeAttemptStatus option" where
  "attempts_of e lib jit w [] = None"
| "attempts_of e lib jit w ((now, r) # rs) =
     Some (snd (conclude e jit now (new_attempt lib now w (attempts_of e lib jit w rs)) r))"

lemma conclude_ConsecutiveErrors:
  "pa_ConsecutiveErrors (snd (conclude e jit now a r)) =
     (if unevaluatable_result r then int32 (pa_ConsecutiveErrors a + 1)
      else case snd r of Some _ \<Rightarrow> pa_ConsecutiveErrors a | None \<Rightarrow> 0)"
  by (auto simp: conclude_def unevaluatable_result_def Let_def split: prod.split option.split)

lemma conclude_failure:
  "WaitProbeFailure (fst (conclude e jit now a r)) \<noteq> None \<longleftrightarrow>
     unevaluatable_result r \<and> int32 (pa_ConsecutiveErrors a + 1) \<ge> maxConsecutiveErrors e"
  by (auto simp: conclude_def unevaluatable_result_def Let_def zero_facts_def split: prod.split option.split)

lemma streak_le_length: "streak rs \<le> length rs"
  by (induction rs) (auto split: option.split)

lemma new_attempt_errors:
  "pa_ConsecutiveErrors (new_attempt lib now w prev) =
     (case prev of None \<Rightarrow> 0 | Some p \<Rightarrow> pa_ConsecutiveErrors p)"
  by (simp add: new_attempt_def)

lemma attempts_of_errors:
  "length rs < 2 ^ 31 \<Longrightarrow>
   (case attempts_of e lib jit w rs of None \<Rightarrow> 0 | Some p \<Rightarrow> pa_ConsecutiveErrors p) = int (streak (map snd rs))"
proof (induction rs)
  case Nil
  then show ?case by simp
next
  case (Cons x rs)
  obtain now r where x: "x = (now, r)" by (cases x)
  have IH: "pa_ConsecutiveErrors (new_attempt lib now w (attempts_of e lib jit w rs)) = int (streak (map snd rs))"
    using Cons by (simp add: new_attempt_errors)
  have "int (streak (map snd rs)) + 1 < 2 ^ 31"
    using streak_le_length [of "map snd rs"] Cons.prems by simp
  then show ?case by (simp add: x conclude_ConsecutiveErrors IH int32_id split: option.split)
qed

text \<open>
  C31: a wait fails its environment exactly when it has answered with an unevaluatable error as
  often in a row as the budget allows, where transient errors do not count and any answer that
  can be evaluated starts the count again.
\<close>

theorem wait_fails_after_error_budget:
  assumes "length rs < 2 ^ 31 - 1"
  shows "WaitProbeFailure (fst (conclude e jit now (new_attempt lib now w (attempts_of e lib jit w rs)) r)) \<noteq> None
     \<longleftrightarrow> unevaluatable_result r \<and> int (streak (r # map snd rs)) \<ge> maxConsecutiveErrors e"
proof -
  have "int (streak (map snd rs)) + 1 < 2 ^ 31"
    using streak_le_length [of "map snd rs"] assms by simp
  then show ?thesis
    unfolding conclude_failure new_attempt_errors
    using assms attempts_of_errors [of rs e lib jit w] by (auto simp: int32_id)
qed

subsection \<open>Back-off\<close>

lemma backoff_nonempty: "backoff e \<noteq> []"
  by (simp add: backoff_def defaultProbeBackoff_def)

lemma nextEligible_after:
  assumes "\<And>d. d \<in> set (backoff e) \<Longrightarrow> lo \<le> jit d"
  shows "now + lo \<le> nextEligible e jit now a"
proof -
  define i where "i = (if (if pa_Attempts a - 1 < 0 then 0 else pa_Attempts a - 1) \<ge> int (length (backoff e))
      then int (length (backoff e)) - 1 else (if pa_Attempts a - 1 < 0 then 0 else pa_Attempts a - 1))"
  have "nat i < length (backoff e)" using length_greater_0_conv [of "backoff e"] backoff_nonempty [of e] by (auto simp: i_def nat_less_iff)
  then have "lo \<le> jit (backoff e ! nat i)" using assms by simp
  then show ?thesis by (simp add: nextEligible_def Let_def i_def)
qed

lemma conclude_pending:
  assumes "\<not> WaitProbeSatisfied (fst (conclude e jit now a r))"
    and "WaitProbeFailure (fst (conclude e jit now a r)) = None"
  shows "\<exists>a'. pa_NextEligibleAt (snd (conclude e jit now a r)) = Some (nextEligible e jit now a')"
  using assms by (auto simp: conclude_def Let_def zero_facts_def split: prod.splits option.splits if_splits)

text \<open>
  A wait that is not settled is not asked again too soon: the evaluation records when it
  becomes eligible, at least the jittered shortest delay later, and every evaluation before
  that time leaves the outside world and the record alone.
\<close>

theorem probe_backs_off:
  assumes "\<And>d. d \<in> set (backoff e) \<Longrightarrow> lo \<le> jit d"
    and "Evaluate e lib jit net env cls now = (f, Some attempt)"
    and "\<not> WaitProbeSatisfied f" and "WaitProbeFailure f = None"
    and "st_WaitFor (Status env') \<noteq> None" and "st_ProbeAttempt (Status env') = Some attempt"
  shows "\<exists>t. pa_NextEligibleAt attempt = Some t \<and> now + lo \<le> t
     \<and> (\<forall>now' net'. now' < t \<longrightarrow> Evaluate e lib jit net' env' cls now' = (zero_facts\<lparr>ProbeObserved := True\<rparr>, None))"
proof -
  from assms(2) obtain a r where c: "conclude e jit now a r = (f, attempt)"
    by (auto simp: Evaluate_def split: option.splits if_splits prod.splits)
  obtain a' where t: "pa_NextEligibleAt attempt = Some (nextEligible e jit now a')"
    using conclude_pending [of e jit now a r] c assms(3,4) by auto
  moreover have "now + lo \<le> nextEligible e jit now a'" by (rule nextEligible_after) (rule assms(1))
  ultimately show ?thesis
    using assms(5,6) by (auto simp: Evaluate_def skip_now_def)
qed

subsection \<open>Concrete evaluations\<close>

definition default_evaluator :: ProbeEvaluator where
  "default_evaluator = \<lparr>pe_MaxConsecutiveErrors = 0, pe_Backoff = []\<rparr>"

definition sample_wait_for :: WaitForStatus where
  "sample_wait_for = \<lparr>wf_Type = WaitTypeNotBefore, wf_Reason = ''cool down'', wf_DeclaredAt = Some 0,
     wf_Params = [''duration'' \<mapsto> ''30m'']\<rparr>"

definition sample_net :: world where
  "sample_net = \<lparr>o_HTTP = (\<lambda>u. TransportError ''down''), o_Overall = Inr, o_BackendError = None,
     o_Stat = (\<lambda>k. StatNotFound), o_Parsers = sample_parsers\<rparr>"

definition waiting_env :: "ProbeAttemptStatus option \<Rightarrow> SandboxEnvironment" where
  "waiting_env prev = (env_at PhaseWaiting)\<lparr>Status := (Status (env_at PhaseWaiting))\<lparr>
     st_WaitFor := Some sample_wait_for, st_ProbeAttempt := prev\<rparr>\<rparr>"

theorem wait_fails_after_error_budget_witness:
  "WaitProbeFailure (fst (conclude default_evaluator id 9 (new_attempt ref_lib 9 sample_wait_for
     (attempts_of default_evaluator ref_lib id sample_wait_for
        [(5, unevaluatable_err ''403''), (1, unevaluatable_err ''403'')]))
     (unevaluatable_err ''403''))) \<noteq> None"
  using wait_fails_after_error_budget [of "[(5, unevaluatable_err ''403''), (1, unevaluatable_err ''403'')]"
      default_evaluator id 9 ref_lib sample_wait_for "unevaluatable_err ''403''"]
  by (simp add: unevaluatable_result_def unevaluatable_err_def ClassifyError_def maxConsecutiveErrors_def
      default_evaluator_def defaultMaxConsecutiveErrors_def)

lemma sample_evaluation:
  "\<exists>f attempt. Evaluate default_evaluator ref_lib id sample_net (waiting_env None) None 0 = (f, Some attempt)
     \<and> \<not> WaitProbeSatisfied f \<and> WaitProbeFailure f = None"
  by (simp add: Evaluate_def waiting_env_def skip_now_def evaluateOne_def sample_wait_for_def NotBeforeSatisfied_def
      NotBeforeDeadline_def sample_net_def sample_parsers_def conclude_def Let_def zero_facts_def)

theorem probe_backs_off_witness:
  "\<exists>f attempt t. Evaluate default_evaluator ref_lib id sample_net (waiting_env None) None 0 = (f, Some attempt)
     \<and> pa_NextEligibleAt attempt = Some t \<and> Second \<le> t
     \<and> Evaluate default_evaluator ref_lib id sample_net (waiting_env (Some attempt)) None 5 =
         (zero_facts\<lparr>ProbeObserved := True\<rparr>, None)"
proof -
  obtain f attempt where ev: "Evaluate default_evaluator ref_lib id sample_net (waiting_env None) None 0 = (f, Some attempt)"
    and unsettled: "\<not> WaitProbeSatisfied f" "WaitProbeFailure f = None" using sample_evaluation by blast
  have lo: "Second \<le> id d" if "d \<in> set (backoff default_evaluator)" for d
    using that by (auto simp: backoff_def default_evaluator_def defaultProbeBackoff_def)
  obtain t where t: "pa_NextEligibleAt attempt = Some t" "0 + Second \<le> t"
    "\<forall>now' net'. now' < t \<longrightarrow> Evaluate default_evaluator ref_lib id net' (waiting_env (Some attempt)) None now' =
       (zero_facts\<lparr>ProbeObserved := True\<rparr>, None)"
    using probe_backs_off [OF lo ev unsettled, of "waiting_env (Some attempt)"] by (auto simp: waiting_env_def)
  have "(5 :: int) < t" using t(2) by simp
  then show ?thesis using ev t by simp
qed

end
