(* ===== verification/Reconciler.thy ===== *)
theory Reconciler
  imports Status_Writer Env_Store Observe
begin

section \<open>The reconcile loop and deletion\<close>

text \<open>
  \<^verbatim>\<open>src/operator/internal/controller/sandboxenvironment_controller.go\<close>, \<^verbatim>\<open>actions.go\<close> and
  \<^verbatim>\<open>archive.go\<close>: what one reconcile of an environment decides, in which order its actions run
  before the status is written, and how deletion holds the object until its context is
  archived. The handlers of the actions (rendering and applying child objects) and the three
  non-lifecycle conditions are arguments.
\<close>

subsection \<open>Actions\<close>

fun performActions ::
  "(Action \<Rightarrow> 'w \<Rightarrow> go_error option \<times> 'w) \<Rightarrow> Action list \<Rightarrow> 'w \<Rightarrow> go_error option \<times> 'w" where
  "performActions handler [] w = (None, w)"
| "performActions handler (a # as) w =
     (case handler a w of
        (Some err, w1) \<Rightarrow> (Some err, w1)
      | (None, w1) \<Rightarrow> performActions handler as w1)"

subsection \<open>One reconcile\<close>

text \<open>
  The facts a reconcile decides on: the observation, then the class's resolution and
  timeouts on top of it.
\<close>

definition reconcile_facts ::
  "(string \<Rightarrow> duration option) \<Rightarrow> class_view + string \<Rightarrow> ClusterFacts \<Rightarrow> ClusterFacts" where
  "reconcile_facts ParseDuration cls f =
     (case cls of
        Inl c \<Rightarrow> f\<lparr>ClassResolved := True, f_Timeouts := ResolveTimeouts ParseDuration (Some (cl_Timeouts c))\<rparr>
      | Inr err \<Rightarrow> f\<lparr>ClassResolved := False, ClassProblem := err, f_Timeouts := ResolveTimeouts ParseDuration None\<rparr>)"

definition reconcile_decision ::
  "meta_lib \<Rightarrow> SandboxEnvironment \<Rightarrow> ClusterFacts \<Rightarrow> time \<Rightarrow> Condition list \<Rightarrow> Decision" where
  "reconcile_decision lib env facts now extra =
     (let d = Next lib env facts now in d\<lparr>d_Conditions := d_Conditions d @ extra\<rparr>)"

text \<open>A reconcile's result: the error, or the delay after which to come back (0 for none).\<close>

definition reconcile ::
  "'w kube \<Rightarrow> (('w \<Rightarrow> go_error option \<times> 'w) \<Rightarrow> 'w \<Rightarrow> go_error option \<times> 'w) \<Rightarrow> meta_lib \<Rightarrow>
   (Action \<Rightarrow> 'w \<Rightarrow> go_error option \<times> 'w) \<Rightarrow> SandboxEnvironment \<Rightarrow> ClusterFacts \<Rightarrow> time \<Rightarrow> Condition list \<Rightarrow> 'w \<Rightarrow>
   (go_error + duration) \<times> 'w" where
  "reconcile k RetryOnConflict lib handler env facts now extra w =
     (let d = reconcile_decision lib env facts now extra
      in case performActions handler (d_Actions d) w of
           (Some err, w1) \<Rightarrow> (Inl err, w1)
         | (None, w1) \<Rightarrow>
             (case writeStatus k RetryOnConflict lib env d w1 of
                (Some err, w2) \<Rightarrow> if err = errStaleDecision then (Inr 0, w2) else (Inl err, w2)
              | (None, w2) \<Rightarrow> (Inr (d_RequeueAfter d), w2)))"

subsection \<open>Deletion\<close>

definition freeze_decision :: "meta_lib \<Rightarrow> SandboxEnvironment \<Rightarrow> time \<Rightarrow> Decision" where
  "freeze_decision lib env now =
     \<lparr>d_Phase = PhaseFreezing,
      d_Conditions = [\<lparr>c_Type = ConditionFrozen, c_Status = ConditionFalse,
        c_Reason = ReasonSnapshotInProgress, c_Message = [], c_ObservedGeneration = Generation env,
        c_LastTransitionTime = Rfc3339Copy lib now\<rparr>],
      d_Actions = [ActionFreezePod], d_SlotWanted = True, d_StatusPatch = no_patch, d_RequeueAfter = 0\<rparr>"

text \<open>What a reconcile of a deleted environment does.\<close>

datatype delete_step =
    RemoveFinalizer
  | FailReconcile string
  | RetryLater
  | FreezeForArchive
  | EnsureArchiveJob

definition podAliveForArchive :: "SandboxEnvironment \<Rightarrow> Pod reply \<Rightarrow> string + bool" where
  "podAliveForArchive env r =
     (case r of
        Missing \<Rightarrow> Inr False
      | Failed err \<Rightarrow> Inl err
      | Found pod \<Rightarrow> if \<not> owned_by (p_OwnerReferences pod) env then Inr False else Inr (p_Phase pod = PodRunning))"

text \<open>
  \<open>escape\<close> is the annotation's test, \<open>cls\<close> the reply to the class lookup, \<open>backend\<close> the error of
  building the archive backend, if any.
\<close>

definition reconcileDelete ::
  "SandboxEnvironment \<Rightarrow> bool \<Rightarrow> class_view reply \<Rightarrow> string option \<Rightarrow> Pod reply \<Rightarrow> delete_step" where
  "reconcileDelete env escape cls backend pod =
     (if escape then RemoveFinalizer
      else if st_Archive (Status env) \<noteq> None then RemoveFinalizer
      else case cls of
             Failed err \<Rightarrow> FailReconcile err
           | Missing \<Rightarrow> RemoveFinalizer
           | Found c \<Rightarrow>
               if \<not> cl_BackendS3 c then RemoveFinalizer
               else if backend \<noteq> None then RetryLater
               else if st_Snapshot (Status env) = None
               then (case podAliveForArchive env pod of
                       Inl err \<Rightarrow> FailReconcile err
                     | Inr alive \<Rightarrow> if alive then FreezeForArchive else EnsureArchiveJob)
               else EnsureArchiveJob)"

text \<open>The finalizer list after adding or removing the operator's own.\<close>

definition ensureFinalizer :: "SandboxEnvironment \<Rightarrow> SandboxEnvironment" where
  "ensureFinalizer env =
     (if FinalizerArchiveOnDelete \<in> set (Finalizers env) then env
      else env\<lparr>Finalizers := Finalizers env @ [FinalizerArchiveOnDelete]\<rparr>)"

definition removeFinalizer :: "SandboxEnvironment \<Rightarrow> SandboxEnvironment" where
  "removeFinalizer env = env\<lparr>Finalizers := removeAll FinalizerArchiveOnDelete (Finalizers env)\<rparr>"

text \<open>
  C32: a deleted environment is let go only when that loses nothing more than it must: its
  archive is written, or an operator forced it, or there is no archive to write because the
  class is gone or does not store to S3. While the backend or the API misbehaves, the object
  stays.
\<close>

theorem delete_only_when_archived_or_impossible:
  "reconcileDelete env escape cls backend pod = RemoveFinalizer \<longleftrightarrow>
     escape \<or> (\<exists>a. st_Archive (Status env) = Some a) \<or> cls = Missing \<or> (\<exists>c. cls = Found c \<and> \<not> cl_BackendS3 c)"
  by (auto simp: reconcileDelete_def split: reply.splits sum.splits)


end
