(* ===== verification/Control_Plane.thy ===== *)
theory Control_Plane
  imports Reconciler
begin

section \<open>All writers of one environment\<close>

text \<open>
  The stored environment and the reconcile in flight, as a machine whose steps are the writes
  the components make: the operator decides on the object it reads and writes later, the
  sidecar reports, the scheduler grants, users edit and delete. Between a decision and its
  write any number of other writes may happen; the write lands only if the decision is not
  stale. One reconcile of an object is in flight at a time, as the controller runtime promises.
  The facts of every decision are arbitrary: what is proved holds whatever is observed.
\<close>

record plane =
  srv :: SandboxEnvironment
  flight :: "(SandboxEnvironment \<times> Decision) option"

definition grant_slot :: "meta_lib \<Rightarrow> time \<Rightarrow> SandboxEnvironment \<Rightarrow> SandboxEnvironment" where
  "grant_slot lib now env = env\<lparr>Status := (Status env)\<lparr>st_Slot :=
     \<lparr>Granted = True, GrantedAt = Some (Rfc3339Copy lib now), LeaseName = []\<rparr>\<rparr>\<rparr>"

definition commit :: "meta_lib \<Rightarrow> SandboxEnvironment \<Rightarrow> Decision \<Rightarrow> SandboxEnvironment \<Rightarrow> SandboxEnvironment" where
  "commit lib e d cur = (if stale e cur then cur else cur\<lparr>Status := Apply lib cur d\<rparr>)"

text \<open>The changes the sidecar and its jobs make to the status.\<close>

inductive sidecar_change :: "SandboxEnvironment \<Rightarrow> SandboxEnvironment \<Rightarrow> bool" where
  sc_wait: "DeclareWait_change p at e = Inr e' \<Longrightarrow> sidecar_change e e'"
| sc_done: "ReportDone_change r at b e = (b', Inr e') \<Longrightarrow> sidecar_change e e'"
| sc_attempt: "RecordSnapshotAttempt_change a at e = Inr e' \<Longrightarrow> sidecar_change e e'"
| sc_snapshot: "RecordSnapshot_change r at e = Inr e' \<Longrightarrow> sidecar_change e e'"
| sc_restore: "RecordRestoreAttempt_change ra at e = Inr e' \<Longrightarrow> sidecar_change e e'"
| sc_archive: "PatchArchive_change ap e = Inr e' \<Longrightarrow> sidecar_change e e'"

inductive plane_step :: "meta_lib \<Rightarrow> plane \<Rightarrow> plane \<Rightarrow> bool" for lib :: meta_lib where
  decide_step: "flight s = None \<Longrightarrow> IsZero (DeletionTimestamp (srv s)) \<Longrightarrow>
    plane_step lib s (s\<lparr>flight := Some (srv s, reconcile_decision lib (srv s) facts now extra)\<rparr>)"
| freeze_step: "flight s = None \<Longrightarrow> \<not> IsZero (DeletionTimestamp (srv s)) \<Longrightarrow>
    reconcileDelete (srv s) escape cls backend pod = FreezeForArchive \<Longrightarrow>
    plane_step lib s (s\<lparr>flight := Some (srv s, freeze_decision lib (srv s) now)\<rparr>)"
| write_step: "flight s = Some (e, d) \<Longrightarrow>
    plane_step lib s (s\<lparr>srv := commit lib e d (srv s), flight := None\<rparr>)"
| abort_step: "plane_step lib s (s\<lparr>flight := None\<rparr>)"
| sidecar_step: "sidecar_change (srv s) e' \<Longrightarrow> plane_step lib s (s\<lparr>srv := e'\<rparr>)"
| grant_step: "IsCandidate (srv s) \<Longrightarrow> plane_step lib s (s\<lparr>srv := grant_slot lib now (srv s)\<rparr>)"
| edit_step: "plane_step lib s (s\<lparr>srv := (srv s)\<lparr>Spec := sp, Generation := g\<rparr>\<rparr>)"
| delete_step: "plane_step lib s (s\<lparr>srv := (srv s)\<lparr>DeletionTimestamp := Some t\<rparr>\<rparr>)"

inductive_cases plane_stepE: "plane_step lib s t"

definition plane_init :: "plane \<Rightarrow> bool" where
  "plane_init s \<longleftrightarrow> Status (srv s) = zero_status \<and> flight s = None"

subsection \<open>What the sidecar leaves alone\<close>

definition operator_fields_kept :: "SandboxEnvironment \<Rightarrow> SandboxEnvironment \<Rightarrow> bool" where
  "operator_fields_kept e e' \<longleftrightarrow>
     st_Phase (Status e') = st_Phase (Status e) \<and> st_Slot (Status e') = st_Slot (Status e) \<and>
     st_FinishedAt (Status e') = st_FinishedAt (Status e) \<and> st_StartedAt (Status e') = st_StartedAt (Status e) \<and>
     st_QueuedSince (Status e') = st_QueuedSince (Status e) \<and>
     st_TerminalPhase (Status e') = st_TerminalPhase (Status e) \<and>
     st_PhaseHistory (Status e') = st_PhaseHistory (Status e) \<and>
     st_FreezeCount (Status e') = st_FreezeCount (Status e) \<and> st_WakeCount (Status e') = st_WakeCount (Status e) \<and>
     st_Conditions (Status e') = st_Conditions (Status e) \<and>
     DeletionTimestamp e' = DeletionTimestamp e \<and> Spec e' = Spec e"

lemma sidecar_change_keeps: "sidecar_change e e' \<Longrightarrow> operator_fields_kept e e'"
  by (induction rule: sidecar_change.induct)
    (auto simp: operator_fields_kept_def DeclareWait_change_def ReportDone_change_def
      RecordSnapshotAttempt_change_def RecordSnapshot_change_def RecordRestoreAttempt_change_def
      PatchArchive_change_def with_status_def Let_def split: if_splits option.splits)

subsection \<open>The invariant\<close>

text \<open>
  Of the stored environment: a finished run is in a terminal phase or in the detour, a terminal
  phase is finished, an outcome is a terminal phase and belongs to a finished run, the history
  fits its limit, and a slot is held only by a phase that may hold one.
\<close>

definition env_ok :: "SandboxEnvironment \<Rightarrow> bool" where
  "env_ok e \<longleftrightarrow>
     (st_FinishedAt (Status e) \<noteq> None \<longrightarrow>
        st_Phase (Status e) \<in> {PhaseDone, PhaseFailed, PhaseFreezing, PhaseWaiting}) \<and>
     (isTerminal (st_Phase (Status e)) \<longrightarrow> st_FinishedAt (Status e) \<noteq> None) \<and>
     st_TerminalPhase (Status e) \<in> {PhaseUnset, PhaseDone, PhaseFailed} \<and>
     (st_TerminalPhase (Status e) \<noteq> PhaseUnset \<longrightarrow> st_FinishedAt (Status e) \<noteq> None) \<and>
     st_Phase (Status e) \<in> insert PhaseUnset (set AllPhases) \<and>
     length (st_PhaseHistory (Status e)) \<le> MaxPhaseHistoryEntries \<and>
     (Granted (st_Slot (Status e)) \<longrightarrow>
        st_Phase (Status e) \<in> {PhaseReady, PhaseRestoring, PhaseRunning, PhaseFreezing})"

text \<open>
  Of the decision in flight: the operator's own fields have not moved since it was read, and
  it was computed by the state machine or is the freeze of a deletion.
\<close>

definition from_read :: "meta_lib \<Rightarrow> SandboxEnvironment \<Rightarrow> Decision \<Rightarrow> bool" where
  "from_read lib e d \<longleftrightarrow>
     (\<exists>facts now extra. d = reconcile_decision lib e facts now extra) \<or>
     (\<exists>now. d = freeze_decision lib e now)"

definition flight_ok :: "meta_lib \<Rightarrow> SandboxEnvironment \<Rightarrow> (SandboxEnvironment \<times> Decision) option \<Rightarrow> bool" where
  "flight_ok lib cur fl \<longleftrightarrow>
     (case fl of
        None \<Rightarrow> True
      | Some (e, d) \<Rightarrow> from_read lib e d \<and> env_ok e \<and>
          st_FinishedAt (Status e) = st_FinishedAt (Status cur) \<and>
          st_TerminalPhase (Status e) = st_TerminalPhase (Status cur) \<and>
          st_Phase (Status e) = st_Phase (Status cur))"

definition plane_inv :: "meta_lib \<Rightarrow> plane \<Rightarrow> bool" where
  "plane_inv lib s \<longleftrightarrow> env_ok (srv s) \<and> flight_ok lib (srv s) (flight s)"

subsection \<open>A decision fits the record it was computed from\<close>

lemma known_current: "p \<in> insert PhaseUnset (set AllPhases) \<Longrightarrow> st_Phase (Status e) = p \<Longrightarrow> current_phase e \<in> set AllPhases"
  by (auto simp: current_phase_def AllPhases_def)

text \<open>The outcome of a decision of the state machine on the fields of the invariant.\<close>

definition decision_ok :: "SandboxEnvironment \<Rightarrow> Decision \<Rightarrow> bool" where
  "decision_ok e d \<longleftrightarrow>
     d_Phase d \<in> set AllPhases \<and>
     (st_FinishedAt (Status e) \<noteq> None \<or> SetFinishedAt (d_StatusPatch d) \<noteq> None \<longrightarrow>
        d_Phase d \<in> {PhaseDone, PhaseFailed, PhaseFreezing, PhaseWaiting}) \<and>
     (isTerminal (d_Phase d) \<longrightarrow>
        st_FinishedAt (Status e) \<noteq> None \<or> SetFinishedAt (d_StatusPatch d) \<noteq> None) \<and>
     SetTerminalPhase (d_StatusPatch d) \<in> {PhaseUnset, PhaseDone, PhaseFailed} \<and>
     (SetTerminalPhase (d_StatusPatch d) \<noteq> PhaseUnset \<longrightarrow> SetFinishedAt (d_StatusPatch d) \<noteq> None) \<and>
     (d_SlotWanted d \<longrightarrow> d_Phase d \<in> {PhaseReady, PhaseRestoring, PhaseRunning, PhaseFreezing} \<or>
        (Granted (st_Slot (Status e)) \<and> d_Phase d = current_phase e))"

lemma in_AllPhases [simp]:
  "PhasePending \<in> set AllPhases" "PhaseReady \<in> set AllPhases" "PhaseRestoring \<in> set AllPhases"
  "PhaseRunning \<in> set AllPhases" "PhaseFreezing \<in> set AllPhases" "PhaseWaiting \<in> set AllPhases"
  "PhaseDone \<in> set AllPhases" "PhaseFailed \<in> set AllPhases"
  by (simp_all add: AllPhases_def)

lemma unfinished_decisions_ok:
  assumes "st_FinishedAt (Status e) = None"
  shows "decision_ok e (nextPending lib e facts now)" "decision_ok e (nextReady lib e facts now)"
    "decision_ok e (nextRestoring lib e facts now)" "decision_ok e (nextRunning lib e facts now)"
  using assms
  by (simp_all add: decision_ok_def nextPending_def nextReady_def nextRestoring_def nextRunning_def)

lemma nextFreezing_decision_ok: "decision_ok e (nextFreezing lib e facts now)"
  by (simp add: decision_ok_def nextFreezing_def split: option.split)

lemma nextWaiting_decision_ok: "decision_ok e (nextWaiting lib e facts now)"
proof (cases "st_FinishedAt (Status e)")
  case None
  then show ?thesis by (simp add: decision_ok_def nextWaiting_def newMetaTime_def split: option.split)
next
  case (Some t)
  then show ?thesis by (simp add: decision_ok_def nextWaiting_def)
qed

lemma dispatchPhase_decision_ok:
  assumes "env_ok e" and "\<not> isTerminal (current_phase e)"
  shows "decision_ok e (dispatchPhase lib e facts now (current_phase e))"
proof -
  have "st_FinishedAt (Status e) = None" if "current_phase e \<notin> {PhaseFreezing, PhaseWaiting}"
    using assms that by (auto simp: env_ok_def current_phase_def split: if_splits)
  then show ?thesis
    using assms(2) unfinished_decisions_ok nextFreezing_decision_ok nextWaiting_decision_ok
    by (cases "current_phase e") (simp_all add: dispatchPhase_def)
qed

lemma Next_decision_ok:
  assumes "env_ok e"
  shows "decision_ok e (Next lib e facts now)"
proof -
  have phase: "current_phase e \<in> set AllPhases"
    using assms by (auto simp: env_ok_def current_phase_def)
  have "decision_ok e (decide lib e facts now (current_phase e))"
  proof (cases rule: decide_cases [of "current_phase e" lib e facts now])
    case terminal
    then show ?thesis
      by (auto simp: decision_ok_def terminal_effect terminal_patch_def newMetaTime_def isTerminal_def)
  next
    case (completed d)
    then show ?thesis
      using agentOrPodTerminal_effect [OF completed(2)]
      by (auto simp: decision_ok_def newMetaTime_def isTerminal_def)
  next
    case detour
    then show ?thesis using dispatchPhase_decision_ok [OF assms] by simp
  next
    case (timeout d)
    then show ?thesis
      using timeoutFired_decision [OF timeout(4)] by (simp add: decision_ok_def newMetaTime_def)
  next
    case held
    then show ?thesis using phase by (simp add: decision_ok_def hold_effect)
  next
    case dispatched
    then show ?thesis using dispatchPhase_decision_ok [OF assms] by simp
  qed
  then show ?thesis by (simp add: decision_ok_def)
qed

lemma from_read_decision_ok:
  assumes "env_ok e" and "from_read lib e d"
  shows "decision_ok e d"
  using assms(2) unfolding from_read_def
proof (elim disjE exE)
  fix facts now extra
  assume "d = reconcile_decision lib e facts now extra"
  then show ?thesis
    using Next_decision_ok [OF assms(1), of lib facts now]
    by (simp add: reconcile_decision_def decision_ok_def Let_def)
qed (simp add: decision_ok_def freeze_decision_def)

lemma select_status: "Status (cur\<lparr>Status := st\<rparr>) = st"
  by simp

text \<open>Writing a decision that fits keeps the invariant of the environment.\<close>

lemma Apply_env_ok:
  assumes ok: "env_ok cur" and d: "decision_ok e d" and fresh: "\<not> stale e cur"
    and fin: "st_FinishedAt (Status e) = st_FinishedAt (Status cur)"
  shows "env_ok (cur\<lparr>Status := Apply lib cur d\<rparr>)"
  unfolding env_ok_def
proof (intro conjI)
  let ?st = "Status (cur\<lparr>Status := Apply lib cur d\<rparr>)"
  have fin': "st_FinishedAt ?st \<noteq> None \<longleftrightarrow>
      st_FinishedAt (Status e) \<noteq> None \<or> SetFinishedAt (d_StatusPatch d) \<noteq> None"
    unfolding fin by (simp only: select_status Apply_fields set_once_eq_None de_Morgan_conj disj_commute)
  show "st_FinishedAt ?st \<noteq> None \<longrightarrow> st_Phase ?st \<in> {PhaseDone, PhaseFailed, PhaseFreezing, PhaseWaiting}"
    unfolding fin' using d unfolding decision_ok_def by (simp only: select_status Apply_fields) blast
  show "isTerminal (st_Phase ?st) \<longrightarrow> st_FinishedAt ?st \<noteq> None"
    unfolding fin' using d unfolding decision_ok_def by (simp only: select_status Apply_fields) blast
  have outcome: "st_TerminalPhase (Status cur) \<in> {PhaseUnset, PhaseDone, PhaseFailed}"
    "st_TerminalPhase (Status cur) \<noteq> PhaseUnset \<longrightarrow> st_FinishedAt (Status cur) \<noteq> None"
    using ok unfolding env_ok_def by (blast, blast)
  have outcome': "SetTerminalPhase (d_StatusPatch d) \<in> {PhaseUnset, PhaseDone, PhaseFailed}"
    "SetTerminalPhase (d_StatusPatch d) \<noteq> PhaseUnset \<longrightarrow> SetFinishedAt (d_StatusPatch d) \<noteq> None"
    using d unfolding decision_ok_def by (blast, blast)
  have tp: "st_TerminalPhase ?st = st_TerminalPhase (Status cur) \<or>
      st_TerminalPhase ?st = SetTerminalPhase (d_StatusPatch d)"
    by (simp add: Apply_TerminalPhase)
  show "st_TerminalPhase ?st \<in> {PhaseUnset, PhaseDone, PhaseFailed}"
    using tp outcome(1) outcome'(1) by metis
  show "st_TerminalPhase ?st \<noteq> PhaseUnset \<longrightarrow> st_FinishedAt ?st \<noteq> None"
    unfolding fin' fin using tp outcome(2) outcome'(2) by metis
  show "st_Phase ?st \<in> insert PhaseUnset (set AllPhases)"
    using d by (simp add: decision_ok_def)
  show "length (st_PhaseHistory ?st) \<le> MaxPhaseHistoryEntries"
    using ok phase_history_length [of "Status cur" lib d] by (simp add: env_ok_def)
  show "Granted (st_Slot ?st) \<longrightarrow> st_Phase ?st \<in> {PhaseReady, PhaseRestoring, PhaseRunning, PhaseFreezing}"
  proof
    assume "Granted (st_Slot ?st)"
    then have held: "d_SlotWanted d" "Granted (st_Slot (Status cur))"
      by (auto simp: no_slot_def split: if_splits)
    then have "st_Phase (Status cur) \<in> {PhaseReady, PhaseRestoring, PhaseRunning, PhaseFreezing}"
      using ok unfolding env_ok_def by blast
    moreover have "st_Phase (Status e) = st_Phase (Status cur)" using fresh by (auto simp: stale_def)
    ultimately have "current_phase e \<in> {PhaseReady, PhaseRestoring, PhaseRunning, PhaseFreezing}"
      by (auto simp: current_phase_def)
    then show "st_Phase ?st \<in> {PhaseReady, PhaseRestoring, PhaseRunning, PhaseFreezing}"
      using d held(1) unfolding decision_ok_def by (simp only: select_status Apply_fields) metis
  qed
qed

subsection \<open>Every step keeps the invariant\<close>

lemma env_ok_cong:
  assumes "operator_fields_kept e e'"
  shows "env_ok e' = env_ok e"
  using assms by (simp add: env_ok_def operator_fields_kept_def)

lemma flight_ok_cong:
  assumes "st_FinishedAt (Status c') = st_FinishedAt (Status c)"
    and "st_TerminalPhase (Status c') = st_TerminalPhase (Status c)" and "st_Phase (Status c') = st_Phase (Status c)"
  shows "flight_ok lib c' fl = flight_ok lib c fl"
  using assms by (simp add: flight_ok_def split: option.split prod.split)

lemma env_ok_grant: "env_ok e \<Longrightarrow> IsCandidate e \<Longrightarrow> env_ok (grant_slot lib now e)"
  by (auto simp: env_ok_def grant_slot_def IsCandidate_def)

lemma commit_env_ok:
  assumes "env_ok cur" and "flight_ok lib cur (Some (e, d))"
  shows "env_ok (commit lib e d cur)"
proof (cases "stale e cur")
  case True
  with assms(1) show ?thesis by (simp add: commit_def)
next
  case False
  have fl: "from_read lib e d" "st_FinishedAt (Status e) = st_FinishedAt (Status cur)"
    "st_TerminalPhase (Status e) = st_TerminalPhase (Status cur)" "st_Phase (Status e) = st_Phase (Status cur)"
    using assms(2) by (simp_all add: flight_ok_def)
  have "decision_ok e d"
    using assms(2) from_read_decision_ok by (auto simp: flight_ok_def)
  with False assms(1) fl show ?thesis by (simp add: commit_def Apply_env_ok)
qed

lemma plane_inv_step:
  assumes "plane_inv lib s" and "plane_step lib s t"
  shows "plane_inv lib t"
  using assms(2)
proof (cases rule: plane_step.cases)
  case (decide_step facts now extra)
  with assms(1) show ?thesis by (auto simp: plane_inv_def flight_ok_def from_read_def)
next
  case (freeze_step escape cls backend pod now)
  with assms(1) show ?thesis by (auto simp: plane_inv_def flight_ok_def from_read_def)
next
  case (write_step e d)
  with assms(1) show ?thesis by (simp add: plane_inv_def commit_env_ok flight_ok_def [of lib _ None])
next
  case abort_step
  with assms(1) show ?thesis by (simp add: plane_inv_def flight_ok_def [of lib _ None])
next
  case (sidecar_step e')
  have k: "operator_fields_kept (srv s) e'" by (rule sidecar_change_keeps [OF sidecar_step(2)])
  then have "flight_ok lib e' (flight s) = flight_ok lib (srv s) (flight s)"
    by (intro flight_ok_cong) (simp_all add: operator_fields_kept_def)
  with assms(1) sidecar_step(1) env_ok_cong [OF k] show ?thesis by (simp add: plane_inv_def)
next
  case (grant_step now)
  have "flight_ok lib (grant_slot lib now (srv s)) (flight s) = flight_ok lib (srv s) (flight s)"
    by (rule flight_ok_cong) (simp_all add: grant_slot_def)
  with assms(1) grant_step env_ok_grant show ?thesis by (simp add: plane_inv_def)
next
  case (edit_step g sp)
  have "flight_ok lib ((srv s)\<lparr>Spec := sp, Generation := g\<rparr>) (flight s) = flight_ok lib (srv s) (flight s)"
    by (rule flight_ok_cong) simp_all
  with assms(1) edit_step show ?thesis by (simp add: plane_inv_def env_ok_def)
next
  case (delete_step u)
  have "flight_ok lib ((srv s)\<lparr>DeletionTimestamp := Some u\<rparr>) (flight s) = flight_ok lib (srv s) (flight s)"
    by (rule flight_ok_cong) simp_all
  with assms(1) delete_step show ?thesis by (simp add: plane_inv_def env_ok_def)
qed

lemma plane_inv_init: "plane_init s \<Longrightarrow> plane_inv lib s"
  by (simp add: plane_init_def plane_inv_def env_ok_def flight_ok_def zero_status_def no_slot_def)

interpretation plane: invariant_machine plane_init "plane_step lib" "plane_inv lib" for lib
  by unfold_locales (rule plane_inv_init, assumption, rule plane_inv_step)

subsection \<open>A finished run is never run again\<close>

lemma commit_keeps_finish:
  "st_FinishedAt (Status cur) = Some f \<Longrightarrow> st_FinishedAt (Status (commit lib e d cur)) = Some f"
  "st_TerminalPhase (Status cur) = p \<Longrightarrow> p \<noteq> PhaseUnset \<Longrightarrow> st_TerminalPhase (Status (commit lib e d cur)) = p"
  by (simp_all add: commit_def Apply_TerminalPhase)

lemma plane_step_keeps_finish:
  assumes "plane_step lib s t" and "st_FinishedAt (Status (srv s)) = Some f"
  shows "st_FinishedAt (Status (srv t)) = Some f
     \<and> (st_TerminalPhase (Status (srv s)) \<noteq> PhaseUnset \<longrightarrow>
          st_TerminalPhase (Status (srv t)) = st_TerminalPhase (Status (srv s)))"
  using assms(1)
proof (cases rule: plane_step.cases)
  case (write_step e d)
  then show ?thesis using assms(2) commit_keeps_finish by simp
next
  case (sidecar_step e')
  then show ?thesis using assms(2) sidecar_change_keeps by (auto simp: operator_fields_kept_def)
qed (use assms(2) in \<open>simp_all add: grant_slot_def\<close>)

lemma plane_steps_keep_finish:
  assumes "(plane_step lib)\<^sup>*\<^sup>* s t" and "st_FinishedAt (Status (srv s)) = Some f"
  shows "st_FinishedAt (Status (srv t)) = Some f
     \<and> (st_TerminalPhase (Status (srv s)) \<noteq> PhaseUnset \<longrightarrow>
          st_TerminalPhase (Status (srv t)) = st_TerminalPhase (Status (srv s)))"
  using assms(1,2)
proof (induction rule: rtranclp_induct)
  case base
  then show ?case by simp
next
  case (step t u)
  then show ?case using plane_step_keeps_finish [OF step.hyps(2)] by simp
qed

text \<open>
  C3: whatever the operator observes and however the writes of operator, sidecar, scheduler and
  users interleave, a run that has finished stays finished: its finish time and its recorded
  outcome never change, and it never again becomes Pending, Ready, Restoring or Running.
\<close>

theorem finished_run_is_never_rerun:
  assumes "reachable plane_init (plane_step lib) s" and "st_FinishedAt (Status (srv s)) = Some f"
    and "(plane_step lib)\<^sup>*\<^sup>* s t"
  shows "st_FinishedAt (Status (srv t)) = Some f
     \<and> st_Phase (Status (srv t)) \<in> {PhaseDone, PhaseFailed, PhaseFreezing, PhaseWaiting}
     \<and> (st_TerminalPhase (Status (srv s)) \<noteq> PhaseUnset \<longrightarrow>
          st_TerminalPhase (Status (srv t)) = st_TerminalPhase (Status (srv s)))"
proof -
  have "plane_inv lib t" using plane.inv_steps [OF assms(3) plane.inv_reachable [OF assms(1)]] .
  then show ?thesis
    using plane_steps_keep_finish [OF assms(3,2)] by (auto simp: plane_inv_def env_ok_def)
qed

text \<open>
  C1: in every reachable state of the control plane a terminal environment is finished, the
  recorded outcome is Done or Failed and only of a finished run, the phase history is within
  its limit, and only environments in Ready, Restoring, Running or Freezing hold a slot, so
  that no slot is leaked to a waiting or terminal one.
\<close>

theorem control_plane_invariant:
  assumes "reachable plane_init (plane_step lib) s"
  shows "(isTerminal (st_Phase (Status (srv s))) \<longrightarrow> st_FinishedAt (Status (srv s)) \<noteq> None)
     \<and> (st_TerminalPhase (Status (srv s)) \<noteq> PhaseUnset \<longrightarrow>
          isTerminal (st_TerminalPhase (Status (srv s))) \<and> st_FinishedAt (Status (srv s)) \<noteq> None)
     \<and> length (st_PhaseHistory (Status (srv s))) \<le> MaxPhaseHistoryEntries
     \<and> (Granted (st_Slot (Status (srv s))) \<longrightarrow> Occupies (srv s)
          \<and> st_Phase (Status (srv s)) \<in> {PhaseReady, PhaseRestoring, PhaseRunning, PhaseFreezing})"
  using plane.inv_reachable [OF assms]
  by (auto simp: plane_inv_def env_ok_def isTerminal_def Occupies_def)

subsection \<open>Two places where compute and grants come apart\<close>

text \<open>
  The archive detour puts an environment that has given its slot back into Freezing, a phase
  that counts as occupying compute, without asking the scheduler: the capacity that
  \<open>Admit\<close> respects can be exceeded by as many environments as finish with a live pod that was
  never snapshotted.
\<close>

theorem detour_occupies_without_grant:
  assumes "isTerminal (st_Phase (Status env))" and "\<not> Granted (st_Slot (Status env))" and "archive_detour env facts"
  shows "\<not> Occupies env \<and> Occupies (reconciled lib env facts now)
         \<and> \<not> Granted (st_Slot (Status (reconciled lib env facts now)))"
proof -
  have "current_phase env = st_Phase (Status env)" using assms(1) by (auto simp: current_phase_def)
  then have "decide lib env facts now (current_phase env) = terminal lib env facts now (st_Phase (Status env))"
    using assms(1) by (simp add: decide_def)
  then show ?thesis
    using assms by (auto simp: reconciled_Status terminal_effect archive_detour_def Occupies_def isTerminal_def)
qed

text \<open>
  While a class does not resolve, \<^verbatim>\<open>hold\<close> keeps the slot an environment holds. It reads that
  slot when it decides; a grant that lands between its decision and its write is taken away
  again, because the staleness check does not cover the slot.
\<close>

theorem hold_releases_concurrent_grant:
  assumes "st_Phase (Status env) = PhaseReady" and "\<not> Granted (st_Slot (Status env))"
    and "st_FinishedAt (Status env) = None" and "\<not> ClassResolved facts"
    and "firedTimeoutReason lib env facts now PhaseReady = None"
  shows "\<not> stale env (grant_slot lib t env) \<and> Granted (st_Slot (Status (grant_slot lib t env)))
         \<and> \<not> Granted (st_Slot (Status (commit lib env (reconcile_decision lib env facts now extra) (grant_slot lib t env))))"
proof -
  have "current_phase env = PhaseReady" using assms(1) by (simp add: current_phase_def)
  then have "decide lib env facts now (current_phase env) = hold lib env facts now PhaseReady"
    using assms by (simp add: decide_def agentOrPodTerminal_def timeoutFired_def)
  then have "\<not> d_SlotWanted (reconcile_decision lib env facts now extra)"
    using assms(2) by (simp add: reconcile_decision_def Let_def hold_effect)
  moreover have "\<not> stale env (grant_slot lib t env)" by (simp add: stale_def grant_slot_def)
  ultimately show ?thesis by (simp add: commit_def no_slot_def) (simp add: grant_slot_def)
qed

subsection \<open>A concrete execution\<close>

definition timeout_facts :: ClusterFacts where
  "timeout_facts = zero_facts\<lparr>f_Timeouts := DefaultTimeouts\<rparr>"

definition start_plane :: plane where
  "start_plane = \<lparr>srv = zero_env, flight = None\<rparr>"

definition failed_plane :: plane where
  "failed_plane = \<lparr>srv = commit ref_lib zero_env (reconcile_decision ref_lib zero_env timeout_facts (72 * Hour) []) zero_env,
     flight = None\<rparr>"

lemma failed_plane_reachable: "reachable plane_init (plane_step ref_lib) failed_plane"
proof -
  have "reachable plane_init (plane_step ref_lib) start_plane"
    by (rule reach_init) (simp add: plane_init_def start_plane_def zero_env_def)
  moreover have "plane_step ref_lib start_plane
      (start_plane\<lparr>flight := Some (srv start_plane, reconcile_decision ref_lib (srv start_plane) timeout_facts (72 * Hour) [])\<rparr>)"
    by (rule decide_step) (simp_all add: start_plane_def zero_env_def IsZero_def)
  moreover have "plane_step ref_lib
      (start_plane\<lparr>flight := Some (srv start_plane, reconcile_decision ref_lib (srv start_plane) timeout_facts (72 * Hour) [])\<rparr>)
      failed_plane"
    using write_step [of "start_plane\<lparr>flight := Some (srv start_plane,
        reconcile_decision ref_lib (srv start_plane) timeout_facts (72 * Hour) [])\<rparr>"]
    by (simp add: failed_plane_def start_plane_def)
  ultimately show ?thesis by (blast intro: reach_step)
qed

lemma zero_env_times_out:
  "decide ref_lib zero_env timeout_facts (72 * Hour) PhasePending = the (timeoutFired ref_lib zero_env timeout_facts (72 * Hour) PhasePending)"
  "firedTimeoutReason ref_lib zero_env timeout_facts (72 * Hour) PhasePending = Some ReasonTotalTimeoutExceeded"
  by (simp_all add: decide_def agentOrPodTerminal_def timeoutFired_def firedTimeoutReason_def clock_fired_def
      time_Sub_def max_duration_def min_duration_def timeout_facts_def DefaultTimeouts_def zero_env_def zero_status_def)

lemma failed_plane_finished:
  "\<exists>f. st_FinishedAt (Status (srv failed_plane)) = Some f" "st_Phase (Status (srv failed_plane)) = PhaseFailed"
proof -
  have "current_phase zero_env = PhasePending" by (simp add: current_phase_def zero_env_def zero_status_def)
  then show "\<exists>f. st_FinishedAt (Status (srv failed_plane)) = Some f" "st_Phase (Status (srv failed_plane)) = PhaseFailed"
    using zero_env_times_out
    by (simp_all add: failed_plane_def commit_def stale_def reconcile_decision_def Let_def timeoutFired_def newMetaTime_def
        set_once_def)
qed

theorem finished_run_is_never_rerun_witness:
  "\<exists>f. st_FinishedAt (Status (srv failed_plane)) = Some f
     \<and> st_Phase (Status (srv failed_plane)) \<in> {PhaseDone, PhaseFailed, PhaseFreezing, PhaseWaiting}"
  using failed_plane_finished(1)
    finished_run_is_never_rerun [OF failed_plane_reachable, of _ failed_plane] by blast

theorem control_plane_invariant_witness:
  "isTerminal (st_Phase (Status (srv failed_plane))) \<and> st_FinishedAt (Status (srv failed_plane)) \<noteq> None"
  using control_plane_invariant [OF failed_plane_reachable] failed_plane_finished(2) by simp

theorem detour_occupies_without_grant_witness:
  "Occupies (reconciled ref_lib (env_at PhaseDone) (zero_facts\<lparr>PodAliveForArchive := True\<rparr>) 0)"
  using detour_occupies_without_grant [of "env_at PhaseDone" "zero_facts\<lparr>PodAliveForArchive := True\<rparr>" ref_lib 0]
  by (simp add: no_slot_def archive_detour_def zero_facts_def)

theorem hold_releases_concurrent_grant_witness:
  "\<not> Granted (st_Slot (Status (commit ref_lib (env_at PhaseReady)
     (reconcile_decision ref_lib (env_at PhaseReady) zero_facts 5 []) (grant_slot ref_lib 3 (env_at PhaseReady)))))"
  using hold_releases_concurrent_grant [of "env_at PhaseReady" zero_facts ref_lib 5 3 "[]"]
  by (simp add: no_slot_def zero_facts_def firedTimeoutReason_def clock_fired_def)

end
