(* ===== verification/Bolt.thy ===== *)
theory Bolt
  imports Prelude "HOL-Library.RBT"
begin

section \<open>The state database of the Docker operator\<close>

text \<open>
  What \<^verbatim>\<open>src/docker-operator/internal/store\<close> uses of bbolt and of the JSON encoding, and the
  steps its four record stores share. bbolt is not part of the sources: its calls are the
  fields of a parameter, and what the store relies on are the laws of the locale \<open>bolt_api\<close>
  (a bucket is a finite map iterated in key order, a failed transaction leaves no trace). The
  encoding of records is a parameter too, with the round trip as its law in \<open>codec\<close>. The
  locale \<open>record_store\<close> puts the two together and proves the facts every store needs once.
\<close>

subsection \<open>Errors\<close>

text \<open>
  A sentinel is a package-level \<^verbatim>\<open>errors.New\<close>, \<open>Wrap\<close> is \<^verbatim>\<open>fmt.Errorf\<close> with \<^verbatim>\<open>%w\<close>, \<open>Plain\<close> every other
  error. The identifiers quoted inside messages are left out.
\<close>

datatype store_error = Sentinel string | Plain string | Wrap string store_error

fun errors_Is :: "store_error \<Rightarrow> store_error \<Rightarrow> bool" where
  "errors_Is (Wrap msg e) target = (Wrap msg e = target \<or> errors_Is e target)"
| "errors_Is e target = (e = target)"

definition wrap_error :: "string \<Rightarrow> store_error + 'a \<Rightarrow> store_error + 'a" where
  "wrap_error msg r = (case r of Inl e \<Rightarrow> Inl (Wrap msg e) | Inr x \<Rightarrow> Inr x)"

lemma wrap_error_Inr [simp]: "wrap_error msg r = Inr x \<longleftrightarrow> r = Inr x"
  by (auto simp: wrap_error_def split: sum.splits)

subsection \<open>The database\<close>

text \<open>
  \<open>b_Bucket\<close> tells whether a bucket exists, \<open>b_Pairs\<close> is what \<^verbatim>\<open>ForEach\<close> visits, \<open>b_CreateBucket\<close> is
  \<^verbatim>\<open>CreateBucketIfNotExists\<close>. \<open>b_Commit before after\<close>
  ends a successful read-write transaction and \<open>b_Rollback before after\<close> a failed one.
\<close>

record ('r, 'd) bolt =
  b_Bucket :: "string \<Rightarrow> 'd \<Rightarrow> bool"
  b_Get :: "string \<Rightarrow> string \<Rightarrow> 'd \<Rightarrow> 'r option"
  b_Pairs :: "string \<Rightarrow> 'd \<Rightarrow> (string \<times> 'r) list"
  b_CreateBucket :: "string \<Rightarrow> 'd \<Rightarrow> store_error option \<times> 'd"
  b_Put :: "string \<Rightarrow> string \<Rightarrow> 'r \<Rightarrow> 'd \<Rightarrow> store_error option \<times> 'd"
  b_Delete :: "string \<Rightarrow> string \<Rightarrow> 'd \<Rightarrow> store_error option \<times> 'd"
  b_Commit :: "'d \<Rightarrow> 'd \<Rightarrow> store_error option \<times> 'd"
  b_Rollback :: "'d \<Rightarrow> 'd \<Rightarrow> 'd"

record ('r, 'a) json =
  Marshal :: "'a \<Rightarrow> store_error + 'r"
  Unmarshal :: "'r \<Rightarrow> store_error + 'a"

fun for_each :: "(string \<times> 'r \<Rightarrow> 's \<Rightarrow> store_error + 's) \<Rightarrow> (string \<times> 'r) list \<Rightarrow> 's \<Rightarrow> store_error + 's" where
  "for_each f [] s = Inr s"
| "for_each f (kv # kvs) s = (case f kv s of Inl e \<Rightarrow> Inl e | Inr s1 \<Rightarrow> for_each f kvs s1)"

definition missing_bucket :: "string \<Rightarrow> store_error" where
  "missing_bucket n = Plain (''the '' @ n @ '' bucket is missing from the state database'')"

text \<open>
  \<open>view\<close> and \<open>update\<close> over one bucket; \<open>ctx\<close> is the error of the caller's context when the call
  starts, if it has one.
\<close>

definition view :: "('r, 'd) bolt \<Rightarrow> string \<Rightarrow> store_error option \<Rightarrow> ('d \<Rightarrow> store_error + 'x) \<Rightarrow> 'd \<Rightarrow> store_error + 'x" where
  "view B n ctx fn d =
     (case ctx of
        Some e \<Rightarrow> Inl e
      | None \<Rightarrow> if \<not> b_Bucket B n d then Inl (missing_bucket n) else fn d)"

definition db_Update :: "('r, 'd) bolt \<Rightarrow> ('d \<Rightarrow> (store_error + 'x) \<times> 'd) \<Rightarrow> 'd \<Rightarrow> (store_error + 'x) \<times> 'd" where
  "db_Update B fn d =
     (case fn d of
        (Inl e, d1) \<Rightarrow> (Inl e, b_Rollback B d d1)
      | (Inr x, d1) \<Rightarrow>
          (case b_Commit B d d1 of
             (Some e, d2) \<Rightarrow> (Inl e, d2)
           | (None, d2) \<Rightarrow> (Inr x, d2)))"

definition update :: "('r, 'd) bolt \<Rightarrow> string \<Rightarrow> store_error option \<Rightarrow> ('d \<Rightarrow> (store_error + 'x) \<times> 'd) \<Rightarrow> 'd \<Rightarrow>
    (store_error + 'x) \<times> 'd" where
  "update B n ctx fn d =
     (case ctx of
        Some e \<Rightarrow> (Inl e, d)
      | None \<Rightarrow> db_Update B (\<lambda>d. if \<not> b_Bucket B n d then (Inl (missing_bucket n), d) else fn d) d)"

text \<open>The shape of \<^verbatim>\<open>put\<close>, \<^verbatim>\<open>Get\<close>, \<^verbatim>\<open>List\<close> and \<^verbatim>\<open>Delete\<close> in every store; \<open>what\<close> is the noun of its messages.\<close>

definition put_record :: "('r, 'd) bolt \<Rightarrow> ('r, 'a) json \<Rightarrow> string \<Rightarrow> string \<Rightarrow> ('a \<Rightarrow> string) \<Rightarrow> 'a \<Rightarrow> 'd \<Rightarrow>
    (store_error + 'a) \<times> 'd" where
  "put_record B J n what key a d =
     (case Marshal J a of
        Inl e \<Rightarrow> (Inl (Wrap (''encoding '' @ what) e), d)
      | Inr raw \<Rightarrow>
          (case b_Put B n (key a) raw d of
             (Some e, d1) \<Rightarrow> (Inl (Wrap (''writing '' @ what) e), d1)
           | (None, d1) \<Rightarrow> (Inr a, d1)))"

definition decode_record :: "('r, 'a) json \<Rightarrow> string \<Rightarrow> 'r \<Rightarrow> store_error + 'a" where
  "decode_record J what raw = wrap_error (''decoding '' @ what) (Unmarshal J raw)"

definition get_record :: "('r, 'd) bolt \<Rightarrow> ('r, 'a) json \<Rightarrow> string \<Rightarrow> string \<Rightarrow> store_error \<Rightarrow> store_error option \<Rightarrow>
    string \<Rightarrow> 'd \<Rightarrow> store_error + 'a" where
  "get_record B J n what absent ctx i d =
     view B n ctx
       (\<lambda>d. case b_Get B n i d of
              None \<Rightarrow> Inl (Wrap (''getting '' @ what) absent)
            | Some raw \<Rightarrow> decode_record J what raw) d"

definition list_records :: "('r, 'd) bolt \<Rightarrow> ('r, 'a) json \<Rightarrow> string \<Rightarrow> string \<Rightarrow> ('a \<Rightarrow> bool) \<Rightarrow> store_error option \<Rightarrow> 'd \<Rightarrow>
    store_error + 'a list" where
  "list_records B J n what keep ctx d =
     wrap_error (''listing '' @ what @ ''s'')
       (view B n ctx
          (\<lambda>d. for_each
                 (\<lambda>(k, raw) acc. case decode_record J what raw of
                    Inl e \<Rightarrow> Inl e
                  | Inr a \<Rightarrow> Inr (if keep a then acc @ [a] else acc))
                 (b_Pairs B n d) []) d)"

definition delete_record :: "('r, 'd) bolt \<Rightarrow> string \<Rightarrow> string \<Rightarrow> store_error option \<Rightarrow> string \<Rightarrow> 'd \<Rightarrow>
    (store_error + unit) \<times> 'd" where
  "delete_record B n what ctx i d =
     update B n ctx
       (\<lambda>d. case b_Delete B n i d of
              (Some e, d1) \<Rightarrow> (Inl (Wrap (''deleting '' @ what) e), d1)
            | (None, d1) \<Rightarrow> (Inr (), d1)) d"

text \<open>The read, mutate, check, stamp and write of the \<^verbatim>\<open>Update\<close> operations.\<close>

definition mutate_record :: "('r, 'd) bolt \<Rightarrow> ('r, 'a) json \<Rightarrow> string \<Rightarrow> string \<Rightarrow> ('a \<Rightarrow> string) \<Rightarrow> store_error \<Rightarrow>
    store_error option \<Rightarrow> string \<Rightarrow> ('a \<Rightarrow> store_error + 'a) \<Rightarrow> ('a \<Rightarrow> 'a \<Rightarrow> 'd \<Rightarrow> store_error option) \<Rightarrow> ('a \<Rightarrow> 'a) \<Rightarrow> 'd \<Rightarrow>
    (store_error + 'a) \<times> 'd" where
  "mutate_record B J n what key absent ctx i mutate check stamp d =
     update B n ctx
       (\<lambda>d. case b_Get B n i d of
              None \<Rightarrow> (Inl (Wrap (''updating '' @ what) absent), d)
            | Some raw \<Rightarrow>
                (case decode_record J what raw of
                   Inl e \<Rightarrow> (Inl e, d)
                 | Inr before \<Rightarrow>
                     (case mutate before of
                        Inl e \<Rightarrow> (Inl (Wrap (''updating '' @ what) e), d)
                      | Inr a \<Rightarrow>
                          (case check before a d of
                             Some e \<Rightarrow> (Inl (Wrap (''updating '' @ what) e), d)
                           | None \<Rightarrow> put_record B J n what key (stamp a) d)))) d"

subsection \<open>The laws\<close>

locale bolt_api =
  fixes B :: "('r, 'd) bolt"
  assumes put_spec: "b_Put B n k raw d = (None, d') \<Longrightarrow>
        b_Bucket B m d' = b_Bucket B m d \<and>
        b_Get B m k' d' = (if m = n \<and> k' = k then Some raw else b_Get B m k' d)"
    and delete_spec: "b_Delete B n k d = (None, d') \<Longrightarrow>
        b_Bucket B m d' = b_Bucket B m d \<and>
        b_Get B m k' d' = (if m = n \<and> k' = k then None else b_Get B m k' d)"
    and create_spec: "b_CreateBucket B n d = (None, d') \<Longrightarrow>
        b_Bucket B m d' = (m = n \<or> b_Bucket B m d) \<and> b_Get B m k d' = b_Get B m k d"
    and pairs_spec: "map_of (b_Pairs B n d) k = b_Get B n k d"
    and pairs_sorted: "sorted_wrt (<) (map fst (b_Pairs B n d))"
    and commit_spec: "b_Commit B d d1 = (e, d2) \<Longrightarrow> d2 = (if e = None then d1 else d)"
    and rollback_spec: "b_Rollback B d d1 = d"
begin

lemma pairs_distinct: "distinct (map fst (b_Pairs B n d))"
  using pairs_sorted [of n d] strict_sorted_iff by blast

lemma pairs_set: "(k, raw) \<in> set (b_Pairs B n d) \<longleftrightarrow> b_Get B n k d = Some raw"
  using pairs_distinct [of n d] by (simp flip: pairs_spec add: map_of_eq_Some_iff)

text \<open>A transaction that reports an error changed nothing.\<close>

lemma db_Update_error: "db_Update B fn d = (Inl e, d') \<Longrightarrow> d' = d"
  by (auto simp: db_Update_def rollback_spec dest: commit_spec split: prod.splits sum.splits option.splits)

lemma update_error: "update B n ctx fn d = (Inl e, d') \<Longrightarrow> d' = d"
  by (auto simp: update_def dest: db_Update_error split: option.splits)

lemma db_Update_ok: "db_Update B fn d = (Inr x, d') \<Longrightarrow> fn d = (Inr x, d')"
  by (auto simp: db_Update_def dest: commit_spec split: prod.splits sum.splits option.splits)

lemma update_ok: "update B n ctx fn d = (Inr x, d') \<Longrightarrow> fn d = (Inr x, d') \<and> b_Bucket B n d \<and> ctx = None"
  by (auto simp: update_def dest: db_Update_ok split: option.splits if_splits)

lemma delete_record_ok:
  assumes "delete_record B n what ctx i d = (Inr u, d')"
  shows "b_Get B m k d' = (if m = n \<and> k = i then None else b_Get B m k d) \<and> b_Bucket B m d' = b_Bucket B m d"
  using assms delete_spec by (fastforce simp: delete_record_def dest!: update_ok split: prod.splits option.splits)

end

text \<open>
  \<open>clean\<close> are the records whose strings are valid UTF-8: the encoder replaces invalid bytes, so
  only those come back as they were, and every decoded record is one of them.
\<close>

locale json_codec =
  fixes J :: "('r, 'a) json" and clean :: "'a \<Rightarrow> bool"
  assumes roundtrip: "clean a \<Longrightarrow> Marshal J a = Inr raw \<Longrightarrow> Unmarshal J raw = Inr a"
    and decoded_clean: "Unmarshal J raw = Inr a \<Longrightarrow> clean a"

locale record_store = bolt_api B + json_codec J clean
  for B :: "('r, 'd) bolt" and J :: "('r, 'a) json" and clean
begin

lemma put_record_ok:
  assumes "put_record B J n what key a d = (Inr a', d')" and "clean a"
  obtains raw where "a' = a" and "Unmarshal J raw = Inr a"
    and "\<And>m k. b_Get B m k d' = (if m = n \<and> k = key a then Some raw else b_Get B m k d)"
    and "\<And>m. b_Bucket B m d' = b_Bucket B m d"
proof -
  from assms(1) obtain raw where "Marshal J a = Inr raw" and "a' = a"
    and "b_Put B n (key a) raw d = (None, d')"
    by (auto simp: put_record_def split: sum.splits prod.splits option.splits)
  then show ?thesis using that put_spec roundtrip assms(2) by blast
qed

lemma get_record_Inr:
  "get_record B J n what absent ctx i d = Inr a \<longleftrightarrow>
     ctx = None \<and> b_Bucket B n d \<and> (\<exists>raw. b_Get B n i d = Some raw \<and> Unmarshal J raw = Inr a)"
  by (auto simp: get_record_def view_def decode_record_def split: option.splits)

lemma mutate_record_ok:
  assumes "mutate_record B J n what key absent ctx i mutate check stamp d = (Inr a', d')"
  obtains before a where
    "get_record B J n what absent None i d = Inr before" and "mutate before = Inr a"
    and "check before a d = None" and "put_record B J n what key (stamp a) d = (Inr a', d')"
    and "b_Bucket B n d" and "ctx = None"
  using assms
  by (auto simp: mutate_record_def get_record_def view_def dest!: update_ok
           split: option.splits sum.splits)

end

subsection \<open>A reference database\<close>

text \<open>
  A database that keeps every bucket as a search tree, refuses empty keys and missing buckets,
  and whose commits fail when \<open>full\<close> says so. It satisfies the laws.
\<close>

type_synonym 'r ref_db = "string \<Rightarrow> (string, 'r) rbt option"

definition ref_Get :: "string \<Rightarrow> string \<Rightarrow> 'r ref_db \<Rightarrow> 'r option" where
  "ref_Get n k d = (case d n of None \<Rightarrow> None | Some t \<Rightarrow> RBT.lookup t k)"

definition ref_Pairs :: "string \<Rightarrow> 'r ref_db \<Rightarrow> (string \<times> 'r) list" where
  "ref_Pairs n d = (case d n of None \<Rightarrow> [] | Some t \<Rightarrow> RBT.entries t)"

definition ref_CreateBucket :: "string \<Rightarrow> 'r ref_db \<Rightarrow> store_error option \<times> 'r ref_db" where
  "ref_CreateBucket n d =
     (if n = [] then (Some (Plain ''bucket name required''), d)
      else (None, case d n of None \<Rightarrow> d(n \<mapsto> RBT.empty) | Some _ \<Rightarrow> d))"

definition ref_Put :: "string \<Rightarrow> string \<Rightarrow> 'r \<Rightarrow> 'r ref_db \<Rightarrow> store_error option \<times> 'r ref_db" where
  "ref_Put n k raw d =
     (case d n of
        None \<Rightarrow> (Some (Plain ''no such bucket''), d)
      | Some t \<Rightarrow> if k = [] then (Some (Plain ''key required''), d)
                  else (None, d(n := Some (RBT.insert k raw t))))"

definition ref_Delete :: "string \<Rightarrow> string \<Rightarrow> 'r ref_db \<Rightarrow> store_error option \<times> 'r ref_db" where
  "ref_Delete n k d =
     (case d n of
        None \<Rightarrow> (Some (Plain ''no such bucket''), d)
      | Some t \<Rightarrow> (None, d(n := Some (RBT.delete k t))))"

definition ref_bolt :: "('r ref_db \<Rightarrow> bool) \<Rightarrow> ('r, 'r ref_db) bolt" where
  "ref_bolt full =
     \<lparr>b_Bucket = (\<lambda>n d. d n \<noteq> None), b_Get = ref_Get, b_Pairs = ref_Pairs, b_CreateBucket = ref_CreateBucket, b_Put = ref_Put,
      b_Delete = ref_Delete,
      b_Commit = (\<lambda>d d1. if full d1 then (Some (Plain ''disk full''), d) else (None, d1)),
      b_Rollback = (\<lambda>d d1. d)\<rparr>"

lemmas ref_bolt_defs = ref_bolt_def ref_Get_def ref_Pairs_def ref_CreateBucket_def ref_Put_def ref_Delete_def

interpretation ref_bolt: bolt_api "ref_bolt full"
proof
  fix n d
  show "sorted_wrt (<) (map fst (b_Pairs (ref_bolt full) n d))"
    using RBT.sorted_entries RBT.distinct_entries
    by (auto simp: ref_bolt_defs strict_sorted_iff split: option.splits)
qed (auto simp: ref_bolt_defs split: option.splits if_splits)

end
