(* ===== verification/Agent_Store.thy ===== *)
theory Agent_Store
  imports Bolt
begin

section \<open>Agent records and the cap on live agents\<close>

text \<open>
  \<^verbatim>\<open>src/docker-operator/internal/store/store.go\<close>: agent records, the states that hold a slot, and
  the operations on the agents bucket. \<open>reserved\<close> is the set of agents that hold a slot; the
  lemmas tie \<open>countReserved\<close> to it, and the operations to the changes they make to it. The
  clock's reading is an argument of the operations that stamp it.
\<close>

subsection \<open>Errors and states\<close>

definition ErrNotFound :: store_error where "ErrNotFound = Sentinel ''agent not found''"
definition ErrAtCapacity :: store_error where "ErrAtCapacity = Sentinel ''at agent capacity''"
definition ErrExists :: store_error where "ErrExists = Sentinel ''agent already exists''"

definition IsNotFound :: "store_error \<Rightarrow> bool" where "IsNotFound e = errors_Is e ErrNotFound"
definition IsAtCapacity :: "store_error \<Rightarrow> bool" where "IsAtCapacity e = errors_Is e ErrAtCapacity"
definition IsExists :: "store_error \<Rightarrow> bool" where "IsExists e = errors_Is e ErrExists"

definition StatusCreating :: string where "StatusCreating = ''creating''"
definition StatusRunning :: string where "StatusRunning = ''running''"
definition StatusStopped :: string where "StatusStopped = ''stopped''"
definition StatusError :: string where "StatusError = ''error''"
definition StatusDeleting :: string where "StatusDeleting = ''deleting''"
definition StatusUpdating :: string where "StatusUpdating = ''updating''"

lemmas agent_status_defs = StatusCreating_def StatusRunning_def StatusStopped_def StatusError_def
  StatusDeleting_def StatusUpdating_def

definition Valid :: "string \<Rightarrow> bool" where
  "Valid s \<longleftrightarrow> s \<in> {StatusCreating, StatusRunning, StatusStopped, StatusError, StatusDeleting, StatusUpdating}"

definition CountsTowardCapacity :: "string \<Rightarrow> bool" where
  "CountsTowardCapacity s \<longleftrightarrow> s = StatusCreating \<or> s = StatusRunning \<or> s = StatusUpdating"

subsection \<open>Records\<close>

record Agent =
  ag_ID :: string
  ag_Name :: string
  ag_Description :: string
  ag_Backend :: string
  ag_Harness :: string
  ag_Model :: string
  ag_FastModel :: string
  ag_OllamaURL :: string
  ag_Repo :: string
  ag_AutoCompactThreshold :: string
  ag_MaxContextTokens :: string
  ag_AutoMode :: string
  ag_Image :: string
  ag_ImageID :: string
  ag_Status :: string
  ag_ErrorMessage :: string
  ag_ContainerName :: string
  ag_ContainerID :: string
  ag_DindContainerName :: string
  ag_DindContainerID :: string
  ag_DinernetName :: string
  ag_DinernetID :: string
  ag_WorkspaceVolume :: string
  ag_ClaudeConfigVolume :: string
  ag_DindCacheVolume :: string
  ag_AnthropicAccountID :: string
  ag_DependaproxyDinernetIP :: string
  ag_CreatedAt :: time
  ag_UpdatedAt :: time

record CreateSpec =
  cs_ID :: string
  cs_Name :: string
  cs_Description :: string
  cs_Backend :: string
  cs_Harness :: string
  cs_Model :: string
  cs_FastModel :: string
  cs_OllamaURL :: string
  cs_Repo :: string
  cs_AutoCompactThreshold :: string
  cs_MaxContextTokens :: string
  cs_AutoMode :: string
  cs_AnthropicAccountID :: string
  cs_Image :: string

definition bucketAgents :: string where "bucketAgents = ''agents''"

text \<open>The record \<open>Create\<close> inserts: every Docker field is empty.\<close>

definition new_agent :: "CreateSpec \<Rightarrow> time \<Rightarrow> Agent" where
  "new_agent spec now =
     \<lparr>ag_ID = cs_ID spec, ag_Name = cs_Name spec, ag_Description = cs_Description spec,
      ag_Backend = cs_Backend spec, ag_Harness = cs_Harness spec, ag_Model = cs_Model spec,
      ag_FastModel = cs_FastModel spec, ag_OllamaURL = cs_OllamaURL spec, ag_Repo = cs_Repo spec,
      ag_AutoCompactThreshold = cs_AutoCompactThreshold spec,
      ag_MaxContextTokens = cs_MaxContextTokens spec, ag_AutoMode = cs_AutoMode spec,
      ag_Image = cs_Image spec, ag_ImageID = [], ag_Status = StatusCreating, ag_ErrorMessage = [],
      ag_ContainerName = [], ag_ContainerID = [], ag_DindContainerName = [], ag_DindContainerID = [],
      ag_DinernetName = [], ag_DinernetID = [], ag_WorkspaceVolume = [], ag_ClaudeConfigVolume = [],
      ag_DindCacheVolume = [], ag_AnthropicAccountID = cs_AnthropicAccountID spec,
      ag_DependaproxyDinernetIP = [], ag_CreatedAt = now, ag_UpdatedAt = now\<rparr>"

subsection \<open>Operations\<close>

definition put :: "('r, 'd) bolt \<Rightarrow> ('r, Agent) json \<Rightarrow> Agent \<Rightarrow> 'd \<Rightarrow> (store_error + Agent) \<times> 'd" where
  "put B J = put_record B J bucketAgents ''agent'' ag_ID"

definition decode :: "('r, Agent) json \<Rightarrow> 'r \<Rightarrow> store_error + Agent" where
  "decode J = decode_record J ''agent''"

fun count_step :: "('r, Agent) json \<Rightarrow> string \<times> 'r \<Rightarrow> int \<Rightarrow> store_error + int" where
  "count_step J (k, raw) n =
     (case decode J raw of
        Inl e \<Rightarrow> Inl e
      | Inr agent \<Rightarrow> Inr (if CountsTowardCapacity (ag_Status agent) then n + 1 else n))"

definition countReserved :: "('r, 'd) bolt \<Rightarrow> ('r, Agent) json \<Rightarrow> 'd \<Rightarrow> store_error + int" where
  "countReserved B J d = for_each (count_step J) (b_Pairs B bucketAgents d) 0"

definition Create :: "('r, 'd) bolt \<Rightarrow> ('r, Agent) json \<Rightarrow> int \<Rightarrow> store_error option \<Rightarrow> time \<Rightarrow> CreateSpec \<Rightarrow> 'd \<Rightarrow>
    (store_error + Agent) \<times> 'd" where
  "Create B J maxAgents ctx now spec d =
     (if cs_ID spec = [] then (Inl (Plain ''creating an agent: the ID must not be empty''), d)
      else update B bucketAgents ctx
        (\<lambda>d. if b_Get B bucketAgents (cs_ID spec) d \<noteq> None then (Inl (Wrap ''creating agent'' ErrExists), d)
             else case countReserved B J d of
                    Inl e \<Rightarrow> (Inl (Wrap ''creating agent'' e), d)
                  | Inr used \<Rightarrow>
                      if used \<ge> maxAgents then (Inl (Wrap ''creating agent'' ErrAtCapacity), d)
                      else put B J (new_agent spec now) d) d)"

definition Get :: "('r, 'd) bolt \<Rightarrow> ('r, Agent) json \<Rightarrow> store_error option \<Rightarrow> string \<Rightarrow> 'd \<Rightarrow> store_error + Agent" where
  "Get B J = get_record B J bucketAgents ''agent'' ErrNotFound"

definition List :: "('r, 'd) bolt \<Rightarrow> ('r, Agent) json \<Rightarrow> store_error option \<Rightarrow> 'd \<Rightarrow> store_error + Agent list" where
  "List B J = list_records B J bucketAgents ''agent'' (\<lambda>_. True)"

definition checkInvariants :: "Agent \<Rightarrow> Agent \<Rightarrow> store_error option" where
  "checkInvariants before after =
     (if ag_ID after \<noteq> ag_ID before then Some (Plain ''the mutator changed the ID; it is immutable'')
      else if ag_CreatedAt after \<noteq> ag_CreatedAt before
      then Some (Plain ''the mutator changed CreatedAt; it is immutable'')
      else if \<not> Valid (ag_Status after) then Some (Plain ''the mutator set the unknown status'')
      else None)"

definition Update :: "('r, 'd) bolt \<Rightarrow> ('r, Agent) json \<Rightarrow> store_error option \<Rightarrow> time \<Rightarrow> string \<Rightarrow>
    (Agent \<Rightarrow> store_error + Agent) option \<Rightarrow> 'd \<Rightarrow> (store_error + Agent) \<times> 'd" where
  "Update B J ctx now i mutate d =
     (case mutate of
        None \<Rightarrow> (Inl (Plain ''updating agent: the mutator must not be nil''), d)
      | Some f \<Rightarrow> mutate_record B J bucketAgents ''agent'' ag_ID ErrNotFound ctx i f
                    (\<lambda>before after _. checkInvariants before after) (\<lambda>a. a\<lparr>ag_UpdatedAt := now\<rparr>) d)"

definition Delete :: "('r, 'd) bolt \<Rightarrow> store_error option \<Rightarrow> string \<Rightarrow> 'd \<Rightarrow> (store_error + unit) \<times> 'd" where
  "Delete B = delete_record B bucketAgents ''agent''"

subsection \<open>Who holds a slot\<close>

definition reserved :: "('r, 'd) bolt \<Rightarrow> ('r, Agent) json \<Rightarrow> 'd \<Rightarrow> string set" where
  "reserved B J d = {k. \<exists>raw a. b_Get B bucketAgents k d = Some raw \<and> Unmarshal J raw = Inr a \<and>
     CountsTowardCapacity (ag_Status a)}"

text \<open>Every record is stored under its own ID and can be read.\<close>

definition readable :: "('r, 'd) bolt \<Rightarrow> ('r, Agent) json \<Rightarrow> 'd \<Rightarrow> bool" where
  "readable B J d \<longleftrightarrow> (\<forall>k raw. b_Get B bucketAgents k d = Some raw \<longrightarrow>
     (\<exists>a. Unmarshal J raw = Inr a \<and> ag_ID a = k))"

lemma decode_Inr [simp]: "decode J raw = Inr a \<longleftrightarrow> Unmarshal J raw = Inr a"
  by (simp add: decode_def decode_record_def)

definition holds_slot :: "('r, Agent) json \<Rightarrow> 'r \<Rightarrow> bool" where
  "holds_slot J raw \<longleftrightarrow> (\<exists>a. Unmarshal J raw = Inr a \<and> CountsTowardCapacity (ag_Status a))"

lemma count_step_Inr:
  "count_step J kv n = Inr m \<Longrightarrow> m = (if holds_slot J (snd kv) then n + 1 else n)"
  by (cases kv) (auto simp: holds_slot_def split: sum.splits)

lemma count_loop:
  "for_each (count_step J) kvs n = Inr m \<Longrightarrow> m = n + int (length (filter (\<lambda>kv. holds_slot J (snd kv)) kvs))"
proof (induction kvs arbitrary: n)
  case (Cons kv kvs)
  from Cons.prems obtain n1 where "count_step J kv n = Inr n1" "for_each (count_step J) kvs n1 = Inr m"
    by (auto split: sum.splits)
  then show ?case using Cons.IH [of n1] count_step_Inr by fastforce
qed simp

lemma count_loop_total:
  "\<forall>kv \<in> set kvs. \<exists>a. Unmarshal J (snd kv) = Inr a \<Longrightarrow> \<exists>m. for_each (count_step J) kvs n = Inr m"
proof (induction kvs arbitrary: n)
  case (Cons kv kvs)
  then obtain a where "Unmarshal J (snd kv) = Inr a" by auto
  then show ?case using Cons by (cases kv) (auto simp: decode_def decode_record_def wrap_error_def)
qed simp

context bolt_api
begin

lemma finite_reserved [simp]: "finite (reserved B J d)"
proof (rule finite_subset)
  show "reserved B J d \<subseteq> dom (map_of (b_Pairs B bucketAgents d))"
    by (auto simp: reserved_def pairs_spec)
qed (rule finite_dom_map_of)

lemma countReserved_card:
  assumes "countReserved B J d = Inr n"
  shows "n = int (card (reserved B J d))"
proof -
  let ?ps = "filter (\<lambda>kv. holds_slot J (snd kv)) (b_Pairs B bucketAgents d)"
  have "reserved B J d = set (map fst ?ps)"
    by (auto simp: reserved_def holds_slot_def pairs_set image_iff)
  moreover have "distinct (map fst ?ps)"
    using pairs_distinct by (rule distinct_map_filter)
  ultimately have "card (reserved B J d) = length ?ps"
    using distinct_card [of "map fst ?ps"] by simp
  moreover have "n = int (length ?ps)"
    using assms count_loop [of J _ 0] unfolding countReserved_def by simp
  ultimately show ?thesis by simp
qed

lemma countReserved_total:
  assumes "readable B J d"
  shows "countReserved B J d = Inr (int (card (reserved B J d)))"
proof -
  have "\<exists>a. Unmarshal J (snd kv) = Inr a" if "kv \<in> set (b_Pairs B bucketAgents d)" for kv
    using assms that by (cases kv) (fastforce simp: readable_def pairs_set)
  then obtain m where "countReserved B J d = Inr m"
    unfolding countReserved_def using count_loop_total by blast
  then show ?thesis using countReserved_card by blast
qed

text \<open>Only the records under one key changed.\<close>

lemma reserved_cong:
  assumes "\<And>k. k \<noteq> i \<Longrightarrow> b_Get B bucketAgents k d' = b_Get B bucketAgents k d"
  shows "reserved B J d' - {i} = reserved B J d - {i}"
  using assms by (auto simp: reserved_def)

end

locale agent_store = record_store B J clean
  for B :: "('r, 'd) bolt" and J :: "('r, Agent) json" and clean :: "Agent \<Rightarrow> bool"
begin

lemma Get_Inr:
  "Get B J ctx k d = Inr a \<longleftrightarrow>
     ctx = None \<and> b_Bucket B bucketAgents d \<and>
     (\<exists>raw. b_Get B bucketAgents k d = Some raw \<and> Unmarshal J raw = Inr a)"
  by (simp add: Get_def get_record_Inr)

lemma Get_clean: "Get B J ctx k d = Inr a \<Longrightarrow> clean a"
  using decoded_clean by (auto simp: Get_Inr)

lemma put_ok:
  assumes "put B J a d = (Inr a', d')" and "clean a"
  shows "a' = a" and "b_Bucket B m d' = b_Bucket B m d"
    and "k \<noteq> ag_ID a \<Longrightarrow> b_Get B bucketAgents k d' = b_Get B bucketAgents k d"
    and "\<exists>raw. b_Get B bucketAgents (ag_ID a) d' = Some raw \<and> Unmarshal J raw = Inr a"
  using assms unfolding put_def by (auto elim!: put_record_ok)

lemma put_reserved:
  assumes "put B J a d = (Inr a', d')" and "clean a"
  shows "reserved B J d' =
     (if CountsTowardCapacity (ag_Status a) then insert (ag_ID a) (reserved B J d) else reserved B J d - {ag_ID a})"
proof -
  have "reserved B J d' - {ag_ID a} = reserved B J d - {ag_ID a}"
    using reserved_cong put_ok(3) [OF assms] by blast
  moreover have "ag_ID a \<in> reserved B J d' \<longleftrightarrow> CountsTowardCapacity (ag_Status a)"
    using put_ok(4) [OF assms] by (auto simp: reserved_def)
  ultimately show ?thesis by (cases "ag_ID a \<in> reserved B J d'") auto
qed

lemma put_readable:
  assumes "put B J a d = (Inr a', d')" and "clean a" and "readable B J d"
  shows "readable B J d'"
  unfolding readable_def
proof (intro allI impI)
  fix k raw assume get: "b_Get B bucketAgents k d' = Some raw"
  show "\<exists>x. Unmarshal J raw = Inr x \<and> ag_ID x = k"
    using get put_ok(3,4) [OF assms(1,2)] assms(3) by (cases "k = ag_ID a") (auto simp: readable_def)
qed

lemma Create_error: "Create B J maxAgents ctx now spec d = (Inl e, d') \<Longrightarrow> d' = d"
  by (auto simp: Create_def dest: update_error split: if_splits)

lemma Create_ok:
  assumes "Create B J maxAgents ctx now spec d = (Inr a, d')"
  shows "put B J (new_agent spec now) d = (Inr a, d')" and "b_Get B bucketAgents (cs_ID spec) d = None"
    and "int (card (reserved B J d)) < maxAgents" and "b_Bucket B bucketAgents d"
  using assms
  by (auto simp: Create_def dest!: update_ok countReserved_card split: if_splits sum.splits)

lemma Update_error: "Update B J ctx now i mutate d = (Inl e, d') \<Longrightarrow> d' = d"
  by (auto simp: Update_def mutate_record_def dest: update_error split: option.splits)

lemma Update_ok:
  assumes "Update B J ctx now i mutate d = (Inr a', d')"
  obtains f before a where "mutate = Some f" and "Get B J None i d = Inr before" and "f before = Inr a"
    and "ag_ID a = ag_ID before" and "ag_CreatedAt a = ag_CreatedAt before" and "Valid (ag_Status a)"
    and "put B J (a\<lparr>ag_UpdatedAt := now\<rparr>) d = (Inr a', d')" and "b_Bucket B bucketAgents d"
proof -
  from assms obtain f where "mutate = Some f"
    and m: "mutate_record B J bucketAgents ''agent'' ag_ID ErrNotFound ctx i f
        (\<lambda>before after _. checkInvariants before after) (\<lambda>a. a\<lparr>ag_UpdatedAt := now\<rparr>) d = (Inr a', d')"
    by (auto simp: Update_def split: option.splits)
  from m show ?thesis
  proof (rule mutate_record_ok)
    fix before a
    assume "get_record B J bucketAgents ''agent'' ErrNotFound None i d = Inr before" and "f before = Inr a"
      and c: "checkInvariants before a = None"
      and "put_record B J bucketAgents ''agent'' ag_ID (a\<lparr>ag_UpdatedAt := now\<rparr>) d = (Inr a', d')"
      and "b_Bucket B bucketAgents d"
    moreover have "ag_ID a = ag_ID before" "ag_CreatedAt a = ag_CreatedAt before" "Valid (ag_Status a)"
      using c by (auto simp: checkInvariants_def split: if_splits)
    ultimately show ?thesis using that \<open>mutate = Some f\<close> unfolding Get_def put_def by blast
  qed
qed

lemma Delete_effect:
  assumes "Delete B ctx i d = (r, d')"
  shows "reserved B J d' \<subseteq> reserved B J d" and "readable B J d \<Longrightarrow> readable B J d'"
proof -
  consider "d' = d" | u where "r = Inr u"
    using assms by (cases r) (auto simp: Delete_def delete_record_def dest: update_error)
  then have get: "b_Get B bucketAgents k d' = Some raw \<Longrightarrow> b_Get B bucketAgents k d = Some raw" for k raw
    using assms delete_record_ok unfolding Delete_def by cases (auto split: if_splits)
  then show "reserved B J d' \<subseteq> reserved B J d" by (force simp: reserved_def)
  show "readable B J d \<Longrightarrow> readable B J d'" using get by (simp add: readable_def)
qed

end

subsection \<open>The cap over a history\<close>

text \<open>
  One call on the store. The mutators allowed here never turn a record that holds no slot into
  one that does; \<^verbatim>\<open>Create\<close> is the only operation that checks the cap.
\<close>

definition takes_no_slot :: "(Agent \<Rightarrow> store_error + Agent) \<Rightarrow> bool" where
  "takes_no_slot f \<longleftrightarrow> (\<forall>a b. f a = Inr b \<longrightarrow> CountsTowardCapacity (ag_Status b) \<longrightarrow> CountsTowardCapacity (ag_Status a))"

definition keeps_clean :: "(Agent \<Rightarrow> bool) \<Rightarrow> time \<Rightarrow> (Agent \<Rightarrow> store_error + Agent) \<Rightarrow> bool" where
  "keeps_clean clean now f \<longleftrightarrow> (\<forall>a b. clean a \<longrightarrow> f a = Inr b \<longrightarrow> clean (b\<lparr>ag_UpdatedAt := now\<rparr>))"

inductive store_step :: "('r, 'd) bolt \<Rightarrow> ('r, Agent) json \<Rightarrow> (Agent \<Rightarrow> bool) \<Rightarrow> int \<Rightarrow> 'd \<Rightarrow> 'd \<Rightarrow> bool"
  for B J clean maxAgents where
  create_call: "Create B J maxAgents ctx now spec d = (r, d') \<Longrightarrow> clean (new_agent spec now) \<Longrightarrow>
     store_step B J clean maxAgents d d'"
| update_call: "Update B J ctx now i (Some f) d = (r, d') \<Longrightarrow> takes_no_slot f \<Longrightarrow> keeps_clean clean now f \<Longrightarrow>
     store_step B J clean maxAgents d d'"
| delete_call: "Delete B ctx i d = (u, d') \<Longrightarrow> store_step B J clean maxAgents d d'"

definition within_cap :: "('r, 'd) bolt \<Rightarrow> ('r, Agent) json \<Rightarrow> int \<Rightarrow> 'd \<Rightarrow> bool" where
  "within_cap B J maxAgents d \<longleftrightarrow> readable B J d \<and> int (card (reserved B J d)) \<le> maxAgents"

lemma new_agent_simps [simp]:
  "ag_ID (new_agent spec now) = cs_ID spec" "ag_Status (new_agent spec now) = StatusCreating"
  "CountsTowardCapacity StatusCreating"
  by (simp_all add: new_agent_def CountsTowardCapacity_def)

context agent_store
begin

lemma Create_reserved:
  assumes "Create B J maxAgents ctx now spec d = (Inr a, d')" and "clean (new_agent spec now)"
  shows "reserved B J d' = insert (cs_ID spec) (reserved B J d)" and "cs_ID spec \<notin> reserved B J d"
    and "int (card (reserved B J d')) \<le> maxAgents"
proof -
  note ok = Create_ok [OF assms(1)]
  show r: "reserved B J d' = insert (cs_ID spec) (reserved B J d)"
    using put_reserved [OF ok(1) assms(2)] by simp
  show n: "cs_ID spec \<notin> reserved B J d" using ok(2) by (simp add: reserved_def)
  show "int (card (reserved B J d')) \<le> maxAgents" using ok(3) by (simp add: r n)
qed

lemma Update_within_cap:
  assumes "Update B J ctx now i (Some f) d = (Inr a', d')" and "takes_no_slot f" and "keeps_clean clean now f"
    and "within_cap B J maxAgents d"
  shows "within_cap B J maxAgents d'"
proof -
  from assms(1) obtain before a where g: "Get B J None i d = Inr before" and f: "f before = Inr a"
    and same: "ag_ID a = ag_ID before" and p: "put B J (a\<lparr>ag_UpdatedAt := now\<rparr>) d = (Inr a', d')"
    by (auto elim: Update_ok)
  have c: "clean (a\<lparr>ag_UpdatedAt := now\<rparr>)" using assms(3) f Get_clean [OF g] by (simp add: keeps_clean_def)
  have i: "ag_ID before = i" using g assms(4) by (fastforce simp: Get_Inr within_cap_def readable_def)
  have "reserved B J d' \<subseteq> reserved B J d"
  proof (cases "CountsTowardCapacity (ag_Status a)")
    case True
    then have "i \<in> reserved B J d"
      using assms(2) f g by (auto simp: takes_no_slot_def reserved_def Get_Inr)
    then show ?thesis using put_reserved [OF p c] same i by auto
  qed (use put_reserved [OF p c] in auto)
  then have "card (reserved B J d') \<le> card (reserved B J d)" by (simp add: card_mono)
  then show ?thesis using assms(4) put_readable [OF p c] by (simp add: within_cap_def)
qed

lemma step_within_cap:
  assumes "within_cap B J maxAgents d" and "store_step B J clean maxAgents d d'"
  shows "within_cap B J maxAgents d'"
  using assms(2)
proof cases
  case (create_call ctx now spec r)
  show ?thesis
  proof (cases r)
    case (Inr a)
    then show ?thesis
      using create_call assms(1) Create_reserved(3) Create_ok(1) put_readable
      by (metis within_cap_def)
  qed (use create_call assms(1) Create_error in blast)
next
  case (update_call ctx now i f r)
  then show ?thesis
    using assms(1) Update_within_cap Update_error by (cases r) blast+
next
  case (delete_call ctx i u)
  from Delete_effect(1) [OF this] have "card (reserved B J d') \<le> card (reserved B J d)"
    by (simp add: card_mono)
  then show ?thesis
    using assms(1) Delete_effect(2) [OF delete_call] by (simp add: within_cap_def)
qed

end

sublocale agent_store \<subseteq> capped: invariant_machine "within_cap B J maxAgents" "store_step B J clean maxAgents"
  "within_cap B J maxAgents" for maxAgents
  by unfold_locales (auto intro: step_within_cap)

text \<open>The records themselves as values of the reference database.\<close>

definition plain_json :: "(Agent, Agent) json" where
  "plain_json = \<lparr>Marshal = Inr, Unmarshal = Inr\<rparr>"

interpretation ref_agents: agent_store "ref_bolt full" plain_json "\<lambda>_. True"
  by unfold_locales (simp_all add: plain_json_def)

subsection \<open>Properties\<close>

context agent_store
begin

lemma Get_other:
  assumes "b_Get B bucketAgents k d' = b_Get B bucketAgents k d" and "b_Bucket B bucketAgents d' = b_Bucket B bucketAgents d"
  shows "Get B J ctx k d' = Get B J ctx k d"
  using assms by (cases ctx) (simp_all add: Get_def get_record_def view_def)

lemma history_within_cap:
  "(store_step B J clean maxAgents)\<^sup>*\<^sup>* d d' \<Longrightarrow> within_cap B J maxAgents d \<Longrightarrow> within_cap B J maxAgents d'"
  by (rule capped.inv_steps)

lemma Create_effect:
  assumes "clean (new_agent spec now)"
  shows "case Create B J maxAgents ctx now spec d of
           (Inl e, d') \<Rightarrow> d' = d
         | (Inr a, d') \<Rightarrow>
             a = new_agent spec now \<and> put B J a d = (Inr a, d') \<and> b_Bucket B bucketAgents d \<and>
             reserved B J d' = insert (cs_ID spec) (reserved B J d) \<and> cs_ID spec \<notin> reserved B J d \<and>
             int (card (reserved B J d')) \<le> maxAgents"
proof -
  obtain r d' where c: "Create B J maxAgents ctx now spec d = (r, d')" by fastforce
  show ?thesis
  proof (cases r)
    case (Inr a)
    note ok = Create_ok [OF c [unfolded Inr]]
    show ?thesis
      using ok put_ok(1) [OF ok(1) assms] Create_reserved [OF c [unfolded Inr] assms] c Inr by simp
  qed (use c Create_error in auto)
qed

lemma Get_after_put:
  assumes "put B J a d = (Inr a', d')" and "clean a" and "b_Bucket B bucketAgents d"
  shows "Get B J None (ag_ID a) d' = Inr a \<and> (\<forall>k. k \<noteq> ag_ID a \<longrightarrow> Get B J None k d' = Get B J None k d)"
  using put_ok(2-4) [OF assms(1,2)] assms(3) by (auto simp: Get_Inr intro: Get_other)

lemma Create_at_cap:
  assumes "cs_ID spec \<noteq> []" and "b_Bucket B bucketAgents d" and "readable B J d"
    and "b_Get B bucketAgents (cs_ID spec) d = None" and "maxAgents \<le> int (card (reserved B J d))"
  shows "Create B J maxAgents None now spec d = (Inl (Wrap ''creating agent'' ErrAtCapacity), d)"
  using assms countReserved_total [OF assms(3)]
  by (simp add: Create_def update_def db_Update_def rollback_spec)

end

text \<open>
  Creating an agent reserves a slot under the cap, atomically. A successful create stores the
  new record under its ID, leaves every other record alone, adds exactly that ID to the agents
  that hold a slot, and the number of those stays within the cap; a failed one changes
  nothing. With the cap reached, a create of a fresh agent is refused with the error the API
  reports as a conflict.
\<close>

theorem Create_reserves_slot:
  assumes "agent_store B J clean" and "clean (new_agent spec now)"
  shows "(case Create B J maxAgents ctx now spec d of
            (Inl e, d') \<Rightarrow> d' = d
          | (Inr a, d') \<Rightarrow>
              a = new_agent spec now \<and> Get B J None (cs_ID spec) d' = Inr a \<and>
              (\<forall>k. k \<noteq> cs_ID spec \<longrightarrow> Get B J None k d' = Get B J None k d) \<and>
              reserved B J d' = insert (cs_ID spec) (reserved B J d) \<and> cs_ID spec \<notin> reserved B J d \<and>
              int (card (reserved B J d')) \<le> maxAgents) \<and>
         (cs_ID spec \<noteq> [] \<and> b_Bucket B bucketAgents d \<and> readable B J d \<and>
            b_Get B bucketAgents (cs_ID spec) d = None \<and> maxAgents \<le> int (card (reserved B J d)) \<longrightarrow>
          (\<exists>e. Create B J maxAgents None now spec d = (Inl e, d) \<and> IsAtCapacity e))"
  using agent_store.Create_effect [OF assms, where maxAgents = maxAgents and ctx = ctx and d = d]
    agent_store.Get_after_put [OF assms(1) _ assms(2), where d = d]
    agent_store.Create_at_cap [OF assms(1), where spec = spec and d = d and maxAgents = maxAgents and now = now]
  by (auto simp: IsAtCapacity_def ErrAtCapacity_def split: prod.splits sum.splits)

text \<open>
  C29: the cap holds over every history of the store. From a database whose records can be read
  and in which at most the cap is reserved, no sequence of creates, deletes and updates leads
  to more reserved slots, whichever of the calls fail, as long as no mutator turns a
  record without a slot into one with a slot.
\<close>

theorem cap_holds_over_history:
  assumes "agent_store B J clean" and "(store_step B J clean maxAgents)\<^sup>*\<^sup>* d d'"
    and "readable B J d" and "int (card (reserved B J d)) \<le> maxAgents"
  shows "countReserved B J d' = Inr (int (card (reserved B J d'))) \<and> int (card (reserved B J d')) \<le> maxAgents"
proof -
  have "within_cap B J maxAgents d'"
    using agent_store.history_within_cap [OF assms(1,2)] assms(3,4) by (simp add: within_cap_def)
  moreover have "bolt_api B" using assms(1) by (simp add: agent_store_def record_store_def)
  ultimately show ?thesis using bolt_api.countReserved_total by (auto simp: within_cap_def)
qed

text \<open>
  An update is one atomic read-modify-write of one record. When it succeeds, the stored
  record is what the mutator made of the stored one, with its ID and creation time unchanged,
  a defined status, and the time of the update; the other records are untouched. When it fails,
  for whatever reason, nothing changed.
\<close>

theorem Update_atomic:
  assumes "agent_store B J clean" and "readable B J d" and "keeps_clean clean now f"
  shows "case Update B J ctx now i (Some f) d of
           (Inl e, d') \<Rightarrow> d' = d
         | (Inr a, d') \<Rightarrow>
             \<exists>before b. Get B J None i d = Inr before \<and> f before = Inr b \<and> a = b\<lparr>ag_UpdatedAt := now\<rparr> \<and>
               ag_ID a = i \<and> ag_CreatedAt a = ag_CreatedAt before \<and> Valid (ag_Status a) \<and>
               Get B J None i d' = Inr a \<and> (\<forall>k. k \<noteq> i \<longrightarrow> Get B J None k d' = Get B J None k d)"
proof -
  note l = assms(1)
  obtain r d' where u: "Update B J ctx now i (Some f) d = (r, d')" by fastforce
  show ?thesis
  proof (cases r)
    case (Inr a)
    obtain before b where g: "Get B J None i d = Inr before" and f: "f before = Inr b"
      and kept: "ag_ID b = ag_ID before" "ag_CreatedAt b = ag_CreatedAt before" "Valid (ag_Status b)"
      and p: "put B J (b\<lparr>ag_UpdatedAt := now\<rparr>) d = (Inr a, d')" and bucket: "b_Bucket B bucketAgents d"
      using agent_store.Update_ok [OF l u [unfolded Inr]] by (metis option.inject)
    have c: "clean (b\<lparr>ag_UpdatedAt := now\<rparr>)"
      using assms(3) f agent_store.Get_clean [OF l g] by (simp add: keeps_clean_def)
    have i: "ag_ID b = i"
      using g assms(2) kept(1) agent_store.Get_Inr [OF l] by (fastforce simp: readable_def)
    show ?thesis
      using agent_store.Get_after_put [OF l p c bucket] agent_store.put_ok(1) [OF l p c] g f kept i u Inr by auto
  qed (use u agent_store.Update_error [OF l] in auto)
qed

subsection \<open>A sample database\<close>

definition sample_spec :: "string \<Rightarrow> CreateSpec" where
  "sample_spec i =
     \<lparr>cs_ID = i, cs_Name = ''worker'', cs_Description = [], cs_Backend = ''ollama'', cs_Harness = [],
      cs_Model = [], cs_FastModel = [], cs_OllamaURL = [], cs_Repo = [], cs_AutoCompactThreshold = [],
      cs_MaxContextTokens = [], cs_AutoMode = [], cs_AnthropicAccountID = [], cs_Image = []\<rparr>"

lemma sample_spec_ID [simp]: "cs_ID (sample_spec i) = i"
  by (simp add: sample_spec_def)

definition sample_bolt :: "(Agent, Agent ref_db) bolt" where
  "sample_bolt = ref_bolt (\<lambda>_. False)"

definition agents_db :: "(string \<times> string) list \<Rightarrow> Agent ref_db" where
  "agents_db kss = (\<lambda>n. if n = bucketAgents
     then Some (fold (\<lambda>(k, st). RBT.insert k ((new_agent (sample_spec k) 7)\<lparr>ag_Status := st\<rparr>)) kss RBT.empty)
     else None)"

lemma sample_agent_store: "agent_store sample_bolt plain_json (\<lambda>_. True)"
  unfolding sample_bolt_def by unfold_locales

lemma sample_bolt_sel [simp]:
  "b_Bucket sample_bolt bucketAgents (agents_db kss)"
  "b_Get sample_bolt bucketAgents k (agents_db []) = None"
  "b_Get sample_bolt bucketAgents k (agents_db [(i, st)]) =
     (if k = i then Some ((new_agent (sample_spec i) 7)\<lparr>ag_Status := st\<rparr>) else None)"
  by (auto simp: sample_bolt_def ref_bolt_defs agents_db_def)

lemma sample_json_sel [simp]: "Unmarshal plain_json a = Inr a" "Marshal plain_json a = Inr a"
  by (simp_all add: plain_json_def)

lemma sample_reserved:
  "reserved sample_bolt plain_json (agents_db []) = {}"
  "reserved sample_bolt plain_json (agents_db [(i, st)]) = (if CountsTowardCapacity st then {i} else {})"
  by (auto simp: reserved_def)

lemma sample_readable:
  "readable sample_bolt plain_json (agents_db [])" "readable sample_bolt plain_json (agents_db [(i, st)])"
  by (simp_all add: readable_def sample_spec_def)

lemma sample_Create:
  "Create sample_bolt plain_json 1 None 7 (sample_spec ''agt_1'') (agents_db []) =
     (Inr (new_agent (sample_spec ''agt_1'') 7), agents_db [(''agt_1'', StatusCreating)])"
proof -
  have "countReserved sample_bolt plain_json (agents_db []) = Inr 0"
    using bolt_api.countReserved_total [of sample_bolt plain_json "agents_db []"] sample_agent_store
    by (simp add: sample_readable sample_reserved agent_store_def record_store_def)
  then show ?thesis
    by (auto simp: Create_def update_def db_Update_def put_def put_record_def sample_spec_def new_agent_def)
       (auto simp: sample_bolt_def ref_bolt_defs agents_db_def sample_spec_def new_agent_def)
qed

theorem Create_reserves_slot_witness:
  "agent_store sample_bolt plain_json (\<lambda>_. True) \<and>
   (case Create sample_bolt plain_json 1 None 7 (sample_spec ''agt_1'') (agents_db []) of
      (Inl e, d') \<Rightarrow> False
    | (Inr a, d') \<Rightarrow> Get sample_bolt plain_json None ''agt_1'' d' = Inr a \<and>
        reserved sample_bolt plain_json d' = {''agt_1''}) \<and>
   (\<exists>e. Create sample_bolt plain_json 1 None 8 (sample_spec ''agt_2'') (agents_db [(''agt_1'', StatusRunning)])
          = (Inl e, agents_db [(''agt_1'', StatusRunning)]) \<and> IsAtCapacity e)"
  using Create_reserves_slot [OF sample_agent_store TrueI,
      where maxAgents = 1 and ctx = None and now = 7 and spec = "sample_spec ''agt_1''" and d = "agents_db []"]
    Create_reserves_slot [OF sample_agent_store TrueI,
      where maxAgents = 1 and ctx = None and now = 8 and spec = "sample_spec ''agt_2''"
        and d = "agents_db [(''agt_1'', StatusRunning)]"]
  by (simp add: sample_agent_store sample_Create sample_reserved sample_readable CountsTowardCapacity_def)

theorem cap_holds_over_history_witness:
  "(store_step sample_bolt plain_json (\<lambda>_. True) 1)\<^sup>*\<^sup>* (agents_db []) (agents_db [(''agt_1'', StatusCreating)]) \<and>
   countReserved sample_bolt plain_json (agents_db [(''agt_1'', StatusCreating)]) = Inr 1"
proof -
  have "store_step sample_bolt plain_json (\<lambda>_. True) 1 (agents_db []) (agents_db [(''agt_1'', StatusCreating)])"
    by (rule create_call [OF sample_Create TrueI])
  then have run: "(store_step sample_bolt plain_json (\<lambda>_. True) 1)\<^sup>*\<^sup>* (agents_db []) (agents_db [(''agt_1'', StatusCreating)])"
    by blast
  then show ?thesis
    using cap_holds_over_history [OF sample_agent_store run]
    by (simp add: sample_readable sample_reserved)
qed

definition rename_to :: "string \<Rightarrow> Agent \<Rightarrow> store_error + Agent" where
  "rename_to name a = Inr (a\<lparr>ag_Name := name\<rparr>)"

theorem Update_atomic_witness:
  "case Update sample_bolt plain_json None 9 ''agt_1'' (Some (rename_to ''scout'')) (agents_db [(''agt_1'', StatusRunning)]) of
     (Inl e, d') \<Rightarrow> False
   | (Inr a, d') \<Rightarrow> ag_Name a = ''scout'' \<and> ag_ID a = ''agt_1'' \<and> ag_CreatedAt a = 7 \<and> ag_UpdatedAt a = 9 \<and>
       Get sample_bolt plain_json None ''agt_1'' d' = Inr a"
proof -
  let ?u = "Update sample_bolt plain_json None 9 ''agt_1'' (Some (rename_to ''scout'')) (agents_db [(''agt_1'', StatusRunning)])"
  have g: "Get sample_bolt plain_json None ''agt_1'' (agents_db [(''agt_1'', StatusRunning)]) =
      Inr ((new_agent (sample_spec ''agt_1'') 7)\<lparr>ag_Status := StatusRunning\<rparr>)"
    by (simp add: agent_store.Get_Inr [OF sample_agent_store])
  have "\<exists>a d'. ?u = (Inr a, d')"
    by (auto simp: Update_def mutate_record_def update_def db_Update_def decode_record_def rename_to_def
          checkInvariants_def Valid_def put_record_def wrap_error_def sample_spec_def new_agent_def)
       (auto simp: sample_bolt_def ref_bolt_defs agents_db_def)
  then show ?thesis
    using Update_atomic [OF sample_agent_store, where d = "agents_db [(''agt_1'', StatusRunning)]" and now = 9
        and f = "rename_to ''scout''" and ctx = None and i = "''agt_1''"] g
    by (auto simp: sample_readable keeps_clean_def rename_to_def new_agent_def)
qed

end
