(* ===== verification/Op_Registry.thy ===== *)
theory Op_Registry
  imports Agent_Store
begin

section \<open>Operations in flight, and stopping an agent\<close>

text \<open>
  \<^verbatim>\<open>src/docker-operator/internal/agent/inflight.go\<close>: the registry of operations in flight, a count of
  references per agent, shown to be a multiset of holders that one operation at a time can
  claim; \<^verbatim>\<open>markShielded\<close> and \<^verbatim>\<open>markRebuildError\<close> of \<^verbatim>\<open>reconcile.go\<close>, \<^verbatim>\<open>stamp\<close> of \<^verbatim>\<open>create.go\<close>, and
  \<^verbatim>\<open>StopAgent\<close> of \<^verbatim>\<open>stopresume.go\<close> with its guards and failure paths. The Docker daemon is a
  parameter.
\<close>

subsection \<open>The registry\<close>

text \<open>The map from agent IDs to counts; an ID that is not in it counts 0.\<close>

type_synonym opRegistry = "string \<rightharpoonup> int"

definition refs :: "opRegistry \<Rightarrow> string \<Rightarrow> int" where
  "refs r i = (case r i of None \<Rightarrow> 0 | Some n \<Rightarrow> n)"

definition op_begin :: "string \<Rightarrow> opRegistry \<Rightarrow> opRegistry" where
  "op_begin i r = r(i \<mapsto> refs r i + 1)"

definition tryBegin :: "string \<Rightarrow> opRegistry \<Rightarrow> bool \<times> opRegistry" where
  "tryBegin i r = (if refs r i > 0 then (False, r) else (True, r(i \<mapsto> 1)))"

definition release :: "string \<Rightarrow> opRegistry \<Rightarrow> opRegistry" where
  "release i r =
     (let n = refs r i
      in if n \<le> 0 then r
         else if n = 1 then r(i := None)
         else r(i \<mapsto> n - 1))"

definition busy :: "string \<Rightarrow> opRegistry \<Rightarrow> bool" where
  "busy i r \<longleftrightarrow> refs r i > 0"

text \<open>The registry that holds exactly the given multiset of references.\<close>

definition holds :: "opRegistry \<Rightarrow> string multiset \<Rightarrow> bool" where
  "holds r M \<longleftrightarrow> r = (\<lambda>i. if count M i = 0 then None else Some (int (count M i)))"

lemma holds_refs: "holds r M \<Longrightarrow> refs r i = int (count M i)"
  by (simp add: holds_def refs_def)

lemma holds_busy: "holds r M \<Longrightarrow> busy i r \<longleftrightarrow> i \<in># M"
  by (simp add: busy_def holds_refs)

lemma holds_begin: "holds r M \<Longrightarrow> holds (op_begin i r) (add_mset i M)"
  using holds_refs [of r M i] by (auto simp: op_begin_def holds_def fun_eq_iff not_in_iff simp del: count_eq_zero_iff)

lemma holds_tryBegin:
  "holds r M \<Longrightarrow> tryBegin i r = (i \<notin># M, if i \<in># M then r else op_begin i r)"
  using holds_refs [of r M i]
  by (auto simp: tryBegin_def op_begin_def count_greater_zero_iff [symmetric] simp del: count_greater_zero_iff count_eq_zero_iff)

lemma holds_release: "holds r M \<Longrightarrow> holds (release i r) (M - {#i#})"
  using holds_refs [of r M i]
  by (auto simp: release_def Let_def holds_def fun_eq_iff split: if_splits simp del: count_eq_zero_iff count_greater_zero_iff)

text \<open>Sequences of calls on the registry, and the references they leave.\<close>

datatype op = Begin string | TryBegin string | Release string

fun run_op :: "op \<Rightarrow> opRegistry \<Rightarrow> opRegistry" where
  "run_op (Begin i) r = op_begin i r"
| "run_op (TryBegin i) r = snd (tryBegin i r)"
| "run_op (Release i) r = release i r"

fun held :: "op \<Rightarrow> string multiset \<Rightarrow> string multiset" where
  "held (Begin i) M = add_mset i M"
| "held (TryBegin i) M = (if i \<in># M then M else add_mset i M)"
| "held (Release i) M = M - {#i#}"

lemma holds_run_op: "holds r M \<Longrightarrow> holds (run_op p r) (held p M)"
  by (cases p) (auto simp: holds_tryBegin intro: holds_begin holds_release)

lemma holds_run_ops: "holds r M \<Longrightarrow> holds (fold run_op ps r) (fold held ps M)"
  by (induction ps arbitrary: r M) (auto intro: holds_run_op)

lemma holds_empty: "holds Map.empty {#}"
  by (simp add: holds_def)

text \<open>
  C36: the registry is a faithful count of the operations in flight. Over any sequence of
  claims, attempts and releases it holds exactly the references taken and not yet released:
  an attempt succeeds if and only if nobody holds the agent, a nested release does not free an
  agent an outer holder still needs, a stray release changes nothing, and an agent nobody
  holds has no entry, so the map does not grow.
\<close>

theorem registry_counts_holders:
  "holds (fold run_op ps Map.empty) (fold held ps {#}) \<and>
   (fst (tryBegin i (fold run_op ps Map.empty)) = (i \<notin># fold held ps {#})) \<and>
   (busy i (fold run_op ps Map.empty) = (i \<in># fold held ps {#})) \<and>
   (fold run_op ps Map.empty i = None) = (i \<notin># fold held ps {#})"
proof -
  have "holds (fold run_op ps Map.empty) (fold held ps {#})"
    by (rule holds_run_ops [OF holds_empty])
  then show ?thesis by (simp add: holds_tryBegin holds_busy) (simp add: holds_def not_in_iff)
qed

subsection \<open>Shields and stamps\<close>

definition ErrOperationInFlight :: store_error where
  "ErrOperationInFlight = Sentinel ''another operation is already in flight for this agent''"
definition ErrNotStoppable :: store_error where
  "ErrNotStoppable = Sentinel ''agent is not in a stoppable state''"
definition ErrNotResumable :: store_error where
  "ErrNotResumable = Sentinel ''agent is not in a resumable state''"
definition errShieldStandDown :: store_error where
  "errShieldStandDown = Sentinel ''the record no longer matches the expected status''"

text \<open>An error's text.\<close>

fun error_text :: "store_error \<Rightarrow> string" where
  "error_text (Sentinel m) = m"
| "error_text (Plain m) = m"
| "error_text (Wrap m e) = m @ '': '' @ error_text e"

definition shield :: "string \<Rightarrow> Agent \<Rightarrow> store_error + Agent" where
  "shield from ag =
     (if ag_Status ag \<noteq> from then Inl errShieldStandDown
      else Inr (ag\<lparr>ag_Status := StatusUpdating, ag_ErrorMessage := []\<rparr>))"

definition markShielded :: "('r, 'd) bolt \<Rightarrow> ('r, Agent) json \<Rightarrow> store_error option \<Rightarrow> time \<Rightarrow> string \<Rightarrow> string \<Rightarrow> 'd \<Rightarrow>
    (store_error + bool) \<times> 'd" where
  "markShielded B J ctx now i from d =
     (case Update B J ctx now i (Some (shield from)) d of
        (Inr _, d1) \<Rightarrow> (Inr True, d1)
      | (Inl e, d1) \<Rightarrow> if errors_Is e errShieldStandDown then (Inr False, d1) else (Inl e, d1))"

definition stamp :: "('r, 'd) bolt \<Rightarrow> ('r, Agent) json \<Rightarrow> store_error option \<Rightarrow> time \<Rightarrow> Agent \<Rightarrow> string \<Rightarrow> (Agent \<Rightarrow> Agent) \<Rightarrow> 'd \<Rightarrow>
    (store_error + Agent) \<times> 'd" where
  "stamp B J ctx now a what mutate d =
     (case Update B J ctx now (ag_ID a) (Some (\<lambda>ag. Inr (mutate ag))) d of
        (Inl e, d1) \<Rightarrow> (Inl (Wrap (''recording '' @ what) e), d1)
      | (Inr updated, d1) \<Rightarrow> (Inr updated, d1))"

definition markStopped :: "('r, 'd) bolt \<Rightarrow> ('r, Agent) json \<Rightarrow> store_error option \<Rightarrow> time \<Rightarrow> Agent \<Rightarrow> 'd \<Rightarrow>
    (store_error + Agent) \<times> 'd" where
  "markStopped B J ctx now a =
     stamp B J ctx now a ''the stopped status'' (\<lambda>ag. ag\<lparr>ag_Status := StatusStopped, ag_ErrorMessage := []\<rparr>)"

definition stop_error_note :: string where
  "stop_error_note = ''could not stop this agent (its containers, workspace, Claude-config and DinD-cache volumes are all intact -- fix the cause and retry via Update (or Delete)): ''"

definition markStopError :: "('r, 'd) bolt \<Rightarrow> ('r, Agent) json \<Rightarrow> time \<Rightarrow> string \<Rightarrow> store_error \<Rightarrow> 'd \<Rightarrow> 'd" where
  "markStopError B J now i cause d =
     snd (Update B J None now i
       (Some (\<lambda>ag. Inr (ag\<lparr>ag_Status := StatusError, ag_ErrorMessage := stop_error_note @ error_text cause\<rparr>))) d)"

subsection \<open>Stopping an agent\<close>

definition resourcePrefix :: string where "resourcePrefix = ''docker-operator''"

definition agentContainerName :: "string \<Rightarrow> string" where
  "agentContainerName i = resourcePrefix @ ''-agent-'' @ i"

definition dindContainerName :: "string \<Rightarrow> string" where
  "dindContainerName i = resourcePrefix @ ''-dind-'' @ i"

fun firstNonEmpty :: "string list \<Rightarrow> string" where
  "firstNonEmpty [] = []"
| "firstNonEmpty (v # vs) = (if v \<noteq> [] then v else firstNonEmpty vs)"

record ('d, 'w) manager =
  m_inFlight :: opRegistry
  m_db :: 'd
  m_docker :: 'w

text \<open>
  \<open>ContainerStop\<close> is the daemon's, \<open>ctx n\<close> and \<open>now n\<close> are the context's error and the clock at the
  \<open>n\<close>th access to the store.
\<close>

definition stop_containers :: "(string \<Rightarrow> 'w \<Rightarrow> store_error option \<times> 'w) \<Rightarrow> Agent \<Rightarrow> 'w \<Rightarrow> store_error list \<times> 'w" where
  "stop_containers ContainerStop a w =
     (let agentRef = firstNonEmpty [ag_ContainerID a, ag_ContainerName a, agentContainerName (ag_ID a)];
          dindRef = firstNonEmpty [ag_DindContainerID a, ag_DindContainerName a, dindContainerName (ag_ID a)];
          (e1, w1) = ContainerStop agentRef w;
          (e2, w2) = ContainerStop dindRef w1
      in (map (Wrap ''stopping the agent container'') (case e1 of None \<Rightarrow> [] | Some e \<Rightarrow> [e])
          @ map (Wrap ''stopping the dind sidecar'') (case e2 of None \<Rightarrow> [] | Some e \<Rightarrow> [e]), w2))"

text \<open>\<^verbatim>\<open>errors.Join\<close> puts the texts on lines of their own.\<close>

fun errors_Join :: "store_error list \<Rightarrow> store_error option" where
  "errors_Join [] = None"
| "errors_Join [e] = Some e"
| "errors_Join (e # es) =
     (case errors_Join es of None \<Rightarrow> Some e | Some e' \<Rightarrow> Some (Plain (error_text e @ [CHR 0x0A] @ error_text e')))"

definition stop_body :: "('r, 'd) bolt \<Rightarrow> ('r, Agent) json \<Rightarrow> (string \<Rightarrow> 'w \<Rightarrow> store_error option \<times> 'w) \<Rightarrow>
    (nat \<Rightarrow> store_error option) \<Rightarrow> (nat \<Rightarrow> time) \<Rightarrow> string \<Rightarrow> 'd \<Rightarrow> 'w \<Rightarrow> (store_error + Agent) \<times> 'd \<times> 'w" where
  "stop_body B J ContainerStop ctx now i d w =
     (case Get B J (ctx 0) i d of
        Inl e \<Rightarrow> (Inl e, d, w)
      | Inr a \<Rightarrow>
          if ag_Status a \<noteq> StatusRunning then (Inl (Wrap ''stopping agent'' ErrNotStoppable), d, w)
          else (case markShielded B J (ctx 1) (now 1) i StatusRunning d of
             (Inl e, d1) \<Rightarrow> (Inl (Wrap ''stopping agent: marking it updating'' e), d1, w)
           | (Inr False, d1) \<Rightarrow> (Inl (Wrap ''stopping agent'' ErrNotStoppable), d1, w)
           | (Inr True, d1) \<Rightarrow>
               (case stop_containers ContainerStop a w of
                  (errs, w1) \<Rightarrow>
                    (case errors_Join errs of
                       Some e \<Rightarrow> (Inl e, markStopError B J (now 2) i e d1, w1)
                     | None \<Rightarrow>
                         (case markStopped B J (ctx 2) (now 2) a d1 of
                            (Inl e, d2) \<Rightarrow>
                              (let err = Wrap ''stopping agent: marking it stopped'' e
                               in (Inl err, markStopError B J (now 3) i err d2, w1))
                          | (Inr a1, d2) \<Rightarrow> (Inr a1, d2, w1))))))"

definition StopAgent :: "('r, 'd) bolt \<Rightarrow> ('r, Agent) json \<Rightarrow> (string \<Rightarrow> 'w \<Rightarrow> store_error option \<times> 'w) \<Rightarrow>
    (nat \<Rightarrow> store_error option) \<Rightarrow> (nat \<Rightarrow> time) \<Rightarrow> string \<Rightarrow> ('d, 'w) manager \<Rightarrow> (store_error + Agent) \<times> ('d, 'w) manager" where
  "StopAgent B J ContainerStop ctx now i m =
     (case tryBegin i (m_inFlight m) of
        (False, _) \<Rightarrow> (Inl (Wrap ''stopping agent'' ErrOperationInFlight), m)
      | (True, r) \<Rightarrow>
          (case stop_body B J ContainerStop ctx now i (m_db m) (m_docker m) of
             (res, d, w) \<Rightarrow> (res, \<lparr>m_inFlight = release i r, m_db = d, m_docker = w\<rparr>)))"

subsection \<open>What stopping does\<close>

lemma holds_release_begin: "holds r M \<Longrightarrow> i \<notin># M \<Longrightarrow> release i (op_begin i r) = r"
proof -
  assume "holds r M" and "i \<notin># M"
  then have "holds (release i (op_begin i r)) M"
    using holds_release [OF holds_begin, of r M i i] by simp
  with \<open>holds r M\<close> show ?thesis by (simp add: holds_def)
qed

text \<open>The records whose status and message the operator sets stay clean.\<close>

definition status_clean :: "(Agent \<Rightarrow> bool) \<Rightarrow> bool" where
  "status_clean clean \<longleftrightarrow>
     (\<forall>a st t. clean a \<longrightarrow> Valid st \<longrightarrow> clean (a\<lparr>ag_Status := st, ag_ErrorMessage := [], ag_UpdatedAt := t\<rparr>))"

lemma stop_body_docker:
  assumes "stop_body B J ContainerStop ctx now i d w = (Inr a, d', w')" and "Get B J None i d = Inr a0"
  shows "snd (stop_containers ContainerStop a0 w) = w'"
  using assms
  by (auto simp: stop_body_def Let_def Get_def get_record_def view_def
           split: if_splits prod.splits sum.splits option.splits bool.splits)

context agent_store
begin

text \<open>An update touches one record, whether or not it succeeds.\<close>

lemma Update_other:
  assumes "Update B J ctx now i mutate d = (r, d')" and "readable B J d" and "k \<noteq> i"
  shows "Get B J None k d' = Get B J None k d"
proof (cases r)
  case (Inr a')
  from assms(1) [unfolded Inr] show ?thesis
  proof (rule Update_ok)
    fix f before a
    assume g: "Get B J None i d = Inr before" and same: "ag_ID a = ag_ID before"
      and p: "put B J (a\<lparr>ag_UpdatedAt := now\<rparr>) d = (Inr a', d')"
    have "ag_ID a = i" using g same assms(2) by (fastforce simp: Get_Inr readable_def)
    then show ?thesis
      using p put_spec assms(3)
      by (intro Get_other) (auto simp: put_def put_record_def split: sum.splits prod.splits option.splits)
  qed
next
  case (Inl e)
  show ?thesis using Update_error [OF assms(1) [unfolded Inl]] by simp
qed

lemma Update_stored:
  assumes "Update B J ctx now i (Some f) d = (Inr a', d')" and "readable B J d" and "keeps_clean clean now f"
  obtains before a where "Get B J None i d = Inr before" and "f before = Inr a" and "a' = a\<lparr>ag_UpdatedAt := now\<rparr>"
    and "ag_ID a = i" and "Get B J None i d' = Inr a'" and "readable B J d'"
    and "reserved B J d' = (if CountsTowardCapacity (ag_Status a) then insert i (reserved B J d) else reserved B J d - {i})"
proof -
  from assms(1) obtain before a where g: "Get B J None i d = Inr before" and f: "f before = Inr a"
    and same: "ag_ID a = ag_ID before" and p: "put B J (a\<lparr>ag_UpdatedAt := now\<rparr>) d = (Inr a', d')"
    and b: "b_Bucket B bucketAgents d"
    by (auto elim: Update_ok)
  have c: "clean (a\<lparr>ag_UpdatedAt := now\<rparr>)" using assms(3) f Get_clean [OF g] by (simp add: keeps_clean_def)
  have i: "ag_ID a = i" using g same assms(2) by (fastforce simp: Get_Inr readable_def)
  show ?thesis
    using that [OF g f] put_ok(1) [OF p c] Get_after_put [OF p c b] put_readable [OF p c assms(2)]
      put_reserved [OF p c] i by simp
qed

lemma markShielded_other:
  assumes "markShielded B J ctx now i from d = (r, d')" and "readable B J d" and "k \<noteq> i"
  shows "Get B J None k d' = Get B J None k d"
proof -
  from assms(1) obtain u where "Update B J ctx now i (Some (shield from)) d = (u, d')"
    by (auto simp: markShielded_def split: prod.splits sum.splits if_splits)
  then show ?thesis using assms(2,3) by (rule Update_other)
qed

lemma shield_Inr:
  "shield from before = Inr a \<longleftrightarrow>
     ag_Status before = from \<and> a = before\<lparr>ag_Status := StatusUpdating, ag_ErrorMessage := []\<rparr>"
  by (auto simp: shield_def)

lemma shield_keeps_clean: "status_clean clean \<Longrightarrow> keeps_clean clean now (shield from)"
  by (simp add: keeps_clean_def shield_Inr status_clean_def Valid_def)

lemma markShielded_True:
  assumes "markShielded B J ctx now i from d = (Inr True, d')" and "readable B J d" and "status_clean clean"
  obtains a where "Get B J None i d = Inr a" and "ag_Status a = from"
    and "Get B J None i d' = Inr (a\<lparr>ag_Status := StatusUpdating, ag_ErrorMessage := [], ag_UpdatedAt := now\<rparr>)"
    and "readable B J d'" and "reserved B J d' = insert i (reserved B J d)"
proof -
  from assms(1) obtain a' where u: "Update B J ctx now i (Some (shield from)) d = (Inr a', d')"
    by (auto simp: markShielded_def split: prod.splits sum.splits if_splits)
  obtain before a where g: "Get B J None i d = Inr before" and f: "shield from before = Inr a"
    and a': "a' = a\<lparr>ag_UpdatedAt := now\<rparr>" and g': "Get B J None i d' = Inr a'" and "readable B J d'"
    and r: "reserved B J d' = (if CountsTowardCapacity (ag_Status a) then insert i (reserved B J d) else reserved B J d - {i})"
    using Update_stored [OF u assms(2) shield_keeps_clean [OF assms(3)]] by metis
  show ?thesis
  proof (rule that [OF g])
    show "ag_Status before = from" using f by (simp add: shield_Inr)
    show "Get B J None i d' = Inr (before\<lparr>ag_Status := StatusUpdating, ag_ErrorMessage := [], ag_UpdatedAt := now\<rparr>)"
      using f g' a' by (simp add: shield_Inr)
    show "reserved B J d' = insert i (reserved B J d)"
      using f r by (simp add: shield_Inr CountsTowardCapacity_def)
  qed fact
qed

lemma markStopped_other:
  assumes "markStopped B J ctx now a d = (r, d')" and "readable B J d" and "k \<noteq> ag_ID a"
  shows "Get B J None k d' = Get B J None k d"
proof -
  from assms(1) obtain u where
    "Update B J ctx now (ag_ID a) (Some (\<lambda>ag. Inr (ag\<lparr>ag_Status := StatusStopped, ag_ErrorMessage := []\<rparr>))) d = (u, d')"
    by (auto simp: markStopped_def stamp_def split: prod.splits sum.splits)
  then show ?thesis using assms(2,3) by (rule Update_other)
qed

lemma markStopped_error: "markStopped B J ctx now a d = (Inl e, d') \<Longrightarrow> d' = d"
  using Update_error by (auto simp: markStopped_def stamp_def split: prod.splits sum.splits)

lemma markStopped_ok:
  assumes "markStopped B J ctx now a d = (Inr a', d')" and "readable B J d" and "status_clean clean"
  obtains before where "Get B J None (ag_ID a) d = Inr before"
    and "a' = before\<lparr>ag_Status := StatusStopped, ag_ErrorMessage := [], ag_UpdatedAt := now\<rparr>"
    and "Get B J None (ag_ID a) d' = Inr a'" and "reserved B J d' = reserved B J d - {ag_ID a}"
proof -
  let ?f = "\<lambda>ag. Inr (ag\<lparr>ag_Status := StatusStopped, ag_ErrorMessage := []\<rparr>)"
  have k: "keeps_clean clean now ?f"
    using assms(3) by (auto simp: keeps_clean_def status_clean_def Valid_def)
  from assms(1) have "Update B J ctx now (ag_ID a) (Some ?f) d = (Inr a', d')"
    by (auto simp: markStopped_def stamp_def split: prod.splits sum.splits)
  then show ?thesis
    using assms(2) k
    by (rule Update_stored) (auto intro: that simp: CountsTowardCapacity_def agent_status_defs split: if_splits)
qed

lemma markStopError_other:
  assumes "readable B J d" and "k \<noteq> i"
  shows "Get B J None k (markStopError B J now i cause d) = Get B J None k d"
  unfolding markStopError_def using Update_other [OF prod.collapse [symmetric] assms] by simp

lemma stop_body_other:
  assumes "stop_body B J ContainerStop ctx now i d w = (r, d', w')" and "readable B J d"
    and "status_clean clean" and "k \<noteq> i"
  shows "Get B J None k d' = Get B J None k d"
proof (cases "\<exists>a d1. Get B J (ctx 0) i d = Inr a \<and> markShielded B J (ctx 1) (now 1) i StatusRunning d = (Inr True, d1)")
  case True
  then obtain a d1 where g: "Get B J (ctx 0) i d = Inr a"
    and m: "markShielded B J (ctx 1) (now 1) i StatusRunning d = (Inr True, d1)" by blast
  have rd: "readable B J d1" using markShielded_True [OF m assms(2,3)] by blast
  have k1: "Get B J None k d1 = Get B J None k d" by (rule markShielded_other [OF m assms(2,4)])
  have id: "ag_ID a = i" using g assms(2) by (fastforce simp: Get_Inr readable_def)
  consider "d' = d" | n e where "d' = markStopError B J n i e d1"
    | a1 where "markStopped B J (ctx 2) (now 2) a d1 = (Inr a1, d')"
    using assms(1) g m
    by (auto simp: stop_body_def Let_def dest: markStopped_error
             split: if_splits prod.splits sum.splits option.splits)
  then show ?thesis
    using markStopError_other [OF rd assms(4)] markStopped_other [OF _ rd] k1 id assms(4) by cases auto
next
  case False
  then have "d' = d \<or> (\<exists>q. markShielded B J (ctx 1) (now 1) i StatusRunning d = (q, d'))"
    using assms(1)
    by (auto simp: stop_body_def split: if_splits prod.splits sum.splits bool.splits)
  then show ?thesis using markShielded_other assms(2,4) by blast
qed

lemma stop_body_ok:
  assumes "stop_body B J ContainerStop ctx now i d w = (Inr a, d', w')" and "readable B J d" and "status_clean clean"
  obtains a0 where "Get B J None i d = Inr a0" and "ag_Status a0 = StatusRunning"
    and "a = a0\<lparr>ag_Status := StatusStopped, ag_ErrorMessage := [], ag_UpdatedAt := now 2\<rparr>"
    and "Get B J None i d' = Inr a" and "reserved B J d' = reserved B J d - {i}"
    and "fst (stop_containers ContainerStop a0 w) = []"
proof -
  from assms(1) obtain a0 d1 where g: "Get B J (ctx 0) i d = Inr a0" and st: "ag_Status a0 = StatusRunning"
    and m: "markShielded B J (ctx 1) (now 1) i StatusRunning d = (Inr True, d1)"
    and j: "errors_Join (fst (stop_containers ContainerStop a0 w)) = None"
    and p: "markStopped B J (ctx 2) (now 2) a0 d1 = (Inr a, d')"
    by (auto simp: stop_body_def Let_def split: if_splits prod.splits sum.splits option.splits bool.splits)
  have g0: "Get B J None i d = Inr a0" using g by (simp add: Get_Inr)
  have id: "ag_ID a0 = i" using g assms(2) by (fastforce simp: Get_Inr readable_def)
  have none: "fst (stop_containers ContainerStop a0 w) = []"
    using j by (cases "fst (stop_containers ContainerStop a0 w)" rule: errors_Join.cases) (auto split: option.splits)
  obtain g1: "Get B J None i d1 = Inr (a0\<lparr>ag_Status := StatusUpdating, ag_ErrorMessage := [], ag_UpdatedAt := now 1\<rparr>)"
    and rd: "readable B J d1" and r1: "reserved B J d1 = insert i (reserved B J d)"
    using markShielded_True [OF m assms(2,3)] g0 by (metis sum.inject(2))
  show ?thesis
  proof (rule markStopped_ok [OF p rd assms(3)])
    fix before
    assume b: "Get B J None (ag_ID a0) d1 = Inr before"
      and a: "a = before\<lparr>ag_Status := StatusStopped, ag_ErrorMessage := [], ag_UpdatedAt := now 2\<rparr>"
      and g2: "Get B J None (ag_ID a0) d' = Inr a" and r2: "reserved B J d' = reserved B J d1 - {ag_ID a0}"
    show ?thesis
    proof (rule that [OF g0 st])
      show "a = a0\<lparr>ag_Status := StatusStopped, ag_ErrorMessage := [], ag_UpdatedAt := now 2\<rparr>"
        using a b g1 by (auto simp: id)
      show "Get B J None i d' = Inr a" using g2 by (simp add: id)
      show "reserved B J d' = reserved B J d - {i}" using r1 r2 by (simp add: id)
    qed (rule none)
  qed
qed

end

text \<open>
  C34: stopping an agent takes only what is its own. A second operation on the same agent is
  refused and changes nothing. On every path, failures included, the claim is released and
  all other records are untouched. When the stop reports success, the agent was running, both
  of its containers were stopped, and its record differs from the old one only in the status,
  the message and the time, so that it no longer holds a slot.
\<close>

theorem StopAgent_safe:
  assumes "agent_store B J clean" and "status_clean clean" and "readable B J (m_db m)"
    and "holds (m_inFlight m) M" and "StopAgent B J ContainerStop ctx now i m = (r, m')"
  shows "m_inFlight m' = m_inFlight m \<and>
     (i \<in># M \<longrightarrow> m' = m \<and> (\<exists>e. r = Inl e \<and> errors_Is e ErrOperationInFlight)) \<and>
     (\<forall>k. k \<noteq> i \<longrightarrow> Get B J None k (m_db m') = Get B J None k (m_db m)) \<and>
     (\<forall>a. r = Inr a \<longrightarrow>
        (\<exists>a0. Get B J None i (m_db m) = Inr a0 \<and> ag_Status a0 = StatusRunning \<and>
           a = a0\<lparr>ag_Status := StatusStopped, ag_ErrorMessage := [], ag_UpdatedAt := now 2\<rparr> \<and>
           stop_containers ContainerStop a0 (m_docker m) = ([], m_docker m')) \<and>
        Get B J None i (m_db m') = Inr a \<and> reserved B J (m_db m') = reserved B J (m_db m) - {i})"
proof (cases "i \<in># M")
  case True
  then show ?thesis
    using assms(5) holds_tryBegin [OF assms(4), of i]
    by (auto simp: StopAgent_def ErrOperationInFlight_def)
next
  case False
  note l = assms(1)
  obtain d' w' where body: "stop_body B J ContainerStop ctx now i (m_db m) (m_docker m) = (r, d', w')"
    and m': "m' = \<lparr>m_inFlight = m_inFlight m, m_db = d', m_docker = w'\<rparr>"
    using assms(5) holds_tryBegin [OF assms(4), of i] holds_release_begin [OF assms(4) False] False
    by (auto simp: StopAgent_def split: prod.splits)
  have "\<exists>a0. Get B J None i (m_db m) = Inr a0 \<and> ag_Status a0 = StatusRunning \<and>
           a = a0\<lparr>ag_Status := StatusStopped, ag_ErrorMessage := [], ag_UpdatedAt := now 2\<rparr> \<and>
           stop_containers ContainerStop a0 (m_docker m) = ([], w') \<and>
           Get B J None i d' = Inr a \<and> reserved B J d' = reserved B J (m_db m) - {i}" if r: "r = Inr a" for a
    using agent_store.stop_body_ok [OF l body [unfolded r] assms(3,2)] stop_body_docker [OF body [unfolded r]]
    by (metis prod.collapse)
  then show ?thesis
    using False m' agent_store.stop_body_other [OF l body assms(3,2)] by auto
qed

subsection \<open>Samples\<close>

definition sample_stop :: "string \<Rightarrow> string list \<Rightarrow> store_error option \<times> string list" where
  "sample_stop ref w = (None, w @ [ref])"

definition sample_manager :: "opRegistry \<Rightarrow> (Agent ref_db, string list) manager" where
  "sample_manager r = \<lparr>m_inFlight = r, m_db = agents_db [(''agt_1'', StatusRunning)], m_docker = []\<rparr>"

lemma agents_db_put:
  "b_Put sample_bolt bucketAgents k a d = (case d bucketAgents of
     None \<Rightarrow> (Some (Plain ''no such bucket''), d)
   | Some t \<Rightarrow> if k = [] then (Some (Plain ''key required''), d)
                else (None, d(bucketAgents \<mapsto> RBT.insert k a t)))"
  by (simp add: sample_bolt_def ref_bolt_defs)

lemma sample_Update:
  assumes "d bucketAgents = Some t" and "RBT.lookup t i = Some before" and "f before = Inr a"
    and "checkInvariants before a = None" and "ag_ID a = i" and "i \<noteq> []"
  shows "Update sample_bolt plain_json None now i (Some f) d =
     (Inr (a\<lparr>ag_UpdatedAt := now\<rparr>), d(bucketAgents \<mapsto> RBT.insert i (a\<lparr>ag_UpdatedAt := now\<rparr>) t))"
  using assms
  by (simp add: Update_def mutate_record_def update_def db_Update_def decode_record_def put_record_def
      wrap_error_def sample_bolt_def ref_bolt_defs)

lemma sample_StopAgent:
  "case StopAgent sample_bolt plain_json sample_stop (\<lambda>_. None) (\<lambda>n. 7 + int n) ''agt_1'' (sample_manager Map.empty) of
     (Inl e, m') \<Rightarrow> False
   | (Inr a, m') \<Rightarrow> ag_UpdatedAt a = 9 \<and>
       m_docker m' = [''docker-operator-agent-agt_1'', ''docker-operator-dind-agt_1'']"
proof -
  let ?a0 = "(new_agent (sample_spec ''agt_1'') 7)\<lparr>ag_Status := StatusRunning\<rparr>"
  let ?a1 = "?a0\<lparr>ag_Status := StatusUpdating, ag_ErrorMessage := [], ag_UpdatedAt := 8\<rparr>"
  define t where "t = RBT.insert ''agt_1'' ?a0 RBT.empty"
  have db: "agents_db [(''agt_1'', StatusRunning)] bucketAgents = Some t" and l: "RBT.lookup t ''agt_1'' = Some ?a0"
    by (simp_all add: agents_db_def t_def)
  have g: "Get sample_bolt plain_json None ''agt_1'' (agents_db [(''agt_1'', StatusRunning)]) = Inr ?a0"
    by (simp add: agent_store.Get_Inr [OF sample_agent_store])
  have m: "markShielded sample_bolt plain_json None 8 ''agt_1'' StatusRunning (agents_db [(''agt_1'', StatusRunning)]) =
      (Inr True, (agents_db [(''agt_1'', StatusRunning)])(bucketAgents \<mapsto> RBT.insert ''agt_1'' ?a1 t))"
    unfolding markShielded_def
    by (subst sample_Update [where t = t and before = ?a0]) (simp_all add: db l shield_def checkInvariants_def Valid_def)
  have p: "\<exists>a d'. markStopped sample_bolt plain_json None 9 ?a0
        ((agents_db [(''agt_1'', StatusRunning)])(bucketAgents \<mapsto> RBT.insert ''agt_1'' ?a1 t)) =
      (Inr a, d') \<and> ag_UpdatedAt a = 9"
    unfolding markStopped_def stamp_def
    by (subst sample_Update [where t = "RBT.insert ''agt_1'' ?a1 t" and before = ?a1
          and a = "?a1\<lparr>ag_Status := StatusStopped, ag_ErrorMessage := []\<rparr>"])
       (simp_all add: checkInvariants_def Valid_def)
  have c: "stop_containers sample_stop ?a0 [] = ([], [''docker-operator-agent-agt_1'', ''docker-operator-dind-agt_1''])"
    by (simp add: stop_containers_def sample_stop_def new_agent_def agentContainerName_def dindContainerName_def
        resourcePrefix_def)
  show ?thesis
    using g m p c
    by (auto simp: StopAgent_def sample_manager_def tryBegin_def refs_def stop_body_def)
qed

theorem StopAgent_safe_witness:
  "case StopAgent sample_bolt plain_json sample_stop (\<lambda>_. None) (\<lambda>n. 7 + int n) ''agt_1'' (sample_manager Map.empty) of
     (Inl e, m') \<Rightarrow> False
   | (Inr a, m') \<Rightarrow> ag_Status a = StatusStopped \<and> ag_CreatedAt a = 7 \<and> m_inFlight m' = Map.empty \<and>
       reserved sample_bolt plain_json (m_db m') = {} \<and>
       m_docker m' = [''docker-operator-agent-agt_1'', ''docker-operator-dind-agt_1'']"
proof -
  obtain r m' where s: "StopAgent sample_bolt plain_json sample_stop (\<lambda>_. None) (\<lambda>n. 7 + int n) ''agt_1''
      (sample_manager Map.empty) = (r, m')" by fastforce
  have "holds (m_inFlight (sample_manager Map.empty)) {#}" by (simp add: sample_manager_def holds_empty)
  then show ?thesis
    using StopAgent_safe [OF sample_agent_store _ _ _ s, where M = "{#}"] sample_StopAgent s
    by (auto simp: sample_manager_def status_clean_def sample_readable sample_reserved CountsTowardCapacity_def
        new_agent_def agent_store.Get_Inr [OF sample_agent_store] split: sum.splits)
qed

subsection \<open>Resuming over the cap\<close>

text \<open>
  \<^verbatim>\<open>ResumeAgent\<close> shields a stopped agent with \<^verbatim>\<open>markShielded(StatusStopped)\<close>, which gives it a slot
  without counting: with one agent allowed and one running, a second, stopped agent is resumed
  and two agents hold a slot.
\<close>

theorem resume_exceeds_cap:
  "\<exists>d d'. reserved sample_bolt plain_json d = {''agt_1''} \<and>
     Get sample_bolt plain_json None ''agt_2'' d = Inr ((new_agent (sample_spec ''agt_2'') 7)\<lparr>ag_Status := StatusStopped\<rparr>) \<and>
     markShielded sample_bolt plain_json None 8 ''agt_2'' StatusStopped d = (Inr True, d') \<and>
     reserved sample_bolt plain_json d' = {''agt_1'', ''agt_2''}"
proof -
  let ?d = "agents_db [(''agt_1'', StatusRunning), (''agt_2'', StatusStopped)]"
  let ?a2 = "(new_agent (sample_spec ''agt_2'') 7)\<lparr>ag_Status := StatusStopped\<rparr>"
  have get: "b_Get sample_bolt bucketAgents k ?d =
      (if k = ''agt_2'' then Some ?a2
       else if k = ''agt_1'' then Some ((new_agent (sample_spec ''agt_1'') 7)\<lparr>ag_Status := StatusRunning\<rparr>) else None)" for k
    by (simp add: sample_bolt_def ref_bolt_defs agents_db_def)
  then have r: "reserved sample_bolt plain_json ?d = {''agt_1''}"
    by (auto simp: reserved_def CountsTowardCapacity_def agent_status_defs split: if_splits)
  have rd: "readable sample_bolt plain_json ?d" using get by (auto simp: readable_def)
  have g: "Get sample_bolt plain_json None ''agt_2'' ?d = Inr ?a2"
    using get by (simp add: agent_store.Get_Inr [OF sample_agent_store])
  obtain t where "?d bucketAgents = Some t" and "RBT.lookup t ''agt_2'' = Some ?a2"
    by (simp add: agents_db_def)
  then have "\<exists>d'. markShielded sample_bolt plain_json None 8 ''agt_2'' StatusStopped ?d = (Inr True, d')"
    unfolding markShielded_def
    by (subst sample_Update [where t = t and before = ?a2
          and a = "?a2\<lparr>ag_Status := StatusUpdating, ag_ErrorMessage := []\<rparr>"])
       (simp_all add: shield_def checkInvariants_def Valid_def)
  then obtain d' where m: "markShielded sample_bolt plain_json None 8 ''agt_2'' StatusStopped ?d = (Inr True, d')" ..
  have "reserved sample_bolt plain_json d' = insert ''agt_2'' {''agt_1''}"
    using agent_store.markShielded_True [OF sample_agent_store m rd] r by (auto simp: status_clean_def)
  then show ?thesis using r g m by auto
qed

end
