(* ===== verification/Template_Store.thy ===== *)
theory Template_Store
  imports Bolt
begin

section \<open>Templates and cron agents\<close>

text \<open>
  \<^verbatim>\<open>src/docker-operator/internal/store/template.go\<close> and \<^verbatim>\<open>cronagent.go\<close>: the saved templates, whose
  names are unique up to surrounding white space, and the cron agents, which refer to
  templates. The lemmas show that the uniqueness survives every operation, and that deleting a
  template never takes it away from a cron agent.
\<close>

subsection \<open>\<^verbatim>\<open>strings.TrimSpace\<close>\<close>

text \<open>The UTF-8 encodings of the characters Go counts as white space.\<close>

definition space_runes :: "string list" where
  "space_runes =
     [[CHR 0x09], [CHR 0x0A], [CHR 0x0B], [CHR 0x0C], [CHR 0x0D], [CHR 0x20], [CHR 0xC2, CHR 0x85],
      [CHR 0xC2, CHR 0xA0], [CHR 0xE1, CHR 0x9A, CHR 0x80]]
     @ map (\<lambda>c. [CHR 0xE2, CHR 0x80, c])
         [CHR 0x80, CHR 0x81, CHR 0x82, CHR 0x83, CHR 0x84, CHR 0x85, CHR 0x86, CHR 0x87, CHR 0x88, CHR 0x89,
          CHR 0x8A, CHR 0xA8, CHR 0xA9, CHR 0xAF]
     @ [[CHR 0xE2, CHR 0x81, CHR 0x9F], [CHR 0xE3, CHR 0x80, CHR 0x80]]"

function trim_runes :: "string list \<Rightarrow> string \<Rightarrow> string" where
  "trim_runes ps s =
     (case find (\<lambda>p. p \<noteq> [] \<and> HasPrefix s p) ps of
        None \<Rightarrow> s
      | Some p \<Rightarrow> trim_runes ps (drop (length p) s))"
  by pat_completeness auto

lemma find_prefix_shorter:
  "find (\<lambda>p. p \<noteq> [] \<and> HasPrefix s p) ps = Some p \<Longrightarrow> length (drop (length p) s) < length s"
  by (cases s) (auto simp: find_Some_iff HasPrefix_iff)

termination trim_runes
  by (relation "measure (\<lambda>(ps, s). length s)") (simp_all add: find_prefix_shorter del: length_drop)

declare trim_runes.simps [simp del]

definition TrimSpace :: "string \<Rightarrow> string" where
  "TrimSpace s = rev (trim_runes (map rev space_runes) (rev (trim_runes space_runes s)))"

subsection \<open>Records\<close>

definition ErrTemplateNotFound :: store_error where "ErrTemplateNotFound = Sentinel ''template not found''"
definition ErrTemplateNameExists :: store_error where "ErrTemplateNameExists = Sentinel ''template name already in use''"
definition ErrTemplateExists :: store_error where "ErrTemplateExists = Sentinel ''template already exists''"
definition ErrTemplateInUse :: store_error where "ErrTemplateInUse = Sentinel ''template is in use by a cron agent''"
definition ErrCronAgentNotFound :: store_error where "ErrCronAgentNotFound = Sentinel ''cron agent not found''"
definition ErrCronAgentExists :: store_error where "ErrCronAgentExists = Sentinel ''cron agent already exists''"

definition bucketTemplates :: string where "bucketTemplates = ''templates''"
definition bucketCronAgents :: string where "bucketCronAgents = ''cron_agents''"

lemma buckets_differ [simp]: "bucketTemplates \<noteq> bucketCronAgents" "bucketCronAgents \<noteq> bucketTemplates"
  by (simp_all add: bucketTemplates_def bucketCronAgents_def)

record Template =
  t_ID :: string
  t_Name :: string
  t_Description :: string
  t_Backend :: string
  t_Model :: string
  t_FastModel :: string
  t_OllamaURL :: string
  t_Repo :: string
  t_AutoCompactThreshold :: string
  t_MaxContextTokens :: string
  t_ImageTag :: string
  t_AutoMode :: string
  t_Harness :: string
  t_CreatedAt :: time
  t_UpdatedAt :: time

record TemplateCreateSpec =
  ts_ID :: string
  ts_Name :: string
  ts_Description :: string
  ts_Backend :: string
  ts_Model :: string
  ts_FastModel :: string
  ts_OllamaURL :: string
  ts_Repo :: string
  ts_AutoCompactThreshold :: string
  ts_MaxContextTokens :: string
  ts_ImageTag :: string
  ts_AutoMode :: string
  ts_Harness :: string

definition new_template :: "TemplateCreateSpec \<Rightarrow> time \<Rightarrow> Template" where
  "new_template spec now =
     \<lparr>t_ID = ts_ID spec, t_Name = ts_Name spec, t_Description = ts_Description spec, t_Backend = ts_Backend spec,
      t_Model = ts_Model spec, t_FastModel = ts_FastModel spec, t_OllamaURL = ts_OllamaURL spec,
      t_Repo = ts_Repo spec, t_AutoCompactThreshold = ts_AutoCompactThreshold spec,
      t_MaxContextTokens = ts_MaxContextTokens spec, t_ImageTag = ts_ImageTag spec, t_AutoMode = ts_AutoMode spec,
      t_Harness = ts_Harness spec, t_CreatedAt = now, t_UpdatedAt = now\<rparr>"

record CronAgent =
  ca_ID :: string
  ca_Name :: string
  ca_TemplateID :: string
  ca_Schedule :: string
  ca_Enabled :: bool
  ca_Task :: string
  ca_OnComplete :: string
  ca_CreatedAt :: time
  ca_UpdatedAt :: time

record CronAgentCreateSpec =
  cas_ID :: string
  cas_Name :: string
  cas_TemplateID :: string
  cas_Schedule :: string
  cas_Enabled :: bool
  cas_Task :: string
  cas_OnComplete :: string

definition new_cron_agent :: "CronAgentCreateSpec \<Rightarrow> time \<Rightarrow> CronAgent" where
  "new_cron_agent spec now =
     \<lparr>ca_ID = cas_ID spec, ca_Name = cas_Name spec, ca_TemplateID = cas_TemplateID spec,
      ca_Schedule = cas_Schedule spec, ca_Enabled = cas_Enabled spec, ca_Task = cas_Task spec,
      ca_OnComplete = cas_OnComplete spec, ca_CreatedAt = now, ca_UpdatedAt = now\<rparr>"

subsection \<open>Templates\<close>

definition putTemplate :: "('r, 'd) bolt \<Rightarrow> ('r, Template) json \<Rightarrow> Template \<Rightarrow> 'd \<Rightarrow> (store_error + Template) \<times> 'd" where
  "putTemplate B J = put_record B J bucketTemplates ''template'' t_ID"

definition decodeTemplate :: "('r, Template) json \<Rightarrow> 'r \<Rightarrow> store_error + Template" where
  "decodeTemplate J = decode_record J ''template''"

fun name_free_step :: "('r, Template) json \<Rightarrow> string \<Rightarrow> string \<Rightarrow> string \<times> 'r \<Rightarrow> unit \<Rightarrow> store_error + unit" where
  "name_free_step J excludeID name (k, raw) u =
     (if k = excludeID then Inr ()
      else case decodeTemplate J raw of
             Inl e \<Rightarrow> Inl e
           | Inr existing \<Rightarrow> if TrimSpace (t_Name existing) = name then Inl ErrTemplateNameExists else Inr ())"

definition checkTemplateNameFree :: "('r, 'd) bolt \<Rightarrow> ('r, Template) json \<Rightarrow> string \<Rightarrow> string \<Rightarrow> 'd \<Rightarrow> store_error option" where
  "checkTemplateNameFree B J excludeID name d =
     (case for_each (name_free_step J excludeID (TrimSpace name)) (b_Pairs B bucketTemplates d) () of
        Inl e \<Rightarrow> Some e
      | Inr _ \<Rightarrow> None)"

definition checkTemplateInvariants :: "Template \<Rightarrow> Template \<Rightarrow> store_error option" where
  "checkTemplateInvariants before after =
     (if t_ID after \<noteq> t_ID before then Some (Plain ''the mutator changed the ID; it is immutable'')
      else if t_CreatedAt after \<noteq> t_CreatedAt before
      then Some (Plain ''the mutator changed CreatedAt; it is immutable'')
      else None)"

definition CreateTemplate :: "('r, 'd) bolt \<Rightarrow> ('r, Template) json \<Rightarrow> store_error option \<Rightarrow> time \<Rightarrow> TemplateCreateSpec \<Rightarrow> 'd \<Rightarrow>
    (store_error + Template) \<times> 'd" where
  "CreateTemplate B J ctx now spec d =
     (if ts_ID spec = [] then (Inl (Plain ''creating a template: the ID must not be empty''), d)
      else update B bucketTemplates ctx
        (\<lambda>d. if b_Get B bucketTemplates (ts_ID spec) d \<noteq> None then (Inl (Wrap ''creating template'' ErrTemplateExists), d)
             else case checkTemplateNameFree B J (ts_ID spec) (ts_Name spec) d of
                    Some e \<Rightarrow> (Inl (Wrap ''creating template'' e), d)
                  | None \<Rightarrow> putTemplate B J (new_template spec now) d) d)"

definition GetTemplate :: "('r, 'd) bolt \<Rightarrow> ('r, Template) json \<Rightarrow> store_error option \<Rightarrow> string \<Rightarrow> 'd \<Rightarrow> store_error + Template" where
  "GetTemplate B J = get_record B J bucketTemplates ''template'' ErrTemplateNotFound"

definition ListTemplates :: "('r, 'd) bolt \<Rightarrow> ('r, Template) json \<Rightarrow> store_error option \<Rightarrow> 'd \<Rightarrow> store_error + Template list" where
  "ListTemplates B J = list_records B J bucketTemplates ''template'' (\<lambda>_. True)"

definition UpdateTemplate :: "('r, 'd) bolt \<Rightarrow> ('r, Template) json \<Rightarrow> store_error option \<Rightarrow> time \<Rightarrow> string \<Rightarrow>
    (Template \<Rightarrow> store_error + Template) option \<Rightarrow> 'd \<Rightarrow> (store_error + Template) \<times> 'd" where
  "UpdateTemplate B J ctx now i mutate d =
     (case mutate of
        None \<Rightarrow> (Inl (Plain ''updating template: the mutator must not be nil''), d)
      | Some f \<Rightarrow> mutate_record B J bucketTemplates ''template'' t_ID ErrTemplateNotFound ctx i f
                    (\<lambda>before after d. case checkTemplateInvariants before after of
                       Some e \<Rightarrow> Some e
                     | None \<Rightarrow> checkTemplateNameFree B J i (t_Name after) d)
                    (\<lambda>t. t\<lparr>t_UpdatedAt := now\<rparr>) d)"

subsection \<open>Cron agents\<close>

definition putCronAgent :: "('r, 'd) bolt \<Rightarrow> ('r, CronAgent) json \<Rightarrow> CronAgent \<Rightarrow> 'd \<Rightarrow> (store_error + CronAgent) \<times> 'd" where
  "putCronAgent B J = put_record B J bucketCronAgents ''cron agent'' ca_ID"

definition decodeCronAgent :: "('r, CronAgent) json \<Rightarrow> 'r \<Rightarrow> store_error + CronAgent" where
  "decodeCronAgent J = decode_record J ''cron agent''"

definition CreateCronAgent :: "('r, 'd) bolt \<Rightarrow> ('r, CronAgent) json \<Rightarrow> store_error option \<Rightarrow> time \<Rightarrow> CronAgentCreateSpec \<Rightarrow> 'd \<Rightarrow>
    (store_error + CronAgent) \<times> 'd" where
  "CreateCronAgent B J ctx now spec d =
     (if cas_ID spec = [] then (Inl (Plain ''creating a cron agent: the ID must not be empty''), d)
      else update B bucketCronAgents ctx
        (\<lambda>d. if b_Get B bucketCronAgents (cas_ID spec) d \<noteq> None
             then (Inl (Wrap ''creating cron agent'' ErrCronAgentExists), d)
             else putCronAgent B J (new_cron_agent spec now) d) d)"

definition GetCronAgent :: "('r, 'd) bolt \<Rightarrow> ('r, CronAgent) json \<Rightarrow> store_error option \<Rightarrow> string \<Rightarrow> 'd \<Rightarrow> store_error + CronAgent" where
  "GetCronAgent B J = get_record B J bucketCronAgents ''cron agent'' ErrCronAgentNotFound"

definition ListCronAgents :: "('r, 'd) bolt \<Rightarrow> ('r, CronAgent) json \<Rightarrow> store_error option \<Rightarrow> 'd \<Rightarrow> store_error + CronAgent list" where
  "ListCronAgents B J = list_records B J bucketCronAgents ''cron agent'' (\<lambda>_. True)"

definition UpdateCronAgent :: "('r, 'd) bolt \<Rightarrow> ('r, CronAgent) json \<Rightarrow> store_error option \<Rightarrow> time \<Rightarrow> string \<Rightarrow>
    (CronAgent \<Rightarrow> store_error + CronAgent) option \<Rightarrow> 'd \<Rightarrow> (store_error + CronAgent) \<times> 'd" where
  "UpdateCronAgent B J ctx now i mutate d =
     (case mutate of
        None \<Rightarrow> (Inl (Plain ''updating cron agent: the mutator must not be nil''), d)
      | Some f \<Rightarrow> mutate_record B J bucketCronAgents ''cron agent'' ca_ID ErrCronAgentNotFound ctx i f
                    (\<lambda>before after _.
                       if ca_ID after \<noteq> ca_ID before then Some (Plain ''the mutator changed the ID; it is immutable'')
                       else if ca_CreatedAt after \<noteq> ca_CreatedAt before
                       then Some (Plain ''the mutator changed CreatedAt; it is immutable'')
                       else None)
                    (\<lambda>ca. ca\<lparr>ca_UpdatedAt := now\<rparr>) d)"

definition DeleteCronAgent :: "('r, 'd) bolt \<Rightarrow> store_error option \<Rightarrow> string \<Rightarrow> 'd \<Rightarrow> (store_error + unit) \<times> 'd" where
  "DeleteCronAgent B = delete_record B bucketCronAgents ''cron agent''"

text \<open>The scan of \<^verbatim>\<open>DeleteTemplate\<close> keeps the first cron agent that refers to the template.\<close>

fun in_use_step :: "('r, CronAgent) json \<Rightarrow> string \<Rightarrow> string \<times> 'r \<Rightarrow> string \<Rightarrow> store_error + string" where
  "in_use_step J i (k, raw) inUseByID =
     (if inUseByID \<noteq> [] then Inr inUseByID
      else case decodeCronAgent J raw of
             Inl e \<Rightarrow> Inl e
           | Inr ca \<Rightarrow> Inr (if ca_TemplateID ca = i then ca_ID ca else inUseByID))"

definition DeleteTemplate :: "('r, 'd) bolt \<Rightarrow> ('r, CronAgent) json \<Rightarrow> store_error option \<Rightarrow> string \<Rightarrow> 'd \<Rightarrow>
    (store_error + unit) \<times> 'd" where
  "DeleteTemplate B J ctx i d =
     (case ctx of
        Some e \<Rightarrow> (Inl e, d)
      | None \<Rightarrow> db_Update B
          (\<lambda>d. if \<not> b_Bucket B bucketCronAgents d then (Inl (missing_bucket bucketCronAgents), d)
               else case for_each (in_use_step J i) (b_Pairs B bucketCronAgents d) [] of
                      Inl e \<Rightarrow> (Inl e, d)
                    | Inr inUseByID \<Rightarrow>
                        if inUseByID \<noteq> [] then (Inl (Wrap ''deleting template'' ErrTemplateInUse), d)
                        else if \<not> b_Bucket B bucketTemplates d then (Inl (missing_bucket bucketTemplates), d)
                        else (case b_Delete B bucketTemplates i d of
                                (Some e, d1) \<Rightarrow> (Inl (Wrap ''deleting template'' e), d1)
                              | (None, d1) \<Rightarrow> (Inr (), d1))) d)"

subsection \<open>Template names are unique\<close>

definition templates_ok :: "('r, 'd) bolt \<Rightarrow> ('r, Template) json \<Rightarrow> 'd \<Rightarrow> bool" where
  "templates_ok B J d \<longleftrightarrow>
     (\<forall>k raw. b_Get B bucketTemplates k d = Some raw \<longrightarrow> (\<exists>t. Unmarshal J raw = Inr t \<and> t_ID t = k)) \<and>
     (\<forall>k k' raw raw' t t'. b_Get B bucketTemplates k d = Some raw \<longrightarrow> b_Get B bucketTemplates k' d = Some raw' \<longrightarrow>
        Unmarshal J raw = Inr t \<longrightarrow> Unmarshal J raw' = Inr t' \<longrightarrow> k \<noteq> k' \<longrightarrow>
        TrimSpace (t_Name t) \<noteq> TrimSpace (t_Name t'))"

definition mutator_clean :: "(Template \<Rightarrow> bool) \<Rightarrow> time \<Rightarrow> (Template \<Rightarrow> store_error + Template) \<Rightarrow> bool" where
  "mutator_clean clean now f \<longleftrightarrow> (\<forall>a b. clean a \<longrightarrow> f a = Inr b \<longrightarrow> clean (b\<lparr>t_UpdatedAt := now\<rparr>))"

lemma name_free_loop:
  "for_each (name_free_step J x name) kvs u = Inr v \<Longrightarrow> (k, raw) \<in> set kvs \<Longrightarrow> k \<noteq> x \<Longrightarrow>
   \<exists>t. Unmarshal J raw = Inr t \<and> TrimSpace (t_Name t) \<noteq> name"
proof (induction kvs arbitrary: u)
  case (Cons kv kvs)
  then show ?case
    by (cases kv) (auto simp: decodeTemplate_def decode_record_def wrap_error_def split: if_splits sum.splits)
qed simp

inductive template_step :: "('r, 'd) bolt \<Rightarrow> ('r, Template) json \<Rightarrow> ('r, CronAgent) json \<Rightarrow> (Template \<Rightarrow> bool) \<Rightarrow> 'd \<Rightarrow> 'd \<Rightarrow> bool"
  for B J JC clean where
  create_template: "CreateTemplate B J ctx now spec d = (r, d') \<Longrightarrow> clean (new_template spec now) \<Longrightarrow>
     template_step B J JC clean d d'"
| update_template: "UpdateTemplate B J ctx now i (Some f) d = (r, d') \<Longrightarrow> mutator_clean clean now f \<Longrightarrow>
     template_step B J JC clean d d'"
| delete_template: "DeleteTemplate B JC ctx i d = (u, d') \<Longrightarrow> template_step B J JC clean d d'"
| other_buckets: "\<forall>k. b_Get B bucketTemplates k d' = b_Get B bucketTemplates k d \<Longrightarrow> template_step B J JC clean d d'"

context bolt_api
begin

lemma name_free:
  assumes "checkTemplateNameFree B J x name d = None" and "b_Get B bucketTemplates k d = Some raw" and "k \<noteq> x"
  shows "\<exists>t. Unmarshal J raw = Inr t \<and> TrimSpace (t_Name t) \<noteq> TrimSpace name"
  using assms name_free_loop [of J x "TrimSpace name" "b_Pairs B bucketTemplates d" "()" _ k raw]
  by (auto simp: checkTemplateNameFree_def pairs_set split: sum.splits)

lemma DeleteTemplate_error: "DeleteTemplate B JC ctx i d = (Inl e, d') \<Longrightarrow> d' = d"
  by (auto simp: DeleteTemplate_def dest: db_Update_error split: option.splits)

lemma DeleteTemplate_ok:
  assumes "DeleteTemplate B JC ctx i d = (Inr u, d')"
  shows "for_each (in_use_step JC i) (b_Pairs B bucketCronAgents d) [] = Inr []"
    and "b_Get B n k d' = (if n = bucketTemplates \<and> k = i then None else b_Get B n k d)"
    and "b_Bucket B n d' = b_Bucket B n d"
  using assms delete_spec [of bucketTemplates i d d']
  by (auto simp: DeleteTemplate_def dest!: db_Update_ok split: option.splits if_splits sum.splits prod.splits)

end

locale template_store = record_store B J clean
  for B :: "('r, 'd) bolt" and J :: "('r, Template) json" and clean :: "Template \<Rightarrow> bool"
begin

lemma putTemplate_keeps:
  assumes "putTemplate B J t d = (Inr t', d')" and "clean t" and "templates_ok B J d"
    and "checkTemplateNameFree B J (t_ID t) (t_Name t) d = None"
  shows "templates_ok B J d'"
proof -
  from assms(1,2) obtain raw where dec: "Unmarshal J raw = Inr t"
    and get: "\<And>k. b_Get B bucketTemplates k d' = (if k = t_ID t then Some raw else b_Get B bucketTemplates k d)"
    unfolding putTemplate_def by (auto elim: put_record_ok)
  have free: "TrimSpace (t_Name t1) \<noteq> TrimSpace (t_Name t)"
    if "k \<noteq> t_ID t" "b_Get B bucketTemplates k d = Some raw1" "Unmarshal J raw1 = Inr t1" for k raw1 t1
    using name_free [OF assms(4) that(2,1)] that(3) by auto
  show ?thesis
    using assms(3) dec get free unfolding templates_ok_def
    by (auto split: if_splits dest: free)
qed

lemma CreateTemplate_keeps:
  assumes "CreateTemplate B J ctx now spec d = (r, d')" and "clean (new_template spec now)" and "templates_ok B J d"
  shows "templates_ok B J d'"
proof (cases r)
  case (Inr t)
  then have "putTemplate B J (new_template spec now) d = (Inr t, d')"
    and "checkTemplateNameFree B J (ts_ID spec) (ts_Name spec) d = None"
    using assms(1) by (auto simp: CreateTemplate_def dest!: update_ok split: if_splits option.splits)
  then show ?thesis
    using putTemplate_keeps assms(2,3) by (simp add: new_template_def)
next
  case (Inl e)
  then have "d' = d" using assms(1) by (auto simp: CreateTemplate_def dest: update_error split: if_splits)
  then show ?thesis using assms(3) by simp
qed

lemma UpdateTemplate_keeps:
  assumes "UpdateTemplate B J ctx now i (Some f) d = (r, d')" and "mutator_clean clean now f" and "templates_ok B J d"
  shows "templates_ok B J d'"
proof (cases r)
  case (Inr t')
  from assms(1) [unfolded Inr UpdateTemplate_def option.case]
  show ?thesis
  proof (rule mutate_record_ok)
    fix before t
    assume g: "get_record B J bucketTemplates ''template'' ErrTemplateNotFound None i d = Inr before"
      and f: "f before = Inr t"
      and c: "(case checkTemplateInvariants before t of Some e \<Rightarrow> Some e
               | None \<Rightarrow> checkTemplateNameFree B J i (t_Name t) d) = None"
      and p: "put_record B J bucketTemplates ''template'' t_ID (t\<lparr>t_UpdatedAt := now\<rparr>) d = (Inr t', d')"
    have "clean before" using g decoded_clean by (auto simp: get_record_Inr)
    then have cl: "clean (t\<lparr>t_UpdatedAt := now\<rparr>)" using assms(2) f by (simp add: mutator_clean_def)
    have "t_ID before = i" using g assms(3) by (fastforce simp: get_record_Inr templates_ok_def)
    then have i: "t_ID t = i" and free: "checkTemplateNameFree B J i (t_Name t) d = None"
      using c by (auto simp: checkTemplateInvariants_def split: if_splits)
    show ?thesis
      using putTemplate_keeps [of "t\<lparr>t_UpdatedAt := now\<rparr>" d t' d'] p cl assms(3) free i
      by (simp add: putTemplate_def)
  qed
next
  case (Inl e)
  then have "d' = d"
    using assms(1) by (auto simp: UpdateTemplate_def mutate_record_def dest: update_error)
  then show ?thesis using assms(3) by simp
qed

lemma templates_ok_subset:
  assumes "templates_ok B J d" and "\<And>k raw. b_Get B bucketTemplates k d' = Some raw \<Longrightarrow> b_Get B bucketTemplates k d = Some raw"
  shows "templates_ok B J d'"
  unfolding templates_ok_def
proof (intro conjI allI impI)
  fix k raw assume "b_Get B bucketTemplates k d' = Some raw"
  then show "\<exists>t. Unmarshal J raw = Inr t \<and> t_ID t = k" using assms by (simp add: templates_ok_def)
next
  fix k k' raw raw' t t'
  assume "b_Get B bucketTemplates k d' = Some raw" and "b_Get B bucketTemplates k' d' = Some raw'"
    and "Unmarshal J raw = Inr t" and "Unmarshal J raw' = Inr t'" and "k \<noteq> k'"
  then show "TrimSpace (t_Name t) \<noteq> TrimSpace (t_Name t')"
    using assms(1) assms(2) [of k raw] assms(2) [of k' raw'] unfolding templates_ok_def by blast
qed

lemma template_step_keeps:
  assumes "templates_ok B J d" and "template_step B J JC clean d d'"
  shows "templates_ok B J d'"
  using assms(2)
proof cases
  case (delete_template ctx i u)
  show ?thesis
  proof (rule templates_ok_subset [OF assms(1)])
    fix k raw assume "b_Get B bucketTemplates k d' = Some raw"
    then show "b_Get B bucketTemplates k d = Some raw"
      using DeleteTemplate_error [of JC ctx i d _ d'] DeleteTemplate_ok(2) [of JC ctx i d _ d' bucketTemplates k]
        delete_template
      by (cases u) (simp_all split: if_splits)
  qed
next
  case other_buckets
  show ?thesis by (rule templates_ok_subset [OF assms(1)]) (use other_buckets in simp)
qed (use assms(1) CreateTemplate_keeps UpdateTemplate_keeps in blast)+

end

text \<open>Every cron agent is stored under its own ID and can be read.\<close>

definition crons_ok :: "('r, 'd) bolt \<Rightarrow> ('r, CronAgent) json \<Rightarrow> 'd \<Rightarrow> bool" where
  "crons_ok B J d \<longleftrightarrow> (\<forall>k raw. b_Get B bucketCronAgents k d = Some raw \<longrightarrow>
     k \<noteq> [] \<and> (\<exists>ca. Unmarshal J raw = Inr ca \<and> ca_ID ca = k))"

definition refers :: "('r, 'd) bolt \<Rightarrow> ('r, CronAgent) json \<Rightarrow> string \<Rightarrow> 'd \<Rightarrow> bool" where
  "refers B J i d \<longleftrightarrow> (\<exists>k raw ca. b_Get B bucketCronAgents k d = Some raw \<and> Unmarshal J raw = Inr ca \<and> ca_TemplateID ca = i)"

lemma in_use_loop:
  assumes "\<And>k raw. (k, raw) \<in> set kvs \<Longrightarrow> k \<noteq> [] \<and> (\<exists>ca. Unmarshal J raw = Inr ca \<and> ca_ID ca = k)"
  shows "\<exists>x. for_each (in_use_step J i) kvs acc = Inr x \<and>
     (x = [] \<longleftrightarrow> acc = [] \<and> (\<forall>(k, raw) \<in> set kvs. \<forall>ca. Unmarshal J raw = Inr ca \<longrightarrow> ca_TemplateID ca \<noteq> i))"
  using assms
proof (induction kvs arbitrary: acc)
  case (Cons kv kvs)
  obtain k raw where kv: "kv = (k, raw)" by fastforce
  then obtain ca where ca: "Unmarshal J raw = Inr ca" "ca_ID ca \<noteq> []"
    using Cons.prems [of k raw] by auto
  let ?acc = "if acc \<noteq> [] then acc else if ca_TemplateID ca = i then ca_ID ca else acc"
  have step: "in_use_step J i kv acc = Inr ?acc"
    using ca by (simp add: kv decodeCronAgent_def decode_record_def wrap_error_def)
  have "\<exists>x. for_each (in_use_step J i) kvs ?acc = Inr x \<and>
      (x = [] \<longleftrightarrow> ?acc = [] \<and> (\<forall>(k, raw) \<in> set kvs. \<forall>ca. Unmarshal J raw = Inr ca \<longrightarrow> ca_TemplateID ca \<noteq> i))"
    by (rule Cons.IH) (rule Cons.prems, simp)
  then obtain x where "for_each (in_use_step J i) kvs ?acc = Inr x"
    and "x = [] \<longleftrightarrow> ?acc = [] \<and> (\<forall>(k, raw) \<in> set kvs. \<forall>ca. Unmarshal J raw = Inr ca \<longrightarrow> ca_TemplateID ca \<noteq> i)"
    by blast
  then show ?case using step ca by (intro exI [of _ x]) (auto simp: kv simp del: in_use_step.simps)
qed simp

context bolt_api
begin

lemma in_use_scan:
  assumes "crons_ok B J d"
  shows "\<exists>x. for_each (in_use_step J i) (b_Pairs B bucketCronAgents d) [] = Inr x \<and> (x = [] \<longleftrightarrow> \<not> refers B J i d)"
  using in_use_loop [of "b_Pairs B bucketCronAgents d" J i "[]"] assms
  by (fastforce simp: pairs_set crons_ok_def refers_def)

end

sublocale template_store \<subseteq> names: invariant_machine "templates_ok B J" "template_step B J JC clean" "templates_ok B J" for JC
  by unfold_locales (auto intro: template_step_keeps)

context template_store
begin

lemma history_names:
  "(template_step B J JC clean)\<^sup>*\<^sup>* d d' \<Longrightarrow> templates_ok B J d \<Longrightarrow> templates_ok B J d'"
  by (rule names.inv_steps)

end

text \<open>
  Template names stay unique. From a database in which no two templates share a name up to
  surrounding white space, no sequence of creates, renames and deletes, with any writes to
  the other buckets in between, leads to one in which two do.
\<close>

theorem template_names_stay_unique:
  assumes "template_store B J clean" and "(template_step B J JC clean)\<^sup>*\<^sup>* d d'" and "templates_ok B J d"
    and "GetTemplate B J None k d' = Inr t" and "GetTemplate B J None k' d' = Inr t'"
    and "k \<noteq> k'"
  shows "TrimSpace (t_Name t) \<noteq> TrimSpace (t_Name t')"
proof -
  have ok: "templates_ok B J d'" by (rule template_store.history_names [OF assms(1-3)])
  have "record_store B J clean" using assms(1) by (simp add: template_store_def)
  then obtain raw raw' where "b_Get B bucketTemplates k d' = Some raw" "Unmarshal J raw = Inr t"
      "b_Get B bucketTemplates k' d' = Some raw'" "Unmarshal J raw' = Inr t'"
    using assms(4,5) by (auto simp: GetTemplate_def record_store.get_record_Inr)
  then show ?thesis using ok assms(6) unfolding templates_ok_def by blast
qed

text \<open>
  A template is never deleted from under a cron agent. A delete that succeeds removes the
  template and nothing else, and no cron agent refers to it; while one does, the delete is
  refused as in use; a delete that fails changes nothing.
\<close>

theorem DeleteTemplate_leaves_no_orphan:
  assumes "bolt_api B" and "crons_ok B J d"
  shows "(case DeleteTemplate B J ctx i d of
            (Inl e, d') \<Rightarrow> d' = d
          | (Inr u, d') \<Rightarrow>
              (\<forall>n k. b_Get B n k d' = (if n = bucketTemplates \<and> k = i then None else b_Get B n k d)) \<and>
              \<not> refers B J i d') \<and>
         (refers B J i d \<and> b_Bucket B bucketCronAgents d \<longrightarrow>
          (\<exists>e. DeleteTemplate B J None i d = (Inl e, d) \<and> errors_Is e ErrTemplateInUse))"
proof (intro conjI impI)
  note l = assms(1)
  obtain x where scan: "for_each (in_use_step J i) (b_Pairs B bucketCronAgents d) [] = Inr x"
    and x: "x = [] \<longleftrightarrow> \<not> refers B J i d"
    using bolt_api.in_use_scan [OF assms] by blast
  obtain r d' where del: "DeleteTemplate B J ctx i d = (r, d')" by fastforce
  show "case DeleteTemplate B J ctx i d of
            (Inl e, d') \<Rightarrow> d' = d
          | (Inr u, d') \<Rightarrow>
              (\<forall>n k. b_Get B n k d' = (if n = bucketTemplates \<and> k = i then None else b_Get B n k d)) \<and>
              \<not> refers B J i d'"
  proof (cases r)
    case (Inr u)
    note ok = bolt_api.DeleteTemplate_ok [OF l del [unfolded Inr]]
    have "\<not> refers B J i d" using ok(1) scan x by simp
    then have "\<not> refers B J i d'" using ok(2) by (simp add: refers_def)
    then show ?thesis using ok(2) del Inr by simp
  qed (use del bolt_api.DeleteTemplate_error [OF l] in auto)
  show "\<exists>e. DeleteTemplate B J None i d = (Inl e, d) \<and> errors_Is e ErrTemplateInUse"
    if "refers B J i d \<and> b_Bucket B bucketCronAgents d"
    using that scan x bolt_api.rollback_spec [OF l]
    by (auto simp: DeleteTemplate_def db_Update_def ErrTemplateInUse_def)
qed

subsection \<open>A sample database\<close>

datatype stored = StoredTemplate Template | StoredCronAgent CronAgent

definition template_json :: "(stored, Template) json" where
  "template_json = \<lparr>Marshal = (\<lambda>t. Inr (StoredTemplate t)),
     Unmarshal = (\<lambda>raw. case raw of StoredTemplate t \<Rightarrow> Inr t | _ \<Rightarrow> Inl (Plain ''not a template''))\<rparr>"

definition cron_json :: "(stored, CronAgent) json" where
  "cron_json = \<lparr>Marshal = (\<lambda>c. Inr (StoredCronAgent c)),
     Unmarshal = (\<lambda>raw. case raw of StoredCronAgent c \<Rightarrow> Inr c | _ \<Rightarrow> Inl (Plain ''not a cron agent''))\<rparr>"

interpretation ref_templates: template_store "ref_bolt full" template_json "\<lambda>_. True"
  by unfold_locales (auto simp: template_json_def split: stored.splits)

definition sample_template :: "string \<Rightarrow> string \<Rightarrow> Template" where
  "sample_template i name = \<lparr>t_ID = i, t_Name = name, t_Description = [], t_Backend = ''ollama'', t_Model = [],
     t_FastModel = [], t_OllamaURL = [], t_Repo = [], t_AutoCompactThreshold = [], t_MaxContextTokens = [],
     t_ImageTag = [], t_AutoMode = [], t_Harness = [], t_CreatedAt = 5, t_UpdatedAt = 5\<rparr>"

definition sample_cron :: CronAgent where
  "sample_cron = \<lparr>ca_ID = ''ca_1'', ca_Name = ''nightly'', ca_TemplateID = ''tpl_1'', ca_Schedule = ''0 3 * * *'',
     ca_Enabled = True, ca_Task = ''triage'', ca_OnComplete = ''delete'', ca_CreatedAt = 5, ca_UpdatedAt = 5\<rparr>"

definition template_bolt :: "(stored, stored ref_db) bolt" where
  "template_bolt = ref_bolt (\<lambda>_. False)"

definition template_db :: "stored ref_db" where
  "template_db =
     [bucketTemplates \<mapsto> RBT.insert ''tpl_2'' (StoredTemplate (sample_template ''tpl_2'' ''review''))
                         (RBT.insert ''tpl_1'' (StoredTemplate (sample_template ''tpl_1'' '' triage'')) RBT.empty),
      bucketCronAgents \<mapsto> RBT.insert ''ca_1'' (StoredCronAgent sample_cron) RBT.empty]"

lemma template_db_get:
  "b_Get template_bolt bucketTemplates k template_db =
     (if k = ''tpl_2'' then Some (StoredTemplate (sample_template ''tpl_2'' ''review''))
      else if k = ''tpl_1'' then Some (StoredTemplate (sample_template ''tpl_1'' '' triage'')) else None)"
  "b_Get template_bolt bucketCronAgents k template_db =
     (if k = ''ca_1'' then Some (StoredCronAgent sample_cron) else None)"
  "b_Bucket template_bolt bucketTemplates template_db" "b_Bucket template_bolt bucketCronAgents template_db"
  by (simp_all add: template_bolt_def ref_bolt_defs template_db_def)

lemma TrimSpace_sample: "TrimSpace '' triage'' = ''triage''" "TrimSpace ''review'' = ''review''"
  by (simp_all add: TrimSpace_def space_runes_def trim_runes.simps)

lemma sample_templates_ok: "templates_ok template_bolt template_json template_db"
  unfolding templates_ok_def template_db_get
  by (auto simp: template_json_def sample_template_def TrimSpace_sample split: if_splits)

lemma sample_crons_ok: "crons_ok template_bolt cron_json template_db"
  by (auto simp: crons_ok_def template_db_get cron_json_def sample_cron_def split: if_splits)

lemma sample_template_store: "template_store template_bolt template_json (\<lambda>_. True)"
  unfolding template_bolt_def by unfold_locales

lemma sample_GetTemplate:
  "GetTemplate template_bolt template_json None ''tpl_1'' template_db = Inr (sample_template ''tpl_1'' '' triage'')"
  "GetTemplate template_bolt template_json None ''tpl_2'' template_db = Inr (sample_template ''tpl_2'' ''review'')"
  using sample_template_store
  by (simp_all add: GetTemplate_def template_store_def record_store.get_record_Inr template_db_get)
     (simp_all add: template_json_def)

lemma sample_template_history:
  "(template_step template_bolt template_json cron_json (\<lambda>_. True))\<^sup>*\<^sup>* template_db template_db"
  by blast

theorem template_names_stay_unique_witness:
  "(template_step template_bolt template_json cron_json (\<lambda>_. True))\<^sup>*\<^sup>* template_db template_db \<and>
   templates_ok template_bolt template_json template_db \<and>
   TrimSpace (t_Name (sample_template ''tpl_1'' '' triage'')) \<noteq> TrimSpace (t_Name (sample_template ''tpl_2'' ''review''))"
  using template_names_stay_unique [OF sample_template_store sample_template_history sample_templates_ok
      sample_GetTemplate] sample_templates_ok sample_template_history by simp

theorem DeleteTemplate_leaves_no_orphan_witness:
  "crons_ok template_bolt cron_json template_db \<and>
   (\<exists>e. DeleteTemplate template_bolt cron_json None ''tpl_1'' template_db = (Inl e, template_db) \<and> errors_Is e ErrTemplateInUse) \<and>
   (case DeleteTemplate template_bolt cron_json None ''tpl_2'' template_db of
      (Inl e, d') \<Rightarrow> False
    | (Inr u, d') \<Rightarrow> b_Get template_bolt bucketTemplates ''tpl_2'' d' = None)"
proof -
  have bolt: "bolt_api template_bolt" using sample_template_store by (simp add: template_store_def record_store_def)
  have used: "refers template_bolt cron_json ''tpl_1'' template_db"
    and free: "\<not> refers template_bolt cron_json ''tpl_2'' template_db"
    by (auto simp: refers_def template_db_get cron_json_def sample_cron_def split: if_splits)
  obtain x where "for_each (in_use_step cron_json ''tpl_2'') (b_Pairs template_bolt bucketCronAgents template_db) [] = Inr x"
    and "x = []"
    using bolt_api.in_use_scan [OF bolt sample_crons_ok, of "''tpl_2''"] free by blast
  then have "\<exists>d'. DeleteTemplate template_bolt cron_json None ''tpl_2'' template_db = (Inr (), d')"
    using template_db_get(3,4)
    by (simp add: DeleteTemplate_def db_Update_def) (simp add: template_bolt_def ref_bolt_defs template_db_def)
  then show ?thesis
    using DeleteTemplate_leaves_no_orphan [OF bolt sample_crons_ok, where ctx = None and i = "''tpl_2''"]
      DeleteTemplate_leaves_no_orphan [OF bolt sample_crons_ok, where ctx = None and i = "''tpl_1''"] used sample_crons_ok
    by (auto simp: template_db_get)
qed

end
