(* ===== verification/Account_Store.thy ===== *)
theory Account_Store
  imports Agent_Store
begin

section \<open>Anthropic accounts and the migration of old databases\<close>

text \<open>
  \<^verbatim>\<open>src/docker-operator/internal/store/anthropicaccount.go\<close>: the named credentials, the default one,
  and the one-time migration that \<^verbatim>\<open>Open\<close> runs on a database from before there were accounts. The
  lemmas show that account names are unique, that the default, when there is one, names a
  stored account, and that the migration pins exactly the agents it should and runs once.
\<close>

subsection \<open>Records and settings\<close>

definition ErrAnthropicAccountNotFound :: store_error where
  "ErrAnthropicAccountNotFound = Sentinel ''anthropic account not found''"
definition ErrAnthropicAccountNameTaken :: store_error where
  "ErrAnthropicAccountNameTaken = Sentinel ''an anthropic account with that name already exists''"

definition bucketAnthropicAccounts :: string where "bucketAnthropicAccounts = ''anthropic_accounts''"
definition bucketSettings :: string where "bucketSettings = ''settings''"
definition keySettingsAnthropicAuth :: string where "keySettingsAnthropicAuth = ''anthropic_auth''"
definition keySettingsDefaultAnthropicAccount :: string where
  "keySettingsDefaultAnthropicAccount = ''default_anthropic_account_id''"

lemmas account_keys = bucketAnthropicAccounts_def bucketSettings_def bucketAgents_def
  keySettingsAnthropicAuth_def keySettingsDefaultAnthropicAccount_def

lemma account_buckets_differ [simp]:
  "bucketSettings \<noteq> bucketAnthropicAccounts" "bucketAnthropicAccounts \<noteq> bucketSettings"
  "bucketSettings \<noteq> bucketAgents" "bucketAgents \<noteq> bucketSettings"
  "bucketAnthropicAccounts \<noteq> bucketAgents" "bucketAgents \<noteq> bucketAnthropicAccounts"
  "keySettingsDefaultAnthropicAccount \<noteq> keySettingsAnthropicAuth"
  "keySettingsAnthropicAuth \<noteq> keySettingsDefaultAnthropicAccount"
  by (simp_all add: account_keys)

definition AnthropicKindAPIKey :: string where "AnthropicKindAPIKey = ''api_key''"
definition AnthropicKindOAuth :: string where "AnthropicKindOAuth = ''oauth''"

definition ValidAnthropicKind :: "string \<Rightarrow> bool" where
  "ValidAnthropicKind kind \<longleftrightarrow> kind = AnthropicKindAPIKey \<or> kind = AnthropicKindOAuth"

record AnthropicAccount =
  aa_ID :: string
  aa_Name :: string
  aa_Kind :: string
  aa_Value :: string
  aa_CreatedAt :: time
  aa_UpdatedAt :: time

text \<open>The old shared credential, and Go's conversions between strings and stored bytes.\<close>

record legacy_auth =
  la_Kind :: string
  la_Value :: string

record 'r texts =
  to_raw :: "string \<Rightarrow> 'r"
  to_string :: "'r \<Rightarrow> string"

definition setting :: "('r, 'd) bolt \<Rightarrow> 'r texts \<Rightarrow> string \<Rightarrow> 'd \<Rightarrow> string" where
  "setting B T k d = (case b_Get B bucketSettings k d of None \<Rightarrow> [] | Some raw \<Rightarrow> to_string T raw)"

subsection \<open>Operations\<close>

fun account_scan :: "('r, AnthropicAccount) json \<Rightarrow> string \<Rightarrow> string \<times> 'r \<Rightarrow> bool \<Rightarrow> store_error + bool" where
  "account_scan J name (k, raw) first =
     (case Unmarshal J raw of
        Inl e \<Rightarrow> Inl e
      | Inr existing \<Rightarrow> if aa_Name existing = name then Inl ErrAnthropicAccountNameTaken else Inr False)"

definition put_setting :: "('r, 'd) bolt \<Rightarrow> 'r texts \<Rightarrow> string \<Rightarrow> string \<Rightarrow> 'd \<Rightarrow> store_error option \<times> 'd" where
  "put_setting B T k v d =
     (if \<not> b_Bucket B bucketSettings d then (Some (missing_bucket bucketSettings), d)
      else b_Put B bucketSettings k (to_raw T v) d)"

definition create_account_tx :: "('r, 'd) bolt \<Rightarrow> ('r, AnthropicAccount) json \<Rightarrow> 'r texts \<Rightarrow> AnthropicAccount \<Rightarrow> 'd \<Rightarrow>
    (store_error + AnthropicAccount) \<times> 'd" where
  "create_account_tx B J T account d =
     (if \<not> b_Bucket B bucketAnthropicAccounts d then (Inl (missing_bucket bucketAnthropicAccounts), d)
      else case for_each (account_scan J (aa_Name account)) (b_Pairs B bucketAnthropicAccounts d) True of
             Inl e \<Rightarrow> (Inl e, d)
           | Inr first \<Rightarrow>
               (case put_record B J bucketAnthropicAccounts ''anthropic account'' aa_ID account d of
                  (Inl e, d1) \<Rightarrow> (Inl e, d1)
                | (Inr _, d1) \<Rightarrow>
                    if first
                    then (case put_setting B T keySettingsDefaultAnthropicAccount (aa_ID account) d1 of
                            (Some e, d2) \<Rightarrow> (Inl (Wrap ''setting the first anthropic account as default'' e), d2)
                          | (None, d2) \<Rightarrow> (Inr account, d2))
                    else (Inr account, d1)))"

text \<open>\<open>newID\<close> is the outcome of the random ID generator.\<close>

definition CreateAnthropicAccount :: "('r, 'd) bolt \<Rightarrow> ('r, AnthropicAccount) json \<Rightarrow> 'r texts \<Rightarrow> store_error option \<Rightarrow>
    store_error + string \<Rightarrow> time \<Rightarrow> string \<Rightarrow> string \<Rightarrow> string \<Rightarrow> 'd \<Rightarrow> (store_error + AnthropicAccount) \<times> 'd" where
  "CreateAnthropicAccount B J T ctx newID now name kind value d =
     (case ctx of
        Some e \<Rightarrow> (Inl e, d)
      | None \<Rightarrow>
          if name = [] then (Inl (Plain ''creating an anthropic account: the name must not be empty''), d)
          else if \<not> ValidAnthropicKind kind then (Inl (Plain ''creating an anthropic account: not a valid kind''), d)
          else if value = [] then (Inl (Plain ''creating an anthropic account: the value must not be empty''), d)
          else (case newID of
                  Inl e \<Rightarrow> (Inl (Wrap ''creating an anthropic account'' e), d)
                | Inr i \<Rightarrow>
                    (case db_Update B (create_account_tx B J T
                            \<lparr>aa_ID = i, aa_Name = name, aa_Kind = kind, aa_Value = value,
                             aa_CreatedAt = now, aa_UpdatedAt = now\<rparr>) d of
                       (Inl e, d1) \<Rightarrow> (Inl (Wrap ''creating anthropic account'' e), d1)
                     | (Inr account, d1) \<Rightarrow> (Inr account, d1))))"

definition GetAnthropicAccount :: "('r, 'd) bolt \<Rightarrow> ('r, AnthropicAccount) json \<Rightarrow> store_error option \<Rightarrow> string \<Rightarrow> 'd \<Rightarrow>
    store_error + AnthropicAccount" where
  "GetAnthropicAccount B J ctx i d =
     view B bucketAnthropicAccounts ctx
       (\<lambda>d. case b_Get B bucketAnthropicAccounts i d of
              None \<Rightarrow> Inl (Wrap ''getting anthropic account'' ErrAnthropicAccountNotFound)
            | Some raw \<Rightarrow> Unmarshal J raw) d"

fun collect_accounts :: "('r, AnthropicAccount) json \<Rightarrow> string \<times> 'r \<Rightarrow> AnthropicAccount list \<Rightarrow> store_error + AnthropicAccount list" where
  "collect_accounts J (k, raw) acc = (case Unmarshal J raw of Inl e \<Rightarrow> Inl e | Inr a \<Rightarrow> Inr (acc @ [a]))"

definition ListAnthropicAccounts :: "('r, 'd) bolt \<Rightarrow> ('r, AnthropicAccount) json \<Rightarrow> store_error option \<Rightarrow> 'd \<Rightarrow>
    store_error + AnthropicAccount list" where
  "ListAnthropicAccounts B J ctx d =
     (case ctx of
        Some e \<Rightarrow> Inl e
      | None \<Rightarrow> wrap_error ''listing anthropic accounts''
          (view B bucketAnthropicAccounts None
             (\<lambda>d. for_each (collect_accounts J) (b_Pairs B bucketAnthropicAccounts d) []) d))"

definition DeleteAnthropicAccount :: "('r, 'd) bolt \<Rightarrow> 'r texts \<Rightarrow> store_error option \<Rightarrow> string \<Rightarrow> 'd \<Rightarrow>
    (store_error + unit) \<times> 'd" where
  "DeleteAnthropicAccount B T ctx i d =
     update B bucketAnthropicAccounts ctx
       (\<lambda>d. case b_Delete B bucketAnthropicAccounts i d of
              (Some e, d1) \<Rightarrow> (Inl (Wrap ''deleting anthropic account'' e), d1)
            | (None, d1) \<Rightarrow>
                if \<not> b_Bucket B bucketSettings d1 then (Inl (missing_bucket bucketSettings), d1)
                else if setting B T keySettingsDefaultAnthropicAccount d1 = i
                then (case b_Delete B bucketSettings keySettingsDefaultAnthropicAccount d1 of
                        (Some e, d2) \<Rightarrow> (Inl (Wrap ''clearing the default after deleting it'' e), d2)
                      | (None, d2) \<Rightarrow> (Inr (), d2))
                else (Inr (), d1)) d"

definition DefaultAnthropicAccountID :: "('r, 'd) bolt \<Rightarrow> 'r texts \<Rightarrow> store_error option \<Rightarrow> 'd \<Rightarrow> store_error + string" where
  "DefaultAnthropicAccountID B T ctx d =
     view B bucketSettings ctx (\<lambda>d. Inr (setting B T keySettingsDefaultAnthropicAccount d)) d"

definition SetDefaultAnthropicAccount :: "('r, 'd) bolt \<Rightarrow> 'r texts \<Rightarrow> store_error option \<Rightarrow> string \<Rightarrow> 'd \<Rightarrow>
    (store_error + unit) \<times> 'd" where
  "SetDefaultAnthropicAccount B T ctx i d =
     (case ctx of
        Some e \<Rightarrow> (Inl e, d)
      | None \<Rightarrow>
          if i = [] then (Inl (Plain ''setting the default anthropic account: the id must not be empty''), d)
          else update B bucketAnthropicAccounts None
            (\<lambda>d. if b_Get B bucketAnthropicAccounts i d = None
                 then (Inl (Wrap ''setting the default anthropic account'' ErrAnthropicAccountNotFound), d)
                 else (case put_setting B T keySettingsDefaultAnthropicAccount i d of
                         (Some e, d1) \<Rightarrow> (Inl e, d1)
                       | (None, d1) \<Rightarrow> (Inr (), d1))) d)"

subsection \<open>The migration\<close>

text \<open>The pins: agents of the anthropic backend without an account, with the new one set.\<close>

fun collect_pins :: "('r, Agent) json \<Rightarrow> string \<Rightarrow> string \<times> 'r \<Rightarrow> (string \<times> 'r) list \<Rightarrow> store_error + (string \<times> 'r) list" where
  "collect_pins J i (k, v) pins =
     (case Unmarshal J v of
        Inl e \<Rightarrow> Inl (Wrap ''decoding agent during anthropic-account migration'' e)
      | Inr a \<Rightarrow>
          if ag_Backend a \<noteq> ''anthropic'' \<or> ag_AnthropicAccountID a \<noteq> [] then Inr pins
          else (case Marshal J (a\<lparr>ag_AnthropicAccountID := i\<rparr>) of
                  Inl e \<Rightarrow> Inl (Wrap ''encoding agent during anthropic-account migration'' e)
                | Inr raw \<Rightarrow> Inr (pins @ [(k, raw)])))"

fun put_pins :: "('r, 'd) bolt \<Rightarrow> (string \<times> 'r) list \<Rightarrow> 'd \<Rightarrow> store_error option \<times> 'd" where
  "put_pins B [] d = (None, d)"
| "put_pins B ((k, raw) # pins) d =
     (case b_Put B bucketAgents k raw d of
        (Some e, d1) \<Rightarrow> (Some (Wrap ''pinning a migrated agent onto the Default anthropic account'' e), d1)
      | (None, d1) \<Rightarrow> put_pins B pins d1)"

definition migrated_account :: "string \<Rightarrow> legacy_auth \<Rightarrow> time \<Rightarrow> AnthropicAccount" where
  "migrated_account i legacy t =
     \<lparr>aa_ID = i, aa_Name = ''Default'', aa_Kind = la_Kind legacy, aa_Value = la_Value legacy,
      aa_CreatedAt = t, aa_UpdatedAt = t\<rparr>"

definition migrate_settings :: "('r, 'd) bolt \<Rightarrow> 'r texts \<Rightarrow> string \<Rightarrow> 'd \<Rightarrow> store_error option \<times> 'd" where
  "migrate_settings B T i d =
     (case b_Put B bucketSettings keySettingsDefaultAnthropicAccount (to_raw T i) d of
        (Some e, d1) \<Rightarrow> (Some (Wrap ''setting the migrated account as default'' e), d1)
      | (None, d1) \<Rightarrow>
          (case b_Delete B bucketSettings keySettingsAnthropicAuth d1 of
             (Some e, d2) \<Rightarrow> (Some (Wrap ''removing the legacy anthropic credential'' e), d2)
           | (None, d2) \<Rightarrow> (None, d2)))"

definition migrateLegacyAnthropicAuth :: "('r, 'd) bolt \<Rightarrow> ('r, AnthropicAccount) json \<Rightarrow> ('r, legacy_auth) json \<Rightarrow>
    ('r, Agent) json \<Rightarrow> 'r texts \<Rightarrow> store_error + string \<Rightarrow> time \<Rightarrow> 'd \<Rightarrow> store_error option \<times> 'd" where
  "migrateLegacyAnthropicAuth B J JL JA T newID t d =
     (if b_Pairs B bucketAnthropicAccounts d \<noteq> [] then (None, d)
      else case b_Get B bucketSettings keySettingsAnthropicAuth d of
             None \<Rightarrow> (None, d)
           | Some raw \<Rightarrow>
               (case Unmarshal JL raw of
                  Inl e \<Rightarrow> (Some (Wrap ''decoding the legacy Anthropic credential'' e), d)
                | Inr legacy \<Rightarrow>
                    (case newID of
                       Inl e \<Rightarrow> (Some (Wrap ''generating the migrated account id'' e), d)
                     | Inr i \<Rightarrow>
                         (case put_record B J bucketAnthropicAccounts ''the migrated anthropic account'' aa_ID
                                 (migrated_account i legacy t) d of
                            (Inl e, d1) \<Rightarrow> (Some e, d1)
                          | (Inr _, d1) \<Rightarrow>
                              (case migrate_settings B T i d1 of
                                 (Some e, d2) \<Rightarrow> (Some e, d2)
                               | (None, d2) \<Rightarrow>
                                   (case for_each (collect_pins JA i) (b_Pairs B bucketAgents d2) [] of
                                      Inl e \<Rightarrow> (Some e, d2)
                                    | Inr pins \<Rightarrow> put_pins B pins d2))))))"

subsection \<open>Names are unique and the default exists\<close>

definition accounts_ok :: "('r, 'd) bolt \<Rightarrow> ('r, AnthropicAccount) json \<Rightarrow> 'r texts \<Rightarrow> 'd \<Rightarrow> bool" where
  "accounts_ok B J T d \<longleftrightarrow>
     (\<forall>k raw. b_Get B bucketAnthropicAccounts k d = Some raw \<longrightarrow> (\<exists>a. Unmarshal J raw = Inr a \<and> aa_ID a = k)) \<and>
     (\<forall>k k' raw raw' a a'. b_Get B bucketAnthropicAccounts k d = Some raw \<longrightarrow>
        b_Get B bucketAnthropicAccounts k' d = Some raw' \<longrightarrow>
        Unmarshal J raw = Inr a \<longrightarrow> Unmarshal J raw' = Inr a' \<longrightarrow> k \<noteq> k' \<longrightarrow> aa_Name a \<noteq> aa_Name a') \<and>
     (setting B T keySettingsDefaultAnthropicAccount d \<noteq> [] \<longrightarrow>
        b_Get B bucketAnthropicAccounts (setting B T keySettingsDefaultAnthropicAccount d) d \<noteq> None)"

lemma account_scan_loop:
  "for_each (account_scan J name) kvs first = Inr f \<Longrightarrow>
   (\<forall>k raw. (k, raw) \<in> set kvs \<longrightarrow> (\<exists>a. Unmarshal J raw = Inr a \<and> aa_Name a \<noteq> name)) \<and> (f \<longleftrightarrow> first \<and> kvs = [])"
proof (induction kvs arbitrary: first)
  case (Cons kv kvs)
  obtain k raw where kv: "kv = (k, raw)" by fastforce
  from Cons.prems obtain a where a: "Unmarshal J raw = Inr a" "aa_Name a \<noteq> name"
    and rest: "for_each (account_scan J name) kvs False = Inr f"
    by (auto simp: kv split: sum.splits if_splits)
  show ?case using Cons.IH [OF rest] a by (auto simp: kv)
qed simp

locale account_store = record_store B J clean
  for B :: "('r, 'd) bolt" and J :: "('r, AnthropicAccount) json" and clean :: "AnthropicAccount \<Rightarrow> bool" +
  fixes T :: "'r texts"
  assumes to_string_to_raw: "to_string T (to_raw T s) = s"
begin

lemma put_setting_ok:
  assumes "put_setting B T k v d = (None, d')"
  shows "setting B T k' d' = (if k' = k then v else setting B T k' d)"
    and "n \<noteq> bucketSettings \<Longrightarrow> b_Get B n x d' = b_Get B n x d"
  using assms put_spec [of bucketSettings k "to_raw T v" d d']
  by (auto simp: put_setting_def setting_def to_string_to_raw split: if_splits)

lemma accounts_ok_put:
  assumes ok: "accounts_ok B J T d" and dec: "Unmarshal J raw = Inr a"
    and get: "\<And>n k. b_Get B n k d' = (if n = bucketAnthropicAccounts \<and> k = aa_ID a then Some raw else b_Get B n k d)"
    and free: "\<And>k raw1 a1. b_Get B bucketAnthropicAccounts k d = Some raw1 \<Longrightarrow> Unmarshal J raw1 = Inr a1 \<Longrightarrow> aa_Name a1 \<noteq> aa_Name a"
  shows "accounts_ok B J T d'"
proof -
  have s: "setting B T k d' = setting B T k d" for k by (simp add: setting_def get)
  have "\<exists>a1. Unmarshal J raw1 = Inr a1 \<and> aa_ID a1 = k" if "b_Get B bucketAnthropicAccounts k d' = Some raw1" for k raw1
    using that ok dec by (auto simp: get accounts_ok_def split: if_splits)
  moreover have "aa_Name a1 \<noteq> aa_Name a2"
    if "b_Get B bucketAnthropicAccounts k d' = Some raw1" "b_Get B bucketAnthropicAccounts k' d' = Some raw2"
      "Unmarshal J raw1 = Inr a1" "Unmarshal J raw2 = Inr a2" "k \<noteq> k'" for k k' raw1 raw2 a1 a2
    using that ok dec free [of k raw1 a1] free [of k' raw2 a2] unfolding accounts_ok_def
    by (auto simp: get split: if_splits)
  moreover have "setting B T keySettingsDefaultAnthropicAccount d' \<noteq> [] \<longrightarrow>
      b_Get B bucketAnthropicAccounts (setting B T keySettingsDefaultAnthropicAccount d') d' \<noteq> None"
    using ok by (auto simp: s get accounts_ok_def)
  ultimately show ?thesis unfolding accounts_ok_def by blast
qed

lemma accounts_ok_default:
  assumes "accounts_ok B J T d" and "\<And>k. b_Get B bucketAnthropicAccounts k d' = b_Get B bucketAnthropicAccounts k d"
    and "setting B T keySettingsDefaultAnthropicAccount d' = i" and "i = [] \<or> b_Get B bucketAnthropicAccounts i d \<noteq> None"
  shows "accounts_ok B J T d'"
  using assms unfolding accounts_ok_def by auto

lemma create_account_tx_keeps:
  assumes "create_account_tx B J T account d = (Inr a, d')" and "clean account" and "accounts_ok B J T d"
  shows "accounts_ok B J T d'"
proof -
  from assms(1) obtain first d1 where
    scan: "for_each (account_scan J (aa_Name account)) (b_Pairs B bucketAnthropicAccounts d) True = Inr first"
    and put: "\<exists>x. put_record B J bucketAnthropicAccounts ''anthropic account'' aa_ID account d = (Inr x, d1)"
    and fin: "if first then put_setting B T keySettingsDefaultAnthropicAccount (aa_ID account) d1 = (None, d') else d' = d1"
    by (auto simp: create_account_tx_def split: if_splits sum.splits prod.splits option.splits)
  from put assms(2) obtain raw where dec: "Unmarshal J raw = Inr account"
    and get: "\<And>n k. b_Get B n k d1 = (if n = bucketAnthropicAccounts \<and> k = aa_ID account then Some raw else b_Get B n k d)"
    by (auto elim: put_record_ok)
  have ok1: "accounts_ok B J T d1"
  proof (rule accounts_ok_put [OF assms(3) dec get])
    fix k raw1 a1
    assume "b_Get B bucketAnthropicAccounts k d = Some raw1" and "Unmarshal J raw1 = Inr a1"
    then show "aa_Name a1 \<noteq> aa_Name account"
      using conjunct1 [OF account_scan_loop [OF scan]] by (fastforce simp: pairs_set)
  qed
  show ?thesis
  proof (cases first)
    case True
    then have p: "put_setting B T keySettingsDefaultAnthropicAccount (aa_ID account) d1 = (None, d')" using fin by simp
    show ?thesis
      by (rule accounts_ok_default [OF ok1, of _ "aa_ID account"]) (simp_all add: put_setting_ok [OF p] get)
  qed (use fin ok1 in simp)
qed

lemma CreateAnthropicAccount_keeps:
  assumes "CreateAnthropicAccount B J T ctx newID now name kind value d = (r, d')" and "accounts_ok B J T d"
    and "\<And>i. newID = Inr i \<Longrightarrow> clean \<lparr>aa_ID = i, aa_Name = name, aa_Kind = kind, aa_Value = value,
                    aa_CreatedAt = now, aa_UpdatedAt = now\<rparr>"
  shows "accounts_ok B J T d'"
proof (cases newID)
  case (Inr i)
  let ?a = "\<lparr>aa_ID = i, aa_Name = name, aa_Kind = kind, aa_Value = value, aa_CreatedAt = now, aa_UpdatedAt = now\<rparr>"
  obtain u d1 where u: "db_Update B (create_account_tx B J T ?a) d = (u, d1)" by fastforce
  have "d' = d \<or> d' = d1"
    using assms(1) u by (auto simp: CreateAnthropicAccount_def Inr split: option.splits if_splits sum.splits)
  moreover have "accounts_ok B J T d1"
  proof (cases u)
    case (Inl e)
    then show ?thesis using db_Update_error u assms(2) by blast
  next
    case u': (Inr a)
    show ?thesis using create_account_tx_keeps db_Update_ok [OF u [unfolded u']] assms(2) assms(3) [OF Inr] by blast
  qed
  ultimately show ?thesis using assms(2) by auto
qed (use assms(1,2) in \<open>auto simp: CreateAnthropicAccount_def split: option.splits if_splits\<close>)

lemma accounts_ok_delete:
  assumes "accounts_ok B J T d"
    and "\<And>k. b_Get B bucketAnthropicAccounts k d' = (if k = i then None else b_Get B bucketAnthropicAccounts k d)"
    and "setting B T keySettingsDefaultAnthropicAccount d' =
           (if setting B T keySettingsDefaultAnthropicAccount d = i then [] else setting B T keySettingsDefaultAnthropicAccount d)"
  shows "accounts_ok B J T d'"
proof -
  have get: "b_Get B bucketAnthropicAccounts k d' = Some raw \<Longrightarrow> b_Get B bucketAnthropicAccounts k d = Some raw" for k raw
    by (simp add: assms(2) split: if_splits)
  show ?thesis
    unfolding accounts_ok_def
  proof (intro conjI allI impI)
    fix k raw assume "b_Get B bucketAnthropicAccounts k d' = Some raw"
    then show "\<exists>a. Unmarshal J raw = Inr a \<and> aa_ID a = k" using assms(1) get by (simp add: accounts_ok_def)
  next
    fix k k' raw raw' a a'
    assume "b_Get B bucketAnthropicAccounts k d' = Some raw" "b_Get B bucketAnthropicAccounts k' d' = Some raw'"
      "Unmarshal J raw = Inr a" "Unmarshal J raw' = Inr a'" "k \<noteq> k'"
    then show "aa_Name a \<noteq> aa_Name a'" using assms(1) get [of k raw] get [of k' raw'] unfolding accounts_ok_def by blast
  next
    assume "setting B T keySettingsDefaultAnthropicAccount d' \<noteq> []"
    then show "b_Get B bucketAnthropicAccounts (setting B T keySettingsDefaultAnthropicAccount d') d' \<noteq> None"
      using assms(1) by (auto simp: assms(2,3) accounts_ok_def split: if_splits)
  qed
qed

lemma DeleteAnthropicAccount_keeps:
  assumes "DeleteAnthropicAccount B T ctx i d = (r, d')" and "accounts_ok B J T d"
  shows "accounts_ok B J T d'"
proof (cases r)
  case (Inr u)
  then obtain d1 where del: "b_Delete B bucketAnthropicAccounts i d = (None, d1)"
    and fin: "if setting B T keySettingsDefaultAnthropicAccount d1 = i
              then b_Delete B bucketSettings keySettingsDefaultAnthropicAccount d1 = (None, d') else d' = d1"
    using assms(1) by (auto simp: DeleteAnthropicAccount_def dest!: update_ok split: prod.splits option.splits if_splits)
  have s1: "setting B T k d1 = setting B T k d" for k
    using delete_spec [OF del] by (simp add: setting_def)
  show ?thesis
  proof (rule accounts_ok_delete [OF assms(2), of _ i])
    fix k
    show "b_Get B bucketAnthropicAccounts k d' = (if k = i then None else b_Get B bucketAnthropicAccounts k d)"
      using fin delete_spec [OF del] delete_spec [of bucketSettings keySettingsDefaultAnthropicAccount d1 d']
      by (auto split: if_splits)
  next
    show "setting B T keySettingsDefaultAnthropicAccount d' =
           (if setting B T keySettingsDefaultAnthropicAccount d = i then [] else setting B T keySettingsDefaultAnthropicAccount d)"
      using fin delete_spec [of bucketSettings keySettingsDefaultAnthropicAccount d1 d'] s1
      by (auto simp: setting_def split: if_splits)
  qed
next
  case (Inl e)
  then have "d' = d" using assms(1) by (auto simp: DeleteAnthropicAccount_def dest: update_error)
  then show ?thesis using assms(2) by simp
qed

lemma SetDefaultAnthropicAccount_keeps:
  assumes "SetDefaultAnthropicAccount B T ctx i d = (r, d')" and "accounts_ok B J T d"
  shows "accounts_ok B J T d'"
proof (cases r)
  case (Inr u)
  then have "b_Get B bucketAnthropicAccounts i d \<noteq> None"
    and p: "put_setting B T keySettingsDefaultAnthropicAccount i d = (None, d')"
    using assms(1) by (auto simp: SetDefaultAnthropicAccount_def dest!: update_ok split: prod.splits option.splits if_splits)
  then show ?thesis
    by (intro accounts_ok_default [OF assms(2), of _ i]) (simp_all add: put_setting_ok [OF p])
next
  case (Inl e)
  then have "d' = d"
    using assms(1) by (auto simp: SetDefaultAnthropicAccount_def dest: update_error split: option.splits if_splits)
  then show ?thesis using assms(2) by simp
qed

end

subsection \<open>What the migration does\<close>

definition needs_pin :: "Agent \<Rightarrow> bool" where
  "needs_pin a \<longleftrightarrow> ag_Backend a = ''anthropic'' \<and> ag_AnthropicAccountID a = []"

definition pin_of :: "('r, Agent) json \<Rightarrow> string \<Rightarrow> string \<times> 'r \<Rightarrow> (string \<times> 'r) list" where
  "pin_of J i kv =
     (case Unmarshal J (snd kv) of
        Inl e \<Rightarrow> []
      | Inr a \<Rightarrow>
          if needs_pin a
          then (case Marshal J (a\<lparr>ag_AnthropicAccountID := i\<rparr>) of Inl e \<Rightarrow> [] | Inr raw \<Rightarrow> [(fst kv, raw)])
          else [])"

lemma pin_of_cases: "pin_of J i kv = [] \<or> (\<exists>raw. pin_of J i kv = [(fst kv, raw)])"
  by (simp add: pin_of_def split: sum.split)

lemma pin_of_keys: "fst ` set (pin_of J i kv) \<subseteq> {fst kv}" "distinct (map fst (pin_of J i kv))"
  using pin_of_cases [of J i kv] by auto

lemma collect_pins_step:
  "collect_pins J i kv acc = Inr acc1 \<Longrightarrow>
   acc1 = acc @ pin_of J i kv \<and>
   (\<forall>a. Unmarshal J (snd kv) = Inr a \<longrightarrow> needs_pin a \<longrightarrow> (\<exists>raw. Marshal J (a\<lparr>ag_AnthropicAccountID := i\<rparr>) = Inr raw))"
proof (cases kv)
  case (Pair k v)
  assume "collect_pins J i kv acc = Inr acc1"
  then obtain a where a: "Unmarshal J v = Inr a" by (auto simp: Pair split: sum.splits)
  show ?thesis
  proof (cases "needs_pin a")
    case True
    then obtain raw where "Marshal J (a\<lparr>ag_AnthropicAccountID := i\<rparr>) = Inr raw" "acc1 = acc @ [(k, raw)]"
      using \<open>collect_pins J i kv acc = Inr acc1\<close> a by (auto simp: Pair needs_pin_def split: sum.splits)
    then show ?thesis using a True by (simp add: Pair pin_of_def)
  next
    case False
    then show ?thesis
      using \<open>collect_pins J i kv acc = Inr acc1\<close> a by (auto simp: Pair needs_pin_def pin_of_def split: if_splits)
  qed
qed

lemma collect_pins_loop:
  "for_each (collect_pins J i) kvs acc = Inr pins \<Longrightarrow>
   pins = acc @ concat (map (pin_of J i) kvs) \<and>
   (\<forall>kv \<in> set kvs. \<forall>a. Unmarshal J (snd kv) = Inr a \<longrightarrow> needs_pin a \<longrightarrow> (\<exists>raw. Marshal J (a\<lparr>ag_AnthropicAccountID := i\<rparr>) = Inr raw))"
proof (induction kvs arbitrary: acc)
  case (Cons kv kvs)
  obtain acc1 where step: "collect_pins J i kv acc = Inr acc1"
    and rest: "for_each (collect_pins J i) kvs acc1 = Inr pins"
    using Cons.prems by (cases "collect_pins J i kv acc") simp_all
  show ?case using Cons.IH [OF rest] collect_pins_step [OF step] by simp
qed simp

lemma concat_pins_keys: "fst ` set (concat (map (pin_of J i) kvs)) \<subseteq> fst ` set kvs"
proof (induction kvs)
  case (Cons kv kvs)
  then show ?case using pin_of_keys(1) [of J i kv] by (simp add: image_Un) blast
qed simp

lemma concat_pins_distinct:
  "distinct (map fst kvs) \<Longrightarrow> distinct (map fst (concat (map (pin_of J i) kvs)))"
proof (induction kvs)
  case (Cons kv kvs)
  then have "fst kv \<notin> fst ` set kvs" and d: "distinct (map fst (concat (map (pin_of J i) kvs)))" by simp_all
  then have "fst kv \<notin> fst ` set (concat (map (pin_of J i) kvs))" using concat_pins_keys [of J i kvs] by blast
  moreover have "A \<inter> B = {}" if "A \<subseteq> {x}" and "x \<notin> B" for A B :: "string set" and x
    using that by blast
  ultimately have "fst ` set (pin_of J i kv) \<inter> fst ` set (concat (map (pin_of J i) kvs)) = {}"
    using pin_of_keys(1) [of J i kv] by metis
  then show ?case using d pin_of_keys(2) [of J i kv] by (simp only: list.map concat.simps map_append distinct_append set_map)
qed simp

lemma concat_pins_map_of:
  "distinct (map fst kvs) \<Longrightarrow> map_of (concat (map (pin_of J i) kvs)) k =
     (case map_of kvs k of None \<Rightarrow> None | Some v \<Rightarrow> map_of (pin_of J i (k, v)) k)"
proof (induction kvs)
  case (Cons kv kvs)
  obtain k0 v0 where kv: "kv = (k0, v0)" by fastforce
  have IH: "map_of (concat (map (pin_of J i) kvs)) k =
      (case map_of kvs k of None \<Rightarrow> None | Some v \<Rightarrow> map_of (pin_of J i (k, v)) k)"
    using Cons by simp
  show ?case
  proof (cases "k = k0")
    case True
    then have "map_of kvs k = None" using Cons.prems by (simp add: kv map_of_eq_None_iff)
    then have "map_of (concat (map (pin_of J i) kvs)) k = None" using IH by simp
    then show ?thesis using True by (simp add: kv map_add_def split: option.splits)
  next
    case False
    then have "map_of (pin_of J i kv) k = None"
      using subsetD [OF pin_of_keys(1) [of J i kv]] by (auto simp: kv map_of_eq_None_iff)
    then show ?thesis using IH False by (simp add: kv map_add_def split: option.splits)
  qed
qed simp

context bolt_api
begin

lemma put_pins_ok:
  assumes "put_pins B pins d = (None, d')" and "distinct (map fst pins)"
  shows "b_Get B n k d' = (case if n = bucketAgents then map_of pins k else None of
           Some raw \<Rightarrow> Some raw | None \<Rightarrow> b_Get B n k d) \<and> b_Bucket B n d' = b_Bucket B n d"
  using assms
proof (induction pins arbitrary: d)
  case (Cons p pins)
  obtain k0 raw0 where p: "p = (k0, raw0)" by fastforce
  from Cons.prems(1) obtain d1 where put: "b_Put B bucketAgents k0 raw0 d = (None, d1)" and rest: "put_pins B pins d1 = (None, d')"
    by (auto simp: p split: prod.splits option.splits)
  have "map_of pins k0 = None" using Cons.prems(2) by (simp add: p map_of_eq_None_iff)
  then show ?case
    using Cons.IH [OF rest] Cons.prems(2) put_spec [OF put, of n k] by (auto simp: p split: option.splits)
qed simp

end

context account_store
begin

lemma migrate_settings_ok:
  assumes "migrate_settings B T i d = (None, d')"
  shows "b_Get B n k d' =
     (if n = bucketSettings
      then if k = keySettingsDefaultAnthropicAccount then Some (to_raw T i)
           else if k = keySettingsAnthropicAuth then None else b_Get B n k d
      else b_Get B n k d) \<and> b_Bucket B n d' = b_Bucket B n d"
proof -
  from assms obtain d1 where p: "b_Put B bucketSettings keySettingsDefaultAnthropicAccount (to_raw T i) d = (None, d1)"
    and q: "b_Delete B bucketSettings keySettingsAnthropicAuth d1 = (None, d')"
    by (auto simp: migrate_settings_def split: prod.splits option.splits)
  show ?thesis using put_spec [OF p, of n k] delete_spec [OF q, of n k] by auto
qed

lemma no_accounts: "b_Pairs B bucketAnthropicAccounts d = [] \<longleftrightarrow> (\<forall>k. b_Get B bucketAnthropicAccounts k d = None)"
  using pairs_spec [of bucketAnthropicAccounts d] pairs_set [of _ _ bucketAnthropicAccounts d]
  by (cases "b_Pairs B bucketAnthropicAccounts d") (auto, metis list.set_intros(1) option.distinct(1) surj_pair)

lemma migration_skips:
  "b_Pairs B bucketAnthropicAccounts d \<noteq> [] \<or> b_Get B bucketSettings keySettingsAnthropicAuth d = None \<Longrightarrow>
   migrateLegacyAnthropicAuth B J JL JA T newID t d = (None, d)"
  by (auto simp: migrateLegacyAnthropicAuth_def)

lemma migration_effect:
  assumes "migrateLegacyAnthropicAuth B J JL JA T newID t d = (None, d')"
    and "b_Pairs B bucketAnthropicAccounts d = []" and "b_Get B bucketSettings keySettingsAnthropicAuth d = Some raw"
    and clean: "\<And>i legacy. newID = Inr i \<Longrightarrow> Unmarshal JL raw = Inr legacy \<Longrightarrow> clean (migrated_account i legacy t)"
  obtains i legacy araw where "newID = Inr i" and "Unmarshal JL raw = Inr legacy"
    and "Unmarshal J araw = Inr (migrated_account i legacy t)"
    and "\<And>k. b_Get B bucketAnthropicAccounts k d' = (if k = i then Some araw else None)"
    and "setting B T keySettingsDefaultAnthropicAccount d' = i"
    and "b_Get B bucketSettings keySettingsAnthropicAuth d' = None"
    and "\<And>k. b_Get B bucketAgents k d' =
           (case b_Get B bucketAgents k d of
              None \<Rightarrow> None
            | Some v \<Rightarrow> (case map_of (pin_of JA i (k, v)) k of None \<Rightarrow> Some v | Some w \<Rightarrow> Some w))"
    and "\<And>kv a. kv \<in> set (b_Pairs B bucketAgents d) \<Longrightarrow> Unmarshal JA (snd kv) = Inr a \<Longrightarrow> needs_pin a \<Longrightarrow>
           \<exists>w. Marshal JA (a\<lparr>ag_AnthropicAccountID := i\<rparr>) = Inr w"
    and "\<And>n. b_Bucket B n d' = b_Bucket B n d"
proof -
  from assms(1-3) obtain i legacy d1 d2 pins where id: "newID = Inr i" and l: "Unmarshal JL raw = Inr legacy"
    and put: "\<exists>x. put_record B J bucketAnthropicAccounts ''the migrated anthropic account'' aa_ID (migrated_account i legacy t) d = (Inr x, d1)"
    and ms: "migrate_settings B T i d1 = (None, d2)"
    and scan: "for_each (collect_pins JA i) (b_Pairs B bucketAgents d2) [] = Inr pins"
    and pp: "put_pins B pins d2 = (None, d')"
    by (auto simp: migrateLegacyAnthropicAuth_def split: sum.splits prod.splits option.splits)
  from put clean [OF id l] obtain araw where dec: "Unmarshal J araw = Inr (migrated_account i legacy t)"
    and g1: "\<And>n k. b_Get B n k d1 = (if n = bucketAnthropicAccounts \<and> k = i then Some araw else b_Get B n k d)"
    and b1: "\<And>n. b_Bucket B n d1 = b_Bucket B n d"
    by (auto elim: put_record_ok simp: migrated_account_def)
  note g2 = migrate_settings_ok [OF ms]
  have ag2: "b_Get B bucketAgents k d2 = b_Get B bucketAgents k d" for k using g2 g1 by simp
  have pins: "pins = concat (map (pin_of JA i) (b_Pairs B bucketAgents d2))"
    and enc: "\<forall>kv \<in> set (b_Pairs B bucketAgents d2). \<forall>a. Unmarshal JA (snd kv) = Inr a \<longrightarrow> needs_pin a \<longrightarrow>
        (\<exists>w. Marshal JA (a\<lparr>ag_AnthropicAccountID := i\<rparr>) = Inr w)"
    using collect_pins_loop [OF scan] by simp_all
  have same: "set (b_Pairs B bucketAgents d2) = set (b_Pairs B bucketAgents d)"
    using pairs_set ag2 by (metis (no_types, opaque_lifting) subsetI subset_antisym surj_pair)
  note g3 = put_pins_ok [OF pp concat_pins_distinct [OF pairs_distinct, of JA i bucketAgents d2, folded pins]]
  have mo: "map_of pins k = (case b_Get B bucketAgents k d of None \<Rightarrow> None | Some v \<Rightarrow> map_of (pin_of JA i (k, v)) k)" for k
    unfolding pins concat_pins_map_of [OF pairs_distinct] pairs_spec ag2 ..
  show ?thesis
  proof (rule that [OF id l dec])
    show "b_Get B bucketAnthropicAccounts k d' = (if k = i then Some araw else None)" for k
      using g1 g2 g3 assms(2) by (simp add: no_accounts)
    show "setting B T keySettingsDefaultAnthropicAccount d' = i" using g2 g3 by (simp add: setting_def to_string_to_raw)
    show "b_Get B bucketSettings keySettingsAnthropicAuth d' = None" using g2 g3 by simp
    show "b_Bucket B n d' = b_Bucket B n d" for n using g2 g3 b1 by simp
    show "b_Get B bucketAgents k d' = (case b_Get B bucketAgents k d of None \<Rightarrow> None
        | Some v \<Rightarrow> (case map_of (pin_of JA i (k, v)) k of None \<Rightarrow> Some v | Some w \<Rightarrow> Some w))" for k
      using g3 [of bucketAgents k] by (simp add: mo ag2 split: option.splits)
  qed (use enc same in auto)
qed

end

subsection \<open>Histories\<close>

definition migrate_tx :: "('r, 'd) bolt \<Rightarrow> ('r, AnthropicAccount) json \<Rightarrow> ('r, legacy_auth) json \<Rightarrow>
    ('r, Agent) json \<Rightarrow> 'r texts \<Rightarrow> store_error + string \<Rightarrow> time \<Rightarrow> 'd \<Rightarrow> (store_error + unit) \<times> 'd" where
  "migrate_tx B J JL JA T newID t d =
     (case migrateLegacyAnthropicAuth B J JL JA T newID t d of
        (Some e, d1) \<Rightarrow> (Inl e, d1)
      | (None, d1) \<Rightarrow> (Inr (), d1))"

inductive account_call :: "('r, 'd) bolt \<Rightarrow> ('r, AnthropicAccount) json \<Rightarrow> (AnthropicAccount \<Rightarrow> bool) \<Rightarrow> 'r texts \<Rightarrow> 'd \<Rightarrow> 'd \<Rightarrow> bool"
  for B J clean T where
  create_account: "CreateAnthropicAccount B J T ctx (Inr i) now name kind value d = (r, d') \<Longrightarrow>
     clean \<lparr>aa_ID = i, aa_Name = name, aa_Kind = kind, aa_Value = value, aa_CreatedAt = now, aa_UpdatedAt = now\<rparr> \<Longrightarrow>
     account_call B J clean T d d'"
| delete_account: "DeleteAnthropicAccount B T ctx i d = (u, d') \<Longrightarrow> account_call B J clean T d d'"
| set_default: "SetDefaultAnthropicAccount B T ctx i d = (u, d') \<Longrightarrow> account_call B J clean T d d'"
| migrate: "db_Update B (migrate_tx B J JL JA T (Inr i) t) d = (u, d') \<Longrightarrow> \<forall>legacy. clean (migrated_account i legacy t) \<Longrightarrow>
     account_call B J clean T d d'"
| elsewhere: "\<forall>k. b_Get B bucketAnthropicAccounts k d' = b_Get B bucketAnthropicAccounts k d \<Longrightarrow>
     setting B T keySettingsDefaultAnthropicAccount d' = setting B T keySettingsDefaultAnthropicAccount d \<Longrightarrow>
     account_call B J clean T d d'"

context account_store
begin

lemma migration_keeps:
  assumes "migrateLegacyAnthropicAuth B J JL JA T (Inr i) t d = (None, d')"
    and "\<And>legacy. clean (migrated_account i legacy t)" and "accounts_ok B J T d"
  shows "accounts_ok B J T d'"
proof (cases "b_Pairs B bucketAnthropicAccounts d \<noteq> [] \<or> b_Get B bucketSettings keySettingsAnthropicAuth d = None")
  case True
  then show ?thesis using migration_skips [of d JL JA "Inr i" t] assms(1,3) by simp
next
  case False
  then obtain raw where "b_Pairs B bucketAnthropicAccounts d = []" "b_Get B bucketSettings keySettingsAnthropicAuth d = Some raw"
    by auto
  with assms(1) show ?thesis
  proof (rule migration_effect)
    fix i' legacy araw
    assume "Unmarshal J araw = Inr (migrated_account i' legacy t)"
      and "\<And>k. b_Get B bucketAnthropicAccounts k d' = (if k = i' then Some araw else None)"
      and "setting B T keySettingsDefaultAnthropicAccount d' = i'"
    then show ?thesis by (simp add: accounts_ok_def migrated_account_def)
  qed (use assms(2) in auto)
qed

lemma account_call_keeps:
  assumes "accounts_ok B J T d" and "account_call B J clean T d d'"
  shows "accounts_ok B J T d'"
  using assms(2)
proof cases
  case create_account
  then show ?thesis using CreateAnthropicAccount_keeps assms(1) by blast
next
  case (migrate JL JA i t u)
  show ?thesis
  proof (cases u)
    case (Inl e)
    then show ?thesis using migrate(1) db_Update_error assms(1) by blast
  next
    case (Inr x)
    then have "migrateLegacyAnthropicAuth B J JL JA T (Inr i) t d = (None, d')"
      using db_Update_ok migrate(1) by (fastforce simp: migrate_tx_def split: prod.splits option.splits)
    then show ?thesis using migration_keeps migrate(2) assms(1) by blast
  qed
next
  case elsewhere
  then show ?thesis using assms(1) by (simp add: accounts_ok_def)
qed (use assms(1) DeleteAnthropicAccount_keeps SetDefaultAnthropicAccount_keeps in blast)+

end

sublocale account_store \<subseteq> accounts: invariant_machine "accounts_ok B J T" "account_call B J clean T" "accounts_ok B J T"
  by unfold_locales (auto intro: account_call_keeps)

context account_store
begin

lemma account_history: "(account_call B J clean T)\<^sup>*\<^sup>* d d' \<Longrightarrow> accounts_ok B J T d \<Longrightarrow> accounts_ok B J T d'"
  by (rule accounts.inv_steps)

lemma GetAccount_Inr:
  "GetAnthropicAccount B J None i d = Inr a \<longleftrightarrow> b_Bucket B bucketAnthropicAccounts d \<and>
     (\<exists>raw. b_Get B bucketAnthropicAccounts i d = Some raw \<and> Unmarshal J raw = Inr a)"
  by (auto simp: GetAnthropicAccount_def view_def split: option.splits)

end

text \<open>
  C38: the default account can be used. Over every history of creating, deleting and choosing
  accounts, migrations included, the default that pre-fills the create form is either unset or
  the ID of a stored, readable account, and no two accounts share a name.
\<close>

theorem default_account_exists:
  assumes "account_store B J clean T" and "accounts_ok B J T d" and "(account_call B J clean T)\<^sup>*\<^sup>* d d'"
    and "b_Bucket B bucketAnthropicAccounts d'" and "DefaultAnthropicAccountID B T None d' = Inr i"
  shows "(i = [] \<or> (\<exists>a. GetAnthropicAccount B J None i d' = Inr a \<and> aa_ID a = i))
     \<and> (\<forall>k k' a a'. GetAnthropicAccount B J None k d' = Inr a \<longrightarrow> GetAnthropicAccount B J None k' d' = Inr a' \<longrightarrow>
          aa_Name a = aa_Name a' \<longrightarrow> k = k')"
proof -
  note l = assms(1)
  have ok: "accounts_ok B J T d'" using account_store.account_history [OF l assms(3,2)] .
  have "setting B T keySettingsDefaultAnthropicAccount d' = i"
    using assms(5) by (auto simp: DefaultAnthropicAccountID_def view_def split: if_splits)
  then have "i = [] \<or> (\<exists>a. GetAnthropicAccount B J None i d' = Inr a \<and> aa_ID a = i)"
    using ok assms(4) unfolding accounts_ok_def account_store.GetAccount_Inr [OF l] by fastforce
  moreover have "k = k'" if "GetAnthropicAccount B J None k d' = Inr a" "GetAnthropicAccount B J None k' d' = Inr a'"
      "aa_Name a = aa_Name a'" for k k' a a'
    using that ok unfolding accounts_ok_def account_store.GetAccount_Inr [OF l] by blast
  ultimately show ?thesis by blast
qed

subsection \<open>A sample store\<close>

datatype account_raw = RawText string | RawAccount AnthropicAccount | RawLegacy legacy_auth | RawAgent Agent

definition account_json :: "(account_raw, AnthropicAccount) json" where
  "account_json = \<lparr>Marshal = (\<lambda>a. Inr (RawAccount a)),
     Unmarshal = (\<lambda>r. case r of RawAccount a \<Rightarrow> Inr a | _ \<Rightarrow> Inl (Plain ''not an account''))\<rparr>"

definition legacy_json :: "(account_raw, legacy_auth) json" where
  "legacy_json = \<lparr>Marshal = (\<lambda>a. Inr (RawLegacy a)),
     Unmarshal = (\<lambda>r. case r of RawLegacy a \<Rightarrow> Inr a | _ \<Rightarrow> Inl (Plain ''not a credential''))\<rparr>"

definition agent_json :: "(account_raw, Agent) json" where
  "agent_json = \<lparr>Marshal = (\<lambda>a. Inr (RawAgent a)),
     Unmarshal = (\<lambda>r. case r of RawAgent a \<Rightarrow> Inr a | _ \<Rightarrow> Inl (Plain ''not an agent''))\<rparr>"

definition account_texts :: "account_raw texts" where
  "account_texts = \<lparr>to_raw = RawText, to_string = (\<lambda>r. case r of RawText s \<Rightarrow> s | _ \<Rightarrow> [])\<rparr>"

abbreviation account_bolt :: "(account_raw, account_raw ref_db) bolt" where
  "account_bolt \<equiv> ref_bolt (\<lambda>_. False)"

lemma sample_account_store: "account_store account_bolt account_json (\<lambda>_. True) account_texts"
  by unfold_locales (auto simp: account_json_def account_texts_def split: account_raw.splits)

lemma agent_json_codec: "json_codec agent_json (\<lambda>_. True)"
  by unfold_locales (auto simp: agent_json_def split: account_raw.splits)

definition account_db :: "account_raw ref_db" where
  "account_db = [bucketAnthropicAccounts \<mapsto> RBT.empty, bucketSettings \<mapsto> RBT.empty]"

definition sample_account :: AnthropicAccount where
  "sample_account = \<lparr>aa_ID = ''acc_1'', aa_Name = ''work'', aa_Kind = AnthropicKindOAuth, aa_Value = ''tok'',
     aa_CreatedAt = 7, aa_UpdatedAt = 7\<rparr>"

lemma sample_create_account:
  "case CreateAnthropicAccount account_bolt account_json account_texts None (Inr ''acc_1'') 7 ''work'' AnthropicKindOAuth ''tok'' account_db of
     (Inl e, d') \<Rightarrow> False
   | (Inr a, d') \<Rightarrow> b_Bucket account_bolt bucketAnthropicAccounts d' \<and> DefaultAnthropicAccountID account_bolt account_texts None d' = Inr ''acc_1''"
  by code_simp

theorem default_account_exists_witness:
  "case CreateAnthropicAccount account_bolt account_json account_texts None (Inr ''acc_1'') 7 ''work'' AnthropicKindOAuth ''tok'' account_db of
     (Inl e, d') \<Rightarrow> False
   | (Inr a, d') \<Rightarrow> \<exists>a. GetAnthropicAccount account_bolt account_json None ''acc_1'' d' = Inr a \<and> aa_ID a = ''acc_1''"
proof -
  obtain r d' where c: "CreateAnthropicAccount account_bolt account_json account_texts None (Inr ''acc_1'') 7 ''work'' AnthropicKindOAuth ''tok'' account_db = (r, d')"
    by fastforce
  have "account_call account_bolt account_json (\<lambda>_. True) account_texts account_db d'"
    by (rule create_account [OF c]) simp
  then have step: "(account_call account_bolt account_json (\<lambda>_. True) account_texts)\<^sup>*\<^sup>* account_db d'" by blast
  have ok: "accounts_ok account_bolt account_json account_texts account_db"
    by (simp add: accounts_ok_def account_db_def setting_def ref_bolt_defs)
  show ?thesis
    using sample_create_account default_account_exists [OF sample_account_store ok step, of "''acc_1''"]
    unfolding c by (auto split: sum.splits)
qed

end
