(* ===== verification/Schedule_Store.thy ===== *)
theory Schedule_Store
  imports Template_Store
begin

section \<open>Schedule runs and due times\<close>

text \<open>
  \<^verbatim>\<open>src/docker-operator/internal/store/schedulerun.go\<close> and the due-time test of
  \<^verbatim>\<open>internal/agent/schedule.go\<close>. A run is one firing of a cron agent; its history outlives the
  cron agent and the agent it created. The parser of cron expressions (robfig/cron) and the
  sort of a listing are parameters.
\<close>

subsection \<open>Runs\<close>

definition ErrScheduleRunNotFound :: store_error where "ErrScheduleRunNotFound = Sentinel ''schedule run not found''"

definition ScheduleRunStatusRunning :: string where "ScheduleRunStatusRunning = ''running''"
definition ScheduleRunStatusSuccess :: string where "ScheduleRunStatusSuccess = ''success''"
definition ScheduleRunStatusError :: string where "ScheduleRunStatusError = ''error''"

lemma run_status_differ [simp]:
  "ScheduleRunStatusSuccess \<noteq> ScheduleRunStatusRunning" "ScheduleRunStatusError \<noteq> ScheduleRunStatusRunning"
  "ScheduleRunStatusRunning \<noteq> ScheduleRunStatusSuccess" "ScheduleRunStatusRunning \<noteq> ScheduleRunStatusError"
  by (simp_all add: ScheduleRunStatusRunning_def ScheduleRunStatusSuccess_def ScheduleRunStatusError_def)

definition bucketScheduleRuns :: string where "bucketScheduleRuns = ''schedule_runs''"

record ScheduleRun =
  sr_ID :: string
  sr_CronAgentID :: string
  sr_AgentID :: string
  sr_StartedAt :: time
  sr_FinishedAt :: "time option"
  sr_Status :: string

definition putScheduleRun :: "('r, 'd) bolt \<Rightarrow> ('r, ScheduleRun) json \<Rightarrow> ScheduleRun \<Rightarrow> 'd \<Rightarrow> (store_error + ScheduleRun) \<times> 'd" where
  "putScheduleRun B J = put_record B J bucketScheduleRuns ''schedule run'' sr_ID"

definition decodeScheduleRun :: "('r, ScheduleRun) json \<Rightarrow> 'r \<Rightarrow> store_error + ScheduleRun" where
  "decodeScheduleRun J = decode_record J ''schedule run''"

definition new_run :: "string \<Rightarrow> string \<Rightarrow> string \<Rightarrow> time \<Rightarrow> ScheduleRun" where
  "new_run i cronAgentID agentID now =
     \<lparr>sr_ID = i, sr_CronAgentID = cronAgentID, sr_AgentID = agentID, sr_StartedAt = now,
      sr_FinishedAt = None, sr_Status = ScheduleRunStatusRunning\<rparr>"

text \<open>\<open>newID\<close> is the outcome of the random ID generator.\<close>

definition CreateScheduleRun :: "('r, 'd) bolt \<Rightarrow> ('r, ScheduleRun) json \<Rightarrow> store_error option \<Rightarrow> store_error + string \<Rightarrow> time \<Rightarrow>
    string \<Rightarrow> string \<Rightarrow> 'd \<Rightarrow> (store_error + ScheduleRun) \<times> 'd" where
  "CreateScheduleRun B J ctx newID now cronAgentID agentID d =
     (case newID of
        Inl e \<Rightarrow> (Inl (Wrap ''creating a schedule run'' e), d)
      | Inr i \<Rightarrow> update B bucketScheduleRuns ctx (putScheduleRun B J (new_run i cronAgentID agentID now)) d)"

definition FinishScheduleRun :: "('r, 'd) bolt \<Rightarrow> ('r, ScheduleRun) json \<Rightarrow> store_error option \<Rightarrow> time \<Rightarrow> string \<Rightarrow> string \<Rightarrow> 'd \<Rightarrow>
    (store_error + ScheduleRun) \<times> 'd" where
  "FinishScheduleRun B J ctx now i status d =
     update B bucketScheduleRuns ctx
       (\<lambda>d. case b_Get B bucketScheduleRuns i d of
              None \<Rightarrow> (Inl (Wrap ''finishing schedule run'' ErrScheduleRunNotFound), d)
            | Some raw \<Rightarrow>
                (case decodeScheduleRun J raw of
                   Inl e \<Rightarrow> (Inl e, d)
                 | Inr run \<Rightarrow> putScheduleRun B J (run\<lparr>sr_FinishedAt := Some now, sr_Status := status\<rparr>) d)) d"

definition GetScheduleRun :: "('r, 'd) bolt \<Rightarrow> ('r, ScheduleRun) json \<Rightarrow> store_error option \<Rightarrow> string \<Rightarrow> 'd \<Rightarrow> store_error + ScheduleRun" where
  "GetScheduleRun B J = get_record B J bucketScheduleRuns ''schedule run'' ErrScheduleRunNotFound"

definition newer_run :: "ScheduleRun \<Rightarrow> ScheduleRun \<Rightarrow> bool" where
  "newer_run x y \<longleftrightarrow> sr_StartedAt x > sr_StartedAt y"

definition ListScheduleRunsByCronAgent :: "('r, 'd) bolt \<Rightarrow> ('r, ScheduleRun) json \<Rightarrow>
    ((ScheduleRun \<Rightarrow> ScheduleRun \<Rightarrow> bool) \<Rightarrow> ScheduleRun list \<Rightarrow> ScheduleRun list) \<Rightarrow> store_error option \<Rightarrow> string \<Rightarrow> 'd \<Rightarrow>
    store_error + ScheduleRun list" where
  "ListScheduleRunsByCronAgent B J sort_Slice ctx cronAgentID d =
     (case list_records B J bucketScheduleRuns ''schedule run'' (\<lambda>run. sr_CronAgentID run = cronAgentID) ctx d of
        Inl e \<Rightarrow> Inl e
      | Inr runs \<Rightarrow> Inr (sort_Slice newer_run runs))"

definition ListScheduleRunsByStatus :: "('r, 'd) bolt \<Rightarrow> ('r, ScheduleRun) json \<Rightarrow> store_error option \<Rightarrow> string \<Rightarrow> 'd \<Rightarrow>
    store_error + ScheduleRun list" where
  "ListScheduleRunsByStatus B J ctx status d =
     list_records B J bucketScheduleRuns ''schedule run'' (\<lambda>run. sr_Status run = status) ctx d"

subsection \<open>Due times\<close>

text \<open>
  \<open>ParseStandard\<close> yields a schedule's \<^verbatim>\<open>Next\<close>: the first activation strictly after its argument, or
  the zero time when there is none.
\<close>

definition CronAgentDue :: "(string \<Rightarrow> (time \<Rightarrow> time) option) \<Rightarrow> CronAgent \<Rightarrow> ScheduleRun option \<Rightarrow> time \<Rightarrow> bool" where
  "CronAgentDue ParseStandard ca lastRun now =
     (if \<not> ca_Enabled ca \<or> ca_Schedule ca = [] then False
      else case ParseStandard (ca_Schedule ca) of
             None \<Rightarrow> False
           | Some next \<Rightarrow>
               (let anchor = ca_CreatedAt ca;
                    anchor = (if ca_UpdatedAt ca > anchor then ca_UpdatedAt ca else anchor);
                    anchor = (case lastRun of
                                None \<Rightarrow> anchor
                              | Some run \<Rightarrow> if sr_StartedAt run > anchor then sr_StartedAt run else anchor)
                in \<not> (next anchor > now)))"

definition due_anchor :: "CronAgent \<Rightarrow> ScheduleRun option \<Rightarrow> time" where
  "due_anchor ca lastRun =
     max (max (ca_CreatedAt ca) (ca_UpdatedAt ca)) (case lastRun of None \<Rightarrow> ca_CreatedAt ca | Some run \<Rightarrow> sr_StartedAt run)"

lemma CronAgentDue_iff:
  "CronAgentDue P ca lastRun now \<longleftrightarrow>
     ca_Enabled ca \<and> ca_Schedule ca \<noteq> [] \<and> (\<exists>next. P (ca_Schedule ca) = Some next \<and> next (due_anchor ca lastRun) \<le> now)"
proof -
  have upd: "(if ca_UpdatedAt ca > ca_CreatedAt ca then ca_UpdatedAt ca else ca_CreatedAt ca) = max (ca_CreatedAt ca) (ca_UpdatedAt ca)"
    by (simp add: max_def)
  have anchor: "(case lastRun of None \<Rightarrow> m | Some run \<Rightarrow> if sr_StartedAt run > m then sr_StartedAt run else m) = due_anchor ca lastRun"
    if "m = max (ca_CreatedAt ca) (ca_UpdatedAt ca)" for m
    using that by (simp add: due_anchor_def max_def split: option.splits)
  show ?thesis
    unfolding CronAgentDue_def Let_def upd anchor [OF refl] by (auto simp: not_less split: option.splits)
qed

subsection \<open>What the store keeps of a run\<close>

lemma list_loop:
  assumes "for_each (\<lambda>(k, raw) acc. case decode_record J what raw of
             Inl e \<Rightarrow> Inl e | Inr a \<Rightarrow> Inr (if keep a then acc @ [a] else acc)) kvs acc = Inr xs"
  shows "xs = acc @ filter keep (map (\<lambda>(k, raw). projr (Unmarshal J raw)) kvs) \<and>
     (\<forall>(k, raw) \<in> set kvs. \<exists>a. Unmarshal J raw = Inr a)"
  using assms
proof (induction kvs arbitrary: acc)
  case (Cons kv kvs)
  obtain k raw where kv: "kv = (k, raw)" by fastforce
  from Cons.prems obtain a where a: "Unmarshal J raw = Inr a"
    and rest: "for_each (\<lambda>(k, raw) acc. case decode_record J what raw of
             Inl e \<Rightarrow> Inl e | Inr a \<Rightarrow> Inr (if keep a then acc @ [a] else acc)) kvs (if keep a then acc @ [a] else acc) = Inr xs"
    by (auto simp: kv decode_record_def wrap_error_def split: sum.splits)
  show ?case using Cons.IH [OF rest] a by (auto simp: kv split: if_splits)
qed simp

locale run_store = record_store B J clean
  for B :: "('r, 'd) bolt" and J :: "('r, ScheduleRun) json" and clean :: "ScheduleRun \<Rightarrow> bool"
begin

text \<open>A listing holds the stored records that pass the test.\<close>

lemma list_records_set:
  assumes "list_records B J bucketScheduleRuns ''schedule run'' keep ctx d = Inr xs"
  shows "set xs = {a. keep a \<and> (\<exists>k. GetScheduleRun B J None k d = Inr a)}"
proof -
  from assms have b: "b_Bucket B bucketScheduleRuns d"
    and loop: "for_each (\<lambda>(k, raw) acc. case decode_record J ''schedule run'' raw of
             Inl e \<Rightarrow> Inl e | Inr a \<Rightarrow> Inr (if keep a then acc @ [a] else acc)) (b_Pairs B bucketScheduleRuns d) [] = Inr xs"
    by (auto simp: list_records_def view_def split: option.splits if_splits)
  have dec: "\<exists>a. Unmarshal J raw = Inr a" if "(k, raw) \<in> set (b_Pairs B bucketScheduleRuns d)" for k raw
    using list_loop [OF loop] that by auto
  have "set xs = {a. keep a} \<inter> (\<lambda>(k, raw). projr (Unmarshal J raw)) ` set (b_Pairs B bucketScheduleRuns d)"
    using list_loop [OF loop] by auto
  also have "\<dots> = {a. keep a \<and> (\<exists>k raw. (k, raw) \<in> set (b_Pairs B bucketScheduleRuns d) \<and> Unmarshal J raw = Inr a)}"
    using dec by (force simp: image_iff)
  finally show ?thesis using b by (simp add: GetScheduleRun_def get_record_Inr pairs_set)
qed

definition runs_keyed :: "'d \<Rightarrow> bool" where
  "runs_keyed d \<longleftrightarrow> (\<forall>k raw. b_Get B bucketScheduleRuns k d = Some raw \<longrightarrow> (\<exists>a. Unmarshal J raw = Inr a \<and> sr_ID a = k))"

lemma run_put_ok:
  assumes "putScheduleRun B J a d = (Inr a', d')" and "clean a" and "b_Bucket B bucketScheduleRuns d"
  shows "a' = a" and "GetScheduleRun B J None (sr_ID a) d' = Inr a"
    and "k \<noteq> sr_ID a \<Longrightarrow> GetScheduleRun B J None k d' = GetScheduleRun B J None k d"
    and "runs_keyed d \<Longrightarrow> runs_keyed d'" and "b_Bucket B n d' = b_Bucket B n d"
  using assms unfolding putScheduleRun_def
  by (auto elim!: put_record_ok simp: GetScheduleRun_def get_record_Inr runs_keyed_def get_record_def view_def
      decode_record_def wrap_error_def
      split: if_splits)

lemma CreateScheduleRun_ok:
  assumes "CreateScheduleRun B J ctx newID now c a d = (Inr run, d')"
    and "\<And>i. newID = Inr i \<Longrightarrow> clean (new_run i c a now)"
  obtains i where "newID = Inr i" and "run = new_run i c a now" and "GetScheduleRun B J None i d' = Inr run"
    and "\<And>k. k \<noteq> i \<Longrightarrow> GetScheduleRun B J None k d' = GetScheduleRun B J None k d"
    and "runs_keyed d \<Longrightarrow> runs_keyed d'" and "b_Bucket B bucketScheduleRuns d'"
proof -
  from assms(1) obtain i where i: "newID = Inr i"
    and p: "putScheduleRun B J (new_run i c a now) d = (Inr run, d')" and b: "b_Bucket B bucketScheduleRuns d"
    by (auto simp: CreateScheduleRun_def dest!: update_ok split: sum.splits)
  have id: "sr_ID (new_run i c a now) = i" by (simp add: new_run_def)
  show ?thesis
    using that [OF i] run_put_ok [OF p assms(2) [OF i] b] b id by simp
qed

lemma FinishScheduleRun_ok:
  assumes "FinishScheduleRun B J ctx now i status d = (Inr run, d')" and "runs_keyed d"
    and "\<And>a. clean a \<Longrightarrow> clean (a\<lparr>sr_FinishedAt := Some now, sr_Status := status\<rparr>)"
  obtains old where "GetScheduleRun B J None i d = Inr old"
    and "run = old\<lparr>sr_FinishedAt := Some now, sr_Status := status\<rparr>" and "GetScheduleRun B J None i d' = Inr run"
    and "\<And>k. k \<noteq> i \<Longrightarrow> GetScheduleRun B J None k d' = GetScheduleRun B J None k d" and "runs_keyed d'"
proof -
  from assms(1) obtain raw old where g: "b_Get B bucketScheduleRuns i d = Some raw" "Unmarshal J raw = Inr old"
    and p: "putScheduleRun B J (old\<lparr>sr_FinishedAt := Some now, sr_Status := status\<rparr>) d = (Inr run, d')"
    and b: "b_Bucket B bucketScheduleRuns d"
    by (auto simp: FinishScheduleRun_def decodeScheduleRun_def decode_record_def wrap_error_def
        dest!: update_ok split: option.splits sum.splits)
  have id: "sr_ID old = i" using g assms(2) unfolding runs_keyed_def by fastforce
  have c: "clean (old\<lparr>sr_FinishedAt := Some now, sr_Status := status\<rparr>)"
    using decoded_clean [OF g(2)] assms(3) by blast
  have "GetScheduleRun B J None i d = Inr old" using g b by (simp add: GetScheduleRun_def get_record_Inr)
  then show ?thesis using that run_put_ok [OF p c b] id assms(2) by simp
qed

lemma run_calls_error:
  "CreateScheduleRun B J ctx newID now c a d = (Inl e, d') \<Longrightarrow> d' = d"
  "FinishScheduleRun B J ctx now i status d = (Inl e, d') \<Longrightarrow> d' = d"
  by (auto simp: CreateScheduleRun_def FinishScheduleRun_def dest: update_error split: sum.splits)

end

text \<open>The records themselves as values of the reference database.\<close>

definition run_json :: "(ScheduleRun, ScheduleRun) json" where
  "run_json = \<lparr>Marshal = Inr, Unmarshal = Inr\<rparr>"

interpretation ref_runs: run_store "ref_bolt full" run_json "\<lambda>_. True"
  by unfold_locales (simp_all add: run_json_def)

end
