(* ===== verification/Open_Store.thy ===== *)
theory Open_Store
  imports Account_Store Schedule_Store
begin

section \<open>Opening the store\<close>

text \<open>
  \<^verbatim>\<open>Open\<close> of \<^verbatim>\<open>src/docker-operator/internal/store/store.go\<close> (the buckets and the one-time migration in
  one transaction) and the agent-image tag snapshots kept in the settings bucket. Creating the
  directory and opening the file are outcomes given as parameters.
\<close>

subsection \<open>Open\<close>

definition store_buckets :: "string list" where
  "store_buckets = [bucketAgents, bucketSettings, bucketTemplates, bucketAnthropicAccounts, bucketScheduleRuns, bucketCronAgents]"

primrec create_buckets :: "('r, 'd) bolt \<Rightarrow> string list \<Rightarrow> 'd \<Rightarrow> store_error option \<times> 'd" where
  "create_buckets B [] d = (None, d)"
| "create_buckets B (n # ns) d =
     (case b_CreateBucket B n d of
        (Some e, d1) \<Rightarrow> (Some (Wrap ''creating the bucket'' e), d1)
      | (None, d1) \<Rightarrow> create_buckets B ns d1)"

definition open_tx :: "('r, 'd) bolt \<Rightarrow> ('r, AnthropicAccount) json \<Rightarrow> ('r, legacy_auth) json \<Rightarrow> ('r, Agent) json \<Rightarrow>
    'r texts \<Rightarrow> store_error + string \<Rightarrow> time \<Rightarrow> 'd \<Rightarrow> (store_error + unit) \<times> 'd" where
  "open_tx B J JL JA T newID t d =
     (case create_buckets B store_buckets d of
        (Some e, d1) \<Rightarrow> (Inl e, d1)
      | (None, d1) \<Rightarrow> migrate_tx B J JL JA T newID t d1)"

text \<open>\<open>mkdir\<close> and \<open>file\<close> are what \<^verbatim>\<open>os.MkdirAll\<close> and \<^verbatim>\<open>bbolt.Open\<close> report; the result is the cap the store enforces.\<close>

definition Open :: "('r, 'd) bolt \<Rightarrow> ('r, AnthropicAccount) json \<Rightarrow> ('r, legacy_auth) json \<Rightarrow> ('r, Agent) json \<Rightarrow> 'r texts \<Rightarrow>
    store_error option \<Rightarrow> store_error option \<Rightarrow> store_error + string \<Rightarrow> time \<Rightarrow> string \<Rightarrow> int \<Rightarrow> 'd \<Rightarrow> (store_error + int) \<times> 'd" where
  "Open B J JL JA T mkdir file newID t path maxAgents d =
     (if path = [] then (Inl (Plain ''opening the state database: the path must not be empty''), d)
      else if maxAgents < 1 then (Inl (Plain ''opening the state database: max agents must be >= 1''), d)
      else case mkdir of
        Some e \<Rightarrow> (Inl (Wrap ''creating the state directory'' e), d)
      | None \<Rightarrow>
          (case file of
             Some e \<Rightarrow> (Inl (Wrap ''opening the state database'' e), d)
           | None \<Rightarrow>
               (case db_Update B (open_tx B J JL JA T newID t) d of
                  (Inl e, d1) \<Rightarrow> (Inl (Wrap ''initialising'' e), d1)
                | (Inr _, d1) \<Rightarrow> (Inr maxAgents, d1))))"

subsection \<open>Tag snapshots\<close>

record AgentImageTags =
  ait_Tags :: "string list"
  ait_CheckedAt :: time
  ait_LastError :: string

definition keySettingsAgentImageTags :: string where "keySettingsAgentImageTags = ''agent_image_tags''"
definition keySettingsAgentImageTagsOpenCode :: string where "keySettingsAgentImageTagsOpenCode = ''agent_image_tags_opencode''"
definition harnessOpenCode :: string where "harnessOpenCode = ''opencode''"

definition agentImageTagsKey :: "string \<Rightarrow> string" where
  "agentImageTagsKey harness = (if harness = harnessOpenCode then keySettingsAgentImageTagsOpenCode else keySettingsAgentImageTags)"

definition GetAgentImageTags :: "('r, 'd) bolt \<Rightarrow> ('r, AgentImageTags) json \<Rightarrow> store_error option \<Rightarrow> string \<Rightarrow> 'd \<Rightarrow>
    store_error + AgentImageTags option" where
  "GetAgentImageTags B J ctx harness d =
     view B bucketSettings ctx
       (\<lambda>d. case b_Get B bucketSettings (agentImageTagsKey harness) d of
              None \<Rightarrow> Inr None
            | Some raw \<Rightarrow>
                (case Unmarshal J raw of
                   Inl e \<Rightarrow> Inl (Wrap ''decoding the stored agent image tags'' e)
                 | Inr tags \<Rightarrow> Inr (Some tags))) d"

definition SetAgentImageTags :: "('r, 'd) bolt \<Rightarrow> ('r, AgentImageTags) json \<Rightarrow> store_error option \<Rightarrow> string \<Rightarrow> AgentImageTags \<Rightarrow> 'd \<Rightarrow>
    (store_error + unit) \<times> 'd" where
  "SetAgentImageTags B J ctx harness tags d =
     (case ctx of
        Some e \<Rightarrow> (Inl e, d)
      | None \<Rightarrow>
          (case Marshal J tags of
             Inl e \<Rightarrow> (Inl (Wrap ''encoding the agent image tags'' e), d)
           | Inr raw \<Rightarrow>
               update B bucketSettings None
                 (\<lambda>d. case b_Put B bucketSettings (agentImageTagsKey harness) raw d of
                        (Some e, d1) \<Rightarrow> (Inl e, d1)
                      | (None, d1) \<Rightarrow> (Inr (), d1)) d))"

subsection \<open>What opening establishes\<close>

context bolt_api
begin

lemma create_buckets_ok:
  "create_buckets B ns d = (None, d') \<Longrightarrow>
   b_Bucket B m d' = (m \<in> set ns \<or> b_Bucket B m d) \<and> b_Get B m k d' = b_Get B m k d"
proof (induction ns arbitrary: d)
  case (Cons n ns)
  from Cons.prems obtain d1 where c: "b_CreateBucket B n d = (None, d1)" and r: "create_buckets B ns d1 = (None, d')"
    by (auto split: prod.splits option.splits)
  show ?case using create_spec [OF c] Cons.IH [OF r] by auto
qed simp

lemma Open_ok:
  assumes "Open B J JL JA T mkdir file newID t path maxAgents d = (Inr n, d')"
  obtains d1 where "create_buckets B store_buckets d = (None, d1)"
    and "migrateLegacyAnthropicAuth B J JL JA T newID t d1 = (None, d')" and "n = maxAgents" and "1 \<le> maxAgents"
proof -
  from assms have "db_Update B (open_tx B J JL JA T newID t) d = (Inr (), d')" and n: "n = maxAgents" "1 \<le> maxAgents"
    by (auto simp: Open_def split: if_splits option.splits prod.splits sum.splits)
  then have "open_tx B J JL JA T newID t d = (Inr (), d')" by (blast dest: db_Update_ok)
  then show ?thesis
    using that n by (auto simp: open_tx_def migrate_tx_def split: prod.splits option.splits)
qed

lemma Open_error: "Open B J JL JA T mkdir file newID t path maxAgents d = (Inl e, d') \<Longrightarrow> d' = d"
  by (auto simp: Open_def dest: db_Update_error split: if_splits option.splits prod.splits sum.splits)

end

text \<open>The database holds an old shared credential that no account has replaced yet.\<close>

definition has_legacy :: "('r, 'd) bolt \<Rightarrow> 'd \<Rightarrow> bool" where
  "has_legacy B d \<longleftrightarrow> b_Pairs B bucketAnthropicAccounts d = [] \<and> b_Get B bucketSettings keySettingsAnthropicAuth d \<noteq> None"

lemma no_legacy: "b_Get B bucketSettings keySettingsAnthropicAuth d = None \<Longrightarrow> \<not> has_legacy B d"
  by (simp add: has_legacy_def)

definition pinned :: "('r, Agent) json \<Rightarrow> string \<Rightarrow> 'r option \<Rightarrow> 'r option \<Rightarrow> bool" where
  "pinned JA i old new \<longleftrightarrow>
     (case old of
        None \<Rightarrow> new = None
      | Some v \<Rightarrow>
          (case Unmarshal JA v of
             Inr a \<Rightarrow>
               if needs_pin a then (\<exists>w. new = Some w \<and> Unmarshal JA w = Inr (a\<lparr>ag_AnthropicAccountID := i\<rparr>))
               else new = Some v
           | Inl e \<Rightarrow> new = Some v))"

context account_store
begin

lemma migration_pins:
  assumes "migrateLegacyAnthropicAuth B J JL JA T newID t d = (None, d')" and "has_legacy B d"
    and "\<And>i legacy. newID = Inr i \<Longrightarrow> clean (migrated_account i legacy t)"
    and "json_codec JA cleanA" and "\<And>a i. cleanA a \<Longrightarrow> cleanA (a\<lparr>ag_AnthropicAccountID := i\<rparr>)"
  obtains i raw legacy where "newID = Inr i" and "b_Get B bucketSettings keySettingsAnthropicAuth d = Some raw"
    and "Unmarshal JL raw = Inr legacy"
    and "\<And>k. b_Get B bucketAnthropicAccounts k d' \<noteq> None \<longleftrightarrow> k = i"
    and "\<exists>araw. b_Get B bucketAnthropicAccounts i d' = Some araw \<and> Unmarshal J araw = Inr (migrated_account i legacy t)"
    and "setting B T keySettingsDefaultAnthropicAccount d' = i"
    and "b_Get B bucketSettings keySettingsAnthropicAuth d' = None"
    and "\<And>k. pinned JA i (b_Get B bucketAgents k d) (b_Get B bucketAgents k d')"
    and "\<And>n. b_Bucket B n d' = b_Bucket B n d"
proof -
  from assms(2) obtain raw where none: "b_Pairs B bucketAnthropicAccounts d = []"
    and raw: "b_Get B bucketSettings keySettingsAnthropicAuth d = Some raw"
    by (auto simp: has_legacy_def)
  show ?thesis
  proof (rule migration_effect [OF assms(1) none raw])
    fix i legacy araw
    assume i: "newID = Inr i" and l: "Unmarshal JL raw = Inr legacy"
      and araw: "Unmarshal J araw = Inr (migrated_account i legacy t)"
      and acc: "\<And>k. b_Get B bucketAnthropicAccounts k d' = (if k = i then Some araw else None)"
      and set: "setting B T keySettingsDefaultAnthropicAccount d' = i"
      and gone: "b_Get B bucketSettings keySettingsAnthropicAuth d' = None"
      and ag: "\<And>k. b_Get B bucketAgents k d' = (case b_Get B bucketAgents k d of None \<Rightarrow> None
            | Some v \<Rightarrow> (case map_of (pin_of JA i (k, v)) k of None \<Rightarrow> Some v | Some w \<Rightarrow> Some w))"
      and enc: "\<And>kv a. kv \<in> set (b_Pairs B bucketAgents d) \<Longrightarrow> Unmarshal JA (snd kv) = Inr a \<Longrightarrow> needs_pin a \<Longrightarrow>
           \<exists>w. Marshal JA (a\<lparr>ag_AnthropicAccountID := i\<rparr>) = Inr w"
      and b: "\<And>n. b_Bucket B n d' = b_Bucket B n d"
    have p: "pinned JA i (b_Get B bucketAgents k d) (b_Get B bucketAgents k d')" for k
    proof (cases "b_Get B bucketAgents k d")
      case None
      then show ?thesis using ag by (simp add: pinned_def)
    next
      case (Some v)
      then have "(k, v) \<in> set (b_Pairs B bucketAgents d)" by (simp add: pairs_set)
      then have enc': "\<exists>w. Marshal JA (a\<lparr>ag_AnthropicAccountID := i\<rparr>) = Inr w" if "Unmarshal JA v = Inr a" "needs_pin a" for a
        using enc [of "(k, v)"] that by simp
      have "\<exists>w. Marshal JA (a\<lparr>ag_AnthropicAccountID := i\<rparr>) = Inr w \<and> Unmarshal JA w = Inr (a\<lparr>ag_AnthropicAccountID := i\<rparr>)"
        if "Unmarshal JA v = Inr a" "needs_pin a" for a
        using enc' [OF that] json_codec.roundtrip [OF assms(4) assms(5) [OF json_codec.decoded_clean [OF assms(4) that(1)]]]
        by blast
      then show ?thesis
        using Some ag [of k] by (cases "Unmarshal JA v") (force simp: pinned_def pin_of_def)+
    qed
    have only: "b_Get B bucketAnthropicAccounts k d' \<noteq> None \<longleftrightarrow> k = i" for k using acc by simp
    have "\<exists>araw. b_Get B bucketAnthropicAccounts i d' = Some araw \<and> Unmarshal J araw = Inr (migrated_account i legacy t)"
      using acc araw by simp
    then show ?thesis by (rule that [OF i raw l only _ set gone p b])
  qed (use assms(3) in blast)
qed

end

text \<open>
  Opening the state database gives it all six buckets and carries an old shared credential
  over exactly once. When there was one and no account yet, the opened database holds one
  account with that credential, which is the default; the credential's own key is gone; and
  an agent record changed only if it used the shared credential, and then only in its account.
  Otherwise no record changes, and opening the database again changes nothing either.
\<close>

theorem Open_migrates_once:
  assumes "account_store B J clean T" and "json_codec JA cleanA" and "\<And>a i. cleanA a \<Longrightarrow> cleanA (a\<lparr>ag_AnthropicAccountID := i\<rparr>)"
    and "\<And>i legacy t. clean (migrated_account i legacy t)"
    and "Open B J JL JA T mkdir file newID t path maxAgents d = (Inr n, d')"
  shows "n = maxAgents \<and> 1 \<le> n \<and> list_all (\<lambda>b. b_Bucket B b d') store_buckets
     \<and> (\<not> has_legacy B d \<longrightarrow> (\<forall>b k. b_Get B b k d' = b_Get B b k d))
     \<and> (has_legacy B d \<longrightarrow> (\<exists>i raw legacy. newID = Inr i \<and> b_Get B bucketSettings keySettingsAnthropicAuth d = Some raw \<and>
          Unmarshal JL raw = Inr legacy \<and> DefaultAnthropicAccountID B T None d' = Inr i \<and>
          GetAnthropicAccount B J None i d' = Inr (migrated_account i legacy t) \<and>
          (\<forall>k. b_Get B bucketAnthropicAccounts k d' \<noteq> None \<longrightarrow> k = i) \<and>
          b_Get B bucketSettings keySettingsAnthropicAuth d' = None \<and>
          (\<forall>k. pinned JA i (b_Get B bucketAgents k d) (b_Get B bucketAgents k d'))))
     \<and> (\<forall>mkdir' file' newID' t' n' d''. Open B J JL JA T mkdir' file' newID' t' path maxAgents d' = (Inr n', d'') \<longrightarrow>
          (\<forall>b k. b_Get B b k d'' = b_Get B b k d'))"
proof -
  note acc = assms(1)
  note rec = account_store.axioms(1) [OF acc]
  note bolt = record_store.axioms(1) [OF rec]
  obtain d1 where cb: "create_buckets B store_buckets d = (None, d1)"
    and mig: "migrateLegacyAnthropicAuth B J JL JA T newID t d1 = (None, d')" and n: "n = maxAgents" "1 \<le> maxAgents"
    using bolt_api.Open_ok [OF bolt assms(5)] by blast
  note b1 = bolt_api.create_buckets_ok [OF bolt cb]
  have pairs: "b_Pairs B m d1 = [] \<longleftrightarrow> b_Pairs B m d = []" for m
    using bolt_api.pairs_spec [OF bolt, of m d] bolt_api.pairs_spec [OF bolt, of m d1] b1
    by (metis list.set_cases map_of_eq_empty_iff)
  have legacy: "has_legacy B d1 \<longleftrightarrow> has_legacy B d" using pairs b1 by (simp add: has_legacy_def)
  have skip: "x = y" if "migrateLegacyAnthropicAuth B J JL JA T q s y = (None, x)" "\<not> has_legacy B y" for q s x y
    using that account_store.migration_skips [OF acc, of y JL JA q s] by (auto simp: has_legacy_def)
  have "list_all (\<lambda>b. b_Bucket B b d') store_buckets \<and>
     (\<not> has_legacy B d \<longrightarrow> (\<forall>b k. b_Get B b k d' = b_Get B b k d)) \<and>
     (has_legacy B d \<longrightarrow> (\<exists>i raw legacy. newID = Inr i \<and> b_Get B bucketSettings keySettingsAnthropicAuth d = Some raw \<and>
          Unmarshal JL raw = Inr legacy \<and> DefaultAnthropicAccountID B T None d' = Inr i \<and>
          GetAnthropicAccount B J None i d' = Inr (migrated_account i legacy t) \<and>
          (\<forall>k. b_Get B bucketAnthropicAccounts k d' \<noteq> None \<longrightarrow> k = i) \<and>
          b_Get B bucketSettings keySettingsAnthropicAuth d' = None \<and>
          (\<forall>k. pinned JA i (b_Get B bucketAgents k d) (b_Get B bucketAgents k d')))) \<and> \<not> has_legacy B d'"
  proof (cases "has_legacy B d")
    case False
    then have "d' = d1" using skip [OF mig] legacy by simp
    then show ?thesis using False legacy b1 by (simp add: list_all_iff)
  next
    case True
    then show ?thesis
      by (rule account_store.migration_pins [OF acc mig _ assms(4) assms(2) assms(3), unfolded legacy])
         (use True in \<open>auto simp: b1 list_all_iff store_buckets_def no_legacy DefaultAnthropicAccountID_def view_def
            account_store.GetAccount_Inr [OF acc]\<close>)
  qed
  moreover have "b_Get B b k d'' = b_Get B b k d'"
    if again: "Open B J JL JA T mkdir' file' newID' t' path maxAgents d' = (Inr n', d'')" and none: "\<not> has_legacy B d'"
    for mkdir' file' newID' t' n' d'' b k
  proof -
    obtain d2 where cb': "create_buckets B store_buckets d' = (None, d2)"
      and mig': "migrateLegacyAnthropicAuth B J JL JA T newID' t' d2 = (None, d'')"
      using bolt_api.Open_ok [OF bolt again] by blast
    note b2 = bolt_api.create_buckets_ok [OF bolt cb']
    have "b_Pairs B m d2 = [] \<longleftrightarrow> b_Pairs B m d' = []" for m
      using bolt_api.pairs_spec [OF bolt, of m d'] bolt_api.pairs_spec [OF bolt, of m d2] b2
      by (metis list.set_cases map_of_eq_empty_iff)
    then have "\<not> has_legacy B d2" using none b2 by (simp add: has_legacy_def)
    then show ?thesis using skip [OF mig'] b2 by simp
  qed
  ultimately show ?thesis using n by blast
qed

subsection \<open>A sample migration\<close>

definition legacy_agent :: "string \<Rightarrow> string \<Rightarrow> Agent" where
  "legacy_agent i backend = (new_agent (sample_spec i) 3)\<lparr>ag_Backend := backend\<rparr>"

definition legacy_db :: "account_raw ref_db" where
  "legacy_db = [bucketAgents \<mapsto> RBT.insert ''agt_1'' (RawAgent (legacy_agent ''agt_1'' ''anthropic''))
       (RBT.insert ''agt_2'' (RawAgent (legacy_agent ''agt_2'' ''ollama'')) RBT.empty),
     bucketSettings \<mapsto> RBT.insert keySettingsAnthropicAuth (RawLegacy \<lparr>la_Kind = AnthropicKindAPIKey, la_Value = ''sk''\<rparr>) RBT.empty]"

lemma sample_Open:
  "case Open account_bolt account_json legacy_json agent_json account_texts None None (Inr ''acc_1'') 7 ''/state/db'' 3 legacy_db of
     (Inl e, d') \<Rightarrow> False
   | (Inr n, d') \<Rightarrow> n = 3"
  by code_simp

theorem Open_migrates_once_witness:
  "case Open account_bolt account_json legacy_json agent_json account_texts None None (Inr ''acc_1'') 7 ''/state/db'' 3 legacy_db of
     (Inl e, d') \<Rightarrow> False
   | (Inr n, d') \<Rightarrow> n = 3 \<and> DefaultAnthropicAccountID account_bolt account_texts None d' = Inr ''acc_1'' \<and>
       GetAnthropicAccount account_bolt account_json None ''acc_1'' d' =
         Inr (migrated_account ''acc_1'' \<lparr>la_Kind = AnthropicKindAPIKey, la_Value = ''sk''\<rparr> 7) \<and>
       pinned agent_json ''acc_1'' (Some (RawAgent (legacy_agent ''agt_1'' ''anthropic''))) (b_Get account_bolt bucketAgents ''agt_1'' d')"
proof -
  obtain r d' where o: "Open account_bolt account_json legacy_json agent_json account_texts None None (Inr ''acc_1'') 7 ''/state/db'' 3 legacy_db = (r, d')"
    by fastforce
  obtain n where r: "r = Inr n" using sample_Open unfolding o by (auto split: sum.splits)
  have leg: "has_legacy account_bolt legacy_db" by code_simp
  have cred: "b_Get account_bolt bucketSettings keySettingsAnthropicAuth legacy_db =
      Some (RawLegacy \<lparr>la_Kind = AnthropicKindAPIKey, la_Value = ''sk''\<rparr>)" by code_simp
  have agt: "b_Get account_bolt bucketAgents ''agt_1'' legacy_db = Some (RawAgent (legacy_agent ''agt_1'' ''anthropic''))"
    by code_simp
  note q = Open_migrates_once [OF sample_account_store agent_json_codec TrueI TrueI o [unfolded r]]
  obtain i raw legacy where i: "Inr ''acc_1'' = Inr i" and raw: "b_Get account_bolt bucketSettings keySettingsAnthropicAuth legacy_db = Some raw"
    and legacy: "Unmarshal legacy_json raw = Inr legacy" and m: "DefaultAnthropicAccountID account_bolt account_texts None d' = Inr i"
      "GetAnthropicAccount account_bolt account_json None i d' = Inr (migrated_account i legacy 7)"
      "\<forall>k. pinned agent_json i (b_Get account_bolt bucketAgents k legacy_db) (b_Get account_bolt bucketAgents k d')"
    using q [THEN conjunct2, THEN conjunct2, THEN conjunct2, THEN conjunct2, THEN conjunct1] leg by blast
  have "legacy = \<lparr>la_Kind = AnthropicKindAPIKey, la_Value = ''sk''\<rparr>"
    using cred raw legacy by (simp add: legacy_json_def)
  then show ?thesis
    unfolding o r using q [THEN conjunct1] m i m(3) [THEN spec, of "''agt_1''"] agt by simp
qed

end
