(* ===== verification/Docker_Api.thy ===== *)
theory Docker_Api
  imports Bolt
begin

section \<open>The Docker daemon as the operator sees it\<close>

text \<open>
  The types and the \<^verbatim>\<open>Client\<close> interface of \<^verbatim>\<open>src/docker-operator/internal/dockerclient/client.go\<close>. Everything
  outside the process is one state of type \<open>'w\<close>: the daemon, the clock and the contexts. An
  operation takes it and returns it changed, so that nothing is assumed about what happens
  between two calls that the state does not say. The locale \<open>docker_client\<close> states what the
  interface's documentation promises about which objects a call may create or remove; the
  in-memory daemon of the next theory satisfies it.
\<close>

subsection \<open>Types\<close>

text \<open>Maps from names to values are association lists; a key that is absent reads as the empty string.\<close>

type_synonym labels = "(string \<times> string) list"

definition label :: "labels \<Rightarrow> string \<Rightarrow> string" where
  "label ls k = (case map_of ls k of None \<Rightarrow> [] | Some v \<Rightarrow> v)"

definition docker_ErrNotFound :: store_error where "docker_ErrNotFound = Sentinel ''not found''"

definition docker_IsNotFound :: "store_error \<Rightarrow> bool" where
  "docker_IsNotFound e = errors_Is e docker_ErrNotFound"

record VolumeSpec =
  vs_Name :: string
  vs_Labels :: labels

record Volume =
  vol_Name :: string
  vol_Labels :: labels
  vol_Mountpoint :: string

record VolumeUsage =
  vu_Name :: string
  vu_Size :: int

record NetworkSpec =
  ns_Name :: string
  ns_Labels :: labels

record Network =
  net_ID :: string
  net_Name :: string
  net_Labels :: labels

record Mount =
  mt_Type :: string
  mt_Source :: string
  mt_Target :: string
  mt_ReadOnly :: bool
  mt_Subpath :: string

definition MountTypeVolume :: string where "MountTypeVolume = ''volume''"
definition MountTypeBind :: string where "MountTypeBind = ''bind''"

record NetworkAttachment =
  na_Name :: string
  na_Aliases :: "string list"

record Healthcheck =
  hc_Test :: "string list"
  hc_Interval :: duration
  hc_Timeout :: duration
  hc_Retries :: int
  hc_StartPeriod :: duration

record ContainerSpec =
  sp_Name :: string
  sp_Image :: string
  sp_Entrypoint :: "string list"
  sp_Cmd :: "string list"
  sp_Env :: labels
  sp_Labels :: labels
  sp_Mounts :: "Mount list"
  sp_Networks :: "NetworkAttachment list"
  sp_Runtime :: string
  sp_TTY :: bool
  sp_OpenStdin :: bool
  sp_Healthcheck :: "Healthcheck option"

definition StateCreated :: string where "StateCreated = ''created''"
definition StateRunning :: string where "StateRunning = ''running''"
definition StateExited :: string where "StateExited = ''exited''"
definition StateDead :: string where "StateDead = ''dead''"

definition HealthNone :: string where "HealthNone = ''none''"
definition HealthStarting :: string where "HealthStarting = ''starting''"
definition HealthHealthy :: string where "HealthHealthy = ''healthy''"
definition HealthUnhealthy :: string where "HealthUnhealthy = ''unhealthy''"

text \<open>An address is its text; the empty string is the zero \<^verbatim>\<open>netip.Addr\<close>, the only one that is not valid.\<close>

record Container =
  ctr_ID :: string
  ctr_Name :: string
  ctr_Image :: string
  ctr_State :: string
  ctr_Health :: string
  ctr_ExitCode :: int
  ctr_Labels :: labels
  ctr_Networks :: "(string \<times> string) list"

record ExecSpec =
  ex_Cmd :: "string list"
  ex_Env :: labels
  ex_User :: string
  ex_WorkingDir :: string
  ex_TTY :: bool
  ex_Stdin :: bool

record ExecStatus =
  es_Running :: bool
  es_ExitCode :: int

record Image =
  im_ID :: string
  im_RepoTags :: "string list"

subsection \<open>The interface\<close>

text \<open>
  A context is what \<^verbatim>\<open>ctx.Err()\<close> answers. Reading the whole output of an attached exec and closing
  it is one step, as every caller does it.
\<close>

type_synonym 'w ctx = "'w \<Rightarrow> store_error option \<times> 'w"
type_synonym ('w, 'a) call = "'w \<Rightarrow> (store_error + 'a) \<times> 'w"

record 'w docker =
  dk_VolumeCreate :: "'w ctx \<Rightarrow> VolumeSpec \<Rightarrow> ('w, Volume) call"
  dk_VolumeList :: "'w ctx \<Rightarrow> labels \<Rightarrow> ('w, Volume list) call"
  dk_VolumeRemove :: "'w ctx \<Rightarrow> string \<Rightarrow> ('w, unit) call"
  dk_VolumeUsage :: "'w ctx \<Rightarrow> ('w, VolumeUsage list) call"
  dk_NetworkCreate :: "'w ctx \<Rightarrow> NetworkSpec \<Rightarrow> ('w, Network) call"
  dk_NetworkList :: "'w ctx \<Rightarrow> labels \<Rightarrow> ('w, Network list) call"
  dk_NetworkRemove :: "'w ctx \<Rightarrow> string \<Rightarrow> ('w, unit) call"
  dk_NetworkConnect :: "'w ctx \<Rightarrow> string \<Rightarrow> string \<Rightarrow> ('w, string) call"
  dk_NetworkDisconnect :: "'w ctx \<Rightarrow> string \<Rightarrow> string \<Rightarrow> ('w, unit) call"
  dk_ContainerCreate :: "'w ctx \<Rightarrow> ContainerSpec \<Rightarrow> ('w, string) call"
  dk_ContainerStart :: "'w ctx \<Rightarrow> string \<Rightarrow> ('w, unit) call"
  dk_ContainerStop :: "'w ctx \<Rightarrow> string \<Rightarrow> duration \<Rightarrow> ('w, unit) call"
  dk_ContainerRemove :: "'w ctx \<Rightarrow> string \<Rightarrow> ('w, unit) call"
  dk_ContainerInspect :: "'w ctx \<Rightarrow> string \<Rightarrow> ('w, Container) call"
  dk_ContainerList :: "'w ctx \<Rightarrow> labels \<Rightarrow> ('w, Container list) call"
  dk_CopyFromContainer :: "'w ctx \<Rightarrow> string \<Rightarrow> string \<Rightarrow> ('w, string) call"
  dk_ExecCreate :: "'w ctx \<Rightarrow> string \<Rightarrow> ExecSpec \<Rightarrow> ('w, string) call"
  dk_ExecAttach :: "'w ctx \<Rightarrow> string \<Rightarrow> ('w, string) call"
  dk_ExecRead :: "'w ctx \<Rightarrow> string \<Rightarrow> ('w, string) call"
  dk_ExecInspect :: "'w ctx \<Rightarrow> string \<Rightarrow> ('w, ExecStatus) call"
  dk_ImageInspect :: "'w ctx \<Rightarrow> string \<Rightarrow> ('w, Image) call"
  dk_ImagePull :: "'w ctx \<Rightarrow> string \<Rightarrow> ('w, unit) call"
  dk_ImageList :: "'w ctx \<Rightarrow> string \<Rightarrow> ('w, Image list) call"
  dk_ImageRemove :: "'w ctx \<Rightarrow> string \<Rightarrow> ('w, unit) call"

text \<open>The rest of the outside world: the wall clock, and a timer raced against the context.\<close>

record 'w clock =
  ck_Now :: "'w \<Rightarrow> time \<times> 'w"
  ck_Sleep :: "'w ctx \<Rightarrow> duration \<Rightarrow> 'w \<Rightarrow> store_error option \<times> 'w"

subsection \<open>What the daemon promises\<close>

text \<open>
  What an observer can see of the world: the volumes and networks by name, the containers by ID
  and name, and the clock.
\<close>

record 'w observer =
  ob_volumes :: "'w \<Rightarrow> string set"
  ob_networks :: "'w \<Rightarrow> string set"
  ob_containers :: "'w \<Rightarrow> (string \<times> string) set"
  ob_clock :: "'w \<Rightarrow> time"

definition answers_to :: "string \<Rightarrow> string \<times> string \<Rightarrow> bool" where
  "answers_to ref p \<longleftrightarrow> fst p = ref \<or> snd p = ref"

text \<open>The objects are the same, and time has not gone backwards.\<close>

definition same_objects :: "'w observer \<Rightarrow> 'w \<Rightarrow> 'w \<Rightarrow> bool" where
  "same_objects Ob w w' \<longleftrightarrow>
     ob_volumes Ob w' = ob_volumes Ob w \<and> ob_networks Ob w' = ob_networks Ob w \<and>
     ob_containers Ob w' = ob_containers Ob w \<and> ob_clock Ob w \<le> ob_clock Ob w'"

text \<open>At most the objects with these names were removed.\<close>

definition removes_at_most :: "'w observer \<Rightarrow> string set \<Rightarrow> string set \<Rightarrow> string set \<Rightarrow> 'w \<Rightarrow> 'w \<Rightarrow> bool" where
  "removes_at_most Ob vs ns cs w w' \<longleftrightarrow>
     ob_volumes Ob w - vs \<subseteq> ob_volumes Ob w' \<and> ob_networks Ob w - ns \<subseteq> ob_networks Ob w' \<and>
     {p \<in> ob_containers Ob w. \<forall>c \<in> cs. \<not> answers_to c p} \<subseteq> ob_containers Ob w' \<and> ob_clock Ob w \<le> ob_clock Ob w'"

text \<open>At most the objects with these names were added; a container answers to its name.\<close>

definition adds_at_most :: "'w observer \<Rightarrow> string set \<Rightarrow> string set \<Rightarrow> string set \<Rightarrow> 'w \<Rightarrow> 'w \<Rightarrow> bool" where
  "adds_at_most Ob vs ns cs w w' \<longleftrightarrow>
     ob_volumes Ob w' \<subseteq> ob_volumes Ob w \<union> vs \<and> ob_networks Ob w' \<subseteq> ob_networks Ob w \<union> ns \<and>
     ob_containers Ob w' \<subseteq> ob_containers Ob w \<union> {p. snd p \<in> cs}"

lemma same_objects_refl [simp]: "same_objects Ob w w"
  by (simp add: same_objects_def)

lemma same_objects_trans: "same_objects Ob u v \<Longrightarrow> same_objects Ob v w \<Longrightarrow> same_objects Ob u w"
  by (simp add: same_objects_def)

lemma removes_refl [simp]: "removes_at_most Ob vs ns cs w w"
  by (auto simp: removes_at_most_def)

lemma adds_refl [simp]: "adds_at_most Ob vs ns cs w w"
  by (auto simp: adds_at_most_def)

lemma removes_trans: "removes_at_most Ob vs ns cs u v \<Longrightarrow> removes_at_most Ob vs ns cs v w \<Longrightarrow> removes_at_most Ob vs ns cs u w"
  by (fastforce simp: removes_at_most_def)

lemma adds_trans: "adds_at_most Ob vs ns cs u v \<Longrightarrow> adds_at_most Ob vs ns cs v w \<Longrightarrow> adds_at_most Ob vs ns cs u w"
  by (auto simp: adds_at_most_def)

lemma removes_mono:
  "removes_at_most Ob vs ns cs u v \<Longrightarrow> vs \<subseteq> vs' \<Longrightarrow> ns \<subseteq> ns' \<Longrightarrow> cs \<subseteq> cs' \<Longrightarrow> removes_at_most Ob vs' ns' cs' u v"
  by (fastforce simp: removes_at_most_def)

lemma adds_mono:
  "adds_at_most Ob vs ns cs u v \<Longrightarrow> vs \<subseteq> vs' \<Longrightarrow> ns \<subseteq> ns' \<Longrightarrow> cs \<subseteq> cs' \<Longrightarrow> adds_at_most Ob vs' ns' cs' u v"
  by (fastforce simp: adds_at_most_def)

lemma same_removes: "same_objects Ob u v \<Longrightarrow> removes_at_most Ob vs ns cs u v"
  by (auto simp: same_objects_def removes_at_most_def)

lemma same_adds: "same_objects Ob u v \<Longrightarrow> adds_at_most Ob vs ns cs u v"
  by (auto simp: same_objects_def adds_at_most_def)

text \<open>
  The locale's \<open>sound\<close> is the daemon's own invariant; a name \<open>nameable\<close> is one that cannot be taken
  for an ID.
\<close>

locale docker_client =
  fixes D :: "'w docker" and K :: "'w clock" and Ob :: "'w observer"
    and sound :: "'w \<Rightarrow> bool" and nameable :: "string \<Rightarrow> bool" and contexts :: "'w ctx set"
  assumes quiet:
      "\<And>w. snd (dk_VolumeList D c ls w) = w1 \<Longrightarrow> sound w \<Longrightarrow> sound w1 \<and> same_objects Ob w w1"
      "\<And>w. snd (dk_VolumeUsage D c w) = w1 \<Longrightarrow> sound w \<Longrightarrow> sound w1 \<and> same_objects Ob w w1"
      "\<And>w. snd (dk_NetworkList D c ls w) = w1 \<Longrightarrow> sound w \<Longrightarrow> sound w1 \<and> same_objects Ob w w1"
      "\<And>w. snd (dk_NetworkConnect D c n r w) = w1 \<Longrightarrow> sound w \<Longrightarrow> sound w1 \<and> same_objects Ob w w1"
      "\<And>w. snd (dk_NetworkDisconnect D c n r w) = w1 \<Longrightarrow> sound w \<Longrightarrow> sound w1 \<and> same_objects Ob w w1"
      "\<And>w. snd (dk_ContainerStart D c r w) = w1 \<Longrightarrow> sound w \<Longrightarrow> sound w1 \<and> same_objects Ob w w1"
      "\<And>w. snd (dk_ContainerStop D c r t w) = w1 \<Longrightarrow> sound w \<Longrightarrow> sound w1 \<and> same_objects Ob w w1"
      "\<And>w. snd (dk_ContainerInspect D c r w) = w1 \<Longrightarrow> sound w \<Longrightarrow> sound w1 \<and> same_objects Ob w w1"
      "\<And>w. snd (dk_ContainerList D c ls w) = w1 \<Longrightarrow> sound w \<Longrightarrow> sound w1 \<and> same_objects Ob w w1"
      "\<And>w. snd (dk_CopyFromContainer D c r p w) = w1 \<Longrightarrow> sound w \<Longrightarrow> sound w1 \<and> same_objects Ob w w1"
      "\<And>w. snd (dk_ExecCreate D c r x w) = w1 \<Longrightarrow> sound w \<Longrightarrow> sound w1 \<and> same_objects Ob w w1"
      "\<And>w. snd (dk_ExecAttach D c r w) = w1 \<Longrightarrow> sound w \<Longrightarrow> sound w1 \<and> same_objects Ob w w1"
      "\<And>w. snd (dk_ExecRead D c r w) = w1 \<Longrightarrow> sound w \<Longrightarrow> sound w1 \<and> same_objects Ob w w1"
      "\<And>w. snd (dk_ExecInspect D c r w) = w1 \<Longrightarrow> sound w \<Longrightarrow> sound w1 \<and> same_objects Ob w w1"
      "\<And>w. snd (dk_ImageInspect D c r w) = w1 \<Longrightarrow> sound w \<Longrightarrow> sound w1 \<and> same_objects Ob w w1"
      "\<And>w. snd (dk_ImagePull D c r w) = w1 \<Longrightarrow> sound w \<Longrightarrow> sound w1 \<and> same_objects Ob w w1"
      "\<And>w. snd (dk_ImageList D c r w) = w1 \<Longrightarrow> sound w \<Longrightarrow> sound w1 \<and> same_objects Ob w w1"
      "\<And>w. snd (dk_ImageRemove D c r w) = w1 \<Longrightarrow> sound w \<Longrightarrow> sound w1 \<and> same_objects Ob w w1"
    and context_quiet: "\<And>w. c \<in> contexts \<Longrightarrow> snd (c w) = w1 \<Longrightarrow> sound w \<Longrightarrow> sound w1 \<and> same_objects Ob w w1"
    and now_quiet: "\<And>w. ck_Now K w = (t, w1) \<Longrightarrow> sound w \<Longrightarrow> sound w1 \<and> same_objects Ob w w1 \<and> ob_clock Ob w \<le> t \<and> t \<le> ob_clock Ob w1"
    and sleep_quiet: "\<And>w. ck_Sleep K c t w = (e, w1) \<Longrightarrow> sound w \<Longrightarrow>
      sound w1 \<and> same_objects Ob w w1 \<and> (e = None \<longrightarrow> ob_clock Ob w + t \<le> ob_clock Ob w1)"
    and volume_create: "\<And>w. dk_VolumeCreate D c vspec w = (r1, w1) \<Longrightarrow> sound w \<Longrightarrow>
      sound w1 \<and> removes_at_most Ob {} {} {} w w1 \<and> adds_at_most Ob {vs_Name vspec} {} {} w w1"
    and volume_remove: "\<And>w. dk_VolumeRemove D c v w = (r2, w1) \<Longrightarrow> sound w \<Longrightarrow>
      sound w1 \<and> removes_at_most Ob {v} {} {} w w1 \<and> adds_at_most Ob {} {} {} w w1 \<and> (r2 = Inr () \<longrightarrow> v \<notin> ob_volumes Ob w1)"
    and network_create: "\<And>w. dk_NetworkCreate D c nspec w = (r3, w1) \<Longrightarrow> sound w \<Longrightarrow>
      sound w1 \<and> removes_at_most Ob {} {} {} w w1 \<and> adds_at_most Ob {} {ns_Name nspec} {} w w1"
    and network_remove: "\<And>w. dk_NetworkRemove D c v w = (r2, w1) \<Longrightarrow> sound w \<Longrightarrow>
      sound w1 \<and> removes_at_most Ob {} {v} {} w w1 \<and> adds_at_most Ob {} {} {} w w1 \<and> (r2 = Inr () \<longrightarrow> v \<notin> ob_networks Ob w1)"
    and container_create: "\<And>w. dk_ContainerCreate D c spec w = (r4, w1) \<Longrightarrow> sound w \<Longrightarrow> nameable (sp_Name spec) \<Longrightarrow>
      sound w1 \<and> removes_at_most Ob {} {} {} w w1 \<and> adds_at_most Ob {} {} {sp_Name spec} w w1 \<and>
      (\<forall>i. r4 = Inr i \<longrightarrow> (i, sp_Name spec) \<in> ob_containers Ob w1 \<and> (\<forall>p \<in> ob_containers Ob w. \<not> answers_to i p \<and> \<not> answers_to (sp_Name spec) p))"
    and container_remove: "\<And>w. dk_ContainerRemove D c r w = (r2, w1) \<Longrightarrow> sound w \<Longrightarrow>
      sound w1 \<and> removes_at_most Ob {} {} {r} w w1 \<and> adds_at_most Ob {} {} {} w w1 \<and>
      (r2 = Inr () \<longrightarrow> (\<forall>p \<in> ob_containers Ob w1. \<not> answers_to r p))"
    and container_id: "\<And>w. sound w \<Longrightarrow> ctr \<in> ob_containers Ob w \<Longrightarrow> nameable n \<Longrightarrow> fst ctr \<noteq> n"

end
