(* ===== verification/Fake_Docker.thy ===== *)
theory Fake_Docker
  imports Complex_Main Docker_Api "HOL-Library.AList"
begin

section \<open>The in-memory daemon\<close>

text \<open>
  \<^verbatim>\<open>src/docker-operator/internal/dockerclient/dockerclienttest/fake.go\<close>: the repository's own implementation of
  the \<^verbatim>\<open>Client\<close> interface, whose package comment promises to be faithful about idempotent removes,
  label-filtered sorted lists and addresses for running containers only. Every method runs
  under one lock, so a method is one step on the record \<open>Fake\<close>. Its Go maps are association
  lists with distinct keys; an iteration visits them in the list's order. Building a tar
  archive and reducing an image reference to its familiar name are parameters, and the time
  an event carries is an argument.
\<close>

subsection \<open>State\<close>

definition errConflict :: store_error where "errConflict = Sentinel ''already exists''"

record Stats =
  st_Read :: time
  st_CPUPercent :: rat
  st_MemoryUsed :: int
  st_MemoryLimit :: int
  st_Pids :: int

record volumeRecord =
  vr_name :: string
  vr_labels :: labels
  vr_mountpoint :: string
  vr_usage :: "VolumeUsage option"

record networkRecord =
  nr_id :: string
  nr_name :: string
  nr_labels :: labels
  nr_idx :: int
  nr_nextEndpoint :: int

record containerRecord =
  cr_id :: string
  cr_name :: string
  cr_image :: string
  cr_spec :: ContainerSpec
  cr_state :: string
  cr_health :: string
  cr_exitCode :: int
  cr_labels :: labels
  cr_networks :: "(string \<times> string) list"
  cr_stats :: "Stats option"
  cr_copyPaths :: "(string \<times> string) list"

record execRecord =
  er_output :: string
  er_cursor :: nat
  er_exitCode :: int
  er_running :: bool
  er_stdin :: string

record EventFilter =
  ef_Types :: "string list"
  ef_Labels :: labels

record Event =
  ev_Type :: string
  ev_Action :: string
  ev_ActorID :: string
  ev_Attributes :: labels
  ev_Time :: time

text \<open>A subscriber has an identity of its own; \<open>sb_seen\<close> is what went through its channel.\<close>

record subscriber =
  sb_ref :: nat
  sb_filter :: EventFilter
  sb_seen :: "Event list"

record Fake =
  fk_idSeq :: nat
  fk_netSeq :: int
  fk_volumes :: "(string \<times> volumeRecord) list"
  fk_networks :: "(string \<times> networkRecord) list"
  fk_containers :: "(string \<times> containerRecord) list"
  fk_execs :: "(string \<times> execRecord) list"
  fk_execSpecs :: "ExecSpec list"
  fk_images :: "string list"
  fk_imageIDs :: "(string \<times> string) list"
  fk_calls :: "(string \<times> string) list"
  fk_failSticky :: "(string \<times> store_error) list"
  fk_failOnce :: "(string \<times> store_error list) list"
  fk_subs :: "subscriber list"
  fk_ExecOutput :: "(string \<times> string) list"
  fk_ExecExit :: "(string \<times> int) list"
  fk_AutoHealthy :: bool
  fk_RequireImages :: bool

definition New :: Fake where
  "New = \<lparr>fk_idSeq = 0, fk_netSeq = 0, fk_volumes = [], fk_networks = [], fk_containers = [], fk_execs = [],
     fk_execSpecs = [], fk_images = [], fk_imageIDs = [], fk_calls = [], fk_failSticky = [], fk_failOnce = [],
     fk_subs = [], fk_ExecOutput = [], fk_ExecExit = [], fk_AutoHealthy = False, fk_RequireImages = False\<rparr>"

definition toVolume :: "volumeRecord \<Rightarrow> Volume" where
  "toVolume v = \<lparr>vol_Name = vr_name v, vol_Labels = vr_labels v, vol_Mountpoint = vr_mountpoint v\<rparr>"

definition toNetwork :: "networkRecord \<Rightarrow> Network" where
  "toNetwork n = \<lparr>net_ID = nr_id n, net_Name = nr_name n, net_Labels = nr_labels n\<rparr>"

definition toContainer :: "containerRecord \<Rightarrow> Container" where
  "toContainer c = \<lparr>ctr_ID = cr_id c, ctr_Name = cr_name c, ctr_Image = cr_image c, ctr_State = cr_state c,
     ctr_Health = cr_health c, ctr_ExitCode = cr_exitCode c, ctr_Labels = cr_labels c, ctr_Networks = cr_networks c\<rparr>"

subsection \<open>Failures, identifiers, events\<close>

definition Fail :: "string \<Rightarrow> store_error option \<Rightarrow> Fake \<Rightarrow> Fake" where
  "Fail op err f =
     (case err of
        None \<Rightarrow> f\<lparr>fk_failSticky := AList.delete op (fk_failSticky f)\<rparr>
      | Some e \<Rightarrow> f\<lparr>fk_failSticky := AList.update op e (fk_failSticky f)\<rparr>)"

definition queued :: "string \<Rightarrow> Fake \<Rightarrow> store_error list" where
  "queued op f = (case map_of (fk_failOnce f) op of None \<Rightarrow> [] | Some q \<Rightarrow> q)"

definition FailOnce :: "string \<Rightarrow> store_error \<Rightarrow> Fake \<Rightarrow> Fake" where
  "FailOnce op err f = f\<lparr>fk_failOnce := AList.update op (queued op f @ [err]) (fk_failOnce f)\<rparr>"

definition fake_call :: "string \<Rightarrow> string \<Rightarrow> Fake \<Rightarrow> store_error option \<times> Fake" where
  "fake_call op target f =
     (let f = f\<lparr>fk_calls := fk_calls f @ [(op, target)]\<rparr>
      in case queued op f of
           err # q \<Rightarrow> (Some err, f\<lparr>fk_failOnce := AList.update op q (fk_failOnce f)\<rparr>)
         | [] \<Rightarrow> (map_of (fk_failSticky f) op, f))"

definition hex_digit :: "nat \<Rightarrow> char" where
  "hex_digit d = (if d < 10 then char_of (48 + d) else char_of (87 + d))"

fun hex_of :: "nat \<Rightarrow> string" where
  "hex_of n = (if n < 16 then [hex_digit n] else hex_of (n div 16) @ [hex_digit (n mod 16)])"

declare hex_of.simps [simp del]

text \<open>\<^verbatim>\<open>%064x\<close> pads with zeros to 64 digits.\<close>

definition id_text :: "nat \<Rightarrow> string" where
  "id_text n = (let h = hex_of n in replicate (64 - length h) CHR ''0'' @ h)"

definition nextID :: "Fake \<Rightarrow> string \<times> Fake" where
  "nextID f = (let f = f\<lparr>fk_idSeq := fk_idSeq f + 1\<rparr> in (id_text (fk_idSeq f), f))"

definition labelSubset :: "labels \<Rightarrow> labels \<Rightarrow> bool" where
  "labelSubset want have \<longleftrightarrow> list_all (\<lambda>(k, v). label have k = v) want"

definition matchesFilter :: "EventFilter \<Rightarrow> Event \<Rightarrow> bool" where
  "matchesFilter flt ev \<longleftrightarrow>
     (ef_Types flt = [] \<or> ev_Type ev \<in> set (ef_Types flt)) \<and> labelSubset (ef_Labels flt) (ev_Attributes ev)"

definition Emit :: "Event \<Rightarrow> Fake \<Rightarrow> Fake" where
  "Emit ev f = f\<lparr>fk_subs := map (\<lambda>s. if matchesFilter (sb_filter s) ev then s\<lparr>sb_seen := sb_seen s @ [ev]\<rparr> else s) (fk_subs f)\<rparr>"

definition Events :: "nat \<Rightarrow> EventFilter \<Rightarrow> Fake \<Rightarrow> (store_error + unit) \<times> Fake" where
  "Events ref flt f =
     (case fake_call ''Events'' [] f of
        (Some e, f) \<Rightarrow> (Inl e, f)
      | (None, f) \<Rightarrow> (Inr (), f\<lparr>fk_subs := fk_subs f @ [\<lparr>sb_ref = ref, sb_filter = flt, sb_seen = []\<rparr>]\<rparr>))"

fun remove_first :: "('a \<Rightarrow> bool) \<Rightarrow> 'a list \<Rightarrow> 'a list" where
  "remove_first P [] = []"
| "remove_first P (x # xs) = (if P x then xs else x # remove_first P xs)"

definition removeSub :: "nat \<Rightarrow> Fake \<Rightarrow> Fake" where
  "removeSub ref f = f\<lparr>fk_subs := remove_first (\<lambda>s. sb_ref s = ref) (fk_subs f)\<rparr>"

definition container_event :: "string \<Rightarrow> string \<Rightarrow> labels \<Rightarrow> time \<Rightarrow> Event" where
  "container_event action i ls now =
     \<lparr>ev_Type = ''container'', ev_Action = action, ev_ActorID = i, ev_Attributes = ls, ev_Time = now\<rparr>"

definition Ping :: "Fake \<Rightarrow> store_error option \<times> Fake" where "Ping = fake_call ''Ping'' []"
definition Close :: "Fake \<Rightarrow> store_error option \<times> Fake" where "Close = fake_call ''Close'' []"

text \<open>The shape of every method: record the call, fail when told to, else do the work.\<close>

definition guarded :: "string \<Rightarrow> string \<Rightarrow> (Fake \<Rightarrow> (store_error + 'a) \<times> Fake) \<Rightarrow> Fake \<Rightarrow> (store_error + 'a) \<times> Fake" where
  "guarded op target body f =
     (case fake_call op target f of
        (Some e, f) \<Rightarrow> (Inl e, f)
      | (None, f) \<Rightarrow> body f)"

definition not_found :: "string \<Rightarrow> store_error" where
  "not_found what = Wrap what docker_ErrNotFound"

subsection \<open>Volumes\<close>

definition VolumeCreate :: "VolumeSpec \<Rightarrow> Fake \<Rightarrow> (store_error + Volume) \<times> Fake" where
  "VolumeCreate spec = guarded ''VolumeCreate'' (vs_Name spec) (\<lambda>f.
     case map_of (fk_volumes f) (vs_Name spec) of
       Some v \<Rightarrow> (Inr (toVolume v), f)
     | None \<Rightarrow>
         (let v = \<lparr>vr_name = vs_Name spec, vr_labels = vs_Labels spec,
                   vr_mountpoint = ''/var/lib/docker/volumes/'' @ vs_Name spec @ ''/_data'', vr_usage = None\<rparr>
          in (Inr (toVolume v), f\<lparr>fk_volumes := AList.update (vs_Name spec) v (fk_volumes f)\<rparr>)))"

definition VolumeInspect :: "string \<Rightarrow> Fake \<Rightarrow> (store_error + Volume) \<times> Fake" where
  "VolumeInspect name = guarded ''VolumeInspect'' name (\<lambda>f.
     case map_of (fk_volumes f) name of
       None \<Rightarrow> (Inl (not_found ''volume''), f)
     | Some v \<Rightarrow> (Inr (toVolume v), f))"

definition VolumeList :: "labels \<Rightarrow> Fake \<Rightarrow> (store_error + Volume list) \<times> Fake" where
  "VolumeList ls = guarded ''VolumeList'' [] (\<lambda>f.
     (Inr (sort_key vol_Name (map toVolume (filter (\<lambda>v. labelSubset ls (vr_labels v)) (map snd (fk_volumes f))))), f))"

definition VolumeRemove :: "string \<Rightarrow> Fake \<Rightarrow> (store_error + unit) \<times> Fake" where
  "VolumeRemove name = guarded ''VolumeRemove'' name (\<lambda>f. (Inr (), f\<lparr>fk_volumes := AList.delete name (fk_volumes f)\<rparr>))"

definition volume_usage :: "volumeRecord \<Rightarrow> VolumeUsage" where
  "volume_usage v = (case vr_usage v of Some u \<Rightarrow> u | None \<Rightarrow> \<lparr>vu_Name = vr_name v, vu_Size = 0\<rparr>)"

definition fake_VolumeUsage :: "Fake \<Rightarrow> (store_error + VolumeUsage list) \<times> Fake" where
  "fake_VolumeUsage = guarded ''VolumeUsage'' [] (\<lambda>f.
     (Inr (sort_key vu_Name (map (volume_usage \<circ> snd) (fk_volumes f))), f))"

definition SetVolumeUsage :: "string \<Rightarrow> int \<Rightarrow> Fake \<Rightarrow> store_error option \<times> Fake" where
  "SetVolumeUsage name n f =
     (case map_of (fk_volumes f) name of
        None \<Rightarrow> (Some (not_found ''volume''), f)
      | Some v \<Rightarrow> (None, f\<lparr>fk_volumes := AList.update name (v\<lparr>vr_usage := Some \<lparr>vu_Name = name, vu_Size = n\<rparr>\<rparr>) (fk_volumes f)\<rparr>))"

subsection \<open>Networks and addresses\<close>

definition clampByte :: "int \<Rightarrow> int" where
  "clampByte n = (if n < 0 then 0 else if n > 255 then 255 else n)"

definition allocAddr :: "int \<Rightarrow> int \<Rightarrow> string" where
  "allocAddr netIdx endpointIdx =
     ''172.31.'' @ decimal_int (clampByte netIdx) @ ''.'' @ decimal_int (clampByte endpointIdx)"

fun find_container :: "(containerRecord \<Rightarrow> bool) \<Rightarrow> (string \<times> containerRecord) list \<Rightarrow> containerRecord option" where
  "find_container P [] = None"
| "find_container P ((i, c) # cs) = (if P c then Some c else find_container P cs)"

definition resolveContainer :: "string \<Rightarrow> Fake \<Rightarrow> containerRecord option" where
  "resolveContainer idOrName f =
     (case map_of (fk_containers f) idOrName of
        Some c \<Rightarrow> Some c
      | None \<Rightarrow> find_container (\<lambda>c. cr_name c = idOrName) (fk_containers f))"

text \<open>A change to a resolved container is a change to the record the map holds under its ID.\<close>

definition put_container :: "containerRecord \<Rightarrow> Fake \<Rightarrow> Fake" where
  "put_container c f = f\<lparr>fk_containers := AList.update (cr_id c) c (fk_containers f)\<rparr>"

definition NetworkCreate :: "NetworkSpec \<Rightarrow> Fake \<Rightarrow> (store_error + Network) \<times> Fake" where
  "NetworkCreate spec = guarded ''NetworkCreate'' (ns_Name spec) (\<lambda>f.
     case map_of (fk_networks f) (ns_Name spec) of
       Some n \<Rightarrow> (Inr (toNetwork n), f)
     | None \<Rightarrow>
         (let f = f\<lparr>fk_netSeq := fk_netSeq f + 1\<rparr>;
              (i, f) = nextID f;
              n = \<lparr>nr_id = i, nr_name = ns_Name spec, nr_labels = ns_Labels spec, nr_idx = fk_netSeq f, nr_nextEndpoint = 0\<rparr>
          in (Inr (toNetwork n), f\<lparr>fk_networks := AList.update (ns_Name spec) n (fk_networks f)\<rparr>)))"

definition NetworkInspect :: "string \<Rightarrow> Fake \<Rightarrow> (store_error + Network) \<times> Fake" where
  "NetworkInspect name = guarded ''NetworkInspect'' name (\<lambda>f.
     case map_of (fk_networks f) name of
       None \<Rightarrow> (Inl (not_found ''network''), f)
     | Some n \<Rightarrow> (Inr (toNetwork n), f))"

definition NetworkList :: "labels \<Rightarrow> Fake \<Rightarrow> (store_error + Network list) \<times> Fake" where
  "NetworkList ls = guarded ''NetworkList'' [] (\<lambda>f.
     (Inr (sort_key net_Name (map toNetwork (filter (\<lambda>n. labelSubset ls (nr_labels n)) (map snd (fk_networks f))))), f))"

definition NetworkRemove :: "string \<Rightarrow> Fake \<Rightarrow> (store_error + unit) \<times> Fake" where
  "NetworkRemove name = guarded ''NetworkRemove'' name (\<lambda>f. (Inr (), f\<lparr>fk_networks := AList.delete name (fk_networks f)\<rparr>))"

definition endpoint :: "networkRecord \<Rightarrow> containerRecord \<Rightarrow> Fake \<Rightarrow> string \<times> containerRecord \<times> Fake" where
  "endpoint n c f =
     (let n = n\<lparr>nr_nextEndpoint := nr_nextEndpoint n + 1\<rparr>;
          addr = allocAddr (nr_idx n) (nr_nextEndpoint n)
      in (addr, c\<lparr>cr_networks := AList.update (nr_name n) addr (cr_networks c)\<rparr>,
          f\<lparr>fk_networks := AList.update (nr_name n) n (fk_networks f)\<rparr>))"

definition NetworkConnect :: "string \<Rightarrow> string \<Rightarrow> Fake \<Rightarrow> (store_error + string) \<times> Fake" where
  "NetworkConnect networkName containerID = guarded ''NetworkConnect'' (networkName @ ''/'' @ containerID) (\<lambda>f.
     case map_of (fk_networks f) networkName of
       None \<Rightarrow> (Inl (not_found ''network''), f)
     | Some n \<Rightarrow>
         (case resolveContainer containerID f of
            None \<Rightarrow> (Inl (not_found ''container''), f)
          | Some c \<Rightarrow>
              if cr_state c \<noteq> StateRunning then (Inl (Plain ''the daemon reported no address for it''), f)
              else (case map_of (cr_networks c) networkName of
                      Some addr \<Rightarrow> (Inr addr, f)
                    | None \<Rightarrow> (case endpoint n c f of (addr, c, f) \<Rightarrow> (Inr addr, put_container c f)))))"

definition NetworkDisconnect :: "string \<Rightarrow> string \<Rightarrow> Fake \<Rightarrow> (store_error + unit) \<times> Fake" where
  "NetworkDisconnect networkName containerID = guarded ''NetworkDisconnect'' (networkName @ ''/'' @ containerID) (\<lambda>f.
     case resolveContainer containerID f of
       None \<Rightarrow> (Inr (), f)
     | Some c \<Rightarrow> (Inr (), put_container (c\<lparr>cr_networks := AList.delete networkName (cr_networks c)\<rparr>) f))"

subsection \<open>Containers\<close>

definition new_container :: "string \<Rightarrow> ContainerSpec \<Rightarrow> containerRecord" where
  "new_container i spec =
     \<lparr>cr_id = i, cr_name = sp_Name spec, cr_image = sp_Image spec, cr_spec = spec, cr_state = StateCreated,
      cr_health = HealthNone, cr_exitCode = 0, cr_labels = sp_Labels spec, cr_networks = [],
      cr_stats = None, cr_copyPaths = []\<rparr>"

definition ContainerCreate :: "ContainerSpec \<Rightarrow> Fake \<Rightarrow> (store_error + string) \<times> Fake" where
  "ContainerCreate spec = guarded ''ContainerCreate'' (sp_Name spec) (\<lambda>f.
     if list_ex (\<lambda>(i, c). cr_name c = sp_Name spec) (fk_containers f) then (Inl (Wrap ''container'' errConflict), f)
     else if fk_RequireImages f \<and> sp_Image spec \<notin> set (fk_images f)
     then (Inl (Plain ''image is not present on the (fake) daemon; ensureImages must inspect/pull it first''), f)
     else (case nextID f of (i, f) \<Rightarrow> (Inr i, put_container (new_container i spec) f)))"

fun attach_networks :: "NetworkAttachment list \<Rightarrow> containerRecord \<Rightarrow> Fake \<Rightarrow> containerRecord \<times> Fake" where
  "attach_networks [] c f = (c, f)"
| "attach_networks (na # nas) c f =
     (if map_of (cr_networks c) (na_Name na) \<noteq> None then attach_networks nas c f
      else case map_of (fk_networks f) (na_Name na) of
             None \<Rightarrow> attach_networks nas c f
           | Some n \<Rightarrow> (case endpoint n c f of (_, c, f) \<Rightarrow> attach_networks nas c f))"

definition started :: "bool \<Rightarrow> containerRecord \<Rightarrow> containerRecord" where
  "started autoHealthy c =
     (let c = c\<lparr>cr_state := StateRunning\<rparr>
      in if sp_Healthcheck (cr_spec c) \<noteq> None
         then c\<lparr>cr_health := (if autoHealthy then HealthHealthy else HealthStarting)\<rparr> else c)"

definition ContainerStart :: "time \<Rightarrow> string \<Rightarrow> Fake \<Rightarrow> (store_error + unit) \<times> Fake" where
  "ContainerStart now i = guarded ''ContainerStart'' i (\<lambda>f.
     case map_of (fk_containers f) i of
       None \<Rightarrow> (Inl (not_found ''container''), f)
     | Some c \<Rightarrow>
         (case attach_networks (sp_Networks (cr_spec c)) (started (fk_AutoHealthy f) c) f of
            (c, f) \<Rightarrow> (Inr (), Emit (container_event ''start'' i (cr_labels c) now) (put_container c f))))"

definition ContainerStop :: "time \<Rightarrow> string \<Rightarrow> Fake \<Rightarrow> (store_error + unit) \<times> Fake" where
  "ContainerStop now i = guarded ''ContainerStop'' i (\<lambda>f.
     case resolveContainer i f of
       None \<Rightarrow> (Inr (), f)
     | Some c \<Rightarrow>
         (let f = put_container (c\<lparr>cr_state := StateExited\<rparr>) f;
              f = Emit (container_event ''die'' i (cr_labels c) now) f
          in (Inr (), Emit (container_event ''stop'' i (cr_labels c) now) f)))"

definition ContainerRemove :: "time \<Rightarrow> string \<Rightarrow> Fake \<Rightarrow> (store_error + unit) \<times> Fake" where
  "ContainerRemove now i = guarded ''ContainerRemove'' i (\<lambda>f.
     case resolveContainer i f of
       None \<Rightarrow> (Inr (), f)
     | Some c \<Rightarrow>
         (let f = f\<lparr>fk_containers := AList.delete (cr_id c) (fk_containers f)\<rparr>
          in (Inr (), Emit (container_event ''destroy'' i (cr_labels c) now) f)))"

definition ContainerInspect :: "string \<Rightarrow> Fake \<Rightarrow> (store_error + Container) \<times> Fake" where
  "ContainerInspect i = guarded ''ContainerInspect'' i (\<lambda>f.
     case resolveContainer i f of
       None \<Rightarrow> (Inl (not_found ''container''), f)
     | Some c \<Rightarrow> (Inr (toContainer c), f))"

definition ContainerList :: "labels \<Rightarrow> Fake \<Rightarrow> (store_error + Container list) \<times> Fake" where
  "ContainerList ls = guarded ''ContainerList'' [] (\<lambda>f.
     (Inr (sort_key ctr_Name
        (map (\<lambda>c. (toContainer c)\<lparr>ctr_Health := HealthNone, ctr_ExitCode := 0\<rparr>)
             (filter (\<lambda>c. labelSubset ls (cr_labels c)) (map snd (fk_containers f))))), f))"

definition ContainerStats :: "time \<Rightarrow> string \<Rightarrow> Fake \<Rightarrow> (store_error + Stats) \<times> Fake" where
  "ContainerStats now i = guarded ''ContainerStats'' i (\<lambda>f.
     case resolveContainer i f of
       None \<Rightarrow> (Inl (not_found ''container''), f)
     | Some c \<Rightarrow>
         if cr_state c \<noteq> StateRunning then (Inl (Plain ''reading stats for container: container is not running''), f)
         else (case cr_stats c of
                 Some s \<Rightarrow> (Inr s, f)
               | None \<Rightarrow> (Inr \<lparr>st_Read = now, st_CPUPercent = 25 / 2, st_MemoryUsed = 340 * 2 ^ 20,
                              st_MemoryLimit = 2 * 2 ^ 30, st_Pids = 3\<rparr>, f)))"

text \<open>The setters a test uses.\<close>

definition on_container :: "(containerRecord \<Rightarrow> containerRecord) \<Rightarrow> string \<Rightarrow> Fake \<Rightarrow> store_error option \<times> Fake" where
  "on_container change idOrName f =
     (case resolveContainer idOrName f of
        None \<Rightarrow> (Some (not_found ''container''), f)
      | Some c \<Rightarrow> (None, put_container (change c) f))"

definition SetHealth :: "string \<Rightarrow> string \<Rightarrow> Fake \<Rightarrow> store_error option \<times> Fake" where
  "SetHealth idOrName h = on_container (\<lambda>c. c\<lparr>cr_health := h\<rparr>) idOrName"

definition SetStats :: "string \<Rightarrow> Stats \<Rightarrow> Fake \<Rightarrow> store_error option \<times> Fake" where
  "SetStats idOrName s = on_container (\<lambda>c. c\<lparr>cr_stats := Some s\<rparr>) idOrName"

text \<open>\<^verbatim>\<open>path.Base\<close>.\<close>

definition path_Base :: "string \<Rightarrow> string" where
  "path_Base p =
     (if p = [] then ''.''
      else let q = rev (dropWhile (\<lambda>c. c = CHR ''/'') (rev p))
           in if q = [] then ''/'' else rev (takeWhile (\<lambda>c. c \<noteq> CHR ''/'') (rev q)))"

definition SetContainerFile :: "((string \<times> string) list \<Rightarrow> string) \<Rightarrow> string \<Rightarrow> string \<Rightarrow> string \<Rightarrow> Fake \<Rightarrow> store_error option \<times> Fake" where
  "SetContainerFile tar idOrName path content =
     on_container (\<lambda>c. c\<lparr>cr_copyPaths := AList.update path (tar [(path_Base path, content)]) (cr_copyPaths c)\<rparr>) idOrName"

definition SetContainerDir :: "((string \<times> string) list \<Rightarrow> string) \<Rightarrow> string \<Rightarrow> string \<Rightarrow> (string \<times> string) list \<Rightarrow> Fake \<Rightarrow>
    store_error option \<times> Fake" where
  "SetContainerDir tar idOrName path files =
     on_container (\<lambda>c. c\<lparr>cr_copyPaths := AList.update path
        (tar (map (\<lambda>(name, content). (path_Base path @ ''/'' @ name, content)) (sort_key fst files))) (cr_copyPaths c)\<rparr>) idOrName"

definition CopyFromContainer :: "string \<Rightarrow> string \<Rightarrow> Fake \<Rightarrow> (store_error + string) \<times> Fake" where
  "CopyFromContainer i path = guarded ''CopyFromContainer'' i (\<lambda>f.
     case resolveContainer i f of
       None \<Rightarrow> (Inl (not_found ''container''), f)
     | Some c \<Rightarrow>
         (case map_of (cr_copyPaths c) path of
            None \<Rightarrow> (Inl (not_found ''path''), f)
          | Some data \<Rightarrow> (Inr data, f)))"

subsection \<open>Execs\<close>

fun strings_Join :: "string list \<Rightarrow> string \<Rightarrow> string" where
  "strings_Join [] sep = []"
| "strings_Join [s] sep = s"
| "strings_Join (s # ss) sep = s @ sep @ strings_Join ss sep"

definition ExecCreate :: "string \<Rightarrow> ExecSpec \<Rightarrow> Fake \<Rightarrow> (store_error + string) \<times> Fake" where
  "ExecCreate containerID spec = guarded ''ExecCreate'' containerID (\<lambda>f.
     case resolveContainer containerID f of
       None \<Rightarrow> (Inl (not_found ''container''), f)
     | Some _ \<Rightarrow>
         (let key = strings_Join (ex_Cmd spec) '' ''; (i, f) = nextID f
          in (Inr i, f\<lparr>fk_execSpecs := fk_execSpecs f @ [spec],
                fk_execs := AList.update i
                  \<lparr>er_output = (case map_of (fk_ExecOutput f) key of None \<Rightarrow> [] | Some out \<Rightarrow> out), er_cursor = 0,
                   er_exitCode = (case map_of (fk_ExecExit f) key of None \<Rightarrow> 0 | Some x \<Rightarrow> x),
                   er_running = True, er_stdin = []\<rparr> (fk_execs f)\<rparr>)))"

definition ExecAttach :: "string \<Rightarrow> Fake \<Rightarrow> (store_error + string) \<times> Fake" where
  "ExecAttach execID = guarded ''ExecAttach'' execID (\<lambda>f.
     case map_of (fk_execs f) execID of
       None \<Rightarrow> (Inl (not_found ''exec''), f)
     | Some _ \<Rightarrow> (Inr execID, f))"

definition ExecResize :: "string \<Rightarrow> Fake \<Rightarrow> (store_error + unit) \<times> Fake" where
  "ExecResize execID = guarded ''ExecResize'' execID (\<lambda>f.
     case map_of (fk_execs f) execID of
       None \<Rightarrow> (Inl (not_found ''exec''), f)
     | Some _ \<Rightarrow> (Inr (), f))"

definition ExecInspect :: "string \<Rightarrow> Fake \<Rightarrow> (store_error + ExecStatus) \<times> Fake" where
  "ExecInspect execID = guarded ''ExecInspect'' execID (\<lambda>f.
     case map_of (fk_execs f) execID of
       None \<Rightarrow> (Inl (not_found ''exec''), f)
     | Some e \<Rightarrow> (Inr \<lparr>es_Running = er_running e, es_ExitCode = er_exitCode e\<rparr>, f))"

definition ExecInput :: "string \<Rightarrow> Fake \<Rightarrow> string" where
  "ExecInput execID f = (case map_of (fk_execs f) execID of None \<Rightarrow> [] | Some e \<Rightarrow> er_stdin e)"

text \<open>The stream: \<open>None\<close> is \<^verbatim>\<open>io.EOF\<close>, \<open>n\<close> the length of the caller's buffer.\<close>

definition stream_Read :: "nat \<Rightarrow> execRecord \<Rightarrow> string option \<times> execRecord" where
  "stream_Read n e =
     (if er_cursor e \<ge> length (er_output e) then (None, e\<lparr>er_running := False\<rparr>)
      else let p = take n (drop (er_cursor e) (er_output e))
           in (Some p, e\<lparr>er_cursor := er_cursor e + length p\<rparr>))"

definition stream_Write :: "string \<Rightarrow> execRecord \<Rightarrow> nat \<times> execRecord" where
  "stream_Write p e = (length p, e\<lparr>er_stdin := er_stdin e @ p\<rparr>)"

text \<open>\<^verbatim>\<open>io.ReadAll\<close> with a buffer that always has room for \<open>n + 1\<close> more bytes.\<close>

function io_ReadAll :: "nat \<Rightarrow> execRecord \<Rightarrow> string \<times> execRecord" where
  "io_ReadAll n e =
     (case stream_Read (n + 1) e of
        (None, e1) \<Rightarrow> ([], e1)
      | (Some p, e1) \<Rightarrow> (case io_ReadAll n e1 of (rest, e2) \<Rightarrow> (p @ rest, e2)))"
  by pat_completeness auto
termination
  by (relation "measure (\<lambda>(n, e). length (er_output e) - er_cursor e)")
     (auto simp: stream_Read_def Let_def min_def split: if_splits)

declare io_ReadAll.simps [simp del]

subsection \<open>Images\<close>

definition AddImage :: "string \<Rightarrow> Fake \<Rightarrow> Fake" where
  "AddImage ref f = f\<lparr>fk_images := List.insert ref (fk_images f)\<rparr>"

definition AddImageWithID :: "string \<Rightarrow> string \<Rightarrow> Fake \<Rightarrow> Fake" where
  "AddImageWithID ref i f =
     (let f = AddImage ref f in if i \<noteq> [] then f\<lparr>fk_imageIDs := AList.update ref i (fk_imageIDs f)\<rparr> else f)"

definition fakeImageID :: "Fake \<Rightarrow> string \<Rightarrow> string" where
  "fakeImageID f ref = (case map_of (fk_imageIDs f) ref of Some i \<Rightarrow> i | None \<Rightarrow> ''sha256:'' @ ref)"

definition ImageInspect :: "string \<Rightarrow> Fake \<Rightarrow> (store_error + Image) \<times> Fake" where
  "ImageInspect ref = guarded ''ImageInspect'' ref (\<lambda>f.
     if ref \<notin> set (fk_images f) then (Inl (not_found ''image''), f)
     else (Inr \<lparr>im_ID = fakeImageID f ref, im_RepoTags = [ref]\<rparr>, f))"

definition ImagePull :: "string \<Rightarrow> Fake \<Rightarrow> (store_error + unit) \<times> Fake" where
  "ImagePull ref = guarded ''ImagePull'' ref (\<lambda>f. (Inr (), AddImage ref f))"

text \<open>\<^verbatim>\<open>strings.LastIndex(ref, ":")\<close> splits the reference: what follows the last colon, and what precedes it.\<close>

definition fakeRepoOf :: "string \<Rightarrow> string" where
  "fakeRepoOf ref =
     (if CHR '':'' \<notin> set ref then ref
      else let tag = rev (takeWhile (\<lambda>c. c \<noteq> CHR '':'') (rev ref)); repo = take (length ref - length tag - 1) ref
           in if repo = [] \<or> CHR ''/'' \<in> set tag then ref else repo)"

definition ImageList :: "(string \<Rightarrow> string) \<Rightarrow> string \<Rightarrow> Fake \<Rightarrow> (store_error + Image list) \<times> Fake" where
  "ImageList familiarRepo repo = guarded ''ImageList'' repo (\<lambda>f.
     (let repo = familiarRepo repo;
          refs = filter (\<lambda>ref. repo = [] \<or> familiarRepo (fakeRepoOf ref) = repo) (fk_images f)
      in (Inr (sort_key (\<lambda>im. hd (im_RepoTags im)) (map (\<lambda>ref. \<lparr>im_ID = fakeImageID f ref, im_RepoTags = [ref]\<rparr>) refs)), f)))"

definition ImageRemove :: "string \<Rightarrow> Fake \<Rightarrow> (store_error + unit) \<times> Fake" where
  "ImageRemove ref = guarded ''ImageRemove'' ref (\<lambda>f.
     (Inr (), f\<lparr>fk_images := removeAll ref (fk_images f), fk_imageIDs := AList.delete ref (fk_imageIDs f)\<rparr>))"

subsection \<open>Identifiers are fresh and are not names\<close>

definition hex_value :: "char \<Rightarrow> nat" where
  "hex_value c = (if of_char c < (58 :: nat) then of_char c - 48 else of_char c - 87)"

definition is_hex :: "char \<Rightarrow> bool" where
  "is_hex c \<longleftrightarrow> (let v = of_char c :: nat in 48 \<le> v \<and> v < 58 \<or> 97 \<le> v \<and> v < 103)"

definition hex_read :: "string \<Rightarrow> nat" where
  "hex_read s = foldl (\<lambda>v c. 16 * v + hex_value c) 0 s"

lemma hex_digit_value: "d < 16 \<Longrightarrow> hex_value (hex_digit d) = d" and hex_digit_is_hex: "d < 16 \<Longrightarrow> is_hex (hex_digit d)"
  by (auto simp: hex_value_def hex_digit_def is_hex_def Let_def)

lemma hex_read_append: "hex_read (s @ [c]) = 16 * hex_read s + hex_value c"
  by (simp add: hex_read_def)

lemma hex_read_hex_of: "hex_read (hex_of n) = n"
proof (induction n rule: hex_of.induct)
  case (1 n)
  show ?case
  proof (cases "n < 16")
    case True
    then show ?thesis by (subst hex_of.simps) (simp add: hex_read_def hex_digit_value)
  next
    case False
    then show ?thesis using 1 by (subst hex_of.simps) (simp add: hex_read_append hex_digit_value)
  qed
qed

lemma hex_read_zeros: "hex_read (replicate n CHR ''0'' @ s) = hex_read s"
proof -
  have "foldl (\<lambda>v c. 16 * v + hex_value c) 0 (replicate n CHR ''0'') = 0"
    by (induction n) (simp_all add: hex_value_def)
  then show ?thesis by (simp add: hex_read_def)
qed

lemma id_text_inj: "id_text m = id_text n \<longleftrightarrow> m = n"
  by (metis hex_read_hex_of hex_read_zeros id_text_def)

lemma hex_of_is_hex: "list_all is_hex (hex_of n)"
proof (induction n rule: hex_of.induct)
  case (1 n)
  then show ?case by (subst hex_of.simps) (simp add: hex_digit_is_hex)
qed

lemma id_text_is_hex: "list_all is_hex (id_text n)"
proof -
  have "is_hex CHR ''0''" by (simp add: is_hex_def)
  then show ?thesis using hex_of_is_hex [of n] by (auto simp: id_text_def Let_def list_all_iff)
qed

text \<open>A name that is not a number in base 16 cannot be mistaken for an ID.\<close>

definition is_name :: "string \<Rightarrow> bool" where
  "is_name s \<longleftrightarrow> \<not> list_all is_hex s"

lemma id_not_name: "is_name s \<Longrightarrow> s \<noteq> id_text n"
  using id_text_is_hex by (auto simp: is_name_def)

lemma id_text_no_name [simp]: "\<not> is_name (id_text n)"
  using id_not_name by blast

subsection \<open>The daemon's invariant\<close>

definition fake_ok :: "Fake \<Rightarrow> bool" where
  "fake_ok f \<longleftrightarrow>
     distinct (map fst (fk_containers f)) \<and>
     (\<forall>i c. map_of (fk_containers f) i = Some c \<longrightarrow>
        cr_id c = i \<and> is_name (cr_name c) \<and> (\<exists>n. i = id_text n \<and> n \<le> fk_idSeq f)) \<and>
     (\<forall>i j c d. map_of (fk_containers f) i = Some c \<longrightarrow> map_of (fk_containers f) j = Some d \<longrightarrow>
        cr_name c = cr_name d \<longrightarrow> i = j) \<and>
     (\<forall>k n. map_of (fk_networks f) k = Some n \<longrightarrow> nr_name n = k)"

definition container_refs :: "Fake \<Rightarrow> (string \<times> string) set" where
  "container_refs f = {(i, n). \<exists>c. map_of (fk_containers f) i = Some c \<and> cr_name c = n}"

text \<open>A step keeps the invariant and neither makes nor removes an object.\<close>

definition keeps_objects :: "Fake \<Rightarrow> Fake \<Rightarrow> bool" where
  "keeps_objects f f' \<longleftrightarrow>
     (fake_ok f \<longrightarrow> fake_ok f' \<and> container_refs f' = container_refs f \<and>
        dom (map_of (fk_volumes f')) = dom (map_of (fk_volumes f)) \<and>
        dom (map_of (fk_networks f')) = dom (map_of (fk_networks f)))"

lemma keeps_refl [simp]: "keeps_objects f f"
  by (simp add: keeps_objects_def)

lemma keeps_trans [trans]: "keeps_objects f g \<Longrightarrow> keeps_objects g h \<Longrightarrow> keeps_objects f h"
  by (simp add: keeps_objects_def)

text \<open>Fields the invariant does not read.\<close>

lemma keeps_fields:
  assumes "fk_containers f' = fk_containers f" and "fk_volumes f' = fk_volumes f" and "fk_networks f' = fk_networks f"
    and "fk_idSeq f \<le> fk_idSeq f'"
  shows "keeps_objects f f'"
  unfolding keeps_objects_def fake_ok_def container_refs_def assms(1-3) using assms(4) order_trans by blast

lemma fake_call_cases:
  assumes "fake_call op target f = (e, f')"
  shows "keeps_objects f f'" and "fk_containers f' = fk_containers f" and "fk_volumes f' = fk_volumes f"
    and "fk_networks f' = fk_networks f" and "fk_idSeq f' = fk_idSeq f"
  using assms by (auto simp: fake_call_def Let_def intro!: keeps_fields split: list.splits)

lemma guarded_keeps:
  assumes "\<And>f. keeps_objects f (snd (body f))"
  shows "keeps_objects f (snd (guarded op target body f))"
  using assms fake_call_cases(1) keeps_trans
  by (auto simp: guarded_def split: prod.splits option.splits) (metis snd_conv)

lemma find_container_Some: "find_container P cs = Some c \<Longrightarrow> P c \<and> (\<exists>i. (i, c) \<in> set cs)"
  by (induction cs) (auto split: if_splits)

lemma find_container_None: "find_container P cs = None \<Longrightarrow> (i, c) \<in> set cs \<Longrightarrow> \<not> P c"
  by (induction cs) (auto split: if_splits)

lemma resolve_Some:
  assumes "fake_ok f" and "resolveContainer r f = Some c"
  shows "map_of (fk_containers f) (cr_id c) = Some c" and "r = cr_id c \<or> r = cr_name c"
proof -
  from assms(2) consider "map_of (fk_containers f) r = Some c"
    | i where "(i, c) \<in> set (fk_containers f)" "cr_name c = r"
    by (auto simp: resolveContainer_def dest!: find_container_Some split: option.splits)
  then have "map_of (fk_containers f) (cr_id c) = Some c \<and> (r = cr_id c \<or> r = cr_name c)"
    using assms(1) by cases (fastforce simp: fake_ok_def)+
  then show "map_of (fk_containers f) (cr_id c) = Some c" "r = cr_id c \<or> r = cr_name c" by simp_all
qed

lemma resolve_None:
  assumes "fake_ok f" and "resolveContainer r f = None" and "p \<in> container_refs f"
  shows "\<not> answers_to r p"
  using assms
  by (auto simp: resolveContainer_def container_refs_def answers_to_def dest: find_container_None [OF _ map_of_SomeD]
      split: option.splits)

lemma put_keeps:
  assumes "map_of (fk_containers f) (cr_id c) = Some c" and "cr_id c' = cr_id c" and "cr_name c' = cr_name c"
  shows "keeps_objects f (put_container c' f)"
proof -
  have m: "map_of (fk_containers (put_container c' f)) = (map_of (fk_containers f))(cr_id c \<mapsto> c')"
    by (simp add: put_container_def update_conv' assms(2))
  have same: "fk_volumes (put_container c' f) = fk_volumes f" "fk_networks (put_container c' f) = fk_networks f"
    "fk_idSeq (put_container c' f) = fk_idSeq f" by (simp_all add: put_container_def)
  have r: "container_refs (put_container c' f) = container_refs f"
    using assms unfolding container_refs_def m by (auto split: if_splits)
  show ?thesis
  proof (unfold keeps_objects_def, intro impI conjI r)
    assume ok: "fake_ok f"
    have "distinct (map fst (fk_containers (put_container c' f)))"
      using ok by (simp add: put_container_def fake_ok_def distinct_update)
    moreover have "cr_id d = i \<and> is_name (cr_name d) \<and> (\<exists>n. i = id_text n \<and> n \<le> fk_idSeq f)"
      if "((map_of (fk_containers f))(cr_id c \<mapsto> c')) i = Some d" for i d
      using ok that assms unfolding fake_ok_def by (metis fun_upd_apply option.inject)
    moreover have "i = j"
      if "((map_of (fk_containers f))(cr_id c \<mapsto> c')) i = Some d" "((map_of (fk_containers f))(cr_id c \<mapsto> c')) j = Some e"
        "cr_name d = cr_name e" for i j d e
      using ok that assms unfolding fake_ok_def by (metis fun_upd_apply option.inject)
    ultimately show "fake_ok (put_container c' f)"
      using ok unfolding fake_ok_def m same by blast
  qed (simp_all add: same)
qed

lemma endpoint_keeps:
  assumes "map_of (fk_networks f) k = Some n" and "nr_name n = k" and "endpoint n c f = (addr, c', f')"
  shows "keeps_objects f f' \<and> fk_containers f' = fk_containers f \<and> cr_id c' = cr_id c \<and> cr_name c' = cr_name c"
proof -
  define n' where "n' = n\<lparr>nr_nextEndpoint := nr_nextEndpoint n + 1\<rparr>"
  have f': "f' = f\<lparr>fk_networks := AList.update k n' (fk_networks f)\<rparr>"
    and c': "cr_id c' = cr_id c \<and> cr_name c' = cr_name c" and n': "nr_name n' = k"
    using assms by (auto simp: endpoint_def Let_def n'_def)
  have nets: "map_of (fk_networks f') = (map_of (fk_networks f))(k \<mapsto> n')" by (simp add: f' update_conv')
  have same: "fk_containers f' = fk_containers f" "fk_volumes f' = fk_volumes f" "fk_idSeq f' = fk_idSeq f" by (simp_all add: f')
  have "keeps_objects f f'"
    unfolding keeps_objects_def fake_ok_def container_refs_def nets same using assms(1) n'
    by (auto simp: insert_absorb dom_def)
  then show ?thesis using c' same by simp
qed

lemma attach_keeps:
  assumes "attach_networks nas c f = (c', f')" and "fake_ok f"
  shows "keeps_objects f f' \<and> fk_containers f' = fk_containers f \<and> cr_id c' = cr_id c \<and> cr_name c' = cr_name c"
  using assms
proof (induction nas c f rule: attach_networks.induct)
  case (2 na nas c f)
  show ?case
  proof (cases "map_of (cr_networks c) (na_Name na) \<noteq> None \<or> map_of (fk_networks f) (na_Name na) = None")
    case True
    then show ?thesis using 2 by (auto split: if_splits)
  next
    case False
    then obtain n addr c1 f1 where n: "map_of (fk_networks f) (na_Name na) = Some n"
      and e: "endpoint n c f = (addr, c1, f1)" by (metis not_None_eq prod_cases3)
    have k: "keeps_objects f f1 \<and> fk_containers f1 = fk_containers f \<and> cr_id c1 = cr_id c \<and> cr_name c1 = cr_name c"
      using endpoint_keeps [OF n _ e] n "2.prems"(2) by (simp add: fake_ok_def)
    then have "fake_ok f1" using "2.prems"(2) by (simp add: keeps_objects_def)
    then have "keeps_objects f1 f' \<and> fk_containers f' = fk_containers f1 \<and> cr_id c' = cr_id c1 \<and> cr_name c' = cr_name c1"
      using "2.IH"(3) [OF _ n e [symmetric] refl] "2.prems"(1) False n e by auto
    then show ?thesis using k keeps_trans by auto
  qed
qed auto

lemma emit_keeps: "keeps_objects f (Emit ev f)"
  by (rule keeps_fields) (simp_all add: Emit_def)

lemma keeps_then:
  assumes "fake_ok f \<Longrightarrow> keeps_objects f f'"
  shows "keeps_objects f f'"
  using assms by (simp add: keeps_objects_def)

text \<open>The methods that make and remove no object.\<close>

lemma NetworkConnect_keeps: "keeps_objects f (snd (NetworkConnect n r f))"
  unfolding NetworkConnect_def
proof (rule guarded_keeps, rule keeps_then)
  fix f
  assume ok: "fake_ok f"
  show "keeps_objects f (snd (case map_of (fk_networks f) n of None \<Rightarrow> (Inl (not_found ''network''), f)
      | Some m \<Rightarrow> (case resolveContainer r f of None \<Rightarrow> (Inl (not_found ''container''), f)
          | Some c \<Rightarrow> if cr_state c \<noteq> StateRunning then (Inl (Plain ''the daemon reported no address for it''), f)
              else (case map_of (cr_networks c) n of Some addr \<Rightarrow> (Inr addr, f)
                    | None \<Rightarrow> (case endpoint m c f of (addr, c, f) \<Rightarrow> (Inr addr, put_container c f))))))"
    (is "keeps_objects f (snd ?res)")
  proof (cases "snd ?res = f")
    case False
    then obtain m c addr c1 f1 where m: "map_of (fk_networks f) n = Some m" and c: "resolveContainer r f = Some c"
      and e: "endpoint m c f = (addr, c1, f1)" and res: "snd ?res = put_container c1 f1"
      by (auto split: option.splits if_splits prod.splits)
    have k: "keeps_objects f f1 \<and> fk_containers f1 = fk_containers f \<and> cr_id c1 = cr_id c \<and> cr_name c1 = cr_name c"
      using endpoint_keeps [OF m _ e] m ok by (simp add: fake_ok_def)
    then have "keeps_objects f1 (put_container c1 f1)"
      using put_keeps [of f1 c c1] resolve_Some(1) [OF ok c] by simp
    then show ?thesis unfolding res using k keeps_trans by blast
  qed simp
qed

lemma NetworkDisconnect_keeps: "keeps_objects f (snd (NetworkDisconnect n r f))"
  unfolding NetworkDisconnect_def
proof (rule guarded_keeps, rule keeps_then)
  fix f
  assume ok: "fake_ok f"
  show "keeps_objects f (snd (case resolveContainer r f of None \<Rightarrow> (Inr (), f)
     | Some c \<Rightarrow> (Inr (), put_container (c\<lparr>cr_networks := AList.delete n (cr_networks c)\<rparr>) f)))"
  proof (cases "resolveContainer r f")
    case (Some c)
    then show ?thesis using put_keeps resolve_Some(1) [OF ok Some] by simp
  qed simp
qed

lemma ContainerStart_keeps: "keeps_objects f (snd (ContainerStart now i f))"
  unfolding ContainerStart_def
proof (rule guarded_keeps, rule keeps_then)
  fix f
  assume ok: "fake_ok f"
  show "keeps_objects f (snd (case map_of (fk_containers f) i of None \<Rightarrow> (Inl (not_found ''container''), f)
     | Some c \<Rightarrow> (case attach_networks (sp_Networks (cr_spec c)) (started (fk_AutoHealthy f) c) f of
            (c, f) \<Rightarrow> (Inr (), Emit (container_event ''start'' i (cr_labels c) now) (put_container c f)))))"
  proof (cases "map_of (fk_containers f) i")
    case (Some c)
    obtain c1 f1 where a: "attach_networks (sp_Networks (cr_spec c)) (started (fk_AutoHealthy f) c) f = (c1, f1)" by fastforce
    have "cr_id (started h c) = cr_id c \<and> cr_name (started h c) = cr_name c" for h by (simp add: started_def Let_def)
    then have k: "keeps_objects f f1 \<and> fk_containers f1 = fk_containers f \<and> cr_id c1 = cr_id c \<and> cr_name c1 = cr_name c"
      using attach_keeps [OF a ok] by simp
    then have "keeps_objects f1 (put_container c1 f1)"
      using put_keeps [of f1 c c1] Some ok by (simp add: fake_ok_def)
    then have "keeps_objects f (Emit (container_event ''start'' i (cr_labels c1) now) (put_container c1 f1))"
      using k emit_keeps keeps_trans by blast
    then show ?thesis using Some a by simp
  qed simp
qed

lemma ContainerStop_keeps: "keeps_objects f (snd (ContainerStop now i f))"
  unfolding ContainerStop_def
proof (rule guarded_keeps, rule keeps_then)
  fix f
  assume ok: "fake_ok f"
  show "keeps_objects f (snd (case resolveContainer i f of None \<Rightarrow> (Inr (), f)
     | Some c \<Rightarrow> (let f = put_container (c\<lparr>cr_state := StateExited\<rparr>) f; f = Emit (container_event ''die'' i (cr_labels c) now) f
          in (Inr (), Emit (container_event ''stop'' i (cr_labels c) now) f))))"
  proof (cases "resolveContainer i f")
    case (Some c)
    have "keeps_objects f (put_container (c\<lparr>cr_state := StateExited\<rparr>) f)"
      using put_keeps resolve_Some(1) [OF ok Some] by simp
    then show ?thesis using Some emit_keeps keeps_trans by (simp add: Let_def) blast
  qed simp
qed

lemma nextID_keeps: "nextID f = (i, f1) \<Longrightarrow> keeps_objects f f1"
  by (auto simp: nextID_def Let_def intro: keeps_fields)

lemma quiet_keeps:
  "keeps_objects f (snd (VolumeInspect n f))" "keeps_objects f (snd (VolumeList ls f))"
  "keeps_objects f (snd (fake_VolumeUsage f))" "keeps_objects f (snd (NetworkInspect n f))"
  "keeps_objects f (snd (NetworkList ls f))" "keeps_objects f (snd (ContainerInspect n f))"
  "keeps_objects f (snd (ContainerList ls f))" "keeps_objects f (snd (ContainerStats now n f))"
  "keeps_objects f (snd (CopyFromContainer n p f))" "keeps_objects f (snd (ExecAttach n f))"
  "keeps_objects f (snd (ExecResize n f))" "keeps_objects f (snd (ExecInspect n f))"
  "keeps_objects f (snd (ImageInspect n f))" "keeps_objects f (snd (ImagePull n f))"
  "keeps_objects f (snd (ImageList fr n f))" "keeps_objects f (snd (ImageRemove n f))"
  "keeps_objects f (snd (ExecCreate n x f))"
  unfolding VolumeInspect_def VolumeList_def fake_VolumeUsage_def NetworkInspect_def NetworkList_def ContainerInspect_def
    ContainerList_def ContainerStats_def CopyFromContainer_def ExecAttach_def ExecResize_def ExecInspect_def ImageInspect_def
    ImagePull_def ImageList_def ImageRemove_def ExecCreate_def AddImage_def
  by (rule guarded_keeps, (auto simp: Let_def nextID_def intro!: keeps_fields split: option.splits)[1])+

subsection \<open>Reading an exec to the end\<close>

lemma io_ReadAll_result:
  "er_cursor e \<le> length (er_output e) \<Longrightarrow>
   io_ReadAll n e = (drop (er_cursor e) (er_output e), e\<lparr>er_cursor := length (er_output e), er_running := False\<rparr>)"
proof (induction n e rule: io_ReadAll.induct)
  case (1 n e)
  show ?case
  proof (cases "er_cursor e = length (er_output e)")
    case True
    then show ?thesis by (subst io_ReadAll.simps) (simp add: stream_Read_def)
  next
    case False
    define p where "p = take (n + 1) (drop (er_cursor e) (er_output e))"
    define e1 where "e1 = e\<lparr>er_cursor := er_cursor e + length p\<rparr>"
    have r: "stream_Read (n + 1) e = (Some p, e1)"
      using False 1(2) by (simp add: stream_Read_def p_def e1_def)
    have "er_cursor e1 \<le> length (er_output e1)" using 1(2) by (simp add: e1_def p_def)
    then have "io_ReadAll n e1 = (drop (er_cursor e1) (er_output e1), e1\<lparr>er_cursor := length (er_output e1), er_running := False\<rparr>)"
      using 1(1) [OF r [symmetric] refl] by blast
    moreover have "p @ drop (er_cursor e1) (er_output e1) = drop (er_cursor e) (er_output e)"
      using append_take_drop_id [of "length p" "drop (er_cursor e) (er_output e)"]
      by (simp add: e1_def p_def min_def add.commute split: if_splits)
    ultimately show ?thesis by (subst io_ReadAll.simps, unfold r) (simp add: e1_def)
  qed
qed

definition ReadExec :: "string \<Rightarrow> Fake \<Rightarrow> (store_error + string) \<times> Fake" where
  "ReadExec execID f =
     (case map_of (fk_execs f) execID of
        None \<Rightarrow> (Inl (not_found ''exec''), f)
      | Some e \<Rightarrow> (case io_ReadAll 511 e of (out, e) \<Rightarrow> (Inr out, f\<lparr>fk_execs := AList.update execID e (fk_execs f)\<rparr>)))"

subsection \<open>The world with this daemon in it\<close>

record fake_world =
  fw_fake :: Fake
  fw_clock :: time

definition on_fake :: "(time \<Rightarrow> Fake \<Rightarrow> 'a \<times> Fake) \<Rightarrow> fake_world \<Rightarrow> 'a \<times> fake_world" where
  "on_fake g w = (case g (fw_clock w) (fw_fake w) of (x, f) \<Rightarrow> (x, w\<lparr>fw_fake := f\<rparr>))"

definition fake_docker :: "(string \<Rightarrow> string) \<Rightarrow> fake_world docker" where
  "fake_docker familiarRepo =
     \<lparr>dk_VolumeCreate = (\<lambda>_ spec. on_fake (\<lambda>_. VolumeCreate spec)),
      dk_VolumeList = (\<lambda>_ ls. on_fake (\<lambda>_. VolumeList ls)),
      dk_VolumeRemove = (\<lambda>_ n. on_fake (\<lambda>_. VolumeRemove n)),
      dk_VolumeUsage = (\<lambda>_. on_fake (\<lambda>_. fake_VolumeUsage)),
      dk_NetworkCreate = (\<lambda>_ spec. on_fake (\<lambda>_. NetworkCreate spec)),
      dk_NetworkList = (\<lambda>_ ls. on_fake (\<lambda>_. NetworkList ls)),
      dk_NetworkRemove = (\<lambda>_ n. on_fake (\<lambda>_. NetworkRemove n)),
      dk_NetworkConnect = (\<lambda>_ n r. on_fake (\<lambda>_. NetworkConnect n r)),
      dk_NetworkDisconnect = (\<lambda>_ n r. on_fake (\<lambda>_. NetworkDisconnect n r)),
      dk_ContainerCreate = (\<lambda>_ spec. on_fake (\<lambda>_. ContainerCreate spec)),
      dk_ContainerStart = (\<lambda>_ r. on_fake (\<lambda>t. ContainerStart t r)),
      dk_ContainerStop = (\<lambda>_ r _. on_fake (\<lambda>t. ContainerStop t r)),
      dk_ContainerRemove = (\<lambda>_ r. on_fake (\<lambda>t. ContainerRemove t r)),
      dk_ContainerInspect = (\<lambda>_ r. on_fake (\<lambda>_. ContainerInspect r)),
      dk_ContainerList = (\<lambda>_ ls. on_fake (\<lambda>_. ContainerList ls)),
      dk_CopyFromContainer = (\<lambda>_ r p. on_fake (\<lambda>_. CopyFromContainer r p)),
      dk_ExecCreate = (\<lambda>_ r x. on_fake (\<lambda>_. ExecCreate r x)),
      dk_ExecAttach = (\<lambda>_ x. on_fake (\<lambda>_. ExecAttach x)),
      dk_ExecRead = (\<lambda>_ x. on_fake (\<lambda>_. ReadExec x)),
      dk_ExecInspect = (\<lambda>_ x. on_fake (\<lambda>_. ExecInspect x)),
      dk_ImageInspect = (\<lambda>_ r. on_fake (\<lambda>_. ImageInspect r)),
      dk_ImagePull = (\<lambda>_ r. on_fake (\<lambda>_. ImagePull r)),
      dk_ImageList = (\<lambda>_ r. on_fake (\<lambda>_. ImageList familiarRepo r)),
      dk_ImageRemove = (\<lambda>_ r. on_fake (\<lambda>_. ImageRemove r))\<rparr>"

text \<open>Sleeping moves the clock, unless the context is done.\<close>

definition fake_clock :: "fake_world clock" where
  "fake_clock =
     \<lparr>ck_Now = (\<lambda>w. (fw_clock w, w)),
      ck_Sleep = (\<lambda>ctx t w. case fst (ctx w) of
                              Some e \<Rightarrow> (Some e, w)
                            | None \<Rightarrow> (None, w\<lparr>fw_clock := fw_clock w + max 0 t\<rparr>))\<rparr>"

definition fake_view :: "fake_world observer" where
  "fake_view =
     \<lparr>ob_volumes = (\<lambda>w. dom (map_of (fk_volumes (fw_fake w)))), ob_networks = (\<lambda>w. dom (map_of (fk_networks (fw_fake w)))),
      ob_containers = (\<lambda>w. container_refs (fw_fake w)), ob_clock = fw_clock\<rparr>"

definition fake_sound :: "fake_world \<Rightarrow> bool" where "fake_sound w \<longleftrightarrow> fake_ok (fw_fake w)"

definition pure_contexts :: "fake_world ctx set" where "pure_contexts = {c. \<forall>w. snd (c w) = w}"

lemma on_fake_quiet:
  assumes "\<And>t f. keeps_objects f (snd (g t f))" and "snd (on_fake g w) = w1" and "fake_sound w"
  shows "fake_sound w1 \<and> same_objects fake_view w w1"
proof -
  obtain x f where g: "g (fw_clock w) (fw_fake w) = (x, f)" by fastforce
  then have "keeps_objects (fw_fake w) f" using assms(1) by (metis snd_conv)
  moreover have "w1 = w\<lparr>fw_fake := f\<rparr>" using assms(2) g by (simp add: on_fake_def)
  ultimately show ?thesis
    using assms(3) by (simp add: fake_sound_def keeps_objects_def same_objects_def fake_view_def)
qed

lemma ReadExec_keeps: "keeps_objects f (snd (ReadExec x f))"
  by (rule keeps_fields) (auto simp: ReadExec_def split: option.splits prod.splits)

text \<open>The methods that make and remove objects, on the daemon alone.\<close>

lemma guarded_ok:
  assumes "guarded op target body f = (r, f')" and "fake_ok f"
  obtains e where "r = Inl e" and "keeps_objects f f'" | f1 where "body f1 = (r, f')" and "fake_ok f1"
    and "fk_containers f1 = fk_containers f" and "fk_volumes f1 = fk_volumes f" and "fk_networks f1 = fk_networks f"
    and "fk_idSeq f1 = fk_idSeq f"
proof -
  obtain e f1 where c: "fake_call op target f = (e, f1)" by fastforce
  note k = fake_call_cases [OF c]
  show ?thesis
  proof (cases e)
    case None
    then show ?thesis using that(2) [of f1] assms c k by (simp add: guarded_def keeps_objects_def)
  next
    case (Some x)
    then show ?thesis using that(1) [of x] assms c k by (simp add: guarded_def)
  qed
qed

text \<open>What a method did, as the interface speaks of it.\<close>

definition fake_removes :: "string set \<Rightarrow> string set \<Rightarrow> string set \<Rightarrow> Fake \<Rightarrow> Fake \<Rightarrow> bool" where
  "fake_removes vs ns cs f f' \<longleftrightarrow>
     dom (map_of (fk_volumes f)) - vs \<subseteq> dom (map_of (fk_volumes f')) \<and>
     dom (map_of (fk_networks f)) - ns \<subseteq> dom (map_of (fk_networks f')) \<and>
     {p \<in> container_refs f. \<forall>c \<in> cs. \<not> answers_to c p} \<subseteq> container_refs f'"

definition fake_adds :: "string set \<Rightarrow> string set \<Rightarrow> string set \<Rightarrow> Fake \<Rightarrow> Fake \<Rightarrow> bool" where
  "fake_adds vs ns cs f f' \<longleftrightarrow>
     dom (map_of (fk_volumes f')) \<subseteq> dom (map_of (fk_volumes f)) \<union> vs \<and>
     dom (map_of (fk_networks f')) \<subseteq> dom (map_of (fk_networks f)) \<union> ns \<and>
     container_refs f' \<subseteq> container_refs f \<union> {p. snd p \<in> cs}"

lemma keeps_changes:
  "keeps_objects f f' \<Longrightarrow> fake_ok f \<Longrightarrow> fake_ok f' \<and> fake_removes vs ns cs f f' \<and> fake_adds vs ns cs f f'"
  by (auto simp: keeps_objects_def fake_removes_def fake_adds_def)

lemma on_fake_changes:
  assumes "on_fake g w = (r, w1)"
    and "\<And>f f'. g (fw_clock w) f = (r, f') \<Longrightarrow> fake_ok f \<Longrightarrow> fake_ok f' \<and> fake_removes vs ns cs f f' \<and> fake_adds vs' ns' cs' f f' \<and> P f f'"
    and "fake_sound w"
  shows "fake_sound w1 \<and> removes_at_most fake_view vs ns cs w w1 \<and> adds_at_most fake_view vs' ns' cs' w w1 \<and> P (fw_fake w) (fw_fake w1)"
proof -
  from assms(1) have g: "g (fw_clock w) (fw_fake w) = (r, fw_fake w1)" and c: "fw_clock w1 = fw_clock w"
    by (auto simp: on_fake_def split: prod.splits)
  show ?thesis
    using assms(2) [OF g] assms(3) c
    by (simp add: fake_sound_def removes_at_most_def adds_at_most_def fake_view_def fake_removes_def fake_adds_def)
qed

lemma on_fake_creates:
  assumes "on_fake g w = (r, w1)"
    and "\<And>f f'. g (fw_clock w) f = (r, f') \<Longrightarrow> fake_ok f \<Longrightarrow> fake_ok f' \<and> fake_removes vs ns cs f f' \<and> fake_adds vs' ns' cs' f f'"
    and "fake_sound w"
  shows "fake_sound w1 \<and> removes_at_most fake_view vs ns cs w w1 \<and> adds_at_most fake_view vs' ns' cs' w w1"
  using on_fake_changes [OF assms(1) _ assms(3), of vs ns cs vs' ns' cs' "\<lambda>_ _. True"] assms(2) by simp

lemma VolumeCreate_changes:
  assumes "VolumeCreate spec f = (r, f')" and "fake_ok f"
  shows "fake_ok f' \<and> fake_removes {} {} {} f f' \<and> fake_adds {vs_Name spec} {} {} f f'"
  using assms(1) [unfolded VolumeCreate_def] assms(2)
proof (cases rule: guarded_ok)
  case (2 f1)
  then show ?thesis
    by (auto simp: Let_def fake_removes_def fake_adds_def container_refs_def fake_ok_def update_conv' split: option.splits)
qed (use keeps_changes assms(2) in blast)

lemma VolumeRemove_changes:
  assumes "VolumeRemove n f = (r, f')" and "fake_ok f"
  shows "fake_ok f' \<and> fake_removes {n} {} {} f f' \<and> fake_adds {} {} {} f f' \<and> (r = Inr () \<longrightarrow> n \<notin> dom (map_of (fk_volumes f')))"
  using assms(1) [unfolded VolumeRemove_def] assms(2)
proof (cases rule: guarded_ok)
  case (2 f1)
  then show ?thesis
    by (auto simp: fake_removes_def fake_adds_def container_refs_def fake_ok_def delete_conv' split: if_splits)
qed (use keeps_changes assms(2) in auto)

lemma NetworkCreate_changes:
  assumes "NetworkCreate spec f = (r, f')" and "fake_ok f"
  shows "fake_ok f' \<and> fake_removes {} {} {} f f' \<and> fake_adds {} {ns_Name spec} {} f f'"
  using assms(1) [unfolded NetworkCreate_def] assms(2)
proof (cases rule: guarded_ok)
  case (2 f1)
  show ?thesis
  proof (cases "map_of (fk_networks f1) (ns_Name spec)")
    case None
    define n where "n = \<lparr>nr_id = id_text (Suc (fk_idSeq f1)), nr_name = ns_Name spec, nr_labels = ns_Labels spec,
        nr_idx = fk_netSeq f1 + 1, nr_nextEndpoint = 0\<rparr>"
    have n: "nr_name n = ns_Name spec"
      and f': "f' = f1\<lparr>fk_netSeq := fk_netSeq f1 + 1, fk_idSeq := fk_idSeq f1 + 1,
         fk_networks := AList.update (ns_Name spec) n (fk_networks f1)\<rparr>"
      using 2(1) None by (auto simp: Let_def nextID_def n_def)
    have nets: "map_of (fk_networks f') = (map_of (fk_networks f))(ns_Name spec \<mapsto> n)"
      using 2(5) by (simp add: f' update_conv')
    have "fake_ok (f1\<lparr>fk_idSeq := fk_idSeq f1 + 1\<rparr>)"
      using keeps_fields [of "f1\<lparr>fk_idSeq := fk_idSeq f1 + 1\<rparr>" f1] 2(2) by (simp add: keeps_objects_def)
    then have "fake_ok f'"
      using 2(5) n unfolding fake_ok_def nets by (simp add: f')
    then show ?thesis
      using 2(3,4) unfolding fake_removes_def fake_adds_def nets container_refs_def by (auto simp: f')
  next
    case (Some n)
    then show ?thesis using 2 assms(2) by (auto simp: fake_removes_def fake_adds_def container_refs_def)
  qed
qed (use keeps_changes assms(2) in blast)

lemma NetworkRemove_changes:
  assumes "NetworkRemove n f = (r, f')" and "fake_ok f"
  shows "fake_ok f' \<and> fake_removes {} {n} {} f f' \<and> fake_adds {} {} {} f f' \<and> (r = Inr () \<longrightarrow> n \<notin> dom (map_of (fk_networks f')))"
  using assms(1) [unfolded NetworkRemove_def] assms(2)
proof (cases rule: guarded_ok)
  case (2 f1)
  then show ?thesis
    by (auto simp: fake_removes_def fake_adds_def container_refs_def fake_ok_def delete_conv' split: if_splits)
qed (use keeps_changes assms(2) in auto)

lemma ContainerCreate_changes:
  assumes "ContainerCreate spec f = (r, f')" and "fake_ok f" and "is_name (sp_Name spec)"
  shows "fake_ok f' \<and> fake_removes {} {} {} f f' \<and> fake_adds {} {} {sp_Name spec} f f' \<and>
     (\<forall>i. r = Inr i \<longrightarrow> (i, sp_Name spec) \<in> container_refs f' \<and>
        (\<forall>p \<in> container_refs f. \<not> answers_to i p \<and> \<not> answers_to (sp_Name spec) p))"
  using assms(1) [unfolded ContainerCreate_def] assms(2)
proof (cases rule: guarded_ok)
  case (2 f1)
  note same = 2(3-6)
  have refs: "container_refs f1 = container_refs f" using same by (simp add: container_refs_def)
  show ?thesis
  proof (cases "\<exists>e. r = Inl e")
    case True
    then have "f' = f1" using 2(1) by (auto simp: nextID_def split: if_splits prod.splits)
    then show ?thesis using True 2(2) same refs by (auto simp: fake_removes_def fake_adds_def)
  next
    case False
    define i where "i = id_text (fk_idSeq f1 + 1)"
    define c where "c = new_container i spec"
    have free: "\<not> list_ex (\<lambda>(i, c). cr_name c = sp_Name spec) (fk_containers f1)" and r: "r = Inr i"
      and f': "f' = put_container c (f1\<lparr>fk_idSeq := fk_idSeq f1 + 1\<rparr>)"
      using 2(1) False by (auto simp: nextID_def i_def c_def split: if_splits prod.splits)
    have cs: "map_of (fk_containers f') = (map_of (fk_containers f))(i \<mapsto> c)"
      using same by (simp add: f' put_container_def update_conv' c_def new_container_def)
    have name: "cr_name c = sp_Name spec" "cr_id c = i" by (simp_all add: c_def new_container_def)
    have seq: "fk_idSeq f' = fk_idSeq f + 1" using same by (simp add: f' put_container_def)
    have fresh: "j \<noteq> i \<and> cr_name d \<noteq> sp_Name spec \<and> cr_name d \<noteq> i \<and> j \<noteq> sp_Name spec"
      if jd: "map_of (fk_containers f) j = Some d" for j d
    proof -
      obtain n where n: "j = id_text n" "n \<le> fk_idSeq f" and nm: "is_name (cr_name d)"
        using assms(2) jd unfolding fake_ok_def by blast
      have "(j, d) \<in> set (fk_containers f1)" using jd map_of_SomeD same by metis
      then show ?thesis
        using free n nm id_not_name [OF nm, of "fk_idSeq f1 + 1"] id_not_name [OF assms(3), of n] same(4)
        by (auto simp: list_ex_iff i_def id_text_inj)
    qed
    have rest: "fk_volumes f' = fk_volumes f" "fk_networks f' = fk_networks f"
      "distinct (map fst (fk_containers f'))"
      using same 2(2) by (simp_all add: f' put_container_def distinct_update fake_ok_def)
    have keys: "cr_id d = j \<and> is_name (cr_name d) \<and> (\<exists>n. j = id_text n \<and> n \<le> fk_idSeq f + 1)"
      if "((map_of (fk_containers f))(i \<mapsto> c)) j = Some d" for j d
    proof (cases "j = i")
      case True
      then show ?thesis using that name assms(3) same by (auto simp: i_def)
    next
      case False
      then have "map_of (fk_containers f) j = Some d" using that by simp
      then show ?thesis using assms(2) unfolding fake_ok_def by (metis trans_le_add1)
    qed
    have inj: "j = k" if jd: "((map_of (fk_containers f))(i \<mapsto> c)) j = Some d" "((map_of (fk_containers f))(i \<mapsto> c)) k = Some e"
        "cr_name d = cr_name e" for j k d e
    proof (cases "j = i \<or> k = i")
      case True
      then show ?thesis using jd fresh name by (auto split: if_splits)
    next
      case False
      then have "map_of (fk_containers f) j = Some d" "map_of (fk_containers f) k = Some e" using jd by simp_all
      then show ?thesis using assms(2) jd(3) unfolding fake_ok_def by blast
    qed
    have nets: "\<forall>k n. map_of (fk_networks f) k = Some n \<longrightarrow> nr_name n = k" using assms(2) by (simp add: fake_ok_def)
    have "fake_ok f'"
      unfolding fake_ok_def cs seq rest(2)
      by (intro conjI allI impI rest(3) keys [THEN conjunct1] keys [THEN conjunct2, THEN conjunct1] keys [THEN conjunct2, THEN conjunct2])
         (assumption | erule (2) inj | erule nets [rule_format])+
    moreover have "fake_removes {} {} {} f f' \<and> fake_adds {} {} {sp_Name spec} f f'"
    proof -
      have "container_refs f' = insert (i, sp_Name spec) (container_refs f)"
        using fresh name unfolding container_refs_def cs by (auto split: if_splits)
      then show ?thesis by (auto simp: fake_removes_def fake_adds_def rest)
    qed
    moreover have "(i, sp_Name spec) \<in> container_refs f'" using name by (simp add: container_refs_def cs)
    moreover have "\<not> answers_to i p \<and> \<not> answers_to (sp_Name spec) p" if "p \<in> container_refs f" for p
      using that fresh unfolding container_refs_def answers_to_def by fastforce
    ultimately show ?thesis using r by auto
  qed
qed (use keeps_changes assms(2) in auto)

lemma ContainerRemove_changes:
  assumes "ContainerRemove now ref f = (r, f')" and "fake_ok f"
  shows "fake_ok f' \<and> fake_removes {} {} {ref} f f' \<and> fake_adds {} {} {} f f' \<and>
     (r = Inr () \<longrightarrow> (\<forall>p \<in> container_refs f'. \<not> answers_to ref p))"
  using assms(1) [unfolded ContainerRemove_def] assms(2)
proof (cases rule: guarded_ok)
  case (2 f1)
  note same = 2(3-6)
  have refs: "container_refs f1 = container_refs f" using same by (simp add: container_refs_def)
  show ?thesis
  proof (cases "resolveContainer ref f1")
    case None
    then have "f' = f1" using 2(1) by simp
    then show ?thesis
      using resolve_None [OF 2(2) None] 2(2) same refs by (auto simp: fake_removes_def fake_adds_def)
  next
    case (Some c)
    note c = resolve_Some [OF 2(2) Some]
    have cs: "map_of (fk_containers f') = (map_of (fk_containers f))(cr_id c := None)"
      and rest: "fk_volumes f' = fk_volumes f" "fk_networks f' = fk_networks f" "fk_idSeq f' = fk_idSeq f"
        "distinct (map fst (fk_containers f'))"
      using 2(1,2) Some same by (auto simp: Let_def Emit_def delete_conv' distinct_delete fake_ok_def)
    have "fake_ok f'"
      using assms(2) rest unfolding fake_ok_def cs by (auto split: if_splits)
    moreover have "fake_removes {} {} {ref} f f' \<and> fake_adds {} {} {} f f'"
      using c(2) c(1) same unfolding fake_removes_def fake_adds_def container_refs_def cs rest
      by (auto simp: answers_to_def split: if_splits)
    moreover have "\<not> answers_to ref p" if "p \<in> container_refs f'" for p
    proof -
      obtain i d where p: "p = (i, cr_name d)" and d: "map_of (fk_containers f) i = Some d" and ne: "i \<noteq> cr_id c"
        using \<open>p \<in> container_refs f'\<close> by (auto simp: container_refs_def cs split: if_splits)
      have cc: "map_of (fk_containers f) (cr_id c) = Some c" using c(1) same by simp
      have "cr_name d \<noteq> cr_name c" using assms(2) d cc ne unfolding fake_ok_def by blast
      moreover have "is_name (cr_name d)" "is_name (cr_name c)" "\<exists>n. i = id_text n" "\<exists>n. cr_id c = id_text n"
        using assms(2) d cc unfolding fake_ok_def by blast+
      then have "cr_name d \<noteq> cr_id c" "i \<noteq> cr_name c" by (metis id_text_no_name)+
      ultimately show ?thesis using c(2) ne unfolding p answers_to_def by auto
    qed
    ultimately show ?thesis by simp
  qed
qed (use keeps_changes assms(2) in auto)

subsection \<open>The contract holds\<close>

interpretation fake: docker_client "fake_docker familiarRepo" fake_clock fake_view fake_sound is_name pure_contexts
proof (unfold_locales, goal_cases)
  case (19 c w1 w) then show ?case by (auto simp: pure_contexts_def)
next
  case (20 t w1 w) then show ?case by (auto simp: fake_clock_def fake_view_def)
next
  case (21 c t e w1 w) then show ?case
    by (auto simp: fake_clock_def fake_view_def fake_sound_def same_objects_def split: option.splits)
next
  case (22 c spec r w1 w)
  have "on_fake (\<lambda>_. VolumeCreate spec) w = (r, w1)" using 22(1) by (simp add: fake_docker_def)
  from on_fake_creates [OF this VolumeCreate_changes 22(2)] show ?case .
next
  case (23 c n r w1 w)
  have "on_fake (\<lambda>_. VolumeRemove n) w = (r, w1)" using 23(1) by (simp add: fake_docker_def)
  from on_fake_changes [OF this VolumeRemove_changes 23(2)] show ?case by (simp add: fake_view_def)
next
  case (24 c spec r w1 w)
  have "on_fake (\<lambda>_. NetworkCreate spec) w = (r, w1)" using 24(1) by (simp add: fake_docker_def)
  from on_fake_creates [OF this NetworkCreate_changes 24(2)] show ?case .
next
  case (25 c n r w1 w)
  have "on_fake (\<lambda>_. NetworkRemove n) w = (r, w1)" using 25(1) by (simp add: fake_docker_def)
  from on_fake_changes [OF this NetworkRemove_changes 25(2)] show ?case by (simp add: fake_view_def)
next
  case (26 c spec r w1 w)
  have "on_fake (\<lambda>_. ContainerCreate spec) w = (r, w1)" using 26(1) by (simp add: fake_docker_def)
  from on_fake_changes [OF this ContainerCreate_changes [OF _ _ 26(3)] 26(2)]
  show ?case by (simp add: fake_view_def)
next
  case (27 c ref r w1 w)
  have "on_fake (\<lambda>t. ContainerRemove t ref) w = (r, w1)" using 27(1) by (simp add: fake_docker_def)
  from on_fake_changes [OF this ContainerRemove_changes 27(2)]
  show ?case by (simp add: fake_view_def)
next
  case (28 p n w) then show ?case
    by (auto simp: fake_view_def fake_sound_def fake_ok_def container_refs_def is_name_def) (metis id_text_is_hex)
qed (simp only: fake_docker_def docker.select_convs, erule (1) on_fake_quiet [rotated],
     rule quiet_keeps NetworkConnect_keeps NetworkDisconnect_keeps ContainerStart_keeps ContainerStop_keeps ReadExec_keeps)+

text \<open>
  C39: the in-memory daemon keeps the promises of the client interface. Only a create makes an
  object, only a remove takes one away, and only the one it names; a remove that reports
  success leaves nothing of that name behind, whether or not it was there; a container's ID is
  new and never answers for another container; time does not go backwards.
\<close>

theorem fake_docker_keeps_contract:
  "docker_client (fake_docker familiarRepo) fake_clock fake_view fake_sound is_name pure_contexts"
  by (rule fake.docker_client_axioms)

end
