(* ===== verification/Docker_Config.thy ===== *)
theory Docker_Config
  imports Template_Store
begin

section \<open>Configuration of the Docker operator\<close>

text \<open>
  \<^verbatim>\<open>src/docker-operator/internal/config/config.go\<close>: the settings, what the environment supplies for those
  it leaves out, and the validation run at start-up. \<^verbatim>\<open>url.Parse\<close>, \<^verbatim>\<open>time.ParseDuration\<close> and the parsing
  of command-line flags are parameters; a secret is its string.
\<close>

subsection \<open>Names and modes\<close>

definition BackendOllama :: string where "BackendOllama = ''ollama''"
definition BackendAnthropic :: string where "BackendAnthropic = ''anthropic''"

definition ValidBackend :: "string \<Rightarrow> bool" where
  "ValidBackend s \<longleftrightarrow> s = BackendOllama \<or> s = BackendAnthropic"

definition HarnessClaudeCode :: string where "HarnessClaudeCode = ''claude-code''"
definition HarnessOpenCode :: string where "HarnessOpenCode = ''opencode''"

definition ValidHarness :: "string \<Rightarrow> bool" where
  "ValidHarness s \<longleftrightarrow> s = HarnessClaudeCode \<or> s = HarnessOpenCode"

definition NormalizeHarness :: "string \<Rightarrow> string" where
  "NormalizeHarness s = (if s = HarnessOpenCode then HarnessOpenCode else HarnessClaudeCode)"

definition Harnesses :: "string list" where "Harnesses = [HarnessClaudeCode, HarnessOpenCode]"

definition HarnessSupportsBackend :: "string \<Rightarrow> string \<Rightarrow> bool" where
  "HarnessSupportsBackend harness backend \<longleftrightarrow> harness \<noteq> HarnessOpenCode \<or> backend \<noteq> BackendAnthropic"

definition AutoModeOn :: string where "AutoModeOn = ''on''"
definition AutoModeOff :: string where "AutoModeOff = ''off''"

definition ValidAutoMode :: "string \<Rightarrow> bool" where
  "ValidAutoMode s \<longleftrightarrow> s = [] \<or> s = AutoModeOn \<or> s = AutoModeOff"

definition AutoModeString :: "bool \<Rightarrow> string" where
  "AutoModeString on = (if on then AutoModeOn else AutoModeOff)"

subsection \<open>What the sources use of \<^verbatim>\<open>strconv\<close> and \<^verbatim>\<open>net\<close>\<close>

definition is_digit :: "char \<Rightarrow> bool" where
  "is_digit c \<longleftrightarrow> 48 \<le> (of_char c :: nat) \<and> (of_char c :: nat) \<le> 57"

definition digits_value :: "string \<Rightarrow> int" where
  "digits_value s = foldl (\<lambda>n c. 10 * n + (of_char c - 48)) 0 s"

text \<open>\<^verbatim>\<open>strconv.Atoi\<close> and \<^verbatim>\<open>ParseInt(s, 10, 64)\<close>: a sign, at least one digit, and a value of 64 bits.\<close>

definition Atoi :: "string \<Rightarrow> int option" where
  "Atoi s =
     (let neg = (s \<noteq> [] \<and> hd s = CHR ''-'');
          ds = (if s \<noteq> [] \<and> (hd s = CHR ''-'' \<or> hd s = CHR ''+'') then tl s else s);
          n = (if neg then - digits_value ds else digits_value ds)
      in if ds = [] \<or> \<not> list_all is_digit ds \<or> n < - (2 ^ 63) \<or> n \<ge> 2 ^ 63 then None else Some n)"

definition ParseBool :: "string \<Rightarrow> bool option" where
  "ParseBool s =
     (if s \<in> {''1'', ''t'', ''T'', ''TRUE'', ''true'', ''True''} then Some True
      else if s \<in> {''0'', ''f'', ''F'', ''FALSE'', ''false'', ''False''} then Some False
      else None)"

text \<open>The position of the first and of the last occurrence of a byte.\<close>

fun index_byte :: "char \<Rightarrow> string \<Rightarrow> nat option" where
  "index_byte c [] = None"
| "index_byte c (x # xs) = (if x = c then Some 0 else map_option Suc (index_byte c xs))"

definition last_index :: "char \<Rightarrow> string \<Rightarrow> nat option" where
  "last_index c s = map_option (\<lambda>i. length s - 1 - i) (index_byte c (rev s))"

text \<open>\<^verbatim>\<open>net.SplitHostPort\<close>.\<close>

definition SplitHostPort :: "string \<Rightarrow> (string \<times> string) option" where
  "SplitHostPort s =
     (case last_index CHR '':'' s of
        None \<Rightarrow> None
      | Some i \<Rightarrow>
          let port = drop (i + 1) s
          in if hd s = CHR ''['' then
               (case index_byte CHR '']'' s of
                  None \<Rightarrow> None
                | Some e \<Rightarrow>
                    if e + 1 \<noteq> i \<or> CHR ''['' \<in> set (drop 1 s) \<or> CHR '']'' \<in> set (drop (e + 1) s) then None
                    else Some (take (e - 1) (drop 1 s), port))
             else if CHR '':'' \<in> set (take i s) \<or> CHR ''['' \<in> set s \<or> CHR '']'' \<in> set s then None
             else Some (take i s, port))"

record parsed_url =
  u_Scheme :: string
  u_Host :: string
  u_Port :: string

type_synonym url_parser = "string \<Rightarrow> store_error + parsed_url"

subsection \<open>The settings\<close>

record Config =
  cf_MaxAgents :: int
  cf_ListenAddr :: string
  cf_APIToken :: string
  cf_StateDBPath :: string
  cf_AgentImageClaudeCode :: string
  cf_AgentImageOpenCode :: string
  cf_AgentImageRefreshInterval :: duration
  cf_AgentImageRegistryURL :: string
  cf_AgentImageRegistryToken :: string
  cf_ProxynetName :: string
  cf_DbnetName :: string
  cf_GithubRepo :: string
  cf_AgentToken :: string
  cf_GitProxyURL :: string
  cf_GitProxyBrokerURL :: string
  cf_DependaproxyURL :: string
  cf_DependaproxyPyPIURL :: string
  cf_DependaproxyGoproxyURL :: string
  cf_DockerRuntime :: string
  cf_DefaultBackend :: string
  cf_OllamaURL :: string
  cf_AnthropicAuthToken :: string
  cf_AnthropicAPIKey :: string
  cf_AgentModel :: string
  cf_AgentFastModel :: string
  cf_AutoCompactThreshold :: string
  cf_MaxContextTokens :: string
  cf_DependaproxyContainer :: string
  cf_DefaultAutoMode :: bool
  cf_FilestoreDir :: string
  cf_FilestoreVolume :: string
  cf_FilestoreMaxUploadBytes :: int

definition FilestoreEnabled :: "Config \<Rightarrow> bool" where
  "FilestoreEnabled c \<longleftrightarrow> cf_FilestoreDir c \<noteq> []"

definition AgentImageFor :: "Config \<Rightarrow> string \<Rightarrow> string" where
  "AgentImageFor c harness =
     (if NormalizeHarness harness = HarnessOpenCode then cf_AgentImageOpenCode c else cf_AgentImageClaudeCode c)"

subsection \<open>Validation of one setting\<close>

definition repo_char :: "char \<Rightarrow> bool" where
  "repo_char c \<longleftrightarrow>
     (let v = of_char c :: nat
      in 65 \<le> v \<and> v \<le> 90 \<or> 97 \<le> v \<and> v \<le> 122 \<or> 48 \<le> v \<and> v \<le> 57 \<or> c \<in> {CHR ''_'', CHR ''.'', CHR ''-''})"

text \<open>\<^verbatim>\<open>^[A-Za-z0-9_.-]+/[A-Za-z0-9_.-]+$\<close>\<close>

definition ValidGithubRepo :: "string \<Rightarrow> bool" where
  "ValidGithubRepo s \<longleftrightarrow>
     (let owner = takeWhile (\<lambda>c. c \<noteq> CHR ''/'') s; rest = drop (length owner) s
      in owner \<noteq> [] \<and> list_all repo_char owner \<and> rest \<noteq> [] \<and> tl rest \<noteq> [] \<and> list_all repo_char (tl rest))"

definition autoCompactMin :: int where "autoCompactMin = 50"
definition autoCompactMax :: int where "autoCompactMax = 100"

definition ValidAutoCompactThreshold :: "string \<Rightarrow> bool" where
  "ValidAutoCompactThreshold s =
     (case Atoi (TrimSpace s) of
        None \<Rightarrow> False
      | Some n \<Rightarrow> autoCompactMin \<le> n \<and> n \<le> autoCompactMax)"

definition alnum :: "char \<Rightarrow> bool" where
  "alnum c \<longleftrightarrow> repo_char c \<and> c \<notin> {CHR ''_'', CHR ''.'', CHR ''-''}"

definition validateDockerName :: "string \<Rightarrow> string \<Rightarrow> store_error option" where
  "validateDockerName field name =
     (if name = [] then Some (Plain (field @ '': must not be empty''))
      else if \<not> (alnum (hd name) \<and> list_all repo_char (tl name)) then Some (Plain (field @ '': not a valid Docker network name''))
      else None)"

definition validateHostPort :: "string \<Rightarrow> string \<Rightarrow> store_error option" where
  "validateHostPort field addr =
     (if addr = [] then Some (Plain (field @ '': must not be empty''))
      else case SplitHostPort addr of
             None \<Rightarrow> Some (Plain (field @ '': not a valid host:port address''))
           | Some (host, port) \<Rightarrow>
               if port = [] then Some (Plain (field @ '': missing a port''))
               else case Atoi port of
                      None \<Rightarrow> Some (Plain (field @ '': non-numeric port''))
                    | Some n \<Rightarrow> if n < 0 \<or> n > 65535 then Some (Plain (field @ '': port out of range'')) else None)"

definition validateImageRepo :: "string \<Rightarrow> string \<Rightarrow> store_error option" where
  "validateImageRepo flagName ref =
     (if ref = [] then Some (Plain (flagName @ '': must not be empty''))
      else if Contains ref ''@'' then Some (Plain (flagName @ '': must be a bare repository with no digest''))
      else case last_index CHR '':'' ref of
             Some i \<Rightarrow> if \<not> Contains (drop (i + 1) ref) ''/'' then Some (Plain (flagName @ '': must be a bare repository with no tag'')) else None
           | None \<Rightarrow> None)"

definition validateHTTPURL :: "url_parser \<Rightarrow> string \<Rightarrow> string \<Rightarrow> store_error option" where
  "validateHTTPURL url_Parse field raw =
     (if raw = [] then Some (Plain (field @ '': must not be empty''))
      else case url_Parse raw of
             Inl e \<Rightarrow> Some (Wrap (field @ '': not a valid URL'') e)
           | Inr u \<Rightarrow>
               if u_Scheme u \<noteq> ''http'' \<and> u_Scheme u \<noteq> ''https'' then Some (Plain (field @ '': must use the http or https scheme''))
               else if u_Host u = [] then Some (Plain (field @ '': has no host''))
               else None)"

definition ValidOllamaURL :: "url_parser \<Rightarrow> string \<Rightarrow> bool" where
  "ValidOllamaURL url_Parse s \<longleftrightarrow> validateHTTPURL url_Parse ''ollama-url'' s = None"

subsection \<open>Validation of the whole\<close>

text \<open>The first error of a sequence of checks.\<close>

fun first_error :: "store_error option list \<Rightarrow> store_error option" where
  "first_error [] = None"
| "first_error (None # es) = first_error es"
| "first_error (Some e # es) = Some e"

definition check :: "bool \<Rightarrow> string \<Rightarrow> store_error option" where
  "check bad msg = (if bad then Some (Plain msg) else None)"

definition validateRequired :: "Config \<Rightarrow> store_error option" where
  "validateRequired c = first_error
     [check (cf_AgentToken c = []) ''agent-token: must not be empty; set the AGENT_TOKEN environment variable to the Bearer every agent presents to git-proxy'',
      check (cf_GithubRepo c \<noteq> [] \<and> \<not> ValidGithubRepo (cf_GithubRepo c)) ''github-repo: not a valid repo reference, want owner/repo or owner/repo.git'']"

definition validateLimitsAndPaths :: "Config \<Rightarrow> store_error option" where
  "validateLimitsAndPaths c = first_error
     [check (cf_MaxAgents c < 1) ''max-agents: must be >= 1'',
      validateHostPort ''listen-addr'' (cf_ListenAddr c),
      check (cf_StateDBPath c = []) ''state-db-path: must not be empty'',
      check (cf_StateDBPath c \<noteq> [] \<and> last (cf_StateDBPath c) = CHR ''/'') ''state-db-path: ends in a separator, want a file path not a directory'',
      validateImageRepo ''agent-image-claudecode'' (cf_AgentImageClaudeCode c),
      validateImageRepo ''agent-image-opencode'' (cf_AgentImageOpenCode c),
      check (cf_DockerRuntime c = []) ''docker-runtime: must not be empty'',
      check (\<not> ValidBackend (cf_DefaultBackend c)) ''default-backend: not a valid backend'',
      check (cf_DependaproxyContainer c = []) ''dependaproxy-container: must not be empty'',
      check (cf_AutoCompactThreshold c \<noteq> [] \<and> \<not> ValidAutoCompactThreshold (cf_AutoCompactThreshold c)) ''auto-compact-threshold: must be an integer between 50 and 100'',
      check (cf_AgentImageRefreshInterval c < 0) ''agent-image-refresh-interval: must not be negative'']"

definition validateNetworks :: "Config \<Rightarrow> store_error option" where
  "validateNetworks c = first_error
     [validateDockerName ''proxynet-name'' (cf_ProxynetName c),
      validateDockerName ''dbnet-name'' (cf_DbnetName c),
      check (cf_ProxynetName c = cf_DbnetName c) ''proxynet-name and dbnet-name: must differ'']"

definition validateURLs :: "url_parser \<Rightarrow> Config \<Rightarrow> store_error option" where
  "validateURLs url_Parse c = first_error
     (map (\<lambda>(field, raw). validateHTTPURL url_Parse field raw)
        [(''git-proxy-url'', cf_GitProxyURL c), (''git-proxy-broker-url'', cf_GitProxyBrokerURL c),
         (''dependaproxy-url'', cf_DependaproxyURL c), (''dependaproxy-pypi-url'', cf_DependaproxyPyPIURL c),
         (''dependaproxy-goproxy-url'', cf_DependaproxyGoproxyURL c)] @
      [if cf_AgentImageRegistryURL c \<noteq> [] then validateHTTPURL url_Parse ''agent-image-registry-url'' (cf_AgentImageRegistryURL c) else None])"

definition validateFilestore :: "Config \<Rightarrow> store_error option" where
  "validateFilestore c =
     (if cf_FilestoreDir c = [] then None
      else first_error
        [check (hd (cf_FilestoreDir c) \<noteq> CHR ''/'') ''filestore-dir: must be an absolute path'',
         validateDockerName ''filestore-volume'' (cf_FilestoreVolume c),
         check (cf_FilestoreMaxUploadBytes c < 1) ''filestore-max-upload-bytes: must be >= 1''])"

definition validateModelRouting :: "url_parser \<Rightarrow> Config \<Rightarrow> store_error option" where
  "validateModelRouting url_Parse c =
     (if cf_OllamaURL c = [] then None
      else first_error
        [validateHTTPURL url_Parse ''ollama-url'' (cf_OllamaURL c),
         check (cf_AgentModel c = []) ''agent-model: must not be empty when ollama-url is set'',
         check (cf_AgentFastModel c = []) ''agent-fast-model: must not be empty when ollama-url is set''])"

definition config_Validate :: "url_parser \<Rightarrow> Config \<Rightarrow> store_error option" where
  "config_Validate url_Parse c = first_error
     [validateRequired c, validateLimitsAndPaths c, validateNetworks c, validateURLs url_Parse c,
      validateFilestore c, validateModelRouting url_Parse c]"

lemma first_config_error_None [simp]: "first_error es = None \<longleftrightarrow> list_all (\<lambda>e. e = None) es"
  by (induction es rule: first_error.induct) simp_all

lemma check_None [simp]: "check bad msg = None \<longleftrightarrow> \<not> bad"
  by (simp add: check_def)

subsection \<open>Loading\<close>

definition envOr :: "(string \<Rightarrow> string) \<Rightarrow> string \<Rightarrow> string \<Rightarrow> string" where
  "envOr getenv name def = (if getenv name \<noteq> [] then getenv name else def)"

definition env_parsed :: "(string \<Rightarrow> 'a option) \<Rightarrow> (string \<Rightarrow> string) \<Rightarrow> string \<Rightarrow> 'a \<Rightarrow> store_error + 'a" where
  "env_parsed parse getenv name def =
     (let v = TrimSpace (getenv name)
      in if v = [] then Inr def
         else case parse v of None \<Rightarrow> Inl (Plain (name @ '': not valid'')) | Some x \<Rightarrow> Inr x)"

definition envInt :: "(string \<Rightarrow> string) \<Rightarrow> string \<Rightarrow> int \<Rightarrow> store_error + int" where
  "envInt = env_parsed Atoi"

definition envInt64 :: "(string \<Rightarrow> string) \<Rightarrow> string \<Rightarrow> int \<Rightarrow> store_error + int" where
  "envInt64 = env_parsed Atoi"

definition envBool :: "(string \<Rightarrow> string) \<Rightarrow> string \<Rightarrow> bool \<Rightarrow> store_error + bool" where
  "envBool = env_parsed ParseBool"

definition envDuration :: "(string \<Rightarrow> duration option) \<Rightarrow> (string \<Rightarrow> string) \<Rightarrow> string \<Rightarrow> duration \<Rightarrow> store_error + duration" where
  "envDuration ParseDuration = env_parsed ParseDuration"

text \<open>What the flags default to, once the four parsed variables are known.\<close>

definition env_config :: "(string \<Rightarrow> string) \<Rightarrow> int \<Rightarrow> duration \<Rightarrow> int \<Rightarrow> bool \<Rightarrow> Config" where
  "env_config getenv maxAgents imageRefreshInterval maxUpload autoMode =
     \<lparr>cf_MaxAgents = maxAgents, cf_ListenAddr = envOr getenv ''LISTEN_ADDR'' '':8080'',
      cf_APIToken = envOr getenv ''OPERATOR_API_TOKEN'' [],
      cf_StateDBPath = envOr getenv ''STATE_DB_PATH'' ''/var/lib/docker-operator/state.db'',
      cf_AgentImageClaudeCode = envOr getenv ''AGENT_IMAGE_CLAUDECODE'' ''ghcr.io/psenna/ai-sandbox-agent'',
      cf_AgentImageOpenCode = envOr getenv ''AGENT_IMAGE_OPENCODE'' ''ghcr.io/psenna/ai-sandbox-agent-opencode'',
      cf_AgentImageRefreshInterval = imageRefreshInterval,
      cf_AgentImageRegistryURL = envOr getenv ''AGENT_IMAGE_REGISTRY_URL'' [],
      cf_AgentImageRegistryToken = envOr getenv ''AGENT_IMAGE_REGISTRY_TOKEN'' [],
      cf_ProxynetName = envOr getenv ''PROXYNET_NAME'' ''docker-operator-proxynet'',
      cf_DbnetName = envOr getenv ''DBNET_NAME'' ''docker-operator-dbnet'',
      cf_GithubRepo = envOr getenv ''GITHUB_REPO'' [],
      cf_AgentToken = envOr getenv ''AGENT_TOKEN'' [],
      cf_GitProxyURL = envOr getenv ''GIT_PROXY_URL'' ''http://git-proxy:8080'',
      cf_GitProxyBrokerURL = envOr getenv ''GIT_PROXY_BROKER_URL'' ''http://git-proxy:8090'',
      cf_DependaproxyURL = envOr getenv ''DEPENDAPROXY_URL'' ''http://dependaproxy:8080/npm'',
      cf_DependaproxyPyPIURL = envOr getenv ''DEPENDAPROXY_PYPI_URL'' ''http://dependaproxy:8080/pypi'',
      cf_DependaproxyGoproxyURL = envOr getenv ''DEPENDAPROXY_GOPROXY_URL'' ''http://dependaproxy:8080/goproxy'',
      cf_DockerRuntime = envOr getenv ''DOCKER_RUNTIME'' ''sysbox-runc'',
      cf_DefaultBackend = envOr getenv ''DEFAULT_AGENT_BACKEND'' BackendOllama,
      cf_OllamaURL = envOr getenv ''OLLAMA_URL'' ''http://ollama:11434'',
      cf_AnthropicAuthToken = envOr getenv ''ANTHROPIC_AUTH_TOKEN'' ''ollama'',
      cf_AnthropicAPIKey = envOr getenv ''ANTHROPIC_API_KEY'' [],
      cf_AgentModel = envOr getenv ''AGENT_MODEL'' ''glm-5.3:cloud'',
      cf_AgentFastModel = envOr getenv ''AGENT_FAST_MODEL'' ''deepseek-v4.1-flash:cloud'',
      cf_AutoCompactThreshold = envOr getenv ''AGENT_AUTO_COMPACT_THRESHOLD'' [],
      cf_MaxContextTokens = envOr getenv ''AGENT_MAX_CONTEXT_TOKENS'' [],
      cf_DependaproxyContainer = envOr getenv ''DEPENDAPROXY_CONTAINER'' ''docker-operator-dependaproxy'',
      cf_DefaultAutoMode = autoMode,
      cf_FilestoreDir = envOr getenv ''FILESTORE_DIR'' ''/var/lib/docker-operator/filestore'',
      cf_FilestoreVolume = envOr getenv ''FILESTORE_VOLUME'' ''docker-operator-filestore'',
      cf_FilestoreMaxUploadBytes = maxUpload\<rparr>"

text \<open>\<open>flags\<close> is the outcome of parsing the arguments into the flag set, whose initial values it is given.\<close>

definition Load :: "(string \<Rightarrow> duration option) \<Rightarrow> (string list \<Rightarrow> Config \<Rightarrow> store_error + Config) \<Rightarrow> string list \<Rightarrow> (string \<Rightarrow> string) \<Rightarrow>
    store_error + Config" where
  "Load ParseDuration flags args getenv =
     (case envInt getenv ''MAX_AGENTS'' 5 of Inl e \<Rightarrow> Inl e
      | Inr maxAgents \<Rightarrow>
     (case envDuration ParseDuration getenv ''AGENT_IMAGE_REFRESH_INTERVAL'' Hour of Inl e \<Rightarrow> Inl e
      | Inr refresh \<Rightarrow>
     (case envInt64 getenv ''FILESTORE_MAX_UPLOAD_BYTES'' (100 * 2 ^ 20) of Inl e \<Rightarrow> Inl e
      | Inr maxUpload \<Rightarrow>
     (case envBool getenv ''AGENT_AUTO_MODE'' True of Inl e \<Rightarrow> Inl e
      | Inr autoMode \<Rightarrow>
          (case flags args (env_config getenv maxAgents refresh maxUpload autoMode) of
             Inl e \<Rightarrow> Inl (Wrap ''parsing flags'' e)
           | Inr c \<Rightarrow> Inr c)))))"

end
