(* ===== verification/Go_Path.thy ===== *)
theory Go_Path
  imports Prelude
begin

section \<open>Slash-separated paths\<close>

text \<open>
  What the sources use of Go's package \<^verbatim>\<open>path\<close>: \<^verbatim>\<open>Clean\<close> by its four rules on the segments between
  slashes, \<^verbatim>\<open>Join\<close>, \<^verbatim>\<open>Split\<close>, \<^verbatim>\<open>Dir\<close> and \<^verbatim>\<open>IsAbs\<close>. \<^verbatim>\<open>strings.Split\<close> by a slash and \<^verbatim>\<open>strings.Join\<close> are inverse
  to each other on segments that hold no slash.
\<close>

abbreviation slash :: char where "slash \<equiv> CHR ''/''"

fun split_slash :: "string \<Rightarrow> string list" where
  "split_slash [] = [[]]"
| "split_slash (c # s) =
     (if c = slash then [] # split_slash s
      else case split_slash s of [] \<Rightarrow> [[c]] | seg # segs \<Rightarrow> (c # seg) # segs)"

fun join_slash :: "string list \<Rightarrow> string" where
  "join_slash [] = []"
| "join_slash [s] = s"
| "join_slash (s # ss) = s @ slash # join_slash ss"

lemma split_slash_nonempty [simp]: "split_slash s \<noteq> []"
  by (induction s) (auto split: list.splits)

lemma join_split [simp]: "join_slash (split_slash s) = s"
proof (induction s)
  case (Cons c s)
  show ?case
  proof (cases "c = slash")
    case True
    obtain x xs where "split_slash s = x # xs" using split_slash_nonempty [of s] by (cases "split_slash s") auto
    then show ?thesis using True Cons by simp
  next
    case False
    obtain x xs where s: "split_slash s = x # xs" using split_slash_nonempty [of s] by (cases "split_slash s") auto
    then show ?thesis using False Cons by (cases xs) simp_all
  qed
qed simp

lemma split_no_slash: "seg \<in> set (split_slash s) \<Longrightarrow> slash \<notin> set seg"
proof (induction s arbitrary: seg)
  case (Cons c s)
  obtain x xs where s: "split_slash s = x # xs" using split_slash_nonempty [of s] by (cases "split_slash s") auto
  then show ?case using Cons by (cases "c = slash") auto
qed simp

lemma split_plain: "slash \<notin> set s \<Longrightarrow> split_slash s = [s]"
  by (induction s) auto

lemma split_append: "slash \<notin> set s \<Longrightarrow> split_slash (s @ slash # t) = s # split_slash t"
  by (induction s) auto

lemma split_join:
  "ss \<noteq> [] \<Longrightarrow> \<forall>s \<in> set ss. slash \<notin> set s \<Longrightarrow> split_slash (join_slash ss) = ss"
  by (induction ss rule: join_slash.induct) (auto simp: split_plain split_append)

subsection \<open>\<^verbatim>\<open>Clean\<close>\<close>

definition clean_step :: "bool \<Rightarrow> string list \<Rightarrow> string \<Rightarrow> string list" where
  "clean_step rooted stack seg =
     (if seg = [] \<or> seg = ''.'' then stack
      else if seg = ''..'' then
        (if stack \<noteq> [] \<and> last stack \<noteq> ''..'' then butlast stack
         else if rooted then stack else stack @ [''..''])
      else stack @ [seg])"

definition clean_segs :: "bool \<Rightarrow> string list \<Rightarrow> string list" where
  "clean_segs rooted segs = foldl (clean_step rooted) [] segs"

definition is_rooted :: "string \<Rightarrow> bool" where
  "is_rooted p \<longleftrightarrow> p \<noteq> [] \<and> hd p = slash"

definition Clean :: "string \<Rightarrow> string" where
  "Clean p =
     (let segs = clean_segs (is_rooted p) (split_slash p);
          q = (if is_rooted p then [slash] else []) @ join_slash segs
      in if q = [] then ''.'' else q)"

definition path_Join :: "string list \<Rightarrow> string" where
  "path_Join elems = (let ss = filter (\<lambda>e. e \<noteq> []) elems in if ss = [] then [] else Clean (join_slash ss))"

definition path_Dir :: "string \<Rightarrow> string" where
  "path_Dir p = Clean (rev (dropWhile (\<lambda>c. c \<noteq> slash) (rev p)))"

text \<open>
  The segments \<^verbatim>\<open>Clean\<close> keeps: no empty segment and no single dot, and parent references only at
  the front of a path that is not rooted.
\<close>

definition normal :: "bool \<Rightarrow> string list \<Rightarrow> bool" where
  "normal rooted segs \<longleftrightarrow>
     (\<exists>n rest. segs = replicate n ''..'' @ rest \<and> (rooted \<longrightarrow> n = 0) \<and>
        (\<forall>s \<in> set rest. s \<noteq> [] \<and> s \<noteq> ''.'' \<and> s \<noteq> ''..'' \<and> slash \<notin> set s))"

lemma clean_step_normal:
  assumes "normal rooted stack" and "slash \<notin> set seg"
  shows "normal rooted (clean_step rooted stack seg)"
proof -
  from assms(1) obtain n rest where st: "stack = replicate n ''..'' @ rest" "rooted \<longrightarrow> n = 0"
    and ok: "\<forall>s \<in> set rest. s \<noteq> [] \<and> s \<noteq> ''.'' \<and> s \<noteq> ''..'' \<and> slash \<notin> set s"
    by (auto simp: normal_def)
  consider "clean_step rooted stack seg = stack"
    | "seg = ''..''" "rest \<noteq> []" "clean_step rooted stack seg = replicate n ''..'' @ butlast rest"
    | "seg = ''..''" "rest = []" "\<not> rooted" "clean_step rooted stack seg = replicate (Suc n) ''..''"
    | "seg \<noteq> []" "seg \<noteq> ''.''" "seg \<noteq> ''..''" "clean_step rooted stack seg = replicate n ''..'' @ rest @ [seg]"
  proof (cases "seg = ''..''")
    case True
    show ?thesis
    proof (cases "rest = []")
      case True
      then show ?thesis
        using \<open>seg = ''..''\<close> that(1,3) st by (cases n; cases rooted) (auto simp: clean_step_def replicate_append_same)
    next
      case False
      then have "last rest \<noteq> ''..''" using ok by simp
      then show ?thesis using \<open>seg = ''..''\<close> that(2) False st by (auto simp: clean_step_def butlast_append)
    qed
  next
    case False
    then show ?thesis
      using that(1,4) st by (cases "seg = [] \<or> seg = ''.''") (simp_all add: clean_step_def)
  qed
  then show ?thesis
  proof cases
    case 2
    then show ?thesis using st ok unfolding normal_def by (blast dest: in_set_butlastD)
  next
    case 3
    then show ?thesis unfolding normal_def by (intro exI [of _ "Suc n"] exI [of _ "[]"]) simp
  next
    case 4
    then show ?thesis using st ok assms(2) unfolding normal_def
      by (intro exI [of _ n] exI [of _ "rest @ [seg]"]) simp
  qed (use assms(1) in simp)
qed

lemma clean_fold_normal:
  "normal rooted stack \<Longrightarrow> \<forall>s \<in> set segs. slash \<notin> set s \<Longrightarrow> normal rooted (foldl (clean_step rooted) stack segs)"
  by (induction segs arbitrary: stack) (simp_all add: clean_step_normal)

lemma clean_segs_normal: "\<forall>s \<in> set segs. slash \<notin> set s \<Longrightarrow> normal rooted (clean_segs rooted segs)"
  unfolding clean_segs_def by (rule clean_fold_normal) (auto simp: normal_def)

text \<open>Cleaning segments that are normal already leaves them alone.\<close>

lemma clean_fold_id:
  "normal rooted (stack @ segs) \<Longrightarrow> foldl (clean_step rooted) stack segs = stack @ segs"
proof (induction segs arbitrary: stack)
  case (Cons seg segs)
  from Cons.prems obtain n rest where eq: "stack @ seg # segs = replicate n ''..'' @ rest" and r: "rooted \<longrightarrow> n = 0"
    and ok: "\<forall>s \<in> set rest. s \<noteq> [] \<and> s \<noteq> ''.'' \<and> s \<noteq> ''..'' \<and> slash \<notin> set s"
    by (auto simp: normal_def)
  have "clean_step rooted stack seg = stack @ [seg]"
  proof (cases "length stack < n")
    case True
    have "stack @ seg # segs = replicate n ''..'' @ rest" by (rule eq)
    then have "stack = replicate (length stack) ''..''" and "seg = ''..''"
      using True by (metis append_eq_append_conv_if length_replicate less_imp_le_nat take_replicate min.absorb1,
        metis True append_Cons_eq_iff nth_append nth_append_length nth_replicate length_replicate)
    moreover from this have "stack \<noteq> [] \<Longrightarrow> last stack = ''..''" by (metis last_replicate length_0_conv)
    ultimately show ?thesis using True r by (auto simp: clean_step_def)
  next
    case False
    then have "seg \<in> set rest"
      using eq by (metis in_set_conv_decomp length_replicate linorder_not_less nth_append nth_append_length
          length_append length_Cons add_diff_inverse_nat nth_mem append_eq_append_conv2 le_add1 less_add_Suc1 add_less_cancel_left)
    then show ?thesis using ok by (auto simp: clean_step_def)
  qed
  then show ?case using Cons.IH [of "stack @ [seg]"] Cons.prems by simp
qed simp

lemma clean_segs_id: "normal rooted segs \<Longrightarrow> clean_segs rooted segs = segs"
  unfolding clean_segs_def using clean_fold_id [of rooted "[]" segs] by simp

lemma normal_no_slash: "normal rooted segs \<Longrightarrow> \<forall>s \<in> set segs. slash \<notin> set s"
  unfolding normal_def by (fastforce dest: in_set_replicate [THEN iffD1])

text \<open>A relative path that does not start with a parent reference stays below where it is joined.\<close>

lemma clean_relative:
  assumes "\<not> is_rooted p" and "Clean p \<noteq> ''.''" and "Clean p \<noteq> ''..''" and "\<not> HasPrefix (Clean p) ''../''"
  shows "\<exists>segs. segs \<noteq> [] \<and> Clean p = join_slash segs \<and> (\<forall>s \<in> set segs. s \<noteq> [] \<and> s \<noteq> ''.'' \<and> s \<noteq> ''..'' \<and> slash \<notin> set s)"
proof -
  let ?segs = "clean_segs False (split_slash p)"
  have n: "normal False ?segs" using clean_segs_normal split_no_slash by blast
  then obtain k rest where segs: "?segs = replicate k ''..'' @ rest"
    and ok: "\<forall>s \<in> set rest. s \<noteq> [] \<and> s \<noteq> ''.'' \<and> s \<noteq> ''..'' \<and> slash \<notin> set s"
    by (auto simp: normal_def)
  have c: "Clean p = (if join_slash ?segs = [] then ''.'' else join_slash ?segs)"
    using assms(1) by (simp add: Clean_def Let_def)
  have "k = 0"
  proof (cases k)
    case (Suc j)
    then show ?thesis
      using assms c segs by (cases "replicate j ''..'' @ rest") auto
  qed simp
  then have "?segs = rest" using segs by simp
  moreover have "rest \<noteq> []" using c assms(2) calculation by auto
  ultimately show ?thesis using ok c assms(2) by (intro exI [of _ rest]) (simp split: if_splits)
qed

end
