(* ===== verification/Image_Tags.thy ===== *)
theory Image_Tags
  imports Docker_Config
begin

section \<open>Agent image tags\<close>

text \<open>
  The functions on tags of \<^verbatim>\<open>src/docker-operator/internal/agent/agentimage.go\<close>: which tags are published builds, which
  one a new agent runs, which ones are offered. A build's tag is its date and time, so the
  order of strings is the order of builds. The parser of image references
  (distribution/reference) is a parameter: it yields the repository and the tag, if any.
\<close>

definition IsDateTimeTag :: "string \<Rightarrow> bool" where
  "IsDateTimeTag tag \<longleftrightarrow>
     length tag = 15 \<and> list_all is_digit (take 8 tag) \<and> tag ! 8 = CHR ''-'' \<and> list_all is_digit (drop 9 tag)"

definition tag_char :: "char \<Rightarrow> bool" where
  "tag_char c \<longleftrightarrow> alnum c \<or> c = CHR ''_''"

definition image_tag_ok :: "string \<Rightarrow> bool" where
  "image_tag_ok tag \<longleftrightarrow> tag \<noteq> [] \<and> tag_char (hd tag) \<and> list_all repo_char (tl tag) \<and> length tag \<le> 128"

fun keep_new :: "(string \<Rightarrow> bool) \<Rightarrow> string list \<Rightarrow> string list \<Rightarrow> string list" where
  "keep_new P seen [] = []"
| "keep_new P seen (t # ts) =
     (if \<not> P t \<or> t \<in> set seen then keep_new P seen ts else t # keep_new P (t # seen) ts)"

definition FilterDateTimeTags :: "string list \<Rightarrow> string list" where
  "FilterDateTimeTags = keep_new IsDateTimeTag []"

definition SortTagsNewestFirst :: "string list \<Rightarrow> string list" where
  "SortTagsNewestFirst tags = rev (sort tags)"

definition NewestDateTimeTag :: "string list \<Rightarrow> string" where
  "NewestDateTimeTag tags = foldl (\<lambda>newest t. if IsDateTimeTag t \<and> newest < t then t else newest) [] tags"

definition UpgradeAvailable :: "string \<Rightarrow> string list \<Rightarrow> bool" where
  "UpgradeAvailable currentTag tags \<longleftrightarrow>
     IsDateTimeTag currentTag \<and> list_ex (\<lambda>t. IsDateTimeTag t \<and> currentTag < t) tags"

type_synonym ref_parser = "string \<Rightarrow> (string \<times> string option) option"

definition ImageTagOf :: "ref_parser \<Rightarrow> string \<Rightarrow> string" where
  "ImageTagOf parse ref = (case parse ref of Some (_, Some tag) \<Rightarrow> tag | _ \<Rightarrow> [])"

definition RepoWithoutTag :: "ref_parser \<Rightarrow> string \<Rightarrow> string" where
  "RepoWithoutTag parse ref = (case parse ref of None \<Rightarrow> ref | Some (name, _) \<Rightarrow> name)"

definition defaultImageTagFallback :: string where "defaultImageTagFallback = ''latest''"
definition offeredImageTagLimit :: nat where "offeredImageTagLimit = 5"

definition nonDateTimeTags :: "string list \<Rightarrow> string list" where
  "nonDateTimeTags = keep_new (\<lambda>t. t \<noteq> [] \<and> \<not> IsDateTimeTag t) []"

definition defaultImageTagFrom :: "string list \<Rightarrow> string list \<Rightarrow> string" where
  "defaultImageTagFrom localTags registryTags =
     (let t = NewestDateTimeTag localTags; others = nonDateTimeTags localTags; r = NewestDateTimeTag registryTags
      in if t \<noteq> [] then t
         else if others \<noteq> [] then hd (SortTagsNewestFirst others)
         else if r \<noteq> [] then r
         else defaultImageTagFallback)"

record ImageTagOption =
  ito_Tag :: string
  ito_Present :: bool

text \<open>The set \<^verbatim>\<open>offered\<close> is a list without repetitions; its order does not matter since it is sorted.\<close>

definition OfferedImageTags :: "string list \<Rightarrow> string list \<Rightarrow> string \<Rightarrow> ImageTagOption list" where
  "OfferedImageTags registryTags localTags defaultTag =
     (let here = filter (\<lambda>t. t \<noteq> []) localTags;
          published = take offeredImageTagLimit (SortTagsNewestFirst (FilterDateTimeTags registryTags));
          offered = remdups (filter (\<lambda>t. t \<noteq> []) (published @ localTags @ [defaultTag]))
      in map (\<lambda>t. \<lparr>ito_Tag = t, ito_Present = (t \<in> set here)\<rparr>) (SortTagsNewestFirst offered))"

subsection \<open>What they compute\<close>

lemma keep_new_set: "set (keep_new P seen ts) = {t \<in> set ts. P t \<and> t \<notin> set seen}"
  by (induction P seen ts rule: keep_new.induct) auto

lemma keep_new_distinct: "distinct (keep_new P seen ts)"
  by (induction P seen ts rule: keep_new.induct) (auto simp: keep_new_set)

lemma datetime_nonempty: "IsDateTimeTag t \<Longrightarrow> t \<noteq> []"
  by (auto simp: IsDateTimeTag_def)

lemma nonempty_above_nil: "t \<noteq> [] \<Longrightarrow> ([] :: string) < t"
  by (cases t) simp_all

lemma Max_skip:
  fixes x y :: "'a :: linorder"
  assumes "finite A" and "x \<le> y"
  shows "Max (insert y (insert x A)) = Max (insert y A)"
proof (cases "A = {}")
  case False
  then have "Max (insert y (insert x A)) = max y (max x (Max A))" "Max (insert y A) = max y (Max A)"
    using assms(1) by simp_all
  then show ?thesis using assms(2) by (simp add: max.absorb1 flip: max.assoc)
qed (use assms(2) in \<open>simp add: max_absorb1\<close>)

lemma newest_fold:
  "foldl (\<lambda>newest t. if IsDateTimeTag t \<and> newest < t then t else newest) m tags =
     Max (insert m {t \<in> set tags. IsDateTimeTag t})"
proof (induction tags arbitrary: m)
  case (Cons t tags)
  show ?case
  proof (cases "IsDateTimeTag t")
    case True
    have e: "{u \<in> set (t # tags). IsDateTimeTag u} = insert t {u \<in> set tags. IsDateTimeTag u}" using True by auto
    show ?thesis
      unfolding e using True Cons.IH Max_skip [of "{u \<in> set tags. IsDateTimeTag u}" m t]
        Max_skip [of "{u \<in> set tags. IsDateTimeTag u}" t m]
      by (cases "m < t") (auto simp: insert_commute not_less)
  next
    case False
    then have e: "{u \<in> set (t # tags). IsDateTimeTag u} = {u \<in> set tags. IsDateTimeTag u}" by auto
    show ?thesis unfolding e using False Cons.IH by simp
  qed
qed simp

lemma newest_Max: "NewestDateTimeTag tags = (if \<exists>t \<in> set tags. IsDateTimeTag t then Max {t \<in> set tags. IsDateTimeTag t} else [])"
proof (cases "\<exists>t \<in> set tags. IsDateTimeTag t")
  case True
  then have "Max {t \<in> set tags. IsDateTimeTag t} \<in> {t \<in> set tags. IsDateTimeTag t}" by (intro Max_in) auto
  then have "[] < Max {t \<in> set tags. IsDateTimeTag t}" using datetime_nonempty nonempty_above_nil by blast
  moreover have "{t \<in> set tags. IsDateTimeTag t} \<noteq> {}" using True by blast
  ultimately show ?thesis
    using True Max_insert [of "{t \<in> set tags. IsDateTimeTag t}" "[]"] by (simp add: NewestDateTimeTag_def newest_fold max_absorb2)
next
  case False
  then have none: "{t \<in> set tags. IsDateTimeTag t} = {}" by auto
  show ?thesis using False unfolding NewestDateTimeTag_def newest_fold none by simp
qed

lemma upgrade_newest: "UpgradeAvailable cur tags \<longleftrightarrow> IsDateTimeTag cur \<and> cur < NewestDateTimeTag tags"
proof -
  have "(\<exists>t \<in> set tags. IsDateTimeTag t \<and> cur < t) \<longleftrightarrow> cur < NewestDateTimeTag tags"
  proof (cases "\<exists>t \<in> set tags. IsDateTimeTag t")
    case True
    then show ?thesis unfolding newest_Max by (subst if_P, assumption, subst Max_gr_iff) auto
  next
    case False
    then show ?thesis by (auto simp: newest_Max)
  qed
  then show ?thesis by (auto simp: UpgradeAvailable_def list_ex_iff)
qed

lemma sorted_descending: "distinct tags \<Longrightarrow> sorted_wrt (>) (SortTagsNewestFirst tags)"
  by (simp add: SortTagsNewestFirst_def sorted_wrt_rev strict_sorted_iff)

text \<open>The newest \<open>n\<close> of a list: what is left out is older than what is kept.\<close>

lemma newest_first_take:
  assumes "distinct tags" and "t \<in> set tags" and "t \<notin> set (take n (SortTagsNewestFirst tags))"
    and "u \<in> set (take n (SortTagsNewestFirst tags))"
  shows "t < u"
proof -
  let ?s = "SortTagsNewestFirst tags"
  have "set ?s = set tags" by (simp add: SortTagsNewestFirst_def)
  then have "t \<in> set (drop n ?s)" using assms(2,3) by (metis Un_iff append_take_drop_id set_append)
  moreover have "sorted_wrt (>) (take n ?s @ drop n ?s)" using sorted_descending [OF assms(1)] by simp
  ultimately show ?thesis using assms(4) unfolding sorted_wrt_append by blast
qed

text \<open>
  The tags offered for an agent's image are listed newest first without repetition. They
  are the tags the host already holds, the default, and the five newest published builds: a
  published build that is not among them is older than at least five that are. A tag is
  marked present exactly when the host holds it.
\<close>

theorem offered_tags_exact:
  "sorted_wrt (>) (map ito_Tag (OfferedImageTags registryTags localTags defaultTag)) \<and>
   (\<exists>published. length published = min 5 (card {t \<in> set registryTags. IsDateTimeTag t}) \<and> distinct published \<and>
      set published = {t \<in> set registryTags. IsDateTimeTag t \<and>
        card {u \<in> set registryTags. IsDateTimeTag u \<and> t < u} < 5} \<and>
      ito_Tag ` set (OfferedImageTags registryTags localTags defaultTag) = (set published \<union> set localTags \<union> {defaultTag}) - {[]}) \<and>
   list_all (\<lambda>opt. ito_Present opt \<longleftrightarrow> ito_Tag opt \<in> set localTags) (OfferedImageTags registryTags localTags defaultTag)"
proof -
  define all where "all = FilterDateTimeTags registryTags"
  define s where "s = SortTagsNewestFirst all"
  define published where "published = take 5 s"
  have d: "distinct all" and set: "set all = {t \<in> set registryTags. IsDateTimeTag t}"
    by (simp_all add: all_def FilterDateTimeTags_def keep_new_distinct keep_new_set)
  have ss: "set s = set all" "distinct s" "length s = length all" using d by (simp_all add: s_def SortTagsNewestFirst_def)
  have desc: "sorted_wrt (>) s" unfolding s_def by (rule sorted_descending [OF d])
  have rank: "{u \<in> set s. s ! i < u} = set (take i s)" if "i < length s" for i
  proof -
    have "s ! i < s ! j \<longleftrightarrow> j < i" if "j < length s" for j
      using desc that \<open>i < length s\<close> by (metis linorder_neqE_nat order_less_asym' order_less_irrefl sorted_wrt_nth_less)
    moreover have "set (take i s) = {s ! j | j. j < i}" using that by (force simp: in_set_conv_nth)
    ultimately show ?thesis using that by (auto simp: in_set_conv_nth) (metis order.strict_trans)
  qed
  have count: "card {u \<in> set s. s ! i < u} = i" if "i < length s" for i
    using that ss(2) by (simp add: rank distinct_card)
  have "set published = {t \<in> set s. card {u \<in> set s. t < u} < 5}"
  proof (intro set_eqI iffI)
    fix t assume "t \<in> set published"
    then obtain i where "i < length s" "i < 5" "t = s ! i" by (auto simp: published_def in_set_conv_nth)
    then show "t \<in> {t \<in> set s. card {u \<in> set s. t < u} < 5}" using count by simp
  next
    fix t assume t: "t \<in> {t \<in> set s. card {u \<in> set s. t < u} < 5}"
    then obtain i where "i < length s" "t = s ! i" by (auto simp: in_set_conv_nth)
    then show "t \<in> set published" using t count by (auto simp: published_def in_set_conv_nth)
  qed
  then have top: "set published = {t \<in> set registryTags. IsDateTimeTag t \<and> card {u \<in> set registryTags. IsDateTimeTag u \<and> t < u} < 5}"
    unfolding ss(1) set by auto
  have len: "length published = min 5 (card {t \<in> set registryTags. IsDateTimeTag t})"
    using d ss(3) set by (simp add: published_def min.commute flip: distinct_card)
  have "distinct published" using ss(2) by (simp add: published_def)
  moreover have o: "map ito_Tag (OfferedImageTags registryTags localTags defaultTag) =
      SortTagsNewestFirst (remdups (filter (\<lambda>t. t \<noteq> []) (published @ localTags @ [defaultTag])))"
    by (simp add: OfferedImageTags_def Let_def published_def s_def all_def offeredImageTagLimit_def comp_def)
  then have "ito_Tag ` set (OfferedImageTags registryTags localTags defaultTag) = (set published \<union> set localTags \<union> {defaultTag}) - {[]}"
    by (auto simp: SortTagsNewestFirst_def simp flip: set_map)
  moreover have "sorted_wrt (>) (map ito_Tag (OfferedImageTags registryTags localTags defaultTag))"
    unfolding o by (rule sorted_descending) simp
  moreover have "list_all (\<lambda>opt. ito_Present opt \<longleftrightarrow> ito_Tag opt \<in> set localTags) (OfferedImageTags registryTags localTags defaultTag)"
    by (auto simp: OfferedImageTags_def Let_def list_all_iff SortTagsNewestFirst_def)
  ultimately show ?thesis using top len by blast
qed

end
