(* ===== verification/Agent_Env.thy ===== *)
theory Agent_Env
  imports Op_Registry Open_Store Fake_Docker Image_Tags Go_Path "HOL-Library.AList" "HOL-Library.State_Monad"
begin

section \<open>The manager and the containers it describes\<close>

text \<open>
  The fixed part of \<^verbatim>\<open>Manager\<close> in \<^verbatim>\<open>src/docker-operator/internal/agent/create.go\<close>, its options, the state monad its flows
  run in, and the pure functions that describe an agent's containers (\<^verbatim>\<open>create.go\<close>, \<^verbatim>\<open>harness.go\<close>,
  \<^verbatim>\<open>opencode.go\<close>). The state of a flow is the record \<open>manager\<close>: the operations in flight, the
  database, and everything outside the process. Logging is left out.
\<close>

subsection \<open>Options\<close>

record Options =
  op_DindHealthTimeout :: duration
  op_TmuxReadyTimeout :: duration
  op_ExecTimeout :: duration
  op_PollInterval :: duration
  op_StopTimeout :: duration
  op_TeardownTimeout :: duration
  op_DindWakeRetries :: int
  op_DindWakeRetryDelay :: duration
  op_DependaproxyReachableTimeout :: duration

definition withDefaults :: "Options \<Rightarrow> Options" where
  "withDefaults opt =
     \<lparr>op_DindHealthTimeout = (if op_DindHealthTimeout opt \<le> 0 then 3 * Minute else op_DindHealthTimeout opt),
      op_TmuxReadyTimeout = (if op_TmuxReadyTimeout opt \<le> 0 then 60 * Second else op_TmuxReadyTimeout opt),
      op_ExecTimeout = (if op_ExecTimeout opt \<le> 0 then 30 * Second else op_ExecTimeout opt),
      op_PollInterval = (if op_PollInterval opt \<le> 0 then 500000000 else op_PollInterval opt),
      op_StopTimeout = (if op_StopTimeout opt \<le> 0 then 10 * Second else op_StopTimeout opt),
      op_TeardownTimeout = (if op_TeardownTimeout opt \<le> 0 then 2 * Minute else op_TeardownTimeout opt),
      op_DindWakeRetries = (if op_DindWakeRetries opt \<le> 0 then 5 else op_DindWakeRetries opt),
      op_DindWakeRetryDelay = (if op_DindWakeRetryDelay opt \<le> 0 then 5 * Second else op_DindWakeRetryDelay opt),
      op_DependaproxyReachableTimeout =
        (if op_DependaproxyReachableTimeout opt \<le> 0 then 20 * Second else op_DependaproxyReachableTimeout opt)\<rparr>"

definition options_ok :: "Options \<Rightarrow> bool" where
  "options_ok opt \<longleftrightarrow> op_PollInterval opt > 0 \<and> op_DindHealthTimeout opt > 0 \<and> op_TmuxReadyTimeout opt > 0 \<and>
     op_ExecTimeout opt > 0 \<and> op_DependaproxyReachableTimeout opt > 0 \<and> op_DindWakeRetries opt > 0"

lemma withDefaults_ok: "options_ok (withDefaults opt)"
  by (simp add: options_ok_def withDefaults_def)

subsection \<open>The manager\<close>

text \<open>
  The file store's operations, as the flows call them; \<open>fi_Save\<close> takes the content and the limit.
  A tar archive is its entries (name, whether it is a regular file, content) up to the error that
  ends it.
\<close>

record 'w files =
  fi_EnsureAgentDir :: "string \<Rightarrow> ('w, unit) call"
  fi_EnsureSharedDir :: "('w, unit) call"
  fi_RemoveAgentDir :: "string \<Rightarrow> ('w, unit) call"
  fi_Mkdir :: "string \<Rightarrow> ('w, unit) call"
  fi_Save :: "string \<Rightarrow> string \<Rightarrow> int \<Rightarrow> ('w, unit) call"

type_synonym tar_reader = "string \<Rightarrow> (string \<times> bool \<times> string) list \<times> store_error option"

record opencodeConfig =
  oc_NPM :: string
  oc_BaseURL :: string
  oc_Models :: "string list"
  oc_Model :: string
  oc_SmallModel :: string

record ('r, 'd, 'w) Manager =
  mg_docker :: "'w docker"
  mg_clock :: "'w clock"
  mg_bolt :: "('r, 'd) bolt"
  mg_agents :: "('r, Agent) json"
  mg_accounts :: "('r, AnthropicAccount) json"
  mg_tags :: "('r, AgentImageTags) json"
  mg_texts :: "'r texts"
  mg_maxAgents :: int
  mg_newID :: "('w, string) call"
  mg_registries :: "string \<Rightarrow> ('w ctx \<Rightarrow> ('w, string list) call) option"
  mg_files :: "'w files option"
  mg_cfg :: Config
  mg_opts :: Options
  mg_urls :: url_parser
  mg_refs :: ref_parser
  mg_tar :: tar_reader
  mg_demux :: "string \<Rightarrow> string"
  mg_opencode :: "opencodeConfig \<Rightarrow> store_error + string"
  mg_dindInit :: string
  mg_metadata :: "Agent \<Rightarrow> time \<Rightarrow> store_error + string"

subsection \<open>Flows\<close>

type_synonym ('d, 'w, 'a) flow = "(('d, 'w) manager, 'a) state"

definition outside :: "('w \<Rightarrow> 'a \<times> 'w) \<Rightarrow> ('d, 'w, 'a) flow" where
  "outside f = State (\<lambda>s. case f (m_docker s) of (x, w) \<Rightarrow> (x, s\<lparr>m_docker := w\<rparr>))"

definition on_store :: "('d \<Rightarrow> 'a \<times> 'd) \<Rightarrow> ('d, 'w, 'a) flow" where
  "on_store f = State (\<lambda>s. case f (m_db s) of (x, d) \<Rightarrow> (x, s\<lparr>m_db := d\<rparr>))"

definition on_flight :: "(opRegistry \<Rightarrow> 'a \<times> opRegistry) \<Rightarrow> ('d, 'w, 'a) flow" where
  "on_flight f = State (\<lambda>s. case f (m_inFlight s) of (x, r) \<Rightarrow> (x, s\<lparr>m_inFlight := r\<rparr>))"

abbreviation ret :: "'a \<Rightarrow> ('d, 'w, 'a) flow" where "ret \<equiv> State_Monad.return"

text \<open>The store's calls: the context is asked once, and a write reads the clock.\<close>

definition store_Get :: "('r, 'd, 'w) Manager \<Rightarrow> 'w ctx \<Rightarrow> string \<Rightarrow> ('d, 'w, store_error + Agent) flow" where
  "store_Get M ctx i = do {
     e \<leftarrow> outside ctx;
     on_store (\<lambda>d. (Get (mg_bolt M) (mg_agents M) e i d, d)) }"

definition store_List :: "('r, 'd, 'w) Manager \<Rightarrow> 'w ctx \<Rightarrow> ('d, 'w, store_error + Agent list) flow" where
  "store_List M ctx = do {
     e \<leftarrow> outside ctx;
     on_store (\<lambda>d. (List (mg_bolt M) (mg_agents M) e d, d)) }"

definition store_Create :: "('r, 'd, 'w) Manager \<Rightarrow> 'w ctx \<Rightarrow> CreateSpec \<Rightarrow> ('d, 'w, store_error + Agent) flow" where
  "store_Create M ctx spec = do {
     e \<leftarrow> outside ctx;
     t \<leftarrow> outside (ck_Now (mg_clock M));
     on_store (Create (mg_bolt M) (mg_agents M) (mg_maxAgents M) e t spec) }"

definition store_Update :: "('r, 'd, 'w) Manager \<Rightarrow> 'w ctx \<Rightarrow> string \<Rightarrow> (Agent \<Rightarrow> store_error + Agent) \<Rightarrow> ('d, 'w, store_error + Agent) flow" where
  "store_Update M ctx i mutate = do {
     e \<leftarrow> outside ctx;
     t \<leftarrow> outside (ck_Now (mg_clock M));
     on_store (Update (mg_bolt M) (mg_agents M) e t i (Some mutate)) }"

definition store_Delete :: "('r, 'd, 'w) Manager \<Rightarrow> 'w ctx \<Rightarrow> string \<Rightarrow> ('d, 'w, store_error + unit) flow" where
  "store_Delete M ctx i = do {
     e \<leftarrow> outside ctx;
     on_store (Delete (mg_bolt M) e i) }"

text \<open>\<^verbatim>\<open>context.WithoutCancel\<close> is never done; a context with a timeout of its own is done when time is up.\<close>

definition without_cancel :: "'w ctx" where "without_cancel = (\<lambda>w. (None, w))"

definition with_timeout :: "('r, 'd, 'w) Manager \<Rightarrow> time \<Rightarrow> 'w ctx \<Rightarrow> 'w ctx" where
  "with_timeout M deadline parent w =
     (case parent w of
        (Some e, w) \<Rightarrow> (Some e, w)
      | (None, w) \<Rightarrow>
          (case ck_Now (mg_clock M) w of
             (t, w) \<Rightarrow> (if t \<ge> deadline then Some (Plain ''context deadline exceeded'') else None, w)))"

subsection \<open>Names, labels, harnesses\<close>

definition dinernetName :: "string \<Rightarrow> string" where "dinernetName i = agentContainerName i @ ''-dinernet''"
definition workspaceVolumeName :: "string \<Rightarrow> string" where "workspaceVolumeName i = agentContainerName i @ ''-workspace''"
definition claudeConfigVolumeName :: "string \<Rightarrow> string" where "claudeConfigVolumeName i = agentContainerName i @ ''-claude-config''"
definition dindCacheVolumeName :: "string \<Rightarrow> string" where "dindCacheVolumeName i = agentContainerName i @ ''-dind-cache''"

definition LabelManaged :: string where "LabelManaged = ''ai-sandbox.docker-operator/managed''"
definition LabelAgentID :: string where "LabelAgentID = ''ai-sandbox.docker-operator/agent-id''"
definition LabelRole :: string where "LabelRole = ''ai-sandbox.docker-operator/role''"

definition labelsFor :: "string \<Rightarrow> string \<Rightarrow> labels" where
  "labelsFor i role = [(LabelManaged, ''true''), (LabelAgentID, i), (LabelRole, role)]"

definition managedSelector :: labels where "managedSelector = [(LabelManaged, ''true'')]"

definition HarnessOf :: "Agent \<Rightarrow> string" where
  "HarnessOf a = firstNonEmpty [ag_Harness a, HarnessClaudeCode]"

definition agentImageRef :: "('r, 'd, 'w) Manager \<Rightarrow> Agent \<Rightarrow> string" where
  "agentImageRef M a = firstNonEmpty [ag_Image a, RepoWithoutTag (mg_refs M) (AgentImageFor (mg_cfg M) (HarnessOf a)) @ '':latest'']"

definition configMount :: string where "configMount = ''/home/node/.claude-sandbox''"
definition opencodeDataMount :: string where "opencodeDataMount = ''/home/node/.local/share''"
definition workspaceMount :: string where "workspaceMount = ''/workspace''"
definition agentStoreMount :: string where "agentStoreMount = ''/workspace/store''"
definition agentSharedMount :: string where "agentSharedMount = ''/workspace/shared''"
definition dependaproxyIPPath :: string where "dependaproxyIPPath = workspaceMount @ ''/dependaproxy-ip''"

definition configVolumeMount :: "Agent \<Rightarrow> string" where
  "configVolumeMount a = (if HarnessOf a = HarnessOpenCode then opencodeDataMount else configMount)"

datatype sessionStart = sessionFresh | sessionContinue | sessionResume

definition autoModeArgs :: "Agent \<Rightarrow> string list" where
  "autoModeArgs a =
     (if ag_AutoMode a \<noteq> AutoModeOn then []
      else if HarnessOf a = HarnessOpenCode then [''--auto'']
      else [''--permission-mode'', ''auto''])"

definition firstInvocationArgs :: "Agent \<Rightarrow> sessionStart \<Rightarrow> string list" where
  "firstInvocationArgs a start =
     autoModeArgs a @
     (if HarnessOf a = HarnessOpenCode then (if start \<noteq> sessionFresh then [''--continue''] else [])
      else (case start of sessionContinue \<Rightarrow> [''--continue''] | sessionResume \<Rightarrow> [''--resume''] | sessionFresh \<Rightarrow> []))"

definition oneShotInvocationArgs :: "Agent \<Rightarrow> string \<Rightarrow> string list" where
  "oneShotInvocationArgs a task = autoModeArgs a @ [''-p'', task]"

subsection \<open>Backends and environments\<close>

record resolvedBackend =
  rb_kind :: string
  rb_model :: string
  rb_fastModel :: string
  rb_ollamaURL :: string
  rb_apiKey :: string
  rb_oauthToken :: string
  rb_accountID :: string

definition TrimRight_slash :: "string \<Rightarrow> string" where
  "TrimRight_slash s = rev (dropWhile (\<lambda>c. c = CHR ''/'') (rev s))"

definition opencodeConfigJSON :: "('r, 'd, 'w) Manager \<Rightarrow> string \<Rightarrow> string \<Rightarrow> string \<Rightarrow> store_error + string" where
  "opencodeConfigJSON M ollamaURL model fastModel =
     (if ollamaURL = [] then Inl (Plain ''generating opencode.json: the ollama URL must not be empty'')
      else if model = [] then Inl (Plain ''generating opencode.json: the model must not be empty'')
      else wrap_error ''marshaling opencode.json'' (mg_opencode M
        \<lparr>oc_NPM = ''@ai-sdk/openai-compatible'', oc_BaseURL = TrimRight_slash ollamaURL @ ''/v1'',
         oc_Models = (if fastModel \<noteq> [] then remdups [model, fastModel] else [model]),
         oc_Model = ''ollama/'' @ model,
         oc_SmallModel = (if fastModel \<noteq> [] then ''ollama/'' @ fastModel else [])\<rparr>))"

definition applyOpencodeEnv :: "('r, 'd, 'w) Manager \<Rightarrow> labels \<Rightarrow> resolvedBackend \<Rightarrow> store_error + labels" where
  "applyOpencodeEnv M env rb =
     (if rb_kind rb \<noteq> BackendOllama then Inl (Plain ''the opencode harness supports only the ollama backend'')
      else case opencodeConfigJSON M (rb_ollamaURL rb) (rb_model rb) (rb_fastModel rb) of
             Inl e \<Rightarrow> Inl e
           | Inr j \<Rightarrow> Inr (AList.update ''XDG_DATA_HOME'' opencodeDataMount (AList.update ''OPENCODE_CONFIG_CONTENT'' j env)))"

definition applyClaudeEnv :: "labels \<Rightarrow> Agent \<Rightarrow> labels" where
  "applyClaudeEnv env a =
     (let env = AList.update ''CLAUDE_CONFIG_DIR'' configMount env;
          env = AList.update ''CLAUDE_CODE_ATTRIBUTION_HEADER'' ''0'' env;
          env = (if ag_AutoCompactThreshold a \<noteq> [] then AList.update ''CLAUDE_AUTO_COMPACT_THRESHOLD'' (ag_AutoCompactThreshold a) env else env)
      in if ag_MaxContextTokens a \<noteq> [] then AList.update ''CLAUDE_CODE_MAX_CONTEXT_TOKENS'' (ag_MaxContextTokens a) env else env)"

definition applyBackendEnv :: "Config \<Rightarrow> labels \<Rightarrow> resolvedBackend \<Rightarrow> labels" where
  "applyBackendEnv cfg env rb =
     (if rb_kind rb = BackendAnthropic then
        (let env = (if rb_apiKey rb \<noteq> [] then AList.update ''ANTHROPIC_API_KEY'' (rb_apiKey rb) env else env)
         in if rb_oauthToken rb \<noteq> [] then AList.update ''CLAUDE_CODE_OAUTH_TOKEN'' (rb_oauthToken rb) env else env)
      else if rb_kind rb = BackendOllama then
        (if rb_ollamaURL rb = [] then AList.update ''ANTHROPIC_API_KEY'' (cf_AnthropicAPIKey cfg) env
         else fold (\<lambda>(k, v). AList.update k v)
           [(''ANTHROPIC_API_KEY'', []), (''ANTHROPIC_BASE_URL'', rb_ollamaURL rb), (''ANTHROPIC_AUTH_TOKEN'', cf_AnthropicAuthToken cfg),
            (''ANTHROPIC_MODEL'', rb_model rb), (''ANTHROPIC_DEFAULT_OPUS_MODEL'', rb_model rb),
            (''ANTHROPIC_DEFAULT_SONNET_MODEL'', rb_fastModel rb), (''ANTHROPIC_DEFAULT_HAIKU_MODEL'', rb_fastModel rb)] env)
      else env)"

definition base_env :: "Config \<Rightarrow> Agent \<Rightarrow> labels" where
  "base_env cfg a =
     [(''AGENT_TOKEN'', cf_AgentToken cfg), (''GITHUB_REPO'', ag_Repo a), (''GIT_PROXY_URL'', cf_GitProxyURL cfg),
      (''GIT_PROXY_BROKER_URL'', cf_GitProxyBrokerURL cfg), (''GIT_PROXY_TOKEN'', cf_AgentToken cfg),
      (''GIT_PROXY_HEADER'', ''http.extraheader=Authorization: Bearer '' @ cf_AgentToken cfg),
      (''DEPENDAPROXY_URL'', cf_DependaproxyURL cfg), (''DEPENDAPROXY_PYPI_URL'', cf_DependaproxyPyPIURL cfg),
      (''DEPENDAPROXY_GOPROXY_URL'', cf_DependaproxyGoproxyURL cfg), (''NPM_CONFIG_REGISTRY'', cf_DependaproxyURL cfg),
      (''PIP_INDEX_URL'', cf_DependaproxyPyPIURL cfg @ ''/simple''), (''GOPROXY'', cf_DependaproxyGoproxyURL cfg),
      (''DOCKER_HOST'', ''tcp://docker:2375''), (''DOCKER_TLS_VERIFY'', []), (''TERM'', ''xterm-256color''), (''LANG'', ''C.UTF-8'')]"

definition agentEnv :: "('r, 'd, 'w) Manager \<Rightarrow> Agent \<Rightarrow> resolvedBackend \<Rightarrow> store_error + labels" where
  "agentEnv M a rb =
     (let env = base_env (mg_cfg M) a;
          env = (if ag_DependaproxyDinernetIP a \<noteq> [] then AList.update ''DEPENDAPROXY_DINERNET_IP'' (ag_DependaproxyDinernetIP a) env else env);
          env = (if mg_files M \<noteq> None
                 then AList.update ''AGENT_SHARED_DIR'' agentSharedMount (AList.update ''AGENT_STORE_DIR'' agentStoreMount env) else env)
      in if HarnessOf a = HarnessOpenCode then applyOpencodeEnv M env rb
         else Inr (applyBackendEnv (mg_cfg M) (applyClaudeEnv env a) rb))"

definition volume_mount :: "string \<Rightarrow> string \<Rightarrow> Mount" where
  "volume_mount source target = \<lparr>mt_Type = MountTypeVolume, mt_Source = source, mt_Target = target, mt_ReadOnly = False, mt_Subpath = []\<rparr>"

definition AgentSubpath :: "string \<Rightarrow> string" where "AgentSubpath i = ''agents/'' @ i"
definition SharedDir :: string where "SharedDir = ''shared''"

definition agentSpec :: "('r, 'd, 'w) Manager \<Rightarrow> Agent \<Rightarrow> resolvedBackend \<Rightarrow> string list \<Rightarrow> store_error + ContainerSpec" where
  "agentSpec M a rb harnessArgs =
     (case agentEnv M a rb of
        Inl e \<Rightarrow> Inl e
      | Inr env \<Rightarrow> Inr
          \<lparr>sp_Name = ag_ContainerName a, sp_Image = agentImageRef M a, sp_Entrypoint = [],
           sp_Cmd = ''/usr/local/bin/tmux-boot.sh'' # harnessArgs, sp_Env = env, sp_Labels = labelsFor (ag_ID a) ''agent'',
           sp_Mounts = [volume_mount (ag_WorkspaceVolume a) workspaceMount, volume_mount (ag_ClaudeConfigVolume a) (configVolumeMount a)] @
             (if mg_files M \<noteq> None then
                [(volume_mount (cf_FilestoreVolume (mg_cfg M)) agentStoreMount)\<lparr>mt_Subpath := AgentSubpath (ag_ID a)\<rparr>,
                 (volume_mount (cf_FilestoreVolume (mg_cfg M)) agentSharedMount)\<lparr>mt_Subpath := SharedDir, mt_ReadOnly := True\<rparr>]
              else []),
           sp_Networks = [\<lparr>na_Name = cf_ProxynetName (mg_cfg M), na_Aliases = []\<rparr>, \<lparr>na_Name = ag_DinernetName a, na_Aliases = []\<rparr>],
           sp_Runtime = [], sp_TTY = True, sp_OpenStdin = True, sp_Healthcheck = None\<rparr>)"

definition dindImage :: string where "dindImage = ''docker:27-dind''"

definition dindSpec :: "('r, 'd, 'w) Manager \<Rightarrow> Agent \<Rightarrow> ContainerSpec" where
  "dindSpec M a =
     \<lparr>sp_Name = ag_DindContainerName a, sp_Image = dindImage,
      sp_Entrypoint = [''sh'', ''-c'', mg_dindInit M, ''dind-init.sh''],
      sp_Cmd = [''--host=tcp://0.0.0.0:2375'', ''--host=unix:///var/run/docker.sock''],
      sp_Env = [(''DOCKER_TLS_CERTDIR'', [])], sp_Labels = labelsFor (ag_ID a) ''dind'',
      sp_Mounts = [volume_mount (ag_DindCacheVolume a) ''/var/lib/docker'', volume_mount (ag_WorkspaceVolume a) workspaceMount],
      sp_Networks = [\<lparr>na_Name = ag_DinernetName a, na_Aliases = [''docker'']\<rparr>],
      sp_Runtime = cf_DockerRuntime (mg_cfg M), sp_TTY = False, sp_OpenStdin = False,
      sp_Healthcheck = Some \<lparr>hc_Test = [''CMD'', ''docker'', ''run'', ''--rm'', ''busybox:1.36.1'', ''true''],
        hc_Interval = 5 * Second, hc_Timeout = 8 * Second, hc_Retries = 30, hc_StartPeriod = 10 * Second\<rparr>\<rparr>"

subsection \<open>Which credentials an agent's container is given\<close>

lemma base_env_silent:
  "k \<in> {''ANTHROPIC_API_KEY'', ''ANTHROPIC_BASE_URL'', ''ANTHROPIC_AUTH_TOKEN'', ''CLAUDE_CODE_OAUTH_TOKEN''} \<Longrightarrow>
   map_of (base_env cfg a) k = None"
  unfolding base_env_def by (elim insertE emptyE) simp_all

lemma claude_env_silent:
  "k \<in> {''ANTHROPIC_API_KEY'', ''ANTHROPIC_BASE_URL'', ''ANTHROPIC_AUTH_TOKEN'', ''CLAUDE_CODE_OAUTH_TOKEN''} \<Longrightarrow>
   map_of (applyClaudeEnv env a) k = map_of env k"
  unfolding applyClaudeEnv_def Let_def by (elim insertE emptyE) (simp_all add: update_conv')

lemma agentEnv_cases:
  assumes "agentEnv M a rb = Inr env"
  obtains e0 where "\<And>k. k \<in> {''ANTHROPIC_API_KEY'', ''ANTHROPIC_BASE_URL'', ''ANTHROPIC_AUTH_TOKEN'', ''CLAUDE_CODE_OAUTH_TOKEN''} \<Longrightarrow>
      map_of e0 k = None"
    and "Inr env = (if HarnessOf a = HarnessOpenCode then applyOpencodeEnv M e0 rb
                    else Inr (applyBackendEnv (mg_cfg M) (applyClaudeEnv e0 a) rb))"
proof -
  define e1 where "e1 = (if ag_DependaproxyDinernetIP a \<noteq> []
    then AList.update ''DEPENDAPROXY_DINERNET_IP'' (ag_DependaproxyDinernetIP a) (base_env (mg_cfg M) a) else base_env (mg_cfg M) a)"
  define e0 where "e0 = (if mg_files M \<noteq> None
    then AList.update ''AGENT_SHARED_DIR'' agentSharedMount (AList.update ''AGENT_STORE_DIR'' agentStoreMount e1) else e1)"
  have silent: "map_of e0 k = None"
    if "k \<in> {''ANTHROPIC_API_KEY'', ''ANTHROPIC_BASE_URL'', ''ANTHROPIC_AUTH_TOKEN'', ''CLAUDE_CODE_OAUTH_TOKEN''}" for k
    using base_env_silent [OF that, of "mg_cfg M" a] that by (auto simp: e0_def e1_def update_conv')
  have "agentEnv M a rb = (if HarnessOf a = HarnessOpenCode then applyOpencodeEnv M e0 rb
                    else Inr (applyBackendEnv (mg_cfg M) (applyClaudeEnv e0 a) rb))"
    unfolding agentEnv_def Let_def e0_def e1_def ..
  then show ?thesis using that [OF silent] assms by simp
qed

lemma backends_differ [simp]: "BackendOllama \<noteq> BackendAnthropic" "BackendAnthropic \<noteq> BackendOllama"
  by (simp_all add: BackendOllama_def BackendAnthropic_def)

text \<open>
  C40: which credentials an agent's container sees, for every harness and backend. The opencode
  harness runs on the ollama backend only and sees none of the four variables. On the other harness,
  with a model server's URL the container talks to that server with the operator's token for it,
  and the variable of the cloud's API key is present and empty, so that nothing can fall back to
  the cloud; with an ollama backend whose URL the operator cleared, it sees the operator's own
  cloud key and no other variable (the source's documented escape hatch); with an account, only that
  account's key or token, and no server is named; with any other kind, nothing.
\<close>

theorem agent_env_credentials:
  "agentEnv M a rb = Inr env \<Longrightarrow>
   (HarnessOf a = HarnessOpenCode \<longrightarrow> rb_kind rb = BackendOllama) \<and>
   map (map_of env) [''ANTHROPIC_API_KEY'', ''ANTHROPIC_BASE_URL'', ''ANTHROPIC_AUTH_TOKEN'', ''CLAUDE_CODE_OAUTH_TOKEN''] =
     (if HarnessOf a = HarnessOpenCode then [None, None, None, None]
      else if rb_kind rb = BackendAnthropic then
        [if rb_apiKey rb = [] then None else Some (rb_apiKey rb), None, None,
         if rb_oauthToken rb = [] then None else Some (rb_oauthToken rb)]
      else if rb_kind rb = BackendOllama then
        (if rb_ollamaURL rb = [] then [Some (cf_AnthropicAPIKey (mg_cfg M)), None, None, None]
         else [Some [], Some (rb_ollamaURL rb), Some (cf_AnthropicAuthToken (mg_cfg M)), None])
      else [None, None, None, None])"
proof -
  assume env: "agentEnv M a rb = Inr env"
  obtain e0 where e0: "\<And>k. k \<in> {''ANTHROPIC_API_KEY'', ''ANTHROPIC_BASE_URL'', ''ANTHROPIC_AUTH_TOKEN'', ''CLAUDE_CODE_OAUTH_TOKEN''} \<Longrightarrow>
      map_of e0 k = None"
    and run: "Inr env = (if HarnessOf a = HarnessOpenCode then applyOpencodeEnv M e0 rb
                         else Inr (applyBackendEnv (mg_cfg M) (applyClaudeEnv e0 a) rb))"
    by (rule agentEnv_cases [OF env]) (rule that, assumption+)
  have k: "map_of e0 ''ANTHROPIC_API_KEY'' = None" "map_of e0 ''ANTHROPIC_BASE_URL'' = None" "map_of e0 ''ANTHROPIC_AUTH_TOKEN'' = None"
    "map_of e0 ''CLAUDE_CODE_OAUTH_TOKEN'' = None" by (simp_all add: e0)
  show ?thesis
  proof (cases "HarnessOf a = HarnessOpenCode")
    case True
    then have "applyOpencodeEnv M e0 rb = Inr env" using run by simp
    then have "rb_kind rb = BackendOllama" and
      "\<exists>j. env = AList.update ''XDG_DATA_HOME'' opencodeDataMount (AList.update ''OPENCODE_CONFIG_CONTENT'' j e0)"
      by (auto simp: applyOpencodeEnv_def split: if_splits sum.splits)
    then show ?thesis using True k by (auto simp: update_conv')
  next
    case False
    then have "env = applyBackendEnv (mg_cfg M) (applyClaudeEnv e0 a) rb" using run by simp
    then show ?thesis using False k by (simp add: applyBackendEnv_def Let_def update_conv' claude_env_silent)
  qed
qed

subsection \<open>A sample manager\<close>

definition sample_config :: Config where
  "sample_config = env_config (\<lambda>_. []) 5 Hour (100 * 2 ^ 20) True"

definition sample_Manager :: "(account_raw, account_raw ref_db, fake_world) Manager" where
  "sample_Manager =
     \<lparr>mg_docker = fake_docker (\<lambda>repo. repo), mg_clock = fake_clock, mg_bolt = account_bolt, mg_agents = agent_json,
      mg_accounts = account_json, mg_tags = \<lparr>Marshal = (\<lambda>_. Inl (Plain [])), Unmarshal = (\<lambda>_. Inl (Plain []))\<rparr>,
      mg_texts = account_texts, mg_maxAgents = 5, mg_newID = (\<lambda>w. (Inr ''agt_2'', w)), mg_registries = (\<lambda>_. None), mg_files = None,
      mg_cfg = sample_config,
      mg_opts = withDefaults \<lparr>op_DindHealthTimeout = 0, op_TmuxReadyTimeout = 0, op_ExecTimeout = 0, op_PollInterval = 0, op_StopTimeout = 0,
        op_TeardownTimeout = 0, op_DindWakeRetries = 0, op_DindWakeRetryDelay = 0, op_DependaproxyReachableTimeout = 0\<rparr>,
      mg_urls = (\<lambda>_. Inr \<lparr>u_Scheme = ''http'', u_Host = ''ollama'', u_Port = ''11434''\<rparr>), mg_refs = (\<lambda>_. None), mg_tar = (\<lambda>_. ([], None)),
      mg_demux = (\<lambda>raw. raw), mg_opencode = (\<lambda>_. Inr []), mg_dindInit = [], mg_metadata = (\<lambda>_ _. Inr [])\<rparr>"

definition sample_backend :: resolvedBackend where
  "sample_backend = \<lparr>rb_kind = BackendOllama, rb_model = ''glm'', rb_fastModel = ''flash'', rb_ollamaURL = ''http://ollama:11434'',
     rb_apiKey = [], rb_oauthToken = [], rb_accountID = []\<rparr>"

lemma sample_harness: "HarnessOf (legacy_agent ''agt_1'' BackendOllama) \<noteq> HarnessOpenCode"
  by code_simp

lemma sample_agentEnv: "\<exists>env. agentEnv sample_Manager (legacy_agent ''agt_1'' BackendOllama) sample_backend = Inr env"
  using sample_harness by (simp add: agentEnv_def Let_def)

theorem agent_env_credentials_witness:
  "case agentEnv sample_Manager (legacy_agent ''agt_1'' BackendOllama) sample_backend of
     Inl e \<Rightarrow> False
   | Inr env \<Rightarrow> map_of env ''ANTHROPIC_API_KEY'' = Some [] \<and> map_of env ''ANTHROPIC_BASE_URL'' = Some ''http://ollama:11434''"
proof -
  obtain env where env: "agentEnv sample_Manager (legacy_agent ''agt_1'' BackendOllama) sample_backend = Inr env"
    using sample_agentEnv by blast
  show ?thesis unfolding env using sample_harness agent_env_credentials [OF env] by (simp add: sample_backend_def)
qed

end
