(* ===== verification/Agent_Steps.thy ===== *)
theory Agent_Steps
  imports Agent_Env
begin

section \<open>The steps of the agent flows\<close>

text \<open>
  The steps of \<^verbatim>\<open>src/docker-operator/internal/agent/create.go\<close>, \<^verbatim>\<open>delete.go\<close>, \<^verbatim>\<open>update.go\<close>, \<^verbatim>\<open>reconcile.go\<close> and \<^verbatim>\<open>transcript.go\<close> that the
  flows of the later theories are composed of. A step that Go returns an \<^verbatim>\<open>error\<close> from returns a
  sum; one that also updates its \<^verbatim>\<open>*store.Agent\<close> returns the agent along with it. A loop that polls
  until a deadline runs on fuel: one more than the number of times the interval fits into the
  timeout, plus one for the check that finds the deadline passed.
\<close>

subsection \<open>Outcomes\<close>

definition wrapped :: "string \<Rightarrow> store_error + 'a \<Rightarrow> store_error list" where
  "wrapped msg r = (case r of Inl e \<Rightarrow> [Wrap msg e] | Inr _ \<Rightarrow> [])"

definition joined :: "store_error list \<Rightarrow> store_error + unit" where
  "joined errs = (case errors_Join errs of None \<Rightarrow> Inr () | Some e \<Rightarrow> Inl e)"

definition and_then :: "('d, 'w, store_error + 'a) flow \<Rightarrow> ('a \<Rightarrow> ('d, 'w, store_error + 'b) flow) \<Rightarrow> ('d, 'w, store_error + 'b) flow" where
  "and_then m f = do { r \<leftarrow> m; case r of Inl e \<Rightarrow> ret (Inl e) | Inr x \<Rightarrow> f x }"

definition wrapping :: "string \<Rightarrow> ('d, 'w, store_error + 'a) flow \<Rightarrow> ('d, 'w, store_error + 'a) flow" where
  "wrapping msg m = do { r \<leftarrow> m; ret (wrap_error msg r) }"

text \<open>
  A step that works on a \<^verbatim>\<open>*store.Agent\<close> returns the agent as it left it, also when it fails.
\<close>

definition next_step :: "('d, 'w, Agent \<times> (store_error + unit)) flow \<Rightarrow> (Agent \<Rightarrow> ('d, 'w, Agent \<times> (store_error + unit)) flow) \<Rightarrow>
    ('d, 'w, Agent \<times> (store_error + unit)) flow" where
  "next_step m f = do { (a, r) \<leftarrow> m; case r of Inl e \<Rightarrow> ret (a, Inl e) | Inr _ \<Rightarrow> f a }"

definition updating :: "Agent \<Rightarrow> ('d, 'w, store_error + Agent) flow \<Rightarrow> ('d, 'w, Agent \<times> (store_error + unit)) flow" where
  "updating a m = do { r \<leftarrow> m; ret (case r of Inl e \<Rightarrow> (a, Inl e) | Inr a1 \<Rightarrow> (a1, Inr ())) }"

definition keeping :: "Agent \<Rightarrow> ('d, 'w, store_error + unit) flow \<Rightarrow> ('d, 'w, Agent \<times> (store_error + unit)) flow" where
  "keeping a m = do { r \<leftarrow> m; ret (a, r) }"

text \<open>\<open>None\<close> asks for another round.\<close>

primrec poll :: "nat \<Rightarrow> ('d, 'w, 'a option) flow \<Rightarrow> ('d, 'w, 'a option) flow" where
  "poll 0 body = ret None"
| "poll (Suc n) body = do {
     r \<leftarrow> body;
     case r of Some x \<Rightarrow> ret (Some x) | None \<Rightarrow> poll n body }"

definition poll_fuel :: "duration \<Rightarrow> duration \<Rightarrow> nat" where
  "poll_fuel timeout interval = nat (timeout div interval) + 2"

definition out_of_fuel :: store_error where "out_of_fuel = Plain ''the loop did not end''"

definition polled :: "(store_error + 'a) option \<Rightarrow> store_error + 'a" where
  "polled r = (case r of None \<Rightarrow> Inl out_of_fuel | Some x \<Rightarrow> x)"

text \<open>One check that did not succeed: give up after the deadline, else sleep and ask for another round.\<close>

definition retry_until :: "('r, 'd, 'w) Manager \<Rightarrow> 'w ctx \<Rightarrow> time \<Rightarrow> 'a \<Rightarrow> (store_error \<Rightarrow> 'a) \<Rightarrow> ('d, 'w, 'a option) flow" where
  "retry_until M ctx deadline late cancelled = do {
     t \<leftarrow> outside (ck_Now (mg_clock M));
     if t > deadline then ret (Some late)
     else do {
       e \<leftarrow> outside (ck_Sleep (mg_clock M) ctx (op_PollInterval (mg_opts M)));
       case e of Some e \<Rightarrow> ret (Some (cancelled e)) | None \<Rightarrow> ret None } }"

subsection \<open>Records\<close>

definition flow_stamp :: "('r, 'd, 'w) Manager \<Rightarrow> 'w ctx \<Rightarrow> Agent \<Rightarrow> string \<Rightarrow> (Agent \<Rightarrow> Agent) \<Rightarrow> ('d, 'w, store_error + Agent) flow" where
  "flow_stamp M ctx a what mutate =
     wrapping (''recording '' @ what) (store_Update M ctx (ag_ID a) (\<lambda>ag. Inr (mutate ag)))"

definition flow_markShielded :: "('r, 'd, 'w) Manager \<Rightarrow> 'w ctx \<Rightarrow> string \<Rightarrow> string \<Rightarrow> ('d, 'w, store_error + bool) flow" where
  "flow_markShielded M ctx i from = do {
     r \<leftarrow> store_Update M ctx i (shield from);
     ret (case r of
            Inr _ \<Rightarrow> Inr True
          | Inl e \<Rightarrow> if errors_Is e errShieldStandDown then Inr False else Inl e) }"

definition markRunning :: "('r, 'd, 'w) Manager \<Rightarrow> 'w ctx \<Rightarrow> Agent \<Rightarrow> ('d, 'w, store_error + Agent) flow" where
  "markRunning M ctx a = flow_stamp M ctx a ''the running status'' (\<lambda>ag. ag\<lparr>ag_Status := StatusRunning, ag_ErrorMessage := []\<rparr>)"

definition rebuild_error_note :: string where
  "rebuild_error_note = ''could not bring this agent's container up (its workspace, Claude-config and DinD-cache volumes are intact -- fix the cause and retry via Update (or Delete)): ''"

definition markRebuildError :: "('r, 'd, 'w) Manager \<Rightarrow> string \<Rightarrow> store_error \<Rightarrow> ('d, 'w, unit) flow" where
  "markRebuildError M i cause = do {
     _ \<leftarrow> store_Update M without_cancel i (\<lambda>ag. Inr (ag\<lparr>ag_Status := StatusError,
            ag_ErrorMessage := rebuild_error_note @ error_text cause, ag_ContainerID := []\<rparr>));
     ret () }"

definition withDerivedNames :: "Agent \<Rightarrow> Agent" where
  "withDerivedNames a =
     (if ag_ID a = [] then a
      else a\<lparr>ag_ContainerName := (if ag_ContainerName a = [] then agentContainerName (ag_ID a) else ag_ContainerName a),
            ag_DindContainerName := (if ag_DindContainerName a = [] then dindContainerName (ag_ID a) else ag_DindContainerName a),
            ag_DinernetName := (if ag_DinernetName a = [] then dinernetName (ag_ID a) else ag_DinernetName a),
            ag_WorkspaceVolume := (if ag_WorkspaceVolume a = [] then workspaceVolumeName (ag_ID a) else ag_WorkspaceVolume a),
            ag_ClaudeConfigVolume := (if ag_ClaudeConfigVolume a = [] then claudeConfigVolumeName (ag_ID a) else ag_ClaudeConfigVolume a),
            ag_DindCacheVolume := (if ag_DindCacheVolume a = [] then dindCacheVolumeName (ag_ID a) else ag_DindCacheVolume a)\<rparr>)"

subsection \<open>Archiving a transcript\<close>

fun extract_entries :: "'w files \<Rightarrow> string \<Rightarrow> (string \<times> bool \<times> string) list \<Rightarrow> ('d, 'w, store_error list) flow" where
  "extract_entries F destRoot [] = ret []"
| "extract_entries F destRoot ((name, regular, content) # entries) =
     (let rel = Clean name; dest = path_Join [destRoot, rel]
      in if \<not> regular \<or> rel = ''.'' \<or> rel = ''..'' \<or> HasPrefix rel ''../'' then extract_entries F destRoot entries
         else do {
           r \<leftarrow> outside (fi_Mkdir F (path_Dir dest));
           case r of
             Inl e \<Rightarrow> do { errs \<leftarrow> extract_entries F destRoot entries; ret (e # errs) }
           | Inr _ \<Rightarrow> do {
               r \<leftarrow> outside (fi_Save F dest content (512 * 2 ^ 20));
               errs \<leftarrow> extract_entries F destRoot entries;
               ret ((case r of Inl e \<Rightarrow> [e] | Inr _ \<Rightarrow> []) @ errs) } })"

definition extractTranscriptDir :: "('r, 'd, 'w) Manager \<Rightarrow> 'w files \<Rightarrow> string \<Rightarrow> string \<Rightarrow> ('d, 'w, store_error + unit) flow" where
  "extractTranscriptDir M F archive destRoot =
     (case mg_tar M archive of
        (entries, broken) \<Rightarrow> do {
          errs \<leftarrow> extract_entries F destRoot entries;
          ret (joined (errs @ (case broken of None \<Rightarrow> [] | Some e \<Rightarrow> [e]))) })"

definition extractTranscriptFile :: "('r, 'd, 'w) Manager \<Rightarrow> 'w files \<Rightarrow> string \<Rightarrow> string \<Rightarrow> ('d, 'w, store_error + unit) flow" where
  "extractTranscriptFile M F archive dest =
     (case mg_tar M archive of
        ([], None) \<Rightarrow> ret (Inr ())
      | ([], Some e) \<Rightarrow> ret (Inl e)
      | ((name, regular, content) # _, _) \<Rightarrow>
          if \<not> regular then ret (Inr ()) else outside (fi_Save F dest content (512 * 2 ^ 20)))"

text \<open>\<open>mg_metadata\<close> renders the metadata of an agent deleted at the given time as JSON.\<close>

definition saveTranscriptMetadata :: "('r, 'd, 'w) Manager \<Rightarrow> 'w files \<Rightarrow> string \<Rightarrow> Agent \<Rightarrow> time \<Rightarrow> ('d, 'w, store_error + unit) flow" where
  "saveTranscriptMetadata M F dest a deletedAt =
     (case mg_metadata M a deletedAt of
        Inl e \<Rightarrow> ret (Inl e)
      | Inr b \<Rightarrow> outside (fi_Save F (path_Join [dest, ''metadata.json'']) b (int (length b))))"

definition archiveTranscript :: "('r, 'd, 'w) Manager \<Rightarrow> 'w ctx \<Rightarrow> Agent \<Rightarrow> ('d, 'w, unit) flow" where
  "archiveTranscript M ctx a =
     (case mg_files M of
        None \<Rightarrow> ret ()
      | Some F \<Rightarrow>
          let ref = firstNonEmpty [ag_ContainerID a, ag_ContainerName a]; dest = path_Join [''transcripts'', ag_ID a]
          in if ag_ID a = [] \<or> ref = [] then ret ()
             else do {
               r \<leftarrow> outside (fi_Mkdir F dest);
               case r of
                 Inl e \<Rightarrow> ret ()
               | Inr _ \<Rightarrow> do {
                   now \<leftarrow> outside (ck_Now (mg_clock M));
                   _ \<leftarrow> saveTranscriptMetadata M F dest a now;
                   copyDeadline \<leftarrow> outside (ck_Now (mg_clock M));
                   r \<leftarrow> outside (dk_CopyFromContainer (mg_docker M) (with_timeout M (copyDeadline + 30 * Second) ctx) ref
                          (if HarnessOf a = HarnessOpenCode then ''/workspace/.agent-output.log'' else configMount @ ''/projects''));
                   case r of
                     Inl e \<Rightarrow> ret ()
                   | Inr archive \<Rightarrow> do {
                       _ \<leftarrow> (if HarnessOf a = HarnessOpenCode then extractTranscriptFile M F archive (path_Join [dest, ''output.log''])
                             else extractTranscriptDir M F archive dest);
                       ret () } } })"

subsection \<open>Tearing down\<close>

definition remove_container :: "('r, 'd, 'w) Manager \<Rightarrow> 'w ctx \<Rightarrow> string \<Rightarrow> string \<Rightarrow> ('d, 'w, store_error list) flow" where
  "remove_container M ctx what ref =
     (if ref = [] then ret []
      else do {
        r1 \<leftarrow> outside (dk_ContainerStop (mg_docker M) ctx ref (op_StopTimeout (mg_opts M)));
        r2 \<leftarrow> outside (dk_ContainerRemove (mg_docker M) ctx ref);
        ret (wrapped (''stopping the '' @ what) r1 @ wrapped (''removing the '' @ what) r2) })"

definition remove_network :: "('r, 'd, 'w) Manager \<Rightarrow> 'w ctx \<Rightarrow> string \<Rightarrow> ('d, 'w, store_error list) flow" where
  "remove_network M ctx name =
     (if name = [] then ret []
      else do {
        r1 \<leftarrow> outside (dk_NetworkDisconnect (mg_docker M) ctx name (cf_DependaproxyContainer (mg_cfg M)));
        r2 \<leftarrow> outside (dk_NetworkRemove (mg_docker M) ctx name);
        ret (wrapped ''disconnecting the shared dependaproxy container'' r1 @ wrapped ''removing network'' r2) })"

primrec remove_volumes :: "('r, 'd, 'w) Manager \<Rightarrow> 'w ctx \<Rightarrow> string list \<Rightarrow> ('d, 'w, store_error list) flow" where
  "remove_volumes M ctx [] = ret []"
| "remove_volumes M ctx (v # vs) =
     (if v = [] then remove_volumes M ctx vs
      else do {
        r \<leftarrow> outside (dk_VolumeRemove (mg_docker M) ctx v);
        errs \<leftarrow> remove_volumes M ctx vs;
        ret (wrapped ''removing volume'' r @ errs) })"

definition teardown :: "('r, 'd, 'w) Manager \<Rightarrow> 'w ctx \<Rightarrow> Agent \<Rightarrow> ('d, 'w, store_error + unit) flow" where
  "teardown M ctx a0 =
     (let a = withDerivedNames a0
      in do {
        _ \<leftarrow> archiveTranscript M ctx a;
        e1 \<leftarrow> remove_container M ctx ''agent container'' (firstNonEmpty [ag_ContainerID a, ag_ContainerName a]);
        e2 \<leftarrow> remove_container M ctx ''dind sidecar'' (firstNonEmpty [ag_DindContainerID a, ag_DindContainerName a]);
        e3 \<leftarrow> remove_network M ctx (ag_DinernetName a);
        e4 \<leftarrow> remove_volumes M ctx [ag_WorkspaceVolume a, ag_ClaudeConfigVolume a, ag_DindCacheVolume a];
        ret (joined (e1 @ e2 @ e3 @ e4)) })"

definition removeAgentContainer :: "('r, 'd, 'w) Manager \<Rightarrow> 'w ctx \<Rightarrow> Agent \<Rightarrow> ('d, 'w, store_error + unit) flow" where
  "removeAgentContainer M ctx a = do {
     errs \<leftarrow> remove_container M ctx ''agent container'' (firstNonEmpty [ag_ContainerID a, ag_ContainerName a, agentContainerName (ag_ID a)]);
     ret (joined errs) }"

definition rollback :: "('r, 'd, 'w) Manager \<Rightarrow> Agent \<Rightarrow> ('d, 'w, unit) flow" where
  "rollback M a = do {
     t \<leftarrow> outside (ck_Now (mg_clock M));
     let tctx = with_timeout M (t + op_TeardownTimeout (mg_opts M)) without_cancel;
     _ \<leftarrow> teardown M tctx a;
     _ \<leftarrow> store_Delete M tctx (ag_ID a);
     ret () }"

subsection \<open>Building up\<close>

definition stampNames :: "('r, 'd, 'w) Manager \<Rightarrow> 'w ctx \<Rightarrow> Agent \<Rightarrow> ('d, 'w, store_error + Agent) flow" where
  "stampNames M ctx a =
     (let i = ag_ID a
      in flow_stamp M ctx a ''the resource names'' (\<lambda>ag. ag
           \<lparr>ag_ContainerName := agentContainerName i, ag_DindContainerName := dindContainerName i, ag_DinernetName := dinernetName i,
            ag_WorkspaceVolume := workspaceVolumeName i, ag_ClaudeConfigVolume := claudeConfigVolumeName i,
            ag_DindCacheVolume := dindCacheVolumeName i\<rparr>))"

definition ensureImage :: "('r, 'd, 'w) Manager \<Rightarrow> 'w ctx \<Rightarrow> string \<Rightarrow> ('d, 'w, store_error + unit) flow" where
  "ensureImage M ctx ref = do {
     r \<leftarrow> outside (dk_ImageInspect (mg_docker M) ctx ref);
     case r of
       Inr _ \<Rightarrow> ret (Inr ())
     | Inl e \<Rightarrow>
         if \<not> docker_IsNotFound e then ret (Inl (Wrap ''inspecting image'' e))
         else wrapping ''image is not on the docker daemon and pulling it failed'' (outside (dk_ImagePull (mg_docker M) ctx ref)) }"

definition ensureImages :: "('r, 'd, 'w) Manager \<Rightarrow> 'w ctx \<Rightarrow> Agent \<Rightarrow> ('d, 'w, store_error + unit) flow" where
  "ensureImages M ctx a = and_then (ensureImage M ctx dindImage) (\<lambda>_. ensureImage M ctx (agentImageRef M a))"

text \<open>A failure to learn or record the image's ID is only logged.\<close>

definition stampImageID :: "('r, 'd, 'w) Manager \<Rightarrow> 'w ctx \<Rightarrow> Agent \<Rightarrow> ('d, 'w, Agent) flow" where
  "stampImageID M ctx a = do {
     r \<leftarrow> outside (dk_ImageInspect (mg_docker M) ctx (agentImageRef M a));
     case r of
       Inl e \<Rightarrow> ret a
     | Inr img \<Rightarrow> do {
         r \<leftarrow> flow_stamp M ctx a ''the resolved agent image id'' (\<lambda>ag. ag\<lparr>ag_ImageID := im_ID img\<rparr>);
         ret (case r of Inl e \<Rightarrow> a | Inr a1 \<Rightarrow> a1) } }"

primrec create_volumes :: "('r, 'd, 'w) Manager \<Rightarrow> 'w ctx \<Rightarrow> string \<Rightarrow> (string \<times> string) list \<Rightarrow> ('d, 'w, store_error + unit) flow" where
  "create_volumes M ctx i [] = ret (Inr ())"
| "create_volumes M ctx i (v # vs) = do {
     r \<leftarrow> outside (dk_VolumeCreate (mg_docker M) ctx \<lparr>vs_Name = fst v, vs_Labels = labelsFor i (snd v)\<rparr>);
     case r of Inl e \<Rightarrow> ret (Inl (Wrap ''creating volume'' e)) | Inr _ \<Rightarrow> create_volumes M ctx i vs }"

definition createVolumes :: "('r, 'd, 'w) Manager \<Rightarrow> 'w ctx \<Rightarrow> Agent \<Rightarrow> ('d, 'w, store_error + unit) flow" where
  "createVolumes M ctx a = create_volumes M ctx (ag_ID a)
     [(ag_WorkspaceVolume a, ''workspace-volume''), (ag_ClaudeConfigVolume a, ''config-volume''), (ag_DindCacheVolume a, ''dind-cache-volume'')]"

definition ensureAgentFiles :: "('r, 'd, 'w) Manager \<Rightarrow> Agent \<Rightarrow> ('d, 'w, store_error + unit) flow" where
  "ensureAgentFiles M a =
     (case mg_files M of
        None \<Rightarrow> ret (Inr ())
      | Some F \<Rightarrow>
          and_then (wrapping ''creating the file-store directory for agent'' (outside (fi_EnsureAgentDir F (ag_ID a))))
            (\<lambda>_. wrapping ''creating the shared file-store directory'' (outside (fi_EnsureSharedDir F))))"

definition createDinernet :: "('r, 'd, 'w) Manager \<Rightarrow> 'w ctx \<Rightarrow> Agent \<Rightarrow> ('d, 'w, store_error + Agent) flow" where
  "createDinernet M ctx a =
     and_then (wrapping ''creating network'' (outside (dk_NetworkCreate (mg_docker M) ctx
                 \<lparr>ns_Name = ag_DinernetName a, ns_Labels = labelsFor (ag_ID a) ''dinernet''\<rparr>)))
       (\<lambda>n. flow_stamp M ctx a ''the dinernet id'' (\<lambda>ag. ag\<lparr>ag_DinernetID := net_ID n\<rparr>))"

text \<open>\<^verbatim>\<open>dindExitedError\<close> is recognised by \<^verbatim>\<open>errors.As\<close>, that is, by its place in the chain.\<close>

definition dindExited :: store_error where "dindExited = Sentinel ''dindExitedError''"

definition health_check :: "('r, 'd, 'w) Manager \<Rightarrow> 'w ctx \<Rightarrow> string \<Rightarrow> time \<Rightarrow> ('d, 'w, (store_error + unit) option) flow" where
  "health_check M ctx i deadline = do {
     r \<leftarrow> outside (dk_ContainerInspect (mg_docker M) ctx i);
     case r of
       Inl e \<Rightarrow> ret (Some (Inl (Wrap ''inspecting the dind sidecar'' e)))
     | Inr c \<Rightarrow>
         if ctr_Health c = HealthHealthy then ret (Some (Inr ()))
         else if ctr_State c = StateExited \<or> ctr_State c = StateDead
         then ret (Some (Inl (Wrap ''the dind sidecar exited before becoming healthy'' dindExited)))
         else retry_until M ctx deadline (Inl (Plain ''the dind sidecar did not become healthy in time'')) Inl }"

definition waitHealthy :: "('r, 'd, 'w) Manager \<Rightarrow> 'w ctx \<Rightarrow> string \<Rightarrow> ('d, 'w, store_error + unit) flow" where
  "waitHealthy M ctx i = do {
     t \<leftarrow> outside (ck_Now (mg_clock M));
     r \<leftarrow> poll (poll_fuel (op_DindHealthTimeout (mg_opts M)) (op_PollInterval (mg_opts M)))
           (health_check M ctx i (t + op_DindHealthTimeout (mg_opts M)));
     ret (polled r) }"

definition startDind :: "('r, 'd, 'w) Manager \<Rightarrow> 'w ctx \<Rightarrow> Agent \<Rightarrow> ('d, 'w, Agent \<times> (store_error + unit)) flow" where
  "startDind M ctx a = do {
     r \<leftarrow> wrapping ''creating the dind sidecar'' (outside (dk_ContainerCreate (mg_docker M) ctx (dindSpec M a)));
     case r of
       Inl e \<Rightarrow> ret (a, Inl e)
     | Inr i \<Rightarrow>
         next_step (updating a (flow_stamp M ctx a ''the dind container id'' (\<lambda>ag. ag\<lparr>ag_DindContainerID := i\<rparr>))) (\<lambda>a.
         next_step (keeping a (wrapping ''starting the dind sidecar'' (outside (dk_ContainerStart (mg_docker M) ctx i)))) (\<lambda>a.
         keeping a (waitHealthy M ctx i))) }"

definition recreateDind :: "('r, 'd, 'w) Manager \<Rightarrow> 'w ctx \<Rightarrow> Agent \<Rightarrow> ('d, 'w, Agent \<times> (store_error + unit)) flow" where
  "recreateDind M ctx a = do {
     errs \<leftarrow> remove_container M ctx ''unhealthy dind sidecar''
              (firstNonEmpty [ag_DindContainerID a, ag_DindContainerName a, dindContainerName (ag_ID a)]);
     case joined errs of Inl e \<Rightarrow> ret (a, Inl e) | Inr _ \<Rightarrow> startDind M ctx a }"

definition connectDependaproxy :: "('r, 'd, 'w) Manager \<Rightarrow> 'w ctx \<Rightarrow> Agent \<Rightarrow> ('d, 'w, store_error + Agent) flow" where
  "connectDependaproxy M ctx a =
     and_then (wrapping ''connecting the shared dependaproxy container''
                 (outside (dk_NetworkConnect (mg_docker M) ctx (ag_DinernetName a) (cf_DependaproxyContainer (mg_cfg M)))))
       (\<lambda>addr. flow_stamp M ctx a ''the dependaproxy dinernet address'' (\<lambda>ag. ag\<lparr>ag_DependaproxyDinernetIP := addr\<rparr>))"

subsection \<open>Commands inside a container\<close>

definition exec_check :: "('r, 'd, 'w) Manager \<Rightarrow> 'w ctx \<Rightarrow> string \<Rightarrow> time \<Rightarrow> ('d, 'w, (store_error + ExecStatus) option) flow" where
  "exec_check M ctx x deadline = do {
     r \<leftarrow> outside (dk_ExecInspect (mg_docker M) ctx x);
     case r of
       Inl e \<Rightarrow> ret (Some (Inl (Wrap ''inspecting exec'' e)))
     | Inr st \<Rightarrow>
         if \<not> es_Running st then ret (Some (Inr st))
         else retry_until M ctx deadline (Inl (Plain ''exec did not finish in time'')) Inl }"

definition awaitExec :: "('r, 'd, 'w) Manager \<Rightarrow> 'w ctx \<Rightarrow> string \<Rightarrow> ('d, 'w, store_error + ExecStatus) flow" where
  "awaitExec M ctx x = do {
     t \<leftarrow> outside (ck_Now (mg_clock M));
     r \<leftarrow> poll (poll_fuel (op_ExecTimeout (mg_opts M)) (op_PollInterval (mg_opts M)))
           (exec_check M ctx x (t + op_ExecTimeout (mg_opts M)));
     ret (polled r) }"

definition exec_spec :: "string list \<Rightarrow> ExecSpec" where
  "exec_spec cmd = \<lparr>ex_Cmd = cmd, ex_Env = [], ex_User = [], ex_WorkingDir = [], ex_TTY = False, ex_Stdin = False\<rparr>"

definition runExec :: "('r, 'd, 'w) Manager \<Rightarrow> 'w ctx \<Rightarrow> string \<Rightarrow> string list \<Rightarrow> ('d, 'w, store_error + int \<times> string) flow" where
  "runExec M ctx containerID cmd =
     and_then (wrapping ''preparing the command'' (outside (dk_ExecCreate (mg_docker M) ctx containerID (exec_spec cmd)))) (\<lambda>x.
     and_then (wrapping ''attaching to the command'' (outside (dk_ExecAttach (mg_docker M) ctx x))) (\<lambda>stream.
     and_then (wrapping ''reading the output of the command'' (outside (dk_ExecRead (mg_docker M) ctx stream))) (\<lambda>raw.
     and_then (awaitExec M ctx x) (\<lambda>status. ret (Inr (es_ExitCode status, mg_demux M raw))))))"

definition tmux_check :: "('r, 'd, 'w) Manager \<Rightarrow> 'w ctx \<Rightarrow> Agent \<Rightarrow> time \<Rightarrow> ('d, 'w, (store_error + unit) option) flow" where
  "tmux_check M ctx a deadline = do {
     r \<leftarrow> runExec M ctx (ag_ContainerID a) [''tmux'', ''has-session'', ''-t'', ''main''];
     case r of
       Inr (code, out) \<Rightarrow>
         if code = 0 then ret (Some (Inr ()))
         else retry_until M ctx deadline (Inl (Plain (''the tmux session did not appear in time: exit code '' @ decimal_int code @ '': '' @ TrimSpace out))) Inl
     | Inl e \<Rightarrow> retry_until M ctx deadline (Inl (Plain (''the tmux session did not appear in time: '' @ error_text e))) Inl }"

definition waitTmuxSession :: "('r, 'd, 'w) Manager \<Rightarrow> 'w ctx \<Rightarrow> Agent \<Rightarrow> ('d, 'w, store_error + unit) flow" where
  "waitTmuxSession M ctx a = do {
     t \<leftarrow> outside (ck_Now (mg_clock M));
     r \<leftarrow> poll (poll_fuel (op_TmuxReadyTimeout (mg_opts M)) (op_PollInterval (mg_opts M)))
           (tmux_check M ctx a (t + op_TmuxReadyTimeout (mg_opts M)));
     ret (polled r) }"

definition reach_check :: "('r, 'd, 'w) Manager \<Rightarrow> 'w ctx \<Rightarrow> string \<Rightarrow> string list \<Rightarrow> time \<Rightarrow> ('d, 'w, (store_error + unit) option) flow" where
  "reach_check M ctx ref cmd deadline = do {
     r \<leftarrow> runExec M ctx ref cmd;
     case r of
       Inr (code, out) \<Rightarrow> if code = 0 then ret (Some (Inr ())) else retry_until M ctx deadline (Inr ()) (\<lambda>_. Inr ())
     | Inl e \<Rightarrow> retry_until M ctx deadline (Inr ()) (\<lambda>_. Inr ()) }"

definition verifyDependaproxyReachable :: "('r, 'd, 'w) Manager \<Rightarrow> 'w ctx \<Rightarrow> Agent \<Rightarrow> ('d, 'w, unit) flow" where
  "verifyDependaproxyReachable M ctx a =
     (if ag_DependaproxyDinernetIP a = [] then ret ()
      else let port = (case mg_urls M (cf_DependaproxyURL (mg_cfg M)) of
                         Inr u \<Rightarrow> if u_Port u \<noteq> [] then u_Port u else ''8080''
                       | Inl _ \<Rightarrow> ''8080'');
               ref = firstNonEmpty [ag_DindContainerID a, ag_DindContainerName a, dindContainerName (ag_ID a)]
           in do {
             t \<leftarrow> outside (ck_Now (mg_clock M));
             _ \<leftarrow> poll (poll_fuel (op_DependaproxyReachableTimeout (mg_opts M)) (op_PollInterval (mg_opts M)))
                   (reach_check M ctx ref [''nc'', ''-z'', ''-w2'', ''-n'', ag_DependaproxyDinernetIP a, port]
                      (t + op_DependaproxyReachableTimeout (mg_opts M)));
             ret () })"

definition refreshDependaproxyIPFile :: "('r, 'd, 'w) Manager \<Rightarrow> 'w ctx \<Rightarrow> Agent \<Rightarrow> ('d, 'w, unit) flow" where
  "refreshDependaproxyIPFile M ctx a =
     (if ag_DependaproxyDinernetIP a = [] then ret ()
      else do {
        _ \<leftarrow> runExec M ctx (firstNonEmpty [ag_ContainerID a, ag_ContainerName a, agentContainerName (ag_ID a)])
              [''sh'', ''-c'', ''printf '' @ [CHR 0x27] @ ''%s'' @ [CHR 0x5C] @ ''n'' @ [CHR 0x27] @ '' '' @ [CHR 0x22] @ ''$0'' @ [CHR 0x22] @ '' > '' @
                 dependaproxyIPPath @ ''.tmp && mv '' @ dependaproxyIPPath @ ''.tmp '' @ dependaproxyIPPath, ag_DependaproxyDinernetIP a];
        ret () })"

subsection \<open>The shared proxy's address\<close>

definition stampDependaproxyIP :: "('r, 'd, 'w) Manager \<Rightarrow> 'w ctx \<Rightarrow> Agent \<Rightarrow> string \<Rightarrow> ('d, 'w, bool \<times> Agent) flow" where
  "stampDependaproxyIP M ctx a addr =
     (if addr = ag_DependaproxyDinernetIP a then ret (False, a)
      else do {
        r \<leftarrow> flow_stamp M ctx a ''the dependaproxy dinernet address'' (\<lambda>ag. ag\<lparr>ag_DependaproxyDinernetIP := addr\<rparr>);
        ret (case r of Inl e \<Rightarrow> (False, a) | Inr a1 \<Rightarrow> (True, a1)) })"

definition syncDependaproxyDinernetIP :: "('r, 'd, 'w) Manager \<Rightarrow> 'w ctx \<Rightarrow> Agent \<Rightarrow> ('d, 'w, bool \<times> Agent) flow" where
  "syncDependaproxyDinernetIP M ctx a =
     (if ag_DinernetName a = [] then ret (False, a)
      else do {
        r \<leftarrow> outside (dk_ContainerInspect (mg_docker M) ctx (cf_DependaproxyContainer (mg_cfg M)));
        case r of
          Inl e \<Rightarrow> ret (False, a)
        | Inr c \<Rightarrow>
            (case map_of (ctr_Networks c) (ag_DinernetName a) of
               Some cur \<Rightarrow>
                 if cur \<noteq> [] \<and> cur = ag_DependaproxyDinernetIP a then ret (False, a)
                 else if cur \<noteq> [] then stampDependaproxyIP M ctx a cur
                 else ret (False, a)
             | None \<Rightarrow>
                 if ctr_State c \<noteq> StateRunning then ret (False, a)
                 else do {
                   r \<leftarrow> outside (dk_NetworkConnect (mg_docker M) ctx (ag_DinernetName a) (cf_DependaproxyContainer (mg_cfg M)));
                   case r of Inl e \<Rightarrow> ret (False, a) | Inr addr \<Rightarrow> stampDependaproxyIP M ctx a addr }) })"

subsection \<open>The two containers\<close>

definition startAgentContainer :: "('r, 'd, 'w) Manager \<Rightarrow> 'w ctx \<Rightarrow> Agent \<Rightarrow> resolvedBackend \<Rightarrow> string list \<Rightarrow>
    ('d, 'w, Agent \<times> (store_error + unit)) flow" where
  "startAgentContainer M ctx a rb harnessArgs =
     (case agentSpec M a rb harnessArgs of
        Inl e \<Rightarrow> ret (a, Inl (Wrap ''building the agent container spec'' e))
      | Inr spec \<Rightarrow> do {
          r \<leftarrow> wrapping ''creating the agent container'' (outside (dk_ContainerCreate (mg_docker M) ctx spec));
          case r of
            Inl e \<Rightarrow> ret (a, Inl e)
          | Inr i \<Rightarrow>
              next_step (updating a (flow_stamp M ctx a ''the agent container id'' (\<lambda>ag. ag\<lparr>ag_ContainerID := i\<rparr>))) (\<lambda>a.
              keeping a (wrapping ''starting the agent container'' (outside (dk_ContainerStart (mg_docker M) ctx i)))) })"

text \<open>The loop of \<^verbatim>\<open>ensureDindRunning\<close>: \<open>n\<close> retries are left.\<close>

primrec wake_dind :: "('r, 'd, 'w) Manager \<Rightarrow> 'w ctx \<Rightarrow> Agent \<Rightarrow> string \<Rightarrow> nat \<Rightarrow> ('d, 'w, store_error + bool) flow" where
  "wake_dind M ctx a ref 0 = do {
     r \<leftarrow> outside (dk_ContainerStart (mg_docker M) ctx ref);
     case r of
       Inl e \<Rightarrow> ret (Inl (Wrap ''starting the dind sidecar'' e))
     | Inr _ \<Rightarrow> do {
         r \<leftarrow> waitHealthy M ctx ref;
         case r of
           Inr _ \<Rightarrow> do { _ \<leftarrow> verifyDependaproxyReachable M ctx a; ret (Inr True) }
         | Inl e \<Rightarrow> do {
             (a1, r) \<leftarrow> recreateDind M ctx a;
             case r of
               Inl e1 \<Rightarrow> ret (Inl (Wrap (''recreate also failed: '' @ error_text e1) e))
             | Inr _ \<Rightarrow> do { _ \<leftarrow> verifyDependaproxyReachable M ctx a1; ret (Inr True) } } } }"
| "wake_dind M ctx a ref (Suc n) = do {
     r \<leftarrow> outside (dk_ContainerStart (mg_docker M) ctx ref);
     case r of
       Inl e \<Rightarrow> ret (Inl (Wrap ''starting the dind sidecar'' e))
     | Inr _ \<Rightarrow> do {
         r \<leftarrow> waitHealthy M ctx ref;
         case r of
           Inr _ \<Rightarrow> do { _ \<leftarrow> verifyDependaproxyReachable M ctx a; ret (Inr True) }
         | Inl e \<Rightarrow>
             if errors_Is e dindExited then do {
               s \<leftarrow> outside (ck_Sleep (mg_clock M) ctx (op_DindWakeRetryDelay (mg_opts M)));
               case s of Some e1 \<Rightarrow> ret (Inl e1) | None \<Rightarrow> wake_dind M ctx a ref n }
             else do {
               (a1, r) \<leftarrow> recreateDind M ctx a;
               case r of
                 Inl e1 \<Rightarrow> ret (Inl (Wrap (''recreate also failed: '' @ error_text e1) e))
               | Inr _ \<Rightarrow> do { _ \<leftarrow> verifyDependaproxyReachable M ctx a1; ret (Inr True) } } } }"

definition ensureDindRunning :: "('r, 'd, 'w) Manager \<Rightarrow> 'w ctx \<Rightarrow> Agent \<Rightarrow> ('d, 'w, store_error + bool) flow" where
  "ensureDindRunning M ctx a =
     (let ref = firstNonEmpty [ag_DindContainerID a, ag_DindContainerName a, dindContainerName (ag_ID a)]
      in do {
        r \<leftarrow> outside (dk_ContainerInspect (mg_docker M) ctx ref);
        case r of
          Inl e \<Rightarrow>
            if docker_IsNotFound e then ret (Inl (Plain ''the dind sidecar no longer exists; recreate this agent''))
            else ret (Inl (Wrap ''inspecting the dind sidecar'' e))
        | Inr c \<Rightarrow>
            if ctr_State c = StateRunning \<and> ctr_Health c = HealthUnhealthy then do {
              (a1, r) \<leftarrow> recreateDind M ctx a;
              case r of
                Inl e \<Rightarrow> ret (Inl (Wrap ''recreating the unhealthy dind sidecar'' e))
              | Inr _ \<Rightarrow> do { _ \<leftarrow> verifyDependaproxyReachable M ctx a1; ret (Inr True) } }
            else if ctr_State c = StateRunning then ret (Inr False)
            else wake_dind M ctx a ref (nat (op_DindWakeRetries (mg_opts M))) })"

definition rebuildAgentContainer :: "('r, 'd, 'w) Manager \<Rightarrow> 'w ctx \<Rightarrow> Agent \<Rightarrow> resolvedBackend \<Rightarrow> ('d, 'w, store_error + Agent) flow" where
  "rebuildAgentContainer M ctx a rb = do {
     r \<leftarrow> removeAgentContainer M ctx a;
     case r of
       Inl e \<Rightarrow> do { let e = Wrap ''removing the old agent container'' e; _ \<leftarrow> markRebuildError M (ag_ID a) e; ret (Inl e) }
     | Inr _ \<Rightarrow> do {
         (a1, r) \<leftarrow> startAgentContainer M ctx a rb (firstInvocationArgs a sessionResume);
         case r of
           Inl e \<Rightarrow> do { let e = Wrap ''starting the agent container'' e; _ \<leftarrow> markRebuildError M (ag_ID a1) e; ret (Inl e) }
         | Inr _ \<Rightarrow> do {
             r \<leftarrow> waitTmuxSession M ctx a1;
             case r of
               Inl e \<Rightarrow> do { _ \<leftarrow> markRebuildError M (ag_ID a1) e; ret (Inl e) }
             | Inr _ \<Rightarrow> do {
                 r \<leftarrow> markRunning M ctx a1;
                 case r of
                   Inl e \<Rightarrow> do { let e = Wrap ''marking the agent running after the rebuild'' e; _ \<leftarrow> markRebuildError M (ag_ID a1) e; ret (Inl e) }
                 | Inr a2 \<Rightarrow> ret (Inr a2) } } } }"

end
