(* ===== verification/Agent_Images.thy ===== *)
theory Agent_Images
  imports Agent_Steps
begin

section \<open>Agent images on the daemon\<close>

text \<open>
  The flows of \<^verbatim>\<open>src/docker-operator/internal/agent/agentimage.go\<close>: what the daemon holds, which reference a new agent runs, the
  refresh of the published tags, and the two ways of removing an image. A Go set is the list of
  its members.
\<close>

definition ErrInvalidImageTag :: store_error where "ErrInvalidImageTag = Sentinel ''invalid agent image tag''"
definition ErrImageTagInUse :: store_error where "ErrImageTagInUse = Sentinel ''agent image tag is in use''"
definition ErrImageTagMissing :: store_error where "ErrImageTagMissing = Sentinel ''agent image tag is not present on the daemon''"

subsection \<open>What there is\<close>

definition store_GetAgentImageTags :: "('r, 'd, 'w) Manager \<Rightarrow> 'w ctx \<Rightarrow> string \<Rightarrow> ('d, 'w, store_error + AgentImageTags option) flow" where
  "store_GetAgentImageTags M ctx harness = do {
     e \<leftarrow> outside ctx;
     on_store (\<lambda>d. (GetAgentImageTags (mg_bolt M) (mg_tags M) e harness d, d)) }"

definition store_SetAgentImageTags :: "('r, 'd, 'w) Manager \<Rightarrow> 'w ctx \<Rightarrow> string \<Rightarrow> AgentImageTags \<Rightarrow> ('d, 'w, store_error + unit) flow" where
  "store_SetAgentImageTags M ctx harness tags = do {
     e \<leftarrow> outside ctx;
     on_store (SetAgentImageTags (mg_bolt M) (mg_tags M) e harness tags) }"

definition image_repo :: "('r, 'd, 'w) Manager \<Rightarrow> string \<Rightarrow> string" where
  "image_repo M harness = RepoWithoutTag (mg_refs M) (AgentImageFor (mg_cfg M) harness)"

definition repo_tags :: "Image list \<Rightarrow> string list" where
  "repo_tags imgs = concat (map im_RepoTags imgs)"

definition localImageTags :: "('r, 'd, 'w) Manager \<Rightarrow> 'w ctx \<Rightarrow> string \<Rightarrow> ('d, 'w, string list) flow" where
  "localImageTags M ctx harness =
     (let repo = image_repo M (NormalizeHarness harness)
      in do {
        r \<leftarrow> outside (dk_ImageList (mg_docker M) ctx repo);
        ret (case r of
               Inl e \<Rightarrow> []
             | Inr imgs \<Rightarrow> keep_new (\<lambda>t. t \<noteq> []) []
                 (map (ImageTagOf (mg_refs M)) (filter (\<lambda>ref. RepoWithoutTag (mg_refs M) ref = repo) (repo_tags imgs)))) })"

definition flow_AgentImageTags :: "('r, 'd, 'w) Manager \<Rightarrow> 'w ctx \<Rightarrow> string \<Rightarrow> ('d, 'w, store_error + AgentImageTags option) flow" where
  "flow_AgentImageTags M ctx harness = store_GetAgentImageTags M ctx (NormalizeHarness harness)"

definition defaultImageTagFor :: "('r, 'd, 'w) Manager \<Rightarrow> 'w ctx \<Rightarrow> string \<Rightarrow> ('d, 'w, string) flow" where
  "defaultImageTagFor M ctx harness = do {
     r \<leftarrow> flow_AgentImageTags M ctx harness;
     let published = (case r of Inr (Some snap) \<Rightarrow> ait_Tags snap | _ \<Rightarrow> []);
     here \<leftarrow> localImageTags M ctx harness;
     ret (defaultImageTagFrom here published) }"

definition defaultAgentImageRef :: "('r, 'd, 'w) Manager \<Rightarrow> 'w ctx \<Rightarrow> string \<Rightarrow> ('d, 'w, string) flow" where
  "defaultAgentImageRef M ctx harness = do {
     tag \<leftarrow> defaultImageTagFor M ctx harness;
     ret (image_repo M harness @ '':'' @ tag) }"

definition resolveAgentImageRef :: "('r, 'd, 'w) Manager \<Rightarrow> 'w ctx \<Rightarrow> string \<Rightarrow> string \<Rightarrow> ('d, 'w, store_error + string) flow" where
  "resolveAgentImageRef M ctx tag harness =
     (if tag = [] then do { ref \<leftarrow> defaultAgentImageRef M ctx harness; ret (Inr ref) }
      else if \<not> image_tag_ok tag then ret (Inl ErrInvalidImageTag)
      else ret (Inr (image_repo M harness @ '':'' @ tag)))"

text \<open>The previous snapshot that cannot be read counts as empty.\<close>

definition RefreshAgentImageTags :: "('r, 'd, 'w) Manager \<Rightarrow> 'w ctx \<Rightarrow> string \<Rightarrow> ('d, 'w, store_error + unit) flow" where
  "RefreshAgentImageTags M ctx harness =
     (let h = NormalizeHarness harness
      in do {
        r \<leftarrow> store_GetAgentImageTags M ctx h;
        let prev = (case r of Inr (Some snap) \<Rightarrow> ait_Tags snap | _ \<Rightarrow> []);
        now \<leftarrow> outside (ck_Now (mg_clock M));
        case mg_registries M h of
          None \<Rightarrow> store_SetAgentImageTags M ctx h
            \<lparr>ait_Tags = prev, ait_CheckedAt = now, ait_LastError = ''registry client not configured''\<rparr>
        | Some ListTags \<Rightarrow> do {
            r \<leftarrow> outside (ListTags ctx);
            case r of
              Inl e \<Rightarrow> do {
                _ \<leftarrow> store_SetAgentImageTags M ctx h \<lparr>ait_Tags = prev, ait_CheckedAt = now, ait_LastError = error_text e\<rparr>;
                ret (Inl (Wrap ''refreshing agent image tags'' e)) }
            | Inr raw \<Rightarrow> store_SetAgentImageTags M ctx h
                \<lparr>ait_Tags = SortTagsNewestFirst (FilterDateTimeTags raw), ait_CheckedAt = now, ait_LastError = []\<rparr> } })"

record ImageInventory =
  ii_Harness :: string
  ii_Repo :: string
  ii_RegistryTags :: "string list"
  ii_LocalTags :: "string list"
  ii_DefaultTag :: string
  ii_Options :: "ImageTagOption list"
  ii_CheckedAt :: time
  ii_LastError :: string

text \<open>The zero snapshot stands for none.\<close>

definition AgentImageInventory :: "('r, 'd, 'w) Manager \<Rightarrow> 'w ctx \<Rightarrow> string \<Rightarrow> ('d, 'w, store_error + ImageInventory) flow" where
  "AgentImageInventory M ctx harness =
     (let h = NormalizeHarness harness
      in do {
        r \<leftarrow> flow_AgentImageTags M ctx h;
        case r of
          Inl e \<Rightarrow> ret (Inl (Wrap ''reading the agent image tag snapshot'' e))
        | Inr s \<Rightarrow> do {
            let snap = (case s of Some snap \<Rightarrow> snap | None \<Rightarrow> \<lparr>ait_Tags = [], ait_CheckedAt = zero_time, ait_LastError = []\<rparr>);
            here \<leftarrow> localImageTags M ctx h;
            let def = defaultImageTagFrom here (ait_Tags snap);
            ret (Inr \<lparr>ii_Harness = h, ii_Repo = image_repo M h, ii_RegistryTags = ait_Tags snap, ii_LocalTags = here,
                     ii_DefaultTag = def, ii_Options = OfferedImageTags (ait_Tags snap) here def,
                     ii_CheckedAt = ait_CheckedAt snap, ii_LastError = ait_LastError snap\<rparr>) } })"

subsection \<open>What is in use\<close>

record agentImageUsage =
  au_tags :: "string list"
  au_ids :: "string list"

text \<open>The usage of one harness: what \<^verbatim>\<open>agentImageUsage\<close> puts into its map under that key.\<close>

definition usage_of :: "('r, 'd, 'w) Manager \<Rightarrow> string \<Rightarrow> Agent list \<Rightarrow> agentImageUsage" where
  "usage_of M h agents =
     (let mine = filter (\<lambda>a. HarnessOf a = h) agents;
          here = filter (\<lambda>a. ag_Image a \<noteq> [] \<and> RepoWithoutTag (mg_refs M) (ag_Image a) = image_repo M h) mine
      in \<lparr>au_tags = filter (\<lambda>t. t \<noteq> []) (map (\<lambda>a. ImageTagOf (mg_refs M) (ag_Image a)) here),
          au_ids = filter (\<lambda>i. i \<noteq> []) (map ag_ImageID mine)\<rparr>)"

definition flow_agentImageUsage :: "('r, 'd, 'w) Manager \<Rightarrow> 'w ctx \<Rightarrow> ('d, 'w, store_error + (string \<Rightarrow> agentImageUsage)) flow" where
  "flow_agentImageUsage M ctx = do {
     r \<leftarrow> store_List M ctx;
     ret (case r of
            Inl e \<Rightarrow> Inl (Wrap ''reading the agent records to decide which image tags are in use'' e)
          | Inr agents \<Rightarrow> Inr (\<lambda>h. usage_of M h agents)) }"

primrec imageTagID :: "ref_parser \<Rightarrow> Image list \<Rightarrow> string \<Rightarrow> string" where
  "imageTagID parse [] tag = []"
| "imageTagID parse (img # imgs) tag =
     (if list_ex (\<lambda>rt. ImageTagOf parse rt = tag) (im_RepoTags img) then im_ID img else imageTagID parse imgs tag)"

text \<open>The image the last matching reference belongs to, if any.\<close>

definition last_with_tag :: "ref_parser \<Rightarrow> Image list \<Rightarrow> string \<Rightarrow> Image option" where
  "last_with_tag parse imgs tag =
     (case filter (\<lambda>img. list_ex (\<lambda>rt. ImageTagOf parse rt = tag) (im_RepoTags img)) imgs of
        [] \<Rightarrow> None
      | found \<Rightarrow> Some (last found))"

definition pinned_id :: "agentImageUsage \<Rightarrow> string \<Rightarrow> bool" where
  "pinned_id u i \<longleftrightarrow> i \<noteq> [] \<and> i \<in> set (au_ids u)"

subsection \<open>Removing images\<close>

definition DeleteAgentImageTag :: "('r, 'd, 'w) Manager \<Rightarrow> 'w ctx \<Rightarrow> string \<Rightarrow> string \<Rightarrow> ('d, 'w, store_error + unit) flow" where
  "DeleteAgentImageTag M ctx harness tag =
     (let h = NormalizeHarness harness; repo = image_repo M h
      in if \<not> image_tag_ok tag then ret (Inl ErrInvalidImageTag)
         else and_then (flow_agentImageUsage M ctx) (\<lambda>usage.
              and_then (wrapping ''listing the images'' (outside (dk_ImageList (mg_docker M) ctx repo))) (\<lambda>images.
                case last_with_tag (mg_refs M) images tag of
                  None \<Rightarrow> ret (Inl ErrImageTagMissing)
                | Some img \<Rightarrow>
                    if tag \<in> set (au_tags (usage h)) then ret (Inl (Wrap ''an agent record was created against it'' ErrImageTagInUse))
                    else if pinned_id (usage h) (im_ID img) then ret (Inl (Wrap ''the image is one an agent record runs'' ErrImageTagInUse))
                    else outside (dk_ImageRemove (mg_docker M) ctx (repo @ '':'' @ tag)))))"

record AgentImageCleanupReport =
  cr_Harness :: string
  cr_Removed :: "string list"
  cr_Failed :: "(string \<times> string) list"

definition protected_tag :: "ref_parser \<Rightarrow> agentImageUsage \<Rightarrow> Image list \<Rightarrow> string \<Rightarrow> string \<Rightarrow> bool" where
  "protected_tag parse u images newest tag \<longleftrightarrow>
     tag \<in> set (au_tags u) \<or> pinned_id u (imageTagID parse images tag) \<or> tag = newest"

primrec cleanup_tags :: "('r, 'd, 'w) Manager \<Rightarrow> 'w ctx \<Rightarrow> string \<Rightarrow> agentImageUsage \<Rightarrow> Image list \<Rightarrow> string \<Rightarrow> string list \<Rightarrow>
    AgentImageCleanupReport \<Rightarrow> ('d, 'w, AgentImageCleanupReport) flow" where
  "cleanup_tags M ctx repo u images newest [] report = ret report"
| "cleanup_tags M ctx repo u images newest (tag # tags) report =
     (if protected_tag (mg_refs M) u images newest tag then cleanup_tags M ctx repo u images newest tags report
      else do {
        r \<leftarrow> outside (dk_ImageRemove (mg_docker M) ctx (repo @ '':'' @ tag));
        cleanup_tags M ctx repo u images newest tags
          (case r of
             Inl e \<Rightarrow> report\<lparr>cr_Failed := AList.update tag (error_text e) (cr_Failed report)\<rparr>
           | Inr _ \<Rightarrow> report\<lparr>cr_Removed := cr_Removed report @ [tag]\<rparr>) })"

definition CleanupAgentImages :: "('r, 'd, 'w) Manager \<Rightarrow> 'w ctx \<Rightarrow> string \<Rightarrow> ('d, 'w, store_error + AgentImageCleanupReport) flow" where
  "CleanupAgentImages M ctx harness =
     (let h = NormalizeHarness harness; repo = image_repo M h
      in and_then (flow_agentImageUsage M ctx) (\<lambda>usage.
         and_then (wrapping ''listing the images'' (outside (dk_ImageList (mg_docker M) ctx repo))) (\<lambda>images. do {
           let localTags = sort (map (ImageTagOf (mg_refs M)) (repo_tags images));
           report \<leftarrow> cleanup_tags M ctx repo (usage h) images (NewestDateTimeTag localTags) localTags
                       \<lparr>cr_Harness = h, cr_Removed = [], cr_Failed = []\<rparr>;
           ret (Inr report) })))"

record AgentImagePullReport =
  pr_Harness :: string
  pr_Tag :: string
  pr_Error :: string

definition agentImagePullTimeout :: duration where "agentImagePullTimeout = 10 * Minute"

definition PullLatestAgentImage :: "('r, 'd, 'w) Manager \<Rightarrow> 'w ctx \<Rightarrow> string \<Rightarrow> ('d, 'w, AgentImagePullReport) flow" where
  "PullLatestAgentImage M ctx harness =
     (let h = NormalizeHarness harness; report = \<lparr>pr_Harness = h, pr_Tag = [], pr_Error = []\<rparr>
      in if mg_registries M h = None
         then ret (report\<lparr>pr_Error := ''no registry client is configured for this harness's agent image repository''\<rparr>)
         else do {
           _ \<leftarrow> RefreshAgentImageTags M ctx h;
           r \<leftarrow> flow_AgentImageTags M ctx h;
           case r of
             Inl e \<Rightarrow> ret (report\<lparr>pr_Error := ''reading the agent image tag snapshot failed: '' @ error_text e\<rparr>)
           | Inr s \<Rightarrow>
               let tag = NewestDateTimeTag (case s of Some snap \<Rightarrow> ait_Tags snap | None \<Rightarrow> [])
               in if tag = []
                  then ret (report\<lparr>pr_Error := ''no published date-time tag is known for this harness yet -- press Check now''\<rparr>)
                  else do {
                    t \<leftarrow> outside (ck_Now (mg_clock M));
                    let ref = image_repo M h @ '':'' @ tag;
                    r \<leftarrow> outside (dk_ImagePull (mg_docker M) (with_timeout M (t + agentImagePullTimeout) ctx) ref);
                    ret (case r of
                           Inl e \<Rightarrow> report\<lparr>pr_Error := ''pulling '' @ ref @ '' failed: '' @ error_text e\<rparr>
                         | Inr _ \<Rightarrow> report\<lparr>pr_Tag := tag\<rparr>) } })"

end
