(* ===== verification/Agent_Flows.thy ===== *)
theory Agent_Flows
  imports Agent_Images
begin

section \<open>The agent flows\<close>

text \<open>
  The operations of \<^verbatim>\<open>Manager\<close> in \<^verbatim>\<open>src/docker-operator/internal/agent\<close> that a request or the reconcile ticker starts: \<^verbatim>\<open>Create\<close>
  (\<^verbatim>\<open>create.go\<close>), \<^verbatim>\<open>Delete\<close> (\<^verbatim>\<open>delete.go\<close>), \<^verbatim>\<open>Update\<close> (\<^verbatim>\<open>update.go\<close>), \<^verbatim>\<open>ResumeAgent\<close> (\<^verbatim>\<open>stopresume.go\<close>), \<^verbatim>\<open>Reconcile\<close>
  with the wake-up of stopped containers (\<^verbatim>\<open>reconcile.go\<close>), and the record changes of \<^verbatim>\<open>query.go\<close>.
  They are whole: every call, guard and early return of the code, in its order.
\<close>

subsection \<open>Requests\<close>

definition ErrNoAnthropicAuth :: store_error where "ErrNoAnthropicAuth = Sentinel ''no Anthropic credential is configured''"
definition ErrUnknownAnthropicAccount :: store_error where "ErrUnknownAnthropicAccount = Sentinel ''unknown anthropic account''"
definition ErrInvalidBackend :: store_error where "ErrInvalidBackend = Sentinel ''invalid agent backend''"
definition ErrInvalidHarness :: store_error where "ErrInvalidHarness = Sentinel ''invalid agent harness''"
definition ErrIncompatibleHarness :: store_error where "ErrIncompatibleHarness = Sentinel ''incompatible agent harness and backend''"
definition ErrInvalidRepo :: store_error where "ErrInvalidRepo = Sentinel ''invalid agent repo''"
definition ErrInvalidOllamaURL :: store_error where "ErrInvalidOllamaURL = Sentinel ''invalid agent ollama_url''"
definition ErrInvalidAutoCompactThreshold :: store_error where
  "ErrInvalidAutoCompactThreshold = Sentinel ''invalid agent auto_compact_threshold''"
definition ErrInvalidAutoMode :: store_error where "ErrInvalidAutoMode = Sentinel ''invalid agent auto_mode''"
definition ErrNotUpdatable :: store_error where "ErrNotUpdatable = Sentinel ''agent is not in an updatable state''"
definition ErrAgentNotAnthropic :: store_error where "ErrAgentNotAnthropic = Sentinel ''agent is not on the anthropic backend''"

record CreateRequest =
  rq_Name :: string
  rq_Description :: string
  rq_Backend :: string
  rq_Harness :: string
  rq_Model :: string
  rq_FastModel :: string
  rq_OllamaURL :: string
  rq_Repo :: string
  rq_AutoCompactThreshold :: string
  rq_MaxContextTokens :: string
  rq_ImageTag :: string
  rq_AutoMode :: string
  rq_AccountID :: string
  rq_OneShotTask :: string

definition empty_request :: CreateRequest where
  "empty_request = \<lparr>rq_Name = [], rq_Description = [], rq_Backend = [], rq_Harness = [], rq_Model = [], rq_FastModel = [],
     rq_OllamaURL = [], rq_Repo = [], rq_AutoCompactThreshold = [], rq_MaxContextTokens = [], rq_ImageTag = [], rq_AutoMode = [],
     rq_AccountID = [], rq_OneShotTask = []\<rparr>"

record resolvedSpec =
  rs_rb :: resolvedBackend
  rs_harness :: string
  rs_repo :: string
  rs_autoCompact :: string
  rs_maxContextTokens :: string
  rs_autoMode :: string

definition backend_of :: "string \<Rightarrow> resolvedBackend" where
  "backend_of kind = \<lparr>rb_kind = kind, rb_model = [], rb_fastModel = [], rb_ollamaURL = [], rb_apiKey = [], rb_oauthToken = [], rb_accountID = []\<rparr>"

definition store_DefaultAnthropicAccountID :: "('r, 'd, 'w) Manager \<Rightarrow> 'w ctx \<Rightarrow> ('d, 'w, store_error + string) flow" where
  "store_DefaultAnthropicAccountID M ctx = do {
     e \<leftarrow> outside ctx;
     on_store (\<lambda>d. (DefaultAnthropicAccountID (mg_bolt M) (mg_texts M) e d, d)) }"

definition store_GetAnthropicAccount :: "('r, 'd, 'w) Manager \<Rightarrow> 'w ctx \<Rightarrow> string \<Rightarrow> ('d, 'w, store_error + AnthropicAccount) flow" where
  "store_GetAnthropicAccount M ctx i = do {
     e \<leftarrow> outside ctx;
     on_store (\<lambda>d. (GetAnthropicAccount (mg_bolt M) (mg_accounts M) e i d, d)) }"

text \<open>The account an agent is pinned to: the record's, else the request's, else the default.\<close>

definition choose_account :: "('r, 'd, 'w) Manager \<Rightarrow> 'w ctx \<Rightarrow> CreateRequest \<Rightarrow> string \<Rightarrow> ('d, 'w, store_error + string \<times> bool) flow" where
  "choose_account M ctx req existingAccountID =
     (if existingAccountID \<noteq> [] then ret (Inr (existingAccountID, False))
      else if rq_AccountID req \<noteq> [] then ret (Inr (rq_AccountID req, True))
      else and_then (wrapping ''reading the default Anthropic account'' (store_DefaultAnthropicAccountID M ctx))
             (\<lambda>i. ret (Inr (i, False))))"

definition account_backend :: "string \<Rightarrow> AnthropicAccount \<Rightarrow> store_error + resolvedBackend" where
  "account_backend i account =
     (let rb = (backend_of BackendAnthropic)\<lparr>rb_accountID := i\<rparr>
      in if aa_Kind account = AnthropicKindAPIKey then Inr (rb\<lparr>rb_apiKey := aa_Value account\<rparr>)
         else if aa_Kind account = AnthropicKindOAuth then Inr (rb\<lparr>rb_oauthToken := aa_Value account\<rparr>)
         else Inl (Plain ''the Anthropic account has an unknown kind''))"

definition resolveBackend :: "('r, 'd, 'w) Manager \<Rightarrow> 'w ctx \<Rightarrow> CreateRequest \<Rightarrow> string \<Rightarrow> ('d, 'w, store_error + resolvedBackend) flow" where
  "resolveBackend M ctx req existingAccountID =
     (let kind = firstNonEmpty [rq_Backend req, cf_DefaultBackend (mg_cfg M)]
      in if \<not> ValidBackend kind then ret (Inl ErrInvalidBackend)
         else if kind = BackendOllama then
           (let url = firstNonEmpty [rq_OllamaURL req, cf_OllamaURL (mg_cfg M)]
            in if url \<noteq> [] \<and> \<not> ValidOllamaURL (mg_urls M) url then ret (Inl ErrInvalidOllamaURL)
               else ret (Inr ((backend_of kind)\<lparr>rb_model := firstNonEmpty [rq_Model req, cf_AgentModel (mg_cfg M)],
                      rb_fastModel := firstNonEmpty [rq_FastModel req, cf_AgentFastModel (mg_cfg M)], rb_ollamaURL := url\<rparr>)))
         else and_then (choose_account M ctx req existingAccountID) (\<lambda>(accountID, fromRequest).
           if accountID = [] then ret (Inl ErrNoAnthropicAuth)
           else do {
             r \<leftarrow> store_GetAnthropicAccount M ctx accountID;
             case r of
               Inl e \<Rightarrow>
                 if errors_Is e ErrAnthropicAccountNotFound
                 then ret (Inl (if fromRequest then ErrUnknownAnthropicAccount
                                else Wrap ''the pinned account no longer exists'' ErrNoAnthropicAuth))
                 else ret (Inl (Wrap ''reading the Anthropic account'' e))
             | Inr account \<Rightarrow> ret (account_backend accountID account) }))"

definition resolve_rest :: "Config \<Rightarrow> CreateRequest \<Rightarrow> resolvedBackend \<Rightarrow> store_error + resolvedSpec" where
  "resolve_rest cfg req rb =
     (let harness = firstNonEmpty [rq_Harness req, HarnessClaudeCode];
          repo = firstNonEmpty [rq_Repo req, cf_GithubRepo cfg];
          autoCompact = firstNonEmpty [rq_AutoCompactThreshold req, cf_AutoCompactThreshold cfg]
      in if \<not> ValidHarness harness then Inl ErrInvalidHarness
         else if \<not> HarnessSupportsBackend harness (rb_kind rb) then Inl ErrIncompatibleHarness
         else if repo \<noteq> [] \<and> \<not> ValidGithubRepo repo then Inl ErrInvalidRepo
         else if autoCompact \<noteq> [] \<and> \<not> ValidAutoCompactThreshold autoCompact then Inl ErrInvalidAutoCompactThreshold
         else if rq_AutoMode req \<noteq> [] \<and> \<not> ValidAutoMode (rq_AutoMode req) then Inl ErrInvalidAutoMode
         else Inr \<lparr>rs_rb = rb, rs_harness = harness, rs_repo = repo, rs_autoCompact = autoCompact,
                   rs_maxContextTokens = firstNonEmpty [rq_MaxContextTokens req, cf_MaxContextTokens cfg],
                   rs_autoMode = firstNonEmpty [rq_AutoMode req, AutoModeString (cf_DefaultAutoMode cfg)]\<rparr>)"

definition resolveSpec :: "('r, 'd, 'w) Manager \<Rightarrow> 'w ctx \<Rightarrow> CreateRequest \<Rightarrow> string \<Rightarrow> ('d, 'w, store_error + resolvedSpec) flow" where
  "resolveSpec M ctx req existingAccountID =
     and_then (resolveBackend M ctx req existingAccountID) (\<lambda>rb. ret (resolve_rest (mg_cfg M) req rb))"

definition resolveBackendFromAgent :: "('r, 'd, 'w) Manager \<Rightarrow> 'w ctx \<Rightarrow> Agent \<Rightarrow> ('d, 'w, store_error + resolvedBackend) flow" where
  "resolveBackendFromAgent M ctx a =
     resolveBackend M ctx (empty_request\<lparr>rq_Backend := ag_Backend a, rq_Model := ag_Model a, rq_FastModel := ag_FastModel a,
                             rq_OllamaURL := ag_OllamaURL a\<rparr>) (ag_AnthropicAccountID a)"

subsection \<open>Create\<close>

definition build :: "('r, 'd, 'w) Manager \<Rightarrow> 'w ctx \<Rightarrow> Agent \<Rightarrow> resolvedBackend \<Rightarrow> string \<Rightarrow> ('d, 'w, Agent \<times> (store_error + unit)) flow" where
  "build M ctx a rb oneShotTask =
     next_step (updating a (stampNames M ctx a)) (\<lambda>a.
     next_step (keeping a (ensureImages M ctx a)) (\<lambda>a. do {
     a \<leftarrow> stampImageID M ctx a;
     next_step (keeping a (createVolumes M ctx a)) (\<lambda>a.
     next_step (keeping a (ensureAgentFiles M a)) (\<lambda>a.
     next_step (updating a (createDinernet M ctx a)) (\<lambda>a.
     next_step (startDind M ctx a) (\<lambda>a.
     next_step (updating a (connectDependaproxy M ctx a)) (\<lambda>a. do {
     _ \<leftarrow> verifyDependaproxyReachable M ctx a;
     next_step (startAgentContainer M ctx a rb
         (if oneShotTask \<noteq> [] then oneShotInvocationArgs a oneShotTask else firstInvocationArgs a sessionFresh)) (\<lambda>a.
     next_step (keeping a (waitTmuxSession M ctx a)) (\<lambda>a.
     updating a (markRunning M ctx a))) }))))) }))"

definition create_spec :: "string \<Rightarrow> CreateRequest \<Rightarrow> resolvedSpec \<Rightarrow> string \<Rightarrow> CreateSpec" where
  "create_spec i req rs imageRef =
     \<lparr>cs_ID = i, cs_Name = rq_Name req, cs_Description = rq_Description req, cs_Backend = rb_kind (rs_rb rs),
      cs_Harness = rs_harness rs, cs_Model = rb_model (rs_rb rs), cs_FastModel = rb_fastModel (rs_rb rs),
      cs_OllamaURL = rb_ollamaURL (rs_rb rs), cs_Repo = rs_repo rs, cs_AutoCompactThreshold = rs_autoCompact rs,
      cs_MaxContextTokens = rs_maxContextTokens rs, cs_AutoMode = rs_autoMode rs,
      cs_AnthropicAccountID = rb_accountID (rs_rb rs), cs_Image = imageRef\<rparr>"

definition create_body :: "('r, 'd, 'w) Manager \<Rightarrow> 'w ctx \<Rightarrow> CreateRequest \<Rightarrow> string \<Rightarrow> ('d, 'w, store_error + Agent) flow" where
  "create_body M ctx req i =
     and_then (wrapping ''creating an agent'' (resolveSpec M ctx req [])) (\<lambda>rs.
     and_then (wrapping ''creating an agent'' (resolveAgentImageRef M ctx (rq_ImageTag req) (rs_harness rs))) (\<lambda>imageRef.
     and_then (wrapping ''creating agent'' (store_Create M ctx (create_spec i req rs imageRef))) (\<lambda>a. do {
       (a, r) \<leftarrow> build M ctx a (rs_rb rs) (rq_OneShotTask req);
       case r of
         Inl e \<Rightarrow> do { _ \<leftarrow> rollback M a; ret (Inl (Wrap ''creating agent'' e)) }
       | Inr _ \<Rightarrow> ret (Inr a) })))"

definition flow_Create :: "('r, 'd, 'w) Manager \<Rightarrow> 'w ctx \<Rightarrow> CreateRequest \<Rightarrow> ('d, 'w, store_error + Agent) flow" where
  "flow_Create M ctx req =
     and_then (wrapping ''creating an agent'' (outside (mg_newID M))) (\<lambda>i. do {
       _ \<leftarrow> on_flight (\<lambda>r. ((), op_begin i r));
       res \<leftarrow> create_body M ctx req i;
       _ \<leftarrow> on_flight (\<lambda>r. ((), release i r));
       ret res })"

subsection \<open>Delete\<close>

text \<open>An operation that holds the agent's ID while it runs, or is refused.\<close>

definition claimed :: "string \<Rightarrow> 'a \<Rightarrow> ('d, 'w, 'a) flow \<Rightarrow> ('d, 'w, 'a) flow" where
  "claimed i refused body = do {
     ok \<leftarrow> on_flight (tryBegin i);
     if \<not> ok then ret refused
     else do {
       res \<leftarrow> body;
       _ \<leftarrow> on_flight (\<lambda>r. ((), release i r));
       ret res } }"

definition mark_deleting :: "('r, 'd, 'w) Manager \<Rightarrow> 'w ctx \<Rightarrow> Agent \<Rightarrow> string \<Rightarrow> ('d, 'w, store_error + Agent) flow" where
  "mark_deleting M ctx a i =
     (if ag_Status a \<noteq> StatusDeleting
      then wrapping ''marking agent deleting'' (store_Update M ctx i (\<lambda>ag. Inr (ag\<lparr>ag_Status := StatusDeleting\<rparr>)))
      else ret (Inr a))"

definition delete_body :: "('r, 'd, 'w) Manager \<Rightarrow> 'w ctx \<Rightarrow> string \<Rightarrow> ('d, 'w, store_error + unit) flow" where
  "delete_body M ctx i = do {
     r \<leftarrow> store_Get M ctx i;
     case r of
       Inl e \<Rightarrow> if IsNotFound e then ret (Inr ()) else ret (Inl (Wrap ''deleting agent'' e))
     | Inr a \<Rightarrow>
         and_then (mark_deleting M ctx a i) (\<lambda>a.
         and_then (wrapping ''deleting agent'' (teardown M ctx a)) (\<lambda>_.
         wrapping ''deleting agent'' (store_Delete M ctx i))) }"

definition flow_Delete :: "('r, 'd, 'w) Manager \<Rightarrow> 'w ctx \<Rightarrow> string \<Rightarrow> ('d, 'w, store_error + unit) flow" where
  "flow_Delete M ctx i = claimed i (Inl (Wrap ''deleting agent'' ErrOperationInFlight)) (delete_body M ctx i)"

definition PurgeAgentFiles :: "('r, 'd, 'w) Manager \<Rightarrow> string \<Rightarrow> ('d, 'w, store_error + unit) flow" where
  "PurgeAgentFiles M i =
     (case mg_files M of
        None \<Rightarrow> ret (Inr ())
      | Some F \<Rightarrow> wrapping ''purging the file-store directory for agent'' (outside (fi_RemoveAgentDir F i)))"

subsection \<open>Update\<close>

definition updatableStatus :: "string \<Rightarrow> bool" where
  "updatableStatus s \<longleftrightarrow> s = StatusRunning \<or> s = StatusStopped \<or> s = StatusError"

definition update_error_note :: string where
  "update_error_note = ''update failed (nothing was lost: the workspace, Claude-config and DinD-cache volumes are intact -- fix the cause and retry the update): ''"

definition failUpdate :: "('r, 'd, 'w) Manager \<Rightarrow> string \<Rightarrow> store_error \<Rightarrow> ('d, 'w, store_error + Agent) flow" where
  "failUpdate M i cause = do {
     _ \<leftarrow> store_Update M without_cancel i (\<lambda>ag. Inr (ag\<lparr>ag_Status := StatusError,
            ag_ErrorMessage := update_error_note @ error_text cause, ag_ContainerID := []\<rparr>));
     ret (Inl (Wrap ''updating agent'' cause)) }"

definition mark_updating :: "Agent \<Rightarrow> store_error + Agent" where
  "mark_updating ag =
     (if \<not> updatableStatus (ag_Status ag) then Inl ErrNotUpdatable
      else Inr (ag\<lparr>ag_Status := StatusUpdating, ag_ErrorMessage := []\<rparr>))"

definition updated_fields :: "string \<Rightarrow> CreateRequest \<Rightarrow> resolvedSpec \<Rightarrow> string \<Rightarrow> Agent \<Rightarrow> Agent" where
  "updated_fields i req rs newRef ag = ag
     \<lparr>ag_Name := rq_Name req, ag_Description := rq_Description req, ag_Backend := rb_kind (rs_rb rs),
      ag_Model := rb_model (rs_rb rs), ag_FastModel := rb_fastModel (rs_rb rs), ag_OllamaURL := rb_ollamaURL (rs_rb rs),
      ag_AnthropicAccountID := rb_accountID (rs_rb rs), ag_Repo := rs_repo rs, ag_AutoCompactThreshold := rs_autoCompact rs,
      ag_MaxContextTokens := rs_maxContextTokens rs, ag_AutoMode := rs_autoMode rs, ag_Image := newRef, ag_ContainerID := [],
      ag_ContainerName := firstNonEmpty [ag_ContainerName ag, agentContainerName i],
      ag_DinernetName := firstNonEmpty [ag_DinernetName ag, dinernetName i],
      ag_WorkspaceVolume := firstNonEmpty [ag_WorkspaceVolume ag, workspaceVolumeName i],
      ag_ClaudeConfigVolume := firstNonEmpty [ag_ClaudeConfigVolume ag, claudeConfigVolumeName i]\<rparr>"

text \<open>
  The tail of \<^verbatim>\<open>Update\<close>, after the record is marked: each failure goes through \<open>failUpdate\<close> with the ID
  of the agent variable at that point. When the record of the new configuration cannot be
  written, the variable has been overwritten with the zero agent, whose ID is empty.
\<close>

definition update_start :: "('r, 'd, 'w) Manager \<Rightarrow> 'w ctx \<Rightarrow> Agent \<Rightarrow> resolvedBackend \<Rightarrow> ('d, 'w, Agent \<times> (store_error + unit)) flow" where
  "update_start M ctx a rb =
     next_step (keeping a (ensureAgentFiles M a)) (\<lambda>a.
     next_step (startAgentContainer M ctx a rb (firstInvocationArgs a sessionContinue)) (\<lambda>a.
     next_step (keeping a (waitTmuxSession M ctx a)) (\<lambda>a.
     updating a (markRunning M ctx a))))"

definition update_tail :: "('r, 'd, 'w) Manager \<Rightarrow> 'w ctx \<Rightarrow> string \<Rightarrow> CreateRequest \<Rightarrow> resolvedSpec \<Rightarrow> string \<Rightarrow> Agent \<Rightarrow>
    ('d, 'w, store_error + Agent) flow" where
  "update_tail M ctx i req rs newRef a = do {
     r \<leftarrow> ensureImage M ctx newRef;
     case r of
       Inl e \<Rightarrow> failUpdate M (ag_ID a) e
     | Inr _ \<Rightarrow> do {
         (_, a) \<leftarrow> syncDependaproxyDinernetIP M ctx a;
         r \<leftarrow> ensureDindRunning M ctx a;
         case r of
           Inl e \<Rightarrow> failUpdate M (ag_ID a) (Wrap ''checking the dind sidecar before recreating the agent container'' e)
         | Inr _ \<Rightarrow> do {
             r \<leftarrow> removeAgentContainer M ctx a;
             case r of
               Inl e \<Rightarrow> failUpdate M (ag_ID a) (Wrap ''removing the old agent container'' e)
             | Inr _ \<Rightarrow> do {
                 r \<leftarrow> store_Update M ctx i (\<lambda>ag. Inr (updated_fields i req rs newRef ag));
                 case r of
                   Inl e \<Rightarrow> failUpdate M [] (Wrap ''recording the updated agent config'' e)
                 | Inr a \<Rightarrow> do {
                     a \<leftarrow> stampImageID M ctx a;
                     (a, r) \<leftarrow> update_start M ctx a (rs_rb rs);
                     case r of Inl e \<Rightarrow> failUpdate M (ag_ID a) e | Inr _ \<Rightarrow> ret (Inr a) } } } } }"

definition update_body :: "('r, 'd, 'w) Manager \<Rightarrow> 'w ctx \<Rightarrow> string \<Rightarrow> CreateRequest \<Rightarrow> ('d, 'w, store_error + Agent) flow" where
  "update_body M ctx i req =
     and_then (store_Get M ctx i) (\<lambda>a.
     if \<not> updatableStatus (ag_Status a) then ret (Inl (Wrap ''updating agent'' ErrNotUpdatable))
     else and_then (wrapping ''updating agent'' (resolveSpec M ctx req (ag_AnthropicAccountID a))) (\<lambda>rs.
     if \<not> HarnessSupportsBackend (HarnessOf a) (rb_kind (rs_rb rs)) then ret (Inl (Wrap ''updating agent'' ErrIncompatibleHarness))
     else and_then (wrapping ''updating agent'' (resolveAgentImageRef M ctx (rq_ImageTag req) (HarnessOf a))) (\<lambda>newRef. do {
       r \<leftarrow> store_Update M ctx i mark_updating;
       case r of
         Inl e \<Rightarrow> ret (Inl (if errors_Is e ErrNotUpdatable \<or> IsNotFound e then e else Wrap ''updating agent: marking it updating'' e))
       | Inr a \<Rightarrow> update_tail M ctx i req rs newRef a })))"

text \<open>The image tag of an update request is its own field; here it is the one of the request.\<close>

definition flow_Update :: "('r, 'd, 'w) Manager \<Rightarrow> 'w ctx \<Rightarrow> string \<Rightarrow> CreateRequest \<Rightarrow> ('d, 'w, store_error + Agent) flow" where
  "flow_Update M ctx i req = claimed i (Inl (Wrap ''updating agent'' ErrOperationInFlight)) (update_body M ctx i req)"

subsection \<open>Resume\<close>

definition rebuild_failed :: "('r, 'd, 'w) Manager \<Rightarrow> string \<Rightarrow> store_error \<Rightarrow> ('d, 'w, store_error + 'a) flow" where
  "rebuild_failed M i e = do { _ \<leftarrow> markRebuildError M i e; ret (Inl e) }"

definition resume_body :: "('r, 'd, 'w) Manager \<Rightarrow> 'w ctx \<Rightarrow> string \<Rightarrow> ('d, 'w, store_error + Agent) flow" where
  "resume_body M ctx i =
     and_then (store_Get M ctx i) (\<lambda>a.
     if ag_Status a \<noteq> StatusStopped then ret (Inl (Wrap ''resuming agent'' ErrNotResumable))
     else do {
       (_, a) \<leftarrow> syncDependaproxyDinernetIP M ctx a;
       r \<leftarrow> ensureDindRunning M ctx a;
       case r of
         Inl e \<Rightarrow> rebuild_failed M (ag_ID a) (Wrap ''the dind sidecar'' e)
       | Inr _ \<Rightarrow> do {
           r \<leftarrow> resolveBackendFromAgent M ctx a;
           case r of
             Inl e \<Rightarrow> rebuild_failed M (ag_ID a) (Wrap ''resolving the backend to restart the agent container'' e)
           | Inr rb \<Rightarrow> do {
               r \<leftarrow> flow_markShielded M ctx i StatusStopped;
               case r of
                 Inl e \<Rightarrow> rebuild_failed M i (Wrap ''marking the agent updating before resuming its container'' e)
               | Inr ok \<Rightarrow>
                   if \<not> ok then ret (Inl (Wrap ''resuming agent'' ErrNotResumable))
                   else rebuildAgentContainer M ctx a rb } } })"

definition ResumeAgent :: "('r, 'd, 'w) Manager \<Rightarrow> 'w ctx \<Rightarrow> string \<Rightarrow> ('d, 'w, store_error + Agent) flow" where
  "ResumeAgent M ctx i = claimed i (Inl (Wrap ''resuming agent'' ErrOperationInFlight)) (resume_body M ctx i)"

subsection \<open>Reconcile\<close>

record Unmanaged =
  um_Kind :: string
  um_Name :: string
  um_AgentID :: string

record Report =
  rp_Records :: nat
  rp_CleanedUp :: "string list"
  rp_Unmanaged :: "Unmanaged list"
  rp_Woken :: "string list"
  rp_Skipped :: "string list"

definition mayBeStuck :: "string \<Rightarrow> bool" where
  "mayBeStuck s \<longleftrightarrow> s = StatusUpdating \<or> s = StatusCreating \<or> s = StatusDeleting"

definition unmanaged_of :: "string list \<Rightarrow> string \<Rightarrow> (string \<times> labels) list \<Rightarrow> Unmanaged list" where
  "unmanaged_of known kind objects =
     map (\<lambda>(name, ls). \<lparr>um_Kind = kind, um_Name = name, um_AgentID = label ls LabelAgentID\<rparr>)
       (filter (\<lambda>(name, ls). label ls LabelAgentID \<notin> set known) objects)"

definition findUnmanaged :: "('r, 'd, 'w) Manager \<Rightarrow> 'w ctx \<Rightarrow> string list \<Rightarrow> ('d, 'w, store_error + Unmanaged list) flow" where
  "findUnmanaged M ctx known =
     and_then (wrapping ''listing managed containers'' (outside (dk_ContainerList (mg_docker M) ctx managedSelector))) (\<lambda>cs.
     and_then (wrapping ''listing managed networks'' (outside (dk_NetworkList (mg_docker M) ctx managedSelector))) (\<lambda>ns.
     and_then (wrapping ''listing managed volumes'' (outside (dk_VolumeList (mg_docker M) ctx managedSelector))) (\<lambda>vs.
     ret (Inr (unmanaged_of known ''container'' (map (\<lambda>c. (ctr_Name c, ctr_Labels c)) cs) @
               unmanaged_of known ''network'' (map (\<lambda>n. (net_Name n, net_Labels n)) ns) @
               unmanaged_of known ''volume'' (map (\<lambda>v. (vol_Name v, vol_Labels v)) vs))))))"

definition reportUnmanaged :: "Unmanaged list \<Rightarrow> ('d, 'w, Unmanaged list) flow" where
  "reportUnmanaged resources =
     on_flight (\<lambda>r. (filter (\<lambda>u. \<not> (um_AgentID u \<noteq> [] \<and> busy (um_AgentID u) r)) resources, r))"

definition cleanupStuckRecord :: "('r, 'd, 'w) Manager \<Rightarrow> 'w ctx \<Rightarrow> Agent \<Rightarrow> ('d, 'w, store_error + bool) flow" where
  "cleanupStuckRecord M ctx a =
     (if ag_Status a = StatusUpdating then
        and_then (wrapping ''reconciling agent: marking a stuck update as error''
           (store_Update M ctx (ag_ID a) (\<lambda>ag. Inr (ag\<lparr>ag_Status := StatusError, ag_ErrorMessage := ''update interrupted; retry the update''\<rparr>))))
          (\<lambda>_. ret (Inr False))
      else
        and_then (wrapping ''reconciling agent'' (teardown M ctx a)) (\<lambda>_.
        and_then (wrapping ''reconciling agent: deleting its record'' (store_Delete M ctx (ag_ID a))) (\<lambda>_.
        ret (Inr True))))"

text \<open>
  One pass over the stuck records: the cleaned up, the skipped, the errors. The plain check of
  the registry before \<^verbatim>\<open>tryBegin\<close> only decides which of two identical log lines is written first.
\<close>

primrec sweep_stuck :: "('r, 'd, 'w) Manager \<Rightarrow> 'w ctx \<Rightarrow> Agent list \<Rightarrow> ('d, 'w, string list \<times> string list \<times> store_error list) flow" where
  "sweep_stuck M ctx [] = ret ([], [], [])"
| "sweep_stuck M ctx (a # as) =
     (if \<not> mayBeStuck (ag_Status a) then sweep_stuck M ctx as
      else do {
        b \<leftarrow> on_flight (\<lambda>r. (busy (ag_ID a) r, r));
        res \<leftarrow> (if b then ret None
               else claimed (ag_ID a) None (do { r \<leftarrow> cleanupStuckRecord M ctx a; ret (Some r) }));
        (cleaned, skipped, errs) \<leftarrow> sweep_stuck M ctx as;
        ret (case res of
               None \<Rightarrow> (cleaned, ag_ID a # skipped, errs)
             | Some (Inl e) \<Rightarrow> (cleaned, skipped, e # errs)
             | Some (Inr True) \<Rightarrow> (ag_ID a # cleaned, skipped, errs)
             | Some (Inr False) \<Rightarrow> (cleaned, skipped, errs)) })"

definition wakeAgent :: "('r, 'd, 'w) Manager \<Rightarrow> 'w ctx \<Rightarrow> Agent \<Rightarrow> ('d, 'w, store_error + bool) flow" where
  "wakeAgent M ctx a = do {
     (changed, a) \<leftarrow> syncDependaproxyDinernetIP M ctx a;
     r \<leftarrow> ensureDindRunning M ctx a;
     case r of
       Inl e \<Rightarrow> rebuild_failed M (ag_ID a) (Wrap ''the dind sidecar'' e)
     | Inr dindAwoke \<Rightarrow> do {
         r \<leftarrow> outside (dk_ContainerInspect (mg_docker M) ctx
               (firstNonEmpty [ag_ContainerID a, ag_ContainerName a, agentContainerName (ag_ID a)]));
         case r of
           Inl e \<Rightarrow> rebuild_failed M (ag_ID a)
             (if docker_IsNotFound e then Plain ''the agent container no longer exists; recreate this agent''
              else Wrap ''inspecting the agent container'' e)
         | Inr c \<Rightarrow>
             if ctr_State c = StateRunning
             then do { _ \<leftarrow> (if changed then refreshDependaproxyIPFile M ctx a else ret ()); ret (Inr dindAwoke) }
             else do {
               r \<leftarrow> resolveBackendFromAgent M ctx a;
               case r of
                 Inl e \<Rightarrow> rebuild_failed M (ag_ID a) (Wrap ''resolving the backend to restart the agent container'' e)
               | Inr rb \<Rightarrow> do {
                   r \<leftarrow> flow_markShielded M ctx (ag_ID a) StatusRunning;
                   case r of
                     Inl e \<Rightarrow> rebuild_failed M (ag_ID a) (Wrap ''marking the agent updating before recreating its container'' e)
                   | Inr ok \<Rightarrow>
                       if \<not> ok then ret (Inr False)
                       else do { r \<leftarrow> rebuildAgentContainer M ctx a rb; ret (case r of Inl e \<Rightarrow> Inl e | Inr _ \<Rightarrow> Inr True) } } } } }"

primrec wakeStoppedAgents :: "('r, 'd, 'w) Manager \<Rightarrow> 'w ctx \<Rightarrow> Agent list \<Rightarrow> ('d, 'w, string list \<times> string list \<times> store_error list) flow" where
  "wakeStoppedAgents M ctx [] = ret ([], [], [])"
| "wakeStoppedAgents M ctx (a # as) =
     (if ag_Status a \<noteq> StatusRunning then wakeStoppedAgents M ctx as
      else do {
        res \<leftarrow> claimed (ag_ID a) None (do { r \<leftarrow> wakeAgent M ctx a; ret (Some r) });
        (woken, skipped, errs) \<leftarrow> wakeStoppedAgents M ctx as;
        ret (case res of
               None \<Rightarrow> (woken, ag_ID a # skipped, errs)
             | Some (Inl e) \<Rightarrow> (woken, skipped, Wrap ''waking agent'' e # errs)
             | Some (Inr True) \<Rightarrow> (ag_ID a # woken, skipped, errs)
             | Some (Inr False) \<Rightarrow> (woken, skipped, errs)) })"

text \<open>The report comes with the joined errors of the pass, or not at all.\<close>

definition flow_Reconcile :: "('r, 'd, 'w) Manager \<Rightarrow> 'w ctx \<Rightarrow> ('d, 'w, store_error + Report \<times> store_error option) flow" where
  "flow_Reconcile M ctx =
     and_then (wrapping ''reconciling'' (store_List M ctx)) (\<lambda>agents.
     and_then (wrapping ''reconciling'' (findUnmanaged M ctx (map ag_ID agents))) (\<lambda>found. do {
       unmanaged \<leftarrow> reportUnmanaged found;
       (cleaned, skipped, errs) \<leftarrow> sweep_stuck M ctx agents;
       (woken, wakeSkipped, wakeErrs) \<leftarrow> wakeStoppedAgents M ctx agents;
       ret (Inr (\<lparr>rp_Records = length agents, rp_CleanedUp = cleaned, rp_Unmanaged = unmanaged, rp_Woken = woken,
                  rp_Skipped = skipped @ wakeSkipped\<rparr>, errors_Join (errs @ wakeErrs))) }))"

primrec sync_addresses :: "('r, 'd, 'w) Manager \<Rightarrow> 'w ctx \<Rightarrow> Agent list \<Rightarrow> ('d, 'w, unit) flow" where
  "sync_addresses M ctx [] = ret ()"
| "sync_addresses M ctx (a # as) = do {
     _ \<leftarrow> (if ag_Status a \<noteq> StatusRunning then ret ()
           else do {
             (changed, a) \<leftarrow> syncDependaproxyDinernetIP M ctx a;
             if changed then refreshDependaproxyIPFile M ctx a else ret () });
     sync_addresses M ctx as }"

definition SyncDependaproxyAddresses :: "('r, 'd, 'w) Manager \<Rightarrow> 'w ctx \<Rightarrow> ('d, 'w, store_error + unit) flow" where
  "SyncDependaproxyAddresses M ctx =
     and_then (wrapping ''syncing dependaproxy addresses'' (store_List M ctx)) (\<lambda>agents. do {
       _ \<leftarrow> sync_addresses M ctx agents;
       ret (Inr ()) })"

subsection \<open>Record changes\<close>

definition isStaleContainerEvent :: "string \<Rightarrow> string \<Rightarrow> bool" where
  "isStaleContainerEvent eventID recordID \<longleftrightarrow> eventID \<noteq> [] \<and> recordID \<noteq> [] \<and> eventID \<noteq> recordID"

definition unexpected_exit :: "string \<Rightarrow> string \<Rightarrow> string \<Rightarrow> Agent \<Rightarrow> Agent" where
  "unexpected_exit containerID newStatus message ag =
     (if ag_Status ag \<noteq> StatusRunning \<or> isStaleContainerEvent containerID (ag_ContainerID ag) then ag
      else ag\<lparr>ag_Status := newStatus, ag_ErrorMessage := message\<rparr>)"

definition MarkUnexpectedExit :: "('r, 'd, 'w) Manager \<Rightarrow> 'w ctx \<Rightarrow> string \<Rightarrow> string \<Rightarrow> string \<Rightarrow> string \<Rightarrow> ('d, 'w, store_error + unit) flow" where
  "MarkUnexpectedExit M ctx i containerID newStatus message =
     and_then (store_Get M ctx i) (\<lambda>a.
     if ag_Status a \<noteq> StatusRunning \<or> isStaleContainerEvent containerID (ag_ContainerID a) then ret (Inr ())
     else and_then (store_Update M ctx i (\<lambda>ag. Inr (unexpected_exit containerID newStatus message ag))) (\<lambda>_. ret (Inr ())))"

definition check_pin :: "('r, 'd, 'w) Manager \<Rightarrow> 'w ctx \<Rightarrow> string \<Rightarrow> string \<Rightarrow> ('d, 'w, store_error + unit) flow" where
  "check_pin M ctx i accountID =
     and_then (store_Get M ctx i) (\<lambda>a.
     if ag_Backend a \<noteq> BackendAnthropic then ret (Inl (Wrap ''renaming agent'' ErrAgentNotAnthropic))
     else do {
       r \<leftarrow> store_GetAnthropicAccount M ctx accountID;
       ret (case r of
              Inl e \<Rightarrow> Inl (if errors_Is e ErrAnthropicAccountNotFound then Wrap ''renaming agent'' ErrUnknownAnthropicAccount
                            else Wrap ''renaming agent: checking the anthropic account'' e)
            | Inr _ \<Rightarrow> Inr ()) })"

definition renamed :: "string option \<Rightarrow> string option \<Rightarrow> string option \<Rightarrow> Agent \<Rightarrow> Agent" where
  "renamed name description accountID ag = ag
     \<lparr>ag_Name := (case name of None \<Rightarrow> ag_Name ag | Some v \<Rightarrow> v),
      ag_Description := (case description of None \<Rightarrow> ag_Description ag | Some v \<Rightarrow> v),
      ag_AnthropicAccountID := (case accountID of None \<Rightarrow> ag_AnthropicAccountID ag | Some v \<Rightarrow> v)\<rparr>"

definition Rename :: "('r, 'd, 'w) Manager \<Rightarrow> 'w ctx \<Rightarrow> string \<Rightarrow> string option \<Rightarrow> string option \<Rightarrow> string option \<Rightarrow>
    ('d, 'w, store_error + Agent) flow" where
  "Rename M ctx i name description accountID =
     (if name = None \<and> description = None \<and> accountID = None
      then ret (Inl (Plain ''renaming agent: at least one of name, description or account_id must be provided''))
      else and_then (case accountID of None \<Rightarrow> ret (Inr ()) | Some v \<Rightarrow> check_pin M ctx i v) (\<lambda>_.
        store_Update M ctx i (\<lambda>ag. Inr (renamed name description accountID ag))))"

end
