(* ===== verification/Flow_Logic.thy ===== *)
theory Flow_Logic
  imports Agent_Flows
begin

section \<open>Reasoning about flows\<close>

text \<open>
  A calculus for the state monad the flows are written in: \<open>keeps I m V\<close> says that from every state
  with the invariant \<open>I\<close> the flow \<open>m\<close> ends in such a state, with a result in \<open>V\<close>. The rules are
  directed by the syntax of \<open>m\<close>, with the rest of the flow in the place of \<open>V\<close>, so that a proof
  about a flow is its definition unfolded and the collection \<open>flow\<close>.
\<close>

named_theorems flow \<open>rules of the calculus, directed by the syntax of the flow\<close>
named_theorems flow_simps \<open>equations that evaluate the outcomes of steps\<close>

definition keeps :: "('s \<Rightarrow> bool) \<Rightarrow> ('s, 'a) state \<Rightarrow> ('a \<Rightarrow> bool) \<Rightarrow> bool" where
  "keeps I m V \<longleftrightarrow> (\<forall>s. I s \<longrightarrow> (case run_state m s of (x, s') \<Rightarrow> V x \<and> I s'))"

lemma keepsI: "(\<And>s x s'. I s \<Longrightarrow> run_state m s = (x, s') \<Longrightarrow> V x \<and> I s') \<Longrightarrow> keeps I m V"
  by (auto simp: keeps_def)

lemma keepsD: "keeps I m V \<Longrightarrow> I s \<Longrightarrow> run_state m s = (x, s') \<Longrightarrow> V x \<and> I s'"
  by (fastforce simp: keeps_def)

lemma keeps_conseq: "keeps I m V \<Longrightarrow> (\<And>x. V x \<Longrightarrow> W x) \<Longrightarrow> keeps I m W"
  by (fastforce simp: keeps_def)

lemma keeps_return [flow]: "V x \<Longrightarrow> keeps I (State_Monad.return x) V"
  by (simp add: keeps_def State_Monad.return_def)

lemma keeps_bind [flow]: "keeps I m (\<lambda>x. keeps I (f x) V) \<Longrightarrow> keeps I (State_Monad.bind m f) V"
  by (rule keepsI) (auto simp: State_Monad.bind_def dest: keepsD split: prod.splits)

lemma keeps_if [flow]: "(b \<Longrightarrow> keeps I m V) \<Longrightarrow> (\<not> b \<Longrightarrow> keeps I n V) \<Longrightarrow> keeps I (if b then m else n) V"
  by simp

lemma keeps_case_sum [flow]:
  "(\<And>e. r = Inl e \<Longrightarrow> keeps I (f e) V) \<Longrightarrow> (\<And>x. r = Inr x \<Longrightarrow> keeps I (g x) V) \<Longrightarrow>
   keeps I (case r of Inl e \<Rightarrow> f e | Inr x \<Rightarrow> g x) V"
  by (cases r) auto

lemma keeps_case_option [flow]:
  "(r = None \<Longrightarrow> keeps I f V) \<Longrightarrow> (\<And>x. r = Some x \<Longrightarrow> keeps I (g x) V) \<Longrightarrow>
   keeps I (case r of None \<Rightarrow> f | Some x \<Rightarrow> g x) V"
  by (cases r) auto

lemma keeps_case_prod [flow]: "(\<And>x y. r = (x, y) \<Longrightarrow> keeps I (f x y) V) \<Longrightarrow> keeps I (case r of (x, y) \<Rightarrow> f x y) V"
  by (cases r) auto

lemma keeps_let [flow]: "keeps I (f x) V \<Longrightarrow> keeps I (let y = x in f y) V"
  by simp

lemma keeps_and_then [flow]:
  "keeps I m (\<lambda>r. case r of Inl e \<Rightarrow> V (Inl e) | Inr x \<Rightarrow> keeps I (f x) V) \<Longrightarrow> keeps I (and_then m f) V"
  unfolding and_then_def by (rule keeps_bind, erule keeps_conseq) (auto intro: flow split: sum.splits)

lemma keeps_wrapping [flow]: "keeps I m (\<lambda>r. V (wrap_error msg r)) \<Longrightarrow> keeps I (wrapping msg m) V"
  unfolding wrapping_def by (rule keeps_bind, erule keeps_conseq) (rule flow)

lemma keeps_next_step [flow]:
  "keeps I m (\<lambda>(a, r). case r of Inl e \<Rightarrow> V (a, Inl e) | Inr _ \<Rightarrow> keeps I (f a) V) \<Longrightarrow> keeps I (next_step m f) V"
  unfolding next_step_def by (rule keeps_bind, erule keeps_conseq) (auto intro!: flow split: prod.splits sum.splits)

lemma keeps_updating [flow]:
  "keeps I m (\<lambda>r. V (case r of Inl e \<Rightarrow> (a, Inl e) | Inr a1 \<Rightarrow> (a1, Inr ()))) \<Longrightarrow> keeps I (updating a m) V"
  unfolding updating_def by (rule keeps_bind, erule keeps_conseq) (rule flow)

lemma keeps_keeping [flow]: "keeps I m (\<lambda>r. V (a, r)) \<Longrightarrow> keeps I (keeping a m) V"
  unfolding keeping_def by (rule keeps_bind, erule keeps_conseq) (rule flow)

lemma keeps_poll:
  assumes "keeps I body (\<lambda>r. \<forall>x. r = Some x \<longrightarrow> V x)"
  shows "keeps I (poll n body) (\<lambda>r. \<forall>x. r = Some x \<longrightarrow> V x)"
proof (induction n)
  case (Suc n)
  show ?case by (auto intro!: flow keeps_conseq [OF assms] Suc.IH)
qed (auto intro: flow)

lemma wrap_error_simps [flow_simps]:
  "wrap_error msg (Inl e) = Inl (Wrap msg e)" "wrap_error msg (Inr x) = Inr x"
  by (simp_all add: wrap_error_def)

lemma keeps_outside:
  assumes "\<And>s x w. I s \<Longrightarrow> f (m_docker s) = (x, w) \<Longrightarrow> V x \<and> I (s\<lparr>m_docker := w\<rparr>)"
  shows "keeps I (outside f) V"
proof (rule keepsI)
  fix s x s'
  assume "I s" and "run_state (outside f) s = (x, s')"
  then have "f (m_docker s) = (x, m_docker s')" and "s' = s\<lparr>m_docker := m_docker s'\<rparr>"
    by (auto simp: outside_def split: prod.splits)
  then show "V x \<and> I s'" using assms [OF \<open>I s\<close>] by metis
qed

lemma keeps_on_store:
  assumes "\<And>s x d. I s \<Longrightarrow> f (m_db s) = (x, d) \<Longrightarrow> V x \<and> I (s\<lparr>m_db := d\<rparr>)"
  shows "keeps I (on_store f) V"
proof (rule keepsI)
  fix s x s'
  assume "I s" and "run_state (on_store f) s = (x, s')"
  then have "f (m_db s) = (x, m_db s')" and "s' = s\<lparr>m_db := m_db s'\<rparr>"
    by (auto simp: on_store_def split: prod.splits)
  then show "V x \<and> I s'" using assms [OF \<open>I s\<close>] by metis
qed

lemma keeps_reading:
  assumes "\<And>s. I s \<Longrightarrow> V (f (m_db s))"
  shows "keeps I (on_store (\<lambda>d. (f d, d))) V"
  by (rule keeps_on_store) (auto dest: assms)

subsection \<open>What a flow ends with\<close>

text \<open>
  \<open>post m Q\<close>: from every state, \<open>Q\<close> holds of the result and the state after \<open>m\<close>. It serves to show what
  the last steps of a flow establish; what comes before is skipped.
\<close>

definition post :: "('s, 'a) state \<Rightarrow> ('a \<Rightarrow> 's \<Rightarrow> bool) \<Rightarrow> bool" where
  "post m Q \<longleftrightarrow> (\<forall>s. case run_state m s of (x, s') \<Rightarrow> Q x s')"

named_theorems ends \<open>rules for what a flow ends with\<close>

lemma postD: "post m Q \<Longrightarrow> run_state m s = (x, s') \<Longrightarrow> Q x s'"
  unfolding post_def by (metis prod.case)

lemma postI: "(\<And>s x s'. run_state m s = (x, s') \<Longrightarrow> Q x s') \<Longrightarrow> post m Q"
  by (auto simp: post_def)

lemma post_return [ends]: "(\<And>s. Q x s) \<Longrightarrow> post (State_Monad.return x) Q"
  by (simp add: post_def State_Monad.return_def)

lemma post_skip [ends]: "(\<And>x. post (f x) Q) \<Longrightarrow> post (State_Monad.bind m f) Q"
  by (rule postI) (auto simp: State_Monad.bind_def dest: postD split: prod.splits)

lemma post_last:
  assumes "post m R" and "\<And>x s y s'. R x s \<Longrightarrow> run_state (f x) s = (y, s') \<Longrightarrow> Q y s'"
  shows "post (State_Monad.bind m f) Q"
  using assms by (intro postI) (auto simp: State_Monad.bind_def dest: postD split: prod.splits)

lemma post_if [ends]: "(b \<Longrightarrow> post m Q) \<Longrightarrow> (\<not> b \<Longrightarrow> post n Q) \<Longrightarrow> post (if b then m else n) Q"
  by simp

lemma post_case_sum [ends]: "(\<And>e. post (f e) Q) \<Longrightarrow> (\<And>x. post (g x) Q) \<Longrightarrow> post (case r of Inl e \<Rightarrow> f e | Inr x \<Rightarrow> g x) Q"
  by (cases r) auto

lemma post_case_prod [ends]: "(\<And>x y. post (f x y) Q) \<Longrightarrow> post (case r of (x, y) \<Rightarrow> f x y) Q"
  by (cases r) auto

lemma post_and_then [ends]: "(\<And>e s. Q (Inl e) s) \<Longrightarrow> (\<And>x. post (f x) Q) \<Longrightarrow> post (and_then m f) Q"
  unfolding and_then_def by (intro ends)

lemma post_next_step [ends]: "(\<And>a e s. Q (a, Inl e) s) \<Longrightarrow> (\<And>a. post (f a) Q) \<Longrightarrow> post (next_step m f) Q"
  unfolding next_step_def by (intro ends)

lemma post_wrapping: "post m (\<lambda>r. Q (wrap_error msg r)) \<Longrightarrow> post (wrapping msg m) Q"
  unfolding wrapping_def by (erule post_last) (simp add: State_Monad.return_def)

lemma post_updating:
  "post m (\<lambda>r. Q (case r of Inl e \<Rightarrow> (a, Inl e) | Inr a1 \<Rightarrow> (a1, Inr ()))) \<Longrightarrow> post (updating a m) Q"
  unfolding updating_def by (erule post_last) (simp add: State_Monad.return_def)

subsection \<open>Flows that only look outside\<close>

text \<open>A flow made of outside calls is one outside call: it leaves the database and the registry alone.\<close>

definition external :: "('d, 'w, 'a) flow \<Rightarrow> bool" where
  "external m \<longleftrightarrow> (\<forall>s. m_db (snd (run_state m s)) = m_db s \<and> m_inFlight (snd (run_state m s)) = m_inFlight s)"

named_theorems outer \<open>rules for flows that only look outside\<close>

lemma externalD: "external m \<Longrightarrow> run_state m s = (x, s') \<Longrightarrow> m_db s' = m_db s \<and> m_inFlight s' = m_inFlight s"
  by (metis external_def snd_conv)

lemma external_outside [outer]: "external (outside f)"
  by (auto simp: external_def outside_def split: prod.split)

lemma external_return [outer]: "external (ret x)"
  by (simp add: external_def State_Monad.return_def)

lemma external_bind [outer]: "external m \<Longrightarrow> (\<And>x. external (f x)) \<Longrightarrow> external (State_Monad.bind m f)"
  unfolding external_def by (auto simp: State_Monad.bind_def split: prod.split) (metis snd_conv)+

lemma external_if [outer]: "external m \<Longrightarrow> external n \<Longrightarrow> external (if b then m else n)"
  by simp

lemma external_case_sum [outer]: "(\<And>e. external (f e)) \<Longrightarrow> (\<And>x. external (g x)) \<Longrightarrow> external (case r of Inl e \<Rightarrow> f e | Inr x \<Rightarrow> g x)"
  by (cases r) auto

lemma external_case_option [outer]: "external f \<Longrightarrow> (\<And>x. external (g x)) \<Longrightarrow> external (case r of None \<Rightarrow> f | Some x \<Rightarrow> g x)"
  by (cases r) auto

lemma external_case_prod [outer]: "(\<And>x y. external (f x y)) \<Longrightarrow> external (case r of (x, y) \<Rightarrow> f x y)"
  by (cases r) auto

lemma external_case_list [outer]: "external f \<Longrightarrow> (\<And>x xs. external (g x xs)) \<Longrightarrow> external (case r of [] \<Rightarrow> f | x # xs \<Rightarrow> g x xs)"
  by (cases r) auto

lemma external_extract_entries [outer]: "external (extract_entries F dest entries)"
  by (induction F dest entries rule: extract_entries.induct) (auto intro!: outer simp: Let_def)

lemma external_remove_volumes [outer]: "external (remove_volumes M ctx vs)"
  by (induction vs) (auto intro!: outer)

lemma external_teardown: "external (teardown M ctx a)"
  unfolding teardown_def archiveTranscript_def extractTranscriptDir_def extractTranscriptFile_def saveTranscriptMetadata_def
    remove_container_def remove_network_def Let_def
  by (intro outer)

end
