(* ===== verification/Flow_Safety.thy ===== *)
theory Flow_Safety
  imports Flow_Logic
begin

section \<open>What the agent flows leave alone\<close>

text \<open>
  Every flow works on one agent. The locale \<open>manager_world\<close> collects what the flows rely on: the
  daemon's contract, the store's laws, and that the file store and the ID generator touch no
  Docker object. The locale \<open>guarded_flow\<close> fixes an agent \<open>i\<close> and what must survive: volumes,
  networks and containers that are not the agent's, the records of all other agents, and the
  registry of operations in flight. Its lemmas follow the call structure of the code from the
  single call up to the flows.
\<close>

subsection \<open>Calls that touch no object\<close>

definition quiet_call :: "'w observer \<Rightarrow> ('w \<Rightarrow> bool) \<Rightarrow> ('w \<Rightarrow> 'a \<times> 'w) \<Rightarrow> bool" where
  "quiet_call Ob sound f \<longleftrightarrow> (\<forall>w. sound w \<longrightarrow> sound (snd (f w)) \<and> same_objects Ob w (snd (f w)))"

definition quiet_files :: "'w observer \<Rightarrow> ('w \<Rightarrow> bool) \<Rightarrow> 'w files \<Rightarrow> bool" where
  "quiet_files Ob sound F \<longleftrightarrow>
     (\<forall>i. quiet_call Ob sound (fi_EnsureAgentDir F i)) \<and> quiet_call Ob sound (fi_EnsureSharedDir F) \<and>
     (\<forall>i. quiet_call Ob sound (fi_RemoveAgentDir F i)) \<and> (\<forall>p. quiet_call Ob sound (fi_Mkdir F p)) \<and>
     (\<forall>p c n. quiet_call Ob sound (fi_Save F p c n))"

locale manager_world =
  docker_client "mg_docker M" "mg_clock M" Ob sound nameable contexts +
  agent_store "mg_bolt M" "mg_agents M" "\<lambda>_. True"
  for M :: "('r, 'd, 'w) Manager" and Ob :: "'w observer" and sound :: "'w \<Rightarrow> bool"
    and nameable :: "string \<Rightarrow> bool" and contexts :: "'w ctx set" +
  assumes files_quiet: "mg_files M = Some F \<Longrightarrow> quiet_files Ob sound F"
    and newID_quiet: "quiet_call Ob sound (mg_newID M)"
    and container_names: "nameable (agentContainerName j)" "nameable (dindContainerName j)"
begin

lemma quiet_callI: "(\<And>w. sound w \<Longrightarrow> sound (snd (f w)) \<and> same_objects Ob w (snd (f w))) \<Longrightarrow> quiet_call Ob sound f"
  by (simp add: quiet_call_def)

lemma quiet_callD: "quiet_call Ob sound f \<Longrightarrow> f w = (x, w1) \<Longrightarrow> sound w \<Longrightarrow> sound w1 \<and> same_objects Ob w w1"
  by (metis quiet_call_def snd_conv)

lemma quiet_docker [flow]:
  "quiet_call Ob sound (dk_VolumeList (mg_docker M) c ls)"
  "quiet_call Ob sound (dk_NetworkList (mg_docker M) c ls)"
  "quiet_call Ob sound (dk_NetworkConnect (mg_docker M) c n r)"
  "quiet_call Ob sound (dk_NetworkDisconnect (mg_docker M) c n r)"
  "quiet_call Ob sound (dk_ContainerStart (mg_docker M) c r)"
  "quiet_call Ob sound (dk_ContainerStop (mg_docker M) c r t)"
  "quiet_call Ob sound (dk_ContainerInspect (mg_docker M) c r)"
  "quiet_call Ob sound (dk_ContainerList (mg_docker M) c ls)"
  "quiet_call Ob sound (dk_CopyFromContainer (mg_docker M) c r p)"
  "quiet_call Ob sound (dk_ExecCreate (mg_docker M) c r x)"
  "quiet_call Ob sound (dk_ExecAttach (mg_docker M) c r)"
  "quiet_call Ob sound (dk_ExecRead (mg_docker M) c r)"
  "quiet_call Ob sound (dk_ExecInspect (mg_docker M) c r)"
  "quiet_call Ob sound (dk_ImageInspect (mg_docker M) c r)"
  "quiet_call Ob sound (dk_ImagePull (mg_docker M) c r)"
  "quiet_call Ob sound (dk_ImageList (mg_docker M) c r)"
  "quiet_call Ob sound (dk_ImageRemove (mg_docker M) c r)"
  by (rule quiet_callI, erule quiet [OF refl])+

lemma quiet_now [flow]: "quiet_call Ob sound (ck_Now (mg_clock M))"
  by (rule quiet_callI) (metis now_quiet prod.collapse)

lemma quiet_sleep [flow]: "quiet_call Ob sound (ck_Sleep (mg_clock M) c t)"
  by (rule quiet_callI) (metis sleep_quiet prod.collapse)

lemma quiet_without_cancel [flow]: "quiet_call Ob sound without_cancel"
  by (rule quiet_callI) (simp add: without_cancel_def)

lemma quiet_with_timeout [flow]:
  assumes "quiet_call Ob sound ctx"
  shows "quiet_call Ob sound (with_timeout M t ctx)"
proof (rule quiet_callI)
  fix w assume w: "sound w"
  obtain e w1 where c: "ctx w = (e, w1)" by (rule prod.exhaust)
  obtain t1 w2 where n: "ck_Now (mg_clock M) w1 = (t1, w2)" by (rule prod.exhaust)
  have 1: "sound w1 \<and> same_objects Ob w w1" by (rule quiet_callD [OF assms c w])
  have "sound w2 \<and> same_objects Ob w1 w2" using quiet_callD [OF quiet_now n] 1 by simp
  then have 2: "sound w2 \<and> same_objects Ob w w2" using 1 same_objects_trans [of Ob w w1 w2] by simp
  then show "sound (snd (with_timeout M t ctx w)) \<and> same_objects Ob w (snd (with_timeout M t ctx w))"
    unfolding with_timeout_def c prod.case n using 1 2 by (cases e) simp_all
qed

lemma quiet_context: "c \<in> contexts \<Longrightarrow> quiet_call Ob sound c"
  by (rule quiet_callI, erule (1) context_quiet [OF _ refl])

lemma quiet_file_calls [flow]:
  assumes "mg_files M = Some F"
  shows "quiet_call Ob sound (fi_EnsureAgentDir F j)" "quiet_call Ob sound (fi_EnsureSharedDir F)"
    "quiet_call Ob sound (fi_RemoveAgentDir F j)" "quiet_call Ob sound (fi_Mkdir F p)" "quiet_call Ob sound (fi_Save F p c n)"
  using files_quiet [OF assms] by (simp_all add: quiet_files_def)

end

subsection \<open>An agent and what is not its own\<close>

definition harmless :: "(string \<times> string) set \<Rightarrow> string \<Rightarrow> bool" where
  "harmless Cs ref \<longleftrightarrow> (\<forall>p \<in> Cs. \<not> answers_to ref p)"

text \<open>
  A record is \<open>mine\<close> when its names are the ones its ID gives and the container IDs in it do not
  answer for any container of \<open>Cs\<close>. Before the names are stamped (\<open>nm\<close> is false) they may still be
  empty.
\<close>

definition mine :: "string \<Rightarrow> (string \<times> string) set \<Rightarrow> bool \<Rightarrow> Agent \<Rightarrow> bool" where
  "mine i Cs nm a \<longleftrightarrow> ag_ID a = i \<and>
     (\<not> nm \<and> ag_ContainerName a = [] \<or> ag_ContainerName a = agentContainerName i) \<and>
     (\<not> nm \<and> ag_DindContainerName a = [] \<or> ag_DindContainerName a = dindContainerName i) \<and>
     (\<not> nm \<and> ag_DinernetName a = [] \<or> ag_DinernetName a = dinernetName i) \<and>
     (\<not> nm \<and> ag_WorkspaceVolume a = [] \<or> ag_WorkspaceVolume a = workspaceVolumeName i) \<and>
     (\<not> nm \<and> ag_ClaudeConfigVolume a = [] \<or> ag_ClaudeConfigVolume a = claudeConfigVolumeName i) \<and>
     (\<not> nm \<and> ag_DindCacheVolume a = [] \<or> ag_DindCacheVolume a = dindCacheVolumeName i) \<and>
     (ag_ContainerID a = [] \<or> harmless Cs (ag_ContainerID a)) \<and>
     (ag_DindContainerID a = [] \<or> harmless Cs (ag_DindContainerID a))"

lemma mine_ID: "mine i Cs nm a \<Longrightarrow> ag_ID a = i"
  by (simp add: mine_def)

lemma mine_updates [flow_simps]:
  "mine i Cs nm (a\<lparr>ag_Status := st\<rparr>) = mine i Cs nm a"
  "mine i Cs nm (a\<lparr>ag_ErrorMessage := m\<rparr>) = mine i Cs nm a"
  "mine i Cs nm (a\<lparr>ag_UpdatedAt := t\<rparr>) = mine i Cs nm a"
  "mine i Cs nm (a\<lparr>ag_ImageID := x\<rparr>) = mine i Cs nm a"
  "mine i Cs nm (a\<lparr>ag_DinernetID := x\<rparr>) = mine i Cs nm a"
  "mine i Cs nm (a\<lparr>ag_DependaproxyDinernetIP := x\<rparr>) = mine i Cs nm a"
  by (simp_all add: mine_def)

lemma mine_set_ID:
  "mine i Cs nm a \<Longrightarrow> x = [] \<or> harmless Cs x \<Longrightarrow> mine i Cs nm (a\<lparr>ag_ContainerID := x\<rparr>)"
  "mine i Cs nm a \<Longrightarrow> x = [] \<or> harmless Cs x \<Longrightarrow> mine i Cs nm (a\<lparr>ag_DindContainerID := x\<rparr>)"
  by (simp_all add: mine_def)

lemma derived_fields:
  assumes "ag_ID a \<noteq> []"
  shows "ag_ID (withDerivedNames a) = ag_ID a"
    "ag_ContainerID (withDerivedNames a) = ag_ContainerID a" "ag_DindContainerID (withDerivedNames a) = ag_DindContainerID a"
    "ag_ContainerName (withDerivedNames a) = firstNonEmpty [ag_ContainerName a, agentContainerName (ag_ID a)]"
    "ag_DindContainerName (withDerivedNames a) = firstNonEmpty [ag_DindContainerName a, dindContainerName (ag_ID a)]"
    "ag_DinernetName (withDerivedNames a) = firstNonEmpty [ag_DinernetName a, dinernetName (ag_ID a)]"
    "ag_WorkspaceVolume (withDerivedNames a) = firstNonEmpty [ag_WorkspaceVolume a, workspaceVolumeName (ag_ID a)]"
    "ag_ClaudeConfigVolume (withDerivedNames a) = firstNonEmpty [ag_ClaudeConfigVolume a, claudeConfigVolumeName (ag_ID a)]"
    "ag_DindCacheVolume (withDerivedNames a) = firstNonEmpty [ag_DindCacheVolume a, dindCacheVolumeName (ag_ID a)]"
  using assms by (simp_all add: withDerivedNames_def agentContainerName_def dindContainerName_def dinernetName_def workspaceVolumeName_def
      claudeConfigVolumeName_def dindCacheVolumeName_def resourcePrefix_def)

lemma first_own: "x = [] \<or> x = y \<Longrightarrow> firstNonEmpty [x, y] = y"
  by auto

lemma derived_names:
  assumes "mine i Cs nm a" and "i \<noteq> []"
  shows "ag_ContainerName (withDerivedNames a) = agentContainerName i" "ag_DindContainerName (withDerivedNames a) = dindContainerName i"
    "ag_DinernetName (withDerivedNames a) = dinernetName i" "ag_WorkspaceVolume (withDerivedNames a) = workspaceVolumeName i"
    "ag_ClaudeConfigVolume (withDerivedNames a) = claudeConfigVolumeName i"
    "ag_DindCacheVolume (withDerivedNames a) = dindCacheVolumeName i"
proof -
  have "ag_ID a \<noteq> []" using assms by (simp add: mine_def)
  note d = derived_fields [OF this]
  show "ag_ContainerName (withDerivedNames a) = agentContainerName i" "ag_DindContainerName (withDerivedNames a) = dindContainerName i"
    "ag_DinernetName (withDerivedNames a) = dinernetName i" "ag_WorkspaceVolume (withDerivedNames a) = workspaceVolumeName i"
    "ag_ClaudeConfigVolume (withDerivedNames a) = claudeConfigVolumeName i"
    "ag_DindCacheVolume (withDerivedNames a) = dindCacheVolumeName i"
    using assms(1) unfolding mine_def d by (auto simp del: firstNonEmpty.simps intro!: first_own)
qed

definition guarded :: "('r, 'd, 'w) Manager \<Rightarrow> 'w observer \<Rightarrow> ('w \<Rightarrow> bool) \<Rightarrow> string \<Rightarrow> bool \<Rightarrow> string set \<Rightarrow> string set \<Rightarrow>
    (string \<times> string) set \<Rightarrow> (string \<Rightarrow> store_error + Agent) \<Rightarrow> opRegistry \<Rightarrow> ('d, 'w) manager \<Rightarrow> bool" where
  "guarded M Ob sound i nm Vs Ns Cs recs flight s \<longleftrightarrow>
     sound (m_docker s) \<and> Vs \<subseteq> ob_volumes Ob (m_docker s) \<and> Ns \<subseteq> ob_networks Ob (m_docker s) \<and>
     Cs \<subseteq> ob_containers Ob (m_docker s) \<and>
     readable (mg_bolt M) (mg_agents M) (m_db s) \<and>
     (\<forall>k. k \<noteq> i \<longrightarrow> Get (mg_bolt M) (mg_agents M) None k (m_db s) = recs k) \<and>
     (\<forall>a. Get (mg_bolt M) (mg_agents M) None i (m_db s) = Inr a \<longrightarrow> mine i Cs nm a) \<and>
     m_inFlight s = flight"

locale guarded_flow = manager_world M Ob sound nameable contexts
  for M :: "('r, 'd, 'w) Manager" and Ob :: "'w observer" and sound :: "'w \<Rightarrow> bool"
    and nameable :: "string \<Rightarrow> bool" and contexts :: "'w ctx set" +
  fixes i :: string and nm :: bool and Vs Ns :: "string set" and Cs :: "(string \<times> string) set"
    and recs :: "string \<Rightarrow> store_error + Agent" and flight :: opRegistry
  assumes own_names: "harmless Cs (agentContainerName i)" "harmless Cs (dindContainerName i)"
    and no_empty_ID: "recs [] \<noteq> Inr a" "i \<noteq> []"
begin

definition I :: "('d, 'w) manager \<Rightarrow> bool" where
  "I = guarded M Ob sound i nm Vs Ns Cs recs flight"

lemma own_ID: "mine i Cs nm a \<Longrightarrow> ag_ID a = i"
  by (rule mine_ID)

lemma keeps_removing:
  assumes "\<And>w x w1. f w = (x, w1) \<Longrightarrow> sound w \<Longrightarrow> sound w1 \<and> removes_at_most Ob vs ns cs w w1"
    and "vs \<inter> Vs = {}" and "ns \<inter> Ns = {}" and "\<And>c. c \<in> cs \<Longrightarrow> harmless Cs c" and "\<And>x. V x"
  shows "keeps I (outside f) V"
proof (rule keeps_outside, rule conjI)
  fix s x w assume s: "I s" and f: "f (m_docker s) = (x, w)"
  show "V x" by (rule assms)
  have "sound w" and r: "removes_at_most Ob vs ns cs (m_docker s) w"
    using assms(1) [OF f] s by (simp_all add: I_def guarded_def)
  moreover have "Vs \<subseteq> ob_volumes Ob w" "Ns \<subseteq> ob_networks Ob w"
    using r s assms(2,3) by (auto simp: I_def guarded_def removes_at_most_def)
  moreover have "Cs \<subseteq> ob_containers Ob w"
    using r s assms(4) unfolding I_def guarded_def removes_at_most_def harmless_def by blast
  ultimately show "I (s\<lparr>m_docker := w\<rparr>)" using s by (simp add: I_def guarded_def)
qed

lemma keeps_quiet: "quiet_call Ob sound f \<Longrightarrow> (\<And>x. V x) \<Longrightarrow> keeps I (outside f) V"
  by (rule keeps_removing [where vs = "{}" and ns = "{}" and cs = "{}"]) (auto dest: quiet_callD intro: same_removes)

lemma keeps_quiet_sum [flow]:
  "quiet_call Ob sound f \<Longrightarrow> (\<And>e. V (Inl e)) \<Longrightarrow> (\<And>x. V (Inr x)) \<Longrightarrow> keeps I (outside f) V"
  by (rule keeps_quiet) (auto split: sum.split intro: sum.induct)

lemma keeps_quiet_option [flow]:
  "quiet_call Ob sound f \<Longrightarrow> V None \<Longrightarrow> (\<And>e. V (Some e)) \<Longrightarrow> keeps I (outside f) V"
  by (rule keeps_quiet) (auto intro: option.induct)

lemma keeps_now [flow]: "(\<And>t. V t) \<Longrightarrow> keeps I (outside (ck_Now (mg_clock M))) V"
  by (rule keeps_quiet [OF quiet_now])

subsection \<open>Records\<close>

lemma keeps_store_Get [flow]:
  assumes "quiet_call Ob sound ctx" and "\<And>e. V (Inl e)" and "\<And>a. mine i Cs nm a \<Longrightarrow> V (Inr a)"
  shows "keeps I (store_Get M ctx i) V"
  unfolding store_Get_def
proof (intro keeps_bind keeps_quiet assms(1) keeps_reading)
  fix e s assume s: "I s"
  show "V (Get (mg_bolt M) (mg_agents M) e i (m_db s))"
  proof (cases "Get (mg_bolt M) (mg_agents M) e i (m_db s)")
    case (Inr a)
    then have "Get (mg_bolt M) (mg_agents M) None i (m_db s) = Inr a" by (simp add: Get_Inr)
    then show ?thesis using s Inr assms(3) by (simp add: I_def guarded_def)
  qed (simp add: assms(2))
qed

lemma guarded_db:
  assumes "I s" and "readable (mg_bolt M) (mg_agents M) d"
    and "\<And>k. k \<noteq> i \<Longrightarrow> Get (mg_bolt M) (mg_agents M) None k d = Get (mg_bolt M) (mg_agents M) None k (m_db s)"
    and "\<And>a. Get (mg_bolt M) (mg_agents M) None i d = Inr a \<Longrightarrow> mine i Cs nm a"
  shows "I (s\<lparr>m_db := d\<rparr>)"
  using assms by (simp add: I_def guarded_def)

lemma keeps_store_Update [flow]:
  assumes "quiet_call Ob sound ctx" and "j = i \<or> j = []"
    and "\<And>a b. mine i Cs nm a \<Longrightarrow> f a = Inr b \<Longrightarrow> mine i Cs nm b"
    and "\<And>e. V (Inl e)" and "\<And>a. mine i Cs nm a \<Longrightarrow> V (Inr a)"
  shows "keeps I (store_Update M ctx j f) V"
  unfolding store_Update_def
proof (intro keeps_bind keeps_quiet assms(1) quiet_now keeps_on_store)
  fix e t s r d
  assume s: "I s" and u: "Update (mg_bolt M) (mg_agents M) e t j (Some f) (m_db s) = (r, d)"
  show "V r \<and> I (s\<lparr>m_db := d\<rparr>)"
  proof (cases r)
    case (Inl e)
    then show ?thesis using Update_error [OF u [unfolded Inl]] s assms(4) by simp
  next
    case (Inr a')
    have rd: "readable (mg_bolt M) (mg_agents M) (m_db s)" using s by (simp add: I_def guarded_def)
    obtain before b where g: "Get (mg_bolt M) (mg_agents M) None j (m_db s) = Inr before" and f: "f before = Inr b"
      and a': "a' = b\<lparr>ag_UpdatedAt := t\<rparr>" and g': "Get (mg_bolt M) (mg_agents M) None j d = Inr a'"
      and rd': "readable (mg_bolt M) (mg_agents M) d"
      using Update_stored [OF u [unfolded Inr] rd] by (metis keeps_clean_def)
    have "j = i" using g s assms(2) no_empty_ID by (auto simp: I_def guarded_def)
    then have "mine i Cs nm before" using g s by (simp add: I_def guarded_def)
    then have "mine i Cs nm a'" using assms(3) [OF _ f] by (simp add: a' mine_def)
    then show ?thesis
      using Inr assms(5) Update_other [OF u rd] g' rd' \<open>j = i\<close> by (auto intro!: guarded_db [OF s])
  qed
qed

lemma keeps_store_Delete [flow]:
  assumes "quiet_call Ob sound ctx" and "\<And>e. V (Inl e)" and "V (Inr ())"
  shows "keeps I (store_Delete M ctx i) V"
  unfolding store_Delete_def
proof (intro keeps_bind keeps_quiet assms(1) keeps_on_store)
  fix e s r d
  assume s: "I s" and u: "Delete (mg_bolt M) e i (m_db s) = (r, d)"
  show "V r \<and> I (s\<lparr>m_db := d\<rparr>)"
  proof (cases r)
    case (Inl e)
    have "d = m_db s" using u [unfolded Inl Delete_def delete_record_def] by (rule update_error)
    then show ?thesis using Inl s assms(2) by simp
  next
    case (Inr x)
    have g: "b_Get (mg_bolt M) m k d = (if m = bucketAgents \<and> k = i then None else b_Get (mg_bolt M) m k (m_db s))"
      and b: "b_Bucket (mg_bolt M) m d = b_Bucket (mg_bolt M) m (m_db s)" for m k
      using delete_record_ok u [unfolded Inr Delete_def] by blast+
    have "I (s\<lparr>m_db := d\<rparr>)"
    proof (rule guarded_db [OF s])
      show "readable (mg_bolt M) (mg_agents M) d" using s by (simp add: I_def guarded_def readable_def g)
      show "Get (mg_bolt M) (mg_agents M) None k d = Get (mg_bolt M) (mg_agents M) None k (m_db s)" if "k \<noteq> i" for k
        by (rule Get_other) (simp_all add: g b that)
      show "mine i Cs nm a" if "Get (mg_bolt M) (mg_agents M) None i d = Inr a" for a
        using that by (simp add: Get_Inr g)
    qed
    then show ?thesis using Inr assms(3) by simp
  qed
qed

lemma keeps_store_Create [flow]:
  assumes "quiet_call Ob sound ctx" and "cs_ID spec = i" and "\<not> nm" and "\<And>e. V (Inl e)" and "\<And>a. mine i Cs nm a \<Longrightarrow> V (Inr a)"
  shows "keeps I (store_Create M ctx spec) V"
  unfolding store_Create_def
proof (intro keeps_bind keeps_quiet assms(1) quiet_now keeps_on_store)
  fix e t s r d
  assume s: "I s" and u: "Create (mg_bolt M) (mg_agents M) (mg_maxAgents M) e t spec (m_db s) = (r, d)"
  show "V r \<and> I (s\<lparr>m_db := d\<rparr>)"
  proof (cases r)
    case (Inl e)
    then show ?thesis using Create_error [OF u [unfolded Inl]] s assms(4) by simp
  next
    case (Inr a)
    note p = Create_ok [OF u [unfolded Inr]]
    have a: "a = new_agent spec t" using put_ok(1) [OF p(1)] by simp
    have "mine i Cs nm a" using assms(2,3) by (simp add: a mine_def new_agent_def)
    moreover have "I (s\<lparr>m_db := d\<rparr>)"
    proof (rule guarded_db [OF s])
      show "readable (mg_bolt M) (mg_agents M) d" using put_readable [OF p(1)] s by (simp add: I_def guarded_def)
      show "Get (mg_bolt M) (mg_agents M) None k d = Get (mg_bolt M) (mg_agents M) None k (m_db s)" if "k \<noteq> i" for k
        using Get_after_put [OF p(1) _ p(4)] that assms(2) by (simp add: new_agent_def)
      show "mine i Cs nm b" if "Get (mg_bolt M) (mg_agents M) None i d = Inr b" for b
        using Get_after_put [OF p(1) _ p(4)] that assms(2) calculation a by (simp add: new_agent_def)
    qed
    ultimately show ?thesis using Inr assms(5) by simp
  qed
qed

subsection \<open>Steps on the record\<close>

lemma keeps_flow_stamp [flow]:
  "quiet_call Ob sound ctx \<Longrightarrow> mine i Cs nm a \<Longrightarrow> (\<And>ag. mine i Cs nm ag \<Longrightarrow> mine i Cs nm (mutate ag)) \<Longrightarrow>
   (\<And>e. V (Inl e)) \<Longrightarrow> (\<And>a. mine i Cs nm a \<Longrightarrow> V (Inr a)) \<Longrightarrow> keeps I (flow_stamp M ctx a what mutate) V"
  unfolding flow_stamp_def by (auto intro!: flow simp: flow_simps mine_ID)

lemma keeps_flow_markShielded [flow]:
  "quiet_call Ob sound ctx \<Longrightarrow> (\<And>e. V (Inl e)) \<Longrightarrow> (\<And>b. V (Inr b)) \<Longrightarrow> keeps I (flow_markShielded M ctx i from) V"
  unfolding flow_markShielded_def by (auto intro!: flow simp: shield_Inr flow_simps)

lemma keeps_markRunning [flow]:
  "quiet_call Ob sound ctx \<Longrightarrow> mine i Cs nm a \<Longrightarrow> (\<And>e. V (Inl e)) \<Longrightarrow> (\<And>a. mine i Cs nm a \<Longrightarrow> V (Inr a)) \<Longrightarrow>
   keeps I (markRunning M ctx a) V"
  unfolding markRunning_def by (auto intro!: flow simp: flow_simps)

lemma keeps_markRebuildError [flow]: "j = i \<Longrightarrow> V () \<Longrightarrow> keeps I (markRebuildError M j cause) V"
  unfolding markRebuildError_def by (auto intro!: flow mine_set_ID simp: flow_simps)

lemma keeps_stampNames [flow]:
  "quiet_call Ob sound ctx \<Longrightarrow> mine i Cs nm a \<Longrightarrow> (\<And>e. V (Inl e)) \<Longrightarrow> (\<And>a. mine i Cs nm a \<Longrightarrow> V (Inr a)) \<Longrightarrow>
   keeps I (stampNames M ctx a) V"
  unfolding stampNames_def Let_def by (rule keeps_flow_stamp) (simp_all add: mine_def)

lemma keeps_stampImageID [flow]:
  "quiet_call Ob sound ctx \<Longrightarrow> mine i Cs nm a \<Longrightarrow> (\<And>a. mine i Cs nm a \<Longrightarrow> V a) \<Longrightarrow> keeps I (stampImageID M ctx a) V"
  unfolding stampImageID_def by (auto intro!: flow simp: flow_simps)

subsection \<open>Archiving and tearing down\<close>

lemma keeps_extract_entries [flow]:
  assumes "mg_files M = Some F"
  shows "(\<And>errs. V errs) \<Longrightarrow> keeps I (extract_entries F dest entries) V"
proof (induction entries arbitrary: V)
  case (Cons entry entries)
  obtain name regular content where "entry = (name, regular, content)" by (rule prod_cases3)
  then show ?case
    unfolding \<open>entry = _\<close> extract_entries.simps Let_def
    by (intro flow keeps_quiet quiet_file_calls [OF assms] Cons)
qed (simp add: keeps_return)

lemma keeps_saveTranscriptMetadata [flow]:
  "mg_files M = Some F \<Longrightarrow> (\<And>r. V r) \<Longrightarrow> keeps I (saveTranscriptMetadata M F dest a t) V"
  unfolding saveTranscriptMetadata_def by (auto intro!: flow)

lemma keeps_extractTranscriptDir [flow]:
  "mg_files M = Some F \<Longrightarrow> (\<And>r. V r) \<Longrightarrow> keeps I (extractTranscriptDir M F archive dest) V"
  unfolding extractTranscriptDir_def by (auto intro!: flow)

lemma keeps_extractTranscriptFile [flow]:
  "mg_files M = Some F \<Longrightarrow> (\<And>r. V r) \<Longrightarrow> keeps I (extractTranscriptFile M F archive dest) V"
  unfolding extractTranscriptFile_def by (auto intro!: flow split: prod.split list.split option.split)

lemma keeps_archiveTranscript [flow]: "quiet_call Ob sound ctx \<Longrightarrow> V () \<Longrightarrow> keeps I (archiveTranscript M ctx a) V"
  unfolding archiveTranscript_def Let_def by (auto intro!: flow)

lemma keeps_ContainerRemove:
  "harmless Cs ref \<Longrightarrow> (\<And>x. V x) \<Longrightarrow> keeps I (outside (dk_ContainerRemove (mg_docker M) ctx ref)) V"
  by (rule keeps_removing [where vs = "{}" and ns = "{}" and cs = "{ref}"]) (auto dest: container_remove)

lemma keeps_NetworkRemove: "name \<notin> Ns \<Longrightarrow> (\<And>x. V x) \<Longrightarrow> keeps I (outside (dk_NetworkRemove (mg_docker M) ctx name)) V"
  by (rule keeps_removing [where vs = "{}" and ns = "{name}" and cs = "{}"]) (auto dest: network_remove)

lemma keeps_VolumeRemove: "v \<notin> Vs \<Longrightarrow> (\<And>x. V x) \<Longrightarrow> keeps I (outside (dk_VolumeRemove (mg_docker M) ctx v)) V"
  by (rule keeps_removing [where vs = "{v}" and ns = "{}" and cs = "{}"]) (auto dest: volume_remove)

lemma keeps_remove_container [flow]:
  "ref = [] \<or> harmless Cs ref \<Longrightarrow> (\<And>x. V x) \<Longrightarrow> keeps I (remove_container M ctx what ref) V"
  unfolding remove_container_def
  by (rule keeps_if) (auto intro: keeps_return, intro keeps_bind keeps_quiet [OF quiet_docker(6)] keeps_ContainerRemove keeps_return)

lemma keeps_remove_network [flow]:
  "name = [] \<or> name \<notin> Ns \<Longrightarrow> (\<And>x. V x) \<Longrightarrow> keeps I (remove_network M ctx name) V"
  unfolding remove_network_def
  by (rule keeps_if) (auto intro: keeps_return, intro keeps_bind keeps_quiet [OF quiet_docker(4)] keeps_NetworkRemove keeps_return)

lemma keeps_remove_volumes [flow]:
  "\<forall>v \<in> set vs. v = [] \<or> v \<notin> Vs \<Longrightarrow> (\<And>x. V x) \<Longrightarrow> keeps I (remove_volumes M ctx vs) V"
proof (induction vs arbitrary: V)
  case (Cons v vs)
  have rest: "keeps I (remove_volumes M ctx vs) W" if "\<And>x. W x" for W using Cons.prems(1) that by (intro Cons.IH) simp
  show ?case
    unfolding remove_volumes.simps
  proof (rule keeps_if)
    assume "v \<noteq> []"
    then have "v \<notin> Vs" using Cons.prems(1) by simp
    then show "keeps I (outside (dk_VolumeRemove (mg_docker M) ctx v) \<bind>
        (\<lambda>r. remove_volumes M ctx vs \<bind> (\<lambda>errs. ret (wrapped ''removing volume'' r @ errs)))) V"
      by (intro keeps_bind keeps_VolumeRemove rest keeps_return Cons.prems(2))
  qed (intro rest Cons.prems(2))
qed (simp add: keeps_return)

definition separate :: bool where
  "separate \<longleftrightarrow> workspaceVolumeName i \<notin> Vs \<and> claudeConfigVolumeName i \<notin> Vs \<and> dindCacheVolumeName i \<notin> Vs \<and> dinernetName i \<notin> Ns"

lemma first_two: "x = [] \<or> P x \<Longrightarrow> y = [] \<or> P y \<Longrightarrow> firstNonEmpty [x, y] = [] \<or> P (firstNonEmpty [x, y])"
  by auto

lemma first_three: "x = [] \<or> P x \<Longrightarrow> y = [] \<or> P y \<Longrightarrow> P z \<Longrightarrow> P (firstNonEmpty [x, y, z])"
  by auto

lemma mine_refs:
  "mine i Cs nm a \<Longrightarrow> ag_ContainerID a = [] \<or> harmless Cs (ag_ContainerID a)"
  "mine i Cs nm a \<Longrightarrow> ag_DindContainerID a = [] \<or> harmless Cs (ag_DindContainerID a)"
  "mine i Cs nm a \<Longrightarrow> ag_ContainerName a = [] \<or> harmless Cs (ag_ContainerName a)"
  "mine i Cs nm a \<Longrightarrow> ag_DindContainerName a = [] \<or> harmless Cs (ag_DindContainerName a)"
  using own_names unfolding mine_def by metis+

lemma own_container_refs:
  assumes "mine i Cs nm a"
  shows "firstNonEmpty [ag_ContainerID a, ag_ContainerName a] = [] \<or> harmless Cs (firstNonEmpty [ag_ContainerID a, ag_ContainerName a])"
    "harmless Cs (firstNonEmpty [ag_ContainerID a, ag_ContainerName a, agentContainerName (ag_ID a)])"
    "firstNonEmpty [ag_DindContainerID a, ag_DindContainerName a] = [] \<or> harmless Cs (firstNonEmpty [ag_DindContainerID a, ag_DindContainerName a])"
    "harmless Cs (firstNonEmpty [ag_DindContainerID a, ag_DindContainerName a, dindContainerName (ag_ID a)])"
  unfolding mine_ID [OF assms]
  by (rule first_two [where P = "harmless Cs"] first_three [where P = "harmless Cs"], (rule mine_refs [OF assms] own_names)+)+

lemma mine_derived: "mine i Cs nm a \<Longrightarrow> mine i Cs nm (withDerivedNames a)"
  using derived_names [of i Cs nm a] no_empty_ID(2) by (simp add: mine_def derived_fields)

lemma keeps_teardown [flow]:
  assumes "quiet_call Ob sound ctx" and "mine i Cs nm a" and separate and "\<And>r. V r"
  shows "keeps I (teardown M ctx a) V"
proof -
  have a: "mine i Cs nm (withDerivedNames a)" using assms(2) by (rule mine_derived)
  have "ag_DinernetName (withDerivedNames a) = [] \<or> ag_DinernetName (withDerivedNames a) \<notin> Ns"
    "\<forall>v \<in> set [ag_WorkspaceVolume (withDerivedNames a), ag_ClaudeConfigVolume (withDerivedNames a), ag_DindCacheVolume (withDerivedNames a)].
       v = [] \<or> v \<notin> Vs"
    using assms(3) by (simp_all add: separate_def derived_names [OF assms(2) no_empty_ID(2)])
  then show ?thesis
    unfolding teardown_def Let_def by (intro flow own_container_refs assms a)
qed

lemma keeps_removeAgentContainer [flow]:
  "mine i Cs nm a \<Longrightarrow> (\<And>r. V r) \<Longrightarrow> keeps I (removeAgentContainer M ctx a) V"
  unfolding removeAgentContainer_def by (intro flow disjI2 own_container_refs)

lemma keeps_rollback [flow]: "mine i Cs nm a \<Longrightarrow> separate \<Longrightarrow> V () \<Longrightarrow> keeps I (rollback M a) V"
  unfolding rollback_def Let_def by (auto intro!: flow simp: mine_ID)

subsection \<open>Building up\<close>

lemma keeps_ensureImage [flow]: "(\<And>r. V r) \<Longrightarrow> keeps I (ensureImage M ctx ref) V"
  unfolding ensureImage_def by (auto intro!: flow)

lemma keeps_ensureImages [flow]: "(\<And>r. V r) \<Longrightarrow> keeps I (ensureImages M ctx a) V"
  unfolding ensureImages_def by (auto intro!: flow split: sum.split)

lemma keeps_create_volumes [flow]: "(\<And>r. V r) \<Longrightarrow> keeps I (create_volumes M ctx j vs) V"
proof (induction vs arbitrary: V)
  case (Cons v vs)
  have create: "keeps I (outside (dk_VolumeCreate (mg_docker M) ctx spec)) W" if "\<And>x. W x" for W spec
    by (rule keeps_removing [where vs = "{}" and ns = "{}" and cs = "{}"]) (auto dest: volume_create intro: that)
  show ?case unfolding create_volumes.simps by (intro keeps_bind create keeps_case_sum keeps_return Cons)
qed (simp add: keeps_return)

lemma keeps_createVolumes [flow]: "(\<And>r. V r) \<Longrightarrow> keeps I (createVolumes M ctx a) V"
  unfolding createVolumes_def by (rule keeps_create_volumes)

lemma keeps_ensureAgentFiles [flow]: "(\<And>r. V r) \<Longrightarrow> keeps I (ensureAgentFiles M a) V"
  unfolding ensureAgentFiles_def by (auto intro!: flow split: sum.split)

lemma keeps_NetworkCreate: "(\<And>x. V x) \<Longrightarrow> keeps I (outside (dk_NetworkCreate (mg_docker M) ctx spec)) V"
  by (rule keeps_removing [where vs = "{}" and ns = "{}" and cs = "{}"]) (auto dest: network_create)

lemma keeps_createDinernet [flow]:
  assumes "quiet_call Ob sound ctx" and "mine i Cs nm a" and "\<And>e. V (Inl e)" and "\<And>a. mine i Cs nm a \<Longrightarrow> V (Inr a)"
  shows "keeps I (createDinernet M ctx a) V"
  unfolding createDinernet_def
proof (intro keeps_and_then keeps_wrapping keeps_NetworkCreate)
  fix r :: "store_error + Network"
  show "case wrap_error ''creating network'' r of Inl e \<Rightarrow> V (Inl e)
      | Inr n \<Rightarrow> keeps I (flow_stamp M ctx a ''the dinernet id'' (\<lambda>ag. ag\<lparr>ag_DinernetID := net_ID n\<rparr>)) V"
    by (cases r) (auto intro!: flow assms simp: flow_simps)
qed

lemma keeps_ContainerCreate:
  assumes "nameable (sp_Name spec)" and "\<And>e. V (Inl e)" and "\<And>c. harmless Cs c \<Longrightarrow> V (Inr c)"
  shows "keeps I (outside (dk_ContainerCreate (mg_docker M) ctx spec)) V"
proof (rule keeps_outside)
  fix s r w assume s: "I s" and c: "dk_ContainerCreate (mg_docker M) ctx spec (m_docker s) = (r, w)"
  have l: "sound w" "removes_at_most Ob {} {} {} (m_docker s) w"
    "\<And>j p. r = Inr j \<Longrightarrow> p \<in> ob_containers Ob (m_docker s) \<Longrightarrow> \<not> answers_to j p"
    using container_create [OF c _ assms(1)] s by (auto simp: I_def guarded_def)
  have "V r"
  proof (cases r)
    case (Inr j)
    then have "harmless Cs j" using l(3) s by (auto simp: I_def guarded_def harmless_def)
    then show ?thesis using Inr assms(3) by simp
  qed (simp add: assms(2))
  moreover have "I (s\<lparr>m_docker := w\<rparr>)"
    using s l(1,2) unfolding I_def guarded_def removes_at_most_def by (auto simp: subset_iff)
  ultimately show "V r \<and> I (s\<lparr>m_docker := w\<rparr>)" ..
qed

subsection \<open>Waiting\<close>

lemma keeps_retry_until [flow]: "(\<And>r. V r) \<Longrightarrow> keeps I (retry_until M ctx deadline late cancelled) V"
  unfolding retry_until_def by (auto intro!: flow)

lemma keeps_polls: "(\<And>W. (\<And>r. W r) \<Longrightarrow> keeps I body W) \<Longrightarrow> (\<And>r. V r) \<Longrightarrow> keeps I (poll n body) V"
  by (rule keeps_conseq [OF keeps_poll [where V = "\<lambda>_. True"]]) simp_all

lemma keeps_waitHealthy [flow]: "(\<And>r. V r) \<Longrightarrow> keeps I (waitHealthy M ctx j) V"
  unfolding waitHealthy_def health_check_def by (intro flow keeps_polls)

lemma keeps_awaitExec [flow]: "(\<And>r. V r) \<Longrightarrow> keeps I (awaitExec M ctx x) V"
  unfolding awaitExec_def exec_check_def by (intro flow keeps_polls)

lemma keeps_runExec [flow]: "(\<And>r. V r) \<Longrightarrow> keeps I (runExec M ctx c cmd) V"
  unfolding runExec_def by (auto intro!: flow simp: flow_simps split: sum.split)

lemma keeps_waitTmuxSession [flow]: "(\<And>r. V r) \<Longrightarrow> keeps I (waitTmuxSession M ctx a) V"
  unfolding waitTmuxSession_def tmux_check_def by (intro flow keeps_polls)

lemma keeps_verifyDependaproxyReachable [flow]: "V () \<Longrightarrow> keeps I (verifyDependaproxyReachable M ctx a) V"
  unfolding verifyDependaproxyReachable_def reach_check_def Let_def by (intro flow keeps_polls)

lemma keeps_refreshDependaproxyIPFile [flow]: "V () \<Longrightarrow> keeps I (refreshDependaproxyIPFile M ctx a) V"
  unfolding refreshDependaproxyIPFile_def by (intro flow)

subsection \<open>The two containers\<close>

lemma named: "mine i Cs nm a \<Longrightarrow> nm \<Longrightarrow> ag_ContainerName a = agentContainerName i \<and> ag_DindContainerName a = dindContainerName i"
  by (simp add: mine_def)

lemma keeps_startDind [flow]:
  assumes "quiet_call Ob sound ctx" and "mine i Cs nm a" and nm and "\<And>a r. mine i Cs nm a \<Longrightarrow> V (a, r)"
  shows "keeps I (startDind M ctx a) V"
  unfolding startDind_def
proof (intro keeps_bind keeps_wrapping keeps_ContainerCreate)
  show "nameable (sp_Name (dindSpec M a))"
    using named [OF assms(2,3)] container_names by (simp add: dindSpec_def)
qed (auto intro!: flow assms mine_set_ID simp: flow_simps)

lemma keeps_recreateDind [flow]:
  "quiet_call Ob sound ctx \<Longrightarrow> mine i Cs nm a \<Longrightarrow> nm \<Longrightarrow> (\<And>a r. mine i Cs nm a \<Longrightarrow> V (a, r)) \<Longrightarrow> keeps I (recreateDind M ctx a) V"
  unfolding recreateDind_def by (intro flow disjI2 own_container_refs)

lemma keeps_connectDependaproxy [flow]:
  "quiet_call Ob sound ctx \<Longrightarrow> mine i Cs nm a \<Longrightarrow> (\<And>e. V (Inl e)) \<Longrightarrow> (\<And>a. mine i Cs nm a \<Longrightarrow> V (Inr a)) \<Longrightarrow>
   keeps I (connectDependaproxy M ctx a) V"
  unfolding connectDependaproxy_def by (auto intro!: flow simp: flow_simps)

lemma keeps_stampDependaproxyIP [flow]:
  "quiet_call Ob sound ctx \<Longrightarrow> mine i Cs nm a \<Longrightarrow> (\<And>b a. mine i Cs nm a \<Longrightarrow> V (b, a)) \<Longrightarrow> keeps I (stampDependaproxyIP M ctx a addr) V"
  unfolding stampDependaproxyIP_def by (auto intro!: flow simp: flow_simps)

lemma keeps_syncDependaproxyDinernetIP [flow]:
  "quiet_call Ob sound ctx \<Longrightarrow> mine i Cs nm a \<Longrightarrow> (\<And>b a. mine i Cs nm a \<Longrightarrow> V (b, a)) \<Longrightarrow>
   keeps I (syncDependaproxyDinernetIP M ctx a) V"
  unfolding syncDependaproxyDinernetIP_def by (auto intro!: flow)

lemma agentSpec_name: "agentSpec M a rb args = Inr spec \<Longrightarrow> sp_Name spec = ag_ContainerName a"
  by (auto simp: agentSpec_def split: sum.splits)

lemma keeps_startAgentContainer [flow]:
  assumes "quiet_call Ob sound ctx" and "mine i Cs nm a" and nm and "\<And>a r. mine i Cs nm a \<Longrightarrow> V (a, r)"
  shows "keeps I (startAgentContainer M ctx a rb args) V"
  unfolding startAgentContainer_def
proof (intro keeps_case_sum keeps_return assms keeps_bind keeps_wrapping keeps_ContainerCreate)
  fix spec assume "agentSpec M a rb args = Inr spec"
  then show "nameable (sp_Name spec)" using agentSpec_name named [OF assms(2,3)] container_names by simp
qed (auto intro!: flow assms mine_set_ID simp: flow_simps)

lemma keeps_wake_dind [flow]:
  assumes "quiet_call Ob sound ctx" and "mine i Cs nm a" and nm and "\<And>r. V r"
  shows "keeps I (wake_dind M ctx a ref n) V"
proof (induction n)
  case (Suc n)
  show ?case unfolding wake_dind.simps by (intro flow assms Suc)
next
  case 0
  show ?case unfolding wake_dind.simps by (intro flow assms)
qed

lemma keeps_ensureDindRunning [flow]:
  "quiet_call Ob sound ctx \<Longrightarrow> mine i Cs nm a \<Longrightarrow> nm \<Longrightarrow> (\<And>r. V r) \<Longrightarrow> keeps I (ensureDindRunning M ctx a) V"
  unfolding ensureDindRunning_def Let_def by (intro flow)

lemma keeps_rebuild_failed [flow]: "j = i \<Longrightarrow> (\<And>e. V (Inl e)) \<Longrightarrow> keeps I (rebuild_failed M j e) V"
  unfolding rebuild_failed_def by (intro flow)

lemma keeps_rebuildAgentContainer [flow]:
  assumes "quiet_call Ob sound ctx" and "mine i Cs nm a" and nm and "\<And>e. V (Inl e)" and "\<And>a. mine i Cs nm a \<Longrightarrow> V (Inr a)"
  shows "keeps I (rebuildAgentContainer M ctx a rb) V"
  unfolding rebuildAgentContainer_def Let_def by (auto intro!: flow assms simp: own_ID own_ID [OF assms(2)])

subsection \<open>Requests\<close>

lemma keeps_store_reads [flow]:
  "quiet_call Ob sound ctx \<Longrightarrow> (\<And>r. V1 r) \<Longrightarrow> keeps I (store_GetAgentImageTags M ctx h) V1"
  "quiet_call Ob sound ctx \<Longrightarrow> (\<And>r. V2 r) \<Longrightarrow> keeps I (store_DefaultAnthropicAccountID M ctx) V2"
  "quiet_call Ob sound ctx \<Longrightarrow> (\<And>r. V3 r) \<Longrightarrow> keeps I (store_GetAnthropicAccount M ctx j) V3"
  "quiet_call Ob sound ctx \<Longrightarrow> (\<And>r. V4 r) \<Longrightarrow> keeps I (store_List M ctx) V4"
  unfolding store_GetAgentImageTags_def store_DefaultAnthropicAccountID_def store_GetAnthropicAccount_def store_List_def
  by (intro keeps_bind keeps_quiet keeps_reading, assumption+)+

lemma keeps_resolveAgentImageRef [flow]:
  "quiet_call Ob sound ctx \<Longrightarrow> (\<And>r. V r) \<Longrightarrow> keeps I (resolveAgentImageRef M ctx tag h) V"
  unfolding resolveAgentImageRef_def defaultAgentImageRef_def defaultImageTagFor_def flow_AgentImageTags_def localImageTags_def Let_def
  by (intro flow)

lemma outcomes:
  "(\<And>e. r = Inl e \<Longrightarrow> P e) \<Longrightarrow> (\<And>x. r = Inr x \<Longrightarrow> Q x) \<Longrightarrow> (case r of Inl e \<Rightarrow> P e | Inr x \<Rightarrow> Q x)"
  "(\<And>a r. p = (a, r) \<Longrightarrow> R a r) \<Longrightarrow> (case p of (a, r) \<Rightarrow> R a r)"
  by (auto split: sum.split prod.split)

lemma keeps_choose_account [flow]:
  "quiet_call Ob sound ctx \<Longrightarrow> (\<And>r. V r) \<Longrightarrow> keeps I (choose_account M ctx req acc) V"
  unfolding choose_account_def by (auto intro!: flow split: sum.split)

lemma keeps_resolveBackend [flow]:
  "quiet_call Ob sound ctx \<Longrightarrow> (\<And>r. V r) \<Longrightarrow> keeps I (resolveBackend M ctx req acc) V"
  unfolding resolveBackend_def Let_def by (intro flow outcomes)

lemma keeps_resolveSpec [flow]:
  "quiet_call Ob sound ctx \<Longrightarrow> (\<And>r. V r) \<Longrightarrow> keeps I (resolveSpec M ctx req acc) V"
  unfolding resolveSpec_def by (auto intro!: flow split: sum.split)

lemma keeps_resolveBackendFromAgent [flow]:
  "quiet_call Ob sound ctx \<Longrightarrow> (\<And>r. V r) \<Longrightarrow> keeps I (resolveBackendFromAgent M ctx a) V"
  unfolding resolveBackendFromAgent_def by (rule keeps_resolveBackend)

subsection \<open>The bodies of the flows\<close>

lemma keeps_delete_body:
  assumes "quiet_call Ob sound ctx" and separate
  shows "keeps I (delete_body M ctx i) (\<lambda>_. True)"
  unfolding delete_body_def mark_deleting_def by (auto intro!: flow assms simp: flow_simps split: sum.split)

lemma keeps_failUpdate [flow]: "j = i \<or> j = [] \<Longrightarrow> (\<And>e. V (Inl e)) \<Longrightarrow> keeps I (failUpdate M j e) V"
  unfolding failUpdate_def by (auto intro!: flow mine_set_ID simp: flow_simps)

lemma mine_updated: "mine i Cs nm a \<Longrightarrow> mine i Cs nm (updated_fields i req rs ref a)"
proof -
  assume m: "mine i Cs nm a"
  have f: "firstNonEmpty [ag_ContainerName a, agentContainerName i] = agentContainerName i"
    "firstNonEmpty [ag_DinernetName a, dinernetName i] = dinernetName i"
    "firstNonEmpty [ag_WorkspaceVolume a, workspaceVolumeName i] = workspaceVolumeName i"
    "firstNonEmpty [ag_ClaudeConfigVolume a, claudeConfigVolumeName i] = claudeConfigVolumeName i"
    by (rule first_own, use m in \<open>auto simp: mine_def\<close>)+
  show ?thesis using m by (simp add: updated_fields_def mine_def f del: firstNonEmpty.simps)
qed

lemma keeps_update_start [flow]:
  assumes "quiet_call Ob sound ctx" and "mine i Cs nm a" and nm and "\<And>a r. mine i Cs nm a \<Longrightarrow> V (a, r)"
  shows "keeps I (update_start M ctx a rb) V"
  unfolding update_start_def by (auto intro!: flow assms split: sum.split)

lemma keeps_update_tail [flow]:
  assumes "quiet_call Ob sound ctx" and "mine i Cs nm a" and nm and "\<And>e. V (Inl e)" and "\<And>a. mine i Cs nm a \<Longrightarrow> V (Inr a)"
  shows "keeps I (update_tail M ctx i req rs ref a) V"
  unfolding update_tail_def
  by (auto intro!: flow assms mine_updated simp: own_ID own_ID [OF assms(2)])

lemma keeps_update_body:
  assumes "quiet_call Ob sound ctx" and nm
  shows "keeps I (update_body M ctx i req) (\<lambda>r. \<forall>a. r = Inr a \<longrightarrow> mine i Cs nm a)"
  unfolding update_body_def
  by (auto intro!: flow assms simp: flow_simps mark_updating_def split: sum.split if_splits)

lemma keeps_resume_body:
  assumes "quiet_call Ob sound ctx" and nm
  shows "keeps I (resume_body M ctx i) (\<lambda>r. \<forall>a. r = Inr a \<longrightarrow> mine i Cs nm a)"
  unfolding resume_body_def
  by (auto intro!: flow assms simp: own_ID)

lemma keeps_wakeAgent:
  assumes "quiet_call Ob sound ctx" and "mine i Cs nm a" and nm
  shows "keeps I (wakeAgent M ctx a) (\<lambda>_. True)"
  unfolding wakeAgent_def by (auto intro!: flow assms simp: own_ID own_ID [OF assms(2)])

lemma keeps_cleanupStuckRecord:
  assumes "quiet_call Ob sound ctx" and "mine i Cs nm a" and "ag_Status a = StatusUpdating \<or> separate"
  shows "keeps I (cleanupStuckRecord M ctx a) (\<lambda>_. True)"
  using assms(3) unfolding cleanupStuckRecord_def own_ID [OF assms(2)]
  by (auto intro!: flow assms(1,2) simp: flow_simps split: sum.split)

end

end
