(* ===== verification/Flow_Properties.thy ===== *)
theory Flow_Properties
  imports Flow_Safety
begin

section \<open>What the agent flows guarantee\<close>

text \<open>
  The properties of the flows, for every daemon, store and file store that keep their promises
  (\<open>manager_world\<close>), with the in-memory daemon and the reference database as the instance. What a
  flow may touch comes from the lemmas of \<open>Flow_Safety\<close>, what it achieves from weakest
  preconditions on the steps that matter.
\<close>

subsection \<open>The world of the tests\<close>

lemma quiet_pure: "quiet_call Ob sound (\<lambda>w. (x, w))"
  by (simp add: quiet_call_def)

lemma names_are_names: "is_name (agentContainerName j)" "is_name (dindContainerName j)"
  by (simp_all add: is_name_def agentContainerName_def dindContainerName_def resourcePrefix_def is_hex_def)

lemma sample_agents: "agent_store account_bolt agent_json (\<lambda>_. True)"
  using sample_account_store by (simp add: agent_store_def record_store_def agent_json_codec account_store_def)

interpretation tests: manager_world sample_Manager fake_view fake_sound is_name pure_contexts
proof -
  have D: "docker_client (mg_docker sample_Manager) (mg_clock sample_Manager) fake_view fake_sound is_name pure_contexts"
    by (simp add: sample_Manager_def fake.docker_client_axioms)
  have S: "agent_store (mg_bolt sample_Manager) (mg_agents sample_Manager) (\<lambda>_. True)"
    by (simp add: sample_Manager_def sample_agents)
  show "manager_world sample_Manager fake_view fake_sound is_name pure_contexts"
    by (intro manager_world.intro manager_world_axioms.intro D S)
       (simp_all add: sample_Manager_def quiet_pure names_are_names)
qed

subsection \<open>Where a flow starts\<close>

definition own_containers :: "string \<Rightarrow> string set" where
  "own_containers i = {agentContainerName i, dindContainerName i}"

definition own_volumes :: "string \<Rightarrow> string set" where
  "own_volumes i = {workspaceVolumeName i, claudeConfigVolumeName i, dindCacheVolumeName i}"

definition others :: "'w observer \<Rightarrow> string \<Rightarrow> 'w \<Rightarrow> (string \<times> string) set" where
  "others Ob i w = {p \<in> ob_containers Ob w. snd p \<notin> own_containers i}"

text \<open>
  The record of the agent refers to its own objects only: its names are the ones its ID gives
  (with \<open>nm\<close>) or empty, and a container ID in it belongs to no container of another name.
\<close>

definition ready :: "('r, 'd, 'w) Manager \<Rightarrow> 'w observer \<Rightarrow> ('w \<Rightarrow> bool) \<Rightarrow> string \<Rightarrow> bool \<Rightarrow> ('d, 'w) manager \<Rightarrow> bool" where
  "ready M Ob sound i nm s \<longleftrightarrow>
     i \<noteq> [] \<and> sound (m_docker s) \<and> readable (mg_bolt M) (mg_agents M) (m_db s) \<and>
     (\<forall>a. Get (mg_bolt M) (mg_agents M) None [] (m_db s) \<noteq> Inr a) \<and>
     (\<forall>a. Get (mg_bolt M) (mg_agents M) None i (m_db s) = Inr a \<longrightarrow> mine i (others Ob i (m_docker s)) nm a)"

text \<open>What a flow on agent \<open>i\<close> leaves as it was: all of this, except what it may remove.\<close>

definition untouched :: "('r, 'd, 'w) Manager \<Rightarrow> 'w observer \<Rightarrow> string \<Rightarrow> string set \<Rightarrow> string set \<Rightarrow> ('d, 'w) manager \<Rightarrow> ('d, 'w) manager \<Rightarrow> bool" where
  "untouched M Ob i vs ns s s' \<longleftrightarrow>
     ob_volumes Ob (m_docker s) - vs \<subseteq> ob_volumes Ob (m_docker s') \<and>
     ob_networks Ob (m_docker s) - ns \<subseteq> ob_networks Ob (m_docker s') \<and>
     others Ob i (m_docker s) \<subseteq> ob_containers Ob (m_docker s') \<and>
     (\<forall>k. k \<noteq> i \<longrightarrow> Get (mg_bolt M) (mg_agents M) None k (m_db s') = Get (mg_bolt M) (mg_agents M) None k (m_db s)) \<and>
     m_inFlight s' = m_inFlight s"

text \<open>The guard of a flow that starts in \<open>s\<close>.\<close>

definition guard_at :: "('r, 'd, 'w) Manager \<Rightarrow> 'w observer \<Rightarrow> ('w \<Rightarrow> bool) \<Rightarrow> string \<Rightarrow> bool \<Rightarrow> string set \<Rightarrow> string set \<Rightarrow>
    ('d, 'w) manager \<Rightarrow> opRegistry \<Rightarrow> ('d, 'w) manager \<Rightarrow> bool" where
  "guard_at M Ob sound i nm vs ns s =
     guarded M Ob sound i nm (ob_volumes Ob (m_docker s) - vs) (ob_networks Ob (m_docker s) - ns)
       (others Ob i (m_docker s)) (\<lambda>k. Get (mg_bolt M) (mg_agents M) None k (m_db s))"

lemma guard_start: "ready M Ob sound i nm s \<Longrightarrow> guard_at M Ob sound i nm vs ns s (m_inFlight s) s"
  by (auto simp: ready_def guard_at_def guarded_def others_def)

lemma guard_end: "guard_at M Ob sound i nm vs ns s (m_inFlight s) s' \<Longrightarrow> untouched M Ob i vs ns s s'"
  by (simp add: guard_at_def guarded_def untouched_def)

lemma guard_flow:
  assumes "manager_world M Ob sound nameable contexts" and "ready M Ob sound i nm s"
  shows "guarded_flow M Ob sound nameable contexts i (others Ob i (m_docker s)) (\<lambda>k. Get (mg_bolt M) (mg_agents M) None k (m_db s))"
proof -
  have "harmless (others Ob i (m_docker s)) n" if n: "n \<in> own_containers i" for n
  proof -
    have "nameable n" using n manager_world.container_names [OF assms(1)] by (auto simp: own_containers_def)
    moreover have "docker_client (mg_docker M) (mg_clock M) Ob sound nameable contexts"
      using assms(1) by (simp add: manager_world_def)
    moreover have "sound (m_docker s)" using assms(2) by (simp add: ready_def)
    ultimately have "fst p \<noteq> n" if "p \<in> others Ob i (m_docker s)" for p
      using docker_client.container_id [of _ _ Ob sound nameable contexts "m_docker s" p n] that by (simp add: others_def)
    then show ?thesis using n by (auto simp: harmless_def answers_to_def others_def)
  qed
  then show ?thesis
    using assms(2) by (intro guarded_flow.intro assms(1) guarded_flow_axioms.intro) (simp_all add: own_containers_def ready_def)
qed

subsection \<open>Claims\<close>

lemma run_claimed:
  assumes "holds (m_inFlight s) Ms" and run: "run_state (claimed i refused body) s = (x, s')"
  obtains "x = refused" and "s' = s"
  | s1 where "run_state body (s\<lparr>m_inFlight := op_begin i (m_inFlight s)\<rparr>) = (x, s1)"
      and "s' = s1\<lparr>m_inFlight := release i (m_inFlight s1)\<rparr>" and "i \<notin># Ms"
proof (cases "i \<in># Ms")
  case True
  then have "tryBegin i (m_inFlight s) = (False, m_inFlight s)" using holds_refs [OF assms(1), of i] by (simp add: tryBegin_def)
  moreover have "s\<lparr>m_inFlight := m_inFlight s\<rparr> = s" by (cases s) simp
  ultimately have "x = refused" "s' = s"
    using run by (simp_all add: claimed_def on_flight_def State_Monad.bind_def State_Monad.return_def)
  then show ?thesis by (rule that(1))
next
  case False
  then have t: "tryBegin i (m_inFlight s) = (True, op_begin i (m_inFlight s))"
    using holds_refs [OF assms(1), of i] by (simp add: tryBegin_def op_begin_def not_in_iff)
  obtain y s1 where b: "run_state body (s\<lparr>m_inFlight := op_begin i (m_inFlight s)\<rparr>) = (y, s1)" by (rule prod.exhaust)
  have "x = y" "s' = s1\<lparr>m_inFlight := release i (m_inFlight s1)\<rparr>"
    using run t b by (simp_all add: claimed_def on_flight_def State_Monad.bind_def State_Monad.return_def)
  then show ?thesis using that(2) b False by simp
qed

lemma keeps_claimed:
  assumes "holds r Ms" and body: "keeps (guard_at M Ob sound i nm vs ns s0 (op_begin i r)) body V"
  shows "keeps (guard_at M Ob sound i nm vs ns s0 r) (claimed i refused body) (\<lambda>x. x = refused \<or> V x)"
proof (rule keepsI)
  fix s x s'
  assume s: "guard_at M Ob sound i nm vs ns s0 r s" and run: "run_state (claimed i refused body) s = (x, s')"
  have fl: "m_inFlight s = r" using s by (simp add: guard_at_def guarded_def)
  with assms(1) have "holds (m_inFlight s) Ms" by simp
  from this run show "(x = refused \<or> V x) \<and> guard_at M Ob sound i nm vs ns s0 r s'"
  proof (cases rule: run_claimed)
    case (2 s1)
    have "guard_at M Ob sound i nm vs ns s0 (op_begin i r) (s\<lparr>m_inFlight := op_begin i r\<rparr>)"
      using s by (simp add: guard_at_def guarded_def)
    then have "V x \<and> guard_at M Ob sound i nm vs ns s0 (op_begin i r) s1" using keepsD [OF body] 2(1) fl by simp
    moreover have "release i (op_begin i r) = r" using holds_release_begin [OF assms(1) 2(3)] .
    ultimately show ?thesis using 2(2) by (simp add: guard_at_def guarded_def)
  qed (use s in simp)
qed

subsection \<open>Runs\<close>

lemma run_bindE:
  assumes "run_state (State_Monad.bind m f) s = (y, s2)"
  obtains x s1 where "run_state m s = (x, s1)" and "run_state (f x) s1 = (y, s2)"
  using assms by (auto simp: State_Monad.bind_def split: prod.splits)

lemma post_conseq: "post m R \<Longrightarrow> (\<And>x s. R x s \<Longrightarrow> Q x s) \<Longrightarrow> post m Q"
  by (auto intro!: postI dest: postD)

lemma run_return [simp]: "run_state (State_Monad.return x) s = (x, s)"
  by (simp add: State_Monad.return_def)

lemma run_and_thenE:
  assumes "run_state (and_then m f) s = (y, s2)"
  obtains e s1 where "run_state m s = (Inl e, s1)" and "y = Inl e" and "s2 = s1"
  | x s1 where "run_state m s = (Inr x, s1)" and "run_state (f x) s1 = (y, s2)"
  using assms unfolding and_then_def by (elim run_bindE) (auto split: sum.splits)

lemma run_wrappingE:
  assumes "run_state (wrapping msg m) s = (y, s2)"
  obtains r where "run_state m s = (r, s2)" and "y = wrap_error msg r"
  using assms unfolding wrapping_def by (elim run_bindE) auto

lemma wrap_error_ok: "Inr x = wrap_error msg r \<Longrightarrow> r = Inr x"
  by (cases r) (simp_all add: wrap_error_def)

lemma run_wrapping_ok: "run_state (wrapping msg m) s = (Inr x, s1) \<Longrightarrow> run_state m s = (Inr x, s1)"
proof (erule run_wrappingE)
  fix r assume "run_state m s = (r, s1)" and "Inr x = wrap_error msg r"
  then show "run_state m s = (Inr x, s1)" using wrap_error_ok [of x msg r] by simp
qed

lemma run_outside: "run_state (outside f) s = (x, s1) \<Longrightarrow> f (m_docker s) = (x, m_docker s1) \<and> m_db s1 = m_db s \<and> m_inFlight s1 = m_inFlight s"
  by (auto simp: outside_def split: prod.splits)

lemma run_on_store: "run_state (on_store f) s = (x, s1) \<Longrightarrow> f (m_db s) = (x, m_db s1)"
  by (auto simp: on_store_def split: prod.splits)

lemma run_store_Get:
  "run_state (store_Get M ctx j) s = (r, s1) \<Longrightarrow>
   m_db s1 = m_db s \<and> r = Get (mg_bolt M) (mg_agents M) (fst (ctx (m_docker s))) j (m_db s)"
  unfolding store_Get_def by (elim run_bindE) (auto dest!: run_outside run_on_store)

lemma run_store_Update:
  assumes "run_state (store_Update M ctx j f) s = (r, s1)"
  obtains e t where "Update (mg_bolt M) (mg_agents M) e t j (Some f) (m_db s) = (r, m_db s1)"
  using assms unfolding store_Update_def by (elim run_bindE) (metis run_outside run_on_store)

lemma run_store_Delete:
  assumes "run_state (store_Delete M ctx j) s = (r, s1)"
  obtains e where "Delete (mg_bolt M) e j (m_db s) = (r, m_db s1)"
  using assms unfolding store_Delete_def by (elim run_bindE) (metis run_outside run_on_store)

subsection \<open>Updating and resuming\<close>

definition stored_running :: "('r, 'd, 'w) Manager \<Rightarrow> Agent \<Rightarrow> ('d, 'w) manager \<Rightarrow> bool" where
  "stored_running M a s \<longleftrightarrow> ag_Status a = StatusRunning \<and> Get (mg_bolt M) (mg_agents M) None (ag_ID a) (m_db s) = Inr a"

context manager_world
begin

lemma post_markRunning: "post (markRunning M ctx a) (\<lambda>r s. \<forall>b. r = Inr b \<longrightarrow> stored_running M b s)"
proof (rule postI, intro allI impI)
  fix s r s1 b
  assume "run_state (markRunning M ctx a) s = (r, s1)" and "r = Inr b"
  then obtain e t where
    u: "Update (mg_bolt M) (mg_agents M) e t (ag_ID a) (Some (\<lambda>ag. Inr (ag\<lparr>ag_Status := StatusRunning, ag_ErrorMessage := []\<rparr>))) (m_db s) =
          (Inr b, m_db s1)"
    unfolding markRunning_def flow_stamp_def
    by (elim run_wrappingE run_store_Update) (auto simp: wrap_error_def split: sum.splits)
  from u show "stored_running M b s1"
  proof (rule Update_ok)
    fix f before c
    assume "Some (\<lambda>ag. Inr (ag\<lparr>ag_Status := StatusRunning, ag_ErrorMessage := []\<rparr>)) = Some f" and f: "f before = Inr c"
      and p: "put (mg_bolt M) (mg_agents M) (c\<lparr>ag_UpdatedAt := t\<rparr>) (m_db s) = (Inr b, m_db s1)"
      and bucket: "b_Bucket (mg_bolt M) bucketAgents (m_db s)"
    then have c: "c = before\<lparr>ag_Status := StatusRunning, ag_ErrorMessage := []\<rparr>" by auto
    have "b = c\<lparr>ag_UpdatedAt := t\<rparr>" using put_ok(1) [OF p] by simp
    then show ?thesis using Get_after_put [OF p _ bucket] c by (simp add: stored_running_def)
  qed
qed

lemma post_run_last:
  "post (updating a (markRunning M ctx a)) (\<lambda>(b, r) s. r = Inr () \<longrightarrow> stored_running M b s)"
  by (rule post_updating, rule post_conseq [OF post_markRunning]) (auto split: sum.splits)

lemma post_update_start: "post (update_start M ctx a rb) (\<lambda>(b, r) s. r = Inr () \<longrightarrow> stored_running M b s)"
  unfolding update_start_def by (intro ends post_run_last) simp_all

lemma post_failUpdate: "post (failUpdate M j e) (\<lambda>r s. \<forall>b. r = Inr b \<longrightarrow> stored_running M b s)"
  unfolding failUpdate_def by (intro ends) simp

lemma post_update_body: "post (update_body M ctx j req) (\<lambda>r s. \<forall>b. r = Inr b \<longrightarrow> stored_running M b s)"
  unfolding update_body_def update_tail_def
  by (intro post_failUpdate post_last [OF post_update_start] ends) (auto split: sum.splits dest: postD [OF post_failUpdate, rule_format])

lemma post_rebuildAgentContainer: "post (rebuildAgentContainer M ctx a rb) (\<lambda>r s. \<forall>b. r = Inr b \<longrightarrow> stored_running M b s)"
  unfolding rebuildAgentContainer_def Let_def
  by (intro post_last [OF post_markRunning] ends) (auto split: sum.splits prod.splits elim!: run_bindE)

lemma post_resume_body: "post (resume_body M ctx j) (\<lambda>r s. \<forall>b. r = Inr b \<longrightarrow> stored_running M b s)"
  unfolding resume_body_def rebuild_failed_def by (intro post_rebuildAgentContainer ends) simp_all

lemma post_build: "post (build M ctx a rb task) (\<lambda>(b, r) s. r = Inr () \<longrightarrow> stored_running M b s)"
  unfolding build_def by (intro ends post_run_last) simp_all

lemma post_claimed:
  assumes "post body (\<lambda>r s. \<forall>b. r = Inr b \<longrightarrow> stored_running M b s)"
  shows "post (claimed j (Inl e) body) (\<lambda>r s. \<forall>b. r = Inr b \<longrightarrow> stored_running M b s)"
  unfolding claimed_def
  by (intro ends post_last [OF assms]) (auto elim!: run_bindE simp: on_flight_def stored_running_def)

end

lemma guard_at_I:
  assumes "guarded_flow M Ob sound nameable contexts i (others Ob i (m_docker s)) (\<lambda>k. Get (mg_bolt M) (mg_agents M) None k (m_db s))"
  shows "guard_at M Ob sound i nm vs ns s r =
     guarded_flow.I M Ob sound i nm (ob_volumes Ob (m_docker s) - vs) (ob_networks Ob (m_docker s) - ns)
       (others Ob i (m_docker s)) (\<lambda>k. Get (mg_bolt M) (mg_agents M) None k (m_db s)) r"
  by (simp add: guard_at_def guarded_flow.I_def [OF assms])

lemma claimed_untouched:
  assumes "ready M Ob sound i nm s" and "holds (m_inFlight s) Ms"
    and "keeps (guard_at M Ob sound i nm vs ns s (op_begin i (m_inFlight s))) body V"
    and "run_state (claimed i refused body) s = (r, s')"
  shows "untouched M Ob i vs ns s s'"
  using keepsD [OF keeps_claimed [OF assms(2,3)] guard_start [OF assms(1)] assms(4)] guard_end by blast

text \<open>
  C18: an update or a resume never costs an agent its work. Whatever fails, and at whatever step,
  every volume and every network there was is still there, also the agent's own; no container
  but the agent's two is removed, no other record changes, and the claim on the agent is
  released. When the operation succeeds, the record it returns is the one stored, and it says
  that the agent runs.
\<close>

theorem update_and_resume_keep_work:
  assumes "manager_world M Ob sound nameable contexts" and "ctx \<in> contexts"
    and "ready M Ob sound i True s" and "holds (m_inFlight s) Ms"
    and "flow \<in> {flow_Update M ctx i req, ResumeAgent M ctx i}"
  shows "case run_state flow s of (r, s') \<Rightarrow>
     untouched M Ob i {} {} s s' \<and>
     (\<forall>a. r = Inr a \<longrightarrow> ag_Status a = StatusRunning \<and> Get (mg_bolt M) (mg_agents M) None (ag_ID a) (m_db s') = Inr a)"
proof -
  note gf = guard_flow [OF assms(1,3)]
  note q = manager_world.quiet_context [OF assms(1,2)]
  obtain body e where f: "flow = claimed i (Inl e) body" and b: "body = update_body M ctx i req \<or> body = resume_body M ctx i"
    using assms(5) by (auto simp: flow_Update_def ResumeAgent_def)
  have "keeps (guard_at M Ob sound i True {} {} s (op_begin i (m_inFlight s))) body (\<lambda>_. True)"
    unfolding guard_at_I [OF gf]
    using b by (auto intro: keeps_conseq [OF guarded_flow.keeps_update_body [OF gf q]] keeps_conseq [OF guarded_flow.keeps_resume_body [OF gf q]])
  moreover have "post body (\<lambda>r s. \<forall>b. r = Inr b \<longrightarrow> stored_running M b s)"
    using b manager_world.post_update_body [OF assms(1)] manager_world.post_resume_body [OF assms(1)] by auto
  ultimately have "untouched M Ob i {} {} s s' \<and> (\<forall>a. r = Inr a \<longrightarrow> stored_running M a s')"
    if "run_state flow s = (r, s')" for r s'
    using claimed_untouched [OF assms(3,4) _ that [unfolded f]] postD [OF manager_world.post_claimed [OF assms(1)] that [unfolded f]]
    by blast
  then show ?thesis by (simp add: stored_running_def split: prod.split)
qed

subsection \<open>Deleting\<close>

definition absent :: "'w observer \<Rightarrow> string set \<Rightarrow> string set \<Rightarrow> string set \<Rightarrow> 'w \<Rightarrow> bool" where
  "absent Ob vs ns cs w \<longleftrightarrow> vs \<inter> ob_volumes Ob w = {} \<and> ns \<inter> ob_networks Ob w = {} \<and>
     (\<forall>p \<in> ob_containers Ob w. \<forall>c \<in> cs. \<not> answers_to c p)"

lemma absent_adds: "absent Ob vs ns cs w \<Longrightarrow> adds_at_most Ob {} {} {} w w1 \<Longrightarrow> absent Ob vs ns cs w1"
  by (auto simp: absent_def adds_at_most_def)

lemma joined_ok [simp]: "joined errs = Inr u \<longleftrightarrow> errs = []"
  by (cases errs rule: errors_Join.cases) (auto simp: joined_def split: option.splits)

lemma wrapped_ok [simp]: "wrapped msg r = [] \<longleftrightarrow> (\<exists>x. r = Inr x)"
  by (auto simp: wrapped_def split: sum.splits)

context manager_world
begin

lemma quiet_absent:
  "quiet_call Ob sound f \<Longrightarrow> f w = (x, w1) \<Longrightarrow> sound w \<Longrightarrow> absent Ob vs ns cs w \<Longrightarrow> sound w1 \<and> absent Ob vs ns cs w1"
  using quiet_callD same_adds absent_adds by metis

lemma run_remove_container:
  assumes "run_state (remove_container M ctx what ref) s = (errs, s1)" and "sound (m_docker s)" and "absent Ob vs ns cs (m_docker s)"
  shows "sound (m_docker s1) \<and> absent Ob vs ns cs (m_docker s1) \<and> (errs = [] \<longrightarrow> ref \<noteq> [] \<longrightarrow> absent Ob vs ns (insert ref cs) (m_docker s1))"
proof (cases "ref = []")
  case False
  with assms(1) obtain r1 s2 r2 where a: "run_state (outside (dk_ContainerStop (mg_docker M) ctx ref (op_StopTimeout (mg_opts M)))) s = (r1, s2)"
    and b: "run_state (outside (dk_ContainerRemove (mg_docker M) ctx ref)) s2 = (r2, s1)"
    and errs: "errs = [] \<Longrightarrow> r2 = Inr ()"
    unfolding remove_container_def by (auto split: prod.splits)
  have 1: "sound (m_docker s2) \<and> absent Ob vs ns cs (m_docker s2)"
    by (rule quiet_absent [OF quiet_docker(6) conjunct1 [OF run_outside [OF a]] assms(2,3)])
  then have 2: "sound (m_docker s1) \<and> adds_at_most Ob {} {} {} (m_docker s2) (m_docker s1) \<and>
      (r2 = Inr () \<longrightarrow> (\<forall>p \<in> ob_containers Ob (m_docker s1). \<not> answers_to ref p))"
    using container_remove [OF conjunct1 [OF run_outside [OF b]]] by simp
  then have "absent Ob vs ns cs (m_docker s1)" using 1 by (simp add: absent_adds [of Ob vs ns cs "m_docker s2"])
  then show ?thesis using 2 errs by (auto simp: absent_def)
qed (use assms in \<open>auto simp: remove_container_def\<close>)

lemma run_remove_network:
  assumes "run_state (remove_network M ctx name) s = (errs, s1)" and "sound (m_docker s)" and "absent Ob vs ns cs (m_docker s)"
  shows "sound (m_docker s1) \<and> absent Ob vs ns cs (m_docker s1) \<and> (errs = [] \<longrightarrow> name \<noteq> [] \<longrightarrow> absent Ob vs (insert name ns) cs (m_docker s1))"
proof (cases "name = []")
  case False
  with assms(1) obtain r1 s2 r2 where
    a: "run_state (outside (dk_NetworkDisconnect (mg_docker M) ctx name (cf_DependaproxyContainer (mg_cfg M)))) s = (r1, s2)"
    and b: "run_state (outside (dk_NetworkRemove (mg_docker M) ctx name)) s2 = (r2, s1)"
    and errs: "errs = [] \<Longrightarrow> r2 = Inr ()"
    unfolding remove_network_def by (auto split: prod.splits)
  have 1: "sound (m_docker s2) \<and> absent Ob vs ns cs (m_docker s2)"
    by (rule quiet_absent [OF quiet_docker(4) conjunct1 [OF run_outside [OF a]] assms(2,3)])
  then have 2: "sound (m_docker s1) \<and> adds_at_most Ob {} {} {} (m_docker s2) (m_docker s1) \<and> (r2 = Inr () \<longrightarrow> name \<notin> ob_networks Ob (m_docker s1))"
    using network_remove [OF conjunct1 [OF run_outside [OF b]]] by simp
  then have "absent Ob vs ns cs (m_docker s1)" using 1 by (simp add: absent_adds [of Ob vs ns cs "m_docker s2"])
  then show ?thesis using 2 errs by (auto simp: absent_def)
qed (use assms in \<open>auto simp: remove_network_def\<close>)

lemma run_remove_volumes:
  assumes "run_state (remove_volumes M ctx us) s = (errs, s1)" and "sound (m_docker s)" and "absent Ob vs ns cs (m_docker s)"
  shows "sound (m_docker s1) \<and> absent Ob vs ns cs (m_docker s1) \<and> (errs = [] \<longrightarrow> absent Ob (vs \<union> (set us - {[]})) ns cs (m_docker s1))"
  using assms
proof (induction us arbitrary: s vs errs)
  case (Cons v us)
  show ?case
  proof (cases "v = []")
    case True
    then show ?thesis using Cons.IH Cons.prems by simp
  next
    case False
    with Cons.prems(1) obtain r s2 errs2 where
      a: "run_state (outside (dk_VolumeRemove (mg_docker M) ctx v)) s = (r, s2)"
      and b: "run_state (remove_volumes M ctx us) s2 = (errs2, s1)"
      and errs: "errs = wrapped ''removing volume'' r @ errs2"
      by (auto split: prod.splits)
    have 1: "sound (m_docker s2) \<and> adds_at_most Ob {} {} {} (m_docker s) (m_docker s2) \<and> (r = Inr () \<longrightarrow> v \<notin> ob_volumes Ob (m_docker s2))"
      using volume_remove [OF conjunct1 [OF run_outside [OF a]] Cons.prems(2)] by simp
    then have 2: "absent Ob vs ns cs (m_docker s2)" using Cons.prems(3) by (simp add: absent_adds [of Ob vs ns cs "m_docker s"])
    have "sound (m_docker s1) \<and> absent Ob vs ns cs (m_docker s1)" using Cons.IH [OF b] 1 2 by blast
    moreover have "absent Ob (vs \<union> (set (v # us) - {[]})) ns cs (m_docker s1)" if "errs = []"
    proof -
      have "absent Ob (insert v vs) ns cs (m_docker s2)" using 1 2 that errs by (auto simp: absent_def)
      then have "absent Ob (insert v vs \<union> (set us - {[]})) ns cs (m_docker s1)" using Cons.IH [OF b] 1 that errs by blast
      then show ?thesis by (rule rev_mp) (auto simp: absent_def)
    qed
    ultimately show ?thesis by blast
  qed
qed simp

end

text \<open>The record, as a deletion may leave it behind.\<close>

definition left_for_retry :: "Agent \<Rightarrow> Agent \<Rightarrow> bool" where
  "left_for_retry a b \<longleftrightarrow> b = a \<or> (\<exists>t. b = a\<lparr>ag_Status := StatusDeleting, ag_UpdatedAt := t\<rparr>)"

definition own_refs :: "string \<Rightarrow> Agent \<Rightarrow> string set" where
  "own_refs i a = {firstNonEmpty [ag_ContainerID a, agentContainerName i], firstNonEmpty [ag_DindContainerID a, dindContainerName i]}"

lemma left_refl [simp]: "left_for_retry a a"
  unfolding left_for_retry_def by blast

lemma left_refs: "left_for_retry a b \<Longrightarrow> own_refs i b = own_refs i a"
  by (auto simp: left_for_retry_def own_refs_def)

lemma names_nonempty [simp]: "agentContainerName i \<noteq> []" "dindContainerName i \<noteq> []" "dinernetName i \<noteq> []"
    "workspaceVolumeName i \<noteq> []" "claudeConfigVolumeName i \<noteq> []" "dindCacheVolumeName i \<noteq> []"
  by (simp_all add: agentContainerName_def dindContainerName_def dinernetName_def workspaceVolumeName_def
      claudeConfigVolumeName_def dindCacheVolumeName_def resourcePrefix_def)

lemma first_nonempty [simp]: "firstNonEmpty [x, y] = [] \<longleftrightarrow> x = [] \<and> y = []"
  by auto

lemma absent_empty: "absent Ob {} {} {} w"
  by (simp add: absent_def)

context guarded_flow
begin

lemma teardown_clears:
  assumes "run_state (teardown M ctx a) s = (Inr u, s1)" and "I s" and "quiet_call Ob sound ctx" and "mine i Cs nm a"
  shows "sound (m_docker s1) \<and> absent Ob (own_volumes i) {dinernetName i} (own_refs i a) (m_docker s1)"
proof -
  note d = derived_names [OF assms(4) no_empty_ID(2)] derived_fields [of a, unfolded own_ID [OF assms(4)], OF no_empty_ID(2)]
  obtain x1 s2 e1 s3 e2 s4 e3 s5 e4 s6 where
    r: "run_state (archiveTranscript M ctx (withDerivedNames a)) s = (x1, s2)"
      "run_state (remove_container M ctx ''agent container'' (firstNonEmpty [ag_ContainerID a, agentContainerName i])) s2 = (e1, s3)"
      "run_state (remove_container M ctx ''dind sidecar'' (firstNonEmpty [ag_DindContainerID a, dindContainerName i])) s3 = (e2, s4)"
      "run_state (remove_network M ctx (dinernetName i)) s4 = (e3, s5)"
      "run_state (remove_volumes M ctx [workspaceVolumeName i, claudeConfigVolumeName i, dindCacheVolumeName i]) s5 = (e4, s6)"
    and e: "run_state (ret (joined (e1 @ e2 @ e3 @ e4))) s6 = (Inr u, s1)"
    using assms(1) unfolding teardown_def Let_def d by (elim run_bindE)
  have ok: "e1 = []" "e2 = []" "e3 = []" "e4 = []" and s6: "s6 = s1" using e by simp_all
  have 2: "sound (m_docker s2)"
    using keepsD [OF keeps_archiveTranscript [OF assms(3), of "\<lambda>_. True"] assms(2) r(1)] by (simp add: I_def guarded_def)
  have 3: "sound (m_docker s3) \<and> absent Ob {} {} {firstNonEmpty [ag_ContainerID a, agentContainerName i]} (m_docker s3)"
    using run_remove_container [OF r(2) 2 absent_empty] ok by simp
  have 4: "sound (m_docker s4) \<and> absent Ob {} {} (own_refs i a) (m_docker s4)"
    using run_remove_container [OF r(3) conjunct1 [OF 3] conjunct2 [OF 3]] ok by (simp add: own_refs_def insert_commute)
  have 5: "sound (m_docker s5) \<and> absent Ob {} {dinernetName i} (own_refs i a) (m_docker s5)"
    using run_remove_network [OF r(4) conjunct1 [OF 4] conjunct2 [OF 4]] ok by simp
  have "set [workspaceVolumeName i, claudeConfigVolumeName i, dindCacheVolumeName i] - {[]} = own_volumes i"
    by (auto simp: own_volumes_def)
  then show ?thesis
    using run_remove_volumes [OF r(5) conjunct1 [OF 5] conjunct2 [OF 5]] ok by (simp add: s6)
qed

lemma run_mark_deleting:
  assumes "run_state (mark_deleting M ctx a i) s = (r, s1)" and "I s" and g: "Get (mg_bolt M) (mg_agents M) None i (m_db s) = Inr a"
  obtains b where "Get (mg_bolt M) (mg_agents M) None i (m_db s1) = Inr b" and "left_for_retry a b" and "\<And>c. r = Inr c \<Longrightarrow> c = b"
proof (cases "ag_Status a = StatusDeleting")
  case True
  then have r: "r = Inr a" and s1: "s1 = s" using assms(1) by (simp_all add: mark_deleting_def)
  show ?thesis by (rule that [of a]) (simp_all add: r s1 g)
next
  case False
  then have "run_state (wrapping ''marking agent deleting'' (store_Update M ctx i (\<lambda>ag. Inr (ag\<lparr>ag_Status := StatusDeleting\<rparr>)))) s = (r, s1)"
    using assms(1) by (simp add: mark_deleting_def)
  then obtain x where x: "run_state (store_Update M ctx i (\<lambda>ag. Inr (ag\<lparr>ag_Status := StatusDeleting\<rparr>))) s = (x, s1)"
    and r: "r = wrap_error ''marking agent deleting'' x"
    by (rule run_wrappingE)
  obtain e t where u: "Update (mg_bolt M) (mg_agents M) e t i (Some (\<lambda>ag. Inr (ag\<lparr>ag_Status := StatusDeleting\<rparr>))) (m_db s) = (x, m_db s1)"
    using run_store_Update [OF x] .
  show ?thesis
  proof (cases x)
    case (Inl e)
    then have "m_db s1 = m_db s" using Update_error [OF u [unfolded Inl]] by simp
    moreover have "r \<noteq> Inr c" for c using r Inl by (simp add: wrap_error_def)
    ultimately show ?thesis using that [of a] g by simp
  next
    case (Inr b)
    have "readable (mg_bolt M) (mg_agents M) (m_db s)" using assms(2) by (simp add: I_def guarded_def)
    moreover have "keeps_clean (\<lambda>_. True) t (\<lambda>ag. Inr (ag\<lparr>ag_Status := StatusDeleting\<rparr>))" by (simp add: keeps_clean_def)
    ultimately obtain before c where "Get (mg_bolt M) (mg_agents M) None i (m_db s) = Inr before" "Inr (before\<lparr>ag_Status := StatusDeleting\<rparr>) = (Inr c :: store_error + Agent)"
      and b: "b = c\<lparr>ag_UpdatedAt := t\<rparr>" and g1: "Get (mg_bolt M) (mg_agents M) None i (m_db s1) = Inr b"
      by (rule Update_stored [OF u [unfolded Inr]])
    then have "b = a\<lparr>ag_Status := StatusDeleting, ag_UpdatedAt := t\<rparr>" using g by simp
    then have "left_for_retry a b" unfolding left_for_retry_def by blast
    moreover have "c = b" if "r = Inr c" for c using that r Inr by (simp add: wrap_error_def)
    ultimately show ?thesis using that [OF g1] by blast
  qed
qed

lemma run_store_Delete_own:
  assumes "run_state (store_Delete M ctx i) s = (r, s1)" and "quiet_call Ob sound ctx" and "sound (m_docker s)"
  shows "absent Ob vs ns cs (m_docker s) \<Longrightarrow> absent Ob vs ns cs (m_docker s1)"
    and "r = Inl e \<Longrightarrow> m_db s1 = m_db s"
    and "r = Inr u \<Longrightarrow> Get (mg_bolt M) (mg_agents M) None i (m_db s1) \<noteq> Inr a"
proof -
  obtain x s2 where c: "run_state (outside ctx) s = (x, s2)" and d: "run_state (on_store (Delete (mg_bolt M) x i)) s2 = (r, s1)"
    using assms(1) unfolding store_Delete_def by (elim run_bindE)
  have s1: "m_docker s1 = m_docker s2" using d by (auto simp: on_store_def split: prod.splits)
  show "absent Ob vs ns cs (m_docker s1)" if "absent Ob vs ns cs (m_docker s)"
    using quiet_absent [OF assms(2) conjunct1 [OF run_outside [OF c]] assms(3) that] s1 by simp
  show "m_db s1 = m_db s" if "r = Inl e"
    using update_error [OF run_on_store [OF d, unfolded that Delete_def delete_record_def]] run_outside [OF c] by simp
  show "Get (mg_bolt M) (mg_agents M) None i (m_db s1) \<noteq> Inr a" if "r = Inr u"
    using delete_record_ok [OF run_on_store [OF d, unfolded that Delete_def], of bucketAgents i] by (simp add: Get_Inr)
qed

lemma keeps_mark_deleting:
  assumes "quiet_call Ob sound ctx" and "mine i Cs nm a"
  shows "keeps I (mark_deleting M ctx a i) (\<lambda>r. \<forall>b. r = Inr b \<longrightarrow> mine i Cs nm b)"
  unfolding mark_deleting_def by (auto intro!: flow assms simp: flow_simps)

lemma run_delete_found:
  assumes run: "run_state (and_then (mark_deleting M ctx a i) (\<lambda>a. and_then (wrapping ''deleting agent'' (teardown M ctx a))
      (\<lambda>_. wrapping ''deleting agent'' (store_Delete M ctx i)))) s = (r, s1)"
    and I: "I s" and q: "quiet_call Ob sound ctx" and g: "Get (mg_bolt M) (mg_agents M) None i (m_db s) = Inr a"
  obtains "r = Inr ()" and "\<And>b. Get (mg_bolt M) (mg_agents M) None i (m_db s1) \<noteq> Inr b"
      and "absent Ob (own_volumes i) {dinernetName i} (own_refs i a) (m_docker s1)"
    | e b where "r = Inl e" and "Get (mg_bolt M) (mg_agents M) None i (m_db s1) = Inr b" and "left_for_retry a b"
proof -
  have a: "mine i Cs nm a" using I g by (simp add: I_def guarded_def)
  from run show ?thesis
  proof (cases rule: run_and_thenE)
    case (1 e s2)
    then show ?thesis using run_mark_deleting [OF 1(1) I g] that(2) by metis
  next
    case (2 b s2)
    have I2: "I s2" and b: "mine i Cs nm b" using keepsD [OF keeps_mark_deleting [OF q a] I 2(1)] by simp_all
    have g2: "Get (mg_bolt M) (mg_agents M) None i (m_db s2) = Inr b" and l: "left_for_retry a b"
      using run_mark_deleting [OF 2(1) I g] by metis+
    from 2(2) show ?thesis
    proof (cases rule: run_and_thenE)
      case (1 e s3)
      then have "m_db s3 = m_db s2" by (elim run_wrappingE) (use externalD [OF external_teardown] in blast)
      then show ?thesis using that(2) 1 g2 l by simp
    next
      case (2 x s3)
      note t = run_wrapping_ok [OF 2(1)]
      obtain z where d: "run_state (store_Delete M ctx i) s3 = (z, s1)" and r: "r = wrap_error ''deleting agent'' z"
        using 2(2) by (rule run_wrappingE)
      have clear: "sound (m_docker s3) \<and> absent Ob (own_volumes i) {dinernetName i} (own_refs i a) (m_docker s3)"
        using teardown_clears [OF t I2 q b] left_refs [OF l] by simp
      note own = run_store_Delete_own [OF d q conjunct1 [OF clear]]
      show ?thesis
      proof (cases z)
        case (Inl e)
        have "m_db s1 = m_db s2" using own(2) [OF Inl] externalD [OF external_teardown t] by simp
        then show ?thesis using that(2) [OF _ _ l] r Inl g2 by (simp add: wrap_error_def)
      next
        case (Inr v)
        show ?thesis by (rule that(1)) (use r Inr own(1) [OF conjunct2 [OF clear]] own(3) [OF Inr] in \<open>simp_all add: wrap_error_def\<close>)
      qed
    qed
  qed
qed

lemma run_delete_body:
  assumes "run_state (delete_body M ctx i) s = (r, s1)" and I: "I s" and q: "quiet_call Ob sound ctx"
    and ctx: "\<And>w e. fst (ctx w) = Some e \<Longrightarrow> \<not> IsNotFound e"
  shows "case r of
      Inr _ \<Rightarrow> (\<forall>a. Get (mg_bolt M) (mg_agents M) None i (m_db s1) \<noteq> Inr a) \<and>
        (\<forall>a. Get (mg_bolt M) (mg_agents M) None i (m_db s) = Inr a \<longrightarrow> absent Ob (own_volumes i) {dinernetName i} (own_refs i a) (m_docker s1))
    | Inl e \<Rightarrow> \<forall>a. Get (mg_bolt M) (mg_agents M) None i (m_db s) = Inr a \<longrightarrow>
        (\<exists>b. Get (mg_bolt M) (mg_agents M) None i (m_db s1) = Inr b \<and> left_for_retry a b)"
proof -
  obtain g s2 where get: "run_state (store_Get M ctx i) s = (g, s2)"
    and rest: "run_state (case g of Inl e \<Rightarrow> if IsNotFound e then ret (Inr ()) else ret (Inl (Wrap ''deleting agent'' e))
      | Inr a \<Rightarrow> and_then (mark_deleting M ctx a i) (\<lambda>a. and_then (wrapping ''deleting agent'' (teardown M ctx a))
          (\<lambda>_. wrapping ''deleting agent'' (store_Delete M ctx i)))) s2 = (r, s1)"
    using assms(1) unfolding delete_body_def by (elim run_bindE)
  have I2: "I s2" using keepsD [OF keeps_store_Get [OF q, of "\<lambda>_. True"] I get] by simp
  have db: "m_db s2 = m_db s" and g: "g = Get (mg_bolt M) (mg_agents M) (fst (ctx (m_docker s))) i (m_db s)"
    using run_store_Get [OF get] by simp_all
  show ?thesis
  proof (cases g)
    case (Inl e)
    have "s1 = s2" using rest Inl by (simp split: if_splits)
    moreover have "Get (mg_bolt M) (mg_agents M) None i (m_db s) = Inl e" if "r = Inr u" for u
    proof -
      have "IsNotFound e" using rest Inl that by (simp split: if_splits)
      then have "fst (ctx (m_docker s)) = None"
        using g Inl ctx by (cases "fst (ctx (m_docker s))") (simp_all add: Get_def get_record_def view_def)
      then show ?thesis using g Inl by simp
    qed
    ultimately show ?thesis using db by (cases r) simp_all
  next
    case (Inr a)
    then have ga: "Get (mg_bolt M) (mg_agents M) None i (m_db s2) = Inr a" using g db by (simp add: Get_Inr)
    from rest [unfolded Inr sum.case] I2 q ga show ?thesis
      by (cases rule: run_delete_found) (use ga db in simp_all)
  qed
qed

end

text \<open>
  C17: a deletion is complete or can be retried. If it reports success, the agent's record is gone,
  its three volumes and its network are gone, and no container answers to the agent's or the
  sidecar's reference. If it reports an error, the record is still there, as it was or marked
  deleting, so that the next attempt finds what is left. Either way nothing that is not the
  agent's is removed and no other record changes. A context must not report itself as the
  store's ErrNotFound, which the contexts of Go do not.
\<close>

theorem delete_complete_or_retryable:
  assumes "manager_world M Ob sound nameable contexts" and "ctx \<in> contexts"
    and "\<forall>w e. fst (ctx w) = Some e \<longrightarrow> \<not> IsNotFound e"
    and "ready M Ob sound i nm s" and "holds (m_inFlight s) Ms"
  shows "case run_state (flow_Delete M ctx i) s of (r, s') \<Rightarrow>
     untouched M Ob i (own_volumes i) {dinernetName i} s s' \<and>
     (case r of
        Inr _ \<Rightarrow> (\<forall>a. Get (mg_bolt M) (mg_agents M) None i (m_db s') \<noteq> Inr a) \<and>
          (\<forall>a. Get (mg_bolt M) (mg_agents M) None i (m_db s) = Inr a \<longrightarrow>
             absent Ob (own_volumes i) {dinernetName i} (own_refs i a) (m_docker s'))
      | Inl e \<Rightarrow> \<forall>a. Get (mg_bolt M) (mg_agents M) None i (m_db s) = Inr a \<longrightarrow>
          (\<exists>b. Get (mg_bolt M) (mg_agents M) None i (m_db s') = Inr b \<and> left_for_retry a b))"
proof -
  note gf = guard_flow [OF assms(1,4)]
  note q = manager_world.quiet_context [OF assms(1,2)]
  let ?vs = "ob_volumes Ob (m_docker s) - own_volumes i" and ?ns = "ob_networks Ob (m_docker s) - {dinernetName i}"
  have "guarded_flow.separate i ?vs ?ns" by (simp add: guarded_flow.separate_def [OF gf] own_volumes_def)
  then have k: "keeps (guard_at M Ob sound i nm (own_volumes i) {dinernetName i} s (op_begin i (m_inFlight s))) (delete_body M ctx i) (\<lambda>_. True)"
    unfolding guard_at_I [OF gf] by (rule guarded_flow.keeps_delete_body [OF gf q])
  obtain r s' where run: "run_state (flow_Delete M ctx i) s = (r, s')" by (rule prod.exhaust)
  have u: "untouched M Ob i (own_volumes i) {dinernetName i} s s'"
    using claimed_untouched [OF assms(4,5) k] run by (simp add: flow_Delete_def)
  from assms(5) run [unfolded flow_Delete_def] show ?thesis
  proof (cases rule: run_claimed)
    case 1
    then show ?thesis using u run by simp
  next
    case (2 s1)
    have "guard_at M Ob sound i nm (own_volumes i) {dinernetName i} s (op_begin i (m_inFlight s)) (s\<lparr>m_inFlight := op_begin i (m_inFlight s)\<rparr>)"
      using guard_start [OF assms(4)] by (simp add: guard_at_def guarded_def)
    from guarded_flow.run_delete_body [OF gf 2(1) this [unfolded guard_at_I [OF gf]] q] assms(3) 2(2) show ?thesis
      using u run by (cases r) simp_all
  qed
qed

subsection \<open>A sample agent\<close>

definition sample_record :: Agent where
  "sample_record = (withDerivedNames (legacy_agent ''agt_1'' BackendOllama))\<lparr>ag_Status := StatusStopped\<rparr>"

definition sample_fake :: Fake where
  "sample_fake = New\<lparr>fk_AutoHealthy := True,
     fk_volumes := map (\<lambda>n. (n, \<lparr>vr_name = n, vr_labels = [], vr_mountpoint = [], vr_usage = None\<rparr>)) [workspaceVolumeName ''agt_1'', ''other'']\<rparr>"

definition sample_state :: "(account_raw ref_db, fake_world) manager" where
  "sample_state = \<lparr>m_inFlight = Map.empty,
     m_db = [bucketAgents \<mapsto> RBT.insert ''agt_1'' (RawAgent sample_record) RBT.empty],
     m_docker = \<lparr>fw_fake = sample_fake, fw_clock = 0\<rparr>\<rparr>"

lemma sample_holds: "holds (m_inFlight sample_state) {#}"
  by (simp add: sample_state_def holds_def)

lemma sample_context: "without_cancel \<in> pure_contexts"
  by (simp add: pure_contexts_def without_cancel_def)

lemma sample_record_mine: "mine ''agt_1'' Cs nm sample_record"
  by (simp add: mine_def sample_record_def withDerivedNames_def legacy_agent_def new_agent_def sample_spec_def
      agentContainerName_def dindContainerName_def dinernetName_def workspaceVolumeName_def claudeConfigVolumeName_def
      dindCacheVolumeName_def resourcePrefix_def)

lemma sample_Get: "Get (mg_bolt sample_Manager) (mg_agents sample_Manager) None k (m_db sample_state) =
    (if k = ''agt_1'' then Inr sample_record else Inl (Wrap ''getting agent'' ErrNotFound))"
  by (simp add: sample_Manager_def sample_state_def Get_def get_record_def view_def decode_record_def agent_json_def ref_bolt_defs wrap_error_def)

lemma sample_ready: "ready sample_Manager fake_view fake_sound ''agt_1'' nm sample_state"
  unfolding ready_def sample_Get
  by (simp add: sample_record_mine) (simp add: sample_Manager_def sample_state_def sample_fake_def fake_sound_def fake_ok_def New_def
      readable_def agent_json_def ref_bolt_defs sample_record_def withDerivedNames_def legacy_agent_def new_agent_def sample_spec_def)

interpretation sample_flow: guarded_flow sample_Manager fake_view fake_sound is_name pure_contexts
    "''agt_1''" nm Vs Ns "others fake_view ''agt_1'' (m_docker sample_state)"
    "\<lambda>k. Get (mg_bolt sample_Manager) (mg_agents sample_Manager) None k (m_db sample_state)" flight for nm Vs Ns flight
  by (rule guard_flow [OF tests.manager_world_axioms sample_ready [of True]])

text \<open>A resume that fails, because the sidecar is gone: the workspace volume survives.\<close>

theorem update_and_resume_keep_work_witness:
  "case run_state (ResumeAgent sample_Manager without_cancel ''agt_1'') sample_state of (r, s') \<Rightarrow>
     isl r \<and> workspaceVolumeName ''agt_1'' \<in> ob_volumes fake_view (m_docker s')"
proof -
  have f: "isl (fst (run_state (ResumeAgent sample_Manager without_cancel ''agt_1'') sample_state))" by code_simp
  have v: "workspaceVolumeName ''agt_1'' \<in> ob_volumes fake_view (m_docker sample_state)"
    by (simp add: fake_view_def sample_state_def sample_fake_def)
  show ?thesis
    using f v update_and_resume_keep_work [OF tests.manager_world_axioms sample_context sample_ready sample_holds,
        of "ResumeAgent sample_Manager without_cancel ''agt_1''" empty_request]
    by (auto simp: untouched_def split: prod.splits)
qed

theorem delete_complete_or_retryable_witness:
  "case run_state (flow_Delete sample_Manager without_cancel ''agt_1'') sample_state of (r, s') \<Rightarrow>
     r = Inr () \<and> workspaceVolumeName ''agt_1'' \<notin> ob_volumes fake_view (m_docker s') \<and> ''other'' \<in> ob_volumes fake_view (m_docker s')"
proof -
  have f: "fst (run_state (flow_Delete sample_Manager without_cancel ''agt_1'') sample_state) = Inr ()" by code_simp
  have v: "''other'' \<in> ob_volumes fake_view (m_docker sample_state)"
    by (simp add: fake_view_def sample_state_def sample_fake_def)
  have o: "''other'' \<notin> own_volumes ''agt_1''"
    by (simp add: own_volumes_def workspaceVolumeName_def claudeConfigVolumeName_def dindCacheVolumeName_def resourcePrefix_def)
  have c: "\<forall>w e. fst (without_cancel w) = Some e \<longrightarrow> \<not> IsNotFound e" by (simp add: without_cancel_def)
  note d = delete_complete_or_retryable [OF tests.manager_world_axioms sample_context c sample_ready sample_holds]
  obtain r s' where run: "run_state (flow_Delete sample_Manager without_cancel ''agt_1'') sample_state = (r, s')" by (rule prod.exhaust)
  show ?thesis
    using d [unfolded run prod.case] f v o by (auto simp: run untouched_def absent_def own_volumes_def sample_Get)
qed

end
