(* ===== verification/Flow_Waits.thy ===== *)
theory Flow_Waits
  imports Flow_Properties
begin

section \<open>The waits of the flows end\<close>

text \<open>
  The loops that wait for a sidecar, a command, a terminal session or the shared proxy have no
  bound on their rounds in the code: they go on until the check succeeds, the deadline has
  passed or the context is done. In the model they are \<open>poll\<close> with a bound computed from the
  options. Here the bound is shown to be enough: a round that asks for another one found the
  deadline still ahead and slept for the poll interval, so the clock of the daemon's contract
  passes the deadline first. More fuel changes nothing.
\<close>

lemma poll_more:
  "run_state (poll n body) s = (Some x, s1) \<Longrightarrow> n \<le> m \<Longrightarrow> run_state (poll m body) s = (Some x, s1)"
proof (induction n arbitrary: m s)
  case (Suc n)
  then obtain k where m: "m = Suc k" and "n \<le> k" by (metis Suc_le_D Suc_le_mono)
  then show ?case using Suc by (auto simp: State_Monad.bind_def split: prod.splits option.splits)
qed simp

context manager_world
begin

text \<open>The clock does not go back, and the daemon stays sound.\<close>

definition steady :: "time \<Rightarrow> ('d, 'w) manager \<Rightarrow> bool" where
  "steady c s \<longleftrightarrow> sound (m_docker s) \<and> c \<le> ob_clock Ob (m_docker s)"

lemma steady_outside:
  assumes "quiet_call Ob sound f" and "\<And>x. V x"
  shows "keeps (steady c) (outside f) V"
proof (rule keeps_outside)
  fix s x w assume s: "steady c s" and f: "f (m_docker s) = (x, w)"
  have "sound w \<and> same_objects Ob (m_docker s) w" using quiet_callD [OF assms(1) f] s by (simp add: steady_def)
  then show "V x \<and> steady c (s\<lparr>m_docker := w\<rparr>)" using s assms(2) by (simp add: steady_def same_objects_def)
qed

text \<open>A round that ends without an answer began before the deadline and took the interval.\<close>

definition rounds :: "time \<Rightarrow> ('d, 'w, 'a option) flow \<Rightarrow> bool" where
  "rounds d m \<longleftrightarrow> (\<forall>s x s1. run_state m s = (x, s1) \<longrightarrow> sound (m_docker s) \<longrightarrow>
     steady (ob_clock Ob (m_docker s)) s1 \<and>
     (x = None \<longrightarrow> ob_clock Ob (m_docker s) \<le> d \<and> ob_clock Ob (m_docker s) + op_PollInterval (mg_opts M) \<le> ob_clock Ob (m_docker s1)))"

lemma roundsD:
  assumes "rounds d m" and "run_state m s = (x, s1)" and "sound (m_docker s)"
  shows "steady (ob_clock Ob (m_docker s)) s1"
    and "x = None \<Longrightarrow> ob_clock Ob (m_docker s) \<le> d \<and> ob_clock Ob (m_docker s) + op_PollInterval (mg_opts M) \<le> ob_clock Ob (m_docker s1)"
  using assms unfolding rounds_def by blast+

lemma rounds_return: "rounds d (State_Monad.return (Some x))"
  by (simp add: rounds_def steady_def)

lemma rounds_bind:
  assumes "\<And>c. keeps (steady c) m (\<lambda>_. True)" and "\<And>x. rounds d (f x)"
  shows "rounds d (State_Monad.bind m f)"
  unfolding rounds_def
proof (intro allI impI)
  fix s x s2
  assume run: "run_state (State_Monad.bind m f) s = (x, s2)" and s: "sound (m_docker s)"
  obtain y s1 where m: "run_state m s = (y, s1)" and f: "run_state (f y) s1 = (x, s2)" using run by (rule run_bindE)
  have 1: "steady (ob_clock Ob (m_docker s)) s1"
    using keepsD [OF assms(1) _ m, of "ob_clock Ob (m_docker s)"] s by (simp add: steady_def)
  then have "sound (m_docker s1)" by (simp add: steady_def)
  note r = roundsD [OF assms(2) f this]
  show "steady (ob_clock Ob (m_docker s)) s2 \<and> (x = None \<longrightarrow> ob_clock Ob (m_docker s) \<le> d \<and>
      ob_clock Ob (m_docker s) + op_PollInterval (mg_opts M) \<le> ob_clock Ob (m_docker s2))"
    using r 1 unfolding steady_def by force
qed

lemma rounds_if: "rounds d m \<Longrightarrow> rounds d n \<Longrightarrow> rounds d (if b then m else n)"
  by simp

lemma rounds_case_sum: "(\<And>e. rounds d (f e)) \<Longrightarrow> (\<And>x. rounds d (g x)) \<Longrightarrow> rounds d (case r of Inl e \<Rightarrow> f e | Inr x \<Rightarrow> g x)"
  by (cases r) auto

lemma rounds_case_prod: "(\<And>x y. rounds d (f x y)) \<Longrightarrow> rounds d (case r of (x, y) \<Rightarrow> f x y)"
  by (cases r) auto

lemma rounds_retry_until: "rounds d (retry_until M ctx d late cancelled)"
  unfolding rounds_def
proof (intro allI impI)
  fix s x s2
  assume run: "run_state (retry_until M ctx d late cancelled) s = (x, s2)" and s: "sound (m_docker s)"
  obtain t s1 where n: "run_state (outside (ck_Now (mg_clock M))) s = (t, s1)"
    and rest: "run_state (if t > d then ret (Some late)
       else State_Monad.bind (outside (ck_Sleep (mg_clock M) ctx (op_PollInterval (mg_opts M))))
              (\<lambda>e. case e of None \<Rightarrow> ret None | Some e \<Rightarrow> ret (Some (cancelled e)))) s1 = (x, s2)"
    using run unfolding retry_until_def by (elim run_bindE)
  have now: "sound (m_docker s1) \<and> same_objects Ob (m_docker s) (m_docker s1) \<and> ob_clock Ob (m_docker s) \<le> t"
    using now_quiet [OF conjunct1 [OF run_outside [OF n]] s] by blast
  show "steady (ob_clock Ob (m_docker s)) s2 \<and> (x = None \<longrightarrow> ob_clock Ob (m_docker s) \<le> d \<and>
      ob_clock Ob (m_docker s) + op_PollInterval (mg_opts M) \<le> ob_clock Ob (m_docker s2))"
  proof (cases "t > d")
    case True
    then have "x = Some late" and "s2 = s1" using rest by simp_all
    then show ?thesis using now by (simp add: steady_def same_objects_def)
  next
    case False
    then obtain e s3 where sl: "run_state (outside (ck_Sleep (mg_clock M) ctx (op_PollInterval (mg_opts M)))) s1 = (e, s3)"
      and r: "run_state (case e of None \<Rightarrow> ret None | Some e \<Rightarrow> ret (Some (cancelled e))) s3 = (x, s2)"
      using rest by (simp only: if_False) (erule run_bindE, blast)
    have "sound (m_docker s3) \<and> same_objects Ob (m_docker s1) (m_docker s3) \<and>
        (e = None \<longrightarrow> ob_clock Ob (m_docker s1) + op_PollInterval (mg_opts M) \<le> ob_clock Ob (m_docker s3))"
      using sleep_quiet [OF conjunct1 [OF run_outside [OF sl]]] now by blast
    moreover have "s2 = s3" using r by (cases e) simp_all
    moreover have "x = None \<longleftrightarrow> e = None" using r by (cases e) auto
    ultimately show ?thesis using now False by (auto simp: steady_def same_objects_def)
  qed
qed

lemmas rounds_rules = rounds_return rounds_bind rounds_if rounds_case_sum rounds_case_prod rounds_retry_until

lemma poll_ends:
  assumes "rounds d body" and "sound (m_docker s)" and "d < ob_clock Ob (m_docker s) + int n * op_PollInterval (mg_opts M)"
    and "run_state (poll (Suc n) body) s = (x, s1)"
  shows "x \<noteq> None"
  using assms(2-)
proof (induction n arbitrary: s)
  case 0
  obtain y s2 where b: "run_state body s = (y, s2)"
    and r: "run_state (case y of None \<Rightarrow> poll 0 body | Some x \<Rightarrow> ret (Some x)) s2 = (x, s1)"
    using 0(3) unfolding poll.simps(2) [of 0] by (rule run_bindE)
  have "y \<noteq> None" using roundsD(2) [OF assms(1) b 0(1)] 0(2) by auto
  then show ?case using r by auto
next
  case (Suc n)
  obtain y s2 where b: "run_state body s = (y, s2)"
    and r: "run_state (case y of None \<Rightarrow> poll (Suc n) body | Some x \<Rightarrow> ret (Some x)) s2 = (x, s1)"
    using Suc.prems(3) unfolding poll.simps(2) [of "Suc n"] by (rule run_bindE)
  show ?case
  proof (cases y)
    case None
    have "sound (m_docker s2)" using roundsD(1) [OF assms(1) b Suc.prems(1)] by (simp add: steady_def)
    moreover have "ob_clock Ob (m_docker s) + op_PollInterval (mg_opts M) \<le> ob_clock Ob (m_docker s2)"
      using roundsD(2) [OF assms(1) b Suc.prems(1) None] by simp
    then have "d < ob_clock Ob (m_docker s2) + int n * op_PollInterval (mg_opts M)"
      using Suc.prems(2) by (simp add: algebra_simps)
    moreover have "run_state (poll (Suc n) body) s2 = (x, s1)" using r None by (simp del: poll.simps)
    ultimately show ?thesis by (rule Suc.IH)
  qed (use r in auto)
qed

lemma poll_fuel_enough:
  assumes "rounds (t + timeout) body" and "sound (m_docker s)" and "t \<le> ob_clock Ob (m_docker s)" and "0 < timeout"
    and "0 < op_PollInterval (mg_opts M)" and "poll_fuel timeout (op_PollInterval (mg_opts M)) \<le> n"
  shows "fst (run_state (poll n body) s) \<noteq> None \<and>
    run_state (poll n body) s = run_state (poll (poll_fuel timeout (op_PollInterval (mg_opts M))) body) s"
proof -
  let ?P = "op_PollInterval (mg_opts M)"
  let ?n = "nat (timeout div ?P) + 1"
  obtain x s1 where run: "run_state (poll (Suc ?n) body) s = (x, s1)" by (rule prod.exhaust)
  have "int ?n = timeout div ?P + 1" using assms(4,5) by (simp add: pos_imp_zdiv_nonneg_iff)
  moreover have "timeout < (timeout div ?P + 1) * ?P"
    using assms(5) by (simp add: algebra_simps) (metis add.commute mult.commute mult_div_mod_eq pos_mod_bound add_less_cancel_right)
  ultimately have "timeout < int ?n * ?P" by metis
  then have "t + timeout < ob_clock Ob (m_docker s) + int ?n * ?P" using assms(3) by linarith
  then obtain y where x: "x = Some y" using poll_ends [OF assms(1,2) _ run] by auto
  have f: "Suc ?n = poll_fuel timeout ?P" by (simp add: poll_fuel_def)
  note run' = run [unfolded f x]
  then show ?thesis using poll_more [OF run' assms(6)] by simp
qed

subsection \<open>The four waits\<close>

lemma steady_awaitExec: "keeps (steady c) (awaitExec M ctx x) (\<lambda>_. True)"
  unfolding awaitExec_def exec_check_def retry_until_def
  by (intro keeps_bind steady_outside quiet_now keeps_conseq [OF keeps_poll [where V = "\<lambda>_. True"]] quiet_docker quiet_sleep flow) simp_all

lemma steady_runExec: "keeps (steady c) (runExec M ctx ref cmd) (\<lambda>_. True)"
  unfolding runExec_def wrapping_def and_then_def
  by (intro keeps_bind steady_outside quiet_docker flow keeps_conseq [OF steady_awaitExec]) simp_all

lemma rounds_checks:
  "rounds d (health_check M ctx j d)" "rounds d (exec_check M ctx x d)" "rounds d (tmux_check M ctx a d)" "rounds d (reach_check M ctx ref cmd d)"
  unfolding health_check_def exec_check_def tmux_check_def reach_check_def
  by (intro rounds_rules steady_outside quiet_docker steady_runExec TrueI)+

end

text \<open>
  C26: every wait ends. Under the daemon's contract and the options the manager runs with (whose
  zero values are replaced by positive defaults) the wait for a healthy sidecar, for a command,
  for the agent's terminal session and for the shared proxy gives an answer within the number of
  rounds that the timeout and the poll interval allow, and the answer does not depend on a
  larger bound.
\<close>

theorem waits_end:
  assumes "manager_world M Ob sound nameable contexts" and "options_ok (mg_opts M)"
    and "sound (m_docker s)" and "t \<le> ob_clock Ob (m_docker s)"
    and "(timeout, body) \<in>
      {(op_DindHealthTimeout (mg_opts M), health_check M ctx i (t + op_DindHealthTimeout (mg_opts M))),
       (op_TmuxReadyTimeout (mg_opts M), tmux_check M ctx a (t + op_TmuxReadyTimeout (mg_opts M))),
       (op_DependaproxyReachableTimeout (mg_opts M), reach_check M ctx i cmd (t + op_DependaproxyReachableTimeout (mg_opts M)))}"
    and "poll_fuel timeout (op_PollInterval (mg_opts M)) \<le> n"
    and "poll_fuel (op_ExecTimeout (mg_opts M)) (op_PollInterval (mg_opts M)) \<le> k"
  shows "fst (run_state (poll n body) s) \<noteq> None \<and>
     run_state (poll n body) s = run_state (poll (poll_fuel timeout (op_PollInterval (mg_opts M))) body) s \<and>
     fst (run_state (poll k (exec_check M ctx x (t + op_ExecTimeout (mg_opts M)))) s) \<noteq> None"
proof -
  note enough = manager_world.poll_fuel_enough [OF assms(1) _ assms(3,4)]
  note checks = manager_world.rounds_checks [OF assms(1)]
  have b: "manager_world.rounds M Ob sound (t + timeout) body" and "0 < timeout" "0 < op_PollInterval (mg_opts M)" "0 < op_ExecTimeout (mg_opts M)"
    using assms(2,5) checks by (auto simp: options_ok_def)
  then show ?thesis using enough [OF b _ _ assms(6)] enough [OF checks(2) _ _ assms(7), of ctx x] by blast
qed

theorem waits_end_witness:
  "fst (run_state (poll 362 (health_check sample_Manager without_cancel ''x'' (0 + op_DindHealthTimeout (mg_opts sample_Manager)))) sample_state) \<noteq> None"
proof -
  have o: "options_ok (mg_opts sample_Manager)" by (simp add: sample_Manager_def withDefaults_ok)
  have s: "fake_sound (m_docker sample_state)" and t: "0 \<le> ob_clock fake_view (m_docker sample_state)"
    using sample_ready [of True] by (simp_all add: ready_def sample_state_def fake_view_def)
  have n: "poll_fuel (op_DindHealthTimeout (mg_opts sample_Manager)) (op_PollInterval (mg_opts sample_Manager)) \<le> 362"
    "poll_fuel (op_ExecTimeout (mg_opts sample_Manager)) (op_PollInterval (mg_opts sample_Manager)) \<le> 362"
    by (simp_all add: poll_fuel_def sample_Manager_def withDefaults_def )
  show ?thesis
    using waits_end [OF tests.manager_world_axioms o s t insertI1 n] by blast
qed

end
