(* ===== verification/Flow_Create.thy ===== *)
theory Flow_Create
  imports Flow_Properties
begin

section \<open>Creating an agent\<close>

text \<open>
  A creation runs in two phases. Until the names are stamped the record may have none; from then
  on it has the names its ID gives, and every object the creation makes carries them. The guard
  of \<open>Flow_Safety\<close> is used once for each phase. What the store holds at the end is followed apart
  from that, by invariants of the database alone: nothing but the last step takes the record out
  of the status \<open>creating\<close>.
\<close>

subsection \<open>The phases\<close>

definition build_steps :: "('r, 'd, 'w) Manager \<Rightarrow> 'w ctx \<Rightarrow> Agent \<Rightarrow> resolvedBackend \<Rightarrow> string \<Rightarrow> ('d, 'w, Agent \<times> (store_error + unit)) flow" where
  "build_steps M ctx a rb oneShotTask =
     next_step (keeping a (ensureImages M ctx a)) (\<lambda>a. do {
     a \<leftarrow> stampImageID M ctx a;
     next_step (keeping a (createVolumes M ctx a)) (\<lambda>a.
     next_step (keeping a (ensureAgentFiles M a)) (\<lambda>a.
     next_step (updating a (createDinernet M ctx a)) (\<lambda>a.
     next_step (startDind M ctx a) (\<lambda>a.
     next_step (updating a (connectDependaproxy M ctx a)) (\<lambda>a. do {
     _ \<leftarrow> verifyDependaproxyReachable M ctx a;
     next_step (startAgentContainer M ctx a rb
         (if oneShotTask \<noteq> [] then oneShotInvocationArgs a oneShotTask else firstInvocationArgs a sessionFresh)) (\<lambda>a.
     keeping a (waitTmuxSession M ctx a)) }))))) })"

lemma next_step_assoc: "next_step (next_step m f) g = next_step m (\<lambda>a. next_step (f a) g)"
  unfolding next_step_def State_Monad.bind_def State_Monad.return_def
  by (rule arg_cong [where f = State]) (auto simp: fun_eq_iff split: prod.splits sum.splits)

lemma next_step_bind: "next_step (State_Monad.bind m f) g = State_Monad.bind m (\<lambda>x. next_step (f x) g)"
  unfolding next_step_def State_Monad.bind_def by (rule arg_cong [where f = State]) (auto simp: fun_eq_iff split: prod.splits)

lemma build_phases:
  "build M ctx a rb task = next_step (updating a (stampNames M ctx a)) (\<lambda>a.
     next_step (build_steps M ctx a rb task) (\<lambda>a. updating a (markRunning M ctx a)))"
  unfolding build_def build_steps_def by (simp only: next_step_assoc next_step_bind)

lemma run_next_stepE:
  assumes "run_state (next_step m f) s = (y, s2)"
  obtains a e s1 where "run_state m s = ((a, Inl e), s1)" and "y = (a, Inl e)" and "s2 = s1"
  | a s1 where "run_state m s = ((a, Inr ()), s1)" and "run_state (f a) s1 = (y, s2)"
proof -
  obtain x s1 where m: "run_state m s = (x, s1)" and f: "run_state (case x of (a, r) \<Rightarrow> (case r of Inl e \<Rightarrow> ret (a, Inl e) | Inr _ \<Rightarrow> f a)) s1 = (y, s2)"
    using assms unfolding next_step_def by (rule run_bindE)
  obtain a r where x: "x = (a, r)" by (rule prod.exhaust)
  show ?thesis
  proof (cases r)
    case (Inl e)
    then show ?thesis using that(1) m f x by simp
  next
    case (Inr u)
    then show ?thesis using that(2) m f x by simp
  qed
qed

lemma run_updatingE:
  assumes "run_state (updating a m) s = (y, s1)"
  obtains e where "run_state m s = (Inl e, s1)" and "y = (a, Inl e)"
  | b where "run_state m s = (Inr b, s1)" and "y = (b, Inr ())"
proof -
  obtain r s2 where m: "run_state m s = (r, s2)" and y: "run_state (ret (case r of Inl e \<Rightarrow> (a, Inl e) | Inr a1 \<Rightarrow> (a1, Inr ()))) s2 = (y, s1)"
    using assms unfolding updating_def by (rule run_bindE)
  show ?thesis by (cases r) (use that m y in simp_all)
qed

subsection \<open>Each phase under its guard\<close>

context guarded_flow
begin

lemma keeps_build_steps:
  assumes "quiet_call Ob sound ctx" and "mine i Cs nm a" and nm
  shows "keeps I (build_steps M ctx a rb task) (\<lambda>(a, r). mine i Cs nm a)"
  unfolding build_steps_def by (auto intro!: flow assms split: sum.split)

lemma keeps_finish:
  assumes "quiet_call Ob sound ctx" and "mine i Cs nm a"
  shows "keeps I (updating a (markRunning M ctx a)) (\<lambda>(a, r). mine i Cs nm a)"
  by (auto intro!: flow assms split: sum.split)

end

lemma guard_named:
  assumes "guard_at M Ob sound i False vs ns s0 r s" and "Get (mg_bolt M) (mg_agents M) None i (m_db s) = Inr a"
    and "mine i (others Ob i (m_docker s0)) True a"
  shows "guard_at M Ob sound i True vs ns s0 r s"
  using assms by (simp add: guard_at_def guarded_def)

subsection \<open>What the store holds\<close>

text \<open>\<open>stable P m\<close>: the flow \<open>m\<close> leaves every database with \<open>P\<close> in \<open>P\<close>, whatever it answers.\<close>

definition stable :: "('d \<Rightarrow> bool) \<Rightarrow> ('d, 'w, 'a) flow \<Rightarrow> bool" where
  "stable P m = keeps (\<lambda>s. P (m_db s)) m (\<lambda>_. True)"

named_theorems on_db \<open>rules for invariants of the database\<close>

lemma stableD: "stable P m \<Longrightarrow> P (m_db s) \<Longrightarrow> run_state m s = (x, s1) \<Longrightarrow> P (m_db s1)"
  using keepsD [of "\<lambda>s. P (m_db s)" m "\<lambda>_. True" s x s1] by (simp add: stable_def)

lemma stable_outside [on_db]: "stable P (outside f)"
  unfolding stable_def by (rule keeps_outside) simp

lemma stable_reading [on_db]: "stable P (on_store (\<lambda>d. (f d, d)))"
  unfolding stable_def by (rule keeps_reading) simp

lemma stable_return [on_db]: "stable P (State_Monad.return x)"
  unfolding stable_def by (rule keeps_return) simp

lemma stable_bind [on_db]: "stable P m \<Longrightarrow> (\<And>x. stable P (f x)) \<Longrightarrow> stable P (State_Monad.bind m f)"
  unfolding stable_def by (rule keeps_bind, erule keeps_conseq) simp

lemma stable_if [on_db]: "stable P m \<Longrightarrow> stable P n \<Longrightarrow> stable P (if b then m else n)"
  by simp

lemma stable_case_sum [on_db]: "(\<And>e. stable P (f e)) \<Longrightarrow> (\<And>x. stable P (g x)) \<Longrightarrow> stable P (case r of Inl e \<Rightarrow> f e | Inr x \<Rightarrow> g x)"
  by (cases r) auto

lemma stable_case_option [on_db]: "stable P f \<Longrightarrow> (\<And>x. stable P (g x)) \<Longrightarrow> stable P (case r of None \<Rightarrow> f | Some x \<Rightarrow> g x)"
  by (cases r) auto

lemma stable_case_prod [on_db]: "(\<And>x y. stable P (f x y)) \<Longrightarrow> stable P (case r of (x, y) \<Rightarrow> f x y)"
  by (cases r) auto

lemma stable_poll [on_db]: "stable P body \<Longrightarrow> stable P (poll n body)"
  by (induction n) (auto intro!: on_db)

lemma stable_combinators [on_db]:
  "stable P m1 \<Longrightarrow> (\<And>x. stable P (f1 x)) \<Longrightarrow> stable P (and_then m1 f1)"
  "stable P m2 \<Longrightarrow> stable P (wrapping msg m2)"
  "stable P m3 \<Longrightarrow> (\<And>x. stable P (f3 x)) \<Longrightarrow> stable P (next_step m3 f3)"
  "stable P m4 \<Longrightarrow> stable P (updating a m4)"
  "stable P m5 \<Longrightarrow> stable P (keeping a m5)"
  unfolding and_then_def wrapping_def next_step_def updating_def keeping_def by (intro on_db; assumption)+

lemma stable_store_reads [on_db]:
  "stable P (store_DefaultAnthropicAccountID M ctx)" "stable P (store_GetAnthropicAccount M ctx acc)" "stable P (store_GetAgentImageTags M ctx h)"
  unfolding store_DefaultAnthropicAccountID_def store_GetAnthropicAccount_def store_GetAgentImageTags_def by (intro on_db)+

lemma stable_resolve [on_db]:
  "stable P (resolveSpec M ctx req acc)" "stable P (resolveAgentImageRef M ctx tag h)"
  unfolding resolveSpec_def resolveBackend_def choose_account_def resolveAgentImageRef_def defaultAgentImageRef_def defaultImageTagFor_def
    flow_AgentImageTags_def localImageTags_def Let_def
  by (intro on_db)+

lemma stable_runExec [on_db]: "stable P (runExec M ctx c cmd)"
  unfolding runExec_def awaitExec_def exec_check_def retry_until_def by (intro on_db)

lemma stable_waits [on_db]:
  "stable P (waitHealthy M ctx c)" "stable P (waitTmuxSession M ctx a)" "stable P (verifyDependaproxyReachable M ctx a)"
  unfolding waitHealthy_def health_check_def waitTmuxSession_def tmux_check_def verifyDependaproxyReachable_def reach_check_def
    retry_until_def Let_def
  by (intro on_db)+

lemma stable_create_volumes [on_db]: "stable P (create_volumes M ctx i vs)"
  by (induction vs) (auto intro!: on_db)

lemma stable_external: "external m \<Longrightarrow> stable P m"
  unfolding stable_def by (rule keepsI) (auto dest: externalD)

text \<open>
  \<open>records M Q\<close>: every record can be read and has \<open>Q\<close>. Most steps only note in the record which Docker
  objects the agent has; a \<open>Q\<close> that does not look at these fields survives them all.
\<close>

definition records :: "('r, 'd, 'w) Manager \<Rightarrow> (string \<Rightarrow> Agent \<Rightarrow> bool) \<Rightarrow> 'd \<Rightarrow> bool" where
  "records M Q d \<longleftrightarrow> readable (mg_bolt M) (mg_agents M) d \<and>
     (\<forall>k a. Get (mg_bolt M) (mg_agents M) None k d = Inr a \<longrightarrow> Q k a)"

definition ignores_objects :: "(string \<Rightarrow> Agent \<Rightarrow> bool) \<Rightarrow> bool" where
  "ignores_objects Q \<longleftrightarrow>
     (\<forall>k a x. Q k (a\<lparr>ag_ContainerName := x\<rparr>) = Q k a \<and> Q k (a\<lparr>ag_DindContainerName := x\<rparr>) = Q k a \<and>
        Q k (a\<lparr>ag_DinernetName := x\<rparr>) = Q k a \<and> Q k (a\<lparr>ag_WorkspaceVolume := x\<rparr>) = Q k a \<and>
        Q k (a\<lparr>ag_ClaudeConfigVolume := x\<rparr>) = Q k a \<and> Q k (a\<lparr>ag_DindCacheVolume := x\<rparr>) = Q k a \<and>
        Q k (a\<lparr>ag_ContainerID := x\<rparr>) = Q k a \<and> Q k (a\<lparr>ag_DindContainerID := x\<rparr>) = Q k a \<and>
        Q k (a\<lparr>ag_DinernetID := x\<rparr>) = Q k a \<and> Q k (a\<lparr>ag_DependaproxyDinernetIP := x\<rparr>) = Q k a \<and>
        Q k (a\<lparr>ag_ImageID := x\<rparr>) = Q k a) \<and>
     (\<forall>k a t. Q k (a\<lparr>ag_UpdatedAt := t\<rparr>) = Q k a)"

definition still_creating :: "('r, 'd, 'w) Manager \<Rightarrow> string \<Rightarrow> 'd \<Rightarrow> bool" where
  "still_creating M i = records M (\<lambda>k a. k = i \<longrightarrow> ag_Status a = StatusCreating)"

lemma creating_ignores: "ignores_objects (\<lambda>k a. k = i \<longrightarrow> ag_Status a = StatusCreating)"
  by (simp add: ignores_objects_def)

context manager_world
begin

lemma records_Update:
  assumes "\<And>a b t. Q j a \<Longrightarrow> f a = Inr b \<Longrightarrow> Valid (ag_Status b) \<Longrightarrow> Q j (b\<lparr>ag_UpdatedAt := t\<rparr>)"
  shows "stable (records M Q) (store_Update M ctx j f)"
  unfolding store_Update_def
proof (intro on_db, unfold stable_def, rule keeps_on_store)
  fix e t s x d
  assume s: "records M Q (m_db s)" and u: "Update (mg_bolt M) (mg_agents M) e t j (Some f) (m_db s) = (x, d)"
  have rd: "readable (mg_bolt M) (mg_agents M) (m_db s)" using s by (simp add: records_def)
  have "records M Q d"
  proof (cases x)
    case (Inl e)
    then show ?thesis using Update_error [OF u [unfolded Inl]] s by simp
  next
    case (Inr b)
    have "keeps_clean (\<lambda>_. True) t f" by (simp add: keeps_clean_def)
    with rd obtain before c where g: "Get (mg_bolt M) (mg_agents M) None j (m_db s) = Inr before"
      "f before = Inr c" "b = c\<lparr>ag_UpdatedAt := t\<rparr>"
      "Get (mg_bolt M) (mg_agents M) None j d = Inr b" and rd': "readable (mg_bolt M) (mg_agents M) d"
      by (rule Update_stored [OF u [unfolded Inr]])
    have v: "Valid (ag_Status c)" using Update_ok [OF u [unfolded Inr]] g(1,2) by (metis option.inject sum.inject(2))
    have "Q k y" if y: "Get (mg_bolt M) (mg_agents M) None k d = Inr y" for k y
    proof (cases "j = k")
      case True
      then have "y = b" and "Q k before" using y g s by (auto simp: records_def)
      then show ?thesis using g(2,3) v assms True by simp
    next
      case False
      then show ?thesis using Update_other [OF u rd, of k] y s by (auto simp: records_def)
    qed
    then show ?thesis using rd' by (simp add: records_def)
  qed
  then show "True \<and> records M Q (m_db (s\<lparr>m_db := d\<rparr>))" by simp
qed

lemma records_Delete: "stable (records M Q) (store_Delete M ctx j)"
  unfolding store_Delete_def
proof (intro on_db, unfold stable_def, rule keeps_on_store)
  fix e s x d
  assume s: "records M Q (m_db s)" and u: "Delete (mg_bolt M) e j (m_db s) = (x, d)"
  have "records M Q d"
  proof (cases x)
    case (Inl e)
    have "d = m_db s" using u [unfolded Inl Delete_def delete_record_def] by (rule update_error)
    then show ?thesis using s by simp
  next
    case (Inr y)
    note g = delete_record_ok [OF u [unfolded Inr Delete_def]]
    show ?thesis using s by (auto simp: records_def readable_def Get_Inr g split: if_splits)
  qed
  then show "True \<and> records M Q (m_db (s\<lparr>m_db := d\<rparr>))" by simp
qed

lemma records_Create:
  assumes "\<And>t. Q (cs_ID spec) (new_agent spec t)"
  shows "stable (records M Q) (store_Create M ctx spec)"
  unfolding store_Create_def
proof (intro on_db, unfold stable_def, rule keeps_on_store)
  fix e t s x d
  assume s: "records M Q (m_db s)" and u: "Create (mg_bolt M) (mg_agents M) (mg_maxAgents M) e t spec (m_db s) = (x, d)"
  have "records M Q d"
  proof (cases x)
    case (Inl e)
    then show ?thesis using Create_error [OF u [unfolded Inl]] s by simp
  next
    case (Inr a)
    note p = Create_ok [OF u [unfolded Inr]]
    have g: "Get (mg_bolt M) (mg_agents M) None k d = (if k = cs_ID spec then Inr (new_agent spec t) else Get (mg_bolt M) (mg_agents M) None k (m_db s))" for k
      using Get_after_put [OF p(1) _ p(4)] by (simp add: new_agent_def)
    show ?thesis using s assms put_readable [OF p(1)] by (auto simp: records_def g split: if_splits)
  qed
  then show "True \<and> records M Q (m_db (s\<lparr>m_db := d\<rparr>))" by simp
qed

lemma records_stamp: "(\<And>k a t. Q k a \<Longrightarrow> Q k (mutate a\<lparr>ag_UpdatedAt := t\<rparr>)) \<Longrightarrow> stable (records M Q) (flow_stamp M ctx a what mutate)"
  unfolding flow_stamp_def by (intro on_db records_Update) auto

lemma records_steps:
  assumes "ignores_objects Q"
  shows "stable (records M Q) (stampNames M ctx a)" "stable (records M Q) (build_steps M ctx a rb task)"
  unfolding stampNames_def build_steps_def ensureImages_def ensureImage_def stampImageID_def createVolumes_def ensureAgentFiles_def
    createDinernet_def startDind_def connectDependaproxy_def startAgentContainer_def Let_def
  by (intro on_db records_stamp; use assms in \<open>simp add: ignores_objects_def\<close>)+

lemma records_rollback: "stable (records M Q) (rollback M a)"
  unfolding rollback_def Let_def by (intro on_db stable_external [OF external_teardown] records_Delete)

lemmas creating_steps = records_steps [OF creating_ignores, folded still_creating_def]
lemmas creating_rollback = records_rollback [of "\<lambda>k a. k = i \<longrightarrow> ag_Status a = StatusCreating" for i, folded still_creating_def]

end

subsection \<open>The whole creation\<close>

lemma run_wrapping_error:
  assumes "run_state (wrapping msg m) s = (Inl e, s1)"
  obtains e1 where "run_state m s = (Inl e1, s1)"
proof -
  obtain r where "run_state m s = (r, s1)" and "Inl e = wrap_error msg r" using assms by (rule run_wrappingE)
  then show ?thesis using that by (cases r) (simp_all add: wrap_error_def)
qed

lemma mine_stamped:
  assumes "mine i Cs False a"
  shows "mine i Cs True (a\<lparr>ag_ContainerName := agentContainerName i, ag_DindContainerName := dindContainerName i, ag_DinernetName := dinernetName i,
    ag_WorkspaceVolume := workspaceVolumeName i, ag_ClaudeConfigVolume := claudeConfigVolumeName i,
    ag_DindCacheVolume := dindCacheVolumeName i, ag_UpdatedAt := t\<rparr>)"
  using assms by (simp add: mine_def)

context manager_world
begin

lemma run_store_Update_error: "run_state (store_Update M ctx j f) s = (Inl e, s1) \<Longrightarrow> m_db s1 = m_db s"
  by (erule run_store_Update) (rule Update_error)

lemma run_store_Create:
  assumes "run_state (store_Create M ctx spec) s = (r, s1)"
  obtains e t where "Create (mg_bolt M) (mg_agents M) (mg_maxAgents M) e t spec (m_db s) = (r, m_db s1)"
  using assms unfolding store_Create_def by (elim run_bindE) (metis run_outside run_on_store)

lemma run_store_Create_error: "run_state (store_Create M ctx spec) s = (Inl e, s1) \<Longrightarrow> m_db s1 = m_db s"
  by (erule run_store_Create) (rule Create_error)

lemma run_store_Create_ok:
  assumes "run_state (store_Create M ctx spec) s = (Inr a, s1)" and "readable (mg_bolt M) (mg_agents M) (m_db s)"
  shows "still_creating M (cs_ID spec) (m_db s1)"
proof -
  obtain e t where u: "Create (mg_bolt M) (mg_agents M) (mg_maxAgents M) e t spec (m_db s) = (Inr a, m_db s1)"
    using assms(1) by (rule run_store_Create)
  note p = Create_ok [OF u]
  have "Get (mg_bolt M) (mg_agents M) None (cs_ID spec) (m_db s1) = Inr (new_agent spec t)"
    using Get_after_put [OF p(1) _ p(4)] by (simp add: new_agent_def)
  then show ?thesis using put_readable [OF p(1)] assms(2) by (simp add: still_creating_def records_def new_agent_def)
qed

lemma run_stampNames:
  assumes r: "ready M Ob sound i False s0" and q: "quiet_call Ob sound ctx"
    and s: "guard_at M Ob sound i False vs ns s0 fl s" and a: "mine i (others Ob i (m_docker s0)) False a"
    and run: "run_state (stampNames M ctx a) s = (Inr b, s1)"
  shows "guard_at M Ob sound i True vs ns s0 fl s1 \<and> mine i (others Ob i (m_docker s0)) True b"
proof -
  note gf = guard_flow [OF manager_world_axioms r]
  let ?f = "\<lambda>ag. ag\<lparr>ag_ContainerName := agentContainerName i, ag_DindContainerName := dindContainerName i, ag_DinernetName := dinernetName i,
    ag_WorkspaceVolume := workspaceVolumeName i, ag_ClaudeConfigVolume := claudeConfigVolumeName i, ag_DindCacheVolume := dindCacheVolumeName i\<rparr>"
  have s1: "guard_at M Ob sound i False vs ns s0 fl s1"
    using keepsD [OF guarded_flow.keeps_stampNames [OF gf q a, of "\<lambda>_. True"] _ run] s unfolding guard_at_I [OF gf] by simp
  have i: "ag_ID a = i" using a by (rule mine_ID)
  obtain e t where u: "Update (mg_bolt M) (mg_agents M) e t i (Some (\<lambda>ag. Inr (?f ag))) (m_db s) = (Inr b, m_db s1)"
    using run_wrapping_ok [OF run [unfolded stampNames_def Let_def flow_stamp_def i]] by (rule run_store_Update)
  have "keeps_clean (\<lambda>_. True) t (\<lambda>ag. Inr (?f ag))" by (simp add: keeps_clean_def)
  moreover have "readable (mg_bolt M) (mg_agents M) (m_db s)" using s by (simp add: guard_at_def guarded_def)
  ultimately obtain before c where g: "Get (mg_bolt M) (mg_agents M) None i (m_db s) = Inr before"
    "Inr (?f before) = (Inr c :: store_error + Agent)" "b = c\<lparr>ag_UpdatedAt := t\<rparr>" and g1: "Get (mg_bolt M) (mg_agents M) None i (m_db s1) = Inr b"
    using Update_stored [OF u] by metis
  have "mine i (others Ob i (m_docker s0)) False before" using s g(1) by (simp add: guard_at_def guarded_def)
  then have "mine i (others Ob i (m_docker s0)) True b" using mine_stamped [of i _ before t] g(2,3) by simp
  then show ?thesis using guard_named [OF s1 g1] by simp
qed

lemma run_build:
  assumes r: "ready M Ob sound i False s0" and q: "quiet_call Ob sound ctx"
    and s: "guard_at M Ob sound i False vs ns s0 fl s" and a: "mine i (others Ob i (m_docker s0)) False a"
    and c: "still_creating M i (m_db s)" and run: "run_state (build M ctx a rb task) s = ((b, x), s1)"
  shows "\<exists>nm. guard_at M Ob sound i nm vs ns s0 fl s1 \<and> mine i (others Ob i (m_docker s0)) nm b \<and>
    (\<forall>e. x = Inl e \<longrightarrow> still_creating M i (m_db s1))"
proof -
  note gf = guard_flow [OF manager_world_axioms r]
  from run [unfolded build_phases] show ?thesis
  proof (cases rule: run_next_stepE)
    case (1 a1 e s2)
    from 1(1) have st: "run_state (stampNames M ctx a) s = (Inl e, s1)" and b: "b = a" using 1 by (auto elim!: run_updatingE)
    have "guard_at M Ob sound i False vs ns s0 fl s1"
      using keepsD [OF guarded_flow.keeps_stampNames [OF gf q a, of "\<lambda>_. True"] _ st] s unfolding guard_at_I [OF gf] by simp
    then show ?thesis using a b stableD [OF creating_steps(1) c st] by blast
  next
    case (2 a1 s2)
    from 2(1) have st: "run_state (stampNames M ctx a) s = (Inr a1, s2)" by (auto elim!: run_updatingE)
    note named = run_stampNames [OF r q s a st]
    note c2 = stableD [OF creating_steps(1) c st]
    note build = guarded_flow.keeps_build_steps [OF gf q conjunct2 [OF named] TrueI]
    from 2(2) show ?thesis
    proof (cases rule: run_next_stepE)
      case (1 a3 e s3)
      have "mine i (others Ob i (m_docker s0)) True a3 \<and> guard_at M Ob sound i True vs ns s0 fl s3"
        using keepsD [OF build _ 1(1)] named unfolding guard_at_I [OF gf] by auto
      then show ?thesis using 1 stableD [OF creating_steps(2) c2 1(1)] by blast
    next
      case (2 a3 s3)
      have 3: "mine i (others Ob i (m_docker s0)) True a3 \<and> guard_at M Ob sound i True vs ns s0 fl s3"
        using keepsD [OF build _ 2(1)] named unfolding guard_at_I [OF gf] by auto
      have 4: "mine i (others Ob i (m_docker s0)) True b \<and> guard_at M Ob sound i True vs ns s0 fl s1"
        using keepsD [OF guarded_flow.keeps_finish [OF gf q conjunct1 [OF 3]] _ 2(2)] 3 unfolding guard_at_I [OF gf] by auto
      have "still_creating M i (m_db s1)" if x: "x = Inl e" for e
      proof -
        obtain e1 where m: "run_state (markRunning M ctx a3) s3 = (Inl e1, s1)" using 2(2) x by (auto elim!: run_updatingE)
        then obtain e2 where "run_state (store_Update M ctx (ag_ID a3) (\<lambda>ag. Inr (ag\<lparr>ag_Status := StatusRunning, ag_ErrorMessage := []\<rparr>))) s3 = (Inl e2, s1)"
          unfolding markRunning_def flow_stamp_def by (rule run_wrapping_error)
        then have "m_db s1 = m_db s3" by (rule run_store_Update_error)
        then show ?thesis using stableD [OF creating_steps(2) c2 2(1)] by simp
      qed
      then show ?thesis using 4 by blast
    qed
  qed
qed

lemma run_build_or_rollback:
  assumes r: "ready M Ob sound i False s0" and q: "quiet_call Ob sound ctx"
    and s: "guard_at M Ob sound i False (own_volumes i) {dinernetName i} s0 fl s" and a: "mine i (others Ob i (m_docker s0)) False a"
    and c: "still_creating M i (m_db s)"
    and run: "run_state (do { (a, x) \<leftarrow> build M ctx a rb task;
         case x of Inl e \<Rightarrow> do { _ \<leftarrow> rollback M a; ret (Inl (Wrap msg e)) } | Inr _ \<Rightarrow> ret (Inr a) }) s = (y, s1)"
  shows "(\<exists>nm. guard_at M Ob sound i nm (own_volumes i) {dinernetName i} s0 fl s1) \<and>
    (case y of Inl e \<Rightarrow> still_creating M i (m_db s1) | Inr b \<Rightarrow> ag_ID b = i \<and> stored_running M b s1)"
proof -
  note gf = guard_flow [OF manager_world_axioms r]
  obtain p s2 where bld: "run_state (build M ctx a rb task) s = (p, s2)"
    and rest: "run_state (case p of (a, x) \<Rightarrow> (case x of Inl e \<Rightarrow> do { _ \<leftarrow> rollback M a; ret (Inl (Wrap msg e)) } | Inr _ \<Rightarrow> ret (Inr a))) s2 = (y, s1)"
    using run by (rule run_bindE)
  obtain b x where p: "p = (b, x)" by (rule prod.exhaust)
  obtain nm where g: "guard_at M Ob sound i nm (own_volumes i) {dinernetName i} s0 fl s2" and m: "mine i (others Ob i (m_docker s0)) nm b"
    and sc: "\<forall>e. x = Inl e \<longrightarrow> still_creating M i (m_db s2)"
    using run_build [OF r q s a c bld [unfolded p]] by blast
  show ?thesis
  proof (cases x)
    case (Inl e)
    obtain u s3 where rb: "run_state (rollback M b) s2 = (u, s3)" and "run_state (ret (Inl (Wrap msg e))) s3 = (y, s1)"
      using rest [unfolded p Inl prod.case sum.case] by (rule run_bindE)
    then have y: "y = Inl (Wrap msg e)" and s3: "s3 = s1" by simp_all
    have "guarded_flow.separate i (ob_volumes Ob (m_docker s0) - own_volumes i) (ob_networks Ob (m_docker s0) - {dinernetName i})"
      by (simp add: guarded_flow.separate_def [OF gf] own_volumes_def)
    then have "guard_at M Ob sound i nm (own_volumes i) {dinernetName i} s0 fl s1"
      using keepsD [OF guarded_flow.keeps_rollback [OF gf m, of _ _ "\<lambda>_. True"] _ rb] g unfolding guard_at_I [OF gf] s3 by simp
    moreover have "still_creating M i (m_db s1)" using stableD [OF creating_rollback _ rb] sc Inl s3 by simp
    ultimately show ?thesis using y by auto
  next
    case (Inr u)
    then have "y = Inr b" and "s1 = s2" using rest p by simp_all
    moreover have "stored_running M b s2" using postD [OF post_build bld [unfolded p]] Inr by simp
    ultimately show ?thesis using g mine_ID [OF m] by auto
  qed
qed

lemma run_create_body:
  assumes r: "ready M Ob sound i False s0" and q: "quiet_call Ob sound ctx"
    and s: "guard_at M Ob sound i False (own_volumes i) {dinernetName i} s0 fl s"
    and run: "run_state (create_body M ctx req i) s = (y, s1)"
  shows "(\<exists>nm. guard_at M Ob sound i nm (own_volumes i) {dinernetName i} s0 fl s1) \<and>
    (case y of
       Inl e \<Rightarrow> m_db s1 = m_db s \<or> still_creating M i (m_db s1)
     | Inr b \<Rightarrow> ag_ID b = i \<and> stored_running M b s1)"
proof -
  note gf = guard_flow [OF manager_world_axioms r]
  let ?I = "guard_at M Ob sound i False (own_volumes i) {dinernetName i} s0 fl"
  have same: "?I t1 \<and> m_db t1 = m_db t"
    if "stable (\<lambda>d. d = m_db t) m" "keeps ?I m (\<lambda>_. True)" "run_state m t = (x, t1)" "?I t" for m and x :: "store_error + 'z" and t t1
    using stableD [OF that(1) _ that(3)] keepsD [OF that(2,4,3)] by simp
  have spec: "?I t1 \<and> m_db t1 = m_db t" if "run_state (wrapping msg (resolveSpec M ctx req [])) t = (x, t1)" "?I t" for x t t1 msg
    by (rule same [OF _ _ that]) (intro on_db, unfold guard_at_I [OF gf], intro keeps_wrapping guarded_flow.keeps_resolveSpec [OF gf q] TrueI)
  have image: "?I t1 \<and> m_db t1 = m_db t" if "run_state (wrapping msg (resolveAgentImageRef M ctx tag h)) t = (x, t1)" "?I t" for x t t1 msg tag h
    by (rule same [OF _ _ that]) (intro on_db, unfold guard_at_I [OF gf], intro keeps_wrapping guarded_flow.keeps_resolveAgentImageRef [OF gf q] TrueI)
  from run [unfolded create_body_def] show ?thesis
  proof (cases rule: run_and_thenE)
    case (1 e s2)
    then show ?thesis using spec [OF 1(1) s] by auto
  next
    case (2 rs s2)
    note s2 = spec [OF 2(1) s]
    from 2(2) show ?thesis
    proof (cases rule: run_and_thenE)
      case (1 e s3)
      then show ?thesis using image [OF 1(1) conjunct1 [OF s2]] s2 by auto
    next
      case (2 ref s3)
      note s3 = image [OF 2(1) conjunct1 [OF s2]]
      let ?spec = "create_spec i req rs ref"
      have create: "keeps ?I (store_Create M ctx ?spec) (\<lambda>x. \<forall>a. x = Inr a \<longrightarrow> mine i (others Ob i (m_docker s0)) False a)"
        unfolding guard_at_I [OF gf] by (rule guarded_flow.keeps_store_Create [OF gf q]) (simp_all add: create_spec_def)
      from 2(2) show ?thesis
      proof (cases rule: run_and_thenE)
        case (1 e s4)
        obtain e1 where w: "run_state (store_Create M ctx ?spec) s3 = (Inl e1, s4)" using 1(1) by (rule run_wrapping_error)
        show ?thesis using keepsD [OF create conjunct1 [OF s3] w] run_store_Create_error [OF w] s2 s3 1 by auto
      next
        case (2 a s4)
        note w = run_wrapping_ok [OF 2(1)]
        have s4: "mine i (others Ob i (m_docker s0)) False a \<and> ?I s4" using keepsD [OF create conjunct1 [OF s3] w] by simp
        have "readable (mg_bolt M) (mg_agents M) (m_db s3)" using conjunct1 [OF s3] by (simp add: guard_at_def guarded_def)
        then have "still_creating M i (m_db s4)" using run_store_Create_ok [OF w] by (simp add: create_spec_def)
        from run_build_or_rollback [OF r q conjunct2 [OF s4] conjunct1 [OF s4] this 2(2)] show ?thesis by (auto split: sum.splits)
      qed
    qed
  qed
qed

end

lemma holds_release_again: "holds r Ms \<Longrightarrow> release i (op_begin i r) = r"
  using holds_release [OF holds_begin, of r Ms i i] by (simp add: holds_def)

text \<open>
  C16: a creation is all or nothing. If it succeeds, the record with the new ID is stored, it is the
  one returned and it says that the agent runs. If it fails, at whatever step and whatever the
  rollback manages to remove, the database is as it was or it has at most a record still marked
  creating, which the next reconcile pass takes for stuck; it never shows a running agent. The
  objects and records of all other agents are untouched, and the operation is no longer in flight.
\<close>

theorem create_all_or_nothing:
  assumes "manager_world M Ob sound nameable contexts" and "ctx \<in> contexts"
    and "mg_newID M (m_docker s) = (Inr i, w)" and "ready M Ob sound i False s" and "holds (m_inFlight s) Ms"
  shows "case run_state (flow_Create M ctx req) s of (r, s') \<Rightarrow>
     untouched M Ob i (own_volumes i) {dinernetName i} s s' \<and>
     (case r of
        Inr a \<Rightarrow> ag_ID a = i \<and> ag_Status a = StatusRunning \<and> Get (mg_bolt M) (mg_agents M) None i (m_db s') = Inr a
      | Inl e \<Rightarrow> m_db s' = m_db s \<or> (\<forall>a. Get (mg_bolt M) (mg_agents M) None i (m_db s') = Inr a \<longrightarrow> ag_Status a = StatusCreating))"
proof -
  note gf = guard_flow [OF assms(1,4)]
  note q = manager_world.quiet_context [OF assms(1,2)]
  let ?fl = "op_begin i (m_inFlight s)" and ?s1 = "s\<lparr>m_docker := w, m_inFlight := op_begin i (m_inFlight s)\<rparr>"
  obtain r s2 where body: "run_state (create_body M ctx req i) ?s1 = (r, s2)" by (rule prod.exhaust)
  have "run_state (flow_Create M ctx req) s = (r, s2\<lparr>m_inFlight := release i (m_inFlight s2)\<rparr>)"
    using body assms(3)
    by (simp add: flow_Create_def and_then_def wrapping_def wrap_error_def outside_def on_flight_def State_Monad.bind_def State_Monad.return_def)
  moreover have "sound w \<and> same_objects Ob (m_docker s) w"
    using manager_world.quiet_callD [OF assms(1) manager_world.newID_quiet [OF assms(1)] assms(3)] assms(4) by (simp add: ready_def)
  then have "guard_at M Ob sound i False (own_volumes i) {dinernetName i} s ?fl ?s1"
    using guard_start [OF assms(4), of "own_volumes i" "{dinernetName i}"] by (simp add: guard_at_def guarded_def same_objects_def)
  from manager_world.run_create_body [OF assms(1,4) q this body]
  have b: "\<exists>nm. guard_at M Ob sound i nm (own_volumes i) {dinernetName i} s ?fl s2"
    "case r of Inl e \<Rightarrow> m_db s2 = m_db s \<or> still_creating M i (m_db s2) | Inr b \<Rightarrow> ag_ID b = i \<and> stored_running M b s2"
    by (simp_all split: sum.splits)
  have "untouched M Ob i (own_volumes i) {dinernetName i} s (s2\<lparr>m_inFlight := release i (m_inFlight s2)\<rparr>)"
    using b(1) holds_release_again [OF assms(5)] by (auto simp: guard_at_def guarded_def untouched_def)
  ultimately show ?thesis using b(2) by (auto simp: stored_running_def still_creating_def records_def split: sum.splits)
qed

lemma sample_ready_next: "ready sample_Manager fake_view fake_sound ''agt_2'' nm sample_state"
  using sample_ready [of nm] unfolding ready_def by (simp add: sample_Get)

theorem create_all_or_nothing_witness:
  "case run_state (flow_Create sample_Manager without_cancel (empty_request\<lparr>rq_Backend := BackendOllama\<rparr>)) sample_state of (r, s') \<Rightarrow>
     workspaceVolumeName ''agt_1'' \<in> ob_volumes fake_view (m_docker s') \<and>
     Get (mg_bolt sample_Manager) (mg_agents sample_Manager) None ''agt_1'' (m_db s') = Inr sample_record"
proof -
  let ?req = "empty_request\<lparr>rq_Backend := BackendOllama\<rparr>"
  have v: "workspaceVolumeName ''agt_1'' \<in> ob_volumes fake_view (m_docker sample_state) - own_volumes ''agt_2''"
    by (simp add: fake_view_def sample_state_def sample_fake_def own_volumes_def workspaceVolumeName_def claudeConfigVolumeName_def
        dindCacheVolumeName_def agentContainerName_def resourcePrefix_def)
  have i: "mg_newID sample_Manager (m_docker sample_state) = (Inr ''agt_2'', m_docker sample_state)" by (simp add: sample_Manager_def)
  obtain r s' where run: "run_state (flow_Create sample_Manager without_cancel ?req) sample_state = (r, s')" by (rule prod.exhaust)
  from create_all_or_nothing [OF tests.manager_world_axioms sample_context i sample_ready_next sample_holds, of ?req, unfolded run prod.case]
  have u: "untouched sample_Manager fake_view ''agt_2'' (own_volumes ''agt_2'') {dinernetName ''agt_2''} sample_state s'" by (rule conjunct1)
  have "workspaceVolumeName ''agt_1'' \<in> ob_volumes fake_view (m_docker s')" using u v unfolding untouched_def by blast
  moreover have "Get (mg_bolt sample_Manager) (mg_agents sample_Manager) None ''agt_1'' (m_db s') = Inr sample_record"
    using u sample_Get [of "''agt_1''"] by (simp add: untouched_def)
  ultimately show ?thesis by (simp add: run)
qed

end
