(* ===== verification/Record_Types.thy ===== *)
theory Record_Types
  imports Flow_Create
begin

section \<open>The records the flows write are well typed\<close>

text \<open>
  The fields of an agent's record that say what to run are plain strings in the code. A record is
  well typed when they are values the rest of the operator can act on: a known backend, a harness
  that supports it, and a repository, threshold, mode and address that pass the checks of the
  configuration. Requests are checked before anything is written, so every flow keeps every
  record of the store well typed, also the ones it fails on.
\<close>

definition agent_typed :: "url_parser \<Rightarrow> string \<Rightarrow> Agent \<Rightarrow> bool" where
  "agent_typed urls k a \<longleftrightarrow>
     ag_ID a = k \<and> Valid (ag_Status a) \<and> ValidBackend (ag_Backend a) \<and>
     HarnessSupportsBackend (HarnessOf a) (ag_Backend a) \<and>
     (ag_Repo a = [] \<or> ValidGithubRepo (ag_Repo a)) \<and>
     (ag_AutoCompactThreshold a = [] \<or> ValidAutoCompactThreshold (ag_AutoCompactThreshold a)) \<and>
     ValidAutoMode (ag_AutoMode a) \<and>
     (ag_Backend a = BackendOllama \<longrightarrow> ag_OllamaURL a = [] \<or> ValidOllamaURL urls (ag_OllamaURL a))"

definition spec_typed :: "url_parser \<Rightarrow> resolvedSpec \<Rightarrow> bool" where
  "spec_typed urls rs \<longleftrightarrow>
     ValidBackend (rb_kind (rs_rb rs)) \<and> ValidHarness (rs_harness rs) \<and> HarnessSupportsBackend (rs_harness rs) (rb_kind (rs_rb rs)) \<and>
     (rs_repo rs = [] \<or> ValidGithubRepo (rs_repo rs)) \<and>
     (rs_autoCompact rs = [] \<or> ValidAutoCompactThreshold (rs_autoCompact rs)) \<and> ValidAutoMode (rs_autoMode rs) \<and>
     (rb_kind (rs_rb rs) = BackendOllama \<longrightarrow> rb_ollamaURL (rs_rb rs) = [] \<or> ValidOllamaURL urls (rb_ollamaURL (rs_rb rs)))"

subsection \<open>Requests\<close>

definition backend_typed :: "url_parser \<Rightarrow> resolvedBackend \<Rightarrow> bool" where
  "backend_typed urls rb \<longleftrightarrow> ValidBackend (rb_kind rb) \<and>
     (rb_kind rb = BackendOllama \<longrightarrow> rb_ollamaURL rb = [] \<or> ValidOllamaURL urls (rb_ollamaURL rb))"

lemma account_backend_typed: "account_backend acc account = Inr rb \<Longrightarrow> backend_typed urls rb"
  by (auto simp: account_backend_def backend_typed_def Let_def backend_of_def ValidBackend_def BackendAnthropic_def BackendOllama_def split: if_splits)

lemma mode_typed: "m = [] \<or> ValidAutoMode m \<Longrightarrow> ValidAutoMode (firstNonEmpty [m, AutoModeString b])"
  by (auto simp: ValidAutoMode_def AutoModeString_def)

lemma resolve_rest_typed:
  assumes "resolve_rest cfg req rb = Inr rs" and "backend_typed urls rb"
  shows "spec_typed urls rs"
proof -
  have "rq_AutoMode req = [] \<or> ValidAutoMode (rq_AutoMode req)"
    using assms(1) by (simp add: resolve_rest_def Let_def del: firstNonEmpty.simps split: if_splits)
  from mode_typed [OF this, of "cf_DefaultAutoMode cfg"] show ?thesis
    using assms by (auto simp: resolve_rest_def spec_typed_def backend_typed_def Let_def simp del: firstNonEmpty.simps split: if_splits)
qed

lemma db_keeps: "stable P m \<Longrightarrow> (\<And>x. V x) \<Longrightarrow> keeps (\<lambda>s. P (m_db s)) m V"
  unfolding stable_def by (erule keeps_conseq) simp

lemma ollama_typed:
  "url = [] \<or> ValidOllamaURL urls url \<Longrightarrow>
   backend_typed urls ((backend_of BackendOllama)\<lparr>rb_model := m, rb_fastModel := f, rb_ollamaURL := url\<rparr>)"
  by (auto simp: backend_typed_def backend_of_def ValidBackend_def)

lemma keeps_resolveBackend_typed:
  "keeps (\<lambda>s. P (m_db s)) (resolveBackend M ctx req acc) (\<lambda>r. \<forall>rb. r = Inr rb \<longrightarrow> backend_typed (mg_urls M) rb)"
  (is "keeps _ _ ?V")
proof -
  have inl: "?V (Inl e)" for e by simp
  have acc: "?V (account_backend i a)" for i a using account_backend_typed by blast
  have choose: "keeps (\<lambda>s. P (m_db s)) (choose_account M ctx req acc) W" if "\<And>x. W x" for W
    unfolding choose_account_def by (rule db_keeps) (intro on_db that)+
  show ?thesis
    unfolding resolveBackend_def Let_def
  proof (intro keeps_if keeps_return inl keeps_and_then choose)
    fix x :: "store_error + string \<times> bool"
    show "case x of Inl e \<Rightarrow> ?V (Inl e) | Inr p \<Rightarrow> keeps (\<lambda>s. P (m_db s)) (case p of (accountID, fromRequest) \<Rightarrow>
        if accountID = [] then ret (Inl ErrNoAnthropicAuth)
        else do {
          r \<leftarrow> store_GetAnthropicAccount M ctx accountID;
          case r of
            Inl e \<Rightarrow>
              if errors_Is e ErrAnthropicAccountNotFound
              then ret (Inl (if fromRequest then ErrUnknownAnthropicAccount
                             else Wrap ''the pinned account no longer exists'' ErrNoAnthropicAuth))
              else ret (Inl (Wrap ''reading the Anthropic account'' e))
          | Inr account \<Rightarrow> ret (account_backend accountID account) }) ?V"
      by (cases x) (simp_all, intro flow db_keeps [OF stable_store_reads(2)] inl acc)
  qed (auto simp del: firstNonEmpty.simps intro!: ollama_typed)
qed

lemma keeps_resolveSpec_typed:
  "keeps (\<lambda>s. P (m_db s)) (resolveSpec M ctx req acc) (\<lambda>r. \<forall>rs. r = Inr rs \<longrightarrow> spec_typed (mg_urls M) rs)"
  unfolding resolveSpec_def
proof (intro keeps_and_then keeps_conseq [OF keeps_resolveBackend_typed])
  fix r :: "store_error + resolvedBackend"
  assume "\<forall>rb. r = Inr rb \<longrightarrow> backend_typed (mg_urls M) rb"
  then show "case r of Inl e \<Rightarrow> \<forall>rs. Inl e = Inr rs \<longrightarrow> spec_typed (mg_urls M) rs
      | Inr rb \<Rightarrow> keeps (\<lambda>s. P (m_db s)) (ret (resolve_rest (mg_cfg M) req rb)) (\<lambda>r. \<forall>rs. r = Inr rs \<longrightarrow> spec_typed (mg_urls M) rs)"
    by (cases r) (auto intro!: keeps_return resolve_rest_typed)
qed

subsection \<open>Flows that change a status only\<close>

text \<open>A \<open>Q\<close> that looks neither at the Docker objects nor at the status, as long as it is a known one.\<close>

definition status_free :: "(string \<Rightarrow> Agent \<Rightarrow> bool) \<Rightarrow> bool" where
  "status_free Q \<longleftrightarrow> ignores_objects Q \<and>
     (\<forall>k a st m. Q k a \<longrightarrow> Valid st \<longrightarrow> Q k (a\<lparr>ag_Status := st\<rparr>) \<and> Q k (a\<lparr>ag_Status := st, ag_ErrorMessage := m\<rparr>))"

definition typed_for :: "url_parser \<Rightarrow> string \<Rightarrow> string \<Rightarrow> string \<Rightarrow> Agent \<Rightarrow> bool" where
  "typed_for urls i h k a \<longleftrightarrow> agent_typed urls k a \<and> (k = i \<longrightarrow> HarnessOf a = h)"

lemma typed_status_free: "status_free (agent_typed urls)" "status_free (typed_for urls i h)"
  by (auto simp: status_free_def ignores_objects_def typed_for_def agent_typed_def HarnessOf_def)

lemma status_freeD:
  assumes "status_free Q"
  shows "ignores_objects Q" "Q k a \<Longrightarrow> Valid st \<Longrightarrow> Q k (a\<lparr>ag_Status := st, ag_UpdatedAt := t\<rparr>)"
    "Q k a \<Longrightarrow> Valid st \<Longrightarrow> Q k (a\<lparr>ag_Status := st, ag_ErrorMessage := m, ag_UpdatedAt := t\<rparr>)"
    "Q k a \<Longrightarrow> Valid st \<Longrightarrow> Q k (a\<lparr>ag_Status := st, ag_ErrorMessage := m, ag_ContainerID := x, ag_UpdatedAt := t\<rparr>)"
  using assms by (simp_all add: status_free_def ignores_objects_def)

lemma ignoresD:
  assumes "ignores_objects Q"
  shows "Q k a \<Longrightarrow> Q k (a\<lparr>ag_ContainerID := x, ag_UpdatedAt := t\<rparr>)" "Q k a \<Longrightarrow> Q k (a\<lparr>ag_DindContainerID := x, ag_UpdatedAt := t\<rparr>)"
    "Q k a \<Longrightarrow> Q k (a\<lparr>ag_ImageID := x, ag_UpdatedAt := t\<rparr>)" "Q k a \<Longrightarrow> Q k (a\<lparr>ag_DependaproxyDinernetIP := x, ag_UpdatedAt := t\<rparr>)"
  using assms by (simp_all add: ignores_objects_def)

lemma stable_snd: "stable P m \<Longrightarrow> P (m_db s) \<Longrightarrow> P (m_db (snd (run_state m s)))"
  using stableD [of P m s "fst (run_state m s)" "snd (run_state m s)"] by simp

lemma stable_on_flight [on_db]: "stable P (on_flight f)"
  unfolding stable_def by (rule keepsI) (auto simp: on_flight_def split: prod.splits)

lemma stable_claimed [on_db]: "stable P body \<Longrightarrow> stable P (claimed i x body)"
  unfolding claimed_def by (intro on_db)

lemma stable_store_Get [on_db]: "stable P (store_Get M ctx j)" "stable P (store_List M ctx)"
  unfolding store_Get_def store_List_def by (intro on_db)+

lemma stable_remove [on_db]:
  "stable P (remove_container M ctx what ref)" "stable P (removeAgentContainer M ctx a)" "stable P (teardown M ctx a)"
  unfolding removeAgentContainer_def remove_container_def by (intro on_db stable_external [OF external_teardown])+

lemma stable_refresh [on_db]: "stable P (refreshDependaproxyIPFile M ctx a)"
  unfolding refreshDependaproxyIPFile_def by (intro on_db)

context manager_world
begin

lemma marks_stable:
  assumes "status_free Q"
  shows "stable (records M Q) (markRunning M ctx a)" "stable (records M Q) (markRebuildError M j e)" "stable (records M Q) (failUpdate M j e)"
    "stable (records M Q) (mark_deleting M ctx a j)" "stable (records M Q) (flow_markShielded M ctx j from)"
    "stable (records M Q) (store_Update M ctx j mark_updating)"
  unfolding markRunning_def markRebuildError_def failUpdate_def mark_deleting_def flow_markShielded_def
  by (intro on_db records_Update records_stamp;
      auto simp: Valid_def shield_Inr mark_updating_def intro!: status_freeD(2-) [OF assms] split: if_splits)+

lemma containers_stable:
  assumes "ignores_objects Q"
  shows "stable (records M Q) (startDind M ctx a)" "stable (records M Q) (startAgentContainer M ctx a rb args)"
    "stable (records M Q) (stampImageID M ctx a)" "stable (records M Q) (stampDependaproxyIP M ctx a addr)"
  unfolding startDind_def startAgentContainer_def stampImageID_def stampDependaproxyIP_def
  by (intro on_db records_stamp ignoresD [OF assms]; assumption)+

lemma dind_stable:
  assumes "ignores_objects Q"
  shows "stable (records M Q) (recreateDind M ctx a)" "stable (records M Q) (syncDependaproxyDinernetIP M ctx a)"
  unfolding recreateDind_def syncDependaproxyDinernetIP_def by (intro on_db containers_stable [OF assms])+

lemma wake_dind_stable: "ignores_objects Q \<Longrightarrow> stable (records M Q) (wake_dind M ctx a ref n)"
  by (induction n) (auto intro!: on_db dind_stable)

lemma ensureDindRunning_stable: "ignores_objects Q \<Longrightarrow> stable (records M Q) (ensureDindRunning M ctx a)"
  unfolding ensureDindRunning_def Let_def by (intro on_db dind_stable wake_dind_stable)

lemma rebuild_stable:
  assumes "status_free Q"
  shows "stable (records M Q) (rebuildAgentContainer M ctx a rb)" "stable (records M Q) (rebuild_failed M j e)"
  unfolding rebuildAgentContainer_def rebuild_failed_def Let_def
  by (intro on_db containers_stable [OF status_freeD(1)] marks_stable assms)+

lemma status_flows_stable:
  assumes "status_free Q"
  shows "stable (records M Q) (resume_body M ctx j)" "stable (records M Q) (delete_body M ctx j)"
    "stable (records M Q) (cleanupStuckRecord M ctx a)" "stable (records M Q) (wakeAgent M ctx a)"
proof -
  note rules = on_db dind_stable [OF status_freeD(1) [OF assms]] ensureDindRunning_stable [OF status_freeD(1) [OF assms]]
    rebuild_stable [OF assms] marks_stable [OF assms] records_Delete
  have backend: "stable (records M Q) (resolveBackendFromAgent M ctx a)" for a
    unfolding resolveBackendFromAgent_def resolveBackend_def choose_account_def Let_def by (intro on_db)
  show "stable (records M Q) (resume_body M ctx j)" "stable (records M Q) (wakeAgent M ctx a)"
    unfolding resume_body_def wakeAgent_def by (intro rules backend)+
  show "stable (records M Q) (delete_body M ctx j)" unfolding delete_body_def by (intro rules)
  show "stable (records M Q) (cleanupStuckRecord M ctx a)"
    unfolding cleanupStuckRecord_def
    by (intro rules records_Update) (auto simp: Valid_def intro!: status_freeD(3) [OF assms])
qed

lemma sweeps_stable:
  assumes "status_free Q"
  shows "stable (records M Q) (sweep_stuck M ctx as)" "stable (records M Q) (wakeStoppedAgents M ctx as)"
  by (induction as) (auto intro!: on_db status_flows_stable assms)

lemma Reconcile_stable: "status_free Q \<Longrightarrow> stable (records M Q) (flow_Reconcile M ctx)"
  unfolding flow_Reconcile_def findUnmanaged_def reportUnmanaged_def by (intro on_db sweeps_stable)

lemma MarkUnexpectedExit_stable: "status_free Q \<Longrightarrow> stable (records M Q) (MarkUnexpectedExit M ctx j c st msg)"
  unfolding MarkUnexpectedExit_def
  by (intro on_db records_Update)
     (auto simp: unexpected_exit_def status_free_def ignores_objects_def split: if_splits)

end

subsection \<open>Flows that write a request's fields\<close>

lemma typed_new:
  assumes "spec_typed urls rs"
  shows "agent_typed urls (cs_ID (create_spec i req rs ref)) (new_agent (create_spec i req rs ref) t)"
proof -
  have "rs_harness rs \<noteq> []" using assms by (auto simp: spec_typed_def ValidHarness_def HarnessClaudeCode_def HarnessOpenCode_def)
  then show ?thesis using assms by (simp add: agent_typed_def spec_typed_def new_agent_def create_spec_def HarnessOf_def Valid_def)
qed

lemma typed_updated:
  assumes "typed_for urls i h i a" and "spec_typed urls rs" and "HarnessSupportsBackend h (rb_kind (rs_rb rs))"
  shows "typed_for urls i h i (updated_fields i req rs ref a\<lparr>ag_UpdatedAt := t\<rparr>)"
  using assms by (simp add: typed_for_def agent_typed_def spec_typed_def updated_fields_def HarnessOf_def)

context manager_world
begin

lemma build_stable: "status_free Q \<Longrightarrow> stable (records M Q) (build M ctx a rb task)"
  unfolding build_phases by (intro on_db records_steps marks_stable status_freeD(1))

lemma create_body_typed: "stable (records M (agent_typed (mg_urls M))) (create_body M ctx req i)"
  unfolding create_body_def stable_def
proof (intro keeps_and_then keeps_wrapping keeps_conseq [OF keeps_resolveSpec_typed])
  fix r :: "store_error + resolvedSpec"
  assume r: "\<forall>rs. r = Inr rs \<longrightarrow> spec_typed (mg_urls M) rs"
  show "case wrap_error ''creating an agent'' r of Inl e \<Rightarrow> True
    | Inr rs \<Rightarrow> keeps (\<lambda>s. records M (agent_typed (mg_urls M)) (m_db s))
        (and_then (wrapping ''creating an agent'' (resolveAgentImageRef M ctx (rq_ImageTag req) (rs_harness rs))) (\<lambda>imageRef.
         and_then (wrapping ''creating agent'' (store_Create M ctx (create_spec i req rs imageRef))) (\<lambda>a. do {
           (a, r) \<leftarrow> build M ctx a (rs_rb rs) (rq_OneShotTask req);
           case r of
             Inl e \<Rightarrow> do { _ \<leftarrow> rollback M a; ret (Inl (Wrap ''creating agent'' e)) }
           | Inr _ \<Rightarrow> ret (Inr a) }))) (\<lambda>_. True)"
  proof (cases r)
    case (Inr rs)
    then show ?thesis
      using r by (simp add: wrap_error_def)
        (intro db_keeps on_db records_Create typed_new build_stable typed_status_free(1) records_rollback TrueI; simp)
  qed (simp add: wrap_error_def)
qed

lemma update_tail_typed:
  assumes "spec_typed (mg_urls M) rs" and "HarnessSupportsBackend h (rb_kind (rs_rb rs))"
  shows "stable (records M (typed_for (mg_urls M) i h)) (update_tail M ctx i req rs ref a)"
proof -
  note free = typed_status_free(2) [of "mg_urls M" i h]
  have fields: "stable (records M (typed_for (mg_urls M) i h)) (store_Update M ctx i (\<lambda>ag. Inr (updated_fields i req rs ref ag)))"
    by (rule records_Update) (use typed_updated assms in blast)
  show ?thesis
    unfolding update_tail_def update_start_def ensureImage_def ensureAgentFiles_def
    by (intro on_db fields marks_stable [OF free] dind_stable ensureDindRunning_stable containers_stable status_freeD(1) [OF free])
qed

lemma update_rest_typed:
  "stable (records M (typed_for (mg_urls M) i (HarnessOf a)))
     (if \<not> updatableStatus (ag_Status a) then ret (Inl (Wrap ''updating agent'' ErrNotUpdatable))
      else and_then (wrapping ''updating agent'' (resolveSpec M ctx req (ag_AnthropicAccountID a))) (\<lambda>rs.
      if \<not> HarnessSupportsBackend (HarnessOf a) (rb_kind (rs_rb rs)) then ret (Inl (Wrap ''updating agent'' ErrIncompatibleHarness))
      else and_then (wrapping ''updating agent'' (resolveAgentImageRef M ctx (rq_ImageTag req) (HarnessOf a))) (\<lambda>newRef. do {
        r \<leftarrow> store_Update M ctx i mark_updating;
        case r of
          Inl e \<Rightarrow> ret (Inl (if errors_Is e ErrNotUpdatable \<or> IsNotFound e then e else Wrap ''updating agent: marking it updating'' e))
        | Inr a \<Rightarrow> update_tail M ctx i req rs newRef a })))"
  (is "stable (records M ?Q) (if ?b then ?m else and_then ?spec ?rest)")
proof (rule stable_if, rule stable_return)
  have rest: "stable (records M ?Q) (?rest rs)" if "spec_typed (mg_urls M) rs" for rs
  proof (cases "HarnessSupportsBackend (HarnessOf a) (rb_kind (rs_rb rs))")
    case True
    then show ?thesis by (simp del: not_not) (intro on_db update_tail_typed [OF that] marks_stable typed_status_free)
  qed (simp add: on_db)
  show "stable (records M ?Q) (and_then ?spec ?rest)"
    unfolding stable_def
  proof (intro keeps_and_then keeps_wrapping keeps_conseq [OF keeps_resolveSpec_typed])
    fix r :: "store_error + resolvedSpec"
    assume r: "\<forall>rs. r = Inr rs \<longrightarrow> spec_typed (mg_urls M) rs"
    show "case wrap_error ''updating agent'' r of Inl e \<Rightarrow> True | Inr rs \<Rightarrow> keeps (\<lambda>s. records M ?Q (m_db s)) (?rest rs) (\<lambda>_. True)"
    proof (cases r)
      case (Inr rs)
      then show ?thesis using rest [of rs] r unfolding stable_def by (simp add: wrap_error_def)
    qed (simp add: wrap_error_def)
  qed
qed

lemma update_body_typed: "stable (records M (agent_typed (mg_urls M))) (update_body M ctx i req)"
  unfolding stable_def
proof (rule keepsI)
  fix s x s1
  assume s: "records M (agent_typed (mg_urls M)) (m_db s)" and run: "run_state (update_body M ctx i req) s = (x, s1)"
  from run [unfolded update_body_def] show "True \<and> records M (agent_typed (mg_urls M)) (m_db s1)"
  proof (cases rule: run_and_thenE)
    case (1 e s2)
    then show ?thesis using stableD [where P = "records M (agent_typed (mg_urls M))", OF stable_store_Get(1) s 1(1)] by simp
  next
    case (2 a s2)
    have db: "m_db s2 = m_db s" and "Get (mg_bolt M) (mg_agents M) (fst (ctx (m_docker s))) i (m_db s) = Inr a"
      using run_store_Get [OF 2(1)] by simp_all
    then have g: "Get (mg_bolt M) (mg_agents M) None i (m_db s2) = Inr a" by (simp add: Get_Inr)
    have "records M (typed_for (mg_urls M) i (HarnessOf a)) (m_db s2)" using s g db by (auto simp: records_def typed_for_def)
    from stableD [OF update_rest_typed this 2(2)] show ?thesis by (auto simp: records_def typed_for_def)
  qed
qed

end

text \<open>
  C19: every record stays well typed. If all records of the store are, they still are after a
  creation, an update, a resume, a deletion, a reconcile pass or an unexpected exit, whatever the
  request holds and whatever fails on the way.
\<close>

theorem flows_keep_records_typed:
  assumes "manager_world M Ob sound nameable contexts" and "records M (agent_typed (mg_urls M)) (m_db s)"
  shows "records M (agent_typed (mg_urls M)) (m_db (snd (run_state (flow_Create M ctx req) s))) \<and>
    records M (agent_typed (mg_urls M)) (m_db (snd (run_state (flow_Update M ctx i req) s))) \<and>
    records M (agent_typed (mg_urls M)) (m_db (snd (run_state (ResumeAgent M ctx i) s))) \<and>
    records M (agent_typed (mg_urls M)) (m_db (snd (run_state (flow_Delete M ctx i) s))) \<and>
    records M (agent_typed (mg_urls M)) (m_db (snd (run_state (flow_Reconcile M ctx) s))) \<and>
    records M (agent_typed (mg_urls M)) (m_db (snd (run_state (MarkUnexpectedExit M ctx i c status msg) s)))"
proof -
  note free = typed_status_free(1) [of "mg_urls M"]
  note w = manager_world.create_body_typed [OF assms(1)] manager_world.update_body_typed [OF assms(1)]
    manager_world.status_flows_stable(1,2) [OF assms(1) free] manager_world.Reconcile_stable [OF assms(1) free]
    manager_world.MarkUnexpectedExit_stable [OF assms(1) free]
  show ?thesis
    unfolding flow_Create_def flow_Update_def ResumeAgent_def flow_Delete_def
    by (intro conjI stable_snd [where P = "records M (agent_typed (mg_urls M))", OF _ assms(2)] on_db w)
qed

lemma sample_typed: "records sample_Manager (agent_typed (mg_urls sample_Manager)) (m_db sample_state)"
proof -
  have "agent_typed (mg_urls sample_Manager) ''agt_1'' sample_record"
    by (simp add: agent_typed_def sample_record_def withDerivedNames_def legacy_agent_def new_agent_def sample_spec_def Valid_def
        ValidBackend_def HarnessSupportsBackend_def HarnessOf_def HarnessClaudeCode_def HarnessOpenCode_def ValidAutoMode_def)
  then show ?thesis using sample_ready [of True] by (simp add: records_def sample_Get ready_def)
qed

theorem flows_keep_records_typed_witness:
  "records sample_Manager (agent_typed (mg_urls sample_Manager)) (m_db (snd (run_state (flow_Update sample_Manager without_cancel ''agt_1'' empty_request) sample_state)))"
  using flows_keep_records_typed [OF tests.manager_world_axioms sample_typed] by blast

subsection \<open>Who is to blame for a rejected request\<close>

text \<open>The error names a field, and it is the request that gave this field a bad value.\<close>

definition request_at_fault :: "url_parser \<Rightarrow> CreateRequest \<Rightarrow> store_error \<Rightarrow> bool" where
  "request_at_fault urls req e \<longleftrightarrow>
     (e = ErrInvalidBackend \<longrightarrow> rq_Backend req \<noteq> [] \<and> \<not> ValidBackend (rq_Backend req)) \<and>
     (e = ErrInvalidHarness \<longrightarrow> rq_Harness req \<noteq> [] \<and> \<not> ValidHarness (rq_Harness req)) \<and>
     (e = ErrIncompatibleHarness \<longrightarrow> rq_Harness req = HarnessOpenCode) \<and>
     (e = ErrInvalidRepo \<longrightarrow> rq_Repo req \<noteq> [] \<and> \<not> ValidGithubRepo (rq_Repo req)) \<and>
     (e = ErrInvalidOllamaURL \<longrightarrow> rq_OllamaURL req \<noteq> [] \<and> \<not> ValidOllamaURL urls (rq_OllamaURL req)) \<and>
     (e = ErrInvalidAutoCompactThreshold \<longrightarrow> rq_AutoCompactThreshold req \<noteq> [] \<and> \<not> ValidAutoCompactThreshold (rq_AutoCompactThreshold req)) \<and>
     (e = ErrInvalidAutoMode \<longrightarrow> rq_AutoMode req \<noteq> [] \<and> \<not> ValidAutoMode (rq_AutoMode req))"

lemmas request_errors = ErrInvalidBackend_def ErrInvalidHarness_def ErrIncompatibleHarness_def ErrInvalidRepo_def ErrInvalidOllamaURL_def
  ErrInvalidAutoCompactThreshold_def ErrInvalidAutoMode_def ErrNoAnthropicAuth_def ErrUnknownAnthropicAccount_def

lemma other_errors:
  "request_at_fault urls req (Wrap m e)" "request_at_fault urls req (Plain m)" "request_at_fault urls req ErrNoAnthropicAuth"
  "request_at_fault urls req ErrUnknownAnthropicAccount"
  by (simp_all add: request_at_fault_def request_errors)

lemma wrapped_fault: "wrap_error m x = Inl e \<Longrightarrow> request_at_fault urls req e"
  by (cases x) (auto simp: wrap_error_def other_errors)

lemma config_defaults_valid:
  assumes "config_Validate urls cfg = None"
  shows "ValidBackend (cf_DefaultBackend cfg)" "cf_GithubRepo cfg = [] \<or> ValidGithubRepo (cf_GithubRepo cfg)"
    "cf_AutoCompactThreshold cfg = [] \<or> ValidAutoCompactThreshold (cf_AutoCompactThreshold cfg)"
    "cf_OllamaURL cfg = [] \<or> ValidOllamaURL urls (cf_OllamaURL cfg)"
  using assms
  by (auto simp: config_Validate_def validateLimitsAndPaths_def validateRequired_def validateModelRouting_def ValidOllamaURL_def split: if_splits)

lemma first_of_two: "firstNonEmpty [x, y] = (if x = [] then y else x)"
  by simp

lemma harness_valid: "ValidHarness HarnessClaudeCode" "HarnessSupportsBackend HarnessClaudeCode b"
  by (simp_all add: ValidHarness_def HarnessSupportsBackend_def HarnessClaudeCode_def HarnessOpenCode_def)

lemma resolve_rest_fault:
  assumes "config_Validate urls cfg = None" and "resolve_rest cfg req rb = Inl e"
  shows "request_at_fault urls req e"
  using assms(2) config_defaults_valid [OF assms(1)] harness_valid
  unfolding resolve_rest_def Let_def first_of_two
  by (auto simp: request_at_fault_def request_errors HarnessSupportsBackend_def split: if_splits)

lemma keeps_resolveSpec_fault:
  assumes "config_Validate (mg_urls M) (mg_cfg M) = None"
  shows "keeps (\<lambda>s. P (m_db s)) (resolveSpec M ctx req acc) (\<lambda>r. \<forall>e. r = Inl e \<longrightarrow> request_at_fault (mg_urls M) req e)"
    (is "keeps _ _ ?V")
proof -
  note valid = config_defaults_valid [OF assms]
  have backend: "request_at_fault (mg_urls M) req ErrInvalidBackend"
    if "\<not> ValidBackend (firstNonEmpty [rq_Backend req, cf_DefaultBackend (mg_cfg M)])"
    using that valid(1) unfolding first_of_two by (auto simp: request_at_fault_def request_errors split: if_splits)
  have url: "request_at_fault (mg_urls M) req ErrInvalidOllamaURL"
    if "firstNonEmpty [rq_OllamaURL req, cf_OllamaURL (mg_cfg M)] \<noteq> [] \<and>
        \<not> ValidOllamaURL (mg_urls M) (firstNonEmpty [rq_OllamaURL req, cf_OllamaURL (mg_cfg M)])"
    using that valid(4) unfolding first_of_two by (auto simp: request_at_fault_def request_errors split: if_splits)
  have kind: "\<forall>e. account_backend i account = Inl e \<longrightarrow> request_at_fault (mg_urls M) req e" for i account
    by (auto simp: account_backend_def Let_def other_errors split: if_splits)
  have rest: "\<forall>e. resolve_rest (mg_cfg M) req rb = Inl e \<longrightarrow> request_at_fault (mg_urls M) req e" for rb
    using resolve_rest_fault [OF assms] by blast
  show ?thesis
    unfolding resolveSpec_def resolveBackend_def choose_account_def Let_def
    by (auto intro!: flow db_keeps [OF stable_store_reads(1)] db_keeps [OF stable_store_reads(2)] simp: flow_simps other_errors backend url kind rest
        simp del: firstNonEmpty.simps split: sum.split) (erule wrapped_fault)+
qed

text \<open>
  A configuration that was accepted at start never makes a request fail. When a request for an
  agent is rejected because of a field, the request itself gave that field, and the value is not
  valid; an empty field, for which the configuration's default stands in, is never the reason. A
  rejected request writes nothing.
\<close>

theorem rejections_blame_the_request:
  assumes "config_Validate (mg_urls M) (mg_cfg M) = None" and "run_state (resolveSpec M ctx req acc) s = (Inl e, s')"
  shows "request_at_fault (mg_urls M) req e \<and> m_db s' = m_db s"
  using keepsD [OF keeps_resolveSpec_fault [OF assms(1), of "\<lambda>d. d = m_db s"] refl assms(2)] by simp

definition configured_Manager :: "(account_raw, account_raw ref_db, fake_world) Manager" where
  "configured_Manager = sample_Manager\<lparr>mg_cfg := sample_config\<lparr>cf_AgentToken := ''token''\<rparr>\<rparr>"

theorem rejections_blame_the_request_witness:
  "case run_state (resolveSpec configured_Manager without_cancel (empty_request\<lparr>rq_Backend := BackendOllama, rq_Repo := ''nowhere''\<rparr>) []) sample_state of
     (r, s') \<Rightarrow> r = Inl ErrInvalidRepo \<and> \<not> ValidGithubRepo ''nowhere'' \<and> m_db s' = m_db sample_state"
proof -
  let ?req = "empty_request\<lparr>rq_Backend := BackendOllama, rq_Repo := ''nowhere''\<rparr>"
  have v: "config_Validate (mg_urls configured_Manager) (mg_cfg configured_Manager) = None" by code_simp
  have f: "fst (run_state (resolveSpec configured_Manager without_cancel ?req []) sample_state) = Inl ErrInvalidRepo" by code_simp
  obtain s' where run: "run_state (resolveSpec configured_Manager without_cancel ?req []) sample_state = (Inl ErrInvalidRepo, s')"
    using f by (metis prod.collapse)
  show ?thesis using rejections_blame_the_request [OF v run] by (simp add: run request_at_fault_def)
qed

end
