(* ===== verification/Storage_Path.thy ===== *)
theory Storage_Path
  imports Go_Path "HOL-Library.List_Lexorder" "HOL-Library.Char_ord"
begin

section \<open>Object keys of the context storage\<close>

text \<open>
  \<^verbatim>\<open>src/operator/internal/storage/path.go\<close> and \<^verbatim>\<open>errors.go\<close>: the error kinds of the storage
  package, the identity of an environment, the layout of its keys under a prefix and what a
  valid layout is. Strings are byte strings, so a length is a number of bytes; every
  character the validation refuses is a single byte, which is why the check of the runes of a
  segment is a check of its bytes. The lemmas show that the root key of a valid layout
  determines the identity, that keys of different environments never share a root, and that a
  snapshot's name is a valid segment ordered like its sequence number.
\<close>

subsection \<open>Errors\<close>

datatype error_kind = ErrNotFound | ErrUnreachable | ErrCorrupt | ErrPermission | ErrInvalid

text \<open>
  \<open>Errorf\<close> is \<^verbatim>\<open>fmt.Errorf\<close> with one \<^verbatim>\<open>%w\<close>, \<open>OpError\<close> the struct \<^verbatim>\<open>Error\<close>, \<open>Foreign\<close> an error of another
  package, which none of the sentinels matches. The values quoted in messages are left out.
\<close>

datatype storage_error =
    Kind error_kind
  | Errorf string storage_error
  | OpError (e_Op: string) (e_Backend: string) (e_Key: string) (e_Kind: error_kind) (e_Err: "storage_error option")
  | Foreign string

fun error_Is :: "storage_error \<Rightarrow> error_kind \<Rightarrow> bool" where
  "error_Is (Kind k) k' = (k = k')"
| "error_Is (Errorf msg e) k' = error_Is e k'"
| "error_Is (OpError p b key k e) k' = (k = k' \<or> (case e of None \<Rightarrow> False | Some e' \<Rightarrow> error_Is e' k'))"
| "error_Is (Foreign msg) k' = False"

definition IsNotFound :: "storage_error \<Rightarrow> bool" where "IsNotFound e = error_Is e ErrNotFound"
definition IsUnreachable :: "storage_error \<Rightarrow> bool" where "IsUnreachable e = error_Is e ErrUnreachable"
definition IsCorrupt :: "storage_error \<Rightarrow> bool" where "IsCorrupt e = error_Is e ErrCorrupt"
definition IsPermission :: "storage_error \<Rightarrow> bool" where "IsPermission e = error_Is e ErrPermission"
definition IsInvalid :: "storage_error \<Rightarrow> bool" where "IsInvalid e = error_Is e ErrInvalid"
definition IsRetryable :: "storage_error \<Rightarrow> bool" where "IsRetryable e = error_Is e ErrUnreachable"

abbreviation invalid :: "string \<Rightarrow> storage_error" where "invalid msg \<equiv> Errorf msg (Kind ErrInvalid)"

subsection \<open>Names\<close>

definition DirSnapshots :: string where "DirSnapshots = ''snapshots''"
definition DirArchive :: string where "DirArchive = ''archive''"
definition FileWorkspace :: string where "FileWorkspace = ''workspace.tar.zst''"
definition FileAgentHome :: string where "FileAgentHome = ''agent-home.tar.zst''"
definition FileManifest :: string where "FileManifest = ''manifest.json''"
definition FileRun :: string where "FileRun = ''run.json''"
definition FileContext :: string where "FileContext = ''context.tar.zst''"
definition FileLatest :: string where "FileLatest = ''latest.json''"

lemmas file_names = DirSnapshots_def DirArchive_def FileWorkspace_def FileAgentHome_def FileManifest_def
  FileRun_def FileContext_def FileLatest_def

definition maxTotalKeyLen :: nat where "maxTotalKeyLen = 1024"
definition maxSegmentLen :: nat where "maxSegmentLen = 255"

record Identity =
  ClusterID :: string
  id_Namespace :: string
  EnvName :: string
  EnvUID :: string

record Layout =
  lay_Prefix :: string
  lay_Identity :: Identity

subsection \<open>Validation\<close>

definition join_key :: "string list \<Rightarrow> string" where
  "join_key parts = join_slash (filter (\<lambda>p. p \<noteq> []) parts)"

definition Root :: "Layout \<Rightarrow> string" where
  "Root l = (let i = lay_Identity l in join_key [lay_Prefix l, ClusterID i, id_Namespace i, EnvName i, EnvUID i])"

definition allowed_char :: "char \<Rightarrow> bool" where
  "allowed_char r \<longleftrightarrow> \<not> (r = slash \<or> of_char r = (92::nat) \<or> of_char r = (0::nat) \<or> of_char r < (32::nat) \<or> of_char r = (127::nat))"

definition validateSegment :: "string \<Rightarrow> storage_error option" where
  "validateSegment seg =
     (if seg = [] then Some (invalid ''path segment must not be empty'')
      else if seg = ''.'' \<or> seg = ''..'' then Some (invalid ''path segment is not allowed'')
      else if maxSegmentLen < length seg then Some (invalid ''path segment length exceeds the limit'')
      else if \<not> list_all allowed_char seg then Some (invalid ''path segment contains a disallowed character'')
      else None)"

fun validateSegments :: "(storage_error \<Rightarrow> storage_error) \<Rightarrow> string list \<Rightarrow> storage_error option" where
  "validateSegments wrap [] = None"
| "validateSegments wrap (seg # segs) =
     (case validateSegment seg of Some e \<Rightarrow> Some (wrap e) | None \<Rightarrow> validateSegments wrap segs)"

definition Layout_Validate :: "Layout \<Rightarrow> storage_error option" where
  "Layout_Validate l =
     (let i = lay_Identity l in
      if ClusterID i = [] then Some (invalid ''clusterID is required'')
      else if id_Namespace i = [] then Some (invalid ''namespace is required'')
      else if EnvName i = [] then Some (invalid ''envName is required'')
      else if EnvUID i = [] then Some (invalid ''envUID is required'')
      else case validateSegments (\<lambda>e. e) [ClusterID i, id_Namespace i, EnvName i, EnvUID i] of
        Some e \<Rightarrow> Some e
      | None \<Rightarrow>
          (case (if lay_Prefix l \<noteq> [] then validateSegments (Errorf ''prefix'') (split_slash (lay_Prefix l)) else None) of
             Some e \<Rightarrow> Some e
           | None \<Rightarrow>
               if maxTotalKeyLen < length (Root l) then Some (invalid ''root key length exceeds the limit'') else None))"

definition NewLayout :: "string \<Rightarrow> Identity \<Rightarrow> storage_error + Layout" where
  "NewLayout prefix i =
     (let l = \<lparr>lay_Prefix = prefix, lay_Identity = i\<rparr> in
      case Layout_Validate l of Some e \<Rightarrow> Inl e | None \<Rightarrow> Inr l)"

subsection \<open>Time stamps\<close>

text \<open>
  \<^verbatim>\<open>Truncate(time.Second)\<close> rounds down; \<^verbatim>\<open>Format(time.RFC3339)\<close> of a time in UTC. The civil date of
  a number of days since the epoch counts years from March, so that the leap day is the last
  day of a year, in cycles of 400 years.
\<close>

definition truncate_second :: "time \<Rightarrow> time" where
  "truncate_second t = t - t mod Second"

definition civil :: "int \<Rightarrow> int \<times> int \<times> int" where
  "civil days =
     (let z = days + 719468;
          era = z div 146097;
          doe = z mod 146097;
          yoe = (doe - doe div 1460 + doe div 36524 - doe div 146096) div 365;
          doy = doe - (365 * yoe + yoe div 4 - yoe div 100);
          mp = (5 * doy + 2) div 153;
          d = doy - (153 * mp + 2) div 5 + 1;
          m = (if mp < 10 then mp + 3 else mp - 9);
          y = yoe + era * 400 + (if m \<le> 2 then 1 else 0)
      in (y, m, d))"

definition pad :: "nat \<Rightarrow> string \<Rightarrow> string" where
  "pad w s = replicate (w - length s) (CHR ''0'') @ s"

text \<open>Zero padding to a width counts the sign: \<^verbatim>\<open>%05d\<close> of -7 is \<^verbatim>\<open>-0007\<close>.\<close>

definition pad_int :: "nat \<Rightarrow> int \<Rightarrow> string" where
  "pad_int w i = (if i < 0 then CHR ''-'' # pad (w - 1) (decimal (nat (- i))) else pad w (decimal (nat i)))"

text \<open>The year is zero padded to four digits without counting a sign, unlike \<^verbatim>\<open>%04d\<close>.\<close>

definition year_string :: "int \<Rightarrow> string" where
  "year_string y = (if y < 0 then CHR ''-'' # pad 4 (decimal (nat (- y))) else pad 4 (decimal (nat y)))"

definition format_RFC3339 :: "time \<Rightarrow> string" where
  "format_RFC3339 t =
     (let s = t div Second; sod = s mod 86400 in
      case civil (s div 86400) of (y, m, d) \<Rightarrow>
        year_string y @ ''-'' @ pad_int 2 m @ ''-'' @ pad_int 2 d @ ''T'' @
        pad_int 2 (sod div 3600) @ '':'' @ pad_int 2 (sod mod 3600 div 60) @ '':'' @ pad_int 2 (sod mod 60) @ ''Z'')"

definition SnapshotID :: "int \<Rightarrow> time \<Rightarrow> string" where
  "SnapshotID n at = pad_int 5 n @ ''-'' @ format_RFC3339 (truncate_second at)"

subsection \<open>The keys\<close>

definition SnapshotsPrefix :: "Layout \<Rightarrow> string" where
  "SnapshotsPrefix l = join_key [Root l, DirSnapshots]"

definition SnapshotDir :: "Layout \<Rightarrow> int \<Rightarrow> time \<Rightarrow> string" where
  "SnapshotDir l n at = join_key [SnapshotsPrefix l, SnapshotID n at]"

definition SnapshotFile :: "Layout \<Rightarrow> int \<Rightarrow> time \<Rightarrow> string \<Rightarrow> string" where
  "SnapshotFile l n at name = join_key [SnapshotDir l n at, name]"

definition SnapshotFileByID :: "Layout \<Rightarrow> string \<Rightarrow> string \<Rightarrow> storage_error + string" where
  "SnapshotFileByID l i name =
     (case validateSegment i of
        Some e \<Rightarrow> Inl (Errorf ''snapshot id'' e)
      | None \<Rightarrow> Inr (join_key [SnapshotsPrefix l, i, name]))"

definition Workspace :: "Layout \<Rightarrow> int \<Rightarrow> time \<Rightarrow> string" where
  "Workspace l n at = SnapshotFile l n at FileWorkspace"

definition AgentHome :: "Layout \<Rightarrow> int \<Rightarrow> time \<Rightarrow> string" where
  "AgentHome l n at = SnapshotFile l n at FileAgentHome"

definition Manifest_key :: "Layout \<Rightarrow> int \<Rightarrow> time \<Rightarrow> string" where
  "Manifest_key l n at = SnapshotFile l n at FileManifest"

definition ArchivePrefix :: "Layout \<Rightarrow> string" where
  "ArchivePrefix l = join_key [Root l, DirArchive]"

definition ArchiveRun :: "Layout \<Rightarrow> string" where
  "ArchiveRun l = join_key [ArchivePrefix l, FileRun]"

definition ArchiveContext :: "Layout \<Rightarrow> string" where
  "ArchiveContext l = join_key [ArchivePrefix l, FileContext]"

definition Latest_key :: "Layout \<Rightarrow> string" where
  "Latest_key l = join_key [Root l, FileLatest]"

lemmas key_defs = SnapshotsPrefix_def SnapshotDir_def SnapshotFile_def Workspace_def AgentHome_def
  Manifest_key_def ArchivePrefix_def ArchiveRun_def ArchiveContext_def Latest_key_def

subsection \<open>Valid segments and layouts\<close>

lemma validateSegment_None:
  "validateSegment seg = None \<longleftrightarrow>
     seg \<noteq> [] \<and> seg \<noteq> ''.'' \<and> seg \<noteq> ''..'' \<and> length seg \<le> maxSegmentLen \<and> (\<forall>c \<in> set seg. allowed_char c)"
  by (auto simp: validateSegment_def list_all_iff)

lemma validateSegments_None: "validateSegments f segs = None \<longleftrightarrow> (\<forall>seg \<in> set segs. validateSegment seg = None)"
  by (induction segs) (auto split: option.splits)

lemma validateSegment_invalid: "validateSegment seg = Some e \<Longrightarrow> IsInvalid e"
  by (auto simp: validateSegment_def IsInvalid_def split: if_splits)

lemma validateSegments_invalid:
  "validateSegments f segs = Some e \<Longrightarrow> (\<And>x. IsInvalid x \<Longrightarrow> IsInvalid (f x)) \<Longrightarrow> IsInvalid e"
  by (induction segs) (auto split: option.splits dest: validateSegment_invalid)

lemma valid_segment_no_slash: "validateSegment seg = None \<Longrightarrow> slash \<notin> set seg"
  by (auto simp: validateSegment_None allowed_char_def)

text \<open>The segments of a root key: those of the prefix, then the four of the identity.\<close>

definition identity_segments :: "Identity \<Rightarrow> string list" where
  "identity_segments i = [ClusterID i, id_Namespace i, EnvName i, EnvUID i]"

definition root_segments :: "Layout \<Rightarrow> string list" where
  "root_segments l = (if lay_Prefix l = [] then [] else split_slash (lay_Prefix l)) @ identity_segments (lay_Identity l)"

lemma Layout_Validate_None:
  "Layout_Validate l = None \<longleftrightarrow>
     (\<forall>seg \<in> set (root_segments l). validateSegment seg = None) \<and> length (Root l) \<le> maxTotalKeyLen"
proof -
  have empty: "validateSegment [] \<noteq> None" by (simp add: validateSegment_def)
  let ?i = "lay_Identity l"
  let ?id = "validateSegments (\<lambda>e. e) [ClusterID ?i, id_Namespace ?i, EnvName ?i, EnvUID ?i]"
  let ?pre = "if lay_Prefix l \<noteq> [] then validateSegments (Errorf ''prefix'') (split_slash (lay_Prefix l)) else None"
  have "Layout_Validate l = None \<longleftrightarrow>
      ClusterID ?i \<noteq> [] \<and> id_Namespace ?i \<noteq> [] \<and> EnvName ?i \<noteq> [] \<and> EnvUID ?i \<noteq> [] \<and>
      ?id = None \<and> ?pre = None \<and> length (Root l) \<le> maxTotalKeyLen"
    unfolding Layout_Validate_def Let_def by (cases ?id; cases ?pre; simp)
  also have "\<dots> \<longleftrightarrow> ?id = None \<and> ?pre = None \<and> length (Root l) \<le> maxTotalKeyLen"
    using empty unfolding validateSegments_None by auto
  finally show ?thesis
    by (simp add: validateSegments_None root_segments_def identity_segments_def del: validateSegments.simps)
qed

lemma Layout_Validate_invalid: "Layout_Validate l = Some e \<Longrightarrow> IsInvalid e"
proof -
  assume some: "Layout_Validate l = Some e"
  let ?i = "lay_Identity l"
  let ?id = "validateSegments (\<lambda>e. e) [ClusterID ?i, id_Namespace ?i, EnvName ?i, EnvUID ?i]"
  let ?pre = "if lay_Prefix l \<noteq> [] then validateSegments (Errorf ''prefix'') (split_slash (lay_Prefix l)) else None"
  have "?id = Some x \<Longrightarrow> IsInvalid x" "?pre = Some x \<Longrightarrow> IsInvalid x" for x
    using validateSegments_invalid [of "\<lambda>e. e"] validateSegments_invalid [of "Errorf ''prefix''"]
    by (simp_all add: IsInvalid_def del: validateSegments.simps split: if_splits)
  then show ?thesis
    using some unfolding Layout_Validate_def Let_def
    by (cases ?id; cases ?pre; simp del: validateSegments.simps split: if_splits) (auto simp: IsInvalid_def)
qed

lemma NewLayout_Inr: "NewLayout p i = Inr l \<longleftrightarrow> Layout_Validate l = None \<and> l = \<lparr>lay_Prefix = p, lay_Identity = i\<rparr>"
  by (auto simp: NewLayout_def Let_def split: option.splits)

lemma join_slash_append: "xs \<noteq> [] \<Longrightarrow> ys \<noteq> [] \<Longrightarrow> join_slash (xs @ ys) = join_slash xs @ slash # join_slash ys"
proof (induction xs rule: join_slash.induct)
  case (2 s)
  then show ?case by (cases ys) simp_all
qed simp_all

lemma join_slash_eq_Nil: "join_slash ss = [] \<longleftrightarrow> ss = [] \<or> ss = [[]]"
  by (induction ss rule: join_slash.induct) auto

lemma valid_segment_nonempty: "validateSegment seg = None \<Longrightarrow> seg \<noteq> []"
  by (auto simp: validateSegment_def)

lemma Root_join: "Layout_Validate l = None \<Longrightarrow> Root l = join_slash (root_segments l)"
proof -
  let ?i = "lay_Identity l"
  assume "Layout_Validate l = None"
  then have "\<forall>seg \<in> set (root_segments l). seg \<noteq> []"
    unfolding Layout_Validate_None using valid_segment_nonempty by blast
  then have "ClusterID ?i \<noteq> []" "id_Namespace ?i \<noteq> []" "EnvName ?i \<noteq> []" "EnvUID ?i \<noteq> []"
    unfolding root_segments_def identity_segments_def by simp_all
  then show ?thesis
    using join_slash_append [of "split_slash (lay_Prefix l)" "identity_segments (lay_Identity l)"]
    by (simp add: Root_def Let_def join_key_def root_segments_def identity_segments_def)
qed

lemma root_segments_split:
  assumes "Layout_Validate l = None"
  shows "split_slash (Root l) = root_segments l"
proof -
  have "\<forall>seg \<in> set (root_segments l). slash \<notin> set seg"
    using assms valid_segment_no_slash by (auto simp: Layout_Validate_None)
  then show ?thesis
    using Root_join [OF assms] split_join [of "root_segments l"] by (simp add: root_segments_def identity_segments_def)
qed

lemma Root_nonempty: "Layout_Validate l = None \<Longrightarrow> Root l \<noteq> []"
  using root_segments_split [of l] by (auto simp: root_segments_def identity_segments_def)

lemma root_segments_inj:
  assumes "root_segments l = root_segments l'" and "Layout_Validate l = None" and "Layout_Validate l' = None"
  shows "l = l'"
proof -
  have "identity_segments (lay_Identity l) = identity_segments (lay_Identity l')"
    and p: "(if lay_Prefix l = [] then [] else split_slash (lay_Prefix l)) = (if lay_Prefix l' = [] then [] else split_slash (lay_Prefix l'))"
    using assms(1) by (simp_all add: root_segments_def identity_segments_def)
  moreover have "lay_Prefix l = lay_Prefix l'"
    using p by (metis join_split split_slash_nonempty)
  ultimately show ?thesis by (simp add: identity_segments_def)
qed

lemma Root_inj: "Layout_Validate l = None \<Longrightarrow> Layout_Validate l' = None \<Longrightarrow> Root l = Root l' \<Longrightarrow> l = l'"
  using root_segments_split root_segments_inj by metis

subsection \<open>Keys below a root\<close>

definition key_below :: "string \<Rightarrow> string \<Rightarrow> bool" where
  "key_below root key \<longleftrightarrow> HasPrefix key (root @ ''/'')"

lemma key_below_iff: "key_below root key \<longleftrightarrow> (\<exists>rest. key = root @ slash # rest)"
  by (auto simp: key_below_def HasPrefix_iff)

lemma key_below_HasPrefix: "key_below root key \<Longrightarrow> HasPrefix key root"
  by (auto simp: key_below_iff HasPrefix_iff)

lemma key_below_join: "key_below root p \<Longrightarrow> s \<noteq> [] \<Longrightarrow> key_below root (join_key [p, s])"
  by (auto simp: key_below_iff join_key_def)

lemma key_below_joinI: "root \<noteq> [] \<Longrightarrow> s \<noteq> [] \<Longrightarrow> key_below root (join_key [root, s])"
  by (auto simp: key_below_iff join_key_def)

lemma split_slash_append: "split_slash (s @ slash # t) = split_slash s @ split_slash t"
  by (induction s) (auto split: list.splits)

lemma key_below_segments: "key_below root key \<Longrightarrow> \<exists>segs. segs \<noteq> [] \<and> split_slash key = split_slash root @ segs"
  by (auto simp: key_below_iff split_slash_append intro: exI [of _ "split_slash _"])

text \<open>Two environments laid out under the same prefix never share a key.\<close>

lemma roots_disjoint:
  assumes "Layout_Validate l = None" and "Layout_Validate l' = None" and "lay_Prefix l = lay_Prefix l'"
    and "key_below (Root l) key" and "key_below (Root l') key"
  shows "l = l'"
proof -
  obtain s s' where "split_slash key = root_segments l @ s" "split_slash key = root_segments l' @ s'"
    using assms key_below_segments root_segments_split by metis
  moreover have "length (root_segments l) = length (root_segments l')"
    using assms(3) by (simp add: root_segments_def identity_segments_def)
  ultimately show ?thesis using root_segments_inj assms(1,2) by simp
qed

text \<open>
  A string prefix is not a directory: the root of the identifier \<^verbatim>\<open>u1\<close> is a prefix of every key of the
  identifier \<^verbatim>\<open>u12\<close>. Identifiers of equal length exclude that.
\<close>

lemma HasPrefix_split: "HasPrefix (k @ t) r \<Longrightarrow> length r = length k \<Longrightarrow> r = k"
  by (auto simp: HasPrefix_iff append_eq_append_conv)

lemma last_segment_prefix:
  assumes "slash \<notin> set u" and "slash \<notin> set u'" and "length u = length u'"
    and "p @ slash # u' @ slash # rest = q @ slash # u @ t" and "length (split_slash p) = length (split_slash q)"
  shows "u = u' \<and> p = q"
proof -
  have "split_slash p @ u' # split_slash rest = split_slash q @ split_slash (u @ t)"
    using arg_cong [OF assms(4), of split_slash] assms(2)
    by (metis append_Cons append_assoc split_append split_slash_append)
  then have pq: "split_slash p = split_slash q" and hd: "u' # split_slash rest = split_slash (u @ t)"
    using assms(5) by simp_all
  have "p = q" using pq by (metis join_split)
  then have "u' @ slash # rest = u @ t" using assms(4) by simp
  then show ?thesis using assms(3) \<open>p = q\<close> by (simp add: append_eq_append_conv)
qed

lemma prefix_sweep_disjoint:
  assumes "Layout_Validate l = None" and "Layout_Validate l' = None" and "lay_Prefix l = lay_Prefix l'"
    and "length (EnvUID (lay_Identity l)) = length (EnvUID (lay_Identity l'))"
    and "HasPrefix key (Root l)" and "key_below (Root l') key"
  shows "l = l'"
proof -
  let ?p = "\<lambda>l. (if lay_Prefix l = [] then [] else split_slash (lay_Prefix l)) @ butlast (identity_segments (lay_Identity l))"
  let ?u = "\<lambda>l. EnvUID (lay_Identity l)"
  have r: "Root x = join_slash (?p x) @ slash # ?u x" if "Layout_Validate x = None" for x
    using Root_join [OF that] join_slash_append [of "?p x" "[?u x]"]
    by (simp add: root_segments_def identity_segments_def)
  have ns: "\<forall>seg \<in> set (root_segments x). slash \<notin> set seg" if "Layout_Validate x = None" for x
    using that valid_segment_no_slash by (auto simp: Layout_Validate_None)
  have sp: "split_slash (join_slash (?p x)) = ?p x" if "Layout_Validate x = None" for x
    using ns [OF that] by (intro split_join) (auto simp: root_segments_def identity_segments_def)
  obtain t where k: "key = Root l @ t" using assms(5) by (auto simp: HasPrefix_iff)
  obtain rest where k': "key = Root l' @ slash # rest" using assms(6) by (auto simp: key_below_iff)
  have "slash \<notin> set (?u l)" "slash \<notin> set (?u l')"
    using ns assms(1,2) by (auto simp: root_segments_def identity_segments_def)
  moreover have "join_slash (?p l') @ slash # ?u l' @ slash # rest = join_slash (?p l) @ slash # ?u l @ t"
    using k k' r assms(1,2) by simp
  moreover have "length (split_slash (join_slash (?p l'))) = length (split_slash (join_slash (?p l)))"
    unfolding sp [OF assms(1)] sp [OF assms(2)] using assms(3) by (simp add: identity_segments_def)
  ultimately have "?u l = ?u l' \<and> join_slash (?p l') = join_slash (?p l)"
    using last_segment_prefix assms(4) by metis
  then have "Root l = Root l'" using r assms(1,2) by simp
  then show ?thesis using Root_inj assms(1,2) by simp
qed

subsection \<open>Snapshot names\<close>

definition stamp_char :: "char \<Rightarrow> bool" where
  "stamp_char c \<longleftrightarrow> c \<in> set ''0123456789-:TZ''"

lemma stamp_char_allowed: "stamp_char c \<Longrightarrow> allowed_char c"
  by (auto simp: stamp_char_def allowed_char_def)

lemma stamp_consts [simp]:
  "stamp_char (CHR ''0'')" "stamp_char (CHR ''-'')" "stamp_char (CHR '':'')" "stamp_char (CHR ''T'')" "stamp_char (CHR ''Z'')"
  by (simp_all add: stamp_char_def)

lemma digit_stamp: "d < 10 \<Longrightarrow> stamp_char (digit_char d)"
proof -
  assume "d < 10"
  moreover have "\<forall>i \<in> set [0..<10]. stamp_char (digit_char i)" by code_simp
  ultimately show ?thesis by simp
qed

lemma decimal_stamp: "\<forall>c \<in> set (decimal n). stamp_char c"
  by (induction n rule: decimal.induct) (subst decimal.simps, auto simp: digit_stamp)

lemma decimal_length: "n < 10 ^ k \<Longrightarrow> 0 < k \<Longrightarrow> length (decimal n) \<le> k"
proof (induction n arbitrary: k rule: decimal.induct)
  case (1 n)
  show ?case
  proof (cases "n < 10")
    case False
    then obtain j where k: "k = Suc j" "0 < j" using 1(2,3) by (cases k; cases "k - 1") auto
    then have "n div 10 < 10 ^ j" using 1(2) by (simp add: less_mult_imp_div_less mult.commute)
    then show ?thesis using 1(1) [OF False, of j] k False by (subst decimal.simps) simp
  qed (use 1(3) in \<open>subst decimal.simps, simp\<close>)
qed

lemma pad_stamp: "\<forall>c \<in> set (pad w (decimal n)). stamp_char c"
  using decimal_stamp [of n] by (simp add: pad_def ball_Un)

lemma pad_length: "length (pad w s) = max w (length s)"
  by (simp add: pad_def)

lemma pad_int_stamp: "\<forall>c \<in> set (pad_int w i). stamp_char c"
  using pad_stamp by (simp add: pad_int_def)

lemma pad_int_length: "\<bar>i\<bar> < 10 ^ k \<Longrightarrow> 0 < k \<Longrightarrow> length (pad_int w i) \<le> Suc (max w k)"
proof -
  assume *: "\<bar>i\<bar> < 10 ^ k" "0 < k"
  then have "int (nat \<bar>i\<bar>) < int (10 ^ k)" by simp
  then have "nat \<bar>i\<bar> < 10 ^ k" by (simp only: of_nat_less_iff)
  then have "length (decimal (nat \<bar>i\<bar>)) \<le> k" using decimal_length * by simp
  then show ?thesis by (auto simp: pad_int_def pad_length)
qed

lemma year_string_pad: "year_string y = (if y < 0 then pad_int 5 y else pad_int 4 y)"
  by (simp add: year_string_def pad_int_def)

lemma div_bounds: "(0::int) < k \<Longrightarrow> 0 \<le> x \<Longrightarrow> x < b * k \<Longrightarrow> 0 \<le> x div k \<and> x div k < b"
proof -
  assume *: "0 < k" "0 \<le> x" "x < b * k"
  have "x div k * k + x mod k = x" by simp
  then have "x div k * k < b * k" using * pos_mod_sign [of k x] by linarith
  then show ?thesis using * by (simp add: pos_imp_zdiv_nonneg_iff)
qed

lemma civil_bounds:
  assumes "civil days = (y, m, d)" and "\<bar>days\<bar> < 10 ^ 15"
  shows "\<bar>y\<bar> < 10 ^ 14 \<and> \<bar>m\<bar> < 10 ^ 6 \<and> \<bar>d\<bar> < 10 ^ 6"
proof -
  define z where "z = days + 719468"
  define era where "era = z div 146097"
  define doe where "doe = z mod 146097"
  define yoe where "yoe = (doe - doe div 1460 + doe div 36524 - doe div 146096) div 365"
  define doy where "doy = doe - (365 * yoe + yoe div 4 - yoe div 100)"
  define mp where "mp = (5 * doy + 2) div 153"
  have doe: "0 \<le> doe" "doe < 146097" by (simp_all add: doe_def)
  have "0 \<le> doe div 1460" "doe div 1460 \<le> doe" "0 \<le> doe div 36524" "doe div 36524 < 5" "0 \<le> doe div 146096" "doe div 146096 < 2"
    using div_bounds [of 36524 doe 5] div_bounds [of 146096 doe 2] doe
    by (simp_all add: pos_imp_zdiv_nonneg_iff)
  then have "-2 \<le> doe - doe div 1460 + doe div 36524 - doe div 146096" "doe - doe div 1460 + doe div 36524 - doe div 146096 < 146103"
    using doe by linarith+
  then have yoe: "-1 \<le> yoe" "yoe \<le> 401"
    unfolding yoe_def by linarith+
  then have "-1 \<le> yoe div 4" "yoe div 4 \<le> 401" "-1 \<le> yoe div 100" "yoe div 100 \<le> 401" by linarith+
  then have doy: "\<bar>doy\<bar> < 300000" unfolding doy_def using doe yoe by linarith
  then have mp: "\<bar>mp\<bar> < 10000" unfolding mp_def by linarith
  have "\<bar>days\<bar> < 1000000000000000" using assms(2) by simp
  then have era: "\<bar>era\<bar> < 10000000000" unfolding era_def z_def by linarith
  have eq: "m = (if mp < 10 then mp + 3 else mp - 9)" "d = doy - (153 * mp + 2) div 5 + 1"
    "y = yoe + era * 400 + (if m \<le> 2 then 1 else 0)"
    using assms(1)
    unfolding civil_def Let_def z_def [symmetric] era_def [symmetric] doe_def [symmetric] yoe_def [symmetric]
      doy_def [symmetric] mp_def [symmetric]
    by (auto simp only: prod.inject)
  have m: "\<bar>m\<bar> < 100000" using eq(1) mp by (simp split: if_splits)
  have "\<bar>(153 * mp + 2) div 5\<bar> < 500000" using mp by linarith
  then have d: "\<bar>d\<bar> < 900000" using eq(2) doy by linarith
  have y: "\<bar>y\<bar> < 100000000000000" using eq(3) yoe era by (simp split: if_splits)
  show ?thesis using m d y by simp
qed

lemma format_stamp: "\<forall>c \<in> set (format_RFC3339 t). stamp_char c"
proof -
  obtain y m d where "civil (t div Second div 86400) = (y, m, d)" by (metis prod_cases3)
  then show ?thesis by (simp add: format_RFC3339_def Let_def year_string_pad ball_Un pad_int_stamp)
qed

lemma stamp_length:
  "length A \<le> 15 \<Longrightarrow> length B \<le> 7 \<Longrightarrow> length C \<le> 7 \<Longrightarrow> length D \<le> 3 \<Longrightarrow> length E \<le> 3 \<Longrightarrow> length F \<le> 3 \<Longrightarrow>
   length (A @ ''-'' @ B @ ''-'' @ C @ ''T'' @ D @ '':'' @ E @ '':'' @ F @ ''Z'') \<le> 60"
  by simp

lemma format_length:
  assumes "\<bar>t\<bar> < 2 ^ 63 * Second"
  shows "length (format_RFC3339 t) \<le> 60"
proof -
  let ?s = "t div Second"
  obtain y m d where c: "civil (?s div 86400) = (y, m, d)" by (metis prod_cases3)
  have "\<bar>t\<bar> < 9223372036854775808 * 1000000000" using assms by simp
  then have "\<bar>?s div 86400\<bar> < 1000000000000000" by linarith
  then have b: "\<bar>y\<bar> < 10 ^ 14" "\<bar>m\<bar> < 10 ^ 6" "\<bar>d\<bar> < 10 ^ 6" using civil_bounds [OF c] by simp_all
  have y: "length (year_string y) \<le> 15"
    using pad_int_length [OF b(1), of 4] pad_int_length [OF b(1), of 5] by (simp add: year_string_pad)
  have md: "length (pad_int 2 m) \<le> 7" "length (pad_int 2 d) \<le> 7"
    using pad_int_length [OF b(2), of 2] pad_int_length [OF b(3), of 2] by simp_all
  have two: "length (pad_int 2 x) \<le> 3" if "0 \<le> x \<and> x < 100" for x
    using pad_int_length [of x 2 2] that by simp
  note sod = pos_mod_sign [of 86400 ?s] pos_mod_bound [of 86400 ?s]
  have h: "length (pad_int 2 (?s mod 86400 div 3600)) \<le> 3"
    by (rule two, rule div_bounds) (use sod in simp_all)
  have mi: "length (pad_int 2 (?s mod 86400 mod 3600 div 60)) \<le> 3"
    by (rule two, rule div_bounds) (use pos_mod_sign [of 3600 "?s mod 86400"] pos_mod_bound [of 3600 "?s mod 86400"] in simp_all)
  have se: "length (pad_int 2 (?s mod 86400 mod 60)) \<le> 3"
    by (rule two) (use pos_mod_sign [of 60 "?s mod 86400"] pos_mod_bound [of 60 "?s mod 86400"] in linarith)
  show ?thesis unfolding format_RFC3339_def Let_def c prod.case by (rule stamp_length [OF y md h mi se])
qed

text \<open>The name of a snapshot is a valid path segment, for every counter and instant Go can represent.\<close>

lemma SnapshotID_valid:
  assumes "\<bar>n\<bar> < 2 ^ 63" and "\<bar>at\<bar> < 2 ^ 62 * Second"
  shows "validateSegment (SnapshotID n at) = None"
proof -
  have "\<bar>n\<bar> < 10 ^ 19" using assms(1) by simp
  then have "length (pad_int 5 n) \<le> 20" using pad_int_length [of n 19 5] by simp
  moreover have "\<bar>truncate_second at\<bar> < 2 ^ 63 * Second"
  proof -
    have "0 \<le> at mod Second" "at mod Second < Second" by simp_all
    moreover have "(2::int) ^ 63 = 2 * 2 ^ 62" by simp
    ultimately show ?thesis using assms(2) unfolding truncate_second_def by simp
  qed
  then have "length (format_RFC3339 (truncate_second at)) \<le> 60" by (rule format_length)
  moreover have "\<forall>c \<in> set (SnapshotID n at). stamp_char c"
    unfolding SnapshotID_def by (simp add: ball_Un pad_int_stamp format_stamp)
  moreover have "CHR ''-'' \<in> set (SnapshotID n at)" by (simp add: SnapshotID_def)
  then have "SnapshotID n at \<noteq> []" "SnapshotID n at \<noteq> ''.''" "SnapshotID n at \<noteq> ''..''" by auto
  ultimately show ?thesis
    using stamp_char_allowed by (auto simp: validateSegment_None maxSegmentLen_def SnapshotID_def)
qed

lemma SnapshotFileByID_SnapshotID:
  assumes "\<bar>n\<bar> < 2 ^ 63" and "\<bar>at\<bar> < 2 ^ 62 * Second" and "Layout_Validate l = None" and "name \<noteq> []"
  shows "SnapshotFileByID l (SnapshotID n at) name = Inr (SnapshotFile l n at name)"
proof -
  have "SnapshotID n at \<noteq> []" "SnapshotsPrefix l \<noteq> []" "SnapshotDir l n at \<noteq> []"
    by (simp_all add: SnapshotID_def key_defs join_key_def file_names)
  then show ?thesis
    using SnapshotID_valid [OF assms(1,2)] assms(4)
    by (simp add: SnapshotFileByID_def SnapshotFile_def SnapshotDir_def join_key_def)
qed

text \<open>
  Names sort like sequence numbers as long as these have at most five digits; from 100000 on
  they do not, since the padding no longer lines the digits up.
\<close>

lemma digit_char_less: "a < b \<Longrightarrow> b < 10 \<Longrightarrow> digit_char a < digit_char b"
  by (simp add: digit_char_def less_char_def of_char_of take_bit_eq_mod)

lemma pad_Suc: "0 < w \<Longrightarrow> pad (Suc w) (decimal n) = pad w (decimal (n div 10)) @ [digit_char (n mod 10)]"
proof -
  assume w: "0 < w"
  show ?thesis
  proof (cases "n < 10")
    case True
    have "digit_char 0 = CHR ''0''" by code_simp
    moreover have "replicate w (CHR ''0'') = replicate (w - 1) (CHR ''0'') @ ''0''"
      using w by (metis Suc_diff_1 replicate_Suc replicate_append_same)
    ultimately show ?thesis using True by (simp add: pad_def decimal.simps [of n] decimal.simps [of 0])
  qed (simp add: pad_def decimal.simps [of n])
qed

lemma pad_width: "n < 10 ^ w \<Longrightarrow> 0 < w \<Longrightarrow> length (pad w (decimal n)) = w"
  using decimal_length by (simp add: pad_length)

lemma pad_less:
  "m < n \<Longrightarrow> n < 10 ^ Suc w \<Longrightarrow> pad (Suc w) (decimal m) < pad (Suc w) (decimal n)"
proof (induction w arbitrary: m n)
  case 0
  then show ?case
    by (simp add: pad_def decimal.simps [of m] decimal.simps [of n] digit_char_less list_less_def)
next
  case (Suc w)
  let ?p = "\<lambda>x. pad (Suc w) (decimal (x div 10))"
  have eq: "pad (Suc (Suc w)) (decimal x) = ?p x @ [digit_char (x mod 10)]" for x by (rule pad_Suc) simp
  have b: "x div 10 < 10 ^ Suc w" if "x \<le> n" for x using that Suc.prems(2) by (simp add: less_mult_imp_div_less)
  show ?case
  proof (cases "m div 10 = n div 10")
    case True
    then have "m mod 10 < n mod 10" using Suc.prems(1) by (metis div_mult_mod_eq nat_add_left_cancel_less)
    then show ?thesis unfolding eq True
      by (simp add: list_less_def lexord_append_leftI digit_char_less)
  next
    case False
    then have "m div 10 < n div 10" using Suc.prems(1) by (simp add: div_le_mono less_le)
    then have "?p m < ?p n" using Suc.IH b by simp
    moreover have "length (?p m) = length (?p n)" using pad_width b Suc.prems(1) by simp
    ultimately show ?thesis unfolding eq list_less_def by (simp add: lexord_sufI)
  qed
qed

lemma SnapshotID_less:
  assumes "0 \<le> m" and "m < n" and "n < 100000"
  shows "SnapshotID m at < SnapshotID n at'"
proof -
  have "nat m < nat n" "nat n < 10 ^ Suc 4" using assms by simp_all
  from pad_less [OF this] have "pad 5 (decimal (nat m)) < pad 5 (decimal (nat n))" by simp
  moreover have "length (pad 5 (decimal (nat m))) = length (pad 5 (decimal (nat n)))"
    using pad_width [of "nat m" 5] pad_width [of "nat n" 5] assms by simp
  ultimately show ?thesis
    using assms by (simp add: SnapshotID_def pad_int_def list_less_def lexord_sufI)
qed

lemma SnapshotID_order_lost: "SnapshotID 100000 at < SnapshotID 99999 at'"
proof -
  have d: "digit_char 0 = CHR ''0''" "digit_char (Suc 0) = CHR ''1''" "digit_char 9 = CHR ''9''" "CHR ''1'' < CHR ''9''"
    by code_simp+
  have "decimal 100000 = ''100000''" "decimal 99999 = ''99999''" by (simp_all add: decimal.simps d)
  then show ?thesis using d(4) by (simp add: SnapshotID_def pad_int_def pad_def list_less_def)
qed

subsection \<open>Every key of a layout is below its root\<close>

lemma keys_below_root:
  assumes "Layout_Validate l = None"
  shows "key_below (Root l) (Workspace l n at)" "key_below (Root l) (AgentHome l n at)"
    "key_below (Root l) (Manifest_key l n at)" "key_below (Root l) (ArchiveRun l)"
    "key_below (Root l) (ArchiveContext l)" "key_below (Root l) (Latest_key l)"
proof -
  have "SnapshotID n at \<noteq> []" by (simp add: SnapshotID_def)
  moreover note Root_nonempty [OF assms]
  ultimately show "key_below (Root l) (Workspace l n at)" "key_below (Root l) (AgentHome l n at)"
    "key_below (Root l) (Manifest_key l n at)" "key_below (Root l) (ArchiveRun l)"
    "key_below (Root l) (ArchiveContext l)" "key_below (Root l) (Latest_key l)"
    unfolding key_defs by (auto intro!: key_below_join key_below_joinI simp: file_names)
qed

lemma SnapshotFileByID_below:
  "Layout_Validate l = None \<Longrightarrow> SnapshotFileByID l i name = Inr key \<Longrightarrow> key_below (Root l) key"
  using Root_nonempty [of l]
  by (auto simp: SnapshotFileByID_def key_defs join_key_def key_below_iff file_names split: option.splits if_splits)

end
