(* ===== verification/Go_Json.thy ===== *)
theory Go_Json
  imports Storage_Path
begin

section \<open>Structs as JSON documents\<close>

text \<open>
  What the sources use of \<^verbatim>\<open>encoding/json\<close>: a struct is encoded and decoded field by field, as its
  tags say. A document is a \<open>json_value\<close>; the text around it (the indented text of an encoder,
  the scanner of a decoder) and the rendering of a time are the parameter \<open>json_lib\<close>, with their
  documented laws in the locale \<open>json_laws\<close>. A schema is the list of the fields of a struct, in
  the order of the declaration, and gives both directions: \<open>encode_struct\<close> drops the fields that
  \<^verbatim>\<open>omitempty\<close> drops, \<open>decode_struct\<close> starts from a value, takes the keys of the document one by
  one, prefers a field of exactly that name to one that differs in case, leaves a field alone
  on \<^verbatim>\<open>null\<close> unless it is a pointer, slice or map, and refuses an unknown key, as a decoder does
  after \<^verbatim>\<open>DisallowUnknownFields\<close>. The lemma \<open>decode_encode_struct\<close> gives the round trip of a
  schema whose fields are coherent one by one.
\<close>

subsection \<open>Documents\<close>

text \<open>\<open>JFrac\<close> is a number literal with a fraction or an exponent, which no integer field accepts.\<close>

datatype json_value =
    JNull | JBool bool | JNum int | JFrac string | JStr string
  | JArr "json_value list" | JObj "(string \<times> json_value) list"

record 'r json_lib =
  Print :: "json_value \<Rightarrow> 'r"
  Scan :: "'r \<Rightarrow> storage_error + json_value"
  TimeText :: "time \<Rightarrow> string option"
  ParseTime :: "string \<Rightarrow> time option"

text \<open>An encoder replaces bytes that are not UTF-8, so only valid strings survive.\<close>

definition byte :: "char \<Rightarrow> nat" where "byte c = of_char c"

abbreviation continuation :: "char \<Rightarrow> bool" where "continuation c \<equiv> byte c \<in> {128..191}"

fun valid_utf8 :: "string \<Rightarrow> bool" where
  "valid_utf8 [] = True"
| "valid_utf8 (a # s) =
     (if byte a < 128 then valid_utf8 s
      else case s of
        [] \<Rightarrow> False
      | b # t \<Rightarrow>
          if byte a \<in> {194..223} then continuation b \<and> valid_utf8 t
          else case t of
            [] \<Rightarrow> False
          | c # u \<Rightarrow>
              if byte a \<in> {224..239} then
                continuation b \<and> continuation c \<and> (byte a = 224 \<longrightarrow> 160 \<le> byte b) \<and> (byte a = 237 \<longrightarrow> byte b \<le> 159) \<and> valid_utf8 u
              else case u of
                [] \<Rightarrow> False
              | d # v \<Rightarrow>
                  byte a \<in> {240..244} \<and> continuation b \<and> continuation c \<and> continuation d \<and>
                  (byte a = 240 \<longrightarrow> 144 \<le> byte b) \<and> (byte a = 244 \<longrightarrow> byte b \<le> 143) \<and> valid_utf8 v)"

declare valid_utf8.simps [simp del]

fun text_ok :: "json_value \<Rightarrow> bool" where
  "text_ok (JStr s) = valid_utf8 s"
| "text_ok (JArr vs) = list_all text_ok vs"
| "text_ok (JObj kvs) = list_all (\<lambda>(k, v). valid_utf8 k \<and> text_ok v) kvs"
| "text_ok v = True"

locale json_laws =
  fixes lib :: "'r json_lib"
  assumes scan_print: "text_ok v \<Longrightarrow> Scan lib (Print lib v) = Inr v"
    and parse_time: "TimeText lib t = Some s \<Longrightarrow> ParseTime lib s = Some t"
    and time_text_utf8: "TimeText lib t = Some s \<Longrightarrow> valid_utf8 s"

subsection \<open>Fields\<close>

text \<open>\<open>jf_Enc\<close> gives nothing for a field that is omitted.\<close>

record 'a jfield =
  jf_Name :: string
  jf_Enc :: "'a \<Rightarrow> storage_error + json_value option"
  jf_Dec :: "json_value \<Rightarrow> 'a \<Rightarrow> storage_error + 'a"

definition bad_type :: "storage_error + 'a" where "bad_type = Inl (Foreign ''json: cannot unmarshal'')"

definition present :: "bool \<Rightarrow> bool \<Rightarrow> json_value \<Rightarrow> storage_error + json_value option" where
  "present omitempty is_empty v = Inr (if omitempty \<and> is_empty then None else Some v)"

definition fits :: "nat \<Rightarrow> int \<Rightarrow> bool" where
  "fits w n \<longleftrightarrow> - (2 ^ (w - 1)) \<le> n \<and> n < 2 ^ (w - 1)"

definition int_field :: "string \<Rightarrow> bool \<Rightarrow> nat \<Rightarrow> ('a \<Rightarrow> int) \<Rightarrow> (int \<Rightarrow> 'a \<Rightarrow> 'a) \<Rightarrow> 'a jfield" where
  "int_field name omitempty w get upd =
     \<lparr>jf_Name = name,
      jf_Enc = (\<lambda>x. present omitempty (get x = 0) (JNum (get x))),
      jf_Dec = (\<lambda>v a. case v of JNull \<Rightarrow> Inr a | JNum n \<Rightarrow> if fits w n then Inr (upd n a) else bad_type | _ \<Rightarrow> bad_type)\<rparr>"

definition str_field :: "string \<Rightarrow> bool \<Rightarrow> ('a \<Rightarrow> string) \<Rightarrow> (string \<Rightarrow> 'a \<Rightarrow> 'a) \<Rightarrow> 'a jfield" where
  "str_field name omitempty get upd =
     \<lparr>jf_Name = name,
      jf_Enc = (\<lambda>x. present omitempty (get x = []) (JStr (get x))),
      jf_Dec = (\<lambda>v a. case v of JNull \<Rightarrow> Inr a | JStr s \<Rightarrow> Inr (upd s a) | _ \<Rightarrow> bad_type)\<rparr>"

definition bool_field :: "string \<Rightarrow> bool \<Rightarrow> ('a \<Rightarrow> bool) \<Rightarrow> (bool \<Rightarrow> 'a \<Rightarrow> 'a) \<Rightarrow> 'a jfield" where
  "bool_field name omitempty get upd =
     \<lparr>jf_Name = name,
      jf_Enc = (\<lambda>x. present omitempty (\<not> get x) (JBool (get x))),
      jf_Dec = (\<lambda>v a. case v of JNull \<Rightarrow> Inr a | JBool b \<Rightarrow> Inr (upd b a) | _ \<Rightarrow> bad_type)\<rparr>"

text \<open>
  A field of any other type \<open>'b\<close>: \<open>enc\<close> encodes the value it holds, \<open>dec\<close> decodes a document into
  it. A time is a struct, so \<^verbatim>\<open>omitempty\<close> never drops it.
\<close>

definition sub_field :: "string \<Rightarrow> ('a \<Rightarrow> 'b) \<Rightarrow> ('b \<Rightarrow> 'a \<Rightarrow> 'a) \<Rightarrow> ('b \<Rightarrow> storage_error + json_value) \<Rightarrow>
    (json_value \<Rightarrow> 'b \<Rightarrow> storage_error + 'b) \<Rightarrow> ('b \<Rightarrow> bool) \<Rightarrow> 'a jfield" where
  "sub_field name get upd enc dec omitted =
     \<lparr>jf_Name = name,
      jf_Enc = (\<lambda>x. if omitted (get x) then Inr None else map_sum id Some (enc (get x))),
      jf_Dec = (\<lambda>v a. case dec v (get a) of Inl e \<Rightarrow> Inl e | Inr b \<Rightarrow> Inr (upd b a))\<rparr>"

definition encode_time :: "'r json_lib \<Rightarrow> time \<Rightarrow> storage_error + json_value" where
  "encode_time lib t = (case TimeText lib t of None \<Rightarrow> Inl (Foreign ''Time.MarshalJSON'') | Some s \<Rightarrow> Inr (JStr s))"

definition decode_time :: "'r json_lib \<Rightarrow> json_value \<Rightarrow> time \<Rightarrow> storage_error + time" where
  "decode_time lib v t =
     (case v of
        JNull \<Rightarrow> Inr t
      | JStr s \<Rightarrow> (case ParseTime lib s of None \<Rightarrow> Inl (Foreign ''Time.UnmarshalJSON'') | Some u \<Rightarrow> Inr u)
      | _ \<Rightarrow> Inl (Foreign ''Time.UnmarshalJSON''))"

text \<open>A pointer, to a value that is \<open>zero\<close> when it is allocated.\<close>

definition encode_ptr :: "('b \<Rightarrow> storage_error + json_value) \<Rightarrow> 'b option \<Rightarrow> storage_error + json_value" where
  "encode_ptr enc p = (case p of None \<Rightarrow> Inr JNull | Some b \<Rightarrow> enc b)"

definition decode_ptr :: "'b \<Rightarrow> (json_value \<Rightarrow> 'b \<Rightarrow> storage_error + 'b) \<Rightarrow> json_value \<Rightarrow> 'b option \<Rightarrow> storage_error + 'b option" where
  "decode_ptr zero dec v p =
     (if v = JNull then Inr None
      else map_sum id Some (dec v (case p of None \<Rightarrow> zero | Some b \<Rightarrow> b)))"

text \<open>A slice: a decoder fills the elements that are there before it appends new ones.\<close>

fun encode_all :: "('b \<Rightarrow> storage_error + json_value) \<Rightarrow> 'b list \<Rightarrow> storage_error + json_value list" where
  "encode_all enc [] = Inr []"
| "encode_all enc (b # bs) =
     (case enc b of
        Inl e \<Rightarrow> Inl e
      | Inr v \<Rightarrow> (case encode_all enc bs of Inl e \<Rightarrow> Inl e | Inr vs \<Rightarrow> Inr (v # vs)))"

definition encode_list :: "('b \<Rightarrow> storage_error + json_value) \<Rightarrow> 'b list \<Rightarrow> storage_error + json_value" where
  "encode_list enc bs = map_sum id JArr (encode_all enc bs)"

fun decode_all :: "'b \<Rightarrow> (json_value \<Rightarrow> 'b \<Rightarrow> storage_error + 'b) \<Rightarrow> json_value list \<Rightarrow> 'b list \<Rightarrow> storage_error + 'b list" where
  "decode_all zero dec [] old = Inr []"
| "decode_all zero dec (v # vs) old =
     (case dec v (case old of [] \<Rightarrow> zero | b # bs \<Rightarrow> b) of
        Inl e \<Rightarrow> Inl e
      | Inr b \<Rightarrow> (case decode_all zero dec vs (tl old) of Inl e \<Rightarrow> Inl e | Inr bs \<Rightarrow> Inr (b # bs)))"

definition decode_list :: "'b \<Rightarrow> (json_value \<Rightarrow> 'b \<Rightarrow> storage_error + 'b) \<Rightarrow> json_value \<Rightarrow> 'b list \<Rightarrow> storage_error + 'b list" where
  "decode_list zero dec v old =
     (case v of JNull \<Rightarrow> Inr [] | JArr vs \<Rightarrow> decode_all zero dec vs old | _ \<Rightarrow> bad_type)"

text \<open>
  A \<^verbatim>\<open>map[string]string\<close>, held as its pairs in the order of the keys, which is also the order it is
  encoded in.
\<close>

definition encode_map :: "(string \<times> string) list \<Rightarrow> storage_error + json_value" where
  "encode_map m = Inr (JObj (map (\<lambda>(k, s). (k, JStr s)) m))"

fun insert_pair :: "string \<Rightarrow> string \<Rightarrow> (string \<times> string) list \<Rightarrow> (string \<times> string) list" where
  "insert_pair k s [] = [(k, s)]"
| "insert_pair k s ((k', s') # m) =
     (if k < k' then (k, s) # (k', s') # m else if k = k' then (k, s) # m else (k', s') # insert_pair k s m)"

fun decode_pairs :: "(string \<times> json_value) list \<Rightarrow> (string \<times> string) list \<Rightarrow> storage_error + (string \<times> string) list" where
  "decode_pairs [] m = Inr m"
| "decode_pairs ((k, v) # kvs) m =
     (case v of
        JStr s \<Rightarrow> decode_pairs kvs (insert_pair k s m)
      | JNull \<Rightarrow> decode_pairs kvs (insert_pair k [] m)
      | _ \<Rightarrow> bad_type)"

definition decode_map :: "json_value \<Rightarrow> (string \<times> string) list \<Rightarrow> storage_error + (string \<times> string) list" where
  "decode_map v m = (case v of JNull \<Rightarrow> Inr [] | JObj kvs \<Rightarrow> decode_pairs kvs m | _ \<Rightarrow> bad_type)"

subsection \<open>Structs\<close>

fun encode_fields :: "'a jfield list \<Rightarrow> 'a \<Rightarrow> storage_error + (string \<times> json_value) list" where
  "encode_fields [] x = Inr []"
| "encode_fields (f # fs) x =
     (case jf_Enc f x of
        Inl e \<Rightarrow> Inl e
      | Inr ov \<Rightarrow>
          (case encode_fields fs x of
             Inl e \<Rightarrow> Inl e
           | Inr kvs \<Rightarrow> Inr (case ov of None \<Rightarrow> kvs | Some v \<Rightarrow> (jf_Name f, v) # kvs)))"

definition encode_struct :: "'a jfield list \<Rightarrow> 'a \<Rightarrow> storage_error + json_value" where
  "encode_struct fs x = map_sum id JObj (encode_fields fs x)"

definition to_lower :: "char \<Rightarrow> char" where
  "to_lower c = (if 65 \<le> byte c \<and> byte c \<le> 90 then char_of (byte c + 32) else c)"

definition lookup_field :: "'a jfield list \<Rightarrow> string \<Rightarrow> 'a jfield option" where
  "lookup_field fs k =
     (case find (\<lambda>f. jf_Name f = k) fs of
        Some f \<Rightarrow> Some f
      | None \<Rightarrow> find (\<lambda>f. map to_lower (jf_Name f) = map to_lower k) fs)"

fun decode_fields :: "'a jfield list \<Rightarrow> (string \<times> json_value) list \<Rightarrow> 'a \<Rightarrow> storage_error + 'a" where
  "decode_fields fs [] a = Inr a"
| "decode_fields fs ((k, v) # kvs) a =
     (case lookup_field fs k of
        None \<Rightarrow> Inl (Foreign ''json: unknown field'')
      | Some f \<Rightarrow> (case jf_Dec f v a of Inl e \<Rightarrow> Inl e | Inr b \<Rightarrow> decode_fields fs kvs b))"

definition decode_struct :: "'a jfield list \<Rightarrow> json_value \<Rightarrow> 'a \<Rightarrow> storage_error + 'a" where
  "decode_struct fs v a =
     (case v of JNull \<Rightarrow> Inr a | JObj kvs \<Rightarrow> decode_fields fs kvs a | _ \<Rightarrow> bad_type)"

subsection \<open>Round trips\<close>

text \<open>
  \<open>copies f x a b\<close>: encoding the field \<open>f\<close> of \<open>x\<close> and decoding the result into \<open>a\<close> gives \<open>b\<close>; a
  field that is omitted leaves \<open>a\<close> as it is.
\<close>

definition copies :: "'a jfield \<Rightarrow> 'a \<Rightarrow> 'a \<Rightarrow> 'a \<Rightarrow> bool" where
  "copies f x a b \<longleftrightarrow>
     (case jf_Enc f x of
        Inl e \<Rightarrow> False
      | Inr None \<Rightarrow> b = a
      | Inr (Some v) \<Rightarrow> text_ok v \<and> valid_utf8 (jf_Name f) \<and> jf_Dec f v a = Inr b)"

fun copies_all :: "'a jfield list \<Rightarrow> 'a \<Rightarrow> 'a \<Rightarrow> 'a \<Rightarrow> bool" where
  "copies_all [] x a c \<longleftrightarrow> a = c"
| "copies_all (f # fs) x a c \<longleftrightarrow> (\<exists>b. copies f x a b \<and> copies_all fs x b c)"

lemma lookup_field_own:
  "f \<in> set fs \<Longrightarrow> distinct (map jf_Name fs) \<Longrightarrow> lookup_field fs (jf_Name f) = Some f"
proof -
  assume "f \<in> set fs" "distinct (map jf_Name fs)"
  then have "find (\<lambda>g. jf_Name g = jf_Name f) fs = Some f"
    by (induction fs) (auto simp: image_iff)
  then show ?thesis by (simp add: lookup_field_def)
qed

lemma decode_encode_fields:
  assumes "distinct (map jf_Name fs)" and "set gs \<subseteq> set fs" and "copies_all gs x a c"
  shows "\<exists>kvs. encode_fields gs x = Inr kvs \<and> text_ok (JObj kvs) \<and> decode_fields fs kvs a = Inr c"
  using assms(2,3)
proof (induction gs arbitrary: a)
  case (Cons f gs)
  then obtain b where b: "copies f x a b" "copies_all gs x b c" by auto
  obtain kvs where kvs: "encode_fields gs x = Inr kvs" "text_ok (JObj kvs)" "decode_fields fs kvs b = Inr c"
    using Cons b(2) by auto
  have "lookup_field fs (jf_Name f) = Some f" using Cons.prems(1) assms(1) by (simp add: lookup_field_own)
  then show ?case
    using kvs b(1) by (auto simp: copies_def split: sum.splits option.splits)
qed simp

lemma decode_encode_struct:
  assumes "distinct (map jf_Name fs)" and "copies_all fs x zero x"
  shows "\<exists>v. encode_struct fs x = Inr v \<and> v \<noteq> JNull \<and> text_ok v \<and> decode_struct fs v zero = Inr x"
  using decode_encode_fields [OF assms(1) order_refl assms(2)]
  by (auto simp: encode_struct_def decode_struct_def)

text \<open>What a coherent pair of an encoder and a decoder is for one value, starting from a given one.\<close>

definition transfers :: "('b \<Rightarrow> storage_error + json_value) \<Rightarrow> (json_value \<Rightarrow> 'b \<Rightarrow> storage_error + 'b) \<Rightarrow> 'b \<Rightarrow> 'b \<Rightarrow> bool" where
  "transfers enc dec old b \<longleftrightarrow> (\<exists>v. enc b = Inr v \<and> v \<noteq> JNull \<and> text_ok v \<and> dec v old = Inr b)"

lemma struct_transfers:
  "distinct (map jf_Name fs) \<Longrightarrow> copies_all fs x zero x \<Longrightarrow> transfers (encode_struct fs) (decode_struct fs) zero x"
  unfolding transfers_def by (rule decode_encode_struct)

lemma copies_int [simp]:
  "copies (int_field n omit w get upd) x a b \<longleftrightarrow>
     (if omit \<and> get x = 0 then b = a else valid_utf8 n \<and> fits w (get x) \<and> b = upd (get x) a)"
  by (auto simp: copies_def int_field_def present_def bad_type_def)

lemma copies_str [simp]:
  "copies (str_field n omit get upd) x a b \<longleftrightarrow>
     (if omit \<and> get x = [] then b = a else valid_utf8 n \<and> valid_utf8 (get x) \<and> b = upd (get x) a)"
  by (auto simp: copies_def str_field_def present_def)

lemma copies_bool [simp]:
  "copies (bool_field n omit get upd) x a b \<longleftrightarrow>
     (if omit \<and> \<not> get x then b = a else valid_utf8 n \<and> b = upd (get x) a)"
  by (auto simp: copies_def bool_field_def present_def)

lemma copies_subI:
  assumes "valid_utf8 n" and "omitted (get x) \<Longrightarrow> b = a"
    and "\<not> omitted (get x) \<Longrightarrow> transfers enc dec (get a) (get x) \<and> b = upd (get x) a"
  shows "copies (sub_field n get upd enc dec omitted) x a b"
  using assms by (auto simp: copies_def sub_field_def transfers_def)

text \<open>
  Rules for a schema, field by field; a field that is omitted must already hold its empty value.
\<close>

lemma copies_all_ConsI: "copies f x a b \<Longrightarrow> copies_all fs x b c \<Longrightarrow> copies_all (f # fs) x a c"
  by auto

lemma copies_all_NilI: "a = c \<Longrightarrow> copies_all [] x a c"
  by simp

lemma copies_intI:
  "valid_utf8 n \<Longrightarrow> fits w (get x) \<Longrightarrow> omit \<and> get x = 0 \<longrightarrow> upd (get x) a = a \<Longrightarrow> copies (int_field n omit w get upd) x a (upd (get x) a)"
  by simp

lemma copies_strI:
  "valid_utf8 n \<Longrightarrow> valid_utf8 (get x) \<Longrightarrow> omit \<and> get x = [] \<longrightarrow> upd (get x) a = a \<Longrightarrow> copies (str_field n omit get upd) x a (upd (get x) a)"
  by simp

lemma copies_boolI:
  "valid_utf8 n \<Longrightarrow> omit \<and> \<not> get x \<longrightarrow> upd (get x) a = a \<Longrightarrow> copies (bool_field n omit get upd) x a (upd (get x) a)"
  by simp

lemma copies_sub:
  "valid_utf8 n \<Longrightarrow> (\<not> omitted (get x) \<longrightarrow> transfers enc dec (get a) (get x)) \<Longrightarrow> omitted (get x) \<longrightarrow> upd (get x) a = a \<Longrightarrow>
   copies (sub_field n get upd enc dec omitted) x a (upd (get x) a)"
  by (rule copies_subI) auto

lemmas copies_rules = copies_all_ConsI copies_all_NilI copies_intI copies_strI copies_boolI copies_sub

lemma field_names [simp]:
  "jf_Name (int_field n om w get1 upd1) = n" "jf_Name (str_field n om get2 upd2) = n"
  "jf_Name (bool_field n om get3 upd3) = n" "jf_Name (sub_field n get4 upd4 enc dec omitted) = n"
  by (simp_all add: int_field_def str_field_def bool_field_def sub_field_def)

lemma ptr_transfers: "transfers enc dec zero b \<Longrightarrow> transfers (encode_ptr enc) (decode_ptr zero dec) None (Some b)"
proof -
  assume "transfers enc dec zero b"
  then obtain v where "enc b = Inr v" "v \<noteq> JNull" "text_ok v" "dec v zero = Inr b" by (auto simp: transfers_def)
  then show ?thesis unfolding transfers_def by (intro exI [of _ v]) (simp add: encode_ptr_def decode_ptr_def)
qed

lemma list_transfers:
  assumes "\<And>b. b \<in> set bs \<Longrightarrow> transfers enc dec zero b"
  shows "transfers (encode_list enc) (decode_list zero dec) [] bs"
proof -
  have "\<exists>vs. encode_all enc bs = Inr vs \<and> text_ok (JArr vs) \<and> decode_all zero dec vs [] = Inr bs"
    using assms
  proof (induction bs)
    case (Cons b bs)
    from Cons.IH Cons.prems obtain vs where
      "encode_all enc bs = Inr vs" "text_ok (JArr vs)" "decode_all zero dec vs [] = Inr bs" by auto
    moreover from Cons.prems [of b] obtain v where "enc b = Inr v" "text_ok v" "dec v zero = Inr b"
      by (auto simp: transfers_def)
    ultimately show ?case by simp
  qed simp
  then show ?thesis by (auto simp: transfers_def encode_list_def decode_list_def)
qed

lemma insert_pair_last:
  "sorted_wrt (<) (map fst m @ [k]) \<Longrightarrow> insert_pair k s m = m @ [(k, s)]"
  by (induction m) (auto simp: sorted_wrt_append)

lemma decode_pairs_encoded:
  "sorted_wrt (<) (map fst (m @ m')) \<Longrightarrow> decode_pairs (map (\<lambda>(k, s). (k, JStr s)) m') m = Inr (m @ m')"
proof (induction m' arbitrary: m)
  case (Cons ks m')
  obtain k s where ks: "ks = (k, s)" by force
  then have "sorted_wrt (<) (map fst m @ [k])" using Cons.prems by (auto simp: sorted_wrt_append)
  then show ?case using Cons.IH [of "m @ [ks]"] Cons.prems ks by (simp add: insert_pair_last)
qed simp

lemma map_transfers:
  assumes "sorted_wrt (<) (map fst m)" and "\<forall>(k, s) \<in> set m. valid_utf8 k \<and> valid_utf8 s"
  shows "transfers encode_map decode_map [] m"
  using decode_pairs_encoded [of "[]" m] assms
  by (auto simp: transfers_def encode_map_def decode_map_def list_all_iff)

context json_laws
begin

lemma time_transfers: "TimeText lib t \<noteq> None \<Longrightarrow> transfers (encode_time lib) (decode_time lib) old t"
  by (auto simp: transfers_def encode_time_def decode_time_def parse_time time_text_utf8)

end

subsection \<open>A library that keeps the laws\<close>

text \<open>The text of a document is the document itself, the text of a time its nanoseconds in decimal.\<close>

definition parse_digits :: "string \<Rightarrow> nat" where
  "parse_digits s = foldl (\<lambda>n c. 10 * n + (byte c - 48)) 0 s"

definition parse_int :: "string \<Rightarrow> int" where
  "parse_int s = (case s of c # t \<Rightarrow> if c = CHR ''-'' then - int (parse_digits t) else int (parse_digits s) | [] \<Rightarrow> 0)"

definition ref_json :: "json_value json_lib" where
  "ref_json = \<lparr>Print = id, Scan = Inr, TimeText = (\<lambda>t. Some (decimal_int t)), ParseTime = (\<lambda>s. Some (parse_int s))\<rparr>"

lemma byte_digit: "d < 10 \<Longrightarrow> byte (digit_char d) = 48 + d"
  by (simp add: byte_def digit_char_def of_char_of take_bit_eq_mod)

lemma parse_decimal: "parse_digits (decimal n) = n"
proof (induction n rule: decimal.induct)
  case (1 n)
  then show ?case by (subst decimal.simps) (auto simp: parse_digits_def byte_digit)
qed

lemma decimal_Cons: "\<exists>d t. d < 10 \<and> decimal n = digit_char d # t"
proof (induction n rule: decimal.induct)
  case (1 n)
  show ?case
  proof (cases "n < 10")
    case False
    then obtain d t where "d < 10" "decimal (n div 10) = digit_char d # t" using 1 by blast
    then show ?thesis using False by (subst decimal.simps) auto
  qed (subst decimal.simps, auto)
qed

lemma parse_decimal_int: "parse_int (decimal_int i) = i"
proof (cases "i < 0")
  case False
  obtain d t where d: "d < 10" "decimal (nat i) = digit_char d # t" using decimal_Cons by blast
  then have "digit_char d \<noteq> CHR ''-''" using byte_digit [OF d(1)] by (auto simp: byte_def)
  then show ?thesis using False d parse_decimal [of "nat i"] by (simp add: parse_int_def decimal_int_def)
qed (simp add: parse_int_def decimal_int_def parse_decimal)

lemma ascii_utf8: "\<forall>c \<in> set s. byte c < 128 \<Longrightarrow> valid_utf8 s"
  by (induction s) (simp_all add: valid_utf8.simps)

lemma stamp_ascii: "stamp_char c \<Longrightarrow> byte c < 128"
  by (auto simp: stamp_char_def byte_def)

interpretation ref: json_laws ref_json
proof
  fix t s
  assume "TimeText ref_json t = Some s"
  moreover have "\<forall>c \<in> set (decimal_int t). stamp_char c" using decimal_stamp by (simp add: decimal_int_def)
  ultimately show "valid_utf8 s" using stamp_ascii by (auto simp: ref_json_def intro!: ascii_utf8)
qed (auto simp: ref_json_def parse_decimal_int)

end
