(* ===== verification/Storage_Records.thy ===== *)
theory Storage_Records
  imports Go_Json
begin

section \<open>The records of the context storage\<close>

text \<open>
  \<^verbatim>\<open>manifest.go\<close>, \<^verbatim>\<open>runrecord.go\<close> and \<^verbatim>\<open>verify.go\<close> of \<^verbatim>\<open>src/operator/internal/storage\<close>: the manifest of a
  snapshot, the pointer to the latest one, the record of a finished run, how each is written,
  read back and validated, and the reader that checks a restored file against its entry. The
  integer fields keep their widths: a decoder refuses a number that does not fit. The lemmas show that reading
  back what was written gives the same record, files in the order of their names, and that
  only valid records come out of a parser.
\<close>

subsection \<open>Manifests\<close>

definition ManifestSchemaVersion :: int where "ManifestSchemaVersion = 1"

record Source =
  so_ClusterID :: string
  so_Namespace :: string
  so_Name :: string
  so_UID :: string
  so_Generation :: int

record FileEntry =
  fe_Name :: string
  fe_Size :: int
  fe_SHA256 :: string

record Manifest =
  mf_SchemaVersion :: int
  mf_Seq :: int
  mf_CreatedAt :: time
  mf_Source :: Source
  mf_SpecHash :: string
  mf_AgentImage :: string
  mf_AgentImageDigest :: string
  mf_Files :: "FileEntry list"

record ObjectInfo =
  oi_Key :: string
  oi_Size :: int
  oi_SHA256 :: string
  oi_ModTime :: time

definition zero_Source :: Source where
  "zero_Source = \<lparr>so_ClusterID = [], so_Namespace = [], so_Name = [], so_UID = [], so_Generation = 0\<rparr>"

definition zero_FileEntry :: FileEntry where
  "zero_FileEntry = \<lparr>fe_Name = [], fe_Size = 0, fe_SHA256 = []\<rparr>"

definition zero_Manifest :: Manifest where
  "zero_Manifest = \<lparr>mf_SchemaVersion = 0, mf_Seq = 0, mf_CreatedAt = zero_time, mf_Source = zero_Source,
     mf_SpecHash = [], mf_AgentImage = [], mf_AgentImageDigest = [], mf_Files = []\<rparr>"

definition Source_fields :: "Source jfield list" where
  "Source_fields =
     [str_field ''clusterID'' False so_ClusterID (\<lambda>s. so_ClusterID_update (\<lambda>_. s)),
      str_field ''namespace'' False so_Namespace (\<lambda>s. so_Namespace_update (\<lambda>_. s)),
      str_field ''name'' False so_Name (\<lambda>s. so_Name_update (\<lambda>_. s)),
      str_field ''uid'' False so_UID (\<lambda>s. so_UID_update (\<lambda>_. s)),
      int_field ''generation'' True 64 so_Generation (\<lambda>n. so_Generation_update (\<lambda>_. n))]"

definition FileEntry_fields :: "FileEntry jfield list" where
  "FileEntry_fields =
     [str_field ''name'' False fe_Name (\<lambda>s. fe_Name_update (\<lambda>_. s)),
      int_field ''size'' False 64 fe_Size (\<lambda>n. fe_Size_update (\<lambda>_. n)),
      str_field ''sha256'' False fe_SHA256 (\<lambda>s. fe_SHA256_update (\<lambda>_. s))]"

definition Manifest_fields :: "'r json_lib \<Rightarrow> Manifest jfield list" where
  "Manifest_fields lib =
     [int_field ''schemaVersion'' False 64 mf_SchemaVersion (\<lambda>n. mf_SchemaVersion_update (\<lambda>_. n)),
      int_field ''seq'' False 64 mf_Seq (\<lambda>n. mf_Seq_update (\<lambda>_. n)),
      sub_field ''createdAt'' mf_CreatedAt (\<lambda>t. mf_CreatedAt_update (\<lambda>_. t)) (encode_time lib) (decode_time lib) (\<lambda>_. False),
      sub_field ''source'' mf_Source (\<lambda>s. mf_Source_update (\<lambda>_. s))
        (encode_struct Source_fields) (decode_struct Source_fields) (\<lambda>_. False),
      str_field ''specHash'' False mf_SpecHash (\<lambda>s. mf_SpecHash_update (\<lambda>_. s)),
      str_field ''agentImage'' False mf_AgentImage (\<lambda>s. mf_AgentImage_update (\<lambda>_. s)),
      str_field ''agentImageDigest'' True mf_AgentImageDigest (\<lambda>s. mf_AgentImageDigest_update (\<lambda>_. s)),
      sub_field ''files'' mf_Files (\<lambda>fs. mf_Files_update (\<lambda>_. fs))
        (encode_list (encode_struct FileEntry_fields)) (decode_list zero_FileEntry (decode_struct FileEntry_fields)) (\<lambda>_. False)]"

text \<open>
  The regular expressions of a digest: a fixed number of lower-case hexadecimal digits and nothing else.
\<close>

definition hex_digits :: "nat \<Rightarrow> string \<Rightarrow> bool" where
  "hex_digits n s \<longleftrightarrow> length s = n \<and> list_all (\<lambda>c. c \<in> set ''0123456789abcdef'') s"

abbreviation hex64 :: "string \<Rightarrow> bool" where "hex64 \<equiv> hex_digits 64"
abbreviation hex40 :: "string \<Rightarrow> bool" where "hex40 \<equiv> hex_digits 40"

fun validateFiles :: "FileEntry list \<Rightarrow> string list \<Rightarrow> storage_error option" where
  "validateFiles [] seen = None"
| "validateFiles (f # fs) seen =
     (if fe_Name f = [] then Some (invalid ''manifest file entry has empty name'')
      else if fe_Size f < 0 then Some (invalid ''manifest file has negative size'')
      else if \<not> hex64 (fe_SHA256 f) then Some (invalid ''manifest file has malformed sha256'')
      else if fe_Name f \<in> set seen then Some (invalid ''manifest has duplicate file name'')
      else validateFiles fs (fe_Name f # seen))"

definition Manifest_Validate :: "Manifest \<Rightarrow> storage_error option" where
  "Manifest_Validate m =
     (let src = mf_Source m in
      if mf_SchemaVersion m \<noteq> ManifestSchemaVersion then Some (invalid ''manifest schemaVersion'')
      else if mf_Seq m < 0 then Some (invalid ''manifest seq must be >= 0'')
      else if so_ClusterID src = [] \<or> so_Namespace src = [] \<or> so_Name src = [] \<or> so_UID src = []
        then Some (invalid ''manifest source fields must all be non-empty'')
      else if mf_SpecHash m = [] then Some (invalid ''manifest specHash must not be empty'')
      else if mf_AgentImage m = [] then Some (invalid ''manifest agentImage must not be empty'')
      else if mf_Files m = [] then Some (invalid ''manifest must list at least one file'')
      else validateFiles (mf_Files m) [])"

text \<open>
  \<^verbatim>\<open>sort.Slice\<close> is not stable, but the names of the files of a manifest that validates are distinct,
  and then there is only one sorted order.
\<close>

definition sort_files :: "FileEntry list \<Rightarrow> FileEntry list" where
  "sort_files = SliceStable (\<lambda>a b. fe_Name a < fe_Name b)"

definition Manifest_Marshal :: "'r json_lib \<Rightarrow> Manifest \<Rightarrow> storage_error + 'r" where
  "Manifest_Marshal lib m =
     (case encode_struct (Manifest_fields lib) (m\<lparr>mf_Files := sort_files (mf_Files m)\<rparr>) of
        Inl e \<Rightarrow> Inl (Errorf ''storage: marshaling manifest'' e)
      | Inr v \<Rightarrow> Inr (Print lib v))"

definition ParseManifest :: "'r json_lib \<Rightarrow> 'r \<Rightarrow> storage_error + Manifest" where
  "ParseManifest lib r =
     (case Scan lib r of
        Inl e \<Rightarrow> Inl (Errorf ''storage: parsing manifest'' e)
      | Inr v \<Rightarrow>
          (case decode_struct (Manifest_fields lib) v zero_Manifest of
             Inl e \<Rightarrow> Inl (Errorf ''storage: parsing manifest'' e)
           | Inr m \<Rightarrow> (case Manifest_Validate m of Some e \<Rightarrow> Inl e | None \<Rightarrow> Inr m)))"

definition Manifest_File :: "Manifest \<Rightarrow> string \<Rightarrow> FileEntry option" where
  "Manifest_File m name = find (\<lambda>f. fe_Name f = name) (mf_Files m)"

definition Manifest_Verify :: "Manifest \<Rightarrow> string \<Rightarrow> int \<Rightarrow> string \<Rightarrow> storage_error option" where
  "Manifest_Verify m name gotSize gotSHA256 =
     (case Manifest_File m name of
        None \<Rightarrow> Some (OpError ''Verify'' ''manifest'' name ErrNotFound None)
      | Some want \<Rightarrow>
          if fe_Size want \<noteq> gotSize \<or> fe_SHA256 want \<noteq> gotSHA256
          then Some (OpError ''Verify'' ''manifest'' name ErrCorrupt (Some (Foreign ''want size, sha256'')))
          else None)"

text \<open>The builder is the manifest under construction.\<close>

definition NewManifestBuilder :: "int \<Rightarrow> time \<Rightarrow> Source \<Rightarrow> string \<Rightarrow> string \<Rightarrow> Manifest" where
  "NewManifestBuilder n at src specHash agentImage =
     zero_Manifest\<lparr>mf_SchemaVersion := ManifestSchemaVersion, mf_Seq := n, mf_CreatedAt := truncate_second at,
       mf_Source := src, mf_SpecHash := specHash, mf_AgentImage := agentImage\<rparr>"

definition AddFile :: "ObjectInfo \<Rightarrow> string \<Rightarrow> Manifest \<Rightarrow> Manifest" where
  "AddFile info name b = b\<lparr>mf_Files := mf_Files b @ [\<lparr>fe_Name = name, fe_Size = oi_Size info, fe_SHA256 = oi_SHA256 info\<rparr>]\<rparr>"

definition WithAgentImageDigest :: "string \<Rightarrow> Manifest \<Rightarrow> Manifest" where
  "WithAgentImageDigest d b = b\<lparr>mf_AgentImageDigest := d\<rparr>"

definition Build :: "Manifest \<Rightarrow> storage_error + Manifest" where
  "Build b = (case Manifest_Validate b of Some e \<Rightarrow> Inl e | None \<Rightarrow> Inr b)"

subsection \<open>The latest pointer\<close>

record Latest =
  la_SchemaVersion :: int
  la_Seq :: int
  la_SnapshotID :: string
  la_UpdatedAt :: time

definition zero_Latest :: Latest where
  "zero_Latest = \<lparr>la_SchemaVersion = 0, la_Seq = 0, la_SnapshotID = [], la_UpdatedAt = zero_time\<rparr>"

definition Latest_fields :: "'r json_lib \<Rightarrow> Latest jfield list" where
  "Latest_fields lib =
     [int_field ''schemaVersion'' False 64 la_SchemaVersion (\<lambda>n. la_SchemaVersion_update (\<lambda>_. n)),
      int_field ''seq'' False 64 la_Seq (\<lambda>n. la_Seq_update (\<lambda>_. n)),
      str_field ''snapshotID'' False la_SnapshotID (\<lambda>s. la_SnapshotID_update (\<lambda>_. s)),
      sub_field ''updatedAt'' la_UpdatedAt (\<lambda>t. la_UpdatedAt_update (\<lambda>_. t)) (encode_time lib) (decode_time lib) (\<lambda>_. False)]"

definition Latest_Marshal :: "'r json_lib \<Rightarrow> Latest \<Rightarrow> storage_error + 'r" where
  "Latest_Marshal lib l =
     (case encode_struct (Latest_fields lib) l of
        Inl e \<Rightarrow> Inl (Errorf ''storage: marshaling latest pointer'' e)
      | Inr v \<Rightarrow> Inr (Print lib v))"

definition ParseLatest :: "'r json_lib \<Rightarrow> 'r \<Rightarrow> storage_error + Latest" where
  "ParseLatest lib r =
     (case Scan lib r of
        Inl e \<Rightarrow> Inl (Errorf ''storage: parsing latest pointer'' e)
      | Inr v \<Rightarrow>
          (case decode_struct (Latest_fields lib) v zero_Latest of
             Inl e \<Rightarrow> Inl (Errorf ''storage: parsing latest pointer'' e)
           | Inr l \<Rightarrow>
               if la_SchemaVersion l \<noteq> ManifestSchemaVersion then Inl (invalid ''latest pointer schemaVersion'') else Inr l))"

subsection \<open>The verifying reader\<close>

text \<open>
  What was read so far; the digest is the parameter \<open>sha\<close>, which stands for the hexadecimal SHA-256. A read of the
  inner reader delivers a chunk.
\<close>

record verifyingReader =
  vr_read :: string
  vr_n :: int

definition newVerifyingReader :: verifyingReader where
  "newVerifyingReader = \<lparr>vr_read = [], vr_n = 0\<rparr>"

definition vr_Read :: "string \<Rightarrow> verifyingReader \<Rightarrow> verifyingReader" where
  "vr_Read chunk v = (if 0 < length chunk then \<lparr>vr_read = vr_read v @ chunk, vr_n = vr_n v + int (length chunk)\<rparr> else v)"

definition vr_Verify :: "(string \<Rightarrow> string) \<Rightarrow> string \<Rightarrow> string \<Rightarrow> FileEntry \<Rightarrow> verifyingReader \<Rightarrow> storage_error option" where
  "vr_Verify sha op_name key want v =
     (if vr_n v \<noteq> fe_Size want \<or> sha (vr_read v) \<noteq> fe_SHA256 want
      then Some (OpError op_name ''verify'' key ErrCorrupt (Some (Foreign ''want size, sha256'')))
      else None)"

subsection \<open>What a valid manifest is\<close>

lemma validateFiles_None:
  "validateFiles fs seen = None \<longleftrightarrow>
     (\<forall>f \<in> set fs. fe_Name f \<noteq> [] \<and> 0 \<le> fe_Size f \<and> hex64 (fe_SHA256 f)) \<and>
     distinct (map fe_Name fs) \<and> fe_Name ` set fs \<inter> set seen = {}"
  by (induction fs arbitrary: seen) auto

lemma validateFiles_invalid: "validateFiles fs seen = Some e \<Longrightarrow> IsInvalid e"
  by (induction fs arbitrary: seen) (auto simp: IsInvalid_def split: if_splits)

lemma Manifest_Validate_invalid: "Manifest_Validate m = Some e \<Longrightarrow> IsInvalid e"
  by (auto simp: Manifest_Validate_def Let_def IsInvalid_def split: if_splits
      dest: validateFiles_invalid [unfolded IsInvalid_def])

lemma Manifest_Validate_perm:
  assumes "mset fs = mset (mf_Files m)"
  shows "Manifest_Validate (m\<lparr>mf_Files := fs\<rparr>) = None \<longleftrightarrow> Manifest_Validate m = None"
proof -
  have "set fs = set (mf_Files m)" "fs = [] \<longleftrightarrow> mf_Files m = []"
    using assms by (metis mset_eq_setD, metis assms mset_zero_iff)
  moreover have "mset (map fe_Name fs) = mset (map fe_Name (mf_Files m))" using assms by (simp add: mset_map)
  then have "distinct (map fe_Name fs) \<longleftrightarrow> distinct (map fe_Name (mf_Files m))" by (rule mset_eq_imp_distinct_iff)
  ultimately show ?thesis by (simp add: Manifest_Validate_def Let_def validateFiles_None)
qed

lemma Manifest_Validate_files:
  "Manifest_Validate m = None \<Longrightarrow> distinct (map fe_Name (mf_Files m)) \<and> (\<forall>f \<in> set (mf_Files m). 0 \<le> fe_Size f \<and> hex64 (fe_SHA256 f))"
  by (auto simp: Manifest_Validate_def Let_def validateFiles_None split: if_splits)

subsection \<open>The order of the files\<close>

interpretation by_name: strict_weak_order "\<lambda>a b. fe_Name a < fe_Name b"
  by unfold_locales auto

lemma sort_files_sorted: "sorted (map fe_Name (sort_files fs))"
  using by_name.sorted_SliceStable [of fs]
  by (simp add: sort_files_def sorted_map sorted_wrt_map not_less)

lemma sort_files_mset [simp]: "mset (sort_files fs) = mset fs"
  by (simp add: sort_files_def)

lemma set_sort_files [simp]: "set (sort_files fs) = set fs"
  by (simp add: sort_files_def)

lemma sort_files_unique:
  assumes "mset fs = mset gs" and "distinct (map fe_Name fs)"
  shows "sort_files fs = sort_files gs"
proof -
  have "mset (map fe_Name (sort_files fs)) = mset (map fe_Name (sort_files gs))"
    using assms(1) by (simp add: mset_map)
  then have names: "map fe_Name (sort_files fs) = map fe_Name (sort_files gs)"
    using sort_files_sorted by (metis properties_for_sort)
  have "inj_on fe_Name (set fs)" using assms(2) by (simp add: distinct_map)
  moreover have "set fs = set gs" using assms(1) by (rule mset_eq_setD)
  ultimately show ?thesis using names by (simp add: map_inj_on)
qed

subsection \<open>Writing and reading\<close>

definition Source_text :: "Source \<Rightarrow> bool" where
  "Source_text s \<longleftrightarrow> valid_utf8 (so_ClusterID s) \<and> valid_utf8 (so_Namespace s) \<and> valid_utf8 (so_Name s) \<and>
     valid_utf8 (so_UID s) \<and> fits 64 (so_Generation s)"

definition FileEntry_text :: "FileEntry \<Rightarrow> bool" where
  "FileEntry_text f \<longleftrightarrow> valid_utf8 (fe_Name f) \<and> fits 64 (fe_Size f) \<and> valid_utf8 (fe_SHA256 f)"

text \<open>A manifest every part of which has a text: strings are UTF-8, integers fit, the time has an RFC 3339 form.\<close>

definition Manifest_text :: "'r json_lib \<Rightarrow> Manifest \<Rightarrow> bool" where
  "Manifest_text lib m \<longleftrightarrow>
     fits 64 (mf_SchemaVersion m) \<and> fits 64 (mf_Seq m) \<and> TimeText lib (mf_CreatedAt m) \<noteq> None \<and>
     Source_text (mf_Source m) \<and> valid_utf8 (mf_SpecHash m) \<and> valid_utf8 (mf_AgentImage m) \<and>
     valid_utf8 (mf_AgentImageDigest m) \<and> list_all FileEntry_text (mf_Files m)"

lemma utf8_names [simp]:
  "valid_utf8 ''clusterID''" "valid_utf8 ''namespace''" "valid_utf8 ''name''" "valid_utf8 ''uid''" "valid_utf8 ''generation''"
  "valid_utf8 ''size''" "valid_utf8 ''sha256''" "valid_utf8 ''schemaVersion''" "valid_utf8 ''seq''" "valid_utf8 ''createdAt''"
  "valid_utf8 ''source''" "valid_utf8 ''specHash''" "valid_utf8 ''agentImage''" "valid_utf8 ''agentImageDigest''"
  "valid_utf8 ''files''" "valid_utf8 ''snapshotID''" "valid_utf8 ''updatedAt''"
  by code_simp+

lemma Source_transfers:
  "Source_text s \<Longrightarrow> transfers (encode_struct Source_fields) (decode_struct Source_fields) zero_Source s"
  unfolding Source_fields_def zero_Source_def Source_text_def
  by (rule struct_transfers, simp) (rule copies_rules | simp)+

lemma FileEntry_transfers:
  "FileEntry_text f \<Longrightarrow> transfers (encode_struct FileEntry_fields) (decode_struct FileEntry_fields) zero_FileEntry f"
  unfolding FileEntry_fields_def zero_FileEntry_def FileEntry_text_def
  by (rule struct_transfers, simp) (rule copies_rules | simp)+

context json_laws
begin

lemma Manifest_transfers:
  assumes "Manifest_text lib m"
  shows "transfers (encode_struct (Manifest_fields lib)) (decode_struct (Manifest_fields lib)) zero_Manifest m"
proof -
  have "transfers (encode_list (encode_struct FileEntry_fields)) (decode_list zero_FileEntry (decode_struct FileEntry_fields)) [] (mf_Files m)"
    using assms by (intro list_transfers FileEntry_transfers) (auto simp: Manifest_text_def list_all_iff)
  moreover have "transfers (encode_struct Source_fields) (decode_struct Source_fields) zero_Source (mf_Source m)"
    using assms by (intro Source_transfers) (simp add: Manifest_text_def)
  moreover have "transfers (encode_time lib) (decode_time lib) zero_time (mf_CreatedAt m)"
    using assms by (intro time_transfers) (simp add: Manifest_text_def)
  ultimately show ?thesis
    using assms unfolding Manifest_fields_def zero_Manifest_def Manifest_text_def
    by (intro struct_transfers, simp) (rule copies_rules | simp)+
qed

lemma Manifest_round:
  assumes "Manifest_text lib m" and "Manifest_Validate m = None"
  shows "\<exists>r. Manifest_Marshal lib m = Inr r \<and> ParseManifest lib r = Inr (m\<lparr>mf_Files := sort_files (mf_Files m)\<rparr>)"
proof -
  let ?m = "m\<lparr>mf_Files := sort_files (mf_Files m)\<rparr>"
  have "Manifest_text lib ?m" using assms(1) by (simp add: Manifest_text_def list_all_iff)
  then obtain v where v: "encode_struct (Manifest_fields lib) ?m = Inr v" "text_ok v"
    "decode_struct (Manifest_fields lib) v zero_Manifest = Inr ?m"
    using Manifest_transfers by (auto simp: transfers_def)
  have "Manifest_Validate ?m = None" using Manifest_Validate_perm [of "sort_files (mf_Files m)" m] assms(2) by simp
  then show ?thesis
    using v scan_print by (simp add: Manifest_Marshal_def ParseManifest_def)
qed

lemma Latest_round:
  assumes "fits 64 (la_Seq l)" and "la_SchemaVersion l = ManifestSchemaVersion" and "valid_utf8 (la_SnapshotID l)"
    and "TimeText lib (la_UpdatedAt l) \<noteq> None"
  shows "\<exists>r. Latest_Marshal lib l = Inr r \<and> ParseLatest lib r = Inr l"
proof -
  have "transfers (encode_time lib) (decode_time lib) zero_time (la_UpdatedAt l)"
    using assms by (intro time_transfers)
  moreover have "fits 64 (la_SchemaVersion l)" using assms(2) by (simp add: fits_def ManifestSchemaVersion_def)
  ultimately have "transfers (encode_struct (Latest_fields lib)) (decode_struct (Latest_fields lib)) zero_Latest l"
    using assms unfolding Latest_fields_def zero_Latest_def
    by (intro struct_transfers, simp) (rule copies_rules | simp)+
  then show ?thesis
    using assms(2) scan_print by (auto simp: transfers_def Latest_Marshal_def ParseLatest_def)
qed

end

lemma ParseManifest_valid: "ParseManifest lib r = Inr m \<Longrightarrow> Manifest_Validate m = None"
  by (auto simp: ParseManifest_def split: sum.splits option.splits)

lemma Manifest_Marshal_order:
  assumes "Manifest_Validate m = None" and "mset fs = mset (mf_Files m)"
  shows "Manifest_Marshal lib (m\<lparr>mf_Files := fs\<rparr>) = Manifest_Marshal lib m"
proof -
  have "sort_files fs = sort_files (mf_Files m)"
    using sort_files_unique [of "mf_Files m" fs] Manifest_Validate_files [OF assms(1)] assms(2) by simp
  then show ?thesis by (simp add: Manifest_Marshal_def)
qed

subsection \<open>Properties\<close>

text \<open>
  C20: a manifest survives being written. For a library that keeps the laws of
  JSON texts, a valid manifest whose parts have a text is written without error, reading the
  text back gives the same manifest with its files in the order of their names, and manifests
  that differ only in the order of their files are written to the same bytes.
\<close>

theorem manifest_round_trip:
  assumes "json_laws lib" and "Manifest_Validate m = None" and "Manifest_text lib m"
  shows "\<exists>txt. Manifest_Marshal lib m = Inr txt \<and>
      ParseManifest lib txt = Inr (m\<lparr>mf_Files := sort_files (mf_Files m)\<rparr>) \<and>
      sorted (map fe_Name (sort_files (mf_Files m))) \<and> mset (sort_files (mf_Files m)) = mset (mf_Files m) \<and>
      (\<forall>fs. mset fs = mset (mf_Files m) \<longrightarrow> Manifest_Marshal lib (m\<lparr>mf_Files := fs\<rparr>) = Inr txt)"
  using json_laws.Manifest_round [OF assms(1,3,2)] sort_files_sorted Manifest_Marshal_order [OF assms(2), of _ lib] by auto

definition sample_digest :: string where "sample_digest = replicate 64 (CHR ''a'')"

definition sample_manifest :: Manifest where
  "sample_manifest =
     zero_Manifest\<lparr>mf_SchemaVersion := 1, mf_Seq := 3, mf_CreatedAt := 5 * Second,
       mf_Source := \<lparr>so_ClusterID = ''c'', so_Namespace = ''n'', so_Name = ''e'', so_UID = ''u'', so_Generation = 2\<rparr>,
       mf_SpecHash := ''sha256:0'', mf_AgentImage := ''agent:1'',
       mf_Files := [\<lparr>fe_Name = ''workspace.tar.zst'', fe_Size = 7, fe_SHA256 = sample_digest\<rparr>,
                    \<lparr>fe_Name = ''agent-home.tar.zst'', fe_Size = 9, fe_SHA256 = sample_digest\<rparr>]\<rparr>"

lemma sample_manifest_ok: "Manifest_Validate sample_manifest = None" "Manifest_text ref_json sample_manifest"
proof -
  show "Manifest_Validate sample_manifest = None"
    by (simp add: sample_manifest_def zero_Manifest_def Manifest_Validate_def Let_def ManifestSchemaVersion_def
        hex_digits_def sample_digest_def list_all_iff)
  have "valid_utf8 sample_digest" by (rule ascii_utf8) (simp add: sample_digest_def byte_def)
  moreover have "valid_utf8 ''sha256:0''" "valid_utf8 ''agent:1''" "valid_utf8 ''workspace.tar.zst''"
    "valid_utf8 ''agent-home.tar.zst''" "valid_utf8 ''c''" "valid_utf8 ''n''" "valid_utf8 ''e''" "valid_utf8 ''u''" "valid_utf8 []"
    by code_simp+
  ultimately show "Manifest_text ref_json sample_manifest"
    by (simp add: sample_manifest_def zero_Manifest_def Manifest_text_def Source_text_def FileEntry_text_def fits_def
        ref_json_def)
qed

theorem manifest_round_trip_witness:
  "\<exists>txt. Manifest_Marshal ref_json sample_manifest = Inr txt \<and>
     ParseManifest ref_json txt = Inr (sample_manifest\<lparr>mf_Files := rev (mf_Files sample_manifest)\<rparr>)"
proof -
  have "sort_files (mf_Files sample_manifest) = rev (mf_Files sample_manifest)"
    by (simp add: sort_files_def SliceStable_def sample_manifest_def)
  then show ?thesis
    using manifest_round_trip [OF ref.json_laws_axioms sample_manifest_ok] by auto
qed

end
