(* ===== verification/Run_Records.thy ===== *)
theory Run_Records
  imports Storage_Records Apply
begin

section \<open>The record of a finished run\<close>

text \<open>
  \<^verbatim>\<open>src/operator/internal/storage/runrecord.go\<close>, the schema of \<^verbatim>\<open>run.json\<close> with its validation, and
  \<^verbatim>\<open>assembleRunRecord\<close> with its helpers from \<^verbatim>\<open>src/operator/internal/sandboxctl/archive.go\<close>, which
  fills it from the status of an environment. The parameters of a declared wait are a map; a
  record holds them as its pairs in the order of the keys. The lemmas show that a valid record
  is read back as it was written, and that the phase history the reconciler keeps is one the
  record accepts.
\<close>

subsection \<open>The schema\<close>

definition RunRecordSchemaVersion :: int where "RunRecordSchemaVersion = 1"
definition maxPhaseHistoryEntries :: nat where "maxPhaseHistoryEntries = 64"

record IssueRecord =
  ix_Repo :: string
  ix_Number :: int

record TaskRecord =
  tk_Prompt :: string
  tk_IssueRef :: "IssueRecord option"

record PhaseTransitionRecord =
  px_Phase :: string
  px_At :: time
  px_Reason :: string

record storage_SnapshotRecord =
  sx_Seq :: int
  sx_URI :: string
  sx_SizeBytes :: int
  sx_SHA256 :: string
  sx_TakenAt :: time
  sx_DurationMillis :: int

record WaitForRecord =
  wx_Type :: string
  wx_Reason :: string
  wx_DeclaredAt :: "time option"
  wx_Params :: "(string \<times> string) list"

record ProbeAttemptRecord =
  pb_Type :: string
  pb_Phase :: string
  pb_Attempts :: int
  pb_ConsecutiveErrors :: int
  pb_LastResult :: string
  pb_Reason :: string
  pb_Message :: string
  pb_LastAttemptAt :: "time option"

record PullRequestRecord =
  pq_Repo :: string
  pq_Number :: int

record GitStateRecord =
  gx_Branch :: string
  gx_HeadSHA :: string
  gx_PullRequest :: "PullRequestRecord option"

record ContextRecord =
  cx_Present :: bool
  cx_URI :: string
  cx_SizeBytes :: int
  cx_SHA256 :: string
  cx_Reason :: string

record RunRecord =
  ru_SchemaVersion :: int
  ru_CreatedAt :: time
  ru_ClusterID :: string
  ru_Namespace :: string
  ru_Name :: string
  ru_UID :: string
  ru_Generation :: int
  ru_Repo :: string
  ru_Task :: TaskRecord
  ru_ClassRef :: string
  ru_AgentImage :: string
  ru_AgentImageDigest :: string
  ru_FinalPhase :: string
  ru_FinalReason :: string
  ru_PhaseHistory :: "PhaseTransitionRecord list"
  ru_QueuedDurationMillis :: int
  ru_RunningDurationMillis :: int
  ru_WaitingDurationMillis :: int
  ru_SlotWaitMillis :: int
  ru_FreezeCount :: int
  ru_WakeCount :: int
  ru_Snapshots :: "storage_SnapshotRecord list"
  ru_WaitFor :: "WaitForRecord option"
  ru_ProbeAttempt :: "ProbeAttemptRecord option"
  ru_GitState :: "GitStateRecord option"
  ru_Context :: ContextRecord

text \<open>The zero values a decoder starts from.\<close>

definition zero_IssueRecord :: IssueRecord where "zero_IssueRecord = \<lparr>ix_Repo = [], ix_Number = 0\<rparr>"
definition zero_TaskRecord :: TaskRecord where "zero_TaskRecord = \<lparr>tk_Prompt = [], tk_IssueRef = None\<rparr>"
definition zero_PhaseTransitionRecord :: PhaseTransitionRecord where
  "zero_PhaseTransitionRecord = \<lparr>px_Phase = [], px_At = zero_time, px_Reason = []\<rparr>"
definition zero_storage_SnapshotRecord :: storage_SnapshotRecord where
  "zero_storage_SnapshotRecord = \<lparr>sx_Seq = 0, sx_URI = [], sx_SizeBytes = 0, sx_SHA256 = [], sx_TakenAt = zero_time, sx_DurationMillis = 0\<rparr>"
definition zero_WaitForRecord :: WaitForRecord where
  "zero_WaitForRecord = \<lparr>wx_Type = [], wx_Reason = [], wx_DeclaredAt = None, wx_Params = []\<rparr>"
definition zero_ProbeAttemptRecord :: ProbeAttemptRecord where
  "zero_ProbeAttemptRecord = \<lparr>pb_Type = [], pb_Phase = [], pb_Attempts = 0, pb_ConsecutiveErrors = 0, pb_LastResult = [],
     pb_Reason = [], pb_Message = [], pb_LastAttemptAt = None\<rparr>"
definition zero_PullRequestRecord :: PullRequestRecord where "zero_PullRequestRecord = \<lparr>pq_Repo = [], pq_Number = 0\<rparr>"
definition zero_GitStateRecord :: GitStateRecord where
  "zero_GitStateRecord = \<lparr>gx_Branch = [], gx_HeadSHA = [], gx_PullRequest = None\<rparr>"
definition zero_ContextRecord :: ContextRecord where
  "zero_ContextRecord = \<lparr>cx_Present = False, cx_URI = [], cx_SizeBytes = 0, cx_SHA256 = [], cx_Reason = []\<rparr>"
definition zero_RunRecord :: RunRecord where
  "zero_RunRecord = \<lparr>ru_SchemaVersion = 0, ru_CreatedAt = zero_time, ru_ClusterID = [], ru_Namespace = [], ru_Name = [],
     ru_UID = [], ru_Generation = 0, ru_Repo = [], ru_Task = zero_TaskRecord, ru_ClassRef = [], ru_AgentImage = [],
     ru_AgentImageDigest = [], ru_FinalPhase = [], ru_FinalReason = [], ru_PhaseHistory = [],
     ru_QueuedDurationMillis = 0, ru_RunningDurationMillis = 0, ru_WaitingDurationMillis = 0, ru_SlotWaitMillis = 0,
     ru_FreezeCount = 0, ru_WakeCount = 0, ru_Snapshots = [], ru_WaitFor = None, ru_ProbeAttempt = None,
     ru_GitState = None, ru_Context = zero_ContextRecord\<rparr>"

lemmas zero_record_defs = zero_IssueRecord_def zero_TaskRecord_def zero_PhaseTransitionRecord_def zero_storage_SnapshotRecord_def
  zero_WaitForRecord_def zero_ProbeAttemptRecord_def zero_PullRequestRecord_def zero_GitStateRecord_def
  zero_ContextRecord_def zero_RunRecord_def

subsection \<open>Its tags\<close>

definition IssueRecord_fields :: "IssueRecord jfield list" where
  "IssueRecord_fields =
     [str_field ''repo'' False ix_Repo (\<lambda>s. ix_Repo_update (\<lambda>_. s)),
      int_field ''number'' False 32 ix_Number (\<lambda>n. ix_Number_update (\<lambda>_. n))]"

definition ptr_field :: "string \<Rightarrow> ('a \<Rightarrow> 'b option) \<Rightarrow> ('b option \<Rightarrow> 'a \<Rightarrow> 'a) \<Rightarrow> 'b \<Rightarrow> ('b \<Rightarrow> storage_error + json_value) \<Rightarrow>
    (json_value \<Rightarrow> 'b \<Rightarrow> storage_error + 'b) \<Rightarrow> 'a jfield" where
  "ptr_field name get upd zero enc dec = sub_field name get upd (encode_ptr enc) (decode_ptr zero dec) (\<lambda>p. p = None)"

definition slice_field :: "string \<Rightarrow> ('a \<Rightarrow> 'b list) \<Rightarrow> ('b list \<Rightarrow> 'a \<Rightarrow> 'a) \<Rightarrow> 'b \<Rightarrow> 'b jfield list \<Rightarrow> 'a jfield" where
  "slice_field name get upd zero fs =
     sub_field name get upd (encode_list (encode_struct fs)) (decode_list zero (decode_struct fs)) (\<lambda>l. l = [])"

definition TaskRecord_fields :: "TaskRecord jfield list" where
  "TaskRecord_fields =
     [str_field ''prompt'' True tk_Prompt (\<lambda>s. tk_Prompt_update (\<lambda>_. s)),
      ptr_field ''issueRef'' tk_IssueRef (\<lambda>p. tk_IssueRef_update (\<lambda>_. p)) zero_IssueRecord
        (encode_struct IssueRecord_fields) (decode_struct IssueRecord_fields)]"

definition PhaseTransitionRecord_fields :: "'r json_lib \<Rightarrow> PhaseTransitionRecord jfield list" where
  "PhaseTransitionRecord_fields lib =
     [str_field ''phase'' False px_Phase (\<lambda>s. px_Phase_update (\<lambda>_. s)),
      sub_field ''at'' px_At (\<lambda>t. px_At_update (\<lambda>_. t)) (encode_time lib) (decode_time lib) (\<lambda>_. False),
      str_field ''reason'' True px_Reason (\<lambda>s. px_Reason_update (\<lambda>_. s))]"

definition storage_SnapshotRecord_fields :: "'r json_lib \<Rightarrow> storage_SnapshotRecord jfield list" where
  "storage_SnapshotRecord_fields lib =
     [int_field ''seq'' False 32 sx_Seq (\<lambda>n. sx_Seq_update (\<lambda>_. n)),
      str_field ''uri'' True sx_URI (\<lambda>s. sx_URI_update (\<lambda>_. s)),
      int_field ''sizeBytes'' True 64 sx_SizeBytes (\<lambda>n. sx_SizeBytes_update (\<lambda>_. n)),
      str_field ''sha256'' True sx_SHA256 (\<lambda>s. sx_SHA256_update (\<lambda>_. s)),
      sub_field ''takenAt'' sx_TakenAt (\<lambda>t. sx_TakenAt_update (\<lambda>_. t)) (encode_time lib) (decode_time lib) (\<lambda>_. False),
      int_field ''durationMillis'' True 64 sx_DurationMillis (\<lambda>n. sx_DurationMillis_update (\<lambda>_. n))]"

definition WaitForRecord_fields :: "'r json_lib \<Rightarrow> WaitForRecord jfield list" where
  "WaitForRecord_fields lib =
     [str_field ''type'' False wx_Type (\<lambda>s. wx_Type_update (\<lambda>_. s)),
      str_field ''reason'' True wx_Reason (\<lambda>s. wx_Reason_update (\<lambda>_. s)),
      ptr_field ''declaredAt'' wx_DeclaredAt (\<lambda>t. wx_DeclaredAt_update (\<lambda>_. t)) zero_time (encode_time lib) (decode_time lib),
      sub_field ''params'' wx_Params (\<lambda>m. wx_Params_update (\<lambda>_. m)) encode_map decode_map (\<lambda>m. m = [])]"

definition ProbeAttemptRecord_fields :: "'r json_lib \<Rightarrow> ProbeAttemptRecord jfield list" where
  "ProbeAttemptRecord_fields lib =
     [str_field ''type'' False pb_Type (\<lambda>s. pb_Type_update (\<lambda>_. s)),
      str_field ''phase'' False pb_Phase (\<lambda>s. pb_Phase_update (\<lambda>_. s)),
      int_field ''attempts'' True 32 pb_Attempts (\<lambda>n. pb_Attempts_update (\<lambda>_. n)),
      int_field ''consecutiveErrors'' True 32 pb_ConsecutiveErrors (\<lambda>n. pb_ConsecutiveErrors_update (\<lambda>_. n)),
      str_field ''lastResult'' True pb_LastResult (\<lambda>s. pb_LastResult_update (\<lambda>_. s)),
      str_field ''reason'' True pb_Reason (\<lambda>s. pb_Reason_update (\<lambda>_. s)),
      str_field ''message'' True pb_Message (\<lambda>s. pb_Message_update (\<lambda>_. s)),
      ptr_field ''lastAttemptAt'' pb_LastAttemptAt (\<lambda>t. pb_LastAttemptAt_update (\<lambda>_. t)) zero_time
        (encode_time lib) (decode_time lib)]"

definition PullRequestRecord_fields :: "PullRequestRecord jfield list" where
  "PullRequestRecord_fields =
     [str_field ''repo'' False pq_Repo (\<lambda>s. pq_Repo_update (\<lambda>_. s)),
      int_field ''number'' False 32 pq_Number (\<lambda>n. pq_Number_update (\<lambda>_. n))]"

definition GitStateRecord_fields :: "GitStateRecord jfield list" where
  "GitStateRecord_fields =
     [str_field ''branch'' True gx_Branch (\<lambda>s. gx_Branch_update (\<lambda>_. s)),
      str_field ''headSHA'' True gx_HeadSHA (\<lambda>s. gx_HeadSHA_update (\<lambda>_. s)),
      ptr_field ''pullRequest'' gx_PullRequest (\<lambda>p. gx_PullRequest_update (\<lambda>_. p)) zero_PullRequestRecord
        (encode_struct PullRequestRecord_fields) (decode_struct PullRequestRecord_fields)]"

definition ContextRecord_fields :: "ContextRecord jfield list" where
  "ContextRecord_fields =
     [bool_field ''present'' False cx_Present (\<lambda>b. cx_Present_update (\<lambda>_. b)),
      str_field ''uri'' True cx_URI (\<lambda>s. cx_URI_update (\<lambda>_. s)),
      int_field ''sizeBytes'' True 64 cx_SizeBytes (\<lambda>n. cx_SizeBytes_update (\<lambda>_. n)),
      str_field ''sha256'' True cx_SHA256 (\<lambda>s. cx_SHA256_update (\<lambda>_. s)),
      str_field ''reason'' True cx_Reason (\<lambda>s. cx_Reason_update (\<lambda>_. s))]"

definition RunRecord_fields :: "'r json_lib \<Rightarrow> RunRecord jfield list" where
  "RunRecord_fields lib =
     [int_field ''schemaVersion'' False 64 ru_SchemaVersion (\<lambda>n. ru_SchemaVersion_update (\<lambda>_. n)),
      sub_field ''createdAt'' ru_CreatedAt (\<lambda>t. ru_CreatedAt_update (\<lambda>_. t)) (encode_time lib) (decode_time lib) (\<lambda>_. False),
      str_field ''clusterID'' False ru_ClusterID (\<lambda>s. ru_ClusterID_update (\<lambda>_. s)),
      str_field ''namespace'' False ru_Namespace (\<lambda>s. ru_Namespace_update (\<lambda>_. s)),
      str_field ''name'' False ru_Name (\<lambda>s. ru_Name_update (\<lambda>_. s)),
      str_field ''uid'' False ru_UID (\<lambda>s. ru_UID_update (\<lambda>_. s)),
      int_field ''generation'' True 64 ru_Generation (\<lambda>n. ru_Generation_update (\<lambda>_. n)),
      str_field ''repo'' False ru_Repo (\<lambda>s. ru_Repo_update (\<lambda>_. s)),
      sub_field ''task'' ru_Task (\<lambda>t. ru_Task_update (\<lambda>_. t))
        (encode_struct TaskRecord_fields) (decode_struct TaskRecord_fields) (\<lambda>_. False),
      str_field ''classRef'' False ru_ClassRef (\<lambda>s. ru_ClassRef_update (\<lambda>_. s)),
      str_field ''agentImage'' False ru_AgentImage (\<lambda>s. ru_AgentImage_update (\<lambda>_. s)),
      str_field ''agentImageDigest'' True ru_AgentImageDigest (\<lambda>s. ru_AgentImageDigest_update (\<lambda>_. s)),
      str_field ''finalPhase'' False ru_FinalPhase (\<lambda>s. ru_FinalPhase_update (\<lambda>_. s)),
      str_field ''finalReason'' True ru_FinalReason (\<lambda>s. ru_FinalReason_update (\<lambda>_. s)),
      slice_field ''phaseHistory'' ru_PhaseHistory (\<lambda>l. ru_PhaseHistory_update (\<lambda>_. l))
        zero_PhaseTransitionRecord (PhaseTransitionRecord_fields lib),
      int_field ''queuedDurationMillis'' True 64 ru_QueuedDurationMillis (\<lambda>n. ru_QueuedDurationMillis_update (\<lambda>_. n)),
      int_field ''runningDurationMillis'' True 64 ru_RunningDurationMillis (\<lambda>n. ru_RunningDurationMillis_update (\<lambda>_. n)),
      int_field ''waitingDurationMillis'' True 64 ru_WaitingDurationMillis (\<lambda>n. ru_WaitingDurationMillis_update (\<lambda>_. n)),
      int_field ''slotWaitMillis'' True 64 ru_SlotWaitMillis (\<lambda>n. ru_SlotWaitMillis_update (\<lambda>_. n)),
      int_field ''freezeCount'' False 32 ru_FreezeCount (\<lambda>n. ru_FreezeCount_update (\<lambda>_. n)),
      int_field ''wakeCount'' False 32 ru_WakeCount (\<lambda>n. ru_WakeCount_update (\<lambda>_. n)),
      slice_field ''snapshots'' ru_Snapshots (\<lambda>l. ru_Snapshots_update (\<lambda>_. l)) zero_storage_SnapshotRecord (storage_SnapshotRecord_fields lib),
      ptr_field ''waitFor'' ru_WaitFor (\<lambda>p. ru_WaitFor_update (\<lambda>_. p)) zero_WaitForRecord
        (encode_struct (WaitForRecord_fields lib)) (decode_struct (WaitForRecord_fields lib)),
      ptr_field ''probeAttempt'' ru_ProbeAttempt (\<lambda>p. ru_ProbeAttempt_update (\<lambda>_. p)) zero_ProbeAttemptRecord
        (encode_struct (ProbeAttemptRecord_fields lib)) (decode_struct (ProbeAttemptRecord_fields lib)),
      ptr_field ''gitState'' ru_GitState (\<lambda>p. ru_GitState_update (\<lambda>_. p)) zero_GitStateRecord
        (encode_struct GitStateRecord_fields) (decode_struct GitStateRecord_fields),
      sub_field ''context'' ru_Context (\<lambda>c. ru_Context_update (\<lambda>_. c))
        (encode_struct ContextRecord_fields) (decode_struct ContextRecord_fields) (\<lambda>_. False)]"

subsection \<open>Validation\<close>

definition runRecordPhases :: "string list" where
  "runRecordPhases = [''Pending'', ''Ready'', ''Running'', ''Freezing'', ''Waiting'', ''Restoring'', ''Done'', ''Failed'']"

definition validateCore :: "RunRecord \<Rightarrow> storage_error option" where
  "validateCore r =
     (if ru_SchemaVersion r \<noteq> RunRecordSchemaVersion then Some (invalid ''run record schemaVersion'')
      else if ru_CreatedAt r = zero_time then Some (invalid ''run record createdAt must not be zero'')
      else if ru_ClusterID r = [] \<or> ru_Namespace r = [] \<or> ru_Name r = [] \<or> ru_UID r = []
        then Some (invalid ''run record identity fields must all be non-empty'')
      else if ru_Generation r < 0 then Some (invalid ''run record generation must be >= 0'')
      else if ru_Repo r = [] then Some (invalid ''run record repo must not be empty'')
      else if ru_ClassRef r = [] then Some (invalid ''run record classRef must not be empty'')
      else if ru_AgentImage r = [] then Some (invalid ''run record agentImage must not be empty'')
      else if ru_FinalPhase r \<noteq> [] \<and> ru_FinalPhase r \<notin> set runRecordPhases
        then Some (invalid ''run record finalPhase is not a known phase'')
      else if ru_FreezeCount r < 0 then Some (invalid ''run record freezeCount must be >= 0'')
      else if ru_WakeCount r < 0 then Some (invalid ''run record wakeCount must be >= 0'')
      else None)"

fun validatePhases :: "string option \<Rightarrow> PhaseTransitionRecord list \<Rightarrow> storage_error option" where
  "validatePhases prev [] = None"
| "validatePhases prev (t # ts) =
     (if px_Phase t = [] then Some (invalid ''run record phaseHistory entry has empty phase'')
      else if px_Phase t \<notin> set runRecordPhases then Some (invalid ''run record phaseHistory phase is not a known phase'')
      else if px_At t = zero_time then Some (invalid ''run record phaseHistory entry has zero at timestamp'')
      else if prev = Some (px_Phase t) then Some (invalid ''run record phaseHistory entry duplicates previous phase'')
      else validatePhases (Some (px_Phase t)) ts)"

definition validatePhaseHistory :: "RunRecord \<Rightarrow> storage_error option" where
  "validatePhaseHistory r =
     (if maxPhaseHistoryEntries < length (ru_PhaseHistory r) then Some (invalid ''run record phaseHistory cap'')
      else validatePhases None (ru_PhaseHistory r))"

fun validateSnapshotList :: "int list \<Rightarrow> storage_SnapshotRecord list \<Rightarrow> storage_error option" where
  "validateSnapshotList seen [] = None"
| "validateSnapshotList seen (s # ss) =
     (if sx_Seq s < 0 then Some (invalid ''run record snapshot has negative seq'')
      else if sx_Seq s \<in> set seen then Some (invalid ''run record has duplicate snapshot seq'')
      else if sx_SHA256 s \<noteq> [] \<and> \<not> hex64 (sx_SHA256 s) then Some (invalid ''run record snapshot has malformed sha256'')
      else if sx_SizeBytes s < 0 then Some (invalid ''run record snapshot has negative sizeBytes'')
      else if sx_DurationMillis s < 0 then Some (invalid ''run record snapshot has negative durationMillis'')
      else validateSnapshotList (sx_Seq s # seen) ss)"

definition validateSnapshots :: "RunRecord \<Rightarrow> storage_error option" where
  "validateSnapshots r = validateSnapshotList [] (ru_Snapshots r)"

definition validateContext :: "RunRecord \<Rightarrow> storage_error option" where
  "validateContext r =
     (let c = ru_Context r in
      if cx_Present c \<and> cx_URI c = [] then Some (invalid ''run record context.present is true but context.uri is empty'')
      else if cx_SizeBytes c < 0 then Some (invalid ''run record context.sizeBytes must be >= 0'')
      else if cx_SHA256 c \<noteq> [] \<and> \<not> hex64 (cx_SHA256 c) then Some (invalid ''run record context has malformed sha256'')
      else if \<not> cx_Present c \<and> cx_Reason c = [] then Some (invalid ''run record context is absent but context.reason is empty'')
      else None)"

definition validateWaitFor :: "RunRecord \<Rightarrow> storage_error option" where
  "validateWaitFor r =
     (case ru_WaitFor r of
        None \<Rightarrow> None
      | Some w \<Rightarrow>
          if wx_Type w = [] then Some (invalid ''run record waitFor.type must not be empty'')
          else if wx_DeclaredAt w = Some zero_time then Some (invalid ''run record waitFor.declaredAt must not be zero'')
          else None)"

definition validateProbeAttempt :: "RunRecord \<Rightarrow> storage_error option" where
  "validateProbeAttempt r =
     (case ru_ProbeAttempt r of
        None \<Rightarrow> None
      | Some p \<Rightarrow>
          if pb_Type p = [] then Some (invalid ''run record probeAttempt.type must not be empty'')
          else if pb_Phase p = [] then Some (invalid ''run record probeAttempt.phase must not be empty'')
          else if pb_Attempts p < 0 then Some (invalid ''run record probeAttempt.attempts must be >= 0'')
          else if pb_ConsecutiveErrors p < 0 then Some (invalid ''run record probeAttempt.consecutiveErrors must be >= 0'')
          else None)"

definition validateGitState :: "RunRecord \<Rightarrow> storage_error option" where
  "validateGitState r =
     (case ru_GitState r of
        None \<Rightarrow> None
      | Some g \<Rightarrow>
          if gx_HeadSHA g \<noteq> [] \<and> \<not> hex40 (gx_HeadSHA g) then Some (invalid ''run record gitState.headSHA is not 40 hex characters'')
          else case gx_PullRequest g of
            None \<Rightarrow> None
          | Some p \<Rightarrow>
              if pq_Repo p = [] then Some (invalid ''run record gitState.pullRequest.repo must not be empty'')
              else if pq_Number p < 1 then Some (invalid ''run record gitState.pullRequest.number must be >= 1'')
              else None)"

fun first_error :: "storage_error option list \<Rightarrow> storage_error option" where
  "first_error [] = None"
| "first_error (e # es) = (if e \<noteq> None then e else first_error es)"

definition RunRecord_Validate :: "RunRecord \<Rightarrow> storage_error option" where
  "RunRecord_Validate r =
     first_error [validateCore r, validatePhaseHistory r, validateSnapshots r, validateContext r, validateWaitFor r,
       validateProbeAttempt r, validateGitState r]"

subsection \<open>Writing and reading\<close>

definition RunRecord_Marshal :: "'r json_lib \<Rightarrow> RunRecord \<Rightarrow> storage_error + 'r" where
  "RunRecord_Marshal lib r =
     (case encode_struct (RunRecord_fields lib) r of
        Inl e \<Rightarrow> Inl (Errorf ''storage: marshaling run record'' e)
      | Inr v \<Rightarrow> Inr (Print lib v))"

definition ParseRunRecord :: "'r json_lib \<Rightarrow> 'r \<Rightarrow> storage_error + RunRecord" where
  "ParseRunRecord lib txt =
     (case Scan lib txt of
        Inl e \<Rightarrow> Inl (Errorf ''storage: parsing run record'' e)
      | Inr v \<Rightarrow>
          (case decode_struct (RunRecord_fields lib) v zero_RunRecord of
             Inl e \<Rightarrow> Inl (Errorf ''storage: parsing run record'' e)
           | Inr r \<Rightarrow> (case RunRecord_Validate r of Some e \<Rightarrow> Inl e | None \<Rightarrow> Inr r)))"

lemma ptr_slice_names [simp]:
  "jf_Name (ptr_field n get upd zero enc dec) = n" "jf_Name (slice_field n get' upd' zero' fs) = n"
  by (simp_all add: ptr_field_def slice_field_def)

lemma copies_ptr:
  assumes "valid_utf8 n" and "get a = None" and "pred_option (transfers enc dec zero) (get x)"
    and "get x = None \<longrightarrow> upd None a = a"
  shows "copies (ptr_field n get upd zero enc dec) x a (upd (get x) a)"
  unfolding ptr_field_def using assms
  by (intro copies_sub) (auto simp: option.pred_set intro!: ptr_transfers)

lemma copies_slice:
  assumes "valid_utf8 n" and "get a = []" and "list_all (transfers (encode_struct fs) (decode_struct fs) zero) (get x)"
    and "get x = [] \<longrightarrow> upd [] a = a"
  shows "copies (slice_field n get upd zero fs) x a (upd (get x) a)"
  unfolding slice_field_def using assms
  by (intro copies_sub) (auto simp: list_all_iff intro!: list_transfers)

lemmas record_rules = copies_rules copies_ptr copies_slice

lemma utf8_run_names [simp]:
  "valid_utf8 ''repo''" "valid_utf8 ''number''" "valid_utf8 ''prompt''" "valid_utf8 ''issueRef''" "valid_utf8 ''phase''"
  "valid_utf8 ''at''" "valid_utf8 ''reason''" "valid_utf8 ''uri''" "valid_utf8 ''sizeBytes''" "valid_utf8 ''takenAt''"
  "valid_utf8 ''durationMillis''" "valid_utf8 ''type''" "valid_utf8 ''declaredAt''" "valid_utf8 ''params''"
  "valid_utf8 ''attempts''" "valid_utf8 ''consecutiveErrors''" "valid_utf8 ''lastResult''" "valid_utf8 ''message''"
  "valid_utf8 ''lastAttemptAt''" "valid_utf8 ''branch''" "valid_utf8 ''headSHA''" "valid_utf8 ''pullRequest''"
  "valid_utf8 ''present''" "valid_utf8 ''task''" "valid_utf8 ''classRef''" "valid_utf8 ''finalPhase''"
  "valid_utf8 ''finalReason''" "valid_utf8 ''phaseHistory''" "valid_utf8 ''queuedDurationMillis''"
  "valid_utf8 ''runningDurationMillis''" "valid_utf8 ''waitingDurationMillis''" "valid_utf8 ''slotWaitMillis''"
  "valid_utf8 ''freezeCount''" "valid_utf8 ''wakeCount''" "valid_utf8 ''snapshots''" "valid_utf8 ''waitFor''"
  "valid_utf8 ''probeAttempt''" "valid_utf8 ''gitState''" "valid_utf8 ''context''"
  by code_simp+

text \<open>What has a text: strings in UTF-8, integers of their width, times the library can render.\<close>

definition IssueRecord_text :: "IssueRecord \<Rightarrow> bool" where
  "IssueRecord_text i \<longleftrightarrow> valid_utf8 (ix_Repo i) \<and> fits 32 (ix_Number i)"

definition TaskRecord_text :: "TaskRecord \<Rightarrow> bool" where
  "TaskRecord_text t \<longleftrightarrow> valid_utf8 (tk_Prompt t) \<and> pred_option IssueRecord_text (tk_IssueRef t)"

definition PhaseTransitionRecord_text :: "'r json_lib \<Rightarrow> PhaseTransitionRecord \<Rightarrow> bool" where
  "PhaseTransitionRecord_text lib t \<longleftrightarrow> valid_utf8 (px_Phase t) \<and> TimeText lib (px_At t) \<noteq> None \<and> valid_utf8 (px_Reason t)"

definition storage_SnapshotRecord_text :: "'r json_lib \<Rightarrow> storage_SnapshotRecord \<Rightarrow> bool" where
  "storage_SnapshotRecord_text lib s \<longleftrightarrow> fits 32 (sx_Seq s) \<and> valid_utf8 (sx_URI s) \<and> fits 64 (sx_SizeBytes s) \<and>
     valid_utf8 (sx_SHA256 s) \<and> TimeText lib (sx_TakenAt s) \<noteq> None \<and> fits 64 (sx_DurationMillis s)"

definition WaitForRecord_text :: "'r json_lib \<Rightarrow> WaitForRecord \<Rightarrow> bool" where
  "WaitForRecord_text lib w \<longleftrightarrow> valid_utf8 (wx_Type w) \<and> valid_utf8 (wx_Reason w) \<and>
     pred_option (\<lambda>t. TimeText lib t \<noteq> None) (wx_DeclaredAt w) \<and> sorted_wrt (<) (map fst (wx_Params w)) \<and>
     list_all (\<lambda>(k, s). valid_utf8 k \<and> valid_utf8 s) (wx_Params w)"

definition ProbeAttemptRecord_text :: "'r json_lib \<Rightarrow> ProbeAttemptRecord \<Rightarrow> bool" where
  "ProbeAttemptRecord_text lib p \<longleftrightarrow> valid_utf8 (pb_Type p) \<and> valid_utf8 (pb_Phase p) \<and> fits 32 (pb_Attempts p) \<and>
     fits 32 (pb_ConsecutiveErrors p) \<and> valid_utf8 (pb_LastResult p) \<and> valid_utf8 (pb_Reason p) \<and>
     valid_utf8 (pb_Message p) \<and> pred_option (\<lambda>t. TimeText lib t \<noteq> None) (pb_LastAttemptAt p)"

definition PullRequestRecord_text :: "PullRequestRecord \<Rightarrow> bool" where
  "PullRequestRecord_text p \<longleftrightarrow> valid_utf8 (pq_Repo p) \<and> fits 32 (pq_Number p)"

definition GitStateRecord_text :: "GitStateRecord \<Rightarrow> bool" where
  "GitStateRecord_text g \<longleftrightarrow> valid_utf8 (gx_Branch g) \<and> valid_utf8 (gx_HeadSHA g) \<and>
     pred_option PullRequestRecord_text (gx_PullRequest g)"

definition ContextRecord_text :: "ContextRecord \<Rightarrow> bool" where
  "ContextRecord_text c \<longleftrightarrow> valid_utf8 (cx_URI c) \<and> fits 64 (cx_SizeBytes c) \<and> valid_utf8 (cx_SHA256 c) \<and> valid_utf8 (cx_Reason c)"

definition RunRecord_text :: "'r json_lib \<Rightarrow> RunRecord \<Rightarrow> bool" where
  "RunRecord_text lib r \<longleftrightarrow>
     fits 64 (ru_SchemaVersion r) \<and> TimeText lib (ru_CreatedAt r) \<noteq> None \<and>
     list_all valid_utf8 [ru_ClusterID r, ru_Namespace r, ru_Name r, ru_UID r, ru_Repo r, ru_ClassRef r, ru_AgentImage r,
       ru_AgentImageDigest r, ru_FinalPhase r, ru_FinalReason r] \<and>
     list_all (fits 64) [ru_Generation r, ru_QueuedDurationMillis r, ru_RunningDurationMillis r,
       ru_WaitingDurationMillis r, ru_SlotWaitMillis r] \<and>
     fits 32 (ru_FreezeCount r) \<and> fits 32 (ru_WakeCount r) \<and> TaskRecord_text (ru_Task r) \<and>
     list_all (PhaseTransitionRecord_text lib) (ru_PhaseHistory r) \<and> list_all (storage_SnapshotRecord_text lib) (ru_Snapshots r) \<and>
     pred_option (WaitForRecord_text lib) (ru_WaitFor r) \<and> pred_option (ProbeAttemptRecord_text lib) (ru_ProbeAttempt r) \<and>
     pred_option GitStateRecord_text (ru_GitState r) \<and> ContextRecord_text (ru_Context r)"

lemma IssueRecord_transfers:
  "IssueRecord_text i \<Longrightarrow> transfers (encode_struct IssueRecord_fields) (decode_struct IssueRecord_fields) zero_IssueRecord i"
  unfolding IssueRecord_fields_def zero_IssueRecord_def IssueRecord_text_def
  by (rule struct_transfers, simp) (rule record_rules | simp)+

lemma TaskRecord_transfers:
  "TaskRecord_text t \<Longrightarrow> transfers (encode_struct TaskRecord_fields) (decode_struct TaskRecord_fields) zero_TaskRecord t"
  using option.pred_mono_strong [of IssueRecord_text "tk_IssueRef t", OF _ IssueRecord_transfers]
  unfolding TaskRecord_fields_def zero_TaskRecord_def TaskRecord_text_def
  by (intro struct_transfers, simp) (rule record_rules | simp)+

lemma PullRequestRecord_transfers:
  "PullRequestRecord_text p \<Longrightarrow>
   transfers (encode_struct PullRequestRecord_fields) (decode_struct PullRequestRecord_fields) zero_PullRequestRecord p"
  unfolding PullRequestRecord_fields_def zero_PullRequestRecord_def PullRequestRecord_text_def
  by (rule struct_transfers, simp) (rule record_rules | simp)+

lemma GitStateRecord_transfers:
  "GitStateRecord_text g \<Longrightarrow>
   transfers (encode_struct GitStateRecord_fields) (decode_struct GitStateRecord_fields) zero_GitStateRecord g"
  using option.pred_mono_strong [of PullRequestRecord_text "gx_PullRequest g", OF _ PullRequestRecord_transfers]
  unfolding GitStateRecord_fields_def zero_GitStateRecord_def GitStateRecord_text_def
  by (intro struct_transfers, simp) (rule record_rules | simp)+

lemma ContextRecord_transfers:
  "ContextRecord_text c \<Longrightarrow> transfers (encode_struct ContextRecord_fields) (decode_struct ContextRecord_fields) zero_ContextRecord c"
  unfolding ContextRecord_fields_def zero_ContextRecord_def ContextRecord_text_def
  by (rule struct_transfers, simp) (rule record_rules | simp)+

context json_laws
begin

lemma PhaseTransitionRecord_transfers:
  "PhaseTransitionRecord_text lib t \<Longrightarrow>
   transfers (encode_struct (PhaseTransitionRecord_fields lib)) (decode_struct (PhaseTransitionRecord_fields lib)) zero_PhaseTransitionRecord t"
  unfolding PhaseTransitionRecord_fields_def zero_PhaseTransitionRecord_def PhaseTransitionRecord_text_def
  by (rule struct_transfers, simp) (rule record_rules | simp add: time_transfers)+

lemma storage_SnapshotRecord_transfers:
  "storage_SnapshotRecord_text lib s \<Longrightarrow>
   transfers (encode_struct (storage_SnapshotRecord_fields lib)) (decode_struct (storage_SnapshotRecord_fields lib)) zero_storage_SnapshotRecord s"
  unfolding storage_SnapshotRecord_fields_def zero_storage_SnapshotRecord_def storage_SnapshotRecord_text_def
  by (rule struct_transfers, simp) (rule record_rules | simp add: time_transfers)+

lemma optional_time: "pred_option (\<lambda>t. TimeText lib t \<noteq> None) p \<Longrightarrow> pred_option (transfers (encode_time lib) (decode_time lib) zero_time) p"
  by (auto elim!: option.pred_mono_strong intro: time_transfers)

lemma WaitForRecord_transfers:
  assumes "WaitForRecord_text lib w"
  shows "transfers (encode_struct (WaitForRecord_fields lib)) (decode_struct (WaitForRecord_fields lib)) zero_WaitForRecord w"
proof -
  have "pred_option (transfers (encode_time lib) (decode_time lib) zero_time) (wx_DeclaredAt w)"
    using assms by (intro optional_time) (simp add: WaitForRecord_text_def)
  moreover have "transfers encode_map decode_map [] (wx_Params w)"
    using assms by (intro map_transfers) (auto simp: WaitForRecord_text_def list_all_iff)
  ultimately show ?thesis
    using assms unfolding WaitForRecord_fields_def zero_WaitForRecord_def WaitForRecord_text_def
    by (intro struct_transfers, simp) (rule record_rules | simp)+
qed

lemma ProbeAttemptRecord_transfers:
  assumes "ProbeAttemptRecord_text lib p"
  shows "transfers (encode_struct (ProbeAttemptRecord_fields lib)) (decode_struct (ProbeAttemptRecord_fields lib)) zero_ProbeAttemptRecord p"
proof -
  have "pred_option (transfers (encode_time lib) (decode_time lib) zero_time) (pb_LastAttemptAt p)"
    using assms by (intro optional_time) (simp add: ProbeAttemptRecord_text_def)
  then show ?thesis
    using assms unfolding ProbeAttemptRecord_fields_def zero_ProbeAttemptRecord_def ProbeAttemptRecord_text_def
    by (intro struct_transfers, simp) (rule record_rules | simp)+
qed

lemma RunRecord_transfers:
  assumes "RunRecord_text lib r"
  shows "transfers (encode_struct (RunRecord_fields lib)) (decode_struct (RunRecord_fields lib)) zero_RunRecord r"
proof -
  note t = assms [unfolded RunRecord_text_def]
  have "transfers (encode_time lib) (decode_time lib) zero_time (ru_CreatedAt r)" using t by (intro time_transfers) simp
  moreover have "transfers (encode_struct TaskRecord_fields) (decode_struct TaskRecord_fields) zero_TaskRecord (ru_Task r)"
    using t by (intro TaskRecord_transfers) simp
  moreover have "transfers (encode_struct ContextRecord_fields) (decode_struct ContextRecord_fields) zero_ContextRecord (ru_Context r)"
    using t by (intro ContextRecord_transfers) simp
  moreover have "list_all (transfers (encode_struct (PhaseTransitionRecord_fields lib)) (decode_struct (PhaseTransitionRecord_fields lib))
      zero_PhaseTransitionRecord) (ru_PhaseHistory r)"
    using t PhaseTransitionRecord_transfers by (auto simp: list_all_iff)
  moreover have "list_all (transfers (encode_struct (storage_SnapshotRecord_fields lib)) (decode_struct (storage_SnapshotRecord_fields lib))
      zero_storage_SnapshotRecord) (ru_Snapshots r)"
    using t storage_SnapshotRecord_transfers by (auto simp: list_all_iff)
  moreover have "pred_option (transfers (encode_struct (WaitForRecord_fields lib)) (decode_struct (WaitForRecord_fields lib))
      zero_WaitForRecord) (ru_WaitFor r)"
    using t WaitForRecord_transfers by (auto simp: option.pred_set)
  moreover have "pred_option (transfers (encode_struct (ProbeAttemptRecord_fields lib)) (decode_struct (ProbeAttemptRecord_fields lib))
      zero_ProbeAttemptRecord) (ru_ProbeAttempt r)"
    using t ProbeAttemptRecord_transfers by (auto simp: option.pred_set)
  moreover have "pred_option (transfers (encode_struct GitStateRecord_fields) (decode_struct GitStateRecord_fields)
      zero_GitStateRecord) (ru_GitState r)"
    using t GitStateRecord_transfers by (auto simp: option.pred_set)
  ultimately show ?thesis
    using t unfolding RunRecord_fields_def zero_RunRecord_def
    by (intro struct_transfers, simp) (rule record_rules | simp)+
qed

lemma RunRecord_round:
  assumes "RunRecord_text lib r" and "RunRecord_Validate r = None"
  shows "\<exists>txt. RunRecord_Marshal lib r = Inr txt \<and> ParseRunRecord lib txt = Inr r"
  using RunRecord_transfers [OF assms(1)] assms(2) scan_print
  by (auto simp: transfers_def RunRecord_Marshal_def ParseRunRecord_def)

end

lemma ParseRunRecord_valid: "ParseRunRecord lib txt = Inr r \<Longrightarrow> RunRecord_Validate r = None"
  by (auto simp: ParseRunRecord_def split: sum.splits option.splits)

subsection \<open>Assembling a record from a status\<close>

definition phase_string :: "Phase \<Rightarrow> string" where
  "phase_string p =
     (case p of
        PhaseUnset \<Rightarrow> [] | PhasePending \<Rightarrow> ''Pending'' | PhaseReady \<Rightarrow> ''Ready'' | PhaseRunning \<Rightarrow> ''Running''
      | PhaseFreezing \<Rightarrow> ''Freezing'' | PhaseWaiting \<Rightarrow> ''Waiting'' | PhaseRestoring \<Rightarrow> ''Restoring''
      | PhaseDone \<Rightarrow> ''Done'' | PhaseFailed \<Rightarrow> ''Failed'' | PhaseOther s \<Rightarrow> s)"

definition probe_phase_string :: "ProbeAttemptPhase \<Rightarrow> string" where
  "probe_phase_string p =
     (case p of ProbeAttemptPending \<Rightarrow> ''Pending'' | ProbeAttemptSatisfied \<Rightarrow> ''Satisfied'' | ProbeAttemptFailed \<Rightarrow> ''Failed'')"

definition map_pairs :: "(string \<rightharpoonup> string) \<Rightarrow> (string \<times> string) list" where
  "map_pairs m = map (\<lambda>k. (k, the (m k))) (sorted_list_of_set (dom m))"

definition conditionReady :: string where "conditionReady = ''Ready''"

definition readyConditionReason :: "meta_lib \<Rightarrow> Condition list \<Rightarrow> string" where
  "readyConditionReason meta conds =
     (case FindStatusCondition meta conds conditionReady of Some c \<Rightarrow> c_Reason c | None \<Rightarrow> [])"

text \<open>\<^verbatim>\<open>Milliseconds\<close> drops the rest of the nanoseconds; the durations it is called on are not negative.\<close>

definition betweenMillis :: "time option \<Rightarrow> time option \<Rightarrow> int" where
  "betweenMillis d1 d2 =
     (case (d1, d2) of
        (Some t1, Some t2) \<Rightarrow> (let d = time_Sub t2 t1 in if d < 0 then 0 else d div 1000000)
      | _ \<Rightarrow> 0)"

fun waitingDurationMillis :: "PhaseTransition list \<Rightarrow> int" where
  "waitingDurationMillis (h # h' # hs) =
     (let d = time_Sub (pt_At h') (pt_At h) in
      (if pt_Phase h \<noteq> PhaseWaiting \<or> d < 0 then 0 else d div 1000000) + waitingDurationMillis (h' # hs))"
| "waitingDurationMillis _ = 0"

definition assembleRunRecord :: "meta_lib \<Rightarrow> time \<Rightarrow> string \<Rightarrow> string \<Rightarrow> SandboxEnvironment \<Rightarrow> RunRecord" where
  "assembleRunRecord meta now clusterID agentImage env =
     (let st = Status env; sp = Spec env; t = sp_Task sp in
      zero_RunRecord\<lparr>
        ru_SchemaVersion := RunRecordSchemaVersion,
        ru_CreatedAt := truncate_second now,
        ru_ClusterID := clusterID,
        ru_Namespace := Namespace env,
        ru_Name := Name env,
        ru_UID := UID env,
        ru_Generation := Generation env,
        ru_Repo := sp_Repo sp,
        ru_ClassRef := cr_Name (sp_ClassRef sp),
        ru_AgentImage := agentImage,
        ru_FinalPhase := phase_string (st_Phase st),
        ru_FinalReason := readyConditionReason meta (st_Conditions st),
        ru_FreezeCount := sint (st_FreezeCount st),
        ru_WakeCount := sint (st_WakeCount st),
        ru_Task := (if ts_Prompt t \<noteq> [] \<or> ts_IssueRef t \<noteq> None
          then \<lparr>tk_Prompt = ts_Prompt t,
                tk_IssueRef = map_option (\<lambda>i. \<lparr>ix_Repo = ir_Repo i, ix_Number = ir_Number i\<rparr>) (ts_IssueRef t)\<rparr>
          else zero_TaskRecord),
        ru_PhaseHistory := map (\<lambda>ph. \<lparr>px_Phase = phase_string (pt_Phase ph), px_At = pt_At ph, px_Reason = pt_Reason ph\<rparr>)
          (st_PhaseHistory st),
        ru_QueuedDurationMillis := betweenMillis (st_QueuedSince st) (st_StartedAt st),
        ru_RunningDurationMillis := betweenMillis (st_StartedAt st) (st_FinishedAt st),
        ru_WaitingDurationMillis := waitingDurationMillis (st_PhaseHistory st),
        ru_SlotWaitMillis := betweenMillis (st_QueuedSince st) (GrantedAt (st_Slot st)),
        ru_Snapshots := (case st_Snapshot st of
            None \<Rightarrow> []
          | Some s \<Rightarrow> [\<lparr>sx_Seq = sn_Seq s, sx_URI = sn_URI s, sx_SizeBytes = sn_SizeBytes s, sx_SHA256 = sn_SHA256 s,
              sx_TakenAt = (case sn_TakenAt s of None \<Rightarrow> zero_time | Some u \<Rightarrow> u), sx_DurationMillis = sn_DurationMillis s\<rparr>]),
        ru_WaitFor := map_option (\<lambda>w. \<lparr>wx_Type = wf_Type w, wx_Reason = wf_Reason w, wx_DeclaredAt = wf_DeclaredAt w,
            wx_Params = map_pairs (wf_Params w)\<rparr>) (st_WaitFor st),
        ru_ProbeAttempt := map_option (\<lambda>p. \<lparr>pb_Type = pa_Type p, pb_Phase = probe_phase_string (pa_Phase p),
            pb_Attempts = pa_Attempts p, pb_ConsecutiveErrors = pa_ConsecutiveErrors p, pb_LastResult = pa_LastResult p,
            pb_Reason = pa_Reason p, pb_Message = pa_Message p, pb_LastAttemptAt = pa_LastAttemptAt p\<rparr>) (st_ProbeAttempt st),
        ru_GitState := map_option (\<lambda>g. \<lparr>gx_Branch = gs_Branch g, gx_HeadSHA = gs_HeadSHA g,
            gx_PullRequest = map_option (\<lambda>p. \<lparr>pq_Repo = pr_Repo p, pq_Number = pr_Number p\<rparr>) (gs_PullRequest g)\<rparr>)
          (st_GitState st)\<rparr>)"

subsection \<open>The history the reconciler keeps\<close>

text \<open>
  A history of declared phases without a repeated one in a row, whose newest entry is the
  phase of the status once there is one.
\<close>

fun alternates :: "PhaseTransition list \<Rightarrow> bool" where
  "alternates (h # h' # hs) \<longleftrightarrow> pt_Phase h \<noteq> pt_Phase h' \<and> alternates (h' # hs)"
| "alternates _ \<longleftrightarrow> True"

definition history_ok :: "SandboxEnvironmentStatus \<Rightarrow> bool" where
  "history_ok s \<longleftrightarrow>
     alternates (st_PhaseHistory s) \<and> (st_PhaseHistory s \<noteq> [] \<longrightarrow> pt_Phase (last (st_PhaseHistory s)) = st_Phase s) \<and>
     pt_Phase ` set (st_PhaseHistory s) \<subseteq> set AllPhases \<and> length (st_PhaseHistory s) \<le> MaxPhaseHistoryEntries"

lemma alternates_append:
  "alternates (hs @ [h]) \<longleftrightarrow> alternates hs \<and> (hs \<noteq> [] \<longrightarrow> pt_Phase (last hs) \<noteq> pt_Phase h)"
  by (induction hs rule: alternates.induct) auto

lemma alternates_drop: "alternates hs \<Longrightarrow> alternates (drop n hs)"
proof (induction n arbitrary: hs)
  case (Suc n)
  then show ?case by (cases hs rule: alternates.cases) auto
qed simp

lemma Apply_history_ok:
  assumes "history_ok (Status env)" and "d_Phase d \<in> set AllPhases"
  shows "history_ok (Apply lib env d)"
proof (cases "d_Phase d = st_Phase (Status env)")
  case True
  then show ?thesis using assms(1) by (simp add: history_ok_def phase_history_def)
next
  case False
  obtain h where h: "pt_Phase h = d_Phase d"
    and eq: "phase_history lib (Status env) d =
      (let hs = st_PhaseHistory (Status env) @ [h]; n = length hs
       in if n > MaxPhaseHistoryEntries then drop (n - MaxPhaseHistoryEntries) hs else hs)"
    using that [OF PhaseTransition.select_convs(1)] False by (simp add: phase_history_def Let_def)
  let ?hs = "st_PhaseHistory (Status env) @ [h]"
  have ok: "alternates ?hs" "pt_Phase ` set ?hs \<subseteq> set AllPhases"
    using assms h False by (auto simp: history_ok_def alternates_append)
  define hs' where "hs' = phase_history lib (Status env) d"
  obtain k where k: "hs' = drop k ?hs" "k \<le> length (st_PhaseHistory (Status env))" "length hs' \<le> MaxPhaseHistoryEntries"
  proof (cases "length ?hs > MaxPhaseHistoryEntries")
    case True
    then show ?thesis
      using that [of "length ?hs - MaxPhaseHistoryEntries"] eq by (simp add: Let_def hs'_def MaxPhaseHistoryEntries_def)
  next
    case False
    then show ?thesis using that [of 0] eq by (simp add: Let_def hs'_def)
  qed
  have "alternates hs'" unfolding k(1) by (rule alternates_drop [OF ok(1)])
  moreover have "pt_Phase ` set hs' \<subseteq> set AllPhases" using ok(2) set_drop_subset [of k ?hs] unfolding k(1) by blast
  moreover have "hs' \<noteq> [] \<and> last hs' = h" using k(1,2) by simp
  ultimately show ?thesis using k(3) h by (simp add: history_ok_def hs'_def)
qed

lemma phase_string_known: "p \<in> set AllPhases \<Longrightarrow> phase_string p \<in> set runRecordPhases \<and> phase_string p \<noteq> []"
  by (auto simp: AllPhases_def runRecordPhases_def phase_string_def)

lemma phase_string_inj: "p \<in> set AllPhases \<Longrightarrow> q \<in> set AllPhases \<Longrightarrow> phase_string p = phase_string q \<longleftrightarrow> p = q"
  by (auto simp: AllPhases_def phase_string_def)

abbreviation to_record :: "PhaseTransition \<Rightarrow> PhaseTransitionRecord" where
  "to_record \<equiv> \<lambda>ph. \<lparr>px_Phase = phase_string (pt_Phase ph), px_At = pt_At ph, px_Reason = pt_Reason ph\<rparr>"

lemma validatePhases_alternates:
  "alternates hs \<Longrightarrow> \<forall>h \<in> set hs. pt_Phase h \<in> set AllPhases \<and> pt_At h \<noteq> zero_time \<Longrightarrow>
   (hs \<noteq> [] \<Longrightarrow> prev \<noteq> Some (phase_string (pt_Phase (hd hs)))) \<Longrightarrow> validatePhases prev (map to_record hs) = None"
proof (induction hs arbitrary: prev)
  case (Cons h hs)
  have ok: "pt_Phase h \<in> set AllPhases" "pt_At h \<noteq> zero_time" using Cons.prems(2) by simp_all
  have "validatePhases (Some (phase_string (pt_Phase h))) (map to_record hs) = None"
  proof (rule Cons.IH)
    show "alternates hs" using Cons.prems(1) by (cases hs) auto
    show "\<forall>h \<in> set hs. pt_Phase h \<in> set AllPhases \<and> pt_At h \<noteq> zero_time" using Cons.prems(2) by simp
    show "Some (phase_string (pt_Phase h)) \<noteq> Some (phase_string (pt_Phase (hd hs)))" if "hs \<noteq> []"
      using that Cons.prems(1,2) phase_string_inj by (cases hs) auto
  qed
  then show ?case using ok phase_string_known [OF ok(1)] Cons.prems(3) by simp
qed simp

lemma assembled_history_valid:
  assumes "history_ok (Status env)" and "\<forall>h \<in> set (st_PhaseHistory (Status env)). pt_At h \<noteq> zero_time"
  shows "validatePhaseHistory (assembleRunRecord meta now clusterID agentImage env) = None"
  using assms validatePhases_alternates [of "st_PhaseHistory (Status env)" None]
  by (auto simp: validatePhaseHistory_def assembleRunRecord_def Let_def history_ok_def maxPhaseHistoryEntries_def
      MaxPhaseHistoryEntries_def zero_RunRecord_def)

lemma waitingDurationMillis_nonneg: "0 \<le> waitingDurationMillis h"
  by (induction h rule: waitingDurationMillis.induct) (auto simp: Let_def pos_imp_zdiv_nonneg_iff)

lemma betweenMillis_nonneg: "0 \<le> betweenMillis a b"
  by (auto simp: betweenMillis_def Let_def pos_imp_zdiv_nonneg_iff split: option.splits)

subsection \<open>Properties\<close>

text \<open>
  C21: the record of a run survives being written. For a library that keeps the
  laws of JSON texts, a valid record whose parts have a text is written without error and read
  back unchanged, optional parts and empty ones included; and whatever text is read, only a
  valid record comes out.
\<close>

theorem run_record_round_trip:
  assumes "json_laws lib" and "RunRecord_Validate r = None" and "RunRecord_text lib r"
  shows "(\<exists>txt. RunRecord_Marshal lib r = Inr txt \<and> ParseRunRecord lib txt = Inr r) \<and>
     (\<forall>txt r'. ParseRunRecord lib txt = Inr r' \<longrightarrow> RunRecord_Validate r' = None)"
  using json_laws.RunRecord_round [OF assms(1,3,2)] ParseRunRecord_valid [of lib] by blast

definition sample_run :: RunRecord where
  "sample_run =
     zero_RunRecord\<lparr>ru_SchemaVersion := 1, ru_CreatedAt := 9 * Second, ru_ClusterID := ''c'', ru_Namespace := ''n'',
       ru_Name := ''e'', ru_UID := ''u'', ru_Repo := ''r'', ru_ClassRef := ''k'', ru_AgentImage := ''a'',
       ru_FinalPhase := ''Done'',
       ru_PhaseHistory := [\<lparr>px_Phase = ''Running'', px_At = 1, px_Reason = []\<rparr>, \<lparr>px_Phase = ''Done'', px_At = 2, px_Reason = ''r''\<rparr>],
       ru_WaitFor := Some \<lparr>wx_Type = ''k'', wx_Reason = [], wx_DeclaredAt = Some 3, wx_Params = [(''a'', ''n''), (''c'', [])]\<rparr>,
       ru_Context := \<lparr>cx_Present = False, cx_URI = [], cx_SizeBytes = 0, cx_SHA256 = [], cx_Reason = ''r''\<rparr>\<rparr>"

lemma sample_run_ok: "RunRecord_Validate sample_run = None" "RunRecord_text ref_json sample_run"
proof -
  show "RunRecord_Validate sample_run = None"
    by (simp add: sample_run_def zero_RunRecord_def RunRecord_Validate_def validateCore_def validatePhaseHistory_def
        validateSnapshots_def validateContext_def validateWaitFor_def validateProbeAttempt_def validateGitState_def
        RunRecordSchemaVersion_def maxPhaseHistoryEntries_def runRecordPhases_def zero_time_def Let_def)
  have "valid_utf8 ''c''" "valid_utf8 ''n''" "valid_utf8 ''e''" "valid_utf8 ''u''" "valid_utf8 ''r''" "valid_utf8 ''k''"
    "valid_utf8 ''a''" "valid_utf8 ''Done''" "valid_utf8 ''Running''" "valid_utf8 []"
    by code_simp+
  moreover have "''a'' < ''c''" by code_simp
  ultimately show "RunRecord_text ref_json sample_run"
    by (simp add: sample_run_def zero_RunRecord_def zero_TaskRecord_def RunRecord_text_def TaskRecord_text_def
        PhaseTransitionRecord_text_def WaitForRecord_text_def ContextRecord_text_def fits_def ref_json_def)
qed

theorem run_record_round_trip_witness:
  "\<exists>txt. RunRecord_Marshal ref_json sample_run = Inr txt \<and> ParseRunRecord ref_json txt = Inr sample_run"
  using run_record_round_trip [OF ref.json_laws_axioms sample_run_ok] by blast

end
