(* ===== verification/Go_FS.thy ===== *)
theory Go_FS
  imports Go_Path "HOL-Library.List_Lexorder" "HOL-Library.Char_ord"
begin

section \<open>A file system with symbolic links\<close>

text \<open>
  What the sources use of Go's package \<^verbatim>\<open>os\<close> on a Unix file system. A tree of nodes hangs below the
  root; a directory holds its entries in the order of their names, which is the order
  \<^verbatim>\<open>ReadDir\<close> and \<^verbatim>\<open>WalkDir\<close> visit them in. \<open>resolve\<close> walks a path segment by segment and follows
  symbolic links, at most forty of them before it gives up with \<open>ELOOP\<close>, as Linux does; a link
  in the last segment is followed or not, as the call asks. The calls fail as the structure of
  the tree makes them fail; a device that runs out of space or stops working is not part of
  this model.
\<close>

datatype node = Dir nat "(string \<times> node) list" | File nat string | Link string | Special

datatype os_error = ENOENT | EEXIST | ENOTDIR | EISDIR | ELOOP | ENOTEMPTY | EINVAL | EACCES | ENOSPC | EIO

subsection \<open>Trees\<close>

fun lookup_node :: "node \<Rightarrow> string list \<Rightarrow> node option" where
  "lookup_node t [] = Some t"
| "lookup_node (Dir m es) (s # ss) = (case map_of es s of None \<Rightarrow> None | Some c \<Rightarrow> lookup_node c ss)"
| "lookup_node _ (s # ss) = None"

fun insert_entry :: "string \<Rightarrow> node \<Rightarrow> (string \<times> node) list \<Rightarrow> (string \<times> node) list" where
  "insert_entry s c [] = [(s, c)]"
| "insert_entry s c ((s', c') # es) =
     (if s < s' then (s, c) # (s', c') # es else if s = s' then (s, c) # es else (s', c') # insert_entry s c es)"

definition remove_entry :: "string \<Rightarrow> (string \<times> node) list \<Rightarrow> (string \<times> node) list" where
  "remove_entry s es = filter (\<lambda>(s', c). s' \<noteq> s) es"

fun set_node :: "node \<Rightarrow> string list \<Rightarrow> node \<Rightarrow> node" where
  "set_node t [] c = c"
| "set_node (Dir m es) (s # ss) c =
     (if ss = [] then Dir m (insert_entry s c es)
      else case map_of es s of None \<Rightarrow> Dir m es | Some d \<Rightarrow> Dir m (insert_entry s (set_node d ss c) es))"
| "set_node t (s # ss) c = t"

fun remove_node :: "node \<Rightarrow> string list \<Rightarrow> node" where
  "remove_node (Dir m es) (s # ss) =
     (if ss = [] then Dir m (remove_entry s es)
      else case map_of es s of None \<Rightarrow> Dir m es | Some d \<Rightarrow> Dir m (insert_entry s (remove_node d ss) es))"
| "remove_node t p = t"

definition is_dir :: "node option \<Rightarrow> bool" where
  "is_dir n \<longleftrightarrow> (case n of Some (Dir m es) \<Rightarrow> True | _ \<Rightarrow> False)"

subsection \<open>Path resolution\<close>

definition path_segments :: "string \<Rightarrow> string list" where
  "path_segments p = filter (\<lambda>s. s \<noteq> []) (split_slash p)"

function resolve :: "node \<Rightarrow> bool \<Rightarrow> nat \<Rightarrow> string list \<Rightarrow> string list \<Rightarrow> os_error + string list" where
  "resolve t follow n cur [] = Inr cur"
| "resolve t follow n cur (s # ss) =
     (if s = [] \<or> s = ''.'' then resolve t follow n cur ss
      else if s = ''..'' then resolve t follow n (butlast cur) ss
      else if \<not> is_dir (lookup_node t cur) then Inl ENOTDIR
      else case lookup_node t (cur @ [s]) of
        None \<Rightarrow> if ss = [] then Inr (cur @ [s]) else Inl ENOENT
      | Some (Link target) \<Rightarrow>
          if ss = [] \<and> \<not> follow then Inr (cur @ [s])
          else if n = 0 then Inl ELOOP
          else resolve t follow (n - 1) (if is_rooted target then [] else cur) (split_slash target @ ss)
      | Some c \<Rightarrow> resolve t follow n (cur @ [s]) ss)"
  by pat_completeness auto
termination
  by (relation "measures [\<lambda>(t, follow, n, cur, ss). n, \<lambda>(t, follow, n, cur, ss). length ss]") auto

definition max_links :: nat where "max_links = 40"

definition follow_path :: "node \<Rightarrow> string \<Rightarrow> os_error + string list" where
  "follow_path t p = resolve t True max_links [] (path_segments p)"

definition name_path :: "node \<Rightarrow> string \<Rightarrow> os_error + string list" where
  "name_path t p = resolve t False max_links [] (path_segments p)"

subsection \<open>Calls\<close>

definition os_Stat :: "node \<Rightarrow> string \<Rightarrow> os_error + node" where
  "os_Stat t p =
     (case follow_path t p of
        Inl e \<Rightarrow> Inl e
      | Inr q \<Rightarrow> (case lookup_node t q of None \<Rightarrow> Inl ENOENT | Some n \<Rightarrow> Inr n))"

definition os_Lstat :: "node \<Rightarrow> string \<Rightarrow> os_error + node" where
  "os_Lstat t p =
     (case name_path t p of
        Inl e \<Rightarrow> Inl e
      | Inr q \<Rightarrow> (case lookup_node t q of None \<Rightarrow> Inl ENOENT | Some n \<Rightarrow> Inr n))"

definition os_Mkdir :: "node \<Rightarrow> string \<Rightarrow> nat \<Rightarrow> os_error + node" where
  "os_Mkdir t p perm =
     (case name_path t p of
        Inl e \<Rightarrow> Inl e
      | Inr q \<Rightarrow> if lookup_node t q \<noteq> None then Inl EEXIST else Inr (set_node t q (Dir perm [])))"

text \<open>
  \<^verbatim>\<open>MkdirAll\<close>: nothing to do for a directory that is there, an error for anything else that is there;
  otherwise the parent first, and an error of the last step counts only if no directory is there
  after it.
\<close>

function os_MkdirAll :: "node \<Rightarrow> string list \<Rightarrow> nat \<Rightarrow> os_error + node" where
  "os_MkdirAll t segs perm =
     (let p = slash # join_slash segs in
      case os_Stat t p of
        Inr n \<Rightarrow> if is_dir (Some n) then Inr t else Inl ENOTDIR
      | Inl e \<Rightarrow>
          if segs = [] then Inl e
          else case os_MkdirAll t (butlast segs) perm of
            Inl e \<Rightarrow> Inl e
          | Inr t1 \<Rightarrow>
              (case os_Mkdir t1 p perm of
                 Inr t2 \<Rightarrow> Inr t2
               | Inl e \<Rightarrow>
                   (case os_Lstat t1 p of
                      Inl e' \<Rightarrow> Inl e
                    | Inr n \<Rightarrow> if is_dir (Some n) then Inr t1 else Inl e)))"
  by pat_completeness auto
termination by (relation "measure (\<lambda>(t, segs, perm). length segs)") auto

declare os_MkdirAll.simps [simp del]

text \<open>\<^verbatim>\<open>OpenFile\<close> with \<^verbatim>\<open>O_CREATE|O_WRONLY|O_TRUNC\<close> and the bytes written to it until it is closed.\<close>

definition os_WriteFile :: "node \<Rightarrow> string \<Rightarrow> string \<Rightarrow> nat \<Rightarrow> os_error + node" where
  "os_WriteFile t p content mode =
     (case follow_path t p of
        Inl e \<Rightarrow> Inl e
      | Inr q \<Rightarrow>
          (case lookup_node t q of
             None \<Rightarrow> Inr (set_node t q (File mode content))
           | Some (File m old) \<Rightarrow> Inr (set_node t q (File m content))
           | Some (Dir m es) \<Rightarrow> Inl EISDIR
           | Some (Link l) \<Rightarrow> Inl ELOOP
           | Some Special \<Rightarrow> Inl EINVAL))"

definition os_ReadFile :: "node \<Rightarrow> string \<Rightarrow> os_error + string" where
  "os_ReadFile t p =
     (case os_Stat t p of
        Inl e \<Rightarrow> Inl e
      | Inr (File m content) \<Rightarrow> Inr content
      | Inr (Dir m es) \<Rightarrow> Inl EISDIR
      | Inr (Link l) \<Rightarrow> Inl ELOOP
      | Inr Special \<Rightarrow> Inl EINVAL)"

definition os_Symlink :: "node \<Rightarrow> string \<Rightarrow> string \<Rightarrow> os_error + node" where
  "os_Symlink t target p =
     (case name_path t p of
        Inl e \<Rightarrow> Inl e
      | Inr q \<Rightarrow> if lookup_node t q \<noteq> None then Inl EEXIST else Inr (set_node t q (Link target)))"

definition os_Remove :: "node \<Rightarrow> string \<Rightarrow> os_error + node" where
  "os_Remove t p =
     (case name_path t p of
        Inl e \<Rightarrow> Inl e
      | Inr q \<Rightarrow>
          (case lookup_node t q of
             None \<Rightarrow> Inl ENOENT
           | Some (Dir m es) \<Rightarrow> if q = [] then Inl EINVAL else if es \<noteq> [] then Inl ENOTEMPTY else Inr (remove_node t q)
           | Some c \<Rightarrow> Inr (remove_node t q)))"

definition os_ReadDir :: "node \<Rightarrow> string \<Rightarrow> os_error + string list" where
  "os_ReadDir t p =
     (case os_Stat t p of
        Inl e \<Rightarrow> Inl e
      | Inr (Dir m es) \<Rightarrow> Inr (map fst es)
      | Inr _ \<Rightarrow> Inl ENOTDIR)"

text \<open>\<^verbatim>\<open>RemoveAll\<close> of a path that is not there is no error.\<close>

definition os_RemoveAll :: "node \<Rightarrow> string \<Rightarrow> os_error + node" where
  "os_RemoveAll t p =
     (case name_path t p of
        Inl ENOENT \<Rightarrow> Inr t
      | Inl e \<Rightarrow> Inl e
      | Inr q \<Rightarrow> if q = [] then Inl EINVAL else Inr (remove_node t q))"

subsection \<open>Laws of trees\<close>

fun tree_ok :: "node \<Rightarrow> bool" where
  "tree_ok (Dir m es) \<longleftrightarrow>
     sorted_wrt (<) (map fst es) \<and>
     list_all (\<lambda>(s, c). s \<noteq> [] \<and> s \<noteq> ''.'' \<and> s \<noteq> ''..'' \<and> slash \<notin> set s \<and> tree_ok c) es"
| "tree_ok _ \<longleftrightarrow> True"

lemma map_of_insert_entry:
  "sorted_wrt (<) (map fst es) \<Longrightarrow> map_of (insert_entry s c es) s' = (if s' = s then Some c else map_of es s')"
  by (induction es) (auto simp: map_of_eq_None_iff)

lemma lookup_append: "lookup_node t (p @ q) = (case lookup_node t p of None \<Rightarrow> None | Some n \<Rightarrow> lookup_node n q)"
  by (induction t p rule: lookup_node.induct) (auto split: option.splits)

lemma tree_ok_child: "tree_ok (Dir m es) \<Longrightarrow> map_of es s = Some c \<Longrightarrow> tree_ok c"
  by (auto simp: list_all_iff dest!: map_of_SomeD)

lemma tree_ok_sorted: "tree_ok (Dir m es) \<Longrightarrow> sorted_wrt (<) (map fst es)"
  by simp

lemma tree_ok_lookup: "tree_ok t \<Longrightarrow> lookup_node t p = Some c \<Longrightarrow> tree_ok c"
proof (induction t p rule: lookup_node.induct)
  case (2 m es s ss)
  then show ?case using tree_ok_child by (auto split: option.splits simp del: tree_ok.simps)
qed auto

lemma lookup_set_same:
  "tree_ok t \<Longrightarrow> p \<noteq> [] \<Longrightarrow> is_dir (lookup_node t (butlast p)) \<Longrightarrow> lookup_node (set_node t p c) p = Some c"
proof (induction t p c rule: set_node.induct)
  case (2 m es s ss c)
  show ?case
  proof (cases "ss = []")
    case True
    then show ?thesis using tree_ok_sorted [OF 2(2)] by (simp add: map_of_insert_entry)
  next
    case False
    then obtain d where d: "map_of es s = Some d" "is_dir (lookup_node d (butlast ss))"
      using 2(4) by (auto simp: is_dir_def split: option.splits)
    then have "lookup_node (set_node d ss c) ss = Some c"
      using 2(1) [OF False d(1)] tree_ok_child [OF 2(2) d(1)] False by simp
    then show ?thesis using False d(1) tree_ok_sorted [OF 2(2)] by (simp add: map_of_insert_entry)
  qed
qed (auto simp: is_dir_def split: option.splits node.splits list.splits if_splits)

text \<open>A path that neither extends the changed one nor is extended by it keeps its node.\<close>

definition extends :: "string list \<Rightarrow> string list \<Rightarrow> bool" where
  "extends p q \<longleftrightarrow> (\<exists>r. q = p @ r)"

lemma extends_Cons [simp]: "extends (s # p) (s' # q) \<longleftrightarrow> s = s' \<and> extends p q"
  by (auto simp: extends_def)

lemma extends_Nil [simp]: "extends [] q" "extends (s # p) [] \<longleftrightarrow> False"
  by (auto simp: extends_def)

lemma lookup_set_other:
  "tree_ok t \<Longrightarrow> \<not> extends p q \<Longrightarrow> \<not> extends q p \<Longrightarrow> lookup_node (set_node t p c) q = lookup_node t q"
proof (induction t p c arbitrary: q rule: set_node.induct)
  case (2 m es s ss c)
  obtain s' q' where q: "q = s' # q'" using 2(4) by (cases q) auto
  note so = tree_ok_sorted [OF 2(2)]
  show ?case
  proof (cases "s' = s")
    case True
    then have ss: "ss \<noteq> []" using 2(3) q by auto
    have "lookup_node (set_node d ss c) q' = lookup_node d q'" if "map_of es s = Some d" for d
      using 2(1) [OF ss that tree_ok_child [OF 2(2) that]] 2(3,4) q True by simp
    then show ?thesis using q True ss so by (simp add: map_of_insert_entry split: option.splits)
  next
    case False
    then show ?thesis using so q by (auto simp: map_of_insert_entry split: option.splits)
  qed
qed auto

lemma lookup_set_below:
  "tree_ok t \<Longrightarrow> p \<noteq> [] \<Longrightarrow> is_dir (lookup_node t (butlast p)) \<Longrightarrow> lookup_node (set_node t p c) (p @ q) = lookup_node c q"
  by (simp add: lookup_append lookup_set_same)

text \<open>Replacing a node twice, and replacing a node by itself with one entry changed.\<close>

lemma insert_entry_twice: "sorted_wrt (<) (map fst es) \<Longrightarrow> insert_entry s d (insert_entry s c es) = insert_entry s d es"
  by (induction es) auto

lemma set_set_node:
  "tree_ok t \<Longrightarrow> is_dir (lookup_node t (butlast p)) \<Longrightarrow> set_node (set_node t p c) p d = set_node t p d"
proof (induction t p c rule: set_node.induct)
  case (2 m es s ss c)
  note so = tree_ok_sorted [OF 2(2)]
  show ?case
  proof (cases "ss = []")
    case False
    then obtain x where x: "map_of es s = Some x" "is_dir (lookup_node x (butlast ss))"
      using 2(3) by (auto simp: is_dir_def split: option.splits)
    then have "set_node (set_node x ss c) ss d = set_node x ss d"
      using 2(1) [OF False x(1) tree_ok_child [OF 2(2) x(1)]] by simp
    then show ?thesis using False x(1) so by (simp add: map_of_insert_entry insert_entry_twice)
  qed (simp add: insert_entry_twice [OF so])
qed (auto simp: is_dir_def split: option.splits node.splits list.splits if_splits)

lemma set_child:
  "tree_ok t \<Longrightarrow> lookup_node t p = Some (Dir m es) \<Longrightarrow> set_node t (p @ [s]) c = set_node t p (Dir m (insert_entry s c es))"
proof (induction p arbitrary: t)
  case (Cons x p)
  obtain m' es' d where d: "t = Dir m' es'" "map_of es' x = Some d" "lookup_node d p = Some (Dir m es)"
    using Cons.prems(2) by (cases t) (auto split: option.splits)
  have "set_node d (p @ [s]) c = set_node d p (Dir m (insert_entry s c es))"
    using Cons.IH d(3) tree_ok_child d(1,2) Cons.prems(1) by blast
  then show ?case using d by (cases "p = []") auto
qed simp

lemma set_node_same: "tree_ok t \<Longrightarrow> lookup_node t p = Some c \<Longrightarrow> set_node t p c = t"
proof (induction p arbitrary: t)
  case (Cons x p)
  obtain m' es' d where d: "t = Dir m' es'" "map_of es' x = Some d" "lookup_node d p = Some c"
    using Cons.prems(2) by (cases t) (auto split: option.splits)
  have "set_node d p c = d" using Cons.IH d(3) tree_ok_child d(1,2) Cons.prems(1) by blast
  moreover have "insert_entry x d es' = es'"
    using tree_ok_sorted [OF Cons.prems(1) [unfolded d(1)]] d(2)
    by (induction es') (auto split: if_splits dest!: map_of_SomeD)
  ultimately show ?case using d by (cases "p = []") auto
qed simp

text \<open>A well-formed tree stays well-formed.\<close>

definition plain_name :: "string \<Rightarrow> bool" where
  "plain_name s \<longleftrightarrow> s \<noteq> [] \<and> s \<noteq> ''.'' \<and> s \<noteq> ''..'' \<and> slash \<notin> set s"

lemma tree_ok_Dir: "tree_ok (Dir m es) \<longleftrightarrow> sorted_wrt (<) (map fst es) \<and> (\<forall>(s, c) \<in> set es. plain_name s \<and> tree_ok c)"
  by (auto simp: list_all_iff plain_name_def)

lemma set_insert_entry: "set (insert_entry s c es) \<subseteq> insert (s, c) (set es)"
  by (induction s c es rule: insert_entry.induct) (auto split: if_splits)

lemma fst_insert_entry: "fst ` set (insert_entry s c es) = insert s (fst ` set es)"
  by (induction s c es rule: insert_entry.induct) (simp_all add: insert_commute)

lemma sorted_insert_entry: "sorted_wrt (<) (map fst es) \<Longrightarrow> sorted_wrt (<) (map fst (insert_entry s c es))"
proof (induction es)
  case (Cons e es)
  obtain s' c' where e: "e = (s', c')" by force
  have "\<forall>x \<in> fst ` set (insert_entry s c es). s' < x" if "\<not> s < s'" "s \<noteq> s'"
    using Cons.prems that e unfolding fst_insert_entry by auto
  then show ?case using Cons e by auto
qed simp

lemma tree_ok_insert: "tree_ok (Dir m es) \<Longrightarrow> plain_name s \<Longrightarrow> tree_ok c \<Longrightarrow> tree_ok (Dir m (insert_entry s c es))"
  using set_insert_entry [of s c es] sorted_insert_entry [of es s c] unfolding tree_ok_Dir by fast

lemma tree_ok_set: "tree_ok t \<Longrightarrow> tree_ok c \<Longrightarrow> list_all plain_name p \<Longrightarrow> tree_ok (set_node t p c)"
proof (induction t p c rule: set_node.induct)
  case (2 m es s ss c)
  then show ?case
    by (auto simp del: tree_ok.simps split: option.splits intro!: tree_ok_insert dest: tree_ok_child)
qed auto

subsection \<open>Paths without links\<close>

text \<open>Every proper prefix of the path is a directory, so that resolving it meets no link before its end.\<close>

definition dirs_to :: "node \<Rightarrow> string list \<Rightarrow> bool" where
  "dirs_to t p \<longleftrightarrow> (\<forall>k < length p. is_dir (lookup_node t (take k p)))"

lemma dirs_to_snoc: "dirs_to t (p @ [s]) \<longleftrightarrow> dirs_to t p \<and> is_dir (lookup_node t p)"
  by (auto simp: dirs_to_def less_Suc_eq)

lemma dirs_to_butlast: "dirs_to t p \<Longrightarrow> p \<noteq> [] \<Longrightarrow> is_dir (lookup_node t (butlast p))"
  by (cases p rule: rev_cases) (auto simp: dirs_to_snoc)

lemma dirs_to_Cons: "dirs_to t (cur @ s # ss) \<longleftrightarrow> dirs_to t cur \<and> is_dir (lookup_node t cur) \<and> dirs_to t ((cur @ [s]) @ ss)"
proof -
  have "dirs_to t (cur @ s # ss) \<Longrightarrow> is_dir (lookup_node t cur)"
    unfolding dirs_to_def by (drule spec [of _ "length cur"]) simp
  moreover have "dirs_to t (cur @ s # ss) \<Longrightarrow> dirs_to t cur"
    unfolding dirs_to_def by (intro allI impI) (drule_tac x = k in spec, simp)
  ultimately show ?thesis by auto
qed

lemma dirs_to_prefix: "dirs_to t (p @ q) \<Longrightarrow> q \<noteq> [] \<Longrightarrow> is_dir (lookup_node t p)"
  by (cases q) (auto simp: dirs_to_Cons simp del: append_Cons)

lemma resolve_plain:
  assumes "list_all plain_name ss" and "dirs_to t (cur @ ss)"
    and "follow \<longrightarrow> (\<forall>l. lookup_node t (cur @ ss) \<noteq> Some (Link l))"
  shows "resolve t follow n cur ss = Inr (cur @ ss)"
  using assms
proof (induction ss arbitrary: cur)
  case (Cons s ss)
  have s: "s \<noteq> []" "s \<noteq> ''.''" "s \<noteq> ''..''" using Cons.prems(1) by (simp_all add: plain_name_def)
  have cur: "is_dir (lookup_node t cur)" using dirs_to_prefix [OF Cons.prems(2)] by simp
  show ?case
  proof (cases "ss = []")
    case True
    then show ?thesis
      using s cur Cons.prems(3) by (auto split: option.splits node.splits)
  next
    case False
    have "is_dir (lookup_node t (cur @ [s]))"
      using dirs_to_prefix [of t "cur @ [s]" ss] Cons.prems(2) False by simp
    then obtain m es where d: "lookup_node t (cur @ [s]) = Some (Dir m es)"
      by (auto simp: is_dir_def split: option.splits node.splits)
    have "resolve t follow n (cur @ [s]) ss = Inr ((cur @ [s]) @ ss)"
      using Cons.prems by (intro Cons.IH) simp_all
    then show ?thesis using s cur d by simp
  qed
qed simp

lemma path_segments_join: "list_all plain_name ss \<Longrightarrow> path_segments (slash # join_slash ss) = ss"
proof -
  assume *: "list_all plain_name ss"
  then have "ss \<noteq> [] \<Longrightarrow> split_slash (join_slash ss) = ss"
    by (intro split_join) (auto simp: list_all_iff plain_name_def)
  moreover have "filter (\<lambda>s. s \<noteq> []) ss = ss" using * by (simp add: filter_id_conv list_all_iff plain_name_def)
  ultimately show ?thesis by (cases "ss = []") (simp_all add: path_segments_def)
qed

lemma follow_plain:
  "list_all plain_name ss \<Longrightarrow> dirs_to t ss \<Longrightarrow> \<forall>l. lookup_node t ss \<noteq> Some (Link l) \<Longrightarrow> follow_path t (slash # join_slash ss) = Inr ss"
  using resolve_plain [of ss t "[]" True max_links] by (simp add: follow_path_def path_segments_join)

lemma name_plain: "list_all plain_name ss \<Longrightarrow> dirs_to t ss \<Longrightarrow> name_path t (slash # join_slash ss) = Inr ss"
  using resolve_plain [of ss t "[]" False max_links] by (simp add: name_path_def path_segments_join)

end
