(* ===== verification/Storage_Archive.thy ===== *)
theory Storage_Archive
  imports Storage_Records Go_FS
begin

section \<open>Archives of a directory tree\<close>

text \<open>
  \<^verbatim>\<open>src/operator/internal/storage/archive.go\<close> with the exclusions of
  \<^verbatim>\<open>src/operator/internal/sandboxctl/exclusions.go\<close>. \<open>WriteArchive\<close> walks a tree in lexical order and
  produces the entries of a tar stream, \<open>ReadArchive\<close> restores entries below a root. The
  formats (tar inside zstd) are not part of the sources: a stream is the list of its entries
  with the way it ends. An error of the caller's context is a parameter: for a read, of the number of
  entries read so far, for a write, of the path that is visited. The number of bytes of the
  tar stream is not counted.
\<close>

subsection \<open>Streams and options\<close>

datatype tar_type = TypeReg | TypeDir | TypeSymlink | TypeOther

text \<open>\<open>te_Broken\<close>: the stream ends with an error after \<open>te_Data\<close>.\<close>

record tar_entry =
  te_Name :: string
  te_Type :: tar_type
  te_Linkname :: string
  te_Mode :: nat
  te_Data :: string
  te_Broken :: bool

text \<open>\<open>ts_Open\<close> tells whether the decoder accepts the stream, \<open>ts_End\<close> is the error it ends with, if not at its end.\<close>

record tar_stream =
  ts_Open :: bool
  ts_Entries :: "tar_entry list"
  ts_End :: "storage_error option"

record ExtractOptions =
  xo_DirPerm :: nat
  xo_MaxEntries :: int
  xo_MaxTotalBytes :: int

definition extract_defaults :: "ExtractOptions \<Rightarrow> ExtractOptions" where
  "extract_defaults o1 = (if xo_DirPerm o1 = 0 then o1\<lparr>xo_DirPerm := 493\<rparr> else o1)"

subsection \<open>Errors of the file system\<close>

definition classifyFSError :: "string \<Rightarrow> string \<Rightarrow> os_error \<Rightarrow> storage_error" where
  "classifyFSError op_name key err =
     OpError op_name ''fs'' key
       (case err of ENOENT \<Rightarrow> ErrNotFound | EACCES \<Rightarrow> ErrPermission | _ \<Rightarrow> ErrUnreachable) (Some (Foreign ''os''))"

definition classifyOSErrKind :: "os_error \<Rightarrow> error_kind" where
  "classifyOSErrKind err = e_Kind (classifyFSError [] [] err)"

abbreviation archive_invalid :: "string \<Rightarrow> string \<Rightarrow> storage_error" where
  "archive_invalid key msg \<equiv> OpError ''Get'' ''archive'' key ErrInvalid (Some (Foreign msg))"

definition archive_os_error :: "string \<Rightarrow> os_error \<Rightarrow> storage_error" where
  "archive_os_error key e = OpError ''Get'' ''archive'' key (classifyOSErrKind e) (Some (Foreign ''os''))"

subsection \<open>Guards\<close>

definition safeJoin :: "string \<Rightarrow> string \<Rightarrow> storage_error + string" where
  "safeJoin root name =
     (if name = [] then Inl (archive_invalid name ''archive entry has empty name'')
      else if HasPrefix name ''/'' \<or> (2 \<le> length name \<and> name ! 1 = CHR '':'')
        then Inl (archive_invalid name ''archive entry has absolute path'')
      else let clean = Clean name in
        if clean = ''..'' \<or> HasPrefix clean ''../'' \<or> is_rooted clean
        then Inl (archive_invalid name ''archive entry escapes root'')
        else let full = path_Join [root, clean] in
          if full \<noteq> root \<and> \<not> HasPrefix full (root @ ''/'')
          then Inl (archive_invalid name ''archive entry escapes root'')
          else Inr full)"

definition validateSymlinkTarget :: "string \<Rightarrow> string \<Rightarrow> string \<Rightarrow> storage_error option" where
  "validateSymlinkTarget root linkDir linkname =
     (if linkname = [] then Some (archive_invalid linkname ''symlink has empty target'')
      else if is_rooted linkname then Some (archive_invalid linkname ''symlink has absolute target'')
      else let resolved = Clean (path_Join [linkDir, linkname]) in
        if resolved \<noteq> root \<and> \<not> HasPrefix resolved (root @ ''/'')
        then Some (archive_invalid linkname ''symlink target escapes root'')
        else None)"

subsection \<open>Reading\<close>

text \<open>
  The result of one step: its error, the bytes it added, the tree after it. A file is truncated
  when it is opened; with a limit at most one byte more than what is left is copied.
\<close>

definition restoreRegularFile :: "string \<Rightarrow> tar_entry \<Rightarrow> ExtractOptions \<Rightarrow> int \<Rightarrow> node \<Rightarrow> storage_error option \<times> int \<times> node" where
  "restoreRegularFile target hdr opts totalSoFar t =
     (let mode = te_Mode hdr mod 512;
          mode = (if mode = 0 then 420 else mode);
          limited = 0 < xo_MaxTotalBytes opts;
          remaining = max 0 (xo_MaxTotalBytes opts - totalSoFar);
          data = (if limited then take (nat (remaining + 1)) (te_Data hdr) else te_Data hdr);
          n = int (length data);
          broke = te_Broken hdr \<and> (limited \<longrightarrow> n < remaining + 1)
      in case os_WriteFile t target data mode of
           Inl e \<Rightarrow> (Some (archive_os_error (te_Name hdr) e), 0, t)
         | Inr t1 \<Rightarrow>
             if broke then (Some (OpError ''Get'' ''archive'' (te_Name hdr) ErrUnreachable (Some (Foreign ''read''))), n, t1)
             else if limited \<and> totalSoFar + n > xo_MaxTotalBytes opts
               then (Some (archive_invalid (te_Name hdr) ''archive exceeds max total bytes''), n, t1)
             else (None, n, t1))"

definition read_entry :: "string \<Rightarrow> ExtractOptions \<Rightarrow> tar_entry \<Rightarrow> int \<Rightarrow> node \<Rightarrow> storage_error option \<times> int \<times> node" where
  "read_entry root opts hdr sofar t =
     (case safeJoin root (te_Name hdr) of
        Inl e \<Rightarrow> (Some e, 0, t)
      | Inr target \<Rightarrow>
          (case te_Type hdr of
             TypeDir \<Rightarrow>
               (case os_MkdirAll t (path_segments target) (xo_DirPerm opts) of
                  Inl e \<Rightarrow> (Some (archive_os_error (te_Name hdr) e), 0, t)
                | Inr t1 \<Rightarrow> (None, 0, t1))
           | TypeReg \<Rightarrow>
               (case os_MkdirAll t (path_segments (path_Dir target)) (xo_DirPerm opts) of
                  Inl e \<Rightarrow> (Some (archive_os_error (te_Name hdr) e), 0, t)
                | Inr t1 \<Rightarrow> restoreRegularFile target hdr opts sofar t1)
           | TypeSymlink \<Rightarrow>
               (case validateSymlinkTarget root (path_Dir target) (te_Linkname hdr) of
                  Some e \<Rightarrow> (Some e, 0, t)
                | None \<Rightarrow>
                    (let t1 = (case os_Remove t target of Inl e \<Rightarrow> t | Inr t1 \<Rightarrow> t1) in
                     case os_Symlink t1 (te_Linkname hdr) target of
                       Inl e \<Rightarrow> (Some (archive_os_error (te_Name hdr) e), 0, t1)
                     | Inr t2 \<Rightarrow> (None, 0, t2)))
           | TypeOther \<Rightarrow> (Some (archive_invalid (te_Name hdr) ''unsupported tar entry type''), 0, t)))"

fun read_entries :: "string \<Rightarrow> ExtractOptions \<Rightarrow> (nat \<Rightarrow> storage_error option) \<Rightarrow> nat \<Rightarrow> int \<Rightarrow> tar_entry list \<Rightarrow>
    storage_error option \<Rightarrow> node \<Rightarrow> storage_error option \<times> int \<times> node" where
  "read_entries root opts ctx n sofar [] fin t =
     (case ctx n of
        Some e \<Rightarrow> (Some e, sofar, t)
      | None \<Rightarrow> (map_option (\<lambda>e. OpError ''Get'' ''archive'' root ErrCorrupt (Some e)) fin, sofar, t))"
| "read_entries root opts ctx n sofar (hdr # es) fin t =
     (case ctx n of
        Some e \<Rightarrow> (Some e, sofar, t)
      | None \<Rightarrow>
          if 0 < xo_MaxEntries opts \<and> int (Suc n) > xo_MaxEntries opts
          then (Some (archive_invalid root ''archive exceeds max entries''), sofar, t)
          else case read_entry root opts hdr sofar t of
            (Some e, k, t1) \<Rightarrow> (Some e, sofar + k, t1)
          | (None, k, t1) \<Rightarrow> read_entries root opts ctx (Suc n) (sofar + k) es fin t1)"

definition ReadArchive :: "(nat \<Rightarrow> storage_error option) \<Rightarrow> tar_stream \<Rightarrow> string \<Rightarrow> ExtractOptions \<Rightarrow> node \<Rightarrow>
    storage_error option \<times> int \<times> node" where
  "ReadArchive ctx s root opts t =
     (if \<not> ts_Open s then (Some (OpError ''Get'' ''archive'' root ErrCorrupt (Some (Foreign ''zstd''))), 0, t)
      else read_entries root (extract_defaults opts) ctx 0 0 (ts_Entries s) (ts_End s) t)"

subsection \<open>Writing\<close>

text \<open>
  Every visited path below the root with its entry, or none when it is excluded. A \<open>Special\<close> node is
  a device or a named pipe, which tar can describe.
\<close>

fun walk_node :: "(string \<Rightarrow> node \<Rightarrow> bool) \<Rightarrow> string \<Rightarrow> node \<Rightarrow> (string \<times> tar_entry option) list"
  and walk_list :: "(string \<Rightarrow> node \<Rightarrow> bool) \<Rightarrow> string \<Rightarrow> (string \<times> node) list \<Rightarrow> (string \<times> tar_entry option) list" where
  "walk_node ex rel (Dir m es) =
     (if ex rel (Dir m es) then [(rel, None)]
      else (rel, Some \<lparr>te_Name = rel @ ''/'', te_Type = TypeDir, te_Linkname = [], te_Mode = m mod 512, te_Data = [], te_Broken = False\<rparr>)
           # walk_list ex (rel @ ''/'') es)"
| "walk_node ex rel (File m c) =
     [(rel, if ex rel (File m c) then None
            else Some \<lparr>te_Name = rel, te_Type = TypeReg, te_Linkname = [], te_Mode = m mod 512, te_Data = c, te_Broken = False\<rparr>)]"
| "walk_node ex rel (Link l) =
     [(rel, if ex rel (Link l) then None
            else Some \<lparr>te_Name = rel, te_Type = TypeSymlink, te_Linkname = l, te_Mode = 511, te_Data = [], te_Broken = False\<rparr>)]"
| "walk_node ex rel Special =
     [(rel, if ex rel Special then None
            else Some \<lparr>te_Name = rel, te_Type = TypeOther, te_Linkname = [], te_Mode = 0, te_Data = [], te_Broken = False\<rparr>)]"
| "walk_list ex pre [] = []"
| "walk_list ex pre ((s, c) # es) = walk_node ex (pre @ s) c @ walk_list ex pre es"

text \<open>
  \<open>WriteArchive\<close> returns its error, if any, and the entries it wrote up to there. The context is
  asked at every path that is visited, the root first.
\<close>

definition WriteArchive :: "(string \<Rightarrow> storage_error option) \<Rightarrow> (string \<Rightarrow> node \<Rightarrow> bool) \<Rightarrow> node \<Rightarrow> string \<Rightarrow>
    storage_error option \<times> tar_entry list" where
  "WriteArchive ctx ex t root =
     (case os_Lstat t root of
        Inl e \<Rightarrow> (Some (OpError ''Put'' ''archive'' root (classifyOSErrKind e) (Some (Foreign ''os''))), [])
      | Inr n \<Rightarrow>
          (let visits = ([], None) # (case n of Dir m es \<Rightarrow> walk_list ex [] es | _ \<Rightarrow> []);
               written = takeWhile (\<lambda>(rel, e). ctx rel = None) visits
           in (case drop (length written) visits of [] \<Rightarrow> None | (rel, e) # _ \<Rightarrow> ctx rel, List.map_filter snd written)))"

subsection \<open>What a snapshot leaves out\<close>

definition cacheExcludePaths :: "string list" where
  "cacheExcludePaths = [''.local/share/containers'', ''.config/containers'', ''.cache/containers'', ''.local/share/docker'',
     ''.docker/buildx'', ''var/lib/containers'', ''var/lib/docker'']"

definition warmMarkerFileName :: string where "warmMarkerFileName = ''warm-cache.json''"
definition restoreInProgressFileName :: string where "restoreInProgressFileName = ''restore-in-progress''"

definition SnapshotExclude :: "string \<Rightarrow> node \<Rightarrow> bool" where
  "SnapshotExclude rel fi \<longleftrightarrow>
     fi = Special \<or> rel = ''lost+found'' \<or>
     list_ex (\<lambda>p. rel = p \<or> HasPrefix rel (p @ ''/'')) cacheExcludePaths \<or>
     rel = ''.sandbox/tmp'' \<or> HasPrefix rel ''.sandbox/tmp/'' \<or>
     rel = ''.sandbox/'' @ warmMarkerFileName \<or> rel = ''.sandbox/'' @ restoreInProgressFileName"

subsection \<open>Clean paths\<close>

lemma plain_normal: "list_all plain_name ss \<Longrightarrow> normal rooted ss"
  unfolding normal_def by (rule exI [of _ 0], rule exI [of _ ss]) (auto simp: list_all_iff plain_name_def)

lemma clean_segs_drop: "clean_segs r ([] # ss) = clean_segs r ss" "clean_segs r (ss @ [[]]) = clean_segs r ss"
  by (simp_all add: clean_segs_def clean_step_def)

lemma split_plain_join: "list_all plain_name ss \<Longrightarrow> ss \<noteq> [] \<Longrightarrow> split_slash (join_slash ss) = ss"
  by (rule split_join) (auto simp: list_all_iff plain_name_def)

lemma join_plain_start: "list_all plain_name ss \<Longrightarrow> ss \<noteq> [] \<Longrightarrow> join_slash ss \<noteq> [] \<and> hd (join_slash ss) \<noteq> slash"
proof (cases ss)
  case (Cons s ss')
  assume "list_all plain_name ss"
  then have "s \<noteq> []" "slash \<notin> set s" using Cons by (simp_all add: plain_name_def)
  then show ?thesis using Cons by (cases s; cases ss') auto
qed simp

lemma join_slash_Cons: "ss \<noteq> [] \<Longrightarrow> join_slash (s # ss) = s @ slash # join_slash ss"
  by (cases ss) auto

lemma Clean_plain:
  assumes "list_all plain_name ss" and "ss \<noteq> []"
  shows "Clean (join_slash ss) = join_slash ss" "Clean (join_slash ss @ ''/'') = join_slash ss"
    "Clean (slash # join_slash ss) = slash # join_slash ss" "Clean (slash # join_slash ss @ ''/'') = slash # join_slash ss"
proof -
  note j = join_plain_start [OF assms] and sp = split_plain_join [OF assms]
  have r: "\<not> is_rooted (join_slash ss)" "\<not> is_rooted (join_slash ss @ ''/'')" using j by (simp_all add: is_rooted_def)
  have id: "clean_segs b ss = ss" for b by (rule clean_segs_id, rule plain_normal, rule assms(1))
  have tail: "split_slash (join_slash ss @ ''/'') = ss @ [[]]" using split_slash_append [of "join_slash ss" "[]"] sp by simp
  show "Clean (join_slash ss) = join_slash ss" using r(1) j by (simp add: Clean_def Let_def sp id)
  show "Clean (join_slash ss @ ''/'') = join_slash ss" using r(2) j by (simp add: Clean_def Let_def tail id clean_segs_drop)
  show "Clean (slash # join_slash ss) = slash # join_slash ss"
    by (simp add: Clean_def Let_def is_rooted_def sp id clean_segs_drop)
  show "Clean (slash # join_slash ss @ ''/'') = slash # join_slash ss"
    by (simp add: Clean_def Let_def is_rooted_def tail id clean_segs_drop)
qed

abbreviation abs_path :: "string list \<Rightarrow> string" where "abs_path ss \<equiv> slash # join_slash ss"

lemma path_Join_plain:
  assumes "list_all plain_name R" "R \<noteq> []" "list_all plain_name ss" "ss \<noteq> []"
  shows "path_Join [abs_path R, join_slash ss] = abs_path (R @ ss)"
proof -
  have "join_slash ss \<noteq> []" using join_plain_start assms(3,4) by blast
  then have "path_Join [abs_path R, join_slash ss] = Clean (abs_path R @ slash # join_slash ss)" by (simp add: path_Join_def)
  also have "abs_path R @ slash # join_slash ss = abs_path (R @ ss)" using assms by (simp add: join_slash_append)
  also have "Clean (abs_path (R @ ss)) = abs_path (R @ ss)" using assms by (intro Clean_plain) simp_all
  finally show ?thesis .
qed

lemma path_Dir_plain:
  assumes "list_all plain_name q" "q \<noteq> []" "plain_name s"
  shows "path_Dir (abs_path (q @ [s])) = abs_path q"
proof -
  have s: "slash \<notin> set s" using assms(3) by (simp add: plain_name_def)
  have "abs_path (q @ [s]) = (abs_path q @ ''/'') @ s" using assms(2) by (simp add: join_slash_append)
  then have "rev (dropWhile (\<lambda>c. c \<noteq> slash) (rev (abs_path (q @ [s])))) = abs_path q @ ''/''"
    using s by (auto simp: dropWhile_append3 dropWhile_append2)
  then show ?thesis using Clean_plain(4) [OF assms(1,2)] by (simp add: path_Dir_def)
qed

subsection \<open>One entry in a tree without links on its path\<close>

lemma dirs_to_step: "dirs_to (Dir m es) (s # ss) \<longleftrightarrow> ss = [] \<or> (\<exists>d. map_of es s = Some d \<and> dirs_to d ss)"
proof -
  have "dirs_to (Dir m es) (s # ss) \<longleftrightarrow>
      (\<forall>k < length ss. is_dir (case map_of es s of None \<Rightarrow> None | Some d \<Rightarrow> lookup_node d (take k ss)))"
    by (simp add: dirs_to_def All_less_Suc2 is_dir_def)
  then show ?thesis by (cases "map_of es s"; cases ss) (auto simp: dirs_to_def is_dir_def)
qed

lemma dirs_to_set: "tree_ok t \<Longrightarrow> dirs_to t q \<Longrightarrow> dirs_to (set_node t q c) q"
proof (induction t q c rule: set_node.induct)
  case (2 m es s ss c)
  show ?case
  proof (cases "ss = []")
    case True
    then show ?thesis by (simp add: dirs_to_step)
  next
    case False
    then obtain d where d: "map_of es s = Some d" "dirs_to d ss" using 2(3) dirs_to_step by blast
    then have "dirs_to (set_node d ss c) ss" using 2(1) [OF False d(1)] tree_ok_child [OF 2(2) d(1)] by simp
    then show ?thesis
      using False d(1) tree_ok_sorted [OF 2(2)] by (auto simp: dirs_to_step map_of_insert_entry)
  qed
qed (auto simp: dirs_to_def is_dir_def)

text \<open>A directory \<open>q\<close>, reached without links, with entries \<open>es\<close>.\<close>

definition at_dir :: "node \<Rightarrow> string list \<Rightarrow> nat \<Rightarrow> (string \<times> node) list \<Rightarrow> bool" where
  "at_dir t q m es \<longleftrightarrow> tree_ok t \<and> list_all plain_name q \<and> q \<noteq> [] \<and> dirs_to t q \<and> lookup_node t q = Some (Dir m es)"

lemma at_dir_child: "at_dir t q m es \<Longrightarrow> lookup_node t (q @ [s]) = map_of es s"
  by (auto simp: at_dir_def lookup_append split: option.splits)

lemma at_dir_dirs: "at_dir t q m es \<Longrightarrow> dirs_to t (q @ [s])"
  by (simp add: at_dir_def dirs_to_snoc is_dir_def)

lemma at_dir_set: "at_dir t q m es \<Longrightarrow> tree_ok (Dir m' es') \<Longrightarrow> at_dir (set_node t q (Dir m' es')) q m' es'"
  by (auto simp: at_dir_def tree_ok_set dirs_to_set lookup_set_same dirs_to_butlast simp del: tree_ok.simps)

lemma at_dir_into:
  assumes "at_dir t q m es" and "plain_name s" and "map_of es s = Some (Dir m' es')"
  shows "at_dir t (q @ [s]) m' es'"
  using assms at_dir_child [OF assms(1), of s] at_dir_dirs [OF assms(1), of s] by (simp add: at_dir_def)

lemma append_last: "sorted_wrt (<) (map fst es @ [s]) \<Longrightarrow> insert_entry s c es = es @ [(s, c)] \<and> map_of es s = None"
  by (induction es) (auto simp: sorted_wrt_append map_of_eq_None_iff)

text \<open>The name \<open>s\<close> is free in that directory.\<close>

definition free_at :: "node \<Rightarrow> string list \<Rightarrow> nat \<Rightarrow> (string \<times> node) list \<Rightarrow> string \<Rightarrow> bool" where
  "free_at t q m es s \<longleftrightarrow> at_dir t q m es \<and> plain_name s \<and> map_of es s = None"

lemma free_names: "free_at t q m es s \<Longrightarrow> list_all plain_name (q @ [s])"
  by (simp add: free_at_def at_dir_def)

lemma free_none: "free_at t q m es s \<Longrightarrow> lookup_node t (q @ [s]) = None"
  using at_dir_child [of t q m es s] by (simp add: free_at_def)

lemma free_paths:
  assumes "free_at t q m es s"
  shows "follow_path t (abs_path (q @ [s])) = Inr (q @ [s])" "name_path t (abs_path (q @ [s])) = Inr (q @ [s])"
  using free_names [OF assms] free_none [OF assms] at_dir_dirs [of t q m es s] assms
  by (simp_all add: follow_plain name_plain free_at_def del: join_slash.simps)

lemma mkdir_there: "at_dir t q m es \<Longrightarrow> os_MkdirAll t q perm = Inr t"
proof -
  assume at: "at_dir t q m es"
  then have "follow_path t (abs_path q) = Inr q" by (intro follow_plain) (simp_all add: at_dir_def)
  then show ?thesis using at by (subst os_MkdirAll.simps) (simp add: os_Stat_def at_dir_def is_dir_def)
qed

lemma mkdir_new:
  assumes "free_at t q m es s"
  shows "os_MkdirAll t (path_segments (abs_path (q @ [s]))) perm = Inr (set_node t (q @ [s]) (Dir perm []))"
  using free_paths [OF assms] free_none [OF assms] free_names [OF assms] mkdir_there [of t q m es perm] assms
  by (subst os_MkdirAll.simps)
    (simp add: os_Stat_def os_Mkdir_def path_segments_join Let_def free_at_def del: join_slash.simps)

lemma write_new: "free_at t q m es s \<Longrightarrow> os_WriteFile t (abs_path (q @ [s])) c mode = Inr (set_node t (q @ [s]) (File mode c))"
  using free_paths free_none by (simp add: os_WriteFile_def del: join_slash.simps)

lemma link_new:
  "free_at t q m es s \<Longrightarrow> os_Remove t (abs_path (q @ [s])) = Inl ENOENT"
  "free_at t q m es s \<Longrightarrow> os_Symlink t l (abs_path (q @ [s])) = Inr (set_node t (q @ [s]) (Link l))"
  using free_paths free_none by (simp_all add: os_Remove_def os_Symlink_def del: join_slash.simps)

lemma parent_path: "free_at t q m es s \<Longrightarrow> path_segments (path_Dir (abs_path (q @ [s]))) = q"
  by (simp add: path_Dir_plain path_segments_join free_at_def at_dir_def del: join_slash.simps)

subsection \<open>Restoring what was written\<close>

text \<open>
  What restoring makes of a node: excluded nodes are gone, directories get the permissions of
  the options, files keep theirs unless they are empty.
\<close>

fun restored_node :: "(string \<Rightarrow> node \<Rightarrow> bool) \<Rightarrow> nat \<Rightarrow> string \<Rightarrow> node \<Rightarrow> node"
  and restored_list :: "(string \<Rightarrow> node \<Rightarrow> bool) \<Rightarrow> nat \<Rightarrow> string \<Rightarrow> (string \<times> node) list \<Rightarrow> (string \<times> node) list" where
  "restored_node ex perm rel (Dir m es) = Dir perm (restored_list ex perm (rel @ ''/'') es)"
| "restored_node ex perm rel (File m c) = File (if m mod 512 = 0 then 420 else m mod 512) c"
| "restored_node ex perm rel (Link l) = Link l"
| "restored_node ex perm rel Special = Special"
| "restored_list ex perm pre [] = []"
| "restored_list ex perm pre ((s, c) # es) =
     (if ex (pre @ s) c then [] else [(s, restored_node ex perm (pre @ s) c)]) @ restored_list ex perm pre es"

abbreviation walked :: "(string \<times> tar_entry option) list \<Rightarrow> tar_entry list" where
  "walked visits \<equiv> List.map_filter snd visits"

text \<open>
  What restoring makes of a node in a directory that holds something at its name already, and
  when it can: a directory keeps what it has, a file keeps its permissions, and a link replaces
  anything but a directory.
\<close>

definition dir_there :: "nat \<Rightarrow> node option \<Rightarrow> nat \<times> (string \<times> node) list" where
  "dir_there perm old = (case old of Some (Dir m es) \<Rightarrow> (m, es) | _ \<Rightarrow> (perm, []))"

fun overlay_node :: "(string \<Rightarrow> node \<Rightarrow> bool) \<Rightarrow> nat \<Rightarrow> string \<Rightarrow> node option \<Rightarrow> node \<Rightarrow> node"
  and overlay_list :: "(string \<Rightarrow> node \<Rightarrow> bool) \<Rightarrow> nat \<Rightarrow> string \<Rightarrow> (string \<times> node) list \<Rightarrow> (string \<times> node) list \<Rightarrow> (string \<times> node) list" where
  "overlay_node ex perm rel old (Dir m es) =
     Dir (fst (dir_there perm old)) (overlay_list ex perm (rel @ ''/'') (snd (dir_there perm old)) es)"
| "overlay_node ex perm rel old (File m c) =
     (case old of Some (File m' c') \<Rightarrow> File m' c | _ \<Rightarrow> File (if m mod 512 = 0 then 420 else m mod 512) c)"
| "overlay_node ex perm rel old (Link l) = Link l"
| "overlay_node ex perm rel old Special = Special"
| "overlay_list ex perm pre olds [] = olds"
| "overlay_list ex perm pre olds ((s, c) # es) =
     overlay_list ex perm pre
       (if ex (pre @ s) c then olds else insert_entry s (overlay_node ex perm (pre @ s) (map_of olds s) c) olds) es"

fun fits_node :: "(string \<Rightarrow> node \<Rightarrow> bool) \<Rightarrow> nat \<Rightarrow> string \<Rightarrow> node option \<Rightarrow> node \<Rightarrow> bool"
  and fits_list :: "(string \<Rightarrow> node \<Rightarrow> bool) \<Rightarrow> nat \<Rightarrow> string \<Rightarrow> (string \<times> node) list \<Rightarrow> (string \<times> node) list \<Rightarrow> bool" where
  "fits_node ex perm rel old (Dir m es) \<longleftrightarrow>
     (old = None \<or> is_dir old) \<and> fits_list ex perm (rel @ ''/'') (snd (dir_there perm old)) es"
| "fits_node ex perm rel old (File m c) \<longleftrightarrow> (case old of None \<Rightarrow> True | Some (File m' c') \<Rightarrow> True | _ \<Rightarrow> False)"
| "fits_node ex perm rel old (Link l) \<longleftrightarrow> \<not> is_dir old"
| "fits_node ex perm rel old Special \<longleftrightarrow> True"
| "fits_list ex perm pre olds [] \<longleftrightarrow> True"
| "fits_list ex perm pre olds ((s, c) # es) \<longleftrightarrow>
     (if ex (pre @ s) c then fits_list ex perm pre olds es
      else fits_node ex perm (pre @ s) (map_of olds s) c \<and>
           fits_list ex perm pre (insert_entry s (overlay_node ex perm (pre @ s) (map_of olds s) c) olds) es)"

lemma map_filter_append [simp]: "List.map_filter f (xs @ ys) = List.map_filter f xs @ List.map_filter f ys"
  by (simp add: List.map_filter_def)

text \<open>An entry the guards let pass.\<close>

definition entry_accepted :: "string \<Rightarrow> tar_entry \<Rightarrow> bool" where
  "entry_accepted root e \<longleftrightarrow>
     (case safeJoin root (te_Name e) of
        Inl err \<Rightarrow> False
      | Inr target \<Rightarrow>
          (case te_Type e of
             TypeOther \<Rightarrow> False
           | TypeSymlink \<Rightarrow> validateSymlinkTarget root (path_Dir target) (te_Linkname e) = None
           | _ \<Rightarrow> True))"

lemma safeJoin_invalid: "safeJoin root name = Inl e \<Longrightarrow> IsInvalid e"
  unfolding safeJoin_def Let_def IsInvalid_def by (simp split: if_splits) (drule sym, simp)+

lemma validateSymlinkTarget_invalid: "validateSymlinkTarget root d l = Some e \<Longrightarrow> IsInvalid e"
  unfolding validateSymlinkTarget_def Let_def IsInvalid_def by (simp split: if_splits) (drule sym, simp)+

lemma refused_entry: "\<not> entry_accepted root e \<Longrightarrow> \<exists>err. read_entry root opts e k t = (Some err, 0, t) \<and> IsInvalid err"
proof (cases "safeJoin root (te_Name e)")
  case (Inl err)
  then show ?thesis using safeJoin_invalid by (simp add: read_entry_def)
next
  case (Inr target)
  moreover assume "\<not> entry_accepted root e"
  ultimately consider "te_Type e = TypeOther"
    | err where "te_Type e = TypeSymlink" "validateSymlinkTarget root (path_Dir target) (te_Linkname e) = Some err"
    by (cases "te_Type e") (auto simp: entry_accepted_def)
  then show ?thesis
    using Inr by cases (simp_all add: read_entry_def IsInvalid_def validateSymlinkTarget_invalid [unfolded IsInvalid_def])
qed

lemma refused_archive: "e \<in> set es \<Longrightarrow> \<not> entry_accepted root e \<Longrightarrow> fst (read_entries root opts ctx n k es fin t) \<noteq> None"
proof (induction es arbitrary: n k t)
  case (Cons x es)
  show ?case
  proof (cases "x = e")
    case True
    then show ?thesis
      using refused_entry [OF Cons.prems(2), of opts k t] by (auto split: option.splits)
  next
    case False
    then show ?thesis using Cons by (auto split: option.splits prod.splits)
  qed
qed simp

lemma safeJoin_plain:
  assumes "list_all plain_name R" "R \<noteq> []" "list_all plain_name ss" "ss \<noteq> []"
    and "name = join_slash ss \<or> name = join_slash ss @ ''/''"
    and "safeJoin (abs_path R) name = Inr target"
  shows "target = abs_path (R @ ss)"
proof -
  have "Clean name = join_slash ss" using assms(5) Clean_plain [OF assms(3,4)] by blast
  then show ?thesis
    using assms(6) path_Join_plain [OF assms(1-4)]
    by (simp add: safeJoin_def Let_def split: if_splits)
qed

lemma tree_ok_Cons:
  "tree_ok (Dir m ((s, c) # es)) \<longleftrightarrow> (\<forall>x \<in> fst ` set es. s < x) \<and> plain_name s \<and> tree_ok c \<and> tree_ok (Dir m es)"
  unfolding tree_ok_Dir by auto

lemma tree_ok_perm: "tree_ok (Dir m es) \<longleftrightarrow> tree_ok (Dir m' es)"
  by simp

lemma tree_ok_overlay:
  "tree_ok c \<Longrightarrow> (\<And>d. old = Some d \<Longrightarrow> tree_ok d) \<Longrightarrow> tree_ok (overlay_node ex perm rel old c)"
  "tree_ok (Dir perm es) \<Longrightarrow> tree_ok (Dir perm olds) \<Longrightarrow> tree_ok (Dir perm (overlay_list ex perm pre olds es))"
proof (induction ex perm rel old c and ex perm pre olds es rule: overlay_node_overlay_list.induct)
  case (1 ex perm rel old m es)
  have "tree_ok (Dir perm (snd (dir_there perm old)))"
    using 1(3) tree_ok_perm by (auto simp: dir_there_def simp del: tree_ok.simps split: option.splits node.splits) simp_all
  then have "tree_ok (Dir perm (overlay_list ex perm (rel @ ''/'') (snd (dir_there perm old)) es))"
    using 1(1,2) tree_ok_perm by blast
  then show ?case unfolding overlay_node.simps using tree_ok_perm by blast
next
  case (6 ex perm pre olds s c es)
  then show ?case
    using tree_ok_insert [of perm olds s] tree_ok_child [of perm olds s]
    by (auto simp: tree_ok_Cons simp del: tree_ok.simps)
qed (auto split: option.splits node.splits)

subsection \<open>One entry\<close>

lemma at_dir_ok: "at_dir t q m es \<Longrightarrow> tree_ok (Dir m es)"
  by (auto simp: at_dir_def simp del: tree_ok.simps intro: tree_ok_lookup)

lemma at_dir_names: "at_dir t q m es \<Longrightarrow> plain_name s \<Longrightarrow> list_all plain_name (q @ [s])"
  by (simp add: at_dir_def)

lemma mkdir_over:
  assumes "at_dir t q m es" and "plain_name s" and "map_of es s = Some (Dir m' es')"
  shows "os_MkdirAll t (path_segments (abs_path (q @ [s]))) perm = Inr t"
  using mkdir_there [OF at_dir_into [OF assms]] at_dir_names [OF assms(1,2)] by (simp add: path_segments_join del: join_slash.simps)

lemma write_over:
  assumes "at_dir t q m es" and "plain_name s" and "map_of es s = Some (File m' c')"
  shows "os_WriteFile t (abs_path (q @ [s])) c mode = Inr (set_node t (q @ [s]) (File m' c))"
proof -
  have "lookup_node t (q @ [s]) = Some (File m' c')" using at_dir_child [OF assms(1)] assms(3) by simp
  moreover from this have "follow_path t (abs_path (q @ [s])) = Inr (q @ [s])"
    by (intro follow_plain at_dir_names [OF assms(1,2)] at_dir_dirs [OF assms(1)]) simp
  ultimately show ?thesis by (simp add: os_WriteFile_def del: join_slash.simps)
qed

lemma insert_remove: "sorted_wrt (<) (map fst es) \<Longrightarrow> insert_entry s c (remove_entry s es) = insert_entry s c es"
proof (induction es)
  case (Cons e es)
  obtain s' c' where e: "e = (s', c')" by force
  show ?case
  proof (cases "s = s'")
    case True
    have "remove_entry s es = es"
      using Cons.prems True e by (auto simp: remove_entry_def filter_id_conv)
    moreover have "insert_entry s c es = (s, c) # es" using Cons.prems True e by (cases es) auto
    ultimately show ?thesis using True e by (simp add: remove_entry_def)
  next
    case False
    have "s < s' \<Longrightarrow> filter (\<lambda>(s', c). s' \<noteq> s) es = es"
      using Cons.prems e by (fastforce simp: filter_id_conv)
    then show ?thesis using False Cons e by (simp add: remove_entry_def)
  qed
qed (simp add: remove_entry_def)

lemma map_of_remove: "map_of (remove_entry s es) s' = (if s' = s then None else map_of es s')"
  by (induction es) (auto simp: remove_entry_def)

lemma sorted_remove: "sorted_wrt (<) (map fst es) \<Longrightarrow> sorted_wrt (<) (map fst (remove_entry s es))"
  by (auto simp: remove_entry_def sorted_wrt_map sorted_wrt_filter)

lemma remove_child: "tree_ok t \<Longrightarrow> lookup_node t q = Some (Dir m es) \<Longrightarrow> remove_node t (q @ [s]) = set_node t q (Dir m (remove_entry s es))"
proof (induction t q rule: lookup_node.induct)
  case (2 m' es' s' ss)
  then obtain d where d: "map_of es' s' = Some d" "lookup_node d ss = Some (Dir m es)" by (auto split: option.splits)
  then have "remove_node d (ss @ [s]) = set_node d ss (Dir m (remove_entry s es))"
    using 2 tree_ok_child by (simp del: tree_ok.simps)
  then show ?case using d by (cases "ss = []") auto
qed auto

lemma link_over:
  assumes "at_dir t q m es" and "plain_name s" and "map_of es s = Some x" and "\<not> is_dir (Some x)"
  shows "\<exists>t1. os_Remove t (abs_path (q @ [s])) = Inr t1 \<and> os_Symlink t1 l (abs_path (q @ [s])) = Inr (set_node t (q @ [s]) (Link l))"
proof -
  let ?t1 = "set_node t q (Dir m (remove_entry s es))"
  have lk: "lookup_node t (q @ [s]) = Some x" using at_dir_child [OF assms(1)] assms(3) by simp
  have t: "tree_ok t" "lookup_node t q = Some (Dir m es)" "dirs_to t q" "q \<noteq> []" using assms(1) by (simp_all add: at_dir_def)
  have "tree_ok (Dir m (remove_entry s es))"
    using at_dir_ok [OF assms(1)] sorted_remove by (auto simp: tree_ok_Dir remove_entry_def simp del: tree_ok.simps)
  then have free: "free_at ?t1 q m (remove_entry s es) s"
    using at_dir_set [OF assms(1)] assms(2) by (simp add: free_at_def map_of_remove del: tree_ok.simps)
  have "name_path t (abs_path (q @ [s])) = Inr (q @ [s])"
    by (rule name_plain [OF at_dir_names [OF assms(1,2)] at_dir_dirs [OF assms(1)]])
  then have rm: "os_Remove t (abs_path (q @ [s])) = Inr ?t1"
    using lk assms(4) remove_child [OF t(1,2), of s]
    by (auto simp: os_Remove_def is_dir_def simp del: join_slash.simps split: node.splits)
  have "set_node ?t1 (q @ [s]) (Link l) = set_node ?t1 q (Dir m (insert_entry s (Link l) (remove_entry s es)))"
    using free by (intro set_child) (simp_all add: free_at_def at_dir_def)
  also have "\<dots> = set_node t q (Dir m (insert_entry s (Link l) es))"
    using set_set_node [OF t(1) dirs_to_butlast [OF t(3,4)]] insert_remove [OF tree_ok_sorted [OF at_dir_ok [OF assms(1)]]] by simp
  also have "\<dots> = set_node t (q @ [s]) (Link l)" using set_child [OF t(1,2)] by simp
  finally show ?thesis using rm link_new(2) [OF free] by (simp del: join_slash.simps)
qed

text \<open>What one entry makes of what is at its name, and when it can.\<close>

definition put_entry :: "nat \<Rightarrow> tar_entry \<Rightarrow> node option \<Rightarrow> node" where
  "put_entry perm e old =
     (case te_Type e of
        TypeDir \<Rightarrow> Dir (fst (dir_there perm old)) (snd (dir_there perm old))
      | TypeReg \<Rightarrow> overlay_node (\<lambda>_ _. False) perm [] old (File (te_Mode e) (te_Data e))
      | _ \<Rightarrow> Link (te_Linkname e))"

definition entry_fits :: "tar_entry \<Rightarrow> node option \<Rightarrow> bool" where
  "entry_fits e old \<longleftrightarrow>
     (case te_Type e of
        TypeDir \<Rightarrow> old = None \<or> is_dir old
      | TypeReg \<Rightarrow> (case old of None \<Rightarrow> True | Some (File m c) \<Rightarrow> True | _ \<Rightarrow> False)
      | _ \<Rightarrow> \<not> is_dir old)"

lemma read_plain_entry:
  assumes "list_all plain_name R" "R \<noteq> []" "list_all plain_name p" "at_dir t (R @ p) m old" "plain_name s"
    and "te_Name e = join_slash (p @ [s]) \<or> te_Name e = join_slash (p @ [s]) @ ''/''"
    and "entry_accepted (abs_path R) e" and "xo_MaxTotalBytes opts = 0" and "\<not> te_Broken e" and "entry_fits e (map_of old s)"
  shows "\<exists>k'. read_entry (abs_path R) opts e k t =
    (None, k', set_node t (R @ p) (Dir m (insert_entry s (put_entry (xo_DirPerm opts) e (map_of old s)) old)))"
proof -
  note at = assms(4)
  obtain target where j: "safeJoin (abs_path R) (te_Name e) = Inr target"
    using assms(7) by (auto simp: entry_accepted_def split: sum.splits)
  then have target: "target = abs_path ((R @ p) @ [s])"
    using safeJoin_plain [OF assms(1,2) _ _ assms(6) j] assms(3,5) by simp
  have put: "set_node t (R @ p) (Dir m (insert_entry s c old)) = set_node t ((R @ p) @ [s]) c" for c
    using set_child [of t "R @ p" m old s c] at by (simp add: at_dir_def)
  have same: "set_node t ((R @ p) @ [s]) c = t" if "map_of old s = Some c" for c
    using set_node_same [of t "(R @ p) @ [s]" c] at_dir_child [OF at, of s] at that by (simp add: at_dir_def)
  have free: "free_at t (R @ p) m old s" if "map_of old s = None" using at assms(5) that by (simp add: free_at_def)
  have plain: "list_all plain_name (R @ p)" "R @ p \<noteq> []" using at by (simp_all add: at_dir_def)
  have parent: "path_segments (path_Dir target) = R @ p"
    unfolding target path_Dir_plain [OF plain assms(5)] by (rule path_segments_join [OF plain(1)])
  have accept: "te_Type e \<noteq> TypeOther"
    "te_Type e = TypeSymlink \<Longrightarrow> validateSymlinkTarget (abs_path R) (path_Dir target) (te_Linkname e) = None"
    using assms(7) j by (auto simp: entry_accepted_def)
  show ?thesis
  proof (cases "te_Type e")
    case TypeDir
    then consider "map_of old s = None" | m' es' where "map_of old s = Some (Dir m' es')"
      using assms(10) by (auto simp: entry_fits_def is_dir_def split: option.splits node.splits)
    then show ?thesis
      using TypeDir mkdir_new [OF free, of "xo_DirPerm opts"] mkdir_over [OF at assms(5), of _ _ "xo_DirPerm opts"] same
      by cases (simp_all add: read_entry_def j target put put_entry_def dir_there_def del: join_slash.simps append_assoc)
  next
    case TypeReg
    then consider "map_of old s = None" | m' c' where "map_of old s = Some (File m' c')"
      using assms(10) by (auto simp: entry_fits_def split: option.splits node.splits)
    then show ?thesis
      using TypeReg assms(8,9) write_new [OF free] write_over [OF at assms(5)] parent mkdir_there [OF at]
      by cases (simp_all add: read_entry_def j target put put_entry_def restoreRegularFile_def Let_def del: join_slash.simps append_assoc)
  next
    case TypeSymlink
    show ?thesis
    proof (cases "map_of old s")
      case None
      then show ?thesis
        using TypeSymlink accept(2) link_new [OF free]
        by (simp add: read_entry_def j target put put_entry_def del: join_slash.simps append_assoc)
    next
      case (Some x)
      then have "\<not> is_dir (Some x)" using TypeSymlink assms(10) by (simp add: entry_fits_def)
      then obtain t1 where "os_Remove t target = Inr t1"
        "os_Symlink t1 (te_Linkname e) target = Inr (set_node t ((R @ p) @ [s]) (Link (te_Linkname e)))"
        using link_over [OF at assms(5) Some] unfolding target by blast
      then show ?thesis
        using TypeSymlink accept(2) by (simp add: read_entry_def j put put_entry_def del: append_assoc)
    qed
  qed (use accept in simp)
qed

subsection \<open>Reading a walk\<close>

text \<open>
  Reading the entries of a node, or of a list of nodes, overlays what their directory has with
  what restoring makes of them.
\<close>

definition dir_prefix :: "string list \<Rightarrow> string" where
  "dir_prefix p = (if p = [] then [] else join_slash p @ ''/'')"

lemma dir_prefix_join: "dir_prefix p @ s = join_slash (p @ [s])"
  by (simp add: dir_prefix_def join_slash_append)

lemma dir_prefix_snoc: "join_slash (p @ [s]) @ ''/'' = dir_prefix (p @ [s])"
  by (simp add: dir_prefix_def)

definition reads_as :: "string list \<Rightarrow> ExtractOptions \<Rightarrow> tar_entry list \<Rightarrow> node \<Rightarrow> node \<Rightarrow> bool" where
  "reads_as R opts es t t' \<longleftrightarrow>
     (\<forall>n k rest fin. \<exists>n' k'.
        read_entries (abs_path R) opts (\<lambda>_. None) n k (es @ rest) fin t =
        read_entries (abs_path R) opts (\<lambda>_. None) n' k' rest fin t')"

lemma reads_as_Nil: "reads_as R opts [] t t"
  by (auto simp: reads_as_def)

lemma reads_as_append: "reads_as R opts xs t u \<Longrightarrow> reads_as R opts ys u v \<Longrightarrow> reads_as R opts (xs @ ys) t v"
  unfolding reads_as_def by (metis append.assoc)

lemma reads_as_one:
  assumes "xo_MaxEntries opts = 0" and "\<And>k. \<exists>k'. read_entry (abs_path R) opts e k t = (None, k', u)"
  shows "reads_as R opts [e] t u"
  unfolding reads_as_def
proof (intro allI)
  fix n k rest fin
  obtain k' where "read_entry (abs_path R) opts e k t = (None, k', u)" using assms(2) by blast
  then have "read_entries (abs_path R) opts (\<lambda>_. None) n k ([e] @ rest) fin t =
      read_entries (abs_path R) opts (\<lambda>_. None) (Suc n) (k + k') rest fin u"
    using assms(1) by simp
  then show "\<exists>n' k'. read_entries (abs_path R) opts (\<lambda>_. None) n k ([e] @ rest) fin t =
      read_entries (abs_path R) opts (\<lambda>_. None) n' k' rest fin u" by blast
qed

lemma walked_Cons [simp]: "walked ((rel, Some e) # vs) = e # walked vs" "walked ((rel, None) # vs) = walked vs"
  "walked [] = []"
  by (simp_all add: List.map_filter_def)

text \<open>A directory at the path \<open>p\<close> below the root.\<close>

definition open_dir :: "string list \<Rightarrow> string list \<Rightarrow> node \<Rightarrow> nat \<Rightarrow> (string \<times> node) list \<Rightarrow> bool" where
  "open_dir R p t m old \<longleftrightarrow> list_all plain_name R \<and> R \<noteq> [] \<and> list_all plain_name p \<and> at_dir t (R @ p) m old"

lemma open_dir_put:
  "open_dir R p t m old \<Longrightarrow> tree_ok (Dir m old') \<Longrightarrow> open_dir R p (set_node t (R @ p) (Dir m old')) m old'"
  using at_dir_set [of t "R @ p" m old m old'] by (simp add: open_dir_def del: tree_ok.simps)

lemma open_dir_into:
  "open_dir R p t m old \<Longrightarrow> plain_name s \<Longrightarrow> map_of old s = Some (Dir m' old') \<Longrightarrow> open_dir R (p @ [s]) t m' old'"
  using at_dir_into [of t "R @ p" m old s m' old'] by (simp add: open_dir_def)

lemma open_dir_ok: "open_dir R p t m old \<Longrightarrow> tree_ok (Dir m old)"
  unfolding open_dir_def using at_dir_ok by blast

lemma open_dir_same: "open_dir R p t m old \<Longrightarrow> set_node t (R @ p) (Dir m old) = t"
  by (simp add: open_dir_def at_dir_def set_node_same)

lemma open_dir_set_set: "open_dir R p t m old \<Longrightarrow> set_node (set_node t (R @ p) c) (R @ p) d = set_node t (R @ p) d"
  by (auto simp: open_dir_def at_dir_def intro!: set_set_node dirs_to_butlast)

lemma reads_entry:
  assumes "open_dir R p t m old" "plain_name s" and "xo_MaxEntries opts = 0" "xo_MaxTotalBytes opts = 0"
    and "te_Name e = join_slash (p @ [s]) \<or> te_Name e = join_slash (p @ [s]) @ ''/''"
    and "entry_accepted (abs_path R) e" and "\<not> te_Broken e" and "entry_fits e (map_of old s)"
    and "c = put_entry (xo_DirPerm opts) e (map_of old s)"
  shows "reads_as R opts [e] t (set_node t (R @ p) (Dir m (insert_entry s c old)))"
  using assms(3)
proof (rule reads_as_one)
  fix k
  show "\<exists>k'. read_entry (abs_path R) opts e k t = (None, k', set_node t (R @ p) (Dir m (insert_entry s c old)))"
    using assms(1,2) unfolding open_dir_def assms(9)
    by (intro read_plain_entry [OF _ _ _ _ _ assms(5,6,4,7,8)]) simp_all
qed

lemma restore_walk:
  assumes "xo_MaxEntries opts = 0" and "xo_MaxTotalBytes opts = 0"
  shows "open_dir R p t m old \<Longrightarrow> plain_name s \<Longrightarrow> rel = join_slash (p @ [s]) \<Longrightarrow> tree_ok c \<Longrightarrow>
      list_all (entry_accepted (abs_path R)) (walked (walk_node ex rel c)) \<Longrightarrow>
      (\<not> ex rel c \<Longrightarrow> fits_node ex (xo_DirPerm opts) rel (map_of old s) c) \<Longrightarrow>
      reads_as R opts (walked (walk_node ex rel c)) t (set_node t (R @ p)
        (Dir m (if ex rel c then old else insert_entry s (overlay_node ex (xo_DirPerm opts) rel (map_of old s) c) old)))"
    and "open_dir R p t m old \<Longrightarrow> pre = dir_prefix p \<Longrightarrow> tree_ok (Dir m es) \<Longrightarrow>
      list_all (entry_accepted (abs_path R)) (walked (walk_list ex pre es)) \<Longrightarrow>
      fits_list ex (xo_DirPerm opts) pre old es \<Longrightarrow>
      reads_as R opts (walked (walk_list ex pre es)) t (set_node t (R @ p)
        (Dir m (overlay_list ex (xo_DirPerm opts) pre old es)))"
proof (induction ex rel c and ex pre es arbitrary: p t m old s and p t m old rule: walk_node_walk_list.induct)
  case (1 ex rel dm es)
  let ?perm = "xo_DirPerm opts" and ?there = "dir_there (xo_DirPerm opts) (map_of old s)"
  show ?case
  proof (cases "ex rel (Dir dm es)")
    case True
    then show ?thesis using open_dir_same [OF 1(2)] by (simp add: reads_as_Nil)
  next
    case False
    let ?e = "\<lparr>te_Name = rel @ ''/'', te_Type = TypeDir, te_Linkname = [], te_Mode = dm mod 512, te_Data = [], te_Broken = False\<rparr>"
    let ?old1 = "insert_entry s (Dir (fst ?there) (snd ?there)) old"
    let ?t1 = "set_node t (R @ p) (Dir m ?old1)"
    let ?d = "Dir (fst ?there) (overlay_list ex ?perm (rel @ ''/'') (snd ?there) es)"
    have fits: "map_of old s = None \<or> is_dir (map_of old s)" "fits_list ex ?perm (rel @ ''/'') (snd ?there) es"
      using 1(7) False by simp_all
    have first: "reads_as R opts [?e] t ?t1"
      by (rule reads_entry [OF 1(2,3) assms]) (use 1(4,6) False fits(1) in \<open>simp_all add: entry_fits_def put_entry_def\<close>)
    have there: "tree_ok (Dir (fst ?there) (snd ?there))"
      using tree_ok_child [OF open_dir_ok [OF 1(2)], of s]
      by (auto simp: dir_there_def simp del: tree_ok.simps split: option.splits node.splits) simp_all
    have ok1: "tree_ok (Dir m ?old1)" by (rule tree_ok_insert [OF open_dir_ok [OF 1(2)] 1(3) there])
    have o1: "open_dir R p ?t1 m ?old1" by (rule open_dir_put [OF 1(2) ok1])
    have new: "map_of ?old1 s = Some (Dir (fst ?there) (snd ?there))"
      using tree_ok_sorted [OF open_dir_ok [OF 1(2)]] by (simp add: map_of_insert_entry)
    have o2: "open_dir R (p @ [s]) ?t1 (fst ?there) (snd ?there)" by (rule open_dir_into [OF o1 1(3) new])
    have es: "tree_ok (Dir (fst ?there) es)" using 1(5) tree_ok_perm by blast
    have rest: "reads_as R opts (walked (walk_list ex (rel @ ''/'') es)) ?t1 (set_node ?t1 (R @ p @ [s]) ?d)"
      by (rule 1(1) [OF False o2 _ es _ fits(2)]) (use 1(4,6) False dir_prefix_snoc in simp_all)
    have "set_node ?t1 ((R @ p) @ [s]) ?d = set_node ?t1 (R @ p) (Dir m (insert_entry s ?d ?old1))"
      using o1 by (intro set_child) (simp_all add: open_dir_def at_dir_def)
    also have "insert_entry s ?d ?old1 = insert_entry s ?d old"
      by (rule insert_entry_twice [OF tree_ok_sorted [OF open_dir_ok [OF 1(2)]]])
    also have "set_node ?t1 (R @ p) (Dir m (insert_entry s ?d old)) = set_node t (R @ p) (Dir m (insert_entry s ?d old))"
      by (rule open_dir_set_set [OF 1(2)])
    finally show ?thesis using reads_as_append [OF first rest] False by simp
  qed
next
  case (2 ex rel fm c)
  show ?case
  proof (cases "ex rel (File fm c)")
    case True
    then show ?thesis using open_dir_same [OF 2(1)] by (simp add: reads_as_Nil)
  next
    case False
    let ?e = "\<lparr>te_Name = rel, te_Type = TypeReg, te_Linkname = [], te_Mode = fm mod 512, te_Data = c, te_Broken = False\<rparr>"
    have "reads_as R opts [?e] t
        (set_node t (R @ p) (Dir m (insert_entry s (overlay_node ex (xo_DirPerm opts) rel (map_of old s) (File fm c)) old)))"
      by (rule reads_entry [OF 2(1,2) assms])
        (use 2(3,5,6) False in \<open>simp_all add: entry_fits_def put_entry_def split: option.splits node.splits\<close>)
    then show ?thesis using False by simp
  qed
next
  case (3 ex rel l)
  show ?case
  proof (cases "ex rel (Link l)")
    case True
    then show ?thesis using open_dir_same [OF 3(1)] by (simp add: reads_as_Nil)
  next
    case False
    let ?e = "\<lparr>te_Name = rel, te_Type = TypeSymlink, te_Linkname = l, te_Mode = 511, te_Data = [], te_Broken = False\<rparr>"
    have "reads_as R opts [?e] t (set_node t (R @ p) (Dir m (insert_entry s (Link l) old)))"
      by (rule reads_entry [OF 3(1,2) assms]) (use 3(3,5,6) False in \<open>simp_all add: entry_fits_def put_entry_def\<close>)
    then show ?thesis using False by simp
  qed
next
  case (4 ex rel)
  then have "ex rel Special"
    by (cases "safeJoin (abs_path R) rel") (auto simp: entry_accepted_def split: if_splits)
  then show ?case using open_dir_same [OF 4(1)] by (simp add: reads_as_Nil)
next
  case (5 ex pre)
  then show ?case using open_dir_same [of R p t m old] by (simp add: reads_as_Nil)
next
  case (6 ex pre s c es)
  let ?old1 = "if ex (pre @ s) c then old else insert_entry s (overlay_node ex (xo_DirPerm opts) (pre @ s) (map_of old s) c) old"
  let ?t1 = "set_node t (R @ p) (Dir m ?old1)"
  have c: "plain_name s" "tree_ok c" "tree_ok (Dir m es)" using 6(5) by (simp_all add: tree_ok_Cons del: tree_ok.simps)
  have first: "reads_as R opts (walked (walk_node ex (pre @ s) c)) t ?t1"
    by (rule 6(1) [OF 6(3) c(1) _ c(2)]) (use 6(4,6,7) dir_prefix_join in simp_all)
  have "tree_ok (Dir m ?old1)"
    using open_dir_ok [OF 6(3)] tree_ok_insert [OF open_dir_ok [OF 6(3)] c(1) tree_ok_overlay(1) [OF c(2)]]
      tree_ok_child [OF open_dir_ok [OF 6(3)]] by (simp del: tree_ok.simps)
  then have o1: "open_dir R p ?t1 m ?old1" by (rule open_dir_put [OF 6(3)])
  have "reads_as R opts (walked (walk_list ex pre es)) ?t1
      (set_node ?t1 (R @ p) (Dir m (overlay_list ex (xo_DirPerm opts) pre ?old1 es)))"
    by (rule 6(2) [OF o1 6(4) c(3)]) (use 6(6,7) in \<open>simp_all split: if_splits\<close>)
  then show ?case using reads_as_append [OF first] open_dir_set_set [OF 6(3)] by simp
qed

text \<open>In an empty directory the overlay is just the restored list.\<close>

lemma overlay_fresh:
  "tree_ok c \<Longrightarrow> overlay_node ex perm rel None c = restored_node ex perm rel c \<and> fits_node ex perm rel None c"
  "tree_ok (Dir perm es) \<Longrightarrow> sorted_wrt (<) (map fst olds @ map fst es) \<Longrightarrow>
   overlay_list ex perm pre olds es = olds @ restored_list ex perm pre es \<and> fits_list ex perm pre olds es"
proof (induction ex perm rel c and ex perm pre es arbitrary: and olds rule: restored_node_restored_list.induct)
  case (1 ex perm rel m es)
  then show ?case using tree_ok_sorted [OF 1(2)] tree_ok_perm [of m es perm] by (simp add: dir_there_def del: tree_ok.simps)
next
  case (6 ex perm pre s c es)
  have c: "tree_ok c" "tree_ok (Dir perm es)" using 6(3) by (simp_all add: tree_ok_Cons del: tree_ok.simps)
  have last: "insert_entry s d olds = olds @ [(s, d)] \<and> map_of olds s = None" for d
    by (rule append_last) (use 6(4) in \<open>simp add: sorted_wrt_append\<close>)
  show ?case using 6(1) [OF _ c(1)] 6(2) [OF c(2), of olds] 6(2) [OF c(2), of "olds @ [(s, restored_node ex perm (pre @ s) c)]"] 6(4) last
    by (auto simp: sorted_wrt_append simp del: tree_ok.simps)
qed (auto simp: is_dir_def)

end
