(* ===== verification/Archive_Safety.thy ===== *)
theory Archive_Safety
  imports Storage_Archive
begin

section \<open>What archives promise\<close>

text \<open>
  Three facts on \<^verbatim>\<open>WriteArchive\<close> and \<^verbatim>\<open>ReadArchive\<close> together: a tree whose entries pass the guards
  comes back as it was, up to permissions of directories; a tree with an entry that does not pass
  is written but never read back; and an archive without symbolic links changes nothing outside the
  root it is restored into.
\<close>

subsection \<open>Restoring what was written\<close>

abbreviation stream_of :: "tar_entry list \<Rightarrow> tar_stream" where
  "stream_of es \<equiv> \<lparr>ts_Open = True, ts_Entries = es, ts_End = None\<rparr>"

lemma WriteArchive_walk:
  "os_Lstat src root = Inr (Dir m es) \<Longrightarrow> WriteArchive (\<lambda>_. None) ex src root = (None, walked (walk_list ex [] es))"
  by (simp add: WriteArchive_def Let_def takeWhile_eq_all_conv [THEN iffD2] List.map_filter_def)

lemma extract_no_limits: "xo_MaxEntries (extract_defaults o1) = xo_MaxEntries o1"
  "xo_MaxTotalBytes (extract_defaults o1) = xo_MaxTotalBytes o1"
  by (simp_all add: extract_defaults_def)

lemma extract_perm: "xo_DirPerm (extract_defaults o1) = (if xo_DirPerm o1 = 0 then 493 else xo_DirPerm o1)"
  by (simp add: extract_defaults_def)

lemma open_root: "at_dir t R m old \<Longrightarrow> open_dir R [] t m old"
  by (auto simp: open_dir_def at_dir_def)

lemma read_written:
  assumes "tree_ok (Dir m' es)" and "at_dir t R m old" and "xo_MaxEntries opts = 0" and "xo_MaxTotalBytes opts = 0"
    and "list_all (entry_accepted (abs_path R)) (walked (walk_list ex [] es))" and "fits_list ex (xo_DirPerm opts) [] old es"
  shows "\<exists>k. read_entries (abs_path R) opts (\<lambda>_. None) 0 0 (walked (walk_list ex [] es)) None t =
    (None, k, set_node t R (Dir m (overlay_list ex (xo_DirPerm opts) [] old es)))"
proof -
  have "reads_as R opts (walked (walk_list ex [] es)) t (set_node t (R @ []) (Dir m (overlay_list ex (xo_DirPerm opts) [] old es)))"
    by (rule restore_walk(2) [OF assms(3,4) open_root [OF assms(2)]])
      (use assms(1,5,6) tree_ok_perm [of m' es m] in \<open>simp_all add: dir_prefix_def del: tree_ok.simps\<close>)
  then obtain n' k' where "read_entries (abs_path R) opts (\<lambda>_. None) 0 0 (walked (walk_list ex [] es) @ []) None t =
      read_entries (abs_path R) opts (\<lambda>_. None) n' k' [] None (set_node t R (Dir m (overlay_list ex (xo_DirPerm opts) [] old es)))"
    unfolding reads_as_def by (metis append_Nil2)
  then show ?thesis by simp
qed

lemma overlay_empty:
  "tree_ok (Dir m es) \<Longrightarrow> overlay_list ex perm [] [] es = restored_list ex perm [] es \<and> fits_list ex perm [] [] es"
  using overlay_fresh(2) [of perm es "[]" ex "[]"] tree_ok_sorted [of m es] tree_ok_perm [of m es perm] by (simp del: tree_ok.simps)

text \<open>
  A snapshot that was written is restored: for a well-formed source directory, an empty directory to
  restore into that is reached without links, and no limits, reading the entries
  that WriteArchive produced succeeds exactly if every entry passes the guards, and then the
  root holds what was there before, less the excluded paths, with the files' contents and permissions
  and the links' targets, and nothing outside the root has changed.
\<close>

theorem frozen_tree_restored:
  assumes "os_Lstat src root = Inr (Dir m' es)" and "tree_ok (Dir m' es)" and "at_dir t R m []"
    and "xo_MaxEntries opts = 0" and "xo_MaxTotalBytes opts = 0"
    and "WriteArchive (\<lambda>_. None) ex src root = (None, entries)"
  shows "if list_all (entry_accepted (abs_path R)) entries
    then \<exists>k. ReadArchive (\<lambda>_. None) (stream_of entries) (abs_path R) opts t =
      (None, k, set_node t R (Dir m (restored_list ex (if xo_DirPerm opts = 0 then 493 else xo_DirPerm opts) [] es)))
    else fst (ReadArchive (\<lambda>_. None) (stream_of entries) (abs_path R) opts t) \<noteq> None"
proof -
  have entries: "entries = walked (walk_list ex [] es)"
    using WriteArchive_walk [OF assms(1), of ex] assms(6) by simp
  show ?thesis
  proof (cases "list_all (entry_accepted (abs_path R)) entries")
    case True
    then show ?thesis
      using read_written [OF assms(2,3), of "extract_defaults opts" ex] assms(4,5) overlay_empty [OF assms(2)]
      by (simp add: entries ReadArchive_def extract_no_limits extract_perm)
  next
    case False
    then obtain e where "e \<in> set entries" "\<not> entry_accepted (abs_path R) e" by (auto simp: list_all_iff)
    then show ?thesis using False refused_archive by (simp add: ReadArchive_def)
  qed
qed

theorem frozen_tree_restored_witness:
  "\<exists>k. ReadArchive (\<lambda>_. None)
     (stream_of (List.map_filter snd (walk_list SnapshotExclude []
        [(''a'', Dir 448 [(''l'', Link ''x''), (''x'', File 384 ''hi'')]), (''lost+found'', Dir 448 [])])))
     ''/w'' \<lparr>xo_DirPerm = 0, xo_MaxEntries = 0, xo_MaxTotalBytes = 0\<rparr> (Dir 493 [(''w'', Dir 493 [])]) =
   (None, k, Dir 493 [(''w'', Dir 493 [(''a'', Dir 493 [(''l'', Link ''x''), (''x'', File 384 ''hi'')])])])"
proof -
  let ?es = "[(''a'', Dir 448 [(''l'', Link ''x''), (''x'', File 384 ''hi'')]), (''lost+found'', Dir 448 [])]"
  let ?src = "Dir 493 [(''v'', Dir 493 ?es)]" and ?t = "Dir 493 [(''w'', Dir 493 [])]"
  let ?entries = "List.map_filter snd (walk_list SnapshotExclude [] ?es)"
  have src: "os_Lstat ?src ''/v'' = Inr (Dir 493 ?es)" "tree_ok (Dir 493 ?es)" by code_simp+
  have at: "at_dir ?t [''w''] 493 []"
    by (auto simp: at_dir_def dirs_to_def is_dir_def plain_name_def)
  have acc: "list_all (entry_accepted ''/w'') ?entries" by code_simp
  have res: "set_node ?t [''w''] (Dir 493 (restored_list SnapshotExclude 493 [] ?es)) =
      Dir 493 [(''w'', Dir 493 [(''a'', Dir 493 [(''l'', Link ''x''), (''x'', File 384 ''hi'')])])]" by code_simp
  show ?thesis
    using frozen_tree_restored [OF src at _ _ WriteArchive_walk [OF src(1)], of "\<lparr>xo_DirPerm = 0, xo_MaxEntries = 0, xo_MaxTotalBytes = 0\<rparr>" SnapshotExclude]
      acc res by simp
qed

subsection \<open>Snapshots that cannot be restored\<close>

text \<open>Nothing on the way from a node to one below it is excluded.\<close>

fun kept :: "(string \<Rightarrow> node \<Rightarrow> bool) \<Rightarrow> string \<Rightarrow> node \<Rightarrow> string list \<Rightarrow> bool" where
  "kept ex rel c [] \<longleftrightarrow> \<not> ex rel c"
| "kept ex rel (Dir m es) (s # p) \<longleftrightarrow>
     \<not> ex rel (Dir m es) \<and> (case map_of es s of None \<Rightarrow> False | Some d \<Rightarrow> kept ex (rel @ ''/'' @ s) d p)"
| "kept ex rel c (s # p) \<longleftrightarrow> False"

lemma walk_list_child: "map_of es s = Some d \<Longrightarrow> set (walk_node ex (pre @ s) d) \<subseteq> set (walk_list ex pre es)"
  by (induction es) (auto split: if_splits)

lemma kept_written:
  "kept ex rel c p \<Longrightarrow> lookup_node c p = Some (Link l) \<Longrightarrow>
   \<exists>r e. (r, Some e) \<in> set (walk_node ex rel c) \<and> te_Type e = TypeSymlink \<and> te_Linkname e = l"
proof (induction ex rel c p rule: kept.induct)
  case (2 ex rel m es s p)
  then obtain d where d: "map_of es s = Some d" "kept ex (rel @ ''/'' @ s) d p" by (auto split: option.splits)
  then have "\<exists>r e. (r, Some e) \<in> set (walk_node ex ((rel @ ''/'') @ s) d) \<and> te_Type e = TypeSymlink \<and> te_Linkname e = l"
    using 2 by simp
  then show ?case using walk_list_child [OF d(1), of ex "rel @ ''/''"] 2(2) by auto
qed (auto split: if_splits)

lemma absolute_link_refused: "te_Type e = TypeSymlink \<Longrightarrow> is_rooted (te_Linkname e) \<Longrightarrow> \<not> entry_accepted root e"
  by (auto simp: entry_accepted_def validateSymlinkTarget_def is_rooted_def split: sum.splits)

text \<open>
  C25: A symbolic link with an absolute target that the exclusions keep makes a snapshot useless: the
  snapshot is written without an error, and reading it fails, whatever the root, the
  options, the context and the tree it is restored into are.
\<close>

theorem absolute_link_blocks_restore:
  assumes "os_Lstat src root = Inr (Dir m es)" and "map_of es s = Some c"
    and "kept SnapshotExclude s c p" and "lookup_node c p = Some (Link l)" and "is_rooted l"
  shows "\<exists>entries. WriteArchive (\<lambda>_. None) SnapshotExclude src root = (None, entries) \<and>
    (\<forall>ctx to opts t. fst (ReadArchive ctx (stream_of entries) to opts t) \<noteq> None)"
proof -
  let ?entries = "walked (walk_list SnapshotExclude [] es)"
  obtain r e where "(r, Some e) \<in> set (walk_node SnapshotExclude s c)" and e: "te_Type e = TypeSymlink" "te_Linkname e = l"
    using kept_written [OF assms(3,4)] by blast
  then have "(r, Some e) \<in> set (walk_list SnapshotExclude [] es)"
    using walk_list_child [OF assms(2), of SnapshotExclude "[]"] by auto
  then have "e \<in> set ?entries" by (force simp: List.map_filter_def)
  moreover have "\<not> entry_accepted to e" for to using absolute_link_refused e assms(5) by simp
  ultimately have "fst (ReadArchive ctx (stream_of ?entries) to opts t) \<noteq> None" for ctx to opts t
    using refused_archive by (simp add: ReadArchive_def)
  then show ?thesis using WriteArchive_walk [OF assms(1)] by blast
qed

theorem absolute_link_blocks_restore_witness:
  "fst (ReadArchive (\<lambda>_. None)
     (stream_of (List.map_filter snd (walk_list SnapshotExclude []
        [(''venv'', Dir 493 [(''python'', Link ''/usr/bin/python3'')])])))
     ''/w'' \<lparr>xo_DirPerm = 0, xo_MaxEntries = 0, xo_MaxTotalBytes = 0\<rparr> (Dir 493 [(''w'', Dir 493 [])])) \<noteq> None"
proof -
  let ?c = "Dir 493 [(''python'', Link ''/usr/bin/python3'')]"
  have src: "os_Lstat (Dir 493 [(''w'', Dir 493 [(''venv'', ?c)])]) ''/w'' = Inr (Dir 493 [(''venv'', ?c)])" by code_simp
  have keep: "kept SnapshotExclude ''venv'' ?c [''python'']" by code_simp
  show ?thesis
    using absolute_link_blocks_restore [OF src, of "''venv''" ?c "[''python'']" "''/usr/bin/python3''"] keep
      WriteArchive_walk [OF src, of SnapshotExclude] by (auto simp: is_rooted_def)
qed

subsection \<open>Archives without symbolic links\<close>

fun linkfree :: "node \<Rightarrow> bool" where
  "linkfree (Dir m es) \<longleftrightarrow> list_all (\<lambda>(s, c). linkfree c) es"
| "linkfree (Link l) \<longleftrightarrow> False"
| "linkfree _ \<longleftrightarrow> True"

lemma linkfree_child: "linkfree (Dir m es) \<Longrightarrow> map_of es s = Some c \<Longrightarrow> linkfree c"
  by (auto simp: list_all_iff dest!: map_of_SomeD)

lemma linkfree_lookup: "linkfree t \<Longrightarrow> lookup_node t p = Some c \<Longrightarrow> linkfree c"
proof (induction t p rule: lookup_node.induct)
  case (2 m es s ss)
  then show ?case using linkfree_child by (auto split: option.splits simp del: linkfree.simps)
qed auto

lemma linkfree_insert: "linkfree (Dir m es) \<Longrightarrow> linkfree c \<Longrightarrow> linkfree (Dir m (insert_entry s c es))"
  using set_insert_entry [of s c es] by (auto simp: list_all_iff)

lemma linkfree_set: "linkfree t \<Longrightarrow> linkfree c \<Longrightarrow> linkfree (set_node t p c)"
proof (induction t p c rule: set_node.induct)
  case (2 m es s ss c)
  then show ?case
    by (auto simp del: linkfree.simps split: option.splits intro!: linkfree_insert dest: linkfree_child)
qed auto

lemma set_node_append:
  "lookup_node t p = Some d \<Longrightarrow> q \<noteq> [] \<Longrightarrow> set_node t (p @ q) c = set_node t p (set_node d q c)"
proof (induction t p arbitrary: d rule: lookup_node.induct)
  case (2 m es s ss)
  then show ?case by (cases ss) (auto split: option.splits)
qed auto

text \<open>Resolving a path that meets no link ends at the path itself, if it ends.\<close>

lemma resolve_linkfree:
  assumes "list_all plain_name ss" and "\<And>k l. k \<le> length ss \<Longrightarrow> lookup_node t (cur @ take k ss) \<noteq> Some (Link l)"
    and "resolve t follow n cur ss = Inr q"
  shows "q = cur @ ss"
  using assms
proof (induction ss arbitrary: cur)
  case (Cons s ss)
  have s: "s \<noteq> []" "s \<noteq> ''.''" "s \<noteq> ''..''" using Cons.prems(1) by (simp_all add: plain_name_def)
  have nolink: "lookup_node t (cur @ [s]) \<noteq> Some (Link l)" for l using Cons.prems(2) [of 1 l] by simp
  have step: "lookup_node t ((cur @ [s]) @ take k ss) \<noteq> Some (Link l)" if "k \<le> length ss" for k l
    using Cons.prems(2) [of "Suc k" l] that by simp
  show ?case
    using Cons.prems(1,3) s nolink Cons.IH [OF _ step] by (auto split: option.splits node.splits if_splits)
qed simp

text \<open>The tree has changed below the root only, and there is no link there.\<close>

definition inside :: "string list \<Rightarrow> nat \<Rightarrow> node \<Rightarrow> node \<Rightarrow> bool" where
  "inside R m t0 t \<longleftrightarrow> (\<exists>es. t = set_node t0 R (Dir m es) \<and> at_dir t R m es \<and> linkfree (Dir m es))"

lemma inside_start: "at_dir t R m es \<Longrightarrow> linkfree (Dir m es) \<Longrightarrow> inside R m t t"
  unfolding inside_def by (rule exI [of _ es]) (simp add: at_dir_def set_node_same)

lemma inside_nolink:
  assumes "inside R m t0 t"
  shows "lookup_node t (take k (R @ ss)) \<noteq> Some (Link l)"
proof -
  obtain es where at: "at_dir t R m es" "linkfree (Dir m es)" using assms by (auto simp: inside_def)
  show ?thesis
  proof (cases "k < length R")
    case True
    then have "is_dir (lookup_node t (take k R))" using at(1) by (simp add: at_dir_def dirs_to_def)
    then show ?thesis using True by (auto simp: is_dir_def)
  next
    case False
    then have "lookup_node t (take k (R @ ss)) = lookup_node (Dir m es) (take (k - length R) ss)"
      using at(1) by (simp add: at_dir_def lookup_append)
    then show ?thesis using linkfree_lookup [OF at(2)] by fastforce
  qed
qed

lemma inside_paths:
  assumes "inside R m t0 t" and "list_all plain_name ss"
  shows "follow_path t (abs_path (R @ ss)) = Inr q \<Longrightarrow> q = R @ ss" "name_path t (abs_path (R @ ss)) = Inr q \<Longrightarrow> q = R @ ss"
proof -
  have plain: "list_all plain_name (R @ ss)" using assms by (auto simp: inside_def at_dir_def)
  have "lookup_node t ([] @ take k (R @ ss)) \<noteq> Some (Link l)" for k l using inside_nolink [OF assms(1)] by simp
  note * = resolve_linkfree [OF plain this]
  show "follow_path t (abs_path (R @ ss)) = Inr q \<Longrightarrow> q = R @ ss" "name_path t (abs_path (R @ ss)) = Inr q \<Longrightarrow> q = R @ ss"
    using * by (simp_all add: follow_path_def name_path_def path_segments_join [OF plain] del: join_slash.simps)
qed

lemma set_node_Dir: "ss \<noteq> [] \<Longrightarrow> \<exists>es'. set_node (Dir m es) ss c = Dir m es'"
  by (cases ss) (auto split: option.splits)

lemma inside_set:
  assumes "inside R m t0 t" and "list_all plain_name ss" "ss \<noteq> []" and "tree_ok c" "linkfree c" and "tree_ok t0" "dirs_to t0 R"
  shows "inside R m t0 (set_node t (R @ ss) c)"
proof -
  obtain es where t: "t = set_node t0 R (Dir m es)" "at_dir t R m es" "linkfree (Dir m es)"
    using assms(1) by (auto simp: inside_def)
  then have l: "lookup_node t R = Some (Dir m es)" "tree_ok t" "R \<noteq> []" by (simp_all add: at_dir_def)
  obtain es' where es': "set_node (Dir m es) ss c = Dir m es'" using set_node_Dir [OF assms(3)] by blast
  have "tree_ok (Dir m es')" "linkfree (Dir m es')"
    using tree_ok_set [OF tree_ok_lookup [OF l(2,1)] assms(4,2)] linkfree_set [OF t(3) assms(5), of ss] es' by simp_all
  moreover have eq: "set_node t (R @ ss) c = set_node t R (Dir m es')" using set_node_append [OF l(1) assms(3)] es' by simp
  moreover have "set_node t R (Dir m es') = set_node t0 R (Dir m es')"
    using t(1) set_set_node [OF assms(6) dirs_to_butlast [OF assms(7) l(3)]] by simp
  ultimately show ?thesis using at_dir_set [OF t(2)] unfolding inside_def by metis
qed

lemma mkdirall_there:
  assumes "list_all plain_name q" "dirs_to t q" "is_dir (lookup_node t q)"
  shows "os_MkdirAll t q perm = Inr t"
proof -
  have "follow_path t (abs_path q) = Inr q" using assms by (intro follow_plain) (auto simp: is_dir_def)
  then show ?thesis using assms(3) by (subst os_MkdirAll.simps) (auto simp: os_Stat_def is_dir_def split: option.splits)
qed

lemma inside_root_there: "inside R m t0 t \<Longrightarrow> os_MkdirAll t R perm = Inr t"
  by (rule mkdirall_there) (auto simp: inside_def at_dir_def is_dir_def)

lemma inside_mkdir:
  assumes "inside R m t0 t" and "list_all plain_name ss" "ss \<noteq> []" and "tree_ok t0" "dirs_to t0 R"
    and "os_Mkdir t (abs_path (R @ ss)) perm = Inr t'"
  shows "inside R m t0 t'"
proof -
  obtain q where q: "name_path t (abs_path (R @ ss)) = Inr q" "t' = set_node t q (Dir perm [])"
    using assms(6) by (auto simp: os_Mkdir_def split: sum.splits if_splits)
  then show ?thesis
    using inside_paths(2) [OF assms(1,2) q(1)] inside_set [OF assms(1-3) _ _ assms(4,5)] by simp
qed

lemma inside_mkdirall:
  "inside R m t0 t \<Longrightarrow> list_all plain_name ss \<Longrightarrow> tree_ok t0 \<Longrightarrow> dirs_to t0 R \<Longrightarrow> os_MkdirAll t (R @ ss) perm = Inr t' \<Longrightarrow>
   inside R m t0 t'"
proof (induction ss arbitrary: t' rule: rev_induct)
  case Nil
  then show ?case using inside_root_there [OF Nil(1)] by simp
next
  case (snoc s ss)
  note mk = inside_mkdir [OF _ snoc.prems(2) _ snoc.prems(3,4), of _ _ perm]
  from snoc.prems(5) consider "t' = t"
    | t1 where "os_MkdirAll t (R @ ss) perm = Inr t1" "t' = t1 \<or> os_Mkdir t1 (abs_path (R @ ss @ [s])) perm = Inr t'"
    by (subst (asm) os_MkdirAll.simps) (auto simp: Let_def butlast_append split: sum.splits if_splits)
  then show ?case
  proof cases
    case 2
    have "inside R m t0 t1" using snoc.IH 2(1) snoc.prems by simp
    then show ?thesis using 2(2) mk [of m t1 t'] by auto
  qed (use snoc.prems(1) in simp)
qed

lemma inside_write:
  assumes "inside R m t0 t" and "list_all plain_name ss" and "tree_ok t0" "dirs_to t0 R"
    and "os_WriteFile t (abs_path (R @ ss)) c mode = Inr t'"
  shows "inside R m t0 t'"
proof -
  obtain q where q: "follow_path t (abs_path (R @ ss)) = Inr q"
    and t': "\<exists>mode'. t' = set_node t q (File mode' c)" "\<not> is_dir (lookup_node t q)"
    using assms(5) by (auto simp: os_WriteFile_def is_dir_def split: sum.splits option.splits node.splits)
  have "q = R @ ss" by (rule inside_paths(1) [OF assms(1,2) q])
  moreover have "is_dir (lookup_node t R)" using assms(1) by (auto simp: inside_def at_dir_def is_dir_def)
  ultimately show ?thesis
    using t' inside_set [OF assms(1,2) _ _ _ assms(3,4)] by (cases "ss = []") auto
qed

lemma safeJoin_inside:
  assumes "list_all plain_name R" "R \<noteq> []" and "safeJoin (abs_path R) name = Inr target"
  shows "\<exists>ss. list_all plain_name ss \<and> target = abs_path (R @ ss)"
proof -
  have start: "\<not> HasPrefix name ''/''" and name: "Clean name \<noteq> ''..''" "\<not> HasPrefix (Clean name) ''../''"
    and target: "target = path_Join [abs_path R, Clean name]"
    using assms(3) by (auto simp: safeJoin_def Let_def simp del: HasPrefix.simps split: if_splits)
  have rel: "\<not> is_rooted name" using start by (cases name) (simp_all add: is_rooted_def)
  show ?thesis
  proof (cases "Clean name = ''.''")
    case True
    have sp: "split_slash (abs_path R @ ''/.'') = [] # R @ [''.'']"
      using split_slash_append [of "abs_path R" "''.''"] split_plain_join [OF assms(1,2)] by simp
    have "clean_segs True ([] # R @ [''.'']) = clean_segs True R" by (simp add: clean_segs_def clean_step_def)
    also have "clean_segs True R = R" by (rule clean_segs_id, rule plain_normal, rule assms(1))
    finally have "target = abs_path R"
      using target True sp by (simp add: path_Join_def Clean_def Let_def is_rooted_def)
    then show ?thesis by (intro exI [of _ "[]"]) simp
  next
    case False
    obtain ss where ss: "ss \<noteq> []" "Clean name = join_slash ss" "list_all plain_name ss"
      using clean_relative [OF rel False name] by (auto simp: list_all_iff plain_name_def)
    then show ?thesis using target path_Join_plain [OF assms(1,2) ss(3,1)] by auto
  qed
qed

lemma path_Dir_inside:
  assumes "list_all plain_name R" "R \<noteq> []" "list_all plain_name ss"
  shows "path_segments (path_Dir (abs_path (R @ ss))) = butlast (R @ ss)"
proof -
  obtain q s where q: "R @ ss = q @ [s]" using assms(2) by (metis append_is_Nil_conv rev_exhaust)
  have "list_all plain_name (q @ [s])" using assms q by (metis list_all_append)
  then have plain: "list_all plain_name q" "plain_name s" by simp_all
  show ?thesis
  proof (cases "q = []")
    case True
    have "slash \<notin> set s" using plain(2) by (simp add: plain_name_def)
    then have "rev (dropWhile (\<lambda>c. c \<noteq> slash) (rev (slash # s))) = ''/''"
      using dropWhile_append2 [of "rev s" "\<lambda>c. c \<noteq> slash" "''/''"] by auto
    moreover have "Clean ''/'' = ''/''" by code_simp
    ultimately have "path_Dir (slash # s) = ''/''" by (simp add: path_Dir_def)
    then show ?thesis using q True by (simp add: path_segments_def)
  next
    case False
    then show ?thesis using q path_Dir_plain [OF plain(1) False plain(2)] plain(1) by (simp add: path_segments_join del: join_slash.simps)
  qed
qed

lemma restoreRegularFile_tree:
  "\<exists>content mode. snd (snd (restoreRegularFile target e opts k t)) =
     (case os_WriteFile t target content mode of Inl err \<Rightarrow> t | Inr t1 \<Rightarrow> t1)"
proof -
  have *: "snd (snd (case w of Inl err \<Rightarrow> (x err, 0, t) | Inr t1 \<Rightarrow> if b then (y, n, t1) else if c then (z, n, t1) else (None, n, t1))) =
      (case w of Inl err \<Rightarrow> t | Inr t1 \<Rightarrow> t1)" for w :: "os_error + node" and x y z n b c
    by (simp split: sum.split)
  show ?thesis unfolding restoreRegularFile_def Let_def by (rule exI, rule exI, rule *)
qed

lemma inside_file:
  assumes "inside R m t0 t" and "list_all plain_name ss" and "tree_ok t0" "dirs_to t0 R"
  shows "inside R m t0 (snd (snd (restoreRegularFile (abs_path (R @ ss)) e opts k t)))"
proof -
  obtain content mode where "snd (snd (restoreRegularFile (abs_path (R @ ss)) e opts k t)) =
      (case os_WriteFile t (abs_path (R @ ss)) content mode of Inl err \<Rightarrow> t | Inr t1 \<Rightarrow> t1)"
    using restoreRegularFile_tree by blast
  then show ?thesis using inside_write [OF assms, of content mode] assms(1) by (auto split: sum.splits)
qed

lemma inside_parent:
  assumes "inside R m t0 t" and "list_all plain_name ss" and "tree_ok t0" "dirs_to t0 R"
    and "os_MkdirAll t (butlast (R @ ss)) perm = Inr t'"
  shows "inside R m t0 t'"
proof (cases "ss = []")
  case True
  have R: "list_all plain_name R" "R \<noteq> []" "dirs_to t R" using assms(1) by (auto simp: inside_def at_dir_def)
  then obtain q s where q: "R = q @ [s]" by (cases R rule: rev_cases) auto
  have "os_MkdirAll t q perm = Inr t" using R(1,3) unfolding q by (intro mkdirall_there) (simp_all add: dirs_to_snoc)
  moreover have "butlast (R @ ss) = q" using q True by simp
  ultimately have "t' = t" using assms(5) by (metis sum.inject(2))
  then show ?thesis using assms(1) by simp
next
  case False
  have "list_all plain_name (butlast ss)" using assms(2) by (auto simp: list_all_iff dest: in_set_butlastD)
  moreover have "os_MkdirAll t (R @ butlast ss) perm = Inr t'" using assms(5) False by (metis butlast_append)
  ultimately show ?thesis using inside_mkdirall [OF assms(1) _ assms(3,4)] by blast
qed

lemma inside_entry:
  assumes "inside R m t0 t" and "tree_ok t0" "dirs_to t0 R" and "te_Type e \<noteq> TypeSymlink"
  shows "inside R m t0 (snd (snd (read_entry (abs_path R) opts e k t)))"
proof (cases "safeJoin (abs_path R) (te_Name e)")
  case (Inl err)
  then show ?thesis using assms(1) by (simp add: read_entry_def)
next
  case (Inr target)
  have R: "list_all plain_name R" "R \<noteq> []" using assms(1) by (auto simp: inside_def at_dir_def)
  obtain ss where ss: "list_all plain_name ss" "target = abs_path (R @ ss)" using safeJoin_inside [OF R Inr] by blast
  note parent = inside_parent [OF assms(1) ss(1) assms(2,3)]
  have segs: "path_segments target = R @ ss" "path_segments (path_Dir target) = butlast (R @ ss)"
    using ss R path_Dir_inside [OF R ss(1)] by (simp_all add: path_segments_join del: join_slash.simps)
  show ?thesis
  proof (cases "te_Type e")
    case TypeReg
    then show ?thesis
      using assms(1) parent [of "xo_DirPerm opts"] inside_file [OF _ ss(1) assms(2,3), folded ss(2)]
      by (auto simp: read_entry_def Inr segs split: sum.splits)
  next
    case TypeDir
    then show ?thesis
      using assms(1) inside_mkdirall [OF assms(1) ss(1) assms(2,3)] by (auto simp: read_entry_def Inr segs split: sum.splits)
  qed (use assms(1,4) in \<open>simp_all add: read_entry_def Inr\<close>)
qed

lemma inside_entries:
  "inside R m t0 t \<Longrightarrow> tree_ok t0 \<Longrightarrow> dirs_to t0 R \<Longrightarrow> \<forall>e \<in> set es. te_Type e \<noteq> TypeSymlink \<Longrightarrow>
   inside R m t0 (snd (snd (read_entries (abs_path R) opts ctx n k es fin t)))"
proof (induction es arbitrary: n k t)
  case (Cons e es)
  obtain r k' t' where e: "read_entry (abs_path R) opts e k t = (r, k', t')" by (metis surj_pair)
  then have "inside R m t0 t'" using inside_entry [OF Cons.prems(1-3), of e opts k] Cons.prems(4) by simp
  then show ?case using Cons e by (auto split: option.splits)
qed (simp split: option.splits)

text \<open>
  C24: An archive without symbolic links cannot reach outside the root it is restored into: whatever
  names, types and contents its entries have, and however the stream, the limits or the context
  end the restore, every path that does not lie below the root holds what it held before, provided
  the root is a directory without links in it that is reached without links.
\<close>

theorem restore_stays_inside:
  assumes "at_dir t R m es" and "linkfree (Dir m es)" and "\<forall>e \<in> set (ts_Entries s). te_Type e \<noteq> TypeSymlink"
    and "\<not> extends R q" and "\<not> extends q R"
  shows "lookup_node (snd (snd (ReadArchive ctx s (abs_path R) opts t))) q = lookup_node t q"
proof -
  have ok: "tree_ok t" "dirs_to t R" using assms(1) by (simp_all add: at_dir_def)
  have "inside R m t (snd (snd (ReadArchive ctx s (abs_path R) opts t)))"
    using inside_entries [OF inside_start [OF assms(1,2)] ok assms(3)] inside_start [OF assms(1,2)]
    by (simp add: ReadArchive_def)
  then obtain es' where "snd (snd (ReadArchive ctx s (abs_path R) opts t)) = set_node t R (Dir m es')"
    unfolding inside_def by blast
  then show ?thesis using lookup_set_other [OF ok(1) assms(4,5)] by simp
qed

theorem restore_stays_inside_witness:
  "lookup_node (snd (snd (ReadArchive (\<lambda>_. None)
     (stream_of [\<lparr>te_Name = ''a/../../x'', te_Type = TypeReg, te_Linkname = [], te_Mode = 420, te_Data = ''evil'', te_Broken = False\<rparr>])
     ''/w'' \<lparr>xo_DirPerm = 0, xo_MaxEntries = 0, xo_MaxTotalBytes = 0\<rparr> (Dir 493 [(''w'', Dir 493 []), (''x'', File 420 ''good'')])))) [''x'']
   = Some (File 420 ''good'')"
proof -
  let ?t = "Dir 493 [(''w'', Dir 493 []), (''x'', File 420 ''good'')]"
  have at: "at_dir ?t [''w''] 493 []"
    by (auto simp: at_dir_def dirs_to_def is_dir_def plain_name_def)
  show ?thesis
    by (subst restore_stays_inside [OF at, simplified]) simp_all
qed

text \<open>
  With links it can: the guard on a link's target looks at the names only, and the directory part of a later link
  may itself go through a link. Four entries that each pass the guards put a file
  into the parent of the parent of the root.
\<close>

definition escaping_entries :: "tar_entry list" where
  "escaping_entries =
     [\<lparr>te_Name = ''a/'', te_Type = TypeDir, te_Linkname = [], te_Mode = 493, te_Data = [], te_Broken = False\<rparr>,
      \<lparr>te_Name = ''a/b'', te_Type = TypeSymlink, te_Linkname = ''..'', te_Mode = 511, te_Data = [], te_Broken = False\<rparr>,
      \<lparr>te_Name = ''a/b/c'', te_Type = TypeSymlink, te_Linkname = ''../..'', te_Mode = 511, te_Data = [], te_Broken = False\<rparr>,
      \<lparr>te_Name = ''c/x'', te_Type = TypeReg, te_Linkname = [], te_Mode = 420, te_Data = ''evil'', te_Broken = False\<rparr>]"

text \<open>
  The guards of \<^verbatim>\<open>ReadArchive\<close> do not keep an archive with links inside its root: there is an archive every
  entry of which passes them, that is restored without an error into an empty root \<^verbatim>\<open>/v/w\<close>, and that overwrites the
  file \<^verbatim>\<open>/x\<close>.
\<close>

theorem links_escape_root:
  "list_all (entry_accepted ''/v/w'') escaping_entries \<and>
   ReadArchive (\<lambda>_. None) (stream_of escaping_entries) ''/v/w'' \<lparr>xo_DirPerm = 0, xo_MaxEntries = 0, xo_MaxTotalBytes = 0\<rparr>
     (Dir 493 [(''v'', Dir 493 [(''w'', Dir 493 [])]), (''x'', File 420 ''good'')]) =
   (None, 4, Dir 493 [(''v'', Dir 493 [(''w'', Dir 493 [(''a'', Dir 493 [(''b'', Link ''..'')]), (''c'', Link ''../..'')])]),
     (''x'', File 420 ''evil'')])"
proof
  show "list_all (entry_accepted ''/v/w'') escaping_entries" by code_simp
qed code_simp

end
