(* ===== verification/Json_Text.thy ===== *)
theory Json_Text
  imports Go_Json
begin

section \<open>A reference text form of JSON values\<close>

text \<open>
  The stores keep JSON documents as bytes, so a reference implementation of \<open>json_lib\<close> over
  strings is needed to show that the laws of \<open>json_laws\<close> can hold there. This is a prefix code:
  a letter for the constructor, a length in unary before the characters of a string, and a
  mark before each element of a list. The scanner reads it back with the length of the text as
  fuel, which every value it prints leaves enough of.
\<close>

definition counted :: "string \<Rightarrow> string" where
  "counted s = replicate (length s) CHR ''1'' @ CHR ''0'' # s"

fun print_json :: "json_value \<Rightarrow> string"
  and print_items :: "json_value list \<Rightarrow> string"
  and print_members :: "(string \<times> json_value) list \<Rightarrow> string" where
  "print_json JNull = ''n''"
| "print_json (JBool b) = (if b then ''t'' else ''f'')"
| "print_json (JNum i) = CHR ''i'' # counted (decimal_int i)"
| "print_json (JFrac s) = CHR ''x'' # counted s"
| "print_json (JStr s) = CHR ''s'' # counted s"
| "print_json (JArr vs) = CHR ''a'' # print_items vs"
| "print_json (JObj kvs) = CHR ''o'' # print_members kvs"
| "print_items [] = ''0''"
| "print_items (v # vs) = CHR ''1'' # print_json v @ print_items vs"
| "print_members [] = ''0''"
| "print_members ((k, v) # kvs) = CHR ''1'' # counted k @ print_json v @ print_members kvs"

fun count_ones :: "string \<Rightarrow> nat \<times> string" where
  "count_ones [] = (0, [])"
| "count_ones (c # s) = (if c = CHR ''1'' then (case count_ones s of (n, r) \<Rightarrow> (Suc n, r)) else (0, s))"

definition scan_counted :: "string \<Rightarrow> string \<times> string" where
  "scan_counted s = (case count_ones s of (n, r) \<Rightarrow> (take n r, drop n r))"

fun scan_json :: "nat \<Rightarrow> string \<Rightarrow> (json_value \<times> string) option"
  and scan_items :: "nat \<Rightarrow> string \<Rightarrow> (json_value list \<times> string) option"
  and scan_members :: "nat \<Rightarrow> string \<Rightarrow> ((string \<times> json_value) list \<times> string) option" where
  "scan_json (Suc n) (c # s) =
     (if c = CHR ''n'' then Some (JNull, s)
      else if c = CHR ''t'' then Some (JBool True, s)
      else if c = CHR ''f'' then Some (JBool False, s)
      else if c = CHR ''i'' then (case scan_counted s of (x, r) \<Rightarrow> Some (JNum (parse_int x), r))
      else if c = CHR ''x'' then (case scan_counted s of (x, r) \<Rightarrow> Some (JFrac x, r))
      else if c = CHR ''s'' then (case scan_counted s of (x, r) \<Rightarrow> Some (JStr x, r))
      else if c = CHR ''a'' then map_option (\<lambda>(vs, r). (JArr vs, r)) (scan_items n s)
      else if c = CHR ''o'' then map_option (\<lambda>(kvs, r). (JObj kvs, r)) (scan_members n s)
      else None)"
| "scan_json n s = None"
| "scan_items (Suc n) (c # s) =
     (if c = CHR ''0'' then Some ([], s)
      else case scan_json n s of None \<Rightarrow> None
           | Some (v, r) \<Rightarrow> map_option (\<lambda>(vs, r'). (v # vs, r')) (scan_items n r))"
| "scan_items n s = None"
| "scan_members (Suc n) (c # s) =
     (if c = CHR ''0'' then Some ([], s)
      else case scan_counted s of (k, r) \<Rightarrow>
        (case scan_json n r of None \<Rightarrow> None
         | Some (v, r') \<Rightarrow> map_option (\<lambda>(kvs, r''). ((k, v) # kvs, r'')) (scan_members n r')))"
| "scan_members n s = None"

lemma count_ones_replicate: "count_ones (replicate n CHR ''1'' @ CHR ''0'' # s) = (n, s)"
  by (induction n) auto

lemma scan_counted_counted: "scan_counted (counted s @ r) = (s, r)"
  by (simp add: scan_counted_def counted_def count_ones_replicate)

lemma scan_print_text:
  "length (print_json v) \<le> n \<Longrightarrow> scan_json n (print_json v @ r) = Some (v, r)"
  "length (print_items vs) \<le> n \<Longrightarrow> scan_items n (print_items vs @ r) = Some (vs, r)"
  "length (print_members kvs) \<le> n \<Longrightarrow> scan_members n (print_members kvs @ r) = Some (kvs, r)"
proof (induction v and vs and kvs arbitrary: n r and n r and n r rule: print_json_print_items_print_members.induct)
  case 1
  then show ?case by (cases n) (simp_all add: scan_counted_counted parse_decimal_int)
next
  case (2 b)
  then show ?case by (cases b; cases n) simp_all
next
  case (3 i)
  then show ?case by (cases n) (simp_all add: scan_counted_counted parse_decimal_int)
next
  case (4 s)
  then show ?case by (cases n) (simp_all add: scan_counted_counted parse_decimal_int)
next
  case (5 s)
  then show ?case by (cases n) (simp_all add: scan_counted_counted parse_decimal_int)
next
  case (6 vs)
  then show ?case by (cases n) (simp_all add: scan_counted_counted parse_decimal_int)
next
  case (7 kvs)
  then show ?case by (cases n) (simp_all add: scan_counted_counted parse_decimal_int)
next
  case 8
  then show ?case by (cases n) (simp_all add: scan_counted_counted parse_decimal_int)
next
  case (9 v vs)
  then show ?case by (cases n) (simp_all add: scan_counted_counted parse_decimal_int)
next
  case 10
  then show ?case by (cases n) (simp_all add: scan_counted_counted parse_decimal_int)
next
  case (11 k v kvs)
  then show ?case by (cases n) (simp_all add: scan_counted_counted parse_decimal_int)
qed

definition ref_text :: "string json_lib" where
  "ref_text = \<lparr>Print = print_json,
     Scan = (\<lambda>s. case scan_json (length s) s of Some (v, []) \<Rightarrow> Inr v | _ \<Rightarrow> Inl (Foreign ''json'')),
     TimeText = (\<lambda>t. Some (decimal_int t)), ParseTime = (\<lambda>s. Some (parse_int s))\<rparr>"

interpretation ref_text: json_laws ref_text
proof
  fix v
  show "Scan ref_text (Print ref_text v) = Inr v"
    using scan_print_text(1) [of v "length (print_json v)" "[]"] by (simp add: ref_text_def)
next
  fix t s
  assume *: "TimeText ref_text t = Some s"
  then show "ParseTime ref_text s = Some t" by (auto simp: ref_text_def parse_decimal_int)
  have "TimeText ref_json t = Some s" using * by (simp add: ref_text_def ref_json_def)
  then show "valid_utf8 s" by (rule ref.time_text_utf8)
qed

end
