(* ===== verification/Storage_Backend.thy ===== *)
theory Storage_Backend
  imports Storage_Archive Json_Text "HOL-Library.AList"
begin

section \<open>The storage backend and whole archives\<close>

text \<open>
  \<^verbatim>\<open>src/operator/internal/storage/backend.go\<close> and the two functions of \<^verbatim>\<open>archive.go\<close> that stream between a
  directory and a backend. A backend is a parameter: a record of its calls over a state \<open>'w\<close>. The
  interface's promises are the locale \<open>storage_backend\<close>, stated on the objects a state holds: a
  put stores all bytes or nothing, and a put that fails may have stored them; a listing is by
  string prefix and sorted; deleting what is not there is no error. Sizes are 64-bit. A reader is the bytes it
  delivers and the error it ends with, if any. The tar and zstd encoding is a codec.
\<close>

subsection \<open>Calls\<close>

type_synonym reader = "string \<times> storage_error option"

record 'w Backend =
  be_Put :: "string \<Rightarrow> reader \<Rightarrow> string \<Rightarrow> 'w \<Rightarrow> (storage_error + ObjectInfo) \<times> 'w"
  be_Get :: "string \<Rightarrow> 'w \<Rightarrow> (storage_error + (reader \<times> ObjectInfo)) \<times> 'w"
  be_Stat :: "string \<Rightarrow> 'w \<Rightarrow> (storage_error + ObjectInfo) \<times> 'w"
  be_List :: "string \<Rightarrow> 'w \<Rightarrow> (storage_error + ObjectInfo list) \<times> 'w"
  be_Delete :: "string \<Rightarrow> 'w \<Rightarrow> storage_error option \<times> 'w"
  be_DeletePrefix :: "string \<Rightarrow> 'w \<Rightarrow> (storage_error + int) \<times> 'w"

type_synonym objects = "string \<rightharpoonup> string"

locale storage_backend =
  fixes be :: "'w Backend"
    and objects :: "'w \<Rightarrow> objects"
    and sha :: "string \<Rightarrow> string"
  assumes put_ok: "be_Put be key (c, e) ct w = (Inr info, w') \<Longrightarrow>
      e = None \<and> objects w' = (objects w)(key \<mapsto> c) \<and> oi_Key info = key \<and> oi_Size info = int (length c) \<and> int (length c) < 2 ^ 63 \<and> oi_SHA256 info = sha c"
    and put_failed: "be_Put be key (c, e) ct w = (Inl err, w') \<Longrightarrow>
      objects w' = objects w \<or> e = None \<and> objects w' = (objects w)(key \<mapsto> c)"
    and get_keeps: "be_Get be key w = (r, w') \<Longrightarrow> objects w' = objects w"
    and get_ok: "be_Get be key w = (Inr ((c, None), info), w') \<Longrightarrow> objects w key = Some c"
    and get_missing: "be_Get be key w = (Inl err, w') \<Longrightarrow> IsNotFound err \<Longrightarrow> objects w key = None"
    and stat_keeps: "be_Stat be key w = (rs, w') \<Longrightarrow> objects w' = objects w"
    and stat_ok: "be_Stat be key w = (Inr info, w') \<Longrightarrow> objects w key \<noteq> None"
    and list_keeps: "be_List be prefix w = (rl, w') \<Longrightarrow> objects w' = objects w"
    and list_ok: "be_List be prefix w = (Inr infos, w') \<Longrightarrow>
      sorted_wrt (<) (map oi_Key infos) \<and> set (map oi_Key infos) = {key \<in> dom (objects w). HasPrefix key prefix}"
    and delete_only: "be_Delete be key w = (rd, w') \<Longrightarrow> objects w' = objects w \<or> objects w' = (objects w)(key := None)"
    and delete_ok: "be_Delete be key w = (None, w') \<Longrightarrow> objects w' = (objects w)(key := None)"
    and sweep_only: "be_DeletePrefix be prefix w = (rp, w') \<Longrightarrow> \<not> HasPrefix key prefix \<Longrightarrow> objects w' key = objects w key"
    and sweep_takes: "be_DeletePrefix be prefix w = (rp, w') \<Longrightarrow> objects w' key = objects w key \<or> objects w' key = None"
    and sweep_ok: "be_DeletePrefix be prefix w = (Inr n, w') \<Longrightarrow> HasPrefix key prefix \<Longrightarrow> objects w' key = None"
    and sweep_nothing: "\<exists>e w'. be_DeletePrefix be [] w = (Inl e, w') \<and> IsInvalid e \<and> objects w' = objects w"

subsection \<open>Streaming between a directory and a backend\<close>

text \<open>
  The codec: \<open>cc_Pack\<close> is the bytes written for the entries before the writer ends, with an error or
  without; \<open>cc_Unpack\<close> is the stream the bytes decode to.
\<close>

record archive_codec =
  cc_Pack :: "tar_entry list \<Rightarrow> storage_error option \<Rightarrow> string"
  cc_Unpack :: "reader \<Rightarrow> tar_stream"

locale archive_codec_laws =
  fixes codec :: archive_codec
  assumes unpack_pack: "cc_Unpack codec (cc_Pack codec es None, None) = \<lparr>ts_Open = True, ts_Entries = es, ts_End = None\<rparr>"

definition ArchiveTo :: "'w Backend \<Rightarrow> archive_codec \<Rightarrow> (string \<Rightarrow> storage_error option) \<Rightarrow> (string \<Rightarrow> node \<Rightarrow> bool) \<Rightarrow>
    string \<Rightarrow> string \<Rightarrow> node \<Rightarrow> 'w \<Rightarrow> (storage_error + ObjectInfo) \<times> 'w" where
  "ArchiveTo be codec ctx ex key root t w =
     (case WriteArchive ctx ex t root of
        (writeErr, entries) \<Rightarrow>
          (case be_Put be key (cc_Pack codec entries writeErr, writeErr) ''application/zstd'' w of
             (Inl e, w1) \<Rightarrow> (Inl e, w1)
           | (Inr info, w1) \<Rightarrow> (case writeErr of Some e \<Rightarrow> (Inl e, w1) | None \<Rightarrow> (Inr info, w1))))"

definition RestoreFrom :: "'w Backend \<Rightarrow> archive_codec \<Rightarrow> (string \<Rightarrow> string) \<Rightarrow> (nat \<Rightarrow> storage_error option) \<Rightarrow>
    string \<Rightarrow> string \<Rightarrow> FileEntry \<Rightarrow> ExtractOptions \<Rightarrow> node \<Rightarrow> 'w \<Rightarrow> storage_error option \<times> node \<times> 'w" where
  "RestoreFrom be codec sha ctx key root want opts t w =
     (case be_Get be key w of
        (Inl e, w1) \<Rightarrow> (Some e, t, w1)
      | (Inr ((c, broken), info), w1) \<Rightarrow>
          (case ReadArchive ctx (cc_Unpack codec (c, broken)) root opts t of
             (Some e, n, t1) \<Rightarrow> (Some e, t1, w1)
           | (None, n, t1) \<Rightarrow>
               (case broken of
                  Some e \<Rightarrow> (Some (OpError ''Get'' ''archive'' key ErrUnreachable (Some e)), t1, w1)
                | None \<Rightarrow> (vr_Verify sha ''Get'' key want (vr_Read c newVerifyingReader), t1, w1))))"

context storage_backend
begin

lemma ArchiveTo_ok:
  assumes "ArchiveTo be codec ctx ex key root t w = (Inr info, w')"
  shows "\<exists>entries. WriteArchive ctx ex t root = (None, entries) \<and>
    objects w' = (objects w)(key \<mapsto> cc_Pack codec entries None) \<and>
    oi_Size info = int (length (cc_Pack codec entries None)) \<and> oi_Size info < 2 ^ 63 \<and> oi_SHA256 info = sha (cc_Pack codec entries None)"
proof -
  obtain err entries where "WriteArchive ctx ex t root = (err, entries)" by force
  then show ?thesis
    using assms by (auto simp: ArchiveTo_def split: prod.splits sum.splits option.splits dest!: put_ok)
qed

lemma ArchiveTo_only:
  assumes "ArchiveTo be codec ctx ex key root t w = (r, w')"
  shows "objects w' = objects w \<or> (\<exists>c. objects w' = (objects w)(key \<mapsto> c))"
  using assms unfolding ArchiveTo_def
  by (auto split: prod.splits sum.splits option.splits dest!: put_ok put_failed)

lemma RestoreFrom_keeps: "RestoreFrom be codec sh ctx key root want opts t w = (r, t', w') \<Longrightarrow> objects w' = objects w"
  by (auto simp: RestoreFrom_def split: prod.splits sum.splits option.splits dest!: get_keeps)

lemma RestoreFrom_ok:
  assumes "RestoreFrom be codec sha ctx key root want opts t w = (None, t', w')"
  shows "\<exists>c n. objects w key = Some c \<and> int (length c) = fe_Size want \<and> sha c = fe_SHA256 want \<and>
    ReadArchive ctx (cc_Unpack codec (c, None)) root opts t = (None, n, t')"
proof -
  obtain c broken info w1 where g: "be_Get be key w = (Inr ((c, broken), info), w1)"
    using assms by (auto simp: RestoreFrom_def split: prod.splits sum.splits)
  obtain err n t1 where rd: "ReadArchive ctx (cc_Unpack codec (c, broken)) root opts t = (err, n, t1)" by (metis surj_pair)
  have "broken = None" "err = None" "t' = t1" "int (length c) = fe_Size want" "sha c = fe_SHA256 want"
    using assms g rd by (auto simp: RestoreFrom_def vr_Verify_def vr_Read_def newVerifyingReader_def split: option.splits if_splits)
  then show ?thesis using get_ok g rd by blast
qed

end

subsection \<open>A reference backend\<close>

text \<open>An association list that never fails; the digest is a constant, which the properties do not mind.\<close>

definition ref_info :: "string \<Rightarrow> string \<Rightarrow> string \<Rightarrow> ObjectInfo" where
  "ref_info key c digest = \<lparr>oi_Key = key, oi_Size = int (length c), oi_SHA256 = digest, oi_ModTime = 0\<rparr>"

definition ref_backend :: "(string \<Rightarrow> string) \<Rightarrow> (string \<times> string) list Backend" where
  "ref_backend sha = \<lparr>
     be_Put = (\<lambda>key (c, e) ct w.
       case e of
         Some err \<Rightarrow> (Inl err, w)
       | None \<Rightarrow> if 2 ^ 63 \<le> int (length c) then (Inl (OpError ''Put'' ''ref'' key ErrUnreachable None), w)
                 else (Inr (ref_info key c (sha c)), AList.update key c w)),
     be_Get = (\<lambda>key w. case map_of w key of
         None \<Rightarrow> (Inl (OpError ''Get'' ''ref'' key ErrNotFound None), w)
       | Some c \<Rightarrow> (Inr ((c, None), ref_info key c []), w)),
     be_Stat = (\<lambda>key w. case map_of w key of
         None \<Rightarrow> (Inl (OpError ''Stat'' ''ref'' key ErrNotFound None), w)
       | Some c \<Rightarrow> (Inr (ref_info key c []), w)),
     be_List = (\<lambda>prefix w.
       (Inr (map (\<lambda>key. ref_info key (the (map_of w key)) []) (sort (remdups (filter (\<lambda>key. HasPrefix key prefix) (map fst w))))), w)),
     be_Delete = (\<lambda>key w. (None, AList.delete key w)),
     be_DeletePrefix = (\<lambda>prefix w.
       if prefix = [] then (Inl (OpError ''DeletePrefix'' ''ref'' prefix ErrInvalid None), w)
       else (Inr (int (length (filter (\<lambda>(key, c). HasPrefix key prefix) w))), filter (\<lambda>(key, c). \<not> HasPrefix key prefix) w))\<rparr>"

lemma map_of_sweep: "map_of (filter (\<lambda>(key, c). \<not> HasPrefix key prefix) w) key = (if HasPrefix key prefix then None else map_of w key)"
  by (induction w) auto

lemma sorted_keys: "sorted_wrt (<) (sort (remdups xs))" for xs :: "string list"
  by (simp add: strict_sorted_iff)

interpretation ref_backend: storage_backend "ref_backend sha" map_of sha
proof
  fix prefix infos and w w' :: "(string \<times> string) list"
  assume "be_List (ref_backend sha) prefix w = (Inr infos, w')"
  then have "map oi_Key infos = sort (remdups (filter (\<lambda>key. HasPrefix key prefix) (map fst w)))"
    by (auto simp: ref_backend_def ref_info_def comp_def)
  moreover have "{key. HasPrefix key prefix \<and> key \<in> fst ` set w} = {key \<in> dom (map_of w). HasPrefix key prefix}"
    by (auto simp: dom_map_of_conv_image_fst)
  ultimately show "sorted_wrt (<) (map oi_Key infos) \<and> set (map oi_Key infos) = {key \<in> dom (map_of w). HasPrefix key prefix}"
    using sorted_keys by (auto simp: dom_map_of_conv_image_fst)
qed (auto simp: ref_backend_def ref_info_def update_conv delete_conv map_of_sweep IsInvalid_def IsNotFound_def
      fun_upd_def split: option.splits if_splits prod.splits)

subsection \<open>A reference codec\<close>

definition type_code :: "tar_type \<Rightarrow> int" where
  "type_code ty = (case ty of TypeReg \<Rightarrow> 0 | TypeDir \<Rightarrow> 1 | TypeSymlink \<Rightarrow> 2 | TypeOther \<Rightarrow> 3)"

definition code_type :: "int \<Rightarrow> tar_type" where
  "code_type n = (if n = 0 then TypeReg else if n = 1 then TypeDir else if n = 2 then TypeSymlink else TypeOther)"

definition entry_json :: "tar_entry \<Rightarrow> json_value" where
  "entry_json e = JArr [JStr (te_Name e), JNum (type_code (te_Type e)), JStr (te_Linkname e), JNum (int (te_Mode e)),
     JStr (te_Data e), JBool (te_Broken e)]"

definition json_entry :: "json_value \<Rightarrow> tar_entry" where
  "json_entry v =
     (case v of
        JArr [JStr n, JNum ty, JStr l, JNum m, JStr d, JBool b] \<Rightarrow>
          \<lparr>te_Name = n, te_Type = code_type ty, te_Linkname = l, te_Mode = nat m, te_Data = d, te_Broken = b\<rparr>
      | _ \<Rightarrow> \<lparr>te_Name = [], te_Type = TypeOther, te_Linkname = [], te_Mode = 0, te_Data = [], te_Broken = False\<rparr>)"

lemma json_entry_json: "json_entry (entry_json e) = e"
  by (cases "te_Type e") (simp_all add: json_entry_def entry_json_def type_code_def code_type_def)

definition ref_codec :: archive_codec where
  "ref_codec = \<lparr>
     cc_Pack = (\<lambda>es err. print_json (JArr (map entry_json es))),
     cc_Unpack = (\<lambda>(c, broken).
       case scan_json (length c) c of
         Some (JArr vs, _) \<Rightarrow> \<lparr>ts_Open = True, ts_Entries = map json_entry vs, ts_End = broken\<rparr>
       | _ \<Rightarrow> \<lparr>ts_Open = False, ts_Entries = [], ts_End = None\<rparr>)\<rparr>"

interpretation ref_codec: archive_codec_laws ref_codec
proof
  fix es
  have "scan_json (length (print_json (JArr (map entry_json es)))) (print_json (JArr (map entry_json es))) = Some (JArr (map entry_json es), [])"
    using scan_print_text(1) [of "JArr (map entry_json es)" "length (print_json (JArr (map entry_json es)))" "[]"] by simp
  then show "cc_Unpack ref_codec (cc_Pack ref_codec es None, None) = \<lparr>ts_Open = True, ts_Entries = es, ts_End = None\<rparr>"
    by (simp add: ref_codec_def comp_def json_entry_json del: print_json.simps)
qed

end
