(* ===== verification/Sidecar_Markers.thy ===== *)
theory Sidecar_Markers
  imports Storage_Backend Run_Records
begin

section \<open>Markers in the workspace\<close>

text \<open>
  \<^verbatim>\<open>marker.go\<close>, \<^verbatim>\<open>warmmarker.go\<close>, \<^verbatim>\<open>wakemarker.go\<close>, \<^verbatim>\<open>gitstate.go\<close>, \<^verbatim>\<open>purge.go\<close> and the sentinel of \<^verbatim>\<open>restore.go\<close> in
  \<^verbatim>\<open>src/operator/internal/sandboxctl\<close>: what a freeze and a restore leave in the directory \<^verbatim>\<open>.sandbox\<close> of a
  workspace, and how the marker of a warm cache is trusted. A step on files returns its error
  and the tree after it, since what was written before an error stays. The function \<open>quote\<close>
  stands for the verb \<^verbatim>\<open>%q\<close>.
\<close>

subsection \<open>Steps on files\<close>

definition fs_error :: "string \<Rightarrow> os_error \<Rightarrow> storage_error" where
  "fs_error msg e = Errorf msg (Foreign ''os'')"

definition fs_try :: "string \<Rightarrow> os_error + node \<Rightarrow> node \<Rightarrow> (node \<Rightarrow> storage_error option \<times> node) \<Rightarrow> storage_error option \<times> node" where
  "fs_try msg r t k = (case r of Inl e \<Rightarrow> (Some (fs_error msg e), t) | Inr t1 \<Rightarrow> k t1)"

definition markerDirName :: string where "markerDirName = ''.sandbox''"
definition markerJSONName :: string where "markerJSONName = ''last-freeze.json''"
definition markerMarkdownName :: string where "markerMarkdownName = ''RESUME.md''"
definition markerDirPerm :: nat where "markerDirPerm = 488"
definition markerFilePerm :: nat where "markerFilePerm = 416"

subsection \<open>The teardown marker\<close>

text \<open>A nil slice is \<open>None\<close>.\<close>

record TeardownReport =
  tr_Engine :: string
  tr_Containers :: "string list option"
  tr_Pods :: "string list option"
  tr_Note :: string

record Destroyed =
  ds_Containers :: "string list option"
  ds_Pods :: "string list option"
  ds_ImageLayerCache :: bool
  ds_Notes :: "string list option"

record TeardownMarker =
  tm_SchemaVersion :: int
  tm_Seq :: int
  tm_FrozenAt :: time
  tm_Trigger :: string
  tm_Reason :: string
  tm_Engine :: string
  tm_Destroyed :: Destroyed
  tm_Preserved :: "string list option"
  tm_SnapshotURI :: string

definition zero_Destroyed :: Destroyed where
  "zero_Destroyed = \<lparr>ds_Containers = None, ds_Pods = None, ds_ImageLayerCache = False, ds_Notes = None\<rparr>"

definition zero_TeardownMarker :: TeardownMarker where
  "zero_TeardownMarker = \<lparr>tm_SchemaVersion = 0, tm_Seq = 0, tm_FrozenAt = zero_time, tm_Trigger = [], tm_Reason = [],
     tm_Engine = [], tm_Destroyed = zero_Destroyed, tm_Preserved = None, tm_SnapshotURI = []\<rparr>"

text \<open>\<^verbatim>\<open>json.Unmarshal\<close> skips the members a struct has no field for.\<close>

fun decode_known :: "'a jfield list \<Rightarrow> (string \<times> json_value) list \<Rightarrow> 'a \<Rightarrow> storage_error + 'a" where
  "decode_known fs [] a = Inr a"
| "decode_known fs ((k, v) # kvs) a =
     (case lookup_field fs k of
        None \<Rightarrow> decode_known fs kvs a
      | Some f \<Rightarrow> (case jf_Dec f v a of Inl e \<Rightarrow> Inl e | Inr b \<Rightarrow> decode_known fs kvs b))"

definition unmarshal_struct :: "'a jfield list \<Rightarrow> json_value \<Rightarrow> 'a \<Rightarrow> storage_error + 'a" where
  "unmarshal_struct fs v a =
     (case v of JNull \<Rightarrow> Inr a | JObj kvs \<Rightarrow> decode_known fs kvs a | _ \<Rightarrow> bad_type)"

definition encode_string :: "string \<Rightarrow> storage_error + json_value" where
  "encode_string s = Inr (JStr s)"

definition decode_string :: "json_value \<Rightarrow> string \<Rightarrow> storage_error + string" where
  "decode_string v old = (case v of JNull \<Rightarrow> Inr old | JStr s \<Rightarrow> Inr s | _ \<Rightarrow> bad_type)"

definition strings_field :: "string \<Rightarrow> ('a \<Rightarrow> string list option) \<Rightarrow> (string list option \<Rightarrow> 'a \<Rightarrow> 'a) \<Rightarrow> 'a jfield" where
  "strings_field name get upd =
     sub_field name get upd (encode_ptr (encode_list encode_string)) (decode_ptr [] (decode_list [] decode_string)) (\<lambda>_. False)"

definition Destroyed_fields :: "Destroyed jfield list" where
  "Destroyed_fields =
     [strings_field ''containers'' ds_Containers (\<lambda>x. ds_Containers_update (\<lambda>_. x)),
      strings_field ''pods'' ds_Pods (\<lambda>x. ds_Pods_update (\<lambda>_. x)),
      bool_field ''imageLayerCache'' False ds_ImageLayerCache (\<lambda>b. ds_ImageLayerCache_update (\<lambda>_. b)),
      strings_field ''notes'' ds_Notes (\<lambda>x. ds_Notes_update (\<lambda>_. x))]"

definition TeardownMarker_fields :: "'r json_lib \<Rightarrow> TeardownMarker jfield list" where
  "TeardownMarker_fields lib =
     [int_field ''schemaVersion'' False 64 tm_SchemaVersion (\<lambda>n. tm_SchemaVersion_update (\<lambda>_. n)),
      int_field ''seq'' False 64 tm_Seq (\<lambda>n. tm_Seq_update (\<lambda>_. n)),
      sub_field ''frozenAt'' tm_FrozenAt (\<lambda>t. tm_FrozenAt_update (\<lambda>_. t)) (encode_time lib) (decode_time lib) (\<lambda>_. False),
      str_field ''trigger'' False tm_Trigger (\<lambda>s. tm_Trigger_update (\<lambda>_. s)),
      str_field ''reason'' False tm_Reason (\<lambda>s. tm_Reason_update (\<lambda>_. s)),
      str_field ''engine'' False tm_Engine (\<lambda>s. tm_Engine_update (\<lambda>_. s)),
      sub_field ''destroyed'' tm_Destroyed (\<lambda>d. tm_Destroyed_update (\<lambda>_. d))
        (encode_struct Destroyed_fields) (unmarshal_struct Destroyed_fields) (\<lambda>_. False),
      strings_field ''preserved'' tm_Preserved (\<lambda>x. tm_Preserved_update (\<lambda>_. x)),
      str_field ''snapshotURI'' False tm_SnapshotURI (\<lambda>s. tm_SnapshotURI_update (\<lambda>_. s))]"

definition TeardownMarker_Marshal :: "'r json_lib \<Rightarrow> TeardownMarker \<Rightarrow> storage_error + 'r" where
  "TeardownMarker_Marshal lib m =
     (case encode_struct (TeardownMarker_fields lib) m of
        Inl e \<Rightarrow> Inl (Errorf ''sandboxctl: marshaling teardown marker'' e)
      | Inr v \<Rightarrow> Inr (Print lib v))"

abbreviation nl :: string where "nl \<equiv> [char_of (10::nat)]"

definition RenderMarkdown :: "(string \<Rightarrow> string) \<Rightarrow> TeardownMarker \<Rightarrow> string" where
  "RenderMarkdown quote m =
     (let d = tm_Destroyed m; slice = (\<lambda>x. case x of None \<Rightarrow> [] | Some ss \<Rightarrow> ss) in
      ''# This environment was frozen'' @ nl @ nl @
      ''Snapshot seq '' @ decimal_int (tm_Seq m) @ '', taken '' @ format_RFC3339 (tm_FrozenAt m) @ '' (trigger: '' @ tm_Trigger m @ '').'' @ nl @ nl @
      (if tm_Reason m \<noteq> [] then ''Reason: '' @ tm_Reason m @ nl @ nl else []) @
      ''## What was destroyed'' @ nl @ nl @
      (if slice (ds_Containers d) = [] then ''- No workload containers were running (engine: '' @ tm_Engine m @ '').'' @ nl
       else concat (map (\<lambda>c. ''- Container '' @ quote c @ '' was stopped and removed.'' @ nl) (slice (ds_Containers d)))) @
      (if slice (ds_Pods d) \<noteq> [] then ''Pods:'' @ nl @ concat (map (\<lambda>p. ''  - '' @ p @ nl) (slice (ds_Pods d))) else []) @
      (if ds_ImageLayerCache d then ''- The container image/layer cache was destroyed (never snapshotted, by design).'' @ nl else []) @
      ''- Everything outside /workspace and the agent home: installed packages, /tmp, background processes, listening ports, environment mutations.'' @ nl @
      concat (map (\<lambda>n. ''- '' @ n @ nl) (slice (ds_Notes d))) @
      nl @ ''## What survived'' @ nl @ nl @
      (if slice (tm_Preserved m) = [] then
         ''- /workspace in full (including .git, .claude/, and this marker).'' @ nl @ ''- The session transcript.'' @ nl
       else concat (map (\<lambda>p. ''- '' @ p @ nl) (slice (tm_Preserved m)))) @
      nl @ ''## What to do'' @ nl @ nl @
      ''Re-create any service you need (containers, background processes, listening ports) before relying on it. Do not assume anything outside /workspace is still there.'' @ nl)"

definition WriteMarkers :: "string json_lib \<Rightarrow> (string \<Rightarrow> string) \<Rightarrow> string \<Rightarrow> string \<Rightarrow> TeardownMarker \<Rightarrow> node \<Rightarrow> storage_error option \<times> node" where
  "WriteMarkers lib quote workspaceRoot agentHome m t =
     (case TeardownMarker_Marshal lib m of
        Inl e \<Rightarrow> (Some e, t)
      | Inr jsonBytes \<Rightarrow>
          (let dir = path_Join [workspaceRoot, markerDirName] in
           fs_try ''sandboxctl: creating marker directory'' (os_MkdirAll t (path_segments dir) markerDirPerm) t (\<lambda>t.
           fs_try ''sandboxctl: writing last-freeze.json'' (os_WriteFile t (path_Join [dir, markerJSONName]) jsonBytes markerFilePerm) t (\<lambda>t.
           fs_try ''sandboxctl: writing RESUME.md'' (os_WriteFile t (path_Join [dir, markerMarkdownName]) (RenderMarkdown quote m) markerFilePerm) t (\<lambda>t.
           if agentHome = [] then (None, t)
           else
             fs_try ''sandboxctl: creating agent home'' (os_MkdirAll t (path_segments agentHome) markerDirPerm) t (\<lambda>t.
             fs_try ''sandboxctl: writing agent-home last-freeze.json'' (os_WriteFile t (path_Join [agentHome, markerJSONName]) jsonBytes markerFilePerm) t (\<lambda>t.
             (None, t))))))))"

definition readTeardownMarkerSeq :: "string json_lib \<Rightarrow> string \<Rightarrow> node \<Rightarrow> int \<times> bool" where
  "readTeardownMarkerSeq lib workspaceRoot t =
     (case os_ReadFile t (path_Join [workspaceRoot, markerDirName, markerJSONName]) of
        Inl e \<Rightarrow> (0, False)
      | Inr b \<Rightarrow>
          (case Scan lib b of
             Inl e \<Rightarrow> (0, False)
           | Inr v \<Rightarrow>
               (case unmarshal_struct (TeardownMarker_fields lib) v zero_TeardownMarker of
                  Inl e \<Rightarrow> (0, False)
                | Inr m \<Rightarrow> (tm_Seq m, True))))"

subsection \<open>The warm-cache marker\<close>

record WarmMarker =
  wm_SchemaVersion :: int
  wm_EnvUID :: string
  wm_Seq :: int
  wm_SnapshotID :: string
  wm_Root :: string
  wm_ManifestSHA256 :: string
  wm_Files :: "FileEntry list"
  wm_WrittenAt :: time
  wm_WrittenBy :: string

definition WarmMarkerSchemaVersion :: int where "WarmMarkerSchemaVersion = 1"
definition unreadableWarmMarkerSchemaVersion :: int where "unreadableWarmMarkerSchemaVersion = -1"

definition zero_WarmMarker :: WarmMarker where
  "zero_WarmMarker = \<lparr>wm_SchemaVersion = 0, wm_EnvUID = [], wm_Seq = 0, wm_SnapshotID = [], wm_Root = [],
     wm_ManifestSHA256 = [], wm_Files = [], wm_WrittenAt = zero_time, wm_WrittenBy = []\<rparr>"

definition WarmMarker_fields :: "'r json_lib \<Rightarrow> WarmMarker jfield list" where
  "WarmMarker_fields lib =
     [int_field ''schemaVersion'' False 64 wm_SchemaVersion (\<lambda>n. wm_SchemaVersion_update (\<lambda>_. n)),
      str_field ''envUID'' False wm_EnvUID (\<lambda>s. wm_EnvUID_update (\<lambda>_. s)),
      int_field ''seq'' False 64 wm_Seq (\<lambda>n. wm_Seq_update (\<lambda>_. n)),
      str_field ''snapshotID'' False wm_SnapshotID (\<lambda>s. wm_SnapshotID_update (\<lambda>_. s)),
      str_field ''root'' False wm_Root (\<lambda>s. wm_Root_update (\<lambda>_. s)),
      str_field ''manifestSHA256'' False wm_ManifestSHA256 (\<lambda>s. wm_ManifestSHA256_update (\<lambda>_. s)),
      sub_field ''files'' wm_Files (\<lambda>fs. wm_Files_update (\<lambda>_. fs))
        (encode_list (encode_struct FileEntry_fields)) (decode_list zero_FileEntry (decode_struct FileEntry_fields)) (\<lambda>_. False),
      sub_field ''writtenAt'' wm_WrittenAt (\<lambda>t. wm_WrittenAt_update (\<lambda>_. t)) (encode_time lib) (decode_time lib) (\<lambda>_. False),
      str_field ''writtenBy'' False wm_WrittenBy (\<lambda>s. wm_WrittenBy_update (\<lambda>_. s))]"

definition WarmMarker_Marshal :: "'r json_lib \<Rightarrow> WarmMarker \<Rightarrow> storage_error + 'r" where
  "WarmMarker_Marshal lib m =
     (case encode_struct (WarmMarker_fields lib) m of
        Inl e \<Rightarrow> Inl (Errorf ''sandboxctl: marshaling warm marker'' e)
      | Inr v \<Rightarrow> Inr (Print lib v))"

definition ParseWarmMarker :: "'r json_lib \<Rightarrow> 'r \<Rightarrow> storage_error + WarmMarker" where
  "ParseWarmMarker lib r =
     (case Scan lib r of
        Inl e \<Rightarrow> Inl (Errorf ''sandboxctl: parsing warm marker'' e)
      | Inr v \<Rightarrow>
          (case decode_struct (WarmMarker_fields lib) v zero_WarmMarker of
             Inl e \<Rightarrow> Inl (Errorf ''sandboxctl: parsing warm marker'' e)
           | Inr m \<Rightarrow> Inr m))"

definition warmMarkerPath :: "string \<Rightarrow> string" where
  "warmMarkerPath workspaceRoot = path_Join [workspaceRoot, markerDirName, warmMarkerFileName]"

definition WriteWarmMarker :: "string json_lib \<Rightarrow> string \<Rightarrow> WarmMarker \<Rightarrow> node \<Rightarrow> storage_error option \<times> node" where
  "WriteWarmMarker lib workspaceRoot m t =
     (case WarmMarker_Marshal lib m of
        Inl e \<Rightarrow> (Some e, t)
      | Inr b \<Rightarrow>
          (let dir = path_Join [workspaceRoot, markerDirName] in
           fs_try ''sandboxctl: creating marker directory'' (os_MkdirAll t (path_segments dir) markerDirPerm) t (\<lambda>t.
           fs_try ''sandboxctl: writing warm-cache.json'' (os_WriteFile t (warmMarkerPath workspaceRoot) b markerFilePerm) t (\<lambda>t.
           (None, t)))))"

text \<open>\<open>Inl None\<close>: the file is not there.\<close>

definition ReadWarmMarker :: "string json_lib \<Rightarrow> string \<Rightarrow> node \<Rightarrow> storage_error option + WarmMarker" where
  "ReadWarmMarker lib workspaceRoot t =
     (case os_ReadFile t (warmMarkerPath workspaceRoot) of
        Inl e \<Rightarrow> Inl (if e = ENOENT then None else Some (Foreign ''os''))
      | Inr b \<Rightarrow> (case ParseWarmMarker lib b of Inl e \<Rightarrow> Inl (Some e) | Inr m \<Rightarrow> Inr m))"

definition RemoveWarmMarker :: "string \<Rightarrow> node \<Rightarrow> storage_error option \<times> node" where
  "RemoveWarmMarker workspaceRoot t =
     (case os_Remove t (warmMarkerPath workspaceRoot) of
        Inl e \<Rightarrow> (if e = ENOENT then None else Some (fs_error ''sandboxctl: removing warm marker'' e), t)
      | Inr t1 \<Rightarrow> (None, t1))"

definition loadWarmMarker :: "string json_lib \<Rightarrow> string \<Rightarrow> node \<Rightarrow> WarmMarker" where
  "loadWarmMarker lib workspaceRoot t =
     (case ReadWarmMarker lib workspaceRoot t of
        Inr m \<Rightarrow> m
      | Inl None \<Rightarrow> zero_WarmMarker
      | Inl (Some e) \<Rightarrow> zero_WarmMarker\<lparr>wm_SchemaVersion := unreadableWarmMarkerSchemaVersion\<rparr>)"

definition WarmMissNone :: string where "WarmMissNone = ''''"
definition WarmMissNoMarker :: string where "WarmMissNoMarker = ''NoMarker''"
definition WarmMissMarkerUnreadable :: string where "WarmMissMarkerUnreadable = ''MarkerUnreadable''"
definition WarmMissSchemaVersion :: string where "WarmMissSchemaVersion = ''SchemaVersion''"
definition WarmMissEnvUIDMismatch :: string where "WarmMissEnvUIDMismatch = ''EnvUIDMismatch''"
definition WarmMissSnapshotIDMismatch :: string where "WarmMissSnapshotIDMismatch = ''SnapshotIDMismatch''"
definition WarmMissManifestDigestMismatch :: string where "WarmMissManifestDigestMismatch = ''ManifestDigestMismatch''"
definition WarmMissFileSetMismatch :: string where "WarmMissFileSetMismatch = ''FileSetMismatch''"
definition WarmMissTeardownMarkerMismatch :: string where "WarmMissTeardownMarkerMismatch = ''TeardownMarkerMismatch''"

text \<open>The index keeps the last file of a name, as assigning to a Go map does.\<close>

definition sameFileSet :: "FileEntry list \<Rightarrow> FileEntry list \<Rightarrow> bool" where
  "sameFileSet got want \<longleftrightarrow>
     length got = length want \<and>
     (let index = map_of (rev (map (\<lambda>f. (fe_Name f, f)) want)) in
      list_all (\<lambda>g. case index (fe_Name g) of None \<Rightarrow> False | Some w \<Rightarrow> fe_Size w = fe_Size g \<and> fe_SHA256 w = fe_SHA256 g) got)"

definition ValidateWarmMarker :: "WarmMarker \<Rightarrow> string \<Rightarrow> string \<Rightarrow> int \<Rightarrow> string \<Rightarrow> FileEntry list \<Rightarrow> int \<Rightarrow> bool \<Rightarrow> bool \<times> string" where
  "ValidateWarmMarker m envUID wantID wantSeq manifestSHA256 wantFiles teardownSeq teardownOK =
     (if wm_SchemaVersion m = unreadableWarmMarkerSchemaVersion then (False, WarmMissMarkerUnreadable)
      else if wm_SchemaVersion m = 0 \<and> wm_EnvUID m = [] \<and> wm_SnapshotID m = [] then (False, WarmMissNoMarker)
      else if wm_SchemaVersion m \<noteq> WarmMarkerSchemaVersion then (False, WarmMissSchemaVersion)
      else if wm_EnvUID m \<noteq> envUID then (False, WarmMissEnvUIDMismatch)
      else if wm_SnapshotID m \<noteq> wantID \<or> wm_Seq m \<noteq> wantSeq then (False, WarmMissSnapshotIDMismatch)
      else if wm_ManifestSHA256 m \<noteq> manifestSHA256 then (False, WarmMissManifestDigestMismatch)
      else if \<not> sameFileSet (wm_Files m) wantFiles then (False, WarmMissFileSetMismatch)
      else if \<not> teardownOK \<or> teardownSeq \<noteq> wantSeq then (False, WarmMissTeardownMarkerMismatch)
      else (True, WarmMissNone))"

subsection \<open>The wake marker\<close>

record WakeMarker =
  km_SchemaVersion :: int
  km_Seq :: int
  km_SnapshotID :: string
  km_Source :: string
  km_WarmMissReason :: string
  km_RestoredAt :: time
  km_BytesDownloaded :: int
  km_SnapshotAgentImage :: string
  km_CurrentAgentImage :: string
  km_SnapshotSpecHash :: string
  km_CurrentSpecHash :: string
  km_SpecChanged :: bool

definition WakeMarkerSchemaVersion :: int where "WakeMarkerSchemaVersion = 1"
definition wakeMarkerFileName :: string where "wakeMarkerFileName = ''last-wake.json''"

definition WakeMarker_fields :: "'r json_lib \<Rightarrow> WakeMarker jfield list" where
  "WakeMarker_fields lib =
     [int_field ''schemaVersion'' False 64 km_SchemaVersion (\<lambda>n. km_SchemaVersion_update (\<lambda>_. n)),
      int_field ''seq'' False 64 km_Seq (\<lambda>n. km_Seq_update (\<lambda>_. n)),
      str_field ''snapshotID'' False km_SnapshotID (\<lambda>s. km_SnapshotID_update (\<lambda>_. s)),
      str_field ''source'' False km_Source (\<lambda>s. km_Source_update (\<lambda>_. s)),
      str_field ''warmMissReason'' True km_WarmMissReason (\<lambda>s. km_WarmMissReason_update (\<lambda>_. s)),
      sub_field ''restoredAt'' km_RestoredAt (\<lambda>t. km_RestoredAt_update (\<lambda>_. t)) (encode_time lib) (decode_time lib) (\<lambda>_. False),
      int_field ''bytesDownloaded'' False 64 km_BytesDownloaded (\<lambda>n. km_BytesDownloaded_update (\<lambda>_. n)),
      str_field ''snapshotAgentImage'' True km_SnapshotAgentImage (\<lambda>s. km_SnapshotAgentImage_update (\<lambda>_. s)),
      str_field ''currentAgentImage'' True km_CurrentAgentImage (\<lambda>s. km_CurrentAgentImage_update (\<lambda>_. s)),
      str_field ''snapshotSpecHash'' True km_SnapshotSpecHash (\<lambda>s. km_SnapshotSpecHash_update (\<lambda>_. s)),
      str_field ''currentSpecHash'' True km_CurrentSpecHash (\<lambda>s. km_CurrentSpecHash_update (\<lambda>_. s)),
      bool_field ''specChanged'' False km_SpecChanged (\<lambda>b. km_SpecChanged_update (\<lambda>_. b))]"

definition WakeMarker_Marshal :: "'r json_lib \<Rightarrow> WakeMarker \<Rightarrow> storage_error + 'r" where
  "WakeMarker_Marshal lib m =
     (case encode_struct (WakeMarker_fields lib) m of
        Inl e \<Rightarrow> Inl (Errorf ''sandboxctl: marshaling wake marker'' e)
      | Inr v \<Rightarrow> Inr (Print lib v))"

definition wakeMarkerPath :: "string \<Rightarrow> string" where
  "wakeMarkerPath workspaceRoot = path_Join [workspaceRoot, markerDirName, wakeMarkerFileName]"

definition WriteWakeMarker :: "string json_lib \<Rightarrow> string \<Rightarrow> WakeMarker \<Rightarrow> node \<Rightarrow> storage_error option \<times> node" where
  "WriteWakeMarker lib workspaceRoot m t =
     (case WakeMarker_Marshal lib m of
        Inl e \<Rightarrow> (Some e, t)
      | Inr b \<Rightarrow>
          (let dir = path_Join [workspaceRoot, markerDirName] in
           fs_try ''sandboxctl: creating marker directory'' (os_MkdirAll t (path_segments dir) markerDirPerm) t (\<lambda>t.
           fs_try ''sandboxctl: writing last-wake.json'' (os_WriteFile t (wakeMarkerPath workspaceRoot) b markerFilePerm) t (\<lambda>t.
           (None, t)))))"

subsection \<open>The sentinel of a restore\<close>

definition restoreInProgressPath :: "string \<Rightarrow> string" where
  "restoreInProgressPath workspaceRoot = path_Join [workspaceRoot, markerDirName, restoreInProgressFileName]"

definition restoreInProgress :: "string \<Rightarrow> node \<Rightarrow> bool" where
  "restoreInProgress workspaceRoot t \<longleftrightarrow> (case os_Stat t (restoreInProgressPath workspaceRoot) of Inr n \<Rightarrow> True | Inl e \<Rightarrow> False)"

definition writeRestoreInProgress :: "string \<Rightarrow> node \<Rightarrow> storage_error option \<times> node" where
  "writeRestoreInProgress workspaceRoot t =
     (let dir = path_Join [workspaceRoot, markerDirName] in
      fs_try ''sandboxctl: creating marker directory'' (os_MkdirAll t (path_segments dir) markerDirPerm) t (\<lambda>t.
      fs_try ''sandboxctl: writing restore-in-progress sentinel'' (os_WriteFile t (restoreInProgressPath workspaceRoot) [] markerFilePerm) t (\<lambda>t.
      (None, t))))"

definition removeRestoreInProgress :: "string \<Rightarrow> node \<Rightarrow> storage_error option \<times> node" where
  "removeRestoreInProgress workspaceRoot t =
     (case os_Remove t (restoreInProgressPath workspaceRoot) of
        Inl e \<Rightarrow> (if e = ENOENT then None else Some (fs_error ''sandboxctl: removing restore-in-progress sentinel'' e), t)
      | Inr t1 \<Rightarrow> (None, t1))"

subsection \<open>Purging a root\<close>

fun purge_entries :: "string \<Rightarrow> string list \<Rightarrow> string list \<Rightarrow> int \<Rightarrow> node \<Rightarrow> (storage_error + int) \<times> node" where
  "purge_entries root keep [] removed t = (Inr removed, t)"
| "purge_entries root keep (name # names) removed t =
     (if name \<in> set keep then purge_entries root keep names removed t
      else case os_RemoveAll t (path_Join [root, name]) of
        Inl e \<Rightarrow> (Inl (fs_error ''sandboxctl: removing'' e), t)
      | Inr t1 \<Rightarrow> purge_entries root keep names (removed + 1) t1)"

definition purgeRoot :: "string \<Rightarrow> string list \<Rightarrow> node \<Rightarrow> (storage_error + int) \<times> node" where
  "purgeRoot root keep t =
     (case os_ReadDir t root of
        Inl e \<Rightarrow> (if e = ENOENT then Inr 0 else Inl (fs_error ''sandboxctl: reading'' e), t)
      | Inr names \<Rightarrow> purge_entries root (''lost+found'' # keep) names 0 t)"

subsection \<open>The git state the agent leaves\<close>

definition gitStateFileName :: string where "gitStateFileName = ''.sandbox/git-state.json''"

definition PullRequestRef_fields :: "PullRequestRef jfield list" where
  "PullRequestRef_fields =
     [str_field ''repo'' False pr_Repo (\<lambda>s. pr_Repo_update (\<lambda>_. s)),
      int_field ''number'' False 32 pr_Number (\<lambda>n. pr_Number_update (\<lambda>_. n))]"

definition GitStateStatus_fields :: "GitStateStatus jfield list" where
  "GitStateStatus_fields =
     [str_field ''branch'' True gs_Branch (\<lambda>s. gs_Branch_update (\<lambda>_. s)),
      str_field ''headSHA'' True gs_HeadSHA (\<lambda>s. gs_HeadSHA_update (\<lambda>_. s)),
      ptr_field ''pullRequest'' gs_PullRequest (\<lambda>p. gs_PullRequest_update (\<lambda>_. p)) \<lparr>pr_Repo = [], pr_Number = 0\<rparr>
        (encode_struct PullRequestRef_fields) (decode_struct PullRequestRef_fields)]"

definition ReadGitStateFile :: "string json_lib \<Rightarrow> string \<Rightarrow> node \<Rightarrow> GitStateStatus option" where
  "ReadGitStateFile lib workspacePath t =
     (case os_ReadFile t (path_Join [workspacePath, gitStateFileName]) of
        Inl e \<Rightarrow> None
      | Inr b \<Rightarrow>
          (case Scan lib b of
             Inl e \<Rightarrow> None
           | Inr v \<Rightarrow>
               (case decode_struct GitStateStatus_fields v \<lparr>gs_Branch = [], gs_HeadSHA = [], gs_PullRequest = None\<rparr> of
                  Inl e \<Rightarrow> None
                | Inr g \<Rightarrow>
                    if gs_HeadSHA g \<noteq> [] \<and> \<not> hex40 (gs_HeadSHA g) then None
                    else case gs_PullRequest g of
                      Some p \<Rightarrow> if pr_Repo p = [] \<or> pr_Number p < 1 then None else Some g
                    | None \<Rightarrow> Some g)))"

end
