(* ===== verification/Freeze_Job.thy ===== *)
theory Freeze_Job
  imports Sidecar_Markers Env_Store "HOL-Library.State_Monad"
begin

section \<open>The freeze job\<close>

text \<open>
  \<^verbatim>\<open>snapshot.go\<close>, \<^verbatim>\<open>retrystep.go\<close> and \<^verbatim>\<open>snapshotconfig.go\<close> of \<^verbatim>\<open>src/operator/internal/sandboxctl\<close>: stop the
  workload containers, write the markers, archive both roots, then the manifest, then the
  pointer to it, then the status. The state is the world outside, a type \<open>'w\<close> that holds the
  backend, the cluster and the clock, and the tree of files. The calls on the world are the
  fields of a hook, as in the struct of the source: its \<^verbatim>\<open>Store\<close>, \<^verbatim>\<open>Backend\<close>, \<^verbatim>\<open>Engine\<close>, \<^verbatim>\<open>Now\<close> and
  \<^verbatim>\<open>Sleep\<close>, and what comes from the standard library, random numbers and the context's state
  during a walk. Time passes and other processes run while a call waits, so a teardown and a
  sleep may change files. Logging is left out.
\<close>

subsection \<open>State and calls\<close>

record 'w job_state =
  js_World :: 'w
  js_Tree :: node

type_synonym ('w, 'a) job = "('w job_state, 'a) state"

record 'w Hook =
  hk_Backend :: "'w Backend"
  hk_RecordSnapshotAttempt :: "SnapshotAttempt \<Rightarrow> time \<Rightarrow> 'w \<Rightarrow> storage_error option \<times> 'w"
  hk_RecordSnapshot :: "SnapshotRecord \<Rightarrow> time \<Rightarrow> 'w \<Rightarrow> storage_error option \<times> 'w"
  hk_RecordRestoreAttempt :: "RestoreAttempt \<Rightarrow> time \<Rightarrow> 'w \<Rightarrow> storage_error option \<times> 'w"
  hk_PatchArchive :: "ArchivePatch \<Rightarrow> 'w \<Rightarrow> storage_error option \<times> 'w"
  hk_Teardown :: "'w job_state \<Rightarrow> (storage_error + TeardownReport) \<times> 'w job_state"
  hk_Sleep :: "duration \<Rightarrow> 'w job_state \<Rightarrow> storage_error option \<times> 'w job_state"
  hk_Now :: "'w \<Rightarrow> time \<times> 'w"
  hk_Rand :: "int \<Rightarrow> 'w \<Rightarrow> int \<times> 'w"
  hk_WalkErr :: "'w \<Rightarrow> string \<Rightarrow> storage_error option"
  hk_ReadErr :: "'w \<Rightarrow> nat \<Rightarrow> storage_error option"
  hk_Json :: "string json_lib"
  hk_Codec :: archive_codec
  hk_Sha :: "string \<Rightarrow> string"
  hk_Quote :: "string \<Rightarrow> string"

definition on_world :: "('w \<Rightarrow> 'a \<times> 'w) \<Rightarrow> ('w, 'a) job" where
  "on_world f = State (\<lambda>s. case f (js_World s) of (x, w) \<Rightarrow> (x, s\<lparr>js_World := w\<rparr>))"

definition on_tree :: "(node \<Rightarrow> 'a \<times> node) \<Rightarrow> ('w, 'a) job" where
  "on_tree f = State (\<lambda>s. case f (js_Tree s) of (x, t) \<Rightarrow> (x, s\<lparr>js_Tree := t\<rparr>))"

definition tree :: "('w, node) job" where "tree = State (\<lambda>s. (js_Tree s, s))"

abbreviation done_with :: "'a \<Rightarrow> ('w, 'a) job" where "done_with \<equiv> State_Monad.return"

record EnvironmentRef =
  er_Namespace :: string
  er_Name :: string
  er_UID :: string

record Snapshot =
  sp_Environment :: EnvironmentRef
  sp_WaitFor :: "WaitForStatus option"
  sp_Result :: "AgentResultStatus option"
  sp_FreezeCount :: "32 word"
  sp_Generation :: int
  sp_Env :: SandboxEnvironment

subsection \<open>Configuration\<close>

record SnapshotConfig =
  sc_Engine :: string
  sc_ClusterID :: string
  sc_SpecHash :: string
  sc_AgentImage :: string
  sc_WorkspacePath :: string
  sc_AgentHomePath :: string
  sc_Backend :: string
  sc_S3Endpoint :: string
  sc_S3Bucket :: string
  sc_S3Region :: string
  sc_S3Prefix :: string
  sc_S3ForcePathStyle :: bool
  sc_CredentialsDir :: string
  sc_QuiesceDelay :: duration
  sc_SnapshotRetries :: int
  sc_SnapshotStepTimeout :: duration

definition defaultSnapshotRetries :: int where "defaultSnapshotRetries = 4"

text \<open>\<open>scheme\<close> is the scheme of a URL that parses.\<close>

definition SnapshotConfig_Validate :: "(string \<Rightarrow> string option) \<Rightarrow> SnapshotConfig \<Rightarrow> string option" where
  "SnapshotConfig_Validate scheme c =
     (if sc_Backend c = [] \<or> sc_Backend c = ''pvc'' then None
      else if sc_Backend c = ''s3'' then
        (if sc_S3Endpoint c = [] then Some ''s3-endpoint: required when snapshot-backend=s3''
         else if scheme (sc_S3Endpoint c) \<noteq> Some ''http'' \<and> scheme (sc_S3Endpoint c) \<noteq> Some ''https''
           then Some ''s3-endpoint: must be a valid http(s):// URL''
         else if sc_S3Bucket c = [] then Some ''s3-bucket: required when snapshot-backend=s3''
         else if sc_SpecHash c = [] then Some ''spec-hash: required when snapshot-backend=s3''
         else if sc_AgentImage c = [] then Some ''agent-image: required when snapshot-backend=s3''
         else if sc_CredentialsDir c = [] then Some ''snapshot-credentials-dir: required when snapshot-backend=s3''
         else if sc_WorkspacePath c = [] then Some ''workspace-path: must not be empty''
         else None)
      else Some ''snapshot-backend: unknown value'')"

definition snapshotLayout :: "SnapshotConfig \<Rightarrow> string \<Rightarrow> string \<Rightarrow> string \<Rightarrow> storage_error + Layout" where
  "snapshotLayout cfg namespace name uid =
     NewLayout (sc_S3Prefix cfg) \<lparr>ClusterID = sc_ClusterID cfg, id_Namespace = namespace, EnvName = name, EnvUID = uid\<rparr>"

subsection \<open>Errors\<close>

definition kind_text :: "error_kind \<Rightarrow> string" where
  "kind_text k = (case k of ErrNotFound \<Rightarrow> ''storage: object not found'' | ErrUnreachable \<Rightarrow> ''storage: backend unreachable''
     | ErrCorrupt \<Rightarrow> ''storage: object failed integrity verification'' | ErrPermission \<Rightarrow> ''storage: permission denied'' | ErrInvalid \<Rightarrow> ''storage: invalid argument'')"

fun err_text :: "storage_error \<Rightarrow> string" where
  "err_text (Kind k) = kind_text k"
| "err_text (Errorf msg e) = msg @ '': '' @ err_text e"
| "err_text (OpError p b key k e) =
     b @ '': '' @ p @ '' '' @ key @ '': '' @ kind_text k @ (case e of None \<Rightarrow> [] | Some e' \<Rightarrow> '': '' @ err_text e')"
| "err_text (Foreign msg) = msg"

definition SnapshotReasonBackendUnreachable :: string where "SnapshotReasonBackendUnreachable = ''BackendUnreachable''"
definition SnapshotReasonBackendUnsupported :: string where "SnapshotReasonBackendUnsupported = ''BackendUnsupported''"
definition SnapshotReasonCredentialsInvalid :: string where "SnapshotReasonCredentialsInvalid = ''CredentialsInvalid''"
definition SnapshotReasonArchiveFailed :: string where "SnapshotReasonArchiveFailed = ''ArchiveFailed''"
definition SnapshotReasonTeardownFailed :: string where "SnapshotReasonTeardownFailed = ''TeardownFailed''"
definition SnapshotReasonInternal :: string where "SnapshotReasonInternal = ''Internal''"
definition SnapshotReasonRestoreInProgress :: string where "SnapshotReasonRestoreInProgress = ''RestoreInProgress''"

definition classifySnapshotErr :: "storage_error \<Rightarrow> string" where
  "classifySnapshotErr e =
     (if IsPermission e then SnapshotReasonCredentialsInvalid
      else if IsUnreachable e then SnapshotReasonBackendUnreachable
      else SnapshotReasonArchiveFailed)"

subsection \<open>Retried steps\<close>

text \<open>
  A step gets the variables its closure captures and returns them with its error. Between two
  attempts comes a delay with jitter; the context's end during the sleep ends the loop. \<open>n\<close> is
  the number of retries left.
\<close>

definition retry_delays :: "duration list" where
  "retry_delays = [1 * Second, 2 * Second, 4 * Second, 8 * Second]"

definition retry_delay :: "nat \<Rightarrow> duration" where
  "retry_delay attempt = (if attempt < length retry_delays then retry_delays ! attempt else last retry_delays)"

definition retry_pause :: "'w Hook \<Rightarrow> nat \<Rightarrow> ('w, storage_error option) job" where
  "retry_pause H attempt = do {
     jitter \<leftarrow> on_world (hk_Rand H (retry_delay attempt div 5));
     State (hk_Sleep H (retry_delay attempt - retry_delay attempt div 10 + jitter)) }"

primrec retry_from :: "'w Hook \<Rightarrow> ('v \<Rightarrow> ('w, storage_error option \<times> 'v) job) \<Rightarrow> nat \<Rightarrow> nat \<Rightarrow> 'v \<Rightarrow> ('w, storage_error option \<times> 'v) job" where
  "retry_from H fn 0 attempt v = fn v"
| "retry_from H fn (Suc n) attempt v = do {
     (err, v) \<leftarrow> fn v;
     case err of
       None \<Rightarrow> done_with (None, v)
     | Some e \<Rightarrow>
         if \<not> IsRetryable e then done_with (Some e, v)
         else do {
           serr \<leftarrow> retry_pause H attempt;
           case serr of
             Some e \<Rightarrow> done_with (Some e, v)
           | None \<Rightarrow> retry_from H fn n (Suc attempt) v } }"

definition retryStep :: "'w Hook \<Rightarrow> int \<Rightarrow> ('v \<Rightarrow> ('w, storage_error option \<times> 'v) job) \<Rightarrow> 'v \<Rightarrow> ('w, storage_error option \<times> 'v) job" where
  "retryStep H retries fn v = retry_from H fn (nat (if retries \<le> 0 then defaultSnapshotRetries else retries)) 0 v"

subsection \<open>Recording\<close>

definition snapshotAttemptMessageMaxBytes :: nat where "snapshotAttemptMessageMaxBytes = 512"

definition recordFailure :: "'w Hook \<Rightarrow> int \<Rightarrow> int \<Rightarrow> string \<Rightarrow> string \<Rightarrow> ('w, unit) job" where
  "recordFailure H n tries reason message = do {
     now \<leftarrow> on_world (hk_Now H);
     _ \<leftarrow> on_world (hk_RecordSnapshotAttempt H \<lparr>xa_Seq = n, xa_Phase = SnapshotAttemptFailed, xa_Attempts = tries,
            xa_Reason = reason, xa_Message = take snapshotAttemptMessageMaxBytes message\<rparr> now);
     done_with () }"

definition recordAttemptCount :: "'w Hook \<Rightarrow> int \<Rightarrow> int \<Rightarrow> ('w, unit) job" where
  "recordAttemptCount H n tries = do {
     now \<leftarrow> on_world (hk_Now H);
     _ \<leftarrow> on_world (hk_RecordSnapshotAttempt H \<lparr>xa_Seq = n, xa_Phase = SnapshotAttemptInProgress, xa_Attempts = tries,
            xa_Reason = [], xa_Message = []\<rparr> now);
     done_with () }"

text \<open>The early returns of \<^verbatim>\<open>Freeze\<close>: the failure is recorded and the wrapped error returned.\<close>

definition give_up :: "'w Hook \<Rightarrow> int \<Rightarrow> int \<Rightarrow> string \<Rightarrow> string \<Rightarrow> storage_error \<Rightarrow> ('w, storage_error option) job" where
  "give_up H n tries reason what e = do {
     _ \<leftarrow> recordFailure H n tries reason (err_text e);
     done_with (Some (Errorf what e)) }"

definition readLatest :: "'w Hook \<Rightarrow> Layout \<Rightarrow> ('w, Latest option) job" where
  "readLatest H layout = do {
     r \<leftarrow> on_world (be_Get (hk_Backend H) (Latest_key layout));
     done_with (case r of
         Inl e \<Rightarrow> None
       | Inr ((c, broken), info) \<Rightarrow> (case ParseLatest (hk_Json H) c of Inl e \<Rightarrow> None | Inr l \<Rightarrow> Some l)) }"

definition snapshotURI :: "string \<Rightarrow> Layout \<Rightarrow> int \<Rightarrow> time \<Rightarrow> string" where
  "snapshotURI bucket layout n at = ''s3://'' @ bucket @ ''/'' @ SnapshotDir layout n at"

definition nonEmptyNotes :: "string \<Rightarrow> string list option" where
  "nonEmptyNotes note = (if note = [] then None else Some [note])"

subsection \<open>Freezing\<close>

text \<open>One attempt to archive a root or to put an object; the captured variables are the count of attempts and the result.\<close>

definition archive_step :: "'w Hook \<Rightarrow> int \<Rightarrow> string \<Rightarrow> string \<Rightarrow> int \<times> ObjectInfo \<Rightarrow> ('w, storage_error option \<times> int \<times> ObjectInfo) job" where
  "archive_step H n key root v = do {
     let tries = fst v + 1;
     _ \<leftarrow> recordAttemptCount H n tries;
     t \<leftarrow> tree;
     r \<leftarrow> on_world (\<lambda>w. ArchiveTo (hk_Backend H) (hk_Codec H) (hk_WalkErr H w) SnapshotExclude key root t w);
     done_with (case r of Inl e \<Rightarrow> (Some e, tries, snd v) | Inr info \<Rightarrow> (None, tries, info)) }"

definition put_step :: "'w Hook \<Rightarrow> int \<Rightarrow> string \<Rightarrow> string \<Rightarrow> int \<times> ObjectInfo \<Rightarrow> ('w, storage_error option \<times> int \<times> ObjectInfo) job" where
  "put_step H n key b v = do {
     let tries = fst v + 1;
     _ \<leftarrow> recordAttemptCount H n tries;
     r \<leftarrow> on_world (be_Put (hk_Backend H) key (b, None) ''application/json'');
     done_with (case r of Inl e \<Rightarrow> (Some e, tries, snd v) | Inr info \<Rightarrow> (None, tries, info)) }"

definition zero_info :: ObjectInfo where
  "zero_info = \<lparr>oi_Key = [], oi_Size = 0, oi_SHA256 = [], oi_ModTime = zero_time\<rparr>"

text \<open>Steps 8 to 11 of the source, from the manifest on.\<close>

definition freeze_manifest :: "SnapshotConfig \<Rightarrow> Snapshot \<Rightarrow> int \<Rightarrow> time \<Rightarrow> ObjectInfo \<Rightarrow> ObjectInfo \<Rightarrow> Manifest" where
  "freeze_manifest cfg s n at wsInfo ahInfo =
     (let mb = AddFile wsInfo FileWorkspace (NewManifestBuilder n at
            \<lparr>so_ClusterID = sc_ClusterID cfg, so_Namespace = er_Namespace (sp_Environment s), so_Name = er_Name (sp_Environment s),
             so_UID = er_UID (sp_Environment s), so_Generation = sp_Generation s\<rparr>
            (sc_SpecHash cfg) (sc_AgentImage cfg))
      in if sc_AgentHomePath cfg \<noteq> [] then AddFile ahInfo FileAgentHome mb else mb)"

definition freeze_record :: "'w Hook \<Rightarrow> SnapshotConfig \<Rightarrow> Snapshot \<Rightarrow> Layout \<Rightarrow> int \<Rightarrow> time \<Rightarrow> time \<Rightarrow> GitStateStatus option \<Rightarrow>
    ObjectInfo \<Rightarrow> ObjectInfo \<Rightarrow> ObjectInfo \<Rightarrow> Manifest \<Rightarrow> ('w, storage_error option) job" where
  "freeze_record H cfg s layout n at start gitState wsInfo ahInfo mInfo m = do {
     writtenAt \<leftarrow> on_world (hk_Now H);
     _ \<leftarrow> on_tree (WriteWarmMarker (hk_Json H) (sc_WorkspacePath cfg)
            \<lparr>wm_SchemaVersion = WarmMarkerSchemaVersion, wm_EnvUID = er_UID (sp_Environment s), wm_Seq = n,
             wm_SnapshotID = SnapshotID n at, wm_Root = ''workspace'', wm_ManifestSHA256 = oi_SHA256 mInfo,
             wm_Files = mf_Files m, wm_WrittenAt = writtenAt, wm_WrittenBy = ''freeze''\<rparr>);
     later \<leftarrow> on_world (hk_Now H);
     at_write \<leftarrow> on_world (hk_Now H);
     r \<leftarrow> on_world (hk_RecordSnapshot H
            \<lparr>xs_Seq = n, xs_URI = snapshotURI (sc_S3Bucket cfg) layout n at, xs_SizeBytes = oi_Size wsInfo + oi_Size ahInfo,
             xs_SHA256 = oi_SHA256 mInfo, xs_TakenAt = at, xs_DurationMillis = Milliseconds (time_Sub later start),
             xs_GitState = gitState\<rparr> at_write);
     done_with (map_option (Errorf ''sandboxctl: recording snapshot'') r) }"

definition freeze_publish :: "'w Hook \<Rightarrow> SnapshotConfig \<Rightarrow> Snapshot \<Rightarrow> Layout \<Rightarrow> int \<Rightarrow> time \<Rightarrow> time \<Rightarrow> GitStateStatus option \<Rightarrow>
    int \<Rightarrow> ObjectInfo \<Rightarrow> ObjectInfo \<Rightarrow> ('w, storage_error option) job" where
  "freeze_publish H cfg s layout n at start gitState tries wsInfo ahInfo =
     (case Build (freeze_manifest cfg s n at wsInfo ahInfo) of
        Inl e \<Rightarrow> give_up H n tries SnapshotReasonInternal ''sandboxctl: building manifest'' e
      | Inr m \<Rightarrow>
          (case Manifest_Marshal (hk_Json H) m of
             Inl e \<Rightarrow> give_up H n tries SnapshotReasonInternal ''sandboxctl: marshaling manifest'' e
           | Inr b \<Rightarrow> do {
               (err, tries, mInfo) \<leftarrow> retryStep H (sc_SnapshotRetries cfg) (put_step H n (Manifest_key layout n at) b) (tries, zero_info);
               case err of
                 Some e \<Rightarrow> give_up H n tries (classifySnapshotErr e) ''sandboxctl: uploading manifest'' e
               | None \<Rightarrow>
                   (case Latest_Marshal (hk_Json H) \<lparr>la_SchemaVersion = ManifestSchemaVersion, la_Seq = n, la_SnapshotID = SnapshotID n at, la_UpdatedAt = at\<rparr> of
                      Inl e \<Rightarrow> give_up H n tries SnapshotReasonInternal ''sandboxctl: marshaling latest pointer'' e
                    | Inr lb \<Rightarrow> do {
                        (err, tries, _) \<leftarrow> retryStep H (sc_SnapshotRetries cfg) (put_step H n (Latest_key layout) lb) (tries, zero_info);
                        case err of
                          Some e \<Rightarrow> give_up H n tries (classifySnapshotErr e) ''sandboxctl: uploading latest pointer'' e
                        | None \<Rightarrow> freeze_record H cfg s layout n at start gitState wsInfo ahInfo mInfo m }) }))"

text \<open>Step 7: both roots.\<close>

definition freeze_archive :: "'w Hook \<Rightarrow> SnapshotConfig \<Rightarrow> Snapshot \<Rightarrow> Layout \<Rightarrow> int \<Rightarrow> time \<Rightarrow> time \<Rightarrow> GitStateStatus option \<Rightarrow> ('w, storage_error option) job" where
  "freeze_archive H cfg s layout n at start gitState = do {
     (err, tries, wsInfo) \<leftarrow> retryStep H (sc_SnapshotRetries cfg)
        (archive_step H n (Workspace layout n at) (sc_WorkspacePath cfg)) (0, zero_info);
     case err of
       Some e \<Rightarrow> give_up H n tries (classifySnapshotErr e) ''sandboxctl: archiving workspace'' e
     | None \<Rightarrow>
         if sc_AgentHomePath cfg = [] then freeze_publish H cfg s layout n at start gitState tries wsInfo zero_info
         else do {
           (err, tries, ahInfo) \<leftarrow> retryStep H (sc_SnapshotRetries cfg)
              (archive_step H n (AgentHome layout n at) (sc_AgentHomePath cfg)) (tries, zero_info);
           case err of
             Some e \<Rightarrow> give_up H n tries (classifySnapshotErr e) ''sandboxctl: archiving agent home'' e
           | None \<Rightarrow> freeze_publish H cfg s layout n at start gitState tries wsInfo ahInfo } }"

definition freeze_marker :: "SnapshotConfig \<Rightarrow> Snapshot \<Rightarrow> Layout \<Rightarrow> int \<Rightarrow> time \<Rightarrow> TeardownReport \<Rightarrow> TeardownMarker" where
  "freeze_marker cfg s layout n at report =
     \<lparr>tm_SchemaVersion = 1, tm_Seq = n, tm_FrozenAt = at,
      tm_Trigger = (if sp_WaitFor s \<noteq> None \<or> sp_Result s \<noteq> None then ''agent-wait'' else ''suspend-or-timeout''),
      tm_Reason = (case sp_WaitFor s of Some waitFor \<Rightarrow> wf_Reason waitFor | None \<Rightarrow> []),
      tm_Engine = tr_Engine report,
      tm_Destroyed = \<lparr>ds_Containers = tr_Containers report, ds_Pods = tr_Pods report, ds_ImageLayerCache = True,
                      ds_Notes = nonEmptyNotes (tr_Note report)\<rparr>,
      tm_Preserved = None,
      tm_SnapshotURI = snapshotURI (sc_S3Bucket cfg) layout n at\<rparr>"

text \<open>Steps 5 and 6: settle, then write the markers both archives hold.\<close>

definition freeze_mark :: "'w Hook \<Rightarrow> SnapshotConfig \<Rightarrow> Snapshot \<Rightarrow> Layout \<Rightarrow> int \<Rightarrow> time \<Rightarrow> time \<Rightarrow> TeardownReport \<Rightarrow> ('w, storage_error option) job" where
  "freeze_mark H cfg s layout n at start report = do {
     serr \<leftarrow> (if 0 < sc_QuiesceDelay cfg then State (hk_Sleep H (sc_QuiesceDelay cfg)) else done_with None);
     case serr of
       Some e \<Rightarrow> give_up H n 0 SnapshotReasonInternal ''sandboxctl: quiesce wait'' e
     | None \<Rightarrow> do {
         merr \<leftarrow> on_tree (WriteMarkers (hk_Json H) (hk_Quote H) (sc_WorkspacePath cfg) (sc_AgentHomePath cfg) (freeze_marker cfg s layout n at report));
         case merr of
           Some e \<Rightarrow> give_up H n 0 SnapshotReasonInternal ''sandboxctl: writing teardown markers'' e
         | None \<Rightarrow> do {
             t \<leftarrow> tree;
             freeze_archive H cfg s layout n at start (ReadGitStateFile (hk_Json H) (sc_WorkspacePath cfg) t) } } }"

definition int64 :: "int \<Rightarrow> int" where
  "int64 x = (x + 2 ^ 63) mod 2 ^ 64 - 2 ^ 63"

definition next_seq :: "int \<Rightarrow> Latest option \<Rightarrow> int" where
  "next_seq n latest = (case latest of Some l \<Rightarrow> if la_Seq l \<ge> n then int64 (la_Seq l + 1) else n | None \<Rightarrow> n)"

definition Freeze :: "'w Hook \<Rightarrow> SnapshotConfig \<Rightarrow> Snapshot \<Rightarrow> ('w, storage_error option) job" where
  "Freeze H cfg s = do {
     t \<leftarrow> tree;
     let freezeCount = sint (sp_FreezeCount s);
     if restoreInProgress (sc_WorkspacePath cfg) t then
       give_up H freezeCount 0 SnapshotReasonRestoreInProgress ''sandboxctl'' (Foreign ''a restore is currently in progress on this workspace'')
     else if sc_Backend cfg = ''pvc'' then
       give_up H freezeCount 0 SnapshotReasonBackendUnsupported ''sandboxctl''
         (Foreign ''storage.backend.type=pvc is not supported by the freeze sidecar: the backend PVC is not mounted into the environment pod (see internal/storage/doc.go gap G5). Use storage.backend.type=s3.'')
     else do {
       clock \<leftarrow> on_world (hk_Now H);
       let at = truncate_second clock;
       start \<leftarrow> on_world (hk_Now H);
       case snapshotLayout cfg (er_Namespace (sp_Environment s)) (er_Name (sp_Environment s)) (er_UID (sp_Environment s)) of
         Inl e \<Rightarrow> give_up H freezeCount 0 SnapshotReasonInternal ''sandboxctl: building snapshot layout'' e
       | Inr layout \<Rightarrow> do {
           latest \<leftarrow> readLatest H layout;
           let n = next_seq freezeCount latest;
           _ \<leftarrow> on_world (hk_RecordSnapshotAttempt H \<lparr>xa_Seq = n, xa_Phase = SnapshotAttemptInProgress, xa_Attempts = 0,
                  xa_Reason = [], xa_Message = []\<rparr> at);
           r \<leftarrow> State (hk_Teardown H);
           case r of
             Inl e \<Rightarrow> give_up H n 0 SnapshotReasonTeardownFailed ''sandboxctl: engine teardown'' e
           | Inr report \<Rightarrow> freeze_mark H cfg s layout n at start report } } }"

end
