(* ===== verification/Freeze_Safety.thy ===== *)
theory Freeze_Safety
  imports Freeze_Job
begin

section \<open>What a freeze leaves behind\<close>

text \<open>
  The pointer \<^verbatim>\<open>latest.json\<close> of an environment never names an incomplete snapshot, whatever fails and
  whenever the job dies: a call that does not come back behaves like one that fails together
  with all later ones. The locale \<open>sidecar_world\<close> extends the backend's contract by what the job
  relies on beside it: nothing but the backend's own calls changes the objects. Programs of the
  state monad are run by \<open>after\<close>, which turns a job into the conditions on its steps.
\<close>

subsection \<open>Running a job\<close>

named_theorems job

definition after :: "('s, 'a) state \<Rightarrow> 's \<Rightarrow> ('a \<Rightarrow> 's \<Rightarrow> bool) \<Rightarrow> bool" where
  "after m s Q = (case run_state m s of (x, s') \<Rightarrow> Q x s')"

lemma after_return [job]: "after (State_Monad.return x) s Q = Q x s"
  by (simp add: after_def State_Monad.return_def)

lemma after_bind [job]: "after (State_Monad.bind m f) s Q = after m s (\<lambda>x s. after (f x) s Q)"
  by (simp add: after_def State_Monad.bind_def split: prod.splits)

lemma after_State: "after (State f) s Q = (case f s of (x, s') \<Rightarrow> Q x s')"
  by (simp add: after_def)

lemma after_world [job]: "after (on_world f) s Q = (case f (js_World s) of (x, w) \<Rightarrow> Q x (s\<lparr>js_World := w\<rparr>))"
  by (simp add: after_def on_world_def split: prod.splits)

lemma after_on_tree [job]: "after (on_tree f) s Q = (case f (js_Tree s) of (x, t) \<Rightarrow> Q x (s\<lparr>js_Tree := t\<rparr>))"
  by (simp add: after_def on_tree_def split: prod.splits)

lemma after_tree [job]: "after tree s Q = Q (js_Tree s) s"
  by (simp add: after_def tree_def)

lemma after_case [job]:
  "after (case p of (x, y) \<Rightarrow> f x y) s Q = (case p of (x, y) \<Rightarrow> after (f x y) s Q)"
  by (cases p) simp

lemma after_mono: "after m s P \<Longrightarrow> (\<And>x s'. P x s' \<Longrightarrow> Q x s') \<Longrightarrow> after m s Q"
  by (auto simp: after_def split: prod.splits)

lemma after_conj: "after m s P \<Longrightarrow> after m s Q \<Longrightarrow> after m s (\<lambda>x s'. P x s' \<and> Q x s')"
  by (auto simp: after_def split: prod.splits)

text \<open>An invariant of one attempt is one of the loop, and what a successful attempt establishes the loop does.\<close>

lemma after_retry_from:
  assumes fn: "\<And>v s. I s \<Longrightarrow> after (fn v) s (\<lambda>(e, v') s'. I s' \<and> (e = None \<longrightarrow> Q v' s'))"
    and pause: "\<And>k s. I s \<Longrightarrow> after (retry_pause H k) s (\<lambda>_. I)"
    and start: "I s"
  shows "after (retry_from H fn n k v) s (\<lambda>(e, v') s'. I s' \<and> (e = None \<longrightarrow> Q v' s'))"
  using start
proof (induction n arbitrary: k v s)
  case 0
  then show ?case using fn by simp
next
  case (Suc n)
  have again: "after (retry_pause H k \<bind> (\<lambda>serr. case serr of None \<Rightarrow> retry_from H fn n (Suc k) v' | Some e \<Rightarrow> done_with (Some e, v'))) s'
      (\<lambda>(e, v') s'. I s' \<and> (e = None \<longrightarrow> Q v' s'))" if "I s'" for v' s'
    unfolding after_bind by (rule after_mono [OF pause [OF that]]) (auto simp: after_return intro: Suc.IH split: option.split)
  show ?case unfolding retry_from.simps after_bind
    by (rule after_mono [OF fn [OF Suc.prems]]) (auto simp: after_return again split: option.splits)
qed

subsection \<open>Keys\<close>

lemma file_name_chars: "\<forall>name \<in> {FileWorkspace, FileAgentHome, FileManifest}. name \<noteq> [] \<and> slash \<notin> set name \<and> valid_utf8 name"
  by code_simp

lemma SnapshotFile_string:
  "Layout_Validate l = None \<Longrightarrow> name \<noteq> [] \<Longrightarrow> SnapshotFile l n at name = Root l @ ''/snapshots/'' @ SnapshotID n at @ ''/'' @ name"
  using Root_nonempty [of l] by (simp add: key_defs join_key_def DirSnapshots_def SnapshotID_def)

lemma SnapshotFileByID_string:
  assumes "Layout_Validate l = None" "name \<noteq> []"
  shows "SnapshotFileByID l i name = Inr key \<longleftrightarrow>
    validateSegment i = None \<and> key = Root l @ ''/snapshots/'' @ i @ ''/'' @ name"
proof (cases "validateSegment i")
  case None
  then have "i \<noteq> []" by (auto simp: validateSegment_def split: if_splits)
  then show ?thesis using assms Root_nonempty [of l] None by (auto simp: SnapshotFileByID_def key_defs join_key_def DirSnapshots_def)
qed (simp add: SnapshotFileByID_def)

lemma Latest_string: "Layout_Validate l = None \<Longrightarrow> Latest_key l = Root l @ ''/latest.json''"
  using Root_nonempty [of l] by (simp add: key_defs join_key_def FileLatest_def)

lemma valid_no_slash: "validateSegment i = None \<Longrightarrow> slash \<notin> set i"
  by (auto simp: validateSegment_None allowed_char_def list_all_iff)

lemma below_inj: "slash \<notin> set i \<Longrightarrow> slash \<notin> set j \<Longrightarrow> i @ slash # a = j @ slash # b \<Longrightarrow> i = j \<and> a = b"
  using split_append [of i a] split_append [of j b] by (metis (no_types) append_same_eq list.inject append_eq_append_conv)

lemma SnapshotID_no_slash: "slash \<notin> set (SnapshotID n at)"
proof -
  have "\<forall>c \<in> set (SnapshotID n at). stamp_char c"
    unfolding SnapshotID_def by (simp add: ball_Un pad_int_stamp format_stamp)
  then show ?thesis using stamp_char_allowed by (auto simp: allowed_char_def)
qed

subsection \<open>Complete snapshots\<close>

text \<open>
  A snapshot is complete when its manifest reads back, has the sequence number the pointer
  says, and every file it lists is there with the size and the digest it lists.
\<close>

definition complete :: "string json_lib \<Rightarrow> (string \<Rightarrow> string) \<Rightarrow> Layout \<Rightarrow> objects \<Rightarrow> int \<Rightarrow> string \<Rightarrow> bool" where
  "complete lib sha l objs n i \<longleftrightarrow>
     (\<exists>mk mb m. SnapshotFileByID l i FileManifest = Inr mk \<and> objs mk = Some mb \<and> ParseManifest lib mb = Inr m \<and> mf_Seq m = n \<and>
        (\<forall>f \<in> set (mf_Files m). \<exists>key c. SnapshotFileByID l i (fe_Name f) = Inr key \<and> objs key = Some c \<and>
           int (length c) = fe_Size f \<and> sha c = fe_SHA256 f))"

definition pointer_ok :: "string json_lib \<Rightarrow> (string \<Rightarrow> string) \<Rightarrow> Layout \<Rightarrow> objects \<Rightarrow> bool" where
  "pointer_ok lib sha l objs \<longleftrightarrow>
     (\<forall>lb p. objs (Latest_key l) = Some lb \<longrightarrow> ParseLatest lib lb = Inr p \<longrightarrow> complete lib sha l objs (la_Seq p) (la_SnapshotID p))"

text \<open>The pointer, if there is one, does not name the snapshot \<open>i\<close>.\<close>

definition names_other :: "string json_lib \<Rightarrow> Layout \<Rightarrow> objects \<Rightarrow> string \<Rightarrow> bool" where
  "names_other lib l objs i \<longleftrightarrow>
     (\<forall>lb p. objs (Latest_key l) = Some lb \<longrightarrow> ParseLatest lib lb = Inr p \<longrightarrow> la_SnapshotID p \<noteq> i)"

lemma latest_not_file: "Layout_Validate l = None \<Longrightarrow> SnapshotFileByID l i name = Inr key \<Longrightarrow> name \<noteq> [] \<Longrightarrow> key \<noteq> Latest_key l"
  by (simp add: SnapshotFileByID_string Latest_string)

lemma complete_other:
  assumes "Layout_Validate l = None" and "complete lib sha l objs n i" and "i \<noteq> SnapshotID k at" and "name \<noteq> []"
  shows "complete lib sha l (objs(SnapshotFile l k at name \<mapsto> c)) n i"
proof -
  obtain mk mb m where m: "SnapshotFileByID l i FileManifest = Inr mk" "objs mk = Some mb" "ParseManifest lib mb = Inr m" "mf_Seq m = n"
    and files: "\<forall>f \<in> set (mf_Files m). \<exists>key c. SnapshotFileByID l i (fe_Name f) = Inr key \<and> objs key = Some c \<and>
        int (length c) = fe_Size f \<and> sha c = fe_SHA256 f"
    using assms(2) unfolding complete_def by blast
  have other: "key \<noteq> SnapshotFile l k at name" if "SnapshotFileByID l i nm = Inr key" "nm \<noteq> []" for key nm
  proof -
    have i: "validateSegment i = None" "key = Root l @ ''/snapshots/'' @ i @ ''/'' @ nm"
      using that SnapshotFileByID_string [OF assms(1) that(2)] by simp_all
    then show ?thesis
      using below_inj [OF valid_no_slash [OF i(1)] SnapshotID_no_slash, of nm k at name] assms(3)
      by (auto simp: SnapshotFile_string [OF assms(1,4)])
  qed
  have names: "\<forall>f \<in> set (mf_Files m). fe_Name f \<noteq> []"
    using ParseManifest_valid [OF m(3)] by (auto simp: Manifest_Validate_def Let_def validateFiles_None split: if_splits)
  have "mk \<noteq> SnapshotFile l k at name" using other [OF m(1)] by (simp add: FileManifest_def)
  then show ?thesis unfolding complete_def using m files names other by (intro exI [of _ mk] exI [of _ mb] exI [of _ m]) fastforce
qed

lemma complete_latest:
  assumes "Layout_Validate l = None" and "complete lib sha l objs n i"
  shows "complete lib sha l (objs(Latest_key l \<mapsto> c)) n i"
proof -
  obtain mk mb m where m: "SnapshotFileByID l i FileManifest = Inr mk" "objs mk = Some mb" "ParseManifest lib mb = Inr m" "mf_Seq m = n"
    and files: "\<forall>f \<in> set (mf_Files m). \<exists>key c. SnapshotFileByID l i (fe_Name f) = Inr key \<and> objs key = Some c \<and>
        int (length c) = fe_Size f \<and> sha c = fe_SHA256 f"
    using assms(2) unfolding complete_def by blast
  note other = latest_not_file [OF assms(1)]
  have names: "\<forall>f \<in> set (mf_Files m). fe_Name f \<noteq> []"
    using ParseManifest_valid [OF m(3)] by (auto simp: Manifest_Validate_def Let_def validateFiles_None split: if_splits)
  have "mk \<noteq> Latest_key l" using other [OF m(1)] by (simp add: FileManifest_def)
  then show ?thesis unfolding complete_def using m files names other by (intro exI [of _ mk] exI [of _ mb] exI [of _ m]) fastforce
qed

lemma pointer_other:
  assumes "Layout_Validate l = None" and "pointer_ok lib sha l objs" and "names_other lib l objs (SnapshotID k at)" and "name \<noteq> []"
  shows "pointer_ok lib sha l (objs(SnapshotFile l k at name \<mapsto> c)) \<and> names_other lib l (objs(SnapshotFile l k at name \<mapsto> c)) (SnapshotID k at)"
proof -
  have ne: "Latest_key l \<noteq> SnapshotFile l k at name"
    using SnapshotFile_string [OF assms(1,4), of k at] Latest_string [OF assms(1)] by simp
  show ?thesis
    using assms(2,3) complete_other [OF assms(1) _ _ assms(4)] ne by (auto simp: pointer_ok_def names_other_def)
qed

subsection \<open>The world of a job\<close>

locale sidecar_world = storage_backend "hk_Backend H" objects "hk_Sha H" + json_laws "hk_Json H"
  for H :: "'w Hook" and objects :: "'w \<Rightarrow> objects" +
  assumes attempt_keeps: "hk_RecordSnapshotAttempt H a at w = (e, w') \<Longrightarrow> objects w' = objects w"
    and snapshot_keeps: "hk_RecordSnapshot H r at w = (e, w') \<Longrightarrow> objects w' = objects w"
    and restore_keeps: "hk_RecordRestoreAttempt H ra at w = (e, w') \<Longrightarrow> objects w' = objects w"
    and patch_keeps: "hk_PatchArchive H ap w = (e, w') \<Longrightarrow> objects w' = objects w"
    and teardown_keeps: "hk_Teardown H s = (td, s') \<Longrightarrow> objects (js_World s') = objects (js_World s)"
    and sleep_keeps: "hk_Sleep H d s = (e, s') \<Longrightarrow> objects (js_World s') = objects (js_World s)"
    and now_keeps: "hk_Now H w = (t, w') \<Longrightarrow> objects w' = objects w"
    and rand_keeps: "hk_Rand H k w = (x, w') \<Longrightarrow> objects w' = objects w"
    and sha_hex: "hex64 (hk_Sha H c)"

context sidecar_world
begin

text \<open>A predicate on the state that looks at the objects and at trees a pause may turn into each other.\<close>

definition held :: "(objects \<Rightarrow> bool) \<Rightarrow> (node \<Rightarrow> bool) \<Rightarrow> 'w job_state \<Rightarrow> bool" where
  "held P T s \<longleftrightarrow> P (objects (js_World s)) \<and> T (js_Tree s)"

definition settled :: "(node \<Rightarrow> bool) \<Rightarrow> bool" where
  "settled T \<longleftrightarrow> (\<forall>d s e s'. hk_Sleep H d s = (e, s') \<longrightarrow> T (js_Tree s) \<longrightarrow> T (js_Tree s'))"

lemma settled_any: "settled (\<lambda>_. True)"
  by (simp add: settled_def)

lemma after_sleep: "settled T \<Longrightarrow> held P T s \<Longrightarrow> after (State (hk_Sleep H d)) s (\<lambda>_. held P T)"
  by (auto simp: after_State held_def settled_def sleep_keeps split: prod.split)

lemma after_pause: "settled T \<Longrightarrow> held P T s \<Longrightarrow> after (retry_pause H k) s (\<lambda>_. held P T)"
proof -
  assume T: "settled T" and h: "held P T s"
  obtain x w where r: "hk_Rand H (retry_delay k div 5) (js_World s) = (x, w)" by force
  then have "held P T (s\<lparr>js_World := w\<rparr>)" using h rand_keeps by (simp add: held_def)
  then show ?thesis unfolding retry_pause_def after_bind after_world r prod.case by (rule after_sleep [OF T])
qed

lemma after_recordFailure: "held P T s \<Longrightarrow> after (recordFailure H n k r m) s (\<lambda>_. held P T)"
  by (auto simp: recordFailure_def job held_def now_keeps attempt_keeps split: prod.split)

lemma after_recordAttemptCount: "held P T s \<Longrightarrow> after (recordAttemptCount H n k) s (\<lambda>_. held P T)"
  by (auto simp: recordAttemptCount_def job held_def now_keeps attempt_keeps split: prod.split)

lemma after_give_up: "held P T s \<Longrightarrow> after (give_up H n k r what e) s (\<lambda>r s'. held P T s' \<and> r \<noteq> None)"
  unfolding give_up_def after_bind by (rule after_mono [OF after_recordFailure]) (simp_all add: after_return)

lemma after_readLatest: "held P T s \<Longrightarrow> after (readLatest H l) s (\<lambda>_. held P T)"
  by (auto simp: readLatest_def job held_def get_keeps split: prod.split)

text \<open>An object that is there with the size and the digest of an info.\<close>

definition stored :: "objects \<Rightarrow> string \<Rightarrow> ObjectInfo \<Rightarrow> bool" where
  "stored objs key info \<longleftrightarrow> (\<exists>c. objs key = Some c \<and> oi_Size info = int (length c) \<and> oi_Size info < 2 ^ 63 \<and> oi_SHA256 info = hk_Sha H c)"

lemma after_archive:
  assumes "settled T" and "held P T s" and "\<And>objs c. P objs \<Longrightarrow> P (objs(key \<mapsto> c))"
  shows "after (retryStep H r (archive_step H n key root) v) s (\<lambda>(e, k, info) s'. held P T s' \<and>
    (e = None \<longrightarrow> stored (objects (js_World s')) key info \<and>
      (\<exists>t w entries. T t \<and> WriteArchive (hk_WalkErr H w) SnapshotExclude t root = (None, entries) \<and>
         objects (js_World s') key = Some (cc_Pack (hk_Codec H) entries None))))"
proof -
  let ?Q = "\<lambda>v' s'. stored (objects (js_World s')) key (snd v') \<and>
      (\<exists>t w entries. T t \<and> WriteArchive (hk_WalkErr H w) SnapshotExclude t root = (None, entries) \<and>
         objects (js_World s') key = Some (cc_Pack (hk_Codec H) entries None))"
  have "after (archive_step H n key root v) s (\<lambda>(e, v') s'. held P T s' \<and> (e = None \<longrightarrow> ?Q v' s'))" if "held P T s" for v s
    unfolding archive_step_def Let_def after_bind
  proof (rule after_mono [OF after_recordAttemptCount [OF that]])
    fix x s'
    assume h: "held P T s'"
    obtain r w where a: "ArchiveTo (hk_Backend H) (hk_Codec H) (hk_WalkErr H (js_World s')) SnapshotExclude key root (js_Tree s') (js_World s') = (r, w)"
      by force
    have "P (objects w)" using ArchiveTo_only [OF a] h assms(3) by (auto simp: held_def)
    moreover have "\<exists>entries. WriteArchive (hk_WalkErr H (js_World s')) SnapshotExclude (js_Tree s') root = (None, entries) \<and>
        objects w key = Some (cc_Pack (hk_Codec H) entries None) \<and> stored (objects w) key info" if "r = Inr info" for info
      using ArchiveTo_ok [OF a [unfolded that]] by (auto simp: stored_def)
    ultimately show "after tree s' (\<lambda>x s. after (on_world (\<lambda>w. ArchiveTo (hk_Backend H) (hk_Codec H) (hk_WalkErr H w) SnapshotExclude key root x w)) s
        (\<lambda>x s. after (done_with (case x of Inl e \<Rightarrow> (Some e, fst v + 1, snd v) | Inr info \<Rightarrow> (None, fst v + 1, info))) s
          (\<lambda>(e, v') s'. held P T s' \<and> (e = None \<longrightarrow> ?Q v' s'))))"
      using h by (auto simp: job a held_def split: sum.split) blast
  qed
  note * = after_retry_from [OF this after_pause [OF assms(1)] assms(2)]
  show ?thesis unfolding retryStep_def by (rule after_mono [OF *]) (auto split: prod.splits)
qed

lemma after_put:
  assumes "settled T" and "held P T s" and "\<And>objs. P objs \<Longrightarrow> P (objs(key \<mapsto> b))"
  shows "after (retryStep H r (put_step H n key b) v) s (\<lambda>(e, k, info) s'. held P T s' \<and>
    (e = None \<longrightarrow> stored (objects (js_World s')) key info \<and> objects (js_World s') key = Some b))"
proof -
  let ?Q = "\<lambda>v' s'. stored (objects (js_World s')) key (snd v') \<and> objects (js_World s') key = Some b"
  have "after (put_step H n key b v) s (\<lambda>(e, v') s'. held P T s' \<and> (e = None \<longrightarrow> ?Q v' s'))" if "held P T s" for v s
    unfolding put_step_def Let_def after_bind
  proof (rule after_mono [OF after_recordAttemptCount [OF that]])
    fix x s'
    assume h: "held P T s'"
    obtain r w where a: "be_Put (hk_Backend H) key (b, None) ''application/json'' (js_World s') = (r, w)" by force
    have "P (objects w)" using h assms(3) put_ok [of key b None _ "js_World s'"] put_failed [of key b None _ "js_World s'"] a
      by (cases r) (fastforce simp: held_def)+
    moreover have "objects w key = Some b \<and> stored (objects w) key info" if "r = Inr info" for info
      using put_ok [OF a [unfolded that]] by (auto simp: stored_def)
    ultimately show "after (on_world (be_Put (hk_Backend H) key (b, None) ''application/json'')) s'
        (\<lambda>x s. after (done_with (case x of Inl e \<Rightarrow> (Some e, fst v + 1, snd v) | Inr info \<Rightarrow> (None, fst v + 1, info))) s
          (\<lambda>(e, v') s'. held P T s' \<and> (e = None \<longrightarrow> ?Q v' s')))"
      using h by (auto simp: job a held_def split: sum.split)
  qed
  note * = after_retry_from [OF this after_pause [OF assms(1)] assms(2)]
  show ?thesis unfolding retryStep_def by (rule after_mono [OF *]) (auto split: prod.splits)
qed

end

subsection \<open>The steps that publish a snapshot\<close>

lemma hex_utf8: "hex_digits n s \<Longrightarrow> valid_utf8 s"
proof (rule ascii_utf8)
  have digits: "\<forall>c \<in> set ''0123456789abcdef''. byte c < 128" by code_simp
  assume "hex_digits n s"
  then have "\<forall>c \<in> set s. c \<in> set ''0123456789abcdef''" unfolding hex_digits_def list_all_iff by blast
  then show "\<forall>c \<in> set s. byte c < 128" using digits by blast
qed

lemma SnapshotID_utf8: "valid_utf8 (SnapshotID n at)"
proof (rule ascii_utf8)
  have "\<forall>c \<in> set (SnapshotID n at). stamp_char c"
    unfolding SnapshotID_def by (simp add: ball_Un pad_int_stamp format_stamp)
  then show "\<forall>c \<in> set (SnapshotID n at). byte c < 128" using stamp_ascii by blast
qed

lemma encoded_field: "encode_fields fs x = Inr kvs \<Longrightarrow> f \<in> set fs \<Longrightarrow> \<exists>ov. jf_Enc f x = Inr ov"
  by (induction fs arbitrary: kvs) (auto split: sum.splits)

lemma encoded_time:
  "encode_struct fs x = Inr v \<Longrightarrow> sub_field nm get upd (encode_time lib) dec (\<lambda>_. False) \<in> set fs \<Longrightarrow> TimeText lib (get x) \<noteq> None"
proof -
  assume v: "encode_struct fs x = Inr v" and f: "sub_field nm get upd (encode_time lib) dec (\<lambda>_. False) \<in> set fs"
  obtain kvs where k: "encode_fields fs x = Inr kvs" using v by (cases "encode_fields fs x") (simp_all add: encode_struct_def)
  show ?thesis using encoded_field [OF k f] by (auto simp: sub_field_def encode_time_def split: option.splits)
qed

lemma marshaled_time: "Manifest_Marshal lib m = Inr b \<Longrightarrow> TimeText lib (mf_CreatedAt m) \<noteq> None"
  using encoded_time [of "Manifest_fields lib" "m\<lparr>mf_Files := sort_files (mf_Files m)\<rparr>" _ "''createdAt''" mf_CreatedAt
      "\<lambda>t. mf_CreatedAt_update (\<lambda>_. t)" lib "decode_time lib"]
  by (auto simp: Manifest_Marshal_def Manifest_fields_def split: sum.splits)

lemma marshaled_latest_time: "Latest_Marshal lib p = Inr b \<Longrightarrow> TimeText lib (la_UpdatedAt p) \<noteq> None"
  using encoded_time [of "Latest_fields lib" p _ "''updatedAt''" la_UpdatedAt "\<lambda>t. la_UpdatedAt_update (\<lambda>_. t)" lib "decode_time lib"]
  by (auto simp: Latest_Marshal_def Latest_fields_def split: sum.splits)

text \<open>What a snapshot's manifest quotes can be written as JSON.\<close>

definition snapshot_text :: "SnapshotConfig \<Rightarrow> Snapshot \<Rightarrow> bool" where
  "snapshot_text cfg s \<longleftrightarrow>
     valid_utf8 (sc_ClusterID cfg) \<and> valid_utf8 (er_Namespace (sp_Environment s)) \<and> valid_utf8 (er_Name (sp_Environment s)) \<and>
     valid_utf8 (er_UID (sp_Environment s)) \<and> fits 64 (sp_Generation s) \<and> valid_utf8 (sc_SpecHash cfg) \<and> valid_utf8 (sc_AgentImage cfg)"

lemma freeze_manifest_seq: "mf_Seq (freeze_manifest cfg s n at wsInfo ahInfo) = n"
  by (simp add: freeze_manifest_def Let_def AddFile_def NewManifestBuilder_def)

lemma freeze_manifest_files:
  "mf_Files (freeze_manifest cfg s n at wsInfo ahInfo) =
     \<lparr>fe_Name = FileWorkspace, fe_Size = oi_Size wsInfo, fe_SHA256 = oi_SHA256 wsInfo\<rparr> #
     (if sc_AgentHomePath cfg = [] then [] else [\<lparr>fe_Name = FileAgentHome, fe_Size = oi_Size ahInfo, fe_SHA256 = oi_SHA256 ahInfo\<rparr>])"
  by (simp add: freeze_manifest_def Let_def AddFile_def NewManifestBuilder_def zero_Manifest_def)

lemma Build_Inr: "Build m = Inr m' \<longleftrightarrow> m' = m \<and> Manifest_Validate m = None"
  by (auto simp: Build_def split: option.splits)

lemma Manifest_Validate_seq: "Manifest_Validate m = None \<Longrightarrow> 0 \<le> mf_Seq m"
  by (auto simp: Manifest_Validate_def Let_def split: if_splits)

context sidecar_world
begin

lemma freeze_manifest_text:
  assumes "snapshot_text cfg s" and "fits 64 n" and "TimeText (hk_Json H) (mf_CreatedAt (freeze_manifest cfg s n at wsInfo ahInfo)) \<noteq> None"
    and "stored objs wsKey wsInfo" and "sc_AgentHomePath cfg \<noteq> [] \<Longrightarrow> stored objs ahKey ahInfo"
  shows "Manifest_text (hk_Json H) (freeze_manifest cfg s n at wsInfo ahInfo)"
proof -
  have utf: "valid_utf8 FileWorkspace" "valid_utf8 FileAgentHome" using file_name_chars by blast+
  have entry: "FileEntry_text \<lparr>fe_Name = nm, fe_Size = oi_Size info, fe_SHA256 = oi_SHA256 info\<rparr>"
    if "stored objs key info" "valid_utf8 nm" for nm key info
    using that hex_utf8 [OF sha_hex] by (auto simp: stored_def FileEntry_text_def fits_def)
  have fields: "mf_SchemaVersion (freeze_manifest cfg s n at wsInfo ahInfo) = ManifestSchemaVersion"
    "mf_SpecHash (freeze_manifest cfg s n at wsInfo ahInfo) = sc_SpecHash cfg"
    "mf_AgentImage (freeze_manifest cfg s n at wsInfo ahInfo) = sc_AgentImage cfg"
    "mf_AgentImageDigest (freeze_manifest cfg s n at wsInfo ahInfo) = []"
    "Source_text (mf_Source (freeze_manifest cfg s n at wsInfo ahInfo))"
    using assms(1) by (simp_all add: freeze_manifest_def Let_def AddFile_def NewManifestBuilder_def zero_Manifest_def Source_text_def snapshot_text_def)
  have "valid_utf8 []" by code_simp
  then show ?thesis
    using assms entry [OF assms(4) utf(1)] entry [OF assms(5) utf(2)] fields
    by (simp add: Manifest_text_def freeze_manifest_seq freeze_manifest_files ManifestSchemaVersion_def fits_def snapshot_text_def)
qed

text \<open>A manifest that is stored beside the files it lists makes the snapshot complete.\<close>

lemma manifest_completes:
  assumes "Layout_Validate l = None" and "0 \<le> n" "n < 2 ^ 63" "\<bar>at\<bar> < 2 ^ 62 * Second" and "snapshot_text cfg s"
    and "Manifest_Validate (freeze_manifest cfg s n at wsInfo ahInfo) = None"
    and "Manifest_Marshal (hk_Json H) (freeze_manifest cfg s n at wsInfo ahInfo) = Inr b"
    and "objs (Manifest_key l n at) = Some b"
    and "stored objs (Workspace l n at) wsInfo" and "sc_AgentHomePath cfg \<noteq> [] \<Longrightarrow> stored objs (AgentHome l n at) ahInfo"
  shows "complete (hk_Json H) (hk_Sha H) l objs n (SnapshotID n at)"
proof -
  let ?m = "freeze_manifest cfg s n at wsInfo ahInfo"
  have "Manifest_text (hk_Json H) ?m"
    by (rule freeze_manifest_text [OF assms(5) _ marshaled_time [OF assms(7)] assms(9,10)]) (use assms(2,3) in \<open>simp_all add: fits_def\<close>)
  then have parse: "ParseManifest (hk_Json H) b = Inr (?m\<lparr>mf_Files := sort_files (mf_Files ?m)\<rparr>)"
    using Manifest_round [OF _ assms(6)] assms(7) by auto
  have key: "SnapshotFileByID l (SnapshotID n at) nm = Inr (SnapshotFile l n at nm)" if "nm \<noteq> []" for nm
    by (rule SnapshotFileByID_SnapshotID) (use assms(1-4) that in simp_all)
  have "\<exists>key c. SnapshotFileByID l (SnapshotID n at) (fe_Name f) = Inr key \<and> objs key = Some c \<and>
      int (length c) = fe_Size f \<and> hk_Sha H c = fe_SHA256 f" if "f \<in> set (mf_Files ?m)" for f
    using that assms(9,10) key file_name_chars unfolding freeze_manifest_files
    by (auto simp: stored_def Workspace_def AgentHome_def split: if_splits)
  then show ?thesis
    using parse assms(8) key [of FileManifest] unfolding complete_def
    by (auto simp: Manifest_key_def FileManifest_def freeze_manifest_seq)
qed

text \<open>
  The invariant of a freeze that works on the snapshot \<open>n\<close> taken \<open>at\<close>, up to the moment it moves
  the pointer, and what it adds to it once a root is stored.
\<close>

definition prior :: "Layout \<Rightarrow> int \<Rightarrow> time \<Rightarrow> objects \<Rightarrow> bool" where
  "prior l n at objs \<longleftrightarrow> pointer_ok (hk_Json H) (hk_Sha H) l objs \<and> names_other (hk_Json H) l objs (SnapshotID n at)"

definition moved :: "Layout \<Rightarrow> int \<Rightarrow> time \<Rightarrow> objects \<Rightarrow> bool" where
  "moved l n at objs \<longleftrightarrow>
     (\<exists>lb. objs (Latest_key l) = Some lb \<and>
        ParseLatest (hk_Json H) lb = Inr \<lparr>la_SchemaVersion = ManifestSchemaVersion, la_Seq = n, la_SnapshotID = SnapshotID n at, la_UpdatedAt = at\<rparr>)"

lemma prior_put: "Layout_Validate l = None \<Longrightarrow> prior l n at objs \<Longrightarrow> name \<noteq> [] \<Longrightarrow> prior l n at (objs(SnapshotFile l n at name \<mapsto> c))"
  using pointer_other [of l "hk_Json H" "hk_Sha H" objs n at name c] by (simp add: prior_def)

lemma stored_other: "stored objs key info \<Longrightarrow> key \<noteq> key' \<Longrightarrow> stored (objs(key' \<mapsto> c)) key info"
  by (simp add: stored_def)

lemma snapshot_keys_differ:
  assumes "Layout_Validate l = None"
  shows "Workspace l n at \<noteq> AgentHome l n at" "Workspace l n at \<noteq> Manifest_key l n at" "AgentHome l n at \<noteq> Manifest_key l n at"
    "Workspace l n at \<noteq> Latest_key l" "AgentHome l n at \<noteq> Latest_key l" "Manifest_key l n at \<noteq> Latest_key l"
  using SnapshotFile_string [OF assms] Latest_string [OF assms]
  by (simp_all add: Workspace_def AgentHome_def Manifest_key_def FileWorkspace_def FileAgentHome_def FileManifest_def)

lemma after_freeze_record:
  assumes "P (objects (js_World st))"
  shows "after (freeze_record H cfg s l n at start g wsInfo ahInfo mInfo m) st (\<lambda>r st'. P (objects (js_World st')))"
  using assms by (auto simp: freeze_record_def job now_keeps snapshot_keeps split: prod.split)

lemma after_publish:
  assumes "Layout_Validate l = None" and "fits 64 n" "\<bar>at\<bar> < 2 ^ 62 * Second" and "snapshot_text cfg s"
    and "prior l n at (objects (js_World st))" and "stored (objects (js_World st)) (Workspace l n at) wsInfo"
    and "sc_AgentHomePath cfg \<noteq> [] \<Longrightarrow> stored (objects (js_World st)) (AgentHome l n at) ahInfo"
  shows "after (freeze_publish H cfg s l n at start g k wsInfo ahInfo) st
    (\<lambda>r st'. pointer_ok (hk_Json H) (hk_Sha H) l (objects (js_World st')) \<and> (r = None \<longrightarrow> moved l n at (objects (js_World st'))))"
proof -
  let ?m = "freeze_manifest cfg s n at wsInfo ahInfo" and ?lib = "hk_Json H" and ?sha = "hk_Sha H"
  let ?p = "\<lparr>la_SchemaVersion = ManifestSchemaVersion, la_Seq = n, la_SnapshotID = SnapshotID n at, la_UpdatedAt = at\<rparr>"
  let ?ok = "\<lambda>r st'. pointer_ok ?lib ?sha l (objects (js_World st')) \<and> (r = None \<longrightarrow> moved l n at (objects (js_World st')))"
  let ?P1 = "\<lambda>objs. prior l n at objs \<and> stored objs (Workspace l n at) wsInfo \<and>
    (sc_AgentHomePath cfg \<noteq> [] \<longrightarrow> stored objs (AgentHome l n at) ahInfo)"
  let ?P2 = "\<lambda>objs. pointer_ok ?lib ?sha l objs \<and> complete ?lib ?sha l objs n (SnapshotID n at)"
  have failed: "after (give_up H n k' r what e) st' ?ok" if "pointer_ok ?lib ?sha l (objects (js_World st'))" for k' r what e st'
    by (rule after_mono [OF after_give_up [of "pointer_ok ?lib ?sha l" "\<lambda>_. True"]]) (use that in \<open>auto simp: held_def\<close>)
  have first: "held ?P1 (\<lambda>_. True) st" using assms(5-7) by (simp add: held_def)
  have put1: "?P1 (objs(Manifest_key l n at \<mapsto> b))" if "?P1 objs" for objs b
    using that prior_put [OF assms(1), of n at objs FileManifest b] snapshot_keys_differ [OF assms(1), of n at] file_name_chars
    by (auto simp: Manifest_key_def intro!: stored_other)
  have latest: "after (case Latest_Marshal ?lib ?p of
        Inl e \<Rightarrow> give_up H n k' SnapshotReasonInternal ''sandboxctl: marshaling latest pointer'' e
      | Inr lb \<Rightarrow> retryStep H (sc_SnapshotRetries cfg) (put_step H n (Latest_key l) lb) (k', zero_info) \<bind> (\<lambda>(err, tries, _).
          case err of None \<Rightarrow> freeze_record H cfg s l n at start g wsInfo ahInfo mInfo ?m
          | Some e \<Rightarrow> give_up H n tries (classifySnapshotErr e) ''sandboxctl: uploading latest pointer'' e)) st' ?ok"
    if "?P2 (objects (js_World st'))" for k' mInfo st'
  proof (cases "Latest_Marshal ?lib ?p")
    case (Inl e)
    then show ?thesis using failed that by simp
  next
    case (Inr lb)
    have parse: "ParseLatest ?lib lb = Inr ?p"
      using Latest_round [of ?p] Inr assms(2) SnapshotID_utf8 marshaled_latest_time [OF Inr] by auto
    have put2: "?P2 (objs(Latest_key l \<mapsto> lb))" if "?P2 objs" for objs
      using that parse complete_latest [OF assms(1)] by (auto simp: pointer_ok_def)
    have h: "held ?P2 (\<lambda>_. True) st'" using that by (simp add: held_def)
    have loop: "after (retryStep H (sc_SnapshotRetries cfg) (put_step H n (Latest_key l) lb) (k', zero_info)) st'
        (\<lambda>(e, k, info) s'. held ?P2 (\<lambda>_. True) s' \<and> (e = None \<longrightarrow>
           stored (objects (js_World s')) (Latest_key l) info \<and> objects (js_World s') (Latest_key l) = Some lb))"
      by (rule after_put [OF settled_any h put2])
    show ?thesis unfolding Inr sum.case after_bind
    proof (rule after_mono [OF loop], goal_cases)
      case (1 x st'')
      obtain e k'' info where x: "x = (e, k'', info)" by (metis prod_cases3)
      have ok: "?P2 (objects (js_World st''))" and lbs: "e = None \<Longrightarrow> objects (js_World st'') (Latest_key l) = Some lb"
        using 1 x by (auto simp: held_def)
      show ?case
      proof (cases e)
        case None
        have "pointer_ok ?lib ?sha l (objects (js_World st'')) \<and> moved l n at (objects (js_World st''))"
          using ok lbs [OF None] parse by (auto simp: moved_def)
        from after_freeze_record [where P = "\<lambda>objs. pointer_ok ?lib ?sha l objs \<and> moved l n at objs", OF this]
        have "after (freeze_record H cfg s l n at start g wsInfo ahInfo mInfo ?m) st'' ?ok" by (rule after_mono) simp
        then show ?thesis using x None by simp
      next
        case (Some e')
        then show ?thesis using x failed ok by simp
      qed
    qed
  qed
  show ?thesis
  proof (cases "Build ?m")
    case (Inl e)
    then show ?thesis using failed assms(5) by (simp add: freeze_publish_def prior_def)
  next
    case (Inr m)
    then have m: "m = ?m" "Manifest_Validate ?m = None" by (simp_all add: Build_Inr)
    then have n: "0 \<le> n" "n < 2 ^ 63" using Manifest_Validate_seq [OF m(2)] assms(2) by (simp_all add: freeze_manifest_seq fits_def)
    show ?thesis
    proof (cases "Manifest_Marshal ?lib ?m")
      case (Inl e)
      then show ?thesis using failed assms(5) Inr m by (simp add: freeze_publish_def prior_def)
    next
      case (Inr b)
      have loop: "after (retryStep H (sc_SnapshotRetries cfg) (put_step H n (Manifest_key l n at) b) (k, zero_info)) st
          (\<lambda>(e, k, info) s'. held ?P1 (\<lambda>_. True) s' \<and> (e = None \<longrightarrow>
             stored (objects (js_World s')) (Manifest_key l n at) info \<and> objects (js_World s') (Manifest_key l n at) = Some b))"
        by (rule after_put [OF settled_any first put1])
      have "after (retryStep H (sc_SnapshotRetries cfg) (put_step H n (Manifest_key l n at) b) (k, zero_info) \<bind> (\<lambda>(err, tries, mInfo).
          case err of None \<Rightarrow> (case Latest_Marshal ?lib ?p of
              Inl e \<Rightarrow> give_up H n tries SnapshotReasonInternal ''sandboxctl: marshaling latest pointer'' e
            | Inr lb \<Rightarrow> retryStep H (sc_SnapshotRetries cfg) (put_step H n (Latest_key l) lb) (tries, zero_info) \<bind> (\<lambda>(err, tries, _).
                case err of None \<Rightarrow> freeze_record H cfg s l n at start g wsInfo ahInfo mInfo ?m
                | Some e \<Rightarrow> give_up H n tries (classifySnapshotErr e) ''sandboxctl: uploading latest pointer'' e))
          | Some e \<Rightarrow> give_up H n tries (classifySnapshotErr e) ''sandboxctl: uploading manifest'' e)) st ?ok"
        unfolding after_bind
      proof (rule after_mono [OF loop], goal_cases)
        case (1 x st')
        obtain e k' info where x: "x = (e, k', info)" by (metis prod_cases3)
        have h: "?P1 (objects (js_World st'))" "e = None \<Longrightarrow> objects (js_World st') (Manifest_key l n at) = Some b"
          using 1 x by (auto simp: held_def)
        show ?case
        proof (cases e)
          case None
          have "complete ?lib ?sha l (objects (js_World st')) n (SnapshotID n at)"
            by (rule manifest_completes [OF assms(1) n assms(3,4) m(2) Inr]) (use h None in auto)
          then show ?thesis using x None h(1) latest by (simp add: prior_def after_bind)
        next
          case (Some e')
          then show ?thesis using x failed h(1) by (simp add: prior_def)
        qed
      qed
      then show ?thesis using \<open>Build ?m = Inr m\<close> Inr m(1) by (simp add: freeze_publish_def)
    qed
  qed
qed

lemma after_freeze_archive:
  assumes "Layout_Validate l = None" and "fits 64 n" "\<bar>at\<bar> < 2 ^ 62 * Second" and "snapshot_text cfg s"
    and "prior l n at (objects (js_World st))"
  shows "after (freeze_archive H cfg s l n at start g) st
    (\<lambda>r st'. pointer_ok (hk_Json H) (hk_Sha H) l (objects (js_World st')) \<and> (r = None \<longrightarrow> moved l n at (objects (js_World st'))))"
proof -
  let ?ok = "\<lambda>r st'. pointer_ok (hk_Json H) (hk_Sha H) l (objects (js_World st')) \<and> (r = None \<longrightarrow> moved l n at (objects (js_World st')))"
  let ?P = "\<lambda>ws objs. prior l n at objs \<and> (ws \<noteq> None \<longrightarrow> stored objs (Workspace l n at) (the ws))"
  have failed: "after (give_up H n k' r what e) st' ?ok" if "prior l n at (objects (js_World st'))" for k' r what e st'
    by (rule after_mono [OF after_give_up [of "prior l n at" "\<lambda>_. True"]]) (use that in \<open>auto simp: held_def prior_def\<close>)
  have first: "held (?P None) (\<lambda>_. True) st" using assms(5) by (simp add: held_def)
  have put: "?P None (objs(Workspace l n at \<mapsto> c))" if "?P None objs" for objs c
    using that prior_put [OF assms(1), of n at objs FileWorkspace c] file_name_chars by (simp add: Workspace_def)
  have home: "after (retryStep H (sc_SnapshotRetries cfg) (archive_step H n (AgentHome l n at) (sc_AgentHomePath cfg)) (k, zero_info) \<bind> (\<lambda>(err, tries, ahInfo).
        case err of None \<Rightarrow> freeze_publish H cfg s l n at start g tries wsInfo ahInfo
        | Some e \<Rightarrow> give_up H n tries (classifySnapshotErr e) ''sandboxctl: archiving agent home'' e)) st' ?ok"
    if "?P (Some wsInfo) (objects (js_World st'))" for k wsInfo st'
  proof -
    have h: "held (?P (Some wsInfo)) (\<lambda>_. True) st'" using that by (simp add: held_def)
    have put: "?P (Some wsInfo) (objs(AgentHome l n at \<mapsto> c))" if "?P (Some wsInfo) objs" for objs c
      using that prior_put [OF assms(1), of n at objs FileAgentHome c] file_name_chars snapshot_keys_differ(1) [OF assms(1), of n at]
      by (auto simp: AgentHome_def intro: stored_other)
    show ?thesis unfolding after_bind
      by (rule after_mono [OF after_archive [OF settled_any h put]])
        (auto simp: held_def failed split: prod.splits option.splits intro!: after_publish [OF assms(1-4)])
  qed
  show ?thesis unfolding freeze_archive_def after_bind
    by (rule after_mono [OF after_archive [OF settled_any first put]])
      (auto simp: held_def failed home after_bind [symmetric] split: prod.splits option.splits intro!: after_publish [OF assms(1-4)])
qed

lemma after_freeze_mark:
  assumes "Layout_Validate l = None" and "fits 64 n" "\<bar>at\<bar> < 2 ^ 62 * Second" and "snapshot_text cfg s"
    and "prior l n at (objects (js_World st))"
  shows "after (freeze_mark H cfg s l n at start report) st
    (\<lambda>r st'. pointer_ok (hk_Json H) (hk_Sha H) l (objects (js_World st')) \<and> (r = None \<longrightarrow> moved l n at (objects (js_World st'))))"
proof -
  let ?ok = "\<lambda>r st'. pointer_ok (hk_Json H) (hk_Sha H) l (objects (js_World st')) \<and> (r = None \<longrightarrow> moved l n at (objects (js_World st')))"
  have failed: "after (give_up H n k' r what e) st' ?ok" if "prior l n at (objects (js_World st'))" for k' r what e st'
    by (rule after_mono [OF after_give_up [of "prior l n at" "\<lambda>_. True"]]) (use that in \<open>auto simp: held_def prior_def\<close>)
  have rest: "after (on_tree (WriteMarkers (hk_Json H) (hk_Quote H) (sc_WorkspacePath cfg) (sc_AgentHomePath cfg) (freeze_marker cfg s l n at report)) \<bind> (\<lambda>merr.
      case merr of None \<Rightarrow> tree \<bind> (\<lambda>t. freeze_archive H cfg s l n at start (ReadGitStateFile (hk_Json H) (sc_WorkspacePath cfg) t))
      | Some e \<Rightarrow> give_up H n 0 SnapshotReasonInternal ''sandboxctl: writing teardown markers'' e)) st' ?ok"
    if "prior l n at (objects (js_World st'))" for st'
    using failed that after_freeze_archive [OF assms(1-4)] by (auto simp: job split: prod.split option.split)
  have pause: "after (if 0 < sc_QuiesceDelay cfg then State (hk_Sleep H (sc_QuiesceDelay cfg)) else done_with None) st
      (\<lambda>_ st'. prior l n at (objects (js_World st')))"
    using assms(5) by (auto simp: after_State after_return sleep_keeps split: prod.split)
  show ?thesis unfolding freeze_mark_def after_bind
    by (rule after_mono [OF pause]) (auto simp: failed rest after_bind [symmetric] split: option.splits)
qed

lemma next_seq_fits: "fits 64 (next_seq (sint (fc :: 32 word)) latest)"
proof -
  have "- (2 ^ 31) \<le> sint fc" "sint fc < 2 ^ 31" using sint_range_size [of fc] by (simp_all add: word_size)
  then show ?thesis by (auto simp: next_seq_def fits_def int64_def split: option.splits)
qed

lemma after_Freeze:
  assumes "snapshotLayout cfg (er_Namespace (sp_Environment s)) (er_Name (sp_Environment s)) (er_UID (sp_Environment s)) = Inr l"
    and "snapshot_text cfg s" and "at = truncate_second (fst (hk_Now H (js_World st)))" and "\<bar>at\<bar> < 2 ^ 62 * Second"
    and "pointer_ok (hk_Json H) (hk_Sha H) l (objects (js_World st))"
    and "\<And>n. names_other (hk_Json H) l (objects (js_World st)) (SnapshotID n at)"
  shows "after (Freeze H cfg s) st (\<lambda>r st'. pointer_ok (hk_Json H) (hk_Sha H) l (objects (js_World st')) \<and>
    (r = None \<longrightarrow> (\<exists>n. moved l n at (objects (js_World st')))))"
proof -
  let ?ok = "\<lambda>r st'. pointer_ok (hk_Json H) (hk_Sha H) l (objects (js_World st')) \<and> (r = None \<longrightarrow> (\<exists>n. moved l n at (objects (js_World st'))))"
  have valid: "Layout_Validate l = None"
    using assms(1) by (auto simp: snapshotLayout_def NewLayout_def Let_def split: option.splits)
  have prior: "prior l n at objs" if "objs = objects (js_World st)" for n objs using that assms(5,6) by (simp add: prior_def)
  have failed: "after (give_up H n k r what e) st' ?ok" if "objects (js_World st') = objects (js_World st)" for n k r what e st'
    by (rule after_mono [OF after_give_up [of "\<lambda>objs. objs = objects (js_World st)" "\<lambda>_. True"]]) (use that assms(5) in \<open>auto simp: held_def\<close>)
  have mark: "after (freeze_mark H cfg s l (next_seq (sint (sp_FreezeCount s)) latest) at start report) st' ?ok"
    if "objects (js_World st') = objects (js_World st)" for latest start report st'
    by (rule after_mono [OF after_freeze_mark [OF valid next_seq_fits assms(4,2) prior [OF that]]]) auto
  obtain clock w1 where n1: "hk_Now H (js_World st) = (clock, w1)" by force
  have at: "truncate_second clock = at" using assms(3) n1 by simp
  obtain start w2 where n2: "hk_Now H w1 = (start, w2)" by force
  have same2: "objects w2 = objects (js_World st)" using now_keeps [OF n1] now_keeps [OF n2] by simp
  have read: "after (readLatest H l) (st\<lparr>js_World := w2\<rparr>) (\<lambda>_ st'. objects (js_World st') = objects (js_World st))"
    by (rule after_mono [OF after_readLatest [of "\<lambda>objs. objs = objects (js_World st)" "\<lambda>_. True"]]) (use same2 in \<open>auto simp: held_def\<close>)
  have rest: "after (on_world (hk_RecordSnapshotAttempt H a at) \<bind> (\<lambda>_. State (hk_Teardown H) \<bind> (\<lambda>r.
      case r of Inl e \<Rightarrow> give_up H (next_seq (sint (sp_FreezeCount s)) latest) 0 SnapshotReasonTeardownFailed ''sandboxctl: engine teardown'' e
      | Inr report \<Rightarrow> freeze_mark H cfg s l (next_seq (sint (sp_FreezeCount s)) latest) at start report))) st' ?ok"
    if "objects (js_World st') = objects (js_World st)" for a latest st'
    using that failed mark by (auto simp: job after_State attempt_keeps teardown_keeps split: prod.split sum.split)
  show ?thesis
    unfolding Freeze_def Let_def
    by (auto simp: after_tree after_bind [where m = tree] after_bind [where m = "on_world (hk_Now H)"] after_world n1 n2 at assms(1) failed
        after_bind [where m = "readLatest H l"] rest intro: after_mono [OF read])
qed

end

subsection \<open>The pointer of an environment\<close>

text \<open>
  C7: Whatever a freeze does and wherever it fails or is cut off, the pointer to the latest snapshot names a complete one afterwards if it did
  before: its manifest reads back with the sequence number of the pointer, and every file the
  manifest lists is stored with the size and the digest it lists. A freeze that
  reports success has moved the pointer to the snapshot it took. The clock must not have shown the same second when the pointer
  was last moved.
\<close>

theorem freeze_keeps_pointer_complete:
  assumes "sidecar_world H objs"
    and "snapshotLayout cfg (er_Namespace (sp_Environment s)) (er_Name (sp_Environment s)) (er_UID (sp_Environment s)) = Inr l"
    and "snapshot_text cfg s" and "at = truncate_second (fst (hk_Now H (js_World st)))" and "\<bar>at\<bar> < 2 ^ 62 * Second"
    and "pointer_ok (hk_Json H) (hk_Sha H) l (objs (js_World st))"
    and "\<forall>n. names_other (hk_Json H) l (objs (js_World st)) (SnapshotID n at)"
  shows "case run_state (Freeze H cfg s) st of (r, st') \<Rightarrow>
    pointer_ok (hk_Json H) (hk_Sha H) l (objs (js_World st')) \<and>
    (r = None \<longrightarrow> (\<exists>n lb. objs (js_World st') (Latest_key l) = Some lb \<and>
       ParseLatest (hk_Json H) lb = Inr \<lparr>la_SchemaVersion = ManifestSchemaVersion, la_Seq = n, la_SnapshotID = SnapshotID n at, la_UpdatedAt = at\<rparr>))"
  using sidecar_world.after_Freeze [OF assms(1-6)] assms(7) unfolding after_def sidecar_world.moved_def [OF assms(1)] by auto

text \<open>A world that keeps the laws: the reference backend and a clock that stands still.\<close>

definition ref_hook :: "(string \<times> string) list Hook" where
  "ref_hook = \<lparr>
     hk_Backend = ref_backend (\<lambda>_. sample_digest),
     hk_RecordSnapshotAttempt = (\<lambda>a at w. (None, w)), hk_RecordSnapshot = (\<lambda>r at w. (None, w)),
     hk_RecordRestoreAttempt = (\<lambda>a at w. (None, w)), hk_PatchArchive = (\<lambda>a w. (None, w)),
     hk_Teardown = (\<lambda>s. (Inr \<lparr>tr_Engine = ''none'', tr_Containers = None, tr_Pods = None,
        tr_Note = ''engine.type=none: no workload containers to tear down''\<rparr>, s)),
     hk_Sleep = (\<lambda>d s. (None, s)), hk_Now = (\<lambda>w. (0, w)), hk_Rand = (\<lambda>k w. (0, w)),
     hk_WalkErr = (\<lambda>w rel. None), hk_ReadErr = (\<lambda>w n. None),
     hk_Json = ref_text, hk_Codec = ref_codec, hk_Sha = (\<lambda>_. sample_digest), hk_Quote = (\<lambda>s. s)\<rparr>"

lemma sample_digest_hex: "hex64 sample_digest"
  by code_simp

interpretation ref_sidecar: sidecar_world ref_hook map_of
proof (intro sidecar_world.intro)
  show "storage_backend (hk_Backend ref_hook) map_of (hk_Sha ref_hook)"
    using ref_backend.storage_backend_axioms by (simp add: ref_hook_def)
  show "json_laws (hk_Json ref_hook)" using ref_text.json_laws_axioms by (simp add: ref_hook_def)
qed (unfold_locales, auto simp: ref_hook_def sample_digest_hex)

definition sample_frozen :: Snapshot where
  "sample_frozen = \<lparr>sp_Environment = \<lparr>er_Namespace = ''n'', er_Name = ''e'', er_UID = ''u''\<rparr>, sp_WaitFor = None, sp_Result = None,
     sp_FreezeCount = 0, sp_Generation = 1, sp_Env = zero_env\<rparr>"

definition sample_cfg :: SnapshotConfig where
  "sample_cfg = \<lparr>sc_Engine = ''none'', sc_ClusterID = ''c'', sc_SpecHash = ''h'', sc_AgentImage = ''a'', sc_WorkspacePath = ''/w'', sc_AgentHomePath = [],
     sc_Backend = ''s3'', sc_S3Endpoint = ''http://s'', sc_S3Bucket = ''b'', sc_S3Region = [], sc_S3Prefix = [], sc_S3ForcePathStyle = True,
     sc_CredentialsDir = ''/s'', sc_QuiesceDelay = 0, sc_SnapshotRetries = 1, sc_SnapshotStepTimeout = 1\<rparr>"

definition sample_layout :: Layout where
  "sample_layout = \<lparr>lay_Prefix = [], lay_Identity = \<lparr>ClusterID = ''c'', id_Namespace = ''n'', EnvName = ''e'', EnvUID = ''u''\<rparr>\<rparr>"

theorem freeze_keeps_pointer_complete_witness:
  "case run_state (Freeze ref_hook sample_cfg sample_frozen) \<lparr>js_World = [], js_Tree = Dir 493 [(''w'', Dir 493 [(''f'', File 420 ''x'')])]\<rparr> of (r, st') \<Rightarrow>
    pointer_ok ref_text (\<lambda>_. sample_digest) sample_layout (map_of (js_World st'))"
proof -
  let ?st = "\<lparr>js_World = [], js_Tree = Dir 493 [(''w'', Dir 493 [(''f'', File 420 ''x'')])]\<rparr>"
  have l: "snapshotLayout sample_cfg (er_Namespace (sp_Environment sample_frozen)) (er_Name (sp_Environment sample_frozen))
      (er_UID (sp_Environment sample_frozen)) = Inr sample_layout" by code_simp
  have quoted: "snapshot_text sample_cfg sample_frozen" by code_simp
  have at: "0 = truncate_second (fst (hk_Now ref_hook (js_World ?st)))" by (simp add: ref_hook_def truncate_second_def)
  have start: "pointer_ok (hk_Json ref_hook) (hk_Sha ref_hook) sample_layout (map_of (js_World ?st))"
    "\<forall>n. names_other (hk_Json ref_hook) sample_layout (map_of (js_World ?st)) (SnapshotID n 0)"
    by (simp_all add: pointer_ok_def names_other_def)
  have "hk_Json ref_hook = ref_text" "hk_Sha ref_hook = (\<lambda>_. sample_digest)" by (simp_all add: ref_hook_def)
  then show ?thesis
    using freeze_keeps_pointer_complete [OF ref_sidecar.sidecar_world_axioms l quoted at _ start] by (auto split: prod.splits)
qed

end
