(* ===== verification/Restore_Job.thy ===== *)
theory Restore_Job
  imports Freeze_Job
begin

section \<open>The restore job\<close>

text \<open>
  \<^verbatim>\<open>restore.go\<close> and \<^verbatim>\<open>restoreconfig.go\<close> of \<^verbatim>\<open>src/operator/internal/sandboxctl\<close>: fetch and check the manifest of a
  snapshot, keep the workspace if its warm-cache marker vouches for it and restore it
  otherwise, restore the agent's home, write the markers and the status. A sentinel file guards
  the time in between. State, hook and retried steps are those of \<open>Freeze_Job\<close>.
\<close>

subsection \<open>Configuration\<close>

record RestoreConfig =
  rc_SnapshotID :: string
  rc_Seq :: int
  rc_Warm :: bool
  rc_Retries :: int
  rc_StepTimeout :: duration
  rc_MaxEntries :: int
  rc_MaxTotalBytes :: int

record sidecar_Config =
  cg_Snapshot :: SnapshotConfig
  cg_Restore :: RestoreConfig

definition validateSnapshotIDSegment :: "string \<Rightarrow> string option" where
  "validateSnapshotIDSegment seg =
     (if seg = [] then Some ''must not be empty''
      else if seg = ''.'' \<or> seg = ''..'' then Some ''is not allowed''
      else if 255 < length seg then Some ''length exceeds 255 bytes''
      else if \<not> list_all allowed_char seg then Some ''contains a disallowed character''
      else None)"

definition RestoreConfig_Validate :: "RestoreConfig \<Rightarrow> string option" where
  "RestoreConfig_Validate c =
     (if rc_SnapshotID c = [] then Some ''restore-snapshot-id: required''
      else case validateSnapshotIDSegment (rc_SnapshotID c) of
        Some e \<Rightarrow> Some (''restore-snapshot-id: '' @ e)
      | None \<Rightarrow> if rc_Seq c < 0 then Some ''restore-seq: must be >= 0'' else None)"

subsection \<open>Errors and records\<close>

definition RestoreReasonBackendUnreachable :: string where "RestoreReasonBackendUnreachable = ''BackendUnreachable''"
definition RestoreReasonBackendUnsupported :: string where "RestoreReasonBackendUnsupported = ''BackendUnsupported''"
definition RestoreReasonCredentialsInvalid :: string where "RestoreReasonCredentialsInvalid = ''CredentialsInvalid''"
definition RestoreReasonManifestMissing :: string where "RestoreReasonManifestMissing = ''ManifestMissing''"
definition RestoreReasonManifestInvalid :: string where "RestoreReasonManifestInvalid = ''ManifestInvalid''"
definition RestoreReasonChecksumMismatch :: string where "RestoreReasonChecksumMismatch = ''ChecksumMismatch''"
definition RestoreReasonExtractFailed :: string where "RestoreReasonExtractFailed = ''ExtractFailed''"
definition RestoreReasonPurgeFailed :: string where "RestoreReasonPurgeFailed = ''PurgeFailed''"
definition RestoreReasonInternal :: string where "RestoreReasonInternal = ''Internal''"

definition classifyRestoreErr :: "storage_error \<Rightarrow> string" where
  "classifyRestoreErr e =
     (if IsPermission e then RestoreReasonCredentialsInvalid
      else if IsUnreachable e then RestoreReasonBackendUnreachable
      else if IsCorrupt e then RestoreReasonChecksumMismatch
      else if IsNotFound e then RestoreReasonManifestMissing
      else if IsInvalid e then RestoreReasonManifestInvalid
      else RestoreReasonExtractFailed)"

definition restoreAttemptMessageMaxBytes :: nat where "restoreAttemptMessageMaxBytes = 512"

abbreviation restore_attempt :: "RestoreConfig \<Rightarrow> RestoreAttemptPhase \<Rightarrow> int \<Rightarrow> RestoreAttempt" where
  "restore_attempt c phase tries \<equiv> \<lparr>xt_Seq = rc_Seq c, xt_SnapshotID = rc_SnapshotID c, xt_Phase = phase, xt_Roots = [],
     xt_Attempts = tries, xt_Duration = 0, xt_Reason = [], xt_Message = []\<rparr>"

definition recordRestoreAttemptCount :: "'w Hook \<Rightarrow> RestoreConfig \<Rightarrow> int \<Rightarrow> ('w, unit) job" where
  "recordRestoreAttemptCount H c tries = do {
     now \<leftarrow> on_world (hk_Now H);
     _ \<leftarrow> on_world (hk_RecordRestoreAttempt H (restore_attempt c RestoreAttemptInProgress tries) now);
     done_with () }"

definition recordRestoreFailure :: "'w Hook \<Rightarrow> RestoreConfig \<Rightarrow> int \<Rightarrow> string \<Rightarrow> string \<Rightarrow> ('w, unit) job" where
  "recordRestoreFailure H c tries reason message = do {
     now \<leftarrow> on_world (hk_Now H);
     _ \<leftarrow> on_world (hk_RecordRestoreAttempt H ((restore_attempt c RestoreAttemptFailed tries)
            \<lparr>xt_Reason := reason, xt_Message := take restoreAttemptMessageMaxBytes message\<rparr>) now);
     done_with () }"

definition abandon :: "'w Hook \<Rightarrow> RestoreConfig \<Rightarrow> int \<Rightarrow> string \<Rightarrow> string \<Rightarrow> storage_error \<Rightarrow> ('w, storage_error option) job" where
  "abandon H c tries reason what e = do {
     _ \<leftarrow> recordRestoreFailure H c tries reason (err_text e);
     done_with (Some (Errorf what e)) }"

subsection \<open>Steps\<close>

definition getAndHash :: "'w Hook \<Rightarrow> string \<Rightarrow> ('w, storage_error + string \<times> string) job" where
  "getAndHash H key = do {
     r \<leftarrow> on_world (be_Get (hk_Backend H) key);
     done_with (case r of
         Inl e \<Rightarrow> Inl e
       | Inr ((c, None), info) \<Rightarrow> Inr (c, hk_Sha H c)
       | Inr ((c, Some e), info) \<Rightarrow> Inl (OpError ''Get'' ''manifest'' key ErrUnreachable (Some e))) }"

definition manifest_step :: "'w Hook \<Rightarrow> RestoreConfig \<Rightarrow> string \<Rightarrow> int \<times> Manifest \<times> string \<Rightarrow> ('w, storage_error option \<times> int \<times> Manifest \<times> string) job" where
  "manifest_step H c key v = do {
     let tries = fst v + 1;
     _ \<leftarrow> recordRestoreAttemptCount H c tries;
     r \<leftarrow> getAndHash H key;
     done_with (case r of
         Inl e \<Rightarrow> (Some e, tries, snd v)
       | Inr (b, digest) \<Rightarrow>
           (case ParseManifest (hk_Json H) b of
              Inl e \<Rightarrow> (Some (OpError ''Get'' ''manifest'' key ErrInvalid (Some e)), tries, snd v)
            | Inr m \<Rightarrow> (None, tries, m, digest))) }"

definition extractOpts :: "RestoreConfig \<Rightarrow> ExtractOptions" where
  "extractOpts c = \<lparr>xo_DirPerm = 0, xo_MaxEntries = rc_MaxEntries c, xo_MaxTotalBytes = rc_MaxTotalBytes c\<rparr>"

definition restore_step :: "'w Hook \<Rightarrow> RestoreConfig \<Rightarrow> string \<Rightarrow> string \<Rightarrow> FileEntry \<Rightarrow> int \<Rightarrow> ('w, storage_error option \<times> int) job" where
  "restore_step H c key root want tries = do {
     _ \<leftarrow> recordRestoreAttemptCount H c (tries + 1);
     e \<leftarrow> State (\<lambda>s. case RestoreFrom (hk_Backend H) (hk_Codec H) (hk_Sha H) (hk_ReadErr H (js_World s)) key root want (extractOpts c)
              (js_Tree s) (js_World s) of (e, t, w) \<Rightarrow> (e, s\<lparr>js_World := w, js_Tree := t\<rparr>));
     done_with (e, tries + 1) }"

definition sumBytesDownloaded :: "RestoredRoot list \<Rightarrow> int" where
  "sumBytesDownloaded roots = sum_list (map xr_BytesDownloaded roots)"

subsection \<open>Restoring\<close>

text \<open>What the later steps know: the manifest and its digest, whether the workspace was warm, and why not.\<close>

record restore_plan =
  rp_Manifest :: Manifest
  rp_Digest :: string
  rp_Warm :: bool
  rp_Miss :: string
  rp_Now :: time

text \<open>Steps 7 to 10: the markers, the sentinel, the status.\<close>

definition restore_finish :: "'w Hook \<Rightarrow> sidecar_Config \<Rightarrow> Snapshot \<Rightarrow> restore_plan \<Rightarrow> RestoredRoot list \<Rightarrow> int \<Rightarrow> ('w, storage_error option) job" where
  "restore_finish H cfg s p roots tries = do {
     let c = cg_Restore cfg;
     let ws = sc_WorkspacePath (cg_Snapshot cfg);
     _ \<leftarrow> on_tree (WriteWakeMarker (hk_Json H) ws
            \<lparr>km_SchemaVersion = WakeMarkerSchemaVersion, km_Seq = rc_Seq c, km_SnapshotID = rc_SnapshotID c,
             km_Source = (if rp_Warm p then ''Warm'' else ''Cold''), km_WarmMissReason = rp_Miss p, km_RestoredAt = rp_Now p,
             km_BytesDownloaded = sumBytesDownloaded roots,
             km_SnapshotAgentImage = mf_AgentImage (rp_Manifest p), km_CurrentAgentImage = sc_AgentImage (cg_Snapshot cfg),
             km_SnapshotSpecHash = mf_SpecHash (rp_Manifest p), km_CurrentSpecHash = sc_SpecHash (cg_Snapshot cfg),
             km_SpecChanged = (mf_AgentImage (rp_Manifest p) \<noteq> sc_AgentImage (cg_Snapshot cfg) \<or>
                               mf_SpecHash (rp_Manifest p) \<noteq> sc_SpecHash (cg_Snapshot cfg))\<rparr>);
     _ \<leftarrow> on_tree (WriteWarmMarker (hk_Json H) ws
            \<lparr>wm_SchemaVersion = WarmMarkerSchemaVersion, wm_EnvUID = er_UID (sp_Environment s), wm_Seq = rc_Seq c,
             wm_SnapshotID = rc_SnapshotID c, wm_Root = ''workspace'', wm_ManifestSHA256 = rp_Digest p,
             wm_Files = mf_Files (rp_Manifest p), wm_WrittenAt = rp_Now p, wm_WrittenBy = ''restore''\<rparr>);
     _ \<leftarrow> on_tree (removeRestoreInProgress ws);
     later \<leftarrow> on_world (hk_Now H);
     at_write \<leftarrow> on_world (hk_Now H);
     r \<leftarrow> on_world (hk_RecordRestoreAttempt H \<lparr>xt_Seq = rc_Seq c, xt_SnapshotID = rc_SnapshotID c, xt_Phase = RestoreAttemptSucceeded,
            xt_Roots = roots, xt_Attempts = tries, xt_Duration = time_Sub later (rp_Now p), xt_Reason = [], xt_Message = []\<rparr> at_write);
     done_with (map_option (Errorf ''sandboxctl: recording restore'') r) }"

text \<open>Step 6: the agent's home, always from the snapshot.\<close>

definition restore_home :: "'w Hook \<Rightarrow> sidecar_Config \<Rightarrow> Snapshot \<Rightarrow> Layout \<Rightarrow> restore_plan \<Rightarrow> RestoredRoot list \<Rightarrow> int \<Rightarrow> ('w, storage_error option) job" where
  "restore_home H cfg s layout p roots tries =
     (let c = cg_Restore cfg; home = sc_AgentHomePath (cg_Snapshot cfg) in
      case (if home = [] then None else Manifest_File (rp_Manifest p) FileAgentHome) of
        None \<Rightarrow> restore_finish H cfg s p roots tries
      | Some entry \<Rightarrow>
          (case SnapshotFileByID layout (rc_SnapshotID c) FileAgentHome of
             Inl e \<Rightarrow> abandon H c tries RestoreReasonManifestInvalid ''sandboxctl: resolving agent-home key'' e
           | Inr key \<Rightarrow> do {
               r \<leftarrow> on_tree (purgeRoot home []);
               case r of
                 Inl e \<Rightarrow> abandon H c tries RestoreReasonPurgeFailed ''sandboxctl: purging agent home'' e
               | Inr _ \<Rightarrow> do {
                   (err, tries) \<leftarrow> retryStep H (rc_Retries c) (restore_step H c key home entry) tries;
                   case err of
                     Some e \<Rightarrow> abandon H c tries (classifyRestoreErr e) ''sandboxctl: restoring agent home'' e
                   | None \<Rightarrow> restore_finish H cfg s p
                       (roots @ [\<lparr>xr_Name = ''agent-home'', xr_Source = ''Cold'', xr_WarmMissReason = [], xr_BytesDownloaded = fe_Size entry\<rparr>]) tries } }))"

text \<open>Step 5: the workspace. The directory of the markers survives the purge, since the sentinel is in it.\<close>

definition restore_cold :: "'w Hook \<Rightarrow> sidecar_Config \<Rightarrow> Snapshot \<Rightarrow> Layout \<Rightarrow> restore_plan \<Rightarrow> FileEntry \<Rightarrow> int \<Rightarrow> ('w, storage_error option) job" where
  "restore_cold H cfg s layout p entry tries = do {
     let c = cg_Restore cfg;
     let ws = sc_WorkspacePath (cg_Snapshot cfg);
     _ \<leftarrow> on_tree (RemoveWarmMarker ws);
     case SnapshotFileByID layout (rc_SnapshotID c) FileWorkspace of
       Inl e \<Rightarrow> abandon H c tries RestoreReasonManifestInvalid ''sandboxctl: resolving workspace key'' e
     | Inr key \<Rightarrow> do {
         r \<leftarrow> on_tree (purgeRoot ws [''lost+found'', markerDirName]);
         case r of
           Inl e \<Rightarrow> abandon H c tries RestoreReasonPurgeFailed ''sandboxctl: purging workspace'' e
         | Inr _ \<Rightarrow> do {
             (err, tries) \<leftarrow> retryStep H (rc_Retries c) (restore_step H c key ws entry) tries;
             case err of
               Some e \<Rightarrow> abandon H c tries (classifyRestoreErr e) ''sandboxctl: restoring workspace'' e
             | None \<Rightarrow> restore_home H cfg s layout p
                 [\<lparr>xr_Name = ''workspace'', xr_Source = ''Cold'', xr_WarmMissReason = rp_Miss p, xr_BytesDownloaded = fe_Size entry\<rparr>] tries } } }"

definition restore_workspace :: "'w Hook \<Rightarrow> sidecar_Config \<Rightarrow> Snapshot \<Rightarrow> Layout \<Rightarrow> time \<Rightarrow> Manifest \<Rightarrow> string \<Rightarrow> int \<Rightarrow> ('w, storage_error option) job" where
  "restore_workspace H cfg s layout now m digest tries = do {
     let c = cg_Restore cfg;
     let ws = sc_WorkspacePath (cg_Snapshot cfg);
     t \<leftarrow> tree;
     case Manifest_File m FileWorkspace of
       None \<Rightarrow> abandon H c tries RestoreReasonManifestInvalid ''sandboxctl'' (Foreign ''manifest does not list a workspace entry'')
     | Some entry \<Rightarrow>
         (let (teardownSeq, teardownOK) = readTeardownMarkerSeq (hk_Json H) ws t;
              (warm, miss) = (if rc_Warm c
                then ValidateWarmMarker (loadWarmMarker (hk_Json H) ws t) (er_UID (sp_Environment s)) (rc_SnapshotID c) (rc_Seq c)
                       digest (mf_Files m) teardownSeq teardownOK
                else (False, []));
              p = \<lparr>rp_Manifest = m, rp_Digest = digest, rp_Warm = warm, rp_Miss = miss, rp_Now = now\<rparr>
          in if warm then restore_home H cfg s layout p
                 [\<lparr>xr_Name = ''workspace'', xr_Source = ''Warm'', xr_WarmMissReason = [], xr_BytesDownloaded = 0\<rparr>] tries
             else restore_cold H cfg s layout p entry tries) }"

text \<open>Steps 3 and 4: the sentinel, then the manifest.\<close>

definition restore_snapshot :: "'w Hook \<Rightarrow> sidecar_Config \<Rightarrow> Snapshot \<Rightarrow> Layout \<Rightarrow> time \<Rightarrow> ('w, storage_error option) job" where
  "restore_snapshot H cfg s layout now = do {
     let c = cg_Restore cfg;
     _ \<leftarrow> on_world (hk_RecordRestoreAttempt H (restore_attempt c RestoreAttemptInProgress 0) now);
     serr \<leftarrow> on_tree (writeRestoreInProgress (sc_WorkspacePath (cg_Snapshot cfg)));
     case serr of
       Some e \<Rightarrow> abandon H c 0 RestoreReasonInternal ''sandboxctl'' e
     | None \<Rightarrow>
         (case SnapshotFileByID layout (rc_SnapshotID c) FileManifest of
            Inl e \<Rightarrow> abandon H c 0 RestoreReasonManifestInvalid ''sandboxctl: resolving manifest key'' e
          | Inr key \<Rightarrow> do {
              (err, tries, m, digest) \<leftarrow> retryStep H (rc_Retries c) (manifest_step H c key) (0, zero_Manifest, []);
              case err of
                Some e \<Rightarrow> abandon H c tries (classifyRestoreErr e) ''sandboxctl: fetching manifest'' e
              | None \<Rightarrow>
                  if mf_Seq m \<noteq> rc_Seq c
                  then abandon H c tries RestoreReasonManifestInvalid ''sandboxctl'' (Foreign ''manifest seq does not match requested restore seq'')
                  else restore_workspace H cfg s layout now m digest tries }) }"

definition Restore :: "'w Hook \<Rightarrow> sidecar_Config \<Rightarrow> Snapshot \<Rightarrow> ('w, storage_error option) job" where
  "Restore H cfg s = do {
     let c = cg_Restore cfg;
     now \<leftarrow> on_world (hk_Now H);
     if sc_Backend (cg_Snapshot cfg) = ''pvc'' then
       abandon H c 0 RestoreReasonBackendUnsupported ''sandboxctl''
         (Foreign ''storage.backend.type=pvc is not supported by the restore container: the backend PVC is not mounted into the environment pod. Use storage.backend.type=s3.'')
     else
       (case snapshotLayout (cg_Snapshot cfg) (er_Namespace (sp_Environment s)) (er_Name (sp_Environment s)) (er_UID (sp_Environment s)) of
          Inl e \<Rightarrow> abandon H c 0 RestoreReasonInternal ''sandboxctl: building restore layout'' e
        | Inr layout \<Rightarrow> restore_snapshot H cfg s layout now) }"

end
