(* ===== verification/Restore_Safety.thy ===== *)
theory Restore_Safety
  imports Restore_Job Freeze_Safety
begin

section \<open>What a restore has checked\<close>

text \<open>
  A restore reads the backend and never changes it, and it reports success only when the manifest
  it used has the requested number and every root it downloaded had the size and the digest the
  manifest lists. The jobs are run by the rules of \<open>Freeze_Safety\<close>, with the objects fixed.
\<close>

definition intact :: "(string \<Rightarrow> string) \<Rightarrow> objects \<Rightarrow> Layout \<Rightarrow> string \<Rightarrow> FileEntry \<Rightarrow> bool" where
  "intact sha objs l i f \<longleftrightarrow>
     (\<exists>key c. SnapshotFileByID l i (fe_Name f) = Inr key \<and> objs key = Some c \<and> int (length c) = fe_Size f \<and> sha c = fe_SHA256 f)"

lemma Manifest_File_name: "Manifest_File m name = Some f \<Longrightarrow> fe_Name f = name \<and> f \<in> set (mf_Files m)"
  by (auto simp: Manifest_File_def find_Some_iff)

definition home_intact :: "'w Hook \<Rightarrow> objects \<Rightarrow> sidecar_Config \<Rightarrow> Layout \<Rightarrow> Manifest \<Rightarrow> bool" where
  "home_intact H objs cfg l m \<longleftrightarrow> (sc_AgentHomePath (cg_Snapshot cfg) \<noteq> [] \<longrightarrow>
     (\<forall>f. Manifest_File m FileAgentHome = Some f \<longrightarrow> intact (hk_Sha H) objs l (rc_SnapshotID (cg_Restore cfg)) f))"

text \<open>What the warm marker of a tree says about a manifest.\<close>

definition vouched :: "'w Hook \<Rightarrow> sidecar_Config \<Rightarrow> Snapshot \<Rightarrow> node \<Rightarrow> string \<Rightarrow> Manifest \<Rightarrow> bool" where
  "vouched H cfg sn t digest m \<longleftrightarrow> rc_Warm (cg_Restore cfg) \<and>
     (let ws = sc_WorkspacePath (cg_Snapshot cfg); (n, found) = readTeardownMarkerSeq (hk_Json H) ws t in
      fst (ValidateWarmMarker (loadWarmMarker (hk_Json H) ws t) (er_UID (sp_Environment sn)) (rc_SnapshotID (cg_Restore cfg))
        (rc_Seq (cg_Restore cfg)) digest (mf_Files m) n found))"

text \<open>
  What a successful restore rests on: a manifest that is stored, reads back and has the requested
  number, an intact archive of each downloaded root, and for a workspace that was not downloaded
  a marker that vouches for it.
\<close>

definition used :: "'w Hook \<Rightarrow> objects \<Rightarrow> sidecar_Config \<Rightarrow> Snapshot \<Rightarrow> Layout \<Rightarrow> node \<Rightarrow> bool" where
  "used H objs cfg sn l t \<longleftrightarrow>
     (\<exists>mk mb m f. SnapshotFileByID l (rc_SnapshotID (cg_Restore cfg)) FileManifest = Inr mk \<and> objs mk = Some mb \<and>
        ParseManifest (hk_Json H) mb = Inr m \<and> mf_Seq m = rc_Seq (cg_Restore cfg) \<and> Manifest_File m FileWorkspace = Some f \<and>
        (vouched H cfg sn t (hk_Sha H mb) m \<or> intact (hk_Sha H) objs l (rc_SnapshotID (cg_Restore cfg)) f) \<and> home_intact H objs cfg l m)"

context sidecar_world
begin

abbreviation same :: "objects \<Rightarrow> (node \<Rightarrow> bool) \<Rightarrow> 'w job_state \<Rightarrow> bool" where
  "same objs T \<equiv> held (\<lambda>o1. o1 = objs) T"

lemma after_restoreCount: "held P T s \<Longrightarrow> after (recordRestoreAttemptCount H c k) s (\<lambda>_. held P T)"
  by (auto simp: recordRestoreAttemptCount_def job held_def now_keeps restore_keeps split: prod.split)

lemma after_restoreFailure: "held P T s \<Longrightarrow> after (recordRestoreFailure H c k r m) s (\<lambda>_. held P T)"
  by (auto simp: recordRestoreFailure_def job held_def now_keeps restore_keeps split: prod.split)

lemma after_abandon: "held P T s \<Longrightarrow> after (abandon H c k r what e) s (\<lambda>r s'. held P T s' \<and> r \<noteq> None)"
  unfolding abandon_def after_bind by (rule after_mono [OF after_restoreFailure]) (simp_all add: after_return)

lemma after_manifest:
  assumes "settled T" and "same objs T s"
  shows "after (retryStep H r (manifest_step H c key) v) s (\<lambda>(e, k, m, digest) s'. same objs T s' \<and>
    (e = None \<longrightarrow> (\<exists>mb. objs key = Some mb \<and> ParseManifest (hk_Json H) mb = Inr m \<and> digest = hk_Sha H mb)))"
proof -
  let ?Q = "\<lambda>v' (s' :: 'w job_state). \<exists>mb. objs key = Some mb \<and> ParseManifest (hk_Json H) mb = Inr (fst (snd v')) \<and> snd (snd v') = hk_Sha H mb"
  have "after (manifest_step H c key v) s (\<lambda>(e, v') s'. same objs T s' \<and> (e = None \<longrightarrow> ?Q v' s'))" if "same objs T s" for v s
    unfolding manifest_step_def Let_def after_bind
  proof (rule after_mono [OF after_restoreCount [OF that]])
    fix x s'
    assume h: "same objs T s'"
    obtain r w where g: "be_Get (hk_Backend H) key (js_World s') = (r, w)" by force
    have "same objs T (s'\<lparr>js_World := w\<rparr>)" using h get_keeps [OF g] by (simp add: held_def)
    moreover have "objs key = Some mb" if "r = Inr ((mb, None), info)" for mb info
      using get_ok [OF g [unfolded that]] h by (simp add: held_def)
    ultimately show "after (getAndHash H key) s' (\<lambda>x s. after (done_with (case x of
          Inl e \<Rightarrow> (Some e, fst v + 1, snd v)
        | Inr (b, digest) \<Rightarrow> (case ParseManifest (hk_Json H) b of
             Inl e \<Rightarrow> (Some (OpError ''Get'' ''manifest'' key ErrInvalid (Some e)), fst v + 1, snd v)
           | Inr m \<Rightarrow> (None, fst v + 1, m, digest)))) s
        (\<lambda>(e, v') s'. same objs T s' \<and> (e = None \<longrightarrow> ?Q v' s')))"
      by (auto simp: getAndHash_def job g split: sum.split option.split)
  qed
  note * = after_retry_from [OF this after_pause [OF assms(1)] assms(2)]
  show ?thesis unfolding retryStep_def by (rule after_mono [OF *]) (auto split: prod.splits)
qed

lemma after_restore_step:
  assumes "settled T" and "same objs T s"
    and "\<And>s e t w. same objs T s \<Longrightarrow> RestoreFrom (hk_Backend H) (hk_Codec H) (hk_Sha H) (hk_ReadErr H (js_World s)) key root want (extractOpts c)
        (js_Tree s) (js_World s) = (e, t, w) \<Longrightarrow> T t"
  shows "after (retryStep H r (restore_step H c key root want) v) s (\<lambda>(e, k) s'. same objs T s' \<and>
    (e = None \<longrightarrow> (\<exists>b. objs key = Some b \<and> int (length b) = fe_Size want \<and> hk_Sha H b = fe_SHA256 want)))"
proof -
  let ?Q = "\<lambda>(v' :: int) (s' :: 'w job_state). \<exists>b. objs key = Some b \<and> int (length b) = fe_Size want \<and> hk_Sha H b = fe_SHA256 want"
  have "after (restore_step H c key root want v) s (\<lambda>(e, v') s'. same objs T s' \<and> (e = None \<longrightarrow> ?Q v' s'))" if "same objs T s" for v s
    unfolding restore_step_def after_bind
  proof (rule after_mono [OF after_restoreCount [OF that]])
    fix x s'
    assume h: "same objs T s'"
    obtain e t w where g: "RestoreFrom (hk_Backend H) (hk_Codec H) (hk_Sha H) (hk_ReadErr H (js_World s')) key root want (extractOpts c)
        (js_Tree s') (js_World s') = (e, t, w)" by (metis surj_pair)
    have "same objs T (s'\<lparr>js_World := w, js_Tree := t\<rparr>)" using h RestoreFrom_keeps [OF g] assms(3) [OF h g] by (simp add: held_def)
    moreover have "?Q v s'" if "e = None" using RestoreFrom_ok [OF g [unfolded that]] h by (auto simp: held_def)
    ultimately show "after (State (\<lambda>s. case RestoreFrom (hk_Backend H) (hk_Codec H) (hk_Sha H) (hk_ReadErr H (js_World s)) key root want (extractOpts c)
              (js_Tree s) (js_World s) of (e, t, w) \<Rightarrow> (e, s\<lparr>js_World := w, js_Tree := t\<rparr>))) s'
        (\<lambda>x s. after (done_with (x, v + 1)) s (\<lambda>(e, v') s'. same objs T s' \<and> (e = None \<longrightarrow> ?Q v' s')))"
      by (auto simp: after_State after_return g)
  qed
  note * = after_retry_from [OF this after_pause [OF assms(1)] assms(2)]
  show ?thesis unfolding retryStep_def by (rule after_mono [OF *]) (auto split: prod.splits)
qed

lemma after_finish: "same objs (\<lambda>_. True) s \<Longrightarrow> after (restore_finish H cfg sn p roots k) s (\<lambda>_. same objs (\<lambda>_. True))"
  by (auto simp: restore_finish_def Let_def job held_def now_keeps restore_keeps split: prod.split)

lemma after_download:
  assumes "same objs (\<lambda>_. True) s"
  shows "after (retryStep H r (restore_step H c key root want) v) s (\<lambda>(e, k) s'. same objs (\<lambda>_. True) s' \<and>
    (e = None \<longrightarrow> (\<exists>b. objs key = Some b \<and> int (length b) = fe_Size want \<and> hk_Sha H b = fe_SHA256 want)))"
  by (rule after_restore_step [OF settled_any assms]) simp

text \<open>Purging a root and downloading it, as both roots do it.\<close>

lemma after_pull:
  assumes "same objs (\<lambda>_. True) s"
    and cont: "\<And>k s'. same objs (\<lambda>_. True) s' \<Longrightarrow> (\<exists>b. objs key = Some b \<and> int (length b) = fe_Size want \<and> hk_Sha H b = fe_SHA256 want) \<Longrightarrow> after (cont k) s' Q"
    and failed: "\<And>e s'. same objs (\<lambda>_. True) s' \<Longrightarrow> Q (Some e) s'"
  shows "after (on_tree (purgeRoot root keep) \<bind> (\<lambda>r. case r of
      Inl e \<Rightarrow> abandon H c v reason what e
    | Inr n \<Rightarrow> retryStep H k (restore_step H c key root want) v \<bind> (\<lambda>(err, k).
        case err of None \<Rightarrow> cont k | Some e \<Rightarrow> abandon H c k (classifyRestoreErr e) what' e))) s Q"
proof -
  have give_up: "after (abandon H c k r w e) s' Q" if "same objs (\<lambda>_. True) s'" for k r w e s'
    by (rule after_mono [OF after_abandon [OF that]]) (auto simp: failed)
  obtain r t where purge: "purgeRoot root keep (js_Tree s) = (r, t)" by force
  have h: "same objs (\<lambda>_. True) (s\<lparr>js_Tree := t\<rparr>)" using assms(1) by (simp add: held_def)
  have "after (retryStep H k (restore_step H c key root want) v \<bind> (\<lambda>(err, k).
        case err of None \<Rightarrow> cont k | Some e \<Rightarrow> abandon H c k (classifyRestoreErr e) what' e)) (s\<lparr>js_Tree := t\<rparr>) Q"
    unfolding after_bind
  proof (rule after_mono [OF after_download [OF h]], clarify)
    fix e :: "storage_error option" and k' s'
    assume "same objs (\<lambda>_. True) s'" "e = None \<longrightarrow> (\<exists>b. objs key = Some b \<and> int (length b) = fe_Size want \<and> hk_Sha H b = fe_SHA256 want)"
    then show "after (case e of None \<Rightarrow> cont k' | Some e \<Rightarrow> abandon H c k' (classifyRestoreErr e) what' e) s' Q"
      using give_up cont by (cases e) auto
  qed
  then show ?thesis unfolding after_bind after_on_tree purge prod.case using give_up [OF h] by (cases r) (simp_all add: after_bind)
qed

lemma after_home:
  assumes "same objs (\<lambda>_. True) s"
  shows "after (restore_home H cfg sn l p roots k) s (\<lambda>r s'. same objs (\<lambda>_. True) s' \<and> (r = None \<longrightarrow> home_intact H objs cfg l (rp_Manifest p)))"
proof (cases "if sc_AgentHomePath (cg_Snapshot cfg) = [] then None else Manifest_File (rp_Manifest p) FileAgentHome")
  case None
  then have "home_intact H objs cfg l (rp_Manifest p)" by (auto simp: home_intact_def split: if_splits)
  then show ?thesis unfolding restore_home_def Let_def None option.case
    by (intro after_mono [OF after_finish [OF assms]]) simp
next
  case (Some f)
  then have f: "Manifest_File (rp_Manifest p) FileAgentHome = Some f" "fe_Name f = FileAgentHome"
    using Manifest_File_name by (auto split: if_splits)
  show ?thesis
  proof (cases "SnapshotFileByID l (rc_SnapshotID (cg_Restore cfg)) FileAgentHome")
    case (Inl e)
    show ?thesis unfolding restore_home_def Let_def Some option.case Inl sum.case
      by (intro after_mono [OF after_abandon [OF assms]]) auto
  next
    case (Inr key)
    have "home_intact H objs cfg l (rp_Manifest p)"
      if "\<exists>b. objs key = Some b \<and> int (length b) = fe_Size f \<and> hk_Sha H b = fe_SHA256 f"
      using that Inr f by (auto simp: home_intact_def intact_def)
    then show ?thesis unfolding restore_home_def Let_def Some option.case Inr sum.case
      by (intro after_pull [OF assms]) (auto intro: after_mono [OF after_finish])
  qed
qed

lemma after_cold:
  assumes "same objs (\<lambda>_. True) s" and "Manifest_File (rp_Manifest p) FileWorkspace = Some f"
  shows "after (restore_cold H cfg sn l p f k) s (\<lambda>r s'. same objs (\<lambda>_. True) s' \<and> (r = None \<longrightarrow>
    intact (hk_Sha H) objs l (rc_SnapshotID (cg_Restore cfg)) f \<and> home_intact H objs cfg l (rp_Manifest p)))"
proof -
  obtain r t where "RemoveWarmMarker (sc_WorkspacePath (cg_Snapshot cfg)) (js_Tree s) = (r, t)" by force
  then have start: "after (on_tree (RemoveWarmMarker (sc_WorkspacePath (cg_Snapshot cfg)))) s (\<lambda>_. same objs (\<lambda>_. True))"
    using assms(1) by (simp add: after_on_tree held_def)
  show ?thesis unfolding restore_cold_def Let_def after_bind
  proof (rule after_mono [OF start])
    fix x s'
    assume h: "same objs (\<lambda>_. True) s'"
    have f: "fe_Name f = FileWorkspace" using Manifest_File_name [OF assms(2)] by simp
    show "after (case SnapshotFileByID l (rc_SnapshotID (cg_Restore cfg)) FileWorkspace of
        Inl e \<Rightarrow> abandon H (cg_Restore cfg) k RestoreReasonManifestInvalid ''sandboxctl: resolving workspace key'' e
      | Inr key \<Rightarrow> on_tree (purgeRoot (sc_WorkspacePath (cg_Snapshot cfg)) [''lost+found'', markerDirName]) \<bind> (\<lambda>r. case r of
            Inl e \<Rightarrow> abandon H (cg_Restore cfg) k RestoreReasonPurgeFailed ''sandboxctl: purging workspace'' e
          | Inr n \<Rightarrow> retryStep H (rc_Retries (cg_Restore cfg)) (restore_step H (cg_Restore cfg) key (sc_WorkspacePath (cg_Snapshot cfg)) f) k \<bind> (\<lambda>(err, k).
              case err of None \<Rightarrow> restore_home H cfg sn l p
                 [\<lparr>xr_Name = ''workspace'', xr_Source = ''Cold'', xr_WarmMissReason = rp_Miss p, xr_BytesDownloaded = fe_Size f\<rparr>] k
              | Some e \<Rightarrow> abandon H (cg_Restore cfg) k (classifyRestoreErr e) ''sandboxctl: restoring workspace'' e))) s'
      (\<lambda>r s'. same objs (\<lambda>_. True) s' \<and> (r = None \<longrightarrow>
        intact (hk_Sha H) objs l (rc_SnapshotID (cg_Restore cfg)) f \<and> home_intact H objs cfg l (rp_Manifest p)))"
    proof (cases "SnapshotFileByID l (rc_SnapshotID (cg_Restore cfg)) FileWorkspace")
      case (Inl e)
      show ?thesis unfolding Inl sum.case by (intro after_mono [OF after_abandon [OF h]]) auto
    next
      case (Inr key)
      have "intact (hk_Sha H) objs l (rc_SnapshotID (cg_Restore cfg)) f"
        if "\<exists>b. objs key = Some b \<and> int (length b) = fe_Size f \<and> hk_Sha H b = fe_SHA256 f"
        using that Inr f by (auto simp: intact_def)
      then show ?thesis unfolding Inr sum.case by (intro after_pull [OF h]) (auto intro: after_mono [OF after_home])
    qed
  qed
qed

lemma after_workspace:
  assumes "same objs (\<lambda>t. t = t1) s"
  shows "after (restore_workspace H cfg sn l now m digest k) s (\<lambda>r s'. same objs (\<lambda>_. True) s' \<and> (r = None \<longrightarrow>
    (\<exists>f. Manifest_File m FileWorkspace = Some f \<and> (vouched H cfg sn t1 digest m \<or> intact (hk_Sha H) objs l (rc_SnapshotID (cg_Restore cfg)) f)) \<and>
    home_intact H objs cfg l m))"
proof (cases "Manifest_File m FileWorkspace")
  case None
  have "after (abandon H (cg_Restore cfg) k r w e) s (\<lambda>r s'. same objs (\<lambda>_. True) s' \<and> r \<noteq> None)" for r w e
    using assms by (intro after_abandon) (simp add: held_def)
  note * = after_mono [OF this]
  show ?thesis unfolding restore_workspace_def Let_def after_bind after_tree None option.case by (rule *) auto
next
  case (Some f)
  let ?ws = "sc_WorkspacePath (cg_Snapshot cfg)"
  have t: "js_Tree s = t1" and h: "same objs (\<lambda>_. True) s" using assms by (simp_all add: held_def)
  obtain n found where td: "readTeardownMarkerSeq (hk_Json H) ?ws t1 = (n, found)" by force
  obtain warm miss where w: "(if rc_Warm (cg_Restore cfg)
      then ValidateWarmMarker (loadWarmMarker (hk_Json H) ?ws t1) (er_UID (sp_Environment sn)) (rc_SnapshotID (cg_Restore cfg)) (rc_Seq (cg_Restore cfg))
             digest (mf_Files m) n found
      else (False, [])) = (warm, miss)" by (metis surj_pair)
  let ?p = "\<lparr>rp_Manifest = m, rp_Digest = digest, rp_Warm = warm, rp_Miss = miss, rp_Now = now\<rparr>"
  have vouched: "vouched H cfg sn t1 digest m = warm" using w by (auto simp: vouched_def td Let_def split: if_splits)
  have cold: "Manifest_File (rp_Manifest ?p) FileWorkspace = Some f" using Some by simp
  have "after (if warm then restore_home H cfg sn l ?p [\<lparr>xr_Name = ''workspace'', xr_Source = ''Warm'', xr_WarmMissReason = [], xr_BytesDownloaded = 0\<rparr>] k
      else restore_cold H cfg sn l ?p f k) s (\<lambda>r s'. same objs (\<lambda>_. True) s' \<and> (r = None \<longrightarrow>
    (\<exists>f. Manifest_File m FileWorkspace = Some f \<and> (vouched H cfg sn t1 digest m \<or> intact (hk_Sha H) objs l (rc_SnapshotID (cg_Restore cfg)) f)) \<and>
    home_intact H objs cfg l m))"
  proof (cases warm)
    case True
    show ?thesis unfolding if_P [OF True]
      by (rule after_mono [OF after_home [OF h]]) (use True vouched Some in auto)
  next
    case False
    show ?thesis unfolding if_not_P [OF False]
      by (rule after_mono [OF after_cold [OF h cold]]) (use Some in auto)
  qed
  then show ?thesis unfolding restore_workspace_def Let_def after_bind after_tree Some option.case t td prod.case w .
qed

end

text \<open>A restore is an init container: nothing else runs on its volumes while it waits.\<close>

locale quiet_world = sidecar_world +
  assumes sleep_quiet: "hk_Sleep H d s = (e, s') \<Longrightarrow> js_Tree s' = js_Tree s"

context quiet_world
begin

lemma settled_quiet: "settled T"
  by (auto simp: settled_def dest: sleep_quiet)

lemma after_snapshot:
  assumes "same objs (\<lambda>t. t = t0) s"
  shows "after (restore_snapshot H cfg sn l now) s (\<lambda>r s'. same objs (\<lambda>_. True) s' \<and> (r = None \<longrightarrow>
    used H objs cfg sn l (snd (writeRestoreInProgress (sc_WorkspacePath (cg_Snapshot cfg)) t0))))"
proof -
  let ?c = "cg_Restore cfg"
  let ?Q = "\<lambda>r s'. same objs (\<lambda>_. True) s' \<and> (r = None \<longrightarrow>
    used H objs cfg sn l (snd (writeRestoreInProgress (sc_WorkspacePath (cg_Snapshot cfg)) t0)))"
  obtain e w where rec: "hk_RecordRestoreAttempt H (restore_attempt ?c RestoreAttemptInProgress 0) now (js_World s) = (e, w)" by force
  obtain serr t1 where wr: "writeRestoreInProgress (sc_WorkspacePath (cg_Snapshot cfg)) t0 = (serr, t1)" by force
  have t0: "js_Tree s = t0" using assms by (simp add: held_def)
  have h: "same objs (\<lambda>t. t = t1) (s\<lparr>js_World := w, js_Tree := t1\<rparr>)" using assms restore_keeps [OF rec] by (simp add: held_def)
  have quit: "after (abandon H ?c k r what e) s' ?Q" if "same objs (\<lambda>t. t = t1) s'" for k r what e s'
  proof (rule after_mono [OF after_abandon])
    show "same objs (\<lambda>_. True) s'" using that by (simp add: held_def)
  qed auto
  have fetched: "after (case err of None \<Rightarrow> if mf_Seq m \<noteq> rc_Seq ?c
        then abandon H ?c k RestoreReasonManifestInvalid ''sandboxctl'' (Foreign ''manifest seq does not match requested restore seq'')
        else restore_workspace H cfg sn l now m digest k
      | Some e \<Rightarrow> abandon H ?c k (classifyRestoreErr e) ''sandboxctl: fetching manifest'' e) s' ?Q"
    if "same objs (\<lambda>t. t = t1) s'" and "SnapshotFileByID l (rc_SnapshotID ?c) FileManifest = Inr mk"
      and "err = None \<longrightarrow> (\<exists>mb. objs mk = Some mb \<and> ParseManifest (hk_Json H) mb = Inr m \<and> digest = hk_Sha H mb)" for err k m digest s' mk
  proof (cases "err = None \<and> mf_Seq m = rc_Seq ?c")
    case True
    then show ?thesis using that wr by (auto simp: used_def intro!: after_mono [OF after_workspace [OF that(1)]])
  qed (use quit [OF that(1)] in \<open>auto split: option.split\<close>)
  have pulled: "after (retryStep H (rc_Retries ?c) (manifest_step H ?c mk) (0, zero_Manifest, []) \<bind> (\<lambda>(err, k, m, digest).
      case err of None \<Rightarrow> if mf_Seq m \<noteq> rc_Seq ?c
        then abandon H ?c k RestoreReasonManifestInvalid ''sandboxctl'' (Foreign ''manifest seq does not match requested restore seq'')
        else restore_workspace H cfg sn l now m digest k
      | Some e \<Rightarrow> abandon H ?c k (classifyRestoreErr e) ''sandboxctl: fetching manifest'' e)) (s\<lparr>js_World := w, js_Tree := t1\<rparr>) ?Q"
    if mk: "SnapshotFileByID l (rc_SnapshotID ?c) FileManifest = Inr mk" for mk
    unfolding after_bind by (rule after_mono [OF after_manifest [OF settled_quiet h]], clarify, rule fetched [OF _ mk]) auto
  show ?thesis
    unfolding restore_snapshot_def Let_def after_bind after_world after_on_tree rec prod.case
    using quit [OF h] pulled by (simp add: t0 wr split: option.split sum.split)
qed

lemma after_Restore:
  assumes "snapshotLayout (cg_Snapshot cfg) (er_Namespace (sp_Environment sn)) (er_Name (sp_Environment sn)) (er_UID (sp_Environment sn)) = Inr l"
  shows "after (Restore H cfg sn) s (\<lambda>r s'. same (objects (js_World s)) (\<lambda>_. True) s' \<and> (r = None \<longrightarrow>
    used H (objects (js_World s)) cfg sn l (snd (writeRestoreInProgress (sc_WorkspacePath (cg_Snapshot cfg)) (js_Tree s)))))"
proof -
  obtain now w where n: "hk_Now H (js_World s) = (now, w)" by force
  have h: "same (objects (js_World s)) (\<lambda>t. t = js_Tree s) (s\<lparr>js_World := w\<rparr>)" using now_keeps [OF n] by (simp add: held_def)
  then have "same (objects (js_World s)) (\<lambda>_. True) (s\<lparr>js_World := w\<rparr>)" by (simp add: held_def)
  then show ?thesis unfolding Restore_def Let_def after_bind after_world n prod.case assms sum.case
    using after_snapshot [OF h] by (auto intro!: after_mono [OF after_abandon])
qed

end

text \<open>
  C23: A restore never changes the backend, and it reports success only on checked content: the manifest
  of the requested snapshot is stored, reads back and has the requested number; the agent's home, if there is
  one, and the workspace were downloaded from objects that have the size and the digest the
  manifest lists, except that a workspace whose warm-cache marker names this environment, this snapshot and the digest of this manifest
  is kept as it is.
\<close>

theorem restore_uses_verified:
  assumes "quiet_world H objs"
    and "snapshotLayout (cg_Snapshot cfg) (er_Namespace (sp_Environment sn)) (er_Name (sp_Environment sn)) (er_UID (sp_Environment sn)) = Inr l"
  shows "case run_state (Restore H cfg sn) st of (r, st') \<Rightarrow>
    objs (js_World st') = objs (js_World st) \<and>
    (r = None \<longrightarrow> used H (objs (js_World st)) cfg sn l (snd (writeRestoreInProgress (sc_WorkspacePath (cg_Snapshot cfg)) (js_Tree st))))"
  using quiet_world.after_Restore [OF assms, of st] sidecar_world.held_def [OF quiet_world.axioms(1) [OF assms(1)]]
  by (auto simp: after_def)

interpretation ref_quiet: quiet_world ref_hook map_of
  by unfold_locales (auto simp: ref_hook_def)

definition sample_restore :: sidecar_Config where
  "sample_restore = \<lparr>cg_Snapshot = sample_cfg, cg_Restore = \<lparr>rc_SnapshotID = SnapshotID 0 0, rc_Seq = 0, rc_Warm = True, rc_Retries = 1,
     rc_StepTimeout = 1, rc_MaxEntries = 0, rc_MaxTotalBytes = 0\<rparr>\<rparr>"

text \<open>A workspace is frozen, and restored from the snapshot this made.\<close>

theorem restore_uses_verified_witness:
  "let st = snd (run_state (Freeze ref_hook sample_cfg sample_frozen) \<lparr>js_World = [], js_Tree = Dir 493 [(''w'', Dir 493 [(''f'', File 420 ''x'')])]\<rparr>) in
   case run_state (Restore ref_hook sample_restore sample_frozen) st of (r, st') \<Rightarrow>
     map_of (js_World st') = map_of (js_World st) \<and>
     (r = None \<longrightarrow> used ref_hook (map_of (js_World st)) sample_restore sample_frozen sample_layout (snd (writeRestoreInProgress ''/w'' (js_Tree st))))"
proof -
  have l: "snapshotLayout (cg_Snapshot sample_restore) (er_Namespace (sp_Environment sample_frozen)) (er_Name (sp_Environment sample_frozen))
      (er_UID (sp_Environment sample_frozen)) = Inr sample_layout" by code_simp
  have "sc_WorkspacePath (cg_Snapshot sample_restore) = ''/w''" by (simp add: sample_restore_def sample_cfg_def)
  then show ?thesis unfolding Let_def using restore_uses_verified [OF ref_quiet.quiet_world_axioms l] by simp
qed

end
