(* ===== verification/Backend_Round_Trip.thy ===== *)
theory Backend_Round_Trip
  imports Storage_Backend Archive_Safety
begin

section \<open>A directory through the backend and back\<close>

text \<open>
  The archive, the codec, the backend and the verification of a download together: what \<^verbatim>\<open>ArchiveTo\<close>
  stored, \<^verbatim>\<open>RestoreFrom\<close> brings back.
\<close>

lemma ArchiveTo_then_RestoreFrom:
  assumes "storage_backend be objects sha" and "archive_codec_laws codec"
    and "ArchiveTo be codec (\<lambda>_. None) ex key root src w = (Inr info, w1)"
    and "objects w2 key = objects w1 key" and "be_Get be key w2 = (Inr ((c, None), got), w3)"
  shows "\<exists>entries. WriteArchive (\<lambda>_. None) ex src root = (None, entries) \<and>
    RestoreFrom be codec sha (\<lambda>_. None) key target \<lparr>fe_Name = name, fe_Size = oi_Size info, fe_SHA256 = oi_SHA256 info\<rparr> opts t w2 =
      (case ReadArchive (\<lambda>_. None) (stream_of entries) target opts t of (e, n, t') \<Rightarrow> (e, t', w3))"
proof -
  obtain entries where e: "WriteArchive (\<lambda>_. None) ex src root = (None, entries)"
    and o: "objects w1 = (objects w)(key \<mapsto> cc_Pack codec entries None)"
    and i: "oi_Size info = int (length (cc_Pack codec entries None))" "oi_SHA256 info = sha (cc_Pack codec entries None)"
    using storage_backend.ArchiveTo_ok [OF assms(1,3)] by blast
  have "c = cc_Pack codec entries None" using storage_backend.get_ok [OF assms(1,5)] assms(4) o by simp
  then show ?thesis
    using e i assms(5) archive_codec_laws.unpack_pack [OF assms(2)]
    by (auto simp: RestoreFrom_def vr_Verify_def vr_Read_def newVerifyingReader_def split: prod.splits option.splits)
qed

text \<open>
  C22: A directory that was archived to the backend comes back: for a well-formed source directory, as long as the object is not
  replaced, and with an empty directory to restore into that is reached without links and no limits, a
  restore that can read the object succeeds exactly if every entry passes the guards; the
  download then verifies against the size and digest the upload reported, the root
  holds what was there before, less the excluded paths, with the files' contents and permissions
  and the links' targets, and nothing outside the root has changed.
\<close>

theorem archived_directory_comes_back:
  assumes "storage_backend be objects sha" and "archive_codec_laws codec"
    and "os_Lstat src root = Inr (Dir m' es)" and "tree_ok (Dir m' es)"
    and "ArchiveTo be codec (\<lambda>_. None) ex key root src w = (Inr info, w1)"
    and "objects w2 key = objects w1 key" and "be_Get be key w2 = (Inr ((c, None), got), w3)"
    and "at_dir t R m []" and "xo_MaxEntries opts = 0" and "xo_MaxTotalBytes opts = 0"
  shows "case RestoreFrom be codec sha (\<lambda>_. None) key (abs_path R) \<lparr>fe_Name = name, fe_Size = oi_Size info, fe_SHA256 = oi_SHA256 info\<rparr> opts t w2 of
    (e, t', w') \<Rightarrow>
      if list_all (entry_accepted (abs_path R)) (snd (WriteArchive (\<lambda>_. None) ex src root))
      then e = None \<and> t' = set_node t R (Dir m (restored_list ex (if xo_DirPerm opts = 0 then 493 else xo_DirPerm opts) [] es))
      else e \<noteq> None"
proof -
  obtain entries where e: "WriteArchive (\<lambda>_. None) ex src root = (None, entries)"
    and r: "RestoreFrom be codec sha (\<lambda>_. None) key (abs_path R) \<lparr>fe_Name = name, fe_Size = oi_Size info, fe_SHA256 = oi_SHA256 info\<rparr> opts t w2 =
      (case ReadArchive (\<lambda>_. None) (stream_of entries) (abs_path R) opts t of (e, n, t') \<Rightarrow> (e, t', w3))"
    using ArchiveTo_then_RestoreFrom [OF assms(1,2,5-7)] by blast
  show ?thesis
    using frozen_tree_restored [OF assms(3,4,8-10) e] by (auto simp: r e split: prod.splits if_splits)
qed

text \<open>A workspace is archived to the reference backend and restored beside itself.\<close>

theorem archived_directory_comes_back_witness:
  "let be = ref_backend (\<lambda>_. sample_digest); src = Dir 493 [(''v'', Dir 493 [(''x'', File 384 ''hi'')]), (''w'', Dir 493 [])] in
   \<exists>info w. ArchiveTo be ref_codec (\<lambda>_. None) SnapshotExclude ''k'' ''/v'' src [] = (Inr info, w) \<and>
     (case RestoreFrom be ref_codec (\<lambda>_. sample_digest) (\<lambda>_. None) ''k'' ''/w'' \<lparr>fe_Name = ''workspace.tar.zst'', fe_Size = oi_Size info, fe_SHA256 = oi_SHA256 info\<rparr>
        \<lparr>xo_DirPerm = 0, xo_MaxEntries = 0, xo_MaxTotalBytes = 0\<rparr> src w of
      (e, t', w') \<Rightarrow> e = None \<and> t' = Dir 493 [(''v'', Dir 493 [(''x'', File 384 ''hi'')]), (''w'', Dir 493 [(''x'', File 384 ''hi'')])])"
proof -
  let ?be = "ref_backend (\<lambda>_. sample_digest)" and ?src = "Dir 493 [(''v'', Dir 493 [(''x'', File 384 ''hi'')]), (''w'', Dir 493 [])]"
  let ?opts = "\<lparr>xo_DirPerm = 0, xo_MaxEntries = 0, xo_MaxTotalBytes = 0\<rparr>"
  let ?b = "cc_Pack ref_codec (snd (WriteArchive (\<lambda>_. None) SnapshotExclude ?src ''/v'')) None"
  have src: "os_Lstat ?src ''/v'' = Inr (Dir 493 [(''x'', File 384 ''hi'')])" "tree_ok (Dir 493 [(''x'', File 384 ''hi'')])" by code_simp+
  have acc: "list_all (entry_accepted ''/w'') (snd (WriteArchive (\<lambda>_. None) SnapshotExclude ?src ''/v''))" by code_simp
  have len: "\<not> 2 ^ 63 \<le> int (length ?b)" by code_simp
  have at: "at_dir ?src [''w''] 493 []" by (auto simp: at_dir_def dirs_to_def is_dir_def plain_name_def)
  have "fst (WriteArchive (\<lambda>_. None) SnapshotExclude ?src ''/v'') = None" by code_simp
  then have up: "ArchiveTo ?be ref_codec (\<lambda>_. None) SnapshotExclude ''k'' ''/v'' ?src [] = (Inr (ref_info ''k'' ?b sample_digest), AList.update ''k'' ?b [])"
    using len by (auto simp: ArchiveTo_def ref_backend_def split: prod.splits)
  have get: "be_Get ?be ''k'' (AList.update ''k'' ?b []) = (Inr ((?b, None), ref_info ''k'' ?b []), AList.update ''k'' ?b [])"
    by (simp add: ref_backend_def)
  have res: "set_node ?src [''w''] (Dir 493 (restored_list SnapshotExclude 493 [] [(''x'', File 384 ''hi'')])) =
      Dir 493 [(''v'', Dir 493 [(''x'', File 384 ''hi'')]), (''w'', Dir 493 [(''x'', File 384 ''hi'')])]" by code_simp
  show ?thesis
    using archived_directory_comes_back [OF ref_backend.storage_backend_axioms ref_codec.archive_codec_laws_axioms src up refl get at,
        of ?opts "''workspace.tar.zst''"] acc res up
    by (auto simp: Let_def ref_info_def split: prod.splits)
qed

end
