(* ===== verification/Class_Types.thy ===== *)
theory Class_Types
  imports Api_Types
begin

section \<open>Sandbox classes\<close>

text \<open>
  \<^verbatim>\<open>src/operator/api/v1alpha1/sandboxclass_types.go\<close>: the template an environment refers to. The enums are
  strings, as in Go, so that a value the API server lets through but the code does not know is
  a value here too. A quantity of compute resources stays text; label selectors are those of the
  Kubernetes API, required labels and expressions.
\<close>

definition EngineTypeRootlessPodman :: string where "EngineTypeRootlessPodman = ''rootless-podman''"
definition EngineTypeNone :: string where "EngineTypeNone = ''none''"
definition EngineTypeK8sNative :: string where "EngineTypeK8sNative = ''k8s-native''"

definition StorageBackendTypeS3 :: string where "StorageBackendTypeS3 = ''s3''"
definition StorageBackendTypePVC :: string where "StorageBackendTypePVC = ''pvc''"

definition NetworkIsolationRestricted :: string where "NetworkIsolationRestricted = ''Restricted''"
definition NetworkIsolationOpen :: string where "NetworkIsolationOpen = ''Open''"

record SecretKeyRef =
  sk_Name :: string
  sk_Key :: string

record ResourceRequirements =
  rq_Limits :: "(string \<times> string) list"
  rq_Requests :: "(string \<times> string) list"

record ModelSpec =
  mo_Default :: string
  mo_Haiku :: string
  mo_Sonnet :: string
  mo_Opus :: string

record AgentSpec =
  as_Image :: string
  as_Resources :: ResourceRequirements
  as_Model :: "ModelSpec option"

record EngineSpec =
  en_Type :: string
  en_Image :: string
  en_StorageDriver :: string

record GitProxyService =
  gp_GitURL :: string
  gp_BrokerURL :: string
  gp_TokenSecretRef :: SecretKeyRef

record DependaProxyService =
  dp_NpmURL :: string
  dp_PypiURL :: string
  dp_GoproxyURL :: string

record OllamaService =
  ol_BaseURL :: string

record ServicesSpec =
  sv_GitProxy :: "GitProxyService option"
  sv_DependaProxy :: "DependaProxyService option"
  sv_Ollama :: "OllamaService option"

record WorkspaceSpec =
  ws_Size :: string
  ws_StorageClassName :: "string option"

record S3Backend =
  s3_Endpoint :: string
  s3_Bucket :: string
  s3_Region :: string
  s3_Prefix :: string
  s3_CredentialsSecretRef :: SecretKeyRef
  s3_ForcePathStyle :: "bool option"

record PVCBackend =
  pb_ClaimName :: string
  pb_SubPath :: string

record BackendSpec =
  bs_Type :: string
  bs_S3 :: "S3Backend option"
  bs_PVC :: "PVCBackend option"

record StorageSpec =
  sg_Workspace :: WorkspaceSpec
  sg_Backend :: BackendSpec
  sg_WarmCacheTTL :: string

record LabelSelectorRequirement =
  lr_Key :: string
  lr_Operator :: string
  lr_Values :: "string list"

record LabelSelector =
  lb_MatchLabels :: "(string \<times> string) list"
  lb_MatchExpressions :: "LabelSelectorRequirement list"

record PeerSelector =
  pe_Namespace :: string
  pe_PodSelector :: "LabelSelector option"

record NetworkPolicyPort =
  np_Protocol :: string
  np_Port :: string

record EgressPeer =
  eg_CIDR :: string
  eg_Selector :: "PeerSelector option"
  eg_Ports :: "NetworkPolicyPort list"

record NetworkSpec =
  nw_Isolation :: string
  nw_ExtraEgress :: "EgressPeer list"

record SandboxClassSpec =
  cs_Agent :: AgentSpec
  cs_Engine :: EngineSpec
  cs_Services :: ServicesSpec
  cs_Storage :: StorageSpec
  cs_Network :: NetworkSpec
  cs_Timeouts :: TimeoutsSpec

record SandboxClass = ObjectMeta +
  cl_Spec :: SandboxClassSpec

end
