(* ===== verification/Retention_GC.thy ===== *)
theory Retention_GC
  imports Class_Types Freeze_Safety
begin

section \<open>Reclaiming stored contexts\<close>

text \<open>
  \<^verbatim>\<open>src/operator/internal/controller/retentiongc.go\<close>. A pass lists the environments, then the classes, and for each
  class with a bucket deletes the roots of the environments whose archive is older than the
  retention time, and the roots no listed environment owns. The calls on the API server and the
  backends of the classes are the fields of the record; the pass runs in the state monad over
  the world. The timer that starts a pass, logging and metrics are left out.
\<close>

subsection \<open>One pass\<close>

record 'w RetentionGC =
  gc_ListEnvironments :: "string \<Rightarrow> 'w \<Rightarrow> (storage_error + SandboxEnvironment list) \<times> 'w"
  gc_ListClasses :: "'w \<Rightarrow> (storage_error + SandboxClass list) \<times> 'w"
  gc_BackendFor :: "SandboxClass \<Rightarrow> 'w \<Rightarrow> (storage_error + 'w Backend) \<times> 'w"
  gc_Clock :: "'w \<Rightarrow> time \<times> 'w"
  gc_ClusterID :: string
  gc_TTL :: duration
  gc_DryRun :: bool
  gc_Namespace :: string

record RetentionStats =
  rs_Scanned :: int
  rs_Deleted :: int
  rs_WouldDelete :: int
  rs_OrphansDeleted :: int
  rs_Errors :: int
  rs_Duration :: duration

definition zero_RetentionStats :: RetentionStats where
  "zero_RetentionStats = \<lparr>rs_Scanned = 0, rs_Deleted = 0, rs_WouldDelete = 0, rs_OrphansDeleted = 0, rs_Errors = 0, rs_Duration = 0\<rparr>"

definition TrimSuffix :: "string \<Rightarrow> string \<Rightarrow> string" where
  "TrimSuffix s suffix = (if suffix \<noteq> [] \<and> length suffix \<le> length s \<and> drop (length s - length suffix) s = suffix
     then take (length s - length suffix) s else s)"

definition TrimPrefix :: "string \<Rightarrow> string \<Rightarrow> string" where
  "TrimPrefix s pre = (if HasPrefix s pre then drop (length pre) s else s)"

text \<open>\<^verbatim>\<open>strings.SplitN\<close> at a slash, for a positive bound.\<close>

definition SplitN_slash :: "string \<Rightarrow> nat \<Rightarrow> string list" where
  "SplitN_slash s n = (let parts = split_slash s in
     if length parts \<le> n then parts else take (n - 1) parts @ [join_slash (drop (n - 1) parts)])"

definition clusterPrefix :: "string \<Rightarrow> string \<Rightarrow> string" where
  "clusterPrefix s3Prefix clusterID =
     (if s3Prefix = [] then clusterID @ ''/'' else TrimSuffix s3Prefix ''/'' @ ''/'' @ clusterID @ ''/'')"

definition rootOf :: "string \<Rightarrow> string \<Rightarrow> (string \<times> string \<times> string) option" where
  "rootOf listPrefix key =
     (let rest = TrimPrefix key listPrefix in
      if rest = key then None
      else let parts = SplitN_slash rest 4 in
        if length parts < 3 \<or> parts ! 0 = [] \<or> parts ! 1 = [] \<or> parts ! 2 = [] then None
        else Some (listPrefix @ join_slash (take 3 parts), parts ! 0, parts ! 2))"

text \<open>The common part of both sweeps: a root is reported or deleted.\<close>

definition sweep_root :: "'w RetentionGC \<Rightarrow> 'w Backend \<Rightarrow> string \<Rightarrow> (RetentionStats \<Rightarrow> RetentionStats) \<Rightarrow> RetentionStats \<Rightarrow> ('w, RetentionStats) state" where
  "sweep_root g backend root tally stats =
     (if gc_DryRun g then State_Monad.return (stats\<lparr>rs_WouldDelete := rs_WouldDelete stats + 1\<rparr>)
      else do {
        r \<leftarrow> State (be_DeletePrefix backend root);
        State_Monad.return (case r of
            Inl e \<Rightarrow> stats\<lparr>rs_Errors := rs_Errors stats + 1\<rparr>
          | Inr n \<Rightarrow> tally stats) })"

definition expired :: "'w RetentionGC \<Rightarrow> time \<Rightarrow> SandboxEnvironment \<Rightarrow> bool" where
  "expired g now e =
     (case st_Archive (Status e) of
        None \<Rightarrow> False
      | Some arc \<Rightarrow> (case av_FinishedAt arc of None \<Rightarrow> False | Some finished \<Rightarrow> \<not> time_Sub now finished < gc_TTL g))"

fun sweepRetention :: "'w RetentionGC \<Rightarrow> 'w Backend \<Rightarrow> S3Backend \<Rightarrow> time \<Rightarrow> SandboxEnvironment list \<Rightarrow> RetentionStats \<Rightarrow> ('w, RetentionStats) state" where
  "sweepRetention g backend s3 now [] stats = State_Monad.return stats"
| "sweepRetention g backend s3 now (e # envs) stats =
     (if \<not> expired g now e then sweepRetention g backend s3 now envs stats
      else case NewLayout (s3_Prefix s3) \<lparr>ClusterID = gc_ClusterID g, id_Namespace = Namespace e, EnvName = Name e, EnvUID = UID e\<rparr> of
        Inl err \<Rightarrow> sweepRetention g backend s3 now envs (stats\<lparr>rs_Errors := rs_Errors stats + 1\<rparr>)
      | Inr layout \<Rightarrow>
          sweep_root g backend (Root layout) (\<lambda>stats. stats\<lparr>rs_Deleted := rs_Deleted stats + 1\<rparr>) stats \<bind>
          sweepRetention g backend s3 now envs)"

fun sweep_objects :: "'w RetentionGC \<Rightarrow> 'w Backend \<Rightarrow> string \<Rightarrow> string set \<Rightarrow> string set \<Rightarrow> ObjectInfo list \<Rightarrow> RetentionStats \<Rightarrow> ('w, RetentionStats) state" where
  "sweep_objects g backend listPrefix liveUIDs seen [] stats = State_Monad.return stats"
| "sweep_objects g backend listPrefix liveUIDs seen (obj # objs) stats =
     (case rootOf listPrefix (oi_Key obj) of
        None \<Rightarrow> sweep_objects g backend listPrefix liveUIDs seen objs stats
      | Some (root, ns, uid) \<Rightarrow>
          if gc_Namespace g \<noteq> [] \<and> ns \<noteq> gc_Namespace g \<or> root \<in> seen
          then sweep_objects g backend listPrefix liveUIDs seen objs stats
          else if uid \<in> liveUIDs
          then sweep_objects g backend listPrefix liveUIDs (insert root seen) objs stats
          else
            sweep_root g backend root (\<lambda>stats. stats\<lparr>rs_OrphansDeleted := rs_OrphansDeleted stats + 1\<rparr>) stats \<bind>
            sweep_objects g backend listPrefix liveUIDs (insert root seen) objs)"

definition sweepOrphans :: "'w RetentionGC \<Rightarrow> 'w Backend \<Rightarrow> S3Backend \<Rightarrow> string set \<Rightarrow> RetentionStats \<Rightarrow> ('w, RetentionStats) state" where
  "sweepOrphans g backend s3 liveUIDs stats = do {
     r \<leftarrow> State (be_List backend (clusterPrefix (s3_Prefix s3) (gc_ClusterID g)));
     case r of
       Inl e \<Rightarrow> State_Monad.return (stats\<lparr>rs_Errors := rs_Errors stats + 1\<rparr>)
     | Inr objs \<Rightarrow> sweep_objects g backend (clusterPrefix (s3_Prefix s3) (gc_ClusterID g)) liveUIDs {} objs stats }"

text \<open>The bucket of a class, if it has one.\<close>

definition class_s3 :: "SandboxClass \<Rightarrow> S3Backend option" where
  "class_s3 class = (let b = sg_Backend (cs_Storage (cl_Spec class)) in if bs_Type b \<noteq> StorageBackendTypeS3 then None else bs_S3 b)"

fun sweep_classes :: "'w RetentionGC \<Rightarrow> SandboxEnvironment list \<Rightarrow> time \<Rightarrow> SandboxClass list \<Rightarrow> RetentionStats \<Rightarrow> ('w, RetentionStats) state" where
  "sweep_classes g envs now [] stats = State_Monad.return stats"
| "sweep_classes g envs now (class # classes) stats =
     (case class_s3 class of
        None \<Rightarrow> sweep_classes g envs now classes stats
      | Some s3 \<Rightarrow> do {
          b \<leftarrow> State (gc_BackendFor g class);
          case b of
            Inl e \<Rightarrow> sweep_classes g envs now classes (stats\<lparr>rs_Errors := rs_Errors stats + 1\<rparr>)
          | Inr backend \<Rightarrow> do {
              stats \<leftarrow> (if 0 < gc_TTL g
                then sweepRetention g backend s3 now (filter (\<lambda>e. cr_Name (sp_ClassRef (Spec e)) = Name class) envs) stats
                else State_Monad.return stats);
              stats \<leftarrow> sweepOrphans g backend s3 (UID ` set envs) stats;
              sweep_classes g envs now classes stats } })"

definition retention_RunOnce :: "'w RetentionGC \<Rightarrow> ('w, storage_error + RetentionStats) state" where
  "retention_RunOnce g = do {
     start \<leftarrow> State (gc_Clock g);
     r \<leftarrow> State (gc_ListEnvironments g (gc_Namespace g));
     case r of
       Inl e \<Rightarrow> State_Monad.return (Inl (Errorf ''listing environments'' e))
     | Inr envs \<Rightarrow> do {
         now \<leftarrow> State (gc_Clock g);
         cr \<leftarrow> State (gc_ListClasses g);
         case cr of
           Inl e \<Rightarrow> State_Monad.return (Inl (Errorf ''listing classes'' e))
         | Inr classes \<Rightarrow> do {
             stats \<leftarrow> sweep_classes g envs now classes (zero_RetentionStats\<lparr>rs_Scanned := int (length envs)\<rparr>);
             finish \<leftarrow> State (gc_Clock g);
             State_Monad.return (Inr (stats\<lparr>rs_Duration := time_Sub finish start\<rparr>)) } } }"

subsection \<open>Roots and prefixes\<close>

lemma rootOf_Some:
  assumes "rootOf lp key = Some (root, ns, uid)"
  shows "\<exists>name. root = lp @ ns @ ''/'' @ name @ ''/'' @ uid \<and> slash \<notin> set ns \<and> slash \<notin> set name \<and> slash \<notin> set uid"
proof -
  let ?parts = "split_slash (TrimPrefix key lp)"
  have "3 \<le> length (SplitN_slash (TrimPrefix key lp) 4)" and r: "root = lp @ join_slash (take 3 (SplitN_slash (TrimPrefix key lp) 4))"
    and nu: "ns = SplitN_slash (TrimPrefix key lp) 4 ! 0" "uid = SplitN_slash (TrimPrefix key lp) 4 ! 2"
    using assms by (auto simp: rootOf_def Let_def split: if_splits)
  then have "3 \<le> length ?parts" by (auto simp: SplitN_slash_def Let_def split: if_splits)
  then obtain a b c rest where p: "?parts = a # b # c # rest" by (metis Suc_le_length_iff numeral_3_eq_3)
  have "take 3 (SplitN_slash (TrimPrefix key lp) 4) = [a, b, c]" "ns = a" "uid = c"
    using nu by (auto simp: SplitN_slash_def Let_def p numeral_3_eq_3 numeral_2_eq_2)
  moreover have "\<forall>seg \<in> set ?parts. slash \<notin> set seg" using split_no_slash by blast
  ultimately show ?thesis using r p by (auto intro!: exI [of _ b])
qed

lemma valid_prefix_trim:
  assumes "Layout_Validate l = None"
  shows "TrimSuffix (lay_Prefix l) ''/'' = lay_Prefix l"
proof (rule ccontr)
  let ?p = "lay_Prefix l"
  assume "\<not> ?thesis"
  then have "?p \<noteq> []" and "drop (length ?p - 1) ?p = [slash]" by (auto simp: TrimSuffix_def split: if_splits)
  then have "?p = take (length ?p - 1) ?p @ slash # []" by (metis append_take_drop_id)
  then have "[] \<in> set (split_slash ?p)" by (metis split_slash.simps(1) split_slash_append in_set_conv_decomp)
  moreover have "\<forall>seg \<in> set (split_slash ?p). seg \<noteq> []"
    using assms \<open>?p \<noteq> []\<close> valid_segment_nonempty by (auto simp: Layout_Validate_None root_segments_def)
  ultimately show False by blast
qed

lemma Root_cluster:
  assumes "Layout_Validate l = None"
  shows "Root l = clusterPrefix (lay_Prefix l) (ClusterID (lay_Identity l)) @
    id_Namespace (lay_Identity l) @ ''/'' @ EnvName (lay_Identity l) @ ''/'' @ EnvUID (lay_Identity l)"
proof (cases "lay_Prefix l = []")
  case True
  then show ?thesis using Root_join [OF assms] by (simp add: root_segments_def identity_segments_def clusterPrefix_def)
next
  case False
  then show ?thesis
    using Root_join [OF assms] join_slash_append [of "split_slash (lay_Prefix l)" "identity_segments (lay_Identity l)"] split_slash_nonempty
    by (simp add: root_segments_def identity_segments_def clusterPrefix_def valid_prefix_trim [OF assms] join_split)
qed

lemma valid_identity_no_slash:
  "Layout_Validate l = None \<Longrightarrow> slash \<notin> set (id_Namespace (lay_Identity l)) \<and> slash \<notin> set (EnvName (lay_Identity l)) \<and> slash \<notin> set (EnvUID (lay_Identity l))"
  using valid_segment_no_slash by (auto simp: Layout_Validate_None root_segments_def identity_segments_def)

text \<open>A listed root that reaches into the root of a layout has its identifier.\<close>

lemma root_reaches:
  assumes "Layout_Validate l = None" and "rootOf (clusterPrefix (lay_Prefix l) (ClusterID (lay_Identity l))) key' = Some (root, ns, uid)"
    and "length uid = length (EnvUID (lay_Identity l))" and "key_below (Root l) key" and "HasPrefix key root"
  shows "uid = EnvUID (lay_Identity l)"
proof -
  let ?i = "lay_Identity l" and ?lp = "clusterPrefix (lay_Prefix l) (ClusterID (lay_Identity l))"
  obtain name where r: "root = ?lp @ ns @ ''/'' @ name @ ''/'' @ uid" and ns: "slash \<notin> set ns" "slash \<notin> set name" "slash \<notin> set uid"
    using rootOf_Some [OF assms(2)] by blast
  obtain rest where k: "key = Root l @ slash # rest" using assms(4) by (auto simp: key_below_iff)
  obtain t where k': "key = root @ t" using assms(5) by (auto simp: HasPrefix_iff)
  note own = valid_identity_no_slash [OF assms(1)]
  have eq: "(id_Namespace ?i @ slash # EnvName ?i) @ slash # EnvUID ?i @ slash # rest = (ns @ slash # name) @ slash # uid @ t"
    using k [unfolded k' r Root_cluster [OF assms(1)]] by simp
  have len: "length (split_slash (id_Namespace ?i @ slash # EnvName ?i)) = length (split_slash (ns @ slash # name))"
    using ns own by (simp add: split_append split_plain)
  have "slash \<notin> set (EnvUID ?i)" using own by blast
  then show ?thesis using last_segment_prefix [OF ns(3) _ assms(3) eq len] by blast
qed

text \<open>Prefixes that are apart share no key.\<close>

definition apart :: "string \<Rightarrow> string \<Rightarrow> bool" where
  "apart p q \<longleftrightarrow> \<not> HasPrefix p q \<and> \<not> HasPrefix q p"

lemma apart_keys: "apart p q \<Longrightarrow> HasPrefix key p \<Longrightarrow> HasPrefix key q \<Longrightarrow> False"
  by (auto simp: apart_def HasPrefix_iff append_eq_append_conv2)

lemma HasPrefix_trans: "HasPrefix key (p @ q) \<Longrightarrow> HasPrefix key p"
  by (auto simp: HasPrefix_iff)

subsection \<open>What a pass keeps\<close>

text \<open>
  The world of a pass: one bucket behind all classes, which is the case in which a sweep of one
  class could reach the roots of another, and calls on the API server that leave the bucket alone.
\<close>

locale gc_world =
  fixes g :: "'w RetentionGC" and objects :: "'w \<Rightarrow> objects" and sha :: "string \<Rightarrow> string"
  assumes environments_keep: "gc_ListEnvironments g ns w = (r, w') \<Longrightarrow> objects w' = objects w"
    and classes_keep: "gc_ListClasses g w = (rc, w') \<Longrightarrow> objects w' = objects w"
    and clock_keeps: "gc_Clock g w = (t, w') \<Longrightarrow> objects w' = objects w"
    and backend_keeps: "gc_BackendFor g class w = (rb, w') \<Longrightarrow> objects w' = objects w"
    and backend_ok: "gc_BackendFor g class w = (Inr b, w') \<Longrightarrow> storage_backend b objects sha"

context gc_world
begin

text \<open>Objects only go, and none of the keys \<open>K\<close> does.\<close>

definition kept :: "objects \<Rightarrow> string set \<Rightarrow> 'w \<Rightarrow> bool" where
  "kept objs K w \<longleftrightarrow> (\<forall>key. objects w key = objs key \<or> objects w key = None \<and> key \<notin> K)"

text \<open>A root that may be swept.\<close>

definition spares :: "string set \<Rightarrow> string \<Rightarrow> bool" where
  "spares K root \<longleftrightarrow> gc_DryRun g \<or> (\<forall>key \<in> K. \<not> HasPrefix key root)"

lemma after_sweep_root:
  assumes "storage_backend b objects sha" and "kept objs K w" and "spares K root"
  shows "after (sweep_root g b root f stats) w (\<lambda>_. kept objs K)"
proof (cases "gc_DryRun g")
  case False
  obtain r w' where d: "be_DeletePrefix b root w = (r, w')" by force
  have "objects w' key = objects w key \<or> objects w' key = None \<and> key \<notin> K" for key
    using storage_backend.sweep_takes [OF assms(1) d, of key] storage_backend.sweep_only [OF assms(1) d, of key] assms(3) False
    by (auto simp: spares_def)
  then have "kept objs K w'" using assms(2) unfolding kept_def by metis
  then show ?thesis using False by (simp add: sweep_root_def job after_State d)
qed (use assms(2) in \<open>simp add: sweep_root_def job\<close>)

lemma after_sweepRetention:
  assumes "storage_backend b objects sha"
    and "\<And>e l. e \<in> set envs \<Longrightarrow> expired g now e \<Longrightarrow> NewLayout (s3_Prefix s3)
        \<lparr>ClusterID = gc_ClusterID g, id_Namespace = Namespace e, EnvName = Name e, EnvUID = UID e\<rparr> = Inr l \<Longrightarrow> spares K (Root l)"
  shows "kept objs K w \<Longrightarrow> after (sweepRetention g b s3 now envs stats) w (\<lambda>_. kept objs K)"
  using assms(2)
proof (induction envs arbitrary: stats w)
  case (Cons e envs)
  have IH: "after (sweepRetention g b s3 now envs stats) w (\<lambda>_. kept objs K)" if "kept objs K w" for stats w
    by (rule Cons.IH [OF that]) (rule Cons.prems(2), simp_all)
  have sweep: "after (sweep_root g b (Root l) f stats) w (\<lambda>_. kept objs K)"
    if "expired g now e" "NewLayout (s3_Prefix s3) \<lparr>ClusterID = gc_ClusterID g, id_Namespace = Namespace e, EnvName = Name e, EnvUID = UID e\<rparr> = Inr l" for l f
    using after_sweep_root [OF assms(1) Cons.prems(1) Cons.prems(2) [OF _ that]] by simp
  show ?case
    by (auto simp: after_bind IH Cons.prems(1) split: sum.split intro!: after_mono [OF sweep])
qed (simp add: job)

lemma after_sweep_objects:
  assumes "storage_backend b objects sha"
    and "\<And>info root ns uid. info \<in> set infos \<Longrightarrow> rootOf lp (oi_Key info) = Some (root, ns, uid) \<Longrightarrow> uid \<notin> live \<Longrightarrow> spares K root"
  shows "kept objs K w \<Longrightarrow> after (sweep_objects g b lp live seen infos stats) w (\<lambda>_. kept objs K)"
  using assms(2)
proof (induction infos arbitrary: seen stats w)
  case (Cons info infos)
  have IH: "after (sweep_objects g b lp live seen infos stats) w (\<lambda>_. kept objs K)" if "kept objs K w" for seen stats w
    by (rule Cons.IH [OF that]) (rule Cons.prems(2), simp_all)
  have sweep: "after (sweep_root g b root f stats) w (\<lambda>_. kept objs K)"
    if "rootOf lp (oi_Key info) = Some (root, ns, uid)" "uid \<notin> live" for root ns uid f
    using after_sweep_root [OF assms(1) Cons.prems(1) Cons.prems(2) [OF _ that]] by simp
  show ?case
    by (auto simp: after_bind IH Cons.prems(1) split: option.split intro!: after_mono [OF sweep])
qed (simp add: job)

lemma kept_listed: "kept objs K w \<Longrightarrow> objects w key \<noteq> None \<Longrightarrow> objs key \<noteq> None"
  unfolding kept_def by metis

lemma after_sweepOrphans:
  assumes "storage_backend b objects sha" and "kept objs K w"
    and "\<And>key root ns uid. objs key \<noteq> None \<Longrightarrow> rootOf (clusterPrefix (s3_Prefix s3) (gc_ClusterID g)) key = Some (root, ns, uid) \<Longrightarrow>
       uid \<notin> live \<Longrightarrow> spares K root"
  shows "after (sweepOrphans g b s3 live stats) w (\<lambda>_. kept objs K)"
proof -
  let ?lp = "clusterPrefix (s3_Prefix s3) (gc_ClusterID g)"
  obtain r w' where l: "be_List b ?lp w = (r, w')" by force
  have k: "kept objs K w'" using assms(2) storage_backend.list_keeps [OF assms(1) l] by (simp add: kept_def)
  have listed: "objs (oi_Key info) \<noteq> None" if "r = Inr infos" "info \<in> set infos" for infos info
  proof -
    have "oi_Key info \<in> set (map oi_Key infos)" using that(2) by simp
    then have "oi_Key info \<in> dom (objects w)" using storage_backend.list_ok [OF assms(1) l [unfolded that(1)]] by simp
    then show ?thesis using kept_listed [OF assms(2)] by blast
  qed
  have "after (sweep_objects g b ?lp live {} infos stats) w' (\<lambda>_. kept objs K)" if "r = Inr infos" for infos
    by (rule after_sweep_objects [OF assms(1) _ k]) (use assms(3) listed [OF that] in blast)
  then show ?thesis using k by (auto simp: sweepOrphans_def after_bind after_State after_return l split: sum.split)
qed

text \<open>Every root the sweeps of a class may delete spares the keys.\<close>

definition class_spares :: "objects \<Rightarrow> string set \<Rightarrow> SandboxEnvironment list \<Rightarrow> time \<Rightarrow> S3Backend \<Rightarrow> bool" where
  "class_spares objs K envs now s3 \<longleftrightarrow>
     (\<forall>e \<in> set envs. \<forall>l. 0 < gc_TTL g \<longrightarrow> expired g now e \<longrightarrow> NewLayout (s3_Prefix s3)
        \<lparr>ClusterID = gc_ClusterID g, id_Namespace = Namespace e, EnvName = Name e, EnvUID = UID e\<rparr> = Inr l \<longrightarrow> spares K (Root l)) \<and>
     (\<forall>key root ns uid. objs key \<noteq> None \<longrightarrow> rootOf (clusterPrefix (s3_Prefix s3) (gc_ClusterID g)) key = Some (root, ns, uid) \<longrightarrow>
        uid \<notin> UID ` set envs \<longrightarrow> spares K root)"

lemma after_class:
  assumes "storage_backend b objects sha" and "kept objs K w" and "class_spares objs K envs now s3"
  shows "after (if 0 < gc_TTL g then sweepRetention g b s3 now (filter p envs) stats else State_Monad.return stats) w
    (\<lambda>stats w'. after (sweepOrphans g b s3 (UID ` set envs) stats) w' (\<lambda>_. kept objs K))"
proof -
  have r: "after (if 0 < gc_TTL g then sweepRetention g b s3 now (filter p envs) stats else State_Monad.return stats) w (\<lambda>_. kept objs K)"
  proof (cases "0 < gc_TTL g")
    case True
    have "after (sweepRetention g b s3 now (filter p envs) stats) w (\<lambda>_. kept objs K)"
      by (rule after_sweepRetention [OF assms(1) _ assms(2)]) (use assms(3) True in \<open>auto simp: class_spares_def\<close>)
    then show ?thesis using True by simp
  qed (use assms(2) in \<open>simp add: after_return\<close>)
  show ?thesis
    by (rule after_mono [OF r], rule after_sweepOrphans [OF assms(1)]) (use assms(3) in \<open>auto simp: class_spares_def\<close>)
qed

lemma after_sweep_classes:
  "kept objs K w \<Longrightarrow> (\<And>class s3. class \<in> set classes \<Longrightarrow> class_s3 class = Some s3 \<Longrightarrow> class_spares objs K envs now s3) \<Longrightarrow>
   after (sweep_classes g envs now classes stats) w (\<lambda>_. kept objs K)"
proof (induction classes arbitrary: stats w)
  case (Cons cls classes)
  have IH: "after (sweep_classes g envs now classes stats) w (\<lambda>_. kept objs K)" if "kept objs K w" for stats w
    by (rule Cons.IH [OF that]) (rule Cons.prems(2), simp_all)
  show ?case
  proof (cases "class_s3 cls")
    case (Some s3)
    obtain r w' where b: "gc_BackendFor g cls w = (r, w')" by force
    have k: "kept objs K w'" using Cons.prems(1) backend_keeps [OF b] by (simp add: kept_def)
    show ?thesis
    proof (cases r)
      case (Inr be)
      have "class_spares objs K envs now s3" using Cons.prems(2) [of cls s3] Some by simp
      note sweep = after_class [OF backend_ok [OF b [unfolded Inr]] k this]
      show ?thesis
        unfolding sweep_classes.simps Some option.case after_bind after_State b prod.case Inr sum.case
        by (rule after_mono [OF sweep], erule after_mono, rule IH)
    qed (simp add: Some b k after_bind after_State IH)
  qed (simp add: IH Cons.prems(1))
qed (simp add: job)

lemma after_RunOnce:
  assumes "gc_Clock g w = (start, w0)" and "gc_ListEnvironments g (gc_Namespace g) w0 = (r, w1)" and "gc_Clock g w1 = (now, w2)"
    and "\<And>envs classes w3 cls s3. r = Inr envs \<Longrightarrow> gc_ListClasses g w2 = (Inr classes, w3) \<Longrightarrow> cls \<in> set classes \<Longrightarrow> class_s3 cls = Some s3 \<Longrightarrow>
      class_spares (objects w) K envs now s3"
  shows "after (retention_RunOnce g) w (\<lambda>_. kept (objects w) K)"
proof -
  obtain rc w3 where c: "gc_ListClasses g w2 = (rc, w3)" by force
  have eq: "objects w1 = objects w" "objects w3 = objects w"
    using clock_keeps [OF assms(1)] environments_keep [OF assms(2)] clock_keeps [OF assms(3)] classes_keep [OF c] by simp_all
  have k: "kept (objects w) K w1" "kept (objects w) K w3" by (simp_all add: kept_def eq)
  have clock: "case gc_Clock g w' of (t, w'') \<Rightarrow> kept (objects w) K w''" if "kept (objects w) K w'" for w'
    using that by (auto simp: kept_def clock_keeps split: prod.split)
  have swept: "after (sweep_classes g envs now classes stats) w3 (\<lambda>_. kept (objects w) K)" if "r = Inr envs" "rc = Inr classes" for envs classes stats
    by (rule after_sweep_classes [OF k(2)]) (use assms(4) that c in blast)
  have rest: "after (sweep_classes g envs now classes stats) w3 (\<lambda>_ w'. case gc_Clock g w' of (t, w'') \<Rightarrow> kept (objects w) K w'')"
    if "r = Inr envs" "rc = Inr classes" for envs classes stats
    by (rule after_mono [OF swept [OF that]], erule clock)
  show ?thesis
    unfolding retention_RunOnce_def after_bind after_State assms(1,2) prod.case
    by (cases r; cases rc) (simp_all add: after_bind after_State after_return assms(3) c k rest)
qed

text \<open>The sweeps spare the root of a listed environment whose archive is not expired.\<close>

lemma live_spared:
  assumes "e \<in> set envs" and "NewLayout pre \<lparr>ClusterID = gc_ClusterID g, id_Namespace = Namespace e, EnvName = Name e, EnvUID = UID e\<rparr> = Inr l"
    and "\<forall>e' \<in> set envs. length (UID e') = length (UID e) \<and> (UID e' = UID e \<longrightarrow> e' = e)"
    and "\<not> (0 < gc_TTL g \<and> expired g now e)"
    and "s3_Prefix s3 = pre \<or> apart (clusterPrefix (s3_Prefix s3) (gc_ClusterID g)) (clusterPrefix pre (gc_ClusterID g))"
    and "\<forall>key root ns uid. objs key \<noteq> None \<longrightarrow> rootOf (clusterPrefix pre (gc_ClusterID g)) key = Some (root, ns, uid) \<longrightarrow> length uid = length (UID e)"
  shows "class_spares objs {key. key_below (Root l) key} envs now s3"
proof -
  have l: "Layout_Validate l = None" "lay_Prefix l = pre" "ClusterID (lay_Identity l) = gc_ClusterID g" "EnvUID (lay_Identity l) = UID e"
    using assms(2) by (auto simp: NewLayout_Inr)
  have own: "HasPrefix key (clusterPrefix pre (gc_ClusterID g))" if "key_below (Root l) key" for key
    using that Root_cluster [OF l(1)] l(2,3) by (auto simp: key_below_iff HasPrefix_iff)
  show ?thesis
  proof (cases "s3_Prefix s3 = pre")
    case True
    have "\<not> HasPrefix key (Root l')" if "e' \<in> set envs" "0 < gc_TTL g" "expired g now e'" "key_below (Root l) key"
      "NewLayout pre \<lparr>ClusterID = gc_ClusterID g, id_Namespace = Namespace e', EnvName = Name e', EnvUID = UID e'\<rparr> = Inr l'" for e' l' key
    proof
      assume "HasPrefix key (Root l')"
      then have "l' = l" using that prefix_sweep_disjoint [of l' l key] l assms(3) by (auto simp: NewLayout_Inr)
      then show False using that assms(2-4) by (auto simp: NewLayout_Inr)
    qed
    moreover have "\<not> HasPrefix key root" if "objs key' \<noteq> None" "rootOf (clusterPrefix pre (gc_ClusterID g)) key' = Some (root, ns, uid)"
      "uid \<notin> UID ` set envs" "key_below (Root l) key" for key' root ns uid key
      using root_reaches [OF l(1), of key' root ns uid key] that assms(1,6) l by auto
    ultimately show ?thesis using True by (auto simp: class_spares_def spares_def)
  next
    case False
    then have far: "\<not> HasPrefix key (clusterPrefix (s3_Prefix s3) (gc_ClusterID g) @ rest)" if "key_below (Root l) key" for key rest
      using assms(5) apart_keys own [OF that] HasPrefix_trans by blast
    have "\<not> HasPrefix key (Root l')" if "NewLayout (s3_Prefix s3) \<lparr>ClusterID = gc_ClusterID g, id_Namespace = ns, EnvName = n, EnvUID = u\<rparr> = Inr l'"
      "key_below (Root l) key" for l' key ns n u
      using far [OF that(2)] Root_cluster [of l'] that(1) by (auto simp: NewLayout_Inr)
    moreover have "\<not> HasPrefix key root" if "rootOf (clusterPrefix (s3_Prefix s3) (gc_ClusterID g)) key' = Some (root, ns, uid)" "key_below (Root l) key" for key' root ns uid key
      using rootOf_Some [OF that(1)] far [OF that(2)] by auto
    ultimately show ?thesis unfolding class_spares_def spares_def by blast
  qed
qed

end

text \<open>
  C9: The storage of a listed environment survives a pass, whatever the backends answer, unless its archive is past the retention
  time: no key below its root changes. The environment is laid out under one of the prefixes in use,
  which are equal or apart, and the identifiers in the bucket have the same length, as those of Kubernetes have.
  A pass never adds or changes an object, and a dry run changes nothing.
\<close>

theorem retention_keeps_live:
  assumes "gc_world g objs sha"
    and "gc_Clock g w = (start, w0)" and "gc_ListEnvironments g (gc_Namespace g) w0 = (Inr envs, w1)" and "gc_Clock g w1 = (now, w2)"
    and "e \<in> set envs" and "NewLayout pre \<lparr>ClusterID = gc_ClusterID g, id_Namespace = Namespace e, EnvName = Name e, EnvUID = UID e\<rparr> = Inr l"
    and "\<forall>e' \<in> set envs. length (UID e') = length (UID e) \<and> (UID e' = UID e \<longrightarrow> e' = e)"
    and "\<not> (0 < gc_TTL g \<and> expired g now e)"
    and "\<forall>classes w3. gc_ListClasses g w2 = (Inr classes, w3) \<longrightarrow> (\<forall>cls \<in> set classes. \<forall>s3. class_s3 cls = Some s3 \<longrightarrow>
          s3_Prefix s3 = pre \<or> apart (clusterPrefix (s3_Prefix s3) (gc_ClusterID g)) (clusterPrefix pre (gc_ClusterID g)))"
    and "\<forall>key root ns uid. objs w key \<noteq> None \<longrightarrow> rootOf (clusterPrefix pre (gc_ClusterID g)) key = Some (root, ns, uid) \<longrightarrow> length uid = length (UID e)"
  shows "case run_state (retention_RunOnce g) w of (r, w') \<Rightarrow>
    (\<forall>key. key_below (Root l) key \<longrightarrow> objs w' key = objs w key) \<and>
    (\<forall>key. objs w' key = objs w key \<or> objs w' key = None) \<and> (gc_DryRun g \<longrightarrow> objs w' = objs w)"
proof -
  have live: "after (retention_RunOnce g) w (\<lambda>_. gc_world.kept objs (objs w) {key. key_below (Root l) key})"
    by (rule gc_world.after_RunOnce [OF assms(1-4)])
      (use gc_world.live_spared [OF assms(1,5-8) _ assms(10)] assms(9) in blast)
  have dry: "after (retention_RunOnce g) w (\<lambda>_. gc_world.kept objs (objs w) UNIV)" if "gc_DryRun g"
    by (rule gc_world.after_RunOnce [OF assms(1-4)])
      (use that in \<open>simp add: gc_world.class_spares_def [OF assms(1)] gc_world.spares_def [OF assms(1)]\<close>)
  show ?thesis using live dry by (auto simp: after_def gc_world.kept_def [OF assms(1)] split: prod.splits)
qed

subsection \<open>A reference world\<close>

text \<open>Environments and classes that do not change, and the reference bucket.\<close>

definition ref_gc :: "SandboxEnvironment list \<Rightarrow> SandboxClass list \<Rightarrow> (string \<times> string) list RetentionGC" where
  "ref_gc envs classes = \<lparr>gc_ListEnvironments = (\<lambda>ns w. (Inr envs, w)), gc_ListClasses = (\<lambda>w. (Inr classes, w)),
     gc_BackendFor = (\<lambda>cls w. (Inr (ref_backend (\<lambda>_. sample_digest)), w)), gc_Clock = (\<lambda>w. (0, w)),
     gc_ClusterID = ''c'', gc_TTL = 0, gc_DryRun = False, gc_Namespace = []\<rparr>"

interpretation ref_gc: gc_world "ref_gc envs classes" map_of "\<lambda>_. sample_digest"
  by (rule gc_world.intro) (auto simp: ref_gc_def intro: ref_backend.storage_backend_axioms)

definition s3_class :: SandboxClass where
  "s3_class = \<lparr>Name = ''k'', Namespace = [], UID = ''k1'', ResourceVersion = [], Generation = 1, CreationTimestamp = 0, DeletionTimestamp = None, Finalizers = [],
     cl_Spec = \<lparr>cs_Agent = \<lparr>as_Image = ''a'', as_Resources = \<lparr>rq_Limits = [], rq_Requests = []\<rparr>, as_Model = None\<rparr>,
       cs_Engine = \<lparr>en_Type = EngineTypeNone, en_Image = [], en_StorageDriver = []\<rparr>,
       cs_Services = \<lparr>sv_GitProxy = None, sv_DependaProxy = None, sv_Ollama = None\<rparr>,
       cs_Storage = \<lparr>sg_Workspace = \<lparr>ws_Size = ''1Gi'', ws_StorageClassName = None\<rparr>,
         sg_Backend = \<lparr>bs_Type = StorageBackendTypeS3, bs_S3 = Some \<lparr>s3_Endpoint = ''http://s'', s3_Bucket = ''b'', s3_Region = [], s3_Prefix = [],
           s3_CredentialsSecretRef = \<lparr>sk_Name = ''s'', sk_Key = []\<rparr>, s3_ForcePathStyle = None\<rparr>, bs_PVC = None\<rparr>,
         sg_WarmCacheTTL = []\<rparr>,
       cs_Network = \<lparr>nw_Isolation = [], nw_ExtraEgress = []\<rparr>, cs_Timeouts = \<lparr>tm_Running = [], tm_Waiting = [], tm_Total = []\<rparr>\<rparr>\<rparr>"

definition live_env :: SandboxEnvironment where
  "live_env = zero_env\<lparr>Name := ''e'', Namespace := ''n'', UID := ''u1''\<rparr>"

theorem retention_keeps_live_witness:
  "case run_state (retention_RunOnce (ref_gc [live_env] [s3_class])) [(''c/n/e/u1/latest.json'', ''x''), (''c/n/e/u0/latest.json'', ''y'')] of (r, w') \<Rightarrow>
     map_of w' ''c/n/e/u1/latest.json'' = Some ''x''"
proof -
  let ?g = "ref_gc [live_env] [s3_class]" and ?w = "[(''c/n/e/u1/latest.json'', ''x''), (''c/n/e/u0/latest.json'', ''y'')]"
  let ?l = "\<lparr>lay_Prefix = [], lay_Identity = \<lparr>ClusterID = ''c'', id_Namespace = ''n'', EnvName = ''e'', EnvUID = ''u1''\<rparr>\<rparr>"
  have lists: "gc_Clock ?g ?w = (0, ?w)" "gc_ListEnvironments ?g (gc_Namespace ?g) ?w = (Inr [live_env], ?w)"
    by (simp_all add: ref_gc_def)
  have lay: "NewLayout [] \<lparr>ClusterID = gc_ClusterID ?g, id_Namespace = Namespace live_env, EnvName = Name live_env, EnvUID = UID live_env\<rparr> = Inr ?l"
    by code_simp
  have fresh: "\<not> (0 < gc_TTL ?g \<and> expired ?g 0 live_env)" by (simp add: ref_gc_def)
  have classes: "\<forall>classes w3. gc_ListClasses ?g ?w = (Inr classes, w3) \<longrightarrow> (\<forall>cls \<in> set classes. \<forall>s3. class_s3 cls = Some s3 \<longrightarrow>
      s3_Prefix s3 = [] \<or> apart (clusterPrefix (s3_Prefix s3) (gc_ClusterID ?g)) (clusterPrefix [] (gc_ClusterID ?g)))"
    by (auto simp: ref_gc_def class_s3_def s3_class_def)
  have keys: "list_all (\<lambda>key. case rootOf (clusterPrefix [] ''c'') key of Some (root, ns, uid) \<Rightarrow> length uid = 2 | None \<Rightarrow> True) (map fst ?w)"
    by code_simp
  have uids: "\<forall>key root ns uid. map_of ?w key \<noteq> None \<longrightarrow> rootOf (clusterPrefix [] (gc_ClusterID ?g)) key = Some (root, ns, uid) \<longrightarrow> length uid = length (UID live_env)"
    using keys by (auto simp: ref_gc_def live_env_def zero_env_def split: if_splits)
  have below: "key_below (Root ?l) ''c/n/e/u1/latest.json''" by code_simp
  show ?thesis
    using retention_keeps_live [OF ref_gc.gc_world_axioms lists lists(1) _ lay _ fresh classes uids] below by (auto split: prod.splits)
qed

subsection \<open>What a pass may take\<close>

text \<open>
  The root is deleted as a string prefix, without a slash behind it. A key whose identifier is the
  beginning of a live one takes the live environment's objects with it, although \<^verbatim>\<open>rootOf\<close> compares whole
  identifiers.
\<close>

lemma truncated_key_sweeps_live:
  "case run_state (retention_RunOnce (ref_gc [live_env] [s3_class])) [(''c/n/e/u1/latest.json'', ''x''), (''c/n/e/u/x'', ''y'')] of (r, w') \<Rightarrow>
     map_of w' ''c/n/e/u1/latest.json'' = None"
  by code_simp

text \<open>
  The environments are listed before the objects. The world of this pass has an environment created, and
  its first snapshot stored, between the two listings: the snapshot is swept as an orphan.
\<close>

definition racing_gc :: "(SandboxEnvironment list \<times> (string \<times> string) list) RetentionGC" where
  "racing_gc =
     (let be = ref_backend (\<lambda>_. sample_digest) in
      \<lparr>gc_ListEnvironments = (\<lambda>ns (envs, b). (Inr envs, envs, b)),
       gc_ListClasses = (\<lambda>(envs, b). (Inr [s3_class], live_env # envs, (''c/n/e/u1/latest.json'', ''x'') # b)),
       gc_BackendFor = (\<lambda>cls w. (Inr \<lparr>be_Put = (\<lambda>key rd ct. case_prod (\<lambda>envs b. case be_Put be key rd ct b of (r, b') \<Rightarrow> (r, envs, b'))),
          be_Get = (\<lambda>key. case_prod (\<lambda>envs b. case be_Get be key b of (r, b') \<Rightarrow> (r, envs, b'))),
          be_Stat = (\<lambda>key. case_prod (\<lambda>envs b. case be_Stat be key b of (r, b') \<Rightarrow> (r, envs, b'))),
          be_List = (\<lambda>key. case_prod (\<lambda>envs b. case be_List be key b of (r, b') \<Rightarrow> (r, envs, b'))),
          be_Delete = (\<lambda>key. case_prod (\<lambda>envs b. case be_Delete be key b of (r, b') \<Rightarrow> (r, envs, b'))),
          be_DeletePrefix = (\<lambda>key. case_prod (\<lambda>envs b. case be_DeletePrefix be key b of (r, b') \<Rightarrow> (r, envs, b')))\<rparr>, w)),
       gc_Clock = (\<lambda>w. (0, w)), gc_ClusterID = ''c'', gc_TTL = 0, gc_DryRun = False, gc_Namespace = []\<rparr>)"

lemma young_environment_swept:
  "case run_state (retention_RunOnce racing_gc) ([], []) of (r, envs, b) \<Rightarrow> map UID envs = [''u1''] \<and> b = []"
  by code_simp

end
