(* ===== verification/Warm_Cache_GC.thy ===== *)
theory Warm_Cache_GC
  imports Class_Types Observe Kube_Api Freeze_Safety
begin

section \<open>Reclaiming warm workspaces\<close>

text \<open>
  \<^verbatim>\<open>src/operator/internal/controller/warmcachegc.go\<close>. A frozen environment keeps its workspace volume as a warm cache; a pass
  deletes the claims of those that have waited longer than their class allows. Until a snapshot is stored
  the volume is the only copy of the agent's work, so what matters is which claims a pass can
  delete. The calls are fields of the record; the pass runs in the state monad over the world. The text an
  error is wrapped in is left out.
\<close>

subsection \<open>One pass\<close>

record PersistentVolumeClaim =
  pv_Namespace :: string
  pv_Name :: string
  pv_UID :: string
  pv_OwnerReferences :: "OwnerReference list"
  pv_DeletionTimestamp :: "time option"

record 'w WarmCacheGC =
  wg_List :: "string \<Rightarrow> 'w \<Rightarrow> (go_error + SandboxEnvironment list) \<times> 'w"
  wg_Get :: "key \<Rightarrow> 'w \<Rightarrow> (go_error + SandboxEnvironment) \<times> 'w"
  wg_GetClass :: "string \<Rightarrow> 'w \<Rightarrow> (go_error + SandboxClass) \<times> 'w"
  wg_GetClaim :: "key \<Rightarrow> 'w \<Rightarrow> (go_error + PersistentVolumeClaim) \<times> 'w"
  wg_DeleteClaim :: "PersistentVolumeClaim \<Rightarrow> string \<Rightarrow> 'w \<Rightarrow> go_error option \<times> 'w"
  wg_Clock :: "'w \<Rightarrow> time \<times> 'w"
  wg_Namespace :: string
  wg_ParseDuration :: "string \<Rightarrow> duration option"
  wg_Sha256Hex :: "string \<Rightarrow> string"

record ReclaimedPVC =
  rv_Namespace :: string
  rv_Name :: string
  rv_EnvName :: string
  rv_Age :: duration

record GCStats =
  gs_Scanned :: int
  gs_Eligible :: int
  gs_Deleted :: int
  gs_Skipped :: int
  gs_Errors :: int
  gs_Duration :: duration
  gs_Reclaimed :: "ReclaimedPVC list"

definition defaultWarmCacheTTL :: duration where
  "defaultWarmCacheTTL = 30 * Minute"

definition parseWarmCacheTTL :: "(string \<Rightarrow> duration option) \<Rightarrow> string \<Rightarrow> duration" where
  "parseWarmCacheTTL ParseDuration s =
     (if s = [] then defaultWarmCacheTTL
      else case ParseDuration s of None \<Rightarrow> defaultWarmCacheTTL | Some d \<Rightarrow> d)"

definition eligible :: "(string \<Rightarrow> duration option) \<Rightarrow> SandboxEnvironment \<Rightarrow> SandboxClass \<Rightarrow> time \<Rightarrow> bool" where
  "eligible ParseDuration env cls now =
     (if st_Phase (Status env) \<noteq> PhaseWaiting then False
      else if \<not> IsZero (DeletionTimestamp env) then False
      else case st_Snapshot (Status env) of
        None \<Rightarrow> False
      | Some s \<Rightarrow>
          (case sn_TakenAt s of
             None \<Rightarrow> False
           | Some takenAt \<Rightarrow>
               if sn_Seq s < sint (st_FreezeCount (Status env) - 1) then False
               else if (case st_SnapshotAttempt (Status env) of None \<Rightarrow> False | Some a \<Rightarrow> sa_Phase a \<noteq> SnapshotAttemptSucceeded) then False
               else if bs_Type (sg_Backend (cs_Storage (cl_Spec cls))) \<noteq> StorageBackendTypeS3 then False
               else let ttl = parseWarmCacheTTL ParseDuration (sg_WarmCacheTTL (cs_Storage (cl_Spec cls))) in
                 if ttl \<le> 0 then False else ttl \<le> time_Sub now takenAt))"

definition reclaim :: "'w WarmCacheGC \<Rightarrow> SandboxEnvironment \<Rightarrow> SandboxClass \<Rightarrow> time \<Rightarrow> GCStats \<Rightarrow> ('w, go_error option \<times> GCStats) state" where
  "reclaim g env cls now stats = do {
     let claim = n_PVC (ChildNames (wg_Sha256Hex g) (Name env));
     r \<leftarrow> State (wg_GetClaim g (Namespace env, claim));
     case r of
       Inl e \<Rightarrow> State_Monad.return (if e = NotFound then None else Some e, stats)
     | Inr pvc \<Rightarrow>
         if \<not> owned_by (pv_OwnerReferences pvc) env \<or> \<not> IsZero (pv_DeletionTimestamp pvc) then State_Monad.return (None, stats)
         else do {
           r \<leftarrow> State (wg_Get g (Namespace env, Name env));
           case r of
             Inl e \<Rightarrow> State_Monad.return (if e = NotFound then None else Some e, stats)
           | Inr fresh \<Rightarrow>
               if UID fresh \<noteq> UID env \<or> \<not> eligible (wg_ParseDuration g) fresh cls now then State_Monad.return (None, stats)
               else do {
                 d \<leftarrow> State (wg_DeleteClaim g pvc (pv_UID pvc));
                 State_Monad.return
                   (if d \<noteq> None \<and> d \<noteq> Some NotFound then (d, stats)
                    else (None, stats\<lparr>gs_Deleted := gs_Deleted stats + 1,
                      gs_Reclaimed := gs_Reclaimed stats @ [\<lparr>rv_Namespace = Namespace env, rv_Name = claim, rv_EnvName = Name env,
                        rv_Age = time_Sub now (the (sn_TakenAt (the (st_Snapshot (Status fresh)))))\<rparr>]\<rparr>)) } } }"

text \<open>The classes read so far are kept for the rest of the pass.\<close>

definition resolveClass :: "'w WarmCacheGC \<Rightarrow> SandboxEnvironment \<Rightarrow> (string \<times> SandboxClass) list \<Rightarrow> ('w, SandboxClass option \<times> (string \<times> SandboxClass) list) state" where
  "resolveClass g env classes =
     (let name = cr_Name (sp_ClassRef (Spec env)) in
      case map_of classes name of
        Some c \<Rightarrow> State_Monad.return (Some c, classes)
      | None \<Rightarrow> do {
          r \<leftarrow> State (wg_GetClass g name);
          State_Monad.return (case r of Inl e \<Rightarrow> (None, classes) | Inr c \<Rightarrow> (Some c, (name, c) # classes)) })"

fun reclaim_all :: "'w WarmCacheGC \<Rightarrow> time \<Rightarrow> SandboxEnvironment list \<Rightarrow> (string \<times> SandboxClass) list \<Rightarrow> GCStats \<Rightarrow> ('w, GCStats) state" where
  "reclaim_all g now [] classes stats = State_Monad.return stats"
| "reclaim_all g now (env # envs) classes stats = do {
     (cls, classes) \<leftarrow> resolveClass g env classes;
     case cls of
       None \<Rightarrow> reclaim_all g now envs classes stats
     | Some c \<Rightarrow>
         if \<not> eligible (wg_ParseDuration g) env c now then reclaim_all g now envs classes stats
         else do {
           (err, stats) \<leftarrow> reclaim g env c now (stats\<lparr>gs_Eligible := gs_Eligible stats + 1\<rparr>);
           reclaim_all g now envs classes (if err = None then stats else stats\<lparr>gs_Errors := gs_Errors stats + 1\<rparr>) } }"

definition warm_RunOnce :: "'w WarmCacheGC \<Rightarrow> ('w, go_error + GCStats) state" where
  "warm_RunOnce g = do {
     start \<leftarrow> State (wg_Clock g);
     r \<leftarrow> State (wg_List g (wg_Namespace g));
     case r of
       Inl e \<Rightarrow> State_Monad.return (Inl e)
     | Inr envs \<Rightarrow> do {
         now \<leftarrow> State (wg_Clock g);
         stats \<leftarrow> reclaim_all g now envs [] \<lparr>gs_Scanned = int (length envs), gs_Eligible = 0, gs_Deleted = 0, gs_Skipped = 0,
           gs_Errors = 0, gs_Duration = 0, gs_Reclaimed = []\<rparr>;
         finish \<leftarrow> State (wg_Clock g);
         State_Monad.return (Inr (stats\<lparr>gs_Duration := time_Sub finish start\<rparr>)) } }"

subsection \<open>What a pass can delete\<close>

text \<open>
  The server keeps a history of the environments, which others may extend during every call, and
  the claims. A read answers with the newest state, and a delete removes the named claim
  only if it still has the identifier of the precondition.
\<close>

locale warm_world =
  fixes g :: "'w WarmCacheGC" and log :: "'w \<Rightarrow> cluster list" and claims :: "'w \<Rightarrow> key \<rightharpoonup> PersistentVolumeClaim"
  assumes list_spec: "wg_List g ns w = (rl, w') \<Longrightarrow> extends_by (log w) (log w') \<and> claims w' = claims w"
    and get_spec: "wg_Get g key w = (rg, w') \<Longrightarrow>
          extends_by (log w) (log w') \<and> claims w' = claims w \<and> (\<forall>e. rg = Inr e \<longrightarrow> log w' \<noteq> [] \<and> last (log w') key = Some e \<and> env_key e = key)"
    and class_spec: "wg_GetClass g name w = (rc, w') \<Longrightarrow> extends_by (log w) (log w') \<and> claims w' = claims w"
    and claim_spec: "wg_GetClaim g key w = (rp, w') \<Longrightarrow>
          extends_by (log w) (log w') \<and> claims w' = claims w \<and> (\<forall>c. rp = Inr c \<longrightarrow> claims w' key = Some c \<and> (pv_Namespace c, pv_Name c) = key)"
    and delete_spec: "wg_DeleteClaim g c uid w = (rd, w') \<Longrightarrow> extends_by (log w) (log w') \<and>
          (claims w' = claims w \<or> (\<exists>old. claims w (pv_Namespace c, pv_Name c) = Some old \<and> pv_UID old = uid \<and>
             claims w' = (claims w)((pv_Namespace c, pv_Name c) := None)))"
    and clock_spec: "wg_Clock g w = (t, w') \<Longrightarrow> log w' = log w \<and> claims w' = claims w"

text \<open>The claim of an environment that at some moment after \<open>h0\<close> waited with a complete snapshot.\<close>

definition reclaimable :: "'w WarmCacheGC \<Rightarrow> cluster list \<Rightarrow> cluster list \<Rightarrow> time \<Rightarrow> key \<Rightarrow> PersistentVolumeClaim \<Rightarrow> bool" where
  "reclaimable g h0 h1 now key c \<longleftrightarrow>
     (\<exists>h e cls. extends_by h0 h \<and> extends_by h h1 \<and> h \<noteq> [] \<and> last h (env_key e) = Some e \<and>
        eligible (wg_ParseDuration g) e cls now \<and> key = (Namespace e, n_PVC (ChildNames (wg_Sha256Hex g) (Name e))) \<and>
        owned_by (pv_OwnerReferences c) e)"

lemma reclaimable_mono: "reclaimable g h h1 now key c \<Longrightarrow> extends_by h0 h \<Longrightarrow> extends_by h1 h2 \<Longrightarrow> reclaimable g h0 h2 now key c"
  unfolding reclaimable_def by (blast intro: extends_by_trans)

context warm_world
begin

definition progress :: "time \<Rightarrow> 'w \<Rightarrow> 'w \<Rightarrow> bool" where
  "progress now w w' \<longleftrightarrow> extends_by (log w) (log w') \<and>
     (\<forall>key. claims w' key = claims w key \<or>
        (\<exists>c. claims w key = Some c \<and> claims w' key = None \<and> reclaimable g (log w) (log w') now key c))"

lemma progress_same: "extends_by (log w) (log w') \<Longrightarrow> claims w' = claims w \<Longrightarrow> progress now w w'"
  by (simp add: progress_def)

lemma progress_trans:
  assumes "progress now w w1" and "progress now w1 w2"
  shows "progress now w w2"
proof -
  have ext: "extends_by (log w) (log w1)" "extends_by (log w1) (log w2)" using assms by (simp_all add: progress_def)
  have "claims w2 key = claims w key \<or> (\<exists>c. claims w key = Some c \<and> claims w2 key = None \<and> reclaimable g (log w) (log w2) now key c)" for key
  proof -
    have 1: "claims w1 key = claims w key \<or> (\<exists>c. claims w key = Some c \<and> claims w1 key = None \<and> reclaimable g (log w) (log w1) now key c)"
      using assms(1) unfolding progress_def by blast
    have 2: "claims w2 key = claims w1 key \<or> (\<exists>c. claims w1 key = Some c \<and> claims w2 key = None \<and> reclaimable g (log w1) (log w2) now key c)"
      using assms(2) unfolding progress_def by blast
    have "reclaimable g (log w) (log w2) now key c"
      if "reclaimable g (log w) (log w1) now key c \<or> reclaimable g (log w1) (log w2) now key c" for c
      using that reclaimable_mono [OF _ extends_by_refl ext(2)] reclaimable_mono [OF _ ext(1) extends_by_refl] by blast
    then show ?thesis using 1 2 by (cases "claims w key") auto
  qed
  then show ?thesis using extends_by_trans [OF ext] unfolding progress_def by blast
qed

lemma after_progress: "after m w (\<lambda>_. progress now w) \<Longrightarrow> progress now w0 w \<Longrightarrow> after m w (\<lambda>_. progress now w0)"
  by (erule after_mono) (rule progress_trans)

lemma owned_same: "owned_by refs env \<Longrightarrow> UID fresh = UID env \<Longrightarrow> owned_by refs fresh"
  by (simp add: owned_by_def)

lemma after_reclaim: "after (reclaim g env cls now stats) w (\<lambda>_. progress now w)"
proof -
  let ?key = "(Namespace env, n_PVC (ChildNames (wg_Sha256Hex g) (Name env)))"
  obtain rp w1 where p: "wg_GetClaim g ?key w = (rp, w1)" by force
  obtain rg w2 where f: "wg_Get g (Namespace env, Name env) w1 = (rg, w2)" by force
  note cs = claim_spec [OF p] and gs = get_spec [OF f]
  have 1: "progress now w w1" "progress now w w2"
    using cs gs extends_by_trans by (auto intro!: progress_same)
  have deleted: "progress now w w3" if "rp = Inr c" "owned_by (pv_OwnerReferences c) env" "rg = Inr fresh" "UID fresh = UID env"
    "eligible (wg_ParseDuration g) fresh cls now" "wg_DeleteClaim g c (pv_UID c) w2 = (d, w3)" for c fresh d w3
  proof -
    have key: "(pv_Namespace c, pv_Name c) = ?key" "claims w ?key = Some c" using cs that(1) by auto
    have fr: "log w2 \<noteq> []" "last (log w2) (env_key fresh) = Some fresh" "env_key fresh = (Namespace env, Name env)" using gs that(3) by auto
    have r: "reclaimable g (log w2) (log w3) now ?key c"
      unfolding reclaimable_def using fr that(5) owned_same [OF that(2,4)] delete_spec [OF that(6)]
      by (intro exI [of _ "log w2"] exI [of _ fresh] exI [of _ cls]) (auto simp: env_key_def)
    have "progress now w2 w3" using delete_spec [OF that(6)] cs gs key r by (auto simp: progress_def)
    then show ?thesis using progress_trans 1(2) by blast
  qed
  show ?thesis
    unfolding reclaim_def Let_def after_bind after_State p prod.case
    by (cases rp; cases rg) (auto simp: after_bind after_State after_return f 1 deleted split: prod.split)
qed

lemma after_resolve: "after (resolveClass g env classes) w (\<lambda>_. progress now w)"
  using class_spec by (auto simp: resolveClass_def Let_def job after_State intro!: progress_same split: option.split prod.split)

lemma after_reclaim_all: "after (reclaim_all g now envs classes stats) w (\<lambda>_. progress now w)"
proof (induction envs arbitrary: classes stats w)
  case (Cons env envs)
  note next_env = after_progress [OF Cons.IH]
  have "after (reclaim g env c now stats) w1 (\<lambda>p w'. after (reclaim_all g now envs cs (f p)) w' (\<lambda>_. progress now w))"
    if "progress now w w1" for c stats w1 cs f
    by (rule after_mono [OF after_progress [OF after_reclaim that]], rule next_env)
  then show ?case unfolding reclaim_all.simps after_bind
    by (intro after_mono [OF after_resolve]) (auto simp: after_bind case_prod_beta intro!: next_env split: option.split)
qed (simp add: job progress_same)

lemma after_warm_RunOnce:
  assumes "wg_Clock g w = (start, w0)" and "wg_List g (wg_Namespace g) w0 = (r, w1)" and "wg_Clock g w1 = (now, w2)"
  shows "after (warm_RunOnce g) w (\<lambda>_. progress now w)"
proof -
  have p: "progress now w w1" "progress now w w2"
    using clock_spec [OF assms(1)] list_spec [OF assms(2)] clock_spec [OF assms(3)] by (auto intro!: progress_same)
  have clock: "case wg_Clock g w' of (t, w'') \<Rightarrow> progress now w w''" if "progress now w w'" for w'
    using that clock_spec progress_trans [OF that progress_same] by (auto split: prod.split)
  have "after (reclaim_all g now envs [] stats) w2 (\<lambda>_ w'. case wg_Clock g w' of (t, w'') \<Rightarrow> progress now w w'')" for envs stats
    by (rule after_mono [OF after_progress [OF after_reclaim_all p(2)]], erule clock)
  then show ?thesis unfolding warm_RunOnce_def after_bind after_State assms(1,2) prod.case
    by (cases r) (simp_all add: after_bind after_State after_return assms(3) p)
qed

end

lemma eligible_saved:
  assumes "eligible pd e cls now"
  shows "st_Phase (Status e) = PhaseWaiting \<and> (\<exists>s. st_Snapshot (Status e) = Some s \<and> sint (st_FreezeCount (Status e) - 1) \<le> sn_Seq s) \<and>
    (\<forall>a. st_SnapshotAttempt (Status e) = Some a \<longrightarrow> sa_Phase a = SnapshotAttemptSucceeded)"
  using assms unfolding eligible_def by (auto split: if_splits option.splits)

text \<open>
  C10: A pass takes a workspace volume only from an environment whose work is saved: whatever the server answers and
  whoever writes in between, a claim that is gone after the pass was the workspace of an environment that
  the server held, at some moment of the pass, in phase Waiting with the snapshot of its last freeze recorded and no failed or running attempt
  after it, and that owned the claim.
\<close>

theorem warm_gc_takes_only_saved:
  assumes "warm_world g log claims"
    and "wg_Clock g w = (start, w0)" and "wg_List g (wg_Namespace g) w0 = (listed, w1)" and "wg_Clock g w1 = (now, w2)"
  shows "case run_state (warm_RunOnce g) w of (r, w') \<Rightarrow>
    \<forall>key c. claims w key = Some c \<longrightarrow> claims w' key = Some c \<or>
      (\<exists>h e s. extends_by (log w) h \<and> extends_by h (log w') \<and> h \<noteq> [] \<and> last h (env_key e) = Some e \<and>
         key = (Namespace e, n_PVC (ChildNames (wg_Sha256Hex g) (Name e))) \<and> owned_by (pv_OwnerReferences c) e \<and>
         st_Phase (Status e) = PhaseWaiting \<and> st_Snapshot (Status e) = Some s \<and> sint (st_FreezeCount (Status e) - 1) \<le> sn_Seq s \<and>
         (\<forall>a. st_SnapshotAttempt (Status e) = Some a \<longrightarrow> sa_Phase a = SnapshotAttemptSucceeded))"
proof -
  obtain r w' where run: "run_state (warm_RunOnce g) w = (r, w')" by force
  have p: "warm_world.progress g log claims now w w'"
    using warm_world.after_warm_RunOnce [OF assms] by (simp add: after_def run)
  have "\<exists>h e s. extends_by (log w) h \<and> extends_by h (log w') \<and> h \<noteq> [] \<and> last h (env_key e) = Some e \<and>
         key = (Namespace e, n_PVC (ChildNames (wg_Sha256Hex g) (Name e))) \<and> owned_by (pv_OwnerReferences c) e \<and>
         st_Phase (Status e) = PhaseWaiting \<and> st_Snapshot (Status e) = Some s \<and> sint (st_FreezeCount (Status e) - 1) \<le> sn_Seq s \<and>
         (\<forall>a. st_SnapshotAttempt (Status e) = Some a \<longrightarrow> sa_Phase a = SnapshotAttemptSucceeded)"
    if gone: "claims w key = Some c" "claims w' key \<noteq> Some c" for key c
  proof -
    have "reclaimable g (log w) (log w') now key c"
      using p gone unfolding warm_world.progress_def [OF assms(1)] by (metis option.inject)
    then show ?thesis unfolding reclaimable_def using eligible_saved by blast
  qed
  then show ?thesis unfolding run prod.case by blast
qed

subsection \<open>A reference world\<close>

type_synonym warm_state = "ref_world \<times> (key \<times> PersistentVolumeClaim) list"

definition ref_warm :: "SandboxClass \<Rightarrow> warm_state WarmCacheGC" where
  "ref_warm cls = \<lparr>
     wg_List = (\<lambda>ns (w, ps). (Inr (map snd (last (r_hist w))), w, ps)),
     wg_Get = (\<lambda>key (w, ps). (case map_of (last (r_hist w)) key of
         Some e \<Rightarrow> if r_hist w \<noteq> [] \<and> env_key e = key then Inr e else Inl InternalError | None \<Rightarrow> Inl NotFound, w, ps)),
     wg_GetClass = (\<lambda>name w. (Inr cls, w)),
     wg_GetClaim = (\<lambda>key (w, ps). (case map_of ps key of
         Some c \<Rightarrow> if (pv_Namespace c, pv_Name c) = key then Inr c else Inl InternalError | None \<Rightarrow> Inl NotFound, w, ps)),
     wg_DeleteClaim = (\<lambda>c uid (w, ps). case map_of ps (pv_Namespace c, pv_Name c) of
         Some old \<Rightarrow> if pv_UID old = uid then (None, w, AList.delete (pv_Namespace c, pv_Name c) ps) else (Some Conflict, w, ps)
       | None \<Rightarrow> (Some NotFound, w, ps)),
     wg_Clock = (\<lambda>w. (4000 * Second, w)), wg_Namespace = [], wg_ParseDuration = (\<lambda>s. None), wg_Sha256Hex = (\<lambda>s. [])\<rparr>"

interpretation ref_warm: warm_world "ref_warm cls" "\<lambda>(w, ps). ref_log w" "\<lambda>(w, ps). map_of ps"
  by unfold_locales (auto simp: ref_warm_def ref_log_def last_map delete_conv' split: option.splits if_splits)

definition warm_class :: SandboxClass where
  "warm_class = \<lparr>Name = ''k'', Namespace = [], UID = ''k1'', ResourceVersion = [], Generation = 1, CreationTimestamp = 0, DeletionTimestamp = None, Finalizers = [],
     cl_Spec = \<lparr>cs_Agent = \<lparr>as_Image = ''a'', as_Resources = \<lparr>rq_Limits = [], rq_Requests = []\<rparr>, as_Model = None\<rparr>,
       cs_Engine = \<lparr>en_Type = EngineTypeNone, en_Image = [], en_StorageDriver = []\<rparr>,
       cs_Services = \<lparr>sv_GitProxy = None, sv_DependaProxy = None, sv_Ollama = None\<rparr>,
       cs_Storage = \<lparr>sg_Workspace = \<lparr>ws_Size = ''1Gi'', ws_StorageClassName = None\<rparr>,
         sg_Backend = \<lparr>bs_Type = StorageBackendTypeS3, bs_S3 = None, bs_PVC = None\<rparr>, sg_WarmCacheTTL = []\<rparr>,
       cs_Network = \<lparr>nw_Isolation = [], nw_ExtraEgress = []\<rparr>, cs_Timeouts = \<lparr>tm_Running = [], tm_Waiting = [], tm_Total = []\<rparr>\<rparr>\<rparr>"

text \<open>One environment that has waited long enough and one that runs; the first claim goes.\<close>

definition warm_pair :: warm_state where
  "warm_pair =
     (let waiting = zero_env\<lparr>Name := ''a'', Namespace := ''n'', UID := ''u1'', Status := zero_status\<lparr>st_Phase := PhaseWaiting, st_FreezeCount := 1,
            st_Snapshot := Some \<lparr>sn_Seq = 0, sn_URI = [], sn_SizeBytes = 1, sn_SHA256 = [], sn_TakenAt = Some 0, sn_DurationMillis = 1\<rparr>\<rparr>\<rparr>;
          running = zero_env\<lparr>Name := ''b'', Namespace := ''n'', UID := ''u2'', Status := zero_status\<lparr>st_Phase := PhaseRunning\<rparr>\<rparr>;
          claim = (\<lambda>name uid owner. ((''n'', name), \<lparr>pv_Namespace = ''n'', pv_Name = name, pv_UID = uid,
            pv_OwnerReferences = [\<lparr>or_Controller = Some True, or_UID = owner\<rparr>], pv_DeletionTimestamp = None\<rparr>))
      in (\<lparr>r_hist = [[((''n'', ''a''), waiting), ((''n'', ''b''), running)]], r_next = 1\<rparr>,
          [claim ''a-workspace'' ''p1'' ''u1'', claim ''b-workspace'' ''p2'' ''u2'']))"

lemma warm_pair_pass: "map fst (snd (snd (run_state (warm_RunOnce (ref_warm warm_class)) warm_pair))) = [(''n'', ''b-workspace'')]"
  by code_simp

theorem warm_gc_takes_only_saved_witness:
  "case run_state (warm_RunOnce (ref_warm warm_class)) warm_pair of (r, w', ps) \<Rightarrow>
    \<forall>key c. map_of (snd warm_pair) key = Some c \<longrightarrow> map_of ps key = Some c \<or>
      (\<exists>h e. h \<noteq> [] \<and> last h (env_key e) = Some e \<and> owned_by (pv_OwnerReferences c) e \<and> st_Phase (Status e) = PhaseWaiting)"
proof -
  have clock: "wg_Clock (ref_warm warm_class) w = (4000 * Second, w)" for w by (simp add: ref_warm_def)
  obtain listed w1 where l: "wg_List (ref_warm warm_class) (wg_Namespace (ref_warm warm_class)) warm_pair = (listed, w1)" by (metis surj_pair)
  obtain r w' ps where run: "run_state (warm_RunOnce (ref_warm warm_class)) warm_pair = (r, w', ps)" by (metis surj_pair)
  have start: "(case warm_pair of (w, ps) \<Rightarrow> map_of ps) = map_of (snd warm_pair)" by (simp add: case_prod_beta)
  note taken = warm_gc_takes_only_saved [OF ref_warm.warm_world_axioms clock l clock, unfolded run prod.case start]
  show ?thesis unfolding run prod.case
  proof (intro allI impI)
    fix key c
    assume "map_of (snd warm_pair) key = Some c"
    then show "map_of ps key = Some c \<or> (\<exists>h e. h \<noteq> [] \<and> last h (env_key e) = Some e \<and> owned_by (pv_OwnerReferences c) e \<and> st_Phase (Status e) = PhaseWaiting)"
      using taken [rule_format, of key c] by blast
  qed
qed

end
