(* ===== verification/Render_Objects.thy ===== *)
theory Render_Objects
  imports Class_Types Child_Names Go_Json Storage_Path "HOL-Library.AList"
begin

section \<open>The objects of an environment\<close>

text \<open>
  \<^verbatim>\<open>src/operator/internal/render\<close>, all but the pod and the network policy: the service
  account, the role and its binding, the workspace claim, the configuration map and the two
  secrets. An object is the record of the fields the code sets. What the code calls beside the
  standard library are parameters: the parser of quantities and the text
  \<^verbatim>\<open>json.MarshalIndent\<close> makes of a document; the hash inside names is a parameter of
  \<open>Child_Names\<close>. An error is a constructor for each place that returns one, with the values its
  message quotes.
\<close>

record render_lib =
  rl_Sha256Hex :: "string \<Rightarrow> string"
  rl_ParseQuantity :: "string \<Rightarrow> string option"
  rl_MarshalIndent :: "json_value \<Rightarrow> string"

datatype render_error =
    EnvRequired
  | ClassRequired
  | UIDRequired
  | SidecarImageRequired
  | BadWorkspaceSize string
  | UnknownEngineType string
  | ErrEngineNotImplemented string nat
  | ReservedContainerName string
  | RelaxationWithoutReason string
  | RelaxationOfNoContainer string
  | RelaxationWithoutValue string
  | UnknownRelaxationKind string string
  | PeerNotExactlyOne string bool
  | RequiresS3Backend string

subsection \<open>Inputs\<close>

definition WorkspaceMountPath :: string where "WorkspaceMountPath = ''/workspace''"
definition AgentHomePath :: string where "AgentHomePath = ''/home/node/.claude-sandbox''"
definition ConfigMountPath :: string where "ConfigMountPath = ''/etc/ai-sandbox''"
definition TaskFileName :: string where "TaskFileName = ''task.md''"
definition RunConfigFileName :: string where "RunConfigFileName = ''sandbox.json''"
definition SidecarBaseURL :: string where "SidecarBaseURL = ''http://localhost:9099''"

record Credentials =
  cd_GitProxyToken :: string
  cd_SnapshotAccessKeyID :: string
  cd_SnapshotSecretAccessKey :: string
  cd_SnapshotSessionToken :: string

text \<open>Every way to print credentials gives the same text.\<close>

definition redactedCredentials :: string where "redactedCredentials = ''render.Credentials{[REDACTED]}''"

definition Credentials_String :: "Credentials \<Rightarrow> string" where
  "Credentials_String c = redactedCredentials"

definition Credentials_MarshalJSON :: "Credentials \<Rightarrow> string" where
  "Credentials_MarshalJSON c = CHR 0x22 # redactedCredentials @ [CHR 0x22]"

record ResolvedPeer =
  rp_CIDR :: string
  rp_Selector :: "PeerSelector option"
  rp_Ports :: "NetworkPolicyPort list"

record NetworkInputs =
  ni_Egress :: "ResolvedPeer list"
  ni_OperatorIngress :: "PeerSelector option"

record SkillFile =
  sf_Name :: string
  sf_Content :: string

record RestorePlan =
  pl_SnapshotID :: string
  pl_Seq :: int

record Inputs =
  in_Env :: "SandboxEnvironment option"
  in_Class :: "SandboxClass option"
  in_Credentials :: Credentials
  in_ClusterID :: string
  in_Skills :: "SkillFile list"
  in_SidecarImage :: string
  in_SpecHash :: string
  in_Restore :: "RestorePlan option"
  in_Network :: NetworkInputs

definition validateInputs :: "Inputs \<Rightarrow> render_error + SandboxEnvironment \<times> SandboxClass" where
  "validateInputs i =
     (case in_Env i of
        None \<Rightarrow> Inl EnvRequired
      | Some env \<Rightarrow>
          (case in_Class i of
             None \<Rightarrow> Inl ClassRequired
           | Some cls \<Rightarrow>
               if UID env = [] then Inl UIDRequired else Inr (env, cls)))"

subsection \<open>Metadata\<close>

record OwnerReference =
  ow_APIVersion :: string
  ow_Kind :: string
  ow_Name :: string
  ow_UID :: string
  ow_Controller :: bool
  ow_BlockOwnerDeletion :: bool

record meta =
  ma_Name :: string
  ma_Namespace :: string
  ma_Labels :: "(string \<times> string) list"
  ma_OwnerReferences :: "OwnerReference list"

definition Labels :: "render_lib \<Rightarrow> SandboxEnvironment \<Rightarrow> (string \<times> string) list" where
  "Labels L env =
     [(''app.kubernetes.io/name'', ''ai-sandbox''),
      (''app.kubernetes.io/instance'', EnvironmentLabelValue (rl_Sha256Hex L) (Name env)),
      (''app.kubernetes.io/component'', ''sandbox-environment''),
      (''app.kubernetes.io/part-of'', ''ai-sandbox''),
      (''app.kubernetes.io/managed-by'', ''ai-sandbox-operator''),
      (''sandbox.psenna.dev/environment'', EnvironmentLabelValue (rl_Sha256Hex L) (Name env)),
      (''sandbox.psenna.dev/class'', childName (rl_Sha256Hex L) (cr_Name (sp_ClassRef (Spec env))) [])]"

definition ownerReference :: "SandboxEnvironment \<Rightarrow> OwnerReference" where
  "ownerReference env =
     \<lparr>ow_APIVersion = ''sandbox.psenna.dev/v1alpha1'', ow_Kind = ''SandboxEnvironment'', ow_Name = Name env,
      ow_UID = UID env, ow_Controller = True, ow_BlockOwnerDeletion = True\<rparr>"

definition object_meta :: "render_lib \<Rightarrow> SandboxEnvironment \<Rightarrow> string \<Rightarrow> meta" where
  "object_meta L env name = \<lparr>ma_Name = name, ma_Namespace = Namespace env, ma_Labels = Labels L env, ma_OwnerReferences = [ownerReference env]\<rparr>"

abbreviation names_of :: "render_lib \<Rightarrow> SandboxEnvironment \<Rightarrow> Names" where
  "names_of L env \<equiv> ChildNames (rl_Sha256Hex L) (Name env)"

subsection \<open>Service account, role and binding\<close>

record ServiceAccount =
  sc_Meta :: meta
  sc_AutomountServiceAccountToken :: bool

definition renderServiceAccount :: "render_lib \<Rightarrow> SandboxEnvironment \<Rightarrow> ServiceAccount" where
  "renderServiceAccount L env =
     \<lparr>sc_Meta = object_meta L env (n_ServiceAccount (names_of L env)), sc_AutomountServiceAccountToken = False\<rparr>"

record PolicyRule =
  pu_APIGroups :: "string list"
  pu_Resources :: "string list"
  pu_ResourceNames :: "string list"
  pu_Verbs :: "string list"

record Role =
  ro_Meta :: meta
  ro_Rules :: "PolicyRule list"

definition renderRole :: "render_lib \<Rightarrow> SandboxEnvironment \<Rightarrow> SandboxClass \<Rightarrow> Role" where
  "renderRole L env cls =
     \<lparr>ro_Meta = object_meta L env (n_Role (names_of L env)),
      ro_Rules =
        [\<lparr>pu_APIGroups = [''sandbox.psenna.dev''], pu_Resources = [''sandboxenvironments''], pu_ResourceNames = [Name env], pu_Verbs = [''get'']\<rparr>,
         \<lparr>pu_APIGroups = [''sandbox.psenna.dev''], pu_Resources = [''sandboxenvironments/status''], pu_ResourceNames = [Name env], pu_Verbs = [''get'', ''patch'']\<rparr>] @
        (if en_Type (cs_Engine (cl_Spec cls)) = EngineTypeK8sNative then
          [\<lparr>pu_APIGroups = [''sandbox.psenna.dev''], pu_Resources = [''servicesets''], pu_ResourceNames = [Name env], pu_Verbs = [''get'', ''update'']\<rparr>,
           \<lparr>pu_APIGroups = [''sandbox.psenna.dev''], pu_Resources = [''servicesets''], pu_ResourceNames = [], pu_Verbs = [''create'']\<rparr>,
           \<lparr>pu_APIGroups = [''''], pu_Resources = [''pods/exec''], pu_ResourceNames = [], pu_Verbs = [''create'']\<rparr>]
         else [])\<rparr>"

text \<open>A role reference is its API group, kind and name; a subject its kind, name and namespace.\<close>

record RoleBinding =
  rb_Meta :: meta
  rb_RoleRef :: "string \<times> string \<times> string"
  rb_Subjects :: "(string \<times> string \<times> string) list"

definition renderRoleBinding :: "render_lib \<Rightarrow> SandboxEnvironment \<Rightarrow> RoleBinding" where
  "renderRoleBinding L env =
     \<lparr>rb_Meta = object_meta L env (n_RoleBinding (names_of L env)), 
      rb_RoleRef = (''rbac.authorization.k8s.io'', ''Role'', n_Role (names_of L env)),
      rb_Subjects = [(''ServiceAccount'', n_ServiceAccount (names_of L env), Namespace env)]\<rparr>"

subsection \<open>The workspace claim\<close>

definition defaultWorkspaceSize :: string where "defaultWorkspaceSize = ''20Gi''"

record claim_object =
  co_Meta :: meta
  co_AccessModes :: "string list"
  co_VolumeMode :: string
  co_Storage :: string
  co_StorageClassName :: "string option"

definition renderPVC :: "render_lib \<Rightarrow> SandboxEnvironment \<Rightarrow> SandboxClass \<Rightarrow> render_error + claim_object" where
  "renderPVC L env cls =
     (let w = sg_Workspace (cs_Storage (cl_Spec cls));
          size = (if ws_Size w = [] then defaultWorkspaceSize else ws_Size w)
      in case rl_ParseQuantity L size of
           None \<Rightarrow> Inl (BadWorkspaceSize size)
         | Some qty \<Rightarrow> Inr \<lparr>co_Meta = object_meta L env (n_PVC (names_of L env)), co_AccessModes = [''ReadWriteOnce''],
             co_VolumeMode = ''Filesystem'', co_Storage = qty, co_StorageClassName = ws_StorageClassName w\<rparr>)"

subsection \<open>The configuration map\<close>

record runConfigEnv =
  re_Name :: string
  re_Namespace :: string
  re_UID :: string

record runConfigTaskIssue =
  ri_Repo :: string
  ri_Number :: int

record runConfigTask =
  rt_HasPrompt :: bool
  rt_Issue :: "runConfigTaskIssue option"

record runConfigWake =
  rw_Restored :: bool
  rw_SnapshotID :: string
  rw_Seq :: int

record runConfig =
  rf_APIVersion :: string
  rf_Kind :: string
  rf_ClusterID :: string
  rf_Environment :: runConfigEnv
  rf_Class :: string
  rf_Engine :: string
  rf_Repo :: string
  rf_WorkspacePath :: string
  rf_AgentHome :: string
  rf_ConfigPath :: string
  rf_TaskFile :: string
  rf_SidecarURL :: string
  rf_Task :: runConfigTask
  rf_Wake :: "runConfigWake option"

text \<open>The document as its tags say; only the issue and the wake block are omitted when they are not there.\<close>

definition runConfig_json :: "runConfig \<Rightarrow> json_value" where
  "runConfig_json c = JObj
     ([(''apiVersion'', JStr (rf_APIVersion c)), (''kind'', JStr (rf_Kind c)), (''clusterID'', JStr (rf_ClusterID c)),
       (''environment'', JObj [(''name'', JStr (re_Name (rf_Environment c))), (''namespace'', JStr (re_Namespace (rf_Environment c))), (''uid'', JStr (re_UID (rf_Environment c)))]),
       (''class'', JStr (rf_Class c)), (''engine'', JStr (rf_Engine c)), (''repo'', JStr (rf_Repo c)), (''workspacePath'', JStr (rf_WorkspacePath c)),
       (''agentHome'', JStr (rf_AgentHome c)), (''configPath'', JStr (rf_ConfigPath c)), (''taskFile'', JStr (rf_TaskFile c)), (''sidecarURL'', JStr (rf_SidecarURL c)),
       (''task'', JObj ((''hasPrompt'', JBool (rt_HasPrompt (rf_Task c))) #
          (case rt_Issue (rf_Task c) of None \<Rightarrow> [] | Some i \<Rightarrow> [(''issue'', JObj [(''repo'', JStr (ri_Repo i)), (''number'', JNum (ri_Number i))])])))] @
      (case rf_Wake c of None \<Rightarrow> [] | Some w \<Rightarrow>
         [(''wake'', JObj [(''restored'', JBool (rw_Restored w)), (''snapshotID'', JStr (rw_SnapshotID w)), (''seq'', JNum (rw_Seq w))])]))"

definition renderRunConfigTask :: "SandboxEnvironment \<Rightarrow> runConfigTask" where
  "renderRunConfigTask env =
     (let t = sp_Task (Spec env) in
      if ts_Prompt t \<noteq> [] then \<lparr>rt_HasPrompt = True, rt_Issue = None\<rparr>
      else case ts_IssueRef t of
        Some i \<Rightarrow> \<lparr>rt_HasPrompt = False, rt_Issue = Some \<lparr>ri_Repo = ir_Repo i, ri_Number = ir_Number i\<rparr>\<rparr>
      | None \<Rightarrow> \<lparr>rt_HasPrompt = False, rt_Issue = None\<rparr>)"

definition renderTaskMD :: "SandboxEnvironment \<Rightarrow> string" where
  "renderTaskMD env =
     (let t = sp_Task (Spec env) in
      if ts_Prompt t \<noteq> [] then ts_Prompt t
      else case ts_IssueRef t of
        Some i \<Rightarrow> ''Implement issue #'' @ decimal_int (ir_Number i) @ '' in '' @ ir_Repo i @ ''.''
      | None \<Rightarrow> [])"

record data_object =
  do_Meta :: meta
  do_Data :: "(string \<times> string) list"

text \<open>
  A later assignment to a key replaces an earlier one, so a skill replaces an entry of its name.
  The code sorts the skills by name with an unstable sort; of two skills of one name, which
  content stays is not determined, and the stable order is one of the outcomes.
\<close>

definition renderConfigMap :: "render_lib \<Rightarrow> Inputs \<Rightarrow> SandboxEnvironment \<Rightarrow> SandboxClass \<Rightarrow> data_object" where
  "renderConfigMap L i env cls =
     (let rc = \<lparr>rf_APIVersion = ''sandbox.psenna.dev/v1alpha1'', rf_Kind = ''SandboxEnvironment'', rf_ClusterID = in_ClusterID i,
            rf_Environment = \<lparr>re_Name = Name env, re_Namespace = Namespace env, re_UID = UID env\<rparr>,
            rf_Class = cr_Name (sp_ClassRef (Spec env)), rf_Engine = en_Type (cs_Engine (cl_Spec cls)), rf_Repo = sp_Repo (Spec env),
            rf_WorkspacePath = WorkspaceMountPath, rf_AgentHome = AgentHomePath, rf_ConfigPath = ConfigMountPath, rf_TaskFile = TaskFileName,
            rf_SidecarURL = SidecarBaseURL, rf_Task = renderRunConfigTask env,
            rf_Wake = map_option (\<lambda>p. \<lparr>rw_Restored = True, rw_SnapshotID = pl_SnapshotID p, rw_Seq = pl_Seq p\<rparr>) (in_Restore i)\<rparr>;
          base = [(RunConfigFileName, rl_MarshalIndent L (runConfig_json rc) @ [CHR 0x0A]), (TaskFileName, renderTaskMD env)];
          skills = SliceStable (\<lambda>a b. sf_Name a < sf_Name b) (in_Skills i)
      in \<lparr>do_Meta = object_meta L env (n_ConfigMap (names_of L env)),
          do_Data = fold (\<lambda>s. AList.update (''skill-'' @ sf_Name s @ ''.md'') (sf_Content s)) skills base\<rparr>)"

subsection \<open>Secrets\<close>

definition trim_slash :: "string \<Rightarrow> string" where
  "trim_slash s = (if s \<noteq> [] \<and> last s = CHR ''/'' then butlast s else s)"

definition renderSecret :: "render_lib \<Rightarrow> Inputs \<Rightarrow> SandboxEnvironment \<Rightarrow> SandboxClass \<Rightarrow> data_object" where
  "renderSecret L i env cls =
     (let token = cd_GitProxyToken (in_Credentials i);
          services = cs_Services (cl_Spec cls);
          set_if = (\<lambda>v kvs. if v = [] then [] else kvs)
      in \<lparr>do_Meta = object_meta L env (n_Secret (names_of L env)),
          do_Data =
            set_if token [(''AGENT_TOKEN'', token), (''GIT_PROXY_TOKEN'', token)] @
            (case sv_GitProxy services of None \<Rightarrow> [] | Some gp \<Rightarrow>
               [(''GIT_PROXY_URL'', gp_GitURL gp), (''GIT_PROXY_BROKER_URL'', gp_BrokerURL gp)]) @
            [(''GITHUB_REPO'', sp_Repo (Spec env))] @
            (case sv_DependaProxy services of None \<Rightarrow> [] | Some dp \<Rightarrow>
               set_if (dp_NpmURL dp) [(''DEPENDAPROXY_URL'', dp_NpmURL dp), (''NPM_CONFIG_REGISTRY'', dp_NpmURL dp)] @
               set_if (dp_PypiURL dp) [(''DEPENDAPROXY_PYPI_URL'', dp_PypiURL dp), (''PIP_INDEX_URL'', trim_slash (dp_PypiURL dp) @ ''/simple'')] @
               set_if (dp_GoproxyURL dp) [(''DEPENDAPROXY_GOPROXY_URL'', dp_GoproxyURL dp), (''GOPROXY'', dp_GoproxyURL dp)]) @
            (case sv_Ollama services of None \<Rightarrow> [] | Some ol \<Rightarrow> [(''ANTHROPIC_BASE_URL'', ol_BaseURL ol)]) @
            [(''ANTHROPIC_AUTH_TOKEN'', ''ollama''), (''ANTHROPIC_API_KEY'', [])] @
            (case as_Model (cs_Agent (cl_Spec cls)) of None \<Rightarrow> [] | Some m \<Rightarrow>
               set_if (mo_Default m) [(''ANTHROPIC_MODEL'', mo_Default m)] @
               set_if (mo_Haiku m) [(''ANTHROPIC_DEFAULT_HAIKU_MODEL'', mo_Haiku m)] @
               set_if (mo_Sonnet m) [(''ANTHROPIC_DEFAULT_SONNET_MODEL'', mo_Sonnet m)] @
               set_if (mo_Opus m) [(''ANTHROPIC_DEFAULT_OPUS_MODEL'', mo_Opus m)]) @
            [(''CLAUDE_CONFIG_DIR'', AgentHomePath), (''CLAUDE_CODE_ATTRIBUTION_HEADER'', ''0''), (''SANDBOX_SIDECAR_URL'', SidecarBaseURL)]\<rparr>)"

definition snapshotSecretKeyAccessKeyID :: string where "snapshotSecretKeyAccessKeyID = ''accessKeyID''"
definition snapshotSecretKeySecretAccessKey :: string where "snapshotSecretKeySecretAccessKey = ''secretAccessKey''"
definition snapshotSecretKeySessionToken :: string where "snapshotSecretKeySessionToken = ''sessionToken''"

definition isS3Backend :: "SandboxClass \<Rightarrow> bool" where
  "isS3Backend cls \<longleftrightarrow> (let b = sg_Backend (cs_Storage (cl_Spec cls)) in bs_Type b = StorageBackendTypeS3 \<and> bs_S3 b \<noteq> None)"

definition renderSnapshotSecret :: "render_lib \<Rightarrow> Inputs \<Rightarrow> SandboxEnvironment \<Rightarrow> SandboxClass \<Rightarrow> data_object option" where
  "renderSnapshotSecret L i env cls =
     (if \<not> isS3Backend cls then None
      else let c = in_Credentials i in
        Some \<lparr>do_Meta = object_meta L env (n_SnapshotSecret (names_of L env)),
          do_Data = [(snapshotSecretKeyAccessKeyID, cd_SnapshotAccessKeyID c), (snapshotSecretKeySecretAccessKey, cd_SnapshotSecretAccessKey c)] @
            (if cd_SnapshotSessionToken c \<noteq> [] then [(snapshotSecretKeySessionToken, cd_SnapshotSessionToken c)] else [])\<rparr>)"

end
