(* ===== verification/Render_Pod.thy ===== *)
theory Render_Pod
  imports Render_Objects Observe
begin

section \<open>The pod of an environment\<close>

text \<open>
  \<^verbatim>\<open>pod.go\<close>, \<^verbatim>\<open>engine.go\<close> and its engines, \<^verbatim>\<open>snapshotjob.go\<close> and \<^verbatim>\<open>archivejob.go\<close> of
  \<^verbatim>\<open>src/operator/internal/render\<close>. The registry of engines is a variable of the package, so
  \<open>RenderPod\<close> takes it as an argument: what is shown of the pod for every registry holds whatever
  an engine contributes, and \<open>engineRegistry\<close> is the one the package starts with.
\<close>

subsection \<open>Pods\<close>

text \<open>
  Of the Kubernetes types, the fields the renderers set. An optional field is \<open>None\<close> where the
  renderers leave it out. A volume an engine brings may have a source the renderers never use.
\<close>

datatype projection =
    ServiceAccountToken string int
  | ProjectedConfigMap string "(string \<times> string) list"
  | DownwardAPI "(string \<times> string) list"

datatype volume_source =
    PersistentVolumeClaimSource string
  | EmptyDir
  | ConfigMapSource string nat
  | Projected nat "projection list"
  | SecretSource string nat bool
  | OtherSource string

record Volume =
  vo_Name :: string
  vo_Source :: volume_source

record VolumeMount =
  vm_Name :: string
  vm_MountPath :: string
  vm_ReadOnly :: bool

record Capabilities =
  cp_Add :: "string list"
  cp_Drop :: "string list"

record SecurityContext =
  sx_Privileged :: "bool option"
  sx_AllowPrivilegeEscalation :: "bool option"
  sx_Capabilities :: "Capabilities option"
  sx_SeccompProfile :: "string option"
  sx_AppArmorProfile :: "string option"
  sx_RunAsNonRoot :: "bool option"
  sx_RunAsUser :: "int option"
  sx_ReadOnlyRootFilesystem :: "bool option"

definition empty_SecurityContext :: SecurityContext where
  "empty_SecurityContext =
     \<lparr>sx_Privileged = None, sx_AllowPrivilegeEscalation = None, sx_Capabilities = None, sx_SeccompProfile = None,
      sx_AppArmorProfile = None, sx_RunAsNonRoot = None, sx_RunAsUser = None, sx_ReadOnlyRootFilesystem = None\<rparr>"

record Probe =
  pb_Command :: "string list"
  pb_PeriodSeconds :: int
  pb_FailureThreshold :: int

record Container =
  cn_Name :: "string option"
  cn_Image :: string
  cn_RestartPolicy :: "string option"
  cn_Command :: "string list"
  cn_Args :: "string list"
  cn_WorkingDir :: string
  cn_EnvFromSecrets :: "string list"
  cn_Env :: "(string \<times> string) list"
  cn_VolumeMounts :: "VolumeMount list"
  cn_Resources :: "ResourceRequirements option"
  cn_StartupProbe :: "Probe option"
  cn_SecurityContext :: "SecurityContext option"

definition empty_Container :: Container where
  "empty_Container =
     \<lparr>cn_Name = None, cn_Image = [], cn_RestartPolicy = None, cn_Command = [], cn_Args = [], cn_WorkingDir = [],
      cn_EnvFromSecrets = [], cn_Env = [], cn_VolumeMounts = [], cn_Resources = None, cn_StartupProbe = None,
      cn_SecurityContext = None\<rparr>"

record PodSecurityContext =
  px_RunAsNonRoot :: bool
  px_RunAsUser :: int
  px_RunAsGroup :: int
  px_FSGroup :: int
  px_FSGroupChangePolicy :: string
  px_SeccompProfile :: string

record PodSpec =
  ps_RestartPolicy :: string
  ps_ServiceAccountName :: string
  ps_AutomountServiceAccountToken :: bool
  ps_TerminationGracePeriodSeconds :: "int option"
  ps_SecurityContext :: PodSecurityContext
  ps_Volumes :: "Volume list"
  ps_InitContainers :: "Container list"
  ps_Containers :: "Container list"

record pod_object =
  po_Meta :: meta
  po_Spec :: PodSpec

record job_object =
  jo_Meta :: meta
  jo_BackoffLimit :: int
  jo_TTLSecondsAfterFinished :: int
  jo_TemplateLabels :: "(string \<times> string) list"
  jo_PodSpec :: PodSpec

subsection \<open>Engines\<close>

record Relaxation =
  rx_Container :: string
  rx_Kind :: string
  rx_Value :: string
  rx_Reason :: string

definition RelaxAppArmorUnconfined :: string where "RelaxAppArmorUnconfined = ''AppArmorUnconfined''"
definition RelaxSeccompUnset :: string where "RelaxSeccompUnset = ''SeccompUnset''"
definition RelaxAllowPrivilegeEscalation :: string where "RelaxAllowPrivilegeEscalation = ''AllowPrivilegeEscalation''"
definition RelaxAddCapability :: string where "RelaxAddCapability = ''AddCapability''"

record Contribution =
  ct_Containers :: "Container list"
  ct_InitContainers :: "Container list"
  ct_Volumes :: "Volume list"
  ct_AgentEnv :: "(string \<times> string) list"
  ct_AgentVolumeMounts :: "VolumeMount list"
  ct_Relaxations :: "Relaxation list"

definition no_contribution :: Contribution where
  "no_contribution = \<lparr>ct_Containers = [], ct_InitContainers = [], ct_Volumes = [], ct_AgentEnv = [], ct_AgentVolumeMounts = [], ct_Relaxations = []\<rparr>"

record Engine =
  ee_Type :: string
  ee_Contribute :: "Inputs \<Rightarrow> render_error + Contribution"

definition noneEngine :: Engine where
  "noneEngine = \<lparr>ee_Type = EngineTypeNone, ee_Contribute = \<lambda>_. Inr no_contribution\<rparr>"

definition k8sNativeEngine :: Engine where
  "k8sNativeEngine = \<lparr>ee_Type = EngineTypeK8sNative, ee_Contribute = \<lambda>_. Inr no_contribution\<rparr>"

definition notImplementedEngine :: "string \<Rightarrow> nat \<Rightarrow> Engine" where
  "notImplementedEngine typ issue = \<lparr>ee_Type = typ, ee_Contribute = \<lambda>_. Inl (ErrEngineNotImplemented typ issue)\<rparr>"

type_synonym registry = "(string \<times> Engine) list"

definition engineRegistry :: registry where
  "engineRegistry =
     [(EngineTypeNone, noneEngine),
      (EngineTypeRootlessPodman, notImplementedEngine EngineTypeRootlessPodman 24),
      (EngineTypeK8sNative, k8sNativeEngine)]"

definition engineFor :: "registry \<Rightarrow> string \<Rightarrow> render_error + Engine" where
  "engineFor reg t0 =
     (let t = (if t0 = [] then EngineTypeRootlessPodman else t0) in
      case map_of reg t of None \<Rightarrow> Inl (UnknownEngineType t) | Some e \<Rightarrow> Inr e)"

definition zero_Inputs :: Inputs where
  "zero_Inputs =
     \<lparr>in_Env = None, in_Class = None,
      in_Credentials = \<lparr>cd_GitProxyToken = [], cd_SnapshotAccessKeyID = [], cd_SnapshotSecretAccessKey = [], cd_SnapshotSessionToken = []\<rparr>,
      in_ClusterID = [], in_Skills = [], in_SidecarImage = [], in_SpecHash = [], in_Restore = None,
      in_Network = \<lparr>ni_Egress = [], ni_OperatorIngress = None\<rparr>\<rparr>"

definition EngineRelaxations :: "registry \<Rightarrow> string \<Rightarrow> Relaxation list option" where
  "EngineRelaxations reg t =
     (case engineFor reg t of
        Inl _ \<Rightarrow> None
      | Inr e \<Rightarrow> (case ee_Contribute e zero_Inputs of Inl _ \<Rightarrow> None | Inr c \<Rightarrow> Some (ct_Relaxations c)))"

subsection \<open>Names and paths\<close>

definition AgentContainerName :: string where "AgentContainerName = ''agent''"
definition SidecarContainerName :: string where "SidecarContainerName = ''sandboxctl''"
definition SidecarPort :: int where "SidecarPort = 9099"
definition SidecarBinaryPath :: string where "SidecarBinaryPath = ''/sandboxctl''"
definition sidecarTokenVolumeName :: string where "sidecarTokenVolumeName = ''sandboxctl-token''"
definition SidecarTokenMountPath :: string where "SidecarTokenMountPath = ''/var/run/secrets/kubernetes.io/serviceaccount''"
definition sidecarTokenExpirationSeconds :: int where "sidecarTokenExpirationSeconds = 3600"
definition rootCAConfigMapName :: string where "rootCAConfigMapName = ''kube-root-ca.crt''"
definition workspaceVolumeName :: string where "workspaceVolumeName = ''workspace''"
definition agentHomeVolumeName :: string where "agentHomeVolumeName = ''agent-home''"
definition configVolumeName :: string where "configVolumeName = ''config''"
definition snapshotCredentialsVolumeName :: string where "snapshotCredentialsVolumeName = ''snapshot-credentials''"
definition SnapshotCredentialsMountPath :: string where "SnapshotCredentialsMountPath = ''/var/run/secrets/ai-sandbox/snapshot''"
definition defaultQuiesceDelayFlag :: string where "defaultQuiesceDelayFlag = ''2s''"
definition defaultSnapshotRetriesFlag :: string where "defaultSnapshotRetriesFlag = ''4''"
definition defaultSnapshotStepTimeoutFlag :: string where "defaultSnapshotStepTimeoutFlag = ''2m''"
definition DefaultTerminationGracePeriodSeconds :: int where "DefaultTerminationGracePeriodSeconds = 120"
definition agentUID :: int where "agentUID = 1000"
definition agentGID :: int where "agentGID = 1000"

lemmas volume_names =
  sidecarTokenVolumeName_def workspaceVolumeName_def agentHomeVolumeName_def configVolumeName_def snapshotCredentialsVolumeName_def

lemmas container_names = AgentContainerName_def SidecarContainerName_def RestoreContainerName_def

definition agentCommand :: string where
  "agentCommand =
     ''set -euo pipefail'' @ [CHR 0x0A] @ ''exec claude -p '' @ [CHR 0x22] @ ''$(cat '' @
     ConfigMountPath @ ''/'' @ TaskFileName @ '')'' @ [CHR 0x22] @ [CHR 0x0A]"

subsection \<open>Security contexts and volumes\<close>

definition podSecurityContext :: PodSecurityContext where
  "podSecurityContext =
     \<lparr>px_RunAsNonRoot = True, px_RunAsUser = agentUID, px_RunAsGroup = agentGID, px_FSGroup = agentGID,
      px_FSGroupChangePolicy = ''OnRootMismatch'', px_SeccompProfile = ''RuntimeDefault''\<rparr>"

definition agentSecurityContext :: SecurityContext where
  "agentSecurityContext = empty_SecurityContext
     \<lparr>sx_AllowPrivilegeEscalation := Some False, sx_Capabilities := Some \<lparr>cp_Add = [], cp_Drop = [''ALL'']\<rparr>,
      sx_SeccompProfile := Some ''RuntimeDefault'', sx_RunAsNonRoot := Some True, sx_RunAsUser := Some agentUID,
      sx_ReadOnlyRootFilesystem := Some False\<rparr>"

definition sidecarSecurityContext :: SecurityContext where
  "sidecarSecurityContext = empty_SecurityContext
     \<lparr>sx_AllowPrivilegeEscalation := Some False, sx_Capabilities := Some \<lparr>cp_Add = [], cp_Drop = [''ALL'']\<rparr>,
      sx_SeccompProfile := Some ''RuntimeDefault'', sx_RunAsNonRoot := Some True, sx_RunAsUser := Some agentUID,
      sx_ReadOnlyRootFilesystem := Some True\<rparr>"

definition sidecarTokenVolume :: Volume where
  "sidecarTokenVolume =
     \<lparr>vo_Name = sidecarTokenVolumeName,
      vo_Source = Projected 292
        [ServiceAccountToken ''token'' sidecarTokenExpirationSeconds,
         ProjectedConfigMap rootCAConfigMapName [(''ca.crt'', ''ca.crt'')],
         DownwardAPI [(''namespace'', ''metadata.namespace'')]]\<rparr>"

definition snapshotCredentialsVolume :: "Names \<Rightarrow> Volume" where
  "snapshotCredentialsVolume names =
     \<lparr>vo_Name = snapshotCredentialsVolumeName, vo_Source = SecretSource (n_SnapshotSecret names) 256 False\<rparr>"

definition workspaceVolume :: "Names \<Rightarrow> Volume" where
  "workspaceVolume names = \<lparr>vo_Name = workspaceVolumeName, vo_Source = PersistentVolumeClaimSource (n_PVC names)\<rparr>"

definition podVolumes :: "SandboxClass \<Rightarrow> Names \<Rightarrow> Volume list" where
  "podVolumes cls names =
     [workspaceVolume names,
      \<lparr>vo_Name = agentHomeVolumeName, vo_Source = EmptyDir\<rparr>,
      \<lparr>vo_Name = configVolumeName, vo_Source = ConfigMapSource (n_ConfigMap names) 292\<rparr>,
      sidecarTokenVolume] @
     (if isS3Backend cls then [snapshotCredentialsVolume names] else [])"

definition mount :: "string \<Rightarrow> string \<Rightarrow> VolumeMount" where
  "mount n p = \<lparr>vm_Name = n, vm_MountPath = p, vm_ReadOnly = False\<rparr>"

definition mount_ro :: "string \<Rightarrow> string \<Rightarrow> VolumeMount" where
  "mount_ro n p = \<lparr>vm_Name = n, vm_MountPath = p, vm_ReadOnly = True\<rparr>"

subsection \<open>Containers\<close>

definition isZeroResources :: "ResourceRequirements \<Rightarrow> bool" where
  "isZeroResources r \<longleftrightarrow> rq_Limits r = [] \<and> rq_Requests r = []"

definition convertResources :: "ResourceRequirements \<Rightarrow> ResourceRequirements" where
  "convertResources r = \<lparr>rq_Limits = rq_Limits r, rq_Requests = rq_Requests r\<rparr>"

definition agentContainer :: "SandboxClass \<Rightarrow> Names \<Rightarrow> Container" where
  "agentContainer cls names = empty_Container
     \<lparr>cn_Name := Some AgentContainerName, cn_Image := as_Image (cs_Agent (cl_Spec cls)),
      cn_Args := [''bash'', ''-c'', agentCommand], cn_WorkingDir := WorkspaceMountPath,
      cn_EnvFromSecrets := [n_Secret names],
      cn_VolumeMounts := [mount workspaceVolumeName WorkspaceMountPath, mount agentHomeVolumeName AgentHomePath,
        mount_ro configVolumeName ConfigMountPath],
      cn_SecurityContext := Some agentSecurityContext,
      cn_Resources := (let r = as_Resources (cs_Agent (cl_Spec cls)) in
        if isZeroResources r then None else Some (convertResources r))\<rparr>"

definition sidecarSnapshotArgs :: "Inputs \<Rightarrow> SandboxClass \<Rightarrow> string list" where
  "sidecarSnapshotArgs i cls =
     (let add = (\<lambda>flag v. if v \<noteq> [] then [''--'' @ flag @ ''='' @ v] else []);
          backend = sg_Backend (cs_Storage (cl_Spec cls)) in
      add ''engine'' (en_Type (cs_Engine (cl_Spec cls))) @
      add ''cluster-id'' (in_ClusterID i) @
      add ''spec-hash'' (in_SpecHash i) @
      add ''agent-image'' (as_Image (cs_Agent (cl_Spec cls))) @
      add ''workspace-path'' WorkspaceMountPath @
      add ''agent-home-path'' AgentHomePath @
      add ''snapshot-backend'' (bs_Type backend) @
      (case bs_S3 backend of
         Some s3 \<Rightarrow>
           if bs_Type backend = StorageBackendTypeS3 then
             add ''s3-endpoint'' (s3_Endpoint s3) @ add ''s3-bucket'' (s3_Bucket s3) @
             add ''s3-region'' (s3_Region s3) @ add ''s3-prefix'' (s3_Prefix s3) @
             [''--s3-force-path-style='' @ (if case_option True id (s3_ForcePathStyle s3) then ''true'' else ''false'')] @
             add ''snapshot-credentials-dir'' SnapshotCredentialsMountPath
           else []
       | None \<Rightarrow> []) @
      [''--quiesce-delay='' @ defaultQuiesceDelayFlag,
       ''--snapshot-retries='' @ defaultSnapshotRetriesFlag,
       ''--snapshot-step-timeout='' @ defaultSnapshotStepTimeoutFlag])"

definition env_args :: "string \<Rightarrow> SandboxEnvironment \<Rightarrow> string list" where
  "env_args cmd env = [cmd, ''--environment='' @ Name env, ''--namespace='' @ Namespace env]"

definition sidecarContainer :: "Inputs \<Rightarrow> SandboxEnvironment \<Rightarrow> SandboxClass \<Rightarrow> Container" where
  "sidecarContainer i env cls = empty_Container
     \<lparr>cn_Name := Some SidecarContainerName, cn_Image := in_SidecarImage i, cn_RestartPolicy := Some ''Always'',
      cn_Command := [SidecarBinaryPath],
      cn_Args := env_args ''serve'' env @ [''--listen=127.0.0.1:'' @ decimal_int SidecarPort] @ sidecarSnapshotArgs i cls,
      cn_VolumeMounts :=
        [mount_ro sidecarTokenVolumeName SidecarTokenMountPath, mount workspaceVolumeName WorkspaceMountPath,
         mount agentHomeVolumeName AgentHomePath] @
        (if isS3Backend cls then [mount_ro snapshotCredentialsVolumeName SnapshotCredentialsMountPath] else []),
      cn_StartupProbe := Some \<lparr>pb_Command = [SidecarBinaryPath, ''healthcheck''], pb_PeriodSeconds = 1, pb_FailureThreshold = 30\<rparr>,
      cn_Resources := Some \<lparr>rq_Limits = [(''cpu'', ''500m''), (''memory'', ''256Mi'')],
        rq_Requests = [(''cpu'', ''50m''), (''memory'', ''64Mi'')]\<rparr>,
      cn_SecurityContext := Some sidecarSecurityContext\<rparr>"

definition restoreArgs :: "Inputs \<Rightarrow> SandboxEnvironment \<Rightarrow> SandboxClass \<Rightarrow> RestorePlan \<Rightarrow> string list" where
  "restoreArgs i env cls plan =
     env_args ''restore'' env @ sidecarSnapshotArgs i cls @
     [''--restore-snapshot-id='' @ pl_SnapshotID plan, ''--restore-seq='' @ decimal_int (pl_Seq plan),
      ''--restore-warm=true'', ''--restore-retries=4'', ''--restore-step-timeout=2m'']"

definition restoreContainer :: "Inputs \<Rightarrow> SandboxEnvironment \<Rightarrow> SandboxClass \<Rightarrow> RestorePlan \<Rightarrow> Container" where
  "restoreContainer i env cls plan = empty_Container
     \<lparr>cn_Name := Some RestoreContainerName, cn_Image := in_SidecarImage i, cn_Command := [SidecarBinaryPath],
      cn_Args := restoreArgs i env cls plan,
      cn_VolumeMounts :=
        [mount_ro sidecarTokenVolumeName SidecarTokenMountPath, mount workspaceVolumeName WorkspaceMountPath,
         mount agentHomeVolumeName AgentHomePath, mount_ro snapshotCredentialsVolumeName SnapshotCredentialsMountPath],
      cn_Resources := Some \<lparr>rq_Limits = [(''cpu'', ''1000m''), (''memory'', ''512Mi'')],
        rq_Requests = [(''cpu'', ''50m''), (''memory'', ''64Mi'')]\<rparr>,
      cn_SecurityContext := Some sidecarSecurityContext\<rparr>"

subsection \<open>Relaxations\<close>

definition applyRelaxation :: "SecurityContext \<Rightarrow> Relaxation \<Rightarrow> render_error + SecurityContext" where
  "applyRelaxation sc r =
     (if rx_Kind r = RelaxAppArmorUnconfined then Inr (sc\<lparr>sx_AppArmorProfile := Some ''Unconfined''\<rparr>)
      else if rx_Kind r = RelaxSeccompUnset then Inr (sc\<lparr>sx_SeccompProfile := None\<rparr>)
      else if rx_Kind r = RelaxAllowPrivilegeEscalation then Inr (sc\<lparr>sx_AllowPrivilegeEscalation := Some True\<rparr>)
      else if rx_Kind r = RelaxAddCapability then
        (if rx_Value r = [] then Inl (RelaxationWithoutValue (rx_Container r))
         else let caps = case_option \<lparr>cp_Add = [], cp_Drop = []\<rparr> id (sx_Capabilities sc) in
           Inr (sc\<lparr>sx_Capabilities := Some (caps\<lparr>cp_Add := cp_Add caps @ [rx_Value r]\<rparr>)\<rparr>))
      else Inl (UnknownRelaxationKind (rx_Kind r) (rx_Container r)))"

text \<open>
  \<^verbatim>\<open>findContainerSecurityContext\<close> returns a pointer into the pod's containers, the first of the name,
  with a context made for it if it has none; the relaxation then writes through the pointer.
\<close>

fun relax_container :: "Container list \<Rightarrow> Relaxation \<Rightarrow> render_error + Container list" where
  "relax_container [] r = Inl (RelaxationOfNoContainer (rx_Container r))"
| "relax_container (c # cs) r =
     (if cn_Name c = Some (rx_Container r) then
        (case applyRelaxation (case_option empty_SecurityContext id (cn_SecurityContext c)) r of
           Inl e \<Rightarrow> Inl e
         | Inr sc \<Rightarrow> Inr (c\<lparr>cn_SecurityContext := Some sc\<rparr> # cs))
      else (case relax_container cs r of Inl e \<Rightarrow> Inl e | Inr cs' \<Rightarrow> Inr (c # cs')))"

fun applyRelaxations :: "Container list \<Rightarrow> Relaxation list \<Rightarrow> render_error + Container list" where
  "applyRelaxations cs [] = Inr cs"
| "applyRelaxations cs (r # rs) =
     (if rx_Reason r = [] then Inl (RelaxationWithoutReason (rx_Container r))
      else case relax_container cs r of Inl e \<Rightarrow> Inl e | Inr cs' \<Rightarrow> applyRelaxations cs' rs)"

subsection \<open>The pod\<close>

definition reserved_name :: "string \<Rightarrow> bool" where
  "reserved_name n \<longleftrightarrow> n = AgentContainerName \<or> n = SidecarContainerName \<or> n = RestoreContainerName"

definition validateNoReservedContainerNames :: "Contribution \<Rightarrow> render_error option" where
  "validateNoReservedContainerNames c =
     map_option ReservedContainerName
       (find reserved_name (List.map_filter cn_Name (ct_Containers c @ ct_InitContainers c)))"

definition RenderPod :: "registry \<Rightarrow> render_lib \<Rightarrow> Inputs \<Rightarrow> render_error + pod_object" where
  "RenderPod reg L i =
     (case validateInputs i of Inl e \<Rightarrow> Inl e | Inr (env, cls) \<Rightarrow>
      if in_SidecarImage i = [] then Inl SidecarImageRequired
      else let names = names_of L env in
      (case engineFor reg (en_Type (cs_Engine (cl_Spec cls))) of Inl e \<Rightarrow> Inl e | Inr engine \<Rightarrow>
      (case ee_Contribute engine i of Inl e \<Rightarrow> Inl e | Inr c \<Rightarrow>
      (case validateNoReservedContainerNames c of Some e \<Rightarrow> Inl e | None \<Rightarrow>
       let containers = agentContainer cls names # ct_Containers c;
           initContainers = sidecarContainer i env cls # ct_InitContainers c @
             (case in_Restore i of
                Some plan \<Rightarrow> if isS3Backend cls then [restoreContainer i env cls plan] else []
              | None \<Rightarrow> [])
       in case applyRelaxations containers (ct_Relaxations c) of Inl e \<Rightarrow> Inl e | Inr containers' \<Rightarrow>
          Inr \<lparr>po_Meta = object_meta L env (n_Pod names),
            po_Spec = \<lparr>ps_RestartPolicy = ''Never'', ps_ServiceAccountName = n_ServiceAccount names,
              ps_AutomountServiceAccountToken = False,
              ps_TerminationGracePeriodSeconds = Some DefaultTerminationGracePeriodSeconds,
              ps_SecurityContext = podSecurityContext, ps_Volumes = podVolumes cls names @ ct_Volumes c,
              ps_InitContainers = initContainers, ps_Containers = containers'\<rparr>\<rparr>))))"

subsection \<open>Jobs\<close>

definition snapshotJobBackoffLimit :: int where "snapshotJobBackoffLimit = 2"
definition snapshotJobTTLSecondsAfterFinished :: int where "snapshotJobTTLSecondsAfterFinished = 3600"
definition archiveJobBackoffLimit :: int where "archiveJobBackoffLimit = 2"
definition archiveJobTTLSecondsAfterFinished :: int where "archiveJobTTLSecondsAfterFinished = 3600"

definition job_container :: "Inputs \<Rightarrow> string list \<Rightarrow> VolumeMount list \<Rightarrow> Container" where
  "job_container i args mounts = empty_Container
     \<lparr>cn_Name := Some SidecarContainerName, cn_Image := in_SidecarImage i, cn_Command := [SidecarBinaryPath],
      cn_Args := args, cn_VolumeMounts := mounts, cn_SecurityContext := Some sidecarSecurityContext\<rparr>"

definition job_pod :: "Names \<Rightarrow> Volume list \<Rightarrow> Container \<Rightarrow> PodSpec" where
  "job_pod names vols c =
     \<lparr>ps_RestartPolicy = ''Never'', ps_ServiceAccountName = n_ServiceAccount names, ps_AutomountServiceAccountToken = False,
      ps_TerminationGracePeriodSeconds = None, ps_SecurityContext = podSecurityContext, ps_Volumes = vols,
      ps_InitContainers = [], ps_Containers = [c]\<rparr>"

definition RenderSnapshotJob :: "render_lib \<Rightarrow> Inputs \<Rightarrow> render_error + job_object" where
  "RenderSnapshotJob L i =
     (case validateInputs i of Inl e \<Rightarrow> Inl e | Inr (env, cls) \<Rightarrow>
      if in_SidecarImage i = [] then Inl SidecarImageRequired
      else if \<not> isS3Backend cls then Inl (RequiresS3Backend ''RenderSnapshotJob'')
      else let names = names_of L env;
               args = env_args ''freeze-once'' env @ sidecarSnapshotArgs i cls @ [''--agent-home-path=''];
               c = job_container i args
                 [mount workspaceVolumeName WorkspaceMountPath,
                  mount_ro snapshotCredentialsVolumeName SnapshotCredentialsMountPath,
                  mount_ro sidecarTokenVolumeName SidecarTokenMountPath]
           in Inr \<lparr>jo_Meta = object_meta L env (n_SnapshotJob names), jo_BackoffLimit = snapshotJobBackoffLimit,
                jo_TTLSecondsAfterFinished = snapshotJobTTLSecondsAfterFinished, jo_TemplateLabels = Labels L env,
                jo_PodSpec = job_pod names [workspaceVolume names, snapshotCredentialsVolume names, sidecarTokenVolume] c\<rparr>)"

definition RenderArchiveJob :: "render_lib \<Rightarrow> Inputs \<Rightarrow> render_error + job_object" where
  "RenderArchiveJob L i =
     (case validateInputs i of Inl e \<Rightarrow> Inl e | Inr (env, cls) \<Rightarrow>
      if in_SidecarImage i = [] then Inl SidecarImageRequired
      else if \<not> isS3Backend cls then Inl (RequiresS3Backend ''RenderArchiveJob'')
      else let names = names_of L env;
               args = env_args ''archive'' env @ sidecarSnapshotArgs i cls;
               c = job_container i args
                 [mount_ro snapshotCredentialsVolumeName SnapshotCredentialsMountPath,
                  mount_ro sidecarTokenVolumeName SidecarTokenMountPath]
           in Inr \<lparr>jo_Meta = object_meta L env (n_ArchiveJob names), jo_BackoffLimit = archiveJobBackoffLimit,
                jo_TTLSecondsAfterFinished = archiveJobTTLSecondsAfterFinished, jo_TemplateLabels = Labels L env,
                jo_PodSpec = job_pod names [snapshotCredentialsVolume names, sidecarTokenVolume] c\<rparr>)"

end
