(* ===== verification/Pod_Safety.thy ===== *)
theory Pod_Safety
  imports Render_Pod
begin

section \<open>What the agent's container may do and see\<close>

text \<open>
  The agent runs code a model wrote. Whatever an engine contributes to the pod, the agent's
  container keeps the user and the dropped capabilities, mounts the three volumes the renderer
  gave it and nothing that the engine did not contribute for it, and it starts only after a restore that was asked for.
\<close>

subsection \<open>Exactly the relaxations that name a container\<close>

definition relaxed_by :: "Relaxation list \<Rightarrow> SecurityContext \<Rightarrow> SecurityContext" where
  "relaxed_by rs sc =
     (let has = (\<lambda>k. \<exists>r \<in> set rs. rx_Kind r = k);
          added = map rx_Value (filter (\<lambda>r. rx_Kind r = RelaxAddCapability) rs);
          caps = case_option \<lparr>cp_Add = [], cp_Drop = []\<rparr> id (sx_Capabilities sc)
      in sc\<lparr>sx_AppArmorProfile := if has RelaxAppArmorUnconfined then Some ''Unconfined'' else sx_AppArmorProfile sc,
           sx_SeccompProfile := if has RelaxSeccompUnset then None else sx_SeccompProfile sc,
           sx_AllowPrivilegeEscalation := if has RelaxAllowPrivilegeEscalation then Some True else sx_AllowPrivilegeEscalation sc,
           sx_Capabilities := if added = [] then sx_Capabilities sc else Some (caps\<lparr>cp_Add := cp_Add caps @ added\<rparr>)\<rparr>)"

definition for_container :: "string \<Rightarrow> Relaxation list \<Rightarrow> Relaxation list" where
  "for_container n rs = filter (\<lambda>r. rx_Container r = n) rs"

definition confined :: "SecurityContext \<Rightarrow> bool" where
  "confined sc \<longleftrightarrow>
     sx_Privileged sc = None \<and> sx_RunAsNonRoot sc = Some True \<and> sx_RunAsUser sc = Some agentUID \<and>
     (case sx_Capabilities sc of None \<Rightarrow> False | Some caps \<Rightarrow> cp_Drop caps = [''ALL''])"

lemmas relaxation_kinds =
  RelaxAppArmorUnconfined_def RelaxSeccompUnset_def RelaxAllowPrivilegeEscalation_def RelaxAddCapability_def

lemma relaxed_by_Nil [simp]: "relaxed_by [] sc = sc"
  by (simp add: relaxed_by_def)

lemma kinds_differ [simp]:
  "RelaxAppArmorUnconfined \<noteq> RelaxSeccompUnset" "RelaxAppArmorUnconfined \<noteq> RelaxAllowPrivilegeEscalation"
  "RelaxAppArmorUnconfined \<noteq> RelaxAddCapability" "RelaxSeccompUnset \<noteq> RelaxAllowPrivilegeEscalation"
  "RelaxSeccompUnset \<noteq> RelaxAddCapability" "RelaxAllowPrivilegeEscalation \<noteq> RelaxAddCapability"
  by (simp_all add: relaxation_kinds)

lemmas kinds_differ' [simp] = kinds_differ [symmetric]

lemma applyRelaxation_relaxed_by:
  assumes "applyRelaxation sc r = Inr sc'"
  shows "relaxed_by rs sc' = relaxed_by (r # rs) sc"
proof (cases "rx_Kind r = RelaxAddCapability")
  case True
  then have "sc' = sc\<lparr>sx_Capabilities := Some ((case_option \<lparr>cp_Add = [], cp_Drop = []\<rparr> id (sx_Capabilities sc))
      \<lparr>cp_Add := cp_Add (case_option \<lparr>cp_Add = [], cp_Drop = []\<rparr> id (sx_Capabilities sc)) @ [rx_Value r]\<rparr>)\<rparr>"
    using assms by (simp add: applyRelaxation_def Let_def split: if_splits)
  with True show ?thesis by (simp add: relaxed_by_def Let_def)
next
  case False
  with assms consider "rx_Kind r = RelaxAppArmorUnconfined" "sc' = sc\<lparr>sx_AppArmorProfile := Some ''Unconfined''\<rparr>"
    | "rx_Kind r = RelaxSeccompUnset" "sc' = sc\<lparr>sx_SeccompProfile := None\<rparr>"
    | "rx_Kind r = RelaxAllowPrivilegeEscalation" "sc' = sc\<lparr>sx_AllowPrivilegeEscalation := Some True\<rparr>"
    by (simp add: applyRelaxation_def split: if_splits)
  then show ?thesis by cases (simp_all add: relaxed_by_def Let_def)
qed

lemma relaxed_by_confined: "confined sc \<Longrightarrow> confined (relaxed_by rs sc)"
  by (auto simp: relaxed_by_def confined_def Let_def split: option.splits)

lemma relax_container_names: "relax_container cs r = Inr cs' \<Longrightarrow> map cn_Name cs' = map cn_Name cs"
  by (induction cs arbitrary: cs') (auto split: if_splits sum.splits)

lemma relax_container_hd:
  assumes "relax_container (c\<lparr>cn_SecurityContext := Some sc\<rparr> # cs) r = Inr cs'" and "cn_Name c = Some n"
  shows "\<exists>sc' cs''. cs' = c\<lparr>cn_SecurityContext := Some sc'\<rparr> # cs'' \<and> map cn_Name cs'' = map cn_Name cs \<and>
    relaxed_by (for_container n rs) sc' = relaxed_by (for_container n (r # rs)) sc"
proof (cases "rx_Container r = n")
  case True
  with assms obtain sc' where "applyRelaxation sc r = Inr sc'" "cs' = c\<lparr>cn_SecurityContext := Some sc'\<rparr> # cs"
    by (auto split: sum.splits)
  with True show ?thesis using applyRelaxation_relaxed_by by (auto simp: for_container_def)
next
  case False
  with assms obtain cs'' where "relax_container cs r = Inr cs''" "cs' = c\<lparr>cn_SecurityContext := Some sc\<rparr> # cs''"
    by (auto split: sum.splits)
  with False show ?thesis using relax_container_names by (auto simp: for_container_def)
qed

text \<open>The first container of a pod ends with the relaxations that name it and no other.\<close>

lemma applyRelaxations_hd:
  assumes "applyRelaxations (c\<lparr>cn_SecurityContext := Some sc\<rparr> # cs) rs = Inr cs'" and "cn_Name c = Some n"
  shows "\<exists>cs''. cs' = c\<lparr>cn_SecurityContext := Some (relaxed_by (for_container n rs) sc)\<rparr> # cs'' \<and> map cn_Name cs'' = map cn_Name cs"
  using assms(1)
proof (induction rs arbitrary: cs sc)
  case Nil
  then show ?case by (auto simp: for_container_def)
next
  case (Cons r rs)
  then obtain mid where mid: "relax_container (c\<lparr>cn_SecurityContext := Some sc\<rparr> # cs) r = Inr mid" "applyRelaxations mid rs = Inr cs'"
    by (auto simp del: relax_container.simps split: if_splits sum.splits)
  from relax_container_hd [OF mid(1) assms(2), of rs] obtain sc1 cs1 where
    "mid = c\<lparr>cn_SecurityContext := Some sc1\<rparr> # cs1" "map cn_Name cs1 = map cn_Name cs"
    "relaxed_by (for_container n rs) sc1 = relaxed_by (for_container n (r # rs)) sc" by blast
  with Cons.IH [of sc1 cs1] mid(2) show ?case by auto
qed

subsection \<open>A rendered pod\<close>

lemma validateInputs_Inr: "validateInputs i = Inr (env, cls) \<longleftrightarrow> in_Env i = Some env \<and> in_Class i = Some cls \<and> UID env \<noteq> []"
  by (auto simp: validateInputs_def split: option.splits)

lemma RenderPod_Inr:
  assumes "RenderPod reg L i = Inr pod"
  obtains env cls e c containers where "in_Env i = Some env" "in_Class i = Some cls"
    "engineFor reg (en_Type (cs_Engine (cl_Spec cls))) = Inr e" "ee_Contribute e i = Inr c"
    "validateNoReservedContainerNames c = None"
    "applyRelaxations (agentContainer cls (names_of L env) # ct_Containers c) (ct_Relaxations c) = Inr containers"
    "po_Spec pod = \<lparr>ps_RestartPolicy = ''Never'', ps_ServiceAccountName = n_ServiceAccount (names_of L env),
       ps_AutomountServiceAccountToken = False, ps_TerminationGracePeriodSeconds = Some DefaultTerminationGracePeriodSeconds,
       ps_SecurityContext = podSecurityContext, ps_Volumes = podVolumes cls (names_of L env) @ ct_Volumes c,
       ps_InitContainers = sidecarContainer i env cls # ct_InitContainers c @
         (case in_Restore i of Some plan \<Rightarrow> if isS3Backend cls then [restoreContainer i env cls plan] else [] | None \<Rightarrow> []),
       ps_Containers = containers\<rparr>"
    "po_Meta pod = object_meta L env (n_Pod (names_of L env))"
proof -
  from assms obtain env cls where v: "validateInputs i = Inr (env, cls)"
    by (auto simp: RenderPod_def split: sum.splits)
  from assms v obtain e where e: "engineFor reg (en_Type (cs_Engine (cl_Spec cls))) = Inr e"
    by (auto simp: RenderPod_def Let_def split: sum.splits if_splits)
  from assms v e obtain c where c: "ee_Contribute e i = Inr c"
    by (auto simp: RenderPod_def Let_def split: sum.splits if_splits)
  from assms v e c have n: "validateNoReservedContainerNames c = None"
    by (auto simp: RenderPod_def Let_def split: if_splits option.splits)
  from assms v e c n obtain cs where cs: "applyRelaxations (agentContainer cls (names_of L env) # ct_Containers c) (ct_Relaxations c) = Inr cs"
    by (auto simp: RenderPod_def Let_def simp del: applyRelaxations.simps split: if_splits sum.splits)
  from assms v e c n cs show ?thesis
    by (intro that [of env cls e c cs])
      (auto simp: RenderPod_def Let_def validateInputs_Inr simp del: applyRelaxations.simps split: if_splits)
qed

lemma agentContainer_context: "(agentContainer cls names)\<lparr>cn_SecurityContext := Some agentSecurityContext\<rparr> = agentContainer cls names"
  by (simp add: agentContainer_def)

lemma set_map_filter_names: "set (List.map_filter f xs) = {y. \<exists>x \<in> set xs. f x = Some y}"
  by (induction xs) (auto simp: List.map_filter_simps split: option.splits)

lemma contributed_names:
  assumes "validateNoReservedContainerNames c = None" and "reserved_name n" and "x \<in> set (ct_Containers c) \<union> set (ct_InitContainers c)"
  shows "cn_Name x \<noteq> Some n"
proof
  assume "cn_Name x = Some n"
  with assms(3) have "n \<in> set (List.map_filter cn_Name (ct_Containers c @ ct_InitContainers c))"
    unfolding set_map_filter_names by auto
  with assms(1,2) show False by (simp add: validateNoReservedContainerNames_def find_None_iff)
qed

subsection \<open>The agent's container\<close>

definition contribution_of :: "registry \<Rightarrow> Inputs \<Rightarrow> Contribution option" where
  "contribution_of reg i =
     (case in_Class i of None \<Rightarrow> None | Some cls \<Rightarrow>
      (case engineFor reg (en_Type (cs_Engine (cl_Spec cls))) of Inl _ \<Rightarrow> None | Inr e \<Rightarrow>
       (case ee_Contribute e i of Inl _ \<Rightarrow> None | Inr c \<Rightarrow> Some c)))"

text \<open>What a mount shows is the source of the first volume of its name.\<close>

definition source_of :: "PodSpec \<Rightarrow> VolumeMount \<Rightarrow> volume_source option" where
  "source_of sp m = map_option vo_Source (find (\<lambda>v. vo_Name v = vm_Name m) (ps_Volumes sp))"

lemma agentSecurityContext_confined: "confined agentSecurityContext"
  by (simp add: confined_def agentSecurityContext_def empty_SecurityContext_def)

lemma agentContainer_fields:
  "cn_Name (agentContainer cls names) = Some AgentContainerName"
  "cn_EnvFromSecrets (agentContainer cls names) = [n_Secret names]" "cn_Env (agentContainer cls names) = []"
  "cn_VolumeMounts (agentContainer cls names) =
     [mount workspaceVolumeName WorkspaceMountPath, mount agentHomeVolumeName AgentHomePath, mount_ro configVolumeName ConfigMountPath]"
  by (simp_all add: agentContainer_def empty_Container_def)

lemma agent_sources:
  assumes "ps_Volumes sp = podVolumes cls names @ vs"
  shows "map (source_of sp) (cn_VolumeMounts (agentContainer cls names)) =
     [Some (PersistentVolumeClaimSource (n_PVC names)), Some EmptyDir, Some (ConfigMapSource (n_ConfigMap names) 292)]"
  using assms by (simp add: agentContainer_fields source_of_def podVolumes_def workspaceVolume_def mount_def mount_ro_def volume_names)

lemma init_names:
  assumes "cn_Name x = Some AgentContainerName" and "validateNoReservedContainerNames c = None"
  shows "x \<notin> set (sidecarContainer i env cls # ct_InitContainers c @
    (case in_Restore i of Some plan \<Rightarrow> if isS3Backend cls then [restoreContainer i env cls plan] else [] | None \<Rightarrow> []))"
proof -
  have "cn_Name (sidecarContainer i env cls) \<noteq> Some AgentContainerName" "cn_Name (restoreContainer i env cls p) \<noteq> Some AgentContainerName" for p
    by (simp_all add: sidecarContainer_def restoreContainer_def container_names)
  moreover have "x \<notin> set (ct_InitContainers c)"
    using contributed_names [OF assms(2), of AgentContainerName x] assms(1) by (auto simp: reserved_name_def)
  ultimately show ?thesis using assms(1) by (auto split: option.splits)
qed

text \<open>
  C11: a rendered pod has exactly one container named agent, the first, whatever an engine
  contributes. It mounts the workspace claim, an empty directory and the configuration map, and
  apart from these at most the mounts the engine contributed for the agent; its variables come
  from the environment's own secret, and apart from that secret at most from the engine's
  contribution for the agent. So the renderer itself hands it no token and no other secret (whether
  the engine's own additions arrive is a separate question, see the lemma agent_extras_ignored). Its
  security context is the baseline weakened by exactly the relaxations the engine asked for on this container, so it still
  runs as user 1000 and not as root, without privileges, with every capability dropped; and no
  token is mounted automatically.
\<close>

theorem agent_container_confined:
  assumes "RenderPod reg L i = Inr pod"
  shows "\<exists>env c a rest. in_Env i = Some env \<and> contribution_of reg i = Some c \<and> ps_Containers (po_Spec pod) = a # rest \<and>
    cn_Name a = Some AgentContainerName \<and>
    (\<forall>x \<in> set rest \<union> set (ps_InitContainers (po_Spec pod)). cn_Name x \<noteq> Some AgentContainerName) \<and>
    (\<exists>base extra. cn_VolumeMounts a = base @ extra \<and> set extra \<subseteq> set (ct_AgentVolumeMounts c) \<and>
      map (source_of (po_Spec pod)) base =
        [Some (PersistentVolumeClaimSource (n_PVC (names_of L env))), Some EmptyDir, Some (ConfigMapSource (n_ConfigMap (names_of L env)) 292)]) \<and>
    cn_EnvFromSecrets a = [n_Secret (names_of L env)] \<and> set (cn_Env a) \<subseteq> set (ct_AgentEnv c) \<and>
    cn_SecurityContext a = Some (relaxed_by (for_container AgentContainerName (ct_Relaxations c)) agentSecurityContext) \<and>
    confined (relaxed_by (for_container AgentContainerName (ct_Relaxations c)) agentSecurityContext) \<and>
    \<not> ps_AutomountServiceAccountToken (po_Spec pod)"
proof -
  from assms obtain env cls e c containers where R: "in_Env i = Some env" "in_Class i = Some cls"
    "engineFor reg (en_Type (cs_Engine (cl_Spec cls))) = Inr e" "ee_Contribute e i = Inr c"
    "validateNoReservedContainerNames c = None"
    "applyRelaxations (agentContainer cls (names_of L env) # ct_Containers c) (ct_Relaxations c) = Inr containers"
    "po_Spec pod = \<lparr>ps_RestartPolicy = ''Never'', ps_ServiceAccountName = n_ServiceAccount (names_of L env),
       ps_AutomountServiceAccountToken = False, ps_TerminationGracePeriodSeconds = Some DefaultTerminationGracePeriodSeconds,
       ps_SecurityContext = podSecurityContext, ps_Volumes = podVolumes cls (names_of L env) @ ct_Volumes c,
       ps_InitContainers = sidecarContainer i env cls # ct_InitContainers c @
         (case in_Restore i of Some plan \<Rightarrow> if isS3Backend cls then [restoreContainer i env cls plan] else [] | None \<Rightarrow> []),
       ps_Containers = containers\<rparr>"
    by (rule RenderPod_Inr)
  let ?a = "(agentContainer cls (names_of L env))\<lparr>cn_SecurityContext := Some (relaxed_by (for_container AgentContainerName (ct_Relaxations c)) agentSecurityContext)\<rparr>"
  from applyRelaxations_hd [where c = "agentContainer cls (names_of L env)" and sc = agentSecurityContext and n = AgentContainerName and cs = "ct_Containers c"] R(6)
  obtain rest where rest: "containers = ?a # rest" "map cn_Name rest = map cn_Name (ct_Containers c)"
    by (auto simp: agentContainer_context agentContainer_fields)
  have others: "cn_Name x \<noteq> Some AgentContainerName" if "x \<in> set rest" for x
  proof -
    from that rest(2) obtain y where "y \<in> set (ct_Containers c)" "cn_Name y = cn_Name x" by (metis (mono_tags, lifting) in_set_conv_nth length_map nth_map nth_mem)
    then show ?thesis using contributed_names [OF R(5), of AgentContainerName y] by (simp add: reserved_name_def)
  qed
  have inits: "cn_Name x \<noteq> Some AgentContainerName" if "x \<in> set (ps_InitContainers (po_Spec pod))" for x
    using that init_names [OF _ R(5), of x] by (auto simp: R(7))
  have sources: "\<exists>base extra. cn_VolumeMounts ?a = base @ extra \<and> set extra \<subseteq> set (ct_AgentVolumeMounts c) \<and>
      map (source_of (po_Spec pod)) base =
        [Some (PersistentVolumeClaimSource (n_PVC (names_of L env))), Some EmptyDir, Some (ConfigMapSource (n_ConfigMap (names_of L env)) 292)]"
    using agent_sources [of "po_Spec pod" cls "names_of L env" "ct_Volumes c"]
    by (intro exI [of _ "cn_VolumeMounts (agentContainer cls (names_of L env))"] exI [of _ "[]"]) (simp add: R(7))
  have c: "contribution_of reg i = Some c" using R by (simp add: contribution_of_def)
  have spec: "ps_Containers (po_Spec pod) = ?a # rest" "\<not> ps_AutomountServiceAccountToken (po_Spec pod)"
    by (simp_all add: R(7) rest(1))
  show ?thesis
    using R(1) c spec sources others inits relaxed_by_confined [OF agentSecurityContext_confined]
    by (intro exI [of _ env] exI [of _ c] exI [of _ ?a] exI [of _ rest] conjI ballI)
      (blast, simp_all add: agentContainer_fields, blast)
qed

text \<open>An engine with a sidecar of its own that asks for one more capability on the agent's container.\<close>

definition ref_render :: render_lib where
  "ref_render = \<lparr>rl_Sha256Hex = (\<lambda>s. ''0123456789abcdef''), rl_ParseQuantity = Some, rl_MarshalIndent = (\<lambda>_. ''{}'')\<rparr>"

definition podman_engine :: Engine where
  "podman_engine =
     \<lparr>ee_Type = ''podman'', ee_Contribute = (\<lambda>_. Inr (no_contribution
        \<lparr>ct_Containers := [empty_Container\<lparr>cn_Name := Some ''podman''\<rparr>],
         ct_Volumes := [\<lparr>vo_Name = ''workspace'', vo_Source = OtherSource ''hostPath''\<rparr>],
         ct_Relaxations := [\<lparr>rx_Container = AgentContainerName, rx_Kind = RelaxAddCapability, rx_Value = ''SETUID'', rx_Reason = ''newuidmap''\<rparr>]\<rparr>))\<rparr>"

definition render_class :: SandboxClass where
  "render_class = \<lparr>Name = ''k'', Namespace = [], UID = ''k1'', ResourceVersion = [], Generation = 1, CreationTimestamp = 0, DeletionTimestamp = None, Finalizers = [],
     cl_Spec = \<lparr>cs_Agent = \<lparr>as_Image = ''a'', as_Resources = \<lparr>rq_Limits = [], rq_Requests = []\<rparr>, as_Model = None\<rparr>,
       cs_Engine = \<lparr>en_Type = EngineTypeNone, en_Image = [], en_StorageDriver = []\<rparr>,
       cs_Services = \<lparr>sv_GitProxy = None, sv_DependaProxy = None, sv_Ollama = None\<rparr>,
       cs_Storage = \<lparr>sg_Workspace = \<lparr>ws_Size = ''1Gi'', ws_StorageClassName = None\<rparr>,
         sg_Backend = \<lparr>bs_Type = StorageBackendTypeS3, bs_S3 = Some \<lparr>s3_Endpoint = ''http://s'', s3_Bucket = ''b'', s3_Region = [], s3_Prefix = [],
           s3_CredentialsSecretRef = \<lparr>sk_Name = ''s'', sk_Key = []\<rparr>, s3_ForcePathStyle = None\<rparr>, bs_PVC = None\<rparr>,
         sg_WarmCacheTTL = []\<rparr>,
       cs_Network = \<lparr>nw_Isolation = NetworkIsolationRestricted, nw_ExtraEgress = []\<rparr>,
       cs_Timeouts = \<lparr>tm_Running = [], tm_Waiting = [], tm_Total = []\<rparr>\<rparr>\<rparr>"

definition render_env :: SandboxEnvironment where
  "render_env = zero_env\<lparr>Name := ''e'', Namespace := ''n'', UID := ''u1''\<rparr>"

definition render_inputs :: Inputs where
  "render_inputs = zero_Inputs\<lparr>in_Env := Some render_env, in_Class := Some render_class, in_ClusterID := ''c'', in_SpecHash := ''sha256:0'',
     in_SidecarImage := ''op'', in_Restore := Some \<lparr>pl_SnapshotID = ''00007-x'', pl_Seq = 7\<rparr>\<rparr>"

lemma sample_pod:
  obtains pod where "RenderPod engineRegistry ref_render render_inputs = Inr pod"
proof -
  have "validateInputs render_inputs = Inr (render_env, render_class)" "in_SidecarImage render_inputs \<noteq> []"
    "engineFor engineRegistry (en_Type (cs_Engine (cl_Spec render_class))) = Inr noneEngine"
    by (simp_all add: render_inputs_def validateInputs_def render_env_def render_class_def engineFor_def engineRegistry_def EngineTypeNone_def)
  then have "\<not> isl (RenderPod engineRegistry ref_render render_inputs)"
    by (simp add: RenderPod_def noneEngine_def no_contribution_def validateNoReservedContainerNames_def List.map_filter_simps Let_def)
  then show ?thesis by (cases "RenderPod engineRegistry ref_render render_inputs") (auto intro: that)
qed

theorem agent_container_confined_witness:
  "case RenderPod [(EngineTypeNone, podman_engine)] ref_render render_inputs of Inl _ \<Rightarrow> False | Inr pod \<Rightarrow>
     map (\<lambda>a. map (source_of (po_Spec pod)) (take 3 (cn_VolumeMounts a))) (take 1 (ps_Containers (po_Spec pod))) =
       [[Some (PersistentVolumeClaimSource ''e-workspace''), Some EmptyDir, Some (ConfigMapSource ''e-config'' 292)]]"
proof -
  have "validateInputs render_inputs = Inr (render_env, render_class)" "in_SidecarImage render_inputs \<noteq> []"
    "en_Type (cs_Engine (cl_Spec render_class)) = EngineTypeNone" "EngineTypeNone \<noteq> []"
    by (simp_all add: render_inputs_def validateInputs_def render_env_def render_class_def EngineTypeNone_def)
  moreover have "applyRelaxations (agentContainer cls names # cs)
      [\<lparr>rx_Container = AgentContainerName, rx_Kind = RelaxAddCapability, rx_Value = ''SETUID'', rx_Reason = ''newuidmap''\<rparr>] \<noteq> Inl x" for cls names cs x
    by (simp add: agentContainer_fields applyRelaxation_def Let_def split: sum.split)
  ultimately have "\<not> isl (RenderPod [(EngineTypeNone, podman_engine)] ref_render render_inputs)"
    by (auto simp: RenderPod_def engineFor_def podman_engine_def no_contribution_def validateNoReservedContainerNames_def Let_def
        List.map_filter_simps empty_Container_def reserved_name_def container_names simp del: applyRelaxations.simps split: sum.split)
  then obtain pod where pod: "RenderPod [(EngineTypeNone, podman_engine)] ref_render render_inputs = Inr pod"
    by (cases "RenderPod [(EngineTypeNone, podman_engine)] ref_render render_inputs") auto
  have names: "in_Env render_inputs = Some env \<Longrightarrow> n_PVC (names_of ref_render env) = ''e-workspace'' \<and> n_ConfigMap (names_of ref_render env) = ''e-config''" for env
    by (auto simp: render_inputs_def render_env_def zero_Inputs_def ChildNames_def childName_def MaxNameLen_def suffix_defs)
  from agent_container_confined [OF pod] obtain env a rest base extra where "in_Env render_inputs = Some env"
    and a: "ps_Containers (po_Spec pod) = a # rest" "cn_VolumeMounts a = base @ extra"
    and m: "map (source_of (po_Spec pod)) base = [Some (PersistentVolumeClaimSource (n_PVC (names_of ref_render env))), Some EmptyDir,
       Some (ConfigMapSource (n_ConfigMap (names_of ref_render env)) 292)]" by (elim exE conjE) (rule that)
  moreover have "length base = 3" using arg_cong [OF m, of length] by simp
  ultimately show ?thesis using names [of env] by (simp add: pod)
qed

text \<open>
  The fields of a contribution documented as additions to the agent's container reach no pod: a pod
  is the same whatever they hold.
\<close>

definition with_agent_extras :: "(string \<times> string) list \<Rightarrow> VolumeMount list \<Rightarrow> Engine \<Rightarrow> Engine" where
  "with_agent_extras vars mounts e = e\<lparr>ee_Contribute := \<lambda>i. map_sum id (\<lambda>c. c\<lparr>ct_AgentEnv := vars, ct_AgentVolumeMounts := mounts\<rparr>) (ee_Contribute e i)\<rparr>"

lemma agent_extras_ignored: "RenderPod (map (map_prod id (with_agent_extras vars mounts)) reg) L i = RenderPod reg L i"
proof -
  have reg: "map_of (map (map_prod id (with_agent_extras vars mounts)) reg) t = map_option (with_agent_extras vars mounts) (map_of reg t)" for t
    by (induction reg) auto
  have check: "validateNoReservedContainerNames (c\<lparr>ct_AgentEnv := vars, ct_AgentVolumeMounts := mounts\<rparr>) = validateNoReservedContainerNames c" for c
    by (simp add: validateNoReservedContainerNames_def)
  show ?thesis
  proof (cases "validateInputs i")
    case (Inr v)
    obtain env cls where "v = (env, cls)" by force
    with Inr show ?thesis
      by (cases "map_of reg (if en_Type (cs_Engine (cl_Spec cls)) = [] then EngineTypeRootlessPodman else en_Type (cs_Engine (cl_Spec cls)))")
        (simp_all add: RenderPod_def engineFor_def Let_def reg with_agent_extras_def check split: sum.split option.split)
  qed (simp add: RenderPod_def)
qed

end
