(* ===== verification/Go_Flags.thy ===== *)
theory Go_Flags
  imports Docker_Config
begin

section \<open>Command-line flags\<close>

text \<open>
  What the sidecar uses of Go's \<^verbatim>\<open>flag\<close> and \<^verbatim>\<open>strconv\<close>: a set of flags, each with a name, whether it is
  boolean, and how it sets the configuration, and the loop that consumes arguments; integers with
  the base read from their prefix, as \<^verbatim>\<open>ParseInt(s, 0, 64)\<close> does.
\<close>

subsection \<open>Integers\<close>

definition lower_byte :: "char \<Rightarrow> nat" where
  "lower_byte c = (let n = of_char c in if n mod 64 < 32 then n + 32 else n)"

definition digit_value :: "char \<Rightarrow> nat option" where
  "digit_value c =
     (if is_digit c then Some (of_char c - 48)
      else let n = lower_byte c in if 97 \<le> n \<and> n \<le> 122 then Some (n - 97 + 10) else None)"

text \<open>Underscores are skipped here and checked by \<open>underscoreOK\<close>.\<close>

fun read_digits :: "nat \<Rightarrow> nat \<Rightarrow> string \<Rightarrow> nat option" where
  "read_digits base n [] = Some n"
| "read_digits base n (c # s) =
     (if c = CHR ''_'' then read_digits base n s
      else case digit_value c of
        None \<Rightarrow> None
      | Some d \<Rightarrow> if base \<le> d then None else read_digits base (base * n + d) s)"

definition base_prefix :: "string \<Rightarrow> nat \<times> string" where
  "base_prefix s =
     (if s \<noteq> [] \<and> hd s = CHR ''0'' then
        (if 3 \<le> length s \<and> lower_byte (s ! 1) = 98 then (2, drop 2 s)
         else if 3 \<le> length s \<and> lower_byte (s ! 1) = 111 then (8, drop 2 s)
         else if 3 \<le> length s \<and> lower_byte (s ! 1) = 120 then (16, drop 2 s)
         else (8, drop 1 s))
      else (10, s))"

text \<open>Underscores must separate digits: \<open>saw\<close> is the kind of the last character.\<close>

fun underscores_from :: "bool \<Rightarrow> char \<Rightarrow> string \<Rightarrow> bool" where
  "underscores_from hex saw [] = (saw \<noteq> CHR ''_'')"
| "underscores_from hex saw (c # s) =
     (if is_digit c \<or> hex \<and> 97 \<le> lower_byte c \<and> lower_byte c \<le> 102 then underscores_from hex (CHR ''0'') s
      else if c = CHR ''_'' then saw = CHR ''0'' \<and> underscores_from hex (CHR ''_'') s
      else saw \<noteq> CHR ''_'' \<and> underscores_from hex (CHR ''!'') s)"

definition underscoreOK :: "string \<Rightarrow> bool" where
  "underscoreOK s =
     (if 2 \<le> length s \<and> hd s = CHR ''0'' \<and> lower_byte (s ! 1) \<in> {98, 111, 120}
      then underscores_from (lower_byte (s ! 1) = 120) (CHR ''0'') (drop 2 s)
      else underscores_from False (CHR ''^'') s)"

definition ParseInt0 :: "string \<Rightarrow> int option" where
  "ParseInt0 s =
     (let neg = (s \<noteq> [] \<and> hd s = CHR ''-'');
          u = (if s \<noteq> [] \<and> (hd s = CHR ''-'' \<or> hd s = CHR ''+'') then tl s else s);
          (base, ds) = base_prefix u
      in if u = [] then None
         else case read_digits base 0 ds of
           None \<Rightarrow> None
         | Some n \<Rightarrow>
             if CHR ''_'' \<in> set ds \<and> \<not> underscoreOK u then None
             else if neg then (if int n \<le> 2 ^ 63 then Some (- int n) else None)
             else if int n < 2 ^ 63 then Some (int n) else None)"

subsection \<open>Decimal numbers read back\<close>

lemma of_char_digit: "d < 10 \<Longrightarrow> of_char (digit_char d) = 48 + d"
  by (simp add: digit_char_def)

lemma digit_char_plain: "d < 10 \<Longrightarrow> is_digit (digit_char d) \<and> digit_value (digit_char d) = Some d \<and> digit_char d \<noteq> CHR ''_''"
proof -
  assume d: "d < 10"
  have "digit_char d \<noteq> CHR ''_''"
  proof
    assume "digit_char d = CHR ''_''"
    then have "of_char (digit_char d) = (of_char CHR ''_'' :: nat)" by simp
    with d show False by (simp add: of_char_digit)
  qed
  with d show ?thesis by (simp add: is_digit_def digit_value_def of_char_digit)
qed

lemma read_digits_append: "read_digits b n (xs @ ys) = Option.bind (read_digits b n xs) (\<lambda>m. read_digits b m ys)"
  by (induction xs arbitrary: n) (auto split: option.splits)

lemma read_decimal: "read_digits 10 0 (decimal n) = Some n"
proof (induction n rule: decimal.induct)
  case (1 n)
  show ?case
  proof (cases "n < 10")
    case True
    then show ?thesis by (subst decimal.simps) (simp add: digit_char_plain)
  next
    case False
    then have "read_digits 10 0 (decimal (n div 10)) = Some (n div 10)" using 1 by simp
    with False show ?thesis by (subst decimal.simps) (simp add: read_digits_append digit_char_plain)
  qed
qed

lemma decimal_digits: "\<forall>c \<in> set (decimal n). is_digit c \<and> c \<noteq> CHR ''_''"
proof (induction n rule: decimal.induct)
  case (1 n)
  then show ?case by (cases "n < 10") (subst decimal.simps, simp add: digit_char_plain)+
qed

lemma decimal_not_Nil: "decimal n \<noteq> []"
  by (subst decimal.simps) simp

lemma digit_char_0: "d < 10 \<Longrightarrow> digit_char d = CHR ''0'' \<longleftrightarrow> d = 0"
proof -
  assume "d < 10"
  then have "of_char (digit_char d) = 48 + d" by (rule of_char_digit)
  moreover have "of_char CHR ''0'' = (48 :: nat)" by simp
  ultimately show ?thesis by (metis add_cancel_right_right digit_char_def of_char_eqI)
qed

lemma decimal_hd: "0 < n \<Longrightarrow> hd (decimal n) \<noteq> CHR ''0''"
proof (induction n rule: decimal.induct)
  case (1 n)
  show ?case
  proof (cases "n < 10")
    case True
    with 1 show ?thesis by (subst decimal.simps) (simp add: digit_char_0)
  next
    case False
    with 1 show ?thesis by (subst decimal.simps) (simp add: decimal_not_Nil hd_append)
  qed
qed

lemma base_prefix_decimal: "base_prefix (decimal n) = (if n = 0 then (8, []) else (10, decimal n))"
proof (cases "n = 0")
  case True
  have "decimal 0 = [CHR ''0'']" using digit_char_0 [of 0] by (subst decimal.simps) simp
  with True show ?thesis by (simp add: base_prefix_def)
next
  case False
  then show ?thesis using decimal_hd [of n] by (simp add: base_prefix_def)
qed

lemma decimal_hd_sign: "hd (decimal n) \<noteq> CHR ''-''" "hd (decimal n) \<noteq> CHR ''+''"
proof -
  have "is_digit (hd (decimal n))" using decimal_digits [of n] hd_in_set [OF decimal_not_Nil [of n]] by blast
  moreover have "\<not> is_digit CHR ''-''" "\<not> is_digit CHR ''+''" by (simp_all add: is_digit_def)
  ultimately show "hd (decimal n) \<noteq> CHR ''-''" "hd (decimal n) \<noteq> CHR ''+''" by metis+
qed

lemma ParseInt0_decimal: "- (2 ^ 63) \<le> i \<Longrightarrow> i < 2 ^ 63 \<Longrightarrow> ParseInt0 (decimal_int i) = Some i"
proof -
  assume i: "- (2 ^ 63) \<le> i" "i < 2 ^ 63"
  have read: "case base_prefix (decimal n) of (base, ds) \<Rightarrow> read_digits base 0 ds = Some n \<and> CHR ''_'' \<notin> set ds" for n
    using read_decimal [of n] decimal_digits [of n] by (auto simp: base_prefix_decimal)
  show ?thesis
  proof (cases "i < 0")
    case True
    with i read [of "nat (- i)"] show ?thesis
      by (auto simp: ParseInt0_def decimal_int_def decimal_not_Nil Let_def split: prod.splits)
  next
    case False
    with i read [of "nat i"] decimal_hd_sign [of "nat i"] show ?thesis
      by (auto simp: ParseInt0_def decimal_int_def decimal_not_Nil Let_def split: prod.splits)
  qed
qed

subsection \<open>Parsing\<close>

datatype flag_error =
    BadFlagSyntax string
  | FlagNotDefined string
  | ErrHelp
  | InvalidFlagValue string string
  | FlagNeedsArgument string

text \<open>A flag: whether it is boolean, and how it sets a configuration, if the value is one.\<close>

type_synonym 'c flag_set = "(string \<times> bool \<times> (string \<Rightarrow> 'c \<Rightarrow> 'c option)) list"

definition cut_value :: "string \<Rightarrow> string \<times> string option" where
  "cut_value name =
     (hd name # takeWhile (\<lambda>c. c \<noteq> CHR ''='') (tl name),
      case dropWhile (\<lambda>c. c \<noteq> CHR ''='') (tl name) of [] \<Rightarrow> None | _ # v \<Rightarrow> Some v)"

fun parse_flags :: "'c flag_set \<Rightarrow> string list \<Rightarrow> 'c \<Rightarrow> flag_error + 'c" where
  "parse_flags fl [] c = Inr c"
| "parse_flags fl (s # args) c =
     (if length s < 2 \<or> hd s \<noteq> CHR ''-'' then Inr c
      else if s = ''--'' then Inr c
      else let name = drop (if s ! 1 = CHR ''-'' then 2 else 1) s in
      if name = [] \<or> hd name = CHR ''-'' \<or> hd name = CHR ''='' then Inl (BadFlagSyntax s)
      else let (n, val) = cut_value name in
      (case map_of fl n of
         None \<Rightarrow> Inl (if n = ''help'' \<or> n = ''h'' then ErrHelp else FlagNotDefined n)
       | Some (is_bool, set_flag) \<Rightarrow>
           (case (if is_bool \<and> val = None then Some ''true'' else val) of
              Some v \<Rightarrow>
                (case set_flag v c of None \<Rightarrow> Inl (InvalidFlagValue n v) | Some c' \<Rightarrow> parse_flags fl args c')
            | None \<Rightarrow>
                (case args of
                   [] \<Rightarrow> Inl (FlagNeedsArgument n)
                 | v # rest \<Rightarrow>
                     (case set_flag v c of None \<Rightarrow> Inl (InvalidFlagValue n v) | Some c' \<Rightarrow> parse_flags fl rest c')))))"

text \<open>An argument of the form \<^verbatim>\<open>--name=value\<close>, and what a list of them does.\<close>

definition flag_text :: "string \<times> string \<Rightarrow> string" where
  "flag_text f = ''--'' @ fst f @ ''='' @ snd f"

definition flag_name :: "string \<Rightarrow> bool" where
  "flag_name n \<longleftrightarrow> n \<noteq> [] \<and> hd n \<noteq> CHR ''-'' \<and> CHR ''='' \<notin> set n"

fun apply_flags :: "'c flag_set \<Rightarrow> (string \<times> string) list \<Rightarrow> 'c \<Rightarrow> 'c option" where
  "apply_flags fl [] c = Some c"
| "apply_flags fl (f # fs) c =
     (case map_of fl (fst f) of
        None \<Rightarrow> None
      | Some (is_bool, set_flag) \<Rightarrow> Option.bind (set_flag (snd f) c) (apply_flags fl fs))"

lemma cut_value_text: "flag_name n \<Longrightarrow> cut_value (n @ ''='' @ v) = (n, Some v)"
proof -
  assume "flag_name n"
  then obtain a n' where n: "n = a # n'" "CHR ''='' \<notin> set n'" by (cases n) (auto simp: flag_name_def)
  then have "takeWhile (\<lambda>c. c \<noteq> CHR ''='') (n' @ ''='' @ v) = n'" "dropWhile (\<lambda>c. c \<noteq> CHR ''='') (n' @ ''='' @ v) = ''='' @ v"
    by (auto simp: takeWhile_append dropWhile_append)
  with n show ?thesis by (simp add: cut_value_def)
qed

lemma parse_flags_texts:
  "list_all (flag_name \<circ> fst) fs \<Longrightarrow> apply_flags fl fs c = Some c' \<Longrightarrow> parse_flags fl (map flag_text fs) c = Inr c'"
proof (induction fs arbitrary: c)
  case Nil
  then show ?case by simp
next
  case (Cons f fs)
  obtain n v where f: "f = (n, v)" by force
  with Cons.prems have n: "flag_name n" by simp
  from Cons.prems f obtain b st c1 where st: "map_of fl n = Some (b, st)" "st v c = Some c1" "apply_flags fl fs c1 = Some c'"
    by (auto split: option.splits simp: bind_eq_Some_conv)
  have shape: "n @ CHR ''='' # v \<noteq> []" "hd (n @ CHR ''='' # v) \<noteq> CHR ''-''" "hd (n @ CHR ''='' # v) \<noteq> CHR ''=''"
    using n by (cases n; auto simp: flag_name_def)+
  show ?case
    using Cons.IH [OF _ st(3)] Cons.prems(1) st shape cut_value_text [OF n, of v] by (simp add: f flag_text_def)
qed

end
