(* ===== verification/Sidecar_Config.thy ===== *)
theory Sidecar_Config
  imports Go_Flags Restore_Job
begin

section \<open>The sidecar's configuration\<close>

text \<open>
  \<^verbatim>\<open>config.go\<close>, \<^verbatim>\<open>snapshotconfig.go\<close> and \<^verbatim>\<open>restoreconfig.go\<close> of \<^verbatim>\<open>src/operator/internal/sandboxctl\<close>: how the arguments of
  a container become the configuration of the sidecar, the freeze job and the restore job, and
  the configuration the sidecar accepts. The parsers of durations and URLs, the test whether an
  address is a loopback literal and \<^verbatim>\<open>fmt.Sscanf\<close> of an integer are parameters.
\<close>

record sidecar_lib =
  sl_ParseDuration :: "string \<Rightarrow> duration option"
  sl_Scheme :: "string \<Rightarrow> string option"
  sl_Loopback :: "string \<Rightarrow> bool option"
  sl_SscanfInt :: "string \<Rightarrow> int option"

record sidecar_settings = sidecar_Config +
  cg_Environment :: string
  cg_Namespace :: string
  cg_Listen :: string
  cg_PollInterval :: duration
  cg_ShutdownTimeout :: duration

definition envPrefix :: string where "envPrefix = ''SANDBOX_SIDECAR_''"
definition defaultSnapshotWorkspacePath :: string where "defaultSnapshotWorkspacePath = ''/workspace''"
definition defaultSnapshotAgentHomePath :: string where "defaultSnapshotAgentHomePath = ''/home/node/.claude-sandbox''"
definition defaultSnapshotCredentialsDir :: string where "defaultSnapshotCredentialsDir = ''/var/run/secrets/ai-sandbox/snapshot''"
definition defaultQuiesceDelay :: duration where "defaultQuiesceDelay = 2 * Second"
definition defaultSnapshotStepTimeout :: duration where "defaultSnapshotStepTimeout = 2 * Minute"
definition defaultRestoreRetries :: int where "defaultRestoreRetries = 4"
definition defaultRestoreStepTimeout :: duration where "defaultRestoreStepTimeout = 2 * Minute"

subsection \<open>Fallbacks to the environment\<close>

definition envOr :: "(string \<Rightarrow> string) \<Rightarrow> string \<Rightarrow> string \<Rightarrow> string" where
  "envOr getenv name def = (let v = getenv (envPrefix @ name) in if v \<noteq> [] then v else def)"

definition env_or :: "(string \<Rightarrow> 'a option) \<Rightarrow> string \<Rightarrow> 'a \<Rightarrow> 'a" where
  "env_or parse v def = (if v = [] then def else case parse v of None \<Rightarrow> def | Some x \<Rightarrow> x)"

definition envOrDuration :: "sidecar_lib \<Rightarrow> (string \<Rightarrow> string) \<Rightarrow> string \<Rightarrow> duration \<Rightarrow> duration" where
  "envOrDuration S getenv name = env_or (sl_ParseDuration S) (TrimSpace (getenv (envPrefix @ name)))"

definition envOrBool :: "(string \<Rightarrow> string) \<Rightarrow> string \<Rightarrow> bool \<Rightarrow> bool" where
  "envOrBool getenv name = env_or ParseBool (getenv (envPrefix @ name))"

definition envOrInt :: "(string \<Rightarrow> string) \<Rightarrow> string \<Rightarrow> int \<Rightarrow> int" where
  "envOrInt getenv name = env_or Atoi (getenv (envPrefix @ name))"

definition envOrInt64 :: "sidecar_lib \<Rightarrow> (string \<Rightarrow> string) \<Rightarrow> string \<Rightarrow> int \<Rightarrow> int" where
  "envOrInt64 S getenv name = env_or (sl_SscanfInt S) (getenv (envPrefix @ name))"

subsection \<open>Registering the flags\<close>

text \<open>Registering a flag gives its variable the default.\<close>

definition default_snapshot :: "sidecar_lib \<Rightarrow> (string \<Rightarrow> string) \<Rightarrow> SnapshotConfig" where
  "default_snapshot S getenv =
     \<lparr>sc_Engine = envOr getenv ''ENGINE'' ''none'', sc_ClusterID = envOr getenv ''CLUSTER_ID'' [],
      sc_SpecHash = envOr getenv ''SPEC_HASH'' [], sc_AgentImage = envOr getenv ''AGENT_IMAGE'' [],
      sc_WorkspacePath = envOr getenv ''WORKSPACE_PATH'' defaultSnapshotWorkspacePath,
      sc_AgentHomePath = envOr getenv ''AGENT_HOME_PATH'' defaultSnapshotAgentHomePath,
      sc_Backend = envOr getenv ''SNAPSHOT_BACKEND'' [], sc_S3Endpoint = envOr getenv ''S3_ENDPOINT'' [],
      sc_S3Bucket = envOr getenv ''S3_BUCKET'' [], sc_S3Region = envOr getenv ''S3_REGION'' [],
      sc_S3Prefix = envOr getenv ''S3_PREFIX'' [], sc_S3ForcePathStyle = envOrBool getenv ''S3_FORCE_PATH_STYLE'' True,
      sc_CredentialsDir = envOr getenv ''SNAPSHOT_CREDENTIALS_DIR'' defaultSnapshotCredentialsDir,
      sc_QuiesceDelay = envOrDuration S getenv ''QUIESCE_DELAY'' defaultQuiesceDelay,
      sc_SnapshotRetries = envOrInt getenv ''SNAPSHOT_RETRIES'' defaultSnapshotRetries,
      sc_SnapshotStepTimeout = envOrDuration S getenv ''SNAPSHOT_STEP_TIMEOUT'' defaultSnapshotStepTimeout\<rparr>"

definition default_restore :: "sidecar_lib \<Rightarrow> (string \<Rightarrow> string) \<Rightarrow> RestoreConfig" where
  "default_restore S getenv =
     \<lparr>rc_SnapshotID = envOr getenv ''RESTORE_SNAPSHOT_ID'' [], rc_Seq = envOrInt getenv ''RESTORE_SEQ'' (- 1),
      rc_Warm = envOrBool getenv ''RESTORE_WARM'' True, rc_Retries = envOrInt getenv ''RESTORE_RETRIES'' defaultRestoreRetries,
      rc_StepTimeout = envOrDuration S getenv ''RESTORE_STEP_TIMEOUT'' defaultRestoreStepTimeout,
      rc_MaxEntries = envOrInt64 S getenv ''RESTORE_MAX_ENTRIES'' 0, rc_MaxTotalBytes = envOrInt64 S getenv ''RESTORE_MAX_BYTES'' 0\<rparr>"

definition default_settings :: "sidecar_lib \<Rightarrow> (string \<Rightarrow> string) \<Rightarrow> sidecar_settings" where
  "default_settings S getenv =
     \<lparr>cg_Snapshot = default_snapshot S getenv, cg_Restore = default_restore S getenv,
      cg_Environment = envOr getenv ''ENVIRONMENT'' [], cg_Namespace = envOr getenv ''NAMESPACE'' [],
      cg_Listen = envOr getenv ''LISTEN'' ''127.0.0.1:9099'',
      cg_PollInterval = envOrDuration S getenv ''POLL_INTERVAL'' (5 * Second),
      cg_ShutdownTimeout = envOrDuration S getenv ''SHUTDOWN_TIMEOUT'' (100 * Second)\<rparr>"

text \<open>A flag of each kind, given the update of its variable.\<close>

definition StringVar :: "string \<Rightarrow> (string \<Rightarrow> 'c \<Rightarrow> 'c) \<Rightarrow> string \<times> bool \<times> (string \<Rightarrow> 'c \<Rightarrow> 'c option)" where
  "StringVar n upd = (n, False, \<lambda>v c. Some (upd v c))"

definition IntVar :: "string \<Rightarrow> (int \<Rightarrow> 'c \<Rightarrow> 'c) \<Rightarrow> string \<times> bool \<times> (string \<Rightarrow> 'c \<Rightarrow> 'c option)" where
  "IntVar n upd = (n, False, \<lambda>v c. map_option (\<lambda>x. upd x c) (ParseInt0 v))"

definition BoolVar :: "string \<Rightarrow> (bool \<Rightarrow> 'c \<Rightarrow> 'c) \<Rightarrow> string \<times> bool \<times> (string \<Rightarrow> 'c \<Rightarrow> 'c option)" where
  "BoolVar n upd = (n, True, \<lambda>v c. map_option (\<lambda>x. upd x c) (ParseBool v))"

definition DurationVar :: "sidecar_lib \<Rightarrow> string \<Rightarrow> (duration \<Rightarrow> 'c \<Rightarrow> 'c) \<Rightarrow> string \<times> bool \<times> (string \<Rightarrow> 'c \<Rightarrow> 'c option)" where
  "DurationVar S n upd = (n, False, \<lambda>v c. map_option (\<lambda>x. upd x c) (sl_ParseDuration S v))"

lemmas flag_kinds = StringVar_def IntVar_def BoolVar_def DurationVar_def

definition in_snapshot :: "('v \<Rightarrow> SnapshotConfig \<Rightarrow> SnapshotConfig) \<Rightarrow> 'v \<Rightarrow> sidecar_settings \<Rightarrow> sidecar_settings" where
  "in_snapshot f v c = c\<lparr>cg_Snapshot := f v (cg_Snapshot c)\<rparr>"

definition in_restore :: "('v \<Rightarrow> RestoreConfig \<Rightarrow> RestoreConfig) \<Rightarrow> 'v \<Rightarrow> sidecar_settings \<Rightarrow> sidecar_settings" where
  "in_restore f v c = c\<lparr>cg_Restore := f v (cg_Restore c)\<rparr>"

definition registerSnapshotFlags :: "sidecar_lib \<Rightarrow> sidecar_settings flag_set" where
  "registerSnapshotFlags S =
     [StringVar ''engine'' (in_snapshot (\<lambda>v. sc_Engine_update (\<lambda>_. v))),
      StringVar ''cluster-id'' (in_snapshot (\<lambda>v. sc_ClusterID_update (\<lambda>_. v))),
      StringVar ''spec-hash'' (in_snapshot (\<lambda>v. sc_SpecHash_update (\<lambda>_. v))),
      StringVar ''agent-image'' (in_snapshot (\<lambda>v. sc_AgentImage_update (\<lambda>_. v))),
      StringVar ''workspace-path'' (in_snapshot (\<lambda>v. sc_WorkspacePath_update (\<lambda>_. v))),
      StringVar ''agent-home-path'' (in_snapshot (\<lambda>v. sc_AgentHomePath_update (\<lambda>_. v))),
      StringVar ''snapshot-backend'' (in_snapshot (\<lambda>v. sc_Backend_update (\<lambda>_. v))),
      StringVar ''s3-endpoint'' (in_snapshot (\<lambda>v. sc_S3Endpoint_update (\<lambda>_. v))),
      StringVar ''s3-bucket'' (in_snapshot (\<lambda>v. sc_S3Bucket_update (\<lambda>_. v))),
      StringVar ''s3-region'' (in_snapshot (\<lambda>v. sc_S3Region_update (\<lambda>_. v))),
      StringVar ''s3-prefix'' (in_snapshot (\<lambda>v. sc_S3Prefix_update (\<lambda>_. v))),
      BoolVar ''s3-force-path-style'' (in_snapshot (\<lambda>v. sc_S3ForcePathStyle_update (\<lambda>_. v))),
      StringVar ''snapshot-credentials-dir'' (in_snapshot (\<lambda>v. sc_CredentialsDir_update (\<lambda>_. v))),
      DurationVar S ''quiesce-delay'' (in_snapshot (\<lambda>v. sc_QuiesceDelay_update (\<lambda>_. v))),
      IntVar ''snapshot-retries'' (in_snapshot (\<lambda>v. sc_SnapshotRetries_update (\<lambda>_. v))),
      DurationVar S ''snapshot-step-timeout'' (in_snapshot (\<lambda>v. sc_SnapshotStepTimeout_update (\<lambda>_. v)))]"

definition registerRestoreFlags :: "sidecar_lib \<Rightarrow> sidecar_settings flag_set" where
  "registerRestoreFlags S =
     [StringVar ''restore-snapshot-id'' (in_restore (\<lambda>v. rc_SnapshotID_update (\<lambda>_. v))),
      IntVar ''restore-seq'' (in_restore (\<lambda>v. rc_Seq_update (\<lambda>_. v))),
      BoolVar ''restore-warm'' (in_restore (\<lambda>v. rc_Warm_update (\<lambda>_. v))),
      IntVar ''restore-retries'' (in_restore (\<lambda>v. rc_Retries_update (\<lambda>_. v))),
      DurationVar S ''restore-step-timeout'' (in_restore (\<lambda>v. rc_StepTimeout_update (\<lambda>_. v))),
      IntVar ''restore-max-entries'' (in_restore (\<lambda>v. rc_MaxEntries_update (\<lambda>_. v))),
      IntVar ''restore-max-bytes'' (in_restore (\<lambda>v. rc_MaxTotalBytes_update (\<lambda>_. v)))]"

definition sidecar_flags :: "sidecar_lib \<Rightarrow> sidecar_settings flag_set" where
  "sidecar_flags S =
     [StringVar ''environment'' (\<lambda>v. cg_Environment_update (\<lambda>_. v)),
      StringVar ''namespace'' (\<lambda>v. cg_Namespace_update (\<lambda>_. v)),
      StringVar ''listen'' (\<lambda>v. cg_Listen_update (\<lambda>_. v)),
      DurationVar S ''poll-interval'' (\<lambda>v. cg_PollInterval_update (\<lambda>_. v)),
      DurationVar S ''shutdown-timeout'' (\<lambda>v. cg_ShutdownTimeout_update (\<lambda>_. v))] @
     registerSnapshotFlags S @ registerRestoreFlags S"

definition sidecar_Load :: "sidecar_lib \<Rightarrow> string list \<Rightarrow> (string \<Rightarrow> string) \<Rightarrow> flag_error + sidecar_settings" where
  "sidecar_Load S args getenv = parse_flags (sidecar_flags S) args (default_settings S getenv)"

subsection \<open>Validation\<close>

definition validateLoopbackListen :: "sidecar_lib \<Rightarrow> string \<Rightarrow> string option" where
  "validateLoopbackListen S addr =
     (case SplitHostPort addr of
        None \<Rightarrow> Some ''is not a valid host:port''
      | Some (host, port) \<Rightarrow>
          if port = [] then Some ''has no port''
          else if host = [] then Some ''has no host; must bind an explicit loopback address (e.g. 127.0.0.1:9099), not all interfaces''
          else case sl_Loopback S host of
            None \<Rightarrow> Some ''is not an IP literal; must be an explicit loopback address (e.g. 127.0.0.1 or ::1)''
          | Some False \<Rightarrow> Some ''is not a loopback address; the control API must be reachable only from inside this pod''
          | Some True \<Rightarrow> None)"

definition sidecar_Validate :: "sidecar_lib \<Rightarrow> sidecar_settings \<Rightarrow> string option" where
  "sidecar_Validate S c =
     (if cg_Environment c = [] then Some ''environment: must not be empty''
      else if cg_Namespace c = [] then Some ''namespace: must not be empty''
      else case validateLoopbackListen S (cg_Listen c) of
        Some e \<Rightarrow> Some (''listen: '' @ e)
      | None \<Rightarrow>
          if cg_PollInterval c < Second \<or> Minute < cg_PollInterval c then Some ''poll-interval: must be between 1s and 60s''
          else if cg_ShutdownTimeout c \<le> 0 \<or> 110 * Second < cg_ShutdownTimeout c
            then Some ''shutdown-timeout: must be between 0 and 110s (leave headroom inside the pod's terminationGracePeriodSeconds)''
          else map_option (\<lambda>e. ''snapshot config: '' @ e) (SnapshotConfig_Validate (sl_Scheme S) (cg_Snapshot c)))"

end
