(* ===== verification/Pod_Flags.thy ===== *)
theory Pod_Flags
  imports Pod_Safety Sidecar_Config
begin

section \<open>From the operator's objects to the sidecar's configuration\<close>

text \<open>
  The operator and the sidecar agree on flags only by convention: \<^verbatim>\<open>render/pod.go\<close> writes the arguments
  of the containers and \<^verbatim>\<open>sandboxctl/config.go\<close> reads them in another process. Here the
  arguments the operator renders are given to the sidecar's own parser.
\<close>

definition sidecar_reads :: "sidecar_lib \<Rightarrow> bool" where
  "sidecar_reads S \<longleftrightarrow> sl_ParseDuration S ''2s'' = Some (2 * Second) \<and> sl_ParseDuration S ''2m'' = Some (2 * Minute)"

definition no_env :: "(string \<Rightarrow> string) \<Rightarrow> bool" where
  "no_env getenv \<longleftrightarrow> (\<forall>n. getenv (envPrefix @ n) = [])"

definition class_snapshot :: "Inputs \<Rightarrow> SandboxClass \<Rightarrow> SnapshotConfig" where
  "class_snapshot i cls =
     (let b = sg_Backend (cs_Storage (cl_Spec cls)); t = en_Type (cs_Engine (cl_Spec cls));
          s3 = (\<lambda>f. if isS3Backend cls then f (the (bs_S3 b)) else []) in
      \<lparr>sc_Engine = (if t = [] then ''none'' else t), sc_ClusterID = in_ClusterID i, sc_SpecHash = in_SpecHash i,
       sc_AgentImage = as_Image (cs_Agent (cl_Spec cls)), sc_WorkspacePath = WorkspaceMountPath, sc_AgentHomePath = AgentHomePath,
       sc_Backend = bs_Type b, sc_S3Endpoint = s3 s3_Endpoint, sc_S3Bucket = s3 s3_Bucket, sc_S3Region = s3 s3_Region,
       sc_S3Prefix = s3 s3_Prefix,
       sc_S3ForcePathStyle = (if isS3Backend cls then case_option True id (s3_ForcePathStyle (the (bs_S3 b))) else True),
       sc_CredentialsDir = SnapshotCredentialsMountPath, sc_QuiesceDelay = 2 * Second, sc_SnapshotRetries = 4,
       sc_SnapshotStepTimeout = 2 * Minute\<rparr>)"

subsection \<open>Reading one flag\<close>

lemma sidecar_lookup:
  "map_of (sidecar_flags S) ''environment'' = Some (False, \<lambda>v c. Some (c\<lparr>cg_Environment := v\<rparr>))"
  "map_of (sidecar_flags S) ''namespace'' = Some (False, \<lambda>v c. Some (c\<lparr>cg_Namespace := v\<rparr>))"
  "map_of (sidecar_flags S) ''listen'' = Some (False, \<lambda>v c. Some (c\<lparr>cg_Listen := v\<rparr>))"
  "map_of (sidecar_flags S) ''engine'' = Some (False, \<lambda>v c. Some (in_snapshot (\<lambda>v. sc_Engine_update (\<lambda>_. v)) v c))"
  "map_of (sidecar_flags S) ''cluster-id'' = Some (False, \<lambda>v c. Some (in_snapshot (\<lambda>v. sc_ClusterID_update (\<lambda>_. v)) v c))"
  "map_of (sidecar_flags S) ''spec-hash'' = Some (False, \<lambda>v c. Some (in_snapshot (\<lambda>v. sc_SpecHash_update (\<lambda>_. v)) v c))"
  "map_of (sidecar_flags S) ''agent-image'' = Some (False, \<lambda>v c. Some (in_snapshot (\<lambda>v. sc_AgentImage_update (\<lambda>_. v)) v c))"
  "map_of (sidecar_flags S) ''workspace-path'' = Some (False, \<lambda>v c. Some (in_snapshot (\<lambda>v. sc_WorkspacePath_update (\<lambda>_. v)) v c))"
  "map_of (sidecar_flags S) ''agent-home-path'' = Some (False, \<lambda>v c. Some (in_snapshot (\<lambda>v. sc_AgentHomePath_update (\<lambda>_. v)) v c))"
  "map_of (sidecar_flags S) ''snapshot-backend'' = Some (False, \<lambda>v c. Some (in_snapshot (\<lambda>v. sc_Backend_update (\<lambda>_. v)) v c))"
  "map_of (sidecar_flags S) ''s3-endpoint'' = Some (False, \<lambda>v c. Some (in_snapshot (\<lambda>v. sc_S3Endpoint_update (\<lambda>_. v)) v c))"
  "map_of (sidecar_flags S) ''s3-bucket'' = Some (False, \<lambda>v c. Some (in_snapshot (\<lambda>v. sc_S3Bucket_update (\<lambda>_. v)) v c))"
  "map_of (sidecar_flags S) ''s3-region'' = Some (False, \<lambda>v c. Some (in_snapshot (\<lambda>v. sc_S3Region_update (\<lambda>_. v)) v c))"
  "map_of (sidecar_flags S) ''s3-prefix'' = Some (False, \<lambda>v c. Some (in_snapshot (\<lambda>v. sc_S3Prefix_update (\<lambda>_. v)) v c))"
  "map_of (sidecar_flags S) ''s3-force-path-style'' = Some (True, \<lambda>v c. map_option (\<lambda>x. in_snapshot (\<lambda>v. sc_S3ForcePathStyle_update (\<lambda>_. v)) x c) (ParseBool v))"
  "map_of (sidecar_flags S) ''snapshot-credentials-dir'' = Some (False, \<lambda>v c. Some (in_snapshot (\<lambda>v. sc_CredentialsDir_update (\<lambda>_. v)) v c))"
  "map_of (sidecar_flags S) ''quiesce-delay'' = Some (False, \<lambda>v c. map_option (\<lambda>x. in_snapshot (\<lambda>v. sc_QuiesceDelay_update (\<lambda>_. v)) x c) (sl_ParseDuration S v))"
  "map_of (sidecar_flags S) ''snapshot-retries'' = Some (False, \<lambda>v c. map_option (\<lambda>x. in_snapshot (\<lambda>v. sc_SnapshotRetries_update (\<lambda>_. v)) x c) (ParseInt0 v))"
  "map_of (sidecar_flags S) ''snapshot-step-timeout'' = Some (False, \<lambda>v c. map_option (\<lambda>x. in_snapshot (\<lambda>v. sc_SnapshotStepTimeout_update (\<lambda>_. v)) x c) (sl_ParseDuration S v))"
  "map_of (sidecar_flags S) ''restore-snapshot-id'' = Some (False, \<lambda>v c. Some (in_restore (\<lambda>v. rc_SnapshotID_update (\<lambda>_. v)) v c))"
  "map_of (sidecar_flags S) ''restore-seq'' = Some (False, \<lambda>v c. map_option (\<lambda>x. in_restore (\<lambda>v. rc_Seq_update (\<lambda>_. v)) x c) (ParseInt0 v))"
  "map_of (sidecar_flags S) ''restore-warm'' = Some (True, \<lambda>v c. map_option (\<lambda>x. in_restore (\<lambda>v. rc_Warm_update (\<lambda>_. v)) x c) (ParseBool v))"
  "map_of (sidecar_flags S) ''restore-retries'' = Some (False, \<lambda>v c. map_option (\<lambda>x. in_restore (\<lambda>v. rc_Retries_update (\<lambda>_. v)) x c) (ParseInt0 v))"
  "map_of (sidecar_flags S) ''restore-step-timeout'' = Some (False, \<lambda>v c. map_option (\<lambda>x. in_restore (\<lambda>v. rc_StepTimeout_update (\<lambda>_. v)) x c) (sl_ParseDuration S v))"
  by (simp_all add: sidecar_flags_def registerSnapshotFlags_def registerRestoreFlags_def flag_kinds)

text \<open>An empty value is left out, so the default stays.\<close>

definition unless_empty :: "string \<Rightarrow> string \<Rightarrow> (string \<times> string) list" where
  "unless_empty n v = (if v \<noteq> [] then [(n, v)] else [])"

lemma unless_empty_text: "(if v \<noteq> [] then [''--'' @ n @ ''='' @ v] else []) = map flag_text (unless_empty n v)"
  by (simp add: unless_empty_def flag_text_def)

lemma apply_unless_empty:
  assumes "map_of fl n = Some (b, \<lambda>v c. Some (upd v c))" and "upd old c = c"
  shows "apply_flags fl (unless_empty n v @ fs) c = apply_flags fl fs (upd (if v = [] then old else v) c)"
  using assms by (simp add: unless_empty_def)

lemma in_snapshot_same:
  "in_snapshot (\<lambda>v. sc_Engine_update (\<lambda>_. v)) (sc_Engine (cg_Snapshot c)) c = c"
  "in_snapshot (\<lambda>v. sc_ClusterID_update (\<lambda>_. v)) (sc_ClusterID (cg_Snapshot c)) c = c"
  "in_snapshot (\<lambda>v. sc_SpecHash_update (\<lambda>_. v)) (sc_SpecHash (cg_Snapshot c)) c = c"
  "in_snapshot (\<lambda>v. sc_AgentImage_update (\<lambda>_. v)) (sc_AgentImage (cg_Snapshot c)) c = c"
  "in_snapshot (\<lambda>v. sc_WorkspacePath_update (\<lambda>_. v)) (sc_WorkspacePath (cg_Snapshot c)) c = c"
  "in_snapshot (\<lambda>v. sc_AgentHomePath_update (\<lambda>_. v)) (sc_AgentHomePath (cg_Snapshot c)) c = c"
  "in_snapshot (\<lambda>v. sc_Backend_update (\<lambda>_. v)) (sc_Backend (cg_Snapshot c)) c = c"
  "in_snapshot (\<lambda>v. sc_S3Endpoint_update (\<lambda>_. v)) (sc_S3Endpoint (cg_Snapshot c)) c = c"
  "in_snapshot (\<lambda>v. sc_S3Bucket_update (\<lambda>_. v)) (sc_S3Bucket (cg_Snapshot c)) c = c"
  "in_snapshot (\<lambda>v. sc_S3Region_update (\<lambda>_. v)) (sc_S3Region (cg_Snapshot c)) c = c"
  "in_snapshot (\<lambda>v. sc_S3Prefix_update (\<lambda>_. v)) (sc_S3Prefix (cg_Snapshot c)) c = c"
  "in_snapshot (\<lambda>v. sc_CredentialsDir_update (\<lambda>_. v)) (sc_CredentialsDir (cg_Snapshot c)) c = c"
  by (simp_all add: in_snapshot_def)

lemmas read_unless_empty =
  apply_unless_empty [OF sidecar_lookup(4) in_snapshot_same(1)] apply_unless_empty [OF sidecar_lookup(5) in_snapshot_same(2)]
  apply_unless_empty [OF sidecar_lookup(6) in_snapshot_same(3)] apply_unless_empty [OF sidecar_lookup(7) in_snapshot_same(4)]
  apply_unless_empty [OF sidecar_lookup(8) in_snapshot_same(5)] apply_unless_empty [OF sidecar_lookup(9) in_snapshot_same(6)]
  apply_unless_empty [OF sidecar_lookup(10) in_snapshot_same(7)] apply_unless_empty [OF sidecar_lookup(11) in_snapshot_same(8)]
  apply_unless_empty [OF sidecar_lookup(12) in_snapshot_same(9)] apply_unless_empty [OF sidecar_lookup(13) in_snapshot_same(10)]
  apply_unless_empty [OF sidecar_lookup(14) in_snapshot_same(11)] apply_unless_empty [OF sidecar_lookup(16) in_snapshot_same(12)]

subsection \<open>The arguments of every container\<close>

definition snapshot_pairs :: "Inputs \<Rightarrow> SandboxClass \<Rightarrow> (string \<times> string) list" where
  "snapshot_pairs i cls =
     (let backend = sg_Backend (cs_Storage (cl_Spec cls)) in
      unless_empty ''engine'' (en_Type (cs_Engine (cl_Spec cls))) @ unless_empty ''cluster-id'' (in_ClusterID i) @
      unless_empty ''spec-hash'' (in_SpecHash i) @ unless_empty ''agent-image'' (as_Image (cs_Agent (cl_Spec cls))) @
      unless_empty ''workspace-path'' WorkspaceMountPath @ unless_empty ''agent-home-path'' AgentHomePath @
      unless_empty ''snapshot-backend'' (bs_Type backend) @
      (if isS3Backend cls then
         let s3 = the (bs_S3 backend) in
         unless_empty ''s3-endpoint'' (s3_Endpoint s3) @ unless_empty ''s3-bucket'' (s3_Bucket s3) @
         unless_empty ''s3-region'' (s3_Region s3) @ unless_empty ''s3-prefix'' (s3_Prefix s3) @
         [(''s3-force-path-style'', if case_option True id (s3_ForcePathStyle s3) then ''true'' else ''false'')] @
         unless_empty ''snapshot-credentials-dir'' SnapshotCredentialsMountPath
       else []) @
      [(''quiesce-delay'', ''2s''), (''snapshot-retries'', ''4''), (''snapshot-step-timeout'', ''2m'')])"

lemma sidecarSnapshotArgs_pairs: "sidecarSnapshotArgs i cls = map flag_text (snapshot_pairs i cls)"
  by (cases "bs_S3 (sg_Backend (cs_Storage (cl_Spec cls)))")
    (simp_all add: sidecarSnapshotArgs_def snapshot_pairs_def isS3Backend_def Let_def unless_empty_text flag_text_def
      defaultQuiesceDelayFlag_def defaultSnapshotRetriesFlag_def defaultSnapshotStepTimeoutFlag_def)

lemma ParseBool_text: "ParseBool (if b then ''true'' else ''false'') = Some b"
  by (simp add: ParseBool_def)

lemma ParseInt0_four: "ParseInt0 ''4'' = Some 4"
  by code_simp

lemma TrimSpace_Nil: "TrimSpace [] = []"
  by code_simp

lemma no_env_defaults:
  "no_env getenv \<Longrightarrow> default_snapshot S getenv =
     \<lparr>sc_Engine = ''none'', sc_ClusterID = [], sc_SpecHash = [], sc_AgentImage = [], sc_WorkspacePath = WorkspaceMountPath,
      sc_AgentHomePath = AgentHomePath, sc_Backend = [], sc_S3Endpoint = [], sc_S3Bucket = [], sc_S3Region = [], sc_S3Prefix = [],
      sc_S3ForcePathStyle = True, sc_CredentialsDir = SnapshotCredentialsMountPath, sc_QuiesceDelay = 2 * Second,
      sc_SnapshotRetries = 4, sc_SnapshotStepTimeout = 2 * Minute\<rparr>"
  by (simp add: no_env_def default_snapshot_def envOr_def env_or_def envOrDuration_def envOrBool_def envOrInt_def TrimSpace_Nil
      defaultSnapshotWorkspacePath_def defaultSnapshotAgentHomePath_def defaultSnapshotCredentialsDir_def defaultQuiesceDelay_def
      defaultSnapshotRetries_def defaultSnapshotStepTimeout_def WorkspaceMountPath_def AgentHomePath_def SnapshotCredentialsMountPath_def)

lemma or_empty: "(if v = [] then [] else v) = v" by simp

lemma apply_snapshot_pairs:
  assumes "sidecar_reads S" and "no_env getenv" and c: "cg_Snapshot c = default_snapshot S getenv"
  shows "apply_flags (sidecar_flags S) (snapshot_pairs i cls @ fs) c =
     apply_flags (sidecar_flags S) fs (c\<lparr>cg_Snapshot := class_snapshot i cls\<rparr>)"
proof (cases "isS3Backend cls")
  case True
  with assms show ?thesis
    by (simp add: snapshot_pairs_def Let_def read_unless_empty no_env_defaults sidecar_lookup ParseBool_text ParseInt0_four
        in_snapshot_def sidecar_reads_def class_snapshot_def or_empty cong: if_cong)
next
  case False
  with assms show ?thesis
    by (simp add: snapshot_pairs_def Let_def read_unless_empty no_env_defaults sidecar_lookup ParseInt0_four
        in_snapshot_def sidecar_reads_def class_snapshot_def or_empty)
qed

lemma snapshot_names: "list_all (flag_name \<circ> fst) (snapshot_pairs i cls)"
  by (simp add: snapshot_pairs_def unless_empty_def flag_name_def Let_def)

text \<open>The flags a container passes behind its command, read by the sidecar.\<close>

lemma Load_pairs:
  assumes "sidecar_reads S" and "no_env getenv" and "list_all (flag_name \<circ> fst) fs"
    and "apply_flags (sidecar_flags S) fs ((default_settings S getenv)\<lparr>cg_Snapshot := class_snapshot i cls,
      cg_Environment := Name env, cg_Namespace := Namespace env\<rparr>) = Some cfg"
  shows "sidecar_Load S (tl (env_args cmd env @ sidecarSnapshotArgs i cls @ map flag_text fs)) getenv = Inr cfg"
proof -
  let ?fs = "[(''environment'', Name env), (''namespace'', Namespace env)] @ snapshot_pairs i cls @ fs"
  have set: "apply_flags (sidecar_flags S) ?fs (default_settings S getenv) = Some cfg"
    using assms(4) by (simp add: sidecar_lookup apply_snapshot_pairs [OF assms(1,2)] default_settings_def)
  have names: "list_all (flag_name \<circ> fst) ?fs"
    using assms(3) snapshot_names [of i cls] by (simp add: flag_name_def)
  have args: "tl (env_args cmd env @ sidecarSnapshotArgs i cls @ map flag_text fs) = map flag_text ?fs"
    by (simp add: env_args_def sidecarSnapshotArgs_pairs flag_text_def)
  show ?thesis unfolding sidecar_Load_def args by (rule parse_flags_texts [OF names set])
qed

definition planned_restore :: "RestorePlan \<Rightarrow> RestoreConfig" where
  "planned_restore plan =
     \<lparr>rc_SnapshotID = pl_SnapshotID plan, rc_Seq = pl_Seq plan, rc_Warm = True, rc_Retries = 4, rc_StepTimeout = 2 * Minute,
      rc_MaxEntries = 0, rc_MaxTotalBytes = 0\<rparr>"

lemma Load_restoreArgs:
  assumes "sidecar_reads S" and "no_env getenv" and "- (2 ^ 31) \<le> pl_Seq plan" and "pl_Seq plan < 2 ^ 31"
  shows "sidecar_Load S (tl (restoreArgs i env cls plan)) getenv =
    Inr ((default_settings S getenv)\<lparr>cg_Snapshot := class_snapshot i cls, cg_Restore := planned_restore plan,
      cg_Environment := Name env, cg_Namespace := Namespace env\<rparr>)"
proof -
  let ?fs = "[(''restore-snapshot-id'', pl_SnapshotID plan), (''restore-seq'', decimal_int (pl_Seq plan)), (''restore-warm'', ''true''),
    (''restore-retries'', ''4''), (''restore-step-timeout'', ''2m'')]"
  have args: "restoreArgs i env cls plan = env_args ''restore'' env @ sidecarSnapshotArgs i cls @ map flag_text ?fs"
    by (simp add: restoreArgs_def flag_text_def)
  have "ParseInt0 (decimal_int (pl_Seq plan)) = Some (pl_Seq plan)" using assms(3,4) by (intro ParseInt0_decimal) simp_all
  with assms(1,2) show ?thesis
    unfolding args
    by (intro Load_pairs)
      (simp_all add: flag_name_def sidecar_lookup in_restore_def ParseInt0_four ParseBool_def sidecar_reads_def default_settings_def
        default_restore_def planned_restore_def no_env_def env_or_def envOrInt64_def)
qed

subsection \<open>A planned restore comes first\<close>

text \<open>
  The kubelet's rule for containers that initialise a pod: they start in order, each only when
  the one before has done its part, and the containers of the pod only after all of them.
  \<open>ok\<close> is whether a container does: one that restarts always, by passing its start-up probe; any
  other, by exiting with status zero.
\<close>

fun started :: "(Container \<Rightarrow> bool) \<Rightarrow> Container list \<Rightarrow> Container list" where
  "started ok [] = []"
| "started ok (c # cs) = c # (if ok c then started ok cs else [])"

definition pod_starts :: "(Container \<Rightarrow> bool) \<Rightarrow> PodSpec \<Rightarrow> bool" where
  "pod_starts ok sp \<longleftrightarrow> started ok (ps_InitContainers sp) = ps_InitContainers sp \<and>
     (ps_InitContainers sp \<noteq> [] \<longrightarrow> ok (last (ps_InitContainers sp)))"

lemma started_all: "started ok cs = cs \<Longrightarrow> (cs \<noteq> [] \<longrightarrow> ok (last cs)) \<Longrightarrow> c \<in> set cs \<Longrightarrow> ok c"
  by (induction cs) (auto split: if_splits)

text \<open>
  C12: When the operator renders the pod of an environment with a snapshot to restore, the agent's
  container starts only after the control channel is up and a plain container, which the kubelet
  does not restart, has succeeded; the sidecar's own parser reads from its arguments exactly the
  planned snapshot and sequence number, the class's storage settings and the mounted paths.
\<close>

theorem agent_starts_restored:
  assumes "RenderPod reg L i = Inr pod" and "in_Env i = Some env" and "in_Class i = Some cls" and "isS3Backend cls"
    and "in_Restore i = Some plan" and "- (2 ^ 31) \<le> pl_Seq plan" and "pl_Seq plan < 2 ^ 31"
    and "pod_starts ok (po_Spec pod)" and "sidecar_reads S" and "no_env getenv"
  shows "\<exists>sidecar rest c. ps_InitContainers (po_Spec pod) = sidecar # rest @ [c] \<and>
    cn_Name sidecar = Some SidecarContainerName \<and> ok sidecar \<and>
    cn_Name c = Some RestoreContainerName \<and> cn_RestartPolicy c = None \<and> ok c \<and> hd (cn_Args c) = ''restore'' \<and>
    sidecar_Load S (tl (cn_Args c)) getenv =
      Inr ((default_settings S getenv)\<lparr>cg_Snapshot := class_snapshot i cls, cg_Restore := planned_restore plan,
        cg_Environment := Name env, cg_Namespace := Namespace env\<rparr>)"
proof -
  from assms(1) obtain env' cls' e c containers where R: "in_Env i = Some env'" "in_Class i = Some cls'"
    "engineFor reg (en_Type (cs_Engine (cl_Spec cls'))) = Inr e" "ee_Contribute e i = Inr c"
    "validateNoReservedContainerNames c = None"
    "applyRelaxations (agentContainer cls' (names_of L env') # ct_Containers c) (ct_Relaxations c) = Inr containers"
    "po_Spec pod = \<lparr>ps_RestartPolicy = ''Never'', ps_ServiceAccountName = n_ServiceAccount (names_of L env'),
       ps_AutomountServiceAccountToken = False, ps_TerminationGracePeriodSeconds = Some DefaultTerminationGracePeriodSeconds,
       ps_SecurityContext = podSecurityContext, ps_Volumes = podVolumes cls' (names_of L env') @ ct_Volumes c,
       ps_InitContainers = sidecarContainer i env' cls' # ct_InitContainers c @
         (case in_Restore i of Some plan \<Rightarrow> if isS3Backend cls' then [restoreContainer i env' cls' plan] else [] | None \<Rightarrow> []),
       ps_Containers = containers\<rparr>"
    by (rule RenderPod_Inr)
  let ?c = "restoreContainer i env cls plan"
  have inits: "ps_InitContainers (po_Spec pod) = sidecarContainer i env cls # ct_InitContainers c @ [?c]"
    using R(1,2,7) assms(2-5) by simp
  moreover have "ok x" if "x \<in> set (ps_InitContainers (po_Spec pod))" for x
    using assms(8) that started_all by (auto simp: pod_starts_def)
  ultimately have "ok (sidecarContainer i env cls)" "ok ?c" by simp_all
  moreover have "cn_Args ?c = restoreArgs i env cls plan" "cn_Name ?c = Some RestoreContainerName" "cn_RestartPolicy ?c = None"
    "cn_Name (sidecarContainer i env cls) = Some SidecarContainerName" "hd (restoreArgs i env cls plan) = ''restore''"
    by (simp_all add: restoreContainer_def sidecarContainer_def empty_Container_def restoreArgs_def env_args_def)
  ultimately show ?thesis using inits Load_restoreArgs [OF assms(9,10,6,7)] by auto
qed

definition ref_sidecar :: sidecar_lib where
  "ref_sidecar = \<lparr>sl_ParseDuration = (\<lambda>s. if s = ''2s'' then Some (2 * Second) else if s = ''2m'' then Some (2 * Minute) else None),
     sl_Scheme = (\<lambda>s. if HasPrefix s ''http://'' then Some ''http'' else None),
     sl_Loopback = (\<lambda>s. if s = ''127.0.0.1'' then Some True else None), sl_SscanfInt = (\<lambda>_. None)\<rparr>"

lemma ref_sidecar_reads: "sidecar_reads ref_sidecar"
  by (simp add: sidecar_reads_def ref_sidecar_def)

theorem agent_starts_restored_witness:
  "case RenderPod engineRegistry ref_render render_inputs of Inl _ \<Rightarrow> False | Inr pod \<Rightarrow>
     (case sidecar_Load ref_sidecar (tl (cn_Args (last (ps_InitContainers (po_Spec pod))))) (\<lambda>_. []) of
        Inl _ \<Rightarrow> False
      | Inr cfg \<Rightarrow> rc_SnapshotID (cg_Restore cfg) = ''00007-x'' \<and> rc_Seq (cg_Restore cfg) = 7)"
proof -
  obtain pod where pod: "RenderPod engineRegistry ref_render render_inputs = Inr pod" by (rule sample_pod)
  have starts: "pod_starts (\<lambda>_. True) (po_Spec pod)"
  proof -
    have "started (\<lambda>_. True) cs = cs" for cs by (induction cs) simp_all
    then show ?thesis by (simp add: pod_starts_def)
  qed
  have inputs: "in_Env render_inputs = Some render_env" "in_Class render_inputs = Some render_class" "isS3Backend render_class"
    "in_Restore render_inputs = Some \<lparr>pl_SnapshotID = ''00007-x'', pl_Seq = 7\<rparr>"
    by (simp_all add: render_inputs_def render_class_def isS3Backend_def)
  have quiet: "no_env (\<lambda>_. [])" by (simp add: no_env_def)
  from agent_starts_restored [OF pod inputs _ _ starts ref_sidecar_reads quiet] show ?thesis
    by (auto simp: pod planned_restore_def)
qed

subsection \<open>The sidecar accepts its configuration\<close>

lemma serve_args:
  "tl (cn_Args (sidecarContainer i env cls)) =
     map flag_text ([(''environment'', Name env), (''namespace'', Namespace env), (''listen'', ''127.0.0.1:9099'')] @ snapshot_pairs i cls @ [])"
proof -
  have "digit_char d = c \<longleftrightarrow> of_char c = (48 + d :: nat)" if "d < 10" for d c
    using of_char_digit [OF that] by (metis char_of_char)
  then have port: "decimal_int SidecarPort = ''9099''"
    by (simp add: decimal_int_def SidecarPort_def decimal.simps [of 9099] decimal.simps [of 909] decimal.simps [of 90] decimal.simps [of 9])
  have "cn_Args (sidecarContainer i env cls) = env_args ''serve'' env @ [''--listen=127.0.0.1:'' @ decimal_int SidecarPort] @ sidecarSnapshotArgs i cls"
    unfolding sidecarContainer_def by simp
  then show ?thesis unfolding port by (simp add: env_args_def sidecarSnapshotArgs_pairs flag_text_def)
qed

lemma Load_serve:
  assumes "sidecar_reads S" and "no_env getenv"
  shows "sidecar_Load S (tl (cn_Args (sidecarContainer i env cls))) getenv =
    Inr ((default_settings S getenv)\<lparr>cg_Snapshot := class_snapshot i cls, cg_Environment := Name env, cg_Namespace := Namespace env,
      cg_Listen := ''127.0.0.1:9099''\<rparr>)"
  unfolding sidecar_Load_def serve_args
proof (rule parse_flags_texts)
  show "list_all (flag_name \<circ> fst) ([(''environment'', Name env), (''namespace'', Namespace env), (''listen'', ''127.0.0.1:9099'')] @ snapshot_pairs i cls @ [])"
    using snapshot_names [of i cls] by (simp add: flag_name_def)
  let ?c = "(default_settings S getenv)\<lparr>cg_Environment := Name env, cg_Namespace := Namespace env, cg_Listen := ''127.0.0.1:9099''\<rparr>"
  have "cg_Snapshot ?c = default_snapshot S getenv" by (simp add: default_settings_def)
  from apply_snapshot_pairs [OF assms this, of i cls "[]"]
  show "apply_flags (sidecar_flags S) ([(''environment'', Name env), (''namespace'', Namespace env), (''listen'', ''127.0.0.1:9099'')] @ snapshot_pairs i cls @ [])
      (default_settings S getenv) = Some ((default_settings S getenv)\<lparr>cg_Snapshot := class_snapshot i cls, cg_Environment := Name env,
        cg_Namespace := Namespace env, cg_Listen := ''127.0.0.1:9099''\<rparr>)"
    by (simp add: sidecar_lookup)
qed

text \<open>
  C15: In a rendered pod of a class with a complete S3 backend, the first container to start is the
  sidecar; the configuration it reads from its arguments passes its own validation, so it starts;
  it listens on the loopback address only, and its shutdown ends before the kubelet kills the pod.
\<close>

theorem rendered_sidecar_accepted:
  assumes "RenderPod reg L i = Inr pod" and "in_Env i = Some env" and "in_Class i = Some cls"
    and "bs_Type (sg_Backend (cs_Storage (cl_Spec cls))) = StorageBackendTypeS3" and "bs_S3 (sg_Backend (cs_Storage (cl_Spec cls))) = Some s3"
    and "sl_Scheme S (s3_Endpoint s3) = Some ''http'' \<or> sl_Scheme S (s3_Endpoint s3) = Some ''https''" and "s3_Endpoint s3 \<noteq> []"
    and "s3_Bucket s3 \<noteq> []" and "in_SpecHash i \<noteq> []" and "as_Image (cs_Agent (cl_Spec cls)) \<noteq> []"
    and "Name env \<noteq> []" and "Namespace env \<noteq> []"
    and "sidecar_reads S" and "sl_Loopback S ''127.0.0.1'' = Some True" and "no_env getenv"
  shows "\<exists>c rest cfg grace. ps_InitContainers (po_Spec pod) = c # rest \<and> cn_RestartPolicy c = Some ''Always'' \<and> hd (cn_Args c) = ''serve'' \<and>
    sidecar_Load S (tl (cn_Args c)) getenv = Inr cfg \<and> sidecar_Validate S cfg = None \<and> cg_Listen cfg = ''127.0.0.1:9099'' \<and>
    ps_TerminationGracePeriodSeconds (po_Spec pod) = Some grace \<and> cg_ShutdownTimeout cfg < grace * Second"
proof -
  from assms(1) obtain env' cls' e c containers where R: "in_Env i = Some env'" "in_Class i = Some cls'"
    "engineFor reg (en_Type (cs_Engine (cl_Spec cls'))) = Inr e" "ee_Contribute e i = Inr c"
    "validateNoReservedContainerNames c = None"
    "applyRelaxations (agentContainer cls' (names_of L env') # ct_Containers c) (ct_Relaxations c) = Inr containers"
    "po_Spec pod = \<lparr>ps_RestartPolicy = ''Never'', ps_ServiceAccountName = n_ServiceAccount (names_of L env'),
       ps_AutomountServiceAccountToken = False, ps_TerminationGracePeriodSeconds = Some DefaultTerminationGracePeriodSeconds,
       ps_SecurityContext = podSecurityContext, ps_Volumes = podVolumes cls' (names_of L env') @ ct_Volumes c,
       ps_InitContainers = sidecarContainer i env' cls' # ct_InitContainers c @
         (case in_Restore i of Some plan \<Rightarrow> if isS3Backend cls' then [restoreContainer i env' cls' plan] else [] | None \<Rightarrow> []),
       ps_Containers = containers\<rparr>"
    by (rule RenderPod_Inr)
  let ?cfg = "(default_settings S getenv)\<lparr>cg_Snapshot := class_snapshot i cls, cg_Environment := Name env, cg_Namespace := Namespace env,
      cg_Listen := ''127.0.0.1:9099''\<rparr>"
  have listen: "validateLoopbackListen S ''127.0.0.1:9099'' = None"
  proof -
    have "SplitHostPort ''127.0.0.1:9099'' = Some (''127.0.0.1'', ''9099'')" by code_simp
    with assms(14) show ?thesis by (simp add: validateLoopbackListen_def)
  qed
  have times: "cg_PollInterval ?cfg = 5 * Second" "cg_ShutdownTimeout ?cfg = 100 * Second"
    using assms(15) by (simp_all add: default_settings_def no_env_def envOrDuration_def env_or_def TrimSpace_Nil)
  have "SnapshotConfig_Validate (sl_Scheme S) (class_snapshot i cls) = None"
  proof -
    have "isS3Backend cls" using assms(4,5) by (simp add: isS3Backend_def Let_def)
    moreover have "SnapshotCredentialsMountPath \<noteq> []" "WorkspaceMountPath \<noteq> []"
      by (simp_all add: SnapshotCredentialsMountPath_def WorkspaceMountPath_def)
    moreover have "StorageBackendTypeS3 = ''s3''" by (rule StorageBackendTypeS3_def)
    ultimately show ?thesis
      using assms(4-10) by (elim disjE) (simp_all add: SnapshotConfig_Validate_def class_snapshot_def Let_def)
  qed
  with listen times assms(11,12) have "sidecar_Validate S ?cfg = None" by (simp add: sidecar_Validate_def)
  moreover have "ps_InitContainers (po_Spec pod) = sidecarContainer i env cls # tl (ps_InitContainers (po_Spec pod))"
    "ps_TerminationGracePeriodSeconds (po_Spec pod) = Some DefaultTerminationGracePeriodSeconds"
    using R(1,2,7) assms(2,3) by simp_all
  moreover have "cn_RestartPolicy (sidecarContainer i env cls) = Some ''Always''" "hd (cn_Args (sidecarContainer i env cls)) = ''serve''"
    by (simp_all add: sidecarContainer_def env_args_def)
  ultimately show ?thesis
    using Load_serve [OF assms(13,15), of i env cls] times(2)
    by (intro exI [of _ "sidecarContainer i env cls"] exI [of _ "tl (ps_InitContainers (po_Spec pod))"] exI [of _ ?cfg]
        exI [of _ DefaultTerminationGracePeriodSeconds]) (simp add: DefaultTerminationGracePeriodSeconds_def)
qed

theorem rendered_sidecar_accepted_witness:
  "case RenderPod engineRegistry ref_render render_inputs of Inl _ \<Rightarrow> False | Inr pod \<Rightarrow>
     (case sidecar_Load ref_sidecar (tl (cn_Args (hd (ps_InitContainers (po_Spec pod))))) (\<lambda>_. []) of
        Inl _ \<Rightarrow> False | Inr cfg \<Rightarrow> sidecar_Validate ref_sidecar cfg = None)"
proof -
  obtain pod where pod: "RenderPod engineRegistry ref_render render_inputs = Inr pod" by (rule sample_pod)
  have inputs: "in_Env render_inputs = Some render_env" "in_Class render_inputs = Some render_class"
    by (simp_all add: render_inputs_def)
  have quiet: "no_env (\<lambda>_. [])" by (simp add: no_env_def)
  have lo: "sl_Loopback ref_sidecar ''127.0.0.1'' = Some True" by (simp add: ref_sidecar_def)
  have cls: "bs_Type (sg_Backend (cs_Storage (cl_Spec render_class))) = StorageBackendTypeS3"
    "bs_S3 (sg_Backend (cs_Storage (cl_Spec render_class))) = Some \<lparr>s3_Endpoint = ''http://s'', s3_Bucket = ''b'', s3_Region = [], s3_Prefix = [],
       s3_CredentialsSecretRef = \<lparr>sk_Name = ''s'', sk_Key = []\<rparr>, s3_ForcePathStyle = None\<rparr>"
    by (simp_all add: render_class_def)
  have "sl_Scheme ref_sidecar ''http://s'' = Some ''http''" "in_SpecHash render_inputs \<noteq> []" "as_Image (cs_Agent (cl_Spec render_class)) \<noteq> []"
    "Name render_env \<noteq> []" "Namespace render_env \<noteq> []"
    by (simp_all add: ref_sidecar_def render_inputs_def render_class_def render_env_def)
  with rendered_sidecar_accepted [OF pod inputs cls _ _ _ _ _ _ _ ref_sidecar_reads lo quiet] show ?thesis by (auto simp: pod)
qed

text \<open>
  The recovery job overrides the agent's home with an empty path by a later flag of the same
  name; it keeps everything else.
\<close>

lemma recovery_job_reads:
  assumes "RenderSnapshotJob L i = Inr job" and "in_Env i = Some env" and "in_Class i = Some cls"
    and "sidecar_reads S" and "no_env getenv"
  shows "\<exists>c. ps_Containers (jo_PodSpec job) = [c] \<and> hd (cn_Args c) = ''freeze-once'' \<and>
    sidecar_Load S (tl (cn_Args c)) getenv =
      Inr ((default_settings S getenv)\<lparr>cg_Snapshot := (class_snapshot i cls)\<lparr>sc_AgentHomePath := []\<rparr>,
        cg_Environment := Name env, cg_Namespace := Namespace env\<rparr>)"
proof -
  have args: "env_args ''freeze-once'' env @ sidecarSnapshotArgs i cls @ [''--agent-home-path=''] =
      env_args ''freeze-once'' env @ sidecarSnapshotArgs i cls @ map flag_text [(''agent-home-path'', [])]"
    by (simp add: flag_text_def)
  have "sidecar_Load S (tl (env_args ''freeze-once'' env @ sidecarSnapshotArgs i cls @ [''--agent-home-path=''])) getenv =
      Inr ((default_settings S getenv)\<lparr>cg_Snapshot := (class_snapshot i cls)\<lparr>sc_AgentHomePath := []\<rparr>,
        cg_Environment := Name env, cg_Namespace := Namespace env\<rparr>)"
    unfolding args by (rule Load_pairs [OF assms(4,5)]) (simp_all add: flag_name_def sidecar_lookup in_snapshot_def)
  with assms(1-3) show ?thesis
    by (auto simp: RenderSnapshotJob_def job_pod_def job_container_def env_args_def Let_def validateInputs_def split: if_splits option.splits)
qed

end
