(* ===== verification/Render_Network.thy ===== *)
theory Render_Network
  imports Render_Objects Docker_Config
begin

section \<open>The network policy of an environment\<close>

text \<open>
  \<^verbatim>\<open>src/operator/internal/render/networkpolicy.go\<close>. The policy is the data the API server gets; what it allows is
  the documented meaning of a Kubernetes policy, written down in the second part.
\<close>

record policy_peer =
  pp_IPBlock :: "string option"
  pp_NamespaceSelector :: "LabelSelector option"
  pp_PodSelector :: "LabelSelector option"

datatype port_value = PortNumber int | PortName string

record policy_port =
  qp_Protocol :: string
  qp_Port :: port_value

record egress_rule =
  eu_To :: "policy_peer list"
  eu_Ports :: "policy_port list"

record ingress_rule =
  iu_From :: "policy_peer list"

record NetworkPolicy =
  nt_Meta :: meta
  nt_PodSelector :: LabelSelector
  nt_PolicyTypes :: "string list"
  nt_Ingress :: "ingress_rule list"
  nt_Egress :: "egress_rule list"

definition match_label :: "string \<Rightarrow> string \<Rightarrow> LabelSelector" where
  "match_label k v = \<lparr>lb_MatchLabels = [(k, v)], lb_MatchExpressions = []\<rparr>"

definition environment_selector :: "render_lib \<Rightarrow> string \<Rightarrow> LabelSelector" where
  "environment_selector L envName = match_label ''sandbox.psenna.dev/environment'' (EnvironmentLabelValue (rl_Sha256Hex L) envName)"

definition namespace_selector :: "string \<Rightarrow> LabelSelector" where
  "namespace_selector ns = match_label ''kubernetes.io/metadata.name'' ns"

definition dnsEgressRule :: egress_rule where
  "dnsEgressRule =
     \<lparr>eu_To = [\<lparr>pp_IPBlock = None, pp_NamespaceSelector = Some (namespace_selector ''kube-system''),
                pp_PodSelector = Some (match_label ''k8s-app'' ''kube-dns'')\<rparr>],
      eu_Ports = [\<lparr>qp_Protocol = ''UDP'', qp_Port = PortNumber 53\<rparr>, \<lparr>qp_Protocol = ''TCP'', qp_Port = PortNumber 53\<rparr>]\<rparr>"

definition envPodEgressRule :: "render_lib \<Rightarrow> string \<Rightarrow> egress_rule" where
  "envPodEgressRule L envName =
     \<lparr>eu_To = [\<lparr>pp_IPBlock = None, pp_NamespaceSelector = None, pp_PodSelector = Some (environment_selector L envName)\<rparr>], eu_Ports = []\<rparr>"

definition envPodIngressRule :: "render_lib \<Rightarrow> string \<Rightarrow> ingress_rule" where
  "envPodIngressRule L envName =
     \<lparr>iu_From = [\<lparr>pp_IPBlock = None, pp_NamespaceSelector = None, pp_PodSelector = Some (environment_selector L envName)\<rparr>]\<rparr>"

definition convertLabelSelector :: "LabelSelector option \<Rightarrow> LabelSelector option" where
  "convertLabelSelector sel =
     map_option (\<lambda>s. \<lparr>lb_MatchLabels = lb_MatchLabels s,
       lb_MatchExpressions = map (\<lambda>e. \<lparr>lr_Key = lr_Key e, lr_Operator = lr_Operator e, lr_Values = lr_Values e\<rparr>) (lb_MatchExpressions s)\<rparr>) sel"

text \<open>\<^verbatim>\<open>intstr.FromInt\<close> keeps 32 bits of its argument.\<close>

definition portValue :: "string \<Rightarrow> port_value" where
  "portValue s = (case Atoi s of Some n \<Rightarrow> PortNumber (int32 n) | None \<Rightarrow> PortName s)"

definition convertPorts :: "NetworkPolicyPort list \<Rightarrow> policy_port list" where
  "convertPorts ports =
     map (\<lambda>p. \<lparr>qp_Protocol = (if np_Protocol p \<noteq> [] then np_Protocol p else ''TCP''), qp_Port = portValue (np_Port p)\<rparr>) ports"

text \<open>Called only on a peer that \<open>validateResolvedPeer\<close> let through, so one without a block has a selector.\<close>

definition selector_peer :: "PeerSelector \<Rightarrow> policy_peer" where
  "selector_peer s = \<lparr>pp_IPBlock = None, pp_NamespaceSelector = Some (namespace_selector (pe_Namespace s)),
     pp_PodSelector = convertLabelSelector (pe_PodSelector s)\<rparr>"

definition peerTo :: "ResolvedPeer \<Rightarrow> policy_peer" where
  "peerTo p =
     (if rp_CIDR p \<noteq> [] then \<lparr>pp_IPBlock = Some (rp_CIDR p), pp_NamespaceSelector = None, pp_PodSelector = None\<rparr>
      else selector_peer (the (rp_Selector p)))"

definition peerEgressRule :: "ResolvedPeer \<Rightarrow> egress_rule" where
  "peerEgressRule p = \<lparr>eu_To = [peerTo p], eu_Ports = convertPorts (rp_Ports p)\<rparr>"

definition operatorIngressRule :: "PeerSelector \<Rightarrow> ingress_rule" where
  "operatorIngressRule op = \<lparr>iu_From = [selector_peer op]\<rparr>"

definition peerSortKey :: "ResolvedPeer \<Rightarrow> string" where
  "peerSortKey p =
     (if rp_CIDR p \<noteq> [] then ''cidr:'' @ rp_CIDR p
      else case rp_Selector p of Some s \<Rightarrow> ''selector:'' @ pe_Namespace s | None \<Rightarrow> ''selector:'')"

definition sortedPeers :: "ResolvedPeer list \<Rightarrow> ResolvedPeer list" where
  "sortedPeers peers = SliceStable (\<lambda>a b. peerSortKey a < peerSortKey b) peers"

definition validateResolvedPeer :: "ResolvedPeer \<Rightarrow> render_error option" where
  "validateResolvedPeer p =
     (let hasCIDR = (rp_CIDR p \<noteq> []); hasSelector = (rp_Selector p \<noteq> None)
      in if hasCIDR = hasSelector then Some (PeerNotExactlyOne (rp_CIDR p) hasSelector) else None)"

fun peer_rules :: "ResolvedPeer list \<Rightarrow> render_error + egress_rule list" where
  "peer_rules [] = Inr []"
| "peer_rules (p # ps) =
     (case validateResolvedPeer p of
        Some e \<Rightarrow> Inl e
      | None \<Rightarrow> map_sum id (\<lambda>rs. peerEgressRule p # rs) (peer_rules ps))"

definition RenderNetworkPolicy :: "render_lib \<Rightarrow> Inputs \<Rightarrow> render_error + NetworkPolicy option" where
  "RenderNetworkPolicy L i =
     (case validateInputs i of Inl e \<Rightarrow> Inl e | Inr (env, cls) \<Rightarrow>
      if nw_Isolation (cs_Network (cl_Spec cls)) \<noteq> NetworkIsolationRestricted then Inr None
      else case peer_rules (sortedPeers (ni_Egress (in_Network i))) of Inl e \<Rightarrow> Inl e | Inr rules \<Rightarrow>
        Inr (Some \<lparr>nt_Meta = object_meta L env (n_NetworkPolicy (names_of L env)),
          nt_PodSelector = environment_selector L (Name env), nt_PolicyTypes = [''Ingress'', ''Egress''],
          nt_Ingress = envPodIngressRule L (Name env) #
            (case ni_OperatorIngress (in_Network i) of None \<Rightarrow> [] | Some op \<Rightarrow> [operatorIngressRule op]),
          nt_Egress = dnsEgressRule # envPodEgressRule L (Name env) # rules\<rparr>))"

subsection \<open>What a policy allows\<close>

text \<open>
  The meaning of a Kubernetes policy: rules add up, a rule without ports means every port, a peer without a
  namespace selector means the policy's namespace, and every namespace carries its name as a
  label. A flow has an address, the pod at that address if there is one, a protocol, a port, and
  the names the pod gives that port. Whether a block contains an address is a parameter.
\<close>

record net_pod =
  nd_Namespace :: string
  nd_NamespaceLabels :: "(string \<times> string) list"
  nd_Labels :: "(string \<times> string) list"

record flow =
  fl_IP :: string
  fl_Pod :: "net_pod option"
  fl_Protocol :: string
  fl_Port :: int
  fl_PortNames :: "string list"

definition requirement_holds :: "LabelSelectorRequirement \<Rightarrow> (string \<times> string) list \<Rightarrow> bool" where
  "requirement_holds r labels =
     (case map_of labels (lr_Key r) of
        None \<Rightarrow> lr_Operator r = ''NotIn'' \<or> lr_Operator r = ''DoesNotExist''
      | Some v \<Rightarrow> lr_Operator r = ''Exists'' \<or> lr_Operator r = ''In'' \<and> v \<in> set (lr_Values r) \<or> lr_Operator r = ''NotIn'' \<and> v \<notin> set (lr_Values r))"

definition selects :: "LabelSelector \<Rightarrow> (string \<times> string) list \<Rightarrow> bool" where
  "selects sel labels \<longleftrightarrow>
     list_all (\<lambda>(k, v). map_of labels k = Some v) (lb_MatchLabels sel) \<and> list_all (\<lambda>r. requirement_holds r labels) (lb_MatchExpressions sel)"

definition namespace_labels :: "net_pod \<Rightarrow> (string \<times> string) list" where
  "namespace_labels p = (''kubernetes.io/metadata.name'', nd_Namespace p) # nd_NamespaceLabels p"

definition peer_matches :: "(string \<Rightarrow> string \<Rightarrow> bool) \<Rightarrow> string \<Rightarrow> policy_peer \<Rightarrow> flow \<Rightarrow> bool" where
  "peer_matches contains ns peer f =
     (case pp_IPBlock peer of
        Some cidr \<Rightarrow> contains cidr (fl_IP f)
      | None \<Rightarrow>
          (case fl_Pod f of
             None \<Rightarrow> False
           | Some p \<Rightarrow>
               (case pp_NamespaceSelector peer of None \<Rightarrow> nd_Namespace p = ns | Some s \<Rightarrow> selects s (namespace_labels p)) \<and>
               (case pp_PodSelector peer of None \<Rightarrow> True | Some s \<Rightarrow> selects s (nd_Labels p))))"

definition port_matches :: "policy_port \<Rightarrow> flow \<Rightarrow> bool" where
  "port_matches q f \<longleftrightarrow> qp_Protocol q = fl_Protocol f \<and>
     (case qp_Port q of PortNumber n \<Rightarrow> fl_Port f = n | PortName s \<Rightarrow> s \<in> set (fl_PortNames f))"

definition egress_rule_allows :: "(string \<Rightarrow> string \<Rightarrow> bool) \<Rightarrow> string \<Rightarrow> egress_rule \<Rightarrow> flow \<Rightarrow> bool" where
  "egress_rule_allows contains ns r f \<longleftrightarrow>
     (eu_To r = [] \<or> list_ex (\<lambda>p. peer_matches contains ns p f) (eu_To r)) \<and>
     (eu_Ports r = [] \<or> list_ex (\<lambda>q. port_matches q f) (eu_Ports r))"

definition egress_allowed :: "(string \<Rightarrow> string \<Rightarrow> bool) \<Rightarrow> NetworkPolicy \<Rightarrow> flow \<Rightarrow> bool" where
  "egress_allowed contains np f \<longleftrightarrow>
     ''Egress'' \<notin> set (nt_PolicyTypes np) \<or> list_ex (\<lambda>r. egress_rule_allows contains (ma_Namespace (nt_Meta np)) r f) (nt_Egress np)"

definition ingress_allowed :: "(string \<Rightarrow> string \<Rightarrow> bool) \<Rightarrow> NetworkPolicy \<Rightarrow> flow \<Rightarrow> bool" where
  "ingress_allowed contains np f \<longleftrightarrow>
     ''Ingress'' \<notin> set (nt_PolicyTypes np) \<or>
     list_ex (\<lambda>r. iu_From r = [] \<or> list_ex (\<lambda>p. peer_matches contains (ma_Namespace (nt_Meta np)) p f) (iu_From r)) (nt_Ingress np)"

subsection \<open>What the rendered policy allows\<close>

text \<open>The intended meaning of a peer the caller resolved.\<close>

definition in_selector :: "PeerSelector \<Rightarrow> flow \<Rightarrow> bool" where
  "in_selector s f =
     (case fl_Pod f of
        None \<Rightarrow> False
      | Some p \<Rightarrow> nd_Namespace p = pe_Namespace s \<and> (case pe_PodSelector s of None \<Rightarrow> True | Some ls \<Rightarrow> selects ls (nd_Labels p)))"

definition declared_port :: "NetworkPolicyPort \<Rightarrow> flow \<Rightarrow> bool" where
  "declared_port q f \<longleftrightarrow> fl_Protocol f = (if np_Protocol q = [] then ''TCP'' else np_Protocol q) \<and>
     (case Atoi (np_Port q) of Some n \<Rightarrow> fl_Port f = int32 n | None \<Rightarrow> np_Port q \<in> set (fl_PortNames f))"

definition resolved_allows :: "(string \<Rightarrow> string \<Rightarrow> bool) \<Rightarrow> ResolvedPeer \<Rightarrow> flow \<Rightarrow> bool" where
  "resolved_allows contains p f \<longleftrightarrow>
     (if rp_CIDR p \<noteq> [] then contains (rp_CIDR p) (fl_IP f) else \<exists>s. rp_Selector p = Some s \<and> in_selector s f) \<and>
     (rp_Ports p = [] \<or> list_ex (\<lambda>q. declared_port q f) (rp_Ports p))"

definition to_dns :: "flow \<Rightarrow> bool" where
  "to_dns f \<longleftrightarrow> (\<exists>p. fl_Pod f = Some p \<and> nd_Namespace p = ''kube-system'' \<and> map_of (nd_Labels p) ''k8s-app'' = Some ''kube-dns'') \<and>
     fl_Port f = 53 \<and> (fl_Protocol f = ''UDP'' \<or> fl_Protocol f = ''TCP'')"

definition within_environment :: "render_lib \<Rightarrow> SandboxEnvironment \<Rightarrow> flow \<Rightarrow> bool" where
  "within_environment L env f \<longleftrightarrow> (\<exists>p. fl_Pod f = Some p \<and> nd_Namespace p = Namespace env \<and>
     map_of (nd_Labels p) ''sandbox.psenna.dev/environment'' = Some (EnvironmentLabelValue (rl_Sha256Hex L) (Name env)))"

lemma selects_match_label [simp]: "selects (match_label k v) labels \<longleftrightarrow> map_of labels k = Some v"
  by (simp add: selects_def match_label_def)

lemma selects_namespace [simp]: "selects (namespace_selector ns) (namespace_labels p) \<longleftrightarrow> nd_Namespace p = ns"
  by (simp add: namespace_selector_def namespace_labels_def)

lemma convertLabelSelector_id [simp]: "convertLabelSelector sel = sel"
proof (cases sel)
  case (Some s)
  have "\<lparr>lr_Key = lr_Key e, lr_Operator = lr_Operator e, lr_Values = lr_Values e\<rparr> = e" for e :: LabelSelectorRequirement
    by (cases e) simp
  then have "map (\<lambda>e. \<lparr>lr_Key = lr_Key e, lr_Operator = lr_Operator e, lr_Values = lr_Values e\<rparr>) es = es" for es
    by (intro map_idI)
  with Some show ?thesis unfolding convertLabelSelector_def by (cases s) simp
qed (simp add: convertLabelSelector_def)

lemma selector_peer_matches: "peer_matches contains ns (selector_peer s) f \<longleftrightarrow> in_selector s f"
  by (cases "fl_Pod f") (auto simp: peer_matches_def selector_peer_def in_selector_def)

lemma convertPorts_matches: "list_ex (\<lambda>q. port_matches q f) (convertPorts ps) \<longleftrightarrow> list_ex (\<lambda>q. declared_port q f) ps"
  by (induction ps) (auto simp: convertPorts_def port_matches_def declared_port_def portValue_def split: option.splits)

lemma convertPorts_Nil: "convertPorts ps = [] \<longleftrightarrow> ps = []"
  by (simp add: convertPorts_def)

lemma peerEgressRule_allows:
  assumes "validateResolvedPeer p = None"
  shows "egress_rule_allows contains ns (peerEgressRule p) f \<longleftrightarrow> resolved_allows contains p f"
proof -
  have "peer_matches contains ns (peerTo p) f \<longleftrightarrow>
      (if rp_CIDR p \<noteq> [] then contains (rp_CIDR p) (fl_IP f) else \<exists>s. rp_Selector p = Some s \<and> in_selector s f)"
  proof (cases "rp_CIDR p = []")
    case True
    with assms obtain s where "rp_Selector p = Some s" by (auto simp: validateResolvedPeer_def Let_def split: if_splits)
    with True show ?thesis by (simp add: peerTo_def selector_peer_matches)
  next
    case False
    then show ?thesis by (simp add: peerTo_def peer_matches_def)
  qed
  then show ?thesis
    by (simp add: egress_rule_allows_def peerEgressRule_def resolved_allows_def convertPorts_matches convertPorts_Nil)
qed

lemma peer_rules_Inr:
  "peer_rules ps = Inr rules \<Longrightarrow> rules = map peerEgressRule ps \<and> list_all (\<lambda>p. validateResolvedPeer p = None) ps"
  by (induction ps arbitrary: rules) (auto split: option.splits simp: map_sum_def split: sum.splits)

lemma peer_rules_fail: "isl (peer_rules ps) \<longleftrightarrow> list_ex (\<lambda>p. validateResolvedPeer p \<noteq> None) ps"
  by (induction ps) (auto split: option.splits simp: isl_map_sum)

lemma dns_rule_allows: "egress_rule_allows contains ns dnsEgressRule f \<longleftrightarrow> to_dns f"
  by (cases "fl_Pod f") (auto simp: egress_rule_allows_def dnsEgressRule_def peer_matches_def port_matches_def to_dns_def)

lemma env_rule_allows: "egress_rule_allows contains (Namespace env) (envPodEgressRule L (Name env)) f \<longleftrightarrow> within_environment L env f"
  by (cases "fl_Pod f") (auto simp: egress_rule_allows_def envPodEgressRule_def peer_matches_def within_environment_def environment_selector_def)

lemma env_peer_matches:
  "peer_matches contains (Namespace env) \<lparr>pp_IPBlock = None, pp_NamespaceSelector = None, pp_PodSelector = Some (environment_selector L (Name env))\<rparr> f \<longleftrightarrow>
   within_environment L env f"
  by (cases "fl_Pod f") (auto simp: peer_matches_def within_environment_def environment_selector_def)

lemma RenderNetworkPolicy_Some:
  assumes "RenderNetworkPolicy L i = Inr (Some np)"
  obtains env cls where "in_Env i = Some env" "in_Class i = Some cls" "nw_Isolation (cs_Network (cl_Spec cls)) = NetworkIsolationRestricted"
    "list_all (\<lambda>p. validateResolvedPeer p = None) (ni_Egress (in_Network i))"
    "np = \<lparr>nt_Meta = object_meta L env (n_NetworkPolicy (names_of L env)),
          nt_PodSelector = environment_selector L (Name env), nt_PolicyTypes = [''Ingress'', ''Egress''],
          nt_Ingress = envPodIngressRule L (Name env) #
            (case ni_OperatorIngress (in_Network i) of None \<Rightarrow> [] | Some op \<Rightarrow> [operatorIngressRule op]),
          nt_Egress = dnsEgressRule # envPodEgressRule L (Name env) # map peerEgressRule (sortedPeers (ni_Egress (in_Network i)))\<rparr>"
proof -
  from assms obtain env cls where v: "validateInputs i = Inr (env, cls)"
    by (auto simp: RenderNetworkPolicy_def split: sum.splits)
  with assms have iso: "nw_Isolation (cs_Network (cl_Spec cls)) = NetworkIsolationRestricted"
    by (auto simp: RenderNetworkPolicy_def split: if_splits)
  with assms v obtain rules where rules: "peer_rules (sortedPeers (ni_Egress (in_Network i))) = Inr rules"
    by (auto simp: RenderNetworkPolicy_def split: sum.splits)
  from peer_rules_Inr [OF rules] have "rules = map peerEgressRule (sortedPeers (ni_Egress (in_Network i)))"
    "list_all (\<lambda>p. validateResolvedPeer p = None) (ni_Egress (in_Network i))"
    by (simp_all add: sortedPeers_def list_all_iff)
  with assms v iso rules show ?thesis
    by (intro that [of env cls]) (auto simp: RenderNetworkPolicy_def validateInputs_def split: option.splits if_splits)
qed

text \<open>
  The policy of a restricted class selects the pods of the environment and lets them reach exactly the cluster's
  name service, each other, and the resolved destinations on their ports; they are reached
  from each other and from the operator's pods only. The order of the destinations does not matter.
\<close>

lemma restricted_policy_exact:
  assumes "RenderNetworkPolicy L i = Inr (Some np)"
  shows "\<exists>env. in_Env i = Some env \<and> ma_Namespace (nt_Meta np) = Namespace env \<and>
    selects (nt_PodSelector np) (Labels L env) \<and>
    (\<forall>contains f. egress_allowed contains np f =
       (to_dns f \<or> within_environment L env f \<or> (\<exists>p \<in> set (ni_Egress (in_Network i)). resolved_allows contains p f))) \<and>
    (\<forall>contains f. ingress_allowed contains np f =
       (within_environment L env f \<or> (\<exists>op. ni_OperatorIngress (in_Network i) = Some op \<and> in_selector op f)))"
proof -
  from assms obtain env cls where R: "in_Env i = Some env"
    "list_all (\<lambda>p. validateResolvedPeer p = None) (ni_Egress (in_Network i))"
    "np = \<lparr>nt_Meta = object_meta L env (n_NetworkPolicy (names_of L env)),
          nt_PodSelector = environment_selector L (Name env), nt_PolicyTypes = [''Ingress'', ''Egress''],
          nt_Ingress = envPodIngressRule L (Name env) #
            (case ni_OperatorIngress (in_Network i) of None \<Rightarrow> [] | Some op \<Rightarrow> [operatorIngressRule op]),
          nt_Egress = dnsEgressRule # envPodEgressRule L (Name env) # map peerEgressRule (sortedPeers (ni_Egress (in_Network i)))\<rparr>"
    by (rule RenderNetworkPolicy_Some)
  have ns: "ma_Namespace (nt_Meta np) = Namespace env" by (simp add: R(3) object_meta_def)
  have peers: "list_ex (\<lambda>r. egress_rule_allows contains (Namespace env) r f) (map peerEgressRule (sortedPeers (ni_Egress (in_Network i)))) \<longleftrightarrow>
      (\<exists>p \<in> set (ni_Egress (in_Network i)). resolved_allows contains p f)" for contains f
    using R(2) peerEgressRule_allows by (auto simp: list_ex_iff list_all_iff sortedPeers_def)
  have "egress_allowed contains np f \<longleftrightarrow>
      to_dns f \<or> within_environment L env f \<or> (\<exists>p \<in> set (ni_Egress (in_Network i)). resolved_allows contains p f)" for contains f
    unfolding egress_allowed_def ns using peers [of contains f] by (simp add: R(3) dns_rule_allows env_rule_allows)
  moreover have "ingress_allowed contains np f \<longleftrightarrow>
      within_environment L env f \<or> (\<exists>op. ni_OperatorIngress (in_Network i) = Some op \<and> in_selector op f)" for contains f
    unfolding ingress_allowed_def ns
    by (cases "ni_OperatorIngress (in_Network i)") (simp_all add: R(3) envPodIngressRule_def operatorIngressRule_def env_peer_matches selector_peer_matches)
  moreover have "selects (nt_PodSelector np) (Labels L env)" by (simp add: R(3) environment_selector_def Labels_def)
  ultimately show ?thesis using R(1) ns by blast
qed

text \<open>A policy exists exactly for a restricted class, and rendering fails exactly on a peer that is not one of the two kinds.\<close>

lemma RenderNetworkPolicy_kinds:
  assumes "validateInputs i = Inr (env, cls)"
  shows "RenderNetworkPolicy L i = Inr None \<longleftrightarrow> nw_Isolation (cs_Network (cl_Spec cls)) \<noteq> NetworkIsolationRestricted"
    and "isl (RenderNetworkPolicy L i) \<longleftrightarrow> nw_Isolation (cs_Network (cl_Spec cls)) = NetworkIsolationRestricted \<and>
      list_ex (\<lambda>p. (rp_CIDR p \<noteq> []) = (rp_Selector p \<noteq> None)) (ni_Egress (in_Network i))"
proof -
  show "RenderNetworkPolicy L i = Inr None \<longleftrightarrow> nw_Isolation (cs_Network (cl_Spec cls)) \<noteq> NetworkIsolationRestricted"
    using assms by (auto simp: RenderNetworkPolicy_def split: sum.splits)
  have "isl (RenderNetworkPolicy L i) \<longleftrightarrow> nw_Isolation (cs_Network (cl_Spec cls)) = NetworkIsolationRestricted \<and>
      isl (peer_rules (sortedPeers (ni_Egress (in_Network i))))"
    using assms by (auto simp: RenderNetworkPolicy_def split: sum.splits)
  then show "isl (RenderNetworkPolicy L i) \<longleftrightarrow> nw_Isolation (cs_Network (cl_Spec cls)) = NetworkIsolationRestricted \<and>
      list_ex (\<lambda>p. (rp_CIDR p \<noteq> []) = (rp_Selector p \<noteq> None)) (ni_Egress (in_Network i))"
    by (auto simp: peer_rules_fail list_ex_iff sortedPeers_def validateResolvedPeer_def Let_def split: if_splits)
qed

text \<open>
  The sort looks at the block or the namespace only and keeps the order of the rest, so the rendered text does depend
  on the caller's order: two peers of one namespace with different ports stay as they came.
\<close>

definition web_peer :: "string \<Rightarrow> ResolvedPeer" where
  "web_peer port = \<lparr>rp_CIDR = [], rp_Selector = Some \<lparr>pe_Namespace = ''web'', pe_PodSelector = None\<rparr>,
     rp_Ports = [\<lparr>np_Protocol = [], np_Port = port\<rparr>]\<rparr>"

lemma sortedPeers_keeps_order: "sortedPeers [web_peer ''80'', web_peer ''443''] \<noteq> sortedPeers [web_peer ''443'', web_peer ''80'']"
  by (simp add: sortedPeers_def SliceStable_def peerSortKey_def web_peer_def)

text \<open>A port number of more than 32 bits opens the port of its low bits.\<close>

lemma wide_port_wraps: "portValue ''4294967376'' = PortNumber 80"
  by code_simp

end
