(* ===== verification/Network_Peers.thy ===== *)
theory Network_Peers
  imports Render_Network
begin

section \<open>From a class to its network peers\<close>

text \<open>
  \<^verbatim>\<open>src/operator/internal/controller/network.go\<close>: which destinations a restricted class needs, and how the operator
  resolves them. The calls on the cluster and on the name service and the parsers of URLs and
  blocks are parameters; an address and a block are their texts.
\<close>

record service_object =
  se_Selector :: "(string \<times> string) list"
  se_ClusterIP :: string

record cluster_net =
  cw_GetService :: "string \<Rightarrow> string \<Rightarrow> service_object option"
  cw_Hostname :: "string \<Rightarrow> string option"
  cw_LookupHost :: "string \<Rightarrow> string list option"
  cw_ParsePrefix :: "string \<Rightarrow> bool"
  cw_Contains :: "string \<Rightarrow> string \<Rightarrow> bool"

datatype network_error =
    ExtraEgressNotExactlyOne nat
  | ExtraEgressBadCIDR nat string
  | EndpointNotParsed string string
  | ServiceNotRead string string string
  | ExternalWithoutCIDR string string
  | ExternalNotCovered string string "string list"
  | KubernetesServiceNotRead
  | KubernetesServiceWithoutIP

definition defaultOperatorIngressLabel :: string where "defaultOperatorIngressLabel = ''control-plane=controller-manager''"

record serviceEndpoint =
  se_what :: string
  se_url :: string

definition serviceEndpoints :: "SandboxClass \<Rightarrow> serviceEndpoint list" where
  "serviceEndpoints cls =
     (let sv = cs_Services (cl_Spec cls); b = sg_Backend (cs_Storage (cl_Spec cls)) in
      (case sv_GitProxy sv of None \<Rightarrow> [] | Some gp \<Rightarrow>
         [\<lparr>se_what = ''gitProxy git'', se_url = gp_GitURL gp\<rparr>, \<lparr>se_what = ''gitProxy broker'', se_url = gp_BrokerURL gp\<rparr>]) @
      (case sv_DependaProxy sv of None \<Rightarrow> [] | Some dp \<Rightarrow>
         [\<lparr>se_what = ''dependaProxy npm'', se_url = dp_NpmURL dp\<rparr>, \<lparr>se_what = ''dependaProxy pypi'', se_url = dp_PypiURL dp\<rparr>,
          \<lparr>se_what = ''dependaProxy goproxy'', se_url = dp_GoproxyURL dp\<rparr>]) @
      (case sv_Ollama sv of None \<Rightarrow> [] | Some ol \<Rightarrow> [\<lparr>se_what = ''ollama'', se_url = ol_BaseURL ol\<rparr>]) @
      (case bs_S3 b of
         Some s3 \<Rightarrow> if bs_Type b = StorageBackendTypeS3 then [\<lparr>se_what = ''storage s3'', se_url = s3_Endpoint s3\<rparr>] else []
       | None \<Rightarrow> []))"

subsection \<open>Names of services in the cluster\<close>

fun split_dots :: "string \<Rightarrow> string list" where
  "split_dots [] = [[]]"
| "split_dots (c # s) =
     (if c = CHR ''.'' then [] # split_dots s
      else case split_dots s of [] \<Rightarrow> [[c]] | w # ws \<Rightarrow> (c # w) # ws)"

text \<open>The pattern \<^verbatim>\<open>^([^.]+)\.([^.]+)\.svc(\.cluster\.local)?$\<close>: its groups are the parts between dots.\<close>

definition inClusterServiceRE :: "string \<Rightarrow> (string \<times> string) option" where
  "inClusterServiceRE host =
     (case split_dots host of
        svc # ns # rest \<Rightarrow>
          if svc \<noteq> [] \<and> ns \<noteq> [] \<and> (rest = [''svc''] \<or> rest = [''svc'', ''cluster'', ''local'']) then Some (svc, ns) else None
      | _ \<Rightarrow> None)"

subsection \<open>Resolving\<close>

definition no_peer :: ResolvedPeer where
  "no_peer = \<lparr>rp_CIDR = [], rp_Selector = None, rp_Ports = []\<rparr>"

definition resolveServiceEndpoint :: "cluster_net \<Rightarrow> string \<Rightarrow> string \<Rightarrow> string list \<Rightarrow> network_error + ResolvedPeer" where
  "resolveServiceEndpoint W what url cidrs =
     (case cw_Hostname W url of
        None \<Rightarrow> Inl (EndpointNotParsed what url)
      | Some host \<Rightarrow>
          (case inClusterServiceRE host of
             Some (svcName, ns) \<Rightarrow>
               (case cw_GetService W ns svcName of
                  None \<Rightarrow> Inl (ServiceNotRead ns svcName what)
                | Some svc \<Rightarrow> Inr \<lparr>rp_CIDR = [], rp_Selector = Some \<lparr>pe_Namespace = ns,
                    pe_PodSelector = Some \<lparr>lb_MatchLabels = se_Selector svc, lb_MatchExpressions = []\<rparr>\<rparr>, rp_Ports = []\<rparr>)
           | None \<Rightarrow>
               if cidrs = [] then Inl (ExternalWithoutCIDR what url)
               else case cw_LookupHost W host of
                 None \<Rightarrow> Inr no_peer
               | Some addrs \<Rightarrow>
                   if list_ex (\<lambda>a. list_ex (\<lambda>c. cw_Contains W c a) cidrs) addrs then Inr no_peer
                   else Inl (ExternalNotCovered what url addrs)))"

fun extra_cidrs :: "cluster_net \<Rightarrow> nat \<Rightarrow> EgressPeer list \<Rightarrow> network_error + string list" where
  "extra_cidrs W n [] = Inr []"
| "extra_cidrs W n (ep # eps) =
     (if (eg_CIDR ep = []) = (eg_Selector ep = None) then Inl (ExtraEgressNotExactlyOne n)
      else if eg_CIDR ep \<noteq> [] \<and> \<not> cw_ParsePrefix W (eg_CIDR ep) then Inl (ExtraEgressBadCIDR n (eg_CIDR ep))
      else map_sum id (\<lambda>cs. if eg_CIDR ep \<noteq> [] then eg_CIDR ep # cs else cs) (extra_cidrs W (Suc n) eps))"

fun resolve_endpoints :: "cluster_net \<Rightarrow> string list \<Rightarrow> serviceEndpoint list \<Rightarrow> network_error + ResolvedPeer list" where
  "resolve_endpoints W cidrs [] = Inr []"
| "resolve_endpoints W cidrs (ep # eps) =
     (if se_url ep = [] then resolve_endpoints W cidrs eps
      else case resolveServiceEndpoint W (se_what ep) (se_url ep) cidrs of
        Inl e \<Rightarrow> Inl e
      | Inr peer \<Rightarrow>
          map_sum id (\<lambda>ps. if rp_CIDR peer \<noteq> [] \<or> rp_Selector peer \<noteq> None then peer # ps else ps) (resolve_endpoints W cidrs eps))"

text \<open>The label is split at its first equals sign.\<close>

definition operatorIngressSelector :: "string \<Rightarrow> string \<Rightarrow> PeerSelector" where
  "operatorIngressSelector label namespace =
     (let label = (if label = [] then defaultOperatorIngressLabel else label);
          (k, v) = (case index_byte (CHR ''='') label of
            None \<Rightarrow> (''control-plane'', ''controller-manager'')
          | Some n \<Rightarrow> if n = 0 then (''control-plane'', ''controller-manager'') else (take n label, drop (Suc n) label))
      in \<lparr>pe_Namespace = namespace, pe_PodSelector = Some \<lparr>lb_MatchLabels = [(k, v)], lb_MatchExpressions = []\<rparr>\<rparr>)"

definition extra_peer :: "EgressPeer \<Rightarrow> ResolvedPeer" where
  "extra_peer ep = \<lparr>rp_CIDR = eg_CIDR ep, rp_Selector = eg_Selector ep, rp_Ports = eg_Ports ep\<rparr>"

definition api_peer :: "service_object \<Rightarrow> ResolvedPeer" where
  "api_peer svc = \<lparr>rp_CIDR = se_ClusterIP svc @ ''/32'', rp_Selector = None, rp_Ports = [\<lparr>np_Protocol = [], np_Port = ''443''\<rparr>]\<rparr>"

definition resolveNetworkPeers :: "cluster_net \<Rightarrow> string \<Rightarrow> string \<Rightarrow> SandboxClass \<Rightarrow> network_error + NetworkInputs" where
  "resolveNetworkPeers W label operator_ns cls =
     (let net = cs_Network (cl_Spec cls) in
      if nw_Isolation net \<noteq> NetworkIsolationRestricted then Inr \<lparr>ni_Egress = [], ni_OperatorIngress = None\<rparr>
      else case extra_cidrs W 0 (nw_ExtraEgress net) of Inl e \<Rightarrow> Inl e | Inr cidrs \<Rightarrow>
      (case resolve_endpoints W cidrs (serviceEndpoints cls) of Inl e \<Rightarrow> Inl e | Inr peers \<Rightarrow>
      (case cw_GetService W ''default'' ''kubernetes'' of
         None \<Rightarrow> Inl KubernetesServiceNotRead
       | Some svc \<Rightarrow>
           if se_ClusterIP svc = [] then Inl KubernetesServiceWithoutIP
           else Inr \<lparr>ni_Egress = peers @ [api_peer svc] @ map extra_peer (nw_ExtraEgress net),
             ni_OperatorIngress = Some (operatorIngressSelector label operator_ns)\<rparr>)))"

subsection \<open>What the peers allow\<close>

definition to_service :: "cluster_net \<Rightarrow> string \<Rightarrow> flow \<Rightarrow> bool" where
  "to_service W url f \<longleftrightarrow>
     (\<exists>host svcName ns svc p. cw_Hostname W url = Some host \<and> inClusterServiceRE host = Some (svcName, ns) \<and>
        cw_GetService W ns svcName = Some svc \<and> fl_Pod f = Some p \<and> nd_Namespace p = ns \<and>
        (\<forall>(k, v) \<in> set (se_Selector svc). map_of (nd_Labels p) k = Some v))"

definition to_api_server :: "cluster_net \<Rightarrow> flow \<Rightarrow> bool" where
  "to_api_server W f \<longleftrightarrow>
     (\<exists>svc. cw_GetService W ''default'' ''kubernetes'' = Some svc \<and> cw_Contains W (se_ClusterIP svc @ ''/32'') (fl_IP f)) \<and>
     fl_Protocol f = ''TCP'' \<and> fl_Port f = 443"

lemma extra_cidrs_valid:
  "extra_cidrs W n eps = Inr cidrs \<Longrightarrow> list_all (\<lambda>ep. (eg_CIDR ep = []) \<noteq> (eg_Selector ep = None)) eps \<and>
     cidrs = filter (\<lambda>c. c \<noteq> []) (map eg_CIDR eps)"
proof (induction eps arbitrary: n cidrs)
  case (Cons ep eps)
  then obtain cs where "extra_cidrs W (Suc n) eps = Inr cs" "(eg_CIDR ep = []) \<noteq> (eg_Selector ep = None)"
    "cidrs = (if eg_CIDR ep \<noteq> [] then eg_CIDR ep # cs else cs)"
    by (cases "extra_cidrs W (Suc n) eps") (auto split: if_splits)
  with Cons.IH [of "Suc n" cs] show ?case by auto
qed simp

text \<open>The peer of an endpoint in the cluster, of one outside, and which flows it lets through.\<close>

lemma resolveServiceEndpoint_Inr:
  assumes "resolveServiceEndpoint W what url cidrs = Inr peer"
  shows "rp_CIDR peer = [] \<and> rp_Ports peer = [] \<and> (rp_Selector peer \<noteq> None \<longrightarrow> resolved_allows contains peer f = to_service W url f) \<and>
    (rp_Selector peer = None \<longrightarrow> \<not> to_service W url f)"
proof -
  from assms obtain host where host: "cw_Hostname W url = Some host" by (auto simp: resolveServiceEndpoint_def split: option.splits)
  show ?thesis
  proof (cases "inClusterServiceRE host")
    case None
    with assms host have "peer = no_peer" by (auto simp: resolveServiceEndpoint_def split: option.splits if_splits)
    with host None show ?thesis by (simp add: no_peer_def to_service_def)
  next
    case (Some m)
    then obtain svcName ns where m: "inClusterServiceRE host = Some (svcName, ns)" by force
    with assms host obtain svc where svc: "cw_GetService W ns svcName = Some svc"
      "peer = \<lparr>rp_CIDR = [], rp_Selector = Some \<lparr>pe_Namespace = ns,
         pe_PodSelector = Some \<lparr>lb_MatchLabels = se_Selector svc, lb_MatchExpressions = []\<rparr>\<rparr>, rp_Ports = []\<rparr>"
      by (auto simp: resolveServiceEndpoint_def split: option.splits)
    with host m show ?thesis
      by (cases "fl_Pod f") (auto simp: resolved_allows_def in_selector_def selects_def to_service_def list_all_iff)
  qed
qed

lemma resolve_endpoints_Inr:
  "resolve_endpoints W cidrs eps = Inr peers \<Longrightarrow>
     list_all (\<lambda>p. validateResolvedPeer p = None) peers \<and>
     ((\<exists>p \<in> set peers. resolved_allows contains p f) \<longleftrightarrow> (\<exists>ep \<in> set eps. se_url ep \<noteq> [] \<and> to_service W (se_url ep) f))"
proof (induction eps arbitrary: peers)
  case (Cons ep eps)
  show ?case
  proof (cases "se_url ep = []")
    case True
    with Cons show ?thesis by simp
  next
    case False
    with Cons.prems obtain peer ps where p: "resolveServiceEndpoint W (se_what ep) (se_url ep) cidrs = Inr peer"
      "resolve_endpoints W cidrs eps = Inr ps" "peers = (if rp_CIDR peer \<noteq> [] \<or> rp_Selector peer \<noteq> None then peer # ps else ps)"
      by (cases "resolve_endpoints W cidrs eps") (auto split: sum.splits)
    from resolveServiceEndpoint_Inr [OF p(1), of contains f] Cons.IH [OF p(2)] False p(3) show ?thesis
      by (auto simp: validateResolvedPeer_def split: if_splits)
  qed
qed simp

lemma api_peer_allows:
  "resolved_allows contains (api_peer svc) f \<longleftrightarrow> contains (se_ClusterIP svc @ ''/32'') (fl_IP f) \<and> fl_Protocol f = ''TCP'' \<and> fl_Port f = 443"
proof -
  have "Atoi ''443'' = Some 443" by code_simp
  moreover have "int32 443 = 443" by (simp add: int32_def)
  ultimately show ?thesis by (auto simp: resolved_allows_def api_peer_def declared_port_def)
qed

lemma resolveNetworkPeers_Inr:
  assumes "resolveNetworkPeers W label operator_ns cls = Inr ni" and "nw_Isolation (cs_Network (cl_Spec cls)) = NetworkIsolationRestricted"
  shows "list_all (\<lambda>p. validateResolvedPeer p = None) (ni_Egress ni) \<and> ni_OperatorIngress ni = Some (operatorIngressSelector label operator_ns) \<and>
    ((\<exists>p \<in> set (ni_Egress ni). resolved_allows (cw_Contains W) p f) \<longleftrightarrow>
       to_api_server W f \<or> (\<exists>ep \<in> set (serviceEndpoints cls). se_url ep \<noteq> [] \<and> to_service W (se_url ep) f) \<or>
       (\<exists>ep \<in> set (nw_ExtraEgress (cs_Network (cl_Spec cls))). resolved_allows (cw_Contains W) (extra_peer ep) f))"
proof -
  from assms obtain cidrs peers svc where R: "extra_cidrs W 0 (nw_ExtraEgress (cs_Network (cl_Spec cls))) = Inr cidrs"
    "resolve_endpoints W cidrs (serviceEndpoints cls) = Inr peers" "cw_GetService W ''default'' ''kubernetes'' = Some svc" "se_ClusterIP svc \<noteq> []"
    "ni = \<lparr>ni_Egress = peers @ [api_peer svc] @ map extra_peer (nw_ExtraEgress (cs_Network (cl_Spec cls))),
       ni_OperatorIngress = Some (operatorIngressSelector label operator_ns)\<rparr>"
    by (auto simp: resolveNetworkPeers_def Let_def split: sum.splits option.splits if_splits)
  have "list_all (\<lambda>p. validateResolvedPeer p = None) (map extra_peer (nw_ExtraEgress (cs_Network (cl_Spec cls))))"
    using extra_cidrs_valid [OF R(1)] by (auto simp: validateResolvedPeer_def extra_peer_def list_all_iff)
  moreover have "validateResolvedPeer (api_peer svc) = None" by (simp add: validateResolvedPeer_def api_peer_def)
  ultimately show ?thesis
    using resolve_endpoints_Inr [OF R(2), of "cw_Contains W" f] R(3) api_peer_allows [of "cw_Contains W" svc f]
    by (auto simp: R(5) to_api_server_def)
qed

text \<open>
  C13: If the operator can resolve the peers of a restricted class, the policy it renders from them exists, and
  the environment's pods may open a connection to exactly: the cluster's name service, the pods of
  the environment, the API server on port 443, the pods behind a service of the class that lives in the
  cluster, and what the class lists as extra egress. Into the environment come only its own pods and the pods
  with the operator's label in the operator's namespace.
\<close>

theorem class_egress_exact:
  assumes "validateInputs i = Inr (env, cls)" and "nw_Isolation (cs_Network (cl_Spec cls)) = NetworkIsolationRestricted"
    and "resolveNetworkPeers W label operator_ns cls = Inr (in_Network i)"
  shows "\<exists>np. RenderNetworkPolicy L i = Inr (Some np) \<and>
    (\<forall>f. egress_allowed (cw_Contains W) np f =
       (to_dns f \<or> within_environment L env f \<or> to_api_server W f \<or>
        (\<exists>ep \<in> set (serviceEndpoints cls). se_url ep \<noteq> [] \<and> to_service W (se_url ep) f) \<or>
        (\<exists>ep \<in> set (nw_ExtraEgress (cs_Network (cl_Spec cls))). resolved_allows (cw_Contains W) (extra_peer ep) f))) \<and>
    (\<forall>f. ingress_allowed (cw_Contains W) np f =
       (within_environment L env f \<or> in_selector (operatorIngressSelector label operator_ns) f))"
proof -
  note peers = resolveNetworkPeers_Inr [OF assms(3,2)]
  have "list_all (\<lambda>p. validateResolvedPeer p = None) (ni_Egress (in_Network i))" using peers by blast
  then have "\<not> list_ex (\<lambda>p. (rp_CIDR p \<noteq> []) = (rp_Selector p \<noteq> None)) (ni_Egress (in_Network i))"
    unfolding list_ex_iff list_all_iff validateResolvedPeer_def Let_def by (metis option.distinct(1))
  then have "\<not> isl (RenderNetworkPolicy L i)" using RenderNetworkPolicy_kinds(2) [OF assms(1), of L] by blast
  moreover have "RenderNetworkPolicy L i \<noteq> Inr None" using RenderNetworkPolicy_kinds(1) [OF assms(1), of L] assms(2) by simp
  ultimately obtain np where np: "RenderNetworkPolicy L i = Inr (Some np)" by (cases "RenderNetworkPolicy L i") auto
  moreover have "in_Env i = Some env" using assms(1) by (auto simp: validateInputs_def split: option.splits if_splits)
  ultimately show ?thesis using restricted_policy_exact [OF np] peers by auto
qed

text \<open>A class with a git proxy in the cluster and one external block.\<close>

definition ref_net :: cluster_net where
  "ref_net =
     \<lparr>cw_GetService = (\<lambda>ns n. if ns = ''git'' then Some \<lparr>se_Selector = [(''app'', ''git'')], se_ClusterIP = ''10.0.0.9''\<rparr>
        else if n = ''kubernetes'' then Some \<lparr>se_Selector = [], se_ClusterIP = ''10.0.0.1''\<rparr> else None),
      cw_Hostname = (\<lambda>u. if HasPrefix u ''http://'' then Some (drop 7 u) else None),
      cw_LookupHost = (\<lambda>_. None), cw_ParsePrefix = (\<lambda>_. True), cw_Contains = (\<lambda>c a. c = a @ ''/32'')\<rparr>"

definition net_class :: SandboxClass where
  "net_class = \<lparr>Name = ''k'', Namespace = [], UID = ''k1'', ResourceVersion = [], Generation = 1, CreationTimestamp = 0, DeletionTimestamp = None, Finalizers = [],
     cl_Spec = \<lparr>cs_Agent = \<lparr>as_Image = ''a'', as_Resources = \<lparr>rq_Limits = [], rq_Requests = []\<rparr>, as_Model = None\<rparr>,
       cs_Engine = \<lparr>en_Type = EngineTypeNone, en_Image = [], en_StorageDriver = []\<rparr>,
       cs_Services = \<lparr>sv_GitProxy = Some \<lparr>gp_GitURL = ''http://proxy.git.svc'', gp_BrokerURL = [], gp_TokenSecretRef = \<lparr>sk_Name = [], sk_Key = []\<rparr>\<rparr>,
         sv_DependaProxy = None, sv_Ollama = None\<rparr>,
       cs_Storage = \<lparr>sg_Workspace = \<lparr>ws_Size = [], ws_StorageClassName = None\<rparr>, sg_Backend = \<lparr>bs_Type = [], bs_S3 = None, bs_PVC = None\<rparr>, sg_WarmCacheTTL = []\<rparr>,
       cs_Network = \<lparr>nw_Isolation = NetworkIsolationRestricted, nw_ExtraEgress = [\<lparr>eg_CIDR = ''1.2.3.4/32'', eg_Selector = None, eg_Ports = []\<rparr>]\<rparr>,
       cs_Timeouts = \<lparr>tm_Running = [], tm_Waiting = [], tm_Total = []\<rparr>\<rparr>\<rparr>"

definition net_env :: SandboxEnvironment where
  "net_env = zero_env\<lparr>Name := ''e'', Namespace := ''n'', UID := ''u1''\<rparr>"

definition net_inputs :: Inputs where
  "net_inputs =
     \<lparr>in_Env = Some net_env, in_Class = Some net_class,
      in_Credentials = \<lparr>cd_GitProxyToken = [], cd_SnapshotAccessKeyID = [], cd_SnapshotSecretAccessKey = [], cd_SnapshotSessionToken = []\<rparr>,
      in_ClusterID = [], in_Skills = [], in_SidecarImage = [], in_SpecHash = [], in_Restore = None,
      in_Network = (case resolveNetworkPeers ref_net [] ''op'' net_class of Inr ni \<Rightarrow> ni | Inl _ \<Rightarrow> \<lparr>ni_Egress = [], ni_OperatorIngress = None\<rparr>)\<rparr>"

definition outside :: "string \<Rightarrow> int \<Rightarrow> flow" where
  "outside ip port = \<lparr>fl_IP = ip, fl_Pod = None, fl_Protocol = ''TCP'', fl_Port = port, fl_PortNames = []\<rparr>"

theorem class_egress_exact_witness:
  "case RenderNetworkPolicy \<lparr>rl_Sha256Hex = (\<lambda>s. s), rl_ParseQuantity = Some, rl_MarshalIndent = (\<lambda>_. [])\<rparr> net_inputs of
     Inr (Some np) \<Rightarrow> egress_allowed (cw_Contains ref_net) np (outside ''1.2.3.4'' 80) \<and>
       egress_allowed (cw_Contains ref_net) np (outside ''10.0.0.1'' 443) \<and> \<not> egress_allowed (cw_Contains ref_net) np (outside ''10.0.0.1'' 80)
   | _ \<Rightarrow> False"
proof -
  let ?L = "\<lparr>rl_Sha256Hex = (\<lambda>s. s), rl_ParseQuantity = Some, rl_MarshalIndent = (\<lambda>_. [])\<rparr>"
  have v: "validateInputs net_inputs = Inr (net_env, net_class)"
    by (simp add: validateInputs_def net_inputs_def net_env_def)
  have iso: "nw_Isolation (cs_Network (cl_Spec net_class)) = NetworkIsolationRestricted" by (simp add: net_class_def)
  have extra: "nw_ExtraEgress (cs_Network (cl_Spec net_class)) = [\<lparr>eg_CIDR = ''1.2.3.4/32'', eg_Selector = None, eg_Ports = []\<rparr>]" by (simp add: net_class_def)
  have "\<not> isl (resolveNetworkPeers ref_net [] ''op'' net_class)" by code_simp
  then have r: "resolveNetworkPeers ref_net [] ''op'' net_class = Inr (in_Network net_inputs)"
    by (cases "resolveNetworkPeers ref_net [] ''op'' net_class") (simp_all add: net_inputs_def)
  from class_egress_exact [OF v iso r, of ?L] obtain np where np: "RenderNetworkPolicy ?L net_inputs = Inr (Some np)"
    "egress_allowed (cw_Contains ref_net) np f = (to_dns f \<or> within_environment ?L net_env f \<or> to_api_server ref_net f \<or>
        (\<exists>ep \<in> set (serviceEndpoints net_class). se_url ep \<noteq> [] \<and> to_service ref_net (se_url ep) f) \<or>
        (\<exists>ep \<in> set (nw_ExtraEgress (cs_Network (cl_Spec net_class))). resolved_allows (cw_Contains ref_net) (extra_peer ep) f))" for f
    by blast
  have no_pod: "\<not> to_dns (outside ip p)" "\<not> within_environment ?L net_env (outside ip p)" "\<not> to_service ref_net u (outside ip p)" for ip p u
    by (simp_all add: to_dns_def within_environment_def to_service_def outside_def)
  have "egress_allowed (cw_Contains ref_net) np (outside ''1.2.3.4'' 80)"
    unfolding np(2) extra by (simp add: resolved_allows_def extra_peer_def outside_def ref_net_def)
  moreover have "egress_allowed (cw_Contains ref_net) np (outside ''10.0.0.1'' 443)"
    unfolding np(2) by (simp add: to_api_server_def outside_def ref_net_def)
  moreover have "\<not> egress_allowed (cw_Contains ref_net) np (outside ''10.0.0.1'' 80)"
    unfolding np(2) extra by (simp add: no_pod) (simp add: to_api_server_def resolved_allows_def extra_peer_def outside_def ref_net_def)
  ultimately show ?thesis by (simp add: np(1))
qed

text \<open>
  A service without a selector, whose endpoints someone manages by hand, makes a peer that selects every pod of
  its namespace.
\<close>

lemma selectorless_service_opens_namespace:
  assumes "cw_Hostname W url = Some host" and "inClusterServiceRE host = Some (svcName, ns)" and "cw_GetService W ns svcName = Some svc"
    and "se_Selector svc = []"
  shows "to_service W url f \<longleftrightarrow> (\<exists>p. fl_Pod f = Some p \<and> nd_Namespace p = ns)"
  using assms by (auto simp: to_service_def)

text \<open>An external endpoint that the operator can look up is accepted only if one of its addresses is in a listed block.\<close>

lemma external_endpoint_covered:
  assumes "resolveServiceEndpoint W what url cidrs = Inr peer" and "cw_Hostname W url = Some host" and "inClusterServiceRE host = None"
    and "cw_LookupHost W host = Some addrs"
  shows "\<exists>a \<in> set addrs. \<exists>c \<in> set cidrs. cw_Contains W c a"
  using assms by (auto simp: resolveServiceEndpoint_def list_ex_iff split: if_splits)

end
