(* ===== verification/Render_All.thy ===== *)
theory Render_All
  imports Pod_Safety Network_Peers
begin

section \<open>All objects of an environment\<close>

text \<open>
  \<^verbatim>\<open>Render\<close>, \<^verbatim>\<open>Objects\<close> and \<^verbatim>\<open>Objects.All\<close> of \<^verbatim>\<open>src/operator/internal/render/inputs.go\<close>, and what holds of the
  objects together: where the storage credentials go and what the environment's identity may do.
\<close>

record Objects =
  ob_ServiceAccount :: ServiceAccount
  ob_Role :: Role
  ob_RoleBinding :: RoleBinding
  ob_PVC :: claim_object
  ob_ConfigMap :: data_object
  ob_Secret :: data_object
  ob_SnapshotSecret :: "data_object option"
  ob_NetworkPolicy :: "NetworkPolicy option"

datatype apply_object =
    ApplyServiceAccount ServiceAccount
  | ApplyRole Role
  | ApplyRoleBinding RoleBinding
  | ApplyPVC claim_object
  | ApplyConfigMap data_object
  | ApplySecret data_object
  | ApplyNetworkPolicy NetworkPolicy

definition Objects_All :: "Objects \<Rightarrow> apply_object list" where
  "Objects_All obs =
     [ApplyServiceAccount (ob_ServiceAccount obs), ApplyRole (ob_Role obs), ApplyRoleBinding (ob_RoleBinding obs), ApplyPVC (ob_PVC obs),
      ApplyConfigMap (ob_ConfigMap obs), ApplySecret (ob_Secret obs)] @
     (case ob_SnapshotSecret obs of None \<Rightarrow> [] | Some s \<Rightarrow> [ApplySecret s]) @
     (case ob_NetworkPolicy obs of None \<Rightarrow> [] | Some np \<Rightarrow> [ApplyNetworkPolicy np])"

definition Render :: "render_lib \<Rightarrow> Inputs \<Rightarrow> render_error + Objects" where
  "Render L i =
     (case validateInputs i of Inl e \<Rightarrow> Inl e | Inr (env, cls) \<Rightarrow>
      (case renderPVC L env cls of Inl e \<Rightarrow> Inl e | Inr pvc \<Rightarrow>
      (case RenderNetworkPolicy L i of Inl e \<Rightarrow> Inl e | Inr np \<Rightarrow>
       Inr \<lparr>ob_ServiceAccount = renderServiceAccount L env, ob_Role = renderRole L env cls, ob_RoleBinding = renderRoleBinding L env,
         ob_PVC = pvc, ob_ConfigMap = renderConfigMap L i env cls, ob_Secret = renderSecret L i env cls,
         ob_SnapshotSecret = renderSnapshotSecret L i env cls, ob_NetworkPolicy = np\<rparr>)))"

fun object_of :: "apply_object \<Rightarrow> meta" where
  "object_of (ApplyServiceAccount x) = sc_Meta x"
| "object_of (ApplyRole x) = ro_Meta x"
| "object_of (ApplyRoleBinding x) = rb_Meta x"
| "object_of (ApplyPVC x) = co_Meta x"
| "object_of (ApplyConfigMap x) = do_Meta x"
| "object_of (ApplySecret x) = do_Meta x"
| "object_of (ApplyNetworkPolicy x) = nt_Meta x"

subsection \<open>Where the storage credentials go\<close>

definition with_snapshot_credentials :: "string \<Rightarrow> string \<Rightarrow> string \<Rightarrow> Inputs \<Rightarrow> Inputs" where
  "with_snapshot_credentials k s t i = i\<lparr>in_Credentials := (in_Credentials i)\<lparr>cd_SnapshotAccessKeyID := k, cd_SnapshotSecretAccessKey := s, cd_SnapshotSessionToken := t\<rparr>\<rparr>"

definition holds_credentials :: "volume_source \<Rightarrow> bool" where
  "holds_credentials v \<longleftrightarrow>
     (case v of SecretSource _ _ _ \<Rightarrow> True | Projected _ ps \<Rightarrow> list_ex (\<lambda>p. case p of ServiceAccountToken _ _ \<Rightarrow> True | _ \<Rightarrow> False) ps | _ \<Rightarrow> False)"

definition sees_credentials :: "PodSpec \<Rightarrow> Container \<Rightarrow> bool" where
  "sees_credentials sp c \<longleftrightarrow> list_ex (\<lambda>m. case source_of sp m of None \<Rightarrow> False | Some v \<Rightarrow> holds_credentials v) (cn_VolumeMounts c)"

lemma with_snapshot_same [simp]:
  "in_Env (with_snapshot_credentials k s t i) = in_Env i" "in_Class (with_snapshot_credentials k s t i) = in_Class i"
  "in_Network (with_snapshot_credentials k s t i) = in_Network i" "in_Restore (with_snapshot_credentials k s t i) = in_Restore i"
  "in_ClusterID (with_snapshot_credentials k s t i) = in_ClusterID i" "in_Skills (with_snapshot_credentials k s t i) = in_Skills i"
  "in_SidecarImage (with_snapshot_credentials k s t i) = in_SidecarImage i" "in_SpecHash (with_snapshot_credentials k s t i) = in_SpecHash i"
  "cd_GitProxyToken (in_Credentials (with_snapshot_credentials k s t i)) = cd_GitProxyToken (in_Credentials i)"
  by (simp_all add: with_snapshot_credentials_def)

lemma validate_with_snapshot [simp]: "validateInputs (with_snapshot_credentials k s t i) = validateInputs i"
  unfolding validateInputs_def with_snapshot_same by (rule refl)

lemma objects_with_snapshot [simp]:
  "renderConfigMap L (with_snapshot_credentials k s t i) env cls = renderConfigMap L i env cls"
  "renderSecret L (with_snapshot_credentials k s t i) env cls = renderSecret L i env cls"
  "RenderNetworkPolicy L (with_snapshot_credentials k s t i) = RenderNetworkPolicy L i"
  "sidecarSnapshotArgs (with_snapshot_credentials k s t i) cls = sidecarSnapshotArgs i cls"
  unfolding renderConfigMap_def renderSecret_def RenderNetworkPolicy_def sidecarSnapshotArgs_def with_snapshot_same validate_with_snapshot
  by (rule refl)+

lemma containers_with_snapshot [simp]:
  "sidecarContainer (with_snapshot_credentials k s t i) env cls = sidecarContainer i env cls"
  "restoreContainer (with_snapshot_credentials k s t i) env cls plan = restoreContainer i env cls plan"
  unfolding sidecarContainer_def restoreContainer_def restoreArgs_def with_snapshot_same objects_with_snapshot
  by (rule refl)+

text \<open>The engines the operator ships add nothing.\<close>

lemma engineRegistry_contributes:
  assumes "engineFor engineRegistry t = Inr e" and "ee_Contribute e i = Inr c"
  shows "c = no_contribution \<and> (\<forall>i'. ee_Contribute e i' = Inr no_contribution)"
  using assms by (auto simp: engineFor_def engineRegistry_def Let_def noneEngine_def k8sNativeEngine_def notImplementedEngine_def split: if_splits)

lemma engineRegistry_same: "engineFor engineRegistry t = Inr e \<Longrightarrow> ee_Contribute e i = ee_Contribute e i'"
  by (auto simp: engineFor_def engineRegistry_def Let_def noneEngine_def k8sNativeEngine_def notImplementedEngine_def split: if_splits)

lemma RenderPod_with_snapshot: "RenderPod engineRegistry L (with_snapshot_credentials k s t i) = RenderPod engineRegistry L i"
proof (cases "validateInputs i")
  case (Inr v)
  obtain env cls where v: "v = (env, cls)" by force
  show ?thesis
  proof (cases "engineFor engineRegistry (en_Type (cs_Engine (cl_Spec cls)))")
    case (Inr e)
    with engineRegistry_same [OF Inr, of "with_snapshot_credentials k s t i" i] \<open>validateInputs i = Inr v\<close> v show ?thesis
      unfolding RenderPod_def with_snapshot_same validate_with_snapshot containers_with_snapshot by simp
  qed (use \<open>validateInputs i = Inr v\<close> v in \<open>simp add: RenderPod_def\<close>)
qed (simp add: RenderPod_def)

lemma Render_with_snapshot:
  "Render L (with_snapshot_credentials k s t i) =
     map_sum id (\<lambda>obs. obs\<lparr>ob_SnapshotSecret := renderSnapshotSecret L (with_snapshot_credentials k s t i) (the (in_Env i)) (the (in_Class i))\<rparr>) (Render L i)"
proof (cases "validateInputs i")
  case (Inr v)
  obtain env cls where v: "v = (env, cls)" by force
  with Inr have "in_Env i = Some env" "in_Class i = Some cls" by (simp_all add: validateInputs_Inr)
  with Inr v show ?thesis by (cases "renderPVC L env cls"; cases "RenderNetworkPolicy L i") (simp_all add: Render_def)
qed (simp add: Render_def)

subsection \<open>Which containers see credentials\<close>

lemma agent_sees_none:
  assumes "ps_Volumes sp = podVolumes cls names @ vs"
  shows "\<not> sees_credentials sp (agentContainer cls names)"
  using agent_sources [OF assms]
  by (simp add: sees_credentials_def agentContainer_fields holds_credentials_def)

text \<open>
  C14: The credentials of the snapshot store reach one object only. Whatever they are, every other object and
  the pod are rendered the same; the agent's container has no volume that holds a secret or a service
  account's token, the containers beside it are the sidecar and the restore container; and the secret
  the agent's environment is read from is not the one with the credentials.
\<close>

theorem snapshot_credentials_confined:
  assumes "Render L i = Inr obs" and "RenderPod engineRegistry L i = Inr pod"
  shows "RenderPod engineRegistry L (with_snapshot_credentials k s t i) = Inr pod \<and>
    (\<exists>sec. Render L (with_snapshot_credentials k s t i) = Inr (obs\<lparr>ob_SnapshotSecret := sec\<rparr>)) \<and>
    list_all (\<lambda>c. \<not> sees_credentials (po_Spec pod) c) (ps_Containers (po_Spec pod)) \<and>
    list_all (\<lambda>c. cn_Name c = Some SidecarContainerName \<or> cn_Name c = Some RestoreContainerName) (ps_InitContainers (po_Spec pod)) \<and>
    list_all (\<lambda>c. list_all (\<lambda>n. \<forall>sec. ob_SnapshotSecret obs = Some sec \<longrightarrow> ma_Name (do_Meta sec) \<noteq> n) (cn_EnvFromSecrets c)) (ps_Containers (po_Spec pod))"
proof -
  from assms(2) obtain env cls e c containers where R: "in_Env i = Some env" "in_Class i = Some cls"
    "engineFor engineRegistry (en_Type (cs_Engine (cl_Spec cls))) = Inr e" "ee_Contribute e i = Inr c"
    "validateNoReservedContainerNames c = None"
    "applyRelaxations (agentContainer cls (names_of L env) # ct_Containers c) (ct_Relaxations c) = Inr containers"
    "po_Spec pod = \<lparr>ps_RestartPolicy = ''Never'', ps_ServiceAccountName = n_ServiceAccount (names_of L env),
       ps_AutomountServiceAccountToken = False, ps_TerminationGracePeriodSeconds = Some DefaultTerminationGracePeriodSeconds,
       ps_SecurityContext = podSecurityContext, ps_Volumes = podVolumes cls (names_of L env) @ ct_Volumes c,
       ps_InitContainers = sidecarContainer i env cls # ct_InitContainers c @
         (case in_Restore i of Some plan \<Rightarrow> if isS3Backend cls then [restoreContainer i env cls plan] else [] | None \<Rightarrow> []),
       ps_Containers = containers\<rparr>"
    by (rule RenderPod_Inr)
  from engineRegistry_contributes [OF R(3,4)] have c: "c = no_contribution" by blast
  with R(6) have containers: "ps_Containers (po_Spec pod) = [agentContainer cls (names_of L env)]"
    by (simp add: R(7) no_contribution_def)
  have "ps_Volumes (po_Spec pod) = podVolumes cls (names_of L env) @ []" by (simp add: R(7) c no_contribution_def)
  from agent_sees_none [OF this] have agent: "\<not> sees_credentials (po_Spec pod) (agentContainer cls (names_of L env))" .
  have inits: "list_all (\<lambda>c. cn_Name c = Some SidecarContainerName \<or> cn_Name c = Some RestoreContainerName) (ps_InitContainers (po_Spec pod))"
    by (cases "in_Restore i") (simp_all add: R(7) c no_contribution_def sidecarContainer_def restoreContainer_def)
  have "ma_Name (do_Meta sec) = n_SnapshotSecret (names_of L env)" if "ob_SnapshotSecret obs = Some sec" for sec
    using that assms(1) R(1,2)
    by (auto simp: Render_def validateInputs_def renderSnapshotSecret_def object_meta_def Let_def split: sum.splits if_splits option.splits)
  moreover have "n_SnapshotSecret (names_of L env) \<noteq> n_Secret (names_of L env)"
    unfolding ChildNames_def Names.simps by (rule childName_neq) (simp_all add: suffix_defs)
  ultimately have "list_all (\<lambda>n. \<forall>sec. ob_SnapshotSecret obs = Some sec \<longrightarrow> ma_Name (do_Meta sec) \<noteq> n) (cn_EnvFromSecrets (agentContainer cls (names_of L env)))"
    by (auto simp: agentContainer_fields)
  with agent inits containers show ?thesis
    using assms RenderPod_with_snapshot [of L k s t i] Render_with_snapshot [of L k s t i] by auto
qed

theorem snapshot_credentials_confined_witness:
  "case RenderPod engineRegistry ref_render render_inputs of Inl _ \<Rightarrow> False | Inr pod \<Rightarrow>
     RenderPod engineRegistry ref_render (with_snapshot_credentials ''k'' ''s'' ''t'' render_inputs) = Inr pod"
proof -
  obtain pod where pod: "RenderPod engineRegistry ref_render render_inputs = Inr pod" by (rule sample_pod)
  have "validateInputs render_inputs = Inr (render_env, render_class)"
    by (simp add: render_inputs_def validateInputs_def render_env_def)
  moreover have "peer_rules (sortedPeers (ni_Egress (in_Network render_inputs))) = Inr []"
    by (simp add: render_inputs_def zero_Inputs_def sortedPeers_def SliceStable_def)
  ultimately have "\<not> isl (Render ref_render render_inputs)"
    by (simp add: Render_def RenderNetworkPolicy_def renderPVC_def ref_render_def Let_def)
  then obtain obs where "Render ref_render render_inputs = Inr obs" by (cases "Render ref_render render_inputs") auto
  from snapshot_credentials_confined [OF this pod] show ?thesis by (simp add: pod)
qed

subsection \<open>What the environment's identity may do\<close>

text \<open>
  The authoriser's rule: a request is allowed when a rule lists its group, resource and verb and
  either no names or the name of the request. A request to create has no name.
\<close>

definition role_allows :: "Role \<Rightarrow> string \<Rightarrow> string \<Rightarrow> string \<Rightarrow> string \<Rightarrow> bool" where
  "role_allows r grp resource name verb \<longleftrightarrow>
     list_ex (\<lambda>u. grp \<in> set (pu_APIGroups u) \<and> resource \<in> set (pu_Resources u) \<and> verb \<in> set (pu_Verbs u) \<and>
       (pu_ResourceNames u = [] \<or> name \<in> set (pu_ResourceNames u))) (ro_Rules r)"

text \<open>
  The role of an environment allows reading and patching the environment's own object and status
  and nothing else, except that with the Kubernetes-native engine it may also read and update the service
  set of its own name, create service sets and run commands in the pods of the namespace.
\<close>

lemma role_reaches_own_environment:
  "role_allows (renderRole L env cls) grp resource name verb =
     (grp = ''sandbox.psenna.dev'' \<and> name = Name env \<and>
        (resource = ''sandboxenvironments'' \<and> verb = ''get'' \<or>
         resource = ''sandboxenvironments/status'' \<and> (verb = ''get'' \<or> verb = ''patch'')) \<or>
      en_Type (cs_Engine (cl_Spec cls)) = EngineTypeK8sNative \<and>
        (grp = ''sandbox.psenna.dev'' \<and> resource = ''servicesets'' \<and> (name = Name env \<and> (verb = ''get'' \<or> verb = ''update'') \<or> verb = ''create'') \<or>
         grp = [] \<and> resource = ''pods/exec'' \<and> verb = ''create''))"
  by (cases "en_Type (cs_Engine (cl_Spec cls)) = EngineTypeK8sNative") (simp only: role_allows_def renderRole_def Role.simps PolicyRule.simps
      if_True if_False append.simps list_ex_iff bex_simps ex_simps list.set insert_iff empty_iff list.distinct simp_thms, argo)+

end
