(* ===== verification/Spec2Isabelle.thy ===== *)
theory Spec2Isabelle
  imports Lifecycle Scheduler Kube_Api Wait_Probe Env_Store Slot_Scheduler Status_Writer Child_Names
    Observe Probe_Evaluator Reconciler Control_Plane Bolt Agent_Store Op_Registry Template_Store
    Account_Store Schedule_Store Open_Store Docker_Api Fake_Docker Docker_Config Go_Path Image_Tags
    Agent_Env Agent_Steps Agent_Images Agent_Flows Flow_Logic Flow_Safety
    Flow_Properties Flow_Waits Flow_Create Record_Types Go_Json Storage_Path Storage_Records Run_Records Go_FS
    Storage_Archive Archive_Safety Json_Text Storage_Backend Sidecar_Markers Freeze_Job Freeze_Safety Restore_Job
    Restore_Safety Backend_Round_Trip Class_Types Retention_GC Warm_Cache_GC
    Render_Objects Render_Pod Pod_Safety Go_Flags Sidecar_Config Pod_Flags Render_Network
    Network_Peers Render_All
begin

text \<open>
  A verification development for ai-sandbox, which runs coding agents in disposable sandboxes.
  The repository holds two operators in Go. The Kubernetes operator (\<^verbatim>\<open>src/operator\<close>) gives
  every \<^verbatim>\<open>SandboxEnvironment\<close> a pod, freezes it into a snapshot while it waits, wakes it again, and
  archives it; a sidecar in the pod (\<^verbatim>\<open>sandboxctl\<close>) reports the agent's results and takes and
  restores the snapshots; a slot scheduler limits how many environments use compute at once. The Docker operator
  (\<^verbatim>\<open>src/docker-operator\<close>) does the same job on one host with containers and an embedded database.

  \<^bold>\<open>Shared.\<close> \<open>Prelude\<close>: time with Go's saturating subtraction, decimal rendering, substring tests, the
  stable sort proved once for every strict weak order, reachability and the locale of machines
  with an invariant. What the sources use of Go's library has theories of its own: \<open>Go_Path\<close> (\<^verbatim>\<open>path\<close>),
  \<open>Go_FS\<close> (\<^verbatim>\<open>os\<close> on a file system with symbolic links), \<open>Go_Json\<close> (\<^verbatim>\<open>encoding/json\<close> driven by the fields of
  a struct) with \<open>Json_Text\<close>, a reference text format for it, and \<open>Go_Flags\<close> (\<^verbatim>\<open>flag\<close>).

  \<^bold>\<open>The Kubernetes operator: deciding.\<close> One reconcile observes the cluster, computes a decision by a pure
  function of the environment, the facts and the time, runs the decision's actions, and writes
  the new status. The theories follow that path.

  \<^item> \<open>Api_Types\<close>, \<open>Class_Types\<close> (\<^verbatim>\<open>api/v1alpha1\<close>): the environment and the class, specs and status as records,
    closed enums as datatypes, 32-bit counters as words.
  \<^item> \<open>Conditions\<close>, \<open>Facts\<close>, \<open>Builder\<close>, \<open>Timeouts\<close>, \<open>Next\<close>, \<open>Apply\<close> (\<^verbatim>\<open>internal/lifecycle\<close>): one definition
    per function of the package. The condition helpers of apimachinery are the parameter
    \<open>meta_lib\<close> with their documented laws.
  \<^item> \<open>Lifecycle\<close>: what the state machine guarantees. Every decision follows an edge of the
    documented diagram under its guard; the pod goes only when its work is safe; results beat
    timeouts; deadlines are met; the archive detour returns; and the record a status keeps is
    never lost.
  \<^item> \<open>Scheduler\<close> (\<^verbatim>\<open>internal/scheduler/admit.go\<close>): occupancy, the admission order and grants.
  \<^item> \<open>Kube_Api\<close>: the calls on the API server, as the fields of a parameter whose laws are stated
    on the history of stored objects (newest reads, optimistic locking, other writers in
    between; \<open>kube_others\<close> tells the own write from theirs), the contract of retry loops, and a
    reference server that meets all of them.
  \<^item> \<open>Env_Store\<close> (\<^verbatim>\<open>sandboxctl/store.go\<close>), \<open>Slot_Scheduler\<close> (\<^verbatim>\<open>controller/slotscheduler.go\<close>), \<open>Status_Writer\<close>
    (\<^verbatim>\<open>controller/status.go\<close>): the three writers of a status, each proved to be one atomic change of
    the object it read, under the laws of \<open>kube_api\<close> or \<open>kube_others\<close>.
  \<^item> \<open>Wait_Probe\<close> (\<^verbatim>\<open>sandboxctl/probe.go\<close>, \<^verbatim>\<open>lifecycle/probe.go\<close>) and \<open>Probe_Evaluator\<close>
    (\<^verbatim>\<open>controller/probe.go\<close>): which waits are accepted, when they are satisfied, and how often they
    are asked.
  \<^item> \<open>Child_Names\<close> (\<^verbatim>\<open>render/names.go\<close>), \<open>Observe\<close> (\<^verbatim>\<open>controller/observe.go\<close>, \<^verbatim>\<open>podstatus.go\<close> and the
    observers of \<^verbatim>\<open>pod.go\<close>, \<^verbatim>\<open>freeze.go\<close>, \<^verbatim>\<open>restore.go\<close>): from replies of the API to the facts.
  \<^item> \<open>Reconciler\<close> (\<^verbatim>\<open>controller/sandboxenvironment_controller.go\<close>, \<^verbatim>\<open>actions.go\<close>, \<^verbatim>\<open>archive.go\<close>): one
    reconcile end to end, and deletion.
  \<^item> \<open>Control_Plane\<close>: all writers together. A step relation interleaves decisions, their delayed
    writes, sidecar reports, grants, user edits and deletion in any order; its invariant is
    proved by rule induction, and with it that a finished run is never run again. It also
    records two behaviours that contradict the documentation.

  \<^bold>\<open>The Kubernetes operator: rendering.\<close> What the operator asks the cluster for.

  \<^item> \<open>Render_Objects\<close>, \<open>Render_Pod\<close>, \<open>Render_Network\<close>, \<open>Render_All\<close> (\<^verbatim>\<open>internal/render\<close>): every object field by
    field. An engine is a record with a contribution, and the registry of engines an argument.
  \<^item> \<open>Pod_Safety\<close>: whatever an engine contributes, the agent's container keeps its user, its dropped
    capabilities and its three volumes, and gets at most the mounts and variables contributed for it;
    a relaxation changes exactly the container it names.
  \<^item> \<open>Sidecar_Config\<close> (\<^verbatim>\<open>sandboxctl/config.go\<close>, \<^verbatim>\<open>snapshotconfig.go\<close>, \<^verbatim>\<open>restoreconfig.go\<close>) and \<open>Pod_Flags\<close>: the sidecar reads from
    the rendered arguments exactly the settings of the class and the plan, and accepts them;
    the agent starts only after the planned restore.
  \<^item> \<open>Network_Peers\<close> (\<^verbatim>\<open>controller/network.go\<close>): with the documented meaning of a network policy, what a
    restricted environment may reach and who may reach it, exactly. \<open>Render_All\<close> shows that the
    credentials of the snapshot store influence one object only, and what the role allows.

  \<^bold>\<open>The Kubernetes operator: snapshots.\<close> Where the work of an agent is kept.

  \<^item> \<open>Storage_Path\<close>, \<open>Storage_Records\<close>, \<open>Run_Records\<close> (\<^verbatim>\<open>internal/storage\<close>: \<^verbatim>\<open>path.go\<close>, \<^verbatim>\<open>errors.go\<close>, \<^verbatim>\<open>manifest.go\<close>, \<^verbatim>\<open>verify.go\<close>,
    \<^verbatim>\<open>runrecord.go\<close>, and \<^verbatim>\<open>assembleRunRecord\<close> of \<^verbatim>\<open>sandboxctl/archive.go\<close>): keys that separate environments, and records
    that are read back as written.
  \<^item> \<open>Storage_Archive\<close>, \<open>Archive_Safety\<close> (\<^verbatim>\<open>archive.go\<close>, \<^verbatim>\<open>exclusions.go\<close>): a tree comes back as it was, or is
    refused; a restore stays inside its root.
  \<^item> \<open>Storage_Backend\<close>, \<open>Backend_Round_Trip\<close> (\<^verbatim>\<open>backend.go\<close>): the backend's promises as a locale, and the
    archive, the codec, the backend and the verified download composed.
  \<^item> \<open>Sidecar_Markers\<close>, \<open>Freeze_Job\<close>, \<open>Freeze_Safety\<close>, \<open>Restore_Job\<close>, \<open>Restore_Safety\<close> (\<^verbatim>\<open>sandboxctl/snapshot.go\<close>, \<^verbatim>\<open>restore.go\<close>,
    \<^verbatim>\<open>retrystep.go\<close> and the markers): whatever fails during a freeze, the pointer to the latest snapshot names a
    complete one; a restore that reports success used a manifest that reads back and files that
    verified, or a warm workspace its marker vouches for.
  \<^item> \<open>Retention_GC\<close>, \<open>Warm_Cache_GC\<close> (\<^verbatim>\<open>controller/retentiongc.go\<close>, \<^verbatim>\<open>warmcachegc.go\<close>): what a pass may delete.

  \<^bold>\<open>The Docker operator.\<close> Its records live in a bbolt database, its agents in containers.

  \<^item> \<open>Bolt\<close>: the database and the JSON encoding as parameters with their laws (\<open>bolt_api\<close>,
    \<open>json_codec\<close>), the transactions of \<^verbatim>\<open>internal/store\<close>, the steps its record stores share, and a
    reference database built on search trees.
  \<^item> \<open>Agent_Store\<close>, \<open>Template_Store\<close>, \<open>Account_Store\<close>, \<open>Schedule_Store\<close>, \<open>Open_Store\<close> (\<^verbatim>\<open>internal/store\<close>): the cap on live
    agents, unique names, deletes that orphan nothing, the default account and the migration
    that introduced accounts, over every history of calls.
  \<^item> \<open>Op_Registry\<close> (\<^verbatim>\<open>agent/inflight.go\<close>, \<^verbatim>\<open>stopresume.go\<close>, \<^verbatim>\<open>reconcile.go\<close>): operations in flight as a
    multiset of holders, stopping an agent, and how resuming one can exceed the cap.
  \<^item> \<open>Docker_Api\<close> (\<^verbatim>\<open>dockerclient/client.go\<close>): the client interface and its promises as a locale; \<open>Fake_Docker\<close>
    (\<^verbatim>\<open>dockerclienttest/fake.go\<close>): the in-memory daemon of the repository, which keeps them.
  \<^item> \<open>Docker_Config\<close> (\<^verbatim>\<open>internal/config\<close>), \<open>Image_Tags\<close>, \<open>Agent_Images\<close> (\<^verbatim>\<open>agent/agentimage.go\<close>), \<open>Agent_Env\<close>, \<open>Agent_Steps\<close>,
    \<open>Agent_Flows\<close> (\<^verbatim>\<open>internal/agent\<close>): the operations on an agent, whole, in a state monad over the registry,
    the database and the daemon.
  \<^item> \<open>Flow_Logic\<close>: a calculus for that monad. \<open>Flow_Safety\<close>, \<open>Flow_Properties\<close>, \<open>Flow_Create\<close>, \<open>Record_Types\<close>: a flow touches
    one agent only; creation is all or nothing up to a record marked as unfinished; a deletion is
    complete or can be tried again; updates keep the agent's work; records stay well typed.
    \<open>Flow_Waits\<close>: the loops that wait end.

  \<^bold>\<open>State and effects.\<close> A Go struct is a record and a pointer that may be nil an option. Times and
  durations are integers of nanoseconds; the freeze and wake counters are 32-bit words, so
  their wrap-around is visible. Errors are values. Code outside the repository is a
  parameter: the server's state is a type variable \<open>'w\<close>, the database's \<open>'d\<close>, and each call
  returns its reply with the state after it. The locales state what the code relies on, and
  every property names the locale it needs as a hypothesis, with a witness on a reference
  implementation.

  \<^bold>\<open>Bounds and fuel.\<close> The retry loops recurse over their list or number of attempts: the three delays of
  the sidecar's store, the configured retries of a freeze or restore step, and the attempts of
  \<open>ref_retry\<close> as in client-go's default backoff. The waits of the Docker operator run on fuel computed from
  timeout and interval, and \<open>Flow_Waits\<close> shows it to be enough. Resolving a path follows at most forty
  links, as Linux does. The scanner of \<open>Json_Text\<close> has the length of its text as fuel. Everything else
  terminates by structure.

  \<^bold>\<open>Idealisations.\<close> Times keep their nanoseconds where Kubernetes stores whole seconds. The file system has no umask.
  The flows of the Docker operator are proved for agent records whose texts are valid
  UTF-8, so that JSON keeps them. In \<open>Control_Plane\<close> a decision reads the server's object, and may be
  written any number of steps later; \<open>Status_Writer\<close> has the cache, which may return any older state. \<open>fake_clock\<close> is
  an instance of the clock's laws for the witnesses, not code of the repository.

  \<^bold>\<open>Not modelled.\<close> The service set controller, the network enforcement probe and the conditions built on it,
  the server-side apply of rendered objects, the S3 and file system backends, the HTTP servers
  and their request limits, the poller of the sidecar, its archive job apart from the run record, the adapter to the Docker
  daemon, the registry and file clients, login sessions, the web interface and terminal bridge, and command
  line wiring: they are input and output around the modelled parts, or delegate to them. Generated deep copies are left out. Logging,
  metrics and events are left out everywhere, and most values that error messages quote.
\<close>

end
